(* ===== verification/Prelude.thy ===== *)
theory Prelude
  imports Main "HOL-Library.Word"
begin

text \<open>
  Shared vocabulary of the development: byte strings, the fixed-width unsigned and signed
  readings of C++ integers, the two shapes of fallible code (a value or an exception; a state
  transformer that may throw), \<open>std::string::substr\<close>, and the cutting of a byte string into
  chunks of one size together with the lemmas every file component uses about it.
\<close>

named_theorems width_simps \<open>removing the explicit wrap-around of a value that fits its width\<close>

named_theorems op_simps \<open>unfolding of sequenced fallible operations\<close>

subsection \<open>Bytes and machine integers\<close>

type_synonym byte = "8 word"

type_synonym bytes = "byte list"

text \<open>
  Unsigned C++ values are naturals; every arithmetic operation of the source on a
  \<open>uint64_t\<close> or \<open>uint32_t\<close> is wrapped by \<open>u64\<close> or \<open>u32\<close>. Signed 64-bit values are
  integers, wrapped by \<open>s64\<close>; \<open>u64_of_int\<close> is the conversion of a signed value to
  \<open>uint64_t\<close>.
\<close>

definition u64 :: "nat \<Rightarrow> nat" where
  "u64 n = n mod 2 ^ 64"

definition u32 :: "nat \<Rightarrow> nat" where
  "u32 n = n mod 2 ^ 32"

definition u64_of_int :: "int \<Rightarrow> nat" where
  "u64_of_int i = nat (i mod 2 ^ 64)"

definition usub64 :: "nat \<Rightarrow> nat \<Rightarrow> nat" where
  "usub64 a b = u64_of_int (int a - int b)"

definition s64 :: "int \<Rightarrow> int" where
  "s64 i = (i + 2 ^ 63) mod 2 ^ 64 - 2 ^ 63"

lemma u64_id [width_simps]: "n < 2 ^ 64 \<Longrightarrow> u64 n = n"
  by (simp add: u64_def)

lemma u32_id [width_simps]: "n < 2 ^ 32 \<Longrightarrow> u32 n = n"
  by (simp add: u32_def)

lemma u64_less: "u64 n < 2 ^ 64"
  by (simp add: u64_def)

lemma u64_le: "u64 n \<le> n"
  by (simp add: u64_def)

lemma s64_id [width_simps]: "- (2 ^ 63) \<le> i \<Longrightarrow> i < 2 ^ 63 \<Longrightarrow> s64 i = i"
  by (simp add: s64_def)

lemma s64_of_nat [width_simps]: "n < 2 ^ 63 \<Longrightarrow> s64 (int n) = int n"
proof -
  assume "n < 2 ^ 63"
  then have "int n < int (2 ^ 63)" by (simp only: of_nat_less_iff)
  then show ?thesis by (intro s64_id) simp_all
qed

lemma u64_of_int_of_nat [width_simps]: "n < 2 ^ 64 \<Longrightarrow> u64_of_int (int n) = n"
proof -
  assume "n < 2 ^ 64"
  then have "int n < int (2 ^ 64)" by (simp only: of_nat_less_iff)
  then show ?thesis by (simp add: u64_of_int_def)
qed

lemma u64_of_int_id [width_simps]: "0 \<le> i \<Longrightarrow> i < 2 ^ 64 \<Longrightarrow> u64_of_int i = nat i"
  by (simp add: u64_of_int_def)

lemma usub64_id [width_simps]:
  assumes "b \<le> a" and "a < 2 ^ 64"
  shows "usub64 a b = a - b"
proof -
  have "int a < 2 ^ 64" using assms(2) by simp
  then have "(int a - int b) mod 2 ^ 64 = int a - int b"
    using assms(1) by (intro mod_pos_pos_trivial) auto
  then show ?thesis
    using assms(1) unfolding usub64_def u64_of_int_def by (simp only: nat_diff_distrib' nat_int)
qed

subsection \<open>Values that may be exceptions\<close>

type_synonym ('e, 'a) result = "'e + 'a"

definition bindR :: "('e, 'a) result \<Rightarrow> ('a \<Rightarrow> ('e, 'b) result) \<Rightarrow> ('e, 'b) result" where
  "bindR r f = (case r of Inl e \<Rightarrow> Inl e | Inr x \<Rightarrow> f x)"

lemma bindR_Inl [simp, op_simps]: "bindR (Inl e) f = Inl e"
  by (simp add: bindR_def)

lemma bindR_Inr [simp, op_simps]: "bindR (Inr x) f = f x"
  by (simp add: bindR_def)

lemma bindR_eq_Inr: "bindR r f = Inr y \<longleftrightarrow> (\<exists>x. r = Inr x \<and> f x = Inr y)"
  by (cases r) simp_all

lemma bindR_eq_Inl:
  "bindR r f = Inl e \<longleftrightarrow> r = Inl e \<or> (\<exists>x. r = Inr x \<and> f x = Inl e)"
  by (cases r) auto

subsection \<open>State transformers that may throw\<close>

text \<open>
  A C++ member function that throws keeps the assignments it made before the throw, so an
  operation returns its final state together with either an exception or a value.
\<close>

type_synonym ('e, 's, 'a) op = "'s \<Rightarrow> ('e, 'a) result \<times> 's"

definition ret :: "'a \<Rightarrow> ('e, 's, 'a) op" where
  "ret x s = (Inr x, s)"

definition throw :: "'e \<Rightarrow> ('e, 's, 'a) op" where
  "throw e s = (Inl e, s)"

definition bindS :: "('e, 's, 'a) op \<Rightarrow> ('a \<Rightarrow> ('e, 's, 'b) op) \<Rightarrow> ('e, 's, 'b) op" where
  "bindS m f s = (case m s of (Inl e, s') \<Rightarrow> (Inl e, s') | (Inr x, s') \<Rightarrow> f x s')"

definition liftR :: "('e, 'a) result \<Rightarrow> ('e, 's, 'a) op" where
  "liftR r s = (r, s)"

text \<open>The exception a guard of the source raises, and a loop over a list of work items.\<close>

definition throw_if :: "bool \<Rightarrow> 'e \<Rightarrow> ('e, 's, unit) op" where
  "throw_if b e s = (if b then (Inl e, s) else (Inr (), s))"

primrec for_each :: "('a \<Rightarrow> ('e, 's, unit) op) \<Rightarrow> 'a list \<Rightarrow> ('e, 's, unit) op" where
  "for_each f [] = ret ()"
| "for_each f (x # xs) = bindS (f x) (\<lambda>_. for_each f xs)"

lemma ret_apply [simp, op_simps]: "ret x s = (Inr x, s)"
  by (simp add: ret_def)

lemma throw_apply [simp, op_simps]: "throw e s = (Inl e, s)"
  by (simp add: throw_def)

lemma liftR_apply [simp, op_simps]: "liftR r s = (r, s)"
  by (simp add: liftR_def)

lemma throw_if_True [simp, op_simps]: "throw_if True e s = (Inl e, s)"
  by (simp add: throw_if_def)

lemma throw_if_False [simp, op_simps]: "throw_if False e s = (Inr (), s)"
  by (simp add: throw_if_def)

lemma bindS_Inr [op_simps]: "m s = (Inr x, s') \<Longrightarrow> bindS m f s = f x s'"
  by (simp add: bindS_def)

lemma bindS_Inl [op_simps]: "m s = (Inl e, s') \<Longrightarrow> bindS m f s = (Inl e, s')"
  by (simp add: bindS_def)

lemma bindS_eq_Inr:
  "bindS m f s = (Inr y, t) \<longleftrightarrow> (\<exists>x s'. m s = (Inr x, s') \<and> f x s' = (Inr y, t))"
  by (auto simp: bindS_def split: prod.splits sum.splits)

lemma bindS_ret [simp]: "bindS (ret x) f = f x"
  by (simp add: bindS_def fun_eq_iff)

lemma bindS_throw [simp]: "bindS (throw e) f = throw e"
  by (simp add: bindS_def throw_def fun_eq_iff)

lemma for_each_append:
  "for_each f (xs @ ys) = bindS (for_each f xs) (\<lambda>_. for_each f ys)"
  by (induction xs) (auto simp: bindS_def fun_eq_iff split: prod.splits sum.splits)

lemma for_each_map: "for_each f (map g xs) = for_each (\<lambda>x. f (g x)) xs"
  by (induction xs) simp_all

text \<open>
  What a loop keeps: an invariant of every iteration, kept on the throwing exit too, is an
  invariant of the loop.
\<close>

lemma for_each_invariant:
  assumes "P s" and "\<And>x s. P s \<Longrightarrow> x \<in> set xs \<Longrightarrow> P (snd (f x s))"
  shows "P (snd (for_each f xs s))"
  using assms
proof (induction xs arbitrary: s)
  case Nil
  then show ?case by simp
next
  case (Cons x xs)
  obtain r s' where fx: "f x s = (r, s')" by fastforce
  then have "P s'" using Cons.prems by (metis list.set_intros(1) snd_conv)
  with Cons have "P (snd (for_each f xs s'))" by simp
  with fx \<open>P s'\<close> show ?case by (cases r) (simp_all add: bindS_def)
qed

subsection \<open>Substrings\<close>

text \<open>
  \<open>std::string::substr(pos, n)\<close> raises \<open>std::out_of_range\<close> exactly when \<open>pos\<close> exceeds
  the size, and otherwise returns the at most \<open>n\<close> bytes from \<open>pos\<close>; \<open>substr1\<close> is the
  call with the default \<open>n\<close> (up to the end).
\<close>

definition substr :: "'e \<Rightarrow> 'a list \<Rightarrow> nat \<Rightarrow> nat \<Rightarrow> ('e, 'a list) result" where
  "substr e xs pos n = (if length xs < pos then Inl e else Inr (take n (drop pos xs)))"

definition substr1 :: "'e \<Rightarrow> 'a list \<Rightarrow> nat \<Rightarrow> ('e, 'a list) result" where
  "substr1 e xs pos = (if length xs < pos then Inl e else Inr (drop pos xs))"

lemma substr_ok [simp]: "pos \<le> length xs \<Longrightarrow> substr e xs pos n = Inr (take n (drop pos xs))"
  by (simp add: substr_def)

lemma substr1_ok [simp]: "pos \<le> length xs \<Longrightarrow> substr1 e xs pos = Inr (drop pos xs)"
  by (simp add: substr1_def)

lemma substr_out [simp]: "length xs < pos \<Longrightarrow> substr e xs pos n = Inl e"
  by (simp add: substr_def)

lemma substr1_out [simp]: "length xs < pos \<Longrightarrow> substr1 e xs pos = Inl e"
  by (simp add: substr1_def)

subsection \<open>Cutting into chunks\<close>

text \<open>
  \<open>chunks n xs\<close> are the consecutive pieces of \<open>n\<close> elements of \<open>xs\<close>, the last one
  possibly shorter: the reference view of a file that is stored in chunks.
\<close>

function chunks :: "nat \<Rightarrow> 'a list \<Rightarrow> 'a list list" where
  "chunks n xs = (if n = 0 \<or> xs = [] then [] else take n xs # chunks n (drop n xs))"
  by pat_completeness auto
termination
  by (relation "measure (length \<circ> snd)") auto

declare chunks.simps [simp del]

lemma chunks_Nil [simp]: "chunks n [] = []"
  by (subst chunks.simps) simp

lemma chunks_rec: "0 < n \<Longrightarrow> xs \<noteq> [] \<Longrightarrow> chunks n xs = take n xs # chunks n (drop n xs)"
  by (subst chunks.simps) simp

lemma chunks_short: "0 < n \<Longrightarrow> xs \<noteq> [] \<Longrightarrow> length xs \<le> n \<Longrightarrow> chunks n xs = [xs]"
  by (simp add: chunks_rec)

lemma chunks_append: "0 < n \<Longrightarrow> length xs = n \<Longrightarrow> chunks n (xs @ ys) = xs # chunks n ys"
  by (subst chunks.simps) auto

lemma concat_chunks [simp]: "0 < n \<Longrightarrow> concat (chunks n xs) = xs"
proof (induction n xs rule: chunks.induct)
  case (1 n xs)
  then show ?case by (cases "xs = []") (simp_all add: chunks_rec)
qed

lemma div_add_self2': "0 < n \<Longrightarrow> (m + n) div n = Suc (m div n)" for m n :: nat
  by (simp add: div_add_self2)

lemma length_chunks: "0 < n \<Longrightarrow> length (chunks n xs) = (length xs + n - 1) div n"
proof (induction n xs rule: chunks.induct)
  case (1 n xs)
  show ?case
  proof (cases "xs = []")
    case True
    with "1.prems" show ?thesis by simp
  next
    case False
    show ?thesis
    proof (cases "length xs \<le> n")
      case True
      have "(length xs + n - 1) div n = ((length xs - 1) + n) div n"
        using False by (simp add: Suc_leI)
      also have "\<dots> = 1" using True False "1.prems" by (simp add: div_if)
      finally show ?thesis using True False "1.prems" by (simp add: chunks_short)
    next
      case long: False
      have "length xs + n - 1 = (length (drop n xs) + n - 1) + n" using long "1.prems" by simp
      also have "\<dots> div n = Suc ((length (drop n xs) + n - 1) div n)"
        using "1.prems" by (rule div_add_self2')
      finally have "(length xs + n - 1) div n = Suc ((length (drop n xs) + n - 1) div n)" .
      with "1.IH" "1.prems" False show ?thesis by (simp add: chunks_rec)
    qed
  qed
qed

lemma nth_chunks:
  "0 < n \<Longrightarrow> i < length (chunks n xs) \<Longrightarrow> chunks n xs ! i = take n (drop (i * n) xs)"
proof (induction i arbitrary: xs)
  case 0
  then show ?case by (cases "xs = []") (simp_all add: chunks_rec)
next
  case (Suc i)
  then have "xs \<noteq> []" by auto
  with Suc show ?case by (simp add: chunks_rec add.commute)
qed

lemma chunks_index_less: "0 < n \<Longrightarrow> i * n < length xs \<Longrightarrow> i < length (chunks n xs)"
proof -
  assume n: "0 < n" and i: "i * n < length xs"
  have "Suc i * n \<le> length xs + n - 1" using n i by simp
  then have "Suc i \<le> (length xs + n - 1) div n"
    using n by (simp add: less_eq_div_iff_mult_less_eq)
  with n show ?thesis by (simp add: length_chunks)
qed

lemma chunks_index_bound: "0 < n \<Longrightarrow> i < length (chunks n xs) \<Longrightarrow> i * n < length xs"
proof (induction i arbitrary: xs)
  case 0
  then show ?case by (cases xs) auto
next
  case (Suc i)
  then have "xs \<noteq> []" by auto
  with Suc have "i < length (chunks n (drop n xs))" by (simp add: chunks_rec)
  with Suc have "i * n < length (drop n xs)" by blast
  then show ?case by simp
qed

lemma chunks_nonempty_elem: "0 < n \<Longrightarrow> c \<in> set (chunks n xs) \<Longrightarrow> c \<noteq> [] \<and> length c \<le> n"
proof (induction n xs rule: chunks.induct)
  case (1 n xs)
  then show ?case by (cases "xs = []") (auto simp: chunks_rec)
qed

lemma concat_take_chunks: "0 < n \<Longrightarrow> concat (take k (chunks n xs)) = take (k * n) xs"
proof (induction k arbitrary: xs)
  case 0
  then show ?case by simp
next
  case (Suc k)
  then show ?case by (cases "xs = []") (simp_all add: chunks_rec take_add)
qed

lemma drop_chunks: "0 < n \<Longrightarrow> drop k (chunks n xs) = chunks n (drop (k * n) xs)"
proof (induction k arbitrary: xs)
  case 0
  then show ?case by simp
next
  case (Suc k)
  then show ?case by (cases "xs = []") (simp_all add: chunks_rec add.commute)
qed

subsection \<open>Concatenations of pieces of one size\<close>

lemma length_concat_equal: "\<forall>x \<in> set xss. length x = n \<Longrightarrow> length (concat xss) = length xss * n"
  by (induction xss) auto

lemma take_concat_equal:
  "\<forall>x \<in> set xss. length x = n \<Longrightarrow> take (i * n) (concat xss) = concat (take i xss)"
proof (induction xss arbitrary: i)
  case Nil
  then show ?case by simp
next
  case (Cons x xss)
  then show ?case by (cases i) simp_all
qed

lemma drop_concat_equal:
  "\<forall>x \<in> set xss. length x = n \<Longrightarrow> drop (i * n) (concat xss) = concat (drop i xss)"
proof (induction xss arbitrary: i)
  case Nil
  then show ?case by simp
next
  case (Cons x xss)
  then show ?case by (cases i) simp_all
qed

lemma chunks_concat:
  "0 < n \<Longrightarrow> \<forall>x \<in> set xss. length x = n \<Longrightarrow> chunks n (concat xss) = xss"
  by (induction xss) (simp_all add: chunks_append)

lemma chunks_all_full:
  assumes "0 < n" and "length xs = k * n"
  shows "length (chunks n xs) = k" and "\<forall>c \<in> set (chunks n xs). length c = n"
proof -
  have "length xs + n - 1 = (n - 1) + k * n" using assms by simp
  also have "((n - 1) + k * n) div n = k + (n - 1) div n" using assms(1) by (intro div_mult_self1) simp
  also have "\<dots> = k" using assms(1) by simp
  finally have "(length xs + n - 1) div n = k" .
  then show len: "length (chunks n xs) = k" using assms(1) by (simp add: length_chunks)
  show "\<forall>c \<in> set (chunks n xs). length c = n"
  proof
    fix c assume "c \<in> set (chunks n xs)"
    then obtain i where i: "i < k" and c: "c = chunks n xs ! i"
      using len by (metis in_set_conv_nth)
    have "Suc i * n \<le> length xs" unfolding assms(2) using i by (intro mult_le_mono1) simp
    then show "length c = n" using c i len assms(1) by (simp add: nth_chunks)
  qed
qed

lemma list_update_overwrite: "i < length xs \<Longrightarrow> xs[i := x] = take i xs @ x # drop (Suc i) xs"
  by (rule upd_conv_take_nth_drop)

subsection \<open>Overwriting a segment\<close>

text \<open>
  \<open>overwrite pos d t xs\<close> is \<open>xs\<close> with \<open>d\<close> written at \<open>pos\<close>, and cut after it when \<open>t\<close> is set: the
  reference for every write into a file or a list of digests.
\<close>

definition overwrite :: "nat \<Rightarrow> 'a list \<Rightarrow> bool \<Rightarrow> 'a list \<Rightarrow> 'a list" where
  "overwrite pos d t xs = take pos xs @ d @ (if t then [] else drop (pos + length d) xs)"

lemma length_overwrite:
  "pos \<le> length xs \<Longrightarrow>
     length (overwrite pos d t xs) = (if t then pos + length d else max (length xs) (pos + length d))"
  by (auto simp: overwrite_def)

lemma overwrite_overwrite:
  assumes "pos \<le> length xs"
  shows "overwrite (pos + length d) d' t (overwrite pos d False xs) = overwrite pos (d @ d') t xs"
  using assms by (simp add: overwrite_def ac_simps)

lemma overwrite_same_prefix: "pos \<le> length xs \<Longrightarrow> take pos (overwrite pos d t xs) = take pos xs"
  by (simp add: overwrite_def)

lemma drop_overwrite_after:
  assumes "pos \<le> length xs" and "pos + length d \<le> m"
  shows "drop m (overwrite pos d False xs) = drop m xs"
proof -
  have "drop m (overwrite pos d False xs) = drop (m - (pos + length d)) (drop (pos + length d) xs)"
    using assms by (simp add: overwrite_def)
  also have "\<dots> = drop m xs" using assms(2) by simp
  finally show ?thesis .
qed

lemma drop_overwrite_before:
  assumes "m \<le> pos" and "pos \<le> length xs"
  shows "drop m (overwrite pos d t xs) = overwrite (pos - m) d t (drop m xs)"
  using assms by (simp add: overwrite_def drop_take)

lemma take_overwrite:
  assumes "pos + length d \<le> n" and "pos \<le> length xs"
  shows "take n (overwrite pos d t xs) = overwrite pos d t (take n xs)"
proof -
  have "take n (take pos xs) = take pos (take n xs)" using assms(1) by (simp add: min_absorb1 min_absorb2)
  moreover have "take (n - pos - length d) (drop (pos + length d) xs) = drop (pos + length d) (take n xs)"
    using assms(1) by (simp add: drop_take)
  moreover have "take (n - pos) d = d" using assms(1) by simp
  moreover have "take n (overwrite pos d t xs)
      = take n (take pos xs) @ take (n - pos) d @ (if t then [] else take (n - pos - length d) (drop (pos + length d) xs))"
    using assms by (simp add: overwrite_def min_absorb2)
  ultimately show ?thesis by (simp add: overwrite_def)
qed

end
