(* ===== verification/Errors.thy ===== *)
theory Errors
  imports Prelude
begin

text \<open>
  The exceptions of the endpoint: the classes the headers \<open>CoreException.hpp\<close>,
  \<open>StoreException.hpp\<close>, \<open>ThreadException.hpp\<close>, \<open>KvdbException.hpp\<close>, \<open>InboxException.hpp\<close> and
  \<open>EventException.hpp\<close> declare, one constructor per class, with the code each class
  passes to its base; the library exception \<open>PrivmxException\<close>; and
  \<open>ExceptionConverter\<close>, which turns a library exception into an endpoint exception.
  Message texts and descriptions are left out: no code branches on them, but for the one
  comparison of \<open>ExceptionConverter::rethrowAsCoreException\<close> with the text
  \<open>User doesn't exist\<close>, which is kept.
\<close>

unbundle bit_operations_syntax

subsection \<open>Exception classes\<close>

text \<open>
  A class name that several namespaces use carries its namespace as a prefix where this is needed
  to tell the classes apart.
\<close>

datatype (plugins only: code size) CoreException =
    NoUserEntryForGivenKeyIdException
  | InvalidParamsException
  | InvalidNumberOfParamsException
  | UnsupportedTypeException
  | NoHandleFoundException
  | InvalidDataSignatureException
  | UnsupportedSerializerBinaryFormatException
  | core_NotImplementedException
  | InvalidMethodException
  | InvalidArgumentTypeException
  | InvalidBackendRequestModeException
  | UserVerificationFailureException
  | UserVerificationMethodUnhandledException
  | MalformedEncryptionKeyException
  | UnknownEncryptionKeyVersionException
  | EncryptionKeyContainerValidationException
  | DataIntegrityObjectDuplicatedException
  | MalformedDataIntegrityObjectException
  | InvalidDataIntegrityObjectChecksumException
  | DataIntegrityObjectMismatchEncKeyException
  | DataIntegrityObjectInvalidSignatureException
  | KeyProviderRequestCompletedException
  | MalformedVerifierResponseException
  | UnknownModuleEncryptionKeyException
  | ModulePublicDataMismatchException
  | InvalidEncryptedModuleDataVersionException
  | UnknownModuleFormatException
  | core_InvalidSubscriptionQueryException
  | InvalidSingletonsHolderStateException
  | MissingBridgeIdentityException

datatype (plugins only: code size) ConnectionException =
    connection_NotInitializedException
  | CannotExtractLibPlatformDisconnectedEventException
  | CannotExtractLibConnectedEventException
  | CannotExtractLibDisconnectedEventException
  | DataBiggerThanDeclaredException
  | DataSmallerThanDeclaredException
  | DataDifferentThanDeclaredException
  | CannotExtractLibBreakEventException
  | ServerVersionMismatchException
  | CannotExtractCollectionChangedEventException
  | CannotExtractContextUserAddedEventException
  | CannotExtractContextUserRemovedEventException
  | CannotExtractContextUsersStatusChangedEventException
  | NotConnectedException
  | SessionExpiredException

datatype (plugins only: code size) StoreException =
    store_NotInitializedException
  | CannotExtractStoreCreatedEventException
  | CannotExtractStoreUpdatedEventException
  | CannotExtractStoreStatsChangedEventException
  | CannotExtractStoreFileCreatedEventException
  | CannotExtractStoreFileUpdatedEventException
  | CannotExtractStoreFileDeletedEventException
  | CannotExtractStoreDeletedEventException
  | UnsupportedCipherTypeException
  | FileInvalidChecksumException
  | FileChunkInvalidChecksumException
  | FileChunkInvalidCipherChecksumException
  | InvalidFileChunkSizeException
  | InvalidFileReadHandleException
  | InvalidFileWriteHandleException
  | InvalidFileHandleException
  | IncorrectKeyIdFormatException
  | FileVersionMismatchHandleClosedException
  | PosOutOfBoundsException
  | FileCorruptedException
  | NumberToBigForCPUArchitectureException
  | AlreadySubscribedException
  | NotSubscribedException
  | InvalidEncryptedStoreFileMetaVersionException
  | InvalidEncryptedStoreDataVersionException
  | store_NotImplementedException
  | UnknowStoreFormatException
  | UnknowFileFormatException
  | FileFetchFailedException
  | FileVersionMismatchException
  | StorePublicDataMismatchException
  | FilePublicDataMismatchException
  | WritingToFileInteruptedWrittenDataSmallerThenDeclaredException
  | FileDecryptionFailedException
  | StoreEncryptionKeyValidationException
  | StoreDataIntegrityException
  | FileDataIntegrityException
  | InvalidHashSizeException
  | HashIndexOutOfBoundsException
  | InvalidFileTopHashException
  | FileSyncFailedHandleCloseException
  | FileRandomWriteInternalException
  | store_InvalidSubscriptionQueryException

datatype (plugins only: code size) ThreadException =
    thread_NotInitializedException
  | CannotExtractThreadCreatedEventException
  | CannotExtractThreadUpdatedEventException
  | CannotExtractThreadNewMessageEventException
  | CannotExtractThreadDeletedEventException
  | CannotExtractThreadDeletedMessageEventException
  | thread_IncorrectKeyIdFormatException
  | CannotExtractThreadStatsEventException
  | thread_AlreadySubscribedException
  | thread_NotSubscribedException
  | InvalidEncryptedThreadDataVersionException
  | InvalidEncryptedMessageDataVersionException
  | UnknowThreadFormatException
  | UnknowMessageFormatException
  | CannotExtractThreadMessageUpdatedEventException
  | ThreadPublicDataMismatchException
  | MessagePublicDataMismatchException
  | ThreadDataIntegrityException
  | MessageDataIntegrityException
  | ThreadEncryptionKeyValidationException
  | thread_NotImplementedException
  | thread_InvalidSubscriptionQueryException

datatype (plugins only: code size) KvdbException =
    kvdb_NotInitializedException
  | CannotExtractKvdbCreatedEventException
  | CannotExtractKvdbUpdatedEventException
  | CannotExtractKvdbDeletedEventException
  | CannotExtractKvdbStatsEventException
  | CannotExtractKvdbNewEntryEventException
  | CannotExtractKvdbEntryUpdatedEventException
  | CannotExtractKvdbDeletedEntryEventException
  | KvdbPublicDataMismatchException
  | InvalidEncryptedKvdbDataVersionException
  | KvdbEntryPublicDataMismatchException
  | InvalidEncryptedKvdbEntryDataVersionException
  | KvdbEncryptionKeyValidationException
  | kvdb_AlreadySubscribedException
  | kvdb_NotSubscribedException
  | UnknownKvdbFormatException
  | UnknownKvdbEntryFormatException
  | KvdbDataIntegrityException
  | KvdbEntryDataIntegrityException
  | kvdb_NotImplementedException
  | kvdb_InvalidSubscriptionQueryException

datatype (plugins only: code size) InboxException =
    inbox_NotInitializedException
  | UnknownInboxHandleException
  | InboxHandleIsNotTiedToInboxFileHandleException
  | CannotExtractInboxCreatedEventException
  | CannotExtractInboxUpdatedEventException
  | CannotExtractInboxDeletedEventException
  | inbox_IncorrectKeyIdFormatException
  | FailedToDecryptFileMetaException
  | FailedToExtractMessagePublicMetaException
  | inbox_FileVersionMismatchHandleClosedException
  | inbox_PosOutOfBoundsException
  | inbox_NumberToBigForCPUArchitectureException
  | inbox_AlreadySubscribedException
  | inbox_NotSubscribedException
  | InvalidEncryptedInboxDataVersionException
  | CannotExtractInboxEntryCreatedEventException
  | CannotExtractInboxEntryDeletedException
  | inbox_FileFetchFailedException
  | InboxPublicDataMismatchException
  | WritingToEntryInteruptedWrittenDataSmallerThenDeclaredException
  | HandleIsUsedInInboxHandleException
  | inbox_InvalidFileReadHandleException
  | inbox_InvalidFileWriteHandleException
  | UnknownInboxFormatException
  | InboxDataIntegrityException
  | InboxEncryptionKeyValidationException
  | inbox_NotImplementedException
  | inbox_InvalidSubscriptionQueryException
  | InboxModuleDoesNotSupportQueriesYetException

datatype (plugins only: code size) EventException =
    event_NotInitializedException
  | ForbiddenChannelNameException
  | CannotExtractContextCustomEvent
  | event_NotSubscribedException
  | event_AlreadySubscribedException
  | InvalidEncryptedEventDataVersionException
  | event_InvalidSubscriptionQueryException

datatype PrivmxType = LIBRARY | RPC | ALERT

record PrivmxException =
  pe_msg :: string
  pe_type :: PrivmxType
  pe_code :: int

datatype exn =
    CoreExn CoreException
  | ConnectionExn ConnectionException
  | StoreExn StoreException
  | ThreadExn ThreadException
  | KvdbExn KvdbException
  | InboxExn InboxException
  | EventExn EventException
  | PrivmxExn PrivmxException
  | StdOutOfRange

subsection \<open>Codes\<close>

text \<open>
  \<open>DECLARE_SCOPE_ENDPOINT_EXCEPTION\<close> builds the code of a class from the scope's code and the
  code of the class: \<open>(CODE << 16) | code\<close>.
\<close>

definition endpoint_code :: "nat \<Rightarrow> nat \<Rightarrow> nat" where
  "endpoint_code scope code = push_bit 16 scope OR code"

primrec CoreException_code :: "CoreException \<Rightarrow> nat" where
  "CoreException_code NoUserEntryForGivenKeyIdException = 0x0001"
| "CoreException_code InvalidParamsException = 0x0002"
| "CoreException_code InvalidNumberOfParamsException = 0x0003"
| "CoreException_code UnsupportedTypeException = 0x0004"
| "CoreException_code NoHandleFoundException = 0x0005"
| "CoreException_code InvalidDataSignatureException = 0x0007"
| "CoreException_code UnsupportedSerializerBinaryFormatException = 0x0009"
| "CoreException_code core_NotImplementedException = 0x000A"
| "CoreException_code InvalidMethodException = 0x000B"
| "CoreException_code InvalidArgumentTypeException = 0x000C"
| "CoreException_code InvalidBackendRequestModeException = 0x000D"
| "CoreException_code UserVerificationFailureException = 0x000E"
| "CoreException_code UserVerificationMethodUnhandledException = 0x000F"
| "CoreException_code MalformedEncryptionKeyException = 0x0010"
| "CoreException_code UnknownEncryptionKeyVersionException = 0x0011"
| "CoreException_code EncryptionKeyContainerValidationException = 0x0012"
| "CoreException_code DataIntegrityObjectDuplicatedException = 0x0013"
| "CoreException_code MalformedDataIntegrityObjectException = 0x0014"
| "CoreException_code InvalidDataIntegrityObjectChecksumException = 0x0015"
| "CoreException_code DataIntegrityObjectMismatchEncKeyException = 0x0016"
| "CoreException_code DataIntegrityObjectInvalidSignatureException = 0x0017"
| "CoreException_code KeyProviderRequestCompletedException = 0x0018"
| "CoreException_code MalformedVerifierResponseException = 0x0019"
| "CoreException_code UnknownModuleEncryptionKeyException = 0x0020"
| "CoreException_code ModulePublicDataMismatchException = 0x0021"
| "CoreException_code InvalidEncryptedModuleDataVersionException = 0x0022"
| "CoreException_code UnknownModuleFormatException = 0x0023"
| "CoreException_code core_InvalidSubscriptionQueryException = 0x0024"
| "CoreException_code InvalidSingletonsHolderStateException = 0x0025"
| "CoreException_code MissingBridgeIdentityException = 0x0026"

primrec ConnectionException_code :: "ConnectionException \<Rightarrow> nat" where
  "ConnectionException_code connection_NotInitializedException = 0x0001"
| "ConnectionException_code CannotExtractLibPlatformDisconnectedEventException = 0x0002"
| "ConnectionException_code CannotExtractLibConnectedEventException = 0x0003"
| "ConnectionException_code CannotExtractLibDisconnectedEventException = 0x0004"
| "ConnectionException_code DataBiggerThanDeclaredException = 0x0005"
| "ConnectionException_code DataSmallerThanDeclaredException = 0x0006"
| "ConnectionException_code DataDifferentThanDeclaredException = 0x0007"
| "ConnectionException_code CannotExtractLibBreakEventException = 0x0008"
| "ConnectionException_code ServerVersionMismatchException = 0x0009"
| "ConnectionException_code CannotExtractCollectionChangedEventException = 0x000A"
| "ConnectionException_code CannotExtractContextUserAddedEventException = 0x000B"
| "ConnectionException_code CannotExtractContextUserRemovedEventException = 0x000C"
| "ConnectionException_code CannotExtractContextUsersStatusChangedEventException = 0x000D"
| "ConnectionException_code NotConnectedException = 0x000E"
| "ConnectionException_code SessionExpiredException = 0x000F"

primrec StoreException_code :: "StoreException \<Rightarrow> nat" where
  "StoreException_code store_NotInitializedException = 0x0001"
| "StoreException_code CannotExtractStoreCreatedEventException = 0x0002"
| "StoreException_code CannotExtractStoreUpdatedEventException = 0x0003"
| "StoreException_code CannotExtractStoreStatsChangedEventException = 0x0004"
| "StoreException_code CannotExtractStoreFileCreatedEventException = 0x0005"
| "StoreException_code CannotExtractStoreFileUpdatedEventException = 0x0006"
| "StoreException_code CannotExtractStoreFileDeletedEventException = 0x0007"
| "StoreException_code CannotExtractStoreDeletedEventException = 0x000D"
| "StoreException_code UnsupportedCipherTypeException = 0x0009"
| "StoreException_code FileInvalidChecksumException = 0x000A"
| "StoreException_code FileChunkInvalidChecksumException = 0x000B"
| "StoreException_code FileChunkInvalidCipherChecksumException = 0x000C"
| "StoreException_code InvalidFileChunkSizeException = 0x000E"
| "StoreException_code InvalidFileReadHandleException = 0x000F"
| "StoreException_code InvalidFileWriteHandleException = 0x0010"
| "StoreException_code InvalidFileHandleException = 0x0011"
| "StoreException_code IncorrectKeyIdFormatException = 0x0012"
| "StoreException_code FileVersionMismatchHandleClosedException = 0x0013"
| "StoreException_code PosOutOfBoundsException = 0x0014"
| "StoreException_code FileCorruptedException = 0x0015"
| "StoreException_code NumberToBigForCPUArchitectureException = 0x0016"
| "StoreException_code AlreadySubscribedException = 0x0017"
| "StoreException_code NotSubscribedException = 0x0018"
| "StoreException_code InvalidEncryptedStoreFileMetaVersionException = 0x0019"
| "StoreException_code InvalidEncryptedStoreDataVersionException = 0x001A"
| "StoreException_code store_NotImplementedException = 0x001B"
| "StoreException_code UnknowStoreFormatException = 0x001C"
| "StoreException_code UnknowFileFormatException = 0x001D"
| "StoreException_code FileFetchFailedException = 0x001E"
| "StoreException_code FileVersionMismatchException = 0x001F"
| "StoreException_code StorePublicDataMismatchException = 0x0020"
| "StoreException_code FilePublicDataMismatchException = 0x0021"
| "StoreException_code WritingToFileInteruptedWrittenDataSmallerThenDeclaredException = 0x0022"
| "StoreException_code FileDecryptionFailedException = 0x0023"
| "StoreException_code StoreEncryptionKeyValidationException = 0x0026"
| "StoreException_code StoreDataIntegrityException = 0x0027"
| "StoreException_code FileDataIntegrityException = 0x0028"
| "StoreException_code InvalidHashSizeException = 0x0029"
| "StoreException_code HashIndexOutOfBoundsException = 0x0029"
| "StoreException_code InvalidFileTopHashException = 0x002A"
| "StoreException_code FileSyncFailedHandleCloseException = 0x002B"
| "StoreException_code FileRandomWriteInternalException = 0x002C"
| "StoreException_code store_InvalidSubscriptionQueryException = 0x002D"

subsection \<open>Converting library exceptions\<close>

text \<open>
  The inner \<open>switch\<close> statements of \<open>ExceptionConverter::rethrowAsCoreException\<close>, as tables
  from the low half of the code to the declared code of the class that is thrown.
\<close>

definition server_request_table :: "(nat \<times> nat) list" where
  "server_request_table = [
    (0x8043, 0x8043), (0x80A8, 0x80A8), (0x80A7, 0x80A7), (0x80A6, 0x80A6), (0x80A5, 0x80A5),
    (0x80A4, 0x80A4), (0x80A3, 0x80A3)]"

definition server_table :: "(nat \<times> nat) list" where
  "server_table = [
    (0x0030, 0x0030), (0x0070, 0x0070), (0x6001, 0x6001), (0x6002, 0x6002), (0x600D, 0x600D),
    (0x6015, 0x6015), (0x6116, 0x6116), (0x6117, 0x6117), (0x6118, 0x6118), (0x6128, 0x6128),
    (0x611E, 0x611E), (0x613C, 0x613C), (0x613D, 0x613D)]"

definition net_connection_table :: "(nat \<times> nat) list" where
  "net_connection_table = [
    (0x0002, 0x0002), (0x0003, 0x0003)]"

definition server_error_table :: "(nat \<times> nat) list" where
  "server_error_table = [
    (0x0001, 0x0001), (0x0002, 0x0002)]"

definition lib_table :: "(nat \<times> nat) list" where
  "lib_table = [
    (0x0001, 0x0001), (0x0002, 0x0002), (0x0003, 0x0003), (0x0004, 0x0004), (0x0005, 0x0007),
    (0x0006, 0x0008)]"

definition crypto_table :: "(nat \<times> nat) list" where
  "crypto_table = [
    (0x0001, 0x0001), (0x0002, 0x0002), (0x0003, 0x0003), (0x0004, 0x0004), (0x0005, 0x0005),
    (0x0006, 0x0006), (0x0007, 0x0007), (0x0008, 0x0008), (0x0009, 0x0009), (0x000A, 0x000A),
    (0x000B, 0x000B), (0x000C, 0x000C), (0x000D, 0x000D), (0x000E, 0x000E), (0x000F, 0x000F),
    (0x0010, 0x0010), (0x0011, 0x0011), (0x0012, 0x0012), (0x0013, 0x0014), (0x0014, 0x0014),
    (0x0015, 0x0015), (0x0016, 0x0016), (0x0017, 0x0017), (0x0018, 0x0018), (0x0019, 0x0019),
    (0x001A, 0x001A), (0x001B, 0x001B), (0x001C, 0x001C), (0x001D, 0x001D), (0x001E, 0x001E),
    (0x001F, 0x001F), (0x0020, 0x0020), (0x0022, 0x0022), (0x0023, 0x0023), (0x0024, 0x0024),
    (0x0025, 0x0025), (0x0026, 0x0026), (0x0027, 0x0027), (0x0028, 0x0028), (0x0029, 0x0029),
    (0x002A, 0x002A)]"

definition privfs_table :: "(nat \<times> nat) list" where
  "privfs_table = [
    (0x0001, 0x0001), (0x0002, 0x0002), (0x0003, 0x0003), (0x0004, 0x0004), (0x0005, 0x0005),
    (0x0006, 0x0006), (0x0007, 0x0007), (0x0008, 0x0008), (0x0009, 0x0009), (0x000A, 0x000A),
    (0x000B, 0x000B), (0x000C, 0x000C), (0x000D, 0x000D), (0x000E, 0x000E), (0x000F, 0x000F),
    (0x0010, 0x0010), (0x0011, 0x0011), (0x0012, 0x0012), (0x0013, 0x0013), (0x0014, 0x0014),
    (0x0015, 0x0015), (0x0016, 0x0016), (0x0017, 0x0017)]"

definition rpc_table :: "(nat \<times> nat) list" where
  "rpc_table = [
    (0x0002, 0x0002), (0x0003, 0x0003), (0x0004, 0x0004), (0x0005, 0x0005), (0x0006, 0x0006),
    (0x0007, 0x0007), (0x0008, 0x0008), (0x0009, 0x0009), (0x000A, 0x000A), (0x000B, 0x000B),
    (0x000C, 0x000C), (0x000D, 0x000D), (0x000E, 0x000E), (0x000F, 0x000F), (0x0010, 0x0010),
    (0x0011, 0x0011), (0x0012, 0x0012), (0x0013, 0x0013), (0x0014, 0x0014), (0x0015, 0x0015),
    (0x0016, 0x0016), (0x0017, 0x0017), (0x0018, 0x0018), (0x0019, 0x0019), (0x001A, 0x001A),
    (0x001B, 0x001B)]"

definition convert_group :: "nat \<Rightarrow> (nat \<times> nat) list \<Rightarrow> nat \<Rightarrow> nat" where
  "convert_group scope tbl lo =
     (case map_of tbl lo of
        Some code \<Rightarrow> endpoint_code scope code
      | None \<Rightarrow> endpoint_code scope 0)"

text \<open>The code of the exception thrown when the first half of the code is zero.\<close>

definition convert_server :: "PrivmxException \<Rightarrow> nat \<Rightarrow> nat" where
  "convert_server e lo =
     (case map_of server_table lo of
        Some code \<Rightarrow> endpoint_code 0xF000 code
      | None \<Rightarrow>
          if (0x0001 \<le> lo \<and> lo \<le> 0x00A0) \<or> (0x6001 \<le> lo \<and> lo \<le> 0x6FFF) \<or>
             (0x7001 \<le> lo \<and> lo \<le> 0xF0A0)
          then endpoint_code 0xF000 lo
          else if pe_type e \<noteq> LIBRARY then
            (if pe_type e = ALERT \<and> pe_msg e = ''User doesn'' @ [CHR 0x27] @ ''t exist''
             then endpoint_code 0xF000 0x0009
             else endpoint_code 0xF000 0)
          else lo OR 0xE0000000)"

definition ExceptionConverter_convert :: "PrivmxException \<Rightarrow> nat" where
  "ExceptionConverter_convert e =
     (let code = nat (pe_code e mod 2 ^ 32);
          hi = drop_bit 16 (code AND 0xFFFF0000);
          lo = code AND 0x0000FFFF
      in if hi = 0xFFFF then convert_group 0xFFFF server_request_table lo
         else if hi = 0x0000 then convert_server e lo
         else if hi = 0x0001 then
           (if lo = 0x0001 then endpoint_code 0x0002 0x000E
            else convert_group 0xE001 net_connection_table lo)
         else if hi = 0x0002 then convert_group 0xE002 server_error_table lo
         else if hi = 0x0003 then convert_group 0xE003 lib_table lo
         else if hi = 0x000C then endpoint_code 0xE003 0x0005
         else if hi = 0x000D then endpoint_code 0xE003 0x0006
         else if hi = 0x00A1 then convert_group 0xE0A1 crypto_table lo
         else if hi = 0x00A3 then convert_group 0xE0A3 privfs_table lo
         else if hi = 0x00A4 then
           (if lo = 0x0001 then endpoint_code 0x0002 0x000E
            else convert_group 0xE0A4 rpc_table lo)
         else code OR 0xE0000000)"

primrec ThreadException_code :: "ThreadException \<Rightarrow> nat" where
  "ThreadException_code thread_NotInitializedException = 0x0001"
| "ThreadException_code CannotExtractThreadCreatedEventException = 0x0002"
| "ThreadException_code CannotExtractThreadUpdatedEventException = 0x0003"
| "ThreadException_code CannotExtractThreadNewMessageEventException = 0x0004"
| "ThreadException_code CannotExtractThreadDeletedEventException = 0x0005"
| "ThreadException_code CannotExtractThreadDeletedMessageEventException = 0x0006"
| "ThreadException_code thread_IncorrectKeyIdFormatException = 0x0007"
| "ThreadException_code CannotExtractThreadStatsEventException = 0x0008"
| "ThreadException_code thread_AlreadySubscribedException = 0x0009"
| "ThreadException_code thread_NotSubscribedException = 0x000A"
| "ThreadException_code InvalidEncryptedThreadDataVersionException = 0x000B"
| "ThreadException_code InvalidEncryptedMessageDataVersionException = 0x000C"
| "ThreadException_code UnknowThreadFormatException = 0x000D"
| "ThreadException_code UnknowMessageFormatException = 0x000E"
| "ThreadException_code CannotExtractThreadMessageUpdatedEventException = 0x000F"
| "ThreadException_code ThreadPublicDataMismatchException = 0x0010"
| "ThreadException_code MessagePublicDataMismatchException = 0x0011"
| "ThreadException_code ThreadDataIntegrityException = 0x0014"
| "ThreadException_code MessageDataIntegrityException = 0x0015"
| "ThreadException_code ThreadEncryptionKeyValidationException = 0x0016"
| "ThreadException_code thread_NotImplementedException = 0x0017"
| "ThreadException_code thread_InvalidSubscriptionQueryException = 0x0018"

primrec KvdbException_code :: "KvdbException \<Rightarrow> nat" where
  "KvdbException_code kvdb_NotInitializedException = 0x0001"
| "KvdbException_code CannotExtractKvdbCreatedEventException = 0x0002"
| "KvdbException_code CannotExtractKvdbUpdatedEventException = 0x0003"
| "KvdbException_code CannotExtractKvdbDeletedEventException = 0x0004"
| "KvdbException_code CannotExtractKvdbStatsEventException = 0x0005"
| "KvdbException_code CannotExtractKvdbNewEntryEventException = 0x0006"
| "KvdbException_code CannotExtractKvdbEntryUpdatedEventException = 0x0006"
| "KvdbException_code CannotExtractKvdbDeletedEntryEventException = 0x0007"
| "KvdbException_code KvdbPublicDataMismatchException = 0x0008"
| "KvdbException_code InvalidEncryptedKvdbDataVersionException = 0x0009"
| "KvdbException_code KvdbEntryPublicDataMismatchException = 0x000A"
| "KvdbException_code InvalidEncryptedKvdbEntryDataVersionException = 0x000B"
| "KvdbException_code KvdbEncryptionKeyValidationException = 0x000C"
| "KvdbException_code kvdb_AlreadySubscribedException = 0x000D"
| "KvdbException_code kvdb_NotSubscribedException = 0x000E"
| "KvdbException_code UnknownKvdbFormatException = 0x000F"
| "KvdbException_code UnknownKvdbEntryFormatException = 0x0010"
| "KvdbException_code KvdbDataIntegrityException = 0x0011"
| "KvdbException_code KvdbEntryDataIntegrityException = 0x0012"
| "KvdbException_code kvdb_NotImplementedException = 0x0013"
| "KvdbException_code kvdb_InvalidSubscriptionQueryException = 0x0014"

primrec InboxException_code :: "InboxException \<Rightarrow> nat" where
  "InboxException_code inbox_NotInitializedException = 0x0001"
| "InboxException_code UnknownInboxHandleException = 0x0002"
| "InboxException_code InboxHandleIsNotTiedToInboxFileHandleException = 0x0003"
| "InboxException_code CannotExtractInboxCreatedEventException = 0x0004"
| "InboxException_code CannotExtractInboxUpdatedEventException = 0x0005"
| "InboxException_code CannotExtractInboxDeletedEventException = 0x0006"
| "InboxException_code inbox_IncorrectKeyIdFormatException = 0x0007"
| "InboxException_code FailedToDecryptFileMetaException = 0x0008"
| "InboxException_code FailedToExtractMessagePublicMetaException = 0x0009"
| "InboxException_code inbox_FileVersionMismatchHandleClosedException = 0x000A"
| "InboxException_code inbox_PosOutOfBoundsException = 0x000B"
| "InboxException_code inbox_NumberToBigForCPUArchitectureException = 0x000C"
| "InboxException_code inbox_AlreadySubscribedException = 0x000D"
| "InboxException_code inbox_NotSubscribedException = 0x000E"
| "InboxException_code InvalidEncryptedInboxDataVersionException = 0x000F"
| "InboxException_code CannotExtractInboxEntryCreatedEventException = 0x0010"
| "InboxException_code CannotExtractInboxEntryDeletedException = 0x0011"
| "InboxException_code inbox_FileFetchFailedException = 0x0012"
| "InboxException_code InboxPublicDataMismatchException = 0x0013"
| "InboxException_code WritingToEntryInteruptedWrittenDataSmallerThenDeclaredException = 0x0014"
| "InboxException_code HandleIsUsedInInboxHandleException = 0x0015"
| "InboxException_code inbox_InvalidFileReadHandleException = 0x0016"
| "InboxException_code inbox_InvalidFileWriteHandleException = 0x0017"
| "InboxException_code UnknownInboxFormatException = 0x0020"
| "InboxException_code InboxDataIntegrityException = 0x0021"
| "InboxException_code InboxEncryptionKeyValidationException = 0x0022"
| "InboxException_code inbox_NotImplementedException = 0x0023"
| "InboxException_code inbox_InvalidSubscriptionQueryException = 0x0024"
| "InboxException_code InboxModuleDoesNotSupportQueriesYetException = 0x0099"

primrec EventException_code :: "EventException \<Rightarrow> nat" where
  "EventException_code event_NotInitializedException = 0x0001"
| "EventException_code ForbiddenChannelNameException = 0x0002"
| "EventException_code CannotExtractContextCustomEvent = 0x0003"
| "EventException_code event_NotSubscribedException = 0x0004"
| "EventException_code event_AlreadySubscribedException = 0x0005"
| "EventException_code InvalidEncryptedEventDataVersionException = 0x0005"
| "EventException_code event_InvalidSubscriptionQueryException = 0x0006"

text \<open>
  \<open>getCode()\<close> of an exception caught as \<open>core::Exception\<close> or, converted, as
  \<open>PrivmxException\<close>; a standard-library exception has none.
\<close>

fun getCode :: "exn \<Rightarrow> nat option" where
  "getCode (CoreExn e) = Some (endpoint_code 0x0001 (CoreException_code e))"
| "getCode (ConnectionExn e) = Some (endpoint_code 0x0002 (ConnectionException_code e))"
| "getCode (StoreExn e) = Some (endpoint_code 0x0004 (StoreException_code e))"
| "getCode (ThreadExn e) = Some (endpoint_code 0x0003 (ThreadException_code e))"
| "getCode (KvdbExn e) = Some (endpoint_code 0x0009 (KvdbException_code e))"
| "getCode (InboxExn e) = Some (endpoint_code 0x0007 (InboxException_code e))"
| "getCode (EventExn e) = Some (endpoint_code 0x0009 (EventException_code e))"
| "getCode (PrivmxExn e) = Some (ExceptionConverter_convert e)"
| "getCode StdOutOfRange = None"

text \<open>\<open>server::StoreFileVersionMismatchException().getCode()\<close>.\<close>

definition StoreFileVersionMismatch_code :: nat where
  "StoreFileVersionMismatch_code = endpoint_code 0xF000 0x6128"

subsection \<open>What the codes tell apart\<close>

lemma endpoint_code_add: "code < 0x10000 \<Longrightarrow> endpoint_code scope code = scope * 0x10000 + code"
proof -
  assume code: "code < 0x10000"
  have "push_bit 16 scope AND code = 0"
  proof (rule bit_eqI)
    fix n
    have "take_bit 16 code = code" using code by (simp add: take_bit_nat_eq_self)
    then have "bit code n \<Longrightarrow> n < 16" by (metis bit_take_bit_iff)
    then show "bit (push_bit 16 scope AND code) n \<longleftrightarrow> bit (0::nat) n"
      by (auto simp: bit_and_iff bit_push_bit_iff)
  qed
  then have "push_bit 16 scope + code = push_bit 16 scope OR code"
    by (rule disjunctive_add_eq_or)
  then show ?thesis by (simp add: endpoint_code_def push_bit_eq_mult)
qed

lemma endpoint_code_scope: "code < 0x10000 \<Longrightarrow> endpoint_code scope code div 0x10000 = scope"
  by (simp add: endpoint_code_add)

lemma endpoint_code_low: "code < 0x10000 \<Longrightarrow> endpoint_code scope code mod 0x10000 = code"
  by (simp add: endpoint_code_add)

lemma high_half: "c < 2 ^ 32 \<Longrightarrow> drop_bit 16 (c AND 0xFFFF0000) = c div 0x10000" for c :: nat
proof -
  assume c: "c < 2 ^ 32"
  have m: "drop_bit 16 (0xFFFF0000 :: nat) = mask 16" by (simp add: mask_eq_exp_minus_1 drop_bit_eq_div)
  have "c div 2 ^ 16 < 2 ^ 16" using c by (simp add: less_mult_imp_div_less)
  then have "take_bit 16 (c div 2 ^ 16) = c div 2 ^ 16" by (rule take_bit_nat_eq_self)
  then have "drop_bit 16 c AND mask 16 = c div 2 ^ 16" by (simp only: drop_bit_eq_div take_bit_eq_mask)
  then show ?thesis unfolding drop_bit_and m by simp
qed

lemma low_half: "c AND 0x0000FFFF = c mod 0x10000" for c :: nat
proof -
  have "(0x0000FFFF :: nat) = mask 16" by (simp add: mask_eq_exp_minus_1)
  then have "c AND 0x0000FFFF = c mod 2 ^ 16"
    by (simp only: take_bit_eq_mask [symmetric] take_bit_eq_mod)
  then show ?thesis by simp
qed

lemma convert_group_scope:
  "list_all (\<lambda>(_, c). c < 0x10000) tbl \<Longrightarrow> convert_group scope tbl lo div 0x10000 = scope"
  unfolding convert_group_def
  by (fastforce simp: endpoint_code_scope list_all_iff split: option.splits dest: map_of_SomeD)

lemmas convert_tables =
  server_request_table_def server_table_def net_connection_table_def server_error_table_def
  lib_table_def crypto_table_def privfs_table_def rpc_table_def

lemma convert_tables_small:
  "list_all (\<lambda>(_, c). c < 0x10000) server_request_table"
  "list_all (\<lambda>(_, c). c < 0x10000) net_connection_table"
  "list_all (\<lambda>(_, c). c < 0x10000) server_error_table"
  "list_all (\<lambda>(_, c). c < 0x10000) lib_table"
  "list_all (\<lambda>(_, c). c < 0x10000) crypto_table"
  "list_all (\<lambda>(_, c). c < 0x10000) privfs_table"
  "list_all (\<lambda>(_, c). c < 0x10000) rpc_table"
  by (simp_all add: convert_tables)

lemmas convert_group_scopes = convert_tables_small [THEN convert_group_scope]

lemma high_bits_or: "c < 0x10000000 \<Longrightarrow> c OR 0xE0000000 = c + 0xE0000000" for c :: nat
proof -
  assume c: "c < 0x10000000"
  have "c AND 0xE0000000 = 0"
  proof (rule bit_eqI)
    fix n
    have "take_bit 28 c = c" using c by (simp add: take_bit_nat_eq_self)
    then have lo: "bit c n \<Longrightarrow> n < 28" by (metis bit_take_bit_iff)
    have "(0xE0000000 :: nat) = push_bit 28 0xE" by simp
    then have hi: "bit (0xE0000000 :: nat) n \<Longrightarrow> 28 \<le> n" by (simp only: bit_push_bit_iff)
    from lo hi show "bit (c AND 0xE0000000) n \<longleftrightarrow> bit (0::nat) n"
      by (auto simp: bit_and_iff)
  qed
  then show ?thesis by (rule disjunctive_add_eq_or [symmetric])
qed

lemma server_table_hit: "map_of server_table lo = Some c \<Longrightarrow> c = lo \<and> c < 0x10000"
  by (auto simp: server_table_def split: if_splits)

lemma convert_server_mismatch:
  assumes "lo < 0x10000"
  shows "convert_server e lo = StoreFileVersionMismatch_code \<longleftrightarrow> lo = 0x6128"
proof (cases "map_of server_table lo")
  case (Some c)
  with server_table_hit [OF Some] have "convert_server e lo = endpoint_code 0xF000 lo"
    by (simp add: convert_server_def)
  with assms show ?thesis by (simp add: StoreFileVersionMismatch_code_def endpoint_code_add)
next
  case None
  then have ne: "lo \<noteq> 0x6128" by (auto simp: server_table_def)
  have "lo OR 0xE0000000 = lo + 0xE0000000" using assms by (intro high_bits_or) simp
  then show ?thesis
    using None ne assms
    by (simp add: convert_server_def StoreFileVersionMismatch_code_def endpoint_code_add)
qed

lemma not_mismatch: "x div 0x10000 \<noteq> 0xF000 \<Longrightarrow> x \<noteq> StoreFileVersionMismatch_code"
  by (auto simp: StoreFileVersionMismatch_code_def endpoint_code_scope)

lemma groups_not_mismatch:
  "convert_group 0xFFFF server_request_table lo \<noteq> StoreFileVersionMismatch_code"
  "convert_group 0xE001 net_connection_table lo \<noteq> StoreFileVersionMismatch_code"
  "convert_group 0xE002 server_error_table lo \<noteq> StoreFileVersionMismatch_code"
  "convert_group 0xE003 lib_table lo \<noteq> StoreFileVersionMismatch_code"
  "convert_group 0xE0A1 crypto_table lo \<noteq> StoreFileVersionMismatch_code"
  "convert_group 0xE0A3 privfs_table lo \<noteq> StoreFileVersionMismatch_code"
  "convert_group 0xE0A4 rpc_table lo \<noteq> StoreFileVersionMismatch_code"
  "endpoint_code 0x0002 0x000E \<noteq> StoreFileVersionMismatch_code"
  "endpoint_code 0xE003 0x0005 \<noteq> StoreFileVersionMismatch_code"
  "endpoint_code 0xE003 0x0006 \<noteq> StoreFileVersionMismatch_code"
  by (rule not_mismatch, simp add: convert_group_scopes endpoint_code_scope)+

definition convert_halves :: "PrivmxException \<Rightarrow> nat \<Rightarrow> nat \<Rightarrow> nat \<Rightarrow> nat" where
  "convert_halves e code hi lo =
     (if hi = 0xFFFF then convert_group 0xFFFF server_request_table lo
      else if hi = 0x0000 then convert_server e lo
      else if hi = 0x0001 then
        (if lo = 0x0001 then endpoint_code 0x0002 0x000E
         else convert_group 0xE001 net_connection_table lo)
      else if hi = 0x0002 then convert_group 0xE002 server_error_table lo
      else if hi = 0x0003 then convert_group 0xE003 lib_table lo
      else if hi = 0x000C then endpoint_code 0xE003 0x0005
      else if hi = 0x000D then endpoint_code 0xE003 0x0006
      else if hi = 0x00A1 then convert_group 0xE0A1 crypto_table lo
      else if hi = 0x00A3 then convert_group 0xE0A3 privfs_table lo
      else if hi = 0x00A4 then
        (if lo = 0x0001 then endpoint_code 0x0002 0x000E
         else convert_group 0xE0A4 rpc_table lo)
      else code OR 0xE0000000)"

lemma convert_eq_halves:
  fixes e defines "code \<equiv> nat (pe_code e mod 2 ^ 32)"
  shows "ExceptionConverter_convert e = convert_halves e code (code div 0x10000) (code mod 0x10000)"
proof -
  have "pe_code e mod 2 ^ 32 < 2 ^ 32" by (rule pos_mod_bound) simp
  then have "code < 2 ^ 32" unfolding code_def by (simp add: nat_less_iff)
  from high_half [OF this] show ?thesis
    unfolding ExceptionConverter_convert_def Let_def code_def [symmetric] low_half convert_halves_def
    by simp
qed

lemma convert_halves_small:
  assumes "code < 0x10000000"
  shows "convert_halves e code (code div 0x10000) (code mod 0x10000) = StoreFileVersionMismatch_code
    \<longleftrightarrow> code = 0x6128"
proof -
  have dm: "code = code div 0x10000 * 0x10000 + code mod 0x10000" by simp
  have "code div 0x10000 \<noteq> 0xFFFF"
  proof
    assume "code div 0x10000 = 0xFFFF"
    then have "0xFFFF * 0x10000 \<le> code" by (metis div_times_less_eq_dividend)
    with assms show False by simp
  qed
  moreover have "code OR 0xE0000000 \<noteq> StoreFileVersionMismatch_code"
    using high_bits_or [OF assms] assms
    by (simp add: StoreFileVersionMismatch_code_def endpoint_code_add)
  moreover have "code div 0x10000 = 0 \<Longrightarrow> code mod 0x10000 = code" using dm by linarith
  moreover have "code = 0x6128 \<Longrightarrow> code div 0x10000 = 0" by simp
  ultimately show ?thesis
    using convert_server_mismatch [of "code mod 0x10000" e]
    by (auto simp: convert_halves_def groups_not_mismatch)
qed

text \<open>
  A library exception whose code leaves the top four bits unused (or is one of the negative
  JSON-RPC codes) is converted to the version-mismatch code exactly when it is the server's
  \<open>STORE_FILE_VERSION_MISMATCH\<close>.
\<close>

lemma convert_eq_mismatch:
  assumes "- 0x10000 \<le> pe_code e" and "pe_code e < 0x10000000"
  shows "ExceptionConverter_convert e = StoreFileVersionMismatch_code \<longleftrightarrow> pe_code e = 0x6128"
proof (cases "0 \<le> pe_code e")
  case True
  then have code: "nat (pe_code e mod 2 ^ 32) = nat (pe_code e)"
    using assms(2) by (subst mod_pos_pos_trivial) auto
  have "nat (pe_code e) < 0x10000000" using assms(2) by simp
  from convert_halves_small [OF this, of e] True show ?thesis
    unfolding convert_eq_halves code by (simp add: nat_eq_iff)
next
  case False
  have "(pe_code e + 2 ^ 32) mod 2 ^ 32 = pe_code e + 2 ^ 32"
    using False assms(1) by (intro mod_pos_pos_trivial) auto
  then have "pe_code e mod 2 ^ 32 = pe_code e + 2 ^ 32" by simp
  then have code: "nat (pe_code e mod 2 ^ 32) = nat (pe_code e + 2 ^ 32)" by simp
  have "nat (pe_code e + 2 ^ 32) div 0x10000 = 0xFFFF"
    using assms(1) False by (intro div_nat_eqI) simp_all
  then show ?thesis
    unfolding convert_eq_halves code using False
    by (simp add: convert_halves_def groups_not_mismatch)
qed

lemma StoreException_code_small: "StoreException_code e < 0x10000"
  by (cases e) simp_all

lemma StoreException_code_inj:
  "StoreException_code a = StoreException_code b \<Longrightarrow>
     a = b \<or> {a, b} = {InvalidHashSizeException, HashIndexOutOfBoundsException}"
  by (cases a; cases b; simp add: insert_commute)

text \<open>
  Two store exceptions cannot be told apart by their codes: \<open>InvalidHashSizeException\<close> and
  \<open>HashIndexOutOfBoundsException\<close> are both declared with \<open>0x0029\<close>. Every other pair of store
  exceptions has different codes.
\<close>

theorem StoreException_codes_clash:
  "getCode (StoreExn a) = getCode (StoreExn b) \<longleftrightarrow>
     a = b \<or> {a, b} = {InvalidHashSizeException, HashIndexOutOfBoundsException}"
proof -
  have "endpoint_code 0x0004 (StoreException_code x) = 0x0004 * 0x10000 + StoreException_code x" for x
    by (rule endpoint_code_add [OF StoreException_code_small])
  then have "getCode (StoreExn a) = getCode (StoreExn b) \<longleftrightarrow> StoreException_code a = StoreException_code b"
    by simp
  moreover have "StoreException_code a = StoreException_code b"
    if "{a, b} = {InvalidHashSizeException, HashIndexOutOfBoundsException}"
    using that by (auto simp: doubleton_eq_iff)
  ultimately show ?thesis using StoreException_code_inj by blast
qed

end
