(* ===== verification/Crypto_Api.thy ===== *)
theory Crypto_Api
  imports Errors
begin

text \<open>
  The cryptographic primitives behind \<open>privmx::crypto::Crypto\<close>. They are computed by an
  external library (OpenSSL or the PrivMX driver), so they are a parameter of the model: a
  record of functions that every definition that encrypts, decrypts or hashes takes as its
  first argument. \<open>crypto_ok\<close> collects what the code relies on: the sizes of digests,
  random strings and PKCS7-padded ciphertexts, and that decryption inverts encryption.
  \<open>Crypto::randomBytes\<close> is a sequence of draws: the \<open>k\<close>-th call with length \<open>n\<close>
  returns \<open>randomBytes c k n\<close>, and the model threads the number of draws made so far.
\<close>

record crypto_api =
  sha256 :: "bytes \<Rightarrow> bytes"
  hmacSha256 :: "bytes \<Rightarrow> bytes \<Rightarrow> bytes"
  aes256CbcPkcs7Encrypt :: "bytes \<Rightarrow> bytes \<Rightarrow> bytes \<Rightarrow> bytes"
  aes256CbcPkcs7Decrypt :: "bytes \<Rightarrow> bytes \<Rightarrow> bytes \<Rightarrow> (exn, bytes) result"
  randomBytes :: "nat \<Rightarrow> nat \<Rightarrow> bytes"

definition crypto_ok :: "crypto_api \<Rightarrow> bool" where
  "crypto_ok c \<longleftrightarrow>
     (\<forall>k m. length (hmacSha256 c k m) = 32) \<and>
     (\<forall>i n. length (randomBytes c i n) = n) \<and>
     (\<forall>d k iv. length (aes256CbcPkcs7Encrypt c d k iv) = length d + (16 - length d mod 16)) \<and>
     (\<forall>d k iv. aes256CbcPkcs7Decrypt c (aes256CbcPkcs7Encrypt c d k iv) k iv = Inr d)"

lemma crypto_okD:
  assumes "crypto_ok c"
  shows length_hmacSha256: "length (hmacSha256 c k m) = 32"
    and length_randomBytes: "length (randomBytes c i n) = n"
    and length_aes256CbcPkcs7Encrypt:
      "length (aes256CbcPkcs7Encrypt c d k iv) = length d + (16 - length d mod 16)"
    and aes256CbcPkcs7_inverse:
      "aes256CbcPkcs7Decrypt c (aes256CbcPkcs7Encrypt c d k iv) k iv = Inr d"
  using assms by (simp_all add: crypto_ok_def)

text \<open>
  An instance that satisfies the requirements, for concrete evaluations: a running checksum as
  the digest, and PKCS7 padding with the identity as the block cipher.
\<close>

definition pad_len :: "bytes \<Rightarrow> nat" where
  "pad_len d = 16 - length d mod 16"

definition sum_hash :: "bytes \<Rightarrow> bytes" where
  "sum_hash m = replicate 32 (fold (\<lambda>b acc. 3 * acc + b + 1) m 7)"

definition sample_crypto :: crypto_api where
  "sample_crypto =
     \<lparr>sha256 = sum_hash,
      hmacSha256 = (\<lambda>k m. sum_hash (k @ m)),
      aes256CbcPkcs7Encrypt = (\<lambda>d k iv. d @ replicate (pad_len d) (of_nat (pad_len d))),
      aes256CbcPkcs7Decrypt = (\<lambda>d k iv.
        if d = [] then Inl StdOutOfRange else Inr (take (length d - unat (last d)) d)),
      randomBytes = (\<lambda>i n. replicate n (of_nat i))\<rparr>"

lemma sample_crypto_ok: "crypto_ok sample_crypto"
proof -
  have pos: "0 < pad_len d" and le: "pad_len d \<le> 16" for d
    by (simp_all add: pad_len_def)
  have un: "unat (of_nat (pad_len d) :: byte) = pad_len d" for d
    using le [of d] by (simp add: unat_of_nat take_bit_nat_eq_self)
  have "last (d @ replicate (pad_len d) x) = x" for d and x :: byte
    using pos [of d] by (simp add: last_append)
  then show ?thesis
    using pos by (simp add: crypto_ok_def sample_crypto_def sum_hash_def un)
      (simp add: pad_len_def)
qed

end
