(* ===== verification/Crypto_Base58.thy ===== *)
theory Crypto_Base58
  imports Crypto_Api
begin

text \<open>
  \<open>crypto/base/src/utils/Base58.cpp\<close>: the text form of keys. A byte string is read as a
  big-endian number, written in base 58 and prefixed by one \<open>1\<close> for each leading zero byte. The
  big-number library (GMP) is modelled by its documented results: \<open>mpz_import\<close> with most
  significant byte first, \<open>get_str(58)\<close> without leading zeros and \<open>0\<close> for the number zero, and
  \<open>mpz_export\<close>, which writes no byte for zero.
\<close>

subsection \<open>Positional notation\<close>

definition value_of :: "nat \<Rightarrow> nat list \<Rightarrow> nat" where
  "value_of b ds = foldl (\<lambda>n d. n * b + d) 0 ds"

function digits_of :: "nat \<Rightarrow> nat \<Rightarrow> nat list" where
  "digits_of b n = (if b \<le> 1 \<or> n = 0 then [] else digits_of b (n div b) @ [n mod b])"
  by pat_completeness auto
termination
  by (relation "measure snd") auto

declare digits_of.simps [simp del]

lemma digits_of_0 [simp]: "digits_of b 0 = []"
  by (subst digits_of.simps) simp

lemma digits_of_pos: "1 < b \<Longrightarrow> 0 < n \<Longrightarrow> digits_of b n = digits_of b (n div b) @ [n mod b]"
  by (subst digits_of.simps) simp

lemma value_of_Nil [simp]: "value_of b [] = 0"
  by (simp add: value_of_def)

lemma value_of_snoc [simp]: "value_of b (ds @ [d]) = value_of b ds * b + d"
  by (simp add: value_of_def)

lemma value_of_zeros [simp]: "value_of b (replicate k 0 @ ds) = value_of b ds"
  by (induction k) (simp_all add: value_of_def)

lemma value_digits [simp]: "1 < b \<Longrightarrow> value_of b (digits_of b n) = n"
proof (induction b n rule: digits_of.induct)
  case (1 b n)
  then show ?case by (cases "n = 0") (simp_all add: digits_of_pos)
qed

lemma digits_bounded: "d \<in> set (digits_of b n) \<Longrightarrow> d < b"
proof (induction b n rule: digits_of.induct)
  case (1 b n)
  then show ?case by (cases "b \<le> 1 \<or> n = 0") (auto simp: digits_of.simps [of b n])
qed

lemma digits_of_eq_Nil [simp]: "1 < b \<Longrightarrow> digits_of b n = [] \<longleftrightarrow> n = 0"
  by (cases "n = 0") (simp_all add: digits_of_pos)

lemma digits_hd_pos: "1 < b \<Longrightarrow> 0 < n \<Longrightarrow> 0 < hd (digits_of b n)"
proof (induction b n rule: digits_of.induct)
  case (1 b n)
  note step = digits_of_pos [OF "1.prems"]
  show ?case
  proof (cases "n div b = 0")
    case True
    then have "n mod b = n" using "1.prems" by (simp add: div_eq_0_iff)
    with True "1.prems" show ?thesis unfolding step by simp
  next
    case False
    then have "0 < hd (digits_of b (n div b))" "digits_of b (n div b) \<noteq> []" using 1 by simp_all
    then show ?thesis unfolding step by simp
  qed
qed

text \<open>A digit string without leading zeros is the digit string of its value.\<close>

lemma value_of_pos: "ds \<noteq> [] \<Longrightarrow> 0 < hd ds \<Longrightarrow> 0 < value_of b ds" if "1 < b" for b
proof (induction ds rule: rev_induct)
  case (snoc d ds)
  then show ?case using that by (cases "ds = []") (auto simp: value_of_def)
qed simp

lemma digits_value:
  assumes "1 < b" and "\<forall>d \<in> set ds. d < b" and "ds \<noteq> [] \<Longrightarrow> 0 < hd ds"
  shows "digits_of b (value_of b ds) = ds"
  using assms(2,3)
proof (induction ds rule: rev_induct)
  case (snoc d ds)
  have d: "d < b" "\<forall>d \<in> set ds. d < b" using snoc.prems(1) by auto
  have pos: "0 < value_of b (ds @ [d])" using value_of_pos [OF assms(1), of "ds @ [d]"] snoc.prems(2) by simp
  have "ds \<noteq> [] \<Longrightarrow> 0 < hd ds" using snoc.prems(2) by auto
  with snoc.IH d(2) have IH: "digits_of b (value_of b ds) = ds" by blast
  have "value_of b (ds @ [d]) div b = value_of b ds" "value_of b (ds @ [d]) mod b = d"
    using d(1) by simp_all
  then show ?case using digits_of_pos [OF assms(1) pos] IH by simp
qed simp

subsection \<open>The alphabets\<close>

text \<open>GMP writes digits above 36 with 0-9, A-Z, a-z; \<open>gmp2bitcoin\<close> and \<open>bitcoin2gmp\<close> translate.\<close>

definition gmp_alphabet :: string where
  "gmp_alphabet = ''0123456789ABCDEFGHIJKLMNOPQRSTUVWXYZabcdefghijklmnopqrstuv''"

definition bitcoin_alphabet :: string where
  "bitcoin_alphabet = ''123456789ABCDEFGHJKLMNPQRSTUVWXYZabcdefghijkmnopqrstuvwxyz''"

definition gmp2bitcoin :: "string \<Rightarrow> string" where
  "gmp2bitcoin s = map (\<lambda>c. case map_of (zip gmp_alphabet bitcoin_alphabet) c of Some x \<Rightarrow> x | None \<Rightarrow> CHR 0xFF) s"

definition bitcoin2gmp :: "string \<Rightarrow> string" where
  "bitcoin2gmp s = map (\<lambda>c. case map_of (zip bitcoin_alphabet gmp_alphabet) c of Some x \<Rightarrow> x | None \<Rightarrow> CHR 0xFF) s"

text \<open>\<open>mpz_class::get_str(58)\<close> and the constructor from a string, which throws on a bad digit.\<close>

definition get_str :: "nat \<Rightarrow> string" where
  "get_str x = (if x = 0 then ''0'' else map (\<lambda>d. gmp_alphabet ! d) (digits_of 58 x))"

definition gmp_digit :: "char \<Rightarrow> nat option" where
  "gmp_digit c = map_of (zip gmp_alphabet [0..<58]) c"

definition parse_gmp :: "string \<Rightarrow> (exn, nat) result" where
  "parse_gmp s =
     (if s \<noteq> [] \<and> list_all (\<lambda>c. gmp_digit c \<noteq> None) s
      then Inr (value_of 58 (map (\<lambda>c. the (gmp_digit c)) s))
      else Inl StdOutOfRange)"

definition mpz_import :: "bytes \<Rightarrow> nat" where
  "mpz_import s = value_of 256 (map unat s)"

definition mpz_export :: "nat \<Rightarrow> bytes" where
  "mpz_export x = map of_nat (digits_of 256 x)"

definition count_first :: "'a \<Rightarrow> 'a list \<Rightarrow> nat" where
  "count_first c s = length (takeWhile (\<lambda>x. x = c) s)"

subsection \<open>Operations\<close>

definition Base58_encode :: "bytes \<Rightarrow> string" where
  "Base58_encode s =
     (let x = mpz_import s; result = gmp2bitcoin (get_str x); pad_size = count_first 0 s
      in if pad_size \<noteq> 0 then replicate pad_size (CHR ''1'') @ result else result)"

definition Base58_decode :: "string \<Rightarrow> (exn, bytes) result" where
  "Base58_decode s =
     bindR (parse_gmp (bitcoin2gmp s)) (\<lambda>x.
       let result = mpz_export x; pad_size = count_first (CHR ''1'') s
       in Inr (if pad_size \<noteq> 0 then replicate pad_size 0 @ result else result))"

definition Base58_encodeWithChecksum :: "crypto_api \<Rightarrow> bytes \<Rightarrow> string" where
  "Base58_encodeWithChecksum c s = Base58_encode (s @ take 4 (sha256 c (sha256 c s)))"

text \<open>For data of fewer than four bytes \<open>length() - 4\<close> wraps and the second \<open>substr\<close> throws.\<close>

definition invalid_checksum :: exn where
  "invalid_checksum = PrivmxExn \<lparr>pe_msg = ''Invalid base58 checksum'', pe_type = LIBRARY, pe_code = 0\<rparr>"

definition Base58_decodeWithChecksum :: "crypto_api \<Rightarrow> string \<Rightarrow> (exn, bytes) result" where
  "Base58_decodeWithChecksum c s =
     bindR (Base58_decode s) (\<lambda>d.
     bindR (substr StdOutOfRange d 0 (usub64 (length d) 4)) (\<lambda>payload.
     bindR (substr1 StdOutOfRange d (usub64 (length d) 4)) (\<lambda>checksum.
       if checksum \<noteq> take 4 (sha256 c (sha256 c payload)) then Inl invalid_checksum else Inr payload)))"

text \<open>The regular expression \<open>^[A-HJ-NP-Za-km-z1-9]*={0,2}$\<close>.\<close>

definition Base58_is :: "string \<Rightarrow> bool" where
  "Base58_is s =
     (let body = dropWhile (\<lambda>c. c = CHR ''='') (rev s)
      in list_all (\<lambda>c. c \<in> set bitcoin_alphabet) body \<and> length s - length body \<le> 2)"

subsection \<open>Round trip\<close>

lemma alphabets_distinct: "distinct gmp_alphabet" "distinct bitcoin_alphabet"
  "length gmp_alphabet = 58" "length bitcoin_alphabet = 58"
  by (simp_all add: gmp_alphabet_def bitcoin_alphabet_def)

lemma map_of_zip_index:
  "distinct xs \<Longrightarrow> length xs = length ys \<Longrightarrow> i < length xs \<Longrightarrow> map_of (zip xs ys) (xs ! i) = Some (ys ! i)"
  by (simp add: map_of_zip_nth)

lemma gmp_digit_nth: "i < 58 \<Longrightarrow> gmp_digit (gmp_alphabet ! i) = Some i"
  using map_of_zip_index [of gmp_alphabet "[0..<58]" i] by (simp add: gmp_digit_def alphabets_distinct)

lemma gmp2bitcoin_digits:
  "list_all (\<lambda>d. d < 58) ds \<Longrightarrow> gmp2bitcoin (map (\<lambda>d. gmp_alphabet ! d) ds) = map (\<lambda>d. bitcoin_alphabet ! d) ds"
  by (auto simp: gmp2bitcoin_def list_all_iff alphabets_distinct map_of_zip_index [of gmp_alphabet bitcoin_alphabet])

lemma bitcoin2gmp_digits:
  "list_all (\<lambda>d. d < 58) ds \<Longrightarrow> bitcoin2gmp (map (\<lambda>d. bitcoin_alphabet ! d) ds) = map (\<lambda>d. gmp_alphabet ! d) ds"
  by (auto simp: bitcoin2gmp_def list_all_iff alphabets_distinct map_of_zip_index [of bitcoin_alphabet gmp_alphabet])

lemma parse_gmp_digits:
  "list_all (\<lambda>d. d < 58) ds \<Longrightarrow> ds \<noteq> [] \<Longrightarrow> parse_gmp (map (\<lambda>d. gmp_alphabet ! d) ds) = Inr (value_of 58 ds)"
  by (auto simp: parse_gmp_def list_all_iff gmp_digit_nth comp_def intro!: arg_cong [of _ _ "value_of 58"] map_idI)

text \<open>The digits of an encoding: leading zeros, then the digits of the number, at least one.\<close>

definition encoded_digits :: "bytes \<Rightarrow> nat list" where
  "encoded_digits s = replicate (count_first 0 s) 0 @ (if mpz_import s = 0 then [0] else digits_of 58 (mpz_import s))"

lemma encoded_digits_bounded: "list_all (\<lambda>d. d < 58) (encoded_digits s)"
  by (auto simp: encoded_digits_def list_all_iff dest: digits_bounded)

lemma bitcoin_one: "bitcoin_alphabet ! 0 = CHR ''1''" and gmp_zero: "gmp_alphabet ! 0 = CHR ''0''"
  by (simp_all add: bitcoin_alphabet_def gmp_alphabet_def)

lemma encode_digits: "Base58_encode s = map (\<lambda>d. bitcoin_alphabet ! d) (encoded_digits s)"
proof -
  let ?n = "if mpz_import s = 0 then [0] else digits_of 58 (mpz_import s)"
  have "get_str (mpz_import s) = map (\<lambda>d. gmp_alphabet ! d) ?n"
    by (simp add: get_str_def gmp_zero)
  moreover have "list_all (\<lambda>d. d < 58) ?n" by (auto simp: list_all_iff dest: digits_bounded)
  ultimately have "gmp2bitcoin (get_str (mpz_import s)) = map (\<lambda>d. bitcoin_alphabet ! d) ?n"
    by (simp only: gmp2bitcoin_digits)
  then show ?thesis by (simp add: Base58_encode_def encoded_digits_def Let_def bitcoin_one)
qed

lemma bitcoin_nth_one: "d < 58 \<Longrightarrow> bitcoin_alphabet ! d = CHR ''1'' \<longleftrightarrow> d = 0"
  using nth_eq_iff_index_eq [OF alphabets_distinct(2), of d 0] by (simp add: alphabets_distinct bitcoin_one)

lemma count_ones: "list_all (\<lambda>d. d < 58) ds \<Longrightarrow> count_first (CHR ''1'') (map (\<lambda>d. bitcoin_alphabet ! d) ds) = count_first 0 ds"
  by (induction ds) (simp_all add: count_first_def bitcoin_nth_one)

lemma count_first_replicate: "count_first x (replicate k x @ ys) = k + count_first x ys"
  by (induction k) (simp_all add: count_first_def)

lemma decode_encode_eq:
  "Base58_decode (Base58_encode s) =
     Inr (replicate (count_first 0 s + (if mpz_import s = 0 then 1 else 0)) 0 @ mpz_export (mpz_import s))"
proof -
  have ne: "encoded_digits s \<noteq> []" by (simp add: encoded_digits_def)
  have val: "value_of 58 (encoded_digits s) = mpz_import s"
    by (simp add: encoded_digits_def) (simp add: value_of_def)
  have "0 < mpz_import s \<Longrightarrow> count_first 0 (digits_of 58 (mpz_import s)) = 0"
    using digits_hd_pos [of 58 "mpz_import s"] by (cases "digits_of 58 (mpz_import s)") (auto simp: count_first_def)
  then have cnt: "count_first 0 (encoded_digits s) = count_first 0 s + (if mpz_import s = 0 then 1 else 0)"
    by (auto simp: encoded_digits_def count_first_replicate) (simp_all add: count_first_def)
  show ?thesis
    unfolding Base58_decode_def encode_digits bitcoin2gmp_digits [OF encoded_digits_bounded]
      parse_gmp_digits [OF encoded_digits_bounded ne] bindR_Inr val count_ones [OF encoded_digits_bounded] cnt Let_def
    by simp
qed

text \<open>The bytes behind the leading zeros are the bytes of the number.\<close>

lemma split_zeros: "s = replicate (count_first 0 s) 0 @ dropWhile (\<lambda>b. b = 0) s"
  by (induction s) (simp_all add: count_first_def)

lemma import_split: "mpz_import s = value_of 256 (map unat (dropWhile (\<lambda>b. b = 0) s))"
  by (subst split_zeros) (simp add: mpz_import_def)

lemma export_import: "mpz_export (mpz_import s) = dropWhile (\<lambda>b. b = 0) s"
proof -
  let ?t = "dropWhile (\<lambda>b. b = 0) s"
  have "\<forall>d \<in> set (map unat ?t). d < 256"
    using unsigned_less [where 'b = 8 and 'a = nat] by auto
  moreover have "0 < hd (map unat ?t)" if "map unat ?t \<noteq> []"
    using hd_dropWhile [of "\<lambda>b. b = 0" s] that by (simp add: hd_map unat_gt_0)
  ultimately have "digits_of 256 (mpz_import s) = map unat ?t"
    unfolding import_split by (intro digits_value) auto
  then show ?thesis by (simp add: mpz_export_def comp_def)
qed

lemma import_eq_0: "mpz_import s = 0 \<longleftrightarrow> (\<forall>b \<in> set s. b = 0)"
proof -
  have "mpz_import s = 0 \<longleftrightarrow> dropWhile (\<lambda>b. b = 0) s = []"
    using export_import [of s] value_digits [of 256 "mpz_import s"]
    by (metis digits_of_0 digits_of_eq_Nil list.map_disc_iff mpz_export_def one_less_numeral_iff semiring_norm(76))
  then show ?thesis by (simp add: dropWhile_eq_Nil_conv)
qed

lemma decode_encode:
  "Base58_decode (Base58_encode s) = Inr (if \<forall>b \<in> set s. b = 0 then s @ [0] else s)"
proof (cases "\<forall>b \<in> set s. b = 0")
  case True
  then have "s = replicate (length s) 0" by (simp add: list_eq_iff_nth_eq)
  moreover have "count_first 0 s = length s" using True by (induction s) (simp_all add: count_first_def)
  moreover have "mpz_import s = 0" using True by (simp add: import_eq_0)
  ultimately show ?thesis
    using True replicate_append_same [of "length s" "0 :: byte"]
    by (simp add: decode_encode_eq mpz_export_def)
next
  case False
  then have "mpz_import s \<noteq> 0" by (simp add: import_eq_0)
  then show ?thesis
    using False split_zeros [of s] by (simp add: decode_encode_eq export_import)
qed

subsection \<open>Properties\<close>

text \<open>
  Base58 text represents every byte string that has a nonzero byte: decoding an encoding
  returns it. A string of \<open>n\<close> zero bytes, the empty one included, comes back with one zero byte
  more, because the number zero is written as a digit of its own.
\<close>

theorem Base58_roundtrip:
  "Base58_decode (Base58_encode s) = Inr (if \<forall>b \<in> set s. b = 0 then s @ [0] else s)"
  by (rule decode_encode)

theorem Base58_roundtrip_witness:
  "Base58_decode (Base58_encode [0, 7]) = Inr [0, 7] \<and> Base58_decode (Base58_encode []) = Inr [0]"
  using Base58_roundtrip [of "[0, 7]"] Base58_roundtrip [of "[]"] by simp_all

text \<open>The digests are 32 bytes long.\<close>

definition sha256_ok :: "crypto_api \<Rightarrow> bool" where
  "sha256_ok c \<longleftrightarrow> (\<forall>m. length (sha256 c m) = 32)"

lemma sample_sha256_ok: "sha256_ok sample_crypto"
  by (simp add: sha256_ok_def sample_crypto_def sum_hash_def)

lemma decodeWithChecksum_accepts:
  assumes "Base58_decodeWithChecksum c t = Inr p" and "sha256_ok c"
  shows "Base58_decode t = Inr (p @ take 4 (sha256 c (sha256 c p)))"
proof -
  from assms(1) obtain d where d: "Base58_decode t = Inr d" "usub64 (length d) 4 \<le> length d"
    "p = take (usub64 (length d) 4) d" "drop (usub64 (length d) 4) d = take 4 (sha256 c (sha256 c p))"
    by (auto simp: Base58_decodeWithChecksum_def bindR_eq_Inr substr_def substr1_def split: if_splits)
  then show ?thesis by (metis append_take_drop_id)
qed

lemma checksum_decode:
  assumes "sha256_ok c" and "length s + 4 < 2 ^ 64"
    and "Base58_decode t = Inr (s @ take 4 (sha256 c (sha256 c s)))"
  shows "Base58_decodeWithChecksum c t = Inr s"
proof -
  let ?d = "s @ take 4 (sha256 c (sha256 c s))"
  have len: "length ?d = length s + 4" using assms(1) by (simp add: sha256_ok_def)
  then have "usub64 (length ?d) 4 = length s" using assms(2) by (simp add: usub64_id)
  then show ?thesis using len by (simp add: Base58_decodeWithChecksum_def assms(3))
qed

text \<open>
  Text with a checksum: \<open>decodeWithChecksum\<close> inverts \<open>encodeWithChecksum\<close> for every payload
  that has a nonzero byte, and it accepts a text only if the text decodes to a payload followed
  by the first four bytes of the double digest of that payload.
\<close>

theorem Base58_checksum_roundtrip:
  assumes "sha256_ok c"
  shows "(list_ex (\<lambda>b. b \<noteq> 0) s \<longrightarrow> length s + 4 < 2 ^ 64 \<longrightarrow>
      Base58_decodeWithChecksum c (Base58_encodeWithChecksum c s) = Inr s) \<and>
    (Base58_decodeWithChecksum c t = Inr p \<longrightarrow> Base58_decode t = Inr (p @ take 4 (sha256 c (sha256 c p))))"
proof (intro conjI impI)
  assume "list_ex (\<lambda>b. b \<noteq> 0) s" and len: "length s + 4 < 2 ^ 64"
  then have "Base58_decode (Base58_encodeWithChecksum c s) = Inr (s @ take 4 (sha256 c (sha256 c s)))"
    by (auto simp: Base58_encodeWithChecksum_def decode_encode list_ex_iff)
  then show "Base58_decodeWithChecksum c (Base58_encodeWithChecksum c s) = Inr s"
    by (rule checksum_decode [OF assms len])
qed (rule decodeWithChecksum_accepts [OF _ assms])

theorem Base58_checksum_roundtrip_witness:
  "Base58_decodeWithChecksum sample_crypto (Base58_encodeWithChecksum sample_crypto [0, 1, 2]) = Inr [0, 1, 2]"
  using Base58_checksum_roundtrip [OF sample_sha256_ok, of "[0, 1, 2]"] by simp

end
