(* ===== verification/Crypto_Keys.thy ===== *)
theory Crypto_Keys
  imports Crypto_Base58
begin

text \<open>
  Keys and encryption between users: \<open>crypto/base/src/ecc/PrivateKey.cpp\<close>, \<open>PublicKey.cpp\<close> and
  \<open>ECIES.cpp\<close>, \<open>crypto/base/src/EciesEncryptor.cpp\<close> and the exceptions of
  \<open>crypto/CryptoException.hpp\<close>. The elliptic-curve operations behind \<open>class ECC\<close> are computed by
  an external library and are a parameter; \<open>ecc_ok\<close> states what the code relies on.
\<close>

subsection \<open>Exceptions\<close>

datatype (plugins only: code size) CryptoException =
    UnsupportedKeyFormatException
  | EmptyPointException
  | InvalidSignatureSizeException
  | InvalidSignatureHeaderException
  | ECCIsNotInitializedException
  | EmptyBNException
  | WrongMessageSecurityTagException
  | DecryptInvalidKeyLengthException
  | MissingIvException
  | UnknownDecryptionTypeException
  | UnsupportedHashAlgorithmException
  | crypto_NotImplementedException
  | InvalidStrengthException
  | InvalidEntropyException
  | InvalidMnemonicException
  | InvalidChecksumException
  | EncryptInvalidKeyLengthException
  | OnlyHmacSHA256WithIvIsSupportedForAES256CBCException
  | CannotPassIvToDeterministicAES256CBCHmacSHA256Exception
  | XTEAECBEncryptionDoesntSupportHmacAndIvException
  | UnsupportedEncryptionAlgorithmException
  | MissingRequiredSignatureException
  | InvalidFirstByteOfCipherException
  | GivenPrivKeyDoesNotMatchException
  | UnsupportedAlgorithmException
  | UnsupportedVersionException
  | IncorrectParamsException
  | InvalidHandshakeStateException
  | InvalidBNException
  | InvalidM2Exception
  | InvalidVersionException
  | InvalidParentFingerprintException
  | InvalidResultSizeException
  | InvalidNetworkException
  | InvalidCompressionFlagException
  | InvalidWIFPayloadLengthException
  | OpenSSLException
  | PrivmxDriverCryptoException
  | PrivmxDriverEccException
  | GivenPublicKeyDoesNotMatchWithSignatureException
  | ExtKeyDoesNotHoldPrivateKeyException
  | InvalidExtendedKeySizeException

primrec CryptoException_code :: "CryptoException \<Rightarrow> nat" where
  "CryptoException_code UnsupportedKeyFormatException = 0x0001"
| "CryptoException_code EmptyPointException = 0x0002"
| "CryptoException_code InvalidSignatureSizeException = 0x0003"
| "CryptoException_code InvalidSignatureHeaderException = 0x0004"
| "CryptoException_code ECCIsNotInitializedException = 0x0005"
| "CryptoException_code EmptyBNException = 0x0006"
| "CryptoException_code WrongMessageSecurityTagException = 0x0007"
| "CryptoException_code DecryptInvalidKeyLengthException = 0x0008"
| "CryptoException_code MissingIvException = 0x0009"
| "CryptoException_code UnknownDecryptionTypeException = 0x000A"
| "CryptoException_code UnsupportedHashAlgorithmException = 0x000B"
| "CryptoException_code crypto_NotImplementedException = 0x000C"
| "CryptoException_code InvalidStrengthException = 0x000D"
| "CryptoException_code InvalidEntropyException = 0x000E"
| "CryptoException_code InvalidMnemonicException = 0x000F"
| "CryptoException_code InvalidChecksumException = 0x0010"
| "CryptoException_code EncryptInvalidKeyLengthException = 0x0011"
| "CryptoException_code OnlyHmacSHA256WithIvIsSupportedForAES256CBCException = 0x0012"
| "CryptoException_code CannotPassIvToDeterministicAES256CBCHmacSHA256Exception = 0x0013"
| "CryptoException_code XTEAECBEncryptionDoesntSupportHmacAndIvException = 0x0014"
| "CryptoException_code UnsupportedEncryptionAlgorithmException = 0x0015"
| "CryptoException_code MissingRequiredSignatureException = 0x0016"
| "CryptoException_code InvalidFirstByteOfCipherException = 0x0017"
| "CryptoException_code GivenPrivKeyDoesNotMatchException = 0x0018"
| "CryptoException_code UnsupportedAlgorithmException = 0x0019"
| "CryptoException_code UnsupportedVersionException = 0x001A"
| "CryptoException_code IncorrectParamsException = 0x001B"
| "CryptoException_code InvalidHandshakeStateException = 0x001C"
| "CryptoException_code InvalidBNException = 0x001D"
| "CryptoException_code InvalidM2Exception = 0x001E"
| "CryptoException_code InvalidVersionException = 0x001F"
| "CryptoException_code InvalidParentFingerprintException = 0x0020"
| "CryptoException_code InvalidResultSizeException = 0x0022"
| "CryptoException_code InvalidNetworkException = 0x0023"
| "CryptoException_code InvalidCompressionFlagException = 0x0024"
| "CryptoException_code InvalidWIFPayloadLengthException = 0x0025"
| "CryptoException_code OpenSSLException = 0x0026"
| "CryptoException_code PrivmxDriverCryptoException = 0x0027"
| "CryptoException_code PrivmxDriverEccException = 0x0028"
| "CryptoException_code GivenPublicKeyDoesNotMatchWithSignatureException = 0x0029"
| "CryptoException_code ExtKeyDoesNotHoldPrivateKeyException = 0x002A"
| "CryptoException_code InvalidExtendedKeySizeException = 0x002B"

text \<open>\<open>DECLARE_PRIVMX_EXCEPTION\<close>: the base class \<open>CryptoException\<close> has the first half \<open>0x00A1\<close>.\<close>

definition crypto_exn :: "CryptoException \<Rightarrow> exn" where
  "crypto_exn e = PrivmxExn \<lparr>pe_msg = ''Crypto exception'', pe_type = LIBRARY,
     pe_code = int (endpoint_code 0x00A1 (CryptoException_code e))\<rparr>"

subsection \<open>The curve\<close>

record 'k ecc_api =
  ecc_fromPrivateKey :: "bytes \<Rightarrow> (exn, 'k) result"
  ecc_fromPublicKey :: "bytes \<Rightarrow> (exn, 'k) result"
  ecc_getPrivateKey :: "'k \<Rightarrow> bytes"
  ecc_getPublicKey :: "'k \<Rightarrow> bytes"
  ecc_sign :: "'k \<Rightarrow> bytes \<Rightarrow> bytes"
  ecc_verify :: "'k \<Rightarrow> bytes \<Rightarrow> bytes \<Rightarrow> bool"
  ecc_derive :: "'k \<Rightarrow> 'k \<Rightarrow> bytes"
  ecc_sha512 :: "bytes \<Rightarrow> bytes"
  ecc_hash160 :: "bytes \<Rightarrow> bytes"

text \<open>\<open>Utils::fillTo32\<close>.\<close>

definition fillTo32 :: "bytes \<Rightarrow> bytes" where
  "fillTo32 d = (if length d \<ge> 32 then d else replicate (32 - length d) 0 @ d)"

text \<open>
  What the code relies on: a private key is given back by its filled 32 bytes, a public key is 33
  bytes in its compressed form and given back by them, the shared secret of two keys is the same
  from both sides and depends on the public part of the other key only, a signature is verified
  by the public key, and SHA-512 has 64 bytes.
\<close>

definition ecc_ok :: "'k ecc_api \<Rightarrow> bool" where
  "ecc_ok e \<longleftrightarrow>
     (\<forall>k. length (ecc_getPrivateKey e k) \<le> 32) \<and>
     (\<forall>k. length (ecc_getPublicKey e k) = 33) \<and>
     (\<forall>k. \<exists>p. ecc_fromPublicKey e (ecc_getPublicKey e k) = Inr p \<and> ecc_getPublicKey e p = ecc_getPublicKey e k) \<and>
     (\<forall>a b b'. ecc_getPublicKey e b = ecc_getPublicKey e b' \<longrightarrow> ecc_derive e a b = ecc_derive e a b') \<and>
     (\<forall>a b. ecc_derive e a b = ecc_derive e b a) \<and>
     (\<forall>m. length (ecc_sha512 e m) = 64)"

lemma ecc_okD:
  assumes "ecc_ok e"
  shows "length (ecc_getPrivateKey e k) \<le> 32" and "length (ecc_getPublicKey e k) = 33"
    and "\<exists>p. ecc_fromPublicKey e (ecc_getPublicKey e k) = Inr p \<and> ecc_getPublicKey e p = ecc_getPublicKey e k"
    and "ecc_getPublicKey e b = ecc_getPublicKey e b' \<Longrightarrow> ecc_derive e a b = ecc_derive e a b'"
    and "ecc_derive e a b = ecc_derive e b a" and "length (ecc_sha512 e m) = 64"
  using assms unfolding ecc_ok_def by blast+

subsection \<open>\<open>PrivateKey\<close> and \<open>PublicKey\<close>\<close>

definition WIF :: byte where
  "WIF = 0x80"

definition PUB_KEY_HASH :: byte where
  "PUB_KEY_HASH = 0x00"

text \<open>\<open>front()\<close> of an empty payload is the terminating zero byte.\<close>

definition front :: "bytes \<Rightarrow> byte" where
  "front s = (case s of [] \<Rightarrow> 0 | b # _ \<Rightarrow> b)"

definition PrivateKey_fromWIF :: "crypto_api \<Rightarrow> 'k ecc_api \<Rightarrow> string \<Rightarrow> (exn, 'k) result" where
  "PrivateKey_fromWIF c e wif =
     bindR (Base58_decodeWithChecksum c wif) (\<lambda>payload.
       if front payload \<noteq> WIF then Inl (crypto_exn InvalidNetworkException)
       else
         let payload = tl payload
         in if length payload = 33 \<and> last payload \<noteq> 0x01 then Inl (crypto_exn InvalidCompressionFlagException)
            else
              let payload = (if length payload = 33 then butlast payload else payload)
              in if length payload \<noteq> 32 then Inl (crypto_exn InvalidWIFPayloadLengthException)
                 else ecc_fromPrivateKey e payload)"

definition PrivateKey_getPrivateEncKey :: "'k ecc_api \<Rightarrow> 'k \<Rightarrow> bytes" where
  "PrivateKey_getPrivateEncKey e k = fillTo32 (ecc_getPrivateKey e k)"

definition PrivateKey_signToCompactSignature :: "'k ecc_api \<Rightarrow> 'k \<Rightarrow> bytes \<Rightarrow> bytes" where
  "PrivateKey_signToCompactSignature e k message = ecc_sign e k message"

definition PrivateKey_signToCompactSignatureWithHash :: "crypto_api \<Rightarrow> 'k ecc_api \<Rightarrow> 'k \<Rightarrow> bytes \<Rightarrow> bytes" where
  "PrivateKey_signToCompactSignatureWithHash c e k message = PrivateKey_signToCompactSignature e k (sha256 c message)"

definition PrivateKey_derive :: "'k ecc_api \<Rightarrow> 'k \<Rightarrow> 'k \<Rightarrow> bytes" where
  "PrivateKey_derive e k pub = ecc_derive e k pub"

definition PrivateKey_toWIF :: "crypto_api \<Rightarrow> 'k ecc_api \<Rightarrow> 'k \<Rightarrow> string" where
  "PrivateKey_toWIF c e k = Base58_encodeWithChecksum c ([WIF] @ fillTo32 (ecc_getPrivateKey e k) @ [0x01])"

definition PublicKey_fromDER :: "'k ecc_api \<Rightarrow> bytes \<Rightarrow> (exn, 'k) result" where
  "PublicKey_fromDER e der = ecc_fromPublicKey e der"

definition PublicKey_fromBase58DER :: "crypto_api \<Rightarrow> 'k ecc_api \<Rightarrow> string \<Rightarrow> (exn, 'k) result" where
  "PublicKey_fromBase58DER c e base58 = bindR (Base58_decodeWithChecksum c base58) (PublicKey_fromDER e)"

definition PublicKey_eq :: "'k ecc_api \<Rightarrow> 'k \<Rightarrow> 'k \<Rightarrow> bool" where
  "PublicKey_eq e a b \<longleftrightarrow> ecc_getPublicKey e a = ecc_getPublicKey e b"

definition PublicKey_toDER :: "'k ecc_api \<Rightarrow> 'k \<Rightarrow> bytes" where
  "PublicKey_toDER e k = ecc_getPublicKey e k"

definition PublicKey_toBase58DER :: "crypto_api \<Rightarrow> 'k ecc_api \<Rightarrow> 'k \<Rightarrow> string" where
  "PublicKey_toBase58DER c e k = Base58_encodeWithChecksum c (ecc_getPublicKey e k)"

definition PublicKey_toBase58Address :: "crypto_api \<Rightarrow> 'k ecc_api \<Rightarrow> 'k \<Rightarrow> string" where
  "PublicKey_toBase58Address c e k = Base58_encodeWithChecksum c (PUB_KEY_HASH # ecc_hash160 e (ecc_getPublicKey e k))"

definition PublicKey_verifyCompactSignature :: "'k ecc_api \<Rightarrow> 'k \<Rightarrow> bytes \<Rightarrow> bytes \<Rightarrow> bool" where
  "PublicKey_verifyCompactSignature e k message signature = ecc_verify e k message signature"

definition PublicKey_verifyCompactSignatureWithHash :: "crypto_api \<Rightarrow> 'k ecc_api \<Rightarrow> 'k \<Rightarrow> bytes \<Rightarrow> bytes \<Rightarrow> bool" where
  "PublicKey_verifyCompactSignatureWithHash c e k message signature =
     PublicKey_verifyCompactSignature e k (sha256 c message) signature"

subsection \<open>\<open>ECIES\<close> and \<open>EciesEncryptor\<close>\<close>

record ECIES =
  ec_shared_key :: bytes
  ec_private_enc_key :: bytes

definition ECIES_new :: "'k ecc_api \<Rightarrow> 'k \<Rightarrow> 'k \<Rightarrow> ECIES" where
  "ECIES_new e priv pub =
     \<lparr>ec_shared_key = ecc_sha512 e (PrivateKey_derive e priv pub), ec_private_enc_key = PrivateKey_getPrivateEncKey e priv\<rparr>"

definition ECIES_getM :: "ECIES \<Rightarrow> bytes" where
  "ECIES_getM x = take 32 (drop 32 (ec_shared_key x))"

definition ECIES_getE :: "ECIES \<Rightarrow> bytes" where
  "ECIES_getE x = take 32 (ec_shared_key x)"

definition ECIES_encrypt :: "crypto_api \<Rightarrow> ECIES \<Rightarrow> bytes \<Rightarrow> bytes" where
  "ECIES_encrypt c x d =
     (let iv = take 16 (hmacSha256 c (ec_private_enc_key x) d);
          cc = iv @ aes256CbcPkcs7Encrypt c d (ECIES_getE x) iv
      in cc @ take 4 (hmacSha256 c (ECIES_getM x) cc))"

definition ECIES_decrypt :: "crypto_api \<Rightarrow> ECIES \<Rightarrow> bytes \<Rightarrow> (exn, bytes) result" where
  "ECIES_decrypt c x enc_buf =
     bindR (substr StdOutOfRange enc_buf 0 (usub64 (length enc_buf) 4)) (\<lambda>cc.
     bindR (substr StdOutOfRange enc_buf (usub64 (length enc_buf) 4) 4) (\<lambda>d.
       if d \<noteq> take 4 (hmacSha256 c (ECIES_getM x) cc) then Inl (crypto_exn InvalidChecksumException)
       else bindR (substr1 StdOutOfRange cc 16) (\<lambda>body. aes256CbcPkcs7Decrypt c body (ECIES_getE x) (take 16 cc))))"

definition EciesEncryptor_encrypt :: "crypto_api \<Rightarrow> 'k ecc_api \<Rightarrow> 'k \<Rightarrow> bytes \<Rightarrow> 'k \<Rightarrow> bytes" where
  "EciesEncryptor_encrypt c e pub d privForSignature =
     [0x65] @ PublicKey_toDER e privForSignature @ PublicKey_toDER e pub @ ECIES_encrypt c (ECIES_new e privForSignature pub) d"

definition EciesEncryptor_decrypt ::
    "crypto_api \<Rightarrow> 'k ecc_api \<Rightarrow> 'k \<Rightarrow> bytes \<Rightarrow> 'k option \<Rightarrow> (exn, bytes) result" where
  "EciesEncryptor_decrypt c e priv cipher pubOfSignature =
     (if front cipher \<noteq> 101 \<or> length cipher < 67 then Inl (crypto_exn InvalidFirstByteOfCipherException)
      else
        bindR (substr StdOutOfRange cipher 1 33) (\<lambda>external_pub.
        bindR (substr StdOutOfRange cipher 34 33) (\<lambda>my_pub.
        bindR (PublicKey_fromDER e external_pub) (\<lambda>external_pub_ec.
          if (case pubOfSignature of None \<Rightarrow> False | Some p \<Rightarrow> \<not> PublicKey_eq e external_pub_ec p)
          then Inl (crypto_exn GivenPublicKeyDoesNotMatchWithSignatureException)
          else
            bindR (PublicKey_fromDER e my_pub) (\<lambda>my_pub_ec.
              if \<not> PublicKey_eq e my_pub_ec priv then Inl (crypto_exn GivenPrivKeyDoesNotMatchException)
              else bindR (substr1 StdOutOfRange cipher 67) (\<lambda>body.
                   ECIES_decrypt c (ECIES_new e priv external_pub_ec) body))))))"

definition EciesEncryptor_decryptV0 :: "crypto_api \<Rightarrow> 'k ecc_api \<Rightarrow> 'k \<Rightarrow> 'k \<Rightarrow> bytes \<Rightarrow> (exn, bytes) result" where
  "EciesEncryptor_decryptV0 c e priv pub cipher = ECIES_decrypt c (ECIES_new e priv pub) cipher"

subsection \<open>A concrete curve\<close>

text \<open>Keys are single bytes, the shared secret is their product.\<close>

definition sample_ecc :: "byte ecc_api" where
  "sample_ecc =
     \<lparr>ecc_fromPrivateKey = (\<lambda>s. Inr (last s)),
      ecc_fromPublicKey = (\<lambda>s. Inr (last s)),
      ecc_getPrivateKey = (\<lambda>k. [k]),
      ecc_getPublicKey = (\<lambda>k. 2 # replicate 32 k),
      ecc_sign = (\<lambda>k m. replicate 65 k),
      ecc_verify = (\<lambda>k m s. s = replicate 65 k),
      ecc_derive = (\<lambda>a b. [a * b]),
      ecc_sha512 = (\<lambda>m. replicate 64 (fold (+) m 1)),
      ecc_hash160 = (\<lambda>m. take 20 m)\<rparr>"

lemma sample_ecc_ok: "ecc_ok sample_ecc"
  by (auto simp: ecc_ok_def sample_ecc_def mult.commute)

lemma fillTo32_length: "length d \<le> 32 \<Longrightarrow> length (fillTo32 d) = 32"
  by (simp add: fillTo32_def)

subsection \<open>Properties\<close>

text \<open>
  A private key survives its text form: \<open>fromWIF\<close> reads back what \<open>toWIF\<close> wrote, whatever
  the number of bytes (at most 32) the curve library gives for the key.
\<close>

theorem PrivateKey_WIF_roundtrip:
  assumes "sha256_ok c" and "ecc_ok e" and "ecc_fromPrivateKey e (fillTo32 (ecc_getPrivateKey e k)) = Inr k"
  shows "PrivateKey_fromWIF c e (PrivateKey_toWIF c e k) = Inr k"
proof -
  let ?key = "fillTo32 (ecc_getPrivateKey e k)"
  have len: "length ?key = 32" by (rule fillTo32_length [OF ecc_okD(1) [OF assms(2)]])
  have "Base58_decode (PrivateKey_toWIF c e k) = Inr ((WIF # ?key @ [0x01]) @ take 4 (sha256 c (sha256 c (WIF # ?key @ [0x01]))))"
    by (simp add: PrivateKey_toWIF_def Base58_encodeWithChecksum_def decode_encode WIF_def)
  from checksum_decode [OF assms(1) _ this] len
  have "Base58_decodeWithChecksum c (PrivateKey_toWIF c e k) = Inr (WIF # ?key @ [0x01])" by simp
  then show ?thesis using assms(3) len by (simp add: PrivateKey_fromWIF_def front_def Let_def)
qed

theorem PrivateKey_WIF_roundtrip_witness:
  "PrivateKey_fromWIF sample_crypto sample_ecc (PrivateKey_toWIF sample_crypto sample_ecc 7) = Inr 7"
  by (rule PrivateKey_WIF_roundtrip [OF sample_sha256_ok sample_ecc_ok]) (simp add: sample_ecc_def fillTo32_def)

lemma ECIES_new_eq:
  assumes "ecc_ok e" and "ecc_getPublicKey e p = ecc_getPublicKey e a" and "ecc_getPublicKey e q = ecc_getPublicKey e b"
  shows "ec_shared_key (ECIES_new e b p) = ec_shared_key (ECIES_new e a q)"
  using ecc_okD(4) [OF assms(1,2), of b] ecc_okD(4) [OF assms(1,3), of a] ecc_okD(5) [OF assms(1), of a b]
  by (simp add: ECIES_new_def PrivateKey_derive_def)

lemma ECIES_roundtrip:
  assumes "crypto_ok c" and "ec_shared_key x = ec_shared_key y" and "length d < 2 ^ 60"
  shows "ECIES_decrypt c y (ECIES_encrypt c x d) = Inr d"
proof -
  let ?iv = "take 16 (hmacSha256 c (ec_private_enc_key x) d)"
  let ?cc = "?iv @ aes256CbcPkcs7Encrypt c d (ECIES_getE x) ?iv"
  let ?tag = "take 4 (hmacSha256 c (ECIES_getM x) ?cc)"
  have keys: "ECIES_getM y = ECIES_getM x" "ECIES_getE y = ECIES_getE x"
    using assms(2) by (simp_all add: ECIES_getM_def ECIES_getE_def)
  have tag: "length ?tag = 4" and iv: "length ?iv = 16" using assms(1) by (simp_all add: crypto_okD)
  have "length ?cc \<le> 16 + (length d + 16)" using assms(1) by (simp add: crypto_okD)
  then have pos: "usub64 (length (?cc @ ?tag)) 4 = length ?cc"
    using tag assms(3) by (subst usub64_id) auto
  have enc: "ECIES_encrypt c x d = ?cc @ ?tag" by (simp add: ECIES_encrypt_def Let_def)
  have "take 16 ?cc = ?iv" "drop 16 ?cc = aes256CbcPkcs7Encrypt c d (ECIES_getE x) ?iv" "16 \<le> length ?cc"
    using iv by simp_all
  then show ?thesis
    unfolding enc ECIES_decrypt_def keys pos using tag assms(1) by (simp add: crypto_okD)
qed

lemma EciesEncryptor_inverse:
  assumes "crypto_ok c" and "ecc_ok e" and "ecc_getPublicKey e pub = ecc_getPublicKey e priv" and "length d < 2 ^ 60"
  shows "EciesEncryptor_decrypt c e priv (EciesEncryptor_encrypt c e pub d sender) expected =
    (if case expected of None \<Rightarrow> True | Some p \<Rightarrow> ecc_getPublicKey e p = ecc_getPublicKey e sender
     then Inr d else Inl (crypto_exn GivenPublicKeyDoesNotMatchWithSignatureException))"
proof -
  let ?s = "ecc_getPublicKey e sender" and ?p = "ecc_getPublicKey e pub"
  let ?body = "ECIES_encrypt c (ECIES_new e sender pub) d"
  let ?cipher = "[0x65] @ ?s @ ?p @ ?body"
  have len: "length ?s = 33" "length ?p = 33" by (rule ecc_okD(2) [OF assms(2)])+
  obtain sp where sp: "ecc_fromPublicKey e ?s = Inr sp" "ecc_getPublicKey e sp = ?s"
    using ecc_okD(3) [OF assms(2)] by blast
  obtain pp where pp: "ecc_fromPublicKey e ?p = Inr pp" "ecc_getPublicKey e pp = ?p"
    using ecc_okD(3) [OF assms(2)] by blast
  have cut: "take 33 (drop 1 ?cipher) = ?s" "take 33 (drop 34 ?cipher) = ?p" "drop 67 ?cipher = ?body" "67 \<le> length ?cipher"
    using len by simp_all
  have dec: "ECIES_decrypt c (ECIES_new e priv sp) ?body = Inr d"
    by (rule ECIES_roundtrip [OF assms(1) ECIES_new_eq [OF assms(2) sp(2) assms(3), symmetric] assms(4)])
  show ?thesis
    unfolding EciesEncryptor_encrypt_def EciesEncryptor_decrypt_def PublicKey_toDER_def
    using cut sp pp assms(3) dec by (auto simp: front_def PublicKey_fromDER_def PublicKey_eq_def split: option.splits)
qed

text \<open>
  What is encrypted for a user is decrypted by that user and carries its sender: \<open>decrypt\<close>
  with the private key of the addressee returns the data when no sender or the right one is
  expected, and throws when another sender is expected.
\<close>

theorem EciesEncryptor_roundtrip:
  assumes "crypto_ok c" and "ecc_ok e" and "ecc_getPublicKey e pub = ecc_getPublicKey e priv" and "length d < 2 ^ 60"
  shows "EciesEncryptor_decrypt c e priv (EciesEncryptor_encrypt c e pub d sender) expected =
    (if case expected of None \<Rightarrow> True | Some p \<Rightarrow> ecc_getPublicKey e p = ecc_getPublicKey e sender
     then Inr d else Inl (crypto_exn GivenPublicKeyDoesNotMatchWithSignatureException))"
  by (rule EciesEncryptor_inverse [OF assms])

theorem EciesEncryptor_roundtrip_witness:
  "EciesEncryptor_decrypt sample_crypto sample_ecc 5 (EciesEncryptor_encrypt sample_crypto sample_ecc 5 [1, 2, 3] 9) (Some 9)
     = Inr [1, 2, 3] \<and>
   EciesEncryptor_decrypt sample_crypto sample_ecc 5 (EciesEncryptor_encrypt sample_crypto sample_ecc 5 [1, 2, 3] 9) (Some 8)
     = Inl (crypto_exn GivenPublicKeyDoesNotMatchWithSignatureException)"
  using EciesEncryptor_roundtrip [OF sample_crypto_ok sample_ecc_ok, of 5 5 "[1, 2, 3]" 9]
  by (simp add: sample_ecc_def)

text \<open>
  How crypto exceptions reach the caller of the endpoint: every class is converted to the
  endpoint code of its own number, except that \<open>CannotPassIv...\<close> (\<open>0x0013\<close>) is given the
  number of the class after it and \<open>InvalidExtendedKeySizeException\<close> (\<open>0x002B\<close>), which the
  converter does not list, is reported as the unspecific crypto error.
\<close>

theorem CryptoException_converted:
  "getCode (crypto_exn e) = Some (endpoint_code 0xE0A1
     (if e = CannotPassIvToDeterministicAES256CBCHmacSHA256Exception then 0x0014
      else if e = InvalidExtendedKeySizeException then 0 else CryptoException_code e))"
proof -
  have small: "CryptoException_code e < 0x10000" by (cases e) simp_all
  then have code: "endpoint_code 0x00A1 (CryptoException_code e) = 0xA10000 + CryptoException_code e"
    by (simp add: endpoint_code_add)
  let ?c = "0xA10000 + CryptoException_code e"
  have "nat (int ?c mod 2 ^ 32) = ?c" using small by (simp add: nat_mod_distrib)
  moreover have "?c div 0x10000 = 0xA1" "?c mod 0x10000 = CryptoException_code e"
    using endpoint_code_scope [OF small, of "0x00A1"] endpoint_code_low [OF small, of "0x00A1"] by (simp_all add: code)
  ultimately have "getCode (crypto_exn e) = Some (convert_group 0xE0A1 crypto_table (CryptoException_code e))"
    unfolding crypto_exn_def getCode.simps convert_eq_halves PrivmxException.select_convs code
    by (simp add: convert_halves_def)
  also have "convert_group 0xE0A1 crypto_table (CryptoException_code e) = endpoint_code 0xE0A1
     (if e = CannotPassIvToDeterministicAES256CBCHmacSHA256Exception then 0x0014
      else if e = InvalidExtendedKeySizeException then 0 else CryptoException_code e)"
    by (cases e) (simp_all add: convert_group_def crypto_table_def)
  finally show ?thesis .
qed

end
