(* ===== verification/Crypto_Service.thy ===== *)
theory Crypto_Service
  imports Crypto_Keys
begin

text \<open>
  The formats built on the primitives (\<open>crypto/openssl/src/CryptoService.cpp\<close>,
  \<open>crypto/base/src/CryptoPrivmx.cpp\<close>): the key derivation loops, the derivation of an
  encryption and a MAC key, authenticated CBC encryption whose initialisation vector travels as
  the first encrypted block, the typed ciphertexts (\<open>ct...\<close>) and \<open>privmxEncrypt\<close>,
  \<open>privmxDecrypt\<close>. AES, HMAC and the random source stay the parameters of \<open>Crypto_Api\<close>.
\<close>

subsection \<open>Text as bytes\<close>

text \<open>A C++ string holds bytes; identifiers and encoded text are modelled as HOL strings.\<close>

definition bytes_of :: "string \<Rightarrow> bytes" where
  "bytes_of s = map (\<lambda>c. of_nat (of_char c)) s"

definition text_of :: "bytes \<Rightarrow> string" where
  "text_of d = map (\<lambda>b. char_of (unat b)) d"

lemma length_bytes_of [simp]: "length (bytes_of s) = length s"
  by (simp add: bytes_of_def)

lemma bytes_of_append [simp]: "bytes_of (s @ t) = bytes_of s @ bytes_of t"
  by (simp add: bytes_of_def)

lemma of_char_byte: "unat (of_nat (of_char c) :: byte) = of_char c"
proof -
  have "of_char c < (256 :: nat)" by simp
  then show ?thesis by (simp add: unat_of_nat take_bit_nat_eq_self)
qed

lemma text_of_bytes_of [simp]: "text_of (bytes_of s) = s"
  by (simp add: text_of_def bytes_of_def of_char_byte comp_def)

lemma bytes_of_inject [simp]: "bytes_of s = bytes_of t \<longleftrightarrow> s = t"
  by (metis text_of_bytes_of)

text \<open>The four bytes of \<open>ByteOrder::toBigEndian\<close> of a 32-bit value.\<close>

definition be32 :: "nat \<Rightarrow> bytes" where
  "be32 n = map (\<lambda>k. of_nat (u32 n div 256 ^ k)) [3, 2, 1, 0]"

subsection \<open>Key derivation\<close>

text \<open>
  Both loops append a 32-byte digest until the requested length is reached. They run on a budget
  of iterations, the requested length, which is enough because every digest is at least one byte.
\<close>

fun prf_loop :: "nat \<Rightarrow> crypto_api \<Rightarrow> bytes \<Rightarrow> bytes \<Rightarrow> nat \<Rightarrow> bytes \<Rightarrow> bytes \<Rightarrow> bytes" where
  "prf_loop 0 c key seed n a result = result"
| "prf_loop (Suc fuel) c key seed n a result =
     (if length result < n then
        (let a' = hmacSha256 c key a;
             d = hmacSha256 c key (a' @ seed)
         in prf_loop fuel c key seed n a' (result @ d))
      else result)"

definition prf_tls12 :: "crypto_api \<Rightarrow> bytes \<Rightarrow> bytes \<Rightarrow> nat \<Rightarrow> bytes" where
  "prf_tls12 c key seed n = take n (prf_loop n c key seed n seed [])"

fun kdf_loop :: "nat \<Rightarrow> crypto_api \<Rightarrow> bytes \<Rightarrow> bytes \<Rightarrow> nat \<Rightarrow> bytes \<Rightarrow> nat \<Rightarrow> bytes \<Rightarrow> bytes" where
  "kdf_loop 0 c key seed n k i result = result"
| "kdf_loop (Suc fuel) c key seed n k i result =
     (if length result < n then
        (let k' = hmacSha256 c key (k @ be32 i @ seed)
         in kdf_loop fuel c key seed n k' (u32 (i + 1)) (result @ k'))
      else result)"

definition kdf :: "crypto_api \<Rightarrow> nat \<Rightarrow> bytes \<Rightarrow> bytes \<Rightarrow> bytes" where
  "kdf c n key label = take n (kdf_loop n c key (label @ [0] @ be32 n) n [] 1 [])"

definition getKEM :: "crypto_api \<Rightarrow> bytes \<Rightarrow> nat \<Rightarrow> nat \<Rightarrow> bytes \<times> bytes" where
  "getKEM c key kelen kmlen =
     (let kEM = kdf c (kelen + kmlen) key (bytes_of ''key expansion'') in (take kelen kEM, drop kelen kEM))"

subsection \<open>Authenticated encryption\<close>

definition aes256CbcHmac256Encrypt :: "crypto_api \<Rightarrow> bytes \<Rightarrow> bytes \<Rightarrow> bytes \<Rightarrow> nat \<Rightarrow> bytes" where
  "aes256CbcHmac256Encrypt c data key32 iv taglen =
     (let (kE, kM) = getKEM c key32 32 32;
          iv = (if iv = [] then hmacSha256 c key32 data else iv);
          cipher = aes256CbcPkcs7Encrypt c (replicate 16 0 @ data) kE (take 16 iv);
          tag = take taglen (hmacSha256 c kM cipher)
      in cipher @ tag)"

text \<open>
  \<open>data.substr(data.length() - taglen)\<close> of a shorter string starts past its end, so it throws
  \<open>std::out_of_range\<close>.
\<close>

definition aes256CbcHmac256Decrypt :: "crypto_api \<Rightarrow> bytes \<Rightarrow> bytes \<Rightarrow> nat \<Rightarrow> (exn, bytes) result" where
  "aes256CbcHmac256Decrypt c data key32 taglen =
     (let (kE, kM) = getKEM c key32 32 32 in
      if length data < taglen then Inl StdOutOfRange
      else
        let tag = drop (length data - taglen) data;
            data = take (length data - taglen) data;
            rtag = take taglen (hmacSha256 c kM data)
        in if tag \<noteq> rtag then Inl (crypto_exn WrongMessageSecurityTagException)
           else bindR (substr1 StdOutOfRange data 16) (\<lambda>rest. aes256CbcPkcs7Decrypt c rest kE (take 16 data)))"

subsection \<open>Typed ciphertexts\<close>

definition AES_256_CBC_PKCS7_NO_IV :: byte where
  "AES_256_CBC_PKCS7_NO_IV = 1"

definition AES_256_CBC_PKCS7_WITH_IV :: byte where
  "AES_256_CBC_PKCS7_WITH_IV = 2"

definition XTEA_ECB_PKCS7 :: byte where
  "XTEA_ECB_PKCS7 = 3"

definition AES_256_CBC_PKCS7_WITH_IV_AND_HMAC_SHA256 :: byte where
  "AES_256_CBC_PKCS7_WITH_IV_AND_HMAC_SHA256 = 4"

lemmas cipher_type_defs =
  AES_256_CBC_PKCS7_NO_IV_def AES_256_CBC_PKCS7_WITH_IV_def XTEA_ECB_PKCS7_def
  AES_256_CBC_PKCS7_WITH_IV_AND_HMAC_SHA256_def

definition ctAes256CbcPkcs7NoIv :: "crypto_api \<Rightarrow> bytes \<Rightarrow> bytes \<Rightarrow> bytes \<Rightarrow> bytes" where
  "ctAes256CbcPkcs7NoIv c data key iv = AES_256_CBC_PKCS7_NO_IV # aes256CbcPkcs7Encrypt c data key iv"

definition ctAes256CbcPkcs7WithIv :: "crypto_api \<Rightarrow> bytes \<Rightarrow> bytes \<Rightarrow> bytes \<Rightarrow> bytes" where
  "ctAes256CbcPkcs7WithIv c data key iv =
     AES_256_CBC_PKCS7_WITH_IV # iv @ aes256CbcPkcs7Encrypt c data key iv"

definition ctAes256CbcPkcs7WithIvAndHmacSha256 ::
    "crypto_api \<Rightarrow> bytes \<Rightarrow> bytes \<Rightarrow> bytes \<Rightarrow> nat \<Rightarrow> bytes" where
  "ctAes256CbcPkcs7WithIvAndHmacSha256 c data key iv taglen =
     AES_256_CBC_PKCS7_WITH_IV_AND_HMAC_SHA256 # aes256CbcHmac256Encrypt c data key iv taglen"

definition ctDecrypt :: "crypto_api \<Rightarrow> bytes \<Rightarrow> bytes \<Rightarrow> bytes \<Rightarrow> nat \<Rightarrow> (exn, bytes) result" where
  "ctDecrypt c data key32 iv16 taglen =
     (if length key32 \<noteq> 32 then Inl (crypto_exn DecryptInvalidKeyLengthException)
      else if front data = AES_256_CBC_PKCS7_NO_IV then
        (if iv16 = [] then Inl (crypto_exn MissingIvException)
         else bindR (substr1 StdOutOfRange data 1) (\<lambda>d. aes256CbcPkcs7Decrypt c d key32 iv16))
      else if front data = AES_256_CBC_PKCS7_WITH_IV then
        bindR (substr1 StdOutOfRange data 17) (\<lambda>d.
        bindR (substr StdOutOfRange data 1 16) (\<lambda>iv. aes256CbcPkcs7Decrypt c d key32 iv))
      else if front data = XTEA_ECB_PKCS7 then Inl (crypto_exn crypto_NotImplementedException)
      else if front data = AES_256_CBC_PKCS7_WITH_IV_AND_HMAC_SHA256 then
        bindR (substr1 StdOutOfRange data 1) (\<lambda>d. aes256CbcHmac256Decrypt c d key32 taglen)
      else Inl (crypto_exn UnknownDecryptionTypeException))"

subsection \<open>\<open>CryptoPrivmx\<close>\<close>

datatype algorithm = AES_256_CBC | XTEA_ECB

datatype hmac_kind = NO_HMAC | SHA_256

record PrivmxEncryptOptions =
  eo_algorithm :: algorithm
  eo_attachIv :: bool
  eo_hmac :: hmac_kind
  eo_deterministic :: bool
  eo_taglen :: nat

definition privmxOptAesWithSignature :: PrivmxEncryptOptions where
  "privmxOptAesWithSignature =
     \<lparr>eo_algorithm = AES_256_CBC, eo_attachIv = True, eo_hmac = SHA_256, eo_deterministic = False, eo_taglen = 16\<rparr>"

definition privmxOptAesWithDettachedIv :: PrivmxEncryptOptions where
  "privmxOptAesWithDettachedIv =
     \<lparr>eo_algorithm = AES_256_CBC, eo_attachIv = False, eo_hmac = NO_HMAC, eo_deterministic = False, eo_taglen = 16\<rparr>"

definition privmxOptAesWithAttachedIv :: PrivmxEncryptOptions where
  "privmxOptAesWithAttachedIv =
     \<lparr>eo_algorithm = AES_256_CBC, eo_attachIv = True, eo_hmac = NO_HMAC, eo_deterministic = False, eo_taglen = 16\<rparr>"

text \<open>The remainder of an \<open>int\<close> has the sign of the dividend.\<close>

definition crem :: "int \<Rightarrow> int \<Rightarrow> int" where
  "crem a b = (if a < 0 then - (- a mod b) else a mod b)"

definition privmxGetBlockSize :: "PrivmxEncryptOptions \<Rightarrow> int \<Rightarrow> int" where
  "privmxGetBlockSize opts block_size =
     (let sz = block_size - 1;
          sz = (if eo_attachIv opts then sz - 16 else sz);
          sz = (if eo_hmac opts \<noteq> NO_HMAC then sz - int (eo_taglen opts) else sz)
      in sz - crem sz 16 - 1)"

text \<open>An empty \<open>iv\<close> is drawn from the random source, as draw number \<open>draws\<close>; every draw is counted.\<close>

definition fresh_iv :: "crypto_api \<Rightarrow> bytes \<Rightarrow> nat \<Rightarrow> bytes \<times> nat" where
  "fresh_iv c iv draws = (if iv = [] then (randomBytes c draws 16, draws + 1) else (iv, draws))"

definition privmxEncrypt ::
    "crypto_api \<Rightarrow> PrivmxEncryptOptions \<Rightarrow> bytes \<Rightarrow> bytes \<Rightarrow> bytes \<Rightarrow> (exn, nat, bytes) op" where
  "privmxEncrypt c opts data key iv draws =
     (if length key \<noteq> 32 then (Inl (crypto_exn EncryptInvalidKeyLengthException), draws)
      else if eo_algorithm opts = AES_256_CBC then
        (if eo_hmac opts \<noteq> NO_HMAC \<and> (eo_hmac opts \<noteq> SHA_256 \<or> \<not> eo_attachIv opts) then
           (Inl (crypto_exn OnlyHmacSHA256WithIvIsSupportedForAES256CBCException), draws)
         else if eo_hmac opts \<noteq> NO_HMAC \<and> eo_deterministic opts \<and> eo_attachIv opts then
           (Inl (crypto_exn CannotPassIvToDeterministicAES256CBCHmacSHA256Exception), draws)
         else
           let (iv, draws) = fresh_iv c iv draws in
           if eo_hmac opts \<noteq> NO_HMAC \<and> \<not> eo_deterministic opts then
             (Inr (ctAes256CbcPkcs7WithIvAndHmacSha256 c data key iv (eo_taglen opts)), draws)
           else if eo_attachIv opts then (Inr (ctAes256CbcPkcs7WithIv c data key iv), draws)
           else (Inr (ctAes256CbcPkcs7NoIv c data key iv), draws))
      else if eo_hmac opts \<noteq> NO_HMAC \<or> iv \<noteq> [] \<or> eo_attachIv opts then
        (Inl (crypto_exn XTEAECBEncryptionDoesntSupportHmacAndIvException), draws)
      else (Inl (crypto_exn crypto_NotImplementedException), draws))"

definition privmxDecrypt ::
    "crypto_api \<Rightarrow> bool \<Rightarrow> bytes \<Rightarrow> bytes \<Rightarrow> bytes \<Rightarrow> nat \<Rightarrow> (exn, bytes) result" where
  "privmxDecrypt c is_signed data key32 iv16 taglen =
     (if is_signed \<and> front data \<noteq> AES_256_CBC_PKCS7_WITH_IV_AND_HMAC_SHA256
      then Inl (crypto_exn MissingRequiredSignatureException)
      else ctDecrypt c data key32 iv16 taglen)"

subsection \<open>The derived keys\<close>

text \<open>
  The reference: the digests of feedback mode, \<open>K(i) = HMAC(key, K(i-1) || i || seed)\<close>, and of
  the TLS 1.2 function \<open>P_hash\<close>, \<open>A(i) = HMAC(key, A(i-1))\<close> with \<open>HMAC(key, A(i) || seed)\<close>.
\<close>

primrec kdf_block :: "crypto_api \<Rightarrow> bytes \<Rightarrow> bytes \<Rightarrow> nat \<Rightarrow> bytes" where
  "kdf_block c key seed 0 = []"
| "kdf_block c key seed (Suc i) = hmacSha256 c key (kdf_block c key seed i @ be32 (Suc i) @ seed)"

primrec prf_a :: "crypto_api \<Rightarrow> bytes \<Rightarrow> bytes \<Rightarrow> nat \<Rightarrow> bytes" where
  "prf_a c key seed 0 = seed"
| "prf_a c key seed (Suc i) = hmacSha256 c key (prf_a c key seed i)"

definition kdf_stream :: "crypto_api \<Rightarrow> bytes \<Rightarrow> bytes \<Rightarrow> nat \<Rightarrow> bytes" where
  "kdf_stream c key seed m = concat (map (\<lambda>i. kdf_block c key seed (Suc i)) [0..<m])"

definition prf_stream :: "crypto_api \<Rightarrow> bytes \<Rightarrow> bytes \<Rightarrow> nat \<Rightarrow> bytes" where
  "prf_stream c key seed m = concat (map (\<lambda>i. hmacSha256 c key (prf_a c key seed (Suc i) @ seed)) [0..<m])"

lemma length_digest_stream:
  "crypto_ok c \<Longrightarrow> length (concat (map (\<lambda>i. hmacSha256 c key (f i)) [0..<m])) = 32 * m"
  by (induction m) (simp_all add: length_hmacSha256)

lemma length_kdf_stream: "crypto_ok c \<Longrightarrow> length (kdf_stream c key seed m) = 32 * m"
  by (simp add: kdf_stream_def length_digest_stream)

lemma length_prf_stream: "crypto_ok c \<Longrightarrow> length (prf_stream c key seed m) = 32 * m"
  by (simp add: prf_stream_def length_digest_stream)

definition blocks_for :: "nat \<Rightarrow> nat" where
  "blocks_for n = (n + 31) div 32"

lemma blocks_for_le: "m \<le> blocks_for n \<Longrightarrow> 32 * m < n \<Longrightarrow> m < blocks_for n"
  and blocks_for_done: "m \<le> blocks_for n \<Longrightarrow> \<not> 32 * m < n \<Longrightarrow> m = blocks_for n"
  and blocks_for_self: "n \<le> 32 * blocks_for n" and blocks_for_fuel: "blocks_for n \<le> n"
  unfolding blocks_for_def by linarith+

lemma kdf_loop_stream:
  assumes "crypto_ok c" and "blocks_for n < 2 ^ 32 - 1" and "m \<le> blocks_for n" and "blocks_for n - m \<le> fuel"
  shows "kdf_loop fuel c key seed n (kdf_block c key seed m) (Suc m) (kdf_stream c key seed m)
    = kdf_stream c key seed (blocks_for n)"
  using assms(3,4)
proof (induction fuel arbitrary: m)
  case 0
  then show ?case by simp
next
  case (Suc fuel)
  show ?case
  proof (cases "32 * m < n")
    case True
    then have m: "m < blocks_for n" using Suc.prems by (simp add: blocks_for_le)
    then have "u32 (Suc m + 1) = Suc (Suc m)" using assms(2) by (simp add: u32_def)
    moreover have "kdf_stream c key seed m @ kdf_block c key seed (Suc m) = kdf_stream c key seed (Suc m)"
      by (simp add: kdf_stream_def)
    ultimately show ?thesis
      using True m Suc.IH [of "Suc m"] Suc.prems assms(1) by (simp add: length_kdf_stream Let_def)
  next
    case False
    then have "m = blocks_for n" using Suc.prems by (simp add: blocks_for_done)
    then show ?thesis using False assms(1) by (simp add: length_kdf_stream)
  qed
qed

lemma prf_loop_stream:
  assumes "crypto_ok c" and "m \<le> blocks_for n" and "blocks_for n - m \<le> fuel"
  shows "prf_loop fuel c key seed n (prf_a c key seed m) (prf_stream c key seed m)
    = prf_stream c key seed (blocks_for n)"
  using assms(2,3)
proof (induction fuel arbitrary: m)
  case 0
  then show ?case by simp
next
  case (Suc fuel)
  show ?case
  proof (cases "32 * m < n")
    case True
    then have m: "m < blocks_for n" using Suc.prems by (simp add: blocks_for_le)
    moreover have "prf_stream c key seed m @ hmacSha256 c key (prf_a c key seed (Suc m) @ seed)
      = prf_stream c key seed (Suc m)"
      by (simp add: prf_stream_def)
    ultimately show ?thesis
      using True Suc.IH [of "Suc m"] Suc.prems assms(1) by (simp add: length_prf_stream Let_def)
  next
    case False
    then have "m = blocks_for n" using Suc.prems by (simp add: blocks_for_done)
    then show ?thesis using False assms(1) by (simp add: length_prf_stream)
  qed
qed

lemma kdf_eq:
  assumes "crypto_ok c" and "n < 2 ^ 36"
  shows "kdf c n key label = take n (kdf_stream c key (label @ [0] @ be32 n) (blocks_for n))"
proof -
  have "blocks_for n < 2 ^ 32 - 1" using assms(2) by (simp add: blocks_for_def)
  from kdf_loop_stream [OF assms(1) this, of 0 n key "label @ [0] @ be32 n"] show ?thesis
    using blocks_for_fuel [of n] by (simp add: kdf_def kdf_stream_def)
qed

lemma prf_tls12_eq:
  assumes "crypto_ok c"
  shows "prf_tls12 c key seed n = take n (prf_stream c key seed (blocks_for n))"
  using prf_loop_stream [OF assms, of 0 n n key seed] blocks_for_fuel [of n]
  by (simp add: prf_tls12_def prf_stream_def)

lemma length_kdf: "crypto_ok c \<Longrightarrow> n < 2 ^ 36 \<Longrightarrow> length (kdf c n key label) = n"
  using blocks_for_self [of n] by (simp add: kdf_eq length_kdf_stream)

subsection \<open>Ciphertexts\<close>

text \<open>
  What authenticated encryption relies on beyond \<open>crypto_ok\<close>: the chaining of CBC. Encrypting a
  block of zeros first yields a block that serves as the initialisation vector of the rest.
\<close>

definition cbc_chaining :: "crypto_api \<Rightarrow> bool" where
  "cbc_chaining c \<longleftrightarrow>
     (\<forall>d k iv. aes256CbcPkcs7Encrypt c (replicate 16 0 @ d) k iv =
        take 16 (aes256CbcPkcs7Encrypt c (replicate 16 0 @ d) k iv) @
        aes256CbcPkcs7Encrypt c d k (take 16 (aes256CbcPkcs7Encrypt c (replicate 16 0 @ d) k iv)))"

lemma sample_cbc_chaining: "cbc_chaining sample_crypto"
  by (simp add: cbc_chaining_def sample_crypto_def pad_len_def)

lemma length_cbc_zero:
  "crypto_ok c \<Longrightarrow> length (aes256CbcPkcs7Encrypt c (replicate 16 0 @ d) k iv) = 32 + length d - length d mod 16"
  by (simp add: length_aes256CbcPkcs7Encrypt)

lemma aes256CbcHmac256_inverse:
  assumes "crypto_ok c" and "cbc_chaining c" and "taglen \<le> 32"
  shows "aes256CbcHmac256Decrypt c (aes256CbcHmac256Encrypt c d key iv taglen) key taglen = Inr d"
proof -
  obtain kE kM where kem: "getKEM c key 32 32 = (kE, kM)" by fastforce
  define w where "w = take 16 (if iv = [] then hmacSha256 c key d else iv)"
  define x where "x = aes256CbcPkcs7Encrypt c (replicate 16 0 @ d) kE w"
  have tag: "length (take taglen (hmacSha256 c kM x)) = taglen"
    using assms(1,3) by (simp add: length_hmacSha256)
  have enc: "aes256CbcHmac256Encrypt c d key iv taglen = x @ take taglen (hmacSha256 c kM x)"
    by (simp add: aes256CbcHmac256Encrypt_def kem Let_def w_def x_def)
  have x: "x = take 16 x @ aes256CbcPkcs7Encrypt c d kE (take 16 x)"
    using assms(2) unfolding cbc_chaining_def x_def by blast
  have len: "16 \<le> length x" using length_cbc_zero [OF assms(1), of d kE w] by (simp add: x_def)
  have "drop 16 x = aes256CbcPkcs7Encrypt c d kE (take 16 x)"
    using x len by (metis append_eq_conv_conj length_take min_absorb2)
  with len tag show ?thesis
    by (simp add: enc aes256CbcHmac256Decrypt_def kem Let_def aes256CbcPkcs7_inverse [OF assms(1)])
qed

lemma aes256CbcHmac256Decrypt_authentic:
  assumes "aes256CbcHmac256Decrypt c data key taglen = Inr d"
  shows "taglen \<le> length data \<and>
    drop (length data - taglen) data
      = take taglen (hmacSha256 c (snd (getKEM c key 32 32)) (take (length data - taglen) data))"
  using assms by (auto simp: aes256CbcHmac256Decrypt_def Let_def split: if_splits prod.splits)

lemma length_aes256CbcHmac256Encrypt:
  assumes "crypto_ok c" and "taglen \<le> 32"
  shows "length (aes256CbcHmac256Encrypt c d key iv taglen) = 32 + length d - length d mod 16 + taglen"
  using assms by (simp add: aes256CbcHmac256Encrypt_def Let_def length_cbc_zero length_hmacSha256 split: prod.splits)

lemma privmxEncrypt_signed:
  assumes "crypto_ok c" and "cbc_chaining c" and "length key = 32"
  obtains x where "privmxEncrypt c privmxOptAesWithSignature data key [] draws = (Inr x, draws + 1)"
    and "privmxDecrypt c True x key [] 16 = Inr data" and "x \<noteq> []"
  using assms aes256CbcHmac256_inverse [OF assms(1,2), of 16 data key "randomBytes c draws 16"]
  by (simp add: privmxEncrypt_def privmxOptAesWithSignature_def fresh_iv_def privmxDecrypt_def ctDecrypt_def
      ctAes256CbcPkcs7WithIvAndHmacSha256_def front_def cipher_type_defs)

subsection \<open>Properties\<close>

text \<open>
  C37. The key derivation loops end and compute the standard streams: \<open>kdf\<close> is the first bytes of
  HMAC in feedback mode (SP 800-108) and \<open>prf_tls12\<close> those of \<open>P_SHA256\<close>, and both have exactly
  the requested length, so the keys \<open>getKEM\<close> cuts out of them are 32 bytes each.
\<close>

theorem key_derivation_correct:
  assumes "crypto_ok c" and "n < 2 ^ 36"
  shows "kdf c n key label = take n (kdf_stream c key (label @ [0] @ be32 n) (blocks_for n)) \<and>
    prf_tls12 c key seed n = take n (prf_stream c key seed (blocks_for n)) \<and>
    length (kdf c n key label) = n \<and> length (prf_tls12 c key seed n) = n \<and>
    map_prod length length (getKEM c key 32 32) = (32, 32)"
  using kdf_eq [OF assms] prf_tls12_eq [OF assms(1), of key seed n] length_kdf [OF assms]
    length_kdf [OF assms(1), of 64 key "bytes_of ''key expansion''"] blocks_for_self [of n]
  by (simp add: length_prf_stream [OF assms(1)] getKEM_def Let_def)

theorem key_derivation_correct_witness:
  "length (kdf sample_crypto 40 [1] [2]) = 40 \<and> length (prf_tls12 sample_crypto [1] [3] 40) = 40"
proof -
  have "(40::nat) < 2 ^ 36" by simp
  from key_derivation_correct [OF sample_crypto_ok this, of "[1]" "[2]" "[3]"] show ?thesis by blast
qed

text \<open>
  C31. Encryption with the options of the endpoint: with a 32-byte key it succeeds, what it returns is
  decrypted back to the data even when a signature is required, and a ciphertext is only ever
  decrypted under the requirement of a signature when it ends in the MAC of the rest under the
  derived key.
\<close>

theorem privmx_signed_encryption:
  assumes "crypto_ok c" and "cbc_chaining c" and "length key = 32"
  shows "(\<exists>x. privmxEncrypt c privmxOptAesWithSignature data key [] draws = (Inr x, draws + 1) \<and>
        privmxDecrypt c True x key [] 16 = Inr data) \<and>
    (\<forall>y d. privmxDecrypt c True y key [] 16 = Inr d \<longrightarrow>
        (\<exists>body. y = 4 # body @ take 16 (hmacSha256 c (snd (getKEM c key 32 32)) body)))"
proof (intro conjI allI impI)
  show "\<exists>x. privmxEncrypt c privmxOptAesWithSignature data key [] draws = (Inr x, draws + 1) \<and>
        privmxDecrypt c True x key [] 16 = Inr data"
    by (rule privmxEncrypt_signed [OF assms, of data draws]) blast
next
  fix y d
  assume dec: "privmxDecrypt c True y key [] 16 = Inr d"
  then obtain b where y: "y = 4 # b" and b: "aes256CbcHmac256Decrypt c b key 16 = Inr d"
    using assms(3) by (cases y) (auto simp: privmxDecrypt_def ctDecrypt_def front_def cipher_type_defs split: if_splits)
  show "\<exists>body. y = 4 # body @ take 16 (hmacSha256 c (snd (getKEM c key 32 32)) body)"
    using aes256CbcHmac256Decrypt_authentic [OF b] y by (metis append_take_drop_id)
qed

theorem privmx_signed_encryption_witness:
  "(\<exists>x. privmxEncrypt sample_crypto privmxOptAesWithSignature [1, 2] (replicate 32 7) [] 0 = (Inr x, 1) \<and>
     privmxDecrypt sample_crypto True x (replicate 32 7) [] 16 = Inr [1, 2])"
  using privmx_signed_encryption [OF sample_crypto_ok sample_cbc_chaining, of "replicate 32 7" "[1, 2]" 0] by simp

text \<open>
  \<open>privmxGetBlockSize\<close> is exact for the signed options: data of that size, and no more, has a
  ciphertext that fits a block of the given size.
\<close>

theorem privmxGetBlockSize_exact:
  assumes "crypto_ok c" and "length key = 32" and "33 < b"
    and "privmxEncrypt c privmxOptAesWithSignature data key [] draws = (Inr x, draws')"
  shows "length x \<le> b \<longleftrightarrow> int (length data) \<le> privmxGetBlockSize privmxOptAesWithSignature (int b)"
proof -
  have x: "length x = 49 + length data - length data mod 16"
    using assms length_aes256CbcHmac256Encrypt [OF assms(1), of 16 data key "randomBytes c draws 16"]
    by (auto simp: privmxEncrypt_def privmxOptAesWithSignature_def fresh_iv_def ctAes256CbcPkcs7WithIvAndHmacSha256_def)
  have size: "privmxGetBlockSize privmxOptAesWithSignature (int b) = (int b - 33) - (int b - 33) mod 16 - 1"
    using assms(3) by (simp add: privmxGetBlockSize_def privmxOptAesWithSignature_def crem_def Let_def)
  define n where "n = length data"
  define q r where "q = n div 16" and "r = n mod 16"
  define p s where "p = (b - 33) div 16" and "s = (b - 33) mod 16"
  have n: "n = 16 * q + r" "r < 16" and b: "b = 33 + (16 * p + s)" "s < 16"
    using assms(3) by (simp_all add: q_def r_def p_def s_def)
  have "int s = (int b - 33) mod 16"
    using assms(3) by (simp add: s_def zmod_int of_nat_diff)
  then have "privmxGetBlockSize privmxOptAesWithSignature (int b) = 16 * int p - 1"
    using size b by simp
  moreover have "length x = 49 + 16 * q" unfolding x using n by (simp add: n_def [symmetric] r_def [symmetric])
  moreover have "length x \<le> b \<longleftrightarrow> q < p" if "length x = 49 + 16 * q" using that b by linarith
  moreover have "int n \<le> 16 * int p - 1 \<longleftrightarrow> q < p" using n by linarith
  ultimately show ?thesis by (simp add: n_def)
qed

theorem privmxGetBlockSize_exact_witness:
  "privmxGetBlockSize privmxOptAesWithSignature 100 = 63 \<and>
   length (replicate 63 (0::byte)) = 63 \<and>
   (\<exists>x. fst (privmxEncrypt sample_crypto privmxOptAesWithSignature (replicate 63 0) (replicate 32 7) [] 0) = Inr x \<and> length x \<le> 100)"
proof -
  have 1: "privmxGetBlockSize privmxOptAesWithSignature 100 = 63" by code_simp
  obtain x d where x: "privmxEncrypt sample_crypto privmxOptAesWithSignature (replicate 63 0) (replicate 32 7) [] 0 = (Inr x, d)"
    unfolding privmxEncrypt_def privmxOptAesWithSignature_def fresh_iv_def by simp
  from privmxGetBlockSize_exact [OF sample_crypto_ok _ _ x, of 100] 1 x show ?thesis by simp
qed

text \<open>
  Deterministic authenticated encryption cannot be asked for: with AES, a MAC and \<open>deterministic\<close>
  set, \<open>privmxEncrypt\<close> throws for either value of \<open>attachIv\<close>, since one guard demands the
  attached vector and the next one forbids it.
\<close>

theorem privmxEncrypt_deterministic_unreachable:
  assumes "length key = 32" and "eo_algorithm opts = AES_256_CBC" and "eo_hmac opts = SHA_256" and "eo_deterministic opts"
  shows "privmxEncrypt c opts data key iv draws =
    (Inl (crypto_exn (if eo_attachIv opts then CannotPassIvToDeterministicAES256CBCHmacSHA256Exception
       else OnlyHmacSHA256WithIvIsSupportedForAES256CBCException)), draws)"
  using assms by (simp add: privmxEncrypt_def)

theorem privmxEncrypt_deterministic_unreachable_witness:
  "privmxEncrypt sample_crypto (privmxOptAesWithSignature\<lparr>eo_deterministic := True\<rparr>) [1] (replicate 32 7) [] 0 =
    (Inl (crypto_exn CannotPassIvToDeterministicAES256CBCHmacSHA256Exception), 0)"
  using privmxEncrypt_deterministic_unreachable [of "replicate 32 7" "privmxOptAesWithSignature\<lparr>eo_deterministic := True\<rparr>" sample_crypto "[1]" "[]" 0]
  by (simp add: privmxOptAesWithSignature_def)

end
