(* ===== verification/Utils_Json.thy ===== *)
theory Utils_Json
  imports Crypto_Service "HOL-Library.Char_ord" "HOL-Library.List_Lexorder"
begin

text \<open>
  JSON values and the conversions of \<open>utils/include/privmx/utils/JsonHelper.hpp\<close>. A
  \<open>Poco::Dynamic::Var\<close> that holds JSON is the datatype \<open>json\<close>; a \<open>Poco::JSON::Object\<close> keeps
  its members in a \<open>std::map\<close>, so it is an association list sorted by name, and the unordered
  maps of the structures are kept in the same normal form. Printing and parsing JSON text is
  Poco's and a parameter (\<open>poco_api\<close>), as is Base64; \<open>json_text_ok\<close> and \<open>base64_ok\<close> state
  what the code relies on.
\<close>

subsection \<open>Ordered association lists\<close>

fun alist_set :: "'k::linorder \<Rightarrow> 'v \<Rightarrow> ('k \<times> 'v) list \<Rightarrow> ('k \<times> 'v) list" where
  "alist_set k v [] = [(k, v)]"
| "alist_set k v ((k', v') # r) =
     (if k = k' then (k, v) # r else if k < k' then (k, v) # (k', v') # r else (k', v') # alist_set k v r)"

definition ordered :: "('k::linorder \<times> 'v) list \<Rightarrow> bool" where
  "ordered kvs \<longleftrightarrow> sorted_wrt (<) (map fst kvs)"

lemma map_of_alist_set [simp]: "map_of (alist_set k v kvs) = (map_of kvs)(k \<mapsto> v)"
  by (induction k v kvs rule: alist_set.induct) auto

lemma set_alist_set: "set (map fst (alist_set k v kvs)) = insert k (set (map fst kvs))"
  by (induction k v kvs rule: alist_set.induct) auto

lemma snd_alist_set: "x \<in> set (alist_set k v kvs) \<Longrightarrow> x = (k, v) \<or> x \<in> set kvs"
  by (induction k v kvs rule: alist_set.induct) (auto split: if_splits)

lemma ordered_Nil [simp]: "ordered []"
  by (simp add: ordered_def)

lemma ordered_Cons: "ordered ((k, v) # r) \<longleftrightarrow> (\<forall>x \<in> set r. k < fst x) \<and> ordered r"
  by (auto simp: ordered_def)

lemma ordered_alist_set [simp]: "ordered kvs \<Longrightarrow> ordered (alist_set k v kvs)"
  by (induction k v kvs rule: alist_set.induct)
    (auto simp: ordered_Cons dest: snd_alist_set intro: less_trans)

lemma alist_set_snoc: "ordered (kvs @ [(k, v)]) \<Longrightarrow> alist_set k v kvs = kvs @ [(k, v)]"
  by (induction k v kvs rule: alist_set.induct) (auto simp: ordered_Cons)

lemma ordered_appendD: "ordered (xs @ ys) \<Longrightarrow> ordered xs"
  by (simp add: ordered_def sorted_wrt_append)

lemma rebuild_ordered: "ordered kvs \<Longrightarrow> fold (\<lambda>(k, v). alist_set k v) kvs [] = kvs"
proof (induction kvs rule: rev_induct)
  case Nil
  then show ?case by simp
next
  case (snoc x xs)
  obtain k v where "x = (k, v)" by fastforce
  with snoc ordered_appendD [OF snoc.prems] show ?case by (simp add: alist_set_snoc)
qed

subsection \<open>Values and conversions\<close>

datatype json =
    JEmpty
  | JBool bool
  | JInt int
  | JString string
  | JArray "json list"
  | JObject "(string \<times> json) list"

text \<open>\<open>LibException\<close> has the first half \<open>0x0003\<close>.\<close>

definition lib_exn :: "nat \<Rightarrow> exn" where
  "lib_exn code = PrivmxExn \<lparr>pe_msg = ''Lib internal error'', pe_type = LIBRARY, pe_code = int (endpoint_code 0x0003 code)\<rparr>"

definition JSONParseException :: exn where
  "JSONParseException = lib_exn 0x0006"

record poco_api =
  poco_stringify :: "json \<Rightarrow> bytes"
  poco_parse :: "bytes \<Rightarrow> (exn, json) result"
  poco_badCast :: exn
  poco_boolIsInteger :: bool
  base64_from :: "bytes \<Rightarrow> string"
  base64_to :: "string \<Rightarrow> (exn, bytes) result"

fun deserialize_string :: "json \<Rightarrow> (exn, string) result" where
  "deserialize_string (JString s) = Inr s"
| "deserialize_string _ = Inl JSONParseException"

fun deserialize_int64 :: "poco_api \<Rightarrow> json \<Rightarrow> (exn, int) result" where
  "deserialize_int64 p (JInt i) = Inr i"
| "deserialize_int64 p (JBool b) = (if poco_boolIsInteger p then Inr (if b then 1 else 0) else Inl JSONParseException)"
| "deserialize_int64 p _ = Inl JSONParseException"

fun deserialize_bool :: "json \<Rightarrow> (exn, bool) result" where
  "deserialize_bool (JBool b) = Inr b"
| "deserialize_bool _ = Inl JSONParseException"

definition deserialize_optional :: "(json \<Rightarrow> (exn, 'a) result) \<Rightarrow> json \<Rightarrow> (exn, 'a option) result" where
  "deserialize_optional d j = (if j = JEmpty then Inr None else bindR (d j) (\<lambda>x. Inr (Some x)))"

primrec mapR :: "('a \<Rightarrow> ('e, 'b) result) \<Rightarrow> 'a list \<Rightarrow> ('e, 'b list) result" where
  "mapR f [] = Inr []"
| "mapR f (x # xs) = bindR (f x) (\<lambda>y. bindR (mapR f xs) (\<lambda>ys. Inr (y # ys)))"

fun deserializeArray :: "(json \<Rightarrow> (exn, 'a) result) \<Rightarrow> json \<Rightarrow> (exn, 'a list) result" where
  "deserializeArray d (JArray js) = mapR d js"
| "deserializeArray d _ = Inl JSONParseException"

fun deserializeUnorderedMap :: "(json \<Rightarrow> (exn, 'a) result) \<Rightarrow> json \<Rightarrow> (exn, (string \<times> 'a) list) result" where
  "deserializeUnorderedMap d (JObject kvs) =
     mapR (\<lambda>(k, v). bindR (d v) (\<lambda>x. Inr (k, x))) kvs"
| "deserializeUnorderedMap d _ = Inl JSONParseException"

fun deserialize_struct :: "((string \<times> json) list \<Rightarrow> (exn, 'a) result) \<Rightarrow> json \<Rightarrow> (exn, 'a) result" where
  "deserialize_struct fromJSON (JObject kvs) = fromJSON kvs"
| "deserialize_struct fromJSON _ = Inl JSONParseException"

fun serialize_optional :: "('a \<Rightarrow> json) \<Rightarrow> 'a option \<Rightarrow> json" where
  "serialize_optional f None = JEmpty"
| "serialize_optional f (Some x) = f x"

definition serialize_array :: "('a \<Rightarrow> json) \<Rightarrow> 'a list \<Rightarrow> json" where
  "serialize_array f xs = JArray (map f xs)"

definition serialize_map :: "('a \<Rightarrow> json) \<Rightarrow> (string \<times> 'a) list \<Rightarrow> json" where
  "serialize_map f kvs = JObject (fold (\<lambda>(k, v). alist_set k (f v)) kvs [])"

text \<open>\<open>_JSON_FROM\<close> reads a member, \<open>_JSON_TO\<close> writes one and leaves an empty optional out.\<close>

definition json_get :: "(string \<times> json) list \<Rightarrow> string \<Rightarrow> json" where
  "json_get kvs name = (case map_of kvs name of Some j \<Rightarrow> j | None \<Rightarrow> JEmpty)"

definition json_put :: "string \<Rightarrow> json \<Rightarrow> (string \<times> json) list \<Rightarrow> (string \<times> json) list" where
  "json_put name j kvs = alist_set name j kvs"

definition json_put_optional :: "string \<Rightarrow> json \<Rightarrow> (string \<times> json) list \<Rightarrow> (string \<times> json) list" where
  "json_put_optional name j kvs = (if j = JEmpty then kvs else alist_set name j kvs)"

subsection \<open>Text\<close>

text \<open>
  \<open>Utils::removeEscape\<close> drops the backslash in front of a solidus and goes on behind the solidus.
\<close>

fun removeEscape :: "bytes \<Rightarrow> bytes" where
  "removeEscape (a # b # r) = (if a = 92 \<and> b = 47 then b # removeEscape r else a # removeEscape (b # r))"
| "removeEscape r = r"

definition Utils_stringify :: "poco_api \<Rightarrow> json \<Rightarrow> bytes" where
  "Utils_stringify p j = removeEscape (poco_stringify p j)"

text \<open>\<open>stringifyVar\<close>: only objects and arrays go through \<open>removeEscape\<close>.\<close>

fun Utils_stringifyVar :: "poco_api \<Rightarrow> json \<Rightarrow> (exn, bytes) result" where
  "Utils_stringifyVar p (JObject kvs) = Inr (Utils_stringify p (JObject kvs))"
| "Utils_stringifyVar p (JArray js) = Inr (Utils_stringify p (JArray js))"
| "Utils_stringifyVar p (JString s) = Inr (bytes_of s)"
| "Utils_stringifyVar p JEmpty = Inl (lib_exn 0x0001)"
| "Utils_stringifyVar p j = Inr (poco_stringify p j)"

definition parseJsonObject :: "poco_api \<Rightarrow> bytes \<Rightarrow> (exn, (string \<times> json) list) result" where
  "parseJsonObject p text =
     bindR (poco_parse p text) (\<lambda>j. case j of JObject kvs \<Rightarrow> Inr kvs | _ \<Rightarrow> Inl (poco_badCast p))"

fun wf_json :: "json \<Rightarrow> bool" where
  "wf_json (JInt i) \<longleftrightarrow> - (2 ^ 63) \<le> i \<and> i < 2 ^ 63"
| "wf_json (JArray js) \<longleftrightarrow> (\<forall>j \<in> set js. wf_json j)"
| "wf_json (JObject kvs) \<longleftrightarrow> ordered kvs \<and> (\<forall>kv \<in> set kvs. wf_json (snd kv))"
| "wf_json _ \<longleftrightarrow> True"

definition json_text_ok :: "poco_api \<Rightarrow> bool" where
  "json_text_ok p \<longleftrightarrow> (\<forall>kvs. wf_json (JObject kvs) \<longrightarrow> poco_parse p (Utils_stringify p (JObject kvs)) = Inr (JObject kvs))"

definition base64_ok :: "poco_api \<Rightarrow> bool" where
  "base64_ok p \<longleftrightarrow> (\<forall>d. base64_to p (base64_from p d) = Inr d) \<and> (\<forall>d. base64_from p d = [] \<longleftrightarrow> d = [])"

lemma base64_okD:
  assumes "base64_ok p"
  shows base64_inverse: "base64_to p (base64_from p d) = Inr d"
    and base64_empty: "base64_from p d = [] \<longleftrightarrow> d = []"
  using assms by (auto simp: base64_ok_def)

lemma parse_stringify:
  "json_text_ok p \<Longrightarrow> wf_json (JObject kvs) \<Longrightarrow> parseJsonObject p (Utils_stringify p (JObject kvs)) = Inr kvs"
  by (simp add: json_text_ok_def parseJsonObject_def)

lemma json_get_put [simp]:
  "json_get (json_put k j kvs) k' = (if k' = k then j else json_get kvs k')"
  "json_get (json_put_optional k j kvs) k' = (if k' = k \<and> j \<noteq> JEmpty then j else json_get kvs k')"
  "json_get [] k = JEmpty"
  by (auto simp: json_get_def json_put_def json_put_optional_def)

lemma wf_json_put [simp]:
  "wf_json (JObject kvs) \<Longrightarrow> wf_json j \<Longrightarrow> wf_json (JObject (json_put k j kvs))"
  "wf_json (JObject kvs) \<Longrightarrow> wf_json j \<Longrightarrow> wf_json (JObject (json_put_optional k j kvs))"
  by (auto simp: json_put_def json_put_optional_def dest!: snd_alist_set)

lemma wf_json_empty [simp]: "wf_json (JObject [])"
  by simp

declare wf_json.simps(3) [simp del]

lemma deserialize_optional_serialize:
  "(\<And>x. v = Some x \<Longrightarrow> d (f x) = Inr x \<and> f x \<noteq> JEmpty) \<Longrightarrow> deserialize_optional d (serialize_optional f v) = Inr v"
  by (cases v) (simp_all add: deserialize_optional_def)

lemma deserialize_optional_string [simp]:
  "deserialize_optional deserialize_string (serialize_optional JString v) = Inr v"
  by (rule deserialize_optional_serialize) simp

lemma wf_serialize_optional_string [simp]: "wf_json (serialize_optional JString v)"
  by (cases v) simp_all

lemma mapR_map: "(\<And>x. x \<in> set xs \<Longrightarrow> f (g x) = Inr x) \<Longrightarrow> mapR f (map g xs) = Inr xs"
  by (induction xs) simp_all

lemma fold_alist_set_map:
  "fold (\<lambda>(k, v). alist_set k (f v)) kvs acc = fold (\<lambda>(k, v). alist_set k v) (map (\<lambda>(k, v). (k, f v)) kvs) acc"
  by (induction kvs arbitrary: acc) auto

lemma serialize_map_ordered: "ordered kvs \<Longrightarrow> serialize_map f kvs = JObject (map (\<lambda>(k, v). (k, f v)) kvs)"
proof -
  assume "ordered kvs"
  then have "ordered (map (\<lambda>(k, v). (k, f v)) kvs)" by (simp add: ordered_def comp_def case_prod_beta)
  then show ?thesis by (simp add: serialize_map_def fold_alist_set_map [of f] rebuild_ordered)
qed

lemma deserialize_map_string [simp]:
  "ordered kvs \<Longrightarrow> deserializeUnorderedMap deserialize_string (serialize_map JString kvs) = Inr kvs"
  by (auto simp: serialize_map_ordered intro!: mapR_map)

lemma wf_serialize_map_string [simp]: "ordered kvs \<Longrightarrow> wf_json (serialize_map JString kvs)"
  by (auto simp: serialize_map_ordered wf_json.simps ordered_def comp_def case_prod_beta)

lemma serialize_map_nonempty [simp]: "serialize_map f kvs \<noteq> JEmpty"
  by (simp add: serialize_map_def)

subsection \<open>An instance\<close>

text \<open>
  A text format that satisfies the requirements, for concrete evaluations: a prefix code over two
  byte values, numbers written as so many ones and a zero.
\<close>

definition put_nat :: "nat \<Rightarrow> bytes" where
  "put_nat n = replicate n 1 @ [0]"

fun take_nat :: "bytes \<Rightarrow> (nat \<times> bytes) option" where
  "take_nat [] = None"
| "take_nat (b # r) = (if b = 0 then Some (0, r) else map_option (apfst Suc) (take_nat r))"

fun take_many :: "nat \<Rightarrow> (bytes \<Rightarrow> ('a \<times> bytes) option) \<Rightarrow> bytes \<Rightarrow> ('a list \<times> bytes) option" where
  "take_many 0 d r = Some ([], r)"
| "take_many (Suc n) d r =
     (case d r of None \<Rightarrow> None | Some (x, r') \<Rightarrow> map_option (apfst (Cons x)) (take_many n d r'))"

definition put_list :: "('a \<Rightarrow> bytes) \<Rightarrow> 'a list \<Rightarrow> bytes" where
  "put_list e xs = put_nat (length xs) @ concat (map e xs)"

lemma put_list_cong [fundef_cong]:
  "xs = ys \<Longrightarrow> (\<And>x. x \<in> set ys \<Longrightarrow> e x = f x) \<Longrightarrow> put_list e xs = put_list f ys"
  by (simp add: put_list_def cong: map_cong)

definition take_list :: "(bytes \<Rightarrow> ('a \<times> bytes) option) \<Rightarrow> bytes \<Rightarrow> ('a list \<times> bytes) option" where
  "take_list d r = (case take_nat r of None \<Rightarrow> None | Some (n, r') \<Rightarrow> take_many n d r')"

definition put_string :: "string \<Rightarrow> bytes" where
  "put_string s = put_list (\<lambda>c. put_nat (of_char c)) s"

definition take_string :: "bytes \<Rightarrow> (string \<times> bytes) option" where
  "take_string r = take_list (\<lambda>r. map_option (apfst char_of) (take_nat r)) r"

fun put_json :: "json \<Rightarrow> bytes" where
  "put_json JEmpty = put_nat 0"
| "put_json (JBool b) = put_nat (if b then 1 else 2)"
| "put_json (JInt i) = put_nat (if i < 0 then 3 else 4) @ put_nat (nat \<bar>i\<bar>)"
| "put_json (JString s) = put_nat 5 @ put_string s"
| "put_json (JArray js) = put_nat 6 @ put_list put_json js"
| "put_json (JObject kvs) = put_nat 7 @ put_list (\<lambda>kv. put_string (fst kv) @ put_json (snd kv)) kvs"

fun take_json :: "nat \<Rightarrow> bytes \<Rightarrow> (json \<times> bytes) option" where
  "take_json 0 r = None"
| "take_json (Suc n) r =
     (case take_nat r of None \<Rightarrow> None | Some (t, r) \<Rightarrow>
        if t = 0 then Some (JEmpty, r)
        else if t = 1 \<or> t = 2 then Some (JBool (t = 1), r)
        else if t = 3 then map_option (apfst (\<lambda>m. JInt (- int m))) (take_nat r)
        else if t = 4 then map_option (apfst (\<lambda>m. JInt (int m))) (take_nat r)
        else if t = 5 then map_option (apfst JString) (take_string r)
        else if t = 6 then map_option (apfst JArray) (take_list (take_json n) r)
        else map_option (apfst JObject)
          (take_list (\<lambda>r. case take_string r of None \<Rightarrow> None
             | Some (k, r') \<Rightarrow> map_option (apfst (Pair k)) (take_json n r')) r))"

fun json_depth :: "json \<Rightarrow> nat" where
  "json_depth (JArray js) = Suc (sum_list (map json_depth js))"
| "json_depth (JObject kvs) = Suc (sum_list (map (\<lambda>kv. json_depth (snd kv)) kvs))"
| "json_depth _ = 1"

lemma take_put_nat [simp]: "take_nat (put_nat n @ r) = Some (n, r)"
  by (induction n) (simp_all add: put_nat_def)

lemma take_many_put:
  "(\<And>x r. x \<in> set xs \<Longrightarrow> d (e x @ r) = Some (x, r)) \<Longrightarrow>
   take_many (length xs) d (concat (map e xs) @ r) = Some (xs, r)"
  by (induction xs) simp_all

lemma take_put_list:
  "(\<And>x r. x \<in> set xs \<Longrightarrow> d (e x @ r) = Some (x, r)) \<Longrightarrow> take_list d (put_list e xs @ r) = Some (xs, r)"
  by (simp add: take_list_def put_list_def take_many_put)

lemma take_put_string [simp]: "take_string (put_string s @ r) = Some (s, r)"
  unfolding take_string_def put_string_def by (rule take_put_list) simp

lemma take_put_json: "json_depth j \<le> n \<Longrightarrow> take_json n (put_json j @ r) = Some (j, r)"
proof (induction j arbitrary: n r rule: put_json.induct)
  case (5 js)
  from 5(2) obtain m where n: "n = Suc m" and le: "sum_list (map json_depth js) \<le> m" by (cases n) auto
  have "take_json m (put_json j @ r) = Some (j, r)" if "j \<in> set js" for j r
    using 5(1) [OF that] member_le_sum_list [of "json_depth j" "map json_depth js"] that le by simp
  then show ?case by (simp add: n take_put_list)
next
  case (6 kvs)
  from 6(2) obtain m where n: "n = Suc m" and le: "sum_list (map (\<lambda>kv. json_depth (snd kv)) kvs) \<le> m"
    by (cases n) auto
  have "take_json m (put_json (snd kv) @ r) = Some (snd kv, r)" if "kv \<in> set kvs" for kv r
    using 6(1) [OF that] that le
      member_le_sum_list [of "json_depth (snd kv)" "map (\<lambda>kv. json_depth (snd kv)) kvs"] by force
  then show ?case by (simp add: n take_put_list)
qed (auto simp: gr0_conv_Suc Suc_le_eq)

lemma length_concat_ge: "(\<And>x. x \<in> set xs \<Longrightarrow> f x \<le> length (e x)) \<Longrightarrow> sum_list (map f xs) \<le> length (concat (map e xs))"
  by (induction xs) (simp_all add: add_mono)

lemma depth_le_length: "json_depth j \<le> length (put_json j)"
proof (induction j rule: put_json.induct)
  case (5 js)
  then show ?case using length_concat_ge [of js json_depth put_json] by (simp add: put_list_def put_nat_def)
next
  case (6 kvs)
  have "sum_list (map (\<lambda>kv. json_depth (snd kv)) kvs)
      \<le> length (concat (map (\<lambda>kv. put_string (fst kv) @ put_json (snd kv)) kvs))"
    by (rule length_concat_ge) (simp add: 6 trans_le_add2)
  then show ?case by (simp add: put_list_def put_nat_def)
qed (simp_all add: put_nat_def)

definition sample_poco :: poco_api where
  "sample_poco =
     \<lparr>poco_stringify = put_json,
      poco_parse = (\<lambda>t. case take_json (length t) t of None \<Rightarrow> Inl StdOutOfRange | Some (j, _) \<Rightarrow> Inr j),
      poco_badCast = StdOutOfRange, poco_boolIsInteger = False,
      base64_from = text_of, base64_to = (\<lambda>s. Inr (bytes_of s))\<rparr>"

lemma removeEscape_id: "92 \<notin> set t \<Longrightarrow> removeEscape t = t"
  by (induction t rule: removeEscape.induct) auto

lemma put_nat_bits: "set (put_nat n) \<subseteq> {0, 1}"
  by (auto simp: put_nat_def)

lemma put_list_bits: "(\<And>x. x \<in> set xs \<Longrightarrow> set (e x) \<subseteq> {0, 1}) \<Longrightarrow> set (put_list e xs) \<subseteq> {0, 1}"
  using put_nat_bits by (fastforce simp: put_list_def)

lemma put_string_bits: "set (put_string s) \<subseteq> {0, 1}"
  unfolding put_string_def by (rule put_list_bits) (rule put_nat_bits)

lemma put_json_bits: "set (put_json j) \<subseteq> {0, 1}"
proof (induction j rule: put_json.induct)
  case (6 kvs)
  then show ?case
    using put_nat_bits [of 7] put_list_bits [of kvs "\<lambda>kv. put_string (fst kv) @ put_json (snd kv)"] put_string_bits
    by simp
qed (use put_nat_bits put_list_bits put_string_bits in \<open>simp_all add: put_list_bits\<close>)

lemma bytes_of_text_of [simp]: "bytes_of (text_of d) = d"
proof -
  have "(of_nat (of_char (char_of (unat b) :: char)) :: byte) = b" for b :: byte
    using unsigned_less [where 'b = 8 and 'a = nat, of b] by (simp add: of_char_of)
  then show ?thesis by (simp add: bytes_of_def text_of_def comp_def)
qed

lemma sample_poco_ok: "json_text_ok sample_poco" "base64_ok sample_poco"
proof -
  have "removeEscape (put_json j) = put_json j" for j
    by (rule removeEscape_id) (use put_json_bits [of j] in auto)
  moreover have "take_json (length (put_json j)) (put_json j) = Some (j, [])" for j
    using take_put_json [OF depth_le_length, of j "[]"] by simp
  ultimately show "json_text_ok sample_poco"
    by (simp add: json_text_ok_def sample_poco_def Utils_stringify_def del: put_json.simps)
  show "base64_ok sample_poco"
    by (simp add: base64_ok_def sample_poco_def text_of_def)
      (metis bytes_of_text_of text_of_def)
qed

end
