(* ===== verification/Core_DataEncryptor.thy ===== *)
theory Core_DataEncryptor
  imports Utils_Json
begin

text \<open>
  Signed and encrypted data of the endpoint (\<open>endpoint/core/src/encryptors/DataInnerEcnryptorV4.cpp\<close>,
  \<open>DataEncryptorV4.cpp\<close>): a payload is packed behind the signature of its author, optionally
  encrypted with a container key, and written as Base64 text. The cryptographic primitives, the
  curve and the text codecs are bundled in \<open>core_env\<close>.
\<close>

text \<open>\<open>core::BridgeIdentity\<close>.\<close>

record BridgeIdentity =
  bi_url :: string
  bi_pubKey :: "string option"
  bi_instanceId :: "string option"

record 'k core_env =
  en_crypto :: crypto_api
  en_ecc :: "'k ecc_api"
  en_poco :: poco_api
  en_uninit :: BridgeIdentity

record DataWithSignature =
  ds_signature :: bytes
  ds_data :: bytes

subsection \<open>\<open>DataInnerEncryptorV4\<close>\<close>

definition DataInnerEncryptorV4_encode :: "'k core_env \<Rightarrow> bytes \<Rightarrow> string" where
  "DataInnerEncryptorV4_encode env data = base64_from (en_poco env) data"

definition DataInnerEncryptorV4_decode :: "'k core_env \<Rightarrow> string \<Rightarrow> (exn, bytes) result" where
  "DataInnerEncryptorV4_decode env dataAsBase64 = base64_to (en_poco env) dataAsBase64"

definition DataInnerEncryptorV4_encrypt :: "'k core_env \<Rightarrow> bytes \<Rightarrow> bytes \<Rightarrow> (exn, nat, bytes) op" where
  "DataInnerEncryptorV4_encrypt env data encryptionKey =
     privmxEncrypt (en_crypto env) privmxOptAesWithSignature data encryptionKey []"

definition DataInnerEncryptorV4_decrypt :: "'k core_env \<Rightarrow> bytes \<Rightarrow> bytes \<Rightarrow> (exn, bytes) result" where
  "DataInnerEncryptorV4_decrypt env privateData encryptionKey =
     privmxDecrypt (en_crypto env) True privateData encryptionKey [] 16"

definition DataInnerEncryptorV4_sign :: "'k core_env \<Rightarrow> bytes \<Rightarrow> 'k \<Rightarrow> DataWithSignature" where
  "DataInnerEncryptorV4_sign env data authorPrivateKey =
     \<lparr>ds_signature = PrivateKey_signToCompactSignatureWithHash (en_crypto env) (en_ecc env) authorPrivateKey data,
      ds_data = data\<rparr>"

text \<open>The size of the signature is written in one byte, whatever it is.\<close>

definition DataInnerEncryptorV4_packDataWithSignature :: "DataWithSignature \<Rightarrow> bytes" where
  "DataInnerEncryptorV4_packDataWithSignature ds =
     [1] @ [of_nat (length (ds_signature ds))] @ ds_signature ds @ ds_data ds"

definition DataInnerEncryptorV4_signAndPackDataWithSignature :: "'k core_env \<Rightarrow> bytes \<Rightarrow> 'k \<Rightarrow> bytes" where
  "DataInnerEncryptorV4_signAndPackDataWithSignature env data authorPrivateKey =
     DataInnerEncryptorV4_packDataWithSignature (DataInnerEncryptorV4_sign env data authorPrivateKey)"

text \<open>\<open>buf[0]\<close> and \<open>buf[1]\<close> at the end of the string are the terminating zero byte.\<close>

definition DataInnerEncryptorV4_extractDataWithSignature :: "bytes \<Rightarrow> (exn, DataWithSignature) result" where
  "DataInnerEncryptorV4_extractDataWithSignature buf =
     (if front buf = 1 then
        (let signatureLength = unat (front (drop 1 buf)) in
         bindR (substr StdOutOfRange buf 2 signatureLength) (\<lambda>signature.
         bindR (substr1 StdOutOfRange buf (2 + signatureLength)) (\<lambda>data.
         Inr \<lparr>ds_signature = signature, ds_data = data\<rparr>)))
      else Inl (CoreExn UnsupportedTypeException))"

definition DataInnerEncryptorV4_verifySignature :: "'k core_env \<Rightarrow> DataWithSignature \<Rightarrow> 'k \<Rightarrow> bool" where
  "DataInnerEncryptorV4_verifySignature env ds authorPublicKey =
     PublicKey_verifyCompactSignatureWithHash (en_crypto env) (en_ecc env) authorPublicKey (ds_data ds) (ds_signature ds)"

definition DataInnerEncryptorV4_verifyAndExtractData :: "'k core_env \<Rightarrow> bytes \<Rightarrow> 'k \<Rightarrow> (exn, bytes) result" where
  "DataInnerEncryptorV4_verifyAndExtractData env signedData authorPublicKey =
     bindR (DataInnerEncryptorV4_extractDataWithSignature signedData) (\<lambda>ds.
       if \<not> DataInnerEncryptorV4_verifySignature env ds authorPublicKey
       then Inl (CoreExn InvalidDataSignatureException) else Inr (ds_data ds))"

subsection \<open>\<open>DataEncryptorV4\<close>\<close>

definition DataEncryptorV4_signAndEncode :: "'k core_env \<Rightarrow> bytes \<Rightarrow> 'k \<Rightarrow> string" where
  "DataEncryptorV4_signAndEncode env data authorPrivateKey =
     DataInnerEncryptorV4_encode env (DataInnerEncryptorV4_signAndPackDataWithSignature env data authorPrivateKey)"

definition DataEncryptorV4_signAndEncryptAndEncode ::
    "'k core_env \<Rightarrow> bytes \<Rightarrow> 'k \<Rightarrow> bytes \<Rightarrow> (exn, nat, string) op" where
  "DataEncryptorV4_signAndEncryptAndEncode env data authorPrivateKey encryptionKey =
     bindS (DataInnerEncryptorV4_encrypt env
       (DataInnerEncryptorV4_signAndPackDataWithSignature env data authorPrivateKey) encryptionKey)
       (\<lambda>x. ret (DataInnerEncryptorV4_encode env x))"

definition DataEncryptorV4_decodeAndVerify :: "'k core_env \<Rightarrow> string \<Rightarrow> 'k \<Rightarrow> (exn, bytes) result" where
  "DataEncryptorV4_decodeAndVerify env publicDataAsBase64 authorPublicKey =
     bindR (DataInnerEncryptorV4_decode env publicDataAsBase64) (\<lambda>d.
       DataInnerEncryptorV4_verifyAndExtractData env d authorPublicKey)"

definition DataEncryptorV4_decodeAndDecryptAndVerify ::
    "'k core_env \<Rightarrow> string \<Rightarrow> 'k \<Rightarrow> bytes \<Rightarrow> (exn, bytes) result" where
  "DataEncryptorV4_decodeAndDecryptAndVerify env privateDataAsBase64 authorPublicKey encryptionKey =
     bindR (DataInnerEncryptorV4_decode env privateDataAsBase64) (\<lambda>d.
     bindR (DataInnerEncryptorV4_decrypt env d encryptionKey) (\<lambda>d.
       DataInnerEncryptorV4_verifyAndExtractData env d authorPublicKey))"

subsection \<open>What is relied on\<close>

text \<open>
  Signatures: a compact signature has 65 bytes and is verified by every form of the key with the
  same public part; a compressed public key starts with the byte 2 or 3.
\<close>

definition sign_ok :: "'k ecc_api \<Rightarrow> bool" where
  "sign_ok e \<longleftrightarrow>
     (\<forall>k m. length (ecc_sign e k m) = 65) \<and>
     (\<forall>k p m. ecc_getPublicKey e p = ecc_getPublicKey e k \<longrightarrow> ecc_verify e p m (ecc_sign e k m)) \<and>
     (\<forall>k. hd (ecc_getPublicKey e k) \<in> {2, 3})"

definition core_env_ok :: "'k core_env \<Rightarrow> bool" where
  "core_env_ok env \<longleftrightarrow>
     crypto_ok (en_crypto env) \<and> sha256_ok (en_crypto env) \<and> cbc_chaining (en_crypto env) \<and>
     ecc_ok (en_ecc env) \<and> sign_ok (en_ecc env) \<and> json_text_ok (en_poco env) \<and> base64_ok (en_poco env)"

lemma core_env_okD:
  assumes "core_env_ok env"
  shows "crypto_ok (en_crypto env)" "sha256_ok (en_crypto env)" "cbc_chaining (en_crypto env)"
    "ecc_ok (en_ecc env)" "sign_ok (en_ecc env)" "json_text_ok (en_poco env)" "base64_ok (en_poco env)"
  using assms by (auto simp: core_env_ok_def)

definition sample_core_env :: "byte core_env" where
  "sample_core_env =
     \<lparr>en_crypto = sample_crypto, en_ecc = sample_ecc, en_poco = sample_poco,
      en_uninit = \<lparr>bi_url = '''', bi_pubKey = None, bi_instanceId = None\<rparr>\<rparr>"

lemma sample_core_env_ok: "core_env_ok sample_core_env"
proof -
  have "sign_ok sample_ecc" by (auto simp: sign_ok_def sample_ecc_def)
  then show ?thesis
    by (simp add: core_env_ok_def sample_core_env_def sample_crypto_ok sample_sha256_ok sample_cbc_chaining
        sample_ecc_ok sample_poco_ok)
qed

text \<open>Two forms of a key are the same key to the code when their public parts agree.\<close>

definition same_key :: "'k core_env \<Rightarrow> 'k \<Rightarrow> 'k \<Rightarrow> bool" where
  "same_key env p k \<longleftrightarrow> ecc_getPublicKey (en_ecc env) p = ecc_getPublicKey (en_ecc env) k"

lemma same_key_refl [simp]: "same_key env k k"
  by (simp add: same_key_def)

lemma PublicKey_base58_roundtrip:
  assumes "core_env_ok env"
  shows "\<exists>p. PublicKey_fromBase58DER (en_crypto env) (en_ecc env)
      (PublicKey_toBase58DER (en_crypto env) (en_ecc env) k) = Inr p \<and> same_key env p k"
proof -
  let ?d = "ecc_getPublicKey (en_ecc env) k"
  have len: "length ?d = 33" using core_env_okD(4) [OF assms] by (rule ecc_okD)
  have "hd ?d \<in> {2, 3}" using core_env_okD(5) [OF assms] by (auto simp: sign_ok_def)
  then have "\<exists>b \<in> set ?d. b \<noteq> 0" using len by (cases ?d) auto
  then have "Base58_decodeWithChecksum (en_crypto env) (Base58_encodeWithChecksum (en_crypto env) ?d) = Inr ?d"
    using len by (intro checksum_decode [OF core_env_okD(2) [OF assms]])
      (auto simp: Base58_encodeWithChecksum_def decode_encode)
  then show ?thesis using ecc_okD(3) [OF core_env_okD(4) [OF assms], of k]
    by (auto simp: PublicKey_fromBase58DER_def PublicKey_toBase58DER_def PublicKey_fromDER_def same_key_def)
qed

subsection \<open>Signed payloads\<close>

lemma extract_pack:
  assumes "length (ds_signature ds) \<le> 255"
  shows "DataInnerEncryptorV4_extractDataWithSignature (DataInnerEncryptorV4_packDataWithSignature ds) = Inr ds"
proof -
  have "unat (of_nat (length (ds_signature ds)) :: byte) = length (ds_signature ds)"
    using assms by (simp add: unat_of_nat take_bit_nat_eq_self)
  then show ?thesis
    by (simp add: DataInnerEncryptorV4_extractDataWithSignature_def DataInnerEncryptorV4_packDataWithSignature_def
        front_def)
qed

lemma extract_signed:
  assumes "core_env_ok env"
  shows "DataInnerEncryptorV4_extractDataWithSignature
      (DataInnerEncryptorV4_signAndPackDataWithSignature env data k) = Inr (DataInnerEncryptorV4_sign env data k)"
  unfolding DataInnerEncryptorV4_signAndPackDataWithSignature_def
  using core_env_okD(5) [OF assms]
  by (intro extract_pack) (simp add: sign_ok_def DataInnerEncryptorV4_sign_def
      PrivateKey_signToCompactSignatureWithHash_def PrivateKey_signToCompactSignature_def)

lemma verify_signed:
  assumes "core_env_ok env" and "same_key env p k"
  shows "DataInnerEncryptorV4_verifySignature env (DataInnerEncryptorV4_sign env data k) p"
  using core_env_okD(5) [OF assms(1)] assms(2)
  by (simp add: sign_ok_def same_key_def DataInnerEncryptorV4_sign_def DataInnerEncryptorV4_verifySignature_def
      PrivateKey_signToCompactSignatureWithHash_def PrivateKey_signToCompactSignature_def
      PublicKey_verifyCompactSignatureWithHash_def PublicKey_verifyCompactSignature_def)

lemma verifyAndExtract_signed:
  assumes "core_env_ok env" and "same_key env p k"
  shows "DataInnerEncryptorV4_verifyAndExtractData env
      (DataInnerEncryptorV4_signAndPackDataWithSignature env data k) p = Inr data"
  using verify_signed [OF assms, of data]
  by (simp add: DataInnerEncryptorV4_verifyAndExtractData_def extract_signed [OF assms(1)])
    (simp add: DataInnerEncryptorV4_sign_def)

lemma signAndPack_nonempty [simp]: "DataInnerEncryptorV4_signAndPackDataWithSignature env data k \<noteq> []"
  by (simp add: DataInnerEncryptorV4_signAndPackDataWithSignature_def DataInnerEncryptorV4_packDataWithSignature_def)

lemma decodeAndVerify_signed:
  assumes "core_env_ok env" and "same_key env p k"
  shows "DataEncryptorV4_decodeAndVerify env (DataEncryptorV4_signAndEncode env data k) p = Inr data"
  by (simp add: DataEncryptorV4_decodeAndVerify_def DataEncryptorV4_signAndEncode_def
      DataInnerEncryptorV4_encode_def DataInnerEncryptorV4_decode_def
      base64_inverse [OF core_env_okD(7) [OF assms(1)]] verifyAndExtract_signed [OF assms])

lemma signAndEncode_nonempty: "core_env_ok env \<Longrightarrow> DataEncryptorV4_signAndEncode env data k \<noteq> []"
  by (simp add: DataEncryptorV4_signAndEncode_def DataInnerEncryptorV4_encode_def base64_empty [OF core_env_okD(7)])

lemma encrypted_roundtrip:
  assumes "core_env_ok env" and "same_key env p k" and "length key = 32"
  obtains t where "DataEncryptorV4_signAndEncryptAndEncode env data k key draws = (Inr t, draws + 1)"
    and "DataEncryptorV4_decodeAndDecryptAndVerify env t p key = Inr data" and "t \<noteq> []"
proof -
  obtain x where x: "privmxEncrypt (en_crypto env) privmxOptAesWithSignature
        (DataInnerEncryptorV4_signAndPackDataWithSignature env data k) key [] draws = (Inr x, draws + 1)"
      "privmxDecrypt (en_crypto env) True x key [] 16
        = Inr (DataInnerEncryptorV4_signAndPackDataWithSignature env data k)" "x \<noteq> []"
    by (rule privmxEncrypt_signed [OF core_env_okD(1,3) [OF assms(1)] assms(3)])
  show thesis
  proof (rule that)
    show "DataEncryptorV4_signAndEncryptAndEncode env data k key draws
        = (Inr (DataInnerEncryptorV4_encode env x), draws + 1)"
      using x(1) by (simp add: DataEncryptorV4_signAndEncryptAndEncode_def DataInnerEncryptorV4_encrypt_def bindS_def)
    show "DataEncryptorV4_decodeAndDecryptAndVerify env (DataInnerEncryptorV4_encode env x) p key = Inr data"
      by (simp add: DataEncryptorV4_decodeAndDecryptAndVerify_def DataInnerEncryptorV4_decode_def
          DataInnerEncryptorV4_encode_def base64_inverse [OF core_env_okD(7) [OF assms(1)]]
          DataInnerEncryptorV4_decrypt_def x(2) verifyAndExtract_signed [OF assms(1,2)])
    show "DataInnerEncryptorV4_encode env x \<noteq> []"
      using x(3) by (simp add: DataInnerEncryptorV4_encode_def base64_empty [OF core_env_okD(7) [OF assms(1)]])
  qed
qed

lemma verifyAndExtract_authentic:
  assumes "DataInnerEncryptorV4_verifyAndExtractData env buf p = Inr data"
  obtains sig where "buf = [1] @ [of_nat (length sig)] @ sig @ data" and "length sig \<le> 255"
    and "ecc_verify (en_ecc env) p (sha256 (en_crypto env) data) sig"
proof -
  from assms obtain ds where ds: "DataInnerEncryptorV4_extractDataWithSignature buf = Inr ds" "ds_data ds = data"
      and ver: "DataInnerEncryptorV4_verifySignature env ds p"
    by (auto simp: DataInnerEncryptorV4_verifyAndExtractData_def bindR_eq_Inr split: if_splits)
  from ds(1) have one: "front buf = 1" by (auto simp: DataInnerEncryptorV4_extractDataWithSignature_def split: if_splits)
  then obtain r where buf: "buf = 1 # r" by (cases buf) (auto simp: front_def)
  define n where "n = unat (front r)"
  have parts: "2 + n \<le> length buf" "ds_signature ds = take n (drop 2 buf)" "ds_data ds = drop (2 + n) buf"
    using ds(1) by (auto simp: DataInnerEncryptorV4_extractDataWithSignature_def one bindR_eq_Inr substr_def
        substr1_def Let_def n_def buf split: if_splits)
  then obtain b r' where r: "r = b # r'" using buf by (cases r) auto
  have n: "n \<le> 255" using unsigned_less [where 'b = 8 and 'a = nat, of "front r"] by (simp add: n_def)
  have len: "length (ds_signature ds) = n" using parts by simp
  have "buf = [1] @ [of_nat n] @ take n r' @ drop n r'" by (simp add: buf r n_def front_def)
  then have "buf = [1] @ [of_nat (length (ds_signature ds))] @ ds_signature ds @ data"
    using parts ds(2) len by (simp add: buf r)
  moreover have "ecc_verify (en_ecc env) p (sha256 (en_crypto env) data) (ds_signature ds)"
    using ver ds(2) by (simp add: DataInnerEncryptorV4_verifySignature_def
        PublicKey_verifyCompactSignatureWithHash_def PublicKey_verifyCompactSignature_def)
  ultimately show thesis using that n len by auto
qed

end
