(* ===== verification/Core_DIO.thy ===== *)
theory Core_DIO
  imports Core_DataEncryptor
begin

text \<open>
  Data integrity objects (\<open>endpoint/core/src/encryptors/DIO/DIOEncryptorV1.cpp\<close>): the signed
  record of who created which resource when, with the checksums of the fields that belong to it.
  \<open>dynamic::DataIntegrityObject\<close> is its JSON form.
\<close>

subsection \<open>Data\<close>

record DataIntegrityObject =
  dio_creatorUserId :: string
  dio_creatorPubKey :: string
  dio_contextId :: string
  dio_resourceId :: string
  dio_timestamp :: int
  dio_randomId :: string
  dio_containerId :: "string option"
  dio_containerResourceId :: "string option"
  dio_bridgeIdentity :: "BridgeIdentity option"

record ExpandedDataIntegrityObject = DataIntegrityObject +
  dio_structureVersion :: int
  dio_fieldChecksums :: "(string \<times> bytes) list"

record dynamic_DataIntegrityObject =
  dj_version :: int
  dj_creatorUserId :: string
  dj_creatorPublicKey :: string
  dj_contextId :: string
  dj_resourceId :: string
  dj_timestamp :: int
  dj_randomId :: string
  dj_containerId :: "string option"
  dj_containerResourceId :: "string option"
  dj_fieldChecksums :: "(string \<times> string) list"
  dj_structureVersion :: int
  dj_bridgeIdentity :: "BridgeIdentity option"

text \<open>The conversions \<open>JSON_STRUCT\<close> and \<open>JSON_STRUCT_EXT\<close> generate.\<close>

definition BridgeIdentity_toJSON :: "BridgeIdentity \<Rightarrow> json" where
  "BridgeIdentity_toJSON b = JObject
     (json_put_optional ''instanceId'' (serialize_optional JString (bi_instanceId b))
     (json_put_optional ''pubKey'' (serialize_optional JString (bi_pubKey b))
     (json_put ''url'' (JString (bi_url b)) [])))"

definition BridgeIdentity_fromJSON :: "(string \<times> json) list \<Rightarrow> (exn, BridgeIdentity) result" where
  "BridgeIdentity_fromJSON ob =
     bindR (deserialize_string (json_get ob ''url'')) (\<lambda>url.
     bindR (deserialize_optional deserialize_string (json_get ob ''pubKey'')) (\<lambda>pubKey.
     bindR (deserialize_optional deserialize_string (json_get ob ''instanceId'')) (\<lambda>instanceId.
     Inr \<lparr>bi_url = url, bi_pubKey = pubKey, bi_instanceId = instanceId\<rparr>)))"

definition DataIntegrityObject_toJSON :: "dynamic_DataIntegrityObject \<Rightarrow> json" where
  "DataIntegrityObject_toJSON d = JObject
     (json_put_optional ''bridgeIdentity'' (serialize_optional BridgeIdentity_toJSON (dj_bridgeIdentity d))
     (json_put ''structureVersion'' (JInt (dj_structureVersion d))
     (json_put ''fieldChecksums'' (serialize_map JString (dj_fieldChecksums d))
     (json_put_optional ''containerResourceId'' (serialize_optional JString (dj_containerResourceId d))
     (json_put_optional ''containerId'' (serialize_optional JString (dj_containerId d))
     (json_put ''randomId'' (JString (dj_randomId d))
     (json_put ''timestamp'' (JInt (dj_timestamp d))
     (json_put ''resourceId'' (JString (dj_resourceId d))
     (json_put ''contextId'' (JString (dj_contextId d))
     (json_put ''creatorPublicKey'' (JString (dj_creatorPublicKey d))
     (json_put ''creatorUserId'' (JString (dj_creatorUserId d))
     (json_put ''version'' (JInt (dj_version d)) []))))))))))))"

definition DataIntegrityObject_fromJSON ::
    "poco_api \<Rightarrow> (string \<times> json) list \<Rightarrow> (exn, dynamic_DataIntegrityObject) result" where
  "DataIntegrityObject_fromJSON p ob =
     bindR (deserialize_int64 p (json_get ob ''version'')) (\<lambda>version.
     bindR (deserialize_string (json_get ob ''creatorUserId'')) (\<lambda>creatorUserId.
     bindR (deserialize_string (json_get ob ''creatorPublicKey'')) (\<lambda>creatorPublicKey.
     bindR (deserialize_string (json_get ob ''contextId'')) (\<lambda>contextId.
     bindR (deserialize_string (json_get ob ''resourceId'')) (\<lambda>resourceId.
     bindR (deserialize_int64 p (json_get ob ''timestamp'')) (\<lambda>timestamp.
     bindR (deserialize_string (json_get ob ''randomId'')) (\<lambda>randomId.
     bindR (deserialize_optional deserialize_string (json_get ob ''containerId'')) (\<lambda>containerId.
     bindR (deserialize_optional deserialize_string (json_get ob ''containerResourceId'')) (\<lambda>containerResourceId.
     bindR (deserializeUnorderedMap deserialize_string (json_get ob ''fieldChecksums'')) (\<lambda>fieldChecksums.
     bindR (deserialize_int64 p (json_get ob ''structureVersion'')) (\<lambda>structureVersion.
     bindR (deserialize_optional (deserialize_struct BridgeIdentity_fromJSON) (json_get ob ''bridgeIdentity'')) (\<lambda>bridgeIdentity.
     Inr \<lparr>dj_version = version, dj_creatorUserId = creatorUserId, dj_creatorPublicKey = creatorPublicKey,
        dj_contextId = contextId, dj_resourceId = resourceId, dj_timestamp = timestamp, dj_randomId = randomId,
        dj_containerId = containerId, dj_containerResourceId = containerResourceId,
        dj_fieldChecksums = fieldChecksums, dj_structureVersion = structureVersion,
        dj_bridgeIdentity = bridgeIdentity\<rparr>))))))))))))"

subsection \<open>\<open>DIOEncryptorV1\<close>\<close>

definition DIOEncryptorV1_assertDataFormat :: "dynamic_DataIntegrityObject \<Rightarrow> (exn, unit) result" where
  "DIOEncryptorV1_assertDataFormat d =
     (if dj_version d \<noteq> 1 \<or> dj_creatorUserId d = [] \<or> dj_creatorPublicKey d = [] \<or>
         dj_contextId d = [] \<or> dj_randomId d = []
      then Inl (CoreExn MalformedDataIntegrityObjectException) else Inr ())"

definition dio_to_dynamic :: "'k core_env \<Rightarrow> ExpandedDataIntegrityObject \<Rightarrow> dynamic_DataIntegrityObject" where
  "dio_to_dynamic env dio =
     \<lparr>dj_version = 1, dj_creatorUserId = dio_creatorUserId dio, dj_creatorPublicKey = dio_creatorPubKey dio,
      dj_contextId = dio_contextId dio, dj_resourceId = dio_resourceId dio, dj_timestamp = dio_timestamp dio,
      dj_randomId = dio_randomId dio, dj_containerId = dio_containerId dio,
      dj_containerResourceId = dio_containerResourceId dio,
      dj_fieldChecksums = fold (\<lambda>(k, v). alist_set k (base64_from (en_poco env) v)) (dio_fieldChecksums dio) [],
      dj_structureVersion = dio_structureVersion dio, dj_bridgeIdentity = dio_bridgeIdentity dio\<rparr>"

definition DIOEncryptorV1_signAndEncode ::
    "'k core_env \<Rightarrow> ExpandedDataIntegrityObject \<Rightarrow> 'k \<Rightarrow> (exn, string) result" where
  "DIOEncryptorV1_signAndEncode env dio authorKey =
     (if dio_creatorPubKey dio \<noteq> PublicKey_toBase58DER (en_crypto env) (en_ecc env) authorKey
      then Inl (CoreExn DataIntegrityObjectMismatchEncKeyException)
      else Inr (DataInnerEncryptorV4_encode env
        (DataInnerEncryptorV4_signAndPackDataWithSignature env
          (Utils_stringify (en_poco env) (DataIntegrityObject_toJSON (dio_to_dynamic env dio))) authorKey)))"

text \<open>
  The bridge identity is read through the optional without a test; when it is absent the storage
  of the empty optional is read, whose content is not specified (\<open>en_uninit\<close>).
\<close>

definition DIOEncryptorV1_decodeAndVerify ::
    "'k core_env \<Rightarrow> string \<Rightarrow> (exn, ExpandedDataIntegrityObject) result" where
  "DIOEncryptorV1_decodeAndVerify env signedDio =
     bindR (DataInnerEncryptorV4_decode env signedDio) (\<lambda>buf.
     bindR (DataInnerEncryptorV4_extractDataWithSignature buf) (\<lambda>ds.
     bindR (parseJsonObject (en_poco env) (ds_data ds)) (\<lambda>ob.
     bindR (DataIntegrityObject_fromJSON (en_poco env) ob) (\<lambda>j.
     bindR (DIOEncryptorV1_assertDataFormat j) (\<lambda>_.
     bindR (mapR (\<lambda>(k, v). bindR (base64_to (en_poco env) v) (\<lambda>d. Inr (k, d))) (dj_fieldChecksums j)) (\<lambda>fieldChecksums.
     bindR (PublicKey_fromBase58DER (en_crypto env) (en_ecc env) (dj_creatorPublicKey j)) (\<lambda>pub.
     if \<not> DataInnerEncryptorV4_verifySignature env ds pub
     then Inl (CoreExn DataIntegrityObjectInvalidSignatureException)
     else Inr \<lparr>dio_creatorUserId = dj_creatorUserId j, dio_creatorPubKey = dj_creatorPublicKey j,
       dio_contextId = dj_contextId j, dio_resourceId = dj_resourceId j, dio_timestamp = dj_timestamp j,
       dio_randomId = dj_randomId j, dio_containerId = dj_containerId j,
       dio_containerResourceId = dj_containerResourceId j,
       dio_bridgeIdentity = Some (case dj_bridgeIdentity j of Some b \<Rightarrow> b | None \<Rightarrow> en_uninit env),
       dio_structureVersion = dj_structureVersion j, dio_fieldChecksums = fieldChecksums\<rparr>)))))))"

subsection \<open>Reading back\<close>

lemma BridgeIdentity_roundtrip [simp]:
  "deserialize_struct BridgeIdentity_fromJSON (BridgeIdentity_toJSON b) = Inr b"
  by (cases b; cases "bi_pubKey b"; cases "bi_instanceId b")
    (auto simp: BridgeIdentity_fromJSON_def BridgeIdentity_toJSON_def deserialize_optional_def)

lemma BridgeIdentity_toJSON_nonempty [simp]: "BridgeIdentity_toJSON b \<noteq> JEmpty"
  by (simp add: BridgeIdentity_toJSON_def)

lemma wf_BridgeIdentity [simp]: "wf_json (BridgeIdentity_toJSON b)"
  by (simp add: BridgeIdentity_toJSON_def)

lemma wf_serialize_bridge [simp]: "wf_json (serialize_optional BridgeIdentity_toJSON v)"
  by (cases v) simp_all

lemma deserialize_optional_bridge [simp]:
  "deserialize_optional (deserialize_struct BridgeIdentity_fromJSON)
     (serialize_optional BridgeIdentity_toJSON v) = Inr v"
  by (rule deserialize_optional_serialize) simp

lemma DataIntegrityObject_roundtrip:
  assumes "ordered (dj_fieldChecksums d)"
  shows "DataIntegrityObject_toJSON d = JObject ob \<Longrightarrow> DataIntegrityObject_fromJSON p ob = Inr d"
proof -
  assume "DataIntegrityObject_toJSON d = JObject ob"
  then have ob: "ob = (case DataIntegrityObject_toJSON d of JObject ob \<Rightarrow> ob)" by simp
  show ?thesis
    using assms unfolding ob DataIntegrityObject_toJSON_def DataIntegrityObject_fromJSON_def
    by (cases "dj_containerId d"; cases "dj_containerResourceId d"; cases "dj_bridgeIdentity d")
      (simp_all add: deserialize_optional_def)
qed

lemma wf_DataIntegrityObject:
  assumes "ordered (dj_fieldChecksums d)" and "wf_json (JInt (dj_timestamp d))"
    and "wf_json (JInt (dj_structureVersion d))" and "wf_json (JInt (dj_version d))"
  shows "wf_json (DataIntegrityObject_toJSON d)"
  using assms by (simp add: DataIntegrityObject_toJSON_def)

definition dio_wf :: "ExpandedDataIntegrityObject \<Rightarrow> bool" where
  "dio_wf dio \<longleftrightarrow>
     dio_creatorUserId dio \<noteq> [] \<and> dio_contextId dio \<noteq> [] \<and> dio_randomId dio \<noteq> [] \<and>
     ordered (dio_fieldChecksums dio) \<and>
     - (2 ^ 63) \<le> dio_timestamp dio \<and> dio_timestamp dio < 2 ^ 63 \<and>
     - (2 ^ 63) \<le> dio_structureVersion dio \<and> dio_structureVersion dio < 2 ^ 63"

lemma dynamic_checksums:
  "ordered kvs \<Longrightarrow> fold (\<lambda>(k, v). alist_set k (f v)) kvs [] = map (\<lambda>(k, v). (k, f v)) kvs"
proof -
  assume "ordered kvs"
  then have "ordered (map (\<lambda>(k, v). (k, f v)) kvs)" by (simp add: ordered_def comp_def case_prod_beta)
  then show ?thesis by (simp add: fold_alist_set_map [of f] rebuild_ordered)
qed

lemma encodeWithChecksum_nonempty: "Base58_encodeWithChecksum c s \<noteq> []"
proof -
  have "digits_of 58 x \<noteq> []" if "x \<noteq> 0" for x using that by (subst digits_of.simps) simp
  then show ?thesis by (simp add: Base58_encodeWithChecksum_def Base58_encode_def gmp2bitcoin_def get_str_def Let_def)
qed

lemma DIO_roundtrip:
  assumes "core_env_ok env" and "dio_wf dio"
    and "dio_creatorPubKey dio = PublicKey_toBase58DER (en_crypto env) (en_ecc env) k"
  obtains t where "DIOEncryptorV1_signAndEncode env dio k = Inr t" and "t \<noteq> []"
    and "DIOEncryptorV1_decodeAndVerify env t = Inr (dio\<lparr>dio_bridgeIdentity :=
      Some (case dio_bridgeIdentity dio of Some b \<Rightarrow> b | None \<Rightarrow> en_uninit env)\<rparr>)"
proof -
  let ?d = "dio_to_dynamic env dio"
  obtain ob where ob: "DataIntegrityObject_toJSON ?d = JObject ob" by (simp add: DataIntegrityObject_toJSON_def)
  have sums: "dj_fieldChecksums ?d = map (\<lambda>(k, v). (k, base64_from (en_poco env) v)) (dio_fieldChecksums dio)"
    using assms(2) by (simp add: dio_to_dynamic_def dio_wf_def dynamic_checksums)
  then have ord: "ordered (dj_fieldChecksums ?d)"
    using assms(2) by (simp add: dio_wf_def ordered_def comp_def case_prod_beta)
  have "wf_json (JObject ob)"
    unfolding ob [symmetric] using assms(2) ord
    by (intro wf_DataIntegrityObject) (simp_all add: dio_wf_def dio_to_dynamic_def)
  note parse = parse_stringify [OF core_env_okD(6) [OF assms(1)] this]
  have fromJ: "DataIntegrityObject_fromJSON (en_poco env) ob = Inr ?d"
    by (rule DataIntegrityObject_roundtrip [OF ord ob])
  have fmt: "DIOEncryptorV1_assertDataFormat ?d = Inr ()"
    using assms(2,3) by (simp add: DIOEncryptorV1_assertDataFormat_def dio_to_dynamic_def dio_wf_def
        PublicKey_toBase58DER_def encodeWithChecksum_nonempty)
  have dec: "mapR (\<lambda>(k, v). bindR (base64_to (en_poco env) v) (\<lambda>d. Inr (k, d))) (dj_fieldChecksums ?d)
      = Inr (dio_fieldChecksums dio)"
    unfolding sums by (rule mapR_map) (auto simp: base64_inverse [OF core_env_okD(7) [OF assms(1)]])
  have pk: "dj_creatorPublicKey ?d = PublicKey_toBase58DER (en_crypto env) (en_ecc env) k"
    using assms(3) by (simp add: dio_to_dynamic_def)
  obtain p where p: "PublicKey_fromBase58DER (en_crypto env) (en_ecc env)
      (PublicKey_toBase58DER (en_crypto env) (en_ecc env) k) = Inr p" "same_key env p k"
    using PublicKey_base58_roundtrip [OF assms(1)] by blast
  let ?text = "Utils_stringify (en_poco env) (JObject ob)"
  have data: "ds_data (DataInnerEncryptorV4_sign env ?text k) = ?text" by (simp add: DataInnerEncryptorV4_sign_def)
  show thesis
  proof (rule that)
    let ?t = "DataInnerEncryptorV4_encode env (DataInnerEncryptorV4_signAndPackDataWithSignature env ?text k)"
    show "DIOEncryptorV1_signAndEncode env dio k = Inr ?t"
      by (simp add: DIOEncryptorV1_signAndEncode_def assms(3) ob)
    show "?t \<noteq> []" by (simp add: DataInnerEncryptorV4_encode_def base64_empty [OF core_env_okD(7) [OF assms(1)]])
    show "DIOEncryptorV1_decodeAndVerify env ?t = Inr (dio\<lparr>dio_bridgeIdentity :=
      Some (case dio_bridgeIdentity dio of Some b \<Rightarrow> b | None \<Rightarrow> en_uninit env)\<rparr>)"
      unfolding DIOEncryptorV1_decodeAndVerify_def DataInnerEncryptorV4_decode_def DataInnerEncryptorV4_encode_def
        base64_inverse [OF core_env_okD(7) [OF assms(1)]] bindR_Inr extract_signed [OF assms(1)] data parse fromJ fmt
        dec pk p(1)
      using verify_signed [OF assms(1) p(2)] assms(3) by (simp add: dio_to_dynamic_def)
  qed
qed

lemma DIO_authentic:
  assumes "DIOEncryptorV1_decodeAndVerify env t = Inr dio"
  obtains pub sig data where
    "PublicKey_fromBase58DER (en_crypto env) (en_ecc env) (dio_creatorPubKey dio) = Inr pub"
    and "base64_to (en_poco env) t = Inr ([1] @ [of_nat (length sig)] @ sig @ data)"
    and "ecc_verify (en_ecc env) pub (sha256 (en_crypto env) data) sig"
proof -
  from assms obtain buf ds pub where *: "base64_to (en_poco env) t = Inr buf"
      "DataInnerEncryptorV4_extractDataWithSignature buf = Inr ds"
      "PublicKey_fromBase58DER (en_crypto env) (en_ecc env) (dio_creatorPubKey dio) = Inr pub"
      "DataInnerEncryptorV4_verifySignature env ds pub"
    by (auto simp: DIOEncryptorV1_decodeAndVerify_def DataInnerEncryptorV4_decode_def bindR_eq_Inr split: if_splits)
  then have "DataInnerEncryptorV4_verifyAndExtractData env buf pub = Inr (ds_data ds)"
    by (simp add: DataInnerEncryptorV4_verifyAndExtractData_def)
  then obtain sig where "buf = [1] @ [of_nat (length sig)] @ sig @ ds_data ds"
      "ecc_verify (en_ecc env) pub (sha256 (en_crypto env) (ds_data ds)) sig"
    by (rule verifyAndExtract_authentic)
  with * show thesis by (intro that [of pub sig "ds_data ds"]) simp_all
qed

end
