(* ===== verification/Core_EncKey.thy ===== *)
theory Core_EncKey
  imports Core_DIO
begin

text \<open>
  Container keys encrypted for a user (\<open>endpoint/core/src/encryptors/EncKey/EncKeyEncryptorV2.cpp\<close>,
  \<open>EncKeyEncryptorV1.cpp\<close>, and the Base64 and JSON wrappers of \<open>crypto/base/src/EciesEncryptor.cpp\<close>).
  A key is encrypted for the public key of the user, and bound to the data integrity object of its
  author by checksums.
\<close>

subsection \<open>Data\<close>

record EncKeyLocation =
  el_contextId :: string
  el_resourceId :: string

record EncKey =
  ek_id :: string
  ek_key :: bytes

record EncKeyV2ToEncrypt = EncKey +
  ek_dio :: DataIntegrityObject
  ek_location :: EncKeyLocation
  ek_keySecret :: bytes
  ek_secretHash :: bytes

record DecryptedEncKeyV2 = EncKey +
  k2_dataStructureVersion :: int
  k2_statusCode :: int
  k2_dio :: ExpandedDataIntegrityObject
  k2_keySecret :: bytes
  k2_secretHash :: bytes

record EncryptionKey =
  dyk_id :: string
  dyk_key :: string
  dyk_keySecret :: string

record EncryptedKeyEntryDataV2 =
  ke_version :: int
  ke_encryptedKey :: string
  ke_dio :: string

definition EncryptionKey_toJSON :: "EncryptionKey \<Rightarrow> json" where
  "EncryptionKey_toJSON k = JObject
     (json_put ''keySecret'' (JString (dyk_keySecret k))
     (json_put ''key'' (JString (dyk_key k))
     (json_put ''id'' (JString (dyk_id k)) [])))"

definition EncryptionKey_fromJSON :: "(string \<times> json) list \<Rightarrow> (exn, EncryptionKey) result" where
  "EncryptionKey_fromJSON ob =
     bindR (deserialize_string (json_get ob ''id'')) (\<lambda>i.
     bindR (deserialize_string (json_get ob ''key'')) (\<lambda>key.
     bindR (deserialize_string (json_get ob ''keySecret'')) (\<lambda>keySecret.
     Inr \<lparr>dyk_id = i, dyk_key = key, dyk_keySecret = keySecret\<rparr>)))"

definition VersionedData_fromJSON :: "poco_api \<Rightarrow> (string \<times> json) list \<Rightarrow> (exn, int) result" where
  "VersionedData_fromJSON p ob = deserialize_int64 p (json_get ob ''version'')"

definition EncryptedKeyEntryDataV2_toJSON :: "EncryptedKeyEntryDataV2 \<Rightarrow> json" where
  "EncryptedKeyEntryDataV2_toJSON d = JObject
     (json_put ''dio'' (JString (ke_dio d))
     (json_put ''encryptedKey'' (JString (ke_encryptedKey d))
     (json_put ''version'' (JInt (ke_version d)) [])))"

definition EncryptedKeyEntryDataV2_fromJSON ::
    "poco_api \<Rightarrow> (string \<times> json) list \<Rightarrow> (exn, EncryptedKeyEntryDataV2) result" where
  "EncryptedKeyEntryDataV2_fromJSON p ob =
     bindR (VersionedData_fromJSON p ob) (\<lambda>version.
     bindR (deserialize_string (json_get ob ''encryptedKey'')) (\<lambda>encryptedKey.
     bindR (deserialize_string (json_get ob ''dio'')) (\<lambda>dio.
     Inr \<lparr>ke_version = version, ke_encryptedKey = encryptedKey, ke_dio = dio\<rparr>)))"

subsection \<open>Base64 and JSON around \<open>EciesEncryptor\<close>\<close>

definition EciesEncryptor_decryptFromBase64 ::
    "'k core_env \<Rightarrow> 'k \<Rightarrow> string \<Rightarrow> 'k option \<Rightarrow> (exn, bytes) result" where
  "EciesEncryptor_decryptFromBase64 env priv cipher_base64 pubOfSignature =
     bindR (base64_to (en_poco env) cipher_base64) (\<lambda>x.
       EciesEncryptor_decrypt (en_crypto env) (en_ecc env) priv x pubOfSignature)"

definition EciesEncryptor_decryptObjectFromBase64 ::
    "'k core_env \<Rightarrow> 'k \<Rightarrow> string \<Rightarrow> 'k option \<Rightarrow> (exn, (string \<times> json) list) result" where
  "EciesEncryptor_decryptObjectFromBase64 env priv cipher_base64 pubOfSignature =
     bindR (EciesEncryptor_decryptFromBase64 env priv cipher_base64 pubOfSignature) (parseJsonObject (en_poco env))"

definition EciesEncryptor_encryptToBase64 :: "'k core_env \<Rightarrow> 'k \<Rightarrow> bytes \<Rightarrow> 'k \<Rightarrow> string" where
  "EciesEncryptor_encryptToBase64 env pub data privForSignature =
     base64_from (en_poco env) (EciesEncryptor_encrypt (en_crypto env) (en_ecc env) pub data privForSignature)"

definition EciesEncryptor_encryptObjectToBase64 :: "'k core_env \<Rightarrow> 'k \<Rightarrow> json \<Rightarrow> 'k \<Rightarrow> string" where
  "EciesEncryptor_encryptObjectToBase64 env pub data privForSignature =
     EciesEncryptor_encryptToBase64 env pub (Utils_stringify (en_poco env) data) privForSignature"

subsection \<open>Encryptors\<close>

text \<open>The code of a caught exception; everything else gets \<open>ENDPOINT_CORE_EXCEPTION_CODE\<close>.\<close>

definition status_of :: "exn \<Rightarrow> int" where
  "status_of e = (case getCode e of Some c \<Rightarrow> int c | None \<Rightarrow> 0x00010000)"

definition unordered_map_at :: "(string \<times> 'v) list \<Rightarrow> string \<Rightarrow> (exn, 'v) result" where
  "unordered_map_at m k = (case map_of m k of Some v \<Rightarrow> Inr v | None \<Rightarrow> Inl StdOutOfRange)"

definition EncKeyEncryptorV1_decrypt :: "'k core_env \<Rightarrow> string \<Rightarrow> 'k \<Rightarrow> (exn, bytes) result" where
  "EncKeyEncryptorV1_decrypt env encryptedEncKey decryptionKey =
     EciesEncryptor_decryptFromBase64 env decryptionKey encryptedEncKey None"

definition EncKeyEncryptorV2_encrypt ::
    "'k core_env \<Rightarrow> EncKeyV2ToEncrypt \<Rightarrow> 'k \<Rightarrow> 'k \<Rightarrow> (exn, EncryptedKeyEntryDataV2) result" where
  "EncKeyEncryptorV2_encrypt env key encryptionKey authorPrivateKey =
     (let keyToEncrypt = \<lparr>dyk_id = ek_id key, dyk_key = base64_from (en_poco env) (ek_key key),
            dyk_keySecret = base64_from (en_poco env) (ek_keySecret key)\<rparr>;
          encryptedKey = EciesEncryptor_encryptObjectToBase64 env encryptionKey (EncryptionKey_toJSON keyToEncrypt)
            authorPrivateKey;
          fieldChecksums = alist_set ''secretHash'' (ek_secretHash key)
            (alist_set ''encryptedKey'' (sha256 (en_crypto env) (bytes_of encryptedKey)) []);
          expandedDio = DataIntegrityObject.extend (ek_dio key)
            (ExpandedDataIntegrityObject.fields 2 fieldChecksums)
      in bindR (DIOEncryptorV1_signAndEncode env expandedDio authorPrivateKey) (\<lambda>dio.
         Inr \<lparr>ke_version = 2, ke_encryptedKey = encryptedKey, ke_dio = dio\<rparr>))"

definition EncKeyEncryptorV2_assertDataFormat :: "EncryptedKeyEntryDataV2 \<Rightarrow> (exn, unit) result" where
  "EncKeyEncryptorV2_assertDataFormat e =
     (if ke_version e \<noteq> 2 \<or> ke_encryptedKey e = [] then Inl (CoreExn MalformedEncryptionKeyException) else Inr ())"

text \<open>
  The members a default constructed \<open>DecryptedEncKeyV2\<close> has; the numbers are uninitialised in the
  source and are not read before they are set.
\<close>

definition empty_dio :: ExpandedDataIntegrityObject where
  "empty_dio =
     \<lparr>dio_creatorUserId = [], dio_creatorPubKey = [], dio_contextId = [], dio_resourceId = [], dio_timestamp = 0,
      dio_randomId = [], dio_containerId = None, dio_containerResourceId = None, dio_bridgeIdentity = None,
      dio_structureVersion = 0, dio_fieldChecksums = []\<rparr>"

definition DecryptedEncKeyV2_new :: DecryptedEncKeyV2 where
  "DecryptedEncKeyV2_new =
     \<lparr>ek_id = [], ek_key = [], k2_dataStructureVersion = 0, k2_statusCode = 0, k2_dio = empty_dio,
      k2_keySecret = [], k2_secretHash = []\<rparr>"

definition modify :: "('s \<Rightarrow> 's) \<Rightarrow> ('e, 's, unit) op" where
  "modify f s = (Inr (), f s)"

lemma modify_apply [simp]: "modify f s = (Inr (), f s)"
  by (simp add: modify_def)

text \<open>The body of the \<open>try\<close> block, on the result under construction.\<close>

definition decrypt_enc_key ::
    "'k core_env \<Rightarrow> EncryptedKeyEntryDataV2 \<Rightarrow> 'k \<Rightarrow> (exn, DecryptedEncKeyV2, unit) op" where
  "decrypt_enc_key env enc decryptionKey =
     bindS (liftR (EncKeyEncryptorV2_assertDataFormat enc)) (\<lambda>_.
     bindS (liftR (DIOEncryptorV1_decodeAndVerify env (ke_dio enc))) (\<lambda>dio.
     bindS (modify (\<lambda>r. r\<lparr>k2_dio := dio\<rparr>)) (\<lambda>_.
     bindS (liftR (unordered_map_at (dio_fieldChecksums dio) ''encryptedKey'')) (\<lambda>sum.
     bindS (throw_if (sum \<noteq> sha256 (en_crypto env) (bytes_of (ke_encryptedKey enc)))
       (CoreExn InvalidDataIntegrityObjectChecksumException)) (\<lambda>_.
     bindS (liftR (PublicKey_fromBase58DER (en_crypto env) (en_ecc env) (dio_creatorPubKey dio))) (\<lambda>author.
     bindS (liftR (EciesEncryptor_decryptObjectFromBase64 env decryptionKey (ke_encryptedKey enc) (Some author))) (\<lambda>ob.
     bindS (liftR (EncryptionKey_fromJSON ob)) (\<lambda>k.
     bindS (throw_if (dyk_id k = [] \<or> dyk_key k = []) (CoreExn MalformedEncryptionKeyException)) (\<lambda>_.
     bindS (modify (\<lambda>r. r\<lparr>ek_id := dyk_id k\<rparr>)) (\<lambda>_.
     bindS (liftR (base64_to (en_poco env) (dyk_key k))) (\<lambda>key.
     bindS (modify (\<lambda>r. r\<lparr>ek_key := key\<rparr>)) (\<lambda>_.
     bindS (liftR (unordered_map_at (dio_fieldChecksums dio) ''secretHash'')) (\<lambda>secretHash.
     bindS (modify (\<lambda>r. r\<lparr>k2_secretHash := secretHash\<rparr>)) (\<lambda>_.
     bindS (liftR (base64_to (en_poco env) (dyk_keySecret k))) (\<lambda>keySecret.
     modify (\<lambda>r. r\<lparr>k2_keySecret := keySecret\<rparr>))))))))))))))))"

definition EncKeyEncryptorV2_decrypt :: "'k core_env \<Rightarrow> EncryptedKeyEntryDataV2 \<Rightarrow> 'k \<Rightarrow> DecryptedEncKeyV2" where
  "EncKeyEncryptorV2_decrypt env enc decryptionKey =
     (case decrypt_enc_key env enc decryptionKey (DecryptedEncKeyV2_new\<lparr>k2_dataStructureVersion := 2\<rparr>) of
        (Inr _, r) \<Rightarrow> r
      | (Inl e, r) \<Rightarrow> r\<lparr>k2_statusCode := status_of e\<rparr>)"

subsection \<open>Facts\<close>

lemma EncryptionKey_roundtrip:
  "EncryptionKey_toJSON k = JObject ob \<Longrightarrow> EncryptionKey_fromJSON ob = Inr k"
  by (auto simp: EncryptionKey_toJSON_def EncryptionKey_fromJSON_def)

lemma wf_EncryptionKey [simp]: "wf_json (EncryptionKey_toJSON k)"
  by (simp add: EncryptionKey_toJSON_def)

lemma EncryptedKeyEntryDataV2_roundtrip:
  "EncryptedKeyEntryDataV2_toJSON d = JObject ob \<Longrightarrow> EncryptedKeyEntryDataV2_fromJSON p ob = Inr d"
  "EncryptedKeyEntryDataV2_toJSON d = JObject ob \<Longrightarrow> VersionedData_fromJSON p ob = Inr (ke_version d)"
  by (auto simp: EncryptedKeyEntryDataV2_toJSON_def EncryptedKeyEntryDataV2_fromJSON_def VersionedData_fromJSON_def)

lemma Ecies_object_roundtrip:
  assumes "core_env_ok env" and "same_key env pub priv" and "same_key env author sender"
    and "wf_json (JObject ob)" and "length (Utils_stringify (en_poco env) (JObject ob)) < 2 ^ 60"
  shows "EciesEncryptor_decryptObjectFromBase64 env priv
    (EciesEncryptor_encryptObjectToBase64 env pub (JObject ob) sender) (Some author) = Inr ob"
  unfolding EciesEncryptor_decryptObjectFromBase64_def EciesEncryptor_encryptObjectToBase64_def
    EciesEncryptor_decryptFromBase64_def EciesEncryptor_encryptToBase64_def
    base64_inverse [OF core_env_okD(7) [OF assms(1)]] bindR_Inr
  using EciesEncryptor_inverse [OF core_env_okD(1,4) [OF assms(1)] _ assms(5), of pub priv sender "Some author"]
    assms(2,3) parse_stringify [OF core_env_okD(6) [OF assms(1)] assms(4)]
  by (simp add: same_key_def)

lemma Ecies_text_nonempty:
  "core_env_ok env \<Longrightarrow> EciesEncryptor_encryptObjectToBase64 env pub ob sender \<noteq> []"
  by (simp add: EciesEncryptor_encryptObjectToBase64_def EciesEncryptor_encryptToBase64_def
      EciesEncryptor_encrypt_def base64_empty [OF core_env_okD(7)])

lemma endpoint_code_pos: "0 < scope \<Longrightarrow> 0 < endpoint_code scope code"
  by (metis endpoint_code_def gr0I or_eq_0_iff push_bit_eq_0_iff)

lemma or_pos: "0 < b \<Longrightarrow> 0 < a OR b" for a b :: nat
  by (metis bot_nat_0.not_eq_extremum or_eq_0_iff)

lemma if_pos: "0 < x \<Longrightarrow> 0 < y \<Longrightarrow> 0 < (if b then x else y)" for x y :: nat
  by simp

lemma convert_group_pos: "0 < scope \<Longrightarrow> 0 < convert_group scope tbl lo"
  by (simp add: convert_group_def endpoint_code_pos split: option.split)

lemma convert_server_pos: "0 < convert_server x lo"
proof (cases "map_of server_table lo")
  case None
  show ?thesis
    unfolding convert_server_def None option.case by (intro if_pos endpoint_code_pos or_pos) simp_all
qed (simp add: convert_server_def endpoint_code_pos)

lemma convert_pos: "0 < ExceptionConverter_convert x"
  unfolding ExceptionConverter_convert_def Let_def
  by (intro if_pos endpoint_code_pos convert_group_pos convert_server_pos or_pos) simp_all

lemma status_of_pos: "0 < status_of e"
  by (cases e) (simp_all add: status_of_def endpoint_code_pos convert_pos)

subsection \<open>What a decrypted key means\<close>

lemma bindS_liftR: "bindS (liftR r) f s = (case r of Inl e \<Rightarrow> (Inl e, s) | Inr x \<Rightarrow> f x s)"
  by (cases r) (simp_all add: bindS_def)

lemma decrypt_enc_key_ok:
  assumes "decrypt_enc_key env enc k r = (Inr (), r')"
  shows "k2_statusCode r' = k2_statusCode r \<and> k2_dataStructureVersion r' = k2_dataStructureVersion r \<and>
    DIOEncryptorV1_decodeAndVerify env (ke_dio enc) = Inr (k2_dio r') \<and>
    map_of (dio_fieldChecksums (k2_dio r')) ''encryptedKey'' = Some (sha256 (en_crypto env) (bytes_of (ke_encryptedKey enc))) \<and>
    map_of (dio_fieldChecksums (k2_dio r')) ''secretHash'' = Some (k2_secretHash r') \<and>
    (\<exists>author ob d. PublicKey_fromBase58DER (en_crypto env) (en_ecc env) (dio_creatorPubKey (k2_dio r')) = Inr author \<and>
      EciesEncryptor_decryptObjectFromBase64 env k (ke_encryptedKey enc) (Some author) = Inr ob \<and>
      EncryptionKey_fromJSON ob = Inr d \<and> dyk_id d = ek_id r' \<and> ek_id r' \<noteq> [] \<and>
      base64_to (en_poco env) (dyk_key d) = Inr (ek_key r'))"
  using assms unfolding decrypt_enc_key_def
  by (auto simp: bindS_eq_Inr unordered_map_at_def throw_if_def split: if_splits option.splits)

text \<open>
  The keys that count: a decrypted key without error was read from an entry whose integrity object
  carries a valid signature of its creator, names the checksum of the encrypted key, and whose
  encrypted key was made by that creator for this user.
\<close>

definition authentic_key :: "'k core_env \<Rightarrow> 'k \<Rightarrow> EncryptedKeyEntryDataV2 \<Rightarrow> DecryptedEncKeyV2 \<Rightarrow> bool" where
  "authentic_key env k enc r \<longleftrightarrow>
     DIOEncryptorV1_decodeAndVerify env (ke_dio enc) = Inr (k2_dio r) \<and>
     map_of (dio_fieldChecksums (k2_dio r)) ''encryptedKey'' = Some (sha256 (en_crypto env) (bytes_of (ke_encryptedKey enc))) \<and>
     map_of (dio_fieldChecksums (k2_dio r)) ''secretHash'' = Some (k2_secretHash r) \<and>
     (\<exists>author ob d. PublicKey_fromBase58DER (en_crypto env) (en_ecc env) (dio_creatorPubKey (k2_dio r)) = Inr author \<and>
       EciesEncryptor_decryptObjectFromBase64 env k (ke_encryptedKey enc) (Some author) = Inr ob \<and>
       EncryptionKey_fromJSON ob = Inr d \<and> dyk_id d = ek_id r \<and> ek_id r \<noteq> [] \<and>
       base64_to (en_poco env) (dyk_key d) = Inr (ek_key r))"

lemma EncKeyEncryptorV2_decrypt_authentic:
  assumes "k2_statusCode (EncKeyEncryptorV2_decrypt env enc k) = 0"
  shows "authentic_key env k enc (EncKeyEncryptorV2_decrypt env enc k)"
proof -
  let ?r0 = "DecryptedEncKeyV2_new\<lparr>k2_dataStructureVersion := 2\<rparr>"
  obtain x r where r: "decrypt_enc_key env enc k ?r0 = (x, r)" by fastforce
  show ?thesis
  proof (cases x)
    case (Inl e)
    then have "k2_statusCode (EncKeyEncryptorV2_decrypt env enc k) = status_of e"
      by (simp add: EncKeyEncryptorV2_decrypt_def r)
    then show ?thesis using assms status_of_pos [of e] by simp
  next
    case (Inr u)
    then have "EncKeyEncryptorV2_decrypt env enc k = r" and ok: "decrypt_enc_key env enc k ?r0 = (Inr (), r)"
      by (simp_all add: EncKeyEncryptorV2_decrypt_def r)
    then show ?thesis using decrypt_enc_key_ok [OF ok] by (simp add: authentic_key_def)
  qed
qed

lemma decrypt_enc_key_version:
  "k2_dataStructureVersion (snd (decrypt_enc_key env enc k r)) = k2_dataStructureVersion r"
  by (auto simp: decrypt_enc_key_def bindS_def throw_if_def split: sum.splits prod.splits if_splits)

lemma EncKeyEncryptorV2_decrypt_version: "k2_dataStructureVersion (EncKeyEncryptorV2_decrypt env enc k) = 2"
  using decrypt_enc_key_version [of env enc k "DecryptedEncKeyV2_new\<lparr>k2_dataStructureVersion := 2\<rparr>"]
  by (auto simp: EncKeyEncryptorV2_decrypt_def split: prod.splits sum.splits)

text \<open>Encryption for a user and decryption by that user.\<close>

definition expanded_dio :: "DataIntegrityObject \<Rightarrow> int \<Rightarrow> (string \<times> bytes) list \<Rightarrow> ExpandedDataIntegrityObject" where
  "expanded_dio d v sums = DataIntegrityObject.extend d (ExpandedDataIntegrityObject.fields v sums)"

definition read_back :: "'k core_env \<Rightarrow> ExpandedDataIntegrityObject \<Rightarrow> ExpandedDataIntegrityObject" where
  "read_back env dio =
     dio\<lparr>dio_bridgeIdentity := Some (case dio_bridgeIdentity dio of Some b \<Rightarrow> b | None \<Rightarrow> en_uninit env)\<rparr>"

lemma expanded_dio_sel [simp]:
  "dio_creatorUserId (expanded_dio d v s) = dio_creatorUserId d"
  "dio_creatorPubKey (expanded_dio d v s) = dio_creatorPubKey d"
  "dio_contextId (expanded_dio d v s) = dio_contextId d"
  "dio_resourceId (expanded_dio d v s) = dio_resourceId d"
  "dio_timestamp (expanded_dio d v s) = dio_timestamp d"
  "dio_randomId (expanded_dio d v s) = dio_randomId d"
  "dio_bridgeIdentity (expanded_dio d v s) = dio_bridgeIdentity d"
  "dio_structureVersion (expanded_dio d v s) = v"
  "dio_fieldChecksums (expanded_dio d v s) = s"
  by (simp_all add: expanded_dio_def DataIntegrityObject.extend_def ExpandedDataIntegrityObject.fields_def)

lemma read_back_sel [simp]:
  "dio_creatorUserId (read_back env d) = dio_creatorUserId d"
  "dio_creatorPubKey (read_back env d) = dio_creatorPubKey d"
  "dio_contextId (read_back env d) = dio_contextId d"
  "dio_resourceId (read_back env d) = dio_resourceId d"
  "dio_timestamp (read_back env d) = dio_timestamp d"
  "dio_randomId (read_back env d) = dio_randomId d"
  "dio_structureVersion (read_back env d) = dio_structureVersion d"
  "dio_fieldChecksums (read_back env d) = dio_fieldChecksums d"
  by (simp_all add: read_back_def)

definition dio_valid :: "'k core_env \<Rightarrow> 'k \<Rightarrow> DataIntegrityObject \<Rightarrow> bool" where
  "dio_valid env author d \<longleftrightarrow>
     dio_creatorUserId d \<noteq> [] \<and> dio_contextId d \<noteq> [] \<and> dio_randomId d \<noteq> [] \<and>
     - (2 ^ 63) \<le> dio_timestamp d \<and> dio_timestamp d < 2 ^ 63 \<and>
     dio_creatorPubKey d = PublicKey_toBase58DER (en_crypto env) (en_ecc env) author"

lemma dio_wf_expanded:
  "dio_valid env author d \<Longrightarrow> ordered sums \<Longrightarrow> - (2 ^ 63) \<le> v \<Longrightarrow> v < 2 ^ 63 \<Longrightarrow> dio_wf (expanded_dio d v sums)"
  by (simp add: dio_wf_def dio_valid_def)

definition key_json :: "'k core_env \<Rightarrow> EncKeyV2ToEncrypt \<Rightarrow> json" where
  "key_json env key = EncryptionKey_toJSON
     \<lparr>dyk_id = ek_id key, dyk_key = base64_from (en_poco env) (ek_key key),
      dyk_keySecret = base64_from (en_poco env) (ek_keySecret key)\<rparr>"

lemma EncKeyEncryptorV2_roundtrip:
  assumes "core_env_ok env" and "same_key env pub priv" and "dio_valid env author (ek_dio key)"
    and "ek_id key \<noteq> []" and "ek_key key \<noteq> []" and "length (Utils_stringify (en_poco env) (key_json env key)) < 2 ^ 60"
  obtains enc sums where "EncKeyEncryptorV2_encrypt env key pub author = Inr enc" and "ke_version enc = 2"
    and "EncKeyEncryptorV2_decrypt env enc priv =
      \<lparr>ek_id = ek_id key, ek_key = ek_key key, k2_dataStructureVersion = 2, k2_statusCode = 0,
       k2_dio = read_back env (expanded_dio (ek_dio key) 2 sums), k2_keySecret = ek_keySecret key,
       k2_secretHash = ek_secretHash key\<rparr>"
proof -
  let ?enc = "EciesEncryptor_encryptObjectToBase64 env pub (key_json env key) author"
  define sums where "sums = alist_set ''secretHash'' (ek_secretHash key)
    (alist_set ''encryptedKey'' (sha256 (en_crypto env) (bytes_of ?enc)) [])"
  let ?dio = "expanded_dio (ek_dio key) 2 sums"
  have sums: "ordered sums" "map_of sums ''encryptedKey'' = Some (sha256 (en_crypto env) (bytes_of ?enc))"
    "map_of sums ''secretHash'' = Some (ek_secretHash key)"
    by (simp_all add: sums_def ordered_Cons)
  have wf: "dio_wf ?dio" by (rule dio_wf_expanded [OF assms(3) sums(1)]) simp_all
  have pk: "dio_creatorPubKey ?dio = PublicKey_toBase58DER (en_crypto env) (en_ecc env) author"
    using assms(3) by (simp add: dio_valid_def)
  obtain t where t: "DIOEncryptorV1_signAndEncode env ?dio author = Inr t"
      "DIOEncryptorV1_decodeAndVerify env t = Inr (read_back env ?dio)"
    using DIO_roundtrip [OF assms(1) wf pk] unfolding read_back_def by blast
  obtain p where p: "PublicKey_fromBase58DER (en_crypto env) (en_ecc env)
      (PublicKey_toBase58DER (en_crypto env) (en_ecc env) author) = Inr p" "same_key env p author"
    using PublicKey_base58_roundtrip [OF assms(1)] by blast
  obtain ob where ob: "key_json env key = JObject ob" by (simp add: key_json_def EncryptionKey_toJSON_def)
  have "wf_json (JObject ob)" unfolding ob [symmetric] by (simp add: key_json_def)
  then have dec: "EciesEncryptor_decryptObjectFromBase64 env priv ?enc (Some p) = Inr ob"
    using Ecies_object_roundtrip [OF assms(1,2) p(2)] assms(6) by (simp add: ob)
  note fromJ = EncryptionKey_roundtrip [OF ob [unfolded key_json_def]]
  note b64 = base64_okD [OF core_env_okD(7) [OF assms(1)]]
  show thesis
  proof (rule that [of "\<lparr>ke_version = 2, ke_encryptedKey = ?enc, ke_dio = t\<rparr>"])
    show "EncKeyEncryptorV2_encrypt env key pub author = Inr \<lparr>ke_version = 2, ke_encryptedKey = ?enc, ke_dio = t\<rparr>"
      using t(1) by (simp add: EncKeyEncryptorV2_encrypt_def key_json_def Let_def sums_def expanded_dio_def)
    show "EncKeyEncryptorV2_decrypt env \<lparr>ke_version = 2, ke_encryptedKey = ?enc, ke_dio = t\<rparr> priv =
      \<lparr>ek_id = ek_id key, ek_key = ek_key key, k2_dataStructureVersion = 2, k2_statusCode = 0,
       k2_dio = read_back env ?dio, k2_keySecret = ek_keySecret key, k2_secretHash = ek_secretHash key\<rparr>"
      using Ecies_text_nonempty [OF assms(1)] assms(3,4,5) p(1)
      by (simp add: EncKeyEncryptorV2_decrypt_def decrypt_enc_key_def EncKeyEncryptorV2_assertDataFormat_def
          bindS_def unordered_map_at_def sums t(2) dio_valid_def dec fromJ b64 DecryptedEncKeyV2_new_def)
  qed simp
qed

end
