(* ===== verification/Core_ModuleData.thy ===== *)
theory Core_ModuleData
  imports Core_EncKey
begin

text \<open>
  The meta data of containers (\<open>endpoint/core/src/encryptors/module/ModuleDataEncryptorV5.cpp\<close> and
  \<open>ModuleDataEncryptorV4.cpp\<close>): public data signed by its author, private and internal data signed
  and encrypted with the container key, and in version 5 a data integrity object over all of them.
\<close>

subsection \<open>Data\<close>

record ModuleInternalMetaV5 =
  mi_secret :: string
  mi_resourceId :: string
  mi_randomId :: string

record ModuleDataToEncryptV5 =
  mt_publicMeta :: bytes
  mt_privateMeta :: bytes
  mt_internalMeta :: ModuleInternalMetaV5
  mt_dio :: DataIntegrityObject

record EncryptedModuleDataV5 =
  me_version :: int
  me_publicMeta :: string
  me_publicMetaObject :: json
  me_privateMeta :: string
  me_internalMeta :: string
  me_authorPubKey :: string
  me_dio :: string

record DecryptedModuleDataV5 =
  md_dataStructureVersion :: int
  md_statusCode :: int
  md_publicMeta :: bytes
  md_privateMeta :: bytes
  md_internalMeta :: ModuleInternalMetaV5
  md_authorPubKey :: string
  md_dio :: DataIntegrityObject

record ModuleDataToEncryptV4 =
  mt4_publicMeta :: bytes
  mt4_privateMeta :: bytes
  mt4_internalMeta :: "bytes option"

record EncryptedModuleDataV4 =
  me4_version :: int
  me4_publicMeta :: string
  me4_publicMetaObject :: json
  me4_privateMeta :: string
  me4_internalMeta :: "string option"
  me4_authorPubKey :: string

record DecryptedModuleDataV4 =
  md4_dataStructureVersion :: int
  md4_statusCode :: int
  md4_publicMeta :: bytes
  md4_privateMeta :: bytes
  md4_internalMeta :: "bytes option"
  md4_authorPubKey :: string

definition ModuleInternalMetaV5_toJSON :: "ModuleInternalMetaV5 \<Rightarrow> json" where
  "ModuleInternalMetaV5_toJSON m = JObject
     (json_put ''randomId'' (JString (mi_randomId m))
     (json_put ''resourceId'' (JString (mi_resourceId m))
     (json_put ''secret'' (JString (mi_secret m)) [])))"

definition ModuleInternalMetaV5_fromJSON :: "(string \<times> json) list \<Rightarrow> (exn, ModuleInternalMetaV5) result" where
  "ModuleInternalMetaV5_fromJSON ob =
     bindR (deserialize_string (json_get ob ''secret'')) (\<lambda>secret.
     bindR (deserialize_string (json_get ob ''resourceId'')) (\<lambda>resourceId.
     bindR (deserialize_string (json_get ob ''randomId'')) (\<lambda>randomId.
     Inr \<lparr>mi_secret = secret, mi_resourceId = resourceId, mi_randomId = randomId\<rparr>)))"

subsection \<open>Version 5\<close>

text \<open>Public data that is a JSON object is sent a second time as that object.\<close>

definition public_object :: "'k core_env \<Rightarrow> bytes \<Rightarrow> json" where
  "public_object env publicMeta =
     (case parseJsonObject (en_poco env) publicMeta of Inr ob \<Rightarrow> JObject ob | Inl _ \<Rightarrow> JEmpty)"

definition ModuleDataEncryptorV5_encrypt ::
    "'k core_env \<Rightarrow> ModuleDataToEncryptV5 \<Rightarrow> 'k \<Rightarrow> bytes \<Rightarrow> (exn, nat, EncryptedModuleDataV5) op" where
  "ModuleDataEncryptorV5_encrypt env data authorPrivateKey encryptionKey =
     (let publicMeta = DataEncryptorV4_signAndEncode env (mt_publicMeta data) authorPrivateKey;
          sha = (\<lambda>t. sha256 (en_crypto env) (bytes_of t)) in
      bindS (DataEncryptorV4_signAndEncryptAndEncode env (mt_privateMeta data) authorPrivateKey encryptionKey) (\<lambda>privateMeta.
      bindS (DataEncryptorV4_signAndEncryptAndEncode env
        (Utils_stringify (en_poco env) (ModuleInternalMetaV5_toJSON (mt_internalMeta data))) authorPrivateKey encryptionKey) (\<lambda>internalMeta.
      let fieldChecksums = alist_set ''internalMeta'' (sha internalMeta) (alist_set ''privateMeta'' (sha privateMeta)
            (alist_set ''publicMeta'' (sha publicMeta) [])) in
      bindS (liftR (DIOEncryptorV1_signAndEncode env (expanded_dio (mt_dio data) 5 fieldChecksums) authorPrivateKey)) (\<lambda>dio.
      ret \<lparr>me_version = 5, me_publicMeta = publicMeta, me_publicMetaObject = public_object env (mt_publicMeta data),
        me_privateMeta = privateMeta, me_internalMeta = internalMeta,
        me_authorPubKey = PublicKey_toBase58DER (en_crypto env) (en_ecc env) authorPrivateKey, me_dio = dio\<rparr>))))"

definition ModuleDataEncryptorV5_assertDataFormat :: "EncryptedModuleDataV5 \<Rightarrow> (exn, unit) result" where
  "ModuleDataEncryptorV5_assertDataFormat e =
     (if me_version e \<noteq> 5 \<or> me_publicMeta e = [] \<or> me_privateMeta e = [] \<or> me_internalMeta e = [] \<or>
         me_authorPubKey e = [] \<or> me_dio e = []
      then Inl (CoreExn InvalidEncryptedModuleDataVersionException) else Inr ())"

text \<open>
  The tests are made from left to right and the first difference throws, so a missing checksum
  only throws \<open>std::out_of_range\<close> when everything before it agreed.
\<close>

definition ModuleDataEncryptorV5_getDIOAndAssertIntegrity ::
    "'k core_env \<Rightarrow> EncryptedModuleDataV5 \<Rightarrow> (exn, DataIntegrityObject) result" where
  "ModuleDataEncryptorV5_getDIOAndAssertIntegrity env e =
     (let sha = (\<lambda>t. sha256 (en_crypto env) (bytes_of t)); bad = Inl (CoreExn InvalidDataIntegrityObjectChecksumException) in
      bindR (ModuleDataEncryptorV5_assertDataFormat e) (\<lambda>_.
      bindR (DIOEncryptorV1_decodeAndVerify env (me_dio e)) (\<lambda>dio.
      if dio_structureVersion dio \<noteq> 5 \<or> dio_creatorPubKey dio \<noteq> me_authorPubKey e then bad else
      bindR (unordered_map_at (dio_fieldChecksums dio) ''publicMeta'') (\<lambda>s. if s \<noteq> sha (me_publicMeta e) then bad else
      bindR (unordered_map_at (dio_fieldChecksums dio) ''privateMeta'') (\<lambda>s. if s \<noteq> sha (me_privateMeta e) then bad else
      bindR (unordered_map_at (dio_fieldChecksums dio) ''internalMeta'') (\<lambda>s. if s \<noteq> sha (me_internalMeta e) then bad else
      Inr (DataIntegrityObject.truncate dio)))))))"

definition compare_public :: "'k core_env \<Rightarrow> bytes \<Rightarrow> json \<Rightarrow> (exn, bool) result" where
  "compare_public env publicMeta publicMetaObject =
     bindR (parseJsonObject (en_poco env) publicMeta) (\<lambda>ob.
     bindR (Utils_stringifyVar (en_poco env) (JObject ob)) (\<lambda>tmp_1.
     bindR (Utils_stringifyVar (en_poco env) publicMetaObject) (\<lambda>tmp_2. Inr (tmp_1 = tmp_2))))"

definition empty_meta :: ModuleInternalMetaV5 where
  "empty_meta = \<lparr>mi_secret = [], mi_resourceId = [], mi_randomId = []\<rparr>"

definition DecryptedModuleDataV5_new :: DecryptedModuleDataV5 where
  "DecryptedModuleDataV5_new =
     \<lparr>md_dataStructureVersion = 5, md_statusCode = 0, md_publicMeta = [], md_privateMeta = [], md_internalMeta = empty_meta,
      md_authorPubKey = [], md_dio = DataIntegrityObject.truncate empty_dio\<rparr>"

text \<open>The common first part of the \<open>try\<close> blocks of \<open>decrypt\<close> and \<open>extractPublic\<close>; it returns the author's key.\<close>

definition read_public :: "'k core_env \<Rightarrow> EncryptedModuleDataV5 \<Rightarrow> (exn, DecryptedModuleDataV5, 'k) op" where
  "read_public env e =
     bindS (liftR (ModuleDataEncryptorV5_getDIOAndAssertIntegrity env e)) (\<lambda>dio.
     bindS (modify (\<lambda>r. r\<lparr>md_dio := dio\<rparr>)) (\<lambda>_.
     bindS (liftR (PublicKey_fromBase58DER (en_crypto env) (en_ecc env) (me_authorPubKey e))) (\<lambda>author.
     bindS (liftR (DataEncryptorV4_decodeAndVerify env (me_publicMeta e) author)) (\<lambda>publicMeta.
     bindS (modify (\<lambda>r. r\<lparr>md_publicMeta := publicMeta\<rparr>)) (\<lambda>_.
     bindS (if me_publicMetaObject e \<noteq> JEmpty then
              bindS (liftR (compare_public env publicMeta (me_publicMetaObject e))) (\<lambda>same.
                if same then ret () else modify (\<lambda>r. r\<lparr>md_statusCode := status_of (CoreExn ModulePublicDataMismatchException)\<rparr>))
            else ret ()) (\<lambda>_. ret author))))))"

definition catch_status :: "(exn, DecryptedModuleDataV5, unit) op \<Rightarrow> DecryptedModuleDataV5" where
  "catch_status m =
     (case m DecryptedModuleDataV5_new of (Inr _, r) \<Rightarrow> r | (Inl e, r) \<Rightarrow> r\<lparr>md_statusCode := status_of e\<rparr>)"

text \<open>The second part of the \<open>try\<close> block of \<open>decrypt\<close>.\<close>

definition read_private ::
    "'k core_env \<Rightarrow> EncryptedModuleDataV5 \<Rightarrow> bytes \<Rightarrow> 'k \<Rightarrow> (exn, DecryptedModuleDataV5, unit) op" where
  "read_private env e encryptionKey author =
     bindS (liftR (DataEncryptorV4_decodeAndDecryptAndVerify env (me_privateMeta e) author encryptionKey)) (\<lambda>privateMeta.
     bindS (modify (\<lambda>r. r\<lparr>md_privateMeta := privateMeta\<rparr>)) (\<lambda>_.
     bindS (liftR (DataEncryptorV4_decodeAndDecryptAndVerify env (me_internalMeta e) author encryptionKey)) (\<lambda>internal.
     bindS (liftR (bindR (parseJsonObject (en_poco env) internal) ModuleInternalMetaV5_fromJSON)) (\<lambda>meta.
     modify (\<lambda>r. r\<lparr>md_internalMeta := meta, md_authorPubKey := me_authorPubKey e\<rparr>)))))"

definition ModuleDataEncryptorV5_decrypt :: "'k core_env \<Rightarrow> EncryptedModuleDataV5 \<Rightarrow> bytes \<Rightarrow> DecryptedModuleDataV5" where
  "ModuleDataEncryptorV5_decrypt env e encryptionKey =
     catch_status (bindS (read_public env e) (read_private env e encryptionKey))"

definition ModuleDataEncryptorV5_extractPublic :: "'k core_env \<Rightarrow> EncryptedModuleDataV5 \<Rightarrow> DecryptedModuleDataV5" where
  "ModuleDataEncryptorV5_extractPublic env e = catch_status
     (bindS (read_public env e) (\<lambda>author. modify (\<lambda>r. r\<lparr>md_authorPubKey := me_authorPubKey e\<rparr>)))"

subsection \<open>Version 4\<close>

definition ModuleDataEncryptorV4_encrypt ::
    "'k core_env \<Rightarrow> ModuleDataToEncryptV4 \<Rightarrow> 'k \<Rightarrow> bytes \<Rightarrow> (exn, nat, EncryptedModuleDataV4) op" where
  "ModuleDataEncryptorV4_encrypt env data authorPrivateKey encryptionKey =
     bindS (DataEncryptorV4_signAndEncryptAndEncode env (mt4_privateMeta data) authorPrivateKey encryptionKey) (\<lambda>privateMeta.
     bindS (case mt4_internalMeta data of
         None \<Rightarrow> ret None
       | Some m \<Rightarrow> bindS (DataEncryptorV4_signAndEncryptAndEncode env m authorPrivateKey encryptionKey) (\<lambda>x. ret (Some x))) (\<lambda>internalMeta.
     ret \<lparr>me4_version = 4, me4_publicMeta = DataEncryptorV4_signAndEncode env (mt4_publicMeta data) authorPrivateKey,
       me4_publicMetaObject = public_object env (mt4_publicMeta data), me4_privateMeta = privateMeta,
       me4_internalMeta = internalMeta,
       me4_authorPubKey = PublicKey_toBase58DER (en_crypto env) (en_ecc env) authorPrivateKey\<rparr>))"

definition ModuleDataEncryptorV4_validateVersion :: "EncryptedModuleDataV4 \<Rightarrow> (exn, unit) result" where
  "ModuleDataEncryptorV4_validateVersion e =
     (if me4_version e \<noteq> 4 then Inl (CoreExn InvalidEncryptedModuleDataVersionException) else Inr ())"

definition DecryptedModuleDataV4_new :: DecryptedModuleDataV4 where
  "DecryptedModuleDataV4_new =
     \<lparr>md4_dataStructureVersion = 4, md4_statusCode = 0, md4_publicMeta = [], md4_privateMeta = [],
      md4_internalMeta = None, md4_authorPubKey = []\<rparr>"

text \<open>Here the public object is compared when it is empty, not when it is present.\<close>

definition decrypt_module_v4 ::
    "'k core_env \<Rightarrow> EncryptedModuleDataV4 \<Rightarrow> bytes \<Rightarrow> (exn, DecryptedModuleDataV4, unit) op" where
  "decrypt_module_v4 env e encryptionKey =
     bindS (liftR (ModuleDataEncryptorV4_validateVersion e)) (\<lambda>_.
     bindS (liftR (PublicKey_fromBase58DER (en_crypto env) (en_ecc env) (me4_authorPubKey e))) (\<lambda>author.
     bindS (liftR (DataEncryptorV4_decodeAndVerify env (me4_publicMeta e) author)) (\<lambda>publicMeta.
     bindS (modify (\<lambda>r. r\<lparr>md4_publicMeta := publicMeta\<rparr>)) (\<lambda>_.
     bindS (if me4_publicMetaObject e = JEmpty then
              bindS (liftR (compare_public env publicMeta (me4_publicMetaObject e))) (\<lambda>same.
                if same then ret () else modify (\<lambda>r. r\<lparr>md4_statusCode := status_of (CoreExn ModulePublicDataMismatchException)\<rparr>))
            else ret ()) (\<lambda>_.
     bindS (liftR (DataEncryptorV4_decodeAndDecryptAndVerify env (me4_privateMeta e) author encryptionKey)) (\<lambda>privateMeta.
     bindS (modify (\<lambda>r. r\<lparr>md4_privateMeta := privateMeta\<rparr>)) (\<lambda>_.
     bindS (liftR (case me4_internalMeta e of None \<Rightarrow> Inr None
         | Some t \<Rightarrow> bindR (DataEncryptorV4_decodeAndDecryptAndVerify env t author encryptionKey) (\<lambda>m. Inr (Some m)))) (\<lambda>internalMeta.
     modify (\<lambda>r. r\<lparr>md4_internalMeta := internalMeta, md4_authorPubKey := me4_authorPubKey e\<rparr>)))))))))"

definition ModuleDataEncryptorV4_decrypt :: "'k core_env \<Rightarrow> EncryptedModuleDataV4 \<Rightarrow> bytes \<Rightarrow> DecryptedModuleDataV4" where
  "ModuleDataEncryptorV4_decrypt env e encryptionKey =
     (case decrypt_module_v4 env e encryptionKey DecryptedModuleDataV4_new of
        (Inr _, r) \<Rightarrow> r | (Inl x, r) \<Rightarrow> r\<lparr>md4_statusCode := status_of x\<rparr>)"

subsection \<open>Facts\<close>

lemma ModuleInternalMetaV5_roundtrip:
  "ModuleInternalMetaV5_toJSON m = JObject ob \<Longrightarrow> ModuleInternalMetaV5_fromJSON ob = Inr m"
  by (auto simp: ModuleInternalMetaV5_toJSON_def ModuleInternalMetaV5_fromJSON_def)

lemma read_meta:
  assumes "core_env_ok env"
  shows "bindR (parseJsonObject (en_poco env) (Utils_stringify (en_poco env) (ModuleInternalMetaV5_toJSON m)))
    ModuleInternalMetaV5_fromJSON = Inr m"
proof -
  obtain ob where ob: "ModuleInternalMetaV5_toJSON m = JObject ob" by (simp add: ModuleInternalMetaV5_toJSON_def)
  have "wf_json (JObject ob)" unfolding ob [symmetric] by (simp add: ModuleInternalMetaV5_toJSON_def)
  from parse_stringify [OF core_env_okD(6) [OF assms] this] ModuleInternalMetaV5_roundtrip [OF ob]
  show ?thesis by (simp add: ob)
qed

lemma compare_public_object:
  assumes "public_object env d \<noteq> JEmpty"
  shows "compare_public env d (public_object env d) = Inr True"
  using assms by (auto simp: public_object_def compare_public_def split: sum.splits)

lemma compare_public_JEmpty [simp]: "compare_public env d JEmpty \<noteq> Inr b"
  by (cases "parseJsonObject (en_poco env) d") (simp_all add: compare_public_def)

lemma truncate_read_back:
  "DataIntegrityObject.truncate (read_back env (expanded_dio d v s)) =
     d\<lparr>dio_bridgeIdentity := Some (case dio_bridgeIdentity d of Some b \<Rightarrow> b | None \<Rightarrow> en_uninit env)\<rparr>"
  by (simp add: read_back_def expanded_dio_def DataIntegrityObject.truncate_def DataIntegrityObject.extend_def
      ExpandedDataIntegrityObject.fields_def)

lemma V5_integrity:
  assumes "core_env_ok env" and "dio_valid env k d" and "pm \<noteq> []" and "sm \<noteq> []" and "im \<noteq> []"
  obtains t where "DIOEncryptorV1_signAndEncode env (expanded_dio d 5
      (alist_set ''internalMeta'' (sha256 (en_crypto env) (bytes_of im))
      (alist_set ''privateMeta'' (sha256 (en_crypto env) (bytes_of sm))
      (alist_set ''publicMeta'' (sha256 (en_crypto env) (bytes_of pm)) [])))) k = Inr t"
    and "\<And>ob. ModuleDataEncryptorV5_getDIOAndAssertIntegrity env
      \<lparr>me_version = 5, me_publicMeta = pm, me_publicMetaObject = ob, me_privateMeta = sm, me_internalMeta = im,
       me_authorPubKey = PublicKey_toBase58DER (en_crypto env) (en_ecc env) k, me_dio = t\<rparr> =
      Inr (d\<lparr>dio_bridgeIdentity := Some (case dio_bridgeIdentity d of Some b \<Rightarrow> b | None \<Rightarrow> en_uninit env)\<rparr>)"
proof -
  define sums where "sums = alist_set ''internalMeta'' (sha256 (en_crypto env) (bytes_of im))
      (alist_set ''privateMeta'' (sha256 (en_crypto env) (bytes_of sm))
      (alist_set ''publicMeta'' (sha256 (en_crypto env) (bytes_of pm)) []))"
  have sums: "ordered sums" "map_of sums ''publicMeta'' = Some (sha256 (en_crypto env) (bytes_of pm))"
    "map_of sums ''privateMeta'' = Some (sha256 (en_crypto env) (bytes_of sm))"
    "map_of sums ''internalMeta'' = Some (sha256 (en_crypto env) (bytes_of im))"
    by (simp_all add: sums_def ordered_Cons)
  have wf: "dio_wf (expanded_dio d 5 sums)" by (rule dio_wf_expanded [OF assms(2) sums(1)]) simp_all
  have pk: "dio_creatorPubKey (expanded_dio d 5 sums) = PublicKey_toBase58DER (en_crypto env) (en_ecc env) k"
    using assms(2) by (simp add: dio_valid_def)
  obtain t where t: "DIOEncryptorV1_signAndEncode env (expanded_dio d 5 sums) k = Inr t" "t \<noteq> []"
      "DIOEncryptorV1_decodeAndVerify env t = Inr (read_back env (expanded_dio d 5 sums))"
    using DIO_roundtrip [OF assms(1) wf pk] unfolding read_back_def by blast
  show thesis
  proof (rule that)
    show "DIOEncryptorV1_signAndEncode env (expanded_dio d 5
      (alist_set ''internalMeta'' (sha256 (en_crypto env) (bytes_of im))
      (alist_set ''privateMeta'' (sha256 (en_crypto env) (bytes_of sm))
      (alist_set ''publicMeta'' (sha256 (en_crypto env) (bytes_of pm)) [])))) k = Inr t"
      using t(1) by (simp only: sums_def)
    show "ModuleDataEncryptorV5_getDIOAndAssertIntegrity env
      \<lparr>me_version = 5, me_publicMeta = pm, me_publicMetaObject = ob, me_privateMeta = sm, me_internalMeta = im,
       me_authorPubKey = PublicKey_toBase58DER (en_crypto env) (en_ecc env) k, me_dio = t\<rparr> =
      Inr (d\<lparr>dio_bridgeIdentity := Some (case dio_bridgeIdentity d of Some b \<Rightarrow> b | None \<Rightarrow> en_uninit env)\<rparr>)" for ob
      using assms(3-5) t(2) pk
      by (simp add: ModuleDataEncryptorV5_getDIOAndAssertIntegrity_def ModuleDataEncryptorV5_assertDataFormat_def
          PublicKey_toBase58DER_def encodeWithChecksum_nonempty t(3) unordered_map_at_def sums truncate_read_back)
  qed
qed

text \<open>A step of a block whose first operation is known.\<close>

lemma bindS_step: "m s = (Inr x, s') \<Longrightarrow> f x s' = r \<Longrightarrow> bindS m f s = r"
  by (simp add: bindS_def)

lemma V5_roundtrip:
  assumes "core_env_ok env" and "dio_valid env k (mt_dio data)" and "length key = 32"
  obtains e where "ModuleDataEncryptorV5_encrypt env data k key draws = (Inr e, draws + 2)"
    and "ModuleDataEncryptorV5_decrypt env e key =
      \<lparr>md_dataStructureVersion = 5, md_statusCode = 0, md_publicMeta = mt_publicMeta data,
       md_privateMeta = mt_privateMeta data, md_internalMeta = mt_internalMeta data,
       md_authorPubKey = PublicKey_toBase58DER (en_crypto env) (en_ecc env) k,
       md_dio = (mt_dio data)\<lparr>dio_bridgeIdentity :=
         Some (case dio_bridgeIdentity (mt_dio data) of Some b \<Rightarrow> b | None \<Rightarrow> en_uninit env)\<rparr>\<rparr>"
proof -
  obtain p where p: "PublicKey_fromBase58DER (en_crypto env) (en_ecc env)
      (PublicKey_toBase58DER (en_crypto env) (en_ecc env) k) = Inr p" "same_key env p k"
    using PublicKey_base58_roundtrip [OF assms(1)] by blast
  let ?pm = "DataEncryptorV4_signAndEncode env (mt_publicMeta data) k"
  let ?meta = "Utils_stringify (en_poco env) (ModuleInternalMetaV5_toJSON (mt_internalMeta data))"
  obtain sm where sm: "DataEncryptorV4_signAndEncryptAndEncode env (mt_privateMeta data) k key draws = (Inr sm, draws + 1)"
      "DataEncryptorV4_decodeAndDecryptAndVerify env sm p key = Inr (mt_privateMeta data)" "sm \<noteq> []"
    by (rule encrypted_roundtrip [OF assms(1) p(2) assms(3)])
  obtain im where im: "DataEncryptorV4_signAndEncryptAndEncode env ?meta k key (draws + 1) = (Inr im, draws + 1 + 1)"
      "DataEncryptorV4_decodeAndDecryptAndVerify env im p key = Inr ?meta" "im \<noteq> []"
    by (rule encrypted_roundtrip [OF assms(1) p(2) assms(3)])
  obtain t where t: "DIOEncryptorV1_signAndEncode env (expanded_dio (mt_dio data) 5
      (alist_set ''internalMeta'' (sha256 (en_crypto env) (bytes_of im))
      (alist_set ''privateMeta'' (sha256 (en_crypto env) (bytes_of sm))
      (alist_set ''publicMeta'' (sha256 (en_crypto env) (bytes_of ?pm)) [])))) k = Inr t"
    and int: "\<And>ob. ModuleDataEncryptorV5_getDIOAndAssertIntegrity env
      \<lparr>me_version = 5, me_publicMeta = ?pm, me_publicMetaObject = ob, me_privateMeta = sm, me_internalMeta = im,
       me_authorPubKey = PublicKey_toBase58DER (en_crypto env) (en_ecc env) k, me_dio = t\<rparr> =
      Inr ((mt_dio data)\<lparr>dio_bridgeIdentity := Some (case dio_bridgeIdentity (mt_dio data) of Some b \<Rightarrow> b | None \<Rightarrow> en_uninit env)\<rparr>)"
    by (rule V5_integrity [OF assms(1,2) signAndEncode_nonempty [OF assms(1), of "mt_publicMeta data" k] sm(3) im(3)]) blast
  let ?e = "\<lparr>me_version = 5, me_publicMeta = ?pm, me_publicMetaObject = public_object env (mt_publicMeta data),
     me_privateMeta = sm, me_internalMeta = im,
     me_authorPubKey = PublicKey_toBase58DER (en_crypto env) (en_ecc env) k, me_dio = t\<rparr>"
  have enc: "ModuleDataEncryptorV5_encrypt env data k key draws = (Inr ?e, draws + 2)"
    unfolding ModuleDataEncryptorV5_encrypt_def Let_def
    by (rule bindS_step, rule sm(1), rule bindS_step, rule im(1), unfold t) (simp add: bindS_liftR)
  have pub: "DataEncryptorV4_decodeAndVerify env ?pm p = Inr (mt_publicMeta data)"
    by (rule decodeAndVerify_signed [OF assms(1) p(2)])
  have read: "read_public env ?e r = (Inr p, r\<lparr>md_dio := (mt_dio data)\<lparr>dio_bridgeIdentity :=
        Some (case dio_bridgeIdentity (mt_dio data) of Some b \<Rightarrow> b | None \<Rightarrow> en_uninit env)\<rparr>,
      md_publicMeta := mt_publicMeta data\<rparr>)" for r
    unfolding read_public_def using p(1) pub compare_public_object [of env "mt_publicMeta data"]
    by (simp add: bindS_def int)
  show thesis
    by (rule that [OF enc], unfold ModuleDataEncryptorV5_decrypt_def catch_status_def)
      (simp add: bindS_def read read_private_def sm(2) im(2) read_meta [OF assms(1)] DecryptedModuleDataV5_new_def)
qed

subsection \<open>Properties\<close>

text \<open>
  Container meta data of version 5 survives encryption: with a 32-byte container key and an
  integrity object of the author, \<open>encrypt\<close> succeeds and \<open>decrypt\<close> under that key returns the public,
  private and internal data, the author and the integrity object, without an error status, whether or
  not the public data is JSON.
\<close>

theorem ModuleDataEncryptorV5_roundtrip:
  assumes "core_env_ok env" and "dio_valid env k (mt_dio data)" and "length key = 32"
    and "dio_bridgeIdentity (mt_dio data) \<noteq> None"
  shows "\<exists>e. ModuleDataEncryptorV5_encrypt env data k key draws = (Inr e, draws + 2) \<and>
    ModuleDataEncryptorV5_decrypt env e key =
      \<lparr>md_dataStructureVersion = 5, md_statusCode = 0, md_publicMeta = mt_publicMeta data,
       md_privateMeta = mt_privateMeta data, md_internalMeta = mt_internalMeta data,
       md_authorPubKey = PublicKey_toBase58DER (en_crypto env) (en_ecc env) k, md_dio = mt_dio data\<rparr>"
  using assms(4) by (auto intro: V5_roundtrip [OF assms(1-3), of draws])

text \<open>Data of the user with key 5.\<close>

definition sample_module :: ModuleDataToEncryptV5 where
  "sample_module =
     \<lparr>mt_publicMeta = [1], mt_privateMeta = [2], mt_internalMeta = \<lparr>mi_secret = ''s'', mi_resourceId = ''r'', mi_randomId = ''n''\<rparr>,
      mt_dio = \<lparr>dio_creatorUserId = ''u'', dio_creatorPubKey = PublicKey_toBase58DER sample_crypto sample_ecc 5,
        dio_contextId = ''c'', dio_resourceId = ''r'', dio_timestamp = 1, dio_randomId = ''n'', dio_containerId = None,
        dio_containerResourceId = None, dio_bridgeIdentity = Some \<lparr>bi_url = ''b'', bi_pubKey = None, bi_instanceId = None\<rparr>\<rparr>\<rparr>"

lemma sample_module_valid: "dio_valid sample_core_env 5 (mt_dio sample_module)"
  by (simp add: dio_valid_def sample_module_def sample_core_env_def)

theorem ModuleDataEncryptorV5_roundtrip_witness:
  "\<exists>e. fst (ModuleDataEncryptorV5_encrypt sample_core_env sample_module 5 (replicate 32 3) 0) = Inr e \<and>
    md_privateMeta (ModuleDataEncryptorV5_decrypt sample_core_env e (replicate 32 3)) = [2]"
  using ModuleDataEncryptorV5_roundtrip [OF sample_core_env_ok sample_module_valid, of "replicate 32 3" 0]
  by (auto simp: sample_module_def)

lemma catch_status_ok:
  assumes "md_statusCode (catch_status (bindS (read_public env e) f)) = 0"
    and keeps: "\<And>a r. md_statusCode (snd (f a r)) = md_statusCode r"
  obtains a r where "read_public env e DecryptedModuleDataV5_new = (Inr a, r)" and "md_statusCode r = 0"
    and "fst (f a r) = Inr ()" and "catch_status (bindS (read_public env e) f) = snd (f a r)"
proof (cases "read_public env e DecryptedModuleDataV5_new")
  case (Pair x r)
  show thesis
  proof (cases x)
    case (Inl y)
    then show thesis using assms(1) status_of_pos [of y] by (simp add: catch_status_def bindS_def Pair)
  next
    case (Inr a)
    obtain z r' where z: "f a r = (z, r')" by fastforce
    have "z = Inr ()"
    proof (cases z)
      case (Inl y)
      then show ?thesis using assms(1) status_of_pos [of y] by (simp add: catch_status_def bindS_def Pair Inr z)
    qed simp
    then show thesis
      using that [of a r] Pair Inr z assms(1) keeps [of a r] by (simp add: catch_status_def bindS_def)
  qed
qed

lemma read_public_ok:
  assumes "read_public env e DecryptedModuleDataV5_new = (Inr a, r)" and "md_statusCode r = 0"
  shows "ModuleDataEncryptorV5_getDIOAndAssertIntegrity env e = Inr (md_dio r) \<and>
    PublicKey_fromBase58DER (en_crypto env) (en_ecc env) (me_authorPubKey e) = Inr a \<and>
    DataEncryptorV4_decodeAndVerify env (me_publicMeta e) a = Inr (md_publicMeta r) \<and>
    (me_publicMetaObject e \<noteq> JEmpty \<longrightarrow> compare_public env (md_publicMeta r) (me_publicMetaObject e) = Inr True)"
  using assms status_of_pos [of "CoreExn ModulePublicDataMismatchException"] unfolding read_public_def
  by (auto simp: bindS_eq_Inr DecryptedModuleDataV5_new_def split: if_splits)

definition integrity_ok :: "'k core_env \<Rightarrow> EncryptedModuleDataV5 \<Rightarrow> bool" where
  "integrity_ok env e \<longleftrightarrow> (\<exists>dio. DIOEncryptorV1_decodeAndVerify env (me_dio e) = Inr dio \<and>
     dio_creatorPubKey dio = me_authorPubKey e \<and>
     map_of (dio_fieldChecksums dio) ''publicMeta'' = Some (sha256 (en_crypto env) (bytes_of (me_publicMeta e))) \<and>
     map_of (dio_fieldChecksums dio) ''privateMeta'' = Some (sha256 (en_crypto env) (bytes_of (me_privateMeta e))) \<and>
     map_of (dio_fieldChecksums dio) ''internalMeta'' = Some (sha256 (en_crypto env) (bytes_of (me_internalMeta e))))"

lemma getDIO_integrity:
  "ModuleDataEncryptorV5_getDIOAndAssertIntegrity env e = Inr d \<Longrightarrow> integrity_ok env e"
  by (auto simp: ModuleDataEncryptorV5_getDIOAndAssertIntegrity_def integrity_ok_def bindR_eq_Inr Let_def
      unordered_map_at_def split: if_splits option.splits)

lemma V5_decrypt_authentic:
  assumes "md_statusCode (ModuleDataEncryptorV5_decrypt env e key) = 0"
  obtains a where "integrity_ok env e" and "PublicKey_fromBase58DER (en_crypto env) (en_ecc env) (me_authorPubKey e) = Inr a"
    and "DataEncryptorV4_decodeAndVerify env (me_publicMeta e) a = Inr (md_publicMeta (ModuleDataEncryptorV5_decrypt env e key))"
    and "me_publicMetaObject e \<noteq> JEmpty \<Longrightarrow>
      compare_public env (md_publicMeta (ModuleDataEncryptorV5_decrypt env e key)) (me_publicMetaObject e) = Inr True"
proof -
  have keeps: "md_statusCode (snd (read_private env e key a r)) = md_statusCode r \<and>
      md_publicMeta (snd (read_private env e key a r)) = md_publicMeta r" for a r
    by (simp add: read_private_def bindS_def split: sum.split)
  obtain a r where r: "read_public env e DecryptedModuleDataV5_new = (Inr a, r)" "md_statusCode r = 0"
      and res: "ModuleDataEncryptorV5_decrypt env e key = snd (read_private env e key a r)"
    by (rule catch_status_ok [of env e "read_private env e key"])
      (use assms keeps in \<open>simp_all add: ModuleDataEncryptorV5_decrypt_def\<close>)
  have "md_publicMeta (ModuleDataEncryptorV5_decrypt env e key) = md_publicMeta r" using keeps by (simp only: res)
  then show thesis using read_public_ok [OF r] getDIO_integrity that by auto
qed

text \<open>
  Container meta data that is read without error is authentic: when \<open>decrypt\<close> reports status 0,
  the integrity object carries a valid signature of its creator, who is the stated author, it names
  the checksums of all three stored parts, the public data is signed by that author, and a public
  object that came with it has the same text as the signed public data.
\<close>

theorem ModuleDataEncryptorV5_authentic:
  assumes "md_statusCode (ModuleDataEncryptorV5_decrypt env e key) = 0"
  shows "integrity_ok env e \<and>
    (\<exists>a. PublicKey_fromBase58DER (en_crypto env) (en_ecc env) (me_authorPubKey e) = Inr a \<and>
      DataEncryptorV4_decodeAndVerify env (me_publicMeta e) a = Inr (md_publicMeta (ModuleDataEncryptorV5_decrypt env e key))) \<and>
    (me_publicMetaObject e \<noteq> JEmpty \<longrightarrow>
      compare_public env (md_publicMeta (ModuleDataEncryptorV5_decrypt env e key)) (me_publicMetaObject e) = Inr True)"
  by (rule V5_decrypt_authentic [OF assms]) blast

theorem ModuleDataEncryptorV5_authentic_witness:
  "\<exists>e. md_statusCode (ModuleDataEncryptorV5_decrypt sample_core_env e (replicate 32 3)) = 0 \<and> integrity_ok sample_core_env e"
proof -
  have "\<exists>e. md_statusCode (ModuleDataEncryptorV5_decrypt sample_core_env e (replicate 32 3)) = 0"
    by (rule V5_roundtrip [OF sample_core_env_ok sample_module_valid, of "replicate 32 3" 0])
      (simp, metis DecryptedModuleDataV5.select_convs(2))
  then show ?thesis using ModuleDataEncryptorV5_authentic by blast
qed

lemma V4_empty_object_throws:
  assumes "me4_publicMetaObject e = JEmpty"
  shows "\<exists>x. fst (decrypt_module_v4 env e key r) = Inl x"
  unfolding decrypt_module_v4_def assms by (auto simp: bindS_def split: sum.splits)

lemma V4_object_ignored:
  assumes "me4_publicMetaObject e \<noteq> JEmpty" and "ob \<noteq> JEmpty"
  shows "ModuleDataEncryptorV4_decrypt env (e\<lparr>me4_publicMetaObject := ob\<rparr>) key = ModuleDataEncryptorV4_decrypt env e key"
  using assms by (simp add: ModuleDataEncryptorV4_decrypt_def decrypt_module_v4_def ModuleDataEncryptorV4_validateVersion_def)

text \<open>
  Container meta data of version 4 is only readable when a public object came with it: without
  one, \<open>decrypt\<close> reports an error for every ciphertext and key, because the object is compared
  exactly when it is empty; so what \<open>encrypt\<close> makes of public data that is not a JSON object can
  never be read, and a public object that is present is not compared with the signed data at all.
\<close>

theorem ModuleDataEncryptorV4_public_object:
  "(me4_publicMetaObject e = JEmpty \<longrightarrow> 0 < md4_statusCode (ModuleDataEncryptorV4_decrypt env e key)) \<and>
   (me4_publicMetaObject e \<noteq> JEmpty \<longrightarrow> ob \<noteq> JEmpty \<longrightarrow>
     ModuleDataEncryptorV4_decrypt env (e\<lparr>me4_publicMetaObject := ob\<rparr>) key = ModuleDataEncryptorV4_decrypt env e key)"
proof (intro conjI impI)
  assume "me4_publicMetaObject e = JEmpty"
  then obtain x where "fst (decrypt_module_v4 env e key DecryptedModuleDataV4_new) = Inl x"
    using V4_empty_object_throws by blast
  then show "0 < md4_statusCode (ModuleDataEncryptorV4_decrypt env e key)"
    using status_of_pos [of x] by (auto simp: ModuleDataEncryptorV4_decrypt_def split: prod.splits sum.splits)
qed (rule V4_object_ignored)

theorem ModuleDataEncryptorV4_public_object_witness:
  "0 < md4_statusCode (ModuleDataEncryptorV4_decrypt sample_core_env
    \<lparr>me4_version = 4, me4_publicMeta = ''p'', me4_publicMetaObject = JEmpty, me4_privateMeta = ''q'',
     me4_internalMeta = None, me4_authorPubKey = ''a''\<rparr> (replicate 32 3))"
  using ModuleDataEncryptorV4_public_object [of "\<lparr>me4_version = 4, me4_publicMeta = ''p'', me4_publicMetaObject = JEmpty,
     me4_privateMeta = ''q'', me4_internalMeta = None, me4_authorPubKey = ''a''\<rparr>" sample_core_env "replicate 32 3"] by simp

end
