(* ===== verification/Core_KeyProvider.thy ===== *)
theory Core_KeyProvider
  imports Core_EncKey "HOL-Library.AList"
begin

text \<open>
  The key provider (\<open>endpoint/core/src/KeyProvider.cpp\<close>, \<open>UserVerifier.cpp\<close>): collecting the key
  entries of containers, decrypting and checking them, and preparing entries for users. An
  unordered map is an association list with distinct keys whose order is the order in which the
  code happens to iterate; the theorems hold for every order. The application's user verifier is a
  function from requests to answers that may throw (\<open>None\<close>).
\<close>

record KeyEntry =
  ent_keyId :: string
  ent_data :: json

record KeyEntrySet =
  es_user :: string
  es_keyId :: string
  es_data :: json

record UserWithPubKey =
  up_userId :: string
  up_pubKey :: string

record VerificationRequest =
  vr_contextId :: string
  vr_senderId :: string
  vr_senderPubKey :: string
  vr_date :: int
  vr_bridgeIdentity :: "BridgeIdentity option"

type_synonym user_verifier = "VerificationRequest list \<Rightarrow> bool list option"

definition UserVerifier_verify :: "user_verifier \<Rightarrow> VerificationRequest list \<Rightarrow> (exn, bool list) result" where
  "UserVerifier_verify v request =
     (case v request of
        None \<Rightarrow> Inl (CoreExn UserVerificationMethodUnhandledException)
      | Some answers \<Rightarrow>
          if length answers \<noteq> length request then Inl (CoreExn MalformedVerifierResponseException) else Inr answers)"

subsection \<open>Requests\<close>

record KeyRequest =
  kr_requestData :: "(EncKeyLocation \<times> (string \<times> KeyEntry) list) list"
  kr_completed :: bool

definition KeyRequest_new :: KeyRequest where
  "KeyRequest_new = \<lparr>kr_requestData = [], kr_completed = False\<rparr>"

definition insert_or_assign_all :: "KeyEntry list \<Rightarrow> (string \<times> KeyEntry) list \<Rightarrow> (string \<times> KeyEntry) list" where
  "insert_or_assign_all es m = fold (\<lambda>e. AList.update (ent_keyId e) e) es m"

text \<open>The entries go to the map of the location, which is created when it is missing.\<close>

definition add_entries :: "EncKeyLocation \<Rightarrow> KeyEntry list \<Rightarrow> KeyRequest \<Rightarrow> KeyRequest" where
  "add_entries location es r =
     (case map_of (kr_requestData r) location of
        Some m \<Rightarrow> r\<lparr>kr_requestData := AList.update location (insert_or_assign_all es m) (kr_requestData r)\<rparr>
      | None \<Rightarrow> r\<lparr>kr_requestData := kr_requestData r @ [(location, insert_or_assign_all es [])]\<rparr>)"

definition KeyRequest_addOne :: "KeyEntry list \<Rightarrow> string \<Rightarrow> EncKeyLocation \<Rightarrow> (exn, KeyRequest, unit) op" where
  "KeyRequest_addOne keys keyId location r =
     (if kr_completed r then (Inl (CoreExn KeyProviderRequestCompletedException), r)
      else
        let keyToDecrypt = (case find (\<lambda>k. ent_keyId k = keyId) keys of
              Some k \<Rightarrow> k | None \<Rightarrow> \<lparr>ent_keyId = keyId, ent_data = JEmpty\<rparr>)
        in (Inr (), add_entries location [keyToDecrypt] r))"

text \<open>\<open>addMany\<close> takes the first entry of every wanted id and an empty entry for every id it did not find.\<close>

fun pick_wanted :: "KeyEntry list \<Rightarrow> string list \<Rightarrow> KeyEntry list \<times> string list" where
  "pick_wanted [] keyIds = ([], keyIds)"
| "pick_wanted (k # ks) keyIds =
     (if ent_keyId k \<in> set keyIds
      then (case pick_wanted ks (removeAll (ent_keyId k) keyIds) of (es, rest) \<Rightarrow> (k # es, rest))
      else pick_wanted ks keyIds)"

definition KeyRequest_addMany :: "KeyEntry list \<Rightarrow> string list \<Rightarrow> EncKeyLocation \<Rightarrow> (exn, KeyRequest, unit) op" where
  "KeyRequest_addMany keys keyIds location r =
     (if kr_completed r then (Inl (CoreExn KeyProviderRequestCompletedException), r)
      else
        let (es, rest) = pick_wanted keys keyIds
        in (Inr (), add_entries location (es @ map (\<lambda>i. \<lparr>ent_keyId = i, ent_data = JEmpty\<rparr>) rest) r))"

definition KeyRequest_addAll :: "KeyEntry list \<Rightarrow> EncKeyLocation \<Rightarrow> (exn, KeyRequest, unit) op" where
  "KeyRequest_addAll keys location r =
     (if kr_completed r then (Inl (CoreExn KeyProviderRequestCompletedException), r)
      else (Inr (), add_entries location keys r))"

definition KeyRequest_markAsCompleted :: "KeyRequest \<Rightarrow> KeyRequest" where
  "KeyRequest_markAsCompleted r = r\<lparr>kr_completed := True\<rparr>"

subsection \<open>Decrypting and checking\<close>

type_synonym key_map = "(string \<times> DecryptedEncKeyV2) list"

definition code_of :: "CoreException \<Rightarrow> int" where
  "code_of e = int (endpoint_code 0x0001 (CoreException_code e))"

text \<open>
  One entry. The conversion of a version 2 entry and the decryption of a version 1 key are outside
  the \<open>try\<close> block, so their exceptions end the whole call.
\<close>

definition decrypt_entry :: "'k core_env \<Rightarrow> 'k \<Rightarrow> KeyEntry \<Rightarrow> (exn, DecryptedEncKeyV2) result" where
  "decrypt_entry env key e =
     (case ent_data e of
        JObject ob \<Rightarrow>
          (case VersionedData_fromJSON (en_poco env) ob of
             Inl x \<Rightarrow> Inr (DecryptedEncKeyV2_new\<lparr>k2_statusCode := status_of x\<rparr>)
           | Inr version \<Rightarrow>
               if version = 2 then
                 bindR (EncryptedKeyEntryDataV2_fromJSON (en_poco env) ob) (\<lambda>enc.
                   Inr (EncKeyEncryptorV2_decrypt env enc key))
               else Inr (DecryptedEncKeyV2_new\<lparr>k2_statusCode := code_of UnknownEncryptionKeyVersionException\<rparr>))
      | JString s \<Rightarrow>
          bindR (EncKeyEncryptorV1_decrypt env s key) (\<lambda>k.
            Inr (DecryptedEncKeyV2_new\<lparr>ek_id := ent_keyId e, ek_key := k, k2_dataStructureVersion := 1, k2_secretHash := []\<rparr>))
      | _ \<Rightarrow> Inr (DecryptedEncKeyV2_new\<lparr>k2_statusCode := code_of UnknownEncryptionKeyVersionException\<rparr>))"

definition checkable :: "DecryptedEncKeyV2 \<Rightarrow> bool" where
  "checkable k \<longleftrightarrow> k2_statusCode k = 0 \<and> k2_dataStructureVersion k = 2"

definition KeyProvider_verifyData :: "EncKeyLocation \<Rightarrow> key_map \<Rightarrow> key_map" where
  "KeyProvider_verifyData location keys =
     map (\<lambda>(i, k). (i,
       if checkable k \<and> (dio_contextId (k2_dio k) \<noteq> el_contextId location \<or> dio_resourceId (k2_dio k) \<noteq> el_resourceId location)
       then k\<lparr>k2_statusCode := code_of EncryptionKeyContainerValidationException\<rparr> else k)) keys"

definition set_status :: "int \<Rightarrow> string \<Rightarrow> key_map \<Rightarrow> key_map" where
  "set_status code i keys = map (\<lambda>(j, k). (j, if j = i then k\<lparr>k2_statusCode := code\<rparr> else k)) keys"

text \<open>
  \<open>duplicateMap\<close> holds the id of the first key seen with a nonce and a time; a later key with the
  same ones is marked together with that first one. The loop reads the current state of each key.
\<close>

fun verify_duplication_loop ::
    "string list \<Rightarrow> ((string \<times> int) \<times> string) list \<Rightarrow> key_map \<Rightarrow> key_map" where
  "verify_duplication_loop [] dups keys = keys"
| "verify_duplication_loop (i # is) dups keys =
     (case map_of keys i of
        None \<Rightarrow> verify_duplication_loop is dups keys
      | Some k \<Rightarrow>
          if k2_statusCode k \<noteq> 0 \<or> dio_creatorPubKey (k2_dio k) = [] then verify_duplication_loop is dups keys
          else
            let nonce = (dio_randomId (k2_dio k), dio_timestamp (k2_dio k)) in
            case map_of dups nonce of
              None \<Rightarrow> verify_duplication_loop is ((nonce, i) # dups) keys
            | Some first \<Rightarrow>
                verify_duplication_loop is dups
                  (set_status (code_of DataIntegrityObjectDuplicatedException) first
                    (set_status (code_of DataIntegrityObjectDuplicatedException) i keys)))"

definition KeyProvider_verifyForDuplication :: "key_map \<Rightarrow> key_map" where
  "KeyProvider_verifyForDuplication keys = verify_duplication_loop (map fst keys) [] keys"

definition KeyProvider_decryptAndVerifyKeys ::
    "'k core_env \<Rightarrow> 'k \<Rightarrow> EncKeyLocation \<Rightarrow> (string \<times> KeyEntry) list \<Rightarrow> (exn, key_map) result" where
  "KeyProvider_decryptAndVerifyKeys env key location entries =
     bindR (mapR (\<lambda>(i, e). bindR (decrypt_entry env key e) (\<lambda>k. Inr (i, k))) entries) (\<lambda>keys.
       let keys = KeyProvider_verifyData location keys
       in Inr (if length keys > 1 then KeyProvider_verifyForDuplication keys else keys))"

definition request_of :: "DecryptedEncKeyV2 \<Rightarrow> VerificationRequest" where
  "request_of k =
     \<lparr>vr_contextId = dio_contextId (k2_dio k), vr_senderId = dio_creatorUserId (k2_dio k),
      vr_senderPubKey = dio_creatorPubKey (k2_dio k), vr_date = dio_timestamp (k2_dio k),
      vr_bridgeIdentity = dio_bridgeIdentity (k2_dio k)\<rparr>"

definition to_verify :: "(EncKeyLocation \<times> key_map) list \<Rightarrow> ((EncKeyLocation \<times> string) \<times> VerificationRequest) list" where
  "to_verify decryptedKeys =
     concat (map (\<lambda>(loc, keys). map (\<lambda>(i, k). ((loc, i), request_of k)) (filter (\<lambda>(i, k). checkable k) keys)) decryptedKeys)"

definition set_status_at :: "int \<Rightarrow> EncKeyLocation \<times> string \<Rightarrow> (EncKeyLocation \<times> key_map) list \<Rightarrow> (EncKeyLocation \<times> key_map) list" where
  "set_status_at code at decryptedKeys =
     map (\<lambda>(loc, keys). (loc, if loc = fst at then set_status code (snd at) keys else keys)) decryptedKeys"

definition KeyProvider_verifyUserData ::
    "user_verifier \<Rightarrow> (EncKeyLocation \<times> key_map) list \<Rightarrow> (exn, (EncKeyLocation \<times> key_map) list) result" where
  "KeyProvider_verifyUserData v decryptedKeys =
     bindR (UserVerifier_verify v (map snd (to_verify decryptedKeys))) (\<lambda>answers.
       Inr (fold (\<lambda>(at, ok) m. if ok then m else set_status_at (code_of UserVerificationFailureException) at m)
         (zip (map fst (to_verify decryptedKeys)) answers) decryptedKeys))"

definition KeyProvider_getKeysAndVerify ::
    "'k core_env \<Rightarrow> 'k \<Rightarrow> user_verifier \<Rightarrow> KeyRequest \<Rightarrow> (exn, (EncKeyLocation \<times> key_map) list) result" where
  "KeyProvider_getKeysAndVerify env key v request =
     bindR (mapR (\<lambda>(loc, entries). bindR (KeyProvider_decryptAndVerifyKeys env key loc entries) (\<lambda>keys. Inr (loc, keys)))
       (kr_requestData request)) (KeyProvider_verifyUserData v)"

subsection \<open>Preparing keys for users\<close>

text \<open>\<open>hex\<close> stands for Poco's hexadecimal encoder; \<open>draws\<close> counts the calls of \<open>randomBytes\<close>.\<close>

definition KeyProvider_generateKey :: "'k core_env \<Rightarrow> (bytes \<Rightarrow> string) \<Rightarrow> nat \<Rightarrow> EncKey \<times> nat" where
  "KeyProvider_generateKey env hex draws =
     (\<lparr>ek_id = hex (randomBytes (en_crypto env) draws 16), ek_key = randomBytes (en_crypto env) (draws + 1) 32\<rparr>, draws + 2)"

definition KeyProvider_generateSecret :: "'k core_env \<Rightarrow> (bytes \<Rightarrow> string) \<Rightarrow> nat \<Rightarrow> bytes \<times> nat" where
  "KeyProvider_generateSecret env hex draws = (bytes_of (hex (randomBytes (en_crypto env) draws 32)), draws + 1)"

definition secret_hash :: "'k core_env \<Rightarrow> bytes \<Rightarrow> bytes \<Rightarrow> EncKeyLocation \<Rightarrow> bytes" where
  "secret_hash env containerSecret keySecret location =
     hmacSha256 (en_crypto env) containerSecret
       (keySecret @ bytes_of (el_contextId location) @ bytes_of (el_resourceId location))"

definition KeyProvider_createKeyEntrySet ::
    "'k core_env \<Rightarrow> (bytes \<Rightarrow> string) \<Rightarrow> 'k \<Rightarrow> UserWithPubKey \<Rightarrow> EncKey \<Rightarrow> DataIntegrityObject \<Rightarrow>
     EncKeyLocation \<Rightarrow> bytes \<Rightarrow> (exn, nat, KeyEntrySet) op" where
  "KeyProvider_createKeyEntrySet env hex selfKey user key dio location containerSecret draws =
     (let (keySecret, draws) = KeyProvider_generateSecret env hex draws in
      (bindR (PublicKey_fromBase58DER (en_crypto env) (en_ecc env) (up_pubKey user)) (\<lambda>pub.
       bindR (EncKeyEncryptorV2_encrypt env
         (EncKey.extend \<lparr>ek_id = ek_id key, ek_key = ek_key key\<rparr>
           (EncKeyV2ToEncrypt.fields dio location keySecret (secret_hash env containerSecret keySecret location)))
         pub selfKey) (\<lambda>enc.
       Inr \<lparr>es_user = up_userId user, es_keyId = ek_id key, es_data = EncryptedKeyEntryDataV2_toJSON enc\<rparr>)), draws))"

primrec mapS :: "('a \<Rightarrow> ('e, 's, 'b) op) \<Rightarrow> 'a list \<Rightarrow> ('e, 's, 'b list) op" where
  "mapS f [] = ret []"
| "mapS f (x # xs) = bindS (f x) (\<lambda>y. bindS (mapS f xs) (\<lambda>ys. ret (y # ys)))"

definition KeyProvider_prepareKeysList ::
    "'k core_env \<Rightarrow> (bytes \<Rightarrow> string) \<Rightarrow> 'k \<Rightarrow> UserWithPubKey list \<Rightarrow> EncKey \<Rightarrow> DataIntegrityObject \<Rightarrow>
     EncKeyLocation \<Rightarrow> bytes \<Rightarrow> (exn, nat, KeyEntrySet list) op" where
  "KeyProvider_prepareKeysList env hex selfKey users key dio location containerSecret =
     mapS (\<lambda>user. KeyProvider_createKeyEntrySet env hex selfKey user key dio location containerSecret) users"

text \<open>\<open>EndpointUtils::generateDIORandomId\<close> draws a new random id, here given as \<open>genId\<close>.\<close>

definition missing_keys_of ::
    "'k core_env \<Rightarrow> (bytes \<Rightarrow> string) \<Rightarrow> (nat \<Rightarrow> string \<times> nat) \<Rightarrow> 'k \<Rightarrow> UserWithPubKey list \<Rightarrow> DataIntegrityObject \<Rightarrow>
     EncKeyLocation \<Rightarrow> bytes \<Rightarrow> DecryptedEncKeyV2 \<Rightarrow> (exn, nat, KeyEntrySet list) op" where
  "missing_keys_of env hex genId selfKey users dio location containerSecret key draws =
     (let (randomId, draws) = (if k2_dataStructureVersion key = 1 then genId draws
            else (dio_randomId (k2_dio key), draws));
          missingKeyDIO = dio\<lparr>dio_randomId := randomId\<rparr>
      in if k2_statusCode key \<noteq> 0 then (Inr [], draws)
         else mapS (\<lambda>user. KeyProvider_createKeyEntrySet env hex selfKey user (EncKey.truncate key) missingKeyDIO
           location containerSecret) users draws)"

definition KeyProvider_prepareMissingKeysForNewUsers ::
    "'k core_env \<Rightarrow> (bytes \<Rightarrow> string) \<Rightarrow> (nat \<Rightarrow> string \<times> nat) \<Rightarrow> 'k \<Rightarrow> key_map \<Rightarrow> UserWithPubKey list \<Rightarrow>
     DataIntegrityObject \<Rightarrow> EncKeyLocation \<Rightarrow> bytes \<Rightarrow> (exn, nat, KeyEntrySet list) op" where
  "KeyProvider_prepareMissingKeysForNewUsers env hex genId selfKey missingKeys users dio location containerSecret =
     bindS (mapS (\<lambda>(i, key). missing_keys_of env hex genId selfKey users dio location containerSecret key) missingKeys)
       (\<lambda>r. ret (concat r))"

definition KeyProvider_verifyKeysSecret :: "'k core_env \<Rightarrow> key_map \<Rightarrow> EncKeyLocation \<Rightarrow> bytes \<Rightarrow> bool" where
  "KeyProvider_verifyKeysSecret env decryptedKeys location containerSecret \<longleftrightarrow>
     list_all (\<lambda>(i, k). \<not> (k2_statusCode k \<noteq> 0 \<or>
       (k2_dataStructureVersion k = 2 \<and> k2_secretHash k \<noteq> secret_hash env containerSecret (k2_keySecret k) location))) decryptedKeys"

subsection \<open>Elements of the results\<close>

lemma mapR_Inr: "mapR f xs = Inr ys \<Longrightarrow> list_all2 (\<lambda>x y. f x = Inr y) xs ys"
  by (induction xs arbitrary: ys) (auto simp: bindR_eq_Inr)

lemma mapR_each: "mapR f xs = Inr ys \<Longrightarrow> x \<in> set xs \<Longrightarrow> \<exists>y. f x = Inr y"
  by (induction xs arbitrary: ys) (auto simp: bindR_eq_Inr)

lemma code_of_pos: "0 < code_of e"
  by (simp add: code_of_def endpoint_code_pos)

lemma code_of_neq [simp]: "code_of e \<noteq> 0" "0 \<noteq> code_of e"
  using code_of_pos [of e] by simp_all

lemma verifyData_fst [simp]: "map fst (KeyProvider_verifyData location keys) = map fst keys"
  by (simp add: KeyProvider_verifyData_def comp_def case_prod_beta)

lemma verifyData_checkable:
  assumes "(i, k) \<in> set (KeyProvider_verifyData location keys)" and "checkable k"
  shows "(i, k) \<in> set keys \<and> dio_contextId (k2_dio k) = el_contextId location \<and>
    dio_resourceId (k2_dio k) = el_resourceId location"
  using assms by (auto simp: KeyProvider_verifyData_def checkable_def split: if_splits)

lemma set_status_fst [simp]: "map fst (set_status code i keys) = map fst keys"
  by (simp add: set_status_def comp_def case_prod_beta)

lemma in_set_status: "(j, k) \<in> set (set_status code i keys) \<Longrightarrow> code \<noteq> 0 \<Longrightarrow> k2_statusCode k = 0 \<Longrightarrow>
    j \<noteq> i \<and> (j, k) \<in> set keys"
  by (auto simp: set_status_def split: if_splits)

lemma duplication_loop_fst [simp]: "map fst (verify_duplication_loop is dups keys) = map fst keys"
  by (induction "is" dups keys rule: verify_duplication_loop.induct) (auto simp: Let_def split: option.splits)

lemma duplication_loop_keeps:
  "(j, k) \<in> set (verify_duplication_loop is dups keys) \<Longrightarrow> k2_statusCode k = 0 \<Longrightarrow> (j, k) \<in> set keys"
proof (induction "is" dups keys rule: verify_duplication_loop.induct)
  case (2 i "is" dups keys)
  let ?code = "code_of DataIntegrityObjectDuplicatedException"
  show ?case
  proof (cases "map_of keys i")
    case None
    then show ?thesis using 2 by simp
  next
    case (Some k')
    show ?thesis
    proof (cases "k2_statusCode k' \<noteq> 0 \<or> dio_creatorPubKey (k2_dio k') = []")
      case True
      then show ?thesis using 2(2) [OF Some True] 2(5,6) Some by (simp split: if_splits)
    next
      case live: False
      let ?n = "(dio_randomId (k2_dio k'), dio_timestamp (k2_dio k'))"
      show ?thesis
      proof (cases "map_of dups ?n")
        case None
        then show ?thesis using 2(3) [OF Some live refl None] 2(5,6) Some live by (simp split: if_splits)
      next
        case (Some f)
        then have "(j, k) \<in> set (set_status ?code f (set_status ?code i keys))"
          using 2(4) [OF \<open>map_of keys i = Some k'\<close> live refl Some] 2(5,6) \<open>map_of keys i = Some k'\<close> live
          by (simp split: if_splits)
        then show ?thesis using 2(6) in_set_status by (metis code_of_neq(1))
      qed
    qed
  qed
qed simp

text \<open>The keys the duplicate check compares, and what it compares them by.\<close>

definition live :: "DecryptedEncKeyV2 \<Rightarrow> bool" where
  "live k \<longleftrightarrow> k2_statusCode k = 0 \<and> dio_creatorPubKey (k2_dio k) \<noteq> []"

definition nonce_of :: "DecryptedEncKeyV2 \<Rightarrow> string \<times> int" where
  "nonce_of k = (dio_randomId (k2_dio k), dio_timestamp (k2_dio k))"

definition seen_inv :: "string set \<Rightarrow> ((string \<times> int) \<times> string) list \<Rightarrow> key_map \<Rightarrow> bool" where
  "seen_inv P dups keys \<longleftrightarrow>
     (\<forall>(j, k) \<in> set keys. j \<in> P \<longrightarrow> live k \<longrightarrow> map_of dups (nonce_of k) = Some j)"

lemma seen_invD: "seen_inv P dups keys \<Longrightarrow> (j, k) \<in> set keys \<Longrightarrow> j \<in> P \<Longrightarrow> live k \<Longrightarrow> map_of dups (nonce_of k) = Some j"
  by (auto simp: seen_inv_def)

lemma duplication_loop_seen:
  "distinct (map fst keys) \<Longrightarrow> seen_inv P dups keys \<Longrightarrow>
   \<exists>dups'. seen_inv (P \<union> set is) dups' (verify_duplication_loop is dups keys)"
proof (induction "is" arbitrary: P dups keys)
  case Nil
  then show ?case by auto
next
  case (Cons i "is")
  have set: "P \<union> set (i # is) = insert i P \<union> set is" by auto
  have go: ?case if "seen_inv (insert i P) d ks" "map fst ks = map fst keys"
      "verify_duplication_loop (i # is) dups keys = verify_duplication_loop is d ks" for d ks
    using Cons.IH [of ks "insert i P" d] that Cons.prems(1) unfolding set by simp
  show ?case
  proof (cases "map_of keys i")
    case None
    then have "i \<notin> fst ` set keys" by (simp add: map_of_eq_None_iff)
    then have "(j, k) \<in> set keys \<Longrightarrow> j \<noteq> i" for j k by force
    then have "seen_inv (insert i P) dups keys" using Cons.prems(2) by (fastforce simp: seen_inv_def)
    then show ?thesis by (rule go) (simp_all add: None)
  next
    case (Some k)
    have only: "(i, k') \<in> set keys \<Longrightarrow> k' = k" for k'
      using Some Cons.prems(1) map_of_is_SomeI by fastforce
    show ?thesis
    proof (cases "live k")
      case False
      then have "seen_inv (insert i P) dups keys"
        using Cons.prems(2) only by (fastforce simp: seen_inv_def)
      then show ?thesis by (rule go) (use False Some in \<open>simp_all add: live_def\<close>)
    next
      case True
      then have live: "\<not> (k2_statusCode k \<noteq> 0 \<or> dio_creatorPubKey (k2_dio k) = [])" by (simp add: live_def)
      show ?thesis
      proof (cases "map_of dups (nonce_of k)")
        case None
        then have "seen_inv (insert i P) ((nonce_of k, i) # dups) keys"
          using Cons.prems(2) only by (fastforce simp: seen_inv_def)
        then show ?thesis by (rule go) (use live Some None in \<open>simp_all add: nonce_of_def Let_def\<close>)
      next
        case dup: (Some f)
        let ?c = "code_of DataIntegrityObjectDuplicatedException"
        have "seen_inv (insert i P) dups (set_status ?c f (set_status ?c i keys))"
          unfolding seen_inv_def
        proof (clarify)
          fix j k' assume j: "(j, k') \<in> set (set_status ?c f (set_status ?c i keys))" "j \<in> insert i P" "live k'"
          then have "(j, k') \<in> set (set_status ?c i keys)" using in_set_status [of j k' ?c f] by (auto simp: live_def)
          then have "j \<noteq> i" "(j, k') \<in> set keys" using in_set_status [of j k' ?c i] j(3) by (auto simp: live_def)
          with j show "map_of dups (nonce_of k') = Some j" using seen_invD [OF Cons.prems(2)] by blast
        qed
        then show ?thesis by (rule go) (use live Some dup in \<open>simp_all add: nonce_of_def Let_def\<close>)
      qed
    qed
  qed
qed

lemma verifyForDuplication_unique:
  assumes "distinct (map fst keys)" and "(i, k) \<in> set (KeyProvider_verifyForDuplication keys)"
    and "(j, k') \<in> set (KeyProvider_verifyForDuplication keys)" and "live k" and "live k'" and "nonce_of k = nonce_of k'"
  shows "i = j"
proof -
  have "seen_inv {} [] keys" by (simp add: seen_inv_def)
  then obtain d where d: "seen_inv (set (map fst keys)) d (KeyProvider_verifyForDuplication keys)"
    using duplication_loop_seen [OF assms(1), of "{}" "[]" "map fst keys"] by (auto simp: KeyProvider_verifyForDuplication_def)
  have "map fst (KeyProvider_verifyForDuplication keys) = map fst keys" by (simp add: KeyProvider_verifyForDuplication_def)
  then have "i \<in> set (map fst keys)" "j \<in> set (map fst keys)" using assms(2,3) by (metis fst_conv in_set_zipE zip_map_fst_snd)+
  then show ?thesis using seen_invD [OF d] assms by (metis option.inject)
qed

subsection \<open>The accepted keys\<close>

lemma decrypt_entry_checkable:
  assumes "decrypt_entry env key e = Inr k" and "checkable k"
  obtains ob enc where "ent_data e = JObject ob" and "EncryptedKeyEntryDataV2_fromJSON (en_poco env) ob = Inr enc"
    and "authentic_key env key enc k"
proof (cases "ent_data e")
  case (JObject ob)
  have "\<not> checkable (DecryptedEncKeyV2_new\<lparr>k2_statusCode := status_of x\<rparr>)" for x
    using status_of_pos [of x] by (simp add: checkable_def)
  then obtain enc where enc: "EncryptedKeyEntryDataV2_fromJSON (en_poco env) ob = Inr enc"
      "k = EncKeyEncryptorV2_decrypt env enc key"
    using assms by (auto simp: decrypt_entry_def JObject checkable_def bindR_eq_Inr split: sum.splits if_splits)
  then show thesis
    using that [OF JObject enc(1)] EncKeyEncryptorV2_decrypt_authentic [of env enc key] assms(2)
    by (simp add: checkable_def)
qed (use assms in \<open>auto simp: decrypt_entry_def checkable_def DecryptedEncKeyV2_new_def bindR_eq_Inr\<close>)

lemma decryptAndVerifyKeys_keeps:
  assumes "KeyProvider_decryptAndVerifyKeys env key location entries = Inr keys"
  obtains ks where "list_all2 (\<lambda>(i, e) (j, k). i = j \<and> decrypt_entry env key e = Inr k) entries ks"
    and "map fst keys = map fst entries"
    and "\<And>i k. (i, k) \<in> set keys \<Longrightarrow> k2_statusCode k = 0 \<Longrightarrow> (i, k) \<in> set (KeyProvider_verifyData location ks)"
    and "length entries > 1 \<Longrightarrow> keys = KeyProvider_verifyForDuplication (KeyProvider_verifyData location ks)"
proof -
  obtain ks where ks: "mapR (\<lambda>(i, e). bindR (decrypt_entry env key e) (\<lambda>k. Inr (i, k))) entries = Inr ks"
      and keys: "keys = (if length ks > 1 then KeyProvider_verifyForDuplication (KeyProvider_verifyData location ks)
        else KeyProvider_verifyData location ks)"
    using assms by (auto simp: KeyProvider_decryptAndVerifyKeys_def bindR_eq_Inr Let_def KeyProvider_verifyData_def)
  have all: "list_all2 (\<lambda>(i, e) (j, k). i = j \<and> decrypt_entry env key e = Inr k) entries ks"
    using mapR_Inr [OF ks] by (rule list_all2_mono) (auto simp: bindR_eq_Inr)
  then have fst: "map fst ks = map fst entries"
    by (induction rule: list_all2_induct) (auto split: prod.splits)
  show thesis
  proof (rule that [OF all])
    show "map fst keys = map fst entries" using fst by (simp add: keys KeyProvider_verifyForDuplication_def)
    show "(i, k) \<in> set (KeyProvider_verifyData location ks)" if "(i, k) \<in> set keys" "k2_statusCode k = 0" for i k
      using that by (auto simp: keys KeyProvider_verifyForDuplication_def dest: duplication_loop_keeps split: if_splits)
    show "keys = KeyProvider_verifyForDuplication (KeyProvider_verifyData location ks)" if "length entries > 1"
      using that all by (simp add: keys list_all2_lengthD)
  qed
qed

text \<open>What a key without error in the result of one location satisfies.\<close>

definition accepted :: "'k core_env \<Rightarrow> 'k \<Rightarrow> EncKeyLocation \<Rightarrow> (string \<times> KeyEntry) list \<Rightarrow> key_map \<Rightarrow> string \<Rightarrow> DecryptedEncKeyV2 \<Rightarrow> bool" where
  "accepted env key location entries keys i k \<longleftrightarrow>
     (\<exists>e ob enc. (i, e) \<in> set entries \<and> ent_data e = JObject ob \<and>
        EncryptedKeyEntryDataV2_fromJSON (en_poco env) ob = Inr enc \<and> authentic_key env key enc k) \<and>
     dio_contextId (k2_dio k) = el_contextId location \<and> dio_resourceId (k2_dio k) = el_resourceId location \<and>
     (\<forall>j k'. (j, k') \<in> set keys \<longrightarrow> checkable k' \<longrightarrow> nonce_of k' = nonce_of k \<longrightarrow> j = i)"

lemma decodeAndVerify_creator: "DIOEncryptorV1_decodeAndVerify env t = Inr dio \<Longrightarrow> dio_creatorPubKey dio \<noteq> []"
  by (auto simp: DIOEncryptorV1_decodeAndVerify_def DIOEncryptorV1_assertDataFormat_def bindR_eq_Inr split: if_splits)

lemma authentic_creator: "authentic_key env key enc k \<Longrightarrow> dio_creatorPubKey (k2_dio k) \<noteq> []"
  unfolding authentic_key_def by (blast dest: decodeAndVerify_creator)

lemma list_all2_partner: "list_all2 P xs ys \<Longrightarrow> y \<in> set ys \<Longrightarrow> \<exists>x \<in> set xs. P x y"
  by (induction rule: list_all2_induct) auto

lemma singleton_of_length: "length xs \<le> 1 \<Longrightarrow> x \<in> set xs \<Longrightarrow> y \<in> set xs \<Longrightarrow> x = y"
  by (cases xs) auto

lemma decryptAndVerifyKeys_accepted:
  assumes "KeyProvider_decryptAndVerifyKeys env key location entries = Inr keys" and "distinct (map fst entries)"
    and "(i, k) \<in> set keys" and "checkable k"
  shows "accepted env key location entries keys i k"
proof -
  obtain ks where all: "list_all2 (\<lambda>(i, e) (j, k). i = j \<and> decrypt_entry env key e = Inr k) entries ks"
    and fst: "map fst keys = map fst entries"
    and keep: "\<And>i k. (i, k) \<in> set keys \<Longrightarrow> k2_statusCode k = 0 \<Longrightarrow> (i, k) \<in> set (KeyProvider_verifyData location ks)"
    and dup: "length entries > 1 \<Longrightarrow> keys = KeyProvider_verifyForDuplication (KeyProvider_verifyData location ks)"
    by (rule decryptAndVerifyKeys_keeps [OF assms(1)]) blast
  have orig: "(j, k') \<in> set ks \<and> dio_contextId (k2_dio k') = el_contextId location \<and>
      dio_resourceId (k2_dio k') = el_resourceId location" if "(j, k') \<in> set keys" "checkable k'" for j k'
    using verifyData_checkable [OF keep] that by (simp add: checkable_def)
  have entry: "\<exists>e. (j, e) \<in> set entries \<and> decrypt_entry env key e = Inr k'" if "(j, k') \<in> set ks" for j k'
    using list_all2_partner [OF all that] by auto
  have auth: "\<exists>e ob enc. (j, e) \<in> set entries \<and> ent_data e = JObject ob \<and>
        EncryptedKeyEntryDataV2_fromJSON (en_poco env) ob = Inr enc \<and> authentic_key env key enc k'"
    if "(j, k') \<in> set keys" "checkable k'" for j k'
    using entry orig [OF that] that(2) by (metis decrypt_entry_checkable)
  have alive: "live k'" if "(j, k') \<in> set keys" "checkable k'" for j k'
    using auth [OF that] that(2) authentic_creator by (fastforce simp: live_def checkable_def)
  have "j = i" if j: "(j, k') \<in> set keys" "checkable k'" "nonce_of k' = nonce_of k" for j k'
  proof (cases "length entries > 1")
    case True
    have "map fst ks = map fst entries" using all by (induction rule: list_all2_induct) (auto split: prod.splits)
    then have "distinct (map fst (KeyProvider_verifyData location ks))" using assms(2) by simp
    from verifyForDuplication_unique [OF this] show ?thesis
      using dup [OF True] j assms(3,4) alive by metis
  next
    case False
    then show ?thesis using j(1) assms(3) fst singleton_of_length [of keys]
      by (metis Pair_inject length_map not_le)
  qed
  then show ?thesis unfolding accepted_def using auth orig assms(3,4) by blast
qed

text \<open>The effect of the verifier's answers on the whole result.\<close>

lemma verify_fold:
  assumes "code \<noteq> 0"
  shows "fold (\<lambda>(at, ok) m. if ok then m else set_status_at code at m) ps m =
    map (\<lambda>(loc, keys). (loc, map (\<lambda>(i, k). (i, if ((loc, i), False) \<in> set ps then k\<lparr>k2_statusCode := code\<rparr> else k)) keys)) m"
proof (induction ps arbitrary: m)
  case Nil
  then show ?case by (simp add: case_prod_beta)
next
  case (Cons p ps)
  obtain at ok where p: "p = (at, ok)" by fastforce
  show ?case
  proof (cases ok)
    case True
    then show ?thesis by (simp add: p Cons)
  next
    case False
    have "set_status_at code at m =
        map (\<lambda>(loc, keys). (loc, map (\<lambda>(i, k). (i, if (loc, i) = at then k\<lparr>k2_statusCode := code\<rparr> else k)) keys)) m"
      by (cases at) (auto simp: set_status_at_def set_status_def)
    then show ?thesis using False by (auto simp: p Cons)
  qed
qed

lemma verifyUserData_accepts:
  assumes "KeyProvider_verifyUserData v m = Inr result" and "(loc, keys) \<in> set result"
  obtains keys0 where "(loc, keys0) \<in> set m"
    and "\<And>i k. (i, k) \<in> set keys \<Longrightarrow> checkable k \<Longrightarrow>
      (i, k) \<in> set keys0 \<and> (\<exists>reqs answers. v reqs = Some answers \<and> (request_of k, True) \<in> set (zip reqs answers))"
proof -
  let ?reqs = "map snd (to_verify m)" and ?c = "code_of UserVerificationFailureException"
  obtain answers where v: "v ?reqs = Some answers" "length answers = length (to_verify m)"
      and result: "result = fold (\<lambda>(at, ok) m. if ok then m else set_status_at ?c at m) (zip (map fst (to_verify m)) answers) m"
    using assms(1) by (auto simp: KeyProvider_verifyUserData_def UserVerifier_verify_def bindR_eq_Inr
        split: option.splits if_splits)
  let ?ps = "zip (map fst (to_verify m)) answers"
  obtain keys0 where keys0: "(loc, keys0) \<in> set m"
      "keys = map (\<lambda>(i, k). (i, if ((loc, i), False) \<in> set ?ps then k\<lparr>k2_statusCode := ?c\<rparr> else k)) keys0"
    using assms(2) unfolding result verify_fold [OF code_of_neq(1)] by auto
  show thesis
  proof (rule that [OF keys0(1)])
    fix i k assume k: "(i, k) \<in> set keys" "checkable k"
    then have in0: "(i, k) \<in> set keys0" and ok: "((loc, i), False) \<notin> set ?ps"
      by (auto simp: keys0(2) checkable_def split: if_splits)
    have "((loc, i), request_of k) \<in> set (to_verify m)"
      using in0 keys0(1) k(2) by (force simp: to_verify_def)
    then obtain n where n: "n < length (to_verify m)" "to_verify m ! n = ((loc, i), request_of k)"
      by (auto simp: in_set_conv_nth)
    then have "?ps ! n = ((loc, i), answers ! n)" "n < length ?ps" using v(2) by simp_all
    then have "answers ! n" using ok by (metis nth_mem)
    then have "zip ?reqs answers ! n = (request_of k, True)" "n < length (zip ?reqs answers)" using n v(2) by simp_all
    then have "(request_of k, True) \<in> set (zip ?reqs answers)" by (metis nth_mem)
    with in0 v(1) show "(i, k) \<in> set keys0 \<and> (\<exists>reqs answers. v reqs = Some answers \<and> (request_of k, True) \<in> set (zip reqs answers))"
      by blast
  qed
qed

lemma getKeysAndVerify_accepts:
  assumes "KeyProvider_getKeysAndVerify env key v request = Inr result"
    and "\<forall>(loc, entries) \<in> set (kr_requestData request). distinct (map fst entries)"
    and "(loc, keys) \<in> set result" and "(i, k) \<in> set keys" and "checkable k"
  shows "\<exists>entries. (loc, entries) \<in> set (kr_requestData request) \<and> accepted env key loc entries keys i k \<and>
    (\<exists>reqs answers. v reqs = Some answers \<and> (request_of k, True) \<in> set (zip reqs answers))"
proof -
  obtain m where m: "mapR (\<lambda>(loc, entries). bindR (KeyProvider_decryptAndVerifyKeys env key loc entries)
      (\<lambda>keys. Inr (loc, keys))) (kr_requestData request) = Inr m" and vr: "KeyProvider_verifyUserData v m = Inr result"
    using assms(1) by (auto simp: KeyProvider_getKeysAndVerify_def bindR_eq_Inr)
  obtain keys0 where k0: "(loc, keys0) \<in> set m" and keep: "\<And>i k. (i, k) \<in> set keys \<Longrightarrow> checkable k \<Longrightarrow>
      (i, k) \<in> set keys0 \<and> (\<exists>reqs answers. v reqs = Some answers \<and> (request_of k, True) \<in> set (zip reqs answers))"
    by (rule verifyUserData_accepts [OF vr assms(3)]) blast
  obtain n where "n < length m" "m ! n = (loc, keys0)" using k0 by (auto simp: in_set_conv_nth)
  with list_all2_nthD2 [OF mapR_Inr [OF m], of n] list_all2_lengthD [OF mapR_Inr [OF m]]
  obtain entries where e: "(loc, entries) \<in> set (kr_requestData request)"
      and dec: "KeyProvider_decryptAndVerifyKeys env key loc entries = Inr keys0"
    by (auto simp: bindR_eq_Inr split: prod.splits) (metis nth_mem)
  have dist: "distinct (map fst entries)" using assms(2) e by auto
  have "accepted env key loc entries keys0 i k"
    by (rule decryptAndVerifyKeys_accepted [OF dec dist]) (use keep assms(4,5) in auto)
  then have "accepted env key loc entries keys i k" using keep by (auto simp: accepted_def)
  then show ?thesis using e keep assms(4,5) by blast
qed

subsection \<open>Properties\<close>

text \<open>
  C2. The keys the provider accepts. When \<open>getKeysAndVerify\<close> returns, every version 2 key in the
  result that carries no error comes from an entry of the request whose integrity object is signed
  by its creator and names the checksum of the encrypted key, which that creator encrypted for this
  user; the integrity object was made for the requested context and resource; no other accepted
  key of the location has the same random id and time; and the application's verifier approved its
  creator.
\<close>

theorem KeyProvider_accepts_authentic:
  assumes "KeyProvider_getKeysAndVerify env key v request = Inr result"
    and "\<forall>(loc, entries) \<in> set (kr_requestData request). distinct (map fst entries)"
    and "(loc, keys) \<in> set result" and "(i, k) \<in> set keys" and "checkable k"
  shows "\<exists>entries. (loc, entries) \<in> set (kr_requestData request) \<and> accepted env key loc entries keys i k \<and>
    (\<exists>reqs answers. v reqs = Some answers \<and> (request_of k, True) \<in> set (zip reqs answers))"
  using assms by (rule getKeysAndVerify_accepts)

subsection \<open>Distribution of a key\<close>

definition single_request :: "EncKeyLocation \<Rightarrow> KeyEntrySet \<Rightarrow> KeyRequest" where
  "single_request location es =
     snd (KeyRequest_addOne [\<lparr>ent_keyId = es_keyId es, ent_data = es_data es\<rparr>] (es_keyId es) location KeyRequest_new)"

lemma single_request_data:
  "kr_requestData (single_request location es) =
     [(location, [(es_keyId es, \<lparr>ent_keyId = es_keyId es, ent_data = es_data es\<rparr>)])]"
  by (simp add: single_request_def KeyRequest_addOne_def KeyRequest_new_def add_entries_def insert_or_assign_all_def)

definition v2_key ::
    "'k core_env \<Rightarrow> (bytes \<Rightarrow> string) \<Rightarrow> nat \<Rightarrow> EncKey \<Rightarrow> DataIntegrityObject \<Rightarrow> EncKeyLocation \<Rightarrow> bytes \<Rightarrow> EncKeyV2ToEncrypt" where
  "v2_key env hex draws key dio location secret =
     (let keySecret = fst (KeyProvider_generateSecret env hex draws) in
      EncKey.extend \<lparr>ek_id = ek_id key, ek_key = ek_key key\<rparr>
        (EncKeyV2ToEncrypt.fields dio location keySecret (secret_hash env secret keySecret location)))"

lemma v2_key_sel [simp]:
  "ek_id (v2_key env hex draws key dio location secret) = ek_id key"
  "ek_key (v2_key env hex draws key dio location secret) = ek_key key"
  "ek_dio (v2_key env hex draws key dio location secret) = dio"
  "ek_secretHash (v2_key env hex draws key dio location secret) =
     secret_hash env secret (ek_keySecret (v2_key env hex draws key dio location secret)) location"
  by (simp_all add: v2_key_def Let_def EncKey.extend_def EncKeyV2ToEncrypt.fields_def)

definition distributable ::
    "'k core_env \<Rightarrow> (bytes \<Rightarrow> string) \<Rightarrow> nat \<Rightarrow> 'k \<Rightarrow> 'k \<Rightarrow> UserWithPubKey \<Rightarrow> EncKey \<Rightarrow> DataIntegrityObject \<Rightarrow>
     EncKeyLocation \<Rightarrow> bytes \<Rightarrow> bool" where
  "distributable env hex draws author priv user key dio location secret \<longleftrightarrow>
     core_env_ok env \<and> dio_valid env author dio \<and> ek_id key \<noteq> [] \<and> ek_key key \<noteq> [] \<and>
     dio_contextId dio = el_contextId location \<and> dio_resourceId dio = el_resourceId location \<and>
     up_pubKey user = PublicKey_toBase58DER (en_crypto env) (en_ecc env) priv \<and>
     length (Utils_stringify (en_poco env) (key_json env (v2_key env hex draws key dio location secret))) < 2 ^ 60"

lemma key_distribution:
  assumes "distributable env hex draws author priv user key dio location secret"
    and "\<And>r. vr_senderId r = dio_creatorUserId dio \<Longrightarrow> vr_senderPubKey r = dio_creatorPubKey dio \<Longrightarrow> v [r] = Some [True]"
  obtains es k where "KeyProvider_createKeyEntrySet env hex author user key dio location secret draws = (Inr es, draws + 1)"
    and "es_user es = up_userId user" and "es_keyId es = ek_id key"
    and "KeyProvider_getKeysAndVerify env priv v (single_request location es) = Inr [(location, [(ek_id key, k)])]"
    and "checkable k" and "ek_id k = ek_id key" and "ek_key k = ek_key key"
    and "dio_creatorPubKey (k2_dio k) = dio_creatorPubKey dio"
    and "KeyProvider_verifyKeysSecret env [(ek_id key, k)] location secret"
proof -
  let ?key = "v2_key env hex draws key dio location secret"
  note d = assms(1) [unfolded distributable_def]
  obtain pub where pub: "PublicKey_fromBase58DER (en_crypto env) (en_ecc env) (up_pubKey user) = Inr pub" "same_key env pub priv"
    using PublicKey_base58_roundtrip [of env priv] d by auto
  obtain enc sums where enc: "EncKeyEncryptorV2_encrypt env ?key pub author = Inr enc" "ke_version enc = 2"
    "EncKeyEncryptorV2_decrypt env enc priv =
      \<lparr>ek_id = ek_id ?key, ek_key = ek_key ?key, k2_dataStructureVersion = 2, k2_statusCode = 0,
       k2_dio = read_back env (expanded_dio (ek_dio ?key) 2 sums), k2_keySecret = ek_keySecret ?key,
       k2_secretHash = ek_secretHash ?key\<rparr>"
    by (rule EncKeyEncryptorV2_roundtrip [of env pub priv author ?key]) (use d pub(2) in auto)
  define k where "k = EncKeyEncryptorV2_decrypt env enc priv"
  obtain ob where ob: "EncryptedKeyEntryDataV2_toJSON enc = JObject ob" by (simp add: EncryptedKeyEntryDataV2_toJSON_def)
  let ?es = "\<lparr>es_user = up_userId user, es_keyId = ek_id key, es_data = EncryptedKeyEntryDataV2_toJSON enc\<rparr>"
  have entry: "decrypt_entry env priv \<lparr>ent_keyId = i, ent_data = EncryptedKeyEntryDataV2_toJSON enc\<rparr> = Inr k" for i
    using EncryptedKeyEntryDataV2_roundtrip [OF ob, of "en_poco env"] enc(2) by (simp add: decrypt_entry_def ob k_def)
  have check: "checkable k" by (simp add: k_def enc(3) checkable_def)
  have data: "KeyProvider_verifyData location [(ek_id key, k)] = [(ek_id key, k)]"
    using d by (simp add: KeyProvider_verifyData_def k_def enc(3))
  have approved: "v [request_of k] = Some [True]" by (rule assms(2)) (simp_all add: request_of_def k_def enc(3))
  show thesis
  proof (rule that [of ?es k])
    show "KeyProvider_createKeyEntrySet env hex author user key dio location secret draws = (Inr ?es, draws + 1)"
      using enc(1) pub(1) by (simp add: KeyProvider_createKeyEntrySet_def v2_key_def Let_def KeyProvider_generateSecret_def)
    show "KeyProvider_getKeysAndVerify env priv v (single_request location ?es) = Inr [(location, [(ek_id key, k)])]"
      using check approved by (simp add: KeyProvider_getKeysAndVerify_def single_request_data
          KeyProvider_decryptAndVerifyKeys_def entry data KeyProvider_verifyUserData_def UserVerifier_verify_def to_verify_def)
    show "KeyProvider_verifyKeysSecret env [(ek_id key, k)] location secret"
      by (simp add: KeyProvider_verifyKeysSecret_def k_def enc(3))
  qed (use check in \<open>simp_all add: k_def enc(3)\<close>)
qed

text \<open>A run for concrete evaluations: the user with key 5 sends a key to the user with key 7.\<close>

definition sample_dio :: DataIntegrityObject where
  "sample_dio =
     \<lparr>dio_creatorUserId = ''u'', dio_creatorPubKey = PublicKey_toBase58DER sample_crypto sample_ecc 5,
      dio_contextId = ''c'', dio_resourceId = ''r'', dio_timestamp = 1, dio_randomId = ''n'', dio_containerId = None,
      dio_containerResourceId = None, dio_bridgeIdentity = Some \<lparr>bi_url = ''b'', bi_pubKey = None, bi_instanceId = None\<rparr>\<rparr>"

definition sample_user :: UserWithPubKey where
  "sample_user = \<lparr>up_userId = ''w'', up_pubKey = PublicKey_toBase58DER sample_crypto sample_ecc 7\<rparr>"

definition sample_location :: EncKeyLocation where
  "sample_location = \<lparr>el_contextId = ''c'', el_resourceId = ''r''\<rparr>"

definition sample_key :: EncKey where
  "sample_key = \<lparr>ek_id = ''k'', ek_key = [1, 2]\<rparr>"

lemma length_put_string_le: "length (put_string s) \<le> 1 + 257 * length s"
proof -
  have "length (concat (map (\<lambda>c. put_nat (of_char c)) s)) \<le> 256 * length s"
  proof (induction s)
    case (Cons c s)
    have "Suc (of_char c) \<le> (256 :: nat)" unfolding Suc_le_eq by (rule nat_of_char_less_256)
    then have "length (put_nat (of_char c)) \<le> 256" by (simp only: put_nat_def length_append length_replicate) simp
    then show ?case using Cons by simp
  qed simp
  then show ?thesis by (simp add: put_string_def put_list_def put_nat_def)
qed

lemma sample_distributable: "distributable sample_core_env text_of 0 5 7 sample_user sample_key sample_dio sample_location [9]"
proof -
  let ?key = "v2_key sample_core_env text_of 0 sample_key sample_dio sample_location [9]"
  have "length (ek_keySecret ?key) = 32"
    by (simp add: v2_key_def Let_def EncKey.extend_def EncKeyV2ToEncrypt.fields_def KeyProvider_generateSecret_def
        sample_core_env_def sample_crypto_def)
  then have len: "length (text_of (ek_keySecret ?key)) = 32" by (simp add: text_of_def)
  have esc: "Utils_stringify sample_poco j = put_json j" for j
    unfolding Utils_stringify_def sample_poco_def poco_api.select_convs
    by (rule removeEscape_id) (use put_json_bits [of j] in auto)
  have key: "ek_id ?key = ''k''" "ek_key ?key = [1, 2]" by (simp_all add: sample_key_def)
  let ?s = "text_of (ek_keySecret ?key)"
  have "key_json sample_core_env ?key = JObject [(''id'', JString ''k''), (''key'', JString (text_of [1, 2])), (''keySecret'', JString ?s)]"
    unfolding key_json_def key EncryptionKey_toJSON_def json_put_def by (simp add: sample_core_env_def sample_poco_def)
  then have "length (Utils_stringify (en_poco sample_core_env) (key_json sample_core_env ?key)) < 2 ^ 60"
    using length_put_string_le [of ?s] length_put_string_le [of "''k''"] length_put_string_le [of "''id''"]
      length_put_string_le [of "''key''"] length_put_string_le [of "''keySecret''"] length_put_string_le [of "text_of [1, 2]"] len
    by (simp add: sample_core_env_def esc put_list_def put_nat_def text_of_def)
  then show ?thesis
    using sample_core_env_ok unfolding distributable_def
    by (simp add: dio_valid_def sample_dio_def sample_user_def sample_location_def sample_key_def)
      (simp add: sample_core_env_def)
qed

lemmas sample_distribution = key_distribution [OF sample_distributable, of "\<lambda>r. Some (map (\<lambda>_. True) r)", simplified]

theorem KeyProvider_accepts_authentic_witness:
  "\<exists>es k entries. KeyProvider_getKeysAndVerify sample_core_env 7 (\<lambda>r. Some (map (\<lambda>_. True) r)) (single_request sample_location es)
       = Inr [(sample_location, [(''k'', k)])] \<and> checkable k \<and>
     accepted sample_core_env 7 sample_location entries [(''k'', k)] ''k'' k"
proof -
  let ?v = "\<lambda>r. Some (map (\<lambda>_. True) r)"
  obtain es k where run: "KeyProvider_getKeysAndVerify sample_core_env 7 ?v (single_request sample_location es)
      = Inr [(sample_location, [(ek_id sample_key, k)])]" "checkable k"
    by (rule sample_distribution)
  have "\<forall>(loc, entries) \<in> set (kr_requestData (single_request sample_location es)). distinct (map fst entries)"
    by (simp add: single_request_data)
  from KeyProvider_accepts_authentic [OF run(1) this, of sample_location "[(ek_id sample_key, k)]" "ek_id sample_key" k] run
  show ?thesis by (auto simp: sample_key_def)
qed

text \<open>
  C6. A key reaches the user it is made for: the entry \<open>createKeyEntrySet\<close> makes for a user is, when
  that user requests it with \<open>getKeysAndVerify\<close> and an approving verifier, returned without error
  as the same key of the same creator, and \<open>verifyKeysSecret\<close> accepts it under the container's secret.
\<close>

theorem KeyProvider_key_distribution:
  assumes "distributable env hex draws author priv user key dio location secret" and "\<forall>r. v [r] = Some [True]"
  shows "\<exists>es k. KeyProvider_createKeyEntrySet env hex author user key dio location secret draws = (Inr es, draws + 1) \<and>
    es_user es = up_userId user \<and> es_keyId es = ek_id key \<and>
    KeyProvider_getKeysAndVerify env priv v (single_request location es) = Inr [(location, [(ek_id key, k)])] \<and>
    checkable k \<and> ek_id k = ek_id key \<and> ek_key k = ek_key key \<and>
    dio_creatorPubKey (k2_dio k) = dio_creatorPubKey dio \<and>
    KeyProvider_verifyKeysSecret env [(ek_id key, k)] location secret"
  by (rule key_distribution [OF assms(1), of v]) (use assms(2) in blast)+

theorem KeyProvider_key_distribution_witness:
  "\<exists>es k. KeyProvider_createKeyEntrySet sample_core_env text_of 5 sample_user sample_key sample_dio sample_location [9] 0 = (Inr es, 1) \<and>
    KeyProvider_getKeysAndVerify sample_core_env 7 (\<lambda>r. Some (map (\<lambda>_. True) r)) (single_request sample_location es)
      = Inr [(sample_location, [(''k'', k)])] \<and> ek_key k = [1, 2]"
  using KeyProvider_key_distribution [OF sample_distributable, of "\<lambda>r. Some (map (\<lambda>_. True) r)"]
  by (auto simp: sample_key_def)

text \<open>
  One malformed entry ends the whole call: an entry that says version 2 but lacks the member
  \<open>encryptedKey\<close> makes \<open>getKeysAndVerify\<close> throw, whatever the other entries are, because the
  conversion is outside the \<open>try\<close> block that turns errors into a status.
\<close>

theorem KeyProvider_malformed_entry_throws:
  assumes "ent_data e = JObject ob" and "json_get ob ''version'' = JInt 2" and "json_get ob ''encryptedKey'' = JEmpty"
    and "(i, e) \<in> set entries" and "(loc, entries) \<in> set (kr_requestData request)"
  shows "\<exists>x. KeyProvider_getKeysAndVerify env key v request = Inl x"
proof (rule ccontr)
  assume "\<not> ?thesis"
  then obtain m where m: "mapR (\<lambda>(loc, entries). bindR (KeyProvider_decryptAndVerifyKeys env key loc entries)
      (\<lambda>keys. Inr (loc, keys))) (kr_requestData request) = Inr m"
    unfolding KeyProvider_getKeysAndVerify_def bindR_def by (metis (no_types, lifting) sum.case(1) sum.exhaust)
  obtain keys where "KeyProvider_decryptAndVerifyKeys env key loc entries = Inr keys"
    using mapR_each [OF m assms(5)] by (auto simp: bindR_eq_Inr)
  then obtain ks where "mapR (\<lambda>(i, e). bindR (decrypt_entry env key e) (\<lambda>k. Inr (i, k))) entries = Inr ks"
    by (auto simp: KeyProvider_decryptAndVerifyKeys_def bindR_eq_Inr)
  from mapR_each [OF this assms(4)] have "\<exists>k. decrypt_entry env key e = Inr k" by (auto simp: bindR_eq_Inr)
  then show False
    using assms(1-3) by (auto simp: decrypt_entry_def VersionedData_fromJSON_def EncryptedKeyEntryDataV2_fromJSON_def)
qed

theorem KeyProvider_malformed_entry_throws_witness:
  "\<exists>x. KeyProvider_getKeysAndVerify sample_core_env 7 (\<lambda>r. None)
    \<lparr>kr_requestData = [(sample_location, [(''k'', \<lparr>ent_keyId = ''k'', ent_data = JObject [(''version'', JInt 2)]\<rparr>)])], kr_completed = True\<rparr> = Inl x"
  by (rule KeyProvider_malformed_entry_throws [where i = "''k''" and ob = "[(''version'', JInt 2)]"])
    (simp_all add: json_get_def)

end
