(* ===== verification/Core_ContainerKeyCache.thy ===== *)
theory Core_ContainerKeyCache
  imports Core_KeyProvider
begin

text \<open>
  The cache of container keys (\<open>endpoint/core/src/ContainerKeyCache.cpp\<close>). Every operation holds the
  mutex for its whole access to the storage, so operations of several threads take effect one after
  the other and a history is a sequence of operations.
\<close>

record CachedModuleKeys =
  cm_keys :: "KeyEntry list"
  cm_currentKeyId :: string
  cm_moduleSchemaVersion :: int
  cm_moduleResourceId :: string
  cm_contextId :: string
  cm_moduleVersion :: int

type_synonym ContainerKeyCache = "string \<rightharpoonup> CachedModuleKeys"

definition ContainerKeyCache_new :: ContainerKeyCache where
  "ContainerKeyCache_new = Map.empty"

definition ContainerKeyCache_getCachedModuleKeys :: "ContainerKeyCache \<Rightarrow> string \<Rightarrow> CachedModuleKeys option" where
  "ContainerKeyCache_getCachedModuleKeys st moduleId = st moduleId"

text \<open>The ids that are left after the entries of the cached keys were erased from the required ones.\<close>

definition missing_ids :: "KeyEntry list \<Rightarrow> string list \<Rightarrow> string list" where
  "missing_ids keys keyIds = fold (\<lambda>k ids. if ent_keyId k \<in> set ids then removeAll (ent_keyId k) ids else ids) keys keyIds"

text \<open>A value compares less than an optional only if the optional has a value.\<close>

definition less_optional :: "int \<Rightarrow> int option \<Rightarrow> bool" where
  "less_optional v m = (case m of None \<Rightarrow> False | Some x \<Rightarrow> v < x)"

definition ContainerKeyCache_getKeys ::
    "ContainerKeyCache \<Rightarrow> string \<Rightarrow> string list option \<Rightarrow> int option \<Rightarrow> CachedModuleKeys option" where
  "ContainerKeyCache_getKeys st moduleId requiredKeyIds minimumRequiredModuleSchemaVersion =
     (case ContainerKeyCache_getCachedModuleKeys st moduleId of
        None \<Rightarrow> None
      | Some moduleKeys \<Rightarrow>
          if (case requiredKeyIds of None \<Rightarrow> False | Some ids \<Rightarrow> missing_ids (cm_keys moduleKeys) ids \<noteq> []) then None
          else if requiredKeyIds \<noteq> None \<and> less_optional (cm_moduleSchemaVersion moduleKeys) minimumRequiredModuleSchemaVersion
          then None
          else Some moduleKeys)"

definition ContainerKeyCache_set :: "string \<Rightarrow> CachedModuleKeys \<Rightarrow> bool \<Rightarrow> ContainerKeyCache \<Rightarrow> ContainerKeyCache" where
  "ContainerKeyCache_set moduleId newKeys force st =
     (case ContainerKeyCache_getCachedModuleKeys st moduleId of
        Some moduleKeys \<Rightarrow>
          if cm_moduleVersion moduleKeys > cm_moduleVersion newKeys \<and> \<not> force then st else st(moduleId \<mapsto> newKeys)
      | None \<Rightarrow> st(moduleId \<mapsto> newKeys))"

definition ContainerKeyCache_clear :: "string option \<Rightarrow> ContainerKeyCache \<Rightarrow> ContainerKeyCache" where
  "ContainerKeyCache_clear moduleId st =
     (case moduleId of None \<Rightarrow> Map.empty | Some i \<Rightarrow> st(i := None))"

subsection \<open>Histories\<close>

datatype cache_op = Set string CachedModuleKeys bool | Clear "string option"

fun cache_step :: "cache_op \<Rightarrow> ContainerKeyCache \<Rightarrow> ContainerKeyCache" where
  "cache_step (Set i k f) = ContainerKeyCache_set i k f"
| "cache_step (Clear i) = ContainerKeyCache_clear i"

text \<open>An operation that can lower the version kept for \<open>moduleId\<close>.\<close>

fun resets :: "string \<Rightarrow> cache_op \<Rightarrow> bool" where
  "resets moduleId (Set i k f) \<longleftrightarrow> i = moduleId \<and> f"
| "resets moduleId (Clear None) \<longleftrightarrow> True"
| "resets moduleId (Clear (Some i)) \<longleftrightarrow> i = moduleId"

lemma cache_step_mono:
  assumes "st moduleId = Some k" and "\<not> resets moduleId op"
  shows "\<exists>k'. cache_step op st moduleId = Some k' \<and> cm_moduleVersion k \<le> cm_moduleVersion k'"
  using assms by (cases "(moduleId, op)" rule: resets.cases)
    (auto simp: ContainerKeyCache_set_def ContainerKeyCache_clear_def ContainerKeyCache_getCachedModuleKeys_def
      split: option.splits)

lemma cache_history_mono:
  "st moduleId = Some k \<Longrightarrow> \<forall>op \<in> set ops. \<not> resets moduleId op \<Longrightarrow>
   \<exists>k'. fold cache_step ops st moduleId = Some k' \<and> cm_moduleVersion k \<le> cm_moduleVersion k'"
proof (induction ops arbitrary: st k)
  case (Cons op ops)
  then obtain k1 where "cache_step op st moduleId = Some k1" "cm_moduleVersion k \<le> cm_moduleVersion k1"
    using cache_step_mono [of st moduleId k op] by auto
  with Cons.IH [of "cache_step op st" k1] Cons.prems(2) show ?case by fastforce
qed simp

lemma set_missing_ids: "set (missing_ids keys ids) = set ids - ent_keyId ` set keys"
  by (induction keys arbitrary: ids) (auto simp: missing_ids_def)

lemma set_then_get:
  "\<exists>k'. ContainerKeyCache_set i k f st i = Some k' \<and> cm_moduleVersion k \<le> cm_moduleVersion k'"
  by (auto simp: ContainerKeyCache_set_def ContainerKeyCache_getCachedModuleKeys_def split: option.splits)

text \<open>
  C33. The cache never goes back: after \<open>set\<close> of the keys of a container, and any further operations of
  any threads in any order other than clearing that container or forcing its keys, the cache holds
  keys of that container of at least the version that was set.
\<close>

theorem ContainerKeyCache_monotone:
  assumes "\<forall>op \<in> set ops. \<not> resets moduleId op"
  shows "\<exists>k'. ContainerKeyCache_getKeys (fold cache_step ops (ContainerKeyCache_set moduleId k force st)) moduleId None None = Some k' \<and>
    cm_moduleVersion k \<le> cm_moduleVersion k'"
proof -
  obtain k1 where k1: "ContainerKeyCache_set moduleId k force st moduleId = Some k1" "cm_moduleVersion k \<le> cm_moduleVersion k1"
    using set_then_get by blast
  from cache_history_mono [of "ContainerKeyCache_set moduleId k force st" moduleId k1 ops, OF k1(1) assms] k1(2) show ?thesis
    by (auto simp: ContainerKeyCache_getKeys_def ContainerKeyCache_getCachedModuleKeys_def)
qed

definition sample_cached :: "int \<Rightarrow> CachedModuleKeys" where
  "sample_cached v = \<lparr>cm_keys = [\<lparr>ent_keyId = ''k'', ent_data = JEmpty\<rparr>], cm_currentKeyId = ''k'', cm_moduleSchemaVersion = 4,
     cm_moduleResourceId = ''r'', cm_contextId = ''c'', cm_moduleVersion = v\<rparr>"

theorem ContainerKeyCache_monotone_witness:
  "\<exists>k'. ContainerKeyCache_getKeys (fold cache_step [Set ''m'' (sample_cached 2) False, Clear (Some ''n'')]
      (ContainerKeyCache_set ''m'' (sample_cached 3) False ContainerKeyCache_new)) ''m'' None None = Some k' \<and>
    3 \<le> cm_moduleVersion k'"
  using ContainerKeyCache_monotone [of "[Set ''m'' (sample_cached 2) False, Clear (Some ''n'')]" "''m''" "sample_cached 3" False ContainerKeyCache_new]
  by (simp add: sample_cached_def)

text \<open>
  What a caller that asks for certain keys gets: \<open>getKeys\<close> with required ids returns cached keys
  exactly when every required id is among them and the schema version is at least the required
  one; without required ids the minimum schema version is not looked at, so keys of a lower schema
  version than asked for are returned.
\<close>

theorem ContainerKeyCache_getKeys_spec:
  "(ContainerKeyCache_getKeys st moduleId (Some ids) m = Some k \<longleftrightarrow>
     st moduleId = Some k \<and> set ids \<subseteq> ent_keyId ` set (cm_keys k) \<and>
     (\<forall>v. m = Some v \<longrightarrow> v \<le> cm_moduleSchemaVersion k)) \<and>
   ContainerKeyCache_getKeys st moduleId None m = st moduleId"
proof -
  have "missing_ids keys ids = [] \<longleftrightarrow> set ids \<subseteq> ent_keyId ` set keys" for keys
    using set_missing_ids [of keys ids] by (metis Diff_eq_empty_iff set_empty)
  then show ?thesis
    by (auto simp: ContainerKeyCache_getKeys_def ContainerKeyCache_getCachedModuleKeys_def less_optional_def
        split: option.splits)
qed

theorem ContainerKeyCache_getKeys_spec_witness:
  "ContainerKeyCache_getKeys [''m'' \<mapsto> sample_cached 1] ''m'' (Some [''k'']) (Some 4) = Some (sample_cached 1) \<and>
   ContainerKeyCache_getKeys [''m'' \<mapsto> sample_cached 1] ''m'' None (Some 5) = Some (sample_cached 1)"
  using ContainerKeyCache_getKeys_spec [of "[''m'' \<mapsto> sample_cached 1]" "''m''" "[''k'']" "Some 4" "sample_cached 1"]
    ContainerKeyCache_getKeys_spec [of "[''m'' \<mapsto> sample_cached 1]" "''m''" "[''k'']" "Some 5" "sample_cached 1"]
  by (simp add: sample_cached_def)

end
