(* ===== verification/Utils_VersionNumber.thy ===== *)
theory Utils_VersionNumber
  imports Utils_Json
begin

text \<open>
  Version numbers of the Bridge (\<open>utils/src/VersionNumber.cpp\<close>) and the splitting of strings they
  are read with (\<open>Utils::split\<close> of \<open>utils/src/Utils.cpp\<close>).
\<close>

subsection \<open>Splitting\<close>

text \<open>
  \<open>find\<close> of a delimiter, and the loop that cuts at every occurrence. The source would not return
  for an empty delimiter; no caller passes one, and the definition leaves the string whole.
\<close>

fun find_sub :: "string \<Rightarrow> string \<Rightarrow> nat option" where
  "find_sub d s =
     (if take (length d) s = d then Some 0
      else case s of [] \<Rightarrow> None | _ # r \<Rightarrow> map_option Suc (find_sub d r))"

declare find_sub.simps [simp del]

lemma find_sub_le: "find_sub d s = Some p \<Longrightarrow> p + length d \<le> length s"
proof (induction d s arbitrary: p rule: find_sub.induct)
  case (1 d s)
  show ?case
  proof (cases "take (length d) s = d")
    case True
    then have "length d \<le> length s" by (metis length_take min.absorb_iff2 min.commute)
    then show ?thesis using 1(2) True by (simp add: find_sub.simps [of d s])
  next
    case False
    then obtain a r q where "s = a # r" "find_sub d r = Some q" "p = Suc q"
      using 1(2) by (auto simp: find_sub.simps [of d s] split: list.splits)
    then show ?thesis using 1(1) [OF False] by fastforce
  qed
qed

function Utils_split :: "string \<Rightarrow> string \<Rightarrow> string list" where
  "Utils_split s d =
     (if d = [] then [s]
      else case find_sub d s of
        None \<Rightarrow> [s]
      | Some pos \<Rightarrow> take pos s # Utils_split (drop (pos + length d) s) d)"
  by pat_completeness auto
termination
proof (relation "measure (\<lambda>(s, d). length s)", goal_cases)
  case (2 s d pos)
  then show ?case using find_sub_le [of d s pos] by (cases d) auto
qed simp

declare Utils_split.simps [simp del]

subsection \<open>\<open>VersionNumber\<close>\<close>

record VersionNumber =
  vn_versionStr :: string
  vn_major :: nat
  vn_minor :: nat
  vn_build :: "nat option"
  vn_comment :: "string option"

definition VersionNumber_default :: VersionNumber where
  "VersionNumber_default = \<lparr>vn_versionStr = ''unknown'', vn_major = 0, vn_minor = 0, vn_build = None, vn_comment = None\<rparr>"

definition is_digit :: "char \<Rightarrow> bool" where
  "is_digit c \<longleftrightarrow> 48 \<le> (of_char c :: nat) \<and> (of_char c :: nat) \<le> 57"

definition number_of :: "string \<Rightarrow> nat" where
  "number_of s = foldl (\<lambda>n c. 10 * n + (of_char c - 48)) 0 s"

text \<open>
  \<open>std::stoul\<close> of a string that starts with a digit: the number of the leading digits and how many
  they are; a number that does not fit an \<open>unsigned long\<close> throws. The members are of that width.
\<close>

definition stoul :: "string \<Rightarrow> (nat \<times> nat) option" where
  "stoul s =
     (let ds = takeWhile is_digit s in
      if ds = [] \<or> number_of ds \<ge> 2 ^ 64 then None else Some (number_of ds, length ds))"

definition InvalidVersionFormatException :: exn where
  "InvalidVersionFormatException = lib_exn 0x0005"

text \<open>\<open>tmp[2][0]\<close> of an empty build part is the terminating zero, which is no digit.\<close>

definition VersionNumber_new :: "string \<Rightarrow> (exn, VersionNumber) result" where
  "VersionNumber_new versionStr =
     (let tmp = Utils_split versionStr ''.'' in
      if length tmp \<noteq> 3 \<and> length tmp \<noteq> 2 then Inl InvalidVersionFormatException
      else if tmp ! 0 = [] \<or> tmp ! 1 = [] then Inl InvalidVersionFormatException
      else if \<not> list_all is_digit (tmp ! 0) then Inl InvalidVersionFormatException
      else if \<not> list_all is_digit (tmp ! 1) then Inl InvalidVersionFormatException
      else if length tmp = 3 \<and> (tmp ! 2 = [] \<or> \<not> is_digit (hd (tmp ! 2))) \<and> tmp ! 2 \<noteq> ''*''
      then Inl InvalidVersionFormatException
      else
        case (stoul (tmp ! 0), stoul (tmp ! 1)) of
          (Some (major, _), Some (minor, _)) \<Rightarrow>
            if length tmp = 3 \<and> tmp ! 2 \<noteq> ''*'' then
              (case stoul (tmp ! 2) of
                 None \<Rightarrow> Inl InvalidVersionFormatException
               | Some (build, pos) \<Rightarrow>
                   Inr \<lparr>vn_versionStr = versionStr, vn_major = major, vn_minor = minor, vn_build = Some build,
                     vn_comment = (if pos \<noteq> length (tmp ! 2) then Some (drop pos (tmp ! 2)) else None)\<rparr>)
            else Inr \<lparr>vn_versionStr = versionStr, vn_major = major, vn_minor = minor, vn_build = None, vn_comment = None\<rparr>
        | _ \<Rightarrow> Inl InvalidVersionFormatException)"

text \<open>Comments are ASCII, where \<open>std::lexicographical_compare\<close> of \<open>char\<close> is the order on HOL strings.\<close>

definition VersionNumber_less :: "VersionNumber \<Rightarrow> VersionNumber \<Rightarrow> bool" where
  "VersionNumber_less a b =
     (if vn_major a < vn_major b then True
      else if vn_major a = vn_major b then
        if vn_minor a < vn_minor b then True
        else if vn_minor a = vn_minor b then
          (case (vn_build a, vn_build b) of
             (None, _) \<Rightarrow> True
           | (Some x, None) \<Rightarrow> False
           | (Some x, Some y) \<Rightarrow>
               if x < y then True
               else if x = y then
                 (case (vn_comment a, vn_comment b) of
                    (Some s, Some t) \<Rightarrow> s < t
                  | (Some s, None) \<Rightarrow> True
                  | (None, _) \<Rightarrow> False)
               else False)
        else False
      else False)"

definition VersionNumber_greater :: "VersionNumber \<Rightarrow> VersionNumber \<Rightarrow> bool" where
  "VersionNumber_greater a b = VersionNumber_less b a"

definition VersionNumber_eq :: "VersionNumber \<Rightarrow> VersionNumber \<Rightarrow> bool" where
  "VersionNumber_eq a b \<longleftrightarrow>
     vn_major a = vn_major b \<and> vn_minor a = vn_minor b \<and>
     (case (vn_build a, vn_build b) of
        (Some x, Some y) \<Rightarrow> x = y \<and> vn_comment a = vn_comment b
      | (None, None) \<Rightarrow> True
      | _ \<Rightarrow> False)"

subsection \<open>Properties\<close>

lemma VersionNumber_less_trans:
  assumes "vn_build a \<noteq> None" and "vn_build b \<noteq> None" and "vn_build c \<noteq> None"
    and "VersionNumber_less a b" and "VersionNumber_less b c"
  shows "VersionNumber_less a c"
  using assms by (auto simp: VersionNumber_less_def split: if_splits option.splits intro: order.strict_trans)

lemma find_dot [simp]:
  "find_sub ''.'' [] = None"
  "find_sub ''.'' (c # r) = (if c = CHR ''.'' then Some 0 else map_option Suc (find_sub ''.'' r))"
  by (simp_all add: find_sub.simps [of "''.''" "[]"] find_sub.simps [of "''.''" "c # r"])

lemma split_append:
  assumes "CHR ''.'' \<notin> set a"
  shows "Utils_split (a @ CHR ''.'' # r) ''.'' = a # Utils_split r ''.''" "Utils_split a ''.'' = [a]"
proof -
  have hit: "find_sub ''.'' (a @ CHR ''.'' # r) = Some (length a)"
    using assms by (induction a) auto
  then show "Utils_split (a @ CHR ''.'' # r) ''.'' = a # Utils_split r ''.''" by (subst Utils_split.simps) simp
  have "find_sub ''.'' a = None"
    using assms by (induction a) auto
  then show "Utils_split a ''.'' = [a]" by (subst Utils_split.simps) simp
qed

lemma digits_no_dot: "list_all is_digit s \<Longrightarrow> CHR ''.'' \<notin> set s"
  by (auto simp: list_all_iff is_digit_def)

lemma stoul_digits:
  assumes "s \<noteq> []" and "list_all is_digit s" and "number_of s < 2 ^ 64"
  shows "stoul s = Some (number_of s, length s)"
proof -
  have tw: "takeWhile is_digit s = s" using assms(2) by (simp add: takeWhile_eq_all_conv list_all_iff)
  show ?thesis unfolding stoul_def tw Let_def using assms by simp
qed

text \<open>
  A version of the form \<open>x.y.z\<close> with decimal numbers that fit their members is read as those
  numbers, and no other text before the third part is accepted: what \<open>VersionNumber\<close> accepts has
  two or three parts of which the first two consist of digits.
\<close>

theorem VersionNumber_parse:
  "(list_all (\<lambda>s. s \<noteq> [] \<and> list_all is_digit s \<and> number_of s < 2 ^ 64) [x, y, z] \<longrightarrow>
     VersionNumber_new (x @ ''.'' @ y @ ''.'' @ z) =
       Inr \<lparr>vn_versionStr = x @ ''.'' @ y @ ''.'' @ z, vn_major = number_of x, vn_minor = number_of y,
         vn_build = Some (number_of z), vn_comment = None\<rparr>) \<and>
   (VersionNumber_new t = Inr v \<longrightarrow>
     length (Utils_split t ''.'') \<in> {2, 3} \<and> list_all is_digit (Utils_split t ''.'' ! 0) \<and>
     list_all is_digit (Utils_split t ''.'' ! 1) \<and> vn_major v = number_of (Utils_split t ''.'' ! 0) \<and>
     vn_minor v = number_of (Utils_split t ''.'' ! 1))"
proof (intro conjI impI)
  assume *: "list_all (\<lambda>s. s \<noteq> [] \<and> list_all is_digit s \<and> number_of s < 2 ^ 64) [x, y, z]"
  then have "Utils_split (x @ ''.'' @ y @ ''.'' @ z) ''.'' = [x, y, z]"
    using split_append(1) [OF digits_no_dot, of x "y @ ''.'' @ z"] split_append(1) [OF digits_no_dot, of y z]
      split_append(2) [OF digits_no_dot, of z] by simp
  moreover have "is_digit (hd z)" using * by (cases z) simp_all
  ultimately show "VersionNumber_new (x @ ''.'' @ y @ ''.'' @ z) =
       Inr \<lparr>vn_versionStr = x @ ''.'' @ y @ ''.'' @ z, vn_major = number_of x, vn_minor = number_of y,
         vn_build = Some (number_of z), vn_comment = None\<rparr>"
    using * stoul_digits [of x] stoul_digits [of y] stoul_digits [of z]
    by (auto simp: VersionNumber_new_def is_digit_def Let_def)
next
  assume v: "VersionNumber_new t = Inr v"
  let ?s = "Utils_split t ''.''"
  have parts: "length ?s \<in> {2, 3}" "list_all is_digit (?s ! 0)" "list_all is_digit (?s ! 1)"
    using v by (auto simp: VersionNumber_new_def Let_def split: if_splits)
  then show "length ?s \<in> {2, 3}" "list_all is_digit (?s ! 0)" "list_all is_digit (?s ! 1)" by auto
  have tw: "takeWhile is_digit (?s ! 0) = ?s ! 0" "takeWhile is_digit (?s ! 1) = ?s ! 1"
    using parts by (simp_all add: takeWhile_eq_all_conv list_all_iff)
  obtain a b c d where ab: "stoul (?s ! 0) = Some (a, c)" "stoul (?s ! 1) = Some (b, d)" "vn_major v = a" "vn_minor v = b"
    using v by (auto simp: VersionNumber_new_def Let_def split: if_splits option.splits)
  then show "vn_major v = number_of (?s ! 0)" "vn_minor v = number_of (?s ! 1)"
    unfolding stoul_def Let_def tw by (auto split: if_splits)
qed

theorem VersionNumber_parse_witness:
  "VersionNumber_new ''2.10.3'' = Inr \<lparr>vn_versionStr = ''2.10.3'', vn_major = 2, vn_minor = 10, vn_build = Some 3, vn_comment = None\<rparr>"
  using VersionNumber_parse [of "''2''" "''10''" "''3''"] by (simp add: is_digit_def number_of_def)

text \<open>
  The order of versions. Among versions with a build number, exactly one of \<open><\<close>, \<open>==\<close> and \<open>>\<close>
  holds and \<open><\<close> is transitive. A version without a build number, such as \<open>x.y\<close> or \<open>x.y.*\<close>, is less
  than itself and at the same time equal to itself.
\<close>

theorem VersionNumber_order:
  "(vn_build a \<noteq> None \<longrightarrow> vn_build b \<noteq> None \<longrightarrow>
     (VersionNumber_less a b \<longleftrightarrow> \<not> VersionNumber_eq a b \<and> \<not> VersionNumber_greater a b)) \<and>
   (vn_build a \<noteq> None \<longrightarrow> vn_build b \<noteq> None \<longrightarrow> vn_build c \<noteq> None \<longrightarrow>
     VersionNumber_less a b \<longrightarrow> VersionNumber_less b c \<longrightarrow> VersionNumber_less a c) \<and>
   (vn_build a = None \<longrightarrow> VersionNumber_less a a \<and> VersionNumber_eq a a)"
proof (intro conjI impI)
  assume "vn_build a \<noteq> None" "vn_build b \<noteq> None"
  then show "VersionNumber_less a b \<longleftrightarrow> \<not> VersionNumber_eq a b \<and> \<not> VersionNumber_greater a b"
    by (auto simp: VersionNumber_less_def VersionNumber_greater_def VersionNumber_eq_def split: option.splits)
next
  assume "vn_build a = None"
  then show "VersionNumber_less a a" "VersionNumber_eq a a" by (simp_all add: VersionNumber_less_def VersionNumber_eq_def)
qed (rule VersionNumber_less_trans)

theorem VersionNumber_order_witness:
  "\<exists>v w. VersionNumber_new ''2.4'' = Inr v \<and> VersionNumber_less v v \<and> VersionNumber_eq v v \<and>
     VersionNumber_new ''2.10.3'' = Inr w \<and> \<not> VersionNumber_less w w"
proof -
  let ?v = "\<lparr>vn_versionStr = ''2.4'', vn_major = 2, vn_minor = 4, vn_build = None, vn_comment = None\<rparr>"
  let ?w = "\<lparr>vn_versionStr = ''2.10.3'', vn_major = 2, vn_minor = 10, vn_build = Some 3, vn_comment = None\<rparr>"
  have "Utils_split ''2.4'' ''.'' = [''2'', ''4'']" "Utils_split ''2.10.3'' ''.'' = [''2'', ''10'', ''3'']"
    using split_append(1) [of "''2''" "''4''"] split_append(2) [of "''4''"] split_append(1) [of "''2''" "''10.3''"]
      split_append(1) [of "''10''" "''3''"] split_append(2) [of "''3''"] by simp_all
  then have "VersionNumber_new ''2.4'' = Inr ?v" "VersionNumber_new ''2.10.3'' = Inr ?w"
    by (simp_all add: VersionNumber_new_def stoul_def is_digit_def number_of_def)
  moreover have "VersionNumber_less ?v ?v \<and> VersionNumber_eq ?v ?v" using VersionNumber_order [of ?v] by simp
  moreover have "\<not> VersionNumber_less ?w ?w" using VersionNumber_order [of ?w ?w] by (simp add: VersionNumber_eq_def)
  ultimately show ?thesis by blast
qed

end
