(* ===== verification/Core_Utils.thy ===== *)
theory Core_Utils
  imports Core_KeyProvider Utils_VersionNumber
begin

text \<open>
  Helpers of the module interfaces (\<open>endpoint/core/src\<close>): lists of users (\<open>EndpointUtils.cpp\<close>), who
  needs which container key when the users of a container change (\<open>UsersKeysResolver.cpp\<close>), the
  formats of key ids and the tolerance for time stamps (\<open>KeyIdFormatValidator.cpp\<close>,
  \<open>TimestampValidator.cpp\<close>), and policies (\<open>Factory.cpp\<close>). Strings are ordered by the codes of their
  characters, as \<open>std::string\<close> is.
\<close>

subsection \<open>\<open>EndpointUtils\<close>\<close>

definition EndpointUtils_uniqueListUserWithPubKey :: "UserWithPubKey list \<Rightarrow> UserWithPubKey list \<Rightarrow> UserWithPubKey list" where
  "EndpointUtils_uniqueListUserWithPubKey list1 list2 =
     map snd (fold (\<lambda>a. alist_set (up_userId a @ up_pubKey a) a) list2
       (fold (\<lambda>a. alist_set (up_userId a @ up_pubKey a) a) list1 []))"

text \<open>The loop that skips the elements at which both sorted lists agree.\<close>

fun common_prefix :: "string list \<Rightarrow> string list \<Rightarrow> nat" where
  "common_prefix (x # xs) (y # ys) = (if x = y then Suc (common_prefix xs ys) else 0)"
| "common_prefix _ _ = 0"

definition EndpointUtils_getDifference :: "string list \<Rightarrow> string list \<Rightarrow> string list" where
  "EndpointUtils_getDifference baseList subList =
     (let vec1 = sort baseList; vec2 = sort subList; i = common_prefix vec1 vec2
      in filter (\<lambda>x. x \<notin> set (drop i vec2)) (drop i vec1))"

definition EndpointUtils_uniqueList :: "string list \<Rightarrow> string list \<Rightarrow> string list" where
  "EndpointUtils_uniqueList list1 list2 = sorted_list_of_set (set list1 \<union> set list2)"

definition EndpointUtils_usersWithPubKeyToIds :: "UserWithPubKey list \<Rightarrow> string list" where
  "EndpointUtils_usersWithPubKeyToIds users = map up_userId users"

subsection \<open>\<open>UsersKeysResolver\<close>\<close>

record UsersKeysResolver =
  ukr_usersToAddMissingKey :: "UserWithPubKey list"
  ukr_new_users :: "UserWithPubKey list"
  ukr_needNewKey :: bool

definition UsersKeysResolver_create ::
    "string list \<Rightarrow> string list \<Rightarrow> UserWithPubKey list \<Rightarrow> UserWithPubKey list \<Rightarrow> bool \<Rightarrow> DecryptedEncKeyV2 \<Rightarrow> UsersKeysResolver" where
  "UsersKeysResolver_create currentUserIds currentManagerIds users managers forceGenerateNewKey moduleCurrentKey =
     (let oldUsersIds = EndpointUtils_uniqueList currentUserIds currentManagerIds;
          new_users = EndpointUtils_uniqueListUserWithPubKey users managers;
          newUsersIds = EndpointUtils_usersWithPubKeyToIds new_users;
          deletedUsersIds = EndpointUtils_getDifference oldUsersIds newUsersIds;
          addedUsersIds = EndpointUtils_getDifference newUsersIds oldUsersIds
      in \<lparr>ukr_usersToAddMissingKey =
            (if k2_dataStructureVersion moduleCurrentKey < 2 then new_users
             else filter (\<lambda>u. up_userId u \<in> set addedUsersIds) new_users),
          ukr_new_users = new_users,
          ukr_needNewKey = (deletedUsersIds \<noteq> [] \<or> forceGenerateNewKey)\<rparr>)"

subsection \<open>Validators\<close>

definition KeyIdFormatValidator_hasDefaultKeyIdFormat :: "string \<Rightarrow> bool" where
  "KeyIdFormatValidator_hasDefaultKeyIdFormat keyId \<longleftrightarrow>
     length keyId = 32 \<and> list_all (\<lambda>c. c \<in> set ''0123456789abcdefABCDEF'') keyId"

text \<open>
  The extended format is \<open><prefix-x-y-...>\<close>: the text between the brackets splits at hyphens into
  the expected number of elements.
\<close>

definition KeyIdFormatValidator_hasExtendedKeyIdFormat :: "string \<Rightarrow> string \<Rightarrow> nat \<Rightarrow> bool" where
  "KeyIdFormatValidator_hasExtendedKeyIdFormat keyId prefix dataElements =
     (if length keyId \<ge> 2 \<and> hd keyId = CHR ''<'' \<and> last keyId = CHR ''>''
      then let trimmedKeyId = take (length keyId - 2) (drop 1 keyId); keyData = Utils_split trimmedKeyId ''-''
           in if prefix \<noteq> []
              then hd keyData = prefix \<and> length keyData = Suc dataElements
              else length keyData = dataElements
      else False)"

definition TIMESTAMP_ALLOWED_DELTA :: int where
  "TIMESTAMP_ALLOWED_DELTA = 5 * 60 * 1000"

text \<open>\<open>abs\<close> is the overload for \<open>long\<close>; its result wraps for the least number.\<close>

definition Utils_validateTimestamps :: "int \<Rightarrow> int \<Rightarrow> int \<Rightarrow> bool" where
  "Utils_validateTimestamps t1 t2 threshold \<longleftrightarrow> s64 \<bar>s64 (t1 - t2)\<bar> < threshold"

definition TimestampValidator_validate :: "int \<Rightarrow> int \<Rightarrow> bool" where
  "TimestampValidator_validate clientTimestamp serverTimestamp \<longleftrightarrow>
     Utils_validateTimestamps serverTimestamp clientTimestamp TIMESTAMP_ALLOWED_DELTA"

subsection \<open>Policies\<close>

record ContainerPolicyWithoutItem =
  cp_get :: "string option"
  cp_update :: "string option"
  cp_delete :: "string option"
  cp_updatePolicy :: "string option"
  cp_updaterCanBeRemovedFromManagers :: "string option"
  cp_ownerCanBeRemovedFromManagers :: "string option"

record ItemPolicy =
  ip_get :: "string option"
  ip_listMy :: "string option"
  ip_listAll :: "string option"
  ip_create :: "string option"
  ip_update :: "string option"
  ip_delete :: "string option"

record ContainerPolicy = ContainerPolicyWithoutItem +
  cp_item :: "ItemPolicy option"

definition set_value :: "string \<Rightarrow> string option \<Rightarrow> (string \<times> json) list \<Rightarrow> (string \<times> json) list" where
  "set_value key v model = (case v of None \<Rightarrow> model | Some s \<Rightarrow> json_put key (JString s) model)"

definition policy_without_item :: "'a ContainerPolicyWithoutItem_scheme \<Rightarrow> (string \<times> json) list" where
  "policy_without_item p =
     set_value ''ownerCanBeRemovedFromManagers'' (cp_ownerCanBeRemovedFromManagers p)
     (set_value ''updaterCanBeRemovedFromManagers'' (cp_updaterCanBeRemovedFromManagers p)
     (set_value ''updatePolicy'' (cp_updatePolicy p)
     (set_value ''delete'' (cp_delete p)
     (set_value ''update'' (cp_update p)
     (set_value ''get'' (cp_get p) [])))))"

definition item_policy :: "ItemPolicy \<Rightarrow> (string \<times> json) list" where
  "item_policy p =
     set_value ''delete'' (ip_delete p) (set_value ''update'' (ip_update p) (set_value ''create'' (ip_create p)
     (set_value ''listAll'' (ip_listAll p) (set_value ''listMy'' (ip_listMy p) (set_value ''get'' (ip_get p) [])))))"

definition Factory_createPolicyServerObject :: "ContainerPolicy \<Rightarrow> json" where
  "Factory_createPolicyServerObject p =
     JObject (case cp_item p of None \<Rightarrow> policy_without_item p
       | Some i \<Rightarrow> json_put ''item'' (JObject (item_policy i)) (policy_without_item p))"

text \<open>\<open>getValue<std::string>\<close> converts any value to text; the conversion \<open>str\<close> is POCO's.\<close>

definition Factory_getValueOrNullopt ::
    "(json \<Rightarrow> (exn, string) result) \<Rightarrow> (string \<times> json) list \<Rightarrow> string \<Rightarrow> (exn, string option) result" where
  "Factory_getValueOrNullopt str ob key =
     (if json_get ob key = JEmpty then Inr None else bindR (str (json_get ob key)) (\<lambda>s. Inr (Some s)))"

definition parse_item_policy :: "(json \<Rightarrow> (exn, string) result) \<Rightarrow> (string \<times> json) list \<Rightarrow> (exn, ItemPolicy) result" where
  "parse_item_policy str ob =
     bindR (Factory_getValueOrNullopt str ob ''get'') (\<lambda>get'.
     bindR (Factory_getValueOrNullopt str ob ''listMy'') (\<lambda>listMy.
     bindR (Factory_getValueOrNullopt str ob ''listAll'') (\<lambda>listAll.
     bindR (Factory_getValueOrNullopt str ob ''create'') (\<lambda>create.
     bindR (Factory_getValueOrNullopt str ob ''update'') (\<lambda>update.
     bindR (Factory_getValueOrNullopt str ob ''delete'') (\<lambda>del.
     Inr \<lparr>ip_get = get', ip_listMy = listMy, ip_listAll = listAll, ip_create = create, ip_update = update, ip_delete = del\<rparr>))))))"

definition empty_policy :: ContainerPolicy where
  "empty_policy = \<lparr>cp_get = None, cp_update = None, cp_delete = None, cp_updatePolicy = None,
     cp_updaterCanBeRemovedFromManagers = None, cp_ownerCanBeRemovedFromManagers = None, cp_item = None\<rparr>"

definition Factory_parsePolicyServerObject ::
    "poco_api \<Rightarrow> (json \<Rightarrow> (exn, string) result) \<Rightarrow> json \<Rightarrow> (exn, ContainerPolicy) result" where
  "Factory_parsePolicyServerObject p str serverPolicyObject =
     (case serverPolicyObject of
        JEmpty \<Rightarrow> Inr empty_policy
      | JObject ob \<Rightarrow>
          bindR (Factory_getValueOrNullopt str ob ''get'') (\<lambda>get'.
          bindR (Factory_getValueOrNullopt str ob ''update'') (\<lambda>update.
          bindR (Factory_getValueOrNullopt str ob ''delete'') (\<lambda>del.
          bindR (Factory_getValueOrNullopt str ob ''updatePolicy'') (\<lambda>updatePolicy.
          bindR (Factory_getValueOrNullopt str ob ''updaterCanBeRemovedFromManagers'') (\<lambda>updater.
          bindR (Factory_getValueOrNullopt str ob ''ownerCanBeRemovedFromManagers'') (\<lambda>owner.
          bindR (case json_get ob ''item'' of
                   JObject item \<Rightarrow> bindR (parse_item_policy str item) (\<lambda>i. Inr (Some i))
                 | _ \<Rightarrow> Inr None) (\<lambda>item.
          Inr \<lparr>cp_get = get', cp_update = update, cp_delete = del, cp_updatePolicy = updatePolicy,
             cp_updaterCanBeRemovedFromManagers = updater, cp_ownerCanBeRemovedFromManagers = owner, cp_item = item\<rparr>)))))))
      | _ \<Rightarrow> Inl (poco_badCast p))"


subsection \<open>Lists of users\<close>

lemma take_common_prefix: "take (common_prefix xs ys) xs = take (common_prefix xs ys) ys"
  by (induction xs ys rule: common_prefix.induct) auto

lemma getDifference_supset: "set baseList - set subList \<subseteq> set (EndpointUtils_getDifference baseList subList)"
proof
  fix x assume x: "x \<in> set baseList - set subList"
  define i where "i = common_prefix (sort baseList) (sort subList)"
  have "x \<notin> set (take i (sort subList))" using x by (auto dest: in_set_takeD)
  then have "x \<notin> set (take i (sort baseList))" unfolding i_def by (subst take_common_prefix)
  moreover have "x \<in> set (take i (sort baseList) @ drop i (sort baseList))" using x by (metis DiffD1 append_take_drop_id set_sort)
  ultimately have "x \<in> set (drop i (sort baseList))" by (metis Un_iff set_append)
  moreover have "x \<notin> set (drop i (sort subList))" using x by (auto dest: in_set_dropD)
  ultimately show "x \<in> set (EndpointUtils_getDifference baseList subList)"
    by (simp add: EndpointUtils_getDifference_def i_def Let_def)
qed

text \<open>
  On a list without repetitions the early stop of the comparison loop is harmless: the result is
  the sorted difference of the two lists.
\<close>

lemma getDifference_distinct:
  assumes "distinct baseList"
  shows "EndpointUtils_getDifference baseList subList = filter (\<lambda>x. x \<notin> set subList) (sort baseList)"
proof -
  define v w i where "v = sort baseList" and "w = sort subList" and "i = common_prefix v w"
  have pre: "take i v = take i w" unfolding i_def by (rule take_common_prefix)
  have "distinct v" using assms by (simp add: v_def)
  then have disj: "set (take i w) \<inter> set (drop i v) = {}"
    unfolding pre [symmetric] by (rule set_take_disj_set_drop_if_distinct) simp
  have w: "set subList = set (take i w) \<union> set (drop i w)"
    by (metis append_take_drop_id set_append set_sort w_def)
  have "filter (\<lambda>x. x \<notin> set subList) v = filter (\<lambda>x. x \<notin> set subList) (take i v) @ filter (\<lambda>x. x \<notin> set subList) (drop i v)"
    by (metis append_take_drop_id filter_append)
  also have "filter (\<lambda>x. x \<notin> set subList) (take i v) = []" by (simp add: filter_empty_conv pre w)
  also have "filter (\<lambda>x. x \<notin> set subList) (drop i v) = filter (\<lambda>x. x \<notin> set (drop i w)) (drop i v)"
    using disj by (intro filter_cong) (auto simp: w)
  finally show ?thesis by (simp add: EndpointUtils_getDifference_def Let_def v_def w_def i_def)
qed

lemma set_uniqueList [simp]:
  "set (EndpointUtils_uniqueList xs ys) = set xs \<union> set ys" "distinct (EndpointUtils_uniqueList xs ys)"
  by (simp_all add: EndpointUtils_uniqueList_def)

text \<open>Lists collected in a map by a key that tells the elements apart.\<close>

lemma snd_set_alist_set:
  assumes "ordered kvs" "\<forall>x \<in> set kvs. fst x = f (snd x)" "inj_on f (insert a (snd ` set kvs))"
  shows "snd ` set (alist_set (f a) a kvs) = insert a (snd ` set kvs)"
  using assms
proof (induction "f a" a kvs rule: alist_set.induct)
  case (2 v k' v' r)
  then show ?case by (auto simp: ordered_Cons inj_on_def split: if_splits)
qed simp

lemma collect_by_key:
  assumes "ordered acc" "\<forall>x \<in> set acc. fst x = f (snd x)" "inj_on f (set xs \<union> snd ` set acc)"
  shows "ordered (fold (\<lambda>a. alist_set (f a) a) xs acc)
    \<and> (\<forall>x \<in> set (fold (\<lambda>a. alist_set (f a) a) xs acc). fst x = f (snd x))
    \<and> snd ` set (fold (\<lambda>a. alist_set (f a) a) xs acc) = set xs \<union> snd ` set acc"
  using assms
proof (induction xs arbitrary: acc)
  case (Cons a xs)
  let ?acc = "alist_set (f a) a acc"
  have "snd ` set ?acc = insert a (snd ` set acc)"
    using Cons.prems by (intro snd_set_alist_set) (auto intro: inj_on_subset)
  moreover have "\<forall>x \<in> set ?acc. fst x = f (snd x)" using Cons.prems(2) by (auto dest: snd_alist_set)
  ultimately show ?case using Cons.IH [of ?acc] Cons.prems(1,3) by simp
qed simp


abbreviation user_key :: "UserWithPubKey \<Rightarrow> string" where
  "user_key u \<equiv> up_userId u @ up_pubKey u"

lemma set_uniqueListUserWithPubKey:
  assumes "inj_on user_key (set list1 \<union> set list2)"
  shows "set (EndpointUtils_uniqueListUserWithPubKey list1 list2) = set list1 \<union> set list2"
    and "distinct (EndpointUtils_uniqueListUserWithPubKey list1 list2)"
proof -
  define kvs where "kvs = fold (\<lambda>a. alist_set (user_key a) a) (list1 @ list2) []"
  have kvs: "ordered kvs" "\<forall>x \<in> set kvs. fst x = user_key (snd x)" "snd ` set kvs = set list1 \<union> set list2"
    using collect_by_key [of "[]" user_key "list1 @ list2"] assms by (auto simp: kvs_def)
  have eq: "EndpointUtils_uniqueListUserWithPubKey list1 list2 = map snd kvs"
    by (simp add: EndpointUtils_uniqueListUserWithPubKey_def kvs_def)
  show "set (EndpointUtils_uniqueListUserWithPubKey list1 list2) = set list1 \<union> set list2"
    by (simp add: eq kvs(3))
  have "map fst kvs = map user_key (map snd kvs)" using kvs(2) by simp
  moreover have "distinct (map fst kvs)"
    using kvs(1) by (simp add: ordered_def strict_sorted_iff)
  ultimately show "distinct (EndpointUtils_uniqueListUserWithPubKey list1 list2)"
    by (metis eq distinct_map)
qed

lemma resolver_spec:
  assumes "inj_on user_key (set users \<union> set managers)"
    and "r = UsersKeysResolver_create currentUserIds currentManagerIds users managers force key"
  shows "set (ukr_new_users r) = set users \<union> set managers \<and> distinct (ukr_new_users r)
    \<and> (ukr_needNewKey r \<longleftrightarrow> force
        \<or> \<not> set currentUserIds \<union> set currentManagerIds \<subseteq> up_userId ` (set users \<union> set managers))
    \<and> {u \<in> set users \<union> set managers. up_userId u \<notin> set currentUserIds \<union> set currentManagerIds}
        \<subseteq> set (ukr_usersToAddMissingKey r)
    \<and> set (ukr_usersToAddMissingKey r) \<subseteq> set users \<union> set managers
    \<and> (k2_dataStructureVersion key < 2 \<longrightarrow> ukr_usersToAddMissingKey r = ukr_new_users r)"
proof -
  let ?new = "EndpointUtils_uniqueListUserWithPubKey users managers"
  let ?old = "EndpointUtils_uniqueList currentUserIds currentManagerIds"
  note new = set_uniqueListUserWithPubKey [OF assms(1)]
  have "{u \<in> set ?new. up_userId u \<notin> set ?old} \<subseteq>
      {u \<in> set ?new. up_userId u \<in> set (EndpointUtils_getDifference (map up_userId ?new) ?old)}"
    using getDifference_supset [of "map up_userId ?new" ?old] by auto
  moreover have "EndpointUtils_getDifference ?old (map up_userId ?new) = [] \<longleftrightarrow> set ?old \<subseteq> up_userId ` set ?new"
    by (auto simp: getDifference_distinct filter_empty_conv)
  ultimately show ?thesis
    using new by (auto simp: assms(2) UsersKeysResolver_create_def Let_def EndpointUtils_usersWithPubKeyToIds_def)
qed

subsection \<open>Properties\<close>

text \<open>
  C28. The key resolver. Provided no two of the given users agree in the concatenation of id and public
  key, the new users are the users and managers without repetition; a new key is needed exactly
  when it is forced or a present user or manager is no longer among them; and everybody who was
  not there before receives the present key, or everybody does when that key is of the old format.
\<close>

theorem users_keys_resolver_spec:
  assumes "inj_on user_key (set users \<union> set managers)"
    and "r = UsersKeysResolver_create currentUserIds currentManagerIds users managers force key"
  shows "set (ukr_new_users r) = set users \<union> set managers \<and> distinct (ukr_new_users r)
    \<and> (ukr_needNewKey r \<longleftrightarrow> force
        \<or> \<not> set currentUserIds \<union> set currentManagerIds \<subseteq> up_userId ` (set users \<union> set managers))
    \<and> {u \<in> set users \<union> set managers. up_userId u \<notin> set currentUserIds \<union> set currentManagerIds}
        \<subseteq> set (ukr_usersToAddMissingKey r)
    \<and> set (ukr_usersToAddMissingKey r) \<subseteq> set users \<union> set managers
    \<and> (k2_dataStructureVersion key < 2 \<longrightarrow> ukr_usersToAddMissingKey r = ukr_new_users r)"
  using assms by (rule resolver_spec)

theorem users_keys_resolver_spec_witness:
  "ukr_needNewKey (UsersKeysResolver_create [''a'', ''b''] [''b''] [\<lparr>up_userId = ''b'', up_pubKey = ''p''\<rparr>]
      [\<lparr>up_userId = ''c'', up_pubKey = ''q''\<rparr>] False DecryptedEncKeyV2_new) \<and>
   \<lparr>up_userId = ''c'', up_pubKey = ''q''\<rparr> \<in> set (ukr_usersToAddMissingKey (UsersKeysResolver_create [''a'', ''b''] [''b'']
      [\<lparr>up_userId = ''b'', up_pubKey = ''p''\<rparr>] [\<lparr>up_userId = ''c'', up_pubKey = ''q''\<rparr>] False DecryptedEncKeyV2_new))"
proof -
  let ?b = "\<lparr>up_userId = ''b'', up_pubKey = ''p''\<rparr>" and ?c = "\<lparr>up_userId = ''c'', up_pubKey = ''q''\<rparr>"
  have "inj_on user_key (set [?b] \<union> set [?c])" by simp
  note spec = users_keys_resolver_spec [OF this refl, of "[''a'', ''b'']" "[''b'']" False DecryptedEncKeyV2_new]
  have "?c \<in> {u \<in> set [?b] \<union> set [?c]. up_userId u \<notin> set [''a'', ''b''] \<union> set [''b'']}"
    "\<not> set [''a'', ''b''] \<union> set [''b''] \<subseteq> up_userId ` (set [?b] \<union> set [?c])" by simp_all
  then show ?thesis using spec by blast
qed

text \<open>
  When moreover every user is given with one public key only and the key has the present format,
  nobody who has the key already is added.
\<close>

theorem users_keys_resolver_exact:
  assumes "inj_on up_userId (set users \<union> set managers)" "inj_on user_key (set users \<union> set managers)"
    and "k2_dataStructureVersion key \<ge> 2"
  shows "set (ukr_usersToAddMissingKey
      (UsersKeysResolver_create currentUserIds currentManagerIds users managers force key))
    = {u \<in> set users \<union> set managers. up_userId u \<notin> set currentUserIds \<union> set currentManagerIds}"
proof -
  let ?new = "EndpointUtils_uniqueListUserWithPubKey users managers"
  note new = set_uniqueListUserWithPubKey [OF assms(2)]
  have "distinct (map up_userId ?new)" using new assms(1) by (simp add: distinct_map)
  then show ?thesis
    using new assms(3)
    by (auto simp: UsersKeysResolver_create_def Let_def EndpointUtils_usersWithPubKeyToIds_def getDifference_distinct)
qed

lemma getValueOrNullopt_put [simp]:
  assumes "\<And>s. str (JString s) = Inr s"
  shows "Factory_getValueOrNullopt str [] k = Inr None"
    and "Factory_getValueOrNullopt str (set_value k v ob) k' =
      (if k' = k \<and> v \<noteq> None then Inr v else Factory_getValueOrNullopt str ob k')"
    and "j \<noteq> JEmpty \<Longrightarrow> k' \<noteq> k \<Longrightarrow> Factory_getValueOrNullopt str (json_put k j ob) k' = Factory_getValueOrNullopt str ob k'"
  using assms by (auto simp: Factory_getValueOrNullopt_def set_value_def split: option.split)

lemma json_get_set_value [simp]:
  "json_get (set_value k v ob) k' = (if k' = k \<and> v \<noteq> None then JString (the v) else json_get ob k')"
  by (auto simp: set_value_def split: option.split)

lemma policy_inverse:
  assumes "\<And>s. str (JString s) = Inr s"
  shows "Factory_parsePolicyServerObject poco str (Factory_createPolicyServerObject p) = Inr p"
proof -
  note get = getValueOrNullopt_put [of str, OF assms]
  have item: "parse_item_policy str (item_policy i) = Inr i" for i
    by (simp add: parse_item_policy_def item_policy_def get)
  show ?thesis
    by (cases p; cases "cp_item p")
      (auto simp: Factory_parsePolicyServerObject_def Factory_createPolicyServerObject_def policy_without_item_def get item)
qed

text \<open>A policy survives the journey to the server's format and back.\<close>

theorem policy_roundtrip:
  assumes "\<And>s. str (JString s) = Inr s"
  shows "Factory_parsePolicyServerObject poco str (Factory_createPolicyServerObject p) = Inr p"
  using assms by (rule policy_inverse)

theorem policy_roundtrip_witness:
  "Factory_parsePolicyServerObject sample_poco (\<lambda>j. case j of JString s \<Rightarrow> Inr s | _ \<Rightarrow> Inl StdOutOfRange)
     (Factory_createPolicyServerObject empty_policy) = Inr empty_policy"
  by (rule policy_roundtrip) simp

end
