(* ===== verification/Core_ModuleBase.thy ===== *)
theory Core_ModuleBase
  imports Core_ModuleData Core_ContainerKeyCache Core_Utils
begin

text \<open>
  The base of the module interfaces (\<open>endpoint/core/src/ModuleBaseApi.cpp\<close>, \<open>ModuleBaseApi.hpp\<close>) and what
  they use of the connection (\<open>ConnectionImpl.cpp\<close>): keys of containers with their cache, decryption of
  container data and integrity objects of the user. The state of a module is the cache, the number
  of random values drawn, the Bridge's state, which is a parameter, the events emitted so far and the
  subscriptions of its \<open>Subscriber\<close>.
\<close>

subsection \<open>State\<close>

record ModuleKeys =
  mk_keys :: "KeyEntry list"
  mk_currentKeyId :: string
  mk_moduleSchemaVersion :: int
  mk_moduleResourceId :: string
  mk_contextId :: string

text \<open>
  The user's side of a connection. The clock and POCO's identifiers are functions of the number of
  random values drawn, \<open>cn_myUserId\<close> is the lookup of the user's id in a context, \<open>cn_str\<close> POCO's
  conversion of a value to text.
\<close>

record 'k connection =
  cn_env :: "'k core_env"
  cn_userPrivKey :: 'k
  cn_hex :: "bytes \<Rightarrow> string"
  cn_uuid :: "nat \<Rightarrow> string"
  cn_now :: "nat \<Rightarrow> int"
  cn_myUserId :: "string \<Rightarrow> (exn, string) result"
  cn_bridgeIdentity :: "BridgeIdentity option"
  cn_verifier :: user_verifier
  cn_str :: "json \<Rightarrow> (exn, string) result"

record ('s, 'ev) api_state =
  as_cache :: ContainerKeyCache
  as_draws :: nat
  as_server :: 's
  as_events :: "'ev list"
  as_subscriptions :: "(string \<times> string) list"

definition drawing :: "(exn, nat, 'a) op \<Rightarrow> (exn, ('s, 'ev) api_state, 'a) op" where
  "drawing m st = (case m (as_draws st) of (r, d) \<Rightarrow> (r, st\<lparr>as_draws := d\<rparr>))"

definition requesting :: "(exn, 's, 'a) op \<Rightarrow> (exn, ('s, 'ev) api_state, 'a) op" where
  "requesting m st = (case m (as_server st) of (r, s) \<Rightarrow> (r, st\<lparr>as_server := s\<rparr>))"

definition on_cache :: "(ContainerKeyCache \<Rightarrow> ContainerKeyCache) \<Rightarrow> (exn, ('s, 'ev) api_state, unit) op" where
  "on_cache f st = (Inr (), st\<lparr>as_cache := f (as_cache st)\<rparr>)"

definition emitApiEvent :: "'ev \<Rightarrow> (exn, ('s, 'ev) api_state, unit) op" where
  "emitApiEvent e st = (Inr (), st\<lparr>as_events := as_events st @ [e]\<rparr>)"

text \<open>An operation that draws random values and cannot fail.\<close>

definition drawn :: "(nat \<Rightarrow> 'a \<times> nat) \<Rightarrow> (exn, ('s, 'ev) api_state, 'a) op" where
  "drawn f = drawing (\<lambda>d. case f d of (x, d') \<Rightarrow> (Inr x, d'))"

subsection \<open>Integrity objects of the user\<close>

text \<open>\<open>EndpointUtils::generateId\<close> is POCO's generator of random identifiers.\<close>

definition EndpointUtils_generateId :: "'k connection \<Rightarrow> nat \<Rightarrow> string \<times> nat" where
  "EndpointUtils_generateId c draws = (cn_uuid c draws, draws + 1)"

definition EndpointUtils_generateDIORandomId :: "'k connection \<Rightarrow> nat \<Rightarrow> string \<times> nat" where
  "EndpointUtils_generateDIORandomId c draws = (cn_hex c (randomBytes (en_crypto (cn_env c)) draws 8), draws + 1)"

definition ConnectionImpl_createDIOExt ::
    "'k connection \<Rightarrow> string \<Rightarrow> string \<Rightarrow> string option \<Rightarrow> string option \<Rightarrow> string option \<Rightarrow> 'k option \<Rightarrow>
     (exn, nat, DataIntegrityObject) op" where
  "ConnectionImpl_createDIOExt c contextId resourceId containerId containerResourceId creatorUserId creatorPublicKey draws =
     (case (case creatorUserId of Some u \<Rightarrow> Inr u | None \<Rightarrow> cn_myUserId c contextId) of
        Inl e \<Rightarrow> (Inl e, draws)
      | Inr user \<Rightarrow>
          let key = (case creatorPublicKey of Some k \<Rightarrow> k | None \<Rightarrow> cn_userPrivKey c);
              (randomId, draws') = EndpointUtils_generateDIORandomId c draws
          in (Inr \<lparr>dio_creatorUserId = user,
                dio_creatorPubKey = PublicKey_toBase58DER (en_crypto (cn_env c)) (en_ecc (cn_env c)) key,
                dio_contextId = contextId, dio_resourceId = resourceId, dio_timestamp = cn_now c draws,
                dio_randomId = randomId, dio_containerId = containerId, dio_containerResourceId = containerResourceId,
                dio_bridgeIdentity = cn_bridgeIdentity c\<rparr>, draws'))"

definition ConnectionImpl_createDIO ::
    "'k connection \<Rightarrow> string \<Rightarrow> string \<Rightarrow> string option \<Rightarrow> string option \<Rightarrow> (exn, nat, DataIntegrityObject) op" where
  "ConnectionImpl_createDIO c contextId resourceId containerId containerResourceId =
     ConnectionImpl_createDIOExt c contextId resourceId containerId containerResourceId None None"

definition ConnectionImpl_createPublicDIO ::
    "'k connection \<Rightarrow> string \<Rightarrow> string \<Rightarrow> 'k \<Rightarrow> string option \<Rightarrow> string option \<Rightarrow> (exn, nat, DataIntegrityObject) op" where
  "ConnectionImpl_createPublicDIO c contextId resourceId pubKey containerId containerResourceId =
     ConnectionImpl_createDIOExt c contextId resourceId containerId containerResourceId (Some ''<anonymous>'') (Some pubKey)"

subsection \<open>Container data on the wire\<close>

definition EncryptedModuleDataV5_toJSON :: "EncryptedModuleDataV5 \<Rightarrow> json" where
  "EncryptedModuleDataV5_toJSON e = JObject
     (json_put ''dio'' (JString (me_dio e))
     (json_put ''authorPubKey'' (JString (me_authorPubKey e))
     (json_put ''internalMeta'' (JString (me_internalMeta e))
     (json_put ''privateMeta'' (JString (me_privateMeta e))
     (json_put ''publicMetaObject'' (me_publicMetaObject e)
     (json_put ''publicMeta'' (JString (me_publicMeta e))
     (json_put ''version'' (JInt (me_version e)) [])))))))"

definition EncryptedModuleDataV5_fromJSON :: "poco_api \<Rightarrow> (string \<times> json) list \<Rightarrow> (exn, EncryptedModuleDataV5) result" where
  "EncryptedModuleDataV5_fromJSON p ob =
     bindR (VersionedData_fromJSON p ob) (\<lambda>version.
     bindR (deserialize_string (json_get ob ''publicMeta'')) (\<lambda>publicMeta.
     bindR (deserialize_string (json_get ob ''privateMeta'')) (\<lambda>privateMeta.
     bindR (deserialize_string (json_get ob ''internalMeta'')) (\<lambda>internalMeta.
     bindR (deserialize_string (json_get ob ''authorPubKey'')) (\<lambda>authorPubKey.
     bindR (deserialize_string (json_get ob ''dio'')) (\<lambda>dio.
     Inr \<lparr>me_version = version, me_publicMeta = publicMeta, me_publicMetaObject = json_get ob ''publicMetaObject'',
       me_privateMeta = privateMeta, me_internalMeta = internalMeta, me_authorPubKey = authorPubKey, me_dio = dio\<rparr>))))))"

definition EncryptedModuleDataV4_fromJSON :: "poco_api \<Rightarrow> (string \<times> json) list \<Rightarrow> (exn, EncryptedModuleDataV4) result" where
  "EncryptedModuleDataV4_fromJSON p ob =
     bindR (VersionedData_fromJSON p ob) (\<lambda>version.
     bindR (deserialize_string (json_get ob ''publicMeta'')) (\<lambda>publicMeta.
     bindR (deserialize_string (json_get ob ''privateMeta'')) (\<lambda>privateMeta.
     bindR (deserialize_optional deserialize_string (json_get ob ''internalMeta'')) (\<lambda>internalMeta.
     bindR (deserialize_string (json_get ob ''authorPubKey'')) (\<lambda>authorPubKey.
     Inr \<lparr>me4_version = version, me4_publicMeta = publicMeta, me4_publicMetaObject = json_get ob ''publicMetaObject'',
       me4_privateMeta = privateMeta, me4_internalMeta = internalMeta, me4_authorPubKey = authorPubKey\<rparr>)))))"

definition decryptModuleDataV4 :: "'k core_env \<Rightarrow> json \<Rightarrow> DecryptedEncKeyV2 \<Rightarrow> DecryptedModuleDataV4" where
  "decryptModuleDataV4 env data encKey =
     (case deserialize_struct (EncryptedModuleDataV4_fromJSON (en_poco env)) data of
        Inl x \<Rightarrow> DecryptedModuleDataV4_new\<lparr>md4_statusCode := status_of x\<rparr>
      | Inr e \<Rightarrow> ModuleDataEncryptorV4_decrypt env e (ek_key encKey))"

definition decryptModuleDataV5 :: "'k core_env \<Rightarrow> json \<Rightarrow> DecryptedEncKeyV2 \<Rightarrow> DecryptedModuleDataV5" where
  "decryptModuleDataV5 env data encKey =
     (case deserialize_struct (EncryptedModuleDataV5_fromJSON (en_poco env)) data of
        Inl x \<Rightarrow> DecryptedModuleDataV5_new\<lparr>md_statusCode := status_of x\<rparr>
      | Inr e \<Rightarrow>
          if k2_statusCode encKey \<noteq> 0
          then (ModuleDataEncryptorV5_extractPublic env e)\<lparr>md_statusCode := k2_statusCode encKey\<rparr>
          else ModuleDataEncryptorV5_decrypt env e (ek_key encKey))"

definition extractAndDecryptModuleInternalMeta ::
    "'k core_env \<Rightarrow> json \<Rightarrow> DecryptedEncKeyV2 \<Rightarrow> (exn, ModuleInternalMetaV5) result" where
  "extractAndDecryptModuleInternalMeta env data encKey =
     bindR (deserialize_struct (VersionedData_fromJSON (en_poco env)) data) (\<lambda>version.
       Inr (if version = 5 then md_internalMeta (decryptModuleDataV5 env data encKey) else empty_meta))"

subsection \<open>Keys\<close>

definition at_location :: "(EncKeyLocation \<times> key_map) list \<Rightarrow> EncKeyLocation \<Rightarrow> (exn, key_map) result" where
  "at_location m location = (case map_of m location of Some keys \<Rightarrow> Inr keys | None \<Rightarrow> Inl StdOutOfRange)"

text \<open>A request with the given operation, answered by the key provider, for one location.\<close>

definition keys_at :: "'k connection \<Rightarrow> (exn, KeyRequest, unit) op \<Rightarrow> EncKeyLocation \<Rightarrow> (exn, key_map) result" where
  "keys_at c add location =
     (case add KeyRequest_new of
        (Inl x, _) \<Rightarrow> Inl x
      | (Inr _, keyProviderRequest) \<Rightarrow>
          bindR (KeyProvider_getKeysAndVerify (cn_env c) (cn_userPrivKey c) (cn_verifier c) keyProviderRequest)
            (\<lambda>m. at_location m location))"

definition getAndValidateModuleCurrentEncKey :: "'k connection \<Rightarrow> ModuleKeys \<Rightarrow> (exn, DecryptedEncKeyV2) result" where
  "getAndValidateModuleCurrentEncKey c moduleKeys =
     (let location = \<lparr>el_contextId = mk_contextId moduleKeys, el_resourceId = mk_moduleResourceId moduleKeys\<rparr> in
      bindR (keys_at c (KeyRequest_addOne (mk_keys moduleKeys) (mk_currentKeyId moduleKeys) location) location)
        (\<lambda>keys. unordered_map_at keys (mk_currentKeyId moduleKeys)))"

definition getAndValidateModuleKeys :: "'k connection \<Rightarrow> string \<Rightarrow> KeyEntry list \<Rightarrow> string \<Rightarrow> (exn, key_map) result" where
  "getAndValidateModuleKeys c contextId keys resourceId =
     (let location = \<lparr>el_contextId = contextId, el_resourceId = resourceId\<rparr> in keys_at c (KeyRequest_addAll keys location) location)"

definition findEncKeyByKeyId :: "key_map \<Rightarrow> string \<Rightarrow> (exn, DecryptedEncKeyV2) result" where
  "findEncKeyByKeyId keys keyId =
     (case map_of keys keyId of Some k \<Rightarrow> Inr k | None \<Rightarrow> Inl (CoreExn UnknownModuleEncryptionKeyException))"

definition convertModuleKeysToContainerKeyCacheFormat :: "ModuleKeys \<Rightarrow> int \<Rightarrow> CachedModuleKeys" where
  "convertModuleKeysToContainerKeyCacheFormat moduleKeys moduleVersion =
     \<lparr>cm_keys = mk_keys moduleKeys, cm_currentKeyId = mk_currentKeyId moduleKeys,
      cm_moduleSchemaVersion = mk_moduleSchemaVersion moduleKeys, cm_moduleResourceId = mk_moduleResourceId moduleKeys,
      cm_contextId = mk_contextId moduleKeys, cm_moduleVersion = moduleVersion\<rparr>"

definition convertContainerKeyCacheModuleKeysToModuleApiFormat :: "CachedModuleKeys \<Rightarrow> ModuleKeys" where
  "convertContainerKeyCacheModuleKeysToModuleApiFormat k =
     \<lparr>mk_keys = cm_keys k, mk_currentKeyId = cm_currentKeyId k, mk_moduleSchemaVersion = cm_moduleSchemaVersion k,
      mk_moduleResourceId = cm_moduleResourceId k, mk_contextId = cm_contextId k\<rparr>"

definition setNewModuleKeysInCache :: "string \<Rightarrow> ModuleKeys \<Rightarrow> int \<Rightarrow> (exn, ('s, 'ev) api_state, unit) op" where
  "setNewModuleKeysInCache moduleId newKeys moduleVersion =
     on_cache (ContainerKeyCache_set moduleId (convertModuleKeysToContainerKeyCacheFormat newKeys moduleVersion) False)"

definition invalidateModuleKeysInCache :: "string option \<Rightarrow> (exn, ('s, 'ev) api_state, unit) op" where
  "invalidateModuleKeysInCache moduleId = on_cache (ContainerKeyCache_clear moduleId)"

text \<open>\<open>getModuleKeysAndVersionFromServer\<close> is the virtual function each module overrides, here \<open>fromServer\<close>.\<close>

type_synonym ('s, 'ev) keys_from_server = "string \<Rightarrow> (exn, ('s, 'ev) api_state, ModuleKeys \<times> int) op"

definition getNewModuleKeysAndUpdateCache ::
    "('s, 'ev) keys_from_server \<Rightarrow> string \<Rightarrow> (exn, ('s, 'ev) api_state, ModuleKeys) op" where
  "getNewModuleKeysAndUpdateCache fromServer moduleId =
     bindS (fromServer moduleId) (\<lambda>(keys, version).
     bindS (setNewModuleKeysInCache moduleId keys version) (\<lambda>_. ret keys))"

definition getModuleKeys ::
    "('s, 'ev) keys_from_server \<Rightarrow> string \<Rightarrow> string list option \<Rightarrow> int option \<Rightarrow> (exn, ('s, 'ev) api_state, ModuleKeys) op" where
  "getModuleKeys fromServer moduleId keyIds minimumSchemaVersion st =
     (case ContainerKeyCache_getKeys (as_cache st) moduleId keyIds minimumSchemaVersion of
        None \<Rightarrow> getNewModuleKeysAndUpdateCache fromServer moduleId st
      | Some keys \<Rightarrow> (Inr (convertContainerKeyCacheModuleKeysToModuleApiFormat keys), st))"

lemma EncryptedModuleDataV5_roundtrip:
  "EncryptedModuleDataV5_toJSON e = JObject ob \<Longrightarrow> EncryptedModuleDataV5_fromJSON p ob = Inr e"
  by (cases e) (auto simp: EncryptedModuleDataV5_toJSON_def EncryptedModuleDataV5_fromJSON_def VersionedData_fromJSON_def)

lemma EncryptedModuleDataV5_version:
  "EncryptedModuleDataV5_toJSON e = JObject ob \<Longrightarrow> VersionedData_fromJSON p ob = Inr (me_version e)"
  by (auto simp: EncryptedModuleDataV5_toJSON_def VersionedData_fromJSON_def)

subsection \<open>What the key provider answers\<close>

text \<open>The key provider answers exactly the requested locations and key ids.\<close>

lemma map_fst_fold_set_status_at [simp]:
  "map fst (fold (\<lambda>(at, ok) m. if ok then m else set_status_at code at m) zs m) = map fst m"
  by (induction zs arbitrary: m) (auto simp: set_status_at_def comp_def case_prod_beta)

lemma mapR_keys:
  "mapR (\<lambda>(i, e). bindR (f i e) (\<lambda>k. Inr (i, k))) xs = Inr ys \<Longrightarrow> map fst ys = map fst xs"
  by (induction xs arbitrary: ys) (auto simp: bindR_eq_Inr)

lemma map_of_fold_status:
  "map_of m loc = Some keys \<Longrightarrow>
   \<exists>keys'. map_of (fold (\<lambda>(at, ok) m. if ok then m else set_status_at code at m) zs m) loc = Some keys' \<and> map fst keys' = map fst keys"
proof (induction zs arbitrary: m keys)
  case (Cons z zs)
  obtain at ok where z: "z = (at, ok)" by fastforce
  have "map_of (set_status_at code at m) loc = map_option (\<lambda>ks. if loc = fst at then set_status code (snd at) ks else ks) (map_of m loc)"
    by (induction m) (auto simp: set_status_at_def)
  then have "\<exists>keys'. map_of (if ok then m else set_status_at code at m) loc = Some keys' \<and> map fst keys' = map fst keys"
    using Cons.prems by auto
  then obtain keys1 where "map_of (if ok then m else set_status_at code at m) loc = Some keys1" "map fst keys1 = map fst keys"
    by blast
  with Cons.IH [of "if ok then m else set_status_at code at m" keys1] show ?case by (auto simp: z)
qed simp

end
