(* ===== verification/Core_EntryData.thy ===== *)
theory Core_EntryData
  imports Core_ModuleBase
begin

text \<open>
  Entries of containers of version 5: the encryptor of key-value entries
  (\<open>endpoint/kvdb/src/encryptors/entry/EntryDataEncryptorV5.cpp\<close>), which that of thread messages
  (\<open>endpoint/thread/src/encryptors/message/MessageDataEncryptorV5.cpp\<close>) repeats line by line with other
  exceptions. The exceptions are therefore a parameter.
\<close>

record entry_exns =
  xx_format :: exn
  xx_mismatch :: exn

record EntryDataToEncryptV5 =
  xt_publicMeta :: bytes
  xt_privateMeta :: bytes
  xt_data :: bytes
  xt_internalMeta :: "bytes option"
  xt_dio :: DataIntegrityObject

record EncryptedEntryDataV5 =
  xe_version :: int
  xe_publicMeta :: string
  xe_publicMetaObject :: json
  xe_privateMeta :: string
  xe_data :: string
  xe_internalMeta :: "string option"
  xe_authorPubKey :: string
  xe_dio :: string

record DecryptedEntryDataV5 =
  xd_dataStructureVersion :: int
  xd_statusCode :: int
  xd_publicMeta :: bytes
  xd_privateMeta :: bytes
  xd_data :: bytes
  xd_internalMeta :: "bytes option"
  xd_authorPubKey :: string
  xd_dio :: DataIntegrityObject

definition EncryptedEntryDataV5_toJSON :: "EncryptedEntryDataV5 \<Rightarrow> json" where
  "EncryptedEntryDataV5_toJSON e = JObject
     (json_put ''dio'' (JString (xe_dio e))
     (json_put ''authorPubKey'' (JString (xe_authorPubKey e))
     (json_put_optional ''internalMeta'' (serialize_optional JString (xe_internalMeta e))
     (json_put ''data'' (JString (xe_data e))
     (json_put ''privateMeta'' (JString (xe_privateMeta e))
     (json_put ''publicMetaObject'' (xe_publicMetaObject e)
     (json_put ''publicMeta'' (JString (xe_publicMeta e))
     (json_put ''version'' (JInt (xe_version e)) []))))))))"

definition EncryptedEntryDataV5_fromJSON :: "poco_api \<Rightarrow> (string \<times> json) list \<Rightarrow> (exn, EncryptedEntryDataV5) result" where
  "EncryptedEntryDataV5_fromJSON p ob =
     bindR (VersionedData_fromJSON p ob) (\<lambda>version.
     bindR (deserialize_string (json_get ob ''publicMeta'')) (\<lambda>publicMeta.
     bindR (deserialize_string (json_get ob ''privateMeta'')) (\<lambda>privateMeta.
     bindR (deserialize_string (json_get ob ''data'')) (\<lambda>data.
     bindR (deserialize_optional deserialize_string (json_get ob ''internalMeta'')) (\<lambda>internalMeta.
     bindR (deserialize_string (json_get ob ''authorPubKey'')) (\<lambda>authorPubKey.
     bindR (deserialize_string (json_get ob ''dio'')) (\<lambda>dio.
     Inr \<lparr>xe_version = version, xe_publicMeta = publicMeta, xe_publicMetaObject = json_get ob ''publicMetaObject'',
       xe_privateMeta = privateMeta, xe_data = data, xe_internalMeta = internalMeta, xe_authorPubKey = authorPubKey,
       xe_dio = dio\<rparr>)))))))"

subsection \<open>The encryptor\<close>

definition entry_checksums :: "'k core_env \<Rightarrow> string \<Rightarrow> string \<Rightarrow> string \<Rightarrow> string option \<Rightarrow> (string \<times> bytes) list" where
  "entry_checksums env publicMeta privateMeta data internalMeta =
     (let sha = (\<lambda>t. sha256 (en_crypto env) (bytes_of t));
          m = alist_set ''data'' (sha data) (alist_set ''privateMeta'' (sha privateMeta) (alist_set ''publicMeta'' (sha publicMeta) []))
      in case internalMeta of None \<Rightarrow> m | Some t \<Rightarrow> alist_set ''internalMeta'' (sha t) m)"

definition EntryDataEncryptorV5_encrypt ::
    "'k core_env \<Rightarrow> EntryDataToEncryptV5 \<Rightarrow> 'k \<Rightarrow> bytes \<Rightarrow> (exn, nat, EncryptedEntryDataV5) op" where
  "EntryDataEncryptorV5_encrypt env x authorPrivateKey encryptionKey =
     (let publicMeta = DataEncryptorV4_signAndEncode env (xt_publicMeta x) authorPrivateKey in
      bindS (DataEncryptorV4_signAndEncryptAndEncode env (xt_privateMeta x) authorPrivateKey encryptionKey) (\<lambda>privateMeta.
      bindS (DataEncryptorV4_signAndEncryptAndEncode env (xt_data x) authorPrivateKey encryptionKey) (\<lambda>data.
      bindS (case xt_internalMeta x of
          None \<Rightarrow> ret None
        | Some m \<Rightarrow> bindS (DataEncryptorV4_signAndEncryptAndEncode env m authorPrivateKey encryptionKey) (\<lambda>t. ret (Some t))) (\<lambda>internalMeta.
      bindS (liftR (DIOEncryptorV1_signAndEncode env
        (expanded_dio (xt_dio x) 5 (entry_checksums env publicMeta privateMeta data internalMeta)) authorPrivateKey)) (\<lambda>dio.
      ret \<lparr>xe_version = 5, xe_publicMeta = publicMeta, xe_publicMetaObject = public_object env (xt_publicMeta x),
        xe_privateMeta = privateMeta, xe_data = data, xe_internalMeta = internalMeta,
        xe_authorPubKey = PublicKey_toBase58DER (en_crypto env) (en_ecc env) authorPrivateKey, xe_dio = dio\<rparr>)))))"

definition EntryDataEncryptorV5_assertDataFormat :: "entry_exns \<Rightarrow> EncryptedEntryDataV5 \<Rightarrow> (exn, unit) result" where
  "EntryDataEncryptorV5_assertDataFormat x e =
     (if xe_version e \<noteq> 5 \<or> xe_publicMeta e = [] \<or> xe_privateMeta e = [] \<or> xe_authorPubKey e = [] \<or>
         xe_data e = [] \<or> xe_dio e = []
      then Inl (xx_format x) else Inr ())"

definition EntryDataEncryptorV5_getDIOAndAssertIntegrity ::
    "'k core_env \<Rightarrow> entry_exns \<Rightarrow> EncryptedEntryDataV5 \<Rightarrow> (exn, DataIntegrityObject) result" where
  "EntryDataEncryptorV5_getDIOAndAssertIntegrity env x e =
     (let sha = (\<lambda>t. sha256 (en_crypto env) (bytes_of t)); bad = Inl (CoreExn InvalidDataIntegrityObjectChecksumException) in
      bindR (EntryDataEncryptorV5_assertDataFormat x e) (\<lambda>_.
      bindR (DIOEncryptorV1_decodeAndVerify env (xe_dio e)) (\<lambda>dio.
      if dio_structureVersion dio \<noteq> 5 \<or> dio_creatorPubKey dio \<noteq> xe_authorPubKey e then bad else
      bindR (unordered_map_at (dio_fieldChecksums dio) ''publicMeta'') (\<lambda>s. if s \<noteq> sha (xe_publicMeta e) then bad else
      bindR (unordered_map_at (dio_fieldChecksums dio) ''privateMeta'') (\<lambda>s. if s \<noteq> sha (xe_privateMeta e) then bad else
      bindR (unordered_map_at (dio_fieldChecksums dio) ''data'') (\<lambda>s. if s \<noteq> sha (xe_data e) then bad else
      (case xe_internalMeta e of
         None \<Rightarrow> Inr (DataIntegrityObject.truncate dio)
       | Some t \<Rightarrow>
           bindR (unordered_map_at (dio_fieldChecksums dio) ''internalMeta'') (\<lambda>s. if s \<noteq> sha t then bad else
           Inr (DataIntegrityObject.truncate dio)))))))))"

definition DecryptedEntryDataV5_new :: DecryptedEntryDataV5 where
  "DecryptedEntryDataV5_new =
     \<lparr>xd_dataStructureVersion = 5, xd_statusCode = 0, xd_publicMeta = [], xd_privateMeta = [], xd_data = [],
      xd_internalMeta = None, xd_authorPubKey = [], xd_dio = DataIntegrityObject.truncate empty_dio\<rparr>"

text \<open>The common first part of the \<open>try\<close> blocks of \<open>decrypt\<close> and \<open>extractPublic\<close>; it returns the author's key.\<close>

definition read_entry_public :: "'k core_env \<Rightarrow> entry_exns \<Rightarrow> EncryptedEntryDataV5 \<Rightarrow> (exn, DecryptedEntryDataV5, 'k) op" where
  "read_entry_public env x e =
     bindS (liftR (EntryDataEncryptorV5_getDIOAndAssertIntegrity env x e)) (\<lambda>dio.
     bindS (modify (\<lambda>r. r\<lparr>xd_dio := dio\<rparr>)) (\<lambda>_.
     bindS (liftR (PublicKey_fromBase58DER (en_crypto env) (en_ecc env) (xe_authorPubKey e))) (\<lambda>author.
     bindS (liftR (DataEncryptorV4_decodeAndVerify env (xe_publicMeta e) author)) (\<lambda>publicMeta.
     bindS (modify (\<lambda>r. r\<lparr>xd_publicMeta := publicMeta\<rparr>)) (\<lambda>_.
     bindS (if xe_publicMetaObject e \<noteq> JEmpty then
              bindS (liftR (compare_public env publicMeta (xe_publicMetaObject e))) (\<lambda>same.
                if same then ret () else modify (\<lambda>r. r\<lparr>xd_statusCode := status_of (xx_mismatch x)\<rparr>))
            else ret ()) (\<lambda>_. ret author))))))"

definition read_entry_private ::
    "'k core_env \<Rightarrow> EncryptedEntryDataV5 \<Rightarrow> bytes \<Rightarrow> 'k \<Rightarrow> (exn, DecryptedEntryDataV5, unit) op" where
  "read_entry_private env e encryptionKey author =
     bindS (liftR (DataEncryptorV4_decodeAndDecryptAndVerify env (xe_privateMeta e) author encryptionKey)) (\<lambda>privateMeta.
     bindS (modify (\<lambda>r. r\<lparr>xd_privateMeta := privateMeta\<rparr>)) (\<lambda>_.
     bindS (liftR (DataEncryptorV4_decodeAndDecryptAndVerify env (xe_data e) author encryptionKey)) (\<lambda>data.
     bindS (modify (\<lambda>r. r\<lparr>xd_data := data\<rparr>)) (\<lambda>_.
     bindS (liftR (case xe_internalMeta e of None \<Rightarrow> Inr None
         | Some t \<Rightarrow> bindR (DataEncryptorV4_decodeAndDecryptAndVerify env t author encryptionKey) (\<lambda>m. Inr (Some m)))) (\<lambda>internalMeta.
     modify (\<lambda>r. r\<lparr>xd_internalMeta := internalMeta, xd_authorPubKey := xe_authorPubKey e\<rparr>))))))"

definition catch_entry_status :: "(exn, DecryptedEntryDataV5, unit) op \<Rightarrow> DecryptedEntryDataV5" where
  "catch_entry_status m =
     (case m DecryptedEntryDataV5_new of (Inr _, r) \<Rightarrow> r | (Inl e, r) \<Rightarrow> r\<lparr>xd_statusCode := status_of e\<rparr>)"

definition EntryDataEncryptorV5_decrypt :: "'k core_env \<Rightarrow> entry_exns \<Rightarrow> EncryptedEntryDataV5 \<Rightarrow> bytes \<Rightarrow> DecryptedEntryDataV5" where
  "EntryDataEncryptorV5_decrypt env x e encryptionKey =
     catch_entry_status (bindS (read_entry_public env x e) (read_entry_private env e encryptionKey))"

definition EntryDataEncryptorV5_extractPublic :: "'k core_env \<Rightarrow> entry_exns \<Rightarrow> EncryptedEntryDataV5 \<Rightarrow> DecryptedEntryDataV5" where
  "EntryDataEncryptorV5_extractPublic env x e = catch_entry_status
     (bindS (read_entry_public env x e) (\<lambda>author. modify (\<lambda>r. r\<lparr>xd_authorPubKey := xe_authorPubKey e\<rparr>)))"

subsection \<open>Round trips\<close>

lemma status_of_neq [simp]: "status_of e \<noteq> 0" "0 \<noteq> status_of e"
  using status_of_pos [of e] by simp_all

lemma EncryptedEntryDataV5_roundtrip:
  "EncryptedEntryDataV5_toJSON e = JObject ob \<Longrightarrow> EncryptedEntryDataV5_fromJSON p ob = Inr e"
  by (cases "xe_internalMeta e"; cases e)
    (auto simp: EncryptedEntryDataV5_toJSON_def EncryptedEntryDataV5_fromJSON_def VersionedData_fromJSON_def deserialize_optional_def)

lemma EncryptedEntryDataV5_version:
  "EncryptedEntryDataV5_toJSON e = JObject ob \<Longrightarrow> VersionedData_fromJSON p ob = Inr (xe_version e)"
  by (auto simp: EncryptedEntryDataV5_toJSON_def VersionedData_fromJSON_def)

lemma entry_checksums_sel [simp]:
  "map_of (entry_checksums env pm sm d im) ''publicMeta'' = Some (sha256 (en_crypto env) (bytes_of pm))"
  "map_of (entry_checksums env pm sm d im) ''privateMeta'' = Some (sha256 (en_crypto env) (bytes_of sm))"
  "map_of (entry_checksums env pm sm d im) ''data'' = Some (sha256 (en_crypto env) (bytes_of d))"
  "map_of (entry_checksums env pm sm d (Some t)) ''internalMeta'' = Some (sha256 (en_crypto env) (bytes_of t))"
  "ordered (entry_checksums env pm sm d im)"
  by (simp_all add: entry_checksums_def Let_def ordered_Cons split: option.split)

lemma entry_integrity:
  assumes "core_env_ok env" and "dio_valid env k d" and "pm \<noteq> []" and "sm \<noteq> []" and "dt \<noteq> []"
  obtains t where "DIOEncryptorV1_signAndEncode env (expanded_dio d 5 (entry_checksums env pm sm dt im)) k = Inr t"
    and "\<And>ob. EntryDataEncryptorV5_getDIOAndAssertIntegrity env x
      \<lparr>xe_version = 5, xe_publicMeta = pm, xe_publicMetaObject = ob, xe_privateMeta = sm, xe_data = dt, xe_internalMeta = im,
       xe_authorPubKey = PublicKey_toBase58DER (en_crypto env) (en_ecc env) k, xe_dio = t\<rparr> =
      Inr (d\<lparr>dio_bridgeIdentity := Some (case dio_bridgeIdentity d of Some b \<Rightarrow> b | None \<Rightarrow> en_uninit env)\<rparr>)"
proof -
  let ?sums = "entry_checksums env pm sm dt im"
  have wf: "dio_wf (expanded_dio d 5 ?sums)" by (rule dio_wf_expanded [OF assms(2)]) simp_all
  have pk: "dio_creatorPubKey (expanded_dio d 5 ?sums) = PublicKey_toBase58DER (en_crypto env) (en_ecc env) k"
    using assms(2) by (simp add: dio_valid_def)
  obtain t where t: "DIOEncryptorV1_signAndEncode env (expanded_dio d 5 ?sums) k = Inr t" "t \<noteq> []"
      "DIOEncryptorV1_decodeAndVerify env t = Inr (read_back env (expanded_dio d 5 ?sums))"
    using DIO_roundtrip [OF assms(1) wf pk] unfolding read_back_def by blast
  show thesis
    using assms(3-5) t(2) pk
    by (intro that [OF t(1)], cases im)
      (simp_all add: EntryDataEncryptorV5_getDIOAndAssertIntegrity_def EntryDataEncryptorV5_assertDataFormat_def
          PublicKey_toBase58DER_def encodeWithChecksum_nonempty t(3) unordered_map_at_def truncate_read_back)
qed


lemma optional_encrypted_roundtrip:
  assumes "core_env_ok env" and "same_key env p k" and "length key = 32"
  obtains im draws' where "(case m of None \<Rightarrow> ret None
      | Some x \<Rightarrow> bindS (DataEncryptorV4_signAndEncryptAndEncode env x k key) (\<lambda>t. ret (Some t))) draws = (Inr im, draws')"
    and "(case im of None \<Rightarrow> Inr None
      | Some t \<Rightarrow> bindR (DataEncryptorV4_decodeAndDecryptAndVerify env t p key) (\<lambda>m. Inr (Some m))) = Inr m"
proof (cases m)
  case None
  then show thesis using that [of None draws] by simp
next
  case (Some x)
  obtain t where "DataEncryptorV4_signAndEncryptAndEncode env x k key draws = (Inr t, draws + 1)"
      "DataEncryptorV4_decodeAndDecryptAndVerify env t p key = Inr x"
    by (rule encrypted_roundtrip [OF assms])
  then show thesis using that [of "Some t" "draws + 1"] by (simp add: Some bindS_def)
qed

lemma EntryDataEncryptorV5_inverse:
  assumes "core_env_ok env" and "dio_valid env k (xt_dio data)" and "length key = 32"
  obtains e draws' where "EntryDataEncryptorV5_encrypt env data k key draws = (Inr e, draws')" and "xe_version e = 5"
    and "EntryDataEncryptorV5_getDIOAndAssertIntegrity env x e = Inr ((xt_dio data)\<lparr>dio_bridgeIdentity :=
       Some (case dio_bridgeIdentity (xt_dio data) of Some b \<Rightarrow> b | None \<Rightarrow> en_uninit env)\<rparr>)"
    and "EntryDataEncryptorV5_decrypt env x e key =
      \<lparr>xd_dataStructureVersion = 5, xd_statusCode = 0, xd_publicMeta = xt_publicMeta data,
       xd_privateMeta = xt_privateMeta data, xd_data = xt_data data, xd_internalMeta = xt_internalMeta data,
       xd_authorPubKey = PublicKey_toBase58DER (en_crypto env) (en_ecc env) k,
       xd_dio = (xt_dio data)\<lparr>dio_bridgeIdentity :=
         Some (case dio_bridgeIdentity (xt_dio data) of Some b \<Rightarrow> b | None \<Rightarrow> en_uninit env)\<rparr>\<rparr>"
proof -
  obtain p where p: "PublicKey_fromBase58DER (en_crypto env) (en_ecc env)
      (PublicKey_toBase58DER (en_crypto env) (en_ecc env) k) = Inr p" "same_key env p k"
    using PublicKey_base58_roundtrip [OF assms(1)] by blast
  let ?pm = "DataEncryptorV4_signAndEncode env (xt_publicMeta data) k"
  obtain sm where sm: "DataEncryptorV4_signAndEncryptAndEncode env (xt_privateMeta data) k key draws = (Inr sm, draws + 1)"
      "DataEncryptorV4_decodeAndDecryptAndVerify env sm p key = Inr (xt_privateMeta data)" "sm \<noteq> []"
    by (rule encrypted_roundtrip [OF assms(1) p(2) assms(3)])
  obtain dt where dt: "DataEncryptorV4_signAndEncryptAndEncode env (xt_data data) k key (draws + 1) = (Inr dt, draws + 1 + 1)"
      "DataEncryptorV4_decodeAndDecryptAndVerify env dt p key = Inr (xt_data data)" "dt \<noteq> []"
    by (rule encrypted_roundtrip [OF assms(1) p(2) assms(3)])
  obtain im draws' where im: "(case xt_internalMeta data of None \<Rightarrow> ret None
      | Some x \<Rightarrow> bindS (DataEncryptorV4_signAndEncryptAndEncode env x k key) (\<lambda>t. ret (Some t))) (draws + 1 + 1) = (Inr im, draws')"
      "(case im of None \<Rightarrow> Inr None
      | Some t \<Rightarrow> bindR (DataEncryptorV4_decodeAndDecryptAndVerify env t p key) (\<lambda>m. Inr (Some m))) = Inr (xt_internalMeta data)"
    by (rule optional_encrypted_roundtrip [OF assms(1) p(2) assms(3)])
  let ?dio = "(xt_dio data)\<lparr>dio_bridgeIdentity := Some (case dio_bridgeIdentity (xt_dio data) of Some b \<Rightarrow> b | None \<Rightarrow> en_uninit env)\<rparr>"
  obtain t where t: "DIOEncryptorV1_signAndEncode env (expanded_dio (xt_dio data) 5 (entry_checksums env ?pm sm dt im)) k = Inr t"
    and int: "\<And>ob. EntryDataEncryptorV5_getDIOAndAssertIntegrity env x
      \<lparr>xe_version = 5, xe_publicMeta = ?pm, xe_publicMetaObject = ob, xe_privateMeta = sm, xe_data = dt, xe_internalMeta = im,
       xe_authorPubKey = PublicKey_toBase58DER (en_crypto env) (en_ecc env) k, xe_dio = t\<rparr> = Inr ?dio"
    by (rule entry_integrity [OF assms(1,2) signAndEncode_nonempty [OF assms(1), of "xt_publicMeta data" k] sm(3) dt(3)]) blast
  let ?e = "\<lparr>xe_version = 5, xe_publicMeta = ?pm, xe_publicMetaObject = public_object env (xt_publicMeta data),
     xe_privateMeta = sm, xe_data = dt, xe_internalMeta = im,
     xe_authorPubKey = PublicKey_toBase58DER (en_crypto env) (en_ecc env) k, xe_dio = t\<rparr>"
  have enc: "EntryDataEncryptorV5_encrypt env data k key draws = (Inr ?e, draws')"
    unfolding EntryDataEncryptorV5_encrypt_def Let_def
    by (rule bindS_step, rule sm(1), rule bindS_step, rule dt(1), rule bindS_step, rule im(1), unfold t) (simp add: bindS_liftR)
  have pub: "DataEncryptorV4_decodeAndVerify env ?pm p = Inr (xt_publicMeta data)"
    by (rule decodeAndVerify_signed [OF assms(1) p(2)])
  have read: "read_entry_public env x ?e r = (Inr p, r\<lparr>xd_dio := ?dio, xd_publicMeta := xt_publicMeta data\<rparr>)" for r
    unfolding read_entry_public_def using p(1) pub compare_public_object [of env "xt_publicMeta data"]
    by (simp add: bindS_def int)
  show thesis
    by (rule that [OF enc _ int], simp, unfold EntryDataEncryptorV5_decrypt_def catch_entry_status_def)
      (simp add: bindS_def read read_entry_private_def sm(2) dt(2) im(2) DecryptedEntryDataV5_new_def)
qed

subsection \<open>Authenticity\<close>

text \<open>What the checksums and the signature of the integrity object say of an entry.\<close>

definition entry_integrity_ok :: "'k core_env \<Rightarrow> EncryptedEntryDataV5 \<Rightarrow> DataIntegrityObject \<Rightarrow> bool" where
  "entry_integrity_ok env e d \<longleftrightarrow> (\<exists>dio. DIOEncryptorV1_decodeAndVerify env (xe_dio e) = Inr dio \<and>
     d = DataIntegrityObject.truncate dio \<and> dio_creatorPubKey dio = xe_authorPubKey e \<and>
     map_of (dio_fieldChecksums dio) ''publicMeta'' = Some (sha256 (en_crypto env) (bytes_of (xe_publicMeta e))) \<and>
     map_of (dio_fieldChecksums dio) ''privateMeta'' = Some (sha256 (en_crypto env) (bytes_of (xe_privateMeta e))) \<and>
     map_of (dio_fieldChecksums dio) ''data'' = Some (sha256 (en_crypto env) (bytes_of (xe_data e))) \<and>
     (\<forall>t. xe_internalMeta e = Some t \<longrightarrow>
        map_of (dio_fieldChecksums dio) ''internalMeta'' = Some (sha256 (en_crypto env) (bytes_of t))))"

lemma entry_getDIO_integrity:
  "EntryDataEncryptorV5_getDIOAndAssertIntegrity env x e = Inr d \<Longrightarrow> entry_integrity_ok env e d"
  by (auto simp: EntryDataEncryptorV5_getDIOAndAssertIntegrity_def entry_integrity_ok_def bindR_eq_Inr Let_def
      unordered_map_at_def split: if_splits option.splits)

text \<open>Where the values of a result without error come from.\<close>

definition entry_authentic :: "'k core_env \<Rightarrow> EncryptedEntryDataV5 \<Rightarrow> bytes \<Rightarrow> DecryptedEntryDataV5 \<Rightarrow> bool" where
  "entry_authentic env e key r \<longleftrightarrow>
     entry_integrity_ok env e (xd_dio r) \<and> xd_authorPubKey r = xe_authorPubKey e \<and>
     (\<exists>a. PublicKey_fromBase58DER (en_crypto env) (en_ecc env) (xe_authorPubKey e) = Inr a \<and>
        DataEncryptorV4_decodeAndVerify env (xe_publicMeta e) a = Inr (xd_publicMeta r) \<and>
        DataEncryptorV4_decodeAndDecryptAndVerify env (xe_privateMeta e) a key = Inr (xd_privateMeta r) \<and>
        DataEncryptorV4_decodeAndDecryptAndVerify env (xe_data e) a key = Inr (xd_data r)) \<and>
     (xe_publicMetaObject e \<noteq> JEmpty \<longrightarrow> compare_public env (xd_publicMeta r) (xe_publicMetaObject e) = Inr True)"

lemma entry_decrypt_authentic:
  assumes "xd_statusCode (EntryDataEncryptorV5_decrypt env x e key) = 0"
  shows "entry_authentic env e key (EntryDataEncryptorV5_decrypt env x e key)"
proof -
  let ?m = "bindS (read_entry_public env x e) (read_entry_private env e key)"
  obtain y r where m: "?m DecryptedEntryDataV5_new = (y, r)" by fastforce
  have y: "y = Inr ()"
    using assms m by (cases y) (auto simp: EntryDataEncryptorV5_decrypt_def catch_entry_status_def)
  have res: "EntryDataEncryptorV5_decrypt env x e key = r"
    by (simp add: EntryDataEncryptorV5_decrypt_def catch_entry_status_def m y)
  then have "xd_statusCode r = 0" using assms by simp
  with m y show ?thesis
    unfolding res entry_authentic_def
    by (auto simp: bindS_eq_Inr read_entry_public_def read_entry_private_def DecryptedEntryDataV5_new_def
        dest: entry_getDIO_integrity split: if_splits)
qed

end
