(* ===== verification/Core_Items.thy ===== *)
theory Core_Items
  imports Core_EntryData
begin

text \<open>
  What the modules for threads, stores, inboxes and key-value stores repeat for the items of a
  container (messages, files, entries): a list is decrypted item by item, each failure becomes a
  status of that item, an integrity object that was seen before makes its item a duplicate, and the
  application's verifier is asked about the authors of the items that have no error. The loops are
  written once here, as functions of what a module does with one item, and the facts about them are
  proved in the locale \<open>listed_items\<close>.
\<close>

subsection \<open>Exceptions\<close>

text \<open>Which exceptions a handler for \<open>core::Exception\<close> catches.\<close>

fun is_core_exception :: "exn \<Rightarrow> bool" where
  "is_core_exception (PrivmxExn e) \<longleftrightarrow> False"
| "is_core_exception StdOutOfRange \<longleftrightarrow> False"
| "is_core_exception _ \<longleftrightarrow> True"

text \<open>A handler for \<open>PrivmxException\<close>; other exceptions pass.\<close>

definition catch_privmx :: "('e, 's, 'a) op \<Rightarrow> ('e \<Rightarrow> PrivmxException option) \<Rightarrow> (PrivmxException \<Rightarrow> ('e, 's, 'a) op) \<Rightarrow> ('e, 's, 'a) op" where
  "catch_privmx m which handler st =
     (case m st of
        (Inl e, st') \<Rightarrow> (case which e of Some x \<Rightarrow> handler x st' | None \<Rightarrow> (Inl e, st'))
      | r \<Rightarrow> r)"

fun privmx_exception :: "exn \<Rightarrow> PrivmxException option" where
  "privmx_exception (PrivmxExn x) = Some x"
| "privmx_exception _ = None"

subsection \<open>Duplicates\<close>

text \<open>\<open>std::to_string\<close>, and the text by which duplicates are recognised.\<close>

fun decimal :: "nat \<Rightarrow> string" where
  "decimal n = (if n < 10 then [char_of (48 + n)] else decimal (n div 10) @ [char_of (48 + n mod 10)])"

declare decimal.simps [simp del]

definition to_string :: "int \<Rightarrow> string" where
  "to_string i = (if i < 0 then ''-'' @ decimal (nat (- i)) else decimal (nat i))"

definition fullRandomId :: "DataIntegrityObject \<Rightarrow> string" where
  "fullRandomId dio = dio_randomId dio @ ''-'' @ to_string (dio_timestamp dio)"

definition no_dio :: DataIntegrityObject where
  "no_dio = DataIntegrityObject.truncate empty_dio"

subsection \<open>Lists of items\<close>

text \<open>
  The loop over the items. The second component are the integrity objects that were collected: an
  item that fails before its integrity object is known adds a result but no integrity object.
\<close>

fun decrypt_items ::
    "('i \<Rightarrow> (exn, 'r \<times> DataIntegrityObject) result) \<Rightarrow> ('i \<Rightarrow> int \<Rightarrow> 'r) \<Rightarrow> (int \<Rightarrow> 'r \<Rightarrow> 'r) \<Rightarrow> string list \<Rightarrow> 'i list \<Rightarrow>
     'r list \<times> DataIntegrityObject list" where
  "decrypt_items decrypt fail put duplication_check [] = ([], [])"
| "decrypt_items decrypt fail put duplication_check (item # rest) =
     (case decrypt item of
        Inl e \<Rightarrow>
          (case decrypt_items decrypt fail put duplication_check rest of
             (rs, ds) \<Rightarrow> (fail item (status_of e) # rs, ds))
      | Inr (r, dio) \<Rightarrow>
          if fullRandomId dio \<in> set duplication_check
          then (case decrypt_items decrypt fail put duplication_check rest of
             (rs, ds) \<Rightarrow> (put (code_of DataIntegrityObjectDuplicatedException) r # rs, dio # ds))
          else (case decrypt_items decrypt fail put (fullRandomId dio # duplication_check) rest of
             (rs, ds) \<Rightarrow> (r # rs, dio # ds)))"

text \<open>
  The verifier is asked about the results without error only. The requests read the collected
  integrity objects at the position of the result, past the end as well, where nothing is known
  of the value.
\<close>

definition item_requests ::
    "('r \<Rightarrow> int) \<Rightarrow> ('r \<Rightarrow> BridgeIdentity option \<Rightarrow> VerificationRequest) \<Rightarrow> 'r list \<Rightarrow> DataIntegrityObject list \<Rightarrow> VerificationRequest list" where
  "item_requests status request result dios =
     map (\<lambda>i. request (result ! i) (dio_bridgeIdentity (dios ! i))) (filter (\<lambda>i. status (result ! i) = 0) [0..<length result])"

definition verified_status :: "bool \<Rightarrow> int" where
  "verified_status ok = (if ok then 0 else code_of UserVerificationFailureException)"

text \<open>Its answers are spread over the results without error in order.\<close>

fun assign_verified :: "('a \<Rightarrow> int) \<Rightarrow> (int \<Rightarrow> 'a \<Rightarrow> 'a) \<Rightarrow> bool list \<Rightarrow> 'a list \<Rightarrow> 'a list" where
  "assign_verified get put verified [] = []"
| "assign_verified get put verified (r # rs) =
     (if get r = 0
      then put (verified_status (hd verified)) r # assign_verified get put (tl verified) rs
      else r # assign_verified get put verified rs)"

definition verify_items ::
    "user_verifier \<Rightarrow> ('r \<Rightarrow> int) \<Rightarrow> (int \<Rightarrow> 'r \<Rightarrow> 'r) \<Rightarrow> ('r \<Rightarrow> BridgeIdentity option \<Rightarrow> VerificationRequest) \<Rightarrow>
     'r list \<times> DataIntegrityObject list \<Rightarrow> (exn, 'r list) result" where
  "verify_items verifier status put request = (\<lambda>(result, dios).
     bindR (UserVerifier_verify verifier (item_requests status request result dios)) (\<lambda>verified.
     Inr (assign_verified status put verified result)))"

text \<open>A single result is verified by itself.\<close>

definition verify_one ::
    "user_verifier \<Rightarrow> ('r \<Rightarrow> int) \<Rightarrow> (int \<Rightarrow> 'r \<Rightarrow> 'r) \<Rightarrow> ('r \<Rightarrow> DataIntegrityObject \<Rightarrow> VerificationRequest) \<Rightarrow>
     'r \<times> DataIntegrityObject \<Rightarrow> (exn, 'r) result" where
  "verify_one verifier status put request = (\<lambda>(result, dio).
     if status result \<noteq> 0 then Inr result
     else
       bindR (UserVerifier_verify verifier [request result dio]) (\<lambda>verified.
       Inr (put (verified_status (verified ! 0)) result)))"

subsection \<open>Lists of containers\<close>

text \<open>
  A list of containers is read in steps: integrity of each, which leaves a default value where it is
  sound; one request for all keys; decryption, where only exceptions of the library are turned into
  a status and an integrity object that was seen before turns any status into that of a duplicate;
  verification of the results without error, each with its own integrity object.
\<close>

definition check_containers :: "('i \<Rightarrow> int) \<Rightarrow> ('i \<Rightarrow> int \<Rightarrow> (exn, 'r) result) \<Rightarrow> 'r \<Rightarrow> 'i list \<Rightarrow> (exn, 'r list) result" where
  "check_containers integrity convert new =
     mapR (\<lambda>item. let statusCode = integrity item in if statusCode \<noteq> 0 then convert item statusCode else Inr new)"

fun decrypt_containers ::
    "('i \<Rightarrow> (exn, 'r \<times> DataIntegrityObject) result) \<Rightarrow> ('i \<Rightarrow> int \<Rightarrow> (exn, 'r) result) \<Rightarrow> ('r \<Rightarrow> int) \<Rightarrow> (int \<Rightarrow> 'r \<Rightarrow> 'r) \<Rightarrow>
     string list \<Rightarrow> ('i \<times> 'r) list \<Rightarrow> (exn, ('r \<times> DataIntegrityObject) list) result" where
  "decrypt_containers decrypt convert status put duplication_check [] = Inr []"
| "decrypt_containers decrypt convert status put duplication_check ((item, r) # rest) =
     (if status r \<noteq> 0
      then bindR (decrypt_containers decrypt convert status put duplication_check rest) (\<lambda>rs. Inr ((r, no_dio) # rs))
      else case decrypt item of
        Inr (k, dio) \<Rightarrow>
          if fullRandomId dio \<in> set duplication_check
          then bindR (decrypt_containers decrypt convert status put duplication_check rest)
            (\<lambda>rs. Inr ((put (code_of DataIntegrityObjectDuplicatedException) k, dio) # rs))
          else bindR (decrypt_containers decrypt convert status put (fullRandomId dio # duplication_check) rest)
            (\<lambda>rs. Inr ((k, dio) # rs))
      | Inl e \<Rightarrow>
          if is_core_exception e
          then bindR (convert item (status_of e)) (\<lambda>k.
               bindR (decrypt_containers decrypt convert status put duplication_check rest) (\<lambda>rs. Inr ((k, no_dio) # rs)))
          else Inl e)"

definition verify_containers ::
    "user_verifier \<Rightarrow> ('r \<Rightarrow> int) \<Rightarrow> (int \<Rightarrow> 'r \<Rightarrow> 'r) \<Rightarrow> ('r \<Rightarrow> DataIntegrityObject \<Rightarrow> VerificationRequest) \<Rightarrow>
     ('r \<times> DataIntegrityObject) list \<Rightarrow> (exn, 'r list) result" where
  "verify_containers verifier status put request result =
     bindR (UserVerifier_verify verifier (map (\<lambda>(k, dio). request k dio) (filter (\<lambda>(k, dio). status k = 0) result))) (\<lambda>verified.
     Inr (assign_verified status put verified (map fst result)))"

definition read_containers ::
    "user_verifier \<Rightarrow> ('i \<Rightarrow> int) \<Rightarrow> ('i \<Rightarrow> int \<Rightarrow> (exn, 'r) result) \<Rightarrow> 'r \<Rightarrow> ('i list \<Rightarrow> (exn, 'm) result) \<Rightarrow>
     ('m \<Rightarrow> 'i \<Rightarrow> (exn, 'r \<times> DataIntegrityObject) result) \<Rightarrow> ('r \<Rightarrow> int) \<Rightarrow> (int \<Rightarrow> 'r \<Rightarrow> 'r) \<Rightarrow>
     ('r \<Rightarrow> DataIntegrityObject \<Rightarrow> VerificationRequest) \<Rightarrow> 'i list \<Rightarrow> (exn, 'r list) result" where
  "read_containers verifier integrity convert new get_keys decrypt status put request items =
     bindR (check_containers integrity convert new items) (\<lambda>result.
     bindR (get_keys items) (\<lambda>keys.
     bindR (decrypt_containers (decrypt keys) convert status put [] (zip items result))
       (verify_containers verifier status put request)))"

subsection \<open>Facts\<close>

lemma verified_status_0 [simp]: "verified_status b = 0 \<longleftrightarrow> b"
  by (simp add: verified_status_def)

lemma verifier_approved:
  assumes "UserVerifier_verify v [request] = Inr verified" and "verified_status (verified ! 0) = 0"
  shows "v [request] = Some [True]"
  using assms by (auto simp: UserVerifier_verify_def verified_status_def length_Suc_conv split: option.splits if_splits)

lemma verify_one_ok:
  assumes "verify_one verifier status put request (r0, dio) = Inr r" and "status r = 0"
    and "\<And>s r. status (put s r) = s" and "\<And>r. put (status r) r = r"
  shows "r = r0" and "verifier [request r dio] = Some [True]"
proof -
  have "status r0 = 0" using assms(1,2) by (auto simp: verify_one_def split: if_splits)
  then obtain verified where v: "UserVerifier_verify verifier [request r0 dio] = Inr verified" "r = put (verified_status (verified ! 0)) r0"
    using assms(1) by (auto simp: verify_one_def bindR_eq_Inr)
  then have s: "verified_status (verified ! 0) = 0" using assms(2,3) by metis
  then show r: "r = r0" using v(2) \<open>status r0 = 0\<close> assms(4) [of r0] by (simp add: verified_status_def)
  show "verifier [request r dio] = Some [True]" using verifier_approved [OF v(1) s] by (simp add: r)
qed

lemma length_assign_verified [simp]: "length (assign_verified get put verified rs) = length rs"
  by (induction rs arbitrary: verified) auto

lemma upt_Suc_map: "[0..<Suc n] = 0 # map Suc [0..<n]"
  by (metis map_Suc_upt upt_conv_Cons zero_less_Suc)

lemma length_filter_nth: "length (filter (\<lambda>i. P (xs ! i)) [0..<length xs]) = length (filter P xs)"
proof -
  have "filter P xs = map ((!) xs) (filter (P \<circ> (!) xs) [0..<length xs])" by (metis filter_map map_nth)
  then show ?thesis by (simp add: comp_def)
qed

text \<open>A result without error after the verification had none before and was approved.\<close>

lemma assign_verified_ok:
  assumes put: "\<And>s r. get (put s r) = s" and "i < length rs" and "get (assign_verified get put verified rs ! i) = 0"
    and "length verified = length (filter (\<lambda>r. get r = 0) rs)"
  shows "get (rs ! i) = 0 \<and> assign_verified get put verified rs ! i = put 0 (rs ! i) \<and>
    (i, True) \<in> set (zip (filter (\<lambda>i. get (rs ! i) = 0) [0..<length rs]) verified)"
  using assms(2-)
proof (induction rs arbitrary: i verified)
  case (Cons r rs)
  have idx: "filter (\<lambda>i. get ((r # rs) ! i) = 0) [0..<length (r # rs)] =
      (if get r = 0 then [0] else []) @ map Suc (filter (\<lambda>i. get (rs ! i) = 0) [0..<length rs])"
    by (simp add: upt_Suc_map filter_map comp_def del: upt_Suc)
  show ?case
  proof (cases "get r = 0")
    case True
    then obtain b vs where v: "verified = b # vs" using Cons.prems(3) by (cases verified) auto
    show ?thesis
    proof (cases i)
      case 0
      then show ?thesis using Cons.prems(2) put unfolding idx v by (simp add: True verified_status_def split: if_splits)
    next
      case (Suc j)
      then have "j < length rs" "get (assign_verified get put vs rs ! j) = 0"
        "length vs = length (filter (\<lambda>r. get r = 0) rs)" using Cons.prems by (simp_all add: True v)
      from Cons.IH [OF this] show ?thesis
        unfolding idx v by (auto simp: True Suc zip_map1 intro: rev_image_eqI)
    qed
  next
    case False
    then obtain j where j: "i = Suc j" using Cons.prems(2) by (cases i) auto
    then have "j < length rs" "get (assign_verified get put verified rs ! j) = 0"
      "length verified = length (filter (\<lambda>r. get r = 0) rs)" using Cons.prems False by simp_all
    from Cons.IH [OF this] show ?thesis
      unfolding idx by (auto simp: False j zip_map1 intro: rev_image_eqI)
  qed
qed simp

lemma fst_decrypt_items:
  "fst (decrypt_items decrypt fail put dups (item # rest)) =
     (case decrypt item of
        Inl e \<Rightarrow> fail item (status_of e) # fst (decrypt_items decrypt fail put dups rest)
      | Inr (r, dio) \<Rightarrow>
          if fullRandomId dio \<in> set dups
          then put (code_of DataIntegrityObjectDuplicatedException) r # fst (decrypt_items decrypt fail put dups rest)
          else r # fst (decrypt_items decrypt fail put (fullRandomId dio # dups) rest))"
  by (simp split: sum.split prod.split)

subsection \<open>The interface of one item\<close>

text \<open>
  What the facts need of a module: the status of a result can be set and read, and a failed item
  carries the status it failed with.
\<close>

locale listed_items =
  fixes decrypt :: "'i \<Rightarrow> (exn, 'r \<times> DataIntegrityObject) result"
    and fail :: "'i \<Rightarrow> int \<Rightarrow> 'r" and status :: "'r \<Rightarrow> int" and put :: "int \<Rightarrow> 'r \<Rightarrow> 'r"
  assumes status_put: "status (put s r) = s" and put_status: "put (status r) r = r" and status_fail: "status (fail i s) = s"
begin

abbreviation results :: "string list \<Rightarrow> 'i list \<Rightarrow> 'r list" where
  "results dups items \<equiv> fst (decrypt_items decrypt fail put dups items)"

lemma results_length: "length (results dups items) = length items"
  by (induction items arbitrary: dups) (auto simp: fst_decrypt_items simp del: decrypt_items.simps(2) split: sum.split)

lemma decrypted:
  "i < length items \<Longrightarrow> status (results dups items ! i) = 0 \<Longrightarrow>
   \<exists>dio. decrypt (items ! i) = Inr (results dups items ! i, dio)"
proof (induction items arbitrary: i dups)
  case (Cons item rest)
  note fst_decrypt_items [simp] decrypt_items.simps(2) [simp del] status_put [simp] status_fail [simp] status_of_neq [simp]
  show ?case
    using Cons by (cases i) (auto split: sum.splits if_splits)
qed simp

text \<open>An integrity object that was seen before makes its item a duplicate.\<close>

lemma seen:
  "fullRandomId d \<in> set dups \<Longrightarrow> n < length items \<Longrightarrow> decrypt (items ! n) = Inr (x, d) \<Longrightarrow>
   status (results dups items ! n) \<noteq> 0"
proof (induction items arbitrary: n dups)
  case (Cons item rest)
  then show ?case
    by (cases n) (auto simp: fst_decrypt_items status_put simp del: decrypt_items.simps(2) split: sum.splits)
qed simp

lemma distinct_ids:
  assumes "i < j" "j < length items" and "status (results dups items ! i) = 0" and "status (results dups items ! j) = 0"
    and "decrypt (items ! i) = Inr (r, dio)" and "decrypt (items ! j) = Inr (r', dio')"
  shows "fullRandomId dio \<noteq> fullRandomId dio'"
  using assms
proof (induction items arbitrary: i j dups)
  case (Cons item rest)
  note fst_decrypt_items [simp] decrypt_items.simps(2) [simp del] status_put [simp]
  obtain j' where j: "j = Suc j'" using Cons.prems(1) by (cases j) auto
  show ?case
  proof (cases i)
    case 0
    have "fullRandomId dio \<notin> set dups" using Cons.prems(3,5) 0 by (auto split: if_splits)
    then show ?thesis
      using Cons.prems(2,4,5,6) seen [of dio' "fullRandomId dio # dups" j' rest r'] 0 j by auto
  next
    case (Suc i')
    then show ?thesis
      using Cons.prems Cons.IH [of i' j'] j by (auto split: sum.splits if_splits)
  qed
qed simp

text \<open>
  After the verification: one result for each item, and a result without error was decrypted and its
  author approved.
\<close>

lemma verified_items:
  assumes "verify_items verifier status put request (decrypt_items decrypt fail put dups items) = Inr rs"
  shows "length rs = length items"
    and "i < length items \<Longrightarrow> status (rs ! i) = 0 \<Longrightarrow>
      (\<exists>dio. decrypt (items ! i) = Inr (rs ! i, dio)) \<and> rs ! i = results dups items ! i \<and>
      (\<exists>reqs answers b. verifier reqs = Some answers \<and> (request (rs ! i) b, True) \<in> set (zip reqs answers))"
proof -
  let ?res = "results dups items" and ?dios = "snd (decrypt_items decrypt fail put dups items)"
  obtain verified where ver: "UserVerifier_verify verifier (item_requests status request ?res ?dios) = Inr verified"
      and rs: "rs = assign_verified status put verified ?res"
    using assms by (auto simp: verify_items_def bindR_eq_Inr case_prod_beta)
  show "length rs = length items" by (simp add: rs results_length)
  have v: "verifier (item_requests status request ?res ?dios) = Some verified"
      "length verified = length (filter (\<lambda>r. status r = 0) ?res)"
    using ver length_filter_nth [of "\<lambda>r. status r = 0" ?res]
    by (auto simp: UserVerifier_verify_def item_requests_def split: option.splits if_splits)
  assume i: "i < length items" and ok: "status (rs ! i) = 0"
  have a: "status (?res ! i) = 0" "rs ! i = put 0 (?res ! i)"
      "(i, True) \<in> set (zip (filter (\<lambda>i. status (?res ! i) = 0) [0..<length ?res]) verified)"
    using assign_verified_ok [of status put i ?res verified] status_put i ok v(2) by (simp_all add: rs results_length)
  then have eq: "rs ! i = ?res ! i" using put_status [of "?res ! i"] by simp
  moreover have "\<exists>b. (request (rs ! i) b, True) \<in> set (zip (item_requests status request ?res ?dios) verified)"
    using a eq unfolding item_requests_def zip_map1 by (force intro: rev_image_eqI)
  ultimately show "(\<exists>dio. decrypt (items ! i) = Inr (rs ! i, dio)) \<and> rs ! i = ?res ! i \<and>
      (\<exists>reqs answers b. verifier reqs = Some answers \<and> (request (rs ! i) b, True) \<in> set (zip reqs answers))"
    using decrypted [OF i a(1)] v(1) by metis
qed

text \<open>No two results without error share random id and time.\<close>

lemma verified_distinct:
  assumes "verify_items verifier status put request (decrypt_items decrypt fail put dups items) = Inr rs"
    and "i < j" "j < length items" "status (rs ! i) = 0" "status (rs ! j) = 0"
    and "decrypt (items ! i) = Inr (rs ! i, dio)" and "decrypt (items ! j) = Inr (rs ! j, dio')"
  shows "(dio_randomId dio, dio_timestamp dio) \<noteq> (dio_randomId dio', dio_timestamp dio')"
proof -
  have "rs ! i = results dups items ! i" "rs ! j = results dups items ! j"
    using verified_items(2) [OF assms(1)] assms(2-5) by auto
  then have "fullRandomId dio \<noteq> fullRandomId dio'"
    using distinct_ids [OF assms(2,3)] assms(4-7) by metis
  then show ?thesis by (auto simp: fullRandomId_def)
qed

text \<open>
  The positions at which the integrity objects are read are those of the results, so an item that
  fails early shifts them: the item after it is verified with the integrity object of a later one.
\<close>

lemma shifted_request:
  assumes "decrypt a = Inl e" and "decrypt b = Inr (r, dio)" and "decrypt c = Inr (r', dio')" and "status r = 0"
  shows "\<exists>rs dios. decrypt_items decrypt fail put [] [a, b, c] = (rs, dios) \<and> rs ! 1 = r \<and> dios = [dio, dio'] \<and>
    hd (item_requests status request rs dios) = request r (dio_bridgeIdentity dio')"
  using assms by (cases "fullRandomId dio' = fullRandomId dio") (simp_all add: item_requests_def status_fail status_put)

end

subsection \<open>The interface of one container\<close>

locale listed_containers =
  fixes integrity :: "'i \<Rightarrow> int" and convert :: "'i \<Rightarrow> int \<Rightarrow> (exn, 'r) result" and new :: 'r
    and status :: "'r \<Rightarrow> int" and put :: "int \<Rightarrow> 'r \<Rightarrow> 'r"
  assumes status_put: "status (put s r) = s" and put_status: "put (status r) r = r"
    and status_convert: "convert i s = Inr r \<Longrightarrow> status r = s"
begin

lemma checked:
  "check_containers integrity convert new items = Inr rs \<Longrightarrow>
   length rs = length items \<and> (\<forall>i < length items. status (rs ! i) = 0 \<longrightarrow> integrity (items ! i) = 0)"
proof (induction items arbitrary: rs)
  case (Cons item items)
  obtain r rs' where rs: "rs = r # rs'" "check_containers integrity convert new items = Inr rs'"
      "(let statusCode = integrity item in if statusCode \<noteq> 0 then convert item statusCode else Inr new) = Inr r"
    using Cons.prems by (auto simp: check_containers_def bindR_eq_Inr)
  have "status r = 0 \<Longrightarrow> integrity item = 0" using rs(3) status_convert by (force simp: Let_def split: if_splits)
  with Cons.IH [OF rs(2)] show ?case by (auto simp: rs(1) nth_Cons split: nat.split)
qed (simp add: check_containers_def)

lemma decrypted:
  "decrypt_containers decrypt convert status put dups prs = Inr out \<Longrightarrow>
   length out = length prs \<and>
   (\<forall>i < length prs. status (fst (out ! i)) = 0 \<longrightarrow> status (snd (prs ! i)) = 0 \<and> decrypt (fst (prs ! i)) = Inr (out ! i))"
proof (induction prs arbitrary: dups out)
  case (Cons pr rest)
  obtain item r where pr: "pr = (item, r)" by fastforce
  obtain o1 out' dups' where out: "out = o1 # out'" "decrypt_containers decrypt convert status put dups' rest = Inr out'"
      and o1: "status (fst o1) = 0 \<longrightarrow> status r = 0 \<and> decrypt item = Inr o1"
    using Cons.prems unfolding pr
    by (auto simp: bindR_eq_Inr status_put dest!: status_convert split: if_splits sum.splits prod.splits)
  show ?case using Cons.IH [OF out(2)] o1 by (auto simp: out(1) pr nth_Cons split: nat.split)
qed simp

lemma read:
  assumes "read_containers verifier integrity convert new get_keys decrypt status put request items = Inr rs"
  obtains keys where "get_keys items = Inr keys" and "length rs = length items"
    and "\<And>i. i < length items \<Longrightarrow> status (rs ! i) = 0 \<Longrightarrow> integrity (items ! i) = 0 \<and>
      (\<exists>dio reqs answers. decrypt keys (items ! i) = Inr (rs ! i, dio) \<and> verifier reqs = Some answers \<and>
        (request (rs ! i) dio, True) \<in> set (zip reqs answers))"
proof -
  obtain res keys out verified where res: "check_containers integrity convert new items = Inr res"
      and keys: "get_keys items = Inr keys"
      and out: "decrypt_containers (decrypt keys) convert status put [] (zip items res) = Inr out"
      and ver: "UserVerifier_verify verifier (map (\<lambda>(k, dio). request k dio) (filter (\<lambda>(k, dio). status k = 0) out)) = Inr verified"
      and rs: "rs = assign_verified status put verified (map fst out)"
    using assms by (auto simp: read_containers_def verify_containers_def bindR_eq_Inr)
  note c = checked [OF res] and d = decrypted [OF out]
  have len: "length out = length items" using c d by simp
  have reqs: "map (\<lambda>(k, dio). request k dio) (filter (\<lambda>(k, dio). status k = 0) out) =
      map (\<lambda>i. request (fst (out ! i)) (snd (out ! i))) (filter (\<lambda>i. status (map fst out ! i) = 0) [0..<length (map fst out)])"
  proof -
    have "filter (\<lambda>(k, dio). status k = 0) out = map ((!) out) (filter ((\<lambda>(k, dio). status k = 0) \<circ> (!) out) [0..<length out])"
      by (metis filter_map map_nth)
    also have "filter ((\<lambda>(k, dio). status k = 0) \<circ> (!) out) [0..<length out] =
        filter (\<lambda>i. status (map fst out ! i) = 0) [0..<length (map fst out)]"
      by (auto simp: case_prod_beta intro: filter_cong)
    finally show ?thesis by (simp add: comp_def) (simp add: case_prod_beta)
  qed
  have v: "verifier (map (\<lambda>(k, dio). request k dio) (filter (\<lambda>(k, dio). status k = 0) out)) = Some verified"
      "length verified = length (filter (\<lambda>r. status r = 0) (map fst out))"
    using ver by (auto simp: UserVerifier_verify_def filter_map comp_def case_prod_unfold split: option.splits if_splits)
  show thesis
  proof (rule that [OF keys])
    show "length rs = length items" by (simp add: rs len)
    fix i assume i: "i < length items" and ok: "status (rs ! i) = 0"
    have a: "status (map fst out ! i) = 0" "rs ! i = put 0 (map fst out ! i)"
        "(i, True) \<in> set (zip (filter (\<lambda>i. status (map fst out ! i) = 0) [0..<length (map fst out)]) verified)"
      using assign_verified_ok [of status put i "map fst out" verified] status_put i ok v(2) by (simp_all add: rs len)
    then have eq: "rs ! i = fst (out ! i)" using put_status [of "fst (out ! i)"] i len by simp
    have dec: "status (res ! i) = 0" "decrypt keys (items ! i) = Inr (rs ! i, snd (out ! i))"
      using d a(1) i len eq c by auto
    have "(request (rs ! i) (snd (out ! i)), True) \<in> set (zip (map (\<lambda>(k, dio). request k dio) (filter (\<lambda>(k, dio). status k = 0) out)) verified)"
      using a(3) unfolding reqs zip_map1 eq by (force intro: rev_image_eqI)
    then show "integrity (items ! i) = 0 \<and> (\<exists>dio reqs answers. decrypt keys (items ! i) = Inr (rs ! i, dio) \<and>
        verifier reqs = Some answers \<and> (request (rs ! i) dio, True) \<in> set (zip reqs answers))"
      using c dec i v(1) by blast
  qed
qed

end

end
