(* ===== verification/Core_EventMiddleware.thy ===== *)
theory Core_EventMiddleware
  imports Utils_Json "HOL-Library.Multiset"
begin

text \<open>
  Event delivery inside the endpoint (\<open>endpoint/core/src/EventMiddleware.cpp\<close>,
  \<open>EventQueueImpl.cpp\<close>, \<open>utils/include/privmx/utils/ThreadSaveMap.hpp\<close>): listeners with the
  subscription ids they follow, and the queue the application takes its events from. A callback is a
  value of an abstract type; calling it is recorded as an output. What a callback throws is caught
  and logged, so it has no effect on the delivery to others. A listener map is a \<open>std::map\<close> from
  listener numbers, hence an association list in the order of the numbers.
\<close>

subsection \<open>\<open>ThreadSaveMap\<close>\<close>

definition ThreadSaveMap_get :: "(int \<times> 'v) list \<Rightarrow> int \<Rightarrow> 'v option" where
  "ThreadSaveMap_get m k = map_of m k"

definition ThreadSaveMap_set :: "int \<Rightarrow> 'v \<Rightarrow> (int \<times> 'v) list \<Rightarrow> (int \<times> 'v) list" where
  "ThreadSaveMap_set k v m = alist_set k v m"

definition ThreadSaveMap_erase :: "int \<Rightarrow> (int \<times> 'v) list \<Rightarrow> (int \<times> 'v) list" where
  "ThreadSaveMap_erase k m = filter (\<lambda>(i, _). i \<noteq> k) m"

definition ThreadSaveMap_updateValueIfExist :: "int \<Rightarrow> ('v \<Rightarrow> 'v) \<Rightarrow> (int \<times> 'v) list \<Rightarrow> (int \<times> 'v) list" where
  "ThreadSaveMap_updateValueIfExist k f m =
     (case map_of m k of None \<Rightarrow> m | Some v \<Rightarrow> alist_set k (f v) m)"

text \<open>The outputs of \<open>forAll\<close> and \<open>forAllLockSave\<close>, one entry after the other.\<close>

definition ThreadSaveMap_forAll :: "(int \<Rightarrow> 'v \<Rightarrow> 'o list) \<Rightarrow> (int \<times> 'v) list \<Rightarrow> 'o list" where
  "ThreadSaveMap_forAll f m = concat (map (\<lambda>(k, v). f k v) m)"

subsection \<open>\<open>EventMiddleware\<close>\<close>

record NotificationEvent =
  ne_type :: string
  ne_data :: json
  ne_version :: int
  ne_timestamp :: int
  ne_subscriptions :: "string list"

record 'cb EventMiddleware =
  em_connectionId :: int
  em_notificationsListeners :: "(int \<times> 'cb option \<times> string list) list"
  em_connectedListeners :: "(int \<times> 'cb option) list"
  em_disconnectedListeners :: "(int \<times> 'cb option) list"
  em_id :: int

definition EventMiddleware_new :: "int \<Rightarrow> 'cb EventMiddleware" where
  "EventMiddleware_new connectionId =
     \<lparr>em_connectionId = connectionId, em_notificationsListeners = [], em_connectedListeners = [],
      em_disconnectedListeners = [], em_id = 0\<rparr>"

text \<open>\<open>_id.fetch_add(1)\<close> of an \<open>atomic_int\<close> wraps at 32 bits.\<close>

definition next_id :: "int \<Rightarrow> int" where
  "next_id i = (i + 1 + 2 ^ 31) mod 2 ^ 32 - 2 ^ 31"

definition EventMiddleware_addNotificationEventListener ::
    "'cb option \<Rightarrow> 'cb EventMiddleware \<Rightarrow> int \<times> 'cb EventMiddleware" where
  "EventMiddleware_addNotificationEventListener callback em =
     (em_id em, em\<lparr>em_id := next_id (em_id em),
        em_notificationsListeners := ThreadSaveMap_set (em_id em) (callback, []) (em_notificationsListeners em)\<rparr>)"

definition EventMiddleware_addConnectedEventListener ::
    "'cb option \<Rightarrow> 'cb EventMiddleware \<Rightarrow> int \<times> 'cb EventMiddleware" where
  "EventMiddleware_addConnectedEventListener callback em =
     (em_id em, em\<lparr>em_id := next_id (em_id em),
        em_connectedListeners := ThreadSaveMap_set (em_id em) callback (em_connectedListeners em)\<rparr>)"

definition EventMiddleware_addDisconnectedEventListener ::
    "'cb option \<Rightarrow> 'cb EventMiddleware \<Rightarrow> int \<times> 'cb EventMiddleware" where
  "EventMiddleware_addDisconnectedEventListener callback em =
     (em_id em, em\<lparr>em_id := next_id (em_id em),
        em_disconnectedListeners := ThreadSaveMap_set (em_id em) callback (em_disconnectedListeners em)\<rparr>)"

definition EventMiddleware_addSubscriptionIds :: "int \<Rightarrow> string list \<Rightarrow> 'cb EventMiddleware \<Rightarrow> 'cb EventMiddleware" where
  "EventMiddleware_addSubscriptionIds i subscriptionIds em =
     em\<lparr>em_notificationsListeners := ThreadSaveMap_updateValueIfExist i
       (\<lambda>(cb, subs). (cb, subs @ subscriptionIds)) (em_notificationsListeners em)\<rparr>"

text \<open>
  \<open>toRemove.erase(std::remove(...))\<close> erases one element: behind the elements that differ, \<open>std::remove\<close>
  leaves as many unspecified ones as it found (\<open>residue\<close>), and the first of those is erased. There
  is none left when the id occurred once.
\<close>

definition erase_removed :: "(string list \<Rightarrow> string \<Rightarrow> string list) \<Rightarrow> string \<Rightarrow> string list \<Rightarrow> string list" where
  "erase_removed residue x toRemove =
     filter (\<lambda>y. y \<noteq> x) toRemove @ take (count_list toRemove x - 1) (residue toRemove x)"

fun remove_subscriptions ::
    "(string list \<Rightarrow> string \<Rightarrow> string list) \<Rightarrow> string list \<Rightarrow> string list \<Rightarrow> string list" where
  "remove_subscriptions residue toRemove [] = []"
| "remove_subscriptions residue toRemove (x # xs) =
     (if length toRemove > 0 then
        (if x \<in> set toRemove then remove_subscriptions residue (erase_removed residue x toRemove) xs
         else x # remove_subscriptions residue toRemove xs)
      else x # remove_subscriptions residue toRemove xs)"

definition EventMiddleware_removeSubscriptionIds ::
    "(string list \<Rightarrow> string \<Rightarrow> string list) \<Rightarrow> int \<Rightarrow> string list \<Rightarrow> 'cb EventMiddleware \<Rightarrow> 'cb EventMiddleware" where
  "EventMiddleware_removeSubscriptionIds residue i subscriptionIds em =
     em\<lparr>em_notificationsListeners := ThreadSaveMap_updateValueIfExist i
       (\<lambda>(cb, subs). (cb, remove_subscriptions residue subscriptionIds subs)) (em_notificationsListeners em)\<rparr>"

definition EventMiddleware_removeNotificationEventListener :: "int \<Rightarrow> 'cb EventMiddleware \<Rightarrow> 'cb EventMiddleware" where
  "EventMiddleware_removeNotificationEventListener i em =
     em\<lparr>em_notificationsListeners := ThreadSaveMap_erase i (em_notificationsListeners em)\<rparr>"

definition EventMiddleware_removeConnectedEventListener :: "int \<Rightarrow> 'cb EventMiddleware \<Rightarrow> 'cb EventMiddleware" where
  "EventMiddleware_removeConnectedEventListener i em =
     em\<lparr>em_connectedListeners := ThreadSaveMap_erase i (em_connectedListeners em)\<rparr>"

definition EventMiddleware_removeDisconnectedEventListener :: "int \<Rightarrow> 'cb EventMiddleware \<Rightarrow> 'cb EventMiddleware" where
  "EventMiddleware_removeDisconnectedEventListener i em =
     em\<lparr>em_disconnectedListeners := ThreadSaveMap_erase i (em_disconnectedListeners em)\<rparr>"

text \<open>The calls made: listener number and callback. The loop over the event's subscriptions returns at the first call.\<close>

fun notify_listener :: "string list \<Rightarrow> int \<Rightarrow> 'cb option \<times> string list \<Rightarrow> (int \<times> 'cb) list" where
  "notify_listener [] i listener = []"
| "notify_listener (s # ss) i (cb, subs) =
     (if s \<in> set subs then (case cb of Some f \<Rightarrow> [(i, f)] | None \<Rightarrow> notify_listener ss i (cb, subs))
      else notify_listener ss i (cb, subs))"

definition EventMiddleware_emitNotificationEvent :: "NotificationEvent \<Rightarrow> 'cb EventMiddleware \<Rightarrow> (int \<times> 'cb) list" where
  "EventMiddleware_emitNotificationEvent notification em =
     ThreadSaveMap_forAll (notify_listener (ne_subscriptions notification)) (em_notificationsListeners em)"

definition call_listener :: "int \<Rightarrow> 'cb option \<Rightarrow> (int \<times> 'cb) list" where
  "call_listener i listener = (case listener of Some f \<Rightarrow> [(i, f)] | None \<Rightarrow> [])"

definition EventMiddleware_emitConnectedEvent :: "'cb EventMiddleware \<Rightarrow> (int \<times> 'cb) list" where
  "EventMiddleware_emitConnectedEvent em = ThreadSaveMap_forAll call_listener (em_connectedListeners em)"

definition EventMiddleware_emitDisconnectedEvent :: "'cb EventMiddleware \<Rightarrow> (int \<times> 'cb) list" where
  "EventMiddleware_emitDisconnectedEvent em = ThreadSaveMap_forAll call_listener (em_disconnectedListeners em)"

subsection \<open>\<open>EventQueueImpl\<close>\<close>

text \<open>The queue hands events out in the order in which they came in; \<open>waitEvent\<close> blocks on an empty queue (\<open>None\<close>).\<close>

datatype event_kind = LibBreak | ApiEvent string

record Event =
  ev_kind :: event_kind
  ev_connectionId :: int

definition EventQueueImpl_emit :: "Event \<Rightarrow> Event list \<Rightarrow> Event list" where
  "EventQueueImpl_emit e q = q @ [e]"

definition EventQueueImpl_emitBreakEvent :: "Event list \<Rightarrow> Event list" where
  "EventQueueImpl_emitBreakEvent q = EventQueueImpl_emit \<lparr>ev_kind = LibBreak, ev_connectionId = - 1\<rparr> q"

definition EventQueueImpl_waitEvent :: "Event list \<Rightarrow> (Event \<times> Event list) option" where
  "EventQueueImpl_waitEvent q = (case q of [] \<Rightarrow> None | e # r \<Rightarrow> Some (e, r))"

definition EventQueueImpl_getEvent :: "Event list \<Rightarrow> Event option \<times> Event list" where
  "EventQueueImpl_getEvent q = (case q of [] \<Rightarrow> (None, []) | e # r \<Rightarrow> (Some e, r))"

definition EventQueueImpl_clear :: "Event list \<Rightarrow> Event list" where
  "EventQueueImpl_clear q = []"

definition EventMiddleware_emitApiEvent :: "'cb EventMiddleware \<Rightarrow> Event \<Rightarrow> Event list \<Rightarrow> Event list" where
  "EventMiddleware_emitApiEvent em e q = EventQueueImpl_emit (e\<lparr>ev_connectionId := em_connectionId em\<rparr>) q"

subsection \<open>Subscriptions\<close>

lemma remove_subscriptions_nil [simp]: "remove_subscriptions residue [] xs = xs"
  by (induction xs) simp_all

lemma count_list_distinct: "distinct xs \<Longrightarrow> count_list xs x = (if x \<in> set xs then 1 else 0)"
  by (induction xs) auto

lemma remove_subscriptions_mset:
  "distinct ids \<Longrightarrow> mset (remove_subscriptions residue ids xs) = mset xs - mset ids"
proof (induction xs arbitrary: ids)
  case (Cons x xs)
  show ?case
  proof (cases "x \<in> set ids")
    case True
    then have one: "count_list ids x - 1 = 0" using Cons.prems by (simp add: count_list_distinct)
    have "mset ids = add_mset x (mset (filter (\<lambda>y. y \<noteq> x) ids))"
    proof -
      have "filter (\<lambda>y. y \<noteq> x) ids = remove1 x ids"
        using distinct_remove1_removeAll [OF Cons.prems, of x] by (simp add: removeAll_filter_not_eq eq_commute [of _ x])
      then show ?thesis using True by simp
    qed
    then show ?thesis using True one Cons.IH [of "filter (\<lambda>y. y \<noteq> x) ids"] Cons.prems
      by (cases ids) (simp_all add: erase_removed_def)
  next
    case False
    then have "add_mset x (mset xs) - mset ids = add_mset x (mset xs - mset ids)" by simp
    then show ?thesis using False Cons by (cases ids) simp_all
  qed
qed simp

text \<open>Everything that can happen to the middleware between two events.\<close>

datatype 'cb middleware_op =
    AddListener "'cb option" | AddConnected "'cb option" | AddDisconnected "'cb option"
  | RemoveListener int | RemoveConnected int | RemoveDisconnected int
  | Subscribe int "string list" | Unsubscribe int "string list"

fun middleware_step ::
    "(string list \<Rightarrow> string \<Rightarrow> string list) \<Rightarrow> 'cb middleware_op \<Rightarrow> 'cb EventMiddleware \<Rightarrow> 'cb EventMiddleware" where
  "middleware_step residue (AddListener cb) em = snd (EventMiddleware_addNotificationEventListener cb em)"
| "middleware_step residue (AddConnected cb) em = snd (EventMiddleware_addConnectedEventListener cb em)"
| "middleware_step residue (AddDisconnected cb) em = snd (EventMiddleware_addDisconnectedEventListener cb em)"
| "middleware_step residue (RemoveListener j) em = EventMiddleware_removeNotificationEventListener j em"
| "middleware_step residue (RemoveConnected j) em = EventMiddleware_removeConnectedEventListener j em"
| "middleware_step residue (RemoveDisconnected j) em = EventMiddleware_removeDisconnectedEventListener j em"
| "middleware_step residue (Subscribe j ids) em = EventMiddleware_addSubscriptionIds j ids em"
| "middleware_step residue (Unsubscribe j ids) em = EventMiddleware_removeSubscriptionIds residue j ids em"

text \<open>
  How often listener \<open>i\<close> is subscribed to the id \<open>s\<close>: a subscription adds as many as its list names, an unsubscription
  takes one back, if there is one.
\<close>

fun subscribed :: "int \<Rightarrow> string \<Rightarrow> 'cb middleware_op \<Rightarrow> nat \<Rightarrow> nat" where
  "subscribed i s (Subscribe j ids) n = (if j = i then n + count_list ids s else n)"
| "subscribed i s (Unsubscribe j ids) n = (if j = i \<and> s \<in> set ids then n - 1 else n)"
| "subscribed i s _ n = n"

text \<open>Listener \<open>i\<close> is not removed, and its unsubscriptions name no id twice.\<close>

fun op_ok :: "int \<Rightarrow> 'cb middleware_op \<Rightarrow> bool" where
  "op_ok i (RemoveListener j) \<longleftrightarrow> j \<noteq> i"
| "op_ok i (Unsubscribe j ids) \<longleftrightarrow> (j = i \<longrightarrow> distinct ids)"
| "op_ok i _ \<longleftrightarrow> True"

lemma count_list_mset: "count_list xs s = count (mset xs) s"
  by (induction xs) auto

lemma count_after_removal:
  "distinct ids \<Longrightarrow> count_list (remove_subscriptions residue ids xs) s = count_list xs s - (if s \<in> set ids then 1 else 0)"
  by (simp add: count_list_mset remove_subscriptions_mset distinct_count_atmost_1)

lemmas middleware_defs =
  EventMiddleware_addNotificationEventListener_def EventMiddleware_addConnectedEventListener_def
  EventMiddleware_addDisconnectedEventListener_def EventMiddleware_addSubscriptionIds_def
  EventMiddleware_removeSubscriptionIds_def EventMiddleware_removeNotificationEventListener_def
  EventMiddleware_removeConnectedEventListener_def EventMiddleware_removeDisconnectedEventListener_def
  ThreadSaveMap_set_def ThreadSaveMap_erase_def ThreadSaveMap_updateValueIfExist_def

lemma next_id_Suc: "0 \<le> k \<Longrightarrow> k < 2 ^ 31 - 1 \<Longrightarrow> next_id k = k + 1"
  by (simp add: next_id_def)

lemma map_of_erase: "map_of (filter (\<lambda>(i, _). i \<noteq> k) m) j = (if j = k then None else map_of m j)"
  by (induction m) auto

lemma ordered_erase: "ordered m \<Longrightarrow> ordered (filter (\<lambda>(i, _). i \<noteq> k) m)"
  by (induction m) (auto simp: ordered_Cons)

text \<open>Numbers are given out upwards until the counter wraps; the listener map stays in order.\<close>

lemma middleware_step_id:
  "0 \<le> em_id em \<Longrightarrow> em_id em < 2 ^ 31 - 1 \<Longrightarrow>
     em_id em \<le> em_id (middleware_step residue op em) \<and> em_id (middleware_step residue op em) \<le> em_id em + 1"
  by (cases op) (simp_all add: middleware_defs next_id_Suc)

lemma middleware_step_ordered:
  "ordered (em_notificationsListeners em) \<Longrightarrow> ordered (em_notificationsListeners (middleware_step residue op em))"
  by (cases op) (auto simp: middleware_defs ordered_erase split: option.splits)

lemma middleware_run:
  "0 \<le> em_id em \<Longrightarrow> em_id em + int (length ops) < 2 ^ 31 \<Longrightarrow> ordered (em_notificationsListeners em) \<Longrightarrow>
   em_id em \<le> em_id (fold (middleware_step residue) ops em) \<and>
   em_id (fold (middleware_step residue) ops em) \<le> em_id em + int (length ops) \<and>
   ordered (em_notificationsListeners (fold (middleware_step residue) ops em))"
proof (induction ops arbitrary: em)
  case (Cons op ops)
  then have "em_id em \<le> em_id (middleware_step residue op em)" "em_id (middleware_step residue op em) \<le> em_id em + 1"
    using middleware_step_id [of em residue op] by auto
  then show ?case
    using Cons.IH [of "middleware_step residue op em"] Cons.prems middleware_step_ordered [of em residue op] by auto
qed auto

lemma middleware_step_get:
  assumes "map_of (em_notificationsListeners em) i = Some (cb, subs)" and "op_ok i op" and "i < em_id em"
  shows "\<exists>subs'. map_of (em_notificationsListeners (middleware_step residue op em)) i = Some (cb, subs') \<and>
    (\<forall>s. count_list subs' s = subscribed i s op (count_list subs s))"
  using assms by (cases op)
    (auto simp: middleware_defs count_after_removal map_of_erase split: option.splits)

lemma subscription_history:
  "map_of (em_notificationsListeners em) i = Some (cb, subs) \<Longrightarrow> list_all (op_ok i) ops \<Longrightarrow>
   0 \<le> i \<Longrightarrow> i < em_id em \<Longrightarrow> em_id em + int (length ops) < 2 ^ 31 \<Longrightarrow>
   \<exists>subs'. map_of (em_notificationsListeners (fold (middleware_step residue) ops em)) i = Some (cb, subs') \<and>
     (\<forall>s. count_list subs' s = fold (subscribed i s) ops (count_list subs s))"
proof (induction ops arbitrary: em subs)
  case (Cons op ops)
  obtain subs1 where subs1: "map_of (em_notificationsListeners (middleware_step residue op em)) i = Some (cb, subs1)"
      "\<And>s. count_list subs1 s = subscribed i s op (count_list subs s)"
    using middleware_step_get [OF Cons.prems(1) _ Cons.prems(4), of op residue] Cons.prems(2) by auto
  have "em_id em \<le> em_id (middleware_step residue op em)" "em_id (middleware_step residue op em) \<le> em_id em + 1"
    using middleware_step_id [of em residue op] Cons.prems(3-5) by auto
  then show ?case using Cons.IH [OF subs1(1)] Cons.prems(2-5) subs1(2) by auto
qed auto

lemma notify_listener_eq:
  "notify_listener ss i (Some f, subs) = (if set ss \<inter> set subs = {} then [] else [(i, f)])"
  by (induction ss) auto

lemma notify_listener_number: "(i, f) \<in> set (notify_listener ss j l) \<Longrightarrow> i = j"
  by (induction ss j l rule: notify_listener.induct) (auto split: if_splits option.splits)

lemma count_calls:
  assumes "ordered m" and "map_of m i = Some (Some f, subs)"
  shows "count_list (ThreadSaveMap_forAll (notify_listener ss) m) (i, f) = (if set ss \<inter> set subs = {} then 0 else 1)"
  using assms
proof (induction m)
  case (Cons p m)
  obtain j l where p: "p = (j, l)" by (cases p) blast
  have none: "count_list (ThreadSaveMap_forAll (notify_listener ss) r) (k, f) = 0" if "k \<notin> fst ` set r" for r k
    using that by (induction r) (auto simp: ThreadSaveMap_forAll_def count_list_0_iff dest: notify_listener_number)
  show ?case
  proof (cases "j = i")
    case True
    then have "l = (Some f, subs)" "i \<notin> fst ` set m" using Cons.prems by (auto simp: p ordered_Cons)
    then show ?thesis using True none [of i m]
      by (simp add: p ThreadSaveMap_forAll_def notify_listener_eq)
  next
    case False
    then have "count_list (notify_listener ss j l) (i, f) = 0" by (auto simp: count_list_0_iff dest: notify_listener_number)
    moreover have "count_list (ThreadSaveMap_forAll (notify_listener ss) m) (i, f) = (if set ss \<inter> set subs = {} then 0 else 1)"
      using Cons False by (auto simp: p ordered_Cons)
    ultimately show ?thesis by (simp add: p ThreadSaveMap_forAll_def)
  qed
qed simp

text \<open>
  C36. A listener gets an event exactly once when it is subscribed. A listener is added to a middleware after any
  history of additions, removals, subscriptions and unsubscriptions of listeners of all kinds, and any
  history follows in which it is not removed and its own unsubscriptions name no id twice. An emitted
  notification then calls it once if the event carries an id to which the listener is subscribed, counting
  every subscription and taking one back for every unsubscription that finds one, and not at all otherwise, however
  many of the event's ids match. The 32-bit counter of listener numbers must not wrap, which needs \<open>2 ^ 31\<close> operations.
\<close>

theorem EventMiddleware_delivers_once:
  assumes "EventMiddleware_addNotificationEventListener (Some f)
      (fold (middleware_step residue) before (EventMiddleware_new connectionId)) = (i, em)"
    and "list_all (op_ok i) after" and "int (length before + length after) < 2 ^ 31 - 1"
  shows "count_list (EventMiddleware_emitNotificationEvent e (fold (middleware_step residue) after em)) (i, f) =
    (if \<exists>s \<in> set (ne_subscriptions e). 0 < fold (subscribed i s) after 0 then 1 else 0)"
proof -
  let ?em0 = "fold (middleware_step residue) before (EventMiddleware_new connectionId) :: 'a EventMiddleware"
  have em0: "0 \<le> em_id ?em0" "em_id ?em0 \<le> int (length before)" "ordered (em_notificationsListeners ?em0)"
    using middleware_run [of "EventMiddleware_new connectionId" before residue] assms(3) by (simp_all add: EventMiddleware_new_def)
  have "next_id (em_id ?em0) = em_id ?em0 + 1" by (rule next_id_Suc) (use em0 assms(3) in auto)
  then have em: "i = em_id ?em0" "em_id em = i + 1" "map_of (em_notificationsListeners em) i = Some (Some f, [])"
      "ordered (em_notificationsListeners em)"
    using assms(1) em0(3) by (auto simp: EventMiddleware_addNotificationEventListener_def ThreadSaveMap_set_def)
  have len: "em_id em + int (length after) < 2 ^ 31" using em(1,2) em0(2) assms(3) by simp
  obtain subs where subs: "map_of (em_notificationsListeners (fold (middleware_step residue) after em)) i = Some (Some f, subs)"
      "\<And>s. count_list subs s = fold (subscribed i s) after 0"
    using subscription_history [OF em(3) assms(2) _ _ len, of residue] em(1,2) em0(1) by auto
  have ord: "ordered (em_notificationsListeners (fold (middleware_step residue) after em))"
    using middleware_run [OF _ len em(4), of residue] em(1,2) em0(1) by simp
  have "s \<in> set subs \<longleftrightarrow> 0 < fold (subscribed i s) after 0" for s
    unfolding subs(2) [symmetric] by (simp add: count_list_0_iff neq0_conv [symmetric])
  then show ?thesis
    unfolding EventMiddleware_emitNotificationEvent_def by (subst count_calls [OF ord subs(1)]) auto
qed

theorem EventMiddleware_delivers_once_witness:
  "count_list (EventMiddleware_emitNotificationEvent
      \<lparr>ne_type = ''t'', ne_data = JEmpty, ne_version = 1, ne_timestamp = 1, ne_subscriptions = [''a'', ''b'']\<rparr>
      (fold (middleware_step (\<lambda>_ _. []))
        [Subscribe 1 [''a'', ''b''], AddListener None, Subscribe 2 [''b''], Subscribe 1 [''a''], RemoveListener 0,
         Unsubscribe 2 [''b'', ''b''], Unsubscribe 1 [''a'']]
        (snd (EventMiddleware_addNotificationEventListener (Some True)
          (fold (middleware_step (\<lambda>_ _. [])) [AddListener (Some False)] (EventMiddleware_new 5)))))) (1, True) = 1"
proof -
  obtain em :: "bool EventMiddleware" where em: "EventMiddleware_addNotificationEventListener (Some True)
      (fold (middleware_step (\<lambda>_ _. [])) [AddListener (Some False)] (EventMiddleware_new 5)) = (1, em)"
    by (simp add: EventMiddleware_addNotificationEventListener_def EventMiddleware_new_def next_id_def)
  show ?thesis
    by (subst em, subst snd_conv, subst EventMiddleware_delivers_once [OF em]) simp_all
qed

end
