(* ===== verification/Core_Types.thy ===== *)
theory Core_Types
  imports Core_Items Core_EventMiddleware
begin

text \<open>
  Structures and small operations all modules use: paging (\<open>endpoint/core\<close>: \<open>Types.hpp\<close>,
  \<open>ListQueryMapper.hpp\<close>), events (\<open>Events.hpp\<close>, \<open>EventBuilder.hpp\<close>, \<open>Mapper.cpp\<close>), the lookup of a
  subscription (\<open>Subscriber.cpp\<close>), and the part of updating a container that decides which keys are sent.
\<close>

subsection \<open>Lists\<close>

record ListModel =
  lm_sortOrder :: string
  lm_skip :: int
  lm_limit :: int
  lm_lastId :: "string option"
  lm_sortBy :: "string option"
  lm_query :: "json option"

record PagingQuery =
  pq_skip :: int
  pq_limit :: int
  pq_sortOrder :: string
  pq_lastId :: "string option"
  pq_sortBy :: "string option"
  pq_queryAsJson :: "string option"

record 'a PagingList =
  pl_totalAvailable :: int
  pl_readItems :: "'a list"

text \<open>\<open>ListQueryMapper::map\<close>; the query is parsed, which may throw.\<close>

definition ListQueryMapper_map :: "poco_api \<Rightarrow> PagingQuery \<Rightarrow> (exn, ListModel) result" where
  "ListQueryMapper_map p listQuery =
     bindR (case pq_queryAsJson listQuery of None \<Rightarrow> Inr None
       | Some q \<Rightarrow> bindR (poco_parse p (bytes_of q)) (\<lambda>j. Inr (Some j))) (\<lambda>query.
     Inr \<lparr>lm_sortOrder = pq_sortOrder listQuery, lm_skip = pq_skip listQuery, lm_limit = pq_limit listQuery,
       lm_lastId = pq_lastId listQuery, lm_sortBy = pq_sortBy listQuery, lm_query = query\<rparr>)"

subsection \<open>Keys on the wire\<close>

definition KeyEntry_fromJSON :: "(string \<times> json) list \<Rightarrow> (exn, KeyEntry) result" where
  "KeyEntry_fromJSON ob =
     bindR (deserialize_string (json_get ob ''keyId'')) (\<lambda>keyId.
     Inr \<lparr>ent_keyId = keyId, ent_data = json_get ob ''data''\<rparr>)"

subsection \<open>Events\<close>

record CollectionItemChange =
  cic_itemId :: string
  cic_action :: string

record CollectionChangedEventData =
  cce_containerId :: string
  cce_affectedItemsCount :: int
  cce_containerType :: "string option"
  cce_items :: "CollectionItemChange list"

definition CollectionItemChange_fromJSON :: "(string \<times> json) list \<Rightarrow> (exn, CollectionItemChange) result" where
  "CollectionItemChange_fromJSON ob =
     bindR (deserialize_string (json_get ob ''itemId'')) (\<lambda>itemId.
     bindR (deserialize_string (json_get ob ''action'')) (\<lambda>action. Inr \<lparr>cic_itemId = itemId, cic_action = action\<rparr>))"

definition CollectionChangedEventData_fromJSON :: "poco_api \<Rightarrow> (string \<times> json) list \<Rightarrow> (exn, CollectionChangedEventData) result" where
  "CollectionChangedEventData_fromJSON p ob =
     bindR (deserialize_string (json_get ob ''containerId'')) (\<lambda>containerId.
     bindR (deserialize_int64 p (json_get ob ''affectedItemsCount'')) (\<lambda>affectedItemsCount.
     bindR (deserialize_optional deserialize_string (json_get ob ''containerType'')) (\<lambda>containerType.
     bindR (deserializeArray (deserialize_struct CollectionItemChange_fromJSON) (json_get ob ''items'')) (\<lambda>items.
     Inr \<lparr>cce_containerId = containerId, cce_affectedItemsCount = affectedItemsCount, cce_containerType = containerType,
       cce_items = items\<rparr>))))"

record CollectionChanged =
  cc_moduleType :: string
  cc_moduleId :: string
  cc_affectedItemsCount :: int
  cc_items :: "CollectionItemChange list"

definition mapToCollectionChangedEventData :: "string \<Rightarrow> CollectionChangedEventData \<Rightarrow> CollectionChanged" where
  "mapToCollectionChangedEventData moduleType data =
     \<lparr>cc_moduleType = moduleType, cc_moduleId = cce_containerId data, cc_affectedItemsCount = cce_affectedItemsCount data,
      cc_items = cce_items data\<rparr>"

text \<open>An event for the application, with the data of one of the kinds a module emits.\<close>

record 'd api_event =
  ev_channel :: string
  ev_data :: 'd
  ev_subscriptions :: "string list"
  ev_timestamp :: int

definition EventBuilder_buildEvent :: "string \<Rightarrow> 'd \<Rightarrow> NotificationEvent \<Rightarrow> 'd api_event" where
  "EventBuilder_buildEvent channel data notification =
     \<lparr>ev_channel = channel, ev_data = data, ev_subscriptions = ne_subscriptions notification,
      ev_timestamp = ne_timestamp notification\<rparr>"

text \<open>\<open>Subscriber::getSubscriptionQuery\<close>: the query of the first known subscription.\<close>

definition Subscriber_getSubscriptionQuery :: "(string \<times> string) list \<Rightarrow> string list \<Rightarrow> string option" where
  "Subscriber_getSubscriptionQuery subscriptions subscriptionIds =
     (case find (\<lambda>i. map_of subscriptions i \<noteq> None) subscriptionIds of None \<Rightarrow> None | Some i \<Rightarrow> map_of subscriptions i)"

subsection \<open>Keys of an updated container\<close>

text \<open>
  The keys an update sends: a new key for everybody when one is needed, and the present keys for
  the users who lack them.
\<close>

definition update_keys ::
    "'k connection \<Rightarrow> UsersKeysResolver \<Rightarrow> key_map \<Rightarrow> DecryptedEncKeyV2 \<Rightarrow> DataIntegrityObject \<Rightarrow> EncKeyLocation \<Rightarrow> bytes \<Rightarrow>
     (exn, nat, EncKey \<times> KeyEntrySet list) op" where
  "update_keys c resolver moduleKeys currentKey dio location secret =
     bindS (if ukr_needNewKey resolver
       then (\<lambda>d. case KeyProvider_generateKey (cn_env c) (cn_hex c) d of (key, d') \<Rightarrow>
         bindS (KeyProvider_prepareKeysList (cn_env c) (cn_hex c) (cn_userPrivKey c) (ukr_new_users resolver) key dio location secret)
           (\<lambda>keys. ret (key, keys)) d')
       else ret (EncKey.truncate currentKey, [])) (\<lambda>(key, keys).
     if ukr_usersToAddMissingKey resolver \<noteq> []
     then bindS (KeyProvider_prepareMissingKeysForNewUsers (cn_env c) (cn_hex c) (EndpointUtils_generateDIORandomId c)
       (cn_userPrivKey c) moduleKeys (ukr_usersToAddMissingKey resolver) dio location secret) (\<lambda>tmp. ret (key, keys @ tmp))
     else ret (key, keys))"

end
