(* ===== verification/Kvdb_Types.thy ===== *)
theory Kvdb_Types
  imports Core_Types
begin

text \<open>
  Data of the key-value stores: the structures of the Bridge's protocol
  (\<open>endpoint/kvdb/include/privmx/endpoint/kvdb/ServerTypes.hpp\<close>) with the conversions from JSON that
  notifications need, and the structures handed to the application (\<open>Types.hpp\<close>).
\<close>

subsection \<open>The Bridge's structures\<close>

record KvdbDataEntry =
  kde_keyId :: string
  kde_data :: json

record KvdbInfo =
  ki_id :: string
  ki_resourceId :: string
  ki_contextId :: string
  ki_createDate :: int
  ki_creator :: string
  ki_lastModificationDate :: int
  ki_lastModifier :: string
  ki_data :: "KvdbDataEntry list"
  ki_keyId :: string
  ki_users :: "string list"
  ki_managers :: "string list"
  ki_keys :: "KeyEntry list"
  ki_version :: int
  ki_type :: "string option"
  ki_policy :: json
  ki_entries :: int
  ki_lastEntryDate :: int

record KvdbCreateModel =
  kc_resourceId :: string
  kc_type :: string
  kc_contextId :: string
  kc_users :: "string list"
  kc_managers :: "string list"
  kc_data :: json
  kc_keyId :: string
  kc_keys :: "KeyEntrySet list"
  kc_policy :: "json option"

record KvdbUpdateModel =
  ku_id :: string
  ku_resourceId :: string
  ku_users :: "string list"
  ku_managers :: "string list"
  ku_data :: json
  ku_keyId :: string
  ku_keys :: "KeyEntrySet list"
  ku_version :: int
  ku_force :: bool
  ku_policy :: "json option"

record KvdbGetModel =
  kg_kvdbId :: string
  kg_type :: "string option"

record KvdbListModel = ListModel +
  kl_contextId :: string
  kl_type :: string

record KvdbListEntriesModel = ListModel +
  kle_kvdbId :: string

record KvdbEntryInfo =
  kei_kvdbEntryKey :: string
  kei_kvdbEntryValue :: json
  kei_kvdbId :: string
  kei_version :: int
  kei_contextId :: string
  kei_createDate :: int
  kei_author :: string
  kei_keyId :: string
  kei_lastModificationDate :: int
  kei_lastModifier :: string

record KvdbEntryGetModel =
  keg_kvdbId :: string
  keg_kvdbEntryKey :: string

record KvdbEntrySetModel =
  kes_kvdbId :: string
  kes_kvdbEntryKey :: string
  kes_kvdbEntryValue :: json
  kes_keyId :: string
  kes_version :: int

record KvdbEntryDeleteStatus =
  kds_kvdbEntryKey :: string
  kds_status :: string

subsection \<open>The application's structures\<close>

record Kvdb =
  kv_contextId :: string
  kv_kvdbId :: string
  kv_createDate :: int
  kv_creator :: string
  kv_lastModificationDate :: int
  kv_lastModifier :: string
  kv_users :: "string list"
  kv_managers :: "string list"
  kv_version :: int
  kv_publicMeta :: bytes
  kv_privateMeta :: bytes
  kv_entries :: int
  kv_lastEntryDate :: int
  kv_policy :: ContainerPolicy
  kv_statusCode :: int
  kv_schemaVersion :: int

record ServerKvdbEntryInfo =
  kvi_kvdbId :: string
  kvi_key :: string
  kvi_createDate :: int
  kvi_author :: string

record KvdbEntry =
  ke_info :: ServerKvdbEntryInfo
  ke_publicMeta :: bytes
  ke_privateMeta :: bytes
  ke_data :: bytes
  ke_authorPubKey :: string
  ke_entryVersion :: int
  ke_statusCode :: int
  ke_schemaVersion :: int

subsection \<open>Conversions from JSON\<close>

definition KvdbDataEntry_fromJSON :: "(string \<times> json) list \<Rightarrow> (exn, KvdbDataEntry) result" where
  "KvdbDataEntry_fromJSON ob =
     bindR (deserialize_string (json_get ob ''keyId'')) (\<lambda>keyId.
     Inr \<lparr>kde_keyId = keyId, kde_data = json_get ob ''data''\<rparr>)"

definition KvdbInfo_fromJSON :: "poco_api \<Rightarrow> (string \<times> json) list \<Rightarrow> (exn, KvdbInfo) result" where
  "KvdbInfo_fromJSON p ob =
     bindR (deserialize_string (json_get ob ''id'')) (\<lambda>id'.
     bindR (deserialize_string (json_get ob ''resourceId'')) (\<lambda>resourceId.
     bindR (deserialize_string (json_get ob ''contextId'')) (\<lambda>contextId.
     bindR (deserialize_int64 p (json_get ob ''createDate'')) (\<lambda>createDate.
     bindR (deserialize_string (json_get ob ''creator'')) (\<lambda>creator.
     bindR (deserialize_int64 p (json_get ob ''lastModificationDate'')) (\<lambda>lastModificationDate.
     bindR (deserialize_string (json_get ob ''lastModifier'')) (\<lambda>lastModifier.
     bindR (deserializeArray (deserialize_struct KvdbDataEntry_fromJSON) (json_get ob ''data'')) (\<lambda>data.
     bindR (deserialize_string (json_get ob ''keyId'')) (\<lambda>keyId.
     bindR (deserializeArray deserialize_string (json_get ob ''users'')) (\<lambda>users.
     bindR (deserializeArray deserialize_string (json_get ob ''managers'')) (\<lambda>managers.
     bindR (deserializeArray (deserialize_struct KeyEntry_fromJSON) (json_get ob ''keys'')) (\<lambda>keys.
     bindR (deserialize_int64 p (json_get ob ''version'')) (\<lambda>version.
     bindR (deserialize_optional deserialize_string (json_get ob ''type'')) (\<lambda>type.
     bindR (deserialize_int64 p (json_get ob ''entries'')) (\<lambda>entries.
     bindR (deserialize_int64 p (json_get ob ''lastEntryDate'')) (\<lambda>lastEntryDate.
     Inr \<lparr>ki_id = id', ki_resourceId = resourceId, ki_contextId = contextId, ki_createDate = createDate, ki_creator = creator,
       ki_lastModificationDate = lastModificationDate, ki_lastModifier = lastModifier, ki_data = data, ki_keyId = keyId,
       ki_users = users, ki_managers = managers, ki_keys = keys, ki_version = version, ki_type = type,
       ki_policy = json_get ob ''policy'', ki_entries = entries, ki_lastEntryDate = lastEntryDate\<rparr>))))))))))))))))"

definition KvdbEntryInfo_fromJSON :: "poco_api \<Rightarrow> (string \<times> json) list \<Rightarrow> (exn, KvdbEntryInfo) result" where
  "KvdbEntryInfo_fromJSON p ob =
     bindR (deserialize_string (json_get ob ''kvdbEntryKey'')) (\<lambda>kvdbEntryKey.
     bindR (deserialize_string (json_get ob ''kvdbId'')) (\<lambda>kvdbId.
     bindR (deserialize_int64 p (json_get ob ''version'')) (\<lambda>version.
     bindR (deserialize_string (json_get ob ''contextId'')) (\<lambda>contextId.
     bindR (deserialize_int64 p (json_get ob ''createDate'')) (\<lambda>createDate.
     bindR (deserialize_string (json_get ob ''author'')) (\<lambda>author.
     bindR (deserialize_string (json_get ob ''keyId'')) (\<lambda>keyId.
     bindR (deserialize_int64 p (json_get ob ''lastModificationDate'')) (\<lambda>lastModificationDate.
     bindR (deserialize_string (json_get ob ''lastModifier'')) (\<lambda>lastModifier.
     Inr \<lparr>kei_kvdbEntryKey = kvdbEntryKey, kei_kvdbEntryValue = json_get ob ''kvdbEntryValue'', kei_kvdbId = kvdbId,
       kei_version = version, kei_contextId = contextId, kei_createDate = createDate, kei_author = author, kei_keyId = keyId,
       kei_lastModificationDate = lastModificationDate, kei_lastModifier = lastModifier\<rparr>)))))))))"

text \<open>The remaining notifications: a deleted store, a deleted entry and new statistics.\<close>

definition KvdbDeletedEventData_fromJSON :: "(string \<times> json) list \<Rightarrow> (exn, string \<times> string option) result" where
  "KvdbDeletedEventData_fromJSON ob =
     bindR (deserialize_string (json_get ob ''kvdbId'')) (\<lambda>kvdbId.
     bindR (deserialize_optional deserialize_string (json_get ob ''type'')) (\<lambda>type. Inr (kvdbId, type)))"

definition KvdbDeletedEntryEventData_fromJSON :: "(string \<times> json) list \<Rightarrow> (exn, string \<times> string \<times> string option) result" where
  "KvdbDeletedEntryEventData_fromJSON ob =
     bindR (deserialize_string (json_get ob ''kvdbEntryKey'')) (\<lambda>kvdbEntryKey.
     bindR (deserialize_string (json_get ob ''kvdbId'')) (\<lambda>kvdbId.
     bindR (deserialize_optional deserialize_string (json_get ob ''containerType'')) (\<lambda>containerType.
     Inr (kvdbEntryKey, kvdbId, containerType))))"

record KvdbStatsEventData =
  kse_kvdbId :: string
  kse_contextId :: string
  kse_type :: "string option"
  kse_lastEntryDate :: int
  kse_entries :: int

definition KvdbStatsEventData_fromJSON :: "poco_api \<Rightarrow> (string \<times> json) list \<Rightarrow> (exn, KvdbStatsEventData) result" where
  "KvdbStatsEventData_fromJSON p ob =
     bindR (deserialize_string (json_get ob ''kvdbId'')) (\<lambda>kvdbId.
     bindR (deserialize_string (json_get ob ''contextId'')) (\<lambda>contextId.
     bindR (deserialize_optional deserialize_string (json_get ob ''type'')) (\<lambda>type.
     bindR (deserialize_int64 p (json_get ob ''lastEntryDate'')) (\<lambda>lastEntryDate.
     bindR (deserialize_int64 p (json_get ob ''entries'')) (\<lambda>entries.
     Inr \<lparr>kse_kvdbId = kvdbId, kse_contextId = contextId, kse_type = type, kse_lastEntryDate = lastEntryDate,
       kse_entries = entries\<rparr>)))))"

end
