(* ===== verification/Kvdb_KvdbApi.thy ===== *)
theory Kvdb_KvdbApi
  imports Kvdb_Types
begin

text \<open>
  The key-value stores (\<open>endpoint/kvdb/src/KvdbApiImpl.cpp\<close>): stores and entries are encrypted before
  they are sent to the Bridge; what comes back is checked against its integrity object, decrypted with
  keys the key provider accepts and attributed to users the application's verifier approves. The
  Bridge's requests (\<open>ServerApi.cpp\<close>) are a parameter. \<open>back()\<close> of an empty vector and reading a vector
  past its end are undefined in C++; here they are \<open>last\<close> and \<open>nth\<close>, of which nothing is known there.
\<close>

subsection \<open>The Bridge\<close>

record 's kvdb_server =
  sv_kvdbCreate :: "KvdbCreateModel \<Rightarrow> (exn, 's, string) op"
  sv_kvdbUpdate :: "KvdbUpdateModel \<Rightarrow> (exn, 's, unit) op"
  sv_kvdbDelete :: "string \<Rightarrow> (exn, 's, unit) op"
  sv_kvdbGet :: "KvdbGetModel \<Rightarrow> (exn, 's, KvdbInfo) op"
  sv_kvdbList :: "KvdbListModel \<Rightarrow> (exn, 's, KvdbInfo list \<times> int) op"
  sv_kvdbEntryGet :: "KvdbEntryGetModel \<Rightarrow> (exn, 's, KvdbEntryInfo) op"
  sv_kvdbEntrySet :: "KvdbEntrySetModel \<Rightarrow> (exn, 's, unit) op"
  sv_kvdbEntryDelete :: "KvdbEntryGetModel \<Rightarrow> (exn, 's, unit) op"
  sv_kvdbListKeys :: "KvdbListEntriesModel \<Rightarrow> (exn, 's, string list \<times> int) op"
  sv_kvdbListEntries :: "KvdbListEntriesModel \<Rightarrow> (exn, 's, KvdbInfo \<times> KvdbEntryInfo list \<times> int) op"
  sv_kvdbEntryDeleteMany :: "string \<Rightarrow> string list \<Rightarrow> (exn, 's, KvdbEntryDeleteStatus list) op"

definition KVDB_TYPE_FILTER_FLAG :: string where
  "KVDB_TYPE_FILTER_FLAG = ''kvdb''"

definition kvdb_entry_exns :: entry_exns where
  "kvdb_entry_exns = \<lparr>xx_format = KvdbExn InvalidEncryptedKvdbEntryDataVersionException,
     xx_mismatch = KvdbExn KvdbEntryPublicDataMismatchException\<rparr>"

subsection \<open>Stores\<close>

definition getKvdbDataEntryStructureVersion :: "'k connection \<Rightarrow> KvdbDataEntry \<Rightarrow> (exn, int) result" where
  "getKvdbDataEntryStructureVersion c kvdbEntry =
     (case kde_data kvdbEntry of
        JObject ob \<Rightarrow> bindR (VersionedData_fromJSON (en_poco (cn_env c)) ob) (\<lambda>version. Inr (if version = 5 then 5 else 0))
      | _ \<Rightarrow> Inr 0)"

definition convertServerKvdbToLibKvdb :: "'k connection \<Rightarrow> KvdbInfo \<Rightarrow> bytes \<Rightarrow> bytes \<Rightarrow> int \<Rightarrow> int \<Rightarrow> (exn, Kvdb) result" where
  "convertServerKvdbToLibKvdb c kvdb publicMeta privateMeta statusCode schemaVersion =
     bindR (Factory_parsePolicyServerObject (en_poco (cn_env c)) (cn_str c) (ki_policy kvdb)) (\<lambda>policy.
     Inr \<lparr>kv_contextId = ki_contextId kvdb, kv_kvdbId = ki_id kvdb, kv_createDate = ki_createDate kvdb,
       kv_creator = ki_creator kvdb, kv_lastModificationDate = ki_lastModificationDate kvdb,
       kv_lastModifier = ki_lastModifier kvdb, kv_users = ki_users kvdb, kv_managers = ki_managers kvdb,
       kv_version = ki_version kvdb, kv_publicMeta = publicMeta, kv_privateMeta = privateMeta,
       kv_entries = ki_entries kvdb, kv_lastEntryDate = ki_lastEntryDate kvdb, kv_policy = policy,
       kv_statusCode = statusCode, kv_schemaVersion = schemaVersion\<rparr>)"

definition convertDecryptedKvdbDataV5ToKvdb :: "'k connection \<Rightarrow> KvdbInfo \<Rightarrow> DecryptedModuleDataV5 \<Rightarrow> (exn, Kvdb) result" where
  "convertDecryptedKvdbDataV5ToKvdb c kvdbInfo kvdbData =
     convertServerKvdbToLibKvdb c kvdbInfo (md_publicMeta kvdbData) (md_privateMeta kvdbData) (md_statusCode kvdbData) 5"

definition decryptAndConvertKvdbDataToKvdb ::
    "'k connection \<Rightarrow> KvdbInfo \<Rightarrow> KvdbDataEntry \<Rightarrow> DecryptedEncKeyV2 \<Rightarrow> (exn, Kvdb \<times> DataIntegrityObject) result" where
  "decryptAndConvertKvdbDataToKvdb c kvdb kvdbEntry encKey =
     bindR (getKvdbDataEntryStructureVersion c kvdbEntry) (\<lambda>version.
     if version = 5 then
       let decrypted = decryptModuleDataV5 (cn_env c) (kde_data kvdbEntry) encKey
       in bindR (convertDecryptedKvdbDataV5ToKvdb c kvdb decrypted) (\<lambda>k. Inr (k, md_dio decrypted))
     else
       bindR (convertServerKvdbToLibKvdb c kvdb [] [] (status_of (KvdbExn UnknownKvdbFormatException)) 0) (\<lambda>k. Inr (k, no_dio)))"

definition assertKvdbDataIntegrity :: "'k connection \<Rightarrow> KvdbInfo \<Rightarrow> (exn, unit) result" where
  "assertKvdbDataIntegrity c kvdb =
     (let kvdb_data_entry = last (ki_data kvdb) in
      bindR (getKvdbDataEntryStructureVersion c kvdb_data_entry) (\<lambda>version.
      if version = 5 then
        bindR (deserialize_struct (EncryptedModuleDataV5_fromJSON (en_poco (cn_env c))) (kde_data kvdb_data_entry)) (\<lambda>kvdb_data.
        bindR (ModuleDataEncryptorV5_getDIOAndAssertIntegrity (cn_env c) kvdb_data) (\<lambda>dio.
        if dio_contextId dio \<noteq> ki_contextId kvdb \<or> dio_resourceId dio \<noteq> ki_resourceId kvdb \<or>
           dio_creatorUserId dio \<noteq> ki_lastModifier kvdb \<or>
           \<not> TimestampValidator_validate (dio_timestamp dio) (ki_lastModificationDate kvdb)
        then Inl (KvdbExn KvdbDataIntegrityException) else Inr ()))
      else Inl (KvdbExn UnknownKvdbFormatException)))"

definition validateKvdbDataIntegrity :: "'k connection \<Rightarrow> KvdbInfo \<Rightarrow> int" where
  "validateKvdbDataIntegrity c kvdb = (case assertKvdbDataIntegrity c kvdb of Inr _ \<Rightarrow> 0 | Inl e \<Rightarrow> status_of e)"

definition kvdb_location :: "KvdbInfo \<Rightarrow> EncKeyLocation" where
  "kvdb_location kvdb = \<lparr>el_contextId = ki_contextId kvdb, el_resourceId = ki_resourceId kvdb\<rparr>"

definition kvdb_request :: "Kvdb \<Rightarrow> DataIntegrityObject \<Rightarrow> VerificationRequest" where
  "kvdb_request k dio =
     \<lparr>vr_contextId = kv_contextId k, vr_senderId = kv_lastModifier k, vr_senderPubKey = dio_creatorPubKey dio,
      vr_date = kv_lastModificationDate k, vr_bridgeIdentity = dio_bridgeIdentity dio\<rparr>"

abbreviation put_kvdb_status :: "int \<Rightarrow> Kvdb \<Rightarrow> Kvdb" where
  "put_kvdb_status s k \<equiv> k\<lparr>kv_statusCode := s\<rparr>"

definition validateDecryptAndConvertKvdbDataToKvdb :: "'k connection \<Rightarrow> KvdbInfo \<Rightarrow> (exn, Kvdb) result" where
  "validateDecryptAndConvertKvdbDataToKvdb c kvdb =
     (let statusCode = validateKvdbDataIntegrity c kvdb in
      if statusCode \<noteq> 0 then convertServerKvdbToLibKvdb c kvdb [] [] statusCode 0
      else
        let kvdb_data_entry = last (ki_data kvdb); location = kvdb_location kvdb in
        bindR (bindR (keys_at c (KeyRequest_addOne (ki_keys kvdb) (kde_keyId kvdb_data_entry) location) location)
          (\<lambda>keys. unordered_map_at keys (kde_keyId kvdb_data_entry))) (\<lambda>key.
        bindR (decryptAndConvertKvdbDataToKvdb c kvdb kvdb_data_entry key)
          (verify_one (cn_verifier c) kv_statusCode put_kvdb_status kvdb_request)))"


subsection \<open>Lists of stores\<close>

definition Kvdb_new :: Kvdb where
  "Kvdb_new =
     \<lparr>kv_contextId = [], kv_kvdbId = [], kv_createDate = 0, kv_creator = [], kv_lastModificationDate = 0, kv_lastModifier = [],
      kv_users = [], kv_managers = [], kv_version = 0, kv_publicMeta = [], kv_privateMeta = [], kv_entries = 0,
      kv_lastEntryDate = 0, kv_policy = empty_policy, kv_statusCode = 0, kv_schemaVersion = 0\<rparr>"

definition request_kvdb_keys :: "KvdbInfo list \<Rightarrow> (exn, KeyRequest, unit list) op" where
  "request_kvdb_keys = mapS (\<lambda>kvdb. KeyRequest_addOne (ki_keys kvdb) (kde_keyId (last (ki_data kvdb))) (kvdb_location kvdb))"

definition get_kvdb_keys :: "'k connection \<Rightarrow> KvdbInfo list \<Rightarrow> (exn, (EncKeyLocation \<times> key_map) list) result" where
  "get_kvdb_keys c kvdbs =
     bindR (case request_kvdb_keys kvdbs KeyRequest_new of (Inl e, _) \<Rightarrow> Inl e | (Inr _, r) \<Rightarrow> Inr r)
       (KeyProvider_getKeysAndVerify (cn_env c) (cn_userPrivKey c) (cn_verifier c))"

definition decrypt_kvdb ::
    "'k connection \<Rightarrow> (EncKeyLocation \<times> key_map) list \<Rightarrow> KvdbInfo \<Rightarrow> (exn, Kvdb \<times> DataIntegrityObject) result" where
  "decrypt_kvdb c kvdbsKeys kvdb =
     bindR (at_location kvdbsKeys (kvdb_location kvdb)) (\<lambda>keys.
     bindR (unordered_map_at keys (kde_keyId (last (ki_data kvdb)))) (\<lambda>key.
     decryptAndConvertKvdbDataToKvdb c kvdb (last (ki_data kvdb)) key))"

definition failed_kvdb :: "'k connection \<Rightarrow> KvdbInfo \<Rightarrow> int \<Rightarrow> (exn, Kvdb) result" where
  "failed_kvdb c kvdb statusCode = convertServerKvdbToLibKvdb c kvdb [] [] statusCode 0"

definition validateDecryptAndConvertKvdbsDataToKvdbs :: "'k connection \<Rightarrow> KvdbInfo list \<Rightarrow> (exn, Kvdb list) result" where
  "validateDecryptAndConvertKvdbsDataToKvdbs c =
     read_containers (cn_verifier c) (validateKvdbDataIntegrity c) (failed_kvdb c) Kvdb_new (get_kvdb_keys c) (decrypt_kvdb c)
       kv_statusCode put_kvdb_status kvdb_request"

subsection \<open>Entries\<close>

definition getEntryDataStructureVersion :: "'k connection \<Rightarrow> KvdbEntryInfo \<Rightarrow> (exn, int) result" where
  "getEntryDataStructureVersion c entry =
     (case kei_kvdbEntryValue entry of
        JObject ob \<Rightarrow> bindR (VersionedData_fromJSON (en_poco (cn_env c)) ob) (\<lambda>version. Inr (if version = 5 then 5 else 0))
      | _ \<Rightarrow> Inr 0)"

definition decryptKvdbEntryDataV5 :: "'k connection \<Rightarrow> KvdbEntryInfo \<Rightarrow> DecryptedEncKeyV2 \<Rightarrow> DecryptedEntryDataV5" where
  "decryptKvdbEntryDataV5 c entry encKey =
     (case deserialize_struct (EncryptedEntryDataV5_fromJSON (en_poco (cn_env c))) (kei_kvdbEntryValue entry) of
        Inl x \<Rightarrow> DecryptedEntryDataV5_new\<lparr>xd_statusCode := status_of x\<rparr>
      | Inr e \<Rightarrow>
          if k2_statusCode encKey \<noteq> 0
          then (EntryDataEncryptorV5_extractPublic (cn_env c) kvdb_entry_exns e)\<lparr>xd_statusCode := k2_statusCode encKey\<rparr>
          else EntryDataEncryptorV5_decrypt (cn_env c) kvdb_entry_exns e (ek_key encKey))"

definition convertServerKvdbEntryToLibKvdbEntry ::
    "KvdbEntryInfo \<Rightarrow> bytes \<Rightarrow> bytes \<Rightarrow> bytes \<Rightarrow> string \<Rightarrow> int \<Rightarrow> int \<Rightarrow> KvdbEntry" where
  "convertServerKvdbEntryToLibKvdbEntry entry publicMeta privateMeta data authorPubKey statusCode schemaVersion =
     \<lparr>ke_info = \<lparr>kvi_kvdbId = kei_kvdbId entry, kvi_key = kei_kvdbEntryKey entry, kvi_createDate = kei_createDate entry,
        kvi_author = kei_author entry\<rparr>,
      ke_publicMeta = publicMeta, ke_privateMeta = privateMeta, ke_data = data, ke_authorPubKey = authorPubKey,
      ke_entryVersion = kei_version entry, ke_statusCode = statusCode, ke_schemaVersion = schemaVersion\<rparr>"

definition convertDecryptedKvdbEntryDataV5ToKvdbEntry :: "KvdbEntryInfo \<Rightarrow> DecryptedEntryDataV5 \<Rightarrow> KvdbEntry" where
  "convertDecryptedKvdbEntryDataV5ToKvdbEntry entry entryData =
     convertServerKvdbEntryToLibKvdbEntry entry (xd_publicMeta entryData) (xd_privateMeta entryData) (xd_data entryData)
       (xd_authorPubKey entryData) (xd_statusCode entryData) 5"

definition failed_entry :: "KvdbEntryInfo \<Rightarrow> int \<Rightarrow> KvdbEntry" where
  "failed_entry entry statusCode = convertServerKvdbEntryToLibKvdbEntry entry [] [] [] [] statusCode 0"

definition decryptAndConvertEntryDataToEntry ::
    "'k connection \<Rightarrow> KvdbEntryInfo \<Rightarrow> DecryptedEncKeyV2 \<Rightarrow> (exn, KvdbEntry \<times> DataIntegrityObject) result" where
  "decryptAndConvertEntryDataToEntry c entry encKey =
     bindR (getEntryDataStructureVersion c entry) (\<lambda>version.
     if version = 5 then
       let decryptEntry = decryptKvdbEntryDataV5 c entry encKey
       in Inr (convertDecryptedKvdbEntryDataV5ToKvdbEntry entry decryptEntry, xd_dio decryptEntry)
     else Inr (failed_entry entry (status_of (KvdbExn UnknownKvdbEntryFormatException)), no_dio))"

definition assert_entry_integrity :: "'k connection \<Rightarrow> KvdbEntryInfo \<Rightarrow> string \<Rightarrow> (exn, unit) result" where
  "assert_entry_integrity c entry kvdbResourceId =
     bindR (getEntryDataStructureVersion c entry) (\<lambda>version.
     if version = 5 then
       bindR (deserialize_struct (EncryptedEntryDataV5_fromJSON (en_poco (cn_env c))) (kei_kvdbEntryValue entry)) (\<lambda>encData.
       bindR (EntryDataEncryptorV5_getDIOAndAssertIntegrity (cn_env c) kvdb_entry_exns encData) (\<lambda>dio.
       if dio_contextId dio \<noteq> kei_contextId entry \<or> dio_resourceId dio \<noteq> kei_kvdbEntryKey entry \<or>
          dio_containerId dio \<noteq> Some (kei_kvdbId entry) \<or> dio_containerResourceId dio \<noteq> Some kvdbResourceId \<or>
          dio_creatorUserId dio \<noteq> kei_lastModifier entry \<or>
          \<not> TimestampValidator_validate (dio_timestamp dio) (kei_lastModificationDate entry)
       then Inl (KvdbExn KvdbEntryDataIntegrityException) else Inr ()))
     else Inl (KvdbExn UnknownKvdbEntryFormatException))"

text \<open>The statuses the code returns are those of the exceptions of the same name.\<close>

definition validateEntryDataIntegrity :: "'k connection \<Rightarrow> KvdbEntryInfo \<Rightarrow> string \<Rightarrow> int" where
  "validateEntryDataIntegrity c entry kvdbResourceId =
     (case assert_entry_integrity c entry kvdbResourceId of Inr _ \<Rightarrow> 0 | Inl e \<Rightarrow> status_of e)"

definition entry_request :: "string \<Rightarrow> KvdbEntry \<Rightarrow> BridgeIdentity option \<Rightarrow> VerificationRequest" where
  "entry_request contextId e bridgeIdentity =
     \<lparr>vr_contextId = contextId, vr_senderId = kvi_author (ke_info e), vr_senderPubKey = ke_authorPubKey e,
      vr_date = kvi_createDate (ke_info e), vr_bridgeIdentity = bridgeIdentity\<rparr>"

abbreviation put_entry_status :: "int \<Rightarrow> KvdbEntry \<Rightarrow> KvdbEntry" where
  "put_entry_status s e \<equiv> e\<lparr>ke_statusCode := s\<rparr>"

definition decrypt_single_entry :: "'k connection \<Rightarrow> KvdbEntryInfo \<Rightarrow> ModuleKeys \<Rightarrow> (exn, KvdbEntry) result" where
  "decrypt_single_entry c entry kvdbKeys =
     (let location = \<lparr>el_contextId = kei_contextId entry, el_resourceId = mk_moduleResourceId kvdbKeys\<rparr> in
      bindR (bindR (keys_at c (KeyRequest_addOne (mk_keys kvdbKeys) (kei_keyId entry) location) location)
        (\<lambda>keys. unordered_map_at keys (kei_keyId entry))) (\<lambda>encKey.
      bindR (decryptAndConvertEntryDataToEntry c entry encKey)
        (verify_one (cn_verifier c) ke_statusCode put_entry_status
          (\<lambda>r entryDIO. entry_request (kei_contextId entry) r (dio_bridgeIdentity entryDIO)))))"

definition validateDecryptAndConvertEntryDataToEntry :: "'k connection \<Rightarrow> KvdbEntryInfo \<Rightarrow> ModuleKeys \<Rightarrow> KvdbEntry" where
  "validateDecryptAndConvertEntryDataToEntry c entry kvdbKeys =
     (let statusCode = validateEntryDataIntegrity c entry (mk_moduleResourceId kvdbKeys) in
      if statusCode \<noteq> 0 then failed_entry entry statusCode
      else case decrypt_single_entry c entry kvdbKeys of Inr r \<Rightarrow> r | Inl e \<Rightarrow> failed_entry entry (status_of e))"


subsection \<open>Events\<close>

datatype kvdb_event_data =
    KvdbCreatedEvent Kvdb
  | KvdbUpdatedEvent Kvdb
  | KvdbDeletedEvent string
  | KvdbStatsChangedEvent string int int
  | KvdbNewEntryEvent KvdbEntry
  | KvdbEntryUpdatedEvent KvdbEntry
  | KvdbEntryDeletedEvent string string
  | KvdbCollectionChangedEvent CollectionChanged

type_synonym kvdb_event = "kvdb_event_data api_event"

subsection \<open>Lists of entries\<close>

definition decrypt_listed_entry ::
    "'k connection \<Rightarrow> key_map \<Rightarrow> string \<Rightarrow> KvdbEntryInfo \<Rightarrow> (exn, KvdbEntry \<times> DataIntegrityObject) result" where
  "decrypt_listed_entry c keyMap kvdbResourceId entry =
     bindR (assert_entry_integrity c entry kvdbResourceId) (\<lambda>_.
     bindR (unordered_map_at keyMap (kei_keyId entry)) (decryptAndConvertEntryDataToEntry c entry))"

definition decrypt_entries ::
    "'k connection \<Rightarrow> key_map \<Rightarrow> string \<Rightarrow> KvdbEntryInfo list \<Rightarrow> KvdbEntry list \<times> DataIntegrityObject list" where
  "decrypt_entries c keyMap kvdbResourceId =
     decrypt_items (decrypt_listed_entry c keyMap kvdbResourceId) failed_entry put_entry_status []"

definition validateDecryptAndConvertKvdbEntriesDataToKvdbEntries ::
    "'k connection \<Rightarrow> KvdbEntryInfo list \<Rightarrow> ModuleKeys \<Rightarrow> (exn, KvdbEntry list) result" where
  "validateDecryptAndConvertKvdbEntriesDataToKvdbEntries c entries kvdbKeys =
     (let keyIds = sorted_list_of_set (set (map kei_keyId entries));
          location = \<lparr>el_contextId = mk_contextId kvdbKeys, el_resourceId = mk_moduleResourceId kvdbKeys\<rparr> in
      bindR (keys_at c (KeyRequest_addMany (mk_keys kvdbKeys) keyIds location) location) (\<lambda>keyMap.
      verify_items (cn_verifier c) ke_statusCode put_entry_status (entry_request (mk_contextId kvdbKeys))
        (decrypt_entries c keyMap (mk_moduleResourceId kvdbKeys) entries)))"

subsection \<open>Keys\<close>

type_synonym ('s, 'a) kvdb_op = "(exn, ('s, kvdb_event) api_state, 'a) op"

definition kvdbToModuleKeys :: "'k connection \<Rightarrow> KvdbInfo \<Rightarrow> (exn, ModuleKeys) result" where
  "kvdbToModuleKeys c kvdb =
     bindR (getKvdbDataEntryStructureVersion c (last (ki_data kvdb))) (\<lambda>version.
     Inr \<lparr>mk_keys = ki_keys kvdb, mk_currentKeyId = ki_keyId kvdb, mk_moduleSchemaVersion = version,
       mk_moduleResourceId = ki_resourceId kvdb, mk_contextId = ki_contextId kvdb\<rparr>)"

definition kvdb_getModuleKeysAndVersionFromServer ::
    "'k connection \<Rightarrow> 's kvdb_server \<Rightarrow> string \<Rightarrow> ('s, ModuleKeys \<times> int) kvdb_op" where
  "kvdb_getModuleKeysAndVersionFromServer c sv moduleId =
     bindS (requesting (sv_kvdbGet sv \<lparr>kg_kvdbId = moduleId, kg_type = None\<rparr>)) (\<lambda>kvdb.
     bindS (liftR (assertKvdbDataIntegrity c kvdb)) (\<lambda>_.
     bindS (liftR (kvdbToModuleKeys c kvdb)) (\<lambda>keys. ret (keys, ki_version kvdb))))"

definition getEntryDecryptionKeys :: "'k connection \<Rightarrow> 's kvdb_server \<Rightarrow> KvdbEntryInfo \<Rightarrow> ('s, ModuleKeys) kvdb_op" where
  "getEntryDecryptionKeys c sv entry =
     bindS (liftR (getEntryDataStructureVersion c entry)) (\<lambda>version.
     getModuleKeys (kvdb_getModuleKeysAndVersionFromServer c sv) (kei_kvdbId entry) (Some [kei_keyId entry]) (Some version))"

definition cache_keys :: "'k connection \<Rightarrow> KvdbInfo \<Rightarrow> ('s, unit) kvdb_op" where
  "cache_keys c kvdb =
     bindS (liftR (kvdbToModuleKeys c kvdb)) (\<lambda>keys. setNewModuleKeysInCache (ki_id kvdb) keys (ki_version kvdb))"

subsection \<open>Operations on stores\<close>

definition createKvdbEx ::
    "'k connection \<Rightarrow> 's kvdb_server \<Rightarrow> string \<Rightarrow> UserWithPubKey list \<Rightarrow> UserWithPubKey list \<Rightarrow> bytes \<Rightarrow> bytes \<Rightarrow> string \<Rightarrow>
     ContainerPolicy option \<Rightarrow> ('s, string) kvdb_op" where
  "createKvdbEx c sv contextId users managers publicMeta privateMeta type policies =
     bindS (drawn (KeyProvider_generateKey (cn_env c) (cn_hex c))) (\<lambda>kvdbKey.
     bindS (drawn (EndpointUtils_generateId c)) (\<lambda>resourceId.
     bindS (drawing (ConnectionImpl_createDIO c contextId resourceId None None)) (\<lambda>kvdbDIO.
     bindS (drawn (KeyProvider_generateSecret (cn_env c) (cn_hex c))) (\<lambda>kvdbSecret.
     bindS (drawing (ModuleDataEncryptorV5_encrypt (cn_env c)
       \<lparr>mt_publicMeta = publicMeta, mt_privateMeta = privateMeta,
        mt_internalMeta = \<lparr>mi_secret = text_of kvdbSecret, mi_resourceId = resourceId, mi_randomId = dio_randomId kvdbDIO\<rparr>,
        mt_dio = kvdbDIO\<rparr> (cn_userPrivKey c) (ek_key kvdbKey))) (\<lambda>data.
     bindS (drawing (KeyProvider_prepareKeysList (cn_env c) (cn_hex c) (cn_userPrivKey c)
       (EndpointUtils_uniqueListUserWithPubKey users managers) kvdbKey kvdbDIO
       \<lparr>el_contextId = contextId, el_resourceId = resourceId\<rparr> kvdbSecret)) (\<lambda>keys.
     requesting (sv_kvdbCreate sv
       \<lparr>kc_resourceId = resourceId, kc_type = type, kc_contextId = contextId, kc_users = map up_userId users,
        kc_managers = map up_userId managers, kc_data = EncryptedModuleDataV5_toJSON data, kc_keyId = ek_id kvdbKey,
        kc_keys = keys, kc_policy = map_option Factory_createPolicyServerObject policies\<rparr>)))))))"

definition createKvdb ::
    "'k connection \<Rightarrow> 's kvdb_server \<Rightarrow> string \<Rightarrow> UserWithPubKey list \<Rightarrow> UserWithPubKey list \<Rightarrow> bytes \<Rightarrow> bytes \<Rightarrow>
     ContainerPolicy option \<Rightarrow> ('s, string) kvdb_op" where
  "createKvdb c sv contextId users managers publicMeta privateMeta policies =
     createKvdbEx c sv contextId users managers publicMeta privateMeta KVDB_TYPE_FILTER_FLAG policies"

definition updateKvdb ::
    "'k connection \<Rightarrow> 's kvdb_server \<Rightarrow> string \<Rightarrow> UserWithPubKey list \<Rightarrow> UserWithPubKey list \<Rightarrow> bytes \<Rightarrow> bytes \<Rightarrow> int \<Rightarrow> bool \<Rightarrow> bool \<Rightarrow>
     ContainerPolicy option \<Rightarrow> ('s, unit) kvdb_op" where
  "updateKvdb c sv kvdbId users managers publicMeta privateMeta version force forceGenerateNewKey policies =
     bindS (requesting (sv_kvdbGet sv \<lparr>kg_kvdbId = kvdbId, kg_type = None\<rparr>)) (\<lambda>currentKvdb.
     let currentKvdbEntry = last (ki_data currentKvdb); location = kvdb_location currentKvdb in
     bindS (liftR (getAndValidateModuleKeys c (ki_contextId currentKvdb) (ki_keys currentKvdb) (ki_resourceId currentKvdb))) (\<lambda>kvdbKeys.
     bindS (liftR (findEncKeyByKeyId kvdbKeys (kde_keyId currentKvdbEntry))) (\<lambda>currentKvdbKey.
     bindS (liftR (extractAndDecryptModuleInternalMeta (cn_env c) (kde_data currentKvdbEntry) currentKvdbKey)) (\<lambda>kvdbInternalMeta.
     let resolver = UsersKeysResolver_create (ki_users currentKvdb) (ki_managers currentKvdb) users managers
           forceGenerateNewKey currentKvdbKey;
         secret = bytes_of (mi_secret kvdbInternalMeta) in
     if \<not> KeyProvider_verifyKeysSecret (cn_env c) kvdbKeys location secret
     then throw (KvdbExn KvdbEncryptionKeyValidationException)
     else
       bindS (drawing (ConnectionImpl_createDIO c (ki_contextId currentKvdb) (ki_resourceId currentKvdb) None None)) (\<lambda>updateKvdbDio.
       bindS (drawing (update_keys c resolver kvdbKeys currentKvdbKey updateKvdbDio location secret)) (\<lambda>(kvdbKey, keys).
       bindS (drawing (ModuleDataEncryptorV5_encrypt (cn_env c)
         \<lparr>mt_publicMeta = publicMeta, mt_privateMeta = privateMeta,
          mt_internalMeta = \<lparr>mi_secret = mi_secret kvdbInternalMeta, mi_resourceId = ki_resourceId currentKvdb,
            mi_randomId = dio_randomId updateKvdbDio\<rparr>,
          mt_dio = updateKvdbDio\<rparr> (cn_userPrivKey c) (ek_key kvdbKey))) (\<lambda>data.
       bindS (requesting (sv_kvdbUpdate sv
         \<lparr>ku_id = kvdbId, ku_resourceId = ki_resourceId currentKvdb, ku_users = map up_userId users,
          ku_managers = map up_userId managers, ku_data = EncryptedModuleDataV5_toJSON data, ku_keyId = ek_id kvdbKey,
          ku_keys = keys, ku_version = version, ku_force = force,
          ku_policy = map_option Factory_createPolicyServerObject policies\<rparr>)) (\<lambda>_.
       invalidateModuleKeysInCache (Some kvdbId)))))))))"

definition deleteKvdb :: "'s kvdb_server \<Rightarrow> string \<Rightarrow> ('s, unit) kvdb_op" where
  "deleteKvdb sv kvdbId =
     bindS (requesting (sv_kvdbDelete sv kvdbId)) (\<lambda>_. invalidateModuleKeysInCache (Some kvdbId))"

definition getKvdbEx :: "'k connection \<Rightarrow> 's kvdb_server \<Rightarrow> string \<Rightarrow> string \<Rightarrow> ('s, Kvdb) kvdb_op" where
  "getKvdbEx c sv kvdbId type =
     bindS (requesting (sv_kvdbGet sv \<lparr>kg_kvdbId = kvdbId, kg_type = (if type \<noteq> [] then Some type else None)\<rparr>)) (\<lambda>kvdb.
     bindS (cache_keys c kvdb) (\<lambda>_.
     liftR (validateDecryptAndConvertKvdbDataToKvdb c kvdb)))"

definition getKvdb :: "'k connection \<Rightarrow> 's kvdb_server \<Rightarrow> string \<Rightarrow> ('s, Kvdb) kvdb_op" where
  "getKvdb c sv kvdbId = getKvdbEx c sv kvdbId KVDB_TYPE_FILTER_FLAG"

definition listKvdbsEx :: "'k connection \<Rightarrow> 's kvdb_server \<Rightarrow> string \<Rightarrow> PagingQuery \<Rightarrow> string \<Rightarrow> ('s, Kvdb PagingList) kvdb_op" where
  "listKvdbsEx c sv contextId pagingQuery type =
     bindS (liftR (ListQueryMapper_map (en_poco (cn_env c)) pagingQuery)) (\<lambda>model.
     bindS (requesting (sv_kvdbList sv (ListModel.extend model (KvdbListModel.fields contextId type)))) (\<lambda>(kvdbs, count).
     bindS (mapS (cache_keys c) kvdbs) (\<lambda>_.
     bindS (liftR (validateDecryptAndConvertKvdbsDataToKvdbs c kvdbs)) (\<lambda>items.
     ret \<lparr>pl_totalAvailable = count, pl_readItems = items\<rparr>))))"

definition listKvdbs :: "'k connection \<Rightarrow> 's kvdb_server \<Rightarrow> string \<Rightarrow> PagingQuery \<Rightarrow> ('s, Kvdb PagingList) kvdb_op" where
  "listKvdbs c sv contextId pagingQuery = listKvdbsEx c sv contextId pagingQuery KVDB_TYPE_FILTER_FLAG"


subsection \<open>Operations on entries\<close>

definition getEntry :: "'k connection \<Rightarrow> 's kvdb_server \<Rightarrow> string \<Rightarrow> string \<Rightarrow> ('s, KvdbEntry) kvdb_op" where
  "getEntry c sv kvdbId key =
     bindS (requesting (sv_kvdbEntryGet sv \<lparr>keg_kvdbId = kvdbId, keg_kvdbEntryKey = key\<rparr>)) (\<lambda>entry.
     bindS (getEntryDecryptionKeys c sv entry) (\<lambda>keys.
     ret (validateDecryptAndConvertEntryDataToEntry c entry keys)))"

definition KvdbEntryDoesNotExist_code :: nat where
  "KvdbEntryDoesNotExist_code = endpoint_code 0xF000 0x613D"

definition InvalidKeyId_code :: nat where
  "InvalidKeyId_code = endpoint_code 0xF000 0x6015"

definition hasEntry :: "'s kvdb_server \<Rightarrow> string \<Rightarrow> string \<Rightarrow> ('s, bool) kvdb_op" where
  "hasEntry sv kvdbId key =
     catch_privmx
       (bindS (requesting (sv_kvdbEntryGet sv \<lparr>keg_kvdbId = kvdbId, keg_kvdbEntryKey = key\<rparr>)) (\<lambda>_. ret True))
       privmx_exception
       (\<lambda>e. if ExceptionConverter_convert e = KvdbEntryDoesNotExist_code then ret False else throw (PrivmxExn e))"

definition listEntriesKeys :: "'k connection \<Rightarrow> 's kvdb_server \<Rightarrow> string \<Rightarrow> PagingQuery \<Rightarrow> ('s, string PagingList) kvdb_op" where
  "listEntriesKeys c sv kvdbId pagingQuery =
     bindS (liftR (ListQueryMapper_map (en_poco (cn_env c)) pagingQuery)) (\<lambda>model.
     bindS (requesting (sv_kvdbListKeys sv (ListModel.extend model (KvdbListEntriesModel.fields kvdbId)))) (\<lambda>(keys, count).
     ret \<lparr>pl_totalAvailable = count, pl_readItems = keys\<rparr>))"

definition listEntries :: "'k connection \<Rightarrow> 's kvdb_server \<Rightarrow> string \<Rightarrow> PagingQuery \<Rightarrow> ('s, KvdbEntry PagingList) kvdb_op" where
  "listEntries c sv kvdbId pagingQuery =
     bindS (liftR (ListQueryMapper_map (en_poco (cn_env c)) pagingQuery)) (\<lambda>model.
     bindS (requesting (sv_kvdbListEntries sv (ListModel.extend model (KvdbListEntriesModel.fields kvdbId)))) (\<lambda>(kvdb, entries, count).
     bindS (liftR (assertKvdbDataIntegrity c kvdb)) (\<lambda>_.
     bindS (cache_keys c kvdb) (\<lambda>_.
     bindS (liftR (bindR (kvdbToModuleKeys c kvdb) (validateDecryptAndConvertKvdbEntriesDataToKvdbEntries c entries))) (\<lambda>items.
     ret \<lparr>pl_totalAvailable = count, pl_readItems = items\<rparr>)))))"

definition encryptEntryData ::
    "'k connection \<Rightarrow> string \<Rightarrow> string \<Rightarrow> bytes \<Rightarrow> bytes \<Rightarrow> bytes \<Rightarrow> ModuleKeys \<Rightarrow> (exn, nat, json) op" where
  "encryptEntryData c kvdbId resourceId publicMeta privateMeta data kvdbKeys =
     bindS (liftR (getAndValidateModuleCurrentEncKey c kvdbKeys)) (\<lambda>msgKey.
     if k2_dataStructureVersion msgKey = 2 then
       bindS (ConnectionImpl_createDIO c (mk_contextId kvdbKeys) resourceId (Some kvdbId) (Some (mk_moduleResourceId kvdbKeys))) (\<lambda>entryDIO.
       bindS (EntryDataEncryptorV5_encrypt (cn_env c)
         \<lparr>xt_publicMeta = publicMeta, xt_privateMeta = privateMeta, xt_data = data, xt_internalMeta = None, xt_dio = entryDIO\<rparr>
         (cn_userPrivKey c) (ek_key msgKey)) (\<lambda>e. ret (EncryptedEntryDataV5_toJSON e)))
     else throw (KvdbExn UnknownKvdbFormatException))"

definition setEntryRequest ::
    "'k connection \<Rightarrow> 's kvdb_server \<Rightarrow> string \<Rightarrow> string \<Rightarrow> bytes \<Rightarrow> bytes \<Rightarrow> bytes \<Rightarrow> int \<Rightarrow> ModuleKeys \<Rightarrow> ('s, unit) kvdb_op" where
  "setEntryRequest c sv kvdbId key publicMeta privateMeta data version keys =
     bindS (liftR (getAndValidateModuleCurrentEncKey c keys)) (\<lambda>msgKey.
     if k2_statusCode msgKey \<noteq> 0 then throw (KvdbExn KvdbEncryptionKeyValidationException)
     else
       bindS (drawing (encryptEntryData c kvdbId key publicMeta privateMeta data keys)) (\<lambda>value.
       requesting (sv_kvdbEntrySet sv
         \<lparr>kes_kvdbId = kvdbId, kes_kvdbEntryKey = key, kes_kvdbEntryValue = value, kes_keyId = ek_id msgKey,
          kes_version = version\<rparr>)))"

definition setEntry ::
    "'k connection \<Rightarrow> 's kvdb_server \<Rightarrow> string \<Rightarrow> string \<Rightarrow> bytes \<Rightarrow> bytes \<Rightarrow> bytes \<Rightarrow> int \<Rightarrow> ('s, unit) kvdb_op" where
  "setEntry c sv kvdbId key publicMeta privateMeta data version =
     catch_privmx
       (bindS (getModuleKeys (kvdb_getModuleKeysAndVersionFromServer c sv) kvdbId None None)
         (setEntryRequest c sv kvdbId key publicMeta privateMeta data version))
       privmx_exception
       (\<lambda>e. if ExceptionConverter_convert e = InvalidKeyId_code
         then bindS (getNewModuleKeysAndUpdateCache (kvdb_getModuleKeysAndVersionFromServer c sv) kvdbId)
           (setEntryRequest c sv kvdbId key publicMeta privateMeta data version)
         else throw (PrivmxExn e))"

definition deleteEntry :: "'s kvdb_server \<Rightarrow> string \<Rightarrow> string \<Rightarrow> ('s, unit) kvdb_op" where
  "deleteEntry sv kvdbId key = requesting (sv_kvdbEntryDelete sv \<lparr>keg_kvdbId = kvdbId, keg_kvdbEntryKey = key\<rparr>)"

text \<open>\<open>insert\<close> of a \<open>std::map\<close> keeps the value a key has already.\<close>

definition deleteEntries :: "'s kvdb_server \<Rightarrow> string \<Rightarrow> string list \<Rightarrow> ('s, (string \<times> bool) list) kvdb_op" where
  "deleteEntries sv kvdbId keys =
     bindS (requesting (sv_kvdbEntryDeleteMany sv kvdbId keys)) (\<lambda>deleteStatuses.
     ret (fold (\<lambda>s m. if map_of m (kds_kvdbEntryKey s) \<noteq> None then m
       else alist_set (kds_kvdbEntryKey s) (kds_status s = ''OK'') m) deleteStatuses []))"

subsection \<open>Notifications\<close>

definition of_kvdb :: "string option \<Rightarrow> bool" where
  "of_kvdb type \<longleftrightarrow> (case type of None \<Rightarrow> True | Some t \<Rightarrow> t = KVDB_TYPE_FILTER_FLAG)"

definition on_kvdb_info ::
    "'k connection \<Rightarrow> (Kvdb \<Rightarrow> kvdb_event_data) \<Rightarrow> NotificationEvent \<Rightarrow> ('s, unit) kvdb_op" where
  "on_kvdb_info c mk notification =
     bindS (liftR (deserialize_struct (KvdbInfo_fromJSON (en_poco (cn_env c))) (ne_data notification))) (\<lambda>raw.
     if of_kvdb (ki_type raw) then
       bindS (cache_keys c raw) (\<lambda>_.
       bindS (liftR (validateDecryptAndConvertKvdbDataToKvdb c raw)) (\<lambda>data.
       emitApiEvent (EventBuilder_buildEvent ''kvdb'' (mk data) notification)))
     else ret ())"

definition entry_channel :: "string \<Rightarrow> string" where
  "entry_channel kvdbId = ''kvdb/'' @ kvdbId @ ''/entries''"

definition on_kvdb_entry ::
    "'k connection \<Rightarrow> 's kvdb_server \<Rightarrow> (KvdbEntry \<Rightarrow> kvdb_event_data) \<Rightarrow> NotificationEvent \<Rightarrow> ('s, unit) kvdb_op" where
  "on_kvdb_entry c sv mk notification =
     bindS (liftR (deserialize_struct (\<lambda>ob.
       bindR (KvdbEntryInfo_fromJSON (en_poco (cn_env c)) ob) (\<lambda>raw.
       bindR (deserialize_optional deserialize_string (json_get ob ''containerType'')) (\<lambda>containerType. Inr (raw, containerType))))
       (ne_data notification))) (\<lambda>(raw, containerType).
     if of_kvdb containerType then
       bindS (getEntryDecryptionKeys c sv raw) (\<lambda>keys.
       emitApiEvent (EventBuilder_buildEvent (entry_channel (kei_kvdbId raw))
         (mk (validateDecryptAndConvertEntryDataToEntry c raw keys)) notification))
     else ret ())"

definition kvdb_notification_task :: "'k connection \<Rightarrow> 's kvdb_server \<Rightarrow> string \<Rightarrow> NotificationEvent \<Rightarrow> ('s, unit) kvdb_op" where
  "kvdb_notification_task c sv type notification =
     (let p = en_poco (cn_env c); data = ne_data notification in
      if type = ''kvdbCreated'' then on_kvdb_info c KvdbCreatedEvent notification
      else if type = ''kvdbUpdated'' then on_kvdb_info c KvdbUpdatedEvent notification
      else if type = ''kvdbDeleted'' then
        bindS (liftR (deserialize_struct KvdbDeletedEventData_fromJSON data)) (\<lambda>(kvdbId, t).
        if of_kvdb t then
          bindS (invalidateModuleKeysInCache (Some kvdbId)) (\<lambda>_.
          emitApiEvent (EventBuilder_buildEvent ''kvdb'' (KvdbDeletedEvent kvdbId) notification))
        else ret ())
      else if type = ''kvdbStats'' then
        bindS (liftR (deserialize_struct (KvdbStatsEventData_fromJSON p) data)) (\<lambda>raw.
        if of_kvdb (kse_type raw) then
          emitApiEvent (EventBuilder_buildEvent ''kvdb''
            (KvdbStatsChangedEvent (kse_kvdbId raw) (kse_lastEntryDate raw) (kse_entries raw)) notification)
        else ret ())
      else if type = ''kvdbNewEntry'' then on_kvdb_entry c sv KvdbNewEntryEvent notification
      else if type = ''kvdbUpdatedEntry'' then on_kvdb_entry c sv KvdbEntryUpdatedEvent notification
      else if type = ''kvdbDeletedEntry'' then
        bindS (liftR (deserialize_struct KvdbDeletedEntryEventData_fromJSON data)) (\<lambda>(kvdbEntryKey, kvdbId, t).
        if of_kvdb t then
          emitApiEvent (EventBuilder_buildEvent (entry_channel kvdbId) (KvdbEntryDeletedEvent kvdbId kvdbEntryKey) notification)
        else ret ())
      else if type = ''kvdbCollectionChanged'' then
        bindS (liftR (deserialize_struct (CollectionChangedEventData_fromJSON p) data)) (\<lambda>raw.
        if of_kvdb (cce_containerType raw) then
          emitApiEvent (EventBuilder_buildEvent ''kvdb/collectionChanged''
            (KvdbCollectionChangedEvent (mapToCollectionChangedEventData KVDB_TYPE_FILTER_FLAG raw)) notification)
        else ret ())
      else ret ())"

text \<open>The task runs on an executor that swallows its exceptions.\<close>

definition kvdb_processNotificationEvent ::
    "'k connection \<Rightarrow> 's kvdb_server \<Rightarrow> string \<Rightarrow> NotificationEvent \<Rightarrow> ('s, unit) kvdb_op" where
  "kvdb_processNotificationEvent c sv type notification st =
     (if Subscriber_getSubscriptionQuery (as_subscriptions st) (ne_subscriptions notification) = None then (Inr (), st)
      else (Inr (), snd (kvdb_notification_task c sv type notification st)))"

definition kvdb_processConnectedEvent :: "('s, unit) kvdb_op" where
  "kvdb_processConnectedEvent = invalidateModuleKeysInCache None"

definition kvdb_processDisconnectedEvent :: "('s, unit) kvdb_op" where
  "kvdb_processDisconnectedEvent = invalidateModuleKeysInCache None"

end
