(* ===== verification/Core_ModuleKeys.thy ===== *)
theory Core_ModuleKeys
  imports Core_Items
begin

text \<open>
  Facts the modules share: a key that is used for a container is one the key provider accepted for
  it, container data that is read without error is authentic, an integrity object that was made for
  the user is valid, and a key that is distributed reaches exactly the given users.
\<close>

subsection \<open>Keys the module obtains\<close>

lemma addOne_data:
  "\<exists>entries. kr_requestData (snd (KeyRequest_addOne keys keyId location KeyRequest_new)) = [(location, entries)]
     \<and> distinct (map fst entries)"
  by (simp add: KeyRequest_addOne_def KeyRequest_new_def Let_def add_entries_def insert_or_assign_all_def split: option.split)

lemma distinct_insert_or_assign: "distinct (map fst m) \<Longrightarrow> distinct (map fst (insert_or_assign_all es m))"
  by (induction es arbitrary: m) (auto simp: insert_or_assign_all_def intro: distinct_update)

lemma addMany_data:
  "\<exists>entries. kr_requestData (snd (KeyRequest_addMany keys keyIds location KeyRequest_new)) = [(location, entries)]
     \<and> distinct (map fst entries)"
  using distinct_insert_or_assign [of "[]"]
  by (auto simp: KeyRequest_addMany_def KeyRequest_new_def add_entries_def split: prod.split)

text \<open>
  The key a module uses is the one the key provider returned for the request, under the key id of the
  data and the location of the container. When it has the present format and no error, the provider
  accepted it: it stems from an entry of this request, and the verifier approved its creator.
\<close>

definition provided_key :: "'k connection \<Rightarrow> KeyRequest \<Rightarrow> EncKeyLocation \<Rightarrow> string \<Rightarrow> DecryptedEncKeyV2 \<Rightarrow> bool" where
  "provided_key c request location keyId k \<longleftrightarrow>
     (\<exists>m keys. KeyProvider_getKeysAndVerify (cn_env c) (cn_userPrivKey c) (cn_verifier c) request = Inr m \<and>
        map_of m location = Some keys \<and> map_of keys keyId = Some k \<and>
        (checkable k \<longrightarrow>
           (\<exists>entries. (location, entries) \<in> set (kr_requestData request) \<and>
              accepted (cn_env c) (cn_userPrivKey c) location entries keys keyId k) \<and>
           (\<exists>reqs answers. cn_verifier c reqs = Some answers \<and> (request_of k, True) \<in> set (zip reqs answers))))"

lemma provided_key_unique: "provided_key c request location i k \<Longrightarrow> provided_key c request location i k' \<Longrightarrow> k = k'"
  by (auto simp: provided_key_def)

text \<open>The requests for the key of one item and for the keys of a list of items.\<close>

definition keys_location :: "ModuleKeys \<Rightarrow> EncKeyLocation" where
  "keys_location keys = \<lparr>el_contextId = mk_contextId keys, el_resourceId = mk_moduleResourceId keys\<rparr>"

definition one_key_request :: "KeyEntry list \<Rightarrow> string \<Rightarrow> EncKeyLocation \<Rightarrow> KeyRequest" where
  "one_key_request keys keyId location = snd (KeyRequest_addOne keys keyId location KeyRequest_new)"

definition listed_keys_request :: "ModuleKeys \<Rightarrow> string list \<Rightarrow> KeyRequest" where
  "listed_keys_request keys keyIds =
     snd (KeyRequest_addMany (mk_keys keys) (sorted_list_of_set (set keyIds)) (keys_location keys) KeyRequest_new)"

lemma keys_at_provided:
  assumes "keys_at c add location = Inr keys" and "map_of keys i = Some k"
    and data: "\<exists>entries. kr_requestData (snd (add KeyRequest_new)) = [(location, entries)] \<and> distinct (map fst entries)"
  shows "provided_key c (snd (add KeyRequest_new)) location i k"
proof -
  obtain m where m: "KeyProvider_getKeysAndVerify (cn_env c) (cn_userPrivKey c) (cn_verifier c) (snd (add KeyRequest_new)) = Inr m"
      and at: "map_of m location = Some keys"
    using assms(1) by (auto simp: keys_at_def at_location_def bindR_eq_Inr split: prod.splits sum.splits option.splits)
  have "\<forall>(loc, entries) \<in> set (kr_requestData (snd (add KeyRequest_new))). distinct (map fst entries)" using data by auto
  from getKeysAndVerify_accepts [OF m this map_of_SomeD [OF at] map_of_SomeD [OF assms(2)]] m at assms(2) show ?thesis
    unfolding provided_key_def by blast
qed

lemma single_key_provided:
  assumes "bindR (keys_at c (KeyRequest_addOne keys keyId location) location) (\<lambda>ks. unordered_map_at ks keyId) = Inr k"
  shows "provided_key c (one_key_request keys keyId location) location keyId k"
proof -
  obtain ks where ks: "keys_at c (KeyRequest_addOne keys keyId location) location = Inr ks" "map_of ks keyId = Some k"
    using assms(1) by (auto simp: bindR_eq_Inr unordered_map_at_def split: option.splits)
  show ?thesis unfolding one_key_request_def by (rule keys_at_provided [OF ks addOne_data])
qed

lemma listed_key_provided:
  assumes "keys_at c (KeyRequest_addMany (mk_keys keys) (sorted_list_of_set (set keyIds)) (keys_location keys)) (keys_location keys) = Inr keyMap"
    and "map_of keyMap i = Some k"
  shows "provided_key c (listed_keys_request keys keyIds) (keys_location keys) i k"
  unfolding listed_keys_request_def by (rule keys_at_provided [OF assms addMany_data])

text \<open>The request for the keys of several containers keeps one entry for each key id.\<close>

definition request_distinct :: "KeyRequest \<Rightarrow> bool" where
  "request_distinct r \<longleftrightarrow> (\<forall>(loc, entries) \<in> set (kr_requestData r). distinct (map fst entries))"

lemma set_alist_update: "x \<in> set (AList.update k v m) \<Longrightarrow> x = (k, v) \<or> x \<in> set m"
  by (induction m) (auto split: if_splits)

lemma add_entries_distinct: "request_distinct r \<Longrightarrow> request_distinct (add_entries loc es r)"
  unfolding request_distinct_def add_entries_def
  by (auto simp: distinct_insert_or_assign dest!: set_alist_update map_of_SomeD split: option.splits)

lemma mapS_addOne_distinct:
  assumes "mapS (\<lambda>x. KeyRequest_addOne (keys x) (keyId x) (loc x)) xs r = (Inr ys, r')" and "request_distinct r"
  shows "request_distinct r'"
  using assms
proof (induction xs arbitrary: r ys)
  case (Cons x xs)
  obtain y r1 ys' where step: "KeyRequest_addOne (keys x) (keyId x) (loc x) r = (Inr y, r1)"
      and rest: "mapS (\<lambda>x. KeyRequest_addOne (keys x) (keyId x) (loc x)) xs r1 = (Inr ys', r')"
    using Cons.prems(1) by (auto simp: bindS_eq_Inr)
  have "request_distinct r1"
    using step Cons.prems(2) by (auto simp: KeyRequest_addOne_def Let_def intro: add_entries_distinct split: if_splits)
  with Cons.IH [OF rest] show ?case by blast
qed simp

lemma keys_for_provided:
  assumes "KeyProvider_getKeysAndVerify (cn_env c) (cn_userPrivKey c) (cn_verifier c) r = Inr m" and "request_distinct r"
    and "at_location m loc = Inr keys" and "unordered_map_at keys i = Inr k"
  shows "provided_key c r loc i k"
proof -
  have at: "map_of m loc = Some keys" "map_of keys i = Some k"
    using assms(3,4) by (auto simp: at_location_def unordered_map_at_def split: option.splits)
  from getKeysAndVerify_accepts [OF assms(1) assms(2) [unfolded request_distinct_def] map_of_SomeD [OF at(1)] map_of_SomeD [OF at(2)]]
  show ?thesis using assms(1) at unfolding provided_key_def by blast
qed

subsection \<open>Container data that is read\<close>

lemma V5_decrypt_dio:
  assumes "md_statusCode (ModuleDataEncryptorV5_decrypt env e key) = 0"
  shows "ModuleDataEncryptorV5_getDIOAndAssertIntegrity env e = Inr (md_dio (ModuleDataEncryptorV5_decrypt env e key))"
proof -
  have keeps: "md_statusCode (snd (read_private env e key a r)) = md_statusCode r \<and>
      md_dio (snd (read_private env e key a r)) = md_dio r" for a r
    by (simp add: read_private_def bindS_def split: sum.split)
  obtain a r where r: "read_public env e DecryptedModuleDataV5_new = (Inr a, r)" "md_statusCode r = 0"
      and res: "ModuleDataEncryptorV5_decrypt env e key = snd (read_private env e key a r)"
    by (rule catch_status_ok [of env e "read_private env e key"])
      (use assms keeps in \<open>simp_all add: ModuleDataEncryptorV5_decrypt_def\<close>)
  show ?thesis using read_public_ok [OF r] keeps by (simp add: res)
qed

text \<open>
  Container data of the present format is genuine when it carries a signed integrity object over all
  its parts that names this context and container, its modifier and a time close to the Bridge's, and
  it was decrypted without error under the given key.
\<close>

definition container_genuine ::
    "'k connection \<Rightarrow> json \<Rightarrow> EncKeyLocation \<Rightarrow> string \<Rightarrow> int \<Rightarrow> DecryptedEncKeyV2 \<Rightarrow> DecryptedModuleDataV5 \<Rightarrow> bool" where
  "container_genuine c data location lastModifier date k d \<longleftrightarrow>
     (\<exists>e. deserialize_struct (EncryptedModuleDataV5_fromJSON (en_poco (cn_env c))) data = Inr e \<and>
        integrity_ok (cn_env c) e \<and> d = ModuleDataEncryptorV5_decrypt (cn_env c) e (ek_key k)) \<and>
     md_statusCode d = 0 \<and> k2_statusCode k = 0 \<and>
     dio_contextId (md_dio d) = el_contextId location \<and> dio_resourceId (md_dio d) = el_resourceId location \<and>
     dio_creatorUserId (md_dio d) = lastModifier \<and> TimestampValidator_validate (dio_timestamp (md_dio d)) date"

lemma decrypted_container_genuine:
  assumes "deserialize_struct (EncryptedModuleDataV5_fromJSON (en_poco (cn_env c))) data = Inr e"
    and "ModuleDataEncryptorV5_getDIOAndAssertIntegrity (cn_env c) e = Inr dio"
    and "md_statusCode (decryptModuleDataV5 (cn_env c) data k) = 0"
    and "dio_contextId dio = el_contextId location" "dio_resourceId dio = el_resourceId location"
    and "dio_creatorUserId dio = lastModifier" "TimestampValidator_validate (dio_timestamp dio) date"
  shows "container_genuine c data location lastModifier date k (decryptModuleDataV5 (cn_env c) data k)"
proof -
  have k: "k2_statusCode k = 0" using assms(3) by (auto simp: decryptModuleDataV5_def assms(1) split: if_splits)
  then have d: "decryptModuleDataV5 (cn_env c) data k = ModuleDataEncryptorV5_decrypt (cn_env c) e (ek_key k)"
    by (simp add: decryptModuleDataV5_def assms(1))
  have "md_dio (decryptModuleDataV5 (cn_env c) data k) = dio"
    using V5_decrypt_dio [of "cn_env c" e "ek_key k"] assms(2,3) by (simp add: d)
  then show ?thesis
    using assms getDIO_integrity [OF assms(2)] k d by (auto simp: container_genuine_def)
qed

subsection \<open>Integrity objects of the user\<close>

text \<open>What is assumed of a connection: the libraries behave, encoded random bytes are not empty, times fit 64 bits.\<close>

definition connection_ok :: "'k connection \<Rightarrow> bool" where
  "connection_ok c \<longleftrightarrow> core_env_ok (cn_env c) \<and> (\<forall>d. cn_hex c (randomBytes (en_crypto (cn_env c)) d 8) \<noteq> []) \<and>
     (\<forall>d. - (2 ^ 63) \<le> cn_now c d \<and> cn_now c d < 2 ^ 63)"

lemma createDIO_valid:
  assumes "connection_ok c" and "cn_myUserId c contextId = Inr u" and "u \<noteq> []" and "contextId \<noteq> []"
  obtains dio where "ConnectionImpl_createDIO c contextId resourceId containerId containerResourceId draws = (Inr dio, draws + 1)"
    and "dio_valid (cn_env c) (cn_userPrivKey c) dio" and "dio_creatorUserId dio = u" and "dio_contextId dio = contextId"
    and "dio_resourceId dio = resourceId" and "dio_timestamp dio = cn_now c draws" and "dio_containerId dio = containerId"
    and "dio_containerResourceId dio = containerResourceId" and "dio_bridgeIdentity dio = cn_bridgeIdentity c"
    and "dio_creatorPubKey dio = PublicKey_toBase58DER (en_crypto (cn_env c)) (en_ecc (cn_env c)) (cn_userPrivKey c)"
  using assms that
  by (auto simp: ConnectionImpl_createDIO_def ConnectionImpl_createDIOExt_def EndpointUtils_generateDIORandomId_def
      dio_valid_def connection_ok_def)

subsection \<open>Distribution of keys\<close>

lemma mapS_Inr:
  "mapS f xs s = (Inr ys, s') \<Longrightarrow> list_all2 (\<lambda>x y. \<exists>t t'. f x t = (Inr y, t')) xs ys"
  by (induction xs arbitrary: ys s) (auto simp: bindS_eq_Inr)

lemma createKeyEntrySet_sel:
  "KeyProvider_createKeyEntrySet env hex self user key dio loc secret d = (Inr es, d') \<Longrightarrow>
   es_user es = up_userId user \<and> es_keyId es = ek_id key"
  by (auto simp: KeyProvider_createKeyEntrySet_def bindR_eq_Inr split: prod.splits)

lemma prepareKeysList_users:
  assumes "KeyProvider_prepareKeysList env hex self users key dio loc secret d = (Inr keys, d')"
  shows "map es_user keys = map up_userId users" and "\<forall>es \<in> set keys. es_keyId es = ek_id key"
proof -
  have "list_all2 (\<lambda>user es. es_user es = up_userId user \<and> es_keyId es = ek_id key) users keys"
    using mapS_Inr [OF assms [unfolded KeyProvider_prepareKeysList_def]]
    by (rule list_all2_mono) (auto dest: createKeyEntrySet_sel)
  then show "map es_user keys = map up_userId users" "\<forall>es \<in> set keys. es_keyId es = ek_id key"
    by (induction rule: list_all2_induct) auto
qed

lemma missing_keys_users:
  assumes "KeyProvider_prepareMissingKeysForNewUsers env hex genId self missing users dio loc secret d = (Inr keys, d')"
  shows "es_user ` set keys \<subseteq> up_userId ` set users"
proof -
  have one: "es_user ` set ks \<subseteq> up_userId ` set users"
    if ks: "missing_keys_of env hex genId self users dio loc secret key t = (Inr ks, t')" for key ks t t'
  proof -
    obtain nonce t1 where "(if k2_dataStructureVersion key = 1 then genId t else (dio_randomId (k2_dio key), t)) = (nonce, t1)"
      by fastforce
    then have "ks = [] \<or> KeyProvider_prepareKeysList env hex self users (EncKey.truncate key) (dio\<lparr>dio_randomId := nonce\<rparr>) loc secret t1 = (Inr ks, t')"
      using ks by (auto simp: missing_keys_of_def KeyProvider_prepareKeysList_def split: if_splits)
    then show ?thesis
    proof
      assume "KeyProvider_prepareKeysList env hex self users (EncKey.truncate key) (dio\<lparr>dio_randomId := nonce\<rparr>) loc secret t1 = (Inr ks, t')"
      from prepareKeysList_users(1) [OF this] show ?thesis by (metis list.set_map order_refl)
    qed simp
  qed
  obtain kss where kss: "mapS (\<lambda>(i, key). missing_keys_of env hex genId self users dio loc secret key) missing d = (Inr kss, d')"
      and keys: "keys = concat kss"
    using assms by (auto simp: KeyProvider_prepareMissingKeysForNewUsers_def bindS_eq_Inr)
  have "list_all2 (\<lambda>x ks. es_user ` set ks \<subseteq> up_userId ` set users) missing kss"
    using mapS_Inr [OF kss] by (rule list_all2_mono) (auto dest!: one)
  then have "\<forall>ks \<in> set kss. es_user ` set ks \<subseteq> up_userId ` set users" by (induction rule: list_all2_induct) auto
  then show ?thesis by (auto simp: keys)
qed

text \<open>Keys that are generated have a name and fit the encryption's bound.\<close>

definition keys_fit :: "'k connection \<Rightarrow> bool" where
  "keys_fit c \<longleftrightarrow> (\<forall>d. cn_hex c (randomBytes (en_crypto (cn_env c)) d 16) \<noteq> []) \<and>
     (\<forall>d d' dio loc secret. length (Utils_stringify (en_poco (cn_env c)) (key_json (cn_env c)
        (v2_key (cn_env c) (cn_hex c) d (fst (KeyProvider_generateKey (cn_env c) (cn_hex c) d')) dio loc secret))) < 2 ^ 60)"

definition known_users :: "'k connection \<Rightarrow> UserWithPubKey set \<Rightarrow> bool" where
  "known_users c us \<longleftrightarrow> (\<forall>u \<in> us. \<exists>priv. up_pubKey u = PublicKey_toBase58DER (en_crypto (cn_env c)) (en_ecc (cn_env c)) priv)"

text \<open>What a user finds of the key made for them.\<close>

definition receives ::
    "'k connection \<Rightarrow> EncKey \<Rightarrow> EncKeyLocation \<Rightarrow> UserWithPubKey \<Rightarrow> KeyEntrySet \<Rightarrow> bool" where
  "receives c key loc user es \<longleftrightarrow> es_user es = up_userId user \<and> es_keyId es = ek_id key \<and>
     (\<forall>priv v. up_pubKey user = PublicKey_toBase58DER (en_crypto (cn_env c)) (en_ecc (cn_env c)) priv \<longrightarrow> (\<forall>r. v [r] = Some [True]) \<longrightarrow>
        (\<exists>k. KeyProvider_getKeysAndVerify (cn_env c) priv v (single_request loc es) = Inr [(loc, [(ek_id key, k)])] \<and>
           checkable k \<and> ek_key k = ek_key key))"

lemma generated_key_distributable:
  assumes "connection_ok c" and "keys_fit c" and "key = fst (KeyProvider_generateKey (cn_env c) (cn_hex c) d')"
    and "dio_valid (cn_env c) (cn_userPrivKey c) dio" and "dio_contextId dio = el_contextId loc"
    and "dio_resourceId dio = el_resourceId loc"
    and "up_pubKey user = PublicKey_toBase58DER (en_crypto (cn_env c)) (en_ecc (cn_env c)) priv"
  shows "distributable (cn_env c) (cn_hex c) d (cn_userPrivKey c) priv user key dio loc secret"
proof -
  have "ek_key key \<noteq> []"
    using assms(1,3) length_randomBytes [OF core_env_okD(1), of "cn_env c" "d' + 1" 32]
    by (auto simp: KeyProvider_generateKey_def connection_ok_def)
  moreover have "ek_id key \<noteq> []" using assms(2,3) by (auto simp: KeyProvider_generateKey_def keys_fit_def)
  ultimately show ?thesis using assms unfolding distributable_def connection_ok_def keys_fit_def by blast
qed

lemma createKeyEntrySet_receives:
  assumes "connection_ok c" and "keys_fit c" and "key = fst (KeyProvider_generateKey (cn_env c) (cn_hex c) d')"
    and "dio_valid (cn_env c) (cn_userPrivKey c) dio" and "dio_contextId dio = el_contextId loc"
    and "dio_resourceId dio = el_resourceId loc" and "known_users c {user}"
  shows "\<exists>es. KeyProvider_createKeyEntrySet (cn_env c) (cn_hex c) (cn_userPrivKey c) user key dio loc secret d = (Inr es, d + 1) \<and>
    receives c key loc user es"
proof -
  obtain priv where priv: "up_pubKey user = PublicKey_toBase58DER (en_crypto (cn_env c)) (en_ecc (cn_env c)) priv"
    using assms(7) by (auto simp: known_users_def)
  note dist = generated_key_distributable [OF assms(1-6)]
  obtain es where es: "KeyProvider_createKeyEntrySet (cn_env c) (cn_hex c) (cn_userPrivKey c) user key dio loc secret d = (Inr es, d + 1)"
      "es_user es = up_userId user" "es_keyId es = ek_id key"
    by (rule key_distribution [OF dist [OF priv], of "\<lambda>_. Some [True]"]) auto
  have "\<exists>k. KeyProvider_getKeysAndVerify (cn_env c) priv' v (single_request loc es) = Inr [(loc, [(ek_id key, k)])] \<and>
      checkable k \<and> ek_key k = ek_key key"
    if v: "up_pubKey user = PublicKey_toBase58DER (en_crypto (cn_env c)) (en_ecc (cn_env c)) priv'" "\<forall>r. v [r] = Some [True]" for priv' v
    by (rule key_distribution [OF dist [OF v(1), where d = d and secret = secret], of v]) (use v(2) es(1) in auto)
  with es show ?thesis by (auto simp: receives_def)
qed

lemma prepareKeysList_receives:
  assumes "connection_ok c" and "keys_fit c" and "key = fst (KeyProvider_generateKey (cn_env c) (cn_hex c) d')"
    and "dio_valid (cn_env c) (cn_userPrivKey c) dio" and "dio_contextId dio = el_contextId loc"
    and "dio_resourceId dio = el_resourceId loc" and "known_users c (set users)"
  shows "\<exists>keys. KeyProvider_prepareKeysList (cn_env c) (cn_hex c) (cn_userPrivKey c) users key dio loc secret d = (Inr keys, d + length users) \<and>
    list_all2 (receives c key loc) users keys"
  using assms(7)
proof (induction users arbitrary: d)
  case (Cons user users)
  obtain es where es: "KeyProvider_createKeyEntrySet (cn_env c) (cn_hex c) (cn_userPrivKey c) user key dio loc secret d = (Inr es, d + 1)"
      "receives c key loc user es"
    using createKeyEntrySet_receives [OF assms(1-6), of user secret d] Cons.prems by (auto simp: known_users_def)
  obtain keys where "KeyProvider_prepareKeysList (cn_env c) (cn_hex c) (cn_userPrivKey c) users key dio loc secret (d + 1) = (Inr keys, d + 1 + length users)"
      "list_all2 (receives c key loc) users keys"
    using Cons.IH [of "d + 1"] Cons.prems by (auto simp: known_users_def)
  then show ?case using es by (auto simp: KeyProvider_prepareKeysList_def bindS_def)
qed (simp add: KeyProvider_prepareKeysList_def)


text \<open>Steps of an operation that draw random values.\<close>

lemma bindS_drawn_step: "f n = (x, d) \<Longrightarrow> as_draws st = n \<Longrightarrow> g x (st\<lparr>as_draws := d\<rparr>) = r \<Longrightarrow> bindS (drawn f) g st = r"
  by (simp add: bindS_def drawn_def drawing_def)

lemma bindS_drawing_step: "m n = (Inr x, d) \<Longrightarrow> as_draws st = n \<Longrightarrow> g x (st\<lparr>as_draws := d\<rparr>) = r \<Longrightarrow> bindS (drawing m) g st = r"
  by (simp add: bindS_def drawing_def)


subsection \<open>Items that are read and written\<close>

text \<open>What the checks of an item compare its integrity object with.\<close>

definition item_bound :: "string \<Rightarrow> string \<Rightarrow> string \<Rightarrow> string \<Rightarrow> string \<Rightarrow> int \<Rightarrow> DataIntegrityObject \<Rightarrow> bool" where
  "item_bound contextId resourceId containerId containerResourceId author date dio \<longleftrightarrow>
     dio_contextId dio = contextId \<and> dio_resourceId dio = resourceId \<and> dio_containerId dio = Some containerId \<and>
     dio_containerResourceId dio = Some containerResourceId \<and> dio_creatorUserId dio = author \<and>
     TimestampValidator_validate (dio_timestamp dio) date"

lemma decrypted_dio:
  "entry_authentic env e key d \<Longrightarrow> EntryDataEncryptorV5_getDIOAndAssertIntegrity env x e = Inr dio \<Longrightarrow> xd_dio d = dio"
  by (auto simp: entry_authentic_def entry_integrity_ok_def dest!: entry_getDIO_integrity)

text \<open>An item of the present format without error was decrypted with a key without error and is authentic.\<close>

lemma decrypted_item_authentic:
  assumes "EntryDataEncryptorV5_getDIOAndAssertIntegrity env x e = Inr dio"
    and "d = (if k2_statusCode k \<noteq> 0 then (EntryDataEncryptorV5_extractPublic env x e)\<lparr>xd_statusCode := k2_statusCode k\<rparr>
      else EntryDataEncryptorV5_decrypt env x e (ek_key k))"
    and "xd_statusCode d = 0"
  shows "k2_statusCode k = 0" and "entry_authentic env e (ek_key k) d" and "xd_dio d = dio"
proof -
  show k: "k2_statusCode k = 0" using assms(2,3) by (auto split: if_splits)
  then show a: "entry_authentic env e (ek_key k) d"
    using assms(2,3) entry_decrypt_authentic [of env x e "ek_key k"] by simp
  show "xd_dio d = dio" by (rule decrypted_dio [OF a assms(1)])
qed

text \<open>What is decrypted with one key and verified by itself.\<close>

lemma single_item_read:
  assumes "bindR (bindR (keys_at c (KeyRequest_addOne keys keyId location) location) (\<lambda>ks. unordered_map_at ks keyId))
      (\<lambda>k. bindR (decrypt k) (verify_one (cn_verifier c) status put request)) = Inr r"
    and "status r = 0" and "\<And>s r. status (put s r) = s" and "\<And>r. put (status r) r = r"
  obtains k dio where "bindR (keys_at c (KeyRequest_addOne keys keyId location) location) (\<lambda>ks. unordered_map_at ks keyId) = Inr k"
    and "decrypt k = Inr (r, dio)" and "cn_verifier c [request r dio] = Some [True]"
proof -
  obtain k where k: "bindR (keys_at c (KeyRequest_addOne keys keyId location) location) (\<lambda>ks. unordered_map_at ks keyId) = Inr k"
      and "bindR (decrypt k) (verify_one (cn_verifier c) status put request) = Inr r"
    using assms(1) by (subst (asm) bindR_eq_Inr) blast
  then obtain r0 dio where d: "decrypt k = Inr (r0, dio)"
      and v: "verify_one (cn_verifier c) status put request (r0, dio) = Inr r"
    by (subst (asm) bindR_eq_Inr) auto
  from verify_one_ok [OF v assms(2-4)] show thesis using that k d by simp
qed

text \<open>What the user writes in the present format passes the checks and decrypts to what was written.\<close>

lemma written_item:
  assumes "connection_ok c" and "cn_myUserId c contextId = Inr u" and "u \<noteq> []" and "contextId \<noteq> []" and "length key = 32"
  obtains dio e draws' ob dio' d where
    "ConnectionImpl_createDIO c contextId resourceId (Some containerId) (Some containerResourceId) draws = (Inr dio, draws + 1)"
    and "EntryDataEncryptorV5_encrypt (cn_env c)
      \<lparr>xt_publicMeta = pm, xt_privateMeta = sm, xt_data = data, xt_internalMeta = None, xt_dio = dio\<rparr>
      (cn_userPrivKey c) key (draws + 1) = (Inr e, draws')"
    and "EncryptedEntryDataV5_toJSON e = JObject ob" and "\<forall>p. VersionedData_fromJSON p ob = Inr 5"
    and "\<forall>p. EncryptedEntryDataV5_fromJSON p ob = Inr e"
    and "EntryDataEncryptorV5_getDIOAndAssertIntegrity (cn_env c) x e = Inr dio'"
    and "\<forall>date. TimestampValidator_validate (cn_now c draws) date \<longrightarrow>
      item_bound contextId resourceId containerId containerResourceId u date dio'"
    and "EntryDataEncryptorV5_decrypt (cn_env c) x e key = d" and "xd_statusCode d = 0" and "xd_publicMeta d = pm"
    and "xd_privateMeta d = sm" and "xd_data d = data" and "xd_dio d = dio'"
    and "xd_authorPubKey d = PublicKey_toBase58DER (en_crypto (cn_env c)) (en_ecc (cn_env c)) (cn_userPrivKey c)"
proof -
  have ok: "core_env_ok (cn_env c)" using assms(1) by (simp add: connection_ok_def)
  obtain dio where dio: "ConnectionImpl_createDIO c contextId resourceId (Some containerId) (Some containerResourceId) draws = (Inr dio, draws + 1)"
      "dio_valid (cn_env c) (cn_userPrivKey c) dio" "dio_creatorUserId dio = u" "dio_contextId dio = contextId"
      "dio_resourceId dio = resourceId" "dio_timestamp dio = cn_now c draws" "dio_containerId dio = Some containerId"
      "dio_containerResourceId dio = Some containerResourceId"
    by (rule createDIO_valid [OF assms(1-4)])
  let ?x = "\<lparr>xt_publicMeta = pm, xt_privateMeta = sm, xt_data = data, xt_internalMeta = None, xt_dio = dio\<rparr>"
  let ?dio = "dio\<lparr>dio_bridgeIdentity := Some (case dio_bridgeIdentity dio of Some b \<Rightarrow> b | None \<Rightarrow> en_uninit (cn_env c))\<rparr>"
  obtain e draws' where e: "EntryDataEncryptorV5_encrypt (cn_env c) ?x (cn_userPrivKey c) key (draws + 1) = (Inr e, draws')"
      "xe_version e = 5"
      "EntryDataEncryptorV5_getDIOAndAssertIntegrity (cn_env c) x e = Inr ((xt_dio ?x)\<lparr>dio_bridgeIdentity :=
         Some (case dio_bridgeIdentity (xt_dio ?x) of Some b \<Rightarrow> b | None \<Rightarrow> en_uninit (cn_env c))\<rparr>)"
      "EntryDataEncryptorV5_decrypt (cn_env c) x e key =
        \<lparr>xd_dataStructureVersion = 5, xd_statusCode = 0, xd_publicMeta = xt_publicMeta ?x,
         xd_privateMeta = xt_privateMeta ?x, xd_data = xt_data ?x, xd_internalMeta = xt_internalMeta ?x,
         xd_authorPubKey = PublicKey_toBase58DER (en_crypto (cn_env c)) (en_ecc (cn_env c)) (cn_userPrivKey c),
         xd_dio = (xt_dio ?x)\<lparr>dio_bridgeIdentity :=
           Some (case dio_bridgeIdentity (xt_dio ?x) of Some b \<Rightarrow> b | None \<Rightarrow> en_uninit (cn_env c))\<rparr>\<rparr>"
    by (rule EntryDataEncryptorV5_inverse [OF ok, of "cn_userPrivKey c" ?x]) (use dio(2) assms(5) in auto)
  obtain ob where ob: "EncryptedEntryDataV5_toJSON e = JObject ob" by (simp add: EncryptedEntryDataV5_toJSON_def)
  show thesis
    by (rule that [OF dio(1) e(1) ob, of ?dio "EntryDataEncryptorV5_decrypt (cn_env c) x e key"])
      (simp_all add: EncryptedEntryDataV5_version [OF ob] EncryptedEntryDataV5_roundtrip [OF ob] e(2-4) item_bound_def dio(3-))
qed

subsection \<open>Lists of containers with their keys\<close>

text \<open>
  The modules request one key for each container and decrypt it with the key found at its location;
  a result without error was decrypted with the key that the key provider returned for that container.
\<close>

definition containers_key_request :: "('i \<Rightarrow> KeyEntry list) \<Rightarrow> ('i \<Rightarrow> string) \<Rightarrow> ('i \<Rightarrow> EncKeyLocation) \<Rightarrow> 'i list \<Rightarrow> KeyRequest" where
  "containers_key_request keys keyId loc items =
     snd (mapS (\<lambda>x. KeyRequest_addOne (keys x) (keyId x) (loc x)) items KeyRequest_new)"

context listed_containers
begin

lemma read_with_keys:
  assumes "read_containers (cn_verifier c) integrity convert new
      (\<lambda>items. bindR (case mapS (\<lambda>x. KeyRequest_addOne (keys x) (keyId x) (loc x)) items KeyRequest_new of
          (Inl e, _) \<Rightarrow> Inl e | (Inr _, r) \<Rightarrow> Inr r)
        (KeyProvider_getKeysAndVerify (cn_env c) (cn_userPrivKey c) (cn_verifier c)))
      (\<lambda>m x. bindR (at_location m (loc x)) (\<lambda>ks. bindR (unordered_map_at ks (keyId x)) (decrypt x)))
      status put request items = Inr rs"
  shows "length rs = length items \<and> (\<forall>i < length items. status (rs ! i) = 0 \<longrightarrow> integrity (items ! i) = 0 \<and>
    (\<exists>k dio reqs answers. decrypt (items ! i) k = Inr (rs ! i, dio) \<and>
       provided_key c (containers_key_request keys keyId loc items) (loc (items ! i)) (keyId (items ! i)) k \<and>
       cn_verifier c reqs = Some answers \<and> (request (rs ! i) dio, True) \<in> set (zip reqs answers)))"
  using assms
proof (rule read)
  let ?reqs = "mapS (\<lambda>x. KeyRequest_addOne (keys x) (keyId x) (loc x)) items KeyRequest_new"
  let ?dec = "\<lambda>m x. bindR (at_location m (loc x)) (\<lambda>ks. bindR (unordered_map_at ks (keyId x)) (decrypt x))"
  fix m
  assume m: "bindR (case ?reqs of (Inl e, _) \<Rightarrow> Inl e | (Inr _, r) \<Rightarrow> Inr r)
      (KeyProvider_getKeysAndVerify (cn_env c) (cn_userPrivKey c) (cn_verifier c)) = Inr m"
    and len: "length rs = length items"
    and each: "\<And>i. i < length items \<Longrightarrow> status (rs ! i) = 0 \<Longrightarrow> integrity (items ! i) = 0 \<and>
      (\<exists>dio reqs answers. ?dec m (items ! i) = Inr (rs ! i, dio) \<and> cn_verifier c reqs = Some answers \<and>
        (request (rs ! i) dio, True) \<in> set (zip reqs answers))"
  obtain ys r where req: "?reqs = (Inr ys, r)"
      and prov: "KeyProvider_getKeysAndVerify (cn_env c) (cn_userPrivKey c) (cn_verifier c) r = Inr m"
    using m by (auto simp: bindR_eq_Inr split: prod.splits sum.splits)
  have dist: "request_distinct r"
    using req by (rule mapS_addOne_distinct) (simp add: request_distinct_def KeyRequest_new_def)
  have "\<exists>k. decrypt x k = Inr y \<and> provided_key c (containers_key_request keys keyId loc items) (loc x) (keyId x) k"
    if "?dec m x = Inr y" for x y
    using that keys_for_provided [OF prov dist] by (auto simp: bindR_eq_Inr containers_key_request_def req)
  with each len show ?thesis by meson
qed

end

subsection \<open>Containers of version 4\<close>

lemma decrypt_module_v4_ok:
  assumes "md4_statusCode (ModuleDataEncryptorV4_decrypt env e key) = 0"
  obtains a where "PublicKey_fromBase58DER (en_crypto env) (en_ecc env) (me4_authorPubKey e) = Inr a"
    and "md4_authorPubKey (ModuleDataEncryptorV4_decrypt env e key) = me4_authorPubKey e"
    and "DataEncryptorV4_decodeAndVerify env (me4_publicMeta e) a = Inr (md4_publicMeta (ModuleDataEncryptorV4_decrypt env e key))"
    and "DataEncryptorV4_decodeAndDecryptAndVerify env (me4_privateMeta e) a key =
      Inr (md4_privateMeta (ModuleDataEncryptorV4_decrypt env e key))"
proof -
  obtain y r where m: "decrypt_module_v4 env e key DecryptedModuleDataV4_new = (y, r)" by fastforce
  have y: "y = Inr ()" using assms m by (cases y) (auto simp: ModuleDataEncryptorV4_decrypt_def)
  have res: "ModuleDataEncryptorV4_decrypt env e key = r" by (simp add: ModuleDataEncryptorV4_decrypt_def m y)
  then have "md4_statusCode r = 0" using assms by simp
  with m y show thesis
    using that unfolding res
    by (auto simp: decrypt_module_v4_def bindS_eq_Inr DecryptedModuleDataV4_new_def split: if_splits)
qed

end
