(* ===== verification/Kvdb_Properties.thy ===== *)
theory Kvdb_Properties
  imports Kvdb_KvdbApi Core_ModuleKeys
begin

text \<open>
  What the key-value stores promise: entries and stores that are read without error are authentic,
  lists keep their length and flag repetitions, what is written can be read, users who were removed
  receive no key, and the cache forgets what was changed.
\<close>

subsection \<open>Entries that are read\<close>

text \<open>What the checks of an entry establish.\<close>

definition entry_bound :: "'k connection \<Rightarrow> KvdbEntryInfo \<Rightarrow> string \<Rightarrow> DataIntegrityObject \<Rightarrow> bool" where
  "entry_bound c entry kvdbResourceId =
     item_bound (kei_contextId entry) (kei_kvdbEntryKey entry) (kei_kvdbId entry) kvdbResourceId (kei_lastModifier entry)
       (kei_lastModificationDate entry)"

text \<open>
  An entry shown to the application is authentic when its value carries a signed integrity object
  that covers all its parts and names this context, store and key, its modifier and a time close
  to the Bridge's, the data was decrypted with the given key and verified with its author's.
\<close>

definition entry_genuine ::
    "'k connection \<Rightarrow> KvdbEntryInfo \<Rightarrow> string \<Rightarrow> DecryptedEncKeyV2 \<Rightarrow> KvdbEntry \<Rightarrow> DataIntegrityObject \<Rightarrow> bool" where
  "entry_genuine c entry kvdbResourceId k r dio \<longleftrightarrow>
     (\<exists>e d. deserialize_struct (EncryptedEntryDataV5_fromJSON (en_poco (cn_env c))) (kei_kvdbEntryValue entry) = Inr e \<and>
        entry_authentic (cn_env c) e (ek_key k) d \<and> dio = xd_dio d \<and> entry_bound c entry kvdbResourceId dio \<and>
        r = (convertDecryptedKvdbEntryDataV5ToKvdbEntry entry d)\<lparr>ke_statusCode := 0\<rparr>)"

lemma assert_entry_integrity_ok:
  assumes "assert_entry_integrity c entry resourceId = Inr ()"
  obtains e dio where "getEntryDataStructureVersion c entry = Inr 5"
    and "deserialize_struct (EncryptedEntryDataV5_fromJSON (en_poco (cn_env c))) (kei_kvdbEntryValue entry) = Inr e"
    and "EntryDataEncryptorV5_getDIOAndAssertIntegrity (cn_env c) kvdb_entry_exns e = Inr dio"
    and "entry_bound c entry resourceId dio"
  using assms that unfolding assert_entry_integrity_def entry_bound_def item_bound_def
  by (auto simp: bindR_eq_Inr split: if_splits)

lemma decrypted_entry_genuine:
  assumes "assert_entry_integrity c entry resourceId = Inr ()"
    and "decryptAndConvertEntryDataToEntry c entry k = Inr (r, dio)" and "ke_statusCode r = 0"
  shows "k2_statusCode k = 0 \<and> entry_genuine c entry resourceId k r dio"
proof -
  obtain e dio' where e: "getEntryDataStructureVersion c entry = Inr 5"
      "deserialize_struct (EncryptedEntryDataV5_fromJSON (en_poco (cn_env c))) (kei_kvdbEntryValue entry) = Inr e"
      "EntryDataEncryptorV5_getDIOAndAssertIntegrity (cn_env c) kvdb_entry_exns e = Inr dio'"
      "entry_bound c entry resourceId dio'"
    by (rule assert_entry_integrity_ok [OF assms(1)])
  let ?d = "decryptKvdbEntryDataV5 c entry k"
  have r: "r = convertDecryptedKvdbEntryDataV5ToKvdbEntry entry ?d" "dio = xd_dio ?d"
    using assms(2) e(1) by (auto simp: decryptAndConvertEntryDataToEntry_def Let_def)
  then have status: "xd_statusCode ?d = 0"
    using assms(3) by (simp add: convertDecryptedKvdbEntryDataV5ToKvdbEntry_def convertServerKvdbEntryToLibKvdbEntry_def)
  have "?d = (if k2_statusCode k \<noteq> 0 then (EntryDataEncryptorV5_extractPublic (cn_env c) kvdb_entry_exns e)\<lparr>xd_statusCode := k2_statusCode k\<rparr>
      else EntryDataEncryptorV5_decrypt (cn_env c) kvdb_entry_exns e (ek_key k))"
    by (simp add: decryptKvdbEntryDataV5_def e(2))
  from decrypted_item_authentic [OF e(3) this status] e r assms(3) show ?thesis
    by (auto simp: entry_genuine_def convertDecryptedKvdbEntryDataV5ToKvdbEntry_def convertServerKvdbEntryToLibKvdbEntry_def)
qed


lemma status_failed_entry [simp]: "ke_statusCode (failed_entry entry s) = s"
  by (simp add: failed_entry_def convertServerKvdbEntryToLibKvdbEntry_def)

lemma genuine_status: "entry_genuine c entry resourceId k r dio \<Longrightarrow> ke_statusCode r = 0"
  by (auto simp: entry_genuine_def)

lemma entry_request_status [simp]: "entry_request ctx (r\<lparr>ke_statusCode := s\<rparr>) b = entry_request ctx r b"
  by (simp add: entry_request_def)

lemma single_entry_read:
  assumes "ke_statusCode (validateDecryptAndConvertEntryDataToEntry c entry keys) = 0"
  obtains k dio where "assert_entry_integrity c entry (mk_moduleResourceId keys) = Inr ()"
    and "bindR (keys_at c (KeyRequest_addOne (mk_keys keys) (kei_keyId entry)
        \<lparr>el_contextId = kei_contextId entry, el_resourceId = mk_moduleResourceId keys\<rparr>)
        \<lparr>el_contextId = kei_contextId entry, el_resourceId = mk_moduleResourceId keys\<rparr>)
        (\<lambda>ks. unordered_map_at ks (kei_keyId entry)) = Inr k"
    and "decryptAndConvertEntryDataToEntry c entry k = Inr (validateDecryptAndConvertEntryDataToEntry c entry keys, dio)"
    and "cn_verifier c [entry_request (kei_contextId entry) (validateDecryptAndConvertEntryDataToEntry c entry keys)
        (dio_bridgeIdentity dio)] = Some [True]"
proof -
  define r where "r = validateDecryptAndConvertEntryDataToEntry c entry keys"
  have int: "assert_entry_integrity c entry (mk_moduleResourceId keys) = Inr ()"
    using assms by (auto simp: validateDecryptAndConvertEntryDataToEntry_def validateEntryDataIntegrity_def Let_def
        split: sum.splits if_splits)
  then have "decrypt_single_entry c entry keys = Inr r"
    using assms by (auto simp: r_def validateDecryptAndConvertEntryDataToEntry_def validateEntryDataIntegrity_def Let_def
        split: sum.splits)
  then show thesis
    unfolding decrypt_single_entry_def Let_def using assms int that by (elim single_item_read) (simp_all add: r_def)
qed

subsection \<open>Properties of entries\<close>

text \<open>
  An entry that is read without error is genuine: its value carries a signed integrity object
  over all its parts, made for exactly this context, store and key by its last modifier at a time
  within the tolerance; it was decrypted with the key that the key provider returned, without error, for
  its key id and this store, which for a key of the present format means that the provider accepted it;
  its data are what its author signed; and the application's verifier approved the author.
\<close>

theorem kvdb_entry_authentic:
  assumes "r = validateDecryptAndConvertEntryDataToEntry c entry keys" and "ke_statusCode r = 0"
  shows "\<exists>k dio. entry_genuine c entry (mk_moduleResourceId keys) k r dio \<and> k2_statusCode k = 0 \<and>
    provided_key c (one_key_request (mk_keys keys) (kei_keyId entry) \<lparr>el_contextId = kei_contextId entry, el_resourceId = mk_moduleResourceId keys\<rparr>)
      \<lparr>el_contextId = kei_contextId entry, el_resourceId = mk_moduleResourceId keys\<rparr> (kei_keyId entry) k \<and>
    cn_verifier c [entry_request (kei_contextId entry) r (dio_bridgeIdentity dio)] = Some [True]"
proof -
  let ?loc = "\<lparr>el_contextId = kei_contextId entry, el_resourceId = mk_moduleResourceId keys\<rparr>"
  obtain k dio where k: "assert_entry_integrity c entry (mk_moduleResourceId keys) = Inr ()"
      "bindR (keys_at c (KeyRequest_addOne (mk_keys keys) (kei_keyId entry) ?loc) ?loc)
        (\<lambda>ks. unordered_map_at ks (kei_keyId entry)) = Inr k"
      "decryptAndConvertEntryDataToEntry c entry k = Inr (r, dio)"
      "cn_verifier c [entry_request (kei_contextId entry) r (dio_bridgeIdentity dio)] = Some [True]"
    using single_entry_read [of c entry keys] assms by metis
  note g = decrypted_entry_genuine [OF k(1,3) assms(2)]
  from g k(4) single_key_provided [OF k(2)] show ?thesis by blast
qed

text \<open>The results of a list.\<close>

interpretation kvdb_entries: listed_items "decrypt_listed_entry c keyMap rid" failed_entry ke_statusCode put_entry_status
  for c :: "'k connection" and keyMap rid
  by unfold_locales simp_all

lemma decrypted_listed_genuine:
  assumes "decrypt_listed_entry c keyMap rid entry = Inr (r, dio)" and "ke_statusCode r = 0"
  shows "\<exists>k. map_of keyMap (kei_keyId entry) = Some k \<and> k2_statusCode k = 0 \<and> entry_genuine c entry rid k r dio"
proof -
  obtain k where k: "assert_entry_integrity c entry rid = Inr ()" "map_of keyMap (kei_keyId entry) = Some k"
      "decryptAndConvertEntryDataToEntry c entry k = Inr (r, dio)"
    using assms(1) by (auto simp: decrypt_listed_entry_def bindR_eq_Inr unordered_map_at_def split: option.splits)
  show ?thesis using decrypted_entry_genuine [OF k(1,3) assms(2)] k(2) by blast
qed

definition stored_dio :: "'k connection \<Rightarrow> KvdbEntryInfo \<Rightarrow> DataIntegrityObject \<Rightarrow> bool" where
  "stored_dio c entry dio \<longleftrightarrow>
     (\<exists>e. deserialize_struct (EncryptedEntryDataV5_fromJSON (en_poco (cn_env c))) (kei_kvdbEntryValue entry) = Inr e \<and>
        EntryDataEncryptorV5_getDIOAndAssertIntegrity (cn_env c) kvdb_entry_exns e = Inr dio)"

lemma listed_dio:
  assumes "decrypt_listed_entry c keyMap rid entry = Inr (r, dio)" and "ke_statusCode r = 0" and "stored_dio c entry dio'"
  shows "dio = dio'"
  using decrypted_listed_genuine [OF assms(1,2)] assms(3)
  by (auto simp: entry_genuine_def stored_dio_def dest: decrypted_dio)

text \<open>
  C7. A list of entries. There is one result for every entry, in order; a result without error is
  genuine, decrypted with the key that the key provider returned, without error, for its key id and
  this store, a key of the present format having been accepted from the entries of the request; the
  verifier approved its author; and no two of them share random id and time, so a repetition of an
  entry under another key or of an old version is not shown as valid beside it.
\<close>

theorem kvdb_entries_authentic:
  assumes "validateDecryptAndConvertKvdbEntriesDataToKvdbEntries c entries keys = Inr rs"
  shows "length rs = length entries \<and>
    (\<forall>i < length entries. ke_statusCode (rs ! i) = 0 \<longrightarrow>
       (\<exists>k dio b. entry_genuine c (entries ! i) (mk_moduleResourceId keys) k (rs ! i) dio \<and> k2_statusCode k = 0 \<and>
         provided_key c (listed_keys_request keys (map kei_keyId entries)) (keys_location keys) (kei_keyId (entries ! i)) k \<and>
         (\<exists>reqs answers. cn_verifier c reqs = Some answers \<and>
           (entry_request (mk_contextId keys) (rs ! i) b, True) \<in> set (zip reqs answers)))) \<and>
    (\<forall>i j dio dio'. i < j \<and> j < length entries \<and> ke_statusCode (rs ! i) = 0 \<and> ke_statusCode (rs ! j) = 0 \<and>
       stored_dio c (entries ! i) dio \<and> stored_dio c (entries ! j) dio' \<longrightarrow>
       (dio_randomId dio, dio_timestamp dio) \<noteq> (dio_randomId dio', dio_timestamp dio'))"
proof -
  let ?ids = "map kei_keyId entries"
  obtain keyMap where km: "keys_at c (KeyRequest_addMany (mk_keys keys) (sorted_list_of_set (set ?ids)) (keys_location keys)) (keys_location keys) = Inr keyMap"
      and ver: "verify_items (cn_verifier c) ke_statusCode put_entry_status (entry_request (mk_contextId keys))
        (decrypt_items (decrypt_listed_entry c keyMap (mk_moduleResourceId keys)) failed_entry put_entry_status [] entries) = Inr rs"
    using assms by (auto simp: validateDecryptAndConvertKvdbEntriesDataToKvdbEntries_def keys_location_def Let_def bindR_eq_Inr decrypt_entries_def)
  note items = kvdb_entries.verified_items [OF ver]
  show ?thesis
  proof (intro conjI allI impI)
    show "length rs = length entries" by (rule items(1))
    show "\<exists>k dio b. entry_genuine c (entries ! i) (mk_moduleResourceId keys) k (rs ! i) dio \<and> k2_statusCode k = 0 \<and>
        provided_key c (listed_keys_request keys ?ids) (keys_location keys) (kei_keyId (entries ! i)) k \<and>
        (\<exists>reqs answers. cn_verifier c reqs = Some answers \<and>
          (entry_request (mk_contextId keys) (rs ! i) b, True) \<in> set (zip reqs answers))"
      if i: "i < length entries" "ke_statusCode (rs ! i) = 0" for i
    proof -
      obtain dio reqs answers b where d: "decrypt_listed_entry c keyMap (mk_moduleResourceId keys) (entries ! i) = Inr (rs ! i, dio)"
          "cn_verifier c reqs = Some answers" "(entry_request (mk_contextId keys) (rs ! i) b, True) \<in> set (zip reqs answers)"
        using items(2) [OF i] by blast
      obtain k where k: "map_of keyMap (kei_keyId (entries ! i)) = Some k" "k2_statusCode k = 0"
          "entry_genuine c (entries ! i) (mk_moduleResourceId keys) k (rs ! i) dio"
        using decrypted_listed_genuine [OF d(1) i(2)] by blast
      show ?thesis using listed_key_provided [OF km k(1)] k(2,3) d(2,3) by blast
    qed
    show "(dio_randomId dio, dio_timestamp dio) \<noteq> (dio_randomId dio', dio_timestamp dio')"
      if ij: "i < j \<and> j < length entries \<and> ke_statusCode (rs ! i) = 0 \<and> ke_statusCode (rs ! j) = 0 \<and>
        stored_dio c (entries ! i) dio \<and> stored_dio c (entries ! j) dio'" for i j dio dio'
    proof -
      obtain d d' where "decrypt_listed_entry c keyMap (mk_moduleResourceId keys) (entries ! i) = Inr (rs ! i, d)"
          "decrypt_listed_entry c keyMap (mk_moduleResourceId keys) (entries ! j) = Inr (rs ! j, d')"
        using items(2) ij by (meson order.strict_trans)
      then show ?thesis using kvdb_entries.verified_distinct [OF ver, of i j d d'] listed_dio ij by metis
    qed
  qed
qed

text \<open>
  The verification of a list reads the wrong integrity object. When an entry fails before its
  integrity object is known, the next entry is verified with the bridge identity of the entry after
  it, because the integrity objects are collected for the successful entries only and read at the
  position of the result.
\<close>

theorem kvdb_entries_shifted:
  assumes "decrypt_listed_entry c keyMap rid a = Inl e" and "decrypt_listed_entry c keyMap rid b = Inr (r, dio)"
    and "decrypt_listed_entry c keyMap rid b' = Inr (r', dio')" and "ke_statusCode r = 0"
  shows "\<exists>rs dios. decrypt_entries c keyMap rid [a, b, b'] = (rs, dios) \<and> rs ! 1 = r \<and> dios = [dio, dio'] \<and>
    hd (item_requests ke_statusCode (entry_request contextId) rs dios) = entry_request contextId r (dio_bridgeIdentity dio')"
  unfolding decrypt_entries_def using assms by (rule kvdb_entries.shifted_request)


subsection \<open>Lists of stores\<close>

definition kvdb_genuine :: "'k connection \<Rightarrow> KvdbInfo \<Rightarrow> DecryptedEncKeyV2 \<Rightarrow> Kvdb \<Rightarrow> DataIntegrityObject \<Rightarrow> bool" where
  "kvdb_genuine c info k r dio \<longleftrightarrow>
     (\<exists>d. container_genuine c (kde_data (last (ki_data info))) (kvdb_location info) (ki_lastModifier info)
        (ki_lastModificationDate info) k d \<and> dio = md_dio d \<and> convertDecryptedKvdbDataV5ToKvdb c info d = Inr r)"

lemma convertServerKvdb_status:
  "convertServerKvdbToLibKvdb c info pm sm s v = Inr r \<Longrightarrow> kv_statusCode r = s"
  by (auto simp: convertServerKvdbToLibKvdb_def bindR_eq_Inr)

interpretation kvdb_stores: listed_containers "validateKvdbDataIntegrity c" "failed_kvdb c" Kvdb_new kv_statusCode put_kvdb_status
  for c :: "'k connection"
  by unfold_locales (simp_all add: failed_kvdb_def convertServerKvdb_status)

lemma decrypted_kvdb_genuine:
  assumes "validateKvdbDataIntegrity c info = 0"
    and "decryptAndConvertKvdbDataToKvdb c info (last (ki_data info)) k = Inr (r, dio)" and "kv_statusCode r = 0"
  shows "kvdb_genuine c info k r dio \<and> k2_statusCode k = 0"
proof -
  let ?data = "kde_data (last (ki_data info))"
  let ?d = "decryptModuleDataV5 (cn_env c) ?data k"
  obtain e dio' where v: "getKvdbDataEntryStructureVersion c (last (ki_data info)) = Inr 5"
      and e: "deserialize_struct (EncryptedModuleDataV5_fromJSON (en_poco (cn_env c))) ?data = Inr e"
        "ModuleDataEncryptorV5_getDIOAndAssertIntegrity (cn_env c) e = Inr dio'"
        "dio_contextId dio' = ki_contextId info" "dio_resourceId dio' = ki_resourceId info"
        "dio_creatorUserId dio' = ki_lastModifier info" "TimestampValidator_validate (dio_timestamp dio') (ki_lastModificationDate info)"
    using assms(1) by (auto simp: validateKvdbDataIntegrity_def assertKvdbDataIntegrity_def Let_def bindR_eq_Inr
        split: sum.splits if_splits)
  have r: "convertDecryptedKvdbDataV5ToKvdb c info ?d = Inr r" "dio = md_dio ?d"
    using assms(2) by (auto simp: decryptAndConvertKvdbDataToKvdb_def v Let_def bindR_eq_Inr)
  then have "md_statusCode ?d = 0"
    using assms(3) by (auto simp: convertDecryptedKvdbDataV5ToKvdb_def dest: convertServerKvdb_status)
  then have g: "container_genuine c ?data (kvdb_location info) (ki_lastModifier info) (ki_lastModificationDate info) k ?d"
    by (rule decrypted_container_genuine [OF e(1,2)]) (use e in \<open>simp_all add: kvdb_location_def\<close>)
  moreover have "k2_statusCode k = 0" using g by (simp add: container_genuine_def)
  ultimately show ?thesis using r unfolding kvdb_genuine_def by blast
qed

lemma single_kvdb_read:
  assumes "validateDecryptAndConvertKvdbDataToKvdb c info = Inr r" and "kv_statusCode r = 0"
  obtains k dio where "validateKvdbDataIntegrity c info = 0"
    and "bindR (keys_at c (KeyRequest_addOne (ki_keys info) (kde_keyId (last (ki_data info))) (kvdb_location info)) (kvdb_location info))
        (\<lambda>ks. unordered_map_at ks (kde_keyId (last (ki_data info)))) = Inr k"
    and "decryptAndConvertKvdbDataToKvdb c info (last (ki_data info)) k = Inr (r, dio)"
    and "cn_verifier c [kvdb_request r dio] = Some [True]"
proof -
  have int: "validateKvdbDataIntegrity c info = 0"
    using assms by (auto simp: validateDecryptAndConvertKvdbDataToKvdb_def Let_def dest: convertServerKvdb_status split: if_splits)
  then show thesis
    using assms that by (simp add: validateDecryptAndConvertKvdbDataToKvdb_def Let_def) (erule single_item_read; simp)
qed

text \<open>
  C8. A list of stores. There is one result for every store, in order; a result without error is
  genuine: it carries a signed integrity object of its last modifier over all parts, made for this
  context and store at a time within the tolerance; it was decrypted with the key that the provider
  returned, without error, for its key id and location, accepted when it has the present format; and the verifier
  approved the modifier together with the bridge identity of this store's own integrity object.
\<close>

theorem kvdb_stores_authentic:
  assumes "validateDecryptAndConvertKvdbsDataToKvdbs c kvdbs = Inr rs"
  shows "length rs = length kvdbs \<and>
    (\<forall>i < length kvdbs. kv_statusCode (rs ! i) = 0 \<longrightarrow>
       (\<exists>k dio. kvdb_genuine c (kvdbs ! i) k (rs ! i) dio \<and> k2_statusCode k = 0 \<and>
         provided_key c (containers_key_request ki_keys (\<lambda>kvdb. kde_keyId (last (ki_data kvdb))) kvdb_location kvdbs)
           (kvdb_location (kvdbs ! i)) (kde_keyId (last (ki_data (kvdbs ! i)))) k \<and>
         (\<exists>reqs answers. cn_verifier c reqs = Some answers \<and>
           (kvdb_request (rs ! i) dio, True) \<in> set (zip reqs answers))))"
proof -
  have get: "get_kvdb_keys c = (\<lambda>kvdbs. bindR
      (case mapS (\<lambda>kvdb. KeyRequest_addOne (ki_keys kvdb) (kde_keyId (last (ki_data kvdb))) (kvdb_location kvdb)) kvdbs KeyRequest_new of
        (Inl e, _) \<Rightarrow> Inl e | (Inr _, r) \<Rightarrow> Inr r)
      (KeyProvider_getKeysAndVerify (cn_env c) (cn_userPrivKey c) (cn_verifier c)))"
    by (simp add: fun_eq_iff get_kvdb_keys_def request_kvdb_keys_def)
  have dec: "decrypt_kvdb c = (\<lambda>m kvdb. bindR (at_location m (kvdb_location kvdb)) (\<lambda>ks. bindR
      (unordered_map_at ks (kde_keyId (last (ki_data kvdb)))) (decryptAndConvertKvdbDataToKvdb c kvdb (last (ki_data kvdb)))))"
    by (simp add: fun_eq_iff decrypt_kvdb_def)
  from kvdb_stores.read_with_keys [OF assms [unfolded validateDecryptAndConvertKvdbsDataToKvdbs_def get dec]]
  show ?thesis using decrypted_kvdb_genuine by meson
qed

subsection \<open>What is written can be read\<close>

lemma encrypted_entry_readable:
  assumes "connection_ok c" and "getAndValidateModuleCurrentEncKey c keys = Inr msgKey" and "checkable msgKey"
    and "length (ek_key msgKey) = 32" and "cn_myUserId c (mk_contextId keys) = Inr u" and "u \<noteq> []"
    and "mk_contextId keys \<noteq> []" and "\<And>r. cn_verifier c [r] = Some [True]"
  obtains v draws' where "encryptEntryData c kvdbId key pm sm data keys draws = (Inr v, draws')"
    and "\<And>entry. kei_kvdbEntryValue entry = v \<Longrightarrow> kei_kvdbEntryKey entry = key \<Longrightarrow> kei_kvdbId entry = kvdbId \<Longrightarrow>
      kei_contextId entry = mk_contextId keys \<Longrightarrow> kei_keyId entry = mk_currentKeyId keys \<Longrightarrow> kei_lastModifier entry = u \<Longrightarrow>
      TimestampValidator_validate (cn_now c draws) (kei_lastModificationDate entry) \<Longrightarrow>
      validateDecryptAndConvertEntryDataToEntry c entry keys = convertServerKvdbEntryToLibKvdbEntry entry pm sm data
        (PublicKey_toBase58DER (en_crypto (cn_env c)) (en_ecc (cn_env c)) (cn_userPrivKey c)) 0 5"
proof -
  obtain dio e draws' ob dio' d where dio: "ConnectionImpl_createDIO c (mk_contextId keys) key (Some kvdbId) (Some (mk_moduleResourceId keys)) draws = (Inr dio, draws + 1)"
    and e: "EntryDataEncryptorV5_encrypt (cn_env c)
      \<lparr>xt_publicMeta = pm, xt_privateMeta = sm, xt_data = data, xt_internalMeta = None, xt_dio = dio\<rparr>
      (cn_userPrivKey c) (ek_key msgKey) (draws + 1) = (Inr e, draws')"
    and ob: "EncryptedEntryDataV5_toJSON e = JObject ob" "\<forall>p. VersionedData_fromJSON p ob = Inr 5" "\<forall>p. EncryptedEntryDataV5_fromJSON p ob = Inr e"
    and int: "EntryDataEncryptorV5_getDIOAndAssertIntegrity (cn_env c) kvdb_entry_exns e = Inr dio'"
      "\<forall>date. TimestampValidator_validate (cn_now c draws) date \<longrightarrow>
        item_bound (mk_contextId keys) key kvdbId (mk_moduleResourceId keys) u date dio'"
    and d: "EntryDataEncryptorV5_decrypt (cn_env c) kvdb_entry_exns e (ek_key msgKey) = d" "xd_statusCode d = 0"
      "xd_publicMeta d = pm" "xd_privateMeta d = sm" "xd_data d = data" "xd_dio d = dio'"
      "xd_authorPubKey d = PublicKey_toBase58DER (en_crypto (cn_env c)) (en_ecc (cn_env c)) (cn_userPrivKey c)"
    by (rule written_item [OF assms(1,5,6,7,4)])
  show thesis
  proof (rule that)
    show "encryptEntryData c kvdbId key pm sm data keys draws = (Inr (JObject ob), draws')"
      using assms(2,3) by (simp add: encryptEntryData_def bindS_liftR checkable_def) (simp add: bindS_def dio e [unfolded Suc_eq_plus1 [symmetric]] ob(1))
    fix entry :: KvdbEntryInfo assume en: "kei_kvdbEntryValue entry = JObject ob" "kei_kvdbEntryKey entry = key" "kei_kvdbId entry = kvdbId"
      "kei_contextId entry = mk_contextId keys" "kei_keyId entry = mk_currentKeyId keys" "kei_lastModifier entry = u"
      "TimestampValidator_validate (cn_now c draws) (kei_lastModificationDate entry)"
    have ver: "getEntryDataStructureVersion c entry = Inr 5"
      by (simp add: getEntryDataStructureVersion_def en(1) ob)
    have assert: "assert_entry_integrity c entry (mk_moduleResourceId keys) = Inr ()"
      using int(2) [rule_format, OF en(7)] by (simp add: assert_entry_integrity_def ver en ob int(1) item_bound_def)
    have dec: "decryptKvdbEntryDataV5 c entry msgKey = EntryDataEncryptorV5_decrypt (cn_env c) kvdb_entry_exns e (ek_key msgKey)"
      using assms(3) by (simp add: decryptKvdbEntryDataV5_def en(1) ob checkable_def)
    have key: "bindR (keys_at c (KeyRequest_addOne (mk_keys keys) (kei_keyId entry)
        \<lparr>el_contextId = kei_contextId entry, el_resourceId = mk_moduleResourceId keys\<rparr>)
        \<lparr>el_contextId = kei_contextId entry, el_resourceId = mk_moduleResourceId keys\<rparr>)
        (\<lambda>ks. unordered_map_at ks (kei_keyId entry)) = Inr msgKey"
      using assms(2) by (simp add: getAndValidateModuleCurrentEncKey_def Let_def en)
    show "validateDecryptAndConvertEntryDataToEntry c entry keys = convertServerKvdbEntryToLibKvdbEntry entry pm sm data
        (PublicKey_toBase58DER (en_crypto (cn_env c)) (en_ecc (cn_env c)) (cn_userPrivKey c)) 0 5"
      by (simp add: validateDecryptAndConvertEntryDataToEntry_def validateEntryDataIntegrity_def assert decrypt_single_entry_def
          Let_def key decryptAndConvertEntryDataToEntry_def ver dec d convertDecryptedKvdbEntryDataV5ToKvdbEntry_def
          convertServerKvdbEntryToLibKvdbEntry_def verify_one_def UserVerifier_verify_def assms(8) verified_status_def)
  qed
qed

text \<open>
  C9. An entry that was written can be read. With an accepted current key of the store, writing an entry
  sends one request, under that key's id, and an entry with the value of that request that the Bridge
  returns for the same store, key and key id, attributed to this user at about the time of the
  write, is read without error with the public, private and other data that were given.
\<close>

theorem kvdb_entry_roundtrip:
  assumes "connection_ok c" and "getAndValidateModuleCurrentEncKey c keys = Inr msgKey" and "checkable msgKey"
    and "length (ek_key msgKey) = 32" and "cn_myUserId c (mk_contextId keys) = Inr u" and "u \<noteq> []"
    and "mk_contextId keys \<noteq> []" and "\<And>r. cn_verifier c [r] = Some [True]"
  shows "\<exists>v d. setEntryRequest c sv kvdbId key pm sm data version keys st =
      requesting (sv_kvdbEntrySet sv \<lparr>kes_kvdbId = kvdbId, kes_kvdbEntryKey = key, kes_kvdbEntryValue = v,
        kes_keyId = ek_id msgKey, kes_version = version\<rparr>) (st\<lparr>as_draws := d\<rparr>) \<and>
    (\<forall>entry. kei_kvdbEntryValue entry = v \<and> kei_kvdbEntryKey entry = key \<and> kei_kvdbId entry = kvdbId \<and>
       kei_contextId entry = mk_contextId keys \<and> kei_keyId entry = mk_currentKeyId keys \<and> kei_lastModifier entry = u \<and>
       TimestampValidator_validate (cn_now c (as_draws st)) (kei_lastModificationDate entry) \<longrightarrow>
       validateDecryptAndConvertEntryDataToEntry c entry keys = convertServerKvdbEntryToLibKvdbEntry entry pm sm data
         (PublicKey_toBase58DER (en_crypto (cn_env c)) (en_ecc (cn_env c)) (cn_userPrivKey c)) 0 5)"
proof (rule encrypted_entry_readable [OF assms, of kvdbId key pm sm data "as_draws st"])
  fix v draws'
  assume enc: "encryptEntryData c kvdbId key pm sm data keys (as_draws st) = (Inr v, draws')"
  have "setEntryRequest c sv kvdbId key pm sm data version keys st =
      requesting (sv_kvdbEntrySet sv \<lparr>kes_kvdbId = kvdbId, kes_kvdbEntryKey = key, kes_kvdbEntryValue = v,
        kes_keyId = ek_id msgKey, kes_version = version\<rparr>) (st\<lparr>as_draws := draws'\<rparr>)"
    using assms(3) by (simp add: setEntryRequest_def bindS_liftR assms(2) checkable_def) (simp add: bindS_def drawing_def enc)
  moreover assume "\<And>entry. kei_kvdbEntryValue entry = v \<Longrightarrow> kei_kvdbEntryKey entry = key \<Longrightarrow> kei_kvdbId entry = kvdbId \<Longrightarrow>
      kei_contextId entry = mk_contextId keys \<Longrightarrow> kei_keyId entry = mk_currentKeyId keys \<Longrightarrow> kei_lastModifier entry = u \<Longrightarrow>
      TimestampValidator_validate (cn_now c (as_draws st)) (kei_lastModificationDate entry) \<Longrightarrow>
      validateDecryptAndConvertEntryDataToEntry c entry keys = convertServerKvdbEntryToLibKvdbEntry entry pm sm data
        (PublicKey_toBase58DER (en_crypto (cn_env c)) (en_ecc (cn_env c)) (cn_userPrivKey c)) 0 5"
  ultimately show ?thesis by blast
qed

end
