(* ===== verification/Core_Created.thy ===== *)
theory Core_Created
  imports Core_ModuleKeys
begin

text \<open>
  The part of creating a container that the modules share: a key, a resource id, an integrity object and a
  secret are drawn, the data is encrypted and the key is distributed. Every user in the request can read
  the data with the key entry made for them.
\<close>

lemma created_policy:
  assumes "\<And>s. str (JString s) = Inr s"
  shows "Factory_parsePolicyServerObject p str (case map_option Factory_createPolicyServerObject policies of None \<Rightarrow> JEmpty | Some j \<Rightarrow> j)
    = Inr (case policies of None \<Rightarrow> empty_policy | Some q \<Rightarrow> q)"
  using policy_inverse [OF assms] by (cases policies) (simp_all add: Factory_parsePolicyServerObject_def)

lemma received_key:
  assumes "receives c key loc user es" and "cn_env c2 = cn_env c"
    and "up_pubKey user = PublicKey_toBase58DER (en_crypto (cn_env c)) (en_ecc (cn_env c)) (cn_userPrivKey c2)"
    and "\<forall>r. cn_verifier c2 [r] = Some [True]" and "keys = [\<lparr>ent_keyId = es_keyId es, ent_data = es_data es\<rparr>]"
  obtains k where "keys_at c2 (KeyRequest_addOne keys (ek_id key) loc) loc = Inr [(ek_id key, k)]"
    and "checkable k" and "ek_key k = ek_key key"
proof -
  obtain k where k: "KeyProvider_getKeysAndVerify (cn_env c) (cn_userPrivKey c2) (cn_verifier c2)
        (single_request loc es) = Inr [(loc, [(ek_id key, k)])]" "checkable k" "ek_key k = ek_key key"
    using assms(1,3,4) unfolding receives_def by blast
  have "KeyRequest_addOne keys (ek_id key) loc KeyRequest_new = (Inr (), single_request loc es)"
    using assms(1,5) by (simp add: receives_def single_request_def KeyRequest_addOne_def KeyRequest_new_def)
  then have "keys_at c2 (KeyRequest_addOne keys (ek_id key) loc) loc = Inr [(ek_id key, k)]"
    using k(1) by (simp add: keys_at_def at_location_def assms(2))
  then show thesis using that k by blast
qed

text \<open>What is drawn and encrypted, and how it decrypts.\<close>

definition created_data ::
    "'k connection \<Rightarrow> string \<Rightarrow> string \<Rightarrow> bytes \<Rightarrow> bytes \<Rightarrow> EncKey \<Rightarrow> string \<Rightarrow> int \<Rightarrow> EncryptedModuleDataV5 \<Rightarrow> bool" where
  "created_data c contextId u publicMeta privateMeta key rid now e \<longleftrightarrow>
     (\<exists>ob. EncryptedModuleDataV5_toJSON e = JObject ob \<and> (\<forall>p. VersionedData_fromJSON p ob = Inr 5) \<and>
        (\<forall>p. EncryptedModuleDataV5_fromJSON p ob = Inr e)) \<and>
     (\<exists>d. ModuleDataEncryptorV5_decrypt (cn_env c) e (ek_key key) = d \<and>
        ModuleDataEncryptorV5_getDIOAndAssertIntegrity (cn_env c) e = Inr (md_dio d) \<and> md_statusCode d = 0 \<and>
        md_publicMeta d = publicMeta \<and> md_privateMeta d = privateMeta \<and> dio_contextId (md_dio d) = contextId \<and>
        dio_resourceId (md_dio d) = rid \<and> dio_creatorUserId (md_dio d) = u \<and> dio_timestamp (md_dio d) = now)"

lemma created_data_encrypted:
  assumes "core_env_ok (cn_env c)" and "dio_valid (cn_env c) (cn_userPrivKey c) dio" and "length (ek_key key) = 32"
    and "dio_contextId dio = contextId" "dio_resourceId dio = rid" "dio_creatorUserId dio = u" "dio_timestamp dio = now"
  obtains e where "ModuleDataEncryptorV5_encrypt (cn_env c)
      \<lparr>mt_publicMeta = publicMeta, mt_privateMeta = privateMeta, mt_internalMeta = meta, mt_dio = dio\<rparr>
      (cn_userPrivKey c) (ek_key key) draws = (Inr e, draws + 2)"
    and "created_data c contextId u publicMeta privateMeta key rid now e"
proof -
  define x where "x = \<lparr>mt_publicMeta = publicMeta, mt_privateMeta = privateMeta, mt_internalMeta = meta, mt_dio = dio\<rparr>"
  have xv: "dio_valid (cn_env c) (cn_userPrivKey c) (mt_dio x)" using assms(2) by (simp add: x_def)
  obtain e where e: "ModuleDataEncryptorV5_encrypt (cn_env c) x (cn_userPrivKey c) (ek_key key) draws = (Inr e, draws + 2)"
      and dec: "ModuleDataEncryptorV5_decrypt (cn_env c) e (ek_key key) =
      \<lparr>md_dataStructureVersion = 5, md_statusCode = 0, md_publicMeta = mt_publicMeta x,
       md_privateMeta = mt_privateMeta x, md_internalMeta = mt_internalMeta x,
       md_authorPubKey = PublicKey_toBase58DER (en_crypto (cn_env c)) (en_ecc (cn_env c)) (cn_userPrivKey c),
       md_dio = (mt_dio x)\<lparr>dio_bridgeIdentity :=
         Some (case dio_bridgeIdentity (mt_dio x) of Some b \<Rightarrow> b | None \<Rightarrow> en_uninit (cn_env c))\<rparr>\<rparr>"
    by (rule V5_roundtrip [OF assms(1) xv assms(3)])
  have int: "ModuleDataEncryptorV5_getDIOAndAssertIntegrity (cn_env c) e = Inr (md_dio (ModuleDataEncryptorV5_decrypt (cn_env c) e (ek_key key)))"
    by (rule V5_decrypt_dio) (simp add: dec)
  then have e5: "me_version e = 5"
    by (auto simp: ModuleDataEncryptorV5_getDIOAndAssertIntegrity_def ModuleDataEncryptorV5_assertDataFormat_def
        bindR_eq_Inr Let_def split: if_splits)
  obtain ob where ob: "EncryptedModuleDataV5_toJSON e = JObject ob" by (simp add: EncryptedModuleDataV5_toJSON_def)
  have "created_data c contextId u publicMeta privateMeta key rid now e"
    unfolding created_data_def
    using int assms(4-7) EncryptedModuleDataV5_version [OF ob] EncryptedModuleDataV5_roundtrip [OF ob] e5 ob
    by (simp add: dec x_def)
  with e show thesis using that unfolding x_def by blast
qed

lemma created_container:
  assumes "connection_ok c" and "keys_fit c" and "known_users c (set users \<union> set managers)"
    and "inj_on user_key (set users \<union> set managers)"
    and "cn_myUserId c contextId = Inr u" and "u \<noteq> []" and "contextId \<noteq> []"
  obtains key rid dio secret e keys d1 where "KeyProvider_generateKey (cn_env c) (cn_hex c) d0 = (key, d0 + 2)"
    and "EndpointUtils_generateId c (d0 + 2) = (rid, d0 + 3)"
    and "ConnectionImpl_createDIO c contextId rid None None (d0 + 3) = (Inr dio, d0 + 4)"
    and "KeyProvider_generateSecret (cn_env c) (cn_hex c) (d0 + 4) = (secret, d0 + 5)"
    and "ModuleDataEncryptorV5_encrypt (cn_env c) \<lparr>mt_publicMeta = publicMeta, mt_privateMeta = privateMeta,
      mt_internalMeta = \<lparr>mi_secret = text_of secret, mi_resourceId = rid, mi_randomId = dio_randomId dio\<rparr>, mt_dio = dio\<rparr>
        (cn_userPrivKey c) (ek_key key) (d0 + 5) = (Inr e, d0 + 7)"
    and "KeyProvider_prepareKeysList (cn_env c) (cn_hex c) (cn_userPrivKey c) (EndpointUtils_uniqueListUserWithPubKey users managers)
      key dio \<lparr>el_contextId = contextId, el_resourceId = rid\<rparr> secret (d0 + 7) = (Inr keys, d1)"
    and "created_data c contextId u publicMeta privateMeta key rid (cn_now c (d0 + 3)) e"
    and "\<forall>user \<in> set users \<union> set managers. \<exists>es \<in> set keys. receives c key \<lparr>el_contextId = contextId, el_resourceId = rid\<rparr> user es"
proof -
  have ok: "core_env_ok (cn_env c)" using assms(1) by (simp add: connection_ok_def)
  define key where "key = fst (KeyProvider_generateKey (cn_env c) (cn_hex c) d0)"
  have key32: "length (ek_key key) = 32"
    using length_randomBytes [OF core_env_okD(1) [OF ok]] by (simp add: key_def KeyProvider_generateKey_def)
  define rid where "rid = cn_uuid c (d0 + 2)"
  define secret where "secret = fst (KeyProvider_generateSecret (cn_env c) (cn_hex c) (d0 + 4))"
  let ?loc = "\<lparr>el_contextId = contextId, el_resourceId = rid\<rparr>"
  obtain dio where dio: "ConnectionImpl_createDIO c contextId rid None None (d0 + 3) = (Inr dio, d0 + 3 + 1)"
      "dio_valid (cn_env c) (cn_userPrivKey c) dio" "dio_creatorUserId dio = u" "dio_contextId dio = contextId"
      "dio_resourceId dio = rid" "dio_timestamp dio = cn_now c (d0 + 3)"
    by (rule createDIO_valid [OF assms(1,5,6,7)])
  obtain e where e: "ModuleDataEncryptorV5_encrypt (cn_env c) \<lparr>mt_publicMeta = publicMeta, mt_privateMeta = privateMeta,
      mt_internalMeta = \<lparr>mi_secret = text_of secret, mi_resourceId = rid, mi_randomId = dio_randomId dio\<rparr>, mt_dio = dio\<rparr>
        (cn_userPrivKey c) (ek_key key) (d0 + 5) = (Inr e, d0 + 5 + 2)"
      "created_data c contextId u publicMeta privateMeta key rid (cn_now c (d0 + 3)) e"
    by (rule created_data_encrypted [OF ok dio(2) key32 dio(4,5,3,6)])
  let ?all = "EndpointUtils_uniqueListUserWithPubKey users managers"
  note set_all = set_uniqueListUserWithPubKey(1) [OF assms(4)]
  obtain keys where keys: "KeyProvider_prepareKeysList (cn_env c) (cn_hex c) (cn_userPrivKey c) ?all key dio ?loc secret (d0 + 7)
        = (Inr keys, d0 + 7 + length ?all)" "list_all2 (receives c key ?loc) ?all keys"
    using prepareKeysList_receives [OF assms(1,2) key_def dio(2), of ?loc ?all secret "d0 + 7"] dio(4,5) assms(3) set_all by auto
  have "\<exists>es \<in> set keys. receives c key ?loc user es" if "user \<in> set users \<union> set managers" for user
    using list_all2_partner [of "\<lambda>es user. receives c key ?loc user es" keys ?all user] keys(2) that set_all
    by (simp add: list_all2_conv_all_nth)
  then show thesis
    by (intro that [of key rid dio secret e keys "d0 + 7 + length ?all"])
      (use dio(1) e keys(1) in \<open>simp_all add: key_def KeyProvider_generateKey_def rid_def EndpointUtils_generateId_def secret_def
        KeyProvider_generateSecret_def eval_nat_numeral\<close>)
qed

end
