(* ===== verification/Kvdb_Stores.thy ===== *)
theory Kvdb_Stores
  imports Kvdb_Properties Core_Created
begin

text \<open>
  Properties of whole stores: a store that is created can be read by every user it is shared with,
  an update distributes keys to the users it names only, and the cache of keys is dropped with
  every change.
\<close>

text \<open>
  C10. Who receives keys when a store is updated. Only users and managers named in the update receive
  any; and when somebody who had access is no longer named, or a new key is demanded, the key of
  the update is newly generated and each of them receives it.
\<close>

theorem kvdb_update_recipients:
  assumes "inj_on user_key (set users \<union> set managers)"
    and "resolver = UsersKeysResolver_create currentUserIds currentManagerIds users managers force currentKey"
    and "update_keys c resolver kvdbKeys currentKey dio loc secret d = (Inr (key, keys), d')"
  shows "es_user ` set keys \<subseteq> up_userId ` (set users \<union> set managers) \<and>
    (force \<or> \<not> set currentUserIds \<union> set currentManagerIds \<subseteq> up_userId ` (set users \<union> set managers) \<longrightarrow>
       key = fst (KeyProvider_generateKey (cn_env c) (cn_hex c) d) \<and>
       (\<forall>u \<in> set users \<union> set managers. \<exists>es \<in> set keys. es_user es = up_userId u \<and> es_keyId es = ek_id key))"
proof -
  note spec = resolver_spec [OF assms(1,2)]
  obtain keys1 d1 where first: "(if ukr_needNewKey resolver
       then (\<lambda>d. case KeyProvider_generateKey (cn_env c) (cn_hex c) d of (key, d') \<Rightarrow>
         bindS (KeyProvider_prepareKeysList (cn_env c) (cn_hex c) (cn_userPrivKey c) (ukr_new_users resolver) key dio loc secret)
           (\<lambda>keys. ret (key, keys)) d')
       else ret (EncKey.truncate currentKey, [])) d = (Inr (key, keys1), d1)"
      and rest: "keys = keys1 \<or> (\<exists>tmp. keys = keys1 @ tmp \<and> KeyProvider_prepareMissingKeysForNewUsers (cn_env c) (cn_hex c)
        (EndpointUtils_generateDIORandomId c) (cn_userPrivKey c) kvdbKeys (ukr_usersToAddMissingKey resolver) dio loc secret d1 = (Inr tmp, d'))"
    using assms(3) unfolding update_keys_def by (subst (asm) bindS_eq_Inr) (auto simp: bindS_eq_Inr split: if_splits)
  have new: "key = fst (KeyProvider_generateKey (cn_env c) (cn_hex c) d) \<and> map es_user keys1 = map up_userId (ukr_new_users resolver) \<and>
      (\<forall>es \<in> set keys1. es_keyId es = ek_id key)" if need: "ukr_needNewKey resolver"
  proof -
    obtain d0 where "key = fst (KeyProvider_generateKey (cn_env c) (cn_hex c) d)"
        "KeyProvider_prepareKeysList (cn_env c) (cn_hex c) (cn_userPrivKey c) (ukr_new_users resolver) key dio loc secret d0 = (Inr keys1, d1)"
      using first need by (auto simp: bindS_eq_Inr split: prod.splits)
    then show ?thesis using prepareKeysList_users by metis
  qed
  have old: "keys1 = []" if "\<not> ukr_needNewKey resolver" using first that by simp
  have tail: "es_user ` set tmp \<subseteq> up_userId ` (set users \<union> set managers)" if "KeyProvider_prepareMissingKeysForNewUsers (cn_env c) (cn_hex c)
        (EndpointUtils_generateDIORandomId c) (cn_userPrivKey c) kvdbKeys (ukr_usersToAddMissingKey resolver) dio loc secret d1 = (Inr tmp, d')" for tmp
    using missing_keys_users [OF that] spec by blast
  have head: "es_user ` set keys1 \<subseteq> up_userId ` (set users \<union> set managers)"
    using new old spec by (cases "ukr_needNewKey resolver") (auto simp flip: list.set_map)
  have all: "es_user ` set keys \<subseteq> up_userId ` (set users \<union> set managers)"
    using rest
  proof
    assume "\<exists>tmp. keys = keys1 @ tmp \<and> KeyProvider_prepareMissingKeysForNewUsers (cn_env c) (cn_hex c)
        (EndpointUtils_generateDIORandomId c) (cn_userPrivKey c) kvdbKeys (ukr_usersToAddMissingKey resolver) dio loc secret d1 = (Inr tmp, d')"
    then obtain tmp where "keys = keys1 @ tmp" "es_user ` set tmp \<subseteq> up_userId ` (set users \<union> set managers)" using tail by blast
    then show ?thesis using head by (simp only: set_append image_Un Un_least)
  qed (use head in simp)
  have "\<exists>es \<in> set keys. es_user es = up_userId u \<and> es_keyId es = ek_id key"
    if need: "ukr_needNewKey resolver" and u: "u \<in> set users \<union> set managers" for u
  proof -
    have "up_userId u \<in> set (map es_user keys1)" using new [OF need] spec u by simp
    then obtain es where "es \<in> set keys1" "es_user es = up_userId u" by auto
    then show ?thesis using new [OF need] rest by auto
  qed
  with all new spec show ?thesis by blast
qed


subsection \<open>Creating and reading a store\<close>

text \<open>The Bridge returns a created store to a user with the key entry made for that user.\<close>

definition returned_to :: "KvdbCreateModel \<Rightarrow> KeyEntrySet \<Rightarrow> string \<Rightarrow> int \<Rightarrow> KvdbInfo \<Rightarrow> bool" where
  "returned_to m es modifier time info \<longleftrightarrow>
     ki_contextId info = kc_contextId m \<and> ki_resourceId info = kc_resourceId m \<and>
     ki_data info = [\<lparr>kde_keyId = kc_keyId m, kde_data = kc_data m\<rparr>] \<and>
     ki_keys info = [\<lparr>ent_keyId = es_keyId es, ent_data = es_data es\<rparr>] \<and> ki_lastModifier info = modifier \<and>
     ki_policy info = (case kc_policy m of None \<Rightarrow> JEmpty | Some p \<Rightarrow> p) \<and>
     TimestampValidator_validate time (ki_lastModificationDate info)"

lemma created_kvdb_readable:
  assumes "created_data c contextId u publicMeta privateMeta key rid now e" and "receives c key \<lparr>el_contextId = contextId, el_resourceId = rid\<rparr> user es"
    and m: "kc_contextId m = contextId" "kc_resourceId m = rid" "kc_keyId m = ek_id key" "kc_data m = EncryptedModuleDataV5_toJSON e"
      "kc_policy m = map_option Factory_createPolicyServerObject policies"
    and c2: "cn_env c2 = cn_env c" "\<forall>r. cn_verifier c2 [r] = Some [True]" "\<forall>s. cn_str c2 (JString s) = Inr s"
      "up_pubKey user = PublicKey_toBase58DER (en_crypto (cn_env c)) (en_ecc (cn_env c)) (cn_userPrivKey c2)"
    and info: "returned_to m es u now info"
  shows "\<exists>k. validateDecryptAndConvertKvdbDataToKvdb c2 info = Inr k \<and> kv_statusCode k = 0 \<and>
      kv_publicMeta k = publicMeta \<and> kv_privateMeta k = privateMeta \<and>
      kv_policy k = (case policies of None \<Rightarrow> empty_policy | Some q \<Rightarrow> q)"
proof -
  note info = info [unfolded returned_to_def m]
  have loc: "kvdb_location info = \<lparr>el_contextId = contextId, el_resourceId = rid\<rparr>" using info by (simp add: kvdb_location_def)
  obtain k where k: "keys_at c2 (KeyRequest_addOne (ki_keys info) (ek_id key) (kvdb_location info)) (kvdb_location info) = Inr [(ek_id key, k)]"
      "checkable k" "ek_key k = ek_key key"
    by (rule received_key [OF assms(2) c2(1,4,2), of "ki_keys info"]) (use info in \<open>auto simp: loc\<close>)
  obtain ob d where ob: "EncryptedModuleDataV5_toJSON e = JObject ob" "\<forall>p. VersionedData_fromJSON p ob = Inr 5"
      "\<forall>p. EncryptedModuleDataV5_fromJSON p ob = Inr e"
    and d: "ModuleDataEncryptorV5_decrypt (cn_env c2) e (ek_key k) = d"
      "ModuleDataEncryptorV5_getDIOAndAssertIntegrity (cn_env c2) e = Inr (md_dio d)" "md_statusCode d = 0"
      "md_publicMeta d = publicMeta" "md_privateMeta d = privateMeta" "dio_contextId (md_dio d) = contextId"
      "dio_resourceId (md_dio d) = rid" "dio_creatorUserId (md_dio d) = u" "dio_timestamp (md_dio d) = now"
    using assms(1) unfolding created_data_def k(3) c2(1) by blast
  have data: "ki_data info = [\<lparr>kde_keyId = ek_id key, kde_data = JObject ob\<rparr>]" using info ob(1) by simp
  have ver: "getKvdbDataEntryStructureVersion c2 \<lparr>kde_keyId = i, kde_data = JObject ob\<rparr> = Inr 5" for i
    by (simp add: getKvdbDataEntryStructureVersion_def ob)
  have int: "validateKvdbDataIntegrity c2 info = 0"
    using info d by (simp add: validateKvdbDataIntegrity_def assertKvdbDataIntegrity_def data ver ob)
  have dec: "decryptModuleDataV5 (cn_env c2) (JObject ob) k = d"
    using k(2) d(1) by (simp add: decryptModuleDataV5_def ob checkable_def)
  have policy: "Factory_parsePolicyServerObject (en_poco (cn_env c2)) (cn_str c2) (ki_policy info) =
      Inr (case policies of None \<Rightarrow> empty_policy | Some q \<Rightarrow> q)"
    using created_policy [of "cn_str c2" _ policies] c2(3) info by simp
  show ?thesis
    using d(3-5) c2(2) by (simp add: validateDecryptAndConvertKvdbDataToKvdb_def int data k(1) unordered_map_at_def
        decryptAndConvertKvdbDataToKvdb_def ver dec convertDecryptedKvdbDataV5ToKvdb_def convertServerKvdbToLibKvdb_def policy
        verify_one_def UserVerifier_verify_def verified_status_def)
qed

lemma created_readable:
  assumes "connection_ok c" and "keys_fit c" and "known_users c (set users \<union> set managers)"
    and "inj_on user_key (set users \<union> set managers)"
    and "cn_myUserId c contextId = Inr u" and "u \<noteq> []" and "contextId \<noteq> []"
  shows "\<exists>m d. createKvdbEx c sv contextId users managers publicMeta privateMeta type policies st =
      requesting (sv_kvdbCreate sv m) (st\<lparr>as_draws := d\<rparr>) \<and>
    kc_users m = map up_userId users \<and> kc_managers m = map up_userId managers \<and>
    (\<forall>user \<in> set users \<union> set managers. \<exists>es \<in> set (kc_keys m). es_user es = up_userId user \<and>
      (\<forall>c2 info. cn_env c2 = cn_env c \<and> (\<forall>r. cn_verifier c2 [r] = Some [True]) \<and> (\<forall>s. cn_str c2 (JString s) = Inr s) \<and>
         up_pubKey user = PublicKey_toBase58DER (en_crypto (cn_env c)) (en_ecc (cn_env c)) (cn_userPrivKey c2) \<and>
         returned_to m es u (cn_now c (as_draws st + 3)) info \<longrightarrow>
         (\<exists>k. validateDecryptAndConvertKvdbDataToKvdb c2 info = Inr k \<and> kv_statusCode k = 0 \<and>
           kv_publicMeta k = publicMeta \<and> kv_privateMeta k = privateMeta \<and>
           kv_policy k = (case policies of None \<Rightarrow> empty_policy | Some q \<Rightarrow> q))))"
proof -
  define d0 where "d0 = as_draws st"
  obtain key rid dio secret e keys d1 where steps: "KeyProvider_generateKey (cn_env c) (cn_hex c) d0 = (key, d0 + 2)"
      "EndpointUtils_generateId c (d0 + 2) = (rid, d0 + 3)"
      "ConnectionImpl_createDIO c contextId rid None None (d0 + 3) = (Inr dio, d0 + 4)"
      "KeyProvider_generateSecret (cn_env c) (cn_hex c) (d0 + 4) = (secret, d0 + 5)"
      "ModuleDataEncryptorV5_encrypt (cn_env c) \<lparr>mt_publicMeta = publicMeta, mt_privateMeta = privateMeta,
        mt_internalMeta = \<lparr>mi_secret = text_of secret, mi_resourceId = rid, mi_randomId = dio_randomId dio\<rparr>, mt_dio = dio\<rparr>
          (cn_userPrivKey c) (ek_key key) (d0 + 5) = (Inr e, d0 + 7)"
      "KeyProvider_prepareKeysList (cn_env c) (cn_hex c) (cn_userPrivKey c) (EndpointUtils_uniqueListUserWithPubKey users managers)
        key dio \<lparr>el_contextId = contextId, el_resourceId = rid\<rparr> secret (d0 + 7) = (Inr keys, d1)"
    and data: "created_data c contextId u publicMeta privateMeta key rid (cn_now c (d0 + 3)) e"
    and each: "\<forall>user \<in> set users \<union> set managers. \<exists>es \<in> set keys. receives c key \<lparr>el_contextId = contextId, el_resourceId = rid\<rparr> user es"
    by (rule created_container [OF assms])
  define m where "m = \<lparr>kc_resourceId = rid, kc_type = type, kc_contextId = contextId, kc_users = map up_userId users,
        kc_managers = map up_userId managers, kc_data = EncryptedModuleDataV5_toJSON e, kc_keyId = ek_id key,
        kc_keys = keys, kc_policy = map_option Factory_createPolicyServerObject policies\<rparr>"
  have run: "createKvdbEx c sv contextId users managers publicMeta privateMeta type policies st =
      requesting (sv_kvdbCreate sv m) (st\<lparr>as_draws := d1\<rparr>)"
    unfolding createKvdbEx_def
    by (rule bindS_drawn_step, rule steps(1), simp add: d0_def, rule bindS_drawn_step, rule steps(2), simp,
        rule bindS_drawing_step, rule steps(3), simp, rule bindS_drawn_step, rule steps(4), simp,
        rule bindS_drawing_step, rule steps(5), simp, rule bindS_drawing_step, rule steps(6), simp, simp add: m_def)
  have sel: "kc_users m = map up_userId users" "kc_managers m = map up_userId managers" "kc_keys m = keys" "kc_contextId m = contextId"
      "kc_resourceId m = rid" "kc_keyId m = ek_id key" "kc_data m = EncryptedModuleDataV5_toJSON e"
      "kc_policy m = map_option Factory_createPolicyServerObject policies"
    by (simp_all add: m_def)
  have "\<exists>es \<in> set (kc_keys m). es_user es = up_userId user \<and>
      (\<forall>c2 info. cn_env c2 = cn_env c \<and> (\<forall>r. cn_verifier c2 [r] = Some [True]) \<and> (\<forall>s. cn_str c2 (JString s) = Inr s) \<and>
         up_pubKey user = PublicKey_toBase58DER (en_crypto (cn_env c)) (en_ecc (cn_env c)) (cn_userPrivKey c2) \<and>
         returned_to m es u (cn_now c (d0 + 3)) info \<longrightarrow>
         (\<exists>k. validateDecryptAndConvertKvdbDataToKvdb c2 info = Inr k \<and> kv_statusCode k = 0 \<and>
           kv_publicMeta k = publicMeta \<and> kv_privateMeta k = privateMeta \<and>
           kv_policy k = (case policies of None \<Rightarrow> empty_policy | Some q \<Rightarrow> q)))"
    if u: "user \<in> set users \<union> set managers" for user
  proof -
    obtain es where es: "es \<in> set keys" "receives c key \<lparr>el_contextId = contextId, el_resourceId = rid\<rparr> user es" using each u by blast
    have "es_user es = up_userId user" using es(2) by (simp add: receives_def)
    then show ?thesis using es created_kvdb_readable [OF data es(2) sel(4-8)] sel(3) by blast
  qed
  then show ?thesis unfolding run d0_def [symmetric] using sel(1,2) by blast
qed

text \<open>
  C27. A store that was created can be read by everybody it is shared with. \<open>createKvdbEx\<close> sends one request;
  for each of the given users and managers it holds a key entry, and when the Bridge returns the
  stored data with that entry to the user, and attributes it to the creator at about the time of the
  creation, that user reads it without error with the public and private data and the policies that
  were given.
\<close>

theorem kvdb_created_readable:
  assumes "connection_ok c" and "keys_fit c" and "known_users c (set users \<union> set managers)"
    and "inj_on user_key (set users \<union> set managers)"
    and "cn_myUserId c contextId = Inr u" and "u \<noteq> []" and "contextId \<noteq> []"
  shows "\<exists>m d. createKvdbEx c sv contextId users managers publicMeta privateMeta type policies st =
      requesting (sv_kvdbCreate sv m) (st\<lparr>as_draws := d\<rparr>) \<and>
    kc_users m = map up_userId users \<and> kc_managers m = map up_userId managers \<and>
    (\<forall>user \<in> set users \<union> set managers. \<exists>es \<in> set (kc_keys m). es_user es = up_userId user \<and>
      (\<forall>c2 info. cn_env c2 = cn_env c \<and> (\<forall>r. cn_verifier c2 [r] = Some [True]) \<and> (\<forall>s. cn_str c2 (JString s) = Inr s) \<and>
         up_pubKey user = PublicKey_toBase58DER (en_crypto (cn_env c)) (en_ecc (cn_env c)) (cn_userPrivKey c2) \<and>
         returned_to m es u (cn_now c (as_draws st + 3)) info \<longrightarrow>
         (\<exists>k. validateDecryptAndConvertKvdbDataToKvdb c2 info = Inr k \<and> kv_statusCode k = 0 \<and>
           kv_publicMeta k = publicMeta \<and> kv_privateMeta k = privateMeta \<and>
           kv_policy k = (case policies of None \<Rightarrow> empty_policy | Some q \<Rightarrow> q))))"
  using assms by (rule created_readable)

end
