(* ===== verification/Core_Sample.thy ===== *)
theory Core_Sample
  imports Core_ModuleKeys
begin

text \<open>
  A connection for concrete evaluations, with the sample libraries of the core: the user with key 5 is
  connected, the user with key 7 shares the containers; and a key that was distributed to the user.
\<close>

text \<open>Hexadecimal digits, as the real encoding of bytes writes them.\<close>

definition hex_digit :: "nat \<Rightarrow> char" where
  "hex_digit n = ''0123456789abcdef'' ! n"

definition sample_hex :: "bytes \<Rightarrow> string" where
  "sample_hex b = concat (map (\<lambda>x. [hex_digit (unat x div 16), hex_digit (unat x mod 16)]) b)"

lemma length_sample_hex [simp]: "length (sample_hex b) = 2 * length b"
  by (induction b) (simp_all add: sample_hex_def)

lemma sample_hex_empty [simp]: "sample_hex b = [] \<longleftrightarrow> b = []"
  using length_sample_hex [of b] by (metis length_0_conv mult_eq_0_iff zero_neq_numeral)

lemma hex_digit_in: "n < 16 \<Longrightarrow> hex_digit n \<in> set (''0123456789abcdef'' @ ''ABCDEF'')"
  unfolding hex_digit_def set_append by (rule UnI1, rule nth_mem) simp

lemma sample_hex_digits: "c \<in> set (sample_hex b) \<Longrightarrow> c \<in> set (''0123456789abcdef'' @ ''ABCDEF'')"
proof (induction b)
  case (Cons x b)
  have "unat x div 16 < 16" "unat x mod 16 < 16"
    using unsigned_less [of x, where ?'a = nat] by (simp_all add: less_mult_imp_div_less)
  moreover have "c = hex_digit (unat x div 16) \<or> c = hex_digit (unat x mod 16) \<or> c \<in> set (sample_hex b)"
    using Cons.prems by (simp add: sample_hex_def)
  ultimately show ?case using hex_digit_in Cons.IH by blast
qed (simp add: sample_hex_def)

definition sample_connection :: "byte \<Rightarrow> byte connection" where
  "sample_connection priv =
     \<lparr>cn_env = sample_core_env, cn_userPrivKey = priv, cn_hex = sample_hex, cn_uuid = (\<lambda>_. ''r''), cn_now = (\<lambda>_. 0),
      cn_myUserId = (\<lambda>_. Inr ''u''), cn_bridgeIdentity = None, cn_verifier = (\<lambda>reqs. Some (map (\<lambda>_. True) reqs)),
      cn_str = (\<lambda>j. case j of JString s \<Rightarrow> Inr s | _ \<Rightarrow> Inl StdOutOfRange)\<rparr>"

definition sample_self :: UserWithPubKey where
  "sample_self = \<lparr>up_userId = ''u'', up_pubKey = PublicKey_toBase58DER sample_crypto sample_ecc 5\<rparr>"

lemma sample_connection_sel [simp]:
  "cn_env (sample_connection priv) = sample_core_env" "cn_userPrivKey (sample_connection priv) = priv"
  "cn_hex (sample_connection priv) = sample_hex" "cn_now (sample_connection priv) d = 0"
  "cn_myUserId (sample_connection priv) ctx = Inr ''u''"
  "cn_verifier (sample_connection priv) reqs = Some (map (\<lambda>_. True) reqs)"
  "cn_str (sample_connection priv) (JString s) = Inr s"
  by (simp_all add: sample_connection_def)

lemma text_of_empty [simp]: "text_of b = [] \<longleftrightarrow> b = []"
  by (simp add: text_of_def)

lemma sample_random [simp]: "length (randomBytes (en_crypto sample_core_env) d n) = n"
  by (rule length_randomBytes [OF core_env_okD(1) [OF sample_core_env_ok]])

lemma sample_random_nonempty [simp]: "0 < n \<Longrightarrow> randomBytes (en_crypto sample_core_env) d n \<noteq> []"
  using sample_random [of d n] by fastforce

lemma sample_connection_ok: "connection_ok (sample_connection priv)"
  by (simp add: connection_ok_def sample_core_env_ok)

lemma sample_stringify: "Utils_stringify sample_poco j = put_json j"
  unfolding Utils_stringify_def sample_poco_def poco_api.select_convs
  by (rule removeEscape_id) (use put_json_bits [of j] in auto)

lemma same_time [simp]: "TimestampValidator_validate 0 0"
  by (simp add: TimestampValidator_validate_def Utils_validateTimestamps_def TIMESTAMP_ALLOWED_DELTA_def s64_def)

lemma sample_keys_fit: "keys_fit (sample_connection priv)"
proof -
  have "length (Utils_stringify (en_poco sample_core_env) (key_json sample_core_env
        (v2_key sample_core_env sample_hex d (fst (KeyProvider_generateKey sample_core_env sample_hex d')) dio loc secret))) < 2 ^ 60"
    for d d' dio loc secret
  proof -
    define key where "key = fst (KeyProvider_generateKey sample_core_env sample_hex d')"
    define k where "k = v2_key sample_core_env sample_hex d key dio loc secret"
    have "length (ek_keySecret k) = 64"
      by (simp add: k_def v2_key_def Let_def EncKey.extend_def EncKeyV2ToEncrypt.fields_def KeyProvider_generateSecret_def)
    then have len: "length (text_of (ek_keySecret k)) = 64" "length (ek_id k) = 32" "length (text_of (ek_key k)) = 32"
      by (simp_all add: text_of_def k_def key_def KeyProvider_generateKey_def)
    have "key_json sample_core_env k = JObject [(''id'', JString (ek_id k)), (''key'', JString (text_of (ek_key k))),
        (''keySecret'', JString (text_of (ek_keySecret k)))]"
      unfolding key_json_def EncryptionKey_toJSON_def json_put_def by (simp add: sample_core_env_def sample_poco_def)
    then have "length (Utils_stringify (en_poco sample_core_env) (key_json sample_core_env k)) < 2 ^ 60"
      using length_put_string_le [of "text_of (ek_keySecret k)"] length_put_string_le [of "ek_id k"] length_put_string_le [of "''id''"]
        length_put_string_le [of "''key''"] length_put_string_le [of "''keySecret''"] length_put_string_le [of "text_of (ek_key k)"] len
      by (simp add: sample_core_env_def sample_stringify put_list_def put_nat_def)
    then show ?thesis by (simp add: k_def key_def)
  qed
  then show ?thesis by (simp add: keys_fit_def)
qed

lemma sample_known_users: "known_users (sample_connection priv) {sample_self, sample_user}"
  by (auto simp: known_users_def sample_self_def sample_user_def sample_core_env_def)

subsection \<open>A current key\<close>

definition sample_module_keys :: "KeyEntrySet \<Rightarrow> ModuleKeys" where
  "sample_module_keys es =
     \<lparr>mk_keys = [\<lparr>ent_keyId = es_keyId es, ent_data = es_data es\<rparr>], mk_currentKeyId = es_keyId es, mk_moduleSchemaVersion = 5,
      mk_moduleResourceId = ''r'', mk_contextId = ''c''\<rparr>"

lemma sample_module_keys_sel [simp]:
  "mk_moduleResourceId (sample_module_keys es) = ''r''" "mk_contextId (sample_module_keys es) = ''c''"
  "mk_currentKeyId (sample_module_keys es) = es_keyId es"
  by (simp_all add: sample_module_keys_def)

text \<open>
  A key for the user of the sample connection, found by a verifier that knows the user's key.
\<close>

lemma sample_current_key_for:
  assumes "\<And>r. vr_senderId r = ''u'' \<Longrightarrow> vr_senderPubKey r = PublicKey_toBase58DER sample_crypto sample_ecc 5 \<Longrightarrow> v [r] = Some [True]"
  obtains es k where "getAndValidateModuleCurrentEncKey ((sample_connection 5)\<lparr>cn_verifier := v\<rparr>) (sample_module_keys es) = Inr k"
    and "checkable k" and "length (ek_key k) = 32"
    and "keys_at ((sample_connection 5)\<lparr>cn_verifier := v\<rparr>)
      (KeyRequest_addMany (mk_keys (sample_module_keys es)) [es_keyId es] sample_location) sample_location = Inr [(es_keyId es, k)]"
    and "KeyIdFormatValidator_hasDefaultKeyIdFormat (es_keyId es)"
proof -
  let ?c = "(sample_connection 5)\<lparr>cn_verifier := v\<rparr>"
  define key where "key = fst (KeyProvider_generateKey sample_core_env sample_hex 0)"
  have dio: "dio_valid sample_core_env 5 sample_dio"
    by (simp add: dio_valid_def sample_dio_def) (simp add: sample_core_env_def)
  have "distributable sample_core_env sample_hex 0 5 5 sample_self key sample_dio sample_location [9]"
    by (rule generated_key_distributable [OF sample_connection_ok [of 5] sample_keys_fit, unfolded sample_connection_sel, OF key_def dio])
      (simp_all add: sample_dio_def sample_location_def sample_self_def sample_core_env_def)
  then obtain es k where es: "es_keyId es = ek_id key"
      and k: "KeyProvider_getKeysAndVerify sample_core_env 5 v (single_request sample_location es)
      = Inr [(sample_location, [(ek_id key, k)])]" "checkable k" "ek_key k = ek_key key"
    by (rule key_distribution [where v = v]) (use assms in \<open>auto simp: sample_dio_def\<close>)
  have one: "KeyRequest_addOne (mk_keys (sample_module_keys es)) (es_keyId es) sample_location KeyRequest_new
      = (Inr (), single_request sample_location es)"
    by (simp add: single_request_def sample_module_keys_def KeyRequest_addOne_def KeyRequest_new_def)
  have many: "KeyRequest_addMany (mk_keys (sample_module_keys es)) [es_keyId es] sample_location KeyRequest_new
      = (Inr (), single_request sample_location es)"
    by (simp add: single_request_def sample_module_keys_def KeyRequest_addOne_def KeyRequest_addMany_def KeyRequest_new_def)
  have "keys_at ?c (KeyRequest_addOne (mk_keys (sample_module_keys es)) (es_keyId es) sample_location) sample_location
      = Inr [(es_keyId es, k)]"
    using k(1) by (simp add: keys_at_def one at_location_def flip: es)
  then have "getAndValidateModuleCurrentEncKey ?c (sample_module_keys es) = Inr k"
    by (simp add: getAndValidateModuleCurrentEncKey_def sample_location_def [symmetric] unordered_map_at_def)
  moreover have "length (ek_key k) = 32" by (simp add: k(3) key_def KeyProvider_generateKey_def)
  moreover have "keys_at ?c (KeyRequest_addMany (mk_keys (sample_module_keys es)) [es_keyId es] sample_location) sample_location
      = Inr [(es_keyId es, k)]"
    using k(1) by (simp add: keys_at_def many at_location_def flip: es)
  moreover have "KeyIdFormatValidator_hasDefaultKeyIdFormat (es_keyId es)"
    unfolding KeyIdFormatValidator_hasDefaultKeyIdFormat_def es key_def list_all_iff
    using sample_hex_digits by (simp add: KeyProvider_generateKey_def del: set_simps)
  ultimately show thesis using that k(2) by blast
qed

lemma sample_current_key:
  obtains es k where "getAndValidateModuleCurrentEncKey (sample_connection 5) (sample_module_keys es) = Inr k"
    and "checkable k" and "length (ek_key k) = 32"
    and "keys_at (sample_connection 5) (KeyRequest_addMany (mk_keys (sample_module_keys es)) [es_keyId es] sample_location) sample_location
      = Inr [(es_keyId es, k)]"
    and "KeyIdFormatValidator_hasDefaultKeyIdFormat (es_keyId es)"
proof -
  have "(sample_connection 5)\<lparr>cn_verifier := (\<lambda>reqs. Some (map (\<lambda>_. True) reqs))\<rparr> = sample_connection 5"
    by (simp add: sample_connection_def)
  then show thesis
    using that sample_current_key_for [of "\<lambda>reqs. Some (map (\<lambda>_. True) reqs)"] by auto
qed

end
