(* ===== verification/Kvdb_Sample.thy ===== *)
theory Kvdb_Sample
  imports Kvdb_Stores Core_Sample
begin

text \<open>
  The properties of the key-value stores on the sample connection: a key is distributed, entries are
  written and read, a store is created and read.
\<close>

subsection \<open>Entries\<close>

lemma sample_entry:
  obtains es k entry where "ke_statusCode (validateDecryptAndConvertEntryDataToEntry (sample_connection 5) entry (sample_module_keys es)) = 0"
    and "keys_at (sample_connection 5) (KeyRequest_addMany (mk_keys (sample_module_keys es)) [kei_keyId entry] sample_location) sample_location
      = Inr [(kei_keyId entry, k)]"
    and "getAndValidateModuleCurrentEncKey (sample_connection 5) (sample_module_keys es) = Inr k"
    and "kei_keyId entry = es_keyId es" and "kei_contextId entry = ''c''"
proof -
  obtain es k where k: "getAndValidateModuleCurrentEncKey (sample_connection 5) (sample_module_keys es) = Inr k" "checkable k"
      "length (ek_key k) = 32"
      "keys_at (sample_connection 5) (KeyRequest_addMany (mk_keys (sample_module_keys es)) [es_keyId es] sample_location) sample_location
      = Inr [(es_keyId es, k)]"
    by (rule sample_current_key)
  show thesis
  proof (rule encrypted_entry_readable [OF sample_connection_ok k(1-3)])
    fix v
    assume read: "\<And>entry. kei_kvdbEntryValue entry = v \<Longrightarrow> kei_kvdbEntryKey entry = ''e'' \<Longrightarrow> kei_kvdbId entry = ''s'' \<Longrightarrow>
      kei_contextId entry = mk_contextId (sample_module_keys es) \<Longrightarrow> kei_keyId entry = mk_currentKeyId (sample_module_keys es) \<Longrightarrow>
      kei_lastModifier entry = ''u'' \<Longrightarrow> TimestampValidator_validate (cn_now (sample_connection 5) 0) (kei_lastModificationDate entry) \<Longrightarrow>
      validateDecryptAndConvertEntryDataToEntry (sample_connection 5) entry (sample_module_keys es) =
        convertServerKvdbEntryToLibKvdbEntry entry [1] [2] [3]
        (PublicKey_toBase58DER (en_crypto (cn_env (sample_connection 5))) (en_ecc (cn_env (sample_connection 5)))
          (cn_userPrivKey (sample_connection 5))) 0 5"
    let ?entry = "\<lparr>kei_kvdbEntryKey = ''e'', kei_kvdbEntryValue = v, kei_kvdbId = ''s'', kei_version = 1, kei_contextId = ''c'',
      kei_createDate = 0, kei_author = ''u'', kei_keyId = es_keyId es, kei_lastModificationDate = 0, kei_lastModifier = ''u''\<rparr>"
    show thesis
      by (rule that [of ?entry es k]) (use read [of ?entry] k in \<open>auto simp: convertServerKvdbEntryToLibKvdbEntry_def\<close>)
  qed auto
qed

theorem kvdb_entry_authentic_witness:
  "\<exists>es entry k dio. entry_genuine (sample_connection 5) entry ''r'' k
     (validateDecryptAndConvertEntryDataToEntry (sample_connection 5) entry (sample_module_keys es)) dio"
proof -
  obtain es entry where e: "ke_statusCode (validateDecryptAndConvertEntryDataToEntry (sample_connection 5) entry (sample_module_keys es)) = 0"
    by (rule sample_entry)
  show ?thesis using kvdb_entry_authentic [OF refl e] by auto
qed

theorem kvdb_entries_authentic_witness:
  "\<exists>es entry r k dio. validateDecryptAndConvertKvdbEntriesDataToKvdbEntries (sample_connection 5) [entry] (sample_module_keys es) = Inr [r] \<and>
     ke_statusCode r = 0 \<and> entry_genuine (sample_connection 5) entry ''r'' k r dio \<and> k2_statusCode k = 0 \<and>
     provided_key (sample_connection 5) (listed_keys_request (sample_module_keys es) [kei_keyId entry])
       (keys_location (sample_module_keys es)) (kei_keyId entry) k"
proof -
  let ?c = "sample_connection 5"
  obtain es k entry where e: "ke_statusCode (validateDecryptAndConvertEntryDataToEntry ?c entry (sample_module_keys es)) = 0"
      and keys: "keys_at ?c (KeyRequest_addMany (mk_keys (sample_module_keys es)) [kei_keyId entry] sample_location) sample_location
      = Inr [(kei_keyId entry, k)]"
      and cur: "getAndValidateModuleCurrentEncKey ?c (sample_module_keys es) = Inr k"
      and id: "kei_keyId entry = es_keyId es" "kei_contextId entry = ''c''"
    by (rule sample_entry)
  let ?r = "validateDecryptAndConvertEntryDataToEntry ?c entry (sample_module_keys es)"
  obtain dio where d: "assert_entry_integrity ?c entry ''r'' = Inr ()" "decryptAndConvertEntryDataToEntry ?c entry k = Inr (?r, dio)"
    by (rule single_entry_read [OF e]) (use cur id in \<open>auto simp: getAndValidateModuleCurrentEncKey_def\<close>)
  have "decrypt_entries ?c [(kei_keyId entry, k)] ''r'' [entry] = ([?r], [dio])"
    by (simp add: decrypt_entries_def decrypt_listed_entry_def d unordered_map_at_def)
  then have run: "validateDecryptAndConvertKvdbEntriesDataToKvdbEntries ?c [entry] (sample_module_keys es) = Inr [?r]"
    using keys e by (simp add: validateDecryptAndConvertKvdbEntriesDataToKvdbEntries_def Let_def
        sample_location_def [symmetric] UserVerifier_verify_def verify_items_def item_requests_def verified_status_def)
  from kvdb_entries_authentic [OF run] e have "\<exists>k dio. entry_genuine ?c entry ''r'' k ?r dio \<and> k2_statusCode k = 0 \<and>
      provided_key ?c (listed_keys_request (sample_module_keys es) [kei_keyId entry]) (keys_location (sample_module_keys es)) (kei_keyId entry) k"
    by fastforce
  with run e show ?thesis by blast
qed

text \<open>A Bridge that records the stores and entries it is sent.\<close>

definition sample_kvdb_server :: "(KvdbCreateModel list \<times> KvdbEntrySetModel list) kvdb_server" where
  "sample_kvdb_server =
     \<lparr>sv_kvdbCreate = (\<lambda>m s. (Inr ''s'', (fst s @ [m], snd s))), sv_kvdbUpdate = (\<lambda>m s. (Inr (), s)),
      sv_kvdbDelete = (\<lambda>i s. (Inr (), s)), sv_kvdbGet = (\<lambda>m s. (Inl StdOutOfRange, s)),
      sv_kvdbList = (\<lambda>m s. (Inr ([], 0), s)), sv_kvdbEntryGet = (\<lambda>m s. (Inl StdOutOfRange, s)),
      sv_kvdbEntrySet = (\<lambda>m s. (Inr (), (fst s, snd s @ [m]))), sv_kvdbEntryDelete = (\<lambda>m s. (Inr (), s)),
      sv_kvdbListKeys = (\<lambda>m s. (Inr ([], 0), s)), sv_kvdbListEntries = (\<lambda>m s. (Inl StdOutOfRange, s)),
      sv_kvdbEntryDeleteMany = (\<lambda>i ks s. (Inr [], s))\<rparr>"

definition sample_kvdb_state :: "(KvdbCreateModel list \<times> KvdbEntrySetModel list, kvdb_event) api_state" where
  "sample_kvdb_state =
     \<lparr>as_cache = ContainerKeyCache_new, as_draws = 0, as_server = ([], []), as_events = [], as_subscriptions = []\<rparr>"

theorem kvdb_entry_roundtrip_witness:
  "\<exists>es m st' entry. setEntryRequest (sample_connection 5) sample_kvdb_server ''s'' ''e'' [1] [2] [3] 0 (sample_module_keys es) sample_kvdb_state
       = (Inr (), st') \<and> snd (as_server st') = [m] \<and> kei_kvdbEntryValue entry = kes_kvdbEntryValue m \<and>
     ke_statusCode (validateDecryptAndConvertEntryDataToEntry (sample_connection 5) entry (sample_module_keys es)) = 0 \<and>
     ke_data (validateDecryptAndConvertEntryDataToEntry (sample_connection 5) entry (sample_module_keys es)) = [3]"
proof -
  let ?c = "sample_connection 5"
  obtain es k where k: "getAndValidateModuleCurrentEncKey ?c (sample_module_keys es) = Inr k" "checkable k" "length (ek_key k) = 32"
    by (rule sample_current_key)
  have hyps: "cn_myUserId ?c (mk_contextId (sample_module_keys es)) = Inr ''u''" "''u'' \<noteq> []"
      "mk_contextId (sample_module_keys es) \<noteq> []" "\<And>r. cn_verifier ?c [r] = Some [True]"
    by simp_all
  obtain v d where run: "setEntryRequest ?c sample_kvdb_server ''s'' ''e'' [1] [2] [3] 0 (sample_module_keys es) sample_kvdb_state =
      requesting (sv_kvdbEntrySet sample_kvdb_server \<lparr>kes_kvdbId = ''s'', kes_kvdbEntryKey = ''e'', kes_kvdbEntryValue = v,
        kes_keyId = ek_id k, kes_version = 0\<rparr>) (sample_kvdb_state\<lparr>as_draws := d\<rparr>)"
      and read: "\<forall>entry. kei_kvdbEntryValue entry = v \<and> kei_kvdbEntryKey entry = ''e'' \<and> kei_kvdbId entry = ''s'' \<and>
       kei_contextId entry = mk_contextId (sample_module_keys es) \<and> kei_keyId entry = mk_currentKeyId (sample_module_keys es) \<and>
       kei_lastModifier entry = ''u'' \<and>
       TimestampValidator_validate (cn_now ?c (as_draws sample_kvdb_state)) (kei_lastModificationDate entry) \<longrightarrow>
       validateDecryptAndConvertEntryDataToEntry ?c entry (sample_module_keys es) = convertServerKvdbEntryToLibKvdbEntry entry [1] [2] [3]
         (PublicKey_toBase58DER (en_crypto (cn_env ?c)) (en_ecc (cn_env ?c)) (cn_userPrivKey ?c)) 0 5"
    using kvdb_entry_roundtrip [OF sample_connection_ok k hyps] by blast
  let ?entry = "\<lparr>kei_kvdbEntryKey = ''e'', kei_kvdbEntryValue = v, kei_kvdbId = ''s'', kei_version = 1, kei_contextId = ''c'',
      kei_createDate = 0, kei_author = ''u'', kei_keyId = es_keyId es, kei_lastModificationDate = 0, kei_lastModifier = ''u''\<rparr>"
  let ?m = "\<lparr>kes_kvdbId = ''s'', kes_kvdbEntryKey = ''e'', kes_kvdbEntryValue = v, kes_keyId = ek_id k, kes_version = 0\<rparr>"
  let ?run = "setEntryRequest ?c sample_kvdb_server ''s'' ''e'' [1] [2] [3] 0 (sample_module_keys es) sample_kvdb_state"
  have "validateDecryptAndConvertEntryDataToEntry ?c ?entry (sample_module_keys es) = convertServerKvdbEntryToLibKvdbEntry ?entry [1] [2] [3]
         (PublicKey_toBase58DER (en_crypto (cn_env ?c)) (en_ecc (cn_env ?c)) (cn_userPrivKey ?c)) 0 5"
    using read by simp
  then show ?thesis
    by (intro exI [of _ es] exI [of _ ?m] exI [of _ "snd ?run"] exI [of _ ?entry], unfold run)
      (simp add: requesting_def sample_kvdb_server_def sample_kvdb_state_def convertServerKvdbEntryToLibKvdbEntry_def)
qed

theorem kvdb_entries_shifted_witness:
  "\<exists>km a b r dio rs. decrypt_entries (sample_connection 5) km ''r'' [a, b, b] = (rs, [dio, dio]) \<and> rs ! 1 = r \<and>
     hd (item_requests ke_statusCode (entry_request ''c'') rs [dio, dio]) = entry_request ''c'' r (dio_bridgeIdentity dio)"
proof -
  let ?c = "sample_connection 5"
  obtain es k entry where e: "ke_statusCode (validateDecryptAndConvertEntryDataToEntry ?c entry (sample_module_keys es)) = 0"
      and cur: "getAndValidateModuleCurrentEncKey ?c (sample_module_keys es) = Inr k"
      and id: "kei_keyId entry = es_keyId es" "kei_contextId entry = ''c''"
    by (rule sample_entry)
  let ?r = "validateDecryptAndConvertEntryDataToEntry ?c entry (sample_module_keys es)"
  let ?km = "[(kei_keyId entry, k)]" and ?bad = "entry\<lparr>kei_kvdbEntryValue := JEmpty\<rparr>"
  obtain dio where "assert_entry_integrity ?c entry ''r'' = Inr ()" "decryptAndConvertEntryDataToEntry ?c entry k = Inr (?r, dio)"
    by (rule single_entry_read [OF e]) (use cur id in \<open>auto simp: getAndValidateModuleCurrentEncKey_def\<close>)
  then have good: "decrypt_listed_entry ?c ?km ''r'' entry = Inr (?r, dio)"
    by (simp add: decrypt_listed_entry_def unordered_map_at_def)
  have bad: "decrypt_listed_entry ?c ?km ''r'' ?bad = Inl (KvdbExn UnknownKvdbEntryFormatException)"
    by (simp add: decrypt_listed_entry_def assert_entry_integrity_def getEntryDataStructureVersion_def)
  from kvdb_entries_shifted [OF bad good good e, of "''c''"] show ?thesis by blast
qed

subsection \<open>Stores\<close>

theorem kvdb_created_readable_witness:
  "\<exists>m st' info k. createKvdbEx (sample_connection 5) sample_kvdb_server ''c'' [sample_user] [sample_self] [1] [2] ''kvdb'' None sample_kvdb_state
       = (Inr ''s'', st') \<and> fst (as_server st') = [m] \<and> ki_data info = [\<lparr>kde_keyId = kc_keyId m, kde_data = kc_data m\<rparr>] \<and>
     validateDecryptAndConvertKvdbDataToKvdb (sample_connection 7) info = Inr k \<and>
     kv_statusCode k = 0 \<and> kv_publicMeta k = [1] \<and> kv_privateMeta k = [2]"
proof -
  let ?c = "sample_connection 5" and ?c2 = "sample_connection 7"
  have hyps: "known_users ?c (set [sample_user] \<union> set [sample_self])" "inj_on user_key (set [sample_user] \<union> set [sample_self])"
      "cn_myUserId ?c ''c'' = Inr ''u''" "''u'' \<noteq> []" "''c'' \<noteq> []"
    using sample_known_users by (auto simp: known_users_def sample_user_def sample_self_def)
  note created = kvdb_created_readable [OF sample_connection_ok sample_keys_fit hyps, of sample_kvdb_server "[1]" "[2]" "''kvdb''" None sample_kvdb_state]
  obtain m d where run: "createKvdbEx ?c sample_kvdb_server ''c'' [sample_user] [sample_self] [1] [2] ''kvdb'' None sample_kvdb_state =
      requesting (sv_kvdbCreate sample_kvdb_server m) (sample_kvdb_state\<lparr>as_draws := d\<rparr>)"
      and each: "\<forall>user \<in> set [sample_user] \<union> set [sample_self]. \<exists>es \<in> set (kc_keys m). es_user es = up_userId user \<and>
      (\<forall>c2 info. cn_env c2 = cn_env ?c \<and> (\<forall>r. cn_verifier c2 [r] = Some [True]) \<and> (\<forall>s. cn_str c2 (JString s) = Inr s) \<and>
         up_pubKey user = PublicKey_toBase58DER (en_crypto (cn_env ?c)) (en_ecc (cn_env ?c)) (cn_userPrivKey c2) \<and>
         returned_to m es ''u'' (cn_now ?c (as_draws sample_kvdb_state + 3)) info \<longrightarrow>
         (\<exists>k. validateDecryptAndConvertKvdbDataToKvdb c2 info = Inr k \<and> kv_statusCode k = 0 \<and>
           kv_publicMeta k = [1] \<and> kv_privateMeta k = [2] \<and>
           kv_policy k = (case None of None \<Rightarrow> empty_policy | Some q \<Rightarrow> q)))"
    using created by (elim exE conjE)
  obtain es where es: "\<And>info. returned_to m es ''u'' 0 info \<Longrightarrow> \<exists>k. validateDecryptAndConvertKvdbDataToKvdb ?c2 info = Inr k \<and>
      kv_statusCode k = 0 \<and> kv_publicMeta k = [1] \<and> kv_privateMeta k = [2]"
  proof -
    obtain es where other: "\<forall>c2 info. cn_env c2 = cn_env ?c \<and> (\<forall>r. cn_verifier c2 [r] = Some [True]) \<and>
         (\<forall>s. cn_str c2 (JString s) = Inr s) \<and>
         up_pubKey sample_user = PublicKey_toBase58DER (en_crypto (cn_env ?c)) (en_ecc (cn_env ?c)) (cn_userPrivKey c2) \<and>
         returned_to m es ''u'' (cn_now ?c (as_draws sample_kvdb_state + 3)) info \<longrightarrow>
         (\<exists>k. validateDecryptAndConvertKvdbDataToKvdb c2 info = Inr k \<and> kv_statusCode k = 0 \<and>
           kv_publicMeta k = [1] \<and> kv_privateMeta k = [2] \<and>
           kv_policy k = (case None of None \<Rightarrow> empty_policy | Some q \<Rightarrow> q))"
      using bspec [OF each, of sample_user] by auto
    have "up_pubKey sample_user = PublicKey_toBase58DER (en_crypto sample_core_env) (en_ecc sample_core_env) 7"
      by (simp add: sample_user_def sample_core_env_def)
    then have "\<exists>k. validateDecryptAndConvertKvdbDataToKvdb ?c2 info = Inr k \<and> kv_statusCode k = 0 \<and>
        kv_publicMeta k = [1] \<and> kv_privateMeta k = [2]" if "returned_to m es ''u'' 0 info" for info
      using that other [rule_format, of ?c2 info] by auto
    then show thesis by (rule that)
  qed
  let ?info = "\<lparr>ki_id = ''s'', ki_resourceId = kc_resourceId m, ki_contextId = kc_contextId m, ki_createDate = 0, ki_creator = ''u'',
      ki_lastModificationDate = 0, ki_lastModifier = ''u'', ki_data = [\<lparr>kde_keyId = kc_keyId m, kde_data = kc_data m\<rparr>],
      ki_keyId = kc_keyId m, ki_users = [], ki_managers = [], ki_keys = [\<lparr>ent_keyId = es_keyId es, ent_data = es_data es\<rparr>],
      ki_version = 1, ki_type = None, ki_policy = (case kc_policy m of None \<Rightarrow> JEmpty | Some p \<Rightarrow> p), ki_entries = 0, ki_lastEntryDate = 0\<rparr>"
  have "returned_to m es ''u'' 0 ?info" by (simp add: returned_to_def)
  from es [OF this] obtain k where "validateDecryptAndConvertKvdbDataToKvdb ?c2 ?info = Inr k" "kv_statusCode k = 0"
      "kv_publicMeta k = [1]" "kv_privateMeta k = [2]" by blast
  then show ?thesis
    by (intro exI [of _ m] exI [of _ "snd (createKvdbEx ?c sample_kvdb_server ''c'' [sample_user] [sample_self] [1] [2] ''kvdb'' None sample_kvdb_state)"]
        exI [of _ ?info] exI [of _ k], unfold run)
      (simp add: requesting_def sample_kvdb_server_def sample_kvdb_state_def)
qed

lemma sample_store:
  obtains info r where "validateDecryptAndConvertKvdbDataToKvdb (sample_connection 7) info = Inr r" and "kv_statusCode r = 0"
proof -
  let ?c = "sample_connection 5"
  have hyps: "known_users ?c (set [sample_user] \<union> set [])" "inj_on user_key (set [sample_user] \<union> set [])"
      "cn_myUserId ?c ''c'' = Inr ''u''" "''u'' \<noteq> []" "''c'' \<noteq> []"
    using sample_known_users by (auto simp: known_users_def)
  obtain m es where es: "\<And>c2 info. cn_env c2 = cn_env ?c \<and> (\<forall>r. cn_verifier c2 [r] = Some [True]) \<and> (\<forall>s. cn_str c2 (JString s) = Inr s) \<and>
         up_pubKey sample_user = PublicKey_toBase58DER (en_crypto (cn_env ?c)) (en_ecc (cn_env ?c)) (cn_userPrivKey c2) \<and>
         returned_to m es ''u'' (cn_now ?c (as_draws sample_kvdb_state + 3)) info \<Longrightarrow>
         \<exists>k. validateDecryptAndConvertKvdbDataToKvdb c2 info = Inr k \<and> kv_statusCode k = 0"
    using created_readable [OF sample_connection_ok sample_keys_fit hyps, of sample_kvdb_server "[1]" "[2]" "''kvdb''" None sample_kvdb_state]
    by (elim exE conjE) (drule bspec [of _ _ sample_user], simp, blast)
  let ?info = "\<lparr>ki_id = ''s'', ki_resourceId = kc_resourceId m, ki_contextId = kc_contextId m, ki_createDate = 0, ki_creator = ''u'',
      ki_lastModificationDate = 0, ki_lastModifier = ''u'', ki_data = [\<lparr>kde_keyId = kc_keyId m, kde_data = kc_data m\<rparr>],
      ki_keyId = kc_keyId m, ki_users = [], ki_managers = [], ki_keys = [\<lparr>ent_keyId = es_keyId es, ent_data = es_data es\<rparr>],
      ki_version = 1, ki_type = None, ki_policy = (case kc_policy m of None \<Rightarrow> JEmpty | Some p \<Rightarrow> p), ki_entries = 0, ki_lastEntryDate = 0\<rparr>"
  have "up_pubKey sample_user = PublicKey_toBase58DER (en_crypto sample_core_env) (en_ecc sample_core_env) 7"
    by (simp add: sample_user_def sample_core_env_def)
  then show thesis using that es [of "sample_connection 7" ?info] by (auto simp: returned_to_def)
qed

theorem kvdb_stores_authentic_witness:
  "\<exists>info r k dio. validateDecryptAndConvertKvdbsDataToKvdbs (sample_connection 7) [info] = Inr [r] \<and>
     kv_statusCode r = 0 \<and> kvdb_genuine (sample_connection 7) info k r dio \<and> k2_statusCode k = 0 \<and>
     provided_key (sample_connection 7) (containers_key_request ki_keys (\<lambda>kvdb. kde_keyId (last (ki_data kvdb))) kvdb_location [info])
       (kvdb_location info) (kde_keyId (last (ki_data info))) k"
proof -
  let ?c = "sample_connection 7"
  obtain info r where one: "validateDecryptAndConvertKvdbDataToKvdb ?c info = Inr r" "kv_statusCode r = 0" by (rule sample_store)
  let ?i = "kde_keyId (last (ki_data info))"
  obtain k dio where d: "validateKvdbDataIntegrity ?c info = 0"
      "bindR (keys_at ?c (KeyRequest_addOne (ki_keys info) ?i (kvdb_location info)) (kvdb_location info)) (\<lambda>ks. unordered_map_at ks ?i) = Inr k"
      "decryptAndConvertKvdbDataToKvdb ?c info (last (ki_data info)) k = Inr (r, dio)"
    by (rule single_kvdb_read [OF one])
  obtain req m ks where add: "KeyRequest_addOne (ki_keys info) ?i (kvdb_location info) KeyRequest_new = (Inr (), req)"
      and m: "KeyProvider_getKeysAndVerify (cn_env ?c) (cn_userPrivKey ?c) (cn_verifier ?c) req = Inr m"
        "at_location m (kvdb_location info) = Inr ks" "unordered_map_at ks ?i = Inr k"
    using d(2) by (auto simp: keys_at_def bindR_eq_Inr split: prod.splits sum.splits)
  have keys: "get_kvdb_keys ?c [info] = Inr m"
    using m(1) by (simp add: get_kvdb_keys_def request_kvdb_keys_def bindS_def add ret_def)
  have dec: "decrypt_kvdb ?c m info = Inr (r, dio)" by (simp add: decrypt_kvdb_def m d(3))
  have run: "validateDecryptAndConvertKvdbsDataToKvdbs ?c [info] = Inr [r]"
    using one(2) by (simp add: validateDecryptAndConvertKvdbsDataToKvdbs_def read_containers_def check_containers_def d(1) keys dec
        Kvdb_new_def verify_containers_def UserVerifier_verify_def verified_status_def)
  from kvdb_stores_authentic [OF run] one(2) have "\<exists>k dio. kvdb_genuine ?c info k r dio \<and> k2_statusCode k = 0 \<and>
      provided_key ?c (containers_key_request ki_keys (\<lambda>kvdb. kde_keyId (last (ki_data kvdb))) kvdb_location [info])
        (kvdb_location info) ?i k"
    by fastforce
  with run one(2) show ?thesis by blast
qed

text \<open>The user with the name x loses access, and a new key goes to the remaining user.\<close>

theorem kvdb_update_recipients_witness:
  "\<exists>key keys d'. update_keys (sample_connection 5) (UsersKeysResolver_create [''x''] [] [sample_user] [] False DecryptedEncKeyV2_new) []
       DecryptedEncKeyV2_new sample_dio sample_location [9] 0 = (Inr (key, keys), d') \<and>
     es_user ` set keys \<subseteq> {''w''} \<and> key = fst (KeyProvider_generateKey sample_core_env sample_hex 0) \<and> ''w'' \<in> es_user ` set keys"
proof -
  let ?c = "sample_connection 5"
  define key where "key = fst (KeyProvider_generateKey (cn_env ?c) (cn_hex ?c) 0)"
  have dio: "dio_valid (cn_env ?c) (cn_userPrivKey ?c) sample_dio"
    by (simp add: dio_valid_def sample_dio_def) (simp add: sample_core_env_def)
  have user: "known_users ?c (set [sample_user])" using sample_known_users [of 5] by (auto simp: known_users_def)
  obtain keys where keys: "KeyProvider_prepareKeysList (cn_env ?c) (cn_hex ?c) (cn_userPrivKey ?c) [sample_user] key sample_dio
      sample_location [9] 2 = (Inr keys, 3)"
    using prepareKeysList_receives [OF sample_connection_ok sample_keys_fit key_def dio _ _ user, of sample_location "[9]" 2]
    by (auto simp: sample_dio_def sample_location_def eval_nat_numeral)
  define r where "r = UsersKeysResolver_create [''x''] [] [sample_user] [] False DecryptedEncKeyV2_new"
  have inj: "inj_on user_key (set [sample_user] \<union> set [])" by simp
  note spec = resolver_spec [OF inj r_def]
  have new: "ukr_new_users r = [sample_user]" and need: "ukr_needNewKey r"
    using spec by (simp_all add: r_def UsersKeysResolver_create_def Let_def EndpointUtils_uniqueListUserWithPubKey_def)
      (simp add: sample_user_def)
  have gen: "KeyProvider_generateKey sample_core_env sample_hex 0 = (key, 2)"
    by (simp add: key_def KeyProvider_generateKey_def)
  have run: "update_keys ?c r [] DecryptedEncKeyV2_new sample_dio sample_location [9] 0 = (Inr (key, keys), 3)"
    using keys by (simp add: update_keys_def need new gen bindS_def ret_def KeyProvider_prepareMissingKeysForNewUsers_def)
  from kvdb_update_recipients [OF inj r_def run] run show ?thesis
    unfolding r_def [symmetric] by (auto simp: sample_user_def intro: rev_image_eqI)
qed

end
