(* ===== verification/Thread_Types.thy ===== *)
theory Thread_Types
  imports Core_Types
begin

text \<open>
  Data of the threads: the structures of the Bridge's protocol
  (\<open>endpoint/thread/include/privmx/endpoint/thread/ServerTypes.hpp\<close>) with the conversions from JSON that
  notifications need, and the structures handed to the application (\<open>Types.hpp\<close>).
\<close>

subsection \<open>The Bridge's structures\<close>

record Thread2DataEntry =
  tde_keyId :: string
  tde_data :: json

record ThreadInfo =
  ti_id :: string
  ti_resourceId :: "string option"
  ti_contextId :: string
  ti_createDate :: int
  ti_creator :: string
  ti_lastModificationDate :: int
  ti_lastModifier :: string
  ti_data :: "Thread2DataEntry list"
  ti_keyId :: string
  ti_users :: "string list"
  ti_managers :: "string list"
  ti_keys :: "KeyEntry list"
  ti_version :: int
  ti_lastMsgDate :: int
  ti_messages :: int
  ti_type :: "string option"
  ti_policy :: json

text \<open>\<open>type\<close> of a new thread is a plain text that stays empty when none is given.\<close>

record ThreadCreateModel =
  tc_resourceId :: string
  tc_contextId :: string
  tc_users :: "string list"
  tc_managers :: "string list"
  tc_data :: json
  tc_keyId :: string
  tc_keys :: "KeyEntrySet list"
  tc_type :: string
  tc_policy :: "json option"

record ThreadUpdateModel =
  tu_id :: string
  tu_resourceId :: string
  tu_users :: "string list"
  tu_managers :: "string list"
  tu_data :: json
  tu_keyId :: string
  tu_keys :: "KeyEntrySet list"
  tu_version :: int
  tu_force :: bool
  tu_policy :: "json option"

record ThreadGetModel =
  tg_threadId :: string
  tg_type :: "string option"

record ThreadListModel = ListModel +
  tl_contextId :: string
  tl_type :: "string option"

record ThreadMessageSendModel =
  tms_resourceId :: string
  tms_threadId :: string
  tms_data :: json
  tms_keyId :: string

record ThreadMessageUpdateModel =
  tmu_messageId :: string
  tmu_data :: json
  tmu_keyId :: string

record ThreadMessagesGetModel = ListModel +
  tmg_threadId :: string

record MessageUpdate =
  mu_createDate :: int
  mu_author :: string

record ServerMessage =
  sm_id :: string
  sm_resourceId :: string
  sm_version :: int
  sm_contextId :: string
  sm_threadId :: string
  sm_createDate :: int
  sm_author :: string
  sm_data :: json
  sm_keyId :: string
  sm_updates :: "MessageUpdate list"

record ThreadStatsEventData =
  tse_contextId :: string
  tse_threadId :: string
  tse_lastMsgDate :: int
  tse_messages :: int
  tse_type :: "string option"

subsection \<open>The application's structures\<close>

record Thread =
  th_contextId :: string
  th_threadId :: string
  th_createDate :: int
  th_creator :: string
  th_lastModificationDate :: int
  th_lastModifier :: string
  th_users :: "string list"
  th_managers :: "string list"
  th_version :: int
  th_lastMsgDate :: int
  th_publicMeta :: bytes
  th_privateMeta :: bytes
  th_policy :: ContainerPolicy
  th_messagesCount :: int
  th_statusCode :: int
  th_schemaVersion :: int

record ServerMessageInfo =
  smi_threadId :: string
  smi_messageId :: string
  smi_createDate :: int
  smi_author :: string

record Message =
  ms_info :: ServerMessageInfo
  ms_publicMeta :: bytes
  ms_privateMeta :: bytes
  ms_data :: bytes
  ms_authorPubKey :: string
  ms_statusCode :: int
  ms_schemaVersion :: int

definition Thread_new :: Thread where
  "Thread_new =
     \<lparr>th_contextId = [], th_threadId = [], th_createDate = 0, th_creator = [], th_lastModificationDate = 0, th_lastModifier = [],
      th_users = [], th_managers = [], th_version = 0, th_lastMsgDate = 0, th_publicMeta = [], th_privateMeta = [],
      th_policy = empty_policy, th_messagesCount = 0, th_statusCode = 0, th_schemaVersion = 0\<rparr>"

subsection \<open>Conversions from JSON\<close>

definition Thread2DataEntry_fromJSON :: "(string \<times> json) list \<Rightarrow> (exn, Thread2DataEntry) result" where
  "Thread2DataEntry_fromJSON ob =
     bindR (deserialize_string (json_get ob ''keyId'')) (\<lambda>keyId.
     Inr \<lparr>tde_keyId = keyId, tde_data = json_get ob ''data''\<rparr>)"

definition ThreadInfo_fromJSON :: "poco_api \<Rightarrow> (string \<times> json) list \<Rightarrow> (exn, ThreadInfo) result" where
  "ThreadInfo_fromJSON p ob =
     bindR (deserialize_string (json_get ob ''id'')) (\<lambda>id'.
     bindR (deserialize_optional deserialize_string (json_get ob ''resourceId'')) (\<lambda>resourceId.
     bindR (deserialize_string (json_get ob ''contextId'')) (\<lambda>contextId.
     bindR (deserialize_int64 p (json_get ob ''createDate'')) (\<lambda>createDate.
     bindR (deserialize_string (json_get ob ''creator'')) (\<lambda>creator.
     bindR (deserialize_int64 p (json_get ob ''lastModificationDate'')) (\<lambda>lastModificationDate.
     bindR (deserialize_string (json_get ob ''lastModifier'')) (\<lambda>lastModifier.
     bindR (deserializeArray (deserialize_struct Thread2DataEntry_fromJSON) (json_get ob ''data'')) (\<lambda>data.
     bindR (deserialize_string (json_get ob ''keyId'')) (\<lambda>keyId.
     bindR (deserializeArray deserialize_string (json_get ob ''users'')) (\<lambda>users.
     bindR (deserializeArray deserialize_string (json_get ob ''managers'')) (\<lambda>managers.
     bindR (deserializeArray (deserialize_struct KeyEntry_fromJSON) (json_get ob ''keys'')) (\<lambda>keys.
     bindR (deserialize_int64 p (json_get ob ''version'')) (\<lambda>version.
     bindR (deserialize_int64 p (json_get ob ''lastMsgDate'')) (\<lambda>lastMsgDate.
     bindR (deserialize_int64 p (json_get ob ''messages'')) (\<lambda>messages.
     bindR (deserialize_optional deserialize_string (json_get ob ''type'')) (\<lambda>type.
     Inr \<lparr>ti_id = id', ti_resourceId = resourceId, ti_contextId = contextId, ti_createDate = createDate, ti_creator = creator,
       ti_lastModificationDate = lastModificationDate, ti_lastModifier = lastModifier, ti_data = data, ti_keyId = keyId,
       ti_users = users, ti_managers = managers, ti_keys = keys, ti_version = version, ti_lastMsgDate = lastMsgDate,
       ti_messages = messages, ti_type = type, ti_policy = json_get ob ''policy''\<rparr>))))))))))))))))"

definition MessageUpdate_fromJSON :: "poco_api \<Rightarrow> (string \<times> json) list \<Rightarrow> (exn, MessageUpdate) result" where
  "MessageUpdate_fromJSON p ob =
     bindR (deserialize_int64 p (json_get ob ''createDate'')) (\<lambda>createDate.
     bindR (deserialize_string (json_get ob ''author'')) (\<lambda>author. Inr \<lparr>mu_createDate = createDate, mu_author = author\<rparr>))"

definition ServerMessage_fromJSON :: "poco_api \<Rightarrow> (string \<times> json) list \<Rightarrow> (exn, ServerMessage) result" where
  "ServerMessage_fromJSON p ob =
     bindR (deserialize_string (json_get ob ''id'')) (\<lambda>id'.
     bindR (deserialize_string (json_get ob ''resourceId'')) (\<lambda>resourceId.
     bindR (deserialize_int64 p (json_get ob ''version'')) (\<lambda>version.
     bindR (deserialize_string (json_get ob ''contextId'')) (\<lambda>contextId.
     bindR (deserialize_string (json_get ob ''threadId'')) (\<lambda>threadId.
     bindR (deserialize_int64 p (json_get ob ''createDate'')) (\<lambda>createDate.
     bindR (deserialize_string (json_get ob ''author'')) (\<lambda>author.
     bindR (deserialize_string (json_get ob ''keyId'')) (\<lambda>keyId.
     bindR (deserializeArray (deserialize_struct (MessageUpdate_fromJSON p)) (json_get ob ''updates'')) (\<lambda>updates.
     Inr \<lparr>sm_id = id', sm_resourceId = resourceId, sm_version = version, sm_contextId = contextId, sm_threadId = threadId,
       sm_createDate = createDate, sm_author = author, sm_data = json_get ob ''data'', sm_keyId = keyId,
       sm_updates = updates\<rparr>)))))))))"

text \<open>A message in a notification comes with the type of its container.\<close>

definition ThreadMessageEventData_fromJSON ::
    "poco_api \<Rightarrow> (string \<times> json) list \<Rightarrow> (exn, ServerMessage \<times> string option) result" where
  "ThreadMessageEventData_fromJSON p ob =
     bindR (ServerMessage_fromJSON p ob) (\<lambda>raw.
     bindR (deserialize_optional deserialize_string (json_get ob ''containerType'')) (\<lambda>containerType. Inr (raw, containerType)))"

text \<open>The remaining notifications: a deleted thread, a deleted message and new statistics.\<close>

definition ThreadDeletedEventData_fromJSON :: "(string \<times> json) list \<Rightarrow> (exn, string \<times> string option) result" where
  "ThreadDeletedEventData_fromJSON ob =
     bindR (deserialize_optional deserialize_string (json_get ob ''type'')) (\<lambda>type.
     bindR (deserialize_string (json_get ob ''threadId'')) (\<lambda>threadId. Inr (threadId, type)))"

definition ThreadDeletedMessageEventData_fromJSON :: "(string \<times> json) list \<Rightarrow> (exn, string \<times> string \<times> string option) result" where
  "ThreadDeletedMessageEventData_fromJSON ob =
     bindR (deserialize_string (json_get ob ''messageId'')) (\<lambda>messageId.
     bindR (deserialize_string (json_get ob ''threadId'')) (\<lambda>threadId.
     bindR (deserialize_optional deserialize_string (json_get ob ''containerType'')) (\<lambda>containerType.
     Inr (messageId, threadId, containerType))))"

definition ThreadStatsEventData_fromJSON :: "poco_api \<Rightarrow> (string \<times> json) list \<Rightarrow> (exn, ThreadStatsEventData) result" where
  "ThreadStatsEventData_fromJSON p ob =
     bindR (deserialize_string (json_get ob ''contextId'')) (\<lambda>contextId.
     bindR (deserialize_string (json_get ob ''threadId'')) (\<lambda>threadId.
     bindR (deserialize_int64 p (json_get ob ''lastMsgDate'')) (\<lambda>lastMsgDate.
     bindR (deserialize_int64 p (json_get ob ''messages'')) (\<lambda>messages.
     bindR (deserialize_optional deserialize_string (json_get ob ''type'')) (\<lambda>type.
     Inr \<lparr>tse_contextId = contextId, tse_threadId = threadId, tse_lastMsgDate = lastMsgDate, tse_messages = messages,
       tse_type = type\<rparr>)))))"

end
