(* ===== verification/Core_OldEncryptor.thy ===== *)
theory Core_OldEncryptor
  imports Core_DataEncryptor
begin

text \<open>
  The encryptor of data of formats before version 4
  (\<open>endpoint/core/include/privmx/endpoint/core/encryptors/DataEncryptor.hpp\<close>): a value is written as JSON,
  optionally prefixed with a signature, encrypted and written in Base64. The template's parameter is
  here the value's conversions to and from JSON.
\<close>

subsection \<open>\<open>DataEncryptorUtil\<close>\<close>

text \<open>\<open>plain[0]\<close> and \<open>plain[1]\<close> at the end of the string are the terminating zero byte.\<close>

definition DataEncryptorUtil_hasSign :: "bytes \<Rightarrow> bool" where
  "DataEncryptorUtil_hasSign data \<longleftrightarrow> front data = 1"

definition DataEncryptorUtil_extractSignAndDataBuff :: "bytes \<Rightarrow> (exn, bytes \<times> bytes) result" where
  "DataEncryptorUtil_extractSignAndDataBuff plain =
     (if front plain = 1 then
        (let signature_length = unat (front (drop 1 plain)) in
         bindR (substr StdOutOfRange plain 2 signature_length) (\<lambda>signature.
         bindR (substr1 StdOutOfRange plain (2 + signature_length)) (\<lambda>data_buf. Inr (signature, data_buf))))
      else Inl (CoreExn UnsupportedTypeException))"

definition DataEncryptorUtil_checkSign :: "'k core_env \<Rightarrow> bytes \<Rightarrow> bytes \<Rightarrow> 'k \<Rightarrow> bool" where
  "DataEncryptorUtil_checkSign env data signature pubKey =
     PublicKey_verifyCompactSignatureWithHash (en_crypto env) (en_ecc env) pubKey data signature"

definition DataEncryptorUtil_checkSignedData :: "'k core_env \<Rightarrow> bytes \<Rightarrow> 'k \<Rightarrow> (exn, bool) result" where
  "DataEncryptorUtil_checkSignedData env dataSigned pubKey =
     bindR (DataEncryptorUtil_extractSignAndDataBuff dataSigned) (\<lambda>(signature, data_buf).
     Inr (PublicKey_verifyCompactSignatureWithHash (en_crypto env) (en_ecc env) pubKey data_buf signature))"

subsection \<open>Byte strings\<close>

definition BinaryEncryptor_encrypt :: "'k core_env \<Rightarrow> bytes \<Rightarrow> bytes \<Rightarrow> (exn, nat, string) op" where
  "BinaryEncryptor_encrypt env data key =
     bindS (privmxEncrypt (en_crypto env) privmxOptAesWithSignature data key []) (\<lambda>x. ret (base64_from (en_poco env) x))"

definition BinaryEncryptor_sign :: "'k core_env \<Rightarrow> bytes \<Rightarrow> 'k \<Rightarrow> bytes" where
  "BinaryEncryptor_sign env data privKey =
     (let signature = PrivateKey_signToCompactSignatureWithHash (en_crypto env) (en_ecc env) privKey data
      in [1] @ [of_nat (length signature)] @ signature @ data)"

definition BinaryEncryptor_getSign :: "'k core_env \<Rightarrow> bytes \<Rightarrow> 'k \<Rightarrow> bytes" where
  "BinaryEncryptor_getSign env data privKey = PrivateKey_signToCompactSignatureWithHash (en_crypto env) (en_ecc env) privKey data"

definition BinaryEncryptor_decrypt :: "'k core_env \<Rightarrow> string \<Rightarrow> bytes \<Rightarrow> (exn, bytes) result" where
  "BinaryEncryptor_decrypt env data key =
     bindR (base64_to (en_poco env) data) (\<lambda>d. privmxDecrypt (en_crypto env) True d key [] 16)"

definition BinaryEncryptor_decryptAndGetSign :: "'k core_env \<Rightarrow> string \<Rightarrow> bytes \<Rightarrow> (exn, bytes \<times> bytes \<times> bytes) result" where
  "BinaryEncryptor_decryptAndGetSign env data key =
     bindR (BinaryEncryptor_decrypt env data key) (\<lambda>plain.
     bindR (DataEncryptorUtil_extractSignAndDataBuff plain) (\<lambda>(signature, data_buf). Inr (signature, data_buf, data_buf)))"

subsection \<open>Values with a conversion to JSON\<close>

definition JSON_serialize :: "poco_api \<Rightarrow> ('a \<Rightarrow> json) \<Rightarrow> 'a \<Rightarrow> bytes" where
  "JSON_serialize p toJSON x = Utils_stringify p (toJSON x)"

definition JSON_deserialize :: "poco_api \<Rightarrow> ((string \<times> json) list \<Rightarrow> (exn, 'a) result) \<Rightarrow> bytes \<Rightarrow> (exn, 'a) result" where
  "JSON_deserialize p fromJSON text = bindR (parseJsonObject p text) fromJSON"

definition DataEncryptor_encrypt :: "'k core_env \<Rightarrow> ('a \<Rightarrow> json) \<Rightarrow> 'a \<Rightarrow> bytes \<Rightarrow> (exn, nat, string) op" where
  "DataEncryptor_encrypt env toJSON data key = BinaryEncryptor_encrypt env (JSON_serialize (en_poco env) toJSON data) key"

definition DataEncryptor_sign :: "'k core_env \<Rightarrow> ('a \<Rightarrow> json) \<Rightarrow> 'a \<Rightarrow> 'k \<Rightarrow> bytes" where
  "DataEncryptor_sign env toJSON data privKey = BinaryEncryptor_sign env (JSON_serialize (en_poco env) toJSON data) privKey"

definition DataEncryptor_getSign :: "'k core_env \<Rightarrow> ('a \<Rightarrow> json) \<Rightarrow> 'a \<Rightarrow> 'k \<Rightarrow> bytes" where
  "DataEncryptor_getSign env toJSON data privKey = BinaryEncryptor_getSign env (JSON_serialize (en_poco env) toJSON data) privKey"

definition DataEncryptor_signAndEncrypt :: "'k core_env \<Rightarrow> ('a \<Rightarrow> json) \<Rightarrow> 'a \<Rightarrow> 'k \<Rightarrow> bytes \<Rightarrow> (exn, nat, string) op" where
  "DataEncryptor_signAndEncrypt env toJSON data privKey key =
     bindS (privmxEncrypt (en_crypto env) privmxOptAesWithSignature (DataEncryptor_sign env toJSON data privKey) key [])
       (\<lambda>x. ret (base64_from (en_poco env) x))"

definition DataEncryptor_decrypt ::
    "'k core_env \<Rightarrow> ((string \<times> json) list \<Rightarrow> (exn, 'a) result) \<Rightarrow> string \<Rightarrow> bytes \<Rightarrow> (exn, 'a) result" where
  "DataEncryptor_decrypt env fromJSON data key =
     bindR (BinaryEncryptor_decrypt env data key) (JSON_deserialize (en_poco env) fromJSON)"

definition DataEncryptor_decryptAndGetSign ::
    "'k core_env \<Rightarrow> ((string \<times> json) list \<Rightarrow> (exn, 'a) result) \<Rightarrow> string \<Rightarrow> bytes \<Rightarrow> (exn, bytes \<times> 'a \<times> bytes) result" where
  "DataEncryptor_decryptAndGetSign env fromJSON data key =
     bindR (BinaryEncryptor_decrypt env data key) (\<lambda>plain.
     bindR (DataEncryptorUtil_extractSignAndDataBuff plain) (\<lambda>(signature, data_buf).
     bindR (JSON_deserialize (en_poco env) fromJSON data_buf) (\<lambda>x. Inr (signature, x, data_buf))))"

subsection \<open>Facts\<close>

text \<open>The signed form is that of the present encryptor.\<close>

lemma BinaryEncryptor_sign_eq: "BinaryEncryptor_sign env data k = DataInnerEncryptorV4_signAndPackDataWithSignature env data k"
  by (simp add: BinaryEncryptor_sign_def DataInnerEncryptorV4_signAndPackDataWithSignature_def DataInnerEncryptorV4_sign_def
      DataInnerEncryptorV4_packDataWithSignature_def Let_def)

lemma extractSignAndDataBuff_eq:
  "DataEncryptorUtil_extractSignAndDataBuff plain =
     bindR (DataInnerEncryptorV4_extractDataWithSignature plain) (\<lambda>ds. Inr (ds_signature ds, ds_data ds))"
  by (simp add: DataEncryptorUtil_extractSignAndDataBuff_def DataInnerEncryptorV4_extractDataWithSignature_def Let_def
      bindR_def split: sum.split)

lemma hasSign_sign [simp]: "DataEncryptorUtil_hasSign (BinaryEncryptor_sign env data k)"
  by (simp add: DataEncryptorUtil_hasSign_def BinaryEncryptor_sign_def front_def Let_def)

lemma extract_BinaryEncryptor_sign:
  "core_env_ok env \<Longrightarrow>
   DataEncryptorUtil_extractSignAndDataBuff (BinaryEncryptor_sign env data k) = Inr (BinaryEncryptor_getSign env data k, data)"
  by (simp add: extractSignAndDataBuff_eq BinaryEncryptor_sign_eq extract_signed DataInnerEncryptorV4_sign_def
      BinaryEncryptor_getSign_def)

lemma checkSign_getSign:
  "core_env_ok env \<Longrightarrow> same_key env p k \<Longrightarrow> DataEncryptorUtil_checkSign env data (BinaryEncryptor_getSign env data k) p"
  using verify_signed [of env p k data]
  by (simp add: DataEncryptorUtil_checkSign_def BinaryEncryptor_getSign_def DataInnerEncryptorV4_verifySignature_def
      DataInnerEncryptorV4_sign_def)

text \<open>What is encrypted is not signed on the outside: its first byte names the cipher.\<close>

lemma privmxEncrypt_front:
  assumes "privmxEncrypt c privmxOptAesWithSignature data key [] d = (Inr x, d')"
  shows "front x = AES_256_CBC_PKCS7_WITH_IV_AND_HMAC_SHA256"
  using assms
  by (auto simp: privmxEncrypt_def privmxOptAesWithSignature_def fresh_iv_def ctAes256CbcPkcs7WithIvAndHmacSha256_def
      front_def Let_def split: if_splits prod.splits)

lemma BinaryEncryptor_roundtrip:
  assumes "core_env_ok env" and "length key = 32"
  obtains t x where "BinaryEncryptor_encrypt env data key draws = (Inr t, draws + 1)"
    and "BinaryEncryptor_decrypt env t key = Inr data" and "base64_to (en_poco env) t = Inr x"
    and "\<not> DataEncryptorUtil_hasSign x"
proof -
  obtain x where x: "privmxEncrypt (en_crypto env) privmxOptAesWithSignature data key [] draws = (Inr x, draws + 1)"
      "privmxDecrypt (en_crypto env) True x key [] 16 = Inr data"
    by (rule privmxEncrypt_signed [OF core_env_okD(1,3) [OF assms(1)] assms(2)])
  note b = base64_inverse [OF core_env_okD(7) [OF assms(1)]]
  have "\<not> DataEncryptorUtil_hasSign x"
    using privmxEncrypt_front [OF x(1)]
    by (simp add: DataEncryptorUtil_hasSign_def AES_256_CBC_PKCS7_WITH_IV_AND_HMAC_SHA256_def)
  then show thesis
    using that [of "base64_from (en_poco env) x" x] x
    by (simp add: BinaryEncryptor_encrypt_def BinaryEncryptor_decrypt_def bindS_def b)
qed

lemma JSON_roundtrip:
  assumes "core_env_ok env" and "toJSON a = JObject kvs" and "wf_json (JObject kvs)" and "fromJSON kvs = Inr b"
  shows "JSON_deserialize (en_poco env) fromJSON (JSON_serialize (en_poco env) toJSON a) = Inr b"
  using assms(1,3,4) core_env_okD(6) [OF assms(1)]
  by (simp add: JSON_deserialize_def JSON_serialize_def assms(2) json_text_ok_def parseJsonObject_def)

text \<open>What was signed and encrypted is read with a signature that its author's key verifies.\<close>

lemma DataEncryptor_roundtrip:
  assumes "core_env_ok env" and "length key = 32"
    and "toJSON a = JObject kvs" and "wf_json (JObject kvs)" and "fromJSON kvs = Inr b"
  obtains t x sig buf where "DataEncryptor_signAndEncrypt env toJSON a k key draws = (Inr t, draws + 1)"
    and "DataEncryptor_decryptAndGetSign env fromJSON t key = Inr (sig, b, buf)"
    and "\<And>p. same_key env p k \<Longrightarrow> DataEncryptorUtil_checkSign env buf sig p"
    and "base64_to (en_poco env) t = Inr x" and "\<not> DataEncryptorUtil_hasSign x"
proof -
  obtain t x where t: "BinaryEncryptor_encrypt env (DataEncryptor_sign env toJSON a k) key draws = (Inr t, draws + 1)"
      "BinaryEncryptor_decrypt env t key = Inr (DataEncryptor_sign env toJSON a k)" "base64_to (en_poco env) t = Inr x"
      "\<not> DataEncryptorUtil_hasSign x"
    by (rule BinaryEncryptor_roundtrip [OF assms(1,2)])
  note j = JSON_roundtrip [of env toJSON a kvs fromJSON b, OF assms(1,3,4,5)]
  show thesis
  proof (rule that)
    show "DataEncryptor_signAndEncrypt env toJSON a k key draws = (Inr t, draws + 1)"
      using t(1) by (simp add: DataEncryptor_signAndEncrypt_def BinaryEncryptor_encrypt_def)
    show "DataEncryptor_decryptAndGetSign env fromJSON t key =
        Inr (BinaryEncryptor_getSign env (JSON_serialize (en_poco env) toJSON a) k, b, JSON_serialize (en_poco env) toJSON a)"
      by (simp add: DataEncryptor_decryptAndGetSign_def t(2) DataEncryptor_sign_def extract_BinaryEncryptor_sign [OF assms(1)] j)
    show "DataEncryptorUtil_checkSign env (JSON_serialize (en_poco env) toJSON a)
        (BinaryEncryptor_getSign env (JSON_serialize (en_poco env) toJSON a) k) p" if "same_key env p k" for p
      using that by (rule checkSign_getSign [OF assms(1)])
  qed (rule t)+
qed

end
