(* ===== verification/Thread_Encryptors.thy ===== *)
theory Thread_Encryptors
  imports Thread_Types Core_OldEncryptor
begin

text \<open>
  Encryptors of messages (\<open>endpoint/thread/src/encryptors/message\<close>): versions 2 and 3
  (\<open>MessageDataEncryptor.cpp\<close>), 4 (\<open>MessageDataEncryptorV4.cpp\<close>) and 5 (\<open>MessageDataEncryptorV5.cpp\<close>), with
  the structures of \<open>DynamicTypes.hpp\<close> and \<open>ThreadTypes.hpp\<close>. The encryptor of version 5 is that of
  entries of containers with the exceptions of threads.
\<close>

subsection \<open>Threads of version 1 and messages of versions 2 and 3\<close>

record ThreadDataV1 =
  td1_title :: string
  td1_statusCode :: int

record MessageDataAuthor =
  mda_userId :: string
  mda_pubKey :: string

record MessageDataDestination =
  mdd_server :: string
  mdd_contextId :: string
  mdd_threadId :: string

record MessageDataV2 =
  mv2_v :: int
  mv2_msgId :: string
  mv2_type :: string
  mv2_text :: string
  mv2_date :: int
  mv2_deleted :: bool
  mv2_author :: MessageDataAuthor
  mv2_destination :: MessageDataDestination
  mv2_statusCode :: int

record MessageDataV3 =
  mv3_v :: int
  mv3_publicMeta :: bytes
  mv3_privateMeta :: bytes
  mv3_data :: bytes
  mv3_statusCode :: int

definition ThreadDataV1_fromJSON :: "poco_api \<Rightarrow> (string \<times> json) list \<Rightarrow> (exn, ThreadDataV1) result" where
  "ThreadDataV1_fromJSON p ob =
     bindR (deserialize_string (json_get ob ''title'')) (\<lambda>title.
     bindR (deserialize_int64 p (json_get ob ''statusCode'')) (\<lambda>statusCode.
     Inr \<lparr>td1_title = title, td1_statusCode = statusCode\<rparr>))"

definition MessageDataAuthor_toJSON :: "MessageDataAuthor \<Rightarrow> json" where
  "MessageDataAuthor_toJSON a = JObject
     (json_put ''pubKey'' (JString (mda_pubKey a)) (json_put ''userId'' (JString (mda_userId a)) []))"

definition MessageDataAuthor_fromJSON :: "(string \<times> json) list \<Rightarrow> (exn, MessageDataAuthor) result" where
  "MessageDataAuthor_fromJSON ob =
     bindR (deserialize_string (json_get ob ''userId'')) (\<lambda>userId.
     bindR (deserialize_string (json_get ob ''pubKey'')) (\<lambda>pubKey. Inr \<lparr>mda_userId = userId, mda_pubKey = pubKey\<rparr>))"

definition MessageDataDestination_toJSON :: "MessageDataDestination \<Rightarrow> json" where
  "MessageDataDestination_toJSON d = JObject
     (json_put ''threadId'' (JString (mdd_threadId d)) (json_put ''contextId'' (JString (mdd_contextId d))
     (json_put ''server'' (JString (mdd_server d)) [])))"

definition MessageDataDestination_fromJSON :: "(string \<times> json) list \<Rightarrow> (exn, MessageDataDestination) result" where
  "MessageDataDestination_fromJSON ob =
     bindR (deserialize_string (json_get ob ''server'')) (\<lambda>server.
     bindR (deserialize_string (json_get ob ''contextId'')) (\<lambda>contextId.
     bindR (deserialize_string (json_get ob ''threadId'')) (\<lambda>threadId.
     Inr \<lparr>mdd_server = server, mdd_contextId = contextId, mdd_threadId = threadId\<rparr>)))"

definition MessageDataV2_toJSON :: "MessageDataV2 \<Rightarrow> json" where
  "MessageDataV2_toJSON m = JObject
     (json_put ''statusCode'' (JInt (mv2_statusCode m))
     (json_put ''destination'' (MessageDataDestination_toJSON (mv2_destination m))
     (json_put ''author'' (MessageDataAuthor_toJSON (mv2_author m))
     (json_put ''deleted'' (JBool (mv2_deleted m))
     (json_put ''date'' (JInt (mv2_date m))
     (json_put ''text'' (JString (mv2_text m))
     (json_put ''type'' (JString (mv2_type m))
     (json_put ''msgId'' (JString (mv2_msgId m))
     (json_put ''v'' (JInt (mv2_v m)) [])))))))))"

definition MessageDataV2_fromJSON :: "poco_api \<Rightarrow> (string \<times> json) list \<Rightarrow> (exn, MessageDataV2) result" where
  "MessageDataV2_fromJSON p ob =
     bindR (deserialize_int64 p (json_get ob ''v'')) (\<lambda>v.
     bindR (deserialize_string (json_get ob ''msgId'')) (\<lambda>msgId.
     bindR (deserialize_string (json_get ob ''type'')) (\<lambda>type.
     bindR (deserialize_string (json_get ob ''text'')) (\<lambda>text.
     bindR (deserialize_int64 p (json_get ob ''date'')) (\<lambda>date.
     bindR (deserialize_bool (json_get ob ''deleted'')) (\<lambda>deleted.
     bindR (deserialize_struct MessageDataAuthor_fromJSON (json_get ob ''author'')) (\<lambda>author.
     bindR (deserialize_struct MessageDataDestination_fromJSON (json_get ob ''destination'')) (\<lambda>destination.
     bindR (deserialize_int64 p (json_get ob ''statusCode'')) (\<lambda>statusCode.
     Inr \<lparr>mv2_v = v, mv2_msgId = msgId, mv2_type = type, mv2_text = text, mv2_date = date, mv2_deleted = deleted,
       mv2_author = author, mv2_destination = destination, mv2_statusCode = statusCode\<rparr>)))))))))"

definition MessageDataV3_toJSON :: "MessageDataV3 \<Rightarrow> json" where
  "MessageDataV3_toJSON m = JObject
     (json_put ''statusCode'' (JInt (mv3_statusCode m))
     (json_put ''data'' (JString (text_of (mv3_data m)))
     (json_put ''privateMeta'' (JString (text_of (mv3_privateMeta m)))
     (json_put ''publicMeta'' (JString (text_of (mv3_publicMeta m)))
     (json_put ''v'' (JInt (mv3_v m)) [])))))"

definition MessageDataV3_fromJSON :: "poco_api \<Rightarrow> (string \<times> json) list \<Rightarrow> (exn, MessageDataV3) result" where
  "MessageDataV3_fromJSON p ob =
     bindR (deserialize_int64 p (json_get ob ''v'')) (\<lambda>v.
     bindR (deserialize_string (json_get ob ''publicMeta'')) (\<lambda>publicMeta.
     bindR (deserialize_string (json_get ob ''privateMeta'')) (\<lambda>privateMeta.
     bindR (deserialize_string (json_get ob ''data'')) (\<lambda>data.
     bindR (deserialize_int64 p (json_get ob ''statusCode'')) (\<lambda>statusCode.
     Inr \<lparr>mv3_v = v, mv3_publicMeta = bytes_of publicMeta, mv3_privateMeta = bytes_of privateMeta,
       mv3_data = bytes_of data, mv3_statusCode = statusCode\<rparr>)))))"

text \<open>A message with its signature and the signed text.\<close>

record 'm MessageDataSigned =
  mds_data :: 'm
  mds_dataBuf :: bytes
  mds_dataSignature :: bytes

definition MessageDataV2Encryptor_signAndEncrypt :: "'k core_env \<Rightarrow> MessageDataV2 \<Rightarrow> 'k \<Rightarrow> bytes \<Rightarrow> (exn, nat, string) op" where
  "MessageDataV2Encryptor_signAndEncrypt env data priv encKey = DataEncryptor_signAndEncrypt env MessageDataV2_toJSON data priv encKey"

definition MessageDataV2Encryptor_decryptAndGetSign ::
    "'k core_env \<Rightarrow> string \<Rightarrow> bytes \<Rightarrow> (exn, MessageDataV2 MessageDataSigned) result" where
  "MessageDataV2Encryptor_decryptAndGetSign env data key =
     bindR (DataEncryptor_decryptAndGetSign env (MessageDataV2_fromJSON (en_poco env)) data key) (\<lambda>(signature, m, buf).
     Inr \<lparr>mds_data = m\<lparr>mv2_statusCode := 0\<rparr>, mds_dataBuf = buf, mds_dataSignature = signature\<rparr>)"

text \<open>
  Members \<open>v\<close> and \<open>statusCode\<close> of the structure that version 3 writes are never assigned; \<open>uninit\<close> are
  the values they happen to have.
\<close>

definition MessageDataV3Encryptor_signAndEncrypt ::
    "'k core_env \<Rightarrow> int \<times> int \<Rightarrow> MessageDataV3 \<Rightarrow> 'k \<Rightarrow> bytes \<Rightarrow> (exn, nat, string) op" where
  "MessageDataV3Encryptor_signAndEncrypt env uninit data priv encKey =
     bindS (BinaryEncryptor_encrypt env (mv3_privateMeta data) encKey) (\<lambda>privateMeta.
     bindS (BinaryEncryptor_encrypt env (mv3_data data) encKey) (\<lambda>d.
     ret (base64_from (en_poco env) (DataEncryptor_sign env MessageDataV3_toJSON
       \<lparr>mv3_v = fst uninit, mv3_publicMeta = bytes_of (base64_from (en_poco env) (mv3_publicMeta data)),
        mv3_privateMeta = bytes_of privateMeta, mv3_data = bytes_of d, mv3_statusCode = snd uninit\<rparr> priv))))"

text \<open>The private parts of version 3, decrypted until the first failure, which becomes the status.\<close>

definition decrypt_private_v3 :: "'k core_env \<Rightarrow> MessageDataV3 \<Rightarrow> bytes \<Rightarrow> bytes \<Rightarrow> MessageDataV3" where
  "decrypt_private_v3 env m publicMeta key =
     (let r = \<lparr>mv3_v = 0, mv3_publicMeta = publicMeta, mv3_privateMeta = [], mv3_data = [], mv3_statusCode = 0\<rparr> in
      case BinaryEncryptor_decrypt env (text_of (mv3_privateMeta m)) key of
        Inl e \<Rightarrow> r\<lparr>mv3_statusCode := status_of e\<rparr>
      | Inr privateMeta \<Rightarrow>
          (case BinaryEncryptor_decrypt env (text_of (mv3_data m)) key of
             Inl e \<Rightarrow> r\<lparr>mv3_privateMeta := privateMeta, mv3_statusCode := status_of e\<rparr>
           | Inr d \<Rightarrow> r\<lparr>mv3_privateMeta := privateMeta, mv3_data := d\<rparr>))"

definition MessageDataV3Encryptor_decryptAndGetSign ::
    "'k core_env \<Rightarrow> string \<Rightarrow> bytes \<Rightarrow> (exn, MessageDataV3 MessageDataSigned) result" where
  "MessageDataV3Encryptor_decryptAndGetSign env data key =
     bindR (base64_to (en_poco env) data) (\<lambda>d.
     bindR (DataEncryptorUtil_extractSignAndDataBuff d) (\<lambda>(dataSignature, dataBuf).
     bindR (bindR (parseJsonObject (en_poco env) dataBuf) (MessageDataV3_fromJSON (en_poco env))) (\<lambda>encrypted.
     bindR (base64_to (en_poco env) (text_of (mv3_publicMeta encrypted))) (\<lambda>publicMeta.
     Inr \<lparr>mds_data = decrypt_private_v3 env encrypted publicMeta key, mds_dataBuf = dataBuf,
       mds_dataSignature = dataSignature\<rparr>))))"

subsection \<open>Version 4\<close>

record MessageDataToEncryptV4 =
  tm4_publicMeta :: bytes
  tm4_privateMeta :: bytes
  tm4_data :: bytes
  tm4_internalMeta :: "bytes option"

record EncryptedMessageDataV4 =
  em4_version :: int
  em4_publicMeta :: string
  em4_publicMetaObject :: json
  em4_privateMeta :: string
  em4_data :: string
  em4_internalMeta :: "string option"
  em4_authorPubKey :: string

record DecryptedMessageDataV4 =
  dm4_dataStructureVersion :: int
  dm4_statusCode :: int
  dm4_publicMeta :: bytes
  dm4_privateMeta :: bytes
  dm4_data :: bytes
  dm4_internalMeta :: "bytes option"
  dm4_authorPubKey :: string

definition EncryptedMessageDataV4_toJSON :: "EncryptedMessageDataV4 \<Rightarrow> json" where
  "EncryptedMessageDataV4_toJSON e = JObject
     (json_put ''authorPubKey'' (JString (em4_authorPubKey e))
     (json_put_optional ''internalMeta'' (serialize_optional JString (em4_internalMeta e))
     (json_put ''data'' (JString (em4_data e))
     (json_put ''privateMeta'' (JString (em4_privateMeta e))
     (json_put ''publicMetaObject'' (em4_publicMetaObject e)
     (json_put ''publicMeta'' (JString (em4_publicMeta e))
     (json_put ''version'' (JInt (em4_version e)) [])))))))"

definition EncryptedMessageDataV4_fromJSON :: "poco_api \<Rightarrow> (string \<times> json) list \<Rightarrow> (exn, EncryptedMessageDataV4) result" where
  "EncryptedMessageDataV4_fromJSON p ob =
     bindR (VersionedData_fromJSON p ob) (\<lambda>version.
     bindR (deserialize_string (json_get ob ''publicMeta'')) (\<lambda>publicMeta.
     bindR (deserialize_string (json_get ob ''privateMeta'')) (\<lambda>privateMeta.
     bindR (deserialize_string (json_get ob ''data'')) (\<lambda>data.
     bindR (deserialize_optional deserialize_string (json_get ob ''internalMeta'')) (\<lambda>internalMeta.
     bindR (deserialize_string (json_get ob ''authorPubKey'')) (\<lambda>authorPubKey.
     Inr \<lparr>em4_version = version, em4_publicMeta = publicMeta, em4_publicMetaObject = json_get ob ''publicMetaObject'',
       em4_privateMeta = privateMeta, em4_data = data, em4_internalMeta = internalMeta, em4_authorPubKey = authorPubKey\<rparr>))))))"

definition MessageDataEncryptorV4_encrypt ::
    "'k core_env \<Rightarrow> MessageDataToEncryptV4 \<Rightarrow> 'k \<Rightarrow> bytes \<Rightarrow> (exn, nat, EncryptedMessageDataV4) op" where
  "MessageDataEncryptorV4_encrypt env x authorPrivateKey encryptionKey =
     bindS (DataEncryptorV4_signAndEncryptAndEncode env (tm4_privateMeta x) authorPrivateKey encryptionKey) (\<lambda>privateMeta.
     bindS (DataEncryptorV4_signAndEncryptAndEncode env (tm4_data x) authorPrivateKey encryptionKey) (\<lambda>data.
     bindS (case tm4_internalMeta x of
         None \<Rightarrow> ret None
       | Some m \<Rightarrow> bindS (DataEncryptorV4_signAndEncryptAndEncode env m authorPrivateKey encryptionKey) (\<lambda>t. ret (Some t))) (\<lambda>internalMeta.
     ret \<lparr>em4_version = 4, em4_publicMeta = DataEncryptorV4_signAndEncode env (tm4_publicMeta x) authorPrivateKey,
       em4_publicMetaObject = public_object env (tm4_publicMeta x), em4_privateMeta = privateMeta, em4_data = data,
       em4_internalMeta = internalMeta,
       em4_authorPubKey = PublicKey_toBase58DER (en_crypto env) (en_ecc env) authorPrivateKey\<rparr>)))"

definition MessageDataEncryptorV4_validateVersion :: "EncryptedMessageDataV4 \<Rightarrow> (exn, unit) result" where
  "MessageDataEncryptorV4_validateVersion e =
     (if em4_version e \<noteq> 4 then Inl (ThreadExn InvalidEncryptedMessageDataVersionException) else Inr ())"

definition DecryptedMessageDataV4_new :: DecryptedMessageDataV4 where
  "DecryptedMessageDataV4_new =
     \<lparr>dm4_dataStructureVersion = 4, dm4_statusCode = 0, dm4_publicMeta = [], dm4_privateMeta = [], dm4_data = [],
      dm4_internalMeta = None, dm4_authorPubKey = []\<rparr>"

definition decrypt_message_v4 ::
    "'k core_env \<Rightarrow> EncryptedMessageDataV4 \<Rightarrow> bytes \<Rightarrow> (exn, DecryptedMessageDataV4, unit) op" where
  "decrypt_message_v4 env e encryptionKey =
     bindS (liftR (MessageDataEncryptorV4_validateVersion e)) (\<lambda>_.
     bindS (liftR (PublicKey_fromBase58DER (en_crypto env) (en_ecc env) (em4_authorPubKey e))) (\<lambda>author.
     bindS (liftR (DataEncryptorV4_decodeAndVerify env (em4_publicMeta e) author)) (\<lambda>publicMeta.
     bindS (modify (\<lambda>r. r\<lparr>dm4_publicMeta := publicMeta\<rparr>)) (\<lambda>_.
     bindS (if em4_publicMetaObject e \<noteq> JEmpty then
              bindS (liftR (compare_public env publicMeta (em4_publicMetaObject e))) (\<lambda>same.
                if same then ret () else modify (\<lambda>r. r\<lparr>dm4_statusCode := status_of (ThreadExn MessagePublicDataMismatchException)\<rparr>))
            else ret ()) (\<lambda>_.
     bindS (liftR (DataEncryptorV4_decodeAndDecryptAndVerify env (em4_privateMeta e) author encryptionKey)) (\<lambda>privateMeta.
     bindS (modify (\<lambda>r. r\<lparr>dm4_privateMeta := privateMeta\<rparr>)) (\<lambda>_.
     bindS (liftR (DataEncryptorV4_decodeAndDecryptAndVerify env (em4_data e) author encryptionKey)) (\<lambda>data.
     bindS (modify (\<lambda>r. r\<lparr>dm4_data := data\<rparr>)) (\<lambda>_.
     bindS (liftR (case em4_internalMeta e of None \<Rightarrow> Inr None
         | Some t \<Rightarrow> bindR (DataEncryptorV4_decodeAndDecryptAndVerify env t author encryptionKey) (\<lambda>m. Inr (Some m)))) (\<lambda>internalMeta.
     modify (\<lambda>r. r\<lparr>dm4_internalMeta := internalMeta, dm4_authorPubKey := em4_authorPubKey e\<rparr>)))))))))))"

definition MessageDataEncryptorV4_decrypt :: "'k core_env \<Rightarrow> EncryptedMessageDataV4 \<Rightarrow> bytes \<Rightarrow> DecryptedMessageDataV4" where
  "MessageDataEncryptorV4_decrypt env e encryptionKey =
     (case decrypt_message_v4 env e encryptionKey DecryptedMessageDataV4_new of
        (Inr _, r) \<Rightarrow> r | (Inl x, r) \<Rightarrow> r\<lparr>dm4_statusCode := status_of x\<rparr>)"

subsection \<open>Version 5\<close>

text \<open>The structures and operations are those of the entries of key-value stores, with the exceptions of the threads.\<close>

type_synonym MessageDataToEncryptV5 = EntryDataToEncryptV5

type_synonym EncryptedMessageDataV5 = EncryptedEntryDataV5

type_synonym DecryptedMessageDataV5 = DecryptedEntryDataV5

definition thread_entry_exns :: entry_exns where
  "thread_entry_exns = \<lparr>xx_format = ThreadExn InvalidEncryptedMessageDataVersionException,
     xx_mismatch = ThreadExn MessagePublicDataMismatchException\<rparr>"

definition MessageDataEncryptorV5_encrypt ::
    "'k core_env \<Rightarrow> MessageDataToEncryptV5 \<Rightarrow> 'k \<Rightarrow> bytes \<Rightarrow> (exn, nat, EncryptedMessageDataV5) op" where
  "MessageDataEncryptorV5_encrypt = EntryDataEncryptorV5_encrypt"

definition MessageDataEncryptorV5_decrypt :: "'k core_env \<Rightarrow> EncryptedMessageDataV5 \<Rightarrow> bytes \<Rightarrow> DecryptedMessageDataV5" where
  "MessageDataEncryptorV5_decrypt env = EntryDataEncryptorV5_decrypt env thread_entry_exns"

definition MessageDataEncryptorV5_extractPublic :: "'k core_env \<Rightarrow> EncryptedMessageDataV5 \<Rightarrow> DecryptedMessageDataV5" where
  "MessageDataEncryptorV5_extractPublic env = EntryDataEncryptorV5_extractPublic env thread_entry_exns"

definition MessageDataEncryptorV5_getDIOAndAssertIntegrity ::
    "'k core_env \<Rightarrow> EncryptedMessageDataV5 \<Rightarrow> (exn, DataIntegrityObject) result" where
  "MessageDataEncryptorV5_getDIOAndAssertIntegrity env = EntryDataEncryptorV5_getDIOAndAssertIntegrity env thread_entry_exns"

end
