(* ===== verification/Thread_ThreadApi.thy ===== *)
theory Thread_ThreadApi
  imports Thread_Encryptors
begin

text \<open>
  The threads (\<open>endpoint/thread/src/ThreadApiImpl.cpp\<close>): threads and messages are encrypted before they
  are sent to the Bridge in the present format, and read in all formats there have been: versions 1, 4
  and 5 of threads, 2 to 5 of messages. The Bridge's requests (\<open>ServerApi.cpp\<close>) are a parameter.
  \<open>back()\<close> of an empty vector is undefined in C++; here it is \<open>last\<close>, of which nothing is known there.
\<close>

subsection \<open>The Bridge\<close>

record 's thread_server =
  st_threadCreate :: "ThreadCreateModel \<Rightarrow> (exn, 's, string) op"
  st_threadUpdate :: "ThreadUpdateModel \<Rightarrow> (exn, 's, unit) op"
  st_threadDelete :: "string \<Rightarrow> (exn, 's, unit) op"
  st_threadGet :: "ThreadGetModel \<Rightarrow> (exn, 's, ThreadInfo) op"
  st_threadList :: "ThreadListModel \<Rightarrow> (exn, 's, ThreadInfo list \<times> int) op"
  st_threadMessageSend :: "ThreadMessageSendModel \<Rightarrow> (exn, 's, string) op"
  st_threadMessageDelete :: "string \<Rightarrow> (exn, 's, unit) op"
  st_threadMessageGet :: "string \<Rightarrow> (exn, 's, ServerMessage) op"
  st_threadMessagesGet :: "ThreadMessagesGetModel \<Rightarrow> (exn, 's, ThreadInfo \<times> ServerMessage list \<times> int) op"
  st_threadMessageUpdate :: "ThreadMessageUpdateModel \<Rightarrow> (exn, 's, unit) op"

definition THREAD_TYPE_FILTER_FLAG :: string where
  "THREAD_TYPE_FILTER_FLAG = ''thread''"

text \<open>A dynamic value where a text is expected is converted by POCO.\<close>

definition var_to_string :: "'k connection \<Rightarrow> json \<Rightarrow> (exn, string) result" where
  "var_to_string c j = (case j of JString s \<Rightarrow> Inr s | _ \<Rightarrow> cn_str c j)"

subsection \<open>Threads\<close>

definition getThreadEntryDataStructureVersion :: "'k connection \<Rightarrow> Thread2DataEntry \<Rightarrow> (exn, int) result" where
  "getThreadEntryDataStructureVersion c threadEntry =
     (case tde_data threadEntry of
        JObject ob \<Rightarrow> bindR (VersionedData_fromJSON (en_poco (cn_env c)) ob) (\<lambda>version.
          Inr (if version = 4 then 4 else if version = 5 then 5 else 0))
      | JString s \<Rightarrow> Inr 1
      | _ \<Rightarrow> Inr 0)"

definition decryptThreadV1 :: "'k connection \<Rightarrow> Thread2DataEntry \<Rightarrow> DecryptedEncKeyV2 \<Rightarrow> ThreadDataV1" where
  "decryptThreadV1 c threadEntry encKey =
     (case bindR (var_to_string c (tde_data threadEntry)) (\<lambda>data.
        DataEncryptor_decrypt (cn_env c) (ThreadDataV1_fromJSON (en_poco (cn_env c))) data (ek_key encKey)) of
        Inr r \<Rightarrow> r | Inl e \<Rightarrow> \<lparr>td1_title = [], td1_statusCode = status_of e\<rparr>)"

definition convertServerThreadToLibThread ::
    "'k connection \<Rightarrow> ThreadInfo \<Rightarrow> bytes \<Rightarrow> bytes \<Rightarrow> int \<Rightarrow> int \<Rightarrow> (exn, Thread) result" where
  "convertServerThreadToLibThread c threadInfo publicMeta privateMeta statusCode schemaVersion =
     bindR (Factory_parsePolicyServerObject (en_poco (cn_env c)) (cn_str c) (ti_policy threadInfo)) (\<lambda>policy.
     Inr \<lparr>th_contextId = ti_contextId threadInfo, th_threadId = ti_id threadInfo, th_createDate = ti_createDate threadInfo,
       th_creator = ti_creator threadInfo, th_lastModificationDate = ti_lastModificationDate threadInfo,
       th_lastModifier = ti_lastModifier threadInfo, th_users = ti_users threadInfo, th_managers = ti_managers threadInfo,
       th_version = ti_version threadInfo, th_lastMsgDate = ti_lastMsgDate threadInfo, th_publicMeta = publicMeta,
       th_privateMeta = privateMeta, th_policy = policy, th_messagesCount = ti_messages threadInfo,
       th_statusCode = statusCode, th_schemaVersion = schemaVersion\<rparr>)"

definition convertThreadDataV1ToThread :: "'k connection \<Rightarrow> ThreadInfo \<Rightarrow> ThreadDataV1 \<Rightarrow> (exn, Thread) result" where
  "convertThreadDataV1ToThread c threadInfo threadData =
     convertServerThreadToLibThread c threadInfo []
       (Utils_stringify (en_poco (cn_env c)) (JObject [(''title'', JString (td1_title threadData))])) (td1_statusCode threadData) 1"

definition convertDecryptedThreadDataV4ToThread :: "'k connection \<Rightarrow> ThreadInfo \<Rightarrow> DecryptedModuleDataV4 \<Rightarrow> (exn, Thread) result" where
  "convertDecryptedThreadDataV4ToThread c threadInfo threadData =
     convertServerThreadToLibThread c threadInfo (md4_publicMeta threadData) (md4_privateMeta threadData) (md4_statusCode threadData) 4"

definition convertDecryptedThreadDataV5ToThread :: "'k connection \<Rightarrow> ThreadInfo \<Rightarrow> DecryptedModuleDataV5 \<Rightarrow> (exn, Thread) result" where
  "convertDecryptedThreadDataV5ToThread c threadInfo threadData =
     convertServerThreadToLibThread c threadInfo (md_publicMeta threadData) (md_privateMeta threadData) (md_statusCode threadData) 5"

definition failed_thread :: "'k connection \<Rightarrow> ThreadInfo \<Rightarrow> int \<Rightarrow> (exn, Thread) result" where
  "failed_thread c thread statusCode = convertServerThreadToLibThread c thread [] [] statusCode 0"

abbreviation resource_id :: "ThreadInfo \<Rightarrow> string" where
  "resource_id thread \<equiv> (case ti_resourceId thread of Some r \<Rightarrow> r | None \<Rightarrow> [])"

text \<open>Old formats carry no integrity object; the code makes one up from what the Bridge says.\<close>

definition old_thread_dio :: "ThreadInfo \<Rightarrow> string \<Rightarrow> DataIntegrityObject" where
  "old_thread_dio thread creatorPubKey =
     \<lparr>dio_creatorUserId = ti_lastModifier thread, dio_creatorPubKey = creatorPubKey, dio_contextId = ti_contextId thread,
      dio_resourceId = resource_id thread, dio_timestamp = ti_lastModificationDate thread, dio_randomId = [],
      dio_containerId = None, dio_containerResourceId = None, dio_bridgeIdentity = None\<rparr>"

definition decryptAndConvertThreadDataToThread ::
    "'k connection \<Rightarrow> ThreadInfo \<Rightarrow> Thread2DataEntry \<Rightarrow> DecryptedEncKeyV2 \<Rightarrow> (exn, Thread \<times> DataIntegrityObject) result" where
  "decryptAndConvertThreadDataToThread c thread threadEntry encKey =
     bindR (getThreadEntryDataStructureVersion c threadEntry) (\<lambda>version.
     if version = 1 then
       bindR (convertThreadDataV1ToThread c thread (decryptThreadV1 c threadEntry encKey)) (\<lambda>t. Inr (t, old_thread_dio thread []))
     else if version = 4 then
       let decrypted = decryptModuleDataV4 (cn_env c) (tde_data threadEntry) encKey
       in bindR (convertDecryptedThreadDataV4ToThread c thread decrypted) (\<lambda>t.
            Inr (t, old_thread_dio thread (md4_authorPubKey decrypted)))
     else if version = 5 then
       let decrypted = decryptModuleDataV5 (cn_env c) (tde_data threadEntry) encKey
       in bindR (convertDecryptedThreadDataV5ToThread c thread decrypted) (\<lambda>t. Inr (t, md_dio decrypted))
     else
       bindR (failed_thread c thread (status_of (ThreadExn UnknowThreadFormatException))) (\<lambda>t. Inr (t, no_dio)))"

definition assertThreadDataIntegrity :: "'k connection \<Rightarrow> ThreadInfo \<Rightarrow> (exn, unit) result" where
  "assertThreadDataIntegrity c thread =
     (let thread_data_entry = last (ti_data thread) in
      bindR (getThreadEntryDataStructureVersion c thread_data_entry) (\<lambda>version.
      if version = 1 \<or> version = 4 then Inr ()
      else if version = 5 then
        bindR (deserialize_struct (EncryptedModuleDataV5_fromJSON (en_poco (cn_env c))) (tde_data thread_data_entry)) (\<lambda>thread_data.
        bindR (ModuleDataEncryptorV5_getDIOAndAssertIntegrity (cn_env c) thread_data) (\<lambda>dio.
        if dio_contextId dio \<noteq> ti_contextId thread \<or> Some (dio_resourceId dio) \<noteq> ti_resourceId thread \<or>
           dio_creatorUserId dio \<noteq> ti_lastModifier thread \<or>
           \<not> TimestampValidator_validate (dio_timestamp dio) (ti_lastModificationDate thread)
        then Inl (ThreadExn ThreadDataIntegrityException) else Inr ()))
      else Inl (ThreadExn UnknowThreadFormatException)))"

definition validateThreadDataIntegrity :: "'k connection \<Rightarrow> ThreadInfo \<Rightarrow> int" where
  "validateThreadDataIntegrity c thread = (case assertThreadDataIntegrity c thread of Inr _ \<Rightarrow> 0 | Inl e \<Rightarrow> status_of e)"

definition thread_location :: "ThreadInfo \<Rightarrow> EncKeyLocation" where
  "thread_location thread = \<lparr>el_contextId = ti_contextId thread, el_resourceId = resource_id thread\<rparr>"

definition thread_request :: "Thread \<Rightarrow> DataIntegrityObject \<Rightarrow> VerificationRequest" where
  "thread_request t dio =
     \<lparr>vr_contextId = th_contextId t, vr_senderId = th_lastModifier t, vr_senderPubKey = dio_creatorPubKey dio,
      vr_date = th_lastModificationDate t, vr_bridgeIdentity = dio_bridgeIdentity dio\<rparr>"

abbreviation put_thread_status :: "int \<Rightarrow> Thread \<Rightarrow> Thread" where
  "put_thread_status s t \<equiv> t\<lparr>th_statusCode := s\<rparr>"

definition validateDecryptAndConvertThreadDataToThread :: "'k connection \<Rightarrow> ThreadInfo \<Rightarrow> (exn, Thread) result" where
  "validateDecryptAndConvertThreadDataToThread c thread =
     (let statusCode = validateThreadDataIntegrity c thread in
      if statusCode \<noteq> 0 then failed_thread c thread statusCode
      else
        let thread_data_entry = last (ti_data thread); location = thread_location thread in
        bindR (bindR (keys_at c (KeyRequest_addOne (ti_keys thread) (tde_keyId thread_data_entry) location) location)
          (\<lambda>keys. unordered_map_at keys (tde_keyId thread_data_entry))) (\<lambda>key.
        bindR (decryptAndConvertThreadDataToThread c thread thread_data_entry key)
          (verify_one (cn_verifier c) th_statusCode put_thread_status thread_request)))"

subsection \<open>Lists of threads\<close>

definition request_thread_keys :: "ThreadInfo list \<Rightarrow> (exn, KeyRequest, unit list) op" where
  "request_thread_keys =
     mapS (\<lambda>thread. KeyRequest_addOne (ti_keys thread) (tde_keyId (last (ti_data thread))) (thread_location thread))"

definition get_thread_keys :: "'k connection \<Rightarrow> ThreadInfo list \<Rightarrow> (exn, (EncKeyLocation \<times> key_map) list) result" where
  "get_thread_keys c threads =
     bindR (case request_thread_keys threads KeyRequest_new of (Inl e, _) \<Rightarrow> Inl e | (Inr _, r) \<Rightarrow> Inr r)
       (KeyProvider_getKeysAndVerify (cn_env c) (cn_userPrivKey c) (cn_verifier c))"

definition decrypt_thread ::
    "'k connection \<Rightarrow> (EncKeyLocation \<times> key_map) list \<Rightarrow> ThreadInfo \<Rightarrow> (exn, Thread \<times> DataIntegrityObject) result" where
  "decrypt_thread c threadsKeys thread =
     bindR (at_location threadsKeys (thread_location thread)) (\<lambda>keys.
     bindR (unordered_map_at keys (tde_keyId (last (ti_data thread)))) (\<lambda>key.
     decryptAndConvertThreadDataToThread c thread (last (ti_data thread)) key))"

definition validateDecryptAndConvertThreadsDataToThreads :: "'k connection \<Rightarrow> ThreadInfo list \<Rightarrow> (exn, Thread list) result" where
  "validateDecryptAndConvertThreadsDataToThreads c =
     read_containers (cn_verifier c) (validateThreadDataIntegrity c) (failed_thread c) Thread_new (get_thread_keys c)
       (decrypt_thread c) th_statusCode put_thread_status thread_request"

subsection \<open>Messages\<close>

definition getMessagesDataStructureVersion :: "'k connection \<Rightarrow> ServerMessage \<Rightarrow> (exn, int) result" where
  "getMessagesDataStructureVersion c message =
     (case sm_data message of
        JObject ob \<Rightarrow> bindR (VersionedData_fromJSON (en_poco (cn_env c)) ob) (\<lambda>version.
          Inr (if version = 4 then 4 else if version = 5 then 5 else 0))
      | JString s \<Rightarrow> bindR (base64_to (en_poco (cn_env c)) s) (\<lambda>d. Inr (if DataEncryptorUtil_hasSign d then 3 else 2))
      | _ \<Rightarrow> Inr 0)"

text \<open>Of a version 2 message only its author and status are used.\<close>

definition decryptMessageDataV2 :: "'k connection \<Rightarrow> ServerMessage \<Rightarrow> DecryptedEncKeyV2 \<Rightarrow> MessageDataV2" where
  "decryptMessageDataV2 c message encKey =
     (case bindR (var_to_string c (sm_data message)) (\<lambda>data.
        MessageDataV2Encryptor_decryptAndGetSign (cn_env c) data (ek_key encKey)) of
        Inr m \<Rightarrow> mds_data m
      | Inl e \<Rightarrow> \<lparr>mv2_v = 0, mv2_msgId = [], mv2_type = [], mv2_text = [], mv2_date = 0, mv2_deleted = False,
          mv2_author = \<lparr>mda_userId = [], mda_pubKey = []\<rparr>,
          mv2_destination = \<lparr>mdd_server = [], mdd_contextId = [], mdd_threadId = []\<rparr>, mv2_statusCode = status_of e\<rparr>)"

definition decryptMessageDataV3 :: "'k connection \<Rightarrow> ServerMessage \<Rightarrow> DecryptedEncKeyV2 \<Rightarrow> MessageDataV3" where
  "decryptMessageDataV3 c message encKey =
     (case bindR (var_to_string c (sm_data message)) (\<lambda>data.
        MessageDataV3Encryptor_decryptAndGetSign (cn_env c) data (ek_key encKey)) of
        Inr m \<Rightarrow> mds_data m
      | Inl e \<Rightarrow> \<lparr>mv3_v = 0, mv3_publicMeta = [], mv3_privateMeta = [], mv3_data = [], mv3_statusCode = status_of e\<rparr>)"

definition decryptMessageDataV4 :: "'k connection \<Rightarrow> ServerMessage \<Rightarrow> DecryptedEncKeyV2 \<Rightarrow> DecryptedMessageDataV4" where
  "decryptMessageDataV4 c message encKey =
     (case deserialize_struct (EncryptedMessageDataV4_fromJSON (en_poco (cn_env c))) (sm_data message) of
        Inl x \<Rightarrow> DecryptedMessageDataV4_new\<lparr>dm4_statusCode := status_of x\<rparr>
      | Inr e \<Rightarrow> MessageDataEncryptorV4_decrypt (cn_env c) e (ek_key encKey))"

definition decryptMessageDataV5 :: "'k connection \<Rightarrow> ServerMessage \<Rightarrow> DecryptedEncKeyV2 \<Rightarrow> DecryptedEntryDataV5" where
  "decryptMessageDataV5 c message encKey =
     (case deserialize_struct (EncryptedEntryDataV5_fromJSON (en_poco (cn_env c))) (sm_data message) of
        Inl x \<Rightarrow> DecryptedEntryDataV5_new\<lparr>xd_statusCode := status_of x\<rparr>
      | Inr e \<Rightarrow>
          if k2_statusCode encKey \<noteq> 0
          then (MessageDataEncryptorV5_extractPublic (cn_env c) e)\<lparr>xd_statusCode := k2_statusCode encKey\<rparr>
          else MessageDataEncryptorV5_decrypt (cn_env c) e (ek_key encKey))"

definition convertServerMessageToLibMessage ::
    "ServerMessage \<Rightarrow> bytes \<Rightarrow> bytes \<Rightarrow> bytes \<Rightarrow> string \<Rightarrow> int \<Rightarrow> int \<Rightarrow> Message" where
  "convertServerMessageToLibMessage message publicMeta privateMeta data authorPubKey statusCode schemaVersion =
     \<lparr>ms_info = \<lparr>smi_threadId = sm_threadId message, smi_messageId = sm_id message, smi_createDate = sm_createDate message,
        smi_author = sm_author message\<rparr>,
      ms_publicMeta = publicMeta, ms_privateMeta = privateMeta, ms_data = data, ms_authorPubKey = authorPubKey,
      ms_statusCode = statusCode, ms_schemaVersion = schemaVersion\<rparr>"

definition failed_message :: "ServerMessage \<Rightarrow> int \<Rightarrow> Message" where
  "failed_message message statusCode = convertServerMessageToLibMessage message [] [] [] [] statusCode 0"

definition convertMessageDataV2ToMessage :: "ServerMessage \<Rightarrow> MessageDataV2 \<Rightarrow> Message" where
  "convertMessageDataV2ToMessage message m =
     convertServerMessageToLibMessage message [] [] [] (mda_pubKey (mv2_author m)) (mv2_statusCode m) 2"

definition convertMessageDataV3ToMessage :: "ServerMessage \<Rightarrow> MessageDataV3 \<Rightarrow> Message" where
  "convertMessageDataV3ToMessage message m =
     convertServerMessageToLibMessage message (mv3_publicMeta m) (mv3_privateMeta m) (mv3_data m) [] (mv3_statusCode m) 3"

definition convertDecryptedMessageDataV4ToMessage :: "ServerMessage \<Rightarrow> DecryptedMessageDataV4 \<Rightarrow> Message" where
  "convertDecryptedMessageDataV4ToMessage message m =
     convertServerMessageToLibMessage message (dm4_publicMeta m) (dm4_privateMeta m) (dm4_data m) (dm4_authorPubKey m)
       (dm4_statusCode m) 4"

definition convertDecryptedMessageDataV5ToMessage :: "ServerMessage \<Rightarrow> DecryptedEntryDataV5 \<Rightarrow> Message" where
  "convertDecryptedMessageDataV5ToMessage message m =
     convertServerMessageToLibMessage message (xd_publicMeta m) (xd_privateMeta m) (xd_data m) (xd_authorPubKey m)
       (xd_statusCode m) 5"

text \<open>Who wrote the present version of a message, and when.\<close>

definition last_author :: "ServerMessage \<Rightarrow> string" where
  "last_author message = (if sm_updates message = [] then sm_author message else mu_author (last (sm_updates message)))"

definition last_date :: "ServerMessage \<Rightarrow> int" where
  "last_date message = (if sm_updates message = [] then sm_createDate message else mu_createDate (last (sm_updates message)))"

definition old_message_dio :: "ServerMessage \<Rightarrow> string \<Rightarrow> DataIntegrityObject" where
  "old_message_dio message creatorPubKey =
     \<lparr>dio_creatorUserId = last_author message, dio_creatorPubKey = creatorPubKey, dio_contextId = sm_contextId message,
      dio_resourceId = sm_resourceId message, dio_timestamp = last_date message, dio_randomId = [],
      dio_containerId = Some (sm_threadId message), dio_containerResourceId = Some [], dio_bridgeIdentity = None\<rparr>"

definition decryptAndConvertMessageDataToMessage ::
    "'k connection \<Rightarrow> ServerMessage \<Rightarrow> DecryptedEncKeyV2 \<Rightarrow> (exn, Message \<times> DataIntegrityObject) result" where
  "decryptAndConvertMessageDataToMessage c message encKey =
     bindR (getMessagesDataStructureVersion c message) (\<lambda>version.
     if version = 2 then
       Inr (convertMessageDataV2ToMessage message (decryptMessageDataV2 c message encKey), old_message_dio message [])
     else if version = 3 then
       Inr (convertMessageDataV3ToMessage message (decryptMessageDataV3 c message encKey), old_message_dio message [])
     else if version = 4 then
       let m = decryptMessageDataV4 c message encKey
       in Inr (convertDecryptedMessageDataV4ToMessage message m, old_message_dio message (dm4_authorPubKey m))
     else if version = 5 then
       let m = decryptMessageDataV5 c message encKey
       in Inr (convertDecryptedMessageDataV5ToMessage message m, xd_dio m)
     else Inr (failed_message message (status_of (ThreadExn UnknowMessageFormatException)), no_dio))"

definition assert_message_integrity :: "'k connection \<Rightarrow> ServerMessage \<Rightarrow> string \<Rightarrow> (exn, unit) result" where
  "assert_message_integrity c message threadResourceId =
     bindR (getMessagesDataStructureVersion c message) (\<lambda>version.
     if version = 2 \<or> version = 3 \<or> version = 4 then Inr ()
     else if version = 5 then
       bindR (deserialize_struct (EncryptedEntryDataV5_fromJSON (en_poco (cn_env c))) (sm_data message)) (\<lambda>encData.
       bindR (MessageDataEncryptorV5_getDIOAndAssertIntegrity (cn_env c) encData) (\<lambda>dio.
       if dio_contextId dio \<noteq> sm_contextId message \<or> dio_resourceId dio \<noteq> sm_resourceId message \<or>
          dio_containerId dio \<noteq> Some (sm_threadId message) \<or> dio_containerResourceId dio \<noteq> Some threadResourceId \<or>
          dio_creatorUserId dio \<noteq> last_author message \<or>
          \<not> TimestampValidator_validate (dio_timestamp dio) (last_date message)
       then Inl (ThreadExn MessageDataIntegrityException) else Inr ()))
     else Inl (ThreadExn UnknowMessageFormatException))"

text \<open>The statuses the code returns are those of the exceptions of the same name.\<close>

definition validateMessageDataIntegrity :: "'k connection \<Rightarrow> ServerMessage \<Rightarrow> string \<Rightarrow> int" where
  "validateMessageDataIntegrity c message threadResourceId =
     (case assert_message_integrity c message threadResourceId of Inr _ \<Rightarrow> 0 | Inl e \<Rightarrow> status_of e)"

text \<open>The verifier is asked about the author of the message and its creation, also when it was updated by another user.\<close>

definition message_request :: "string \<Rightarrow> Message \<Rightarrow> BridgeIdentity option \<Rightarrow> VerificationRequest" where
  "message_request contextId m bridgeIdentity =
     \<lparr>vr_contextId = contextId, vr_senderId = smi_author (ms_info m), vr_senderPubKey = ms_authorPubKey m,
      vr_date = smi_createDate (ms_info m), vr_bridgeIdentity = bridgeIdentity\<rparr>"

abbreviation put_message_status :: "int \<Rightarrow> Message \<Rightarrow> Message" where
  "put_message_status s m \<equiv> m\<lparr>ms_statusCode := s\<rparr>"

definition MessageKeyIdFormatValidator_assertKeyIdFormat :: "string \<Rightarrow> (exn, unit) result" where
  "MessageKeyIdFormatValidator_assertKeyIdFormat keyId =
     (if \<not> KeyIdFormatValidator_hasDefaultKeyIdFormat keyId then Inl (ThreadExn thread_IncorrectKeyIdFormatException) else Inr ())"

definition decrypt_single_message :: "'k connection \<Rightarrow> ServerMessage \<Rightarrow> ModuleKeys \<Rightarrow> (exn, Message) result" where
  "decrypt_single_message c message threadKeys =
     (let location = \<lparr>el_contextId = sm_contextId message, el_resourceId = mk_moduleResourceId threadKeys\<rparr> in
      bindR (MessageKeyIdFormatValidator_assertKeyIdFormat (sm_keyId message)) (\<lambda>_.
      bindR (bindR (keys_at c (KeyRequest_addOne (mk_keys threadKeys) (sm_keyId message) location) location)
        (\<lambda>keys. unordered_map_at keys (sm_keyId message))) (\<lambda>encKey.
      bindR (decryptAndConvertMessageDataToMessage c message encKey)
        (verify_one (cn_verifier c) ms_statusCode put_message_status
          (\<lambda>r messageDIO. message_request (sm_contextId message) r (dio_bridgeIdentity messageDIO))))))"

definition validateDecryptAndConvertMessageDataToMessage :: "'k connection \<Rightarrow> ServerMessage \<Rightarrow> ModuleKeys \<Rightarrow> Message" where
  "validateDecryptAndConvertMessageDataToMessage c message threadKeys =
     (let statusCode = validateMessageDataIntegrity c message (mk_moduleResourceId threadKeys) in
      if statusCode \<noteq> 0 then failed_message message statusCode
      else case decrypt_single_message c message threadKeys of Inr r \<Rightarrow> r | Inl e \<Rightarrow> failed_message message (status_of e))"

subsection \<open>Lists of messages\<close>

definition decrypt_listed_message ::
    "'k connection \<Rightarrow> key_map \<Rightarrow> string \<Rightarrow> ServerMessage \<Rightarrow> (exn, Message \<times> DataIntegrityObject) result" where
  "decrypt_listed_message c keyMap threadResourceId message =
     bindR (assert_message_integrity c message threadResourceId) (\<lambda>_.
     bindR (unordered_map_at keyMap (sm_keyId message)) (decryptAndConvertMessageDataToMessage c message))"

definition validateDecryptAndConvertMessagesDataToMessages ::
    "'k connection \<Rightarrow> ServerMessage list \<Rightarrow> ModuleKeys \<Rightarrow> (exn, Message list) result" where
  "validateDecryptAndConvertMessagesDataToMessages c messages threadKeys =
     (let keyIds = sorted_list_of_set (set (map sm_keyId messages));
          location = \<lparr>el_contextId = mk_contextId threadKeys, el_resourceId = mk_moduleResourceId threadKeys\<rparr> in
      bindR (keys_at c (KeyRequest_addMany (mk_keys threadKeys) keyIds location) location) (\<lambda>keyMap.
      verify_items (cn_verifier c) ms_statusCode put_message_status (message_request (mk_contextId threadKeys))
        (decrypt_items (decrypt_listed_message c keyMap (mk_moduleResourceId threadKeys)) failed_message put_message_status []
          messages)))"

subsection \<open>Events\<close>

datatype thread_event_data =
    ThreadCreatedEvent Thread
  | ThreadUpdatedEvent Thread
  | ThreadDeletedEvent string
  | ThreadStatsChangedEvent string int int
  | ThreadNewMessageEvent Message
  | ThreadMessageUpdatedEvent Message
  | ThreadMessageDeletedEvent string string
  | ThreadCollectionChangedEvent CollectionChanged

type_synonym ('s, 'a) thread_op = "(exn, ('s, thread_event_data api_event) api_state, 'a) op"

subsection \<open>Keys\<close>

definition threadToModuleKeys :: "'k connection \<Rightarrow> ThreadInfo \<Rightarrow> (exn, ModuleKeys) result" where
  "threadToModuleKeys c thread =
     bindR (getThreadEntryDataStructureVersion c (last (ti_data thread))) (\<lambda>version.
     Inr \<lparr>mk_keys = ti_keys thread, mk_currentKeyId = ti_keyId thread, mk_moduleSchemaVersion = version,
       mk_moduleResourceId = resource_id thread, mk_contextId = ti_contextId thread\<rparr>)"

definition thread_getModuleKeysAndVersionFromServer ::
    "'k connection \<Rightarrow> 's thread_server \<Rightarrow> string \<Rightarrow> ('s, ModuleKeys \<times> int) thread_op" where
  "thread_getModuleKeysAndVersionFromServer c sv moduleId =
     bindS (requesting (st_threadGet sv \<lparr>tg_threadId = moduleId, tg_type = None\<rparr>)) (\<lambda>thread.
     bindS (liftR (assertThreadDataIntegrity c thread)) (\<lambda>_.
     bindS (liftR (threadToModuleKeys c thread)) (\<lambda>keys. ret (keys, ti_version thread))))"

definition getMessageDecryptionKeys :: "'k connection \<Rightarrow> 's thread_server \<Rightarrow> ServerMessage \<Rightarrow> ('s, ModuleKeys) thread_op" where
  "getMessageDecryptionKeys c sv message =
     bindS (liftR (getMessagesDataStructureVersion c message)) (\<lambda>version.
     getModuleKeys (thread_getModuleKeysAndVersionFromServer c sv) (sm_threadId message) (Some [sm_keyId message])
       (Some (if version = 5 then 5 else if version = 0 then 0 else 1)))"

definition thread_cache_keys :: "'k connection \<Rightarrow> ThreadInfo \<Rightarrow> ('s, unit) thread_op" where
  "thread_cache_keys c thread =
     bindS (liftR (threadToModuleKeys c thread)) (\<lambda>keys. setNewModuleKeysInCache (ti_id thread) keys (ti_version thread))"

subsection \<open>Operations on threads\<close>

definition createThreadEx ::
    "'k connection \<Rightarrow> 's thread_server \<Rightarrow> string \<Rightarrow> UserWithPubKey list \<Rightarrow> UserWithPubKey list \<Rightarrow> bytes \<Rightarrow> bytes \<Rightarrow> string \<Rightarrow>
     ContainerPolicy option \<Rightarrow> ('s, string) thread_op" where
  "createThreadEx c sv contextId users managers publicMeta privateMeta type policies =
     bindS (drawn (KeyProvider_generateKey (cn_env c) (cn_hex c))) (\<lambda>threadKey.
     bindS (drawn (EndpointUtils_generateId c)) (\<lambda>resourceId.
     bindS (drawing (ConnectionImpl_createDIO c contextId resourceId None None)) (\<lambda>threadDIO.
     bindS (drawn (KeyProvider_generateSecret (cn_env c) (cn_hex c))) (\<lambda>threadSecret.
     bindS (drawing (ModuleDataEncryptorV5_encrypt (cn_env c)
       \<lparr>mt_publicMeta = publicMeta, mt_privateMeta = privateMeta,
        mt_internalMeta = \<lparr>mi_secret = text_of threadSecret, mi_resourceId = resourceId, mi_randomId = dio_randomId threadDIO\<rparr>,
        mt_dio = threadDIO\<rparr> (cn_userPrivKey c) (ek_key threadKey))) (\<lambda>data.
     bindS (drawing (KeyProvider_prepareKeysList (cn_env c) (cn_hex c) (cn_userPrivKey c)
       (EndpointUtils_uniqueListUserWithPubKey users managers) threadKey threadDIO
       \<lparr>el_contextId = contextId, el_resourceId = resourceId\<rparr> threadSecret)) (\<lambda>keys.
     requesting (st_threadCreate sv
       \<lparr>tc_resourceId = resourceId, tc_contextId = contextId, tc_users = map up_userId users,
        tc_managers = map up_userId managers, tc_data = EncryptedModuleDataV5_toJSON data, tc_keyId = ek_id threadKey,
        tc_keys = keys, tc_type = type, tc_policy = map_option Factory_createPolicyServerObject policies\<rparr>)))))))"

definition createThread ::
    "'k connection \<Rightarrow> 's thread_server \<Rightarrow> string \<Rightarrow> UserWithPubKey list \<Rightarrow> UserWithPubKey list \<Rightarrow> bytes \<Rightarrow> bytes \<Rightarrow>
     ContainerPolicy option \<Rightarrow> ('s, string) thread_op" where
  "createThread c sv contextId users managers publicMeta privateMeta policies =
     createThreadEx c sv contextId users managers publicMeta privateMeta THREAD_TYPE_FILTER_FLAG policies"

text \<open>A thread without resource id is given one.\<close>

definition updateThread ::
    "'k connection \<Rightarrow> 's thread_server \<Rightarrow> string \<Rightarrow> UserWithPubKey list \<Rightarrow> UserWithPubKey list \<Rightarrow> bytes \<Rightarrow> bytes \<Rightarrow> int \<Rightarrow> bool \<Rightarrow> bool \<Rightarrow>
     ContainerPolicy option \<Rightarrow> ('s, unit) thread_op" where
  "updateThread c sv threadId users managers publicMeta privateMeta version force forceGenerateNewKey policies =
     bindS (requesting (st_threadGet sv \<lparr>tg_threadId = threadId, tg_type = None\<rparr>)) (\<lambda>currentThread.
     let currentThreadEntry = last (ti_data currentThread) in
     bindS (case ti_resourceId currentThread of Some r \<Rightarrow> ret r | None \<Rightarrow> drawn (EndpointUtils_generateId c)) (\<lambda>resourceId.
     let location = \<lparr>el_contextId = ti_contextId currentThread, el_resourceId = resourceId\<rparr> in
     bindS (liftR (keys_at c (KeyRequest_addAll (ti_keys currentThread) location) location)) (\<lambda>threadKeys.
     bindS (liftR (findEncKeyByKeyId threadKeys (tde_keyId currentThreadEntry))) (\<lambda>currentThreadKey.
     bindS (liftR (extractAndDecryptModuleInternalMeta (cn_env c) (tde_data currentThreadEntry) currentThreadKey)) (\<lambda>threadInternalMeta.
     let resolver = UsersKeysResolver_create (ti_users currentThread) (ti_managers currentThread) users managers
           forceGenerateNewKey currentThreadKey;
         secret = bytes_of (mi_secret threadInternalMeta) in
     if \<not> KeyProvider_verifyKeysSecret (cn_env c) threadKeys location secret
     then throw (ThreadExn ThreadEncryptionKeyValidationException)
     else
       bindS (drawing (ConnectionImpl_createDIO c (ti_contextId currentThread) resourceId None None)) (\<lambda>updateThreadDio.
       bindS (drawing (update_keys c resolver threadKeys currentThreadKey updateThreadDio location secret)) (\<lambda>(threadKey, keys).
       bindS (drawing (ModuleDataEncryptorV5_encrypt (cn_env c)
         \<lparr>mt_publicMeta = publicMeta, mt_privateMeta = privateMeta,
          mt_internalMeta = \<lparr>mi_secret = mi_secret threadInternalMeta, mi_resourceId = resourceId,
            mi_randomId = dio_randomId updateThreadDio\<rparr>,
          mt_dio = updateThreadDio\<rparr> (cn_userPrivKey c) (ek_key threadKey))) (\<lambda>data.
       bindS (requesting (st_threadUpdate sv
         \<lparr>tu_id = threadId, tu_resourceId = resourceId, tu_users = map up_userId users,
          tu_managers = map up_userId managers, tu_data = EncryptedModuleDataV5_toJSON data, tu_keyId = ek_id threadKey,
          tu_keys = keys, tu_version = version, tu_force = force,
          tu_policy = map_option Factory_createPolicyServerObject policies\<rparr>)) (\<lambda>_.
       invalidateModuleKeysInCache (Some threadId))))))))))"

definition deleteThread :: "'s thread_server \<Rightarrow> string \<Rightarrow> ('s, unit) thread_op" where
  "deleteThread sv threadId =
     bindS (requesting (st_threadDelete sv threadId)) (\<lambda>_. invalidateModuleKeysInCache (Some threadId))"

definition getThreadEx :: "'k connection \<Rightarrow> 's thread_server \<Rightarrow> string \<Rightarrow> string \<Rightarrow> ('s, Thread) thread_op" where
  "getThreadEx c sv threadId type =
     bindS (requesting (st_threadGet sv \<lparr>tg_threadId = threadId, tg_type = (if type \<noteq> [] then Some type else None)\<rparr>)) (\<lambda>thread.
     bindS (thread_cache_keys c thread) (\<lambda>_.
     liftR (validateDecryptAndConvertThreadDataToThread c thread)))"

definition getThread :: "'k connection \<Rightarrow> 's thread_server \<Rightarrow> string \<Rightarrow> ('s, Thread) thread_op" where
  "getThread c sv threadId = getThreadEx c sv threadId THREAD_TYPE_FILTER_FLAG"

definition listThreadsEx :: "'k connection \<Rightarrow> 's thread_server \<Rightarrow> string \<Rightarrow> PagingQuery \<Rightarrow> string \<Rightarrow> ('s, Thread PagingList) thread_op" where
  "listThreadsEx c sv contextId pagingQuery type =
     bindS (liftR (ListQueryMapper_map (en_poco (cn_env c)) pagingQuery)) (\<lambda>model.
     bindS (requesting (st_threadList sv
       (ListModel.extend model (ThreadListModel.fields contextId (if type \<noteq> [] then Some type else None))))) (\<lambda>(threads, count).
     bindS (mapS (thread_cache_keys c) threads) (\<lambda>_.
     bindS (liftR (validateDecryptAndConvertThreadsDataToThreads c threads)) (\<lambda>items.
     ret \<lparr>pl_totalAvailable = count, pl_readItems = items\<rparr>))))"

definition listThreads :: "'k connection \<Rightarrow> 's thread_server \<Rightarrow> string \<Rightarrow> PagingQuery \<Rightarrow> ('s, Thread PagingList) thread_op" where
  "listThreads c sv contextId pagingQuery = listThreadsEx c sv contextId pagingQuery THREAD_TYPE_FILTER_FLAG"

subsection \<open>Operations on messages\<close>

definition getMessage :: "'k connection \<Rightarrow> 's thread_server \<Rightarrow> string \<Rightarrow> ('s, Message) thread_op" where
  "getMessage c sv messageId =
     bindS (requesting (st_threadMessageGet sv messageId)) (\<lambda>message.
     bindS (getMessageDecryptionKeys c sv message) (\<lambda>keys.
     ret (validateDecryptAndConvertMessageDataToMessage c message keys)))"

definition listMessages :: "'k connection \<Rightarrow> 's thread_server \<Rightarrow> string \<Rightarrow> PagingQuery \<Rightarrow> ('s, Message PagingList) thread_op" where
  "listMessages c sv threadId pagingQuery =
     bindS (liftR (ListQueryMapper_map (en_poco (cn_env c)) pagingQuery)) (\<lambda>model.
     bindS (requesting (st_threadMessagesGet sv (ListModel.extend model (ThreadMessagesGetModel.fields threadId)))) (\<lambda>(thread, messages, count).
     bindS (liftR (assertThreadDataIntegrity c thread)) (\<lambda>_.
     bindS (thread_cache_keys c thread) (\<lambda>_.
     bindS (liftR (bindR (threadToModuleKeys c thread) (validateDecryptAndConvertMessagesDataToMessages c messages))) (\<lambda>items.
     ret \<lparr>pl_totalAvailable = count, pl_readItems = items\<rparr>)))))"

text \<open>A message is written in the format its thread's key has.\<close>

definition encryptMessageData ::
    "'k connection \<Rightarrow> string \<Rightarrow> string \<Rightarrow> bytes \<Rightarrow> bytes \<Rightarrow> bytes \<Rightarrow> ModuleKeys \<Rightarrow> (exn, nat, json) op" where
  "encryptMessageData c threadId resourceId publicMeta privateMeta data threadKeys =
     bindS (liftR (getAndValidateModuleCurrentEncKey c threadKeys)) (\<lambda>msgKey.
     if k2_dataStructureVersion msgKey = 1 then
       bindS (MessageDataEncryptorV4_encrypt (cn_env c)
         \<lparr>tm4_publicMeta = publicMeta, tm4_privateMeta = privateMeta, tm4_data = data, tm4_internalMeta = None\<rparr>
         (cn_userPrivKey c) (ek_key msgKey)) (\<lambda>e. ret (EncryptedMessageDataV4_toJSON e))
     else if k2_dataStructureVersion msgKey = 2 then
       bindS (ConnectionImpl_createDIO c (mk_contextId threadKeys) resourceId (Some threadId) (Some (mk_moduleResourceId threadKeys))) (\<lambda>messageDIO.
       bindS (MessageDataEncryptorV5_encrypt (cn_env c)
         \<lparr>xt_publicMeta = publicMeta, xt_privateMeta = privateMeta, xt_data = data, xt_internalMeta = None, xt_dio = messageDIO\<rparr>
         (cn_userPrivKey c) (ek_key msgKey)) (\<lambda>e. ret (EncryptedEntryDataV5_toJSON e)))
     else throw (ThreadExn UnknowThreadFormatException))"

definition sendMessageRequest ::
    "'k connection \<Rightarrow> 's thread_server \<Rightarrow> string \<Rightarrow> bytes \<Rightarrow> bytes \<Rightarrow> bytes \<Rightarrow> ModuleKeys \<Rightarrow> ('s, string) thread_op" where
  "sendMessageRequest c sv threadId publicMeta privateMeta data keys =
     bindS (liftR (getAndValidateModuleCurrentEncKey c keys)) (\<lambda>msgKey.
     if k2_statusCode msgKey \<noteq> 0 then throw (ThreadExn ThreadEncryptionKeyValidationException)
     else
       bindS (drawn (EndpointUtils_generateId c)) (\<lambda>resourceId.
       bindS (drawing (encryptMessageData c threadId resourceId publicMeta privateMeta data keys)) (\<lambda>value.
       requesting (st_threadMessageSend sv
         \<lparr>tms_resourceId = resourceId, tms_threadId = threadId, tms_data = value, tms_keyId = ek_id msgKey\<rparr>))))"

definition InvalidThreadKey_code :: nat where
  "InvalidThreadKey_code = endpoint_code 0xF000 0x6002"

definition sendMessage ::
    "'k connection \<Rightarrow> 's thread_server \<Rightarrow> string \<Rightarrow> bytes \<Rightarrow> bytes \<Rightarrow> bytes \<Rightarrow> ('s, string) thread_op" where
  "sendMessage c sv threadId publicMeta privateMeta data =
     catch_privmx
       (bindS (getModuleKeys (thread_getModuleKeysAndVersionFromServer c sv) threadId None None)
         (sendMessageRequest c sv threadId publicMeta privateMeta data))
       privmx_exception
       (\<lambda>e. if ExceptionConverter_convert e = InvalidThreadKey_code
         then bindS (getNewModuleKeysAndUpdateCache (thread_getModuleKeysAndVersionFromServer c sv) threadId)
           (sendMessageRequest c sv threadId publicMeta privateMeta data)
         else throw (PrivmxExn e))"

definition deleteMessage :: "'s thread_server \<Rightarrow> string \<Rightarrow> ('s, unit) thread_op" where
  "deleteMessage sv messageId = requesting (st_threadMessageDelete sv messageId)"

definition updateMessageRequest ::
    "'k connection \<Rightarrow> 's thread_server \<Rightarrow> string \<Rightarrow> string \<Rightarrow> string \<Rightarrow> bytes \<Rightarrow> bytes \<Rightarrow> bytes \<Rightarrow> ModuleKeys \<Rightarrow> ('s, unit) thread_op" where
  "updateMessageRequest c sv messageId resourceId threadId publicMeta privateMeta data keys =
     bindS (liftR (getAndValidateModuleCurrentEncKey c keys)) (\<lambda>msgKey.
     if k2_statusCode msgKey \<noteq> 0 then throw (ThreadExn ThreadEncryptionKeyValidationException)
     else
       bindS (drawing (encryptMessageData c threadId resourceId publicMeta privateMeta data keys)) (\<lambda>value.
       requesting (st_threadMessageUpdate sv \<lparr>tmu_messageId = messageId, tmu_data = value, tmu_keyId = ek_id msgKey\<rparr>)))"

text \<open>A message without resource id is given one, which the request does not carry.\<close>

definition updated_resource_id :: "'k connection \<Rightarrow> ServerMessage \<Rightarrow> ('s, string) thread_op" where
  "updated_resource_id c message =
     (if sm_resourceId message = [] then drawn (EndpointUtils_generateId c) else ret (sm_resourceId message))"

definition updateMessage ::
    "'k connection \<Rightarrow> 's thread_server \<Rightarrow> string \<Rightarrow> bytes \<Rightarrow> bytes \<Rightarrow> bytes \<Rightarrow> ('s, unit) thread_op" where
  "updateMessage c sv messageId publicMeta privateMeta data =
     bindS (requesting (st_threadMessageGet sv messageId)) (\<lambda>message.
     let update = (\<lambda>keys. bindS (updated_resource_id c message) (\<lambda>resourceId.
       updateMessageRequest c sv messageId resourceId (sm_threadId message) publicMeta privateMeta data keys)) in
     catch_privmx
       (bindS (getModuleKeys (thread_getModuleKeysAndVersionFromServer c sv) (sm_threadId message) None None) update)
       privmx_exception
       (\<lambda>e. if ExceptionConverter_convert e = InvalidThreadKey_code
         then bindS (getNewModuleKeysAndUpdateCache (thread_getModuleKeysAndVersionFromServer c sv) (sm_threadId message)) update
         else throw (PrivmxExn e)))"

subsection \<open>Notifications\<close>

definition of_thread :: "string option \<Rightarrow> bool" where
  "of_thread type \<longleftrightarrow> (case type of None \<Rightarrow> True | Some t \<Rightarrow> t = THREAD_TYPE_FILTER_FLAG)"

definition on_thread_info ::
    "'k connection \<Rightarrow> (Thread \<Rightarrow> thread_event_data) \<Rightarrow> NotificationEvent \<Rightarrow> ('s, unit) thread_op" where
  "on_thread_info c mk notification =
     bindS (liftR (deserialize_struct (ThreadInfo_fromJSON (en_poco (cn_env c))) (ne_data notification))) (\<lambda>raw.
     if of_thread (ti_type raw) then
       bindS (thread_cache_keys c raw) (\<lambda>_.
       bindS (liftR (validateDecryptAndConvertThreadDataToThread c raw)) (\<lambda>data.
       emitApiEvent (EventBuilder_buildEvent ''thread'' (mk data) notification)))
     else ret ())"

definition message_channel :: "string \<Rightarrow> string" where
  "message_channel threadId = ''thread/'' @ threadId @ ''/messages''"

definition on_thread_message ::
    "'k connection \<Rightarrow> 's thread_server \<Rightarrow> (Message \<Rightarrow> thread_event_data) \<Rightarrow> NotificationEvent \<Rightarrow> ('s, unit) thread_op" where
  "on_thread_message c sv mk notification =
     bindS (liftR (deserialize_struct (ThreadMessageEventData_fromJSON (en_poco (cn_env c))) (ne_data notification))) (\<lambda>(raw, containerType).
     if of_thread containerType then
       bindS (getMessageDecryptionKeys c sv raw) (\<lambda>keys.
       emitApiEvent (EventBuilder_buildEvent (message_channel (sm_threadId raw))
         (mk (validateDecryptAndConvertMessageDataToMessage c raw keys)) notification))
     else ret ())"

definition thread_notification_task :: "'k connection \<Rightarrow> 's thread_server \<Rightarrow> string \<Rightarrow> NotificationEvent \<Rightarrow> ('s, unit) thread_op" where
  "thread_notification_task c sv type notification =
     (let p = en_poco (cn_env c); data = ne_data notification in
      if type = ''threadCreated'' then on_thread_info c ThreadCreatedEvent notification
      else if type = ''threadUpdated'' then on_thread_info c ThreadUpdatedEvent notification
      else if type = ''threadDeleted'' then
        bindS (liftR (deserialize_struct ThreadDeletedEventData_fromJSON data)) (\<lambda>(threadId, t).
        if of_thread t then
          bindS (invalidateModuleKeysInCache (Some threadId)) (\<lambda>_.
          emitApiEvent (EventBuilder_buildEvent ''thread'' (ThreadDeletedEvent threadId) notification))
        else ret ())
      else if type = ''threadStats'' then
        bindS (liftR (deserialize_struct (ThreadStatsEventData_fromJSON p) data)) (\<lambda>raw.
        if of_thread (tse_type raw) then
          emitApiEvent (EventBuilder_buildEvent ''thread''
            (ThreadStatsChangedEvent (tse_threadId raw) (tse_lastMsgDate raw) (tse_messages raw)) notification)
        else ret ())
      else if type = ''threadNewMessage'' then on_thread_message c sv ThreadNewMessageEvent notification
      else if type = ''threadUpdatedMessage'' then on_thread_message c sv ThreadMessageUpdatedEvent notification
      else if type = ''threadDeletedMessage'' then
        bindS (liftR (deserialize_struct ThreadDeletedMessageEventData_fromJSON data)) (\<lambda>(messageId, threadId, t).
        if of_thread t then
          emitApiEvent (EventBuilder_buildEvent (message_channel threadId) (ThreadMessageDeletedEvent threadId messageId) notification)
        else ret ())
      else if type = ''threadCollectionChanged'' then
        bindS (liftR (deserialize_struct (CollectionChangedEventData_fromJSON p) data)) (\<lambda>raw.
        if of_thread (cce_containerType raw) then
          emitApiEvent (EventBuilder_buildEvent ''thread/collectionChanged''
            (ThreadCollectionChangedEvent (mapToCollectionChangedEventData THREAD_TYPE_FILTER_FLAG raw)) notification)
        else ret ())
      else ret ())"

text \<open>The task runs on an executor that swallows its exceptions.\<close>

definition thread_processNotificationEvent ::
    "'k connection \<Rightarrow> 's thread_server \<Rightarrow> string \<Rightarrow> NotificationEvent \<Rightarrow> ('s, unit) thread_op" where
  "thread_processNotificationEvent c sv type notification st =
     (if Subscriber_getSubscriptionQuery (as_subscriptions st) (ne_subscriptions notification) = None then (Inr (), st)
      else (Inr (), snd (thread_notification_task c sv type notification st)))"

definition thread_processConnectedEvent :: "('s, unit) thread_op" where
  "thread_processConnectedEvent = invalidateModuleKeysInCache None"

definition thread_processDisconnectedEvent :: "('s, unit) thread_op" where
  "thread_processDisconnectedEvent = invalidateModuleKeysInCache None"

end
