(* ===== verification/Thread_Properties.thy ===== *)
theory Thread_Properties
  imports Thread_ThreadApi Core_ModuleKeys
begin

text \<open>
  What the threads promise: which messages and threads are shown without error, that what is sent can
  be read, in the present format and in the old ones, and where the code refuses what it should not.
\<close>

subsection \<open>Messages that are read\<close>

text \<open>
  A message of the present format is genuine when its data carries a signed integrity object that
  covers all its parts and names this context, thread and message, who wrote its last version and a
  time close to the Bridge's, and its parts were decrypted with the given key and verified with the
  author's.
\<close>

definition message_genuine ::
    "'k connection \<Rightarrow> ServerMessage \<Rightarrow> string \<Rightarrow> DecryptedEncKeyV2 \<Rightarrow> Message \<Rightarrow> DataIntegrityObject \<Rightarrow> bool" where
  "message_genuine c message threadResourceId k r dio \<longleftrightarrow>
     (\<exists>e d. deserialize_struct (EncryptedEntryDataV5_fromJSON (en_poco (cn_env c))) (sm_data message) = Inr e \<and>
        entry_authentic (cn_env c) e (ek_key k) d \<and> dio = xd_dio d \<and>
        item_bound (sm_contextId message) (sm_resourceId message) (sm_threadId message) threadResourceId
          (last_author message) (last_date message) dio \<and>
        r = (convertDecryptedMessageDataV5ToMessage message d)\<lparr>ms_statusCode := 0\<rparr>)"

text \<open>A message of version 4 carries signatures of its parts, but nothing says of which message.\<close>

definition message_signed :: "'k connection \<Rightarrow> ServerMessage \<Rightarrow> DecryptedEncKeyV2 \<Rightarrow> Message \<Rightarrow> bool" where
  "message_signed c message k r \<longleftrightarrow>
     (\<exists>e a. deserialize_struct (EncryptedMessageDataV4_fromJSON (en_poco (cn_env c))) (sm_data message) = Inr e \<and>
        PublicKey_fromBase58DER (en_crypto (cn_env c)) (en_ecc (cn_env c)) (em4_authorPubKey e) = Inr a \<and>
        ms_authorPubKey r = em4_authorPubKey e \<and>
        DataEncryptorV4_decodeAndVerify (cn_env c) (em4_publicMeta e) a = Inr (ms_publicMeta r) \<and>
        DataEncryptorV4_decodeAndDecryptAndVerify (cn_env c) (em4_privateMeta e) a (ek_key k) = Inr (ms_privateMeta r) \<and>
        DataEncryptorV4_decodeAndDecryptAndVerify (cn_env c) (em4_data e) a (ek_key k) = Inr (ms_data r))"

definition message_shown ::
    "'k connection \<Rightarrow> ServerMessage \<Rightarrow> string \<Rightarrow> DecryptedEncKeyV2 \<Rightarrow> Message \<Rightarrow> DataIntegrityObject \<Rightarrow> bool" where
  "message_shown c message threadResourceId k r dio \<longleftrightarrow>
     (if ms_schemaVersion r = 5 then k2_statusCode k = 0 \<and> message_genuine c message threadResourceId k r dio
      else if ms_schemaVersion r = 4 then message_signed c message k r \<and> dio = old_message_dio message (ms_authorPubKey r)
      else ms_schemaVersion r \<in> {2, 3} \<and> dio = old_message_dio message [])"

lemma decrypt_message_v4_ok:
  assumes "dm4_statusCode (MessageDataEncryptorV4_decrypt env e key) = 0"
  obtains a where "PublicKey_fromBase58DER (en_crypto env) (en_ecc env) (em4_authorPubKey e) = Inr a"
    and "dm4_authorPubKey (MessageDataEncryptorV4_decrypt env e key) = em4_authorPubKey e"
    and "DataEncryptorV4_decodeAndVerify env (em4_publicMeta e) a = Inr (dm4_publicMeta (MessageDataEncryptorV4_decrypt env e key))"
    and "DataEncryptorV4_decodeAndDecryptAndVerify env (em4_privateMeta e) a key =
      Inr (dm4_privateMeta (MessageDataEncryptorV4_decrypt env e key))"
    and "DataEncryptorV4_decodeAndDecryptAndVerify env (em4_data e) a key = Inr (dm4_data (MessageDataEncryptorV4_decrypt env e key))"
proof -
  obtain y r where m: "decrypt_message_v4 env e key DecryptedMessageDataV4_new = (y, r)" by fastforce
  have y: "y = Inr ()" using assms m by (cases y) (auto simp: MessageDataEncryptorV4_decrypt_def)
  have res: "MessageDataEncryptorV4_decrypt env e key = r" by (simp add: MessageDataEncryptorV4_decrypt_def m y)
  then have "dm4_statusCode r = 0" using assms by simp
  with m y show thesis
    using that unfolding res
    by (auto simp: decrypt_message_v4_def bindS_eq_Inr DecryptedMessageDataV4_new_def split: if_splits)
qed

lemma assert_message_integrity_ok:
  assumes "assert_message_integrity c message resourceId = Inr ()"
  obtains version where "getMessagesDataStructureVersion c message = Inr version" and "version \<in> {2, 3, 4, 5}"
    and "version = 5 \<longrightarrow> (\<exists>e dio. deserialize_struct (EncryptedEntryDataV5_fromJSON (en_poco (cn_env c))) (sm_data message) = Inr e \<and>
      EntryDataEncryptorV5_getDIOAndAssertIntegrity (cn_env c) thread_entry_exns e = Inr dio \<and>
      item_bound (sm_contextId message) (sm_resourceId message) (sm_threadId message) resourceId
        (last_author message) (last_date message) dio)"
  using assms that unfolding assert_message_integrity_def item_bound_def MessageDataEncryptorV5_getDIOAndAssertIntegrity_def
  by (auto simp: bindR_eq_Inr split: if_splits)

lemmas message_conversions =
  convertServerMessageToLibMessage_def convertMessageDataV2ToMessage_def convertMessageDataV3ToMessage_def
  convertDecryptedMessageDataV4ToMessage_def convertDecryptedMessageDataV5ToMessage_def failed_message_def

lemma decrypted_v5_genuine:
  assumes "deserialize_struct (EncryptedEntryDataV5_fromJSON (en_poco (cn_env c))) (sm_data message) = Inr e"
    and "EntryDataEncryptorV5_getDIOAndAssertIntegrity (cn_env c) thread_entry_exns e = Inr dio"
    and "item_bound (sm_contextId message) (sm_resourceId message) (sm_threadId message) resourceId
      (last_author message) (last_date message) dio"
    and "xd_statusCode (decryptMessageDataV5 c message k) = 0"
  shows "k2_statusCode k = 0 \<and> message_genuine c message resourceId k
    (convertDecryptedMessageDataV5ToMessage message (decryptMessageDataV5 c message k)) (xd_dio (decryptMessageDataV5 c message k))"
proof -
  let ?d = "decryptMessageDataV5 c message k"
  have "?d = (if k2_statusCode k \<noteq> 0 then (EntryDataEncryptorV5_extractPublic (cn_env c) thread_entry_exns e)\<lparr>xd_statusCode := k2_statusCode k\<rparr>
      else EntryDataEncryptorV5_decrypt (cn_env c) thread_entry_exns e (ek_key k))"
    by (simp add: decryptMessageDataV5_def assms(1) MessageDataEncryptorV5_extractPublic_def MessageDataEncryptorV5_decrypt_def)
  from decrypted_item_authentic [OF assms(2) this assms(4)] assms show ?thesis
    by (auto simp: message_genuine_def message_conversions)
qed

lemma decrypted_v4_signed:
  assumes "dm4_statusCode (decryptMessageDataV4 c message k) = 0"
  shows "message_signed c message k (convertDecryptedMessageDataV4ToMessage message (decryptMessageDataV4 c message k))"
proof -
  obtain e where e: "deserialize_struct (EncryptedMessageDataV4_fromJSON (en_poco (cn_env c))) (sm_data message) = Inr e"
      "decryptMessageDataV4 c message k = MessageDataEncryptorV4_decrypt (cn_env c) e (ek_key k)"
    using assms by (auto simp: decryptMessageDataV4_def split: sum.splits)
  from assms show ?thesis
    unfolding e(2) by (rule decrypt_message_v4_ok) (auto simp: message_signed_def e(1) message_conversions)
qed

lemma decrypted_message_shown:
  assumes "assert_message_integrity c message resourceId = Inr ()"
    and "decryptAndConvertMessageDataToMessage c message k = Inr (r, dio)" and "ms_statusCode r = 0"
  shows "message_shown c message resourceId k r dio"
  using assms(1)
proof (rule assert_message_integrity_ok)
  fix version assume v: "getMessagesDataStructureVersion c message = Inr version" "version \<in> {2, 3, 4, 5}"
    and five: "version = 5 \<longrightarrow> (\<exists>e dio. deserialize_struct (EncryptedEntryDataV5_fromJSON (en_poco (cn_env c))) (sm_data message) = Inr e \<and>
      EntryDataEncryptorV5_getDIOAndAssertIntegrity (cn_env c) thread_entry_exns e = Inr dio \<and>
      item_bound (sm_contextId message) (sm_resourceId message) (sm_threadId message) resourceId
        (last_author message) (last_date message) dio)"
  consider "version \<in> {2, 3}" | "version = 4" | "version = 5" using v(2) by blast
  then show ?thesis
  proof cases
    case 1
    then show ?thesis
      using assms(2) v(1) by (auto simp: decryptAndConvertMessageDataToMessage_def message_shown_def message_conversions)
  next
    case 2
    then have r: "r = convertDecryptedMessageDataV4ToMessage message (decryptMessageDataV4 c message k)"
        "dio = old_message_dio message (dm4_authorPubKey (decryptMessageDataV4 c message k))"
      using assms(2) v(1) by (auto simp: decryptAndConvertMessageDataToMessage_def Let_def)
    then show ?thesis
      using decrypted_v4_signed [of c message k] assms(3) by (simp add: message_shown_def message_conversions)
  next
    case 3
    then have r: "r = convertDecryptedMessageDataV5ToMessage message (decryptMessageDataV5 c message k)"
        "dio = xd_dio (decryptMessageDataV5 c message k)"
      using assms(2) v(1) by (auto simp: decryptAndConvertMessageDataToMessage_def Let_def)
    then show ?thesis
      using five 3 decrypted_v5_genuine [of c message _ _ resourceId k] assms(3)
      by (auto simp: message_shown_def message_conversions)
  qed
qed

lemma status_failed_message [simp]: "ms_statusCode (failed_message message s) = s"
  by (simp add: message_conversions)

lemma single_message_read:
  assumes "ms_statusCode (validateDecryptAndConvertMessageDataToMessage c message keys) = 0"
  obtains k dio where "assert_message_integrity c message (mk_moduleResourceId keys) = Inr ()"
    and "KeyIdFormatValidator_hasDefaultKeyIdFormat (sm_keyId message)"
    and "bindR (keys_at c (KeyRequest_addOne (mk_keys keys) (sm_keyId message)
        \<lparr>el_contextId = sm_contextId message, el_resourceId = mk_moduleResourceId keys\<rparr>)
        \<lparr>el_contextId = sm_contextId message, el_resourceId = mk_moduleResourceId keys\<rparr>)
        (\<lambda>ks. unordered_map_at ks (sm_keyId message)) = Inr k"
    and "decryptAndConvertMessageDataToMessage c message k = Inr (validateDecryptAndConvertMessageDataToMessage c message keys, dio)"
    and "cn_verifier c [message_request (sm_contextId message) (validateDecryptAndConvertMessageDataToMessage c message keys)
        (dio_bridgeIdentity dio)] = Some [True]"
proof -
  define r where "r = validateDecryptAndConvertMessageDataToMessage c message keys"
  have int: "assert_message_integrity c message (mk_moduleResourceId keys) = Inr ()"
    using assms by (auto simp: validateDecryptAndConvertMessageDataToMessage_def validateMessageDataIntegrity_def Let_def
        split: sum.splits if_splits)
  then have s: "decrypt_single_message c message keys = Inr r"
    using assms by (auto simp: r_def validateDecryptAndConvertMessageDataToMessage_def validateMessageDataIntegrity_def Let_def
        split: sum.splits)
  then have "KeyIdFormatValidator_hasDefaultKeyIdFormat (sm_keyId message)"
    by (auto simp: decrypt_single_message_def MessageKeyIdFormatValidator_assertKeyIdFormat_def Let_def split: if_splits)
  with s int show thesis
    unfolding decrypt_single_message_def Let_def MessageKeyIdFormatValidator_assertKeyIdFormat_def
    using assms that by (simp, elim single_item_read) (simp_all add: r_def)
qed

text \<open>
  A single message that is shown without error. Its key id has the expected form and the
  application's verifier approved its author. A message of the present format is genuine: its data
  carries a signed integrity object over all parts, made for exactly this context, thread and message
  by the author of its last version at a time within the tolerance, decrypted with the key that the
  key provider returned, without error, for its key id and this thread, a key of the present format having
  been accepted from the entries of the request. A
  message of version 4 was signed in its parts by the key shown as its author's; older ones carry no
  authentication of their author.
\<close>

theorem thread_message_authentic:
  assumes "r = validateDecryptAndConvertMessageDataToMessage c message keys" and "ms_statusCode r = 0"
  shows "\<exists>k dio. message_shown c message (mk_moduleResourceId keys) k r dio \<and>
    KeyIdFormatValidator_hasDefaultKeyIdFormat (sm_keyId message) \<and>
    provided_key c (one_key_request (mk_keys keys) (sm_keyId message) \<lparr>el_contextId = sm_contextId message, el_resourceId = mk_moduleResourceId keys\<rparr>)
      \<lparr>el_contextId = sm_contextId message, el_resourceId = mk_moduleResourceId keys\<rparr> (sm_keyId message) k \<and>
    cn_verifier c [message_request (sm_contextId message) r (dio_bridgeIdentity dio)] = Some [True]"
proof -
  let ?loc = "\<lparr>el_contextId = sm_contextId message, el_resourceId = mk_moduleResourceId keys\<rparr>"
  obtain k dio where k: "assert_message_integrity c message (mk_moduleResourceId keys) = Inr ()"
      "KeyIdFormatValidator_hasDefaultKeyIdFormat (sm_keyId message)"
      "bindR (keys_at c (KeyRequest_addOne (mk_keys keys) (sm_keyId message) ?loc) ?loc)
        (\<lambda>ks. unordered_map_at ks (sm_keyId message)) = Inr k"
      "decryptAndConvertMessageDataToMessage c message k = Inr (r, dio)"
      "cn_verifier c [message_request (sm_contextId message) r (dio_bridgeIdentity dio)] = Some [True]"
    using single_message_read [of c message keys] assms by metis
  from decrypted_message_shown [OF k(1,4) assms(2)] k(2,5) single_key_provided [OF k(3)] show ?thesis by blast
qed

subsection \<open>Lists of messages\<close>

interpretation thread_messages: listed_items "decrypt_listed_message c keyMap rid" failed_message ms_statusCode put_message_status
  for c :: "'k connection" and keyMap rid
  by unfold_locales simp_all

text \<open>What duplicates are recognised by.\<close>

definition message_nonce :: "'k connection \<Rightarrow> ServerMessage \<Rightarrow> string \<times> int" where
  "message_nonce c message =
     (case bindR (deserialize_struct (EncryptedEntryDataV5_fromJSON (en_poco (cn_env c))) (sm_data message))
        (MessageDataEncryptorV5_getDIOAndAssertIntegrity (cn_env c)) of
        Inr dio \<Rightarrow> if getMessagesDataStructureVersion c message = Inr 5 then (dio_randomId dio, dio_timestamp dio) else ([], last_date message)
      | Inl e \<Rightarrow> ([], last_date message))"

lemma listed_message_shown:
  assumes "decrypt_listed_message c keyMap rid message = Inr (r, dio)" and "ms_statusCode r = 0"
  shows "\<exists>k. map_of keyMap (sm_keyId message) = Some k \<and> message_shown c message rid k r dio"
    and "(dio_randomId dio, dio_timestamp dio) = message_nonce c message"
proof -
  obtain k where k: "assert_message_integrity c message rid = Inr ()" "map_of keyMap (sm_keyId message) = Some k"
      "decryptAndConvertMessageDataToMessage c message k = Inr (r, dio)"
    using assms(1) by (auto simp: decrypt_listed_message_def bindR_eq_Inr unordered_map_at_def split: option.splits)
  note shown = decrypted_message_shown [OF k(1,3) assms(2)]
  then show "\<exists>k. map_of keyMap (sm_keyId message) = Some k \<and> message_shown c message rid k r dio" using k(2) by blast
  have schema: "getMessagesDataStructureVersion c message = Inr (ms_schemaVersion r)"
    using k(1) by (rule assert_message_integrity_ok)
      (use k(3) in \<open>auto simp: decryptAndConvertMessageDataToMessage_def Let_def message_conversions\<close>)
  show "(dio_randomId dio, dio_timestamp dio) = message_nonce c message"
  proof (cases "ms_schemaVersion r = 5")
    case True
    then obtain e d where e: "deserialize_struct (EncryptedEntryDataV5_fromJSON (en_poco (cn_env c))) (sm_data message) = Inr e"
        "entry_authentic (cn_env c) e (ek_key k) d" "dio = xd_dio d"
      using shown by (auto simp: message_shown_def message_genuine_def)
    moreover obtain dio' where "EntryDataEncryptorV5_getDIOAndAssertIntegrity (cn_env c) thread_entry_exns e = Inr dio'"
      using k(1) by (rule assert_message_integrity_ok) (use e(1) schema True in auto)
    ultimately show ?thesis
      using decrypted_dio [OF e(2)] schema True
      by (simp add: message_nonce_def MessageDataEncryptorV5_getDIOAndAssertIntegrity_def)
  next
    case False
    then show ?thesis
      using shown schema by (auto simp: message_shown_def message_nonce_def old_message_dio_def split: sum.split if_splits)
  qed
qed

text \<open>
  C11. A list of messages. There is one result for every message, in order; a result without error is
  what a single message without error is, decrypted with the key that the key provider returned for its
  key id and this thread, in the present format one without error; the verifier approved its author; and no two of them have the same random id and time. Messages of the
  old formats have no random id, so of those with the same time at most one is shown without error.
\<close>

theorem thread_messages_authentic:
  assumes "validateDecryptAndConvertMessagesDataToMessages c messages keys = Inr rs"
  shows "length rs = length messages \<and>
    (\<forall>i < length messages. ms_statusCode (rs ! i) = 0 \<longrightarrow>
       (\<exists>k dio b. message_shown c (messages ! i) (mk_moduleResourceId keys) k (rs ! i) dio \<and>
         provided_key c (listed_keys_request keys (map sm_keyId messages)) (keys_location keys) (sm_keyId (messages ! i)) k \<and>
         (\<exists>reqs answers. cn_verifier c reqs = Some answers \<and>
           (message_request (mk_contextId keys) (rs ! i) b, True) \<in> set (zip reqs answers)))) \<and>
    (\<forall>i j. i < j \<and> j < length messages \<and> ms_statusCode (rs ! i) = 0 \<and> ms_statusCode (rs ! j) = 0 \<longrightarrow>
       message_nonce c (messages ! i) \<noteq> message_nonce c (messages ! j))"
proof -
  let ?ids = "map sm_keyId messages"
  obtain keyMap where km: "keys_at c (KeyRequest_addMany (mk_keys keys) (sorted_list_of_set (set ?ids)) (keys_location keys)) (keys_location keys) = Inr keyMap"
      and ver: "verify_items (cn_verifier c) ms_statusCode put_message_status (message_request (mk_contextId keys))
        (decrypt_items (decrypt_listed_message c keyMap (mk_moduleResourceId keys)) failed_message put_message_status [] messages) = Inr rs"
    using assms by (auto simp: validateDecryptAndConvertMessagesDataToMessages_def keys_location_def Let_def bindR_eq_Inr)
  note items = thread_messages.verified_items [OF ver]
  have dec: "\<exists>dio reqs answers b. decrypt_listed_message c keyMap (mk_moduleResourceId keys) (messages ! i) = Inr (rs ! i, dio) \<and>
      cn_verifier c reqs = Some answers \<and> (message_request (mk_contextId keys) (rs ! i) b, True) \<in> set (zip reqs answers)"
    if "i < length messages" "ms_statusCode (rs ! i) = 0" for i
    using items(2) [OF that] by blast
  show ?thesis
  proof (intro conjI allI impI)
    show "length rs = length messages" by (rule items(1))
    show "\<exists>k dio b. message_shown c (messages ! i) (mk_moduleResourceId keys) k (rs ! i) dio \<and>
        provided_key c (listed_keys_request keys ?ids) (keys_location keys) (sm_keyId (messages ! i)) k \<and>
        (\<exists>reqs answers. cn_verifier c reqs = Some answers \<and>
          (message_request (mk_contextId keys) (rs ! i) b, True) \<in> set (zip reqs answers))"
      if i: "i < length messages" "ms_statusCode (rs ! i) = 0" for i
    proof -
      obtain dio reqs answers b where d: "decrypt_listed_message c keyMap (mk_moduleResourceId keys) (messages ! i) = Inr (rs ! i, dio)"
          "cn_verifier c reqs = Some answers" "(message_request (mk_contextId keys) (rs ! i) b, True) \<in> set (zip reqs answers)"
        using dec [OF i] by blast
      obtain k where k: "map_of keyMap (sm_keyId (messages ! i)) = Some k"
          "message_shown c (messages ! i) (mk_moduleResourceId keys) k (rs ! i) dio"
        using listed_message_shown(1) [OF d(1) i(2)] by blast
      show ?thesis using listed_key_provided [OF km k(1)] k(2) d(2,3) by blast
    qed
    show "message_nonce c (messages ! i) \<noteq> message_nonce c (messages ! j)"
      if ij: "i < j \<and> j < length messages \<and> ms_statusCode (rs ! i) = 0 \<and> ms_statusCode (rs ! j) = 0" for i j
    proof -
      obtain d d' where "decrypt_listed_message c keyMap (mk_moduleResourceId keys) (messages ! i) = Inr (rs ! i, d)"
          "decrypt_listed_message c keyMap (mk_moduleResourceId keys) (messages ! j) = Inr (rs ! j, d')"
        using dec ij by (meson order.strict_trans)
      then show ?thesis
        using thread_messages.verified_distinct [OF ver, of i j d d'] listed_message_shown(2) ij by metis
    qed
  qed
qed

end
