(* ===== verification/Thread_Writing.thy ===== *)
theory Thread_Writing
  imports Thread_Properties
begin

text \<open>
  What is written to threads: a message that was sent can be read, a message another user updated is
  refused by a verifier that knows the users' keys, messages of the old formats stay readable, and a
  thread of version 1 cannot be updated.
\<close>

subsection \<open>Messages of the present format\<close>

lemma encrypted_message_read:
  assumes "connection_ok c" and "getAndValidateModuleCurrentEncKey c keys = Inr msgKey" and "checkable msgKey"
    and "length (ek_key msgKey) = 32" and "cn_myUserId c (mk_contextId keys) = Inr u" and "u \<noteq> []"
    and "mk_contextId keys \<noteq> []" and "KeyIdFormatValidator_hasDefaultKeyIdFormat (mk_currentKeyId keys)"
  obtains v draws' b where "encryptMessageData c threadId resourceId pm sm data keys draws = (Inr v, draws')"
    and "\<forall>message r ok. sm_data message = v \<and> sm_resourceId message = resourceId \<and> sm_threadId message = threadId \<and>
      sm_contextId message = mk_contextId keys \<and> sm_keyId message = mk_currentKeyId keys \<and> last_author message = u \<and>
      TimestampValidator_validate (cn_now c draws) (last_date message) \<and>
      r = convertServerMessageToLibMessage message pm sm data
        (PublicKey_toBase58DER (en_crypto (cn_env c)) (en_ecc (cn_env c)) (cn_userPrivKey c)) (verified_status ok) 5 \<and>
      cn_verifier c [message_request (mk_contextId keys) r b] = Some [ok] \<longrightarrow>
      validateDecryptAndConvertMessageDataToMessage c message keys = r"
proof -
  obtain dio e draws' ob dio' d where dio: "ConnectionImpl_createDIO c (mk_contextId keys) resourceId (Some threadId) (Some (mk_moduleResourceId keys)) draws = (Inr dio, draws + 1)"
    and e: "EntryDataEncryptorV5_encrypt (cn_env c)
      \<lparr>xt_publicMeta = pm, xt_privateMeta = sm, xt_data = data, xt_internalMeta = None, xt_dio = dio\<rparr>
      (cn_userPrivKey c) (ek_key msgKey) (draws + 1) = (Inr e, draws')"
    and ob: "EncryptedEntryDataV5_toJSON e = JObject ob" "\<forall>p. VersionedData_fromJSON p ob = Inr 5" "\<forall>p. EncryptedEntryDataV5_fromJSON p ob = Inr e"
    and int: "EntryDataEncryptorV5_getDIOAndAssertIntegrity (cn_env c) thread_entry_exns e = Inr dio'"
      "\<forall>date. TimestampValidator_validate (cn_now c draws) date \<longrightarrow>
        item_bound (mk_contextId keys) resourceId threadId (mk_moduleResourceId keys) u date dio'"
    and d: "EntryDataEncryptorV5_decrypt (cn_env c) thread_entry_exns e (ek_key msgKey) = d" "xd_statusCode d = 0"
      "xd_publicMeta d = pm" "xd_privateMeta d = sm" "xd_data d = data" "xd_dio d = dio'"
      "xd_authorPubKey d = PublicKey_toBase58DER (en_crypto (cn_env c)) (en_ecc (cn_env c)) (cn_userPrivKey c)"
    by (rule written_item [OF assms(1,5,6,7,4)])
  show thesis
  proof (rule that [of "JObject ob" draws' "dio_bridgeIdentity dio'"])
    show "encryptMessageData c threadId resourceId pm sm data keys draws = (Inr (JObject ob), draws')"
      using assms(2,3) by (simp add: encryptMessageData_def bindS_liftR checkable_def MessageDataEncryptorV5_encrypt_def)
        (simp add: bindS_def dio e [unfolded Suc_eq_plus1 [symmetric]] ob(1))
    show "\<forall>message r ok. sm_data message = JObject ob \<and> sm_resourceId message = resourceId \<and> sm_threadId message = threadId \<and>
      sm_contextId message = mk_contextId keys \<and> sm_keyId message = mk_currentKeyId keys \<and> last_author message = u \<and>
      TimestampValidator_validate (cn_now c draws) (last_date message) \<and>
      r = convertServerMessageToLibMessage message pm sm data
        (PublicKey_toBase58DER (en_crypto (cn_env c)) (en_ecc (cn_env c)) (cn_userPrivKey c)) (verified_status ok) 5 \<and>
      cn_verifier c [message_request (mk_contextId keys) r (dio_bridgeIdentity dio')] = Some [ok] \<longrightarrow>
      validateDecryptAndConvertMessageDataToMessage c message keys = r"
    proof (intro allI impI, elim conjE)
      fix message r ok
      assume en: "sm_data message = JObject ob" "sm_resourceId message = resourceId" "sm_threadId message = threadId"
        "sm_contextId message = mk_contextId keys" "sm_keyId message = mk_currentKeyId keys" "last_author message = u"
        "TimestampValidator_validate (cn_now c draws) (last_date message)"
        and r: "r = convertServerMessageToLibMessage message pm sm data
          (PublicKey_toBase58DER (en_crypto (cn_env c)) (en_ecc (cn_env c)) (cn_userPrivKey c)) (verified_status ok) 5"
        and ok: "cn_verifier c [message_request (mk_contextId keys) r (dio_bridgeIdentity dio')] = Some [ok]"
      have ver: "getMessagesDataStructureVersion c message = Inr 5"
        by (simp add: getMessagesDataStructureVersion_def en(1) ob)
      have assert: "assert_message_integrity c message (mk_moduleResourceId keys) = Inr ()"
        using int(2) [rule_format, OF en(7)]
        by (simp add: assert_message_integrity_def ver en ob int(1) item_bound_def MessageDataEncryptorV5_getDIOAndAssertIntegrity_def)
      have dec: "decryptMessageDataV5 c message msgKey = d"
        using assms(3) by (simp add: decryptMessageDataV5_def en(1) ob checkable_def MessageDataEncryptorV5_decrypt_def d(1))
      have key: "bindR (keys_at c (KeyRequest_addOne (mk_keys keys) (sm_keyId message)
          \<lparr>el_contextId = sm_contextId message, el_resourceId = mk_moduleResourceId keys\<rparr>)
          \<lparr>el_contextId = sm_contextId message, el_resourceId = mk_moduleResourceId keys\<rparr>)
          (\<lambda>ks. unordered_map_at ks (sm_keyId message)) = Inr msgKey"
        using assms(2) by (simp add: getAndValidateModuleCurrentEncKey_def Let_def en)
      have req: "message_request (sm_contextId message) (convertDecryptedMessageDataV5ToMessage message d) b =
          message_request (mk_contextId keys) r b" for b
        by (simp add: r message_request_def message_conversions en d)
      show "validateDecryptAndConvertMessageDataToMessage c message keys = r"
        using assms(8)
        by (simp add: validateDecryptAndConvertMessageDataToMessage_def validateMessageDataIntegrity_def assert decrypt_single_message_def
            Let_def MessageKeyIdFormatValidator_assertKeyIdFormat_def en(5) key [unfolded en(5)]
            decryptAndConvertMessageDataToMessage_def ver dec verify_one_def UserVerifier_verify_def req d(6) ok)
          (simp add: r message_conversions d)
    qed
  qed
qed

text \<open>Sending and updating draw a resource id and encrypt; then they send one request.\<close>

lemma sendMessageRequest_sends:
  assumes "getAndValidateModuleCurrentEncKey c keys = Inr msgKey" and "k2_statusCode msgKey = 0"
    and "encryptMessageData c threadId (cn_uuid c (as_draws st)) pm sm data keys (as_draws st + 1) = (Inr v, d)"
  shows "sendMessageRequest c sv threadId pm sm data keys st =
    requesting (st_threadMessageSend sv \<lparr>tms_resourceId = cn_uuid c (as_draws st), tms_threadId = threadId, tms_data = v,
      tms_keyId = ek_id msgKey\<rparr>) (st\<lparr>as_draws := d\<rparr>)"
  using assms(3) by (simp add: sendMessageRequest_def bindS_liftR assms(1,2))
    (simp add: bindS_def drawn_def drawing_def EndpointUtils_generateId_def)

text \<open>
  C12. A message that was sent can be read. With an accepted current key of the thread, \<open>sendMessageRequest\<close>
  sends one request under that key's id with a fresh resource id, and a message with the data of that
  request that the Bridge returns for the same thread, resource id and key id, attributed to this user
  at about the time of sending, is read without error with the public, private and other data that
  were given.
\<close>

theorem thread_message_roundtrip:
  assumes "connection_ok c" and "getAndValidateModuleCurrentEncKey c keys = Inr msgKey" and "checkable msgKey"
    and "length (ek_key msgKey) = 32" and "cn_myUserId c (mk_contextId keys) = Inr u" and "u \<noteq> []"
    and "mk_contextId keys \<noteq> []" and "KeyIdFormatValidator_hasDefaultKeyIdFormat (mk_currentKeyId keys)"
    and "\<And>r. cn_verifier c [r] = Some [True]"
  shows "\<exists>v d. sendMessageRequest c sv threadId pm sm data keys st =
      requesting (st_threadMessageSend sv \<lparr>tms_resourceId = cn_uuid c (as_draws st), tms_threadId = threadId, tms_data = v,
        tms_keyId = ek_id msgKey\<rparr>) (st\<lparr>as_draws := d\<rparr>) \<and>
    (\<forall>message. sm_data message = v \<and> sm_resourceId message = cn_uuid c (as_draws st) \<and> sm_threadId message = threadId \<and>
       sm_contextId message = mk_contextId keys \<and> sm_keyId message = mk_currentKeyId keys \<and> last_author message = u \<and>
       TimestampValidator_validate (cn_now c (as_draws st + 1)) (last_date message) \<longrightarrow>
       validateDecryptAndConvertMessageDataToMessage c message keys = convertServerMessageToLibMessage message pm sm data
         (PublicKey_toBase58DER (en_crypto (cn_env c)) (en_ecc (cn_env c)) (cn_userPrivKey c)) 0 5)"
proof -
  obtain v d b where enc: "encryptMessageData c threadId (cn_uuid c (as_draws st)) pm sm data keys (as_draws st + 1) = (Inr v, d)"
    and read: "\<forall>message r ok. sm_data message = v \<and> sm_resourceId message = cn_uuid c (as_draws st) \<and> sm_threadId message = threadId \<and>
      sm_contextId message = mk_contextId keys \<and> sm_keyId message = mk_currentKeyId keys \<and> last_author message = u \<and>
      TimestampValidator_validate (cn_now c (as_draws st + 1)) (last_date message) \<and>
      r = convertServerMessageToLibMessage message pm sm data
        (PublicKey_toBase58DER (en_crypto (cn_env c)) (en_ecc (cn_env c)) (cn_userPrivKey c)) (verified_status ok) 5 \<and>
      cn_verifier c [message_request (mk_contextId keys) r b] = Some [ok] \<longrightarrow>
      validateDecryptAndConvertMessageDataToMessage c message keys = r"
    by (rule encrypted_message_read [OF assms(1-8)])
  have "verified_status True = 0" by (simp add: verified_status_def)
  then show ?thesis
    using sendMessageRequest_sends [OF assms(2) _ enc] read assms(3,9) by (metis checkable_def)
qed

text \<open>
  C18. A message that another user updated. The present version of a message is signed by the user who
  updated it and its integrity object must name that user, but the verifier is asked whether the key
  belongs to the message's original author. A verifier that knows which key each user has therefore
  refuses every message that was updated by a user other than its author, however genuine.
\<close>

theorem thread_update_by_other_refused:
  assumes "connection_ok c" and "getAndValidateModuleCurrentEncKey c keys = Inr msgKey" and "checkable msgKey"
    and "length (ek_key msgKey) = 32" and "cn_myUserId c (mk_contextId keys) = Inr u" and "u \<noteq> []"
    and "mk_contextId keys \<noteq> []" and "KeyIdFormatValidator_hasDefaultKeyIdFormat (mk_currentKeyId keys)"
    and "\<And>r. cn_verifier c [r] = Some [vr_senderPubKey r = keyOf (vr_senderId r)]"
    and "keyOf u = PublicKey_toBase58DER (en_crypto (cn_env c)) (en_ecc (cn_env c)) (cn_userPrivKey c)"
    and "keyOf author \<noteq> keyOf u"
  shows "\<exists>v d. updateMessageRequest c sv messageId resourceId threadId pm sm data keys st =
      requesting (st_threadMessageUpdate sv \<lparr>tmu_messageId = messageId, tmu_data = v, tmu_keyId = ek_id msgKey\<rparr>) (st\<lparr>as_draws := d\<rparr>) \<and>
    (\<forall>message. sm_data message = v \<and> sm_resourceId message = resourceId \<and> sm_threadId message = threadId \<and>
       sm_contextId message = mk_contextId keys \<and> sm_keyId message = mk_currentKeyId keys \<and>
       sm_author message = author \<and> last_author message = u \<and>
       TimestampValidator_validate (cn_now c (as_draws st)) (last_date message) \<longrightarrow>
       ms_statusCode (validateDecryptAndConvertMessageDataToMessage c message keys) = code_of UserVerificationFailureException)"
proof -
  let ?pub = "PublicKey_toBase58DER (en_crypto (cn_env c)) (en_ecc (cn_env c)) (cn_userPrivKey c)"
  obtain v d b where enc: "encryptMessageData c threadId resourceId pm sm data keys (as_draws st) = (Inr v, d)"
    and read: "\<forall>message r ok. sm_data message = v \<and> sm_resourceId message = resourceId \<and> sm_threadId message = threadId \<and>
      sm_contextId message = mk_contextId keys \<and> sm_keyId message = mk_currentKeyId keys \<and> last_author message = u \<and>
      TimestampValidator_validate (cn_now c (as_draws st)) (last_date message) \<and>
      r = convertServerMessageToLibMessage message pm sm data ?pub (verified_status ok) 5 \<and>
      cn_verifier c [message_request (mk_contextId keys) r b] = Some [ok] \<longrightarrow>
      validateDecryptAndConvertMessageDataToMessage c message keys = r"
    by (rule encrypted_message_read [OF assms(1-8)])
  have run: "updateMessageRequest c sv messageId resourceId threadId pm sm data keys st =
      requesting (st_threadMessageUpdate sv \<lparr>tmu_messageId = messageId, tmu_data = v, tmu_keyId = ek_id msgKey\<rparr>) (st\<lparr>as_draws := d\<rparr>)"
    using assms(3) by (simp add: updateMessageRequest_def bindS_liftR assms(2) checkable_def) (simp add: bindS_def drawing_def enc)
  have "ms_statusCode (validateDecryptAndConvertMessageDataToMessage c message keys) = code_of UserVerificationFailureException"
    if m: "sm_data message = v \<and> sm_resourceId message = resourceId \<and> sm_threadId message = threadId \<and>
       sm_contextId message = mk_contextId keys \<and> sm_keyId message = mk_currentKeyId keys \<and>
       sm_author message = author \<and> last_author message = u \<and>
       TimestampValidator_validate (cn_now c (as_draws st)) (last_date message)" for message
  proof -
    define r where "r = convertServerMessageToLibMessage message pm sm data ?pub (verified_status False) 5"
    have "cn_verifier c [message_request (mk_contextId keys) r b] = Some [False]"
      using assms(9) [of "message_request (mk_contextId keys) r b"] assms(10,11) m
      by (simp add: message_request_def r_def message_conversions)
    then have "validateDecryptAndConvertMessageDataToMessage c message keys = r" using read m r_def by blast
    then show ?thesis by (simp add: r_def message_conversions verified_status_def)
  qed
  with run show ?thesis by blast
qed

end
