(* ===== verification/Thread_Threads.thy ===== *)
theory Thread_Threads
  imports Thread_Writing
begin

text \<open>Threads: which are shown without error, and why one of version 1 cannot be updated; messages of the old formats.\<close>

subsection \<open>Threads that are read\<close>

text \<open>
  A thread of the present format is genuine like any container; one of version 4 was signed in its
  parts by the key that is shown to the verifier; one of version 1 carries nothing of its author.
\<close>

definition thread_signed :: "'k connection \<Rightarrow> ThreadInfo \<Rightarrow> DecryptedEncKeyV2 \<Rightarrow> Thread \<Rightarrow> string \<Rightarrow> bool" where
  "thread_signed c info k r author \<longleftrightarrow>
     (\<exists>e a. deserialize_struct (EncryptedModuleDataV4_fromJSON (en_poco (cn_env c))) (tde_data (last (ti_data info))) = Inr e \<and>
        author = me4_authorPubKey e \<and> PublicKey_fromBase58DER (en_crypto (cn_env c)) (en_ecc (cn_env c)) author = Inr a \<and>
        DataEncryptorV4_decodeAndVerify (cn_env c) (me4_publicMeta e) a = Inr (th_publicMeta r) \<and>
        DataEncryptorV4_decodeAndDecryptAndVerify (cn_env c) (me4_privateMeta e) a (ek_key k) = Inr (th_privateMeta r))"

definition thread_shown :: "'k connection \<Rightarrow> ThreadInfo \<Rightarrow> DecryptedEncKeyV2 \<Rightarrow> Thread \<Rightarrow> DataIntegrityObject \<Rightarrow> bool" where
  "thread_shown c info k r dio \<longleftrightarrow>
     (if th_schemaVersion r = 5 then k2_statusCode k = 0 \<and>
        (\<exists>d. container_genuine c (tde_data (last (ti_data info))) (thread_location info) (ti_lastModifier info)
           (ti_lastModificationDate info) k d \<and> dio = md_dio d \<and> convertDecryptedThreadDataV5ToThread c info d = Inr r)
      else if th_schemaVersion r = 4 then (\<exists>author. thread_signed c info k r author \<and> dio = old_thread_dio info author)
      else th_schemaVersion r = 1 \<and> dio = old_thread_dio info [])"

lemma convertServerThread_fields:
  "convertServerThreadToLibThread c info pm sm s v = Inr r \<Longrightarrow>
   th_statusCode r = s \<and> th_schemaVersion r = v \<and> th_publicMeta r = pm \<and> th_privateMeta r = sm"
  by (auto simp: convertServerThreadToLibThread_def bindR_eq_Inr)

interpretation threads: listed_containers "validateThreadDataIntegrity c" "failed_thread c" Thread_new th_statusCode put_thread_status
  for c :: "'k connection"
  by unfold_locales (simp_all add: failed_thread_def convertServerThread_fields)

lemma decrypted_v4_thread:
  assumes "convertDecryptedThreadDataV4ToThread c info (decryptModuleDataV4 (cn_env c) (tde_data (last (ti_data info))) k) = Inr r"
    and "th_statusCode r = 0"
  shows "thread_signed c info k r (md4_authorPubKey (decryptModuleDataV4 (cn_env c) (tde_data (last (ti_data info))) k))"
proof -
  let ?data = "tde_data (last (ti_data info))"
  let ?d = "decryptModuleDataV4 (cn_env c) ?data k"
  have r: "md4_statusCode ?d = 0" "th_publicMeta r = md4_publicMeta ?d" "th_privateMeta r = md4_privateMeta ?d"
    using convertServerThread_fields [OF assms(1) [unfolded convertDecryptedThreadDataV4ToThread_def]] assms(2) by simp_all
  then obtain e where e: "deserialize_struct (EncryptedModuleDataV4_fromJSON (en_poco (cn_env c))) ?data = Inr e"
      "?d = ModuleDataEncryptorV4_decrypt (cn_env c) e (ek_key k)"
    by (auto simp: decryptModuleDataV4_def split: sum.splits)
  from r(1) [unfolded e(2)] show ?thesis
    by (rule decrypt_module_v4_ok) (auto simp: thread_signed_def e r(2,3))
qed

lemma decrypted_thread_shown:
  assumes "validateThreadDataIntegrity c info = 0"
    and "decryptAndConvertThreadDataToThread c info (last (ti_data info)) k = Inr (r, dio)" and "th_statusCode r = 0"
  shows "thread_shown c info k r dio"
proof -
  let ?data = "tde_data (last (ti_data info))"
  let ?d = "decryptModuleDataV5 (cn_env c) ?data k"
  obtain version where v: "getThreadEntryDataStructureVersion c (last (ti_data info)) = Inr version"
      and five: "version = 5 \<Longrightarrow> \<exists>e dio'. deserialize_struct (EncryptedModuleDataV5_fromJSON (en_poco (cn_env c))) ?data = Inr e \<and>
        ModuleDataEncryptorV5_getDIOAndAssertIntegrity (cn_env c) e = Inr dio' \<and>
        dio_contextId dio' = ti_contextId info \<and> Some (dio_resourceId dio') = ti_resourceId info \<and>
        dio_creatorUserId dio' = ti_lastModifier info \<and> TimestampValidator_validate (dio_timestamp dio') (ti_lastModificationDate info)"
      and known: "version = 1 \<or> version = 4 \<or> version = 5"
    using assms(1) by (auto simp: validateThreadDataIntegrity_def assertThreadDataIntegrity_def Let_def bindR_eq_Inr
        split: sum.splits if_splits)
  consider "version = 1" | "version = 4" | "version = 5" using known by blast
  then show ?thesis
  proof cases
    case 1
    then show ?thesis
      using assms(2) v by (auto simp: decryptAndConvertThreadDataToThread_def thread_shown_def bindR_eq_Inr
          convertThreadDataV1ToThread_def dest: convertServerThread_fields)
  next
    case 2
    then have r: "convertDecryptedThreadDataV4ToThread c info (decryptModuleDataV4 (cn_env c) ?data k) = Inr r"
        "dio = old_thread_dio info (md4_authorPubKey (decryptModuleDataV4 (cn_env c) ?data k))"
      using assms(2) v by (auto simp: decryptAndConvertThreadDataToThread_def Let_def bindR_eq_Inr)
    have "th_schemaVersion r = 4"
      using r(1) by (auto simp: convertDecryptedThreadDataV4ToThread_def dest: convertServerThread_fields)
    with decrypted_v4_thread [OF r(1) assms(3)] r(2) show ?thesis by (auto simp: thread_shown_def)
  next
    case 3
    obtain e dio' where e: "deserialize_struct (EncryptedModuleDataV5_fromJSON (en_poco (cn_env c))) ?data = Inr e"
        "ModuleDataEncryptorV5_getDIOAndAssertIntegrity (cn_env c) e = Inr dio'"
        "dio_contextId dio' = ti_contextId info" "Some (dio_resourceId dio') = ti_resourceId info"
        "dio_creatorUserId dio' = ti_lastModifier info" "TimestampValidator_validate (dio_timestamp dio') (ti_lastModificationDate info)"
      using five [OF 3] by blast
    have r: "convertDecryptedThreadDataV5ToThread c info ?d = Inr r" "dio = md_dio ?d"
      using assms(2) v 3 by (auto simp: decryptAndConvertThreadDataToThread_def Let_def bindR_eq_Inr)
    note f = convertServerThread_fields [OF r(1) [unfolded convertDecryptedThreadDataV5ToThread_def]]
    have "md_statusCode ?d = 0" using f assms(3) by simp
    then have g: "container_genuine c ?data (thread_location info) (ti_lastModifier info) (ti_lastModificationDate info) k ?d"
      by (rule decrypted_container_genuine [OF e(1,2)]) (use e(3-) in \<open>simp_all add: thread_location_def flip: e(4)\<close>)
    moreover have "k2_statusCode k = 0" using g by (simp add: container_genuine_def)
    ultimately show ?thesis using r f unfolding thread_shown_def by auto
  qed
qed

text \<open>
  A list of threads. There is one result for every thread, in order. A result without error of
  the present format is genuine: it carries a signed integrity object of its last modifier over all
  parts, made for this context and thread at a time within the tolerance, and was decrypted with the key
  that the provider returned, without error, for its key id and location; one of
  version 4 was signed in its parts by the key that is shown to the verifier; and the verifier approved
  the modifier, for the old formats with no or this unauthenticated key.
\<close>

theorem thread_threads_authentic:
  assumes "validateDecryptAndConvertThreadsDataToThreads c infos = Inr rs"
  shows "length rs = length infos \<and>
    (\<forall>i < length infos. th_statusCode (rs ! i) = 0 \<longrightarrow>
       (\<exists>k dio. thread_shown c (infos ! i) k (rs ! i) dio \<and>
         provided_key c (containers_key_request ti_keys (\<lambda>info. tde_keyId (last (ti_data info))) thread_location infos)
           (thread_location (infos ! i)) (tde_keyId (last (ti_data (infos ! i)))) k \<and>
         (\<exists>reqs answers. cn_verifier c reqs = Some answers \<and>
           (thread_request (rs ! i) dio, True) \<in> set (zip reqs answers))))"
proof -
  have get: "get_thread_keys c = (\<lambda>infos. bindR
      (case mapS (\<lambda>info. KeyRequest_addOne (ti_keys info) (tde_keyId (last (ti_data info))) (thread_location info)) infos KeyRequest_new of
        (Inl e, _) \<Rightarrow> Inl e | (Inr _, r) \<Rightarrow> Inr r)
      (KeyProvider_getKeysAndVerify (cn_env c) (cn_userPrivKey c) (cn_verifier c)))"
    by (simp add: fun_eq_iff get_thread_keys_def request_thread_keys_def)
  have dec: "decrypt_thread c = (\<lambda>m info. bindR (at_location m (thread_location info)) (\<lambda>ks. bindR
      (unordered_map_at ks (tde_keyId (last (ti_data info)))) (decryptAndConvertThreadDataToThread c info (last (ti_data info)))))"
    by (simp add: fun_eq_iff decrypt_thread_def)
  from threads.read_with_keys [OF assms [unfolded validateDecryptAndConvertThreadsDataToThreads_def get dec]]
  show ?thesis using decrypted_thread_shown by meson
qed

subsection \<open>Threads of version 1\<close>

text \<open>
  A thread of version 1 can be read but never updated: the data of its present version is a text,
  and the update reads it as an object. The update ends with an error after the thread was fetched;
  nothing is sent to the Bridge and the keys in the cache stay.
\<close>

theorem thread_v1_not_updatable:
  assumes "st_threadGet sv \<lparr>tg_threadId = threadId, tg_type = None\<rparr> (as_server st) = (Inr info, s)"
    and "getThreadEntryDataStructureVersion c (last (ti_data info)) = Inr 1"
  shows "\<exists>e st'. updateThread c sv threadId users managers pm sm version force newKey policies st = (Inl e, st') \<and>
    as_server st' = s \<and> as_cache st' = as_cache st"
proof -
  obtain t where t: "tde_data (last (ti_data info)) = JString t"
    using assms(2) by (auto simp: getThreadEntryDataStructureVersion_def bindR_eq_Inr split: json.splits if_splits)
  have get: "requesting (st_threadGet sv \<lparr>tg_threadId = threadId, tg_type = None\<rparr>) st = (Inr info, st\<lparr>as_server := s\<rparr>)"
    by (simp add: requesting_def assms(1))
  show ?thesis
    by (simp add: updateThread_def bindS_def get extractAndDecryptModuleInternalMeta_def t Let_def drawn_def drawing_def
        EndpointUtils_generateId_def split: option.split sum.split)
qed

text \<open>Messages of versions 2, 3 and 4: what was written in these formats is recognised and read.\<close>

subsection \<open>Version 4\<close>

lemma EncryptedMessageDataV4_roundtrip:
  "EncryptedMessageDataV4_toJSON e = JObject ob \<Longrightarrow> EncryptedMessageDataV4_fromJSON p ob = Inr e"
  by (cases "em4_internalMeta e"; cases e)
    (auto simp: EncryptedMessageDataV4_toJSON_def EncryptedMessageDataV4_fromJSON_def VersionedData_fromJSON_def deserialize_optional_def)

lemma EncryptedMessageDataV4_version:
  "EncryptedMessageDataV4_toJSON e = JObject ob \<Longrightarrow> VersionedData_fromJSON p ob = Inr (em4_version e)"
  by (auto simp: EncryptedMessageDataV4_toJSON_def VersionedData_fromJSON_def)

lemma MessageDataEncryptorV4_inverse:
  assumes "core_env_ok env" and "length key = 32"
  obtains e draws' where "MessageDataEncryptorV4_encrypt env x k key draws = (Inr e, draws')" and "em4_version e = 4"
    and "MessageDataEncryptorV4_decrypt env e key =
      \<lparr>dm4_dataStructureVersion = 4, dm4_statusCode = 0, dm4_publicMeta = tm4_publicMeta x, dm4_privateMeta = tm4_privateMeta x,
       dm4_data = tm4_data x, dm4_internalMeta = tm4_internalMeta x,
       dm4_authorPubKey = PublicKey_toBase58DER (en_crypto env) (en_ecc env) k\<rparr>"
proof -
  obtain p where p: "PublicKey_fromBase58DER (en_crypto env) (en_ecc env)
      (PublicKey_toBase58DER (en_crypto env) (en_ecc env) k) = Inr p" "same_key env p k"
    using PublicKey_base58_roundtrip [OF assms(1)] by blast
  let ?pm = "DataEncryptorV4_signAndEncode env (tm4_publicMeta x) k"
  obtain sm where sm: "DataEncryptorV4_signAndEncryptAndEncode env (tm4_privateMeta x) k key draws = (Inr sm, draws + 1)"
      "DataEncryptorV4_decodeAndDecryptAndVerify env sm p key = Inr (tm4_privateMeta x)"
    by (rule encrypted_roundtrip [OF assms(1) p(2) assms(2)])
  obtain dt where dt: "DataEncryptorV4_signAndEncryptAndEncode env (tm4_data x) k key (draws + 1) = (Inr dt, draws + 1 + 1)"
      "DataEncryptorV4_decodeAndDecryptAndVerify env dt p key = Inr (tm4_data x)"
    by (rule encrypted_roundtrip [OF assms(1) p(2) assms(2)])
  obtain im draws' where im: "(case tm4_internalMeta x of None \<Rightarrow> ret None
      | Some x \<Rightarrow> bindS (DataEncryptorV4_signAndEncryptAndEncode env x k key) (\<lambda>t. ret (Some t))) (draws + 1 + 1) = (Inr im, draws')"
      "(case im of None \<Rightarrow> Inr None
      | Some t \<Rightarrow> bindR (DataEncryptorV4_decodeAndDecryptAndVerify env t p key) (\<lambda>m. Inr (Some m))) = Inr (tm4_internalMeta x)"
    by (rule optional_encrypted_roundtrip [OF assms(1) p(2) assms(2)])
  let ?e = "\<lparr>em4_version = 4, em4_publicMeta = ?pm, em4_publicMetaObject = public_object env (tm4_publicMeta x),
     em4_privateMeta = sm, em4_data = dt, em4_internalMeta = im,
     em4_authorPubKey = PublicKey_toBase58DER (en_crypto env) (en_ecc env) k\<rparr>"
  have enc: "MessageDataEncryptorV4_encrypt env x k key draws = (Inr ?e, draws')"
    unfolding MessageDataEncryptorV4_encrypt_def
    by (rule bindS_step, rule sm(1), rule bindS_step, rule dt(1), rule bindS_step, rule im(1)) (simp add: ret_def)
  have pub: "DataEncryptorV4_decodeAndVerify env ?pm p = Inr (tm4_publicMeta x)"
    by (rule decodeAndVerify_signed [OF assms(1) p(2)])
  have "decrypt_message_v4 env ?e key r = (Inr (), r\<lparr>dm4_publicMeta := tm4_publicMeta x, dm4_privateMeta := tm4_privateMeta x,
      dm4_data := tm4_data x, dm4_internalMeta := tm4_internalMeta x,
      dm4_authorPubKey := PublicKey_toBase58DER (en_crypto env) (en_ecc env) k\<rparr>)" for r
    unfolding decrypt_message_v4_def using compare_public_object [of env "tm4_publicMeta x"]
    by (simp add: bindS_def MessageDataEncryptorV4_validateVersion_def p(1) pub sm(2) dt(2) im(2))
  then show thesis
    by (intro that [OF enc]) (simp_all add: MessageDataEncryptorV4_decrypt_def DecryptedMessageDataV4_new_def)
qed

lemma v4_message_read:
  assumes "EncryptedMessageDataV4_toJSON e = JObject ob" and "em4_version e = 4" and "sm_data message = JObject ob"
  shows "decryptAndConvertMessageDataToMessage c message k =
    (let m = MessageDataEncryptorV4_decrypt (cn_env c) e (ek_key k)
     in Inr (convertDecryptedMessageDataV4ToMessage message m, old_message_dio message (dm4_authorPubKey m)))"
  using assms(2,3)
  by (simp add: decryptAndConvertMessageDataToMessage_def getMessagesDataStructureVersion_def
      EncryptedMessageDataV4_version [OF assms(1)] decryptMessageDataV4_def EncryptedMessageDataV4_roundtrip [OF assms(1)])

subsection \<open>Versions 2 and 3\<close>

lemma MessageDataV2_roundtrip:
  "MessageDataV2_toJSON m = JObject ob \<Longrightarrow> MessageDataV2_fromJSON p ob = Inr m"
  by (cases m; cases "mv2_author m"; cases "mv2_destination m")
    (auto simp: MessageDataV2_toJSON_def MessageDataV2_fromJSON_def MessageDataAuthor_toJSON_def MessageDataAuthor_fromJSON_def
      MessageDataDestination_toJSON_def MessageDataDestination_fromJSON_def)

lemma MessageDataV3_roundtrip:
  "MessageDataV3_toJSON m = JObject ob \<Longrightarrow> MessageDataV3_fromJSON p ob = Inr m"
  by (cases m) (auto simp: MessageDataV3_toJSON_def MessageDataV3_fromJSON_def)

abbreviation int64 :: "int \<Rightarrow> bool" where
  "int64 i \<equiv> - (2 ^ 63) \<le> i \<and> i < 2 ^ 63"

lemma wf_MessageDataV2: "int64 (mv2_v m) \<Longrightarrow> int64 (mv2_date m) \<Longrightarrow> int64 (mv2_statusCode m) \<Longrightarrow> wf_json (MessageDataV2_toJSON m)"
  by (simp add: MessageDataV2_toJSON_def MessageDataAuthor_toJSON_def MessageDataDestination_toJSON_def)

lemma wf_MessageDataV3: "int64 (mv3_v m) \<Longrightarrow> int64 (mv3_statusCode m) \<Longrightarrow> wf_json (MessageDataV3_toJSON m)"
  by (simp add: MessageDataV3_toJSON_def)

text \<open>Reading a message of version 3 whose parts decrypt.\<close>

lemma v3_message_read:
  assumes "base64_to (en_poco (cn_env c)) t = Inr (BinaryEncryptor_sign (cn_env c) (JSON_serialize (en_poco (cn_env c)) MessageDataV3_toJSON m) priv)"
    and "core_env_ok (cn_env c)" and "int64 (mv3_v m)" and "int64 (mv3_statusCode m)"
    and "base64_to (en_poco (cn_env c)) (text_of (mv3_publicMeta m)) = Inr pm"
    and "BinaryEncryptor_decrypt (cn_env c) (text_of (mv3_privateMeta m)) (ek_key k) = Inr sm"
    and "BinaryEncryptor_decrypt (cn_env c) (text_of (mv3_data m)) (ek_key k) = Inr data"
    and "sm_data message = JString t"
  shows "decryptAndConvertMessageDataToMessage c message k =
    Inr (convertServerMessageToLibMessage message pm sm data [] 0 3, old_message_dio message [])"
proof -
  obtain ob where ob: "MessageDataV3_toJSON m = JObject ob" by (simp add: MessageDataV3_toJSON_def)
  have "bindR (parseJsonObject (en_poco (cn_env c)) (JSON_serialize (en_poco (cn_env c)) MessageDataV3_toJSON m))
      (MessageDataV3_fromJSON (en_poco (cn_env c))) = Inr m"
    using JSON_roundtrip [of "cn_env c" MessageDataV3_toJSON m ob "MessageDataV3_fromJSON (en_poco (cn_env c))" m]
      wf_MessageDataV3 [OF assms(3,4)] MessageDataV3_roundtrip [OF ob] assms(2) ob
    by (simp add: JSON_deserialize_def)
  then have "decryptMessageDataV3 c message k = \<lparr>mv3_v = 0, mv3_publicMeta = pm, mv3_privateMeta = sm, mv3_data = data, mv3_statusCode = 0\<rparr>"
    by (simp add: decryptMessageDataV3_def assms(8) var_to_string_def MessageDataV3Encryptor_decryptAndGetSign_def assms(1)
        extract_BinaryEncryptor_sign [OF assms(2)] assms(5-7) decrypt_private_v3_def)
  then show ?thesis
    by (simp add: decryptAndConvertMessageDataToMessage_def getMessagesDataStructureVersion_def assms(1,8) message_conversions)
qed

lemma v3_message_written:
  assumes "core_env_ok (cn_env c)" and "length (ek_key k) = 32" and "int64 (fst uninit)" and "int64 (snd uninit)"
  shows "\<exists>t draws'. MessageDataV3Encryptor_signAndEncrypt (cn_env c) uninit m priv (ek_key k) draws = (Inr t, draws') \<and>
    (\<forall>message. sm_data message = JString t \<longrightarrow> decryptAndConvertMessageDataToMessage c message k =
       Inr (convertServerMessageToLibMessage message (mv3_publicMeta m) (mv3_privateMeta m) (mv3_data m) [] 0 3, old_message_dio message []))"
proof -
  obtain sm where sm: "BinaryEncryptor_encrypt (cn_env c) (mv3_privateMeta m) (ek_key k) draws = (Inr sm, draws + 1)"
      "BinaryEncryptor_decrypt (cn_env c) sm (ek_key k) = Inr (mv3_privateMeta m)"
    by (rule BinaryEncryptor_roundtrip [OF assms(1,2)])
  obtain dt where dt: "BinaryEncryptor_encrypt (cn_env c) (mv3_data m) (ek_key k) (draws + 1) = (Inr dt, draws + 1 + 1)"
      "BinaryEncryptor_decrypt (cn_env c) dt (ek_key k) = Inr (mv3_data m)"
    by (rule BinaryEncryptor_roundtrip [OF assms(1,2)])
  note b64 = base64_inverse [OF core_env_okD(7) [OF assms(1)]]
  let ?x = "\<lparr>mv3_v = fst uninit, mv3_publicMeta = bytes_of (base64_from (en_poco (cn_env c)) (mv3_publicMeta m)),
    mv3_privateMeta = bytes_of sm, mv3_data = bytes_of dt, mv3_statusCode = snd uninit\<rparr>"
  let ?t = "base64_from (en_poco (cn_env c)) (DataEncryptor_sign (cn_env c) MessageDataV3_toJSON ?x priv)"
  have "MessageDataV3Encryptor_signAndEncrypt (cn_env c) uninit m priv (ek_key k) draws = (Inr ?t, draws + 1 + 1)"
    unfolding MessageDataV3Encryptor_signAndEncrypt_def
    by (rule bindS_step, rule sm(1), rule bindS_step, rule dt(1)) (simp add: ret_def)
  moreover have "decryptAndConvertMessageDataToMessage c message k =
      Inr (convertServerMessageToLibMessage message (mv3_publicMeta m) (mv3_privateMeta m) (mv3_data m) [] 0 3, old_message_dio message [])"
    if "sm_data message = JString ?t" for message
    using that by (intro v3_message_read [where t = ?t and m = ?x and priv = priv])
      (use assms(1,3,4) sm(2) dt(2) b64 in \<open>simp_all add: DataEncryptor_sign_def\<close>)
  ultimately show ?thesis by blast
qed

lemma v2_message_written:
  assumes "core_env_ok (cn_env c)" and "length (ek_key k) = 32"
    and "int64 (mv2_v m)" and "int64 (mv2_date m)" and "int64 (mv2_statusCode m)"
  shows "\<exists>t draws'. MessageDataV2Encryptor_signAndEncrypt (cn_env c) m priv (ek_key k) draws = (Inr t, draws') \<and>
    (\<forall>message. sm_data message = JString t \<longrightarrow> decryptAndConvertMessageDataToMessage c message k =
       Inr (convertServerMessageToLibMessage message [] [] [] (mda_pubKey (mv2_author m)) 0 2, old_message_dio message []))"
proof -
  obtain ob where ob: "MessageDataV2_toJSON m = JObject ob" by (simp add: MessageDataV2_toJSON_def)
  obtain t x sig buf where t: "DataEncryptor_signAndEncrypt (cn_env c) MessageDataV2_toJSON m priv (ek_key k) draws = (Inr t, draws + 1)"
      "DataEncryptor_decryptAndGetSign (cn_env c) (MessageDataV2_fromJSON (en_poco (cn_env c))) t (ek_key k) = Inr (sig, m, buf)"
      "base64_to (en_poco (cn_env c)) t = Inr x" "\<not> DataEncryptorUtil_hasSign x"
    using DataEncryptor_roundtrip [of "cn_env c" "ek_key k" MessageDataV2_toJSON m ob "MessageDataV2_fromJSON (en_poco (cn_env c))" m]
      wf_MessageDataV2 [OF assms(3-5)] MessageDataV2_roundtrip [OF ob] assms(1,2) ob by metis
  then show ?thesis
    by (simp add: MessageDataV2Encryptor_signAndEncrypt_def decryptAndConvertMessageDataToMessage_def
        getMessagesDataStructureVersion_def decryptMessageDataV2_def var_to_string_def
        MessageDataV2Encryptor_decryptAndGetSign_def message_conversions)
qed

text \<open>
  C17. Messages of the old formats stay readable. What the encryptors of versions 2, 3 and 4 wrote with a
  thread's key is recognised as that version and decrypted without error: a version 4 message to its
  content with its author's key, a version 3 message to its content with no author's key, a version 2
  message to no content at all with the key it claims. The status the key provider gave the key is
  not asked for, and for versions 2 and 3 neither is who signed.
\<close>

theorem thread_old_messages_readable:
  assumes "core_env_ok (cn_env c)" and "length (ek_key k) = 32"
    and "int64 (fst uninit)" and "int64 (snd uninit)"
    and "int64 (mv2_v m2)" and "int64 (mv2_date m2)" and "int64 (mv2_statusCode m2)"
  shows "(\<exists>e d. MessageDataEncryptorV4_encrypt (cn_env c) m4 priv (ek_key k) draws = (Inr e, d) \<and>
      (\<forall>message. sm_data message = EncryptedMessageDataV4_toJSON e \<longrightarrow> decryptAndConvertMessageDataToMessage c message k =
        (let author = PublicKey_toBase58DER (en_crypto (cn_env c)) (en_ecc (cn_env c)) priv in
         Inr (convertServerMessageToLibMessage message (tm4_publicMeta m4) (tm4_privateMeta m4) (tm4_data m4) author 0 4,
           old_message_dio message author)))) \<and>
    (\<exists>t d. MessageDataV3Encryptor_signAndEncrypt (cn_env c) uninit m3 priv (ek_key k) draws = (Inr t, d) \<and>
      (\<forall>message. sm_data message = JString t \<longrightarrow> decryptAndConvertMessageDataToMessage c message k =
        Inr (convertServerMessageToLibMessage message (mv3_publicMeta m3) (mv3_privateMeta m3) (mv3_data m3) [] 0 3,
          old_message_dio message []))) \<and>
    (\<exists>t d. MessageDataV2Encryptor_signAndEncrypt (cn_env c) m2 priv (ek_key k) draws = (Inr t, d) \<and>
      (\<forall>message. sm_data message = JString t \<longrightarrow> decryptAndConvertMessageDataToMessage c message k =
        Inr (convertServerMessageToLibMessage message [] [] [] (mda_pubKey (mv2_author m2)) 0 2, old_message_dio message [])))"
proof (intro conjI)
  obtain e d where e: "MessageDataEncryptorV4_encrypt (cn_env c) m4 priv (ek_key k) draws = (Inr e, d)" "em4_version e = 4"
      "MessageDataEncryptorV4_decrypt (cn_env c) e (ek_key k) =
        \<lparr>dm4_dataStructureVersion = 4, dm4_statusCode = 0, dm4_publicMeta = tm4_publicMeta m4, dm4_privateMeta = tm4_privateMeta m4,
         dm4_data = tm4_data m4, dm4_internalMeta = tm4_internalMeta m4,
         dm4_authorPubKey = PublicKey_toBase58DER (en_crypto (cn_env c)) (en_ecc (cn_env c)) priv\<rparr>"
    by (rule MessageDataEncryptorV4_inverse [OF assms(1,2)])
  obtain ob where ob: "EncryptedMessageDataV4_toJSON e = JObject ob" by (simp add: EncryptedMessageDataV4_toJSON_def)
  show "\<exists>e d. MessageDataEncryptorV4_encrypt (cn_env c) m4 priv (ek_key k) draws = (Inr e, d) \<and>
      (\<forall>message. sm_data message = EncryptedMessageDataV4_toJSON e \<longrightarrow> decryptAndConvertMessageDataToMessage c message k =
        (let author = PublicKey_toBase58DER (en_crypto (cn_env c)) (en_ecc (cn_env c)) priv in
         Inr (convertServerMessageToLibMessage message (tm4_publicMeta m4) (tm4_privateMeta m4) (tm4_data m4) author 0 4,
           old_message_dio message author)))"
    by (rule exI [of _ e], rule exI [of _ d]) (simp add: e v4_message_read [OF ob e(2)] ob message_conversions Let_def)
qed (rule v3_message_written [OF assms(1-4)], rule v2_message_written [OF assms(1,2,5-7)])

end
