(* ===== verification/Thread_Created.thy ===== *)
theory Thread_Created
  imports Thread_Threads Core_Created
begin

text \<open>A thread that is created can be read by every user it is shared with.\<close>

text \<open>The Bridge returns a created thread to a user with the key entry made for that user.\<close>

definition thread_returned_to :: "ThreadCreateModel \<Rightarrow> KeyEntrySet \<Rightarrow> string \<Rightarrow> int \<Rightarrow> ThreadInfo \<Rightarrow> bool" where
  "thread_returned_to m es modifier time info \<longleftrightarrow>
     ti_contextId info = tc_contextId m \<and> ti_resourceId info = Some (tc_resourceId m) \<and>
     ti_data info = [\<lparr>tde_keyId = tc_keyId m, tde_data = tc_data m\<rparr>] \<and>
     ti_keys info = [\<lparr>ent_keyId = es_keyId es, ent_data = es_data es\<rparr>] \<and> ti_lastModifier info = modifier \<and>
     ti_policy info = (case tc_policy m of None \<Rightarrow> JEmpty | Some p \<Rightarrow> p) \<and>
     TimestampValidator_validate time (ti_lastModificationDate info)"

lemma created_data_read:
  assumes "created_data c contextId u publicMeta privateMeta key rid now e" and "receives c key \<lparr>el_contextId = contextId, el_resourceId = rid\<rparr> user es"
    and m: "tc_contextId m = contextId" "tc_resourceId m = rid" "tc_keyId m = ek_id key" "tc_data m = EncryptedModuleDataV5_toJSON e"
      "tc_policy m = map_option Factory_createPolicyServerObject policies"
    and c2: "cn_env c2 = cn_env c" "\<forall>r. cn_verifier c2 [r] = Some [True]" "\<forall>s. cn_str c2 (JString s) = Inr s"
      "up_pubKey user = PublicKey_toBase58DER (en_crypto (cn_env c)) (en_ecc (cn_env c)) (cn_userPrivKey c2)"
    and info: "thread_returned_to m es u now info"
  shows "\<exists>k. validateDecryptAndConvertThreadDataToThread c2 info = Inr k \<and> th_statusCode k = 0 \<and>
      th_publicMeta k = publicMeta \<and> th_privateMeta k = privateMeta \<and>
      th_policy k = (case policies of None \<Rightarrow> empty_policy | Some q \<Rightarrow> q)"
proof -
  note info = info [unfolded thread_returned_to_def m]
  have loc: "thread_location info = \<lparr>el_contextId = contextId, el_resourceId = rid\<rparr>" using info by (simp add: thread_location_def)
  obtain k where k: "keys_at c2 (KeyRequest_addOne (ti_keys info) (ek_id key) (thread_location info)) (thread_location info) = Inr [(ek_id key, k)]"
      "checkable k" "ek_key k = ek_key key"
    by (rule received_key [OF assms(2) c2(1,4,2), of "ti_keys info"]) (use info in \<open>auto simp: loc\<close>)
  obtain ob d where ob: "EncryptedModuleDataV5_toJSON e = JObject ob" "\<forall>p. VersionedData_fromJSON p ob = Inr 5"
      "\<forall>p. EncryptedModuleDataV5_fromJSON p ob = Inr e"
    and d: "ModuleDataEncryptorV5_decrypt (cn_env c2) e (ek_key k) = d"
      "ModuleDataEncryptorV5_getDIOAndAssertIntegrity (cn_env c2) e = Inr (md_dio d)" "md_statusCode d = 0"
      "md_publicMeta d = publicMeta" "md_privateMeta d = privateMeta" "dio_contextId (md_dio d) = contextId"
      "dio_resourceId (md_dio d) = rid" "dio_creatorUserId (md_dio d) = u" "dio_timestamp (md_dio d) = now"
    using assms(1) unfolding created_data_def k(3) c2(1) by blast
  have data: "ti_data info = [\<lparr>tde_keyId = ek_id key, tde_data = JObject ob\<rparr>]" using info ob(1) by simp
  have ver: "getThreadEntryDataStructureVersion c2 \<lparr>tde_keyId = i, tde_data = JObject ob\<rparr> = Inr 5" for i
    by (simp add: getThreadEntryDataStructureVersion_def ob)
  have int: "validateThreadDataIntegrity c2 info = 0"
    using info d by (simp add: validateThreadDataIntegrity_def assertThreadDataIntegrity_def data ver ob)
  have dec: "decryptModuleDataV5 (cn_env c2) (JObject ob) k = d"
    using k(2) d(1) by (simp add: decryptModuleDataV5_def ob checkable_def)
  have policy: "Factory_parsePolicyServerObject (en_poco (cn_env c2)) (cn_str c2) (ti_policy info) =
      Inr (case policies of None \<Rightarrow> empty_policy | Some q \<Rightarrow> q)"
    using created_policy [of "cn_str c2" _ policies] c2(3) info by simp
  show ?thesis
    using d(3-5) c2(2) by (simp add: validateDecryptAndConvertThreadDataToThread_def int data k(1) unordered_map_at_def
        decryptAndConvertThreadDataToThread_def ver dec convertDecryptedThreadDataV5ToThread_def convertServerThreadToLibThread_def policy
        verify_one_def UserVerifier_verify_def verified_status_def)
qed

lemma thread_created_read:
  assumes "connection_ok c" and "keys_fit c" and "known_users c (set users \<union> set managers)"
    and "inj_on user_key (set users \<union> set managers)"
    and "cn_myUserId c contextId = Inr u" and "u \<noteq> []" and "contextId \<noteq> []"
  shows "\<exists>m d. createThreadEx c sv contextId users managers publicMeta privateMeta type policies st =
      requesting (st_threadCreate sv m) (st\<lparr>as_draws := d\<rparr>) \<and>
    tc_users m = map up_userId users \<and> tc_managers m = map up_userId managers \<and>
    (\<forall>user \<in> set users \<union> set managers. \<exists>es \<in> set (tc_keys m). es_user es = up_userId user \<and>
      (\<forall>c2 info. cn_env c2 = cn_env c \<and> (\<forall>r. cn_verifier c2 [r] = Some [True]) \<and> (\<forall>s. cn_str c2 (JString s) = Inr s) \<and>
         up_pubKey user = PublicKey_toBase58DER (en_crypto (cn_env c)) (en_ecc (cn_env c)) (cn_userPrivKey c2) \<and>
         thread_returned_to m es u (cn_now c (as_draws st + 3)) info \<longrightarrow>
         (\<exists>k. validateDecryptAndConvertThreadDataToThread c2 info = Inr k \<and> th_statusCode k = 0 \<and>
           th_publicMeta k = publicMeta \<and> th_privateMeta k = privateMeta \<and>
           th_policy k = (case policies of None \<Rightarrow> empty_policy | Some q \<Rightarrow> q))))"
proof -
  define d0 where "d0 = as_draws st"
  obtain key rid dio secret e keys d1 where steps: "KeyProvider_generateKey (cn_env c) (cn_hex c) d0 = (key, d0 + 2)"
      "EndpointUtils_generateId c (d0 + 2) = (rid, d0 + 3)"
      "ConnectionImpl_createDIO c contextId rid None None (d0 + 3) = (Inr dio, d0 + 4)"
      "KeyProvider_generateSecret (cn_env c) (cn_hex c) (d0 + 4) = (secret, d0 + 5)"
      "ModuleDataEncryptorV5_encrypt (cn_env c) \<lparr>mt_publicMeta = publicMeta, mt_privateMeta = privateMeta,
        mt_internalMeta = \<lparr>mi_secret = text_of secret, mi_resourceId = rid, mi_randomId = dio_randomId dio\<rparr>, mt_dio = dio\<rparr>
          (cn_userPrivKey c) (ek_key key) (d0 + 5) = (Inr e, d0 + 7)"
      "KeyProvider_prepareKeysList (cn_env c) (cn_hex c) (cn_userPrivKey c) (EndpointUtils_uniqueListUserWithPubKey users managers)
        key dio \<lparr>el_contextId = contextId, el_resourceId = rid\<rparr> secret (d0 + 7) = (Inr keys, d1)"
    and data: "created_data c contextId u publicMeta privateMeta key rid (cn_now c (d0 + 3)) e"
    and each: "\<forall>user \<in> set users \<union> set managers. \<exists>es \<in> set keys. receives c key \<lparr>el_contextId = contextId, el_resourceId = rid\<rparr> user es"
    by (rule created_container [OF assms])
  define m where "m = \<lparr>tc_resourceId = rid, tc_contextId = contextId, tc_users = map up_userId users,
        tc_managers = map up_userId managers, tc_data = EncryptedModuleDataV5_toJSON e, tc_keyId = ek_id key,
        tc_keys = keys, tc_type = type, tc_policy = map_option Factory_createPolicyServerObject policies\<rparr>"
  have run: "createThreadEx c sv contextId users managers publicMeta privateMeta type policies st =
      requesting (st_threadCreate sv m) (st\<lparr>as_draws := d1\<rparr>)"
    unfolding createThreadEx_def
    by (rule bindS_drawn_step, rule steps(1), simp add: d0_def, rule bindS_drawn_step, rule steps(2), simp,
        rule bindS_drawing_step, rule steps(3), simp, rule bindS_drawn_step, rule steps(4), simp,
        rule bindS_drawing_step, rule steps(5), simp, rule bindS_drawing_step, rule steps(6), simp, simp add: m_def)
  have sel: "tc_users m = map up_userId users" "tc_managers m = map up_userId managers" "tc_keys m = keys" "tc_contextId m = contextId"
      "tc_resourceId m = rid" "tc_keyId m = ek_id key" "tc_data m = EncryptedModuleDataV5_toJSON e"
      "tc_policy m = map_option Factory_createPolicyServerObject policies"
    by (simp_all add: m_def)
  have "\<exists>es \<in> set (tc_keys m). es_user es = up_userId user \<and>
      (\<forall>c2 info. cn_env c2 = cn_env c \<and> (\<forall>r. cn_verifier c2 [r] = Some [True]) \<and> (\<forall>s. cn_str c2 (JString s) = Inr s) \<and>
         up_pubKey user = PublicKey_toBase58DER (en_crypto (cn_env c)) (en_ecc (cn_env c)) (cn_userPrivKey c2) \<and>
         thread_returned_to m es u (cn_now c (d0 + 3)) info \<longrightarrow>
         (\<exists>k. validateDecryptAndConvertThreadDataToThread c2 info = Inr k \<and> th_statusCode k = 0 \<and>
           th_publicMeta k = publicMeta \<and> th_privateMeta k = privateMeta \<and>
           th_policy k = (case policies of None \<Rightarrow> empty_policy | Some q \<Rightarrow> q)))"
    if u: "user \<in> set users \<union> set managers" for user
  proof -
    obtain es where es: "es \<in> set keys" "receives c key \<lparr>el_contextId = contextId, el_resourceId = rid\<rparr> user es" using each u by blast
    have "es_user es = up_userId user" using es(2) by (simp add: receives_def)
    then show ?thesis using es created_data_read [OF data es(2) sel(4-8)] sel(3) by blast
  qed
  then show ?thesis unfolding run d0_def [symmetric] using sel(1,2) by blast
qed

text \<open>
  C13. A thread that was created can be read by everybody it is shared with. \<open>createThreadEx\<close> sends one request;
  for each of the given users and managers it holds a key entry, and when the Bridge returns the
  thread data with that entry to the user, and attributes it to the creator at about the time of the
  creation, that user reads it without error with the public and private data and the policies that
  were given.
\<close>

theorem thread_created_readable:
  assumes "connection_ok c" and "keys_fit c" and "known_users c (set users \<union> set managers)"
    and "inj_on user_key (set users \<union> set managers)"
    and "cn_myUserId c contextId = Inr u" and "u \<noteq> []" and "contextId \<noteq> []"
  shows "\<exists>m d. createThreadEx c sv contextId users managers publicMeta privateMeta type policies st =
      requesting (st_threadCreate sv m) (st\<lparr>as_draws := d\<rparr>) \<and>
    tc_users m = map up_userId users \<and> tc_managers m = map up_userId managers \<and>
    (\<forall>user \<in> set users \<union> set managers. \<exists>es \<in> set (tc_keys m). es_user es = up_userId user \<and>
      (\<forall>c2 info. cn_env c2 = cn_env c \<and> (\<forall>r. cn_verifier c2 [r] = Some [True]) \<and> (\<forall>s. cn_str c2 (JString s) = Inr s) \<and>
         up_pubKey user = PublicKey_toBase58DER (en_crypto (cn_env c)) (en_ecc (cn_env c)) (cn_userPrivKey c2) \<and>
         thread_returned_to m es u (cn_now c (as_draws st + 3)) info \<longrightarrow>
         (\<exists>k. validateDecryptAndConvertThreadDataToThread c2 info = Inr k \<and> th_statusCode k = 0 \<and>
           th_publicMeta k = publicMeta \<and> th_privateMeta k = privateMeta \<and>
           th_policy k = (case policies of None \<Rightarrow> empty_policy | Some q \<Rightarrow> q))))"
  using assms by (rule thread_created_read)

end
