(* ===== verification/Thread_Sample.thy ===== *)
theory Thread_Sample
  imports Thread_Created Core_Sample
begin

text \<open>
  The properties of the threads on the sample connection: a message is sent and read, alone and in a
  list, updated by another user and refused; messages of the old formats are read; a thread is created
  and read.
\<close>

subsection \<open>Messages\<close>

definition sample_message :: "json \<Rightarrow> string \<Rightarrow> string \<Rightarrow> ServerMessage" where
  "sample_message data keyId author =
     \<lparr>sm_id = ''i'', sm_resourceId = ''r'', sm_version = 1, sm_contextId = ''c'', sm_threadId = ''t'', sm_createDate = 0,
      sm_author = author, sm_data = data, sm_keyId = keyId, sm_updates = [\<lparr>mu_createDate = 0, mu_author = ''u''\<rparr>]\<rparr>"

lemma sample_message_sel [simp]:
  "sm_resourceId (sample_message data keyId author) = ''r''" "sm_contextId (sample_message data keyId author) = ''c''"
  "sm_threadId (sample_message data keyId author) = ''t''" "sm_data (sample_message data keyId author) = data"
  "sm_keyId (sample_message data keyId author) = keyId" "sm_author (sample_message data keyId author) = author"
  "last_author (sample_message data keyId author) = ''u''" "last_date (sample_message data keyId author) = 0"
  by (simp_all add: sample_message_def last_author_def last_date_def)

lemma sample_message_read:
  obtains es k message where "ms_statusCode (validateDecryptAndConvertMessageDataToMessage (sample_connection 5) message (sample_module_keys es)) = 0"
    and "ms_schemaVersion (validateDecryptAndConvertMessageDataToMessage (sample_connection 5) message (sample_module_keys es)) = 5"
    and "keys_at (sample_connection 5) (KeyRequest_addMany (mk_keys (sample_module_keys es)) [sm_keyId message] sample_location) sample_location
      = Inr [(sm_keyId message, k)]"
    and "getAndValidateModuleCurrentEncKey (sample_connection 5) (sample_module_keys es) = Inr k"
    and "sm_keyId message = es_keyId es" and "sm_contextId message = ''c''"
proof -
  let ?c = "sample_connection 5"
  obtain es k where k: "getAndValidateModuleCurrentEncKey ?c (sample_module_keys es) = Inr k" "checkable k" "length (ek_key k) = 32"
      "keys_at ?c (KeyRequest_addMany (mk_keys (sample_module_keys es)) [es_keyId es] sample_location) sample_location = Inr [(es_keyId es, k)]"
      "KeyIdFormatValidator_hasDefaultKeyIdFormat (es_keyId es)"
    by (rule sample_current_key)
  have hyps: "cn_myUserId ?c (mk_contextId (sample_module_keys es)) = Inr ''u''" "''u'' \<noteq> []" "mk_contextId (sample_module_keys es) \<noteq> []"
      "KeyIdFormatValidator_hasDefaultKeyIdFormat (mk_currentKeyId (sample_module_keys es))"
    using k(5) by simp_all
  obtain v b where read: "\<forall>message r ok. sm_data message = v \<and> sm_resourceId message = ''r'' \<and> sm_threadId message = ''t'' \<and>
      sm_contextId message = mk_contextId (sample_module_keys es) \<and> sm_keyId message = mk_currentKeyId (sample_module_keys es) \<and>
      last_author message = ''u'' \<and> TimestampValidator_validate (cn_now ?c 0) (last_date message) \<and>
      r = convertServerMessageToLibMessage message [1] [2] [3]
        (PublicKey_toBase58DER (en_crypto (cn_env ?c)) (en_ecc (cn_env ?c)) (cn_userPrivKey ?c)) (verified_status ok) 5 \<and>
      cn_verifier ?c [message_request (mk_contextId (sample_module_keys es)) r b] = Some [ok] \<longrightarrow>
      validateDecryptAndConvertMessageDataToMessage ?c message (sample_module_keys es) = r"
    by (rule encrypted_message_read [OF sample_connection_ok k(1-3) hyps])
  let ?m = "sample_message v (es_keyId es) ''u''"
  have "validateDecryptAndConvertMessageDataToMessage ?c ?m (sample_module_keys es) = convertServerMessageToLibMessage ?m [1] [2] [3]
      (PublicKey_toBase58DER (en_crypto (cn_env ?c)) (en_ecc (cn_env ?c)) (cn_userPrivKey ?c)) (verified_status True) 5"
    by (rule read [rule_format]) simp
  then show thesis
    by (intro that [of ?m es k]) (use k in \<open>simp_all add: message_conversions verified_status_def\<close>)
qed

theorem thread_message_authentic_witness:
  "\<exists>es message k dio. message_genuine (sample_connection 5) message ''r'' k
     (validateDecryptAndConvertMessageDataToMessage (sample_connection 5) message (sample_module_keys es)) dio"
proof -
  obtain es message where e: "ms_statusCode (validateDecryptAndConvertMessageDataToMessage (sample_connection 5) message (sample_module_keys es)) = 0"
      "ms_schemaVersion (validateDecryptAndConvertMessageDataToMessage (sample_connection 5) message (sample_module_keys es)) = 5"
    by (rule sample_message_read)
  show ?thesis using thread_message_authentic [OF refl e(1)] e(2) by (auto simp: message_shown_def)
qed

theorem thread_messages_authentic_witness:
  "\<exists>es message r k dio. validateDecryptAndConvertMessagesDataToMessages (sample_connection 5) [message] (sample_module_keys es) = Inr [r] \<and>
     ms_statusCode r = 0 \<and> message_genuine (sample_connection 5) message ''r'' k r dio \<and> k2_statusCode k = 0 \<and>
     provided_key (sample_connection 5) (listed_keys_request (sample_module_keys es) [sm_keyId message])
       (keys_location (sample_module_keys es)) (sm_keyId message) k"
proof -
  let ?c = "sample_connection 5"
  obtain es k message where e: "ms_statusCode (validateDecryptAndConvertMessageDataToMessage ?c message (sample_module_keys es)) = 0"
      "ms_schemaVersion (validateDecryptAndConvertMessageDataToMessage ?c message (sample_module_keys es)) = 5"
      and keys: "keys_at ?c (KeyRequest_addMany (mk_keys (sample_module_keys es)) [sm_keyId message] sample_location) sample_location
      = Inr [(sm_keyId message, k)]"
      and cur: "getAndValidateModuleCurrentEncKey ?c (sample_module_keys es) = Inr k"
      and id: "sm_keyId message = es_keyId es" "sm_contextId message = ''c''"
    by (rule sample_message_read)
  let ?r = "validateDecryptAndConvertMessageDataToMessage ?c message (sample_module_keys es)"
  obtain dio where d: "assert_message_integrity ?c message ''r'' = Inr ()" "decryptAndConvertMessageDataToMessage ?c message k = Inr (?r, dio)"
    by (rule single_message_read [OF e(1)]) (use cur id in \<open>auto simp: getAndValidateModuleCurrentEncKey_def\<close>)
  have run: "validateDecryptAndConvertMessagesDataToMessages ?c [message] (sample_module_keys es) = Inr [?r]"
    using keys e(1) by (simp add: validateDecryptAndConvertMessagesDataToMessages_def Let_def sample_location_def [symmetric]
        decrypt_listed_message_def d unordered_map_at_def UserVerifier_verify_def verify_items_def item_requests_def verified_status_def)
  from thread_messages_authentic [OF run] e have "\<exists>k dio. message_genuine ?c message ''r'' k ?r dio \<and> k2_statusCode k = 0 \<and>
      provided_key ?c (listed_keys_request (sample_module_keys es) [sm_keyId message]) (keys_location (sample_module_keys es)) (sm_keyId message) k"
    by (fastforce simp: message_shown_def)
  with run e show ?thesis by blast
qed

text \<open>A Bridge that records the threads and messages it is sent and holds one thread of version 1.\<close>

definition sample_v1_thread :: ThreadInfo where
  "sample_v1_thread =
     \<lparr>ti_id = ''t'', ti_resourceId = None, ti_contextId = ''c'', ti_createDate = 0, ti_creator = ''u'', ti_lastModificationDate = 0,
      ti_lastModifier = ''u'', ti_data = [\<lparr>tde_keyId = ''k'', tde_data = JString ''d''\<rparr>], ti_keyId = ''k'', ti_users = [''u''],
      ti_managers = [], ti_keys = [], ti_version = 1, ti_lastMsgDate = 0, ti_messages = 0, ti_type = None, ti_policy = JEmpty\<rparr>"

definition sample_thread_server ::
    "(ThreadCreateModel list \<times> ThreadMessageSendModel list \<times> ThreadMessageUpdateModel list) thread_server" where
  "sample_thread_server =
     \<lparr>st_threadCreate = (\<lambda>m (ts, ms, us). (Inr ''t'', (ts @ [m], ms, us))), st_threadUpdate = (\<lambda>m s. (Inr (), s)),
      st_threadDelete = (\<lambda>i s. (Inr (), s)), st_threadGet = (\<lambda>m s. (Inr sample_v1_thread, s)),
      st_threadList = (\<lambda>m s. (Inr ([], 0), s)), st_threadMessageSend = (\<lambda>m (ts, ms, us). (Inr ''i'', (ts, ms @ [m], us))),
      st_threadMessageDelete = (\<lambda>i s. (Inr (), s)), st_threadMessageGet = (\<lambda>i s. (Inl StdOutOfRange, s)),
      st_threadMessagesGet = (\<lambda>m s. (Inl StdOutOfRange, s)),
      st_threadMessageUpdate = (\<lambda>m (ts, ms, us). (Inr (), (ts, ms, us @ [m])))\<rparr>"

definition sample_thread_state ::
    "(ThreadCreateModel list \<times> ThreadMessageSendModel list \<times> ThreadMessageUpdateModel list, thread_event_data api_event) api_state" where
  "sample_thread_state =
     \<lparr>as_cache = ContainerKeyCache_new, as_draws = 0, as_server = ([], [], []), as_events = [], as_subscriptions = []\<rparr>"

lemma sample_uuid [simp]: "cn_uuid (sample_connection priv) d = ''r''"
  by (simp add: sample_connection_def)

theorem thread_message_roundtrip_witness:
  "\<exists>es m st' message. sendMessageRequest (sample_connection 5) sample_thread_server ''t'' [1] [2] [3] (sample_module_keys es) sample_thread_state
       = (Inr ''i'', st') \<and> as_server st' = ([], [m], []) \<and> sm_data message = tms_data m \<and>
     ms_statusCode (validateDecryptAndConvertMessageDataToMessage (sample_connection 5) message (sample_module_keys es)) = 0 \<and>
     ms_data (validateDecryptAndConvertMessageDataToMessage (sample_connection 5) message (sample_module_keys es)) = [3]"
proof -
  let ?c = "sample_connection 5"
  obtain es k where k: "getAndValidateModuleCurrentEncKey ?c (sample_module_keys es) = Inr k" "checkable k" "length (ek_key k) = 32"
      "KeyIdFormatValidator_hasDefaultKeyIdFormat (es_keyId es)"
    by (rule sample_current_key)
  let ?keys = "sample_module_keys es"
  have hyps: "cn_myUserId ?c (mk_contextId ?keys) = Inr ''u''" "''u'' \<noteq> []" "mk_contextId ?keys \<noteq> []"
      "KeyIdFormatValidator_hasDefaultKeyIdFormat (mk_currentKeyId ?keys)" "\<And>r. cn_verifier ?c [r] = Some [True]"
    using k(4) by simp_all
  obtain v d where run: "sendMessageRequest ?c sample_thread_server ''t'' [1] [2] [3] ?keys sample_thread_state =
      requesting (st_threadMessageSend sample_thread_server \<lparr>tms_resourceId = cn_uuid ?c (as_draws sample_thread_state), tms_threadId = ''t'',
        tms_data = v, tms_keyId = ek_id k\<rparr>) (sample_thread_state\<lparr>as_draws := d\<rparr>)"
      and read: "\<forall>message. sm_data message = v \<and> sm_resourceId message = cn_uuid ?c (as_draws sample_thread_state) \<and> sm_threadId message = ''t'' \<and>
       sm_contextId message = mk_contextId ?keys \<and> sm_keyId message = mk_currentKeyId ?keys \<and> last_author message = ''u'' \<and>
       TimestampValidator_validate (cn_now ?c (as_draws sample_thread_state + 1)) (last_date message) \<longrightarrow>
       validateDecryptAndConvertMessageDataToMessage ?c message ?keys = convertServerMessageToLibMessage message [1] [2] [3]
         (PublicKey_toBase58DER (en_crypto (cn_env ?c)) (en_ecc (cn_env ?c)) (cn_userPrivKey ?c)) 0 5"
    using thread_message_roundtrip [OF sample_connection_ok k(1-3) hyps] by blast
  let ?m = "\<lparr>tms_resourceId = ''r'', tms_threadId = ''t'', tms_data = v, tms_keyId = ek_id k\<rparr>"
  let ?msg = "sample_message v (es_keyId es) ''u''"
  have "validateDecryptAndConvertMessageDataToMessage ?c ?msg ?keys = convertServerMessageToLibMessage ?msg [1] [2] [3]
         (PublicKey_toBase58DER (en_crypto (cn_env ?c)) (en_ecc (cn_env ?c)) (cn_userPrivKey ?c)) 0 5"
    by (rule read [rule_format]) simp
  then show ?thesis
    by (intro exI [of _ es] exI [of _ ?m] exI [of _ "sample_thread_state\<lparr>as_draws := d, as_server := ([], [?m], [])\<rparr>"] exI [of _ ?msg], unfold run)
      (simp add: requesting_def sample_thread_server_def sample_thread_state_def message_conversions)
qed

theorem thread_v1_not_updatable_witness:
  "\<exists>e st'. updateThread (sample_connection 5) sample_thread_server ''t'' [sample_self] [] [1] [2] 1 False False None sample_thread_state
       = (Inl e, st') \<and> as_server st' = ([], [], []) \<and> as_cache st' = ContainerKeyCache_new"
proof -
  have "st_threadGet sample_thread_server \<lparr>tg_threadId = ''t'', tg_type = None\<rparr> (as_server sample_thread_state)
      = (Inr sample_v1_thread, as_server sample_thread_state)"
    by (simp add: sample_thread_server_def)
  moreover have "getThreadEntryDataStructureVersion (sample_connection 5) (last (ti_data sample_v1_thread)) = Inr 1"
    by (simp add: sample_v1_thread_def getThreadEntryDataStructureVersion_def)
  ultimately have "\<exists>e st'. updateThread (sample_connection 5) sample_thread_server ''t'' [sample_self] [] [1] [2] 1 False False None
      sample_thread_state = (Inl e, st') \<and> as_server st' = as_server sample_thread_state \<and> as_cache st' = as_cache sample_thread_state"
    by (rule thread_v1_not_updatable)
  then show ?thesis by (simp add: sample_thread_state_def)
qed

text \<open>The author is a user whose key is not the connected user's.\<close>

theorem thread_update_by_other_refused_witness:
  "\<exists>(c :: byte connection) es m st' message. updateMessageRequest c sample_thread_server ''i'' ''r'' ''t'' [1] [2] [3] (sample_module_keys es) sample_thread_state
       = (Inr (), st') \<and> as_server st' = ([], [], [m]) \<and> sm_data message = tmu_data m \<and> sm_author message = ''w'' \<and> last_author message = ''u'' \<and>
     ms_statusCode (validateDecryptAndConvertMessageDataToMessage c message (sample_module_keys es)) = code_of UserVerificationFailureException"
proof -
  let ?pub = "PublicKey_toBase58DER sample_crypto sample_ecc 5"
  define keyOf where "keyOf = (\<lambda>i. if i = ''u'' then ?pub else CHR ''x'' # ?pub)"
  define v :: user_verifier where "v = (\<lambda>reqs. Some (map (\<lambda>r. vr_senderPubKey r = keyOf (vr_senderId r)) reqs))"
  define c where "c = (sample_connection 5)\<lparr>cn_verifier := v\<rparr>"
  obtain es k where k: "getAndValidateModuleCurrentEncKey c (sample_module_keys es) = Inr k" "checkable k" "length (ek_key k) = 32"
      "KeyIdFormatValidator_hasDefaultKeyIdFormat (es_keyId es)"
    unfolding c_def by (rule sample_current_key_for [of v]) (simp_all add: v_def keyOf_def)
  let ?keys = "sample_module_keys es"
  have ok: "connection_ok c" using sample_connection_ok [of 5] by (simp add: c_def connection_ok_def)
  have sel: "cn_myUserId c x = Inr ''u''" "cn_env c = sample_core_env" "cn_userPrivKey c = 5" "cn_now c d = 0" for x d
    by (simp_all add: c_def)
  have hyps: "cn_myUserId c (mk_contextId ?keys) = Inr ''u''" "''u'' \<noteq> []" "mk_contextId ?keys \<noteq> []"
      "KeyIdFormatValidator_hasDefaultKeyIdFormat (mk_currentKeyId ?keys)"
      "\<And>r. cn_verifier c [r] = Some [vr_senderPubKey r = keyOf (vr_senderId r)]"
      "keyOf ''u'' = PublicKey_toBase58DER (en_crypto (cn_env c)) (en_ecc (cn_env c)) (cn_userPrivKey c)"
      "keyOf ''w'' \<noteq> keyOf ''u''"
    using k(4) by (simp_all add: sel) (simp_all add: c_def v_def keyOf_def sample_core_env_def)
  obtain val d where run: "updateMessageRequest c sample_thread_server ''i'' ''r'' ''t'' [1] [2] [3] ?keys sample_thread_state =
      requesting (st_threadMessageUpdate sample_thread_server \<lparr>tmu_messageId = ''i'', tmu_data = val, tmu_keyId = ek_id k\<rparr>)
        (sample_thread_state\<lparr>as_draws := d\<rparr>)"
      and read: "\<forall>message. sm_data message = val \<and> sm_resourceId message = ''r'' \<and> sm_threadId message = ''t'' \<and>
       sm_contextId message = mk_contextId ?keys \<and> sm_keyId message = mk_currentKeyId ?keys \<and>
       sm_author message = ''w'' \<and> last_author message = ''u'' \<and>
       TimestampValidator_validate (cn_now c (as_draws sample_thread_state)) (last_date message) \<longrightarrow>
       ms_statusCode (validateDecryptAndConvertMessageDataToMessage c message ?keys) = code_of UserVerificationFailureException"
    using thread_update_by_other_refused [OF ok k(1-3) hyps] by blast
  let ?m = "\<lparr>tmu_messageId = ''i'', tmu_data = val, tmu_keyId = ek_id k\<rparr>" and ?msg = "sample_message val (es_keyId es) ''w''"
  have "ms_statusCode (validateDecryptAndConvertMessageDataToMessage c ?msg ?keys) = code_of UserVerificationFailureException"
    by (rule read [rule_format]) (simp add: sel)
  then show ?thesis
    by (intro exI [of _ c] exI [of _ es] exI [of _ ?m] exI [of _ "sample_thread_state\<lparr>as_draws := d, as_server := ([], [], [?m])\<rparr>"]
        exI [of _ ?msg], unfold run)
      (simp add: requesting_def sample_thread_server_def sample_thread_state_def)
qed

subsection \<open>Messages of the old formats\<close>

theorem thread_old_messages_readable_witness:
  "\<exists>k e t3 t2 d4 d3 d2.
     MessageDataEncryptorV4_encrypt sample_core_env \<lparr>tm4_publicMeta = [1], tm4_privateMeta = [2], tm4_data = [3], tm4_internalMeta = None\<rparr>
       5 (ek_key k) 0 = (Inr e, d4) \<and>
     MessageDataV3Encryptor_signAndEncrypt sample_core_env (0, 0)
       \<lparr>mv3_v = 0, mv3_publicMeta = [1], mv3_privateMeta = [2], mv3_data = [3], mv3_statusCode = 0\<rparr> 5 (ek_key k) 0 = (Inr t3, d3) \<and>
     MessageDataV2Encryptor_signAndEncrypt sample_core_env
       \<lparr>mv2_v = 0, mv2_msgId = ''i'', mv2_type = [], mv2_text = ''hi'', mv2_date = 0, mv2_deleted = False,
        mv2_author = \<lparr>mda_userId = ''u'', mda_pubKey = ''p''\<rparr>,
        mv2_destination = \<lparr>mdd_server = ''s'', mdd_contextId = ''c'', mdd_threadId = ''t''\<rparr>, mv2_statusCode = 0\<rparr> 5 (ek_key k) 0 = (Inr t2, d2) \<and>
     map_sum id (\<lambda>(r, _). (ms_data r, ms_statusCode r, ms_schemaVersion r)) (decryptAndConvertMessageDataToMessage (sample_connection 5)
       (sample_message (EncryptedMessageDataV4_toJSON e) [] ''u'') k) = Inr ([3], 0, 4) \<and>
     map_sum id (\<lambda>(r, _). (ms_data r, ms_statusCode r, ms_schemaVersion r)) (decryptAndConvertMessageDataToMessage (sample_connection 5)
       (sample_message (JString t3) [] ''u'') k) = Inr ([3], 0, 3) \<and>
     map_sum id (\<lambda>(r, _). (ms_data r, ms_authorPubKey r, ms_schemaVersion r)) (decryptAndConvertMessageDataToMessage (sample_connection 5)
       (sample_message (JString t2) [] ''u'') k) = Inr ([], ''p'', 2)"
proof -
  let ?m2 = "\<lparr>mv2_v = 0, mv2_msgId = ''i'', mv2_type = [], mv2_text = ''hi'', mv2_date = 0, mv2_deleted = False,
        mv2_author = \<lparr>mda_userId = ''u'', mda_pubKey = ''p''\<rparr>,
        mv2_destination = \<lparr>mdd_server = ''s'', mdd_contextId = ''c'', mdd_threadId = ''t''\<rparr>, mv2_statusCode = 0\<rparr>"
  let ?m3 = "\<lparr>mv3_v = 0, mv3_publicMeta = [1], mv3_privateMeta = [2], mv3_data = [3], mv3_statusCode = 0\<rparr>"
  let ?m4 = "\<lparr>tm4_publicMeta = [1], tm4_privateMeta = [2], tm4_data = [3], tm4_internalMeta = None\<rparr>"
  obtain es k where "getAndValidateModuleCurrentEncKey (sample_connection 5) (sample_module_keys es) = Inr k" and k: "length (ek_key k) = 32"
    by (rule sample_current_key)
  have env: "core_env_ok (cn_env (sample_connection 5))" by (simp add: sample_core_env_ok)
  have zero: "int64 (fst (0, 0 :: int))" "int64 (snd (0 :: int, 0))" "int64 (mv2_v ?m2)" "int64 (mv2_date ?m2)" "int64 (mv2_statusCode ?m2)"
    by simp_all
  note old = thread_old_messages_readable [OF env k zero, where ?m4.0 = ?m4 and ?m3.0 = ?m3 and priv = 5 and draws = 0, unfolded sample_connection_sel]
  obtain e d4 where e: "MessageDataEncryptorV4_encrypt sample_core_env ?m4 5 (ek_key k) 0 = (Inr e, d4)"
      "map_sum id (\<lambda>(r, _). (ms_data r, ms_statusCode r, ms_schemaVersion r)) (decryptAndConvertMessageDataToMessage (sample_connection 5)
       (sample_message (EncryptedMessageDataV4_toJSON e) [] ''u'') k) = Inr ([3], 0, 4)"
    using conjunct1 [OF old] by (auto simp: Let_def message_conversions)
  obtain t3 d3 where t3: "MessageDataV3Encryptor_signAndEncrypt sample_core_env (0, 0) ?m3 5 (ek_key k) 0 = (Inr t3, d3)"
      "map_sum id (\<lambda>(r, _). (ms_data r, ms_statusCode r, ms_schemaVersion r)) (decryptAndConvertMessageDataToMessage (sample_connection 5)
       (sample_message (JString t3) [] ''u'') k) = Inr ([3], 0, 3)"
    using conjunct1 [OF conjunct2 [OF old]] by (auto simp: message_conversions)
  obtain t2 d2 where "MessageDataV2Encryptor_signAndEncrypt sample_core_env ?m2 5 (ek_key k) 0 = (Inr t2, d2)"
      "map_sum id (\<lambda>(r, _). (ms_data r, ms_authorPubKey r, ms_schemaVersion r)) (decryptAndConvertMessageDataToMessage (sample_connection 5)
       (sample_message (JString t2) [] ''u'') k) = Inr ([], ''p'', 2)"
    using conjunct2 [OF conjunct2 [OF old]] by (auto simp: message_conversions)
  with e t3 show ?thesis by blast
qed

subsection \<open>Threads\<close>

lemma sample_users:
  "known_users (sample_connection 5) (set [sample_user] \<union> set [sample_self])" "inj_on user_key (set [sample_user] \<union> set [sample_self])"
  "cn_myUserId (sample_connection 5) ''c'' = Inr ''u''" "''u'' \<noteq> []" "''c'' \<noteq> []"
  using sample_known_users by (auto simp: known_users_def sample_user_def sample_self_def)

definition sample_thread :: "ThreadCreateModel \<Rightarrow> KeyEntrySet \<Rightarrow> ThreadInfo" where
  "sample_thread m es =
     \<lparr>ti_id = ''t'', ti_resourceId = Some (tc_resourceId m), ti_contextId = tc_contextId m, ti_createDate = 0, ti_creator = ''u'',
      ti_lastModificationDate = 0, ti_lastModifier = ''u'', ti_data = [\<lparr>tde_keyId = tc_keyId m, tde_data = tc_data m\<rparr>],
      ti_keyId = tc_keyId m, ti_users = [], ti_managers = [], ti_keys = [\<lparr>ent_keyId = es_keyId es, ent_data = es_data es\<rparr>],
      ti_version = 1, ti_lastMsgDate = 0, ti_messages = 0, ti_type = None, ti_policy = (case tc_policy m of None \<Rightarrow> JEmpty | Some p \<Rightarrow> p)\<rparr>"

lemma sample_thread_returned: "thread_returned_to m es ''u'' 0 (sample_thread m es)"
  by (simp add: thread_returned_to_def sample_thread_def)

text \<open>The user with the name w reads the created thread.\<close>

lemma sample_thread_for_user:
  assumes "\<forall>user \<in> set [sample_user] \<union> set [sample_self]. \<exists>es \<in> set (tc_keys m). es_user es = up_userId user \<and>
      (\<forall>c2 info. cn_env c2 = cn_env (sample_connection 5) \<and> (\<forall>r. cn_verifier c2 [r] = Some [True]) \<and> (\<forall>s. cn_str c2 (JString s) = Inr s) \<and>
         up_pubKey user = PublicKey_toBase58DER (en_crypto (cn_env (sample_connection 5))) (en_ecc (cn_env (sample_connection 5))) (cn_userPrivKey c2) \<and>
         thread_returned_to m es ''u'' (cn_now (sample_connection 5) (as_draws sample_thread_state + 3)) info \<longrightarrow>
         (\<exists>k. validateDecryptAndConvertThreadDataToThread c2 info = Inr k \<and> th_statusCode k = 0 \<and>
           th_publicMeta k = [1] \<and> th_privateMeta k = [2] \<and> th_policy k = (case None of None \<Rightarrow> empty_policy | Some q \<Rightarrow> q)))"
  shows "\<exists>es k. validateDecryptAndConvertThreadDataToThread (sample_connection 7) (sample_thread m es) = Inr k \<and> th_statusCode k = 0 \<and>
    th_publicMeta k = [1] \<and> th_privateMeta k = [2]"
proof -
  obtain es where other: "\<forall>c2 info. cn_env c2 = cn_env (sample_connection 5) \<and> (\<forall>r. cn_verifier c2 [r] = Some [True]) \<and>
         (\<forall>s. cn_str c2 (JString s) = Inr s) \<and>
         up_pubKey sample_user = PublicKey_toBase58DER (en_crypto (cn_env (sample_connection 5))) (en_ecc (cn_env (sample_connection 5))) (cn_userPrivKey c2) \<and>
         thread_returned_to m es ''u'' (cn_now (sample_connection 5) (as_draws sample_thread_state + 3)) info \<longrightarrow>
         (\<exists>k. validateDecryptAndConvertThreadDataToThread c2 info = Inr k \<and> th_statusCode k = 0 \<and>
           th_publicMeta k = [1] \<and> th_privateMeta k = [2] \<and> th_policy k = (case None of None \<Rightarrow> empty_policy | Some q \<Rightarrow> q))"
    using bspec [OF assms, of sample_user] by auto
  have "up_pubKey sample_user = PublicKey_toBase58DER (en_crypto sample_core_env) (en_ecc sample_core_env) 7"
    by (simp add: sample_user_def sample_core_env_def)
  then show ?thesis
    using other [rule_format, of "sample_connection 7" "sample_thread m es"] sample_thread_returned [of m es] by auto
qed

theorem thread_created_readable_witness:
  "\<exists>m es st' k. createThreadEx (sample_connection 5) sample_thread_server ''c'' [sample_user] [sample_self] [1] [2] ''thread'' None sample_thread_state
       = (Inr ''t'', st') \<and> as_server st' = ([m], [], []) \<and>
     validateDecryptAndConvertThreadDataToThread (sample_connection 7) (sample_thread m es) = Inr k \<and>
     th_statusCode k = 0 \<and> th_publicMeta k = [1] \<and> th_privateMeta k = [2]"
proof -
  note created = thread_created_readable [OF sample_connection_ok sample_keys_fit sample_users,
      of sample_thread_server "[1]" "[2]" "''thread''" None sample_thread_state]
  then obtain m d where run: "createThreadEx (sample_connection 5) sample_thread_server ''c'' [sample_user] [sample_self] [1] [2] ''thread'' None
      sample_thread_state = requesting (st_threadCreate sample_thread_server m) (sample_thread_state\<lparr>as_draws := d\<rparr>)"
    and "\<exists>es k. validateDecryptAndConvertThreadDataToThread (sample_connection 7) (sample_thread m es) = Inr k \<and> th_statusCode k = 0 \<and>
      th_publicMeta k = [1] \<and> th_privateMeta k = [2]"
    using sample_thread_for_user by (elim exE conjE) blast
  then show ?thesis
    by (intro exI [of _ m], elim exE) (rule exI, rule exI [of _ "sample_thread_state\<lparr>as_draws := d, as_server := ([m], [], [])\<rparr>"], rule exI,
      unfold run, auto simp: requesting_def sample_thread_server_def sample_thread_state_def)
qed

lemma single_thread_read:
  assumes "validateDecryptAndConvertThreadDataToThread c info = Inr r" and "th_statusCode r = 0"
  obtains k dio where "validateThreadDataIntegrity c info = 0"
    and "bindR (keys_at c (KeyRequest_addOne (ti_keys info) (tde_keyId (last (ti_data info))) (thread_location info)) (thread_location info))
        (\<lambda>ks. unordered_map_at ks (tde_keyId (last (ti_data info)))) = Inr k"
    and "decryptAndConvertThreadDataToThread c info (last (ti_data info)) k = Inr (r, dio)"
    and "cn_verifier c [thread_request r dio] = Some [True]"
proof -
  have int: "validateThreadDataIntegrity c info = 0"
    using assms by (auto simp: validateDecryptAndConvertThreadDataToThread_def Let_def failed_thread_def dest: convertServerThread_fields split: if_splits)
  then show thesis
    using assms that by (simp add: validateDecryptAndConvertThreadDataToThread_def Let_def) (erule single_item_read; simp)
qed

theorem thread_threads_authentic_witness:
  "\<exists>info r k dio. validateDecryptAndConvertThreadsDataToThreads (sample_connection 7) [info] = Inr [r] \<and>
     thread_shown (sample_connection 7) info k r dio"
proof -
  let ?c = "sample_connection 7"
  obtain info r where one: "validateDecryptAndConvertThreadDataToThread ?c info = Inr r" "th_statusCode r = 0"
    using thread_created_read [OF sample_connection_ok sample_keys_fit sample_users,
        of sample_thread_server "[1]" "[2]" "''thread''" None sample_thread_state] sample_thread_for_user
    by (elim exE conjE) blast
  let ?i = "tde_keyId (last (ti_data info))"
  obtain k dio where d: "validateThreadDataIntegrity ?c info = 0"
      "bindR (keys_at ?c (KeyRequest_addOne (ti_keys info) ?i (thread_location info)) (thread_location info)) (\<lambda>ks. unordered_map_at ks ?i) = Inr k"
      "decryptAndConvertThreadDataToThread ?c info (last (ti_data info)) k = Inr (r, dio)"
    by (rule single_thread_read [OF one])
  obtain req m ks where add: "KeyRequest_addOne (ti_keys info) ?i (thread_location info) KeyRequest_new = (Inr (), req)"
      and m: "KeyProvider_getKeysAndVerify (cn_env ?c) (cn_userPrivKey ?c) (cn_verifier ?c) req = Inr m"
        "at_location m (thread_location info) = Inr ks" "unordered_map_at ks ?i = Inr k"
    using d(2) by (auto simp: keys_at_def bindR_eq_Inr split: prod.splits sum.splits)
  have keys: "get_thread_keys ?c [info] = Inr m"
    using m(1) by (simp add: get_thread_keys_def request_thread_keys_def bindS_def add ret_def)
  have dec: "decrypt_thread ?c m info = Inr (r, dio)" by (simp add: decrypt_thread_def m d(3))
  have run: "validateDecryptAndConvertThreadsDataToThreads ?c [info] = Inr [r]"
    using one(2) by (simp add: validateDecryptAndConvertThreadsDataToThreads_def read_containers_def check_containers_def d(1) keys dec
        Thread_new_def verify_containers_def UserVerifier_verify_def verified_status_def)
  from thread_threads_authentic [OF run] one(2) have "\<exists>k dio. thread_shown ?c info k r dio" by auto
  with run show ?thesis by blast
qed

end
