(* ===== verification/Core_Subscriber.thy ===== *)
theory Core_Subscriber
  imports Core_Types
begin

text \<open>
  Subscriptions (\<open>endpoint/core/src/Subscriber.cpp\<close>): queries as texts of the form
  \<open>module/item/event|selector=value\<close>, their registration with the Bridge, and the operations every
  module offers. What a module accepts and what it sends to the Bridge are given by two functions that
  the modules override.
\<close>

subsection \<open>Queries\<close>

text \<open>\<open>Utils::split\<close> repeats \<open>std::getline\<close>: an empty part at the end of the text is dropped.\<close>

function Utils_split_char :: "char \<Rightarrow> string \<Rightarrow> string list" where
  "Utils_split_char c [] = []"
| "Utils_split_char c (x # s) =
     takeWhile (\<lambda>y. y \<noteq> c) (x # s) #
       (case dropWhile (\<lambda>y. y \<noteq> c) (x # s) of [] \<Rightarrow> [] | _ # rest \<Rightarrow> Utils_split_char c rest)"
  by pat_completeness auto
termination
proof (relation "measure (\<lambda>(c, s). length s)", simp)
  fix c x s d rest
  assume "dropWhile (\<lambda>y. y \<noteq> c) (x # s) = d # rest"
  then have "Suc (length rest) \<le> length (x # s)" by (metis length_Cons length_dropWhile_le)
  then show "((c, rest), c, x # s) \<in> measure (\<lambda>(c, s). length s)" by simp
qed

declare Utils_split_char.simps(2) [simp del]

record QuerySelector =
  qs_selectorKey :: string
  qs_selectorValue :: string

record SubscriptionQueryObj =
  sq_channelPath :: "string list"
  sq_selectors :: "QuerySelector list"

fun parse_selectors :: "string list \<Rightarrow> (exn, QuerySelector list) result" where
  "parse_selectors [] = Inr []"
| "parse_selectors (s # ss) =
     (case Utils_split_char CHR ''='' s of
        [k, v] \<Rightarrow> bindR (parse_selectors ss) (\<lambda>r. Inr (\<lparr>qs_selectorKey = k, qs_selectorValue = v\<rparr> # r))
      | _ \<Rightarrow> Inl (CoreExn core_InvalidSubscriptionQueryException))"

definition SubscriptionQueryObj_parse :: "string \<Rightarrow> (exn, SubscriptionQueryObj) result" where
  "SubscriptionQueryObj_parse query =
     (case Utils_split_char CHR ''|'' query of
        [] \<Rightarrow> Inr \<lparr>sq_channelPath = [], sq_selectors = []\<rparr>
      | [p] \<Rightarrow> Inr \<lparr>sq_channelPath = Utils_split_char CHR ''/'' p, sq_selectors = []\<rparr>
      | [p, s] \<Rightarrow> bindR (parse_selectors (Utils_split_char CHR '','' s)) (\<lambda>selectors.
          Inr \<lparr>sq_channelPath = Utils_split_char CHR ''/'' p, sq_selectors = selectors\<rparr>)
      | _ \<Rightarrow> Inl (CoreExn core_InvalidSubscriptionQueryException))"

text \<open>
  The last separator of each part is removed with \<open>pop_back\<close>. For an empty path this call is undefined;
  the modules only print queries whose path was checked.
\<close>

definition SubscriptionQueryObj_toSubscriptionQueryString :: "SubscriptionQueryObj \<Rightarrow> string" where
  "SubscriptionQueryObj_toSubscriptionQueryString q =
     butlast (butlast (concat (map (\<lambda>p. p @ ''/'') (sq_channelPath q))) @ ''|'' @
       concat (map (\<lambda>s. qs_selectorKey s @ ''='' @ qs_selectorValue s @ '','') (sq_selectors q)))"

subsection \<open>\<open>Subscriber\<close>\<close>

text \<open>The requests to the Bridge; a subscription is answered with the channel and the new id.\<close>

record Subscription =
  sub_channel :: string
  sub_subscriptionId :: string

record 's channel_server =
  cs_subscribeToChannels :: "string list \<Rightarrow> (exn, 's, Subscription list) op"
  cs_unsubscribeFromChannels :: "string list \<Rightarrow> (exn, 's, unit) op"

text \<open>The first answer for a channel is taken out of the list.\<close>

fun take_subscription :: "string \<Rightarrow> Subscription list \<Rightarrow> (Subscription \<times> Subscription list) option" where
  "take_subscription channel [] = None"
| "take_subscription channel (s # ss) =
     (if sub_channel s = channel then Some (s, ss)
      else map_option (\<lambda>(t, r). (t, s # r)) (take_subscription channel ss))"

fun assign_subscriptions ::
    "string list \<Rightarrow> Subscription list \<Rightarrow> (string \<times> string) list \<Rightarrow> string list \<times> (string \<times> string) list" where
  "assign_subscriptions [] subscriptions queries = ([], queries)"
| "assign_subscriptions (channel # channels) subscriptions queries =
     (case take_subscription channel subscriptions of
        None \<Rightarrow> (case assign_subscriptions channels subscriptions queries of (ids, q) \<Rightarrow> ([] # ids, q))
      | Some (s, rest) \<Rightarrow>
          (case assign_subscriptions channels rest (alist_set (sub_subscriptionId s) (sub_channel s) queries) of
             (ids, q) \<Rightarrow> (sub_subscriptionId s # ids, q)))"

text \<open>The functions a module overrides; the second may ask the Bridge.\<close>

record ('s, 'ev) subscriber_impl =
  si_assertQuery :: "SubscriptionQueryObj list \<Rightarrow> (exn, unit) result"
  si_transform :: "SubscriptionQueryObj list \<Rightarrow> (exn, ('s, 'ev) api_state, string list) op"

fun parse_queries :: "string list \<Rightarrow> (exn, SubscriptionQueryObj list) result" where
  "parse_queries [] = Inr []"
| "parse_queries (q # qs) =
     bindR (SubscriptionQueryObj_parse q) (\<lambda>p. bindR (parse_queries qs) (\<lambda>ps. Inr (p # ps)))"

definition Subscriber_subscribeFor ::
    "('s, 'ev) subscriber_impl \<Rightarrow> 's channel_server \<Rightarrow> string list \<Rightarrow> bool \<Rightarrow> (exn, ('s, 'ev) api_state, string list) op" where
  "Subscriber_subscribeFor impl sv subscriptionQueries force =
     bindS (liftR (parse_queries subscriptionQueries)) (\<lambda>parsed.
     bindS (if force then ret subscriptionQueries
       else bindS (liftR (si_assertQuery impl parsed)) (\<lambda>_. si_transform impl parsed)) (\<lambda>channels.
     bindS (requesting (cs_subscribeToChannels sv channels)) (\<lambda>subscriptions st.
     case assign_subscriptions channels subscriptions (as_subscriptions st) of
       (ids, queries) \<Rightarrow> (Inr ids, st\<lparr>as_subscriptions := queries\<rparr>))))"

definition Subscriber_unsubscribeFrom :: "'s channel_server \<Rightarrow> string list \<Rightarrow> (exn, ('s, 'ev) api_state, unit) op" where
  "Subscriber_unsubscribeFrom sv subscriptionIds =
     bindS (requesting (cs_unsubscribeFromChannels sv subscriptionIds)) (\<lambda>_ st.
     (Inr (), st\<lparr>as_subscriptions := filter (\<lambda>(i, _). i \<notin> set subscriptionIds) (as_subscriptions st)\<rparr>))"

definition Subscriber_unsubscribeFromCurrentlySubscribed :: "'s channel_server \<Rightarrow> (exn, ('s, 'ev) api_state, unit) op" where
  "Subscriber_unsubscribeFromCurrentlySubscribed sv st =
     (let subscriptionIds = map fst (as_subscriptions st) in
      if length subscriptionIds > 0 then Subscriber_unsubscribeFrom sv subscriptionIds st else (Inr (), st))"

subsection \<open>What the modules share\<close>

text \<open>
  The checks and the transformation are the same code in the modules, up to the name of the module,
  its exception and the type that selects its containers. So is the building of a query, up to the
  tables of names.
\<close>

definition assert_module_query :: "string \<Rightarrow> exn \<Rightarrow> SubscriptionQueryObj list \<Rightarrow> (exn, unit) result" where
  "assert_module_query moduleName e queries =
     (if \<exists>q \<in> set queries. length (sq_selectors q) \<noteq> 1 \<or> length (sq_channelPath q) < 2 \<or> length (sq_channelPath q) > 3 \<or>
         sq_channelPath q ! 0 \<noteq> moduleName
      then Inl e else Inr ())"

definition selectorsPushBack :: "QuerySelector \<Rightarrow> SubscriptionQueryObj \<Rightarrow> SubscriptionQueryObj" where
  "selectorsPushBack s q = q\<lparr>sq_selectors := sq_selectors q @ [s]\<rparr>"

definition containerType :: "string \<Rightarrow> QuerySelector" where
  "containerType typeFilterFlag = \<lparr>qs_selectorKey = ''containerType'', qs_selectorValue = typeFilterFlag\<rparr>"

definition transform_with_type :: "string \<Rightarrow> SubscriptionQueryObj list \<Rightarrow> string list" where
  "transform_with_type typeFilterFlag queries =
     map (\<lambda>q. SubscriptionQueryObj_toSubscriptionQueryString (selectorsPushBack (containerType typeFilterFlag) q)) queries"

definition build_query ::
    "('e \<Rightarrow> 't list) \<Rightarrow> ('e \<Rightarrow> string list) \<Rightarrow> ('t \<Rightarrow> string) \<Rightarrow> 'e \<Rightarrow> 't \<Rightarrow> string \<Rightarrow> (exn, string) result" where
  "build_query allowed path selectorName eventType selectorType selectorId =
     (if selectorType \<in> set (allowed eventType)
      then Inr (SubscriptionQueryObj_toSubscriptionQueryString
        \<lparr>sq_channelPath = path eventType,
         sq_selectors = [\<lparr>qs_selectorKey = selectorName selectorType, qs_selectorValue = selectorId\<rparr>]\<rparr>)
      else Inl (CoreExn InvalidParamsException))"

text \<open>
  The subscriptions of a module's interface: the ids, also the empty ones of channels the Bridge did
  not answer, go to the listener the module registered with the event middleware.
\<close>

record ('s, 'ev, 'cb) module_state =
  md_api :: "('s, 'ev) api_state"
  md_middleware :: "'cb EventMiddleware"
  md_notificationListenerId :: int

definition on_api :: "(exn, ('s, 'ev) api_state, 'a) op \<Rightarrow> (exn, ('s, 'ev, 'cb) module_state, 'a) op" where
  "on_api m st = (case m (md_api st) of (r, a) \<Rightarrow> (r, st\<lparr>md_api := a\<rparr>))"

definition module_subscribeFor ::
    "('s, 'ev) subscriber_impl \<Rightarrow> 's channel_server \<Rightarrow> string list \<Rightarrow> (exn, ('s, 'ev, 'cb) module_state, string list) op" where
  "module_subscribeFor impl sv subscriptionQueries =
     bindS (on_api (Subscriber_subscribeFor impl sv subscriptionQueries False)) (\<lambda>result st.
     (Inr result, st\<lparr>md_middleware := EventMiddleware_addSubscriptionIds (md_notificationListenerId st) result (md_middleware st)\<rparr>))"

definition module_unsubscribeFrom ::
    "(string list \<Rightarrow> string \<Rightarrow> string list) \<Rightarrow> 's channel_server \<Rightarrow> string list \<Rightarrow> (exn, ('s, 'ev, 'cb) module_state, unit) op" where
  "module_unsubscribeFrom residue sv subscriptionIds =
     bindS (on_api (Subscriber_unsubscribeFrom sv subscriptionIds)) (\<lambda>_ st.
     (Inr (), st\<lparr>md_middleware :=
        EventMiddleware_removeSubscriptionIds residue (md_notificationListenerId st) subscriptionIds (md_middleware st)\<rparr>))"

subsection \<open>Splitting what was joined\<close>

lemma while_clean: "c \<notin> set s \<Longrightarrow> takeWhile (\<lambda>y. y \<noteq> c) (s @ c # r) = s" "c \<notin> set s \<Longrightarrow> dropWhile (\<lambda>y. y \<noteq> c) (s @ c # r) = c # r"
  by (induction s) auto

lemma split_clean: "s \<noteq> [] \<Longrightarrow> c \<notin> set s \<Longrightarrow> Utils_split_char c s = [s]"
proof -
  assume "s \<noteq> []" and c: "c \<notin> set s"
  then obtain x t where s: "s = x # t" by (cases s) auto
  have "takeWhile (\<lambda>y. y \<noteq> c) (x # t) = x # t" "dropWhile (\<lambda>y. y \<noteq> c) (x # t) = []"
    using c unfolding s by (auto simp: takeWhile_eq_all_conv dropWhile_eq_Nil_conv)
  then show ?thesis by (simp only: s Utils_split_char.simps list.case)
qed

lemma split_at_sep: "c \<notin> set s \<Longrightarrow> Utils_split_char c (s @ c # r) = s # Utils_split_char c r"
  using while_clean [of c s r] by (cases s) (auto simp: Utils_split_char.simps(2) simp del: takeWhile.simps dropWhile.simps)

lemma butlast_joined: "butlast (concat (map (\<lambda>p. p @ [c]) (ps @ [p]))) = concat (map (\<lambda>p. p @ [c]) ps) @ p"
  by (simp add: butlast_append)

lemma split_joined:
  assumes "\<forall>p \<in> set ps. p \<noteq> [] \<and> c \<notin> set p"
  shows "Utils_split_char c (butlast (concat (map (\<lambda>p. p @ [c]) ps))) = ps"
  using assms
proof (induction ps rule: rev_induct)
  case (snoc p ps)
  have "Utils_split_char c (concat (map (\<lambda>p. p @ [c]) ps) @ p) = ps @ [p]"
    using snoc.prems by (induction ps) (simp_all add: split_clean split_at_sep)
  then show ?case unfolding butlast_joined .
qed simp

subsection \<open>Built queries\<close>

text \<open>An id that contains none of the separators.\<close>

definition clean_id :: "string \<Rightarrow> bool" where
  "clean_id i \<longleftrightarrow> i \<noteq> [] \<and> CHR ''|'' \<notin> set i \<and> CHR '','' \<notin> set i \<and> CHR ''='' \<notin> set i"

abbreviation one_selector :: "string list \<Rightarrow> string \<Rightarrow> string \<Rightarrow> SubscriptionQueryObj" where
  "one_selector path k v \<equiv> \<lparr>sq_channelPath = path, sq_selectors = [\<lparr>qs_selectorKey = k, qs_selectorValue = v\<rparr>]\<rparr>"

lemma print_one_selector:
  "SubscriptionQueryObj_toSubscriptionQueryString (one_selector path k v) =
   butlast (concat (map (\<lambda>p. p @ ''/'') path)) @ CHR ''|'' # k @ CHR ''='' # v"
  by (simp add: SubscriptionQueryObj_toSubscriptionQueryString_def butlast_append)

lemma print_with_type:
  "SubscriptionQueryObj_toSubscriptionQueryString (selectorsPushBack (containerType flag) (one_selector path k v)) =
   SubscriptionQueryObj_toSubscriptionQueryString (one_selector path k v) @ '',containerType='' @ flag"
  by (simp add: SubscriptionQueryObj_toSubscriptionQueryString_def butlast_append selectorsPushBack_def containerType_def)

lemma set_butlast_joined: "x \<in> set (butlast (concat (map (\<lambda>p. p @ ''/'') ps))) \<Longrightarrow> x = CHR ''/'' \<or> (\<exists>p \<in> set ps. x \<in> set p)"
  by (drule in_set_butlastD) (auto split: if_splits)

text \<open>An id may end in separators that reading the query drops again.\<close>

lemma parse_built:
  assumes "\<forall>p \<in> set path. p \<noteq> [] \<and> CHR ''/'' \<notin> set p \<and> CHR ''|'' \<notin> set p" and "clean_id k" and "clean_id i"
    and "tail \<in> {[], ''='', '','', ''|''}"
  shows "SubscriptionQueryObj_parse (SubscriptionQueryObj_toSubscriptionQueryString (one_selector path k (i @ tail))) =
    Inr (one_selector path k i)"
proof -
  let ?path = "butlast (concat (map (\<lambda>p. p @ ''/'') path))"
  have bar: "CHR ''|'' \<notin> set ?path" using assms(1) set_butlast_joined by fastforce
  have path: "Utils_split_char CHR ''/'' ?path = path" by (rule split_joined) (use assms(1) in auto)
  define body where "body = k @ CHR ''='' # i"
  have k: "CHR ''='' \<notin> set k" "CHR '','' \<notin> set k" "CHR ''|'' \<notin> set k" and i: "CHR ''='' \<notin> set i" "CHR '','' \<notin> set i" "CHR ''|'' \<notin> set i"
      "i \<noteq> []" using assms(2,3) by (auto simp: clean_id_def)
  have body: "body \<noteq> []" "CHR ''|'' \<notin> set body" "CHR '','' \<notin> set body" using k i by (auto simp: body_def)
  have eq: "Utils_split_char CHR ''='' body = [k, i]" "Utils_split_char CHR ''='' (body @ ''='') = [k, i]"
    using k i split_at_sep [of "CHR ''=''" k] split_at_sep [of "CHR ''=''" i "[]"] by (simp_all add: body_def split_clean)
  have sels: "parse_selectors (Utils_split_char CHR '','' body) = Inr [\<lparr>qs_selectorKey = k, qs_selectorValue = i\<rparr>]"
      "parse_selectors (Utils_split_char CHR '','' (body @ ''='')) = Inr [\<lparr>qs_selectorKey = k, qs_selectorValue = i\<rparr>]"
      "parse_selectors (Utils_split_char CHR '','' (body @ '','')) = Inr [\<lparr>qs_selectorKey = k, qs_selectorValue = i\<rparr>]"
    using body eq split_at_sep [of "CHR '',''" body "[]"] by (simp_all add: split_clean)
  have "Utils_split_char CHR ''|'' (?path @ CHR ''|'' # body @ tail) =
      ?path # (if tail = ''|'' then [body] else [body @ tail])"
    using assms(4) body split_at_sep [OF bar, of "body @ tail"] split_at_sep [of "CHR ''|''" body "[]"] by (auto simp: split_clean)
  then show ?thesis
    using assms(4) sels path by (auto simp: SubscriptionQueryObj_parse_def print_one_selector body_def)
qed

subsection \<open>Registered subscriptions\<close>

lemma take_subscription_Some:
  "take_subscription channel subs = Some (s, rest) \<Longrightarrow> sub_channel s = channel \<and> mset subs = add_mset s (mset rest)"
  by (induction subs arbitrary: rest) (auto split: if_splits)

lemma take_subscription_None: "take_subscription channel subs = None \<longleftrightarrow> channel \<notin> sub_channel ` set subs"
  by (induction subs) auto

text \<open>When the Bridge answers every channel with an id of its own, these ids are returned in order and registered.\<close>

lemma assign_subscriptions_answered:
  assumes "mset (map sub_channel subs) = mset channels" and "distinct (map sub_subscriptionId subs)"
  obtains ids queries where "assign_subscriptions channels subs q0 = (ids, queries)" and "length ids = length channels"
    and "mset ids = mset (map sub_subscriptionId subs)" and "\<forall>k < length channels. map_of queries (ids ! k) = Some (channels ! k)"
    and "\<forall>i. i \<notin> set ids \<longrightarrow> map_of queries i = map_of q0 i"
  using assms
proof (induction channels arbitrary: subs q0 thesis)
  case Nil
  show ?case by (rule Nil(1) [of "[]" q0]) (use Nil(2) in simp_all)
next
  case (Cons channel channels)
  have "channel \<in> sub_channel ` set subs" using Cons.prems(2) by (metis list.set_intros(1) set_map set_mset_mset)
  then obtain s rest where s: "take_subscription channel subs = Some (s, rest)"
    by (metis take_subscription_None not_None_eq surj_pair)
  note t = take_subscription_Some [OF s]
  have sub: "mset (map sub_channel rest) = mset channels"
  proof -
    have "mset (map sub_channel subs) = add_mset channel (mset (map sub_channel rest))" using t by simp
    then show ?thesis using Cons.prems(2) by simp
  qed
  have ids: "mset (map sub_subscriptionId subs) = add_mset (sub_subscriptionId s) (mset (map sub_subscriptionId rest))"
    using t by simp
  then have dist: "distinct (map sub_subscriptionId rest)" "sub_subscriptionId s \<notin> set (map sub_subscriptionId rest)"
    using Cons.prems(3) mset_eq_imp_distinct_iff [of "map sub_subscriptionId subs" "sub_subscriptionId s # map sub_subscriptionId rest"] by auto
  obtain us queries where r: "assign_subscriptions channels rest (alist_set (sub_subscriptionId s) (sub_channel s) q0) = (us, queries)"
      "length us = length channels" "mset us = mset (map sub_subscriptionId rest)"
      "\<forall>k < length channels. map_of queries (us ! k) = Some (channels ! k)"
      "\<forall>i. i \<notin> set us \<longrightarrow> map_of queries i = map_of (alist_set (sub_subscriptionId s) (sub_channel s) q0) i"
    using Cons.IH [OF _ sub dist(1), of "alist_set (sub_subscriptionId s) (sub_channel s) q0"] by blast
  have new: "sub_subscriptionId s \<notin> set us" using dist(2) mset_eq_setD [OF r(3)] by simp
  show ?case
  proof (rule Cons.prems(1) [of "sub_subscriptionId s # us" queries])
    show "assign_subscriptions (channel # channels) subs q0 = (sub_subscriptionId s # us, queries)" by (simp add: s r(1))
    show "mset (sub_subscriptionId s # us) = mset (map sub_subscriptionId subs)" using ids r(3) by simp
    show "\<forall>k < length (channel # channels). map_of queries ((sub_subscriptionId s # us) ! k) = Some ((channel # channels) ! k)"
      using r(4,5) new t by (auto simp: nth_Cons split: nat.splits)
    show "length (sub_subscriptionId s # us) = length (channel # channels)" using r(2) by simp
    show "\<forall>i. i \<notin> set (sub_subscriptionId s # us) \<longrightarrow> map_of queries i = map_of q0 i" using r(5) by simp
  qed
qed

lemma map_of_filter_keys: "map_of (filter (\<lambda>(i, _). i \<notin> A) kvs) i = (if i \<in> A then None else map_of kvs i)"
  by (induction kvs) auto

lemma getSubscriptionQuery_registered:
  "Subscriber_getSubscriptionQuery queries ids \<noteq> None \<longleftrightarrow> (\<exists>i \<in> set ids. map_of queries i \<noteq> None)"
  by (auto simp: Subscriber_getSubscriptionQuery_def find_None_iff find_Some_iff split: option.splits)

subsection \<open>Modules\<close>

text \<open>
  What the tables of a module guarantee: the paths have two or three parts that start with the module's
  name, and no name contains a separator. An accepted query is printed for the Bridge, with a suffix for the type of the container.
\<close>

locale query_module =
  fixes path :: "'e \<Rightarrow> string list" and selectorName :: "'t \<Rightarrow> string" and moduleName :: string
    and impl :: "('s, 'ev) subscriber_impl" and e :: exn and channel :: "SubscriptionQueryObj \<Rightarrow> string" and suffix :: string
  assumes path_length: "length (path x) = 2 \<or> length (path x) = 3"
    and path_module: "path x ! 0 = moduleName"
    and path_clean: "p \<in> set (path x) \<Longrightarrow> p \<noteq> [] \<and> CHR ''/'' \<notin> set p \<and> CHR ''|'' \<notin> set p"
    and selector_clean: "clean_id (selectorName y)"
    and impl_assert: "si_assertQuery impl = assert_module_query moduleName e"
    and impl_transform: "si_transform impl qs st = ret (map channel qs) st"
    and channel_print: "channel (one_selector ps k v) = SubscriptionQueryObj_toSubscriptionQueryString (one_selector ps k v) @ suffix"
begin

lemma built_parsed:
  assumes "build_query allowed path selectorName x y (i @ tail) = Inr q" and "clean_id i" and "tail \<in> {[], ''='', '','', ''|''}"
  shows "SubscriptionQueryObj_parse q = Inr (one_selector (path x) (selectorName y) i)"
  using assms parse_built [of "path x" "selectorName y" i tail] path_clean selector_clean
  by (auto simp: build_query_def split: if_splits)

lemma built_channel:
  assumes "build_query allowed path selectorName x y i = Inr q"
  shows "channel (one_selector (path x) (selectorName y) i) = q @ suffix"
  using assms by (auto simp: build_query_def channel_print split: if_splits)

lemma parsed_accepted:
  assumes "list_all2 (\<lambda>(x, y, i) p. p = one_selector (path x) (selectorName y) i) wanted ps"
  shows "si_assertQuery impl ps = Inr ()"
proof -
  have form: "\<exists>x y i. p = one_selector (path x) (selectorName y) i" if "p \<in> set ps" for p
    using that assms by (auto simp: list_all2_conv_all_nth in_set_conv_nth case_prod_beta)
  have "length (sq_selectors p) = 1 \<and> length (sq_channelPath p) \<ge> 2 \<and> length (sq_channelPath p) \<le> 3 \<and> sq_channelPath p ! 0 = moduleName"
    if p: "p \<in> set ps" for p
  proof -
    obtain x y i where "p = one_selector (path x) (selectorName y) i" using form [OF p] by blast
    then show ?thesis using path_length [of x] path_module [of x] by auto
  qed
  then show ?thesis by (auto simp: impl_assert assert_module_query_def not_less)
qed

lemma built_queries_parsed:
  assumes "list_all2 (\<lambda>(x, y, i) q. clean_id i \<and> build_query allowed path selectorName x y i = Inr q) wanted queries"
  shows "\<exists>ps. parse_queries queries = Inr ps \<and> list_all2 (\<lambda>(x, y, i) p. p = one_selector (path x) (selectorName y) i) wanted ps \<and>
    map channel ps = map (\<lambda>q. q @ suffix) queries"
  using assms
proof (induction rule: list_all2_induct)
  case (Cons w wanted q queries)
  obtain x y i where w: "w = (x, y, i)" by (cases w)
  have "SubscriptionQueryObj_parse q = Inr (one_selector (path x) (selectorName y) i)"
    using built_parsed [of allowed x y i "[]" q] Cons(1) by (simp add: w)
  then show ?case
    using Cons built_channel [of allowed x y i q] by (auto simp: w)
qed simp

text \<open>
  Subscribing to built queries, when the Bridge answers each channel with an id of its own: the ids
  come back in order, they are registered, and the module's listener follows them.
\<close>

lemma subscribed_in_order:
  assumes "list_all2 (\<lambda>(x, y, i) q. clean_id i \<and> build_query allowed path selectorName x y i = Inr q) wanted queries"
    and "channels = map (\<lambda>q. q @ suffix) queries"
    and "cs_subscribeToChannels sv channels (as_server (md_api st)) = (Inr subs, s)"
    and "mset (map sub_channel subs) = mset channels" and "distinct (map sub_subscriptionId subs)"
  obtains ids api where
    "module_subscribeFor impl sv queries st = (Inr ids, st\<lparr>md_api := api,
       md_middleware := EventMiddleware_addSubscriptionIds (md_notificationListenerId st) ids (md_middleware st)\<rparr>)"
    and "length ids = length queries" and "mset ids = mset (map sub_subscriptionId subs)"
    and "\<forall>k < length queries. map_of (as_subscriptions api) (ids ! k) = Some (channels ! k)"
    and "\<forall>i. i \<notin> set ids \<longrightarrow> map_of (as_subscriptions api) i = map_of (as_subscriptions (md_api st)) i"
proof -
  obtain ps where ps: "parse_queries queries = Inr ps" "map channel ps = channels"
      "si_assertQuery impl ps = Inr ()"
    using built_queries_parsed [OF assms(1)] parsed_accepted assms(2) by blast
  obtain ids table where ids: "assign_subscriptions channels subs (as_subscriptions (md_api st)) = (ids, table)"
      "length ids = length channels" "mset ids = mset (map sub_subscriptionId subs)"
      "\<forall>k < length channels. map_of table (ids ! k) = Some (channels ! k)"
      "\<forall>i. i \<notin> set ids \<longrightarrow> map_of table i = map_of (as_subscriptions (md_api st)) i"
    by (rule assign_subscriptions_answered [OF assms(4,5)])
  let ?api = "(md_api st)\<lparr>as_server := s, as_subscriptions := table\<rparr>"
  have "Subscriber_subscribeFor impl sv queries False (md_api st) = (Inr ids, ?api)"
    by (simp add: Subscriber_subscribeFor_def bindS_liftR ps(1,3))
      (simp add: bindS_def impl_transform ret_def ps(2) requesting_def assms(3) ids(1))
  then have "module_subscribeFor impl sv queries st = (Inr ids, st\<lparr>md_api := ?api,
      md_middleware := EventMiddleware_addSubscriptionIds (md_notificationListenerId st) ids (md_middleware st)\<rparr>)"
    by (simp add: module_subscribeFor_def bindS_def on_api_def)
  then show thesis using that [of ids ?api] ids(2-5) assms(2) by simp
qed

end

text \<open>Which notifications reach a listener.\<close>

definition delivers :: "NotificationEvent \<Rightarrow> ('s, 'ev, 'cb) module_state \<Rightarrow> bool" where
  "delivers n st \<longleftrightarrow>
     (\<exists>f. (md_notificationListenerId st, f) \<in> set (EventMiddleware_emitNotificationEvent n (md_middleware st))) \<and>
     Subscriber_getSubscriptionQuery (as_subscriptions (md_api st)) (ne_subscriptions n) \<noteq> None"

lemma ordered_distinct: "ordered kvs \<Longrightarrow> distinct (map fst kvs)"
  by (induction kvs) (fastforce simp: ordered_Cons)+

lemma emitted_iff:
  assumes "map_of (em_notificationsListeners em) i = Some (Some f, subs)" and "ordered (em_notificationsListeners em)"
  shows "(\<exists>g. (i, g) \<in> set (EventMiddleware_emitNotificationEvent n em)) \<longleftrightarrow> set (ne_subscriptions n) \<inter> set subs \<noteq> {}"
proof -
  have one: "l = (Some f, subs)" if "(i, l) \<in> set (em_notificationsListeners em)" for l
    using that assms by (metis map_of_eq_Some_iff option.inject ordered_distinct)
  have i: "(i, Some f, subs) \<in> set (em_notificationsListeners em)" using assms(1) by (rule map_of_SomeD)
  have "(\<exists>g. (i, g) \<in> set (EventMiddleware_emitNotificationEvent n em)) \<longleftrightarrow>
      (\<exists>g l. (i, l) \<in> set (em_notificationsListeners em) \<and> (i, g) \<in> set (notify_listener (ne_subscriptions n) i l))"
    by (auto simp: EventMiddleware_emitNotificationEvent_def ThreadSaveMap_forAll_def dest: notify_listener_number) blast
  also have "\<dots> \<longleftrightarrow> (\<exists>g. (i, g) \<in> set (notify_listener (ne_subscriptions n) i (Some f, subs)))" using one i by blast
  also have "\<dots> \<longleftrightarrow> set (ne_subscriptions n) \<inter> set subs \<noteq> {}" by (simp add: notify_listener_eq)
  finally show ?thesis .
qed

lemma delivers_iff:
  assumes "map_of (em_notificationsListeners (md_middleware st)) (md_notificationListenerId st) = Some (Some f, subs)"
    and "ordered (em_notificationsListeners (md_middleware st))"
  shows "delivers n st \<longleftrightarrow> set (ne_subscriptions n) \<inter> set subs \<noteq> {} \<and> (\<exists>i \<in> set (ne_subscriptions n). map_of (as_subscriptions (md_api st)) i \<noteq> None)"
  using emitted_iff [OF assms, of n] getSubscriptionQuery_registered [of "as_subscriptions (md_api st)" "ne_subscriptions n"]
  unfolding delivers_def by simp

definition followed :: "('s, 'ev, 'cb) module_state \<Rightarrow> string list" where
  "followed st = (case map_of (em_notificationsListeners (md_middleware st)) (md_notificationListenerId st) of
     None \<Rightarrow> [] | Some (_, subs) \<Rightarrow> subs)"

text \<open>A module whose listener is registered.\<close>

definition listening :: "('s, 'ev, 'cb) module_state \<Rightarrow> bool" where
  "listening st \<longleftrightarrow> ordered (em_notificationsListeners (md_middleware st)) \<and>
     (\<exists>f subs. map_of (em_notificationsListeners (md_middleware st)) (md_notificationListenerId st) = Some (Some f, subs))"

lemma delivers_followed:
  assumes "listening st"
  shows "delivers n st \<longleftrightarrow> set (ne_subscriptions n) \<inter> set (followed st) \<noteq> {} \<and>
    (\<exists>i \<in> set (ne_subscriptions n). map_of (as_subscriptions (md_api st)) i \<noteq> None)"
  using assms delivers_iff unfolding listening_def followed_def by fastforce

lemma add_followed:
  assumes "listening st"
  shows "listening (st\<lparr>md_api := api, md_middleware := EventMiddleware_addSubscriptionIds (md_notificationListenerId st) ids (md_middleware st)\<rparr>)"
    and "followed (st\<lparr>md_api := api, md_middleware := EventMiddleware_addSubscriptionIds (md_notificationListenerId st) ids (md_middleware st)\<rparr>)
      = followed st @ ids"
  using assms by (auto simp: listening_def followed_def EventMiddleware_addSubscriptionIds_def ThreadSaveMap_updateValueIfExist_def)

lemma remove_followed:
  assumes "listening st"
  shows "listening (st\<lparr>md_api := api, md_middleware := EventMiddleware_removeSubscriptionIds residue (md_notificationListenerId st) ids (md_middleware st)\<rparr>)"
    and "followed (st\<lparr>md_api := api, md_middleware := EventMiddleware_removeSubscriptionIds residue (md_notificationListenerId st) ids (md_middleware st)\<rparr>)
      = remove_subscriptions residue ids (followed st)"
  using assms by (auto simp: listening_def followed_def EventMiddleware_removeSubscriptionIds_def ThreadSaveMap_updateValueIfExist_def)

text \<open>Taking back subscriptions restores what the module was told before.\<close>

lemma unsubscribed_restores:
  assumes "listening st" and "distinct ids" and "set ids \<inter> set (followed st) = {}"
    and "set ids \<inter> fst ` set (as_subscriptions (md_api st)) = {}"
    and "\<forall>i. i \<notin> set ids \<longrightarrow> map_of (as_subscriptions api) i = map_of (as_subscriptions (md_api st)) i"
    and "cs_unsubscribeFromChannels sv ids (as_server api) = (Inr (), s)"
  shows "\<exists>st'. module_unsubscribeFrom residue sv ids (st\<lparr>md_api := api,
      md_middleware := EventMiddleware_addSubscriptionIds (md_notificationListenerId st) ids (md_middleware st)\<rparr>) = (Inr (), st') \<and>
    (\<forall>n. delivers n st' \<longleftrightarrow> delivers n st)"
proof -
  let ?st = "st\<lparr>md_api := api, md_middleware := EventMiddleware_addSubscriptionIds (md_notificationListenerId st) ids (md_middleware st)\<rparr>"
  let ?api = "api\<lparr>as_server := s, as_subscriptions := filter (\<lambda>(i, _). i \<notin> set ids) (as_subscriptions api)\<rparr>"
  let ?st' = "?st\<lparr>md_api := ?api, md_middleware := EventMiddleware_removeSubscriptionIds residue (md_notificationListenerId ?st) ids (md_middleware ?st)\<rparr>"
  have run: "module_unsubscribeFrom residue sv ids ?st = (Inr (), ?st')"
    by (simp add: module_unsubscribeFrom_def bindS_def on_api_def Subscriber_unsubscribeFrom_def requesting_def assms(6))
  have "mset (followed ?st') = mset (followed st)"
    unfolding remove_followed(2) [OF add_followed(1) [OF assms(1)]] add_followed(2) [OF assms(1)] remove_subscriptions_mset [OF assms(2)] by simp
  then have subs: "set (followed ?st') = set (followed st)" by (rule mset_eq_setD)
  have "map_of (as_subscriptions ?api) i = map_of (as_subscriptions (md_api st)) i" for i
  proof (cases "i \<in> set ids")
    case True
    then have "map_of (as_subscriptions (md_api st)) i = None" using assms(4) by (auto simp: map_of_eq_None_iff)
    then show ?thesis using True by (simp add: map_of_filter_keys)
  qed (use assms(5) in \<open>simp add: map_of_filter_keys\<close>)
  then have "delivers n ?st' \<longleftrightarrow> delivers n st" for n
    unfolding delivers_followed [OF remove_followed(1) [OF add_followed(1) [OF assms(1)]]] delivers_followed [OF assms(1)] subs by simp
  then show ?thesis using run by blast
qed

context query_module
begin

lemma subscription_cycle:
  assumes "list_all2 (\<lambda>(x, y, i) q. clean_id i \<and> build_query allowed path selectorName x y i = Inr q) wanted queries"
    and "channels = map (\<lambda>q. q @ suffix) queries"
    and "cs_subscribeToChannels sv channels (as_server (md_api st)) = (Inr subs, s)"
    and "mset (map sub_channel subs) = mset channels" and "distinct (map sub_subscriptionId subs)"
    and "listening st"
    and "set (map sub_subscriptionId subs) \<inter> (set (followed st) \<union> fst ` set (as_subscriptions (md_api st))) = {}"
    and "\<And>ids s. cs_unsubscribeFromChannels sv ids s = (Inr (), unsubscribed ids s)"
  shows "\<exists>ids st'. module_subscribeFor impl sv queries st = (Inr ids, st') \<and> length ids = length queries \<and>
    mset ids = mset (map sub_subscriptionId subs) \<and>
    (\<forall>k < length queries. Subscriber_getSubscriptionQuery (as_subscriptions (md_api st')) [ids ! k] = Some (channels ! k) \<and>
       (\<forall>n. ids ! k \<in> set (ne_subscriptions n) \<longrightarrow> delivers n st')) \<and>
    (\<exists>st''. module_unsubscribeFrom residue sv ids st' = (Inr (), st'') \<and> (\<forall>n. delivers n st'' \<longleftrightarrow> delivers n st))"
proof -
  obtain ids api where run: "module_subscribeFor impl sv queries st = (Inr ids, st\<lparr>md_api := api,
       md_middleware := EventMiddleware_addSubscriptionIds (md_notificationListenerId st) ids (md_middleware st)\<rparr>)"
    and len: "length ids = length queries" and ids: "mset ids = mset (map sub_subscriptionId subs)"
    and tab: "\<forall>k < length queries. map_of (as_subscriptions api) (ids ! k) = Some (channels ! k)"
      "\<forall>i. i \<notin> set ids \<longrightarrow> map_of (as_subscriptions api) i = map_of (as_subscriptions (md_api st)) i"
    by (rule subscribed_in_order [OF assms(1-5)])
  let ?st = "st\<lparr>md_api := api, md_middleware := EventMiddleware_addSubscriptionIds (md_notificationListenerId st) ids (md_middleware st)\<rparr>"
  have set: "set ids = set (map sub_subscriptionId subs)" using ids by (rule mset_eq_setD)
  have dist: "distinct ids" using assms(5) ids mset_eq_imp_distinct_iff by blast
  have "delivers n ?st" if "k < length queries" "ids ! k \<in> set (ne_subscriptions n)" for k n
  proof -
    have "ids ! k \<in> set ids" "map_of (as_subscriptions api) (ids ! k) \<noteq> None" using that len tab(1) by auto
    then show ?thesis
      unfolding delivers_followed [OF add_followed(1) [OF assms(6)]] add_followed(2) [OF assms(6)]
      using that(2) by fastforce
  qed
  moreover have "Subscriber_getSubscriptionQuery (as_subscriptions api) [ids ! k] = Some (channels ! k)" if "k < length queries" for k
    using tab(1) that by (simp add: Subscriber_getSubscriptionQuery_def)
  moreover have "\<exists>st''. module_unsubscribeFrom residue sv ids ?st = (Inr (), st'') \<and> (\<forall>n. delivers n st'' \<longleftrightarrow> delivers n st)"
    by (rule unsubscribed_restores [OF assms(6) dist _ _ tab(2) assms(8)]) (use assms(7) set in auto)
  ultimately show ?thesis unfolding run using len ids by auto
qed

text \<open>A separator at the end of an id disappears when the query is read.\<close>

lemma separator_dropped:
  assumes "clean_id i" and "tail \<in> {''='', '','', ''|''}"
    and "build_query allowed path selectorName x y i = Inr q" and "build_query allowed path selectorName x y (i @ tail) = Inr q'"
  shows "q' = q @ tail" and "module_subscribeFor impl sv [q'] st = module_subscribeFor impl sv [q] st"
proof -
  show "q' = q @ tail" using assms(3,4) by (auto simp: build_query_def print_one_selector split: if_splits)
  have "SubscriptionQueryObj_parse q = SubscriptionQueryObj_parse q'"
    using built_parsed [of allowed x y i "[]" q] built_parsed [OF assms(4,1)] assms by auto
  then show "module_subscribeFor impl sv [q'] st = module_subscribeFor impl sv [q] st"
    by (simp add: module_subscribeFor_def Subscriber_subscribeFor_def)
qed

end

subsection \<open>A Bridge for concrete evaluations\<close>

text \<open>It answers in reverse order, with the channel itself as the id.\<close>

definition sample_channel_server :: "unit channel_server" where
  "sample_channel_server =
     \<lparr>cs_subscribeToChannels = (\<lambda>channels s. (Inr (map (\<lambda>c. \<lparr>sub_channel = c, sub_subscriptionId = c\<rparr>) (rev channels)), s)),
      cs_unsubscribeFromChannels = (\<lambda>ids s. (Inr (), s))\<rparr>"

definition sample_module_state :: "(unit, unit, unit) module_state" where
  "sample_module_state =
     \<lparr>md_api = \<lparr>as_cache = ContainerKeyCache_new, as_draws = 0, as_server = (), as_events = [], as_subscriptions = []\<rparr>,
      md_middleware = snd (EventMiddleware_addNotificationEventListener (Some ()) (EventMiddleware_new 1)), md_notificationListenerId = 0\<rparr>"

lemma sample_module_listening: "listening sample_module_state" "followed sample_module_state = []"
  by (simp_all add: listening_def followed_def sample_module_state_def EventMiddleware_addNotificationEventListener_def
      EventMiddleware_new_def ThreadSaveMap_set_def ordered_def)

definition sample_notification :: "string \<Rightarrow> NotificationEvent" where
  "sample_notification i = \<lparr>ne_type = ''t'', ne_data = JEmpty, ne_version = 1, ne_timestamp = 0, ne_subscriptions = [i]\<rparr>"

end
