(* ===== verification/Core_ContextSubscriber.thy ===== *)
theory Core_ContextSubscriber
  imports Core_Subscriber
begin

text \<open>
  Subscriptions of the connection to the users of a context (\<open>endpoint/core/src/SubscriberImpl.cpp\<close>,
  \<open>ConnectionImpl.cpp\<close>) and of the event interface to custom channels
  (\<open>endpoint/event/src/SubscriberImpl.cpp\<close>).
\<close>

subsection \<open>Contexts\<close>

datatype context_EventType = USER_ADD | USER_REMOVE | USER_STATUS

datatype context_EventSelectorType = context_CONTEXT_ID

fun context_selectorTypeNames :: "context_EventSelectorType \<Rightarrow> string" where
  "context_selectorTypeNames context_CONTEXT_ID = ''contextId''"

fun context_eventTypeNames :: "context_EventType \<Rightarrow> string" where
  "context_eventTypeNames USER_ADD = ''userAdded''"
| "context_eventTypeNames USER_REMOVE = ''userRemoved''"
| "context_eventTypeNames USER_STATUS = ''userStatus''"

fun context_eventTypeAllowedSelectorTypes :: "context_EventType \<Rightarrow> context_EventSelectorType list" where
  "context_eventTypeAllowedSelectorTypes USER_ADD = [context_CONTEXT_ID]"
| "context_eventTypeAllowedSelectorTypes USER_REMOVE = [context_CONTEXT_ID]"
| "context_eventTypeAllowedSelectorTypes USER_STATUS = [context_CONTEXT_ID]"

definition context_getChannelPath :: "context_EventType \<Rightarrow> string list" where
  "context_getChannelPath eventType = [''context'', context_eventTypeNames eventType]"

definition context_buildQuery :: "context_EventType \<Rightarrow> context_EventSelectorType \<Rightarrow> string \<Rightarrow> (exn, string) result" where
  "context_buildQuery = build_query context_eventTypeAllowedSelectorTypes context_getChannelPath context_selectorTypeNames"

definition context_transform :: "SubscriptionQueryObj list \<Rightarrow> string list" where
  "context_transform queries = map SubscriptionQueryObj_toSubscriptionQueryString queries"

definition context_assertQuery :: "SubscriptionQueryObj list \<Rightarrow> (exn, unit) result" where
  "context_assertQuery = assert_module_query ''context'' (CoreExn core_InvalidSubscriptionQueryException)"

definition context_subscriber :: "('s, 'ev) subscriber_impl" where
  "context_subscriber = \<lparr>si_assertQuery = context_assertQuery, si_transform = (\<lambda>qs. ret (context_transform qs))\<rparr>"

definition ConnectionImpl_subscribeFor ::
    "'s channel_server \<Rightarrow> string list \<Rightarrow> (exn, ('s, 'ev, 'cb) module_state, string list) op" where
  "ConnectionImpl_subscribeFor = module_subscribeFor context_subscriber"

definition ConnectionImpl_unsubscribeFrom ::
    "(string list \<Rightarrow> string \<Rightarrow> string list) \<Rightarrow> 's channel_server \<Rightarrow> string list \<Rightarrow> (exn, ('s, 'ev, 'cb) module_state, unit) op" where
  "ConnectionImpl_unsubscribeFrom = module_unsubscribeFrom"

interpretation context_queries: query_module context_getChannelPath context_selectorTypeNames "''context''" context_subscriber
    "CoreExn core_InvalidSubscriptionQueryException" SubscriptionQueryObj_toSubscriptionQueryString "[]"
proof
  show "p \<in> set (context_getChannelPath x) \<Longrightarrow> p \<noteq> [] \<and> CHR ''/'' \<notin> set p \<and> CHR ''|'' \<notin> set p" for x p
    by (cases x) (auto simp: context_getChannelPath_def)
  show "clean_id (context_selectorTypeNames y)" for y by (cases y) (simp add: clean_id_def)
qed (simp_all add: context_getChannelPath_def context_subscriber_def context_assertQuery_def context_transform_def)

subsection \<open>Custom events\<close>

datatype event_EventSelectorType = event_CONTEXT_ID

fun event_selectorTypeNames :: "event_EventSelectorType \<Rightarrow> string" where
  "event_selectorTypeNames event_CONTEXT_ID = ''contextId''"

definition event_forbiddenChannelsNames :: "string list" where
  "event_forbiddenChannelsNames = [''internal'']"

definition event_getChannelPath :: "string \<Rightarrow> string list" where
  "event_getChannelPath channelName = [''event'', ''custom'', channelName]"

definition event_buildQuery :: "string \<Rightarrow> event_EventSelectorType \<Rightarrow> string \<Rightarrow> bool \<Rightarrow> (exn, string) result" where
  "event_buildQuery channelName selectorType selectorId enableAllChannelNames =
     (if channelName \<notin> set event_forbiddenChannelsNames \<or> enableAllChannelNames
      then Inr (SubscriptionQueryObj_toSubscriptionQueryString
        (one_selector (event_getChannelPath channelName) (event_selectorTypeNames selectorType) selectorId))
      else Inl (EventExn ForbiddenChannelNameException))"

definition event_transform :: "SubscriptionQueryObj list \<Rightarrow> string list" where
  "event_transform queries =
     map (\<lambda>q. SubscriptionQueryObj_toSubscriptionQueryString (q\<lparr>sq_channelPath := (sq_channelPath q)[0 := ''context'']\<rparr>)) queries"

definition event_assertQuery :: "SubscriptionQueryObj list \<Rightarrow> (exn, unit) result" where
  "event_assertQuery queries =
     (if \<exists>q \<in> set queries. length (sq_selectors q) \<noteq> 1 \<or> length (sq_channelPath q) \<noteq> 3 \<or>
         sq_channelPath q ! 0 \<noteq> ''event'' \<or> sq_channelPath q ! 1 \<noteq> ''custom''
      then Inl (EventExn event_InvalidSubscriptionQueryException) else Inr ())"

definition event_subscriber :: "('s, 'ev) subscriber_impl" where
  "event_subscriber = \<lparr>si_assertQuery = event_assertQuery, si_transform = (\<lambda>qs. ret (event_transform qs))\<rparr>"

definition event_subscribeFor ::
    "'s channel_server \<Rightarrow> string list \<Rightarrow> (exn, ('s, 'ev, 'cb) module_state, string list) op" where
  "event_subscribeFor = module_subscribeFor event_subscriber"

text \<open>
  The channel of the library's own events is not protected. \<open>buildSubscriptionQuery\<close> refuses the name
  \<open>internal\<close>, but for the name \<open>internal/\<close> it builds a query that \<open>subscribeFor\<close> sends to the Bridge as exactly
  the channel that the refused query would have named.
\<close>

theorem event_internal_channel_reachable:
  assumes "clean_id contextId"
  shows "event_buildQuery ''internal'' event_CONTEXT_ID contextId False = Inl (EventExn ForbiddenChannelNameException) \<and>
    (\<exists>q q'. event_buildQuery ''internal/'' event_CONTEXT_ID contextId False = Inr q \<and>
       event_buildQuery ''internal'' event_CONTEXT_ID contextId True = Inr q' \<and>
       event_subscribeFor sv [q] st = event_subscribeFor sv [q'] st \<and>
       (\<forall>subs s. cs_subscribeToChannels sv [''context/custom/internal|contextId='' @ contextId] (as_server (md_api st)) = (Inr subs, s) \<longrightarrow>
          (\<exists>ids st'. event_subscribeFor sv [q] st = (Inr ids, st'))))"
proof -
  let ?obj = "one_selector [''event'', ''custom'', ''internal''] ''contextId'' contextId"
  let ?q = "SubscriptionQueryObj_toSubscriptionQueryString (one_selector [''event'', ''custom'', ''internal/''] ''contextId'' contextId)"
  let ?q' = "SubscriptionQueryObj_toSubscriptionQueryString ?obj"
  have c: "CHR ''|'' \<notin> set contextId" "CHR '','' \<notin> set contextId" "CHR ''='' \<notin> set contextId" "contextId \<noteq> []"
    using assms by (auto simp: clean_id_def)
  have q': "SubscriptionQueryObj_parse ?q' = Inr ?obj"
    using parse_built [of "[''event'', ''custom'', ''internal'']" "''contextId''" contextId "[]"] assms by (auto simp: clean_id_def)
  have bar: "CHR ''|'' \<notin> set ''event/custom/internal/''" by simp
  have parts: "Utils_split_char CHR ''|'' ?q = [''event/custom/internal/'', ''contextId='' @ contextId]"
    unfolding print_one_selector using split_at_sep [OF bar, of "''contextId='' @ contextId"] split_clean [of "''contextId='' @ contextId" "CHR ''|''"] c
    by simp
  have path: "Utils_split_char CHR ''/'' ''event/custom/internal/'' = [''event'', ''custom'', ''internal'']"
    using split_at_sep [of "CHR ''/''" "''event''" "''custom/internal/''"] split_at_sep [of "CHR ''/''" "''custom''" "''internal/''"]
      split_at_sep [of "CHR ''/''" "''internal''" "[]"] by simp
  have sel: "parse_selectors (Utils_split_char CHR '','' (''contextId='' @ contextId)) = Inr [\<lparr>qs_selectorKey = ''contextId'', qs_selectorValue = contextId\<rparr>]"
    using split_clean [of "''contextId='' @ contextId" "CHR '',''"] split_at_sep [of "CHR ''=''" "''contextId''" contextId]
      split_clean [of contextId "CHR ''=''"] c by simp
  have q: "SubscriptionQueryObj_parse ?q = Inr ?obj" by (simp add: SubscriptionQueryObj_parse_def parts path sel [simplified])
  have built: "event_buildQuery ''internal/'' event_CONTEXT_ID contextId False = Inr ?q"
      "event_buildQuery ''internal'' event_CONTEXT_ID contextId True = Inr ?q'"
      "event_buildQuery ''internal'' event_CONTEXT_ID contextId False = Inl (EventExn ForbiddenChannelNameException)"
    by (simp_all add: event_buildQuery_def event_forbiddenChannelsNames_def event_getChannelPath_def)
  have same: "event_subscribeFor sv [?q] st = event_subscribeFor sv [?q'] st"
    by (simp add: event_subscribeFor_def module_subscribeFor_def Subscriber_subscribeFor_def q q')
  have chan: "event_transform [?obj] = [''context/custom/internal|contextId='' @ contextId]"
    by (simp add: event_transform_def print_one_selector)
  have ok: "event_assertQuery [?obj] = Inr ()" by (simp add: event_assertQuery_def)
  have "\<exists>ids st'. event_subscribeFor sv [?q'] st = (Inr ids, st')"
    if "cs_subscribeToChannels sv [''context/custom/internal|contextId='' @ contextId] (as_server (md_api st)) = (Inr subs, s)" for subs s
    using that by (simp add: event_subscribeFor_def module_subscribeFor_def bindS_def on_api_def Subscriber_subscribeFor_def liftR_def q'
        event_subscriber_def ok ret_def chan requesting_def split: prod.split)
  then show ?thesis using built same by metis
qed

theorem event_internal_channel_reachable_witness:
  "\<exists>q ids st'. event_buildQuery ''internal/'' event_CONTEXT_ID ''c'' False = Inr q \<and>
     event_subscribeFor sample_channel_server [q] sample_module_state = (Inr ids, st')"
proof -
  have "clean_id ''c''" by (simp add: clean_id_def)
  from event_internal_channel_reachable [OF this, of sample_channel_server sample_module_state] show ?thesis
    by (auto simp: sample_channel_server_def)
qed

end
