(* ===== verification/Event_EventApi.thy ===== *)
theory Event_EventApi
  imports Core_ContextSubscriber Core_ModuleKeys
begin

text \<open>
  Custom events of a context (\<open>endpoint/event\<close>): \<open>EventApiImpl.cpp\<close>, the key for one event and its distribution
  (\<open>EventKeyProvider.cpp\<close>) and the encryptors of the event data, versions 1 and 5. The Bridge's only request
  is a parameter.
\<close>

subsection \<open>Structures\<close>

record UserKey =
  uk_id :: string
  uk_key :: string

record ContextEmitCustomEventModel =
  cem_contextId :: string
  cem_channel :: string
  cem_data :: json
  cem_users :: "UserKey list"

record UserIdentity =
  ui_id :: string
  ui_pub :: string

text \<open>The structure of the Bridge; the application's structure of the same name is \<open>CustomEvent\<close>.\<close>

record ContextCustomEventData =
  cxe_id :: string
  cxe_eventData :: json
  cxe_key :: string
  cxe_author :: UserIdentity

record EncryptedContextEventDataV5 =
  ev5_version :: int
  ev5_encryptedData :: string
  ev5_type :: "string option"
  ev5_dio :: string

record ContextEventDataV5 =
  ce5_data :: bytes
  ce5_type :: "string option"
  ce5_dio :: DataIntegrityObject

record DecryptedEventDataV5 = ContextEventDataV5 +
  de5_dataStructureVersion :: int
  de5_statusCode :: int

record InternalContextEventDataV1 =
  iev_type :: string
  iev_data :: bytes

record DecryptedInternalContextEventDataV1 = InternalContextEventDataV1 +
  die_dataStructureVersion :: int
  die_statusCode :: int

record DecryptedContextEventDataV1 =
  de1_dataStructureVersion :: int
  de1_statusCode :: int
  de1_data :: bytes

record DecryptedEventEncKeyV1 =
  dek_dataStructureVersion :: int
  dek_statusCode :: int
  dek_key :: bytes

record CustomEvent =
  cu_contextId :: string
  cu_userId :: string
  cu_payload :: bytes
  cu_statusCode :: int
  cu_schemaVersion :: int

definition UserIdentity_fromJSON :: "(string \<times> json) list \<Rightarrow> (exn, UserIdentity) result" where
  "UserIdentity_fromJSON ob =
     bindR (deserialize_string (json_get ob ''id'')) (\<lambda>i.
     bindR (deserialize_string (json_get ob ''pub'')) (\<lambda>pub.
     Inr \<lparr>ui_id = i, ui_pub = pub\<rparr>))"

definition ContextCustomEventData_fromJSON :: "(string \<times> json) list \<Rightarrow> (exn, ContextCustomEventData) result" where
  "ContextCustomEventData_fromJSON ob =
     bindR (deserialize_string (json_get ob ''id'')) (\<lambda>i.
     bindR (deserialize_string (json_get ob ''key'')) (\<lambda>key.
     bindR (deserialize_struct UserIdentity_fromJSON (json_get ob ''author'')) (\<lambda>author.
     Inr \<lparr>cxe_id = i, cxe_eventData = json_get ob ''eventData'', cxe_key = key, cxe_author = author\<rparr>)))"

definition EncryptedContextEventDataV5_toJSON :: "EncryptedContextEventDataV5 \<Rightarrow> json" where
  "EncryptedContextEventDataV5_toJSON e = JObject
     (json_put ''dio'' (JString (ev5_dio e))
     (json_put_optional ''type'' (serialize_optional JString (ev5_type e))
     (json_put ''encryptedData'' (JString (ev5_encryptedData e))
     (json_put ''version'' (JInt (ev5_version e)) []))))"

definition EncryptedContextEventDataV5_fromJSON :: "poco_api \<Rightarrow> (string \<times> json) list \<Rightarrow> (exn, EncryptedContextEventDataV5) result" where
  "EncryptedContextEventDataV5_fromJSON p ob =
     bindR (VersionedData_fromJSON p ob) (\<lambda>version.
     bindR (deserialize_string (json_get ob ''encryptedData'')) (\<lambda>encryptedData.
     bindR (deserialize_optional deserialize_string (json_get ob ''type'')) (\<lambda>type.
     bindR (deserialize_string (json_get ob ''dio'')) (\<lambda>dio.
     Inr \<lparr>ev5_version = version, ev5_encryptedData = encryptedData, ev5_type = type, ev5_dio = dio\<rparr>))))"

subsection \<open>Keys of events\<close>

definition EventKeyProvider_generateKey :: "'k core_env \<Rightarrow> nat \<Rightarrow> bytes \<times> nat" where
  "EventKeyProvider_generateKey env draws = (randomBytes (en_crypto env) draws 32, draws + 1)"

definition EventKeyProvider_decryptKey :: "'k core_env \<Rightarrow> 'k \<Rightarrow> string \<Rightarrow> 'k \<Rightarrow> DecryptedEventEncKeyV1" where
  "EventKeyProvider_decryptKey env priv encryptedKey authorPubKey =
     (case EciesEncryptor_decryptFromBase64 env priv encryptedKey (Some authorPubKey) of
        Inr key \<Rightarrow> \<lparr>dek_dataStructureVersion = 1, dek_statusCode = 0, dek_key = key\<rparr>
      | Inl e \<Rightarrow> \<lparr>dek_dataStructureVersion = 1, dek_statusCode = status_of e, dek_key = []\<rparr>)"

definition EventKeyProvider_prepareKeysList :: "'k core_env \<Rightarrow> 'k \<Rightarrow> UserWithPubKey list \<Rightarrow> bytes \<Rightarrow> (exn, UserKey list) result" where
  "EventKeyProvider_prepareKeysList env priv users key =
     mapR (\<lambda>user.
       bindR (PublicKey_fromBase58DER (en_crypto env) (en_ecc env) (up_pubKey user)) (\<lambda>pub.
       Inr \<lparr>uk_id = up_userId user, uk_key = EciesEncryptor_encryptToBase64 env pub key priv\<rparr>)) users"

subsection \<open>Event data\<close>

text \<open>The type of an event is entered among the checksums as it is, without a digest.\<close>

definition event_checksums :: "'k core_env \<Rightarrow> string \<Rightarrow> string option \<Rightarrow> (string \<times> bytes) list" where
  "event_checksums env encryptedData type =
     (let sums = alist_set ''encryptedData'' (sha256 (en_crypto env) (bytes_of encryptedData)) [] in
      case type of None \<Rightarrow> sums | Some t \<Rightarrow> alist_set ''type'' (bytes_of t) sums)"

definition EventDataEncryptorV5_encrypt ::
    "'k core_env \<Rightarrow> ContextEventDataV5 \<Rightarrow> 'k \<Rightarrow> bytes \<Rightarrow> (exn, nat, EncryptedContextEventDataV5) op" where
  "EventDataEncryptorV5_encrypt env eventData authorPrivateKey encryptionKey =
     bindS (DataEncryptorV4_signAndEncryptAndEncode env (ce5_data eventData) authorPrivateKey encryptionKey) (\<lambda>encryptedData.
     bindS (liftR (DIOEncryptorV1_signAndEncode env
       (expanded_dio (ce5_dio eventData) 5 (event_checksums env encryptedData (ce5_type eventData))) authorPrivateKey)) (\<lambda>dio.
     ret \<lparr>ev5_version = 5, ev5_encryptedData = encryptedData, ev5_type = ce5_type eventData, ev5_dio = dio\<rparr>))"

definition EventDataEncryptorV5_assertDataFormat :: "EncryptedContextEventDataV5 \<Rightarrow> (exn, unit) result" where
  "EventDataEncryptorV5_assertDataFormat e =
     (if ev5_version e \<noteq> 5 \<or> ev5_encryptedData e = [] \<or> ev5_dio e = []
      then Inl (EventExn InvalidEncryptedEventDataVersionException) else Inr ())"

definition EventDataEncryptorV5_getDIOAndAssertIntegrity ::
    "'k core_env \<Rightarrow> EncryptedContextEventDataV5 \<Rightarrow> 'k \<Rightarrow> (exn, DataIntegrityObject) result" where
  "EventDataEncryptorV5_getDIOAndAssertIntegrity env e authorPublicKey =
     (let bad = Inl (CoreExn InvalidDataIntegrityObjectChecksumException) in
      bindR (EventDataEncryptorV5_assertDataFormat e) (\<lambda>_.
      bindR (DIOEncryptorV1_decodeAndVerify env (ev5_dio e)) (\<lambda>dio.
      if dio_structureVersion dio \<noteq> 5 \<or> dio_creatorPubKey dio \<noteq> PublicKey_toBase58DER (en_crypto env) (en_ecc env) authorPublicKey then bad else
      bindR (unordered_map_at (dio_fieldChecksums dio) ''encryptedData'') (\<lambda>s.
      if s \<noteq> sha256 (en_crypto env) (bytes_of (ev5_encryptedData e)) then bad else
      case ev5_type e of
        None \<Rightarrow> Inr (DataIntegrityObject.truncate dio)
      | Some type \<Rightarrow>
          bindR (unordered_map_at (dio_fieldChecksums dio) ''type'') (\<lambda>s.
          if s \<noteq> bytes_of type then bad else Inr (DataIntegrityObject.truncate dio))))))"

definition DecryptedEventDataV5_new :: DecryptedEventDataV5 where
  "DecryptedEventDataV5_new =
     \<lparr>ce5_data = [], ce5_type = None, ce5_dio = DataIntegrityObject.truncate empty_dio, de5_dataStructureVersion = 5, de5_statusCode = 0\<rparr>"

definition decrypt_event :: "'k core_env \<Rightarrow> EncryptedContextEventDataV5 \<Rightarrow> 'k \<Rightarrow> bytes \<Rightarrow> (exn, DecryptedEventDataV5, unit) op" where
  "decrypt_event env e authorPublicKey encryptionKey =
     bindS (liftR (EventDataEncryptorV5_getDIOAndAssertIntegrity env e authorPublicKey)) (\<lambda>dio.
     bindS (modify (\<lambda>r. r\<lparr>ce5_dio := dio\<rparr>)) (\<lambda>_.
     bindS (liftR (DataEncryptorV4_decodeAndDecryptAndVerify env (ev5_encryptedData e) authorPublicKey encryptionKey)) (\<lambda>data.
     modify (\<lambda>r. r\<lparr>ce5_data := data, ce5_type := ev5_type e\<rparr>))))"

definition EventDataEncryptorV5_decrypt :: "'k core_env \<Rightarrow> EncryptedContextEventDataV5 \<Rightarrow> 'k \<Rightarrow> bytes \<Rightarrow> DecryptedEventDataV5" where
  "EventDataEncryptorV5_decrypt env e authorPublicKey encryptionKey =
     (case decrypt_event env e authorPublicKey encryptionKey DecryptedEventDataV5_new of
        (Inr _, r) \<Rightarrow> r | (Inl x, r) \<Rightarrow> r\<lparr>de5_statusCode := status_of x\<rparr>)"

text \<open>Version 1: the key is decrypted without looking at who encrypted it.\<close>

definition OldEventDataDecryptor_decryptV1 :: "'k connection \<Rightarrow> json \<Rightarrow> 'k \<Rightarrow> string \<Rightarrow> 'k \<Rightarrow> DecryptedContextEventDataV1" where
  "OldEventDataDecryptor_decryptV1 c data authorPublicKey encryptionKey userPrivateKey =
     (case data of
        JString s \<Rightarrow>
          (case bindR (EciesEncryptor_decryptFromBase64 (cn_env c) userPrivateKey encryptionKey None) (\<lambda>encKey.
             DataEncryptorV4_decodeAndDecryptAndVerify (cn_env c) s authorPublicKey encKey) of
             Inr d \<Rightarrow> \<lparr>de1_dataStructureVersion = 1, de1_statusCode = 0, de1_data = d\<rparr>
           | Inl e \<Rightarrow> \<lparr>de1_dataStructureVersion = 1, de1_statusCode = status_of e, de1_data = []\<rparr>)
      | _ \<Rightarrow> \<lparr>de1_dataStructureVersion = 1, de1_statusCode = status_of (EventExn InvalidEncryptedEventDataVersionException), de1_data = []\<rparr>)"

subsection \<open>Emitting\<close>

type_synonym 's event_bridge = "ContextEmitCustomEventModel \<Rightarrow> (exn, 's, unit) op"
type_synonym ('s, 'a) event_op = "(exn, ('s, CustomEvent api_event) api_state, 'a) op"

definition INTERNAL_EVENT_CHANNEL_NAME :: string where
  "INTERNAL_EVENT_CHANNEL_NAME = ''internal''"

definition validateChannelName :: "string \<Rightarrow> (exn, unit) result" where
  "validateChannelName channelName =
     (if channelName \<in> set [INTERNAL_EVENT_CHANNEL_NAME] then Inl (EventExn ForbiddenChannelNameException) else Inr ())"

definition emitEventEx ::
    "'k connection \<Rightarrow> 's event_bridge \<Rightarrow> string \<Rightarrow> UserWithPubKey list \<Rightarrow> string \<Rightarrow> json \<Rightarrow> bytes \<Rightarrow> ('s, unit) event_op" where
  "emitEventEx c sv contextId users channelName encryptedEventData encryptionKey =
     bindS (liftR (EventKeyProvider_prepareKeysList (cn_env c) (cn_userPrivKey c) users encryptionKey)) (\<lambda>keys.
     requesting (sv \<lparr>cem_contextId = contextId, cem_channel = channelName, cem_data = encryptedEventData, cem_users = keys\<rparr>))"

definition encrypt_and_emit ::
    "'k connection \<Rightarrow> 's event_bridge \<Rightarrow> string \<Rightarrow> UserWithPubKey list \<Rightarrow> string \<Rightarrow> bytes \<Rightarrow> string option \<Rightarrow> ('s, unit) event_op" where
  "encrypt_and_emit c sv contextId users channelName eventData type =
     bindS (drawn (EventKeyProvider_generateKey (cn_env c))) (\<lambda>key.
     bindS (drawing (ConnectionImpl_createDIO c contextId [] None None)) (\<lambda>dio.
     bindS (drawing (EventDataEncryptorV5_encrypt (cn_env c) \<lparr>ce5_data = eventData, ce5_type = type, ce5_dio = dio\<rparr> (cn_userPrivKey c) key)) (\<lambda>e.
     emitEventEx c sv contextId users channelName (EncryptedContextEventDataV5_toJSON e) key)))"

definition emitEvent ::
    "'k connection \<Rightarrow> 's event_bridge \<Rightarrow> string \<Rightarrow> UserWithPubKey list \<Rightarrow> string \<Rightarrow> bytes \<Rightarrow> ('s, unit) event_op" where
  "emitEvent c sv contextId users channelName eventData =
     bindS (liftR (validateChannelName channelName)) (\<lambda>_. encrypt_and_emit c sv contextId users channelName eventData None)"

definition emitEventInternal ::
    "'k connection \<Rightarrow> 's event_bridge \<Rightarrow> string \<Rightarrow> InternalContextEventDataV1 \<Rightarrow> UserWithPubKey list \<Rightarrow> ('s, unit) event_op" where
  "emitEventInternal c sv contextId event users =
     encrypt_and_emit c sv contextId users INTERNAL_EVENT_CHANNEL_NAME (iev_data event) (Some (iev_type event))"

subsection \<open>Receiving\<close>

definition event_request :: "DataIntegrityObject \<Rightarrow> VerificationRequest" where
  "event_request dio =
     \<lparr>vr_contextId = dio_contextId dio, vr_senderId = dio_creatorUserId dio, vr_senderPubKey = dio_creatorPubKey dio,
      vr_date = dio_timestamp dio, vr_bridgeIdentity = dio_bridgeIdentity dio\<rparr>"

definition verifyDecryptedEventDataV5 :: "'k connection \<Rightarrow> DecryptedEventDataV5 \<Rightarrow> (exn, bool) result" where
  "verifyDecryptedEventDataV5 c data =
     bindR (UserVerifier_verify (cn_verifier c) [event_request (ce5_dio data)]) (\<lambda>verified. Inr (verified ! 0))"

definition internal_channel :: "string \<Rightarrow> string" where
  "internal_channel contextId = ''context/custom/'' @ INTERNAL_EVENT_CHANNEL_NAME @ ''|contextId='' @ contextId"

text \<open>\<open>Object::has\<close> asks for the key; the value is converted to a text by POCO.\<close>

definition isInternalContextEvent ::
    "'k connection \<Rightarrow> (string \<times> string) list \<Rightarrow> string \<Rightarrow> string list \<Rightarrow> (string \<times> json) list \<Rightarrow> string option \<Rightarrow> (exn, bool) result" where
  "isInternalContextEvent c knownSubscriptions type subscriptions eventData internalContextEventType =
     (if type \<noteq> ''custom'' then Inr False
      else case Subscriber_getSubscriptionQuery knownSubscriptions subscriptions of
        None \<Rightarrow> Inr False
      | Some channel \<Rightarrow>
          bindR (ContextCustomEventData_fromJSON eventData) (\<lambda>raw.
          case cxe_eventData raw of
            JObject ob \<Rightarrow>
              if cxe_id raw \<noteq> [] \<and> channel = internal_channel (cxe_id raw) \<and> map_of ob ''type'' \<noteq> None
              then (case internalContextEventType of
                  None \<Rightarrow> Inr True
                | Some t \<Rightarrow> bindR (cn_str c (json_get ob ''type'')) (\<lambda>t'. Inr (t' = t)))
              else Inr False
          | _ \<Rightarrow> Inr False))"

definition read_event ::
    "'k connection \<Rightarrow> ContextCustomEventData \<Rightarrow> bytes \<Rightarrow> (exn, DecryptedEventDataV5 \<times> int) result" where
  "read_event c rawEvent key =
     bindR (deserialize_struct (EncryptedContextEventDataV5_fromJSON (en_poco (cn_env c))) (cxe_eventData rawEvent)) (\<lambda>e.
     bindR (PublicKey_fromBase58DER (en_crypto (cn_env c)) (en_ecc (cn_env c)) (ui_pub (cxe_author rawEvent))) (\<lambda>author.
     let tmp = EventDataEncryptorV5_decrypt (cn_env c) e author key in
     if de5_statusCode tmp = 0
     then bindR (verifyDecryptedEventDataV5 c tmp) (\<lambda>ok. Inr (tmp, verified_status ok))
     else Inr (tmp, de5_statusCode tmp)))"

definition extractInternalEventData :: "'k connection \<Rightarrow> json \<Rightarrow> (exn, DecryptedInternalContextEventDataV1) result" where
  "extractInternalEventData c eventData =
     bindR (deserialize_struct ContextCustomEventData_fromJSON eventData) (\<lambda>rawEvent.
     bindR (PublicKey_fromBase58DER (en_crypto (cn_env c)) (en_ecc (cn_env c)) (ui_pub (cxe_author rawEvent))) (\<lambda>author.
     let decryptedKey = EventKeyProvider_decryptKey (cn_env c) (cn_userPrivKey c) (cxe_key rawEvent) author in
     if dek_statusCode decryptedKey = 0
     then bindR (read_event c rawEvent (dek_key decryptedKey)) (\<lambda>(tmp, statusCode).
       Inr \<lparr>iev_type = (case ce5_type tmp of Some t \<Rightarrow> t | None \<Rightarrow> []), iev_data = ce5_data tmp, die_dataStructureVersion = 5, die_statusCode = statusCode\<rparr>)
     else Inr \<lparr>iev_type = [], iev_data = [], die_dataStructureVersion = 5, die_statusCode = dek_statusCode decryptedKey\<rparr>))"

definition read_custom_event :: "'k connection \<Rightarrow> ContextCustomEventData \<Rightarrow> (exn, CustomEvent) result" where
  "read_custom_event c rawEvent =
     (let event = (\<lambda>payload statusCode schemaVersion. \<lparr>cu_contextId = cxe_id rawEvent, cu_userId = ui_id (cxe_author rawEvent),
            cu_payload = payload, cu_statusCode = statusCode, cu_schemaVersion = schemaVersion\<rparr>);
          authorKey = PublicKey_fromBase58DER (en_crypto (cn_env c)) (en_ecc (cn_env c)) (ui_pub (cxe_author rawEvent)) in
      case cxe_eventData rawEvent of
        JObject ob \<Rightarrow>
          bindR authorKey (\<lambda>author.
          let decryptedKey = EventKeyProvider_decryptKey (cn_env c) (cn_userPrivKey c) (cxe_key rawEvent) author in
          if dek_statusCode decryptedKey = 0
          then bindR (read_event c rawEvent (dek_key decryptedKey)) (\<lambda>(tmp, statusCode). Inr (event (ce5_data tmp) statusCode 5))
          else Inr (event [] (dek_statusCode decryptedKey) 5))
      | JString s \<Rightarrow>
          bindR authorKey (\<lambda>author.
          let tmp = OldEventDataDecryptor_decryptV1 c (JString s) author (cxe_key rawEvent) (cn_userPrivKey c) in
          Inr (event (de1_data tmp) (de1_statusCode tmp) 1))
      | _ \<Rightarrow> Inr (event [] 0 0))"

text \<open>
  \<open>Utils::split\<close> with a delimiter that is a text, here always of one character: what follows the last
  delimiter is always a part. Reading past the parts is undefined in C++; here it is \<open>!\<close>, of which
  nothing is known there.
\<close>

fun split_at_char :: "char \<Rightarrow> string \<Rightarrow> string list" where
  "split_at_char c [] = [[]]"
| "split_at_char c (x # s) =
     (if x = c then [] # split_at_char c s
      else case split_at_char c s of [] \<Rightarrow> [[x]] | t # ts \<Rightarrow> (x # t) # ts)"

definition custom_channel_name :: "string \<Rightarrow> string" where
  "custom_channel_name channel = split_at_char CHR ''|'' (split_at_char CHR ''/'' channel ! 2) ! 0"

definition event_notification_task :: "'k connection \<Rightarrow> string \<Rightarrow> NotificationEvent \<Rightarrow> ('s, unit) event_op" where
  "event_notification_task c channel notification =
     bindS (liftR (deserialize_struct ContextCustomEventData_fromJSON (ne_data notification))) (\<lambda>rawEvent.
     if channel = internal_channel (cxe_id rawEvent) then ret ()
     else
       bindS (liftR (read_custom_event c rawEvent)) (\<lambda>event.
       emitApiEvent (EventBuilder_buildEvent
         (''context/'' @ cxe_id rawEvent @ ''/'' @ custom_channel_name channel) event notification)))"

text \<open>The task runs on an executor that swallows its exceptions.\<close>

definition event_processNotificationEvent :: "'k connection \<Rightarrow> string \<Rightarrow> NotificationEvent \<Rightarrow> ('s, unit) event_op" where
  "event_processNotificationEvent c type notification st =
     (if type \<noteq> ''custom'' then (Inr (), st)
      else case Subscriber_getSubscriptionQuery (as_subscriptions st) (ne_subscriptions notification) of
        None \<Rightarrow> (Inr (), st)
      | Some channel \<Rightarrow> (Inr (), snd (event_notification_task c channel notification st)))"

subsection \<open>Subscriptions\<close>

definition event_unsubscribeFrom ::
    "(string list \<Rightarrow> string \<Rightarrow> string list) \<Rightarrow> 's channel_server \<Rightarrow> string list \<Rightarrow> (exn, ('s, 'ev, 'cb) module_state, unit) op" where
  "event_unsubscribeFrom = module_unsubscribeFrom"

text \<open>The internal variants register the ids with another module's listener.\<close>

definition event_subscribeForInternal ::
    "'s channel_server \<Rightarrow> string list \<Rightarrow> int \<Rightarrow> (exn, ('s, 'ev, 'cb) module_state, string list) op" where
  "event_subscribeForInternal sv subscriptionQueries notificationListenerId =
     bindS (on_api (Subscriber_subscribeFor event_subscriber sv subscriptionQueries False)) (\<lambda>result st.
     (Inr result, st\<lparr>md_middleware := EventMiddleware_addSubscriptionIds notificationListenerId result (md_middleware st)\<rparr>))"

definition event_unsubscribeFromInternal ::
    "(string list \<Rightarrow> string \<Rightarrow> string list) \<Rightarrow> 's channel_server \<Rightarrow> string list \<Rightarrow> int \<Rightarrow> (exn, ('s, 'ev, 'cb) module_state, unit) op" where
  "event_unsubscribeFromInternal residue sv subscriptionIds notificationListenerId =
     bindS (on_api (Subscriber_unsubscribeFrom sv subscriptionIds)) (\<lambda>_ st.
     (Inr (), st\<lparr>md_middleware := EventMiddleware_removeSubscriptionIds residue notificationListenerId subscriptionIds (md_middleware st)\<rparr>))"

definition event_buildSubscriptionQuery :: "string \<Rightarrow> event_EventSelectorType \<Rightarrow> string \<Rightarrow> (exn, string) result" where
  "event_buildSubscriptionQuery channelName selectorType selectorId = event_buildQuery channelName selectorType selectorId False"

definition event_buildSubscriptionQueryInternal :: "event_EventSelectorType \<Rightarrow> string \<Rightarrow> (exn, string) result" where
  "event_buildSubscriptionQueryInternal selectorType selectorId =
     event_buildQuery INTERNAL_EVENT_CHANNEL_NAME selectorType selectorId True"

end
