(* ===== verification/Event_Properties.thy ===== *)
theory Event_Properties
  imports Event_EventApi Core_Sample
begin

text \<open>
  What custom events promise: what is emitted is read by everybody it was emitted for; which checks an
  event that is shown without error has passed; and that neither the context nor the user it is shown
  for is among them.
\<close>

subsection \<open>Event data\<close>

lemma EncryptedContextEventDataV5_roundtrip:
  assumes "EncryptedContextEventDataV5_toJSON e = JObject ob"
  shows "EncryptedContextEventDataV5_fromJSON p ob = Inr e"
  using assms by (cases "ev5_type e"; cases e)
    (auto simp: EncryptedContextEventDataV5_toJSON_def EncryptedContextEventDataV5_fromJSON_def VersionedData_fromJSON_def
      deserialize_optional_def)

lemma event_checksums_facts [simp]:
  "map_of (event_checksums env t type) ''encryptedData'' = Some (sha256 (en_crypto env) (bytes_of t))"
  "map_of (event_checksums env t (Some type')) ''type'' = Some (bytes_of type')"
  "ordered (event_checksums env t type)"
  by (auto simp: event_checksums_def Let_def ordered_Cons split: option.split)

lemma same_key_text:
  "same_key env p k \<Longrightarrow> PublicKey_toBase58DER (en_crypto env) (en_ecc env) p = PublicKey_toBase58DER (en_crypto env) (en_ecc env) k"
  by (simp add: same_key_def PublicKey_toBase58DER_def PublicKey_toDER_def)

lemma EventDataEncryptorV5_inverse:
  assumes "core_env_ok env" and "dio_valid env k d" and "length key = 32"
  obtains e where "EventDataEncryptorV5_encrypt env \<lparr>ce5_data = data, ce5_type = type, ce5_dio = d\<rparr> k key draws = (Inr e, draws + 1)"
    and "\<forall>p. same_key env p k \<longrightarrow> EventDataEncryptorV5_decrypt env e p key =
      \<lparr>ce5_data = data, ce5_type = type, ce5_dio = d\<lparr>dio_bridgeIdentity :=
         Some (case dio_bridgeIdentity d of Some b \<Rightarrow> b | None \<Rightarrow> en_uninit env)\<rparr>, de5_dataStructureVersion = 5, de5_statusCode = 0\<rparr>"
proof -
  let ?dio = "d\<lparr>dio_bridgeIdentity := Some (case dio_bridgeIdentity d of Some b \<Rightarrow> b | None \<Rightarrow> en_uninit env)\<rparr>"
  obtain t where t: "DataEncryptorV4_signAndEncryptAndEncode env data k key draws = (Inr t, draws + 1)" "t \<noteq> []"
    using encrypted_roundtrip [OF assms(1) same_key_refl assms(3)] by metis
  have dec: "DataEncryptorV4_decodeAndDecryptAndVerify env t p key = Inr data" if "same_key env p k" for p
    using encrypted_roundtrip [OF assms(1) that assms(3), of data draws] t(1) by auto
  let ?sums = "event_checksums env t type"
  have pk: "dio_creatorPubKey (expanded_dio d 5 ?sums) = PublicKey_toBase58DER (en_crypto env) (en_ecc env) k"
    using assms(2) by (simp add: dio_valid_def)
  have wf: "dio_wf (expanded_dio d 5 ?sums)" by (rule dio_wf_expanded [OF assms(2)]) simp_all
  obtain s where s: "DIOEncryptorV1_signAndEncode env (expanded_dio d 5 ?sums) k = Inr s" "s \<noteq> []"
      "DIOEncryptorV1_decodeAndVerify env s = Inr (read_back env (expanded_dio d 5 ?sums))"
    using DIO_roundtrip [OF assms(1) wf pk] unfolding read_back_def by blast
  let ?e = "\<lparr>ev5_version = 5, ev5_encryptedData = t, ev5_type = type, ev5_dio = s\<rparr>"
  have enc: "EventDataEncryptorV5_encrypt env \<lparr>ce5_data = data, ce5_type = type, ce5_dio = d\<rparr> k key draws = (Inr ?e, draws + 1)"
    unfolding EventDataEncryptorV5_encrypt_def ContextEventDataV5.select_convs by (rule bindS_step, rule t(1), unfold s(1)) (simp add: bindS_liftR)
  have int: "EventDataEncryptorV5_getDIOAndAssertIntegrity env ?e p = Inr ?dio" if "same_key env p k" for p
    using t(2) s(2) pk same_key_text [OF that]
    by (cases type) (simp_all add: EventDataEncryptorV5_getDIOAndAssertIntegrity_def EventDataEncryptorV5_assertDataFormat_def s(3)
        unordered_map_at_def truncate_read_back)
  show thesis
    by (rule that [OF enc]) (simp add: EventDataEncryptorV5_decrypt_def decrypt_event_def bindS_def int dec DecryptedEventDataV5_new_def)
qed

subsection \<open>Keys\<close>

lemma event_key_received:
  assumes "core_env_ok env" and "same_key env pub priv" and "same_key env author sender" and "length key = 32"
  shows "EventKeyProvider_decryptKey env priv (EciesEncryptor_encryptToBase64 env pub key sender) author =
    \<lparr>dek_dataStructureVersion = 1, dek_statusCode = 0, dek_key = key\<rparr>"
  using EciesEncryptor_inverse [OF core_env_okD(1,4) [OF assms(1)], of pub priv key sender "Some author"] assms(2-4)
  by (simp add: EventKeyProvider_decryptKey_def EciesEncryptor_decryptFromBase64_def EciesEncryptor_encryptToBase64_def
      base64_inverse [OF core_env_okD(7) [OF assms(1)]] same_key_def)

lemma prepared_event_keys:
  assumes "core_env_ok (cn_env c)" and "known_users c (set users)"
  obtains keys where "EventKeyProvider_prepareKeysList (cn_env c) priv users key = Inr keys" and "map uk_id keys = map up_userId users"
    and "\<forall>i < length users. \<exists>p. PublicKey_fromBase58DER (en_crypto (cn_env c)) (en_ecc (cn_env c)) (up_pubKey (users ! i)) = Inr p \<and>
      uk_key (keys ! i) = EciesEncryptor_encryptToBase64 (cn_env c) p key priv"
proof -
  have "\<exists>keys. EventKeyProvider_prepareKeysList (cn_env c) priv users key = Inr keys \<and> map uk_id keys = map up_userId users \<and>
    (\<forall>i < length users. \<exists>p. PublicKey_fromBase58DER (en_crypto (cn_env c)) (en_ecc (cn_env c)) (up_pubKey (users ! i)) = Inr p \<and>
      uk_key (keys ! i) = EciesEncryptor_encryptToBase64 (cn_env c) p key priv)"
    using assms(2)
  proof (induction users)
    case (Cons u us)
    obtain p where p: "PublicKey_fromBase58DER (en_crypto (cn_env c)) (en_ecc (cn_env c)) (up_pubKey u) = Inr p"
      using Cons.prems PublicKey_base58_roundtrip [OF assms(1)] by (fastforce simp: known_users_def)
    obtain keys where keys: "EventKeyProvider_prepareKeysList (cn_env c) priv us key = Inr keys" "map uk_id keys = map up_userId us"
        "\<forall>i < length us. \<exists>p. PublicKey_fromBase58DER (en_crypto (cn_env c)) (en_ecc (cn_env c)) (up_pubKey (us ! i)) = Inr p \<and>
          uk_key (keys ! i) = EciesEncryptor_encryptToBase64 (cn_env c) p key priv"
      using Cons by (auto simp: known_users_def)
    then show ?case
      using p by (auto simp: EventKeyProvider_prepareKeysList_def nth_Cons split: nat.split)
  qed (simp add: EventKeyProvider_prepareKeysList_def)
  then show thesis using that by blast
qed

subsection \<open>Emitting and receiving\<close>

text \<open>
  An event that was emitted, as it reaches one of the users. Nothing is said of the context and the
  user that the Bridge names.
\<close>

definition event_for ::
    "'k connection \<Rightarrow> ContextEmitCustomEventModel \<Rightarrow> UserWithPubKey list \<Rightarrow> nat \<Rightarrow> 'k connection \<Rightarrow> ContextCustomEventData \<Rightarrow> bool" where
  "event_for c m users i c2 raw \<longleftrightarrow> i < length users \<and> cn_env c2 = cn_env c \<and>
     up_pubKey (users ! i) = PublicKey_toBase58DER (en_crypto (cn_env c)) (en_ecc (cn_env c)) (cn_userPrivKey c2) \<and>
     cxe_eventData raw = cem_data m \<and> cxe_key raw = uk_key (cem_users m ! i) \<and>
     ui_pub (cxe_author raw) = PublicKey_toBase58DER (en_crypto (cn_env c)) (en_ecc (cn_env c)) (cn_userPrivKey c)"

lemma emitted_event_read:
  assumes "connection_ok c" and "cn_myUserId c contextId = Inr u" and "u \<noteq> []" and "contextId \<noteq> []" and "known_users c (set users)"
  obtains m d dio where "encrypt_and_emit c sv contextId users channelName data type st = requesting (sv m) (st\<lparr>as_draws := d\<rparr>)"
    and "cem_contextId m = contextId" and "cem_channel m = channelName" and "map uk_id (cem_users m) = map up_userId users"
    and "dio_creatorUserId dio = u" and "dio_contextId dio = contextId"
    and "dio_creatorPubKey dio = PublicKey_toBase58DER (en_crypto (cn_env c)) (en_ecc (cn_env c)) (cn_userPrivKey c)"
    and "\<forall>i c2 raw. event_for c m users i c2 raw \<and> cn_verifier c2 [event_request dio] = Some [True] \<longrightarrow>
      read_custom_event c2 raw = Inr \<lparr>cu_contextId = cxe_id raw, cu_userId = ui_id (cxe_author raw), cu_payload = data,
        cu_statusCode = 0, cu_schemaVersion = 5\<rparr>"
proof -
  let ?env = "cn_env c" and ?me = "cn_userPrivKey c"
  let ?key = "randomBytes (en_crypto (cn_env c)) (as_draws st) 32"
  have env: "core_env_ok ?env" using assms(1) by (simp add: connection_ok_def)
  have len: "length ?key = 32" by (rule length_randomBytes [OF core_env_okD(1) [OF env]])
  obtain d0 where d0: "ConnectionImpl_createDIO c contextId [] None None (as_draws st + 1) = (Inr d0, as_draws st + 1 + 1)"
      "dio_valid ?env ?me d0" "dio_creatorUserId d0 = u" "dio_contextId d0 = contextId"
      "dio_creatorPubKey d0 = PublicKey_toBase58DER (en_crypto ?env) (en_ecc ?env) ?me"
    by (rule createDIO_valid [OF assms(1-4)])
  define dio where "dio = d0\<lparr>dio_bridgeIdentity := Some (case dio_bridgeIdentity d0 of Some b \<Rightarrow> b | None \<Rightarrow> en_uninit ?env)\<rparr>"
  obtain e where e: "EventDataEncryptorV5_encrypt ?env \<lparr>ce5_data = data, ce5_type = type, ce5_dio = d0\<rparr> ?me ?key (as_draws st + 1 + 1)
        = (Inr e, as_draws st + 1 + 1 + 1)"
      "\<forall>p. same_key ?env p ?me \<longrightarrow> EventDataEncryptorV5_decrypt ?env e p ?key =
        \<lparr>ce5_data = data, ce5_type = type, ce5_dio = dio, de5_dataStructureVersion = 5, de5_statusCode = 0\<rparr>"
    unfolding dio_def by (rule EventDataEncryptorV5_inverse [OF env d0(2) len])
  obtain keys where keys: "EventKeyProvider_prepareKeysList ?env ?me users ?key = Inr keys" "map uk_id keys = map up_userId users"
      "\<forall>i < length users. \<exists>p. PublicKey_fromBase58DER (en_crypto ?env) (en_ecc ?env) (up_pubKey (users ! i)) = Inr p \<and>
        uk_key (keys ! i) = EciesEncryptor_encryptToBase64 ?env p ?key ?me"
    by (rule prepared_event_keys [OF env assms(5)])
  obtain ob where ob: "EncryptedContextEventDataV5_toJSON e = JObject ob" by (simp add: EncryptedContextEventDataV5_toJSON_def)
  define m where "m = \<lparr>cem_contextId = contextId, cem_channel = channelName, cem_data = JObject ob, cem_users = keys\<rparr>"
  obtain author where author: "PublicKey_fromBase58DER (en_crypto ?env) (en_ecc ?env) (PublicKey_toBase58DER (en_crypto ?env) (en_ecc ?env) ?me) = Inr author"
      "same_key ?env author ?me"
    using PublicKey_base58_roundtrip [OF env] by blast
  have run: "encrypt_and_emit c sv contextId users channelName data type st = requesting (sv m) (st\<lparr>as_draws := as_draws st + 1 + 1 + 1\<rparr>)"
    unfolding encrypt_and_emit_def
    by (rule bindS_drawn_step, simp add: EventKeyProvider_generateKey_def, simp, rule bindS_drawing_step, rule d0(1), simp,
        rule bindS_drawing_step, rule e(1), simp, simp add: emitEventEx_def keys(1) bindS_liftR m_def ob)
  have read: "read_custom_event c2 raw = Inr \<lparr>cu_contextId = cxe_id raw, cu_userId = ui_id (cxe_author raw), cu_payload = data,
        cu_statusCode = 0, cu_schemaVersion = 5\<rparr>"
    if f: "event_for c m users i c2 raw \<and> cn_verifier c2 [event_request dio] = Some [True]" for i c2 raw
  proof -
    obtain p where p: "PublicKey_fromBase58DER (en_crypto ?env) (en_ecc ?env) (up_pubKey (users ! i)) = Inr p"
        "uk_key (keys ! i) = EciesEncryptor_encryptToBase64 ?env p ?key ?me"
      using keys(3) f by (auto simp: event_for_def)
    have "same_key ?env p (cn_userPrivKey c2)"
      using PublicKey_base58_roundtrip [OF env, of "cn_userPrivKey c2"] p(1) f by (auto simp: event_for_def)
    then have key: "EventKeyProvider_decryptKey ?env (cn_userPrivKey c2) (uk_key (keys ! i)) author =
        \<lparr>dek_dataStructureVersion = 1, dek_statusCode = 0, dek_key = ?key\<rparr>"
      unfolding p(2) by (rule event_key_received [OF env _ author(2) len])
    have raw: "cxe_eventData raw = JObject ob" "cxe_key raw = uk_key (keys ! i)" "cn_env c2 = ?env"
        "ui_pub (cxe_author raw) = PublicKey_toBase58DER (en_crypto ?env) (en_ecc ?env) ?me"
      using f by (simp_all add: event_for_def m_def)
    have "read_event c2 raw ?key = Inr (\<lparr>ce5_data = data, ce5_type = type, ce5_dio = dio, de5_dataStructureVersion = 5, de5_statusCode = 0\<rparr>, 0)"
      using f e(2) author by (simp add: read_event_def raw EncryptedContextEventDataV5_roundtrip [OF ob] verifyDecryptedEventDataV5_def
          UserVerifier_verify_def)
    then show ?thesis by (simp add: read_custom_event_def raw author(1) key)
  qed
  then have "\<forall>i c2 raw. event_for c m users i c2 raw \<and> cn_verifier c2 [event_request dio] = Some [True] \<longrightarrow>
      read_custom_event c2 raw = Inr \<lparr>cu_contextId = cxe_id raw, cu_userId = ui_id (cxe_author raw), cu_payload = data,
        cu_statusCode = 0, cu_schemaVersion = 5\<rparr>"
    by blast
  from run _ _ _ _ _ _ this show thesis
    by (rule that) (simp_all add: m_def dio_def keys(2) d0(3-5))
qed

text \<open>
  C21. What is emitted is received. \<open>emitEvent\<close> sends one request with a key for each of the given users, in order,
  and when the event reaches one of them with that key and the sender's public key, that user reads it
  without error with the data that was given, as soon as the verifier approves the sender.
\<close>

theorem event_received:
  assumes "connection_ok c" and "cn_myUserId c contextId = Inr u" and "u \<noteq> []" and "contextId \<noteq> []" and "known_users c (set users)"
    and "channelName \<noteq> INTERNAL_EVENT_CHANNEL_NAME"
  shows "\<exists>m d. emitEvent c sv contextId users channelName data st = requesting (sv m) (st\<lparr>as_draws := d\<rparr>) \<and>
    cem_contextId m = contextId \<and> cem_channel m = channelName \<and> map uk_id (cem_users m) = map up_userId users \<and>
    (\<forall>i c2 raw. event_for c m users i c2 raw \<and> (\<forall>r. cn_verifier c2 [r] = Some [True]) \<and>
       cxe_id raw = contextId \<and> ui_id (cxe_author raw) = u \<longrightarrow>
       read_custom_event c2 raw = Inr \<lparr>cu_contextId = contextId, cu_userId = u, cu_payload = data, cu_statusCode = 0, cu_schemaVersion = 5\<rparr>)"
proof -
  obtain m d dio where m: "encrypt_and_emit c sv contextId users channelName data None st = requesting (sv m) (st\<lparr>as_draws := d\<rparr>)"
      "cem_contextId m = contextId" "cem_channel m = channelName" "map uk_id (cem_users m) = map up_userId users"
      "\<forall>i c2 raw. event_for c m users i c2 raw \<and> cn_verifier c2 [event_request dio] = Some [True] \<longrightarrow>
        read_custom_event c2 raw = Inr \<lparr>cu_contextId = cxe_id raw, cu_userId = ui_id (cxe_author raw), cu_payload = data,
          cu_statusCode = 0, cu_schemaVersion = 5\<rparr>"
    by (rule emitted_event_read [OF assms(1-5)])
  have "emitEvent c sv contextId users channelName data st = requesting (sv m) (st\<lparr>as_draws := d\<rparr>)"
    using assms(6) m(1) by (simp add: emitEvent_def validateChannelName_def bindS_liftR)
  with m(2-) show ?thesis by (intro exI [of _ m] exI [of _ d]) auto
qed

text \<open>
  C22. The context and the user of an event are not checked. Take an event that user \<open>u\<close> emitted in one
  context, and a receiver whose verifier approves exactly that user's key for that user in that context.
  When the Bridge passes the event on as coming from any other user in any other context, it is shown
  without error as an event of that user in that context.
\<close>

theorem event_misattributed:
  assumes "connection_ok c" and "cn_myUserId c contextId = Inr u" and "u \<noteq> []" and "contextId \<noteq> []" and "known_users c (set users)"
    and "channelName \<noteq> INTERNAL_EVENT_CHANNEL_NAME"
  shows "\<exists>m d. emitEvent c sv contextId users channelName data st = requesting (sv m) (st\<lparr>as_draws := d\<rparr>) \<and>
    (\<forall>i c2 raw. event_for c m users i c2 raw \<and>
       (\<forall>r. cn_verifier c2 [r] = Some [vr_senderId r = u \<and> vr_contextId r = contextId \<and>
         vr_senderPubKey r = PublicKey_toBase58DER (en_crypto (cn_env c)) (en_ecc (cn_env c)) (cn_userPrivKey c)]) \<longrightarrow>
       read_custom_event c2 raw = Inr \<lparr>cu_contextId = cxe_id raw, cu_userId = ui_id (cxe_author raw), cu_payload = data,
         cu_statusCode = 0, cu_schemaVersion = 5\<rparr>)"
proof -
  obtain m d dio where m: "encrypt_and_emit c sv contextId users channelName data None st = requesting (sv m) (st\<lparr>as_draws := d\<rparr>)"
      "dio_creatorUserId dio = u" "dio_contextId dio = contextId"
      "dio_creatorPubKey dio = PublicKey_toBase58DER (en_crypto (cn_env c)) (en_ecc (cn_env c)) (cn_userPrivKey c)"
      "\<forall>i c2 raw. event_for c m users i c2 raw \<and> cn_verifier c2 [event_request dio] = Some [True] \<longrightarrow>
        read_custom_event c2 raw = Inr \<lparr>cu_contextId = cxe_id raw, cu_userId = ui_id (cxe_author raw), cu_payload = data,
          cu_statusCode = 0, cu_schemaVersion = 5\<rparr>"
    by (rule emitted_event_read [OF assms(1-5)])
  have "emitEvent c sv contextId users channelName data st = requesting (sv m) (st\<lparr>as_draws := d\<rparr>)"
    using assms(6) m(1) by (simp add: emitEvent_def validateChannelName_def bindS_liftR)
  with m(2-) show ?thesis by (intro exI [of _ m] exI [of _ d]) (auto simp: event_request_def)
qed

subsection \<open>Events that are shown\<close>

text \<open>Where the payload of an event of the present format comes from.\<close>

definition event_authentic :: "'k connection \<Rightarrow> ContextCustomEventData \<Rightarrow> bytes \<Rightarrow> DataIntegrityObject \<Rightarrow> bool" where
  "event_authentic c raw payload d \<longleftrightarrow>
     (\<exists>e author key dio. deserialize_struct (EncryptedContextEventDataV5_fromJSON (en_poco (cn_env c))) (cxe_eventData raw) = Inr e \<and>
        PublicKey_fromBase58DER (en_crypto (cn_env c)) (en_ecc (cn_env c)) (ui_pub (cxe_author raw)) = Inr author \<and>
        EciesEncryptor_decryptFromBase64 (cn_env c) (cn_userPrivKey c) (cxe_key raw) (Some author) = Inr key \<and>
        DataEncryptorV4_decodeAndDecryptAndVerify (cn_env c) (ev5_encryptedData e) author key = Inr payload \<and>
        DIOEncryptorV1_decodeAndVerify (cn_env c) (ev5_dio e) = Inr dio \<and> d = DataIntegrityObject.truncate dio \<and>
        dio_creatorPubKey dio = PublicKey_toBase58DER (en_crypto (cn_env c)) (en_ecc (cn_env c)) author \<and>
        map_of (dio_fieldChecksums dio) ''encryptedData'' = Some (sha256 (en_crypto (cn_env c)) (bytes_of (ev5_encryptedData e))))"

lemma event_getDIO:
  assumes "EventDataEncryptorV5_getDIOAndAssertIntegrity env e p = Inr d"
  shows "\<exists>dio. DIOEncryptorV1_decodeAndVerify env (ev5_dio e) = Inr dio \<and> d = DataIntegrityObject.truncate dio \<and>
    dio_creatorPubKey dio = PublicKey_toBase58DER (en_crypto env) (en_ecc env) p \<and>
    map_of (dio_fieldChecksums dio) ''encryptedData'' = Some (sha256 (en_crypto env) (bytes_of (ev5_encryptedData e)))"
  using assms by (auto simp: EventDataEncryptorV5_getDIOAndAssertIntegrity_def bindR_eq_Inr unordered_map_at_def Let_def
      split: if_splits option.splits)

lemma event_decrypted:
  assumes "de5_statusCode (EventDataEncryptorV5_decrypt env e p key) = 0"
  shows "EventDataEncryptorV5_getDIOAndAssertIntegrity env e p = Inr (ce5_dio (EventDataEncryptorV5_decrypt env e p key)) \<and>
    DataEncryptorV4_decodeAndDecryptAndVerify env (ev5_encryptedData e) p key = Inr (ce5_data (EventDataEncryptorV5_decrypt env e p key))"
  using assms by (auto simp: EventDataEncryptorV5_decrypt_def decrypt_event_def bindS_liftR status_of_neq bindS_def
      DecryptedEventDataV5_new_def split: sum.splits)

text \<open>
  C20. An event of the present format that is shown without error. Its key was encrypted for this user by the
  key that comes with the event as its author's, its payload was decrypted with that key and carries
  that author's signature, the integrity object is signed by the same key and holds the digest of the
  encrypted payload, and the verifier approved the user, context and time that the integrity object
  names. (These are not the context and user that are shown.)
\<close>

theorem event_shown_authentic:
  assumes "read_custom_event c raw = Inr ev" and "cu_statusCode ev = 0" and "cu_schemaVersion ev = 5"
  shows "\<exists>d. event_authentic c raw (cu_payload ev) d \<and> cn_verifier c [event_request d] = Some [True]"
proof -
  obtain author where author: "PublicKey_fromBase58DER (en_crypto (cn_env c)) (en_ecc (cn_env c)) (ui_pub (cxe_author raw)) = Inr author"
    and s: "dek_statusCode (EventKeyProvider_decryptKey (cn_env c) (cn_userPrivKey c) (cxe_key raw) author) = 0"
    and "\<exists>tmp. read_event c raw (dek_key (EventKeyProvider_decryptKey (cn_env c) (cn_userPrivKey c) (cxe_key raw) author)) = Inr (tmp, 0) \<and>
      cu_payload ev = ce5_data tmp"
    using assms by (auto simp: read_custom_event_def Let_def bindR_eq_Inr split: json.splits if_splits)
  then obtain tmp where read: "read_event c raw (dek_key (EventKeyProvider_decryptKey (cn_env c) (cn_userPrivKey c) (cxe_key raw) author)) = Inr (tmp, 0)"
      "cu_payload ev = ce5_data tmp" by blast
  obtain key where key: "EciesEncryptor_decryptFromBase64 (cn_env c) (cn_userPrivKey c) (cxe_key raw) (Some author) = Inr key"
      "dek_key (EventKeyProvider_decryptKey (cn_env c) (cn_userPrivKey c) (cxe_key raw) author) = key"
    using s by (auto simp: EventKeyProvider_decryptKey_def status_of_neq split: sum.splits)
  obtain e where e: "deserialize_struct (EncryptedContextEventDataV5_fromJSON (en_poco (cn_env c))) (cxe_eventData raw) = Inr e"
      "tmp = EventDataEncryptorV5_decrypt (cn_env c) e author key" "de5_statusCode tmp = 0" "verifyDecryptedEventDataV5 c tmp = Inr True"
    using read(1) unfolding key(2) by (auto simp: read_event_def author bindR_eq_Inr Let_def split: if_splits)
  note d = event_decrypted [OF e(3) [unfolded e(2)], folded e(2)]
  have "cn_verifier c [event_request (ce5_dio tmp)] = Some [True]"
    using e(4) by (auto simp: verifyDecryptedEventDataV5_def bindR_eq_Inr intro!: verifier_approved)
  moreover have "event_authentic c raw (cu_payload ev) (ce5_dio tmp)"
    unfolding event_authentic_def read(2) using e(1) author key(1) d event_getDIO [OF conjunct1 [OF d]] by blast
  ultimately show ?thesis by blast
qed

text \<open>The properties of custom events on the sample connection: the user with key 5 emits, the one with key 7 reads.\<close>

definition sample_event_bridge :: "ContextEmitCustomEventModel list event_bridge" where
  "sample_event_bridge m s = (Inr (), s @ [m])"

definition sample_event_state :: "(ContextEmitCustomEventModel list, CustomEvent api_event) api_state" where
  "sample_event_state =
     \<lparr>as_cache = ContainerKeyCache_new, as_draws = 0, as_server = [], as_events = [], as_subscriptions = []\<rparr>"

definition sample_raw_event :: "string \<Rightarrow> string \<Rightarrow> ContextEmitCustomEventModel \<Rightarrow> ContextCustomEventData" where
  "sample_raw_event contextId userId m =
     \<lparr>cxe_id = contextId, cxe_eventData = cem_data m, cxe_key = uk_key (cem_users m ! 0),
      cxe_author = \<lparr>ui_id = userId, ui_pub = PublicKey_toBase58DER sample_crypto sample_ecc 5\<rparr>\<rparr>"

lemma sample_event_hyps:
  "cn_myUserId (sample_connection 5) ''c'' = Inr ''u''" "''u'' \<noteq> []" "''c'' \<noteq> []"
  "known_users (sample_connection 5) (set [sample_user])" "''news'' \<noteq> INTERNAL_EVENT_CHANNEL_NAME"
  using sample_known_users by (auto simp: known_users_def INTERNAL_EVENT_CHANNEL_NAME_def)

lemma sample_event_for: "event_for (sample_connection 5) m [sample_user] 0 ((sample_connection 7)\<lparr>cn_verifier := v\<rparr>) (sample_raw_event contextId userId m)"
  by (simp add: event_for_def sample_raw_event_def sample_user_def sample_core_env_def)

lemma sample_requesting:
  "requesting (sample_event_bridge m) (sample_event_state\<lparr>as_draws := d\<rparr>) = (Inr (), sample_event_state\<lparr>as_draws := d, as_server := [m]\<rparr>)"
  by (simp add: requesting_def sample_event_bridge_def sample_event_state_def)

definition sample_reader :: "byte connection" where
  "sample_reader = (sample_connection 7)\<lparr>cn_verifier := (\<lambda>reqs. Some (map (\<lambda>_. True) reqs))\<rparr>"

theorem event_received_witness:
  "\<exists>m st'. emitEvent (sample_connection 5) sample_event_bridge ''c'' [sample_user] ''news'' [1, 2] sample_event_state = (Inr (), st') \<and>
     as_server st' = [m] \<and> read_custom_event sample_reader (sample_raw_event ''c'' ''u'' m) =
       Inr \<lparr>cu_contextId = ''c'', cu_userId = ''u'', cu_payload = [1, 2], cu_statusCode = 0, cu_schemaVersion = 5\<rparr>"
proof -
  obtain m d where run: "emitEvent (sample_connection 5) sample_event_bridge ''c'' [sample_user] ''news'' [1, 2] sample_event_state =
      requesting (sample_event_bridge m) (sample_event_state\<lparr>as_draws := d\<rparr>)"
    and read: "\<forall>i c2 raw. event_for (sample_connection 5) m [sample_user] i c2 raw \<and> (\<forall>r. cn_verifier c2 [r] = Some [True]) \<and>
       cxe_id raw = ''c'' \<and> ui_id (cxe_author raw) = ''u'' \<longrightarrow>
       read_custom_event c2 raw = Inr \<lparr>cu_contextId = ''c'', cu_userId = ''u'', cu_payload = [1, 2], cu_statusCode = 0, cu_schemaVersion = 5\<rparr>"
    using event_received [OF sample_connection_ok sample_event_hyps, of sample_event_bridge "[1, 2]" sample_event_state] by blast
  have "read_custom_event sample_reader (sample_raw_event ''c'' ''u'' m) =
      Inr \<lparr>cu_contextId = ''c'', cu_userId = ''u'', cu_payload = [1, 2], cu_statusCode = 0, cu_schemaVersion = 5\<rparr>"
    by (rule read [rule_format, of 0]) (simp add: sample_reader_def sample_event_for, simp add: sample_raw_event_def)
  then show ?thesis unfolding run sample_requesting by auto
qed

text \<open>A verifier that approves the user u with key 5 in the context c only.\<close>

definition strict_reader :: "byte connection" where
  "strict_reader = (sample_connection 7)\<lparr>cn_verifier := (\<lambda>reqs. Some (map (\<lambda>r. vr_senderId r = ''u'' \<and> vr_contextId r = ''c'' \<and>
     vr_senderPubKey r = PublicKey_toBase58DER sample_crypto sample_ecc 5) reqs))\<rparr>"

theorem event_misattributed_witness:
  "\<exists>m st'. emitEvent (sample_connection 5) sample_event_bridge ''c'' [sample_user] ''news'' [1, 2] sample_event_state = (Inr (), st') \<and>
     as_server st' = [m] \<and> read_custom_event strict_reader (sample_raw_event ''elsewhere'' ''somebody'' m) =
       Inr \<lparr>cu_contextId = ''elsewhere'', cu_userId = ''somebody'', cu_payload = [1, 2], cu_statusCode = 0, cu_schemaVersion = 5\<rparr>"
proof -
  obtain m d where run: "emitEvent (sample_connection 5) sample_event_bridge ''c'' [sample_user] ''news'' [1, 2] sample_event_state =
      requesting (sample_event_bridge m) (sample_event_state\<lparr>as_draws := d\<rparr>)"
    and read: "\<forall>i c2 raw. event_for (sample_connection 5) m [sample_user] i c2 raw \<and>
       (\<forall>r. cn_verifier c2 [r] = Some [vr_senderId r = ''u'' \<and> vr_contextId r = ''c'' \<and>
         vr_senderPubKey r = PublicKey_toBase58DER (en_crypto (cn_env (sample_connection 5))) (en_ecc (cn_env (sample_connection 5)))
           (cn_userPrivKey (sample_connection 5))]) \<longrightarrow>
       read_custom_event c2 raw = Inr \<lparr>cu_contextId = cxe_id raw, cu_userId = ui_id (cxe_author raw), cu_payload = [1, 2],
         cu_statusCode = 0, cu_schemaVersion = 5\<rparr>"
    using event_misattributed [OF sample_connection_ok sample_event_hyps, of sample_event_bridge "[1, 2]" sample_event_state] by blast
  have "en_crypto sample_core_env = sample_crypto" "en_ecc sample_core_env = sample_ecc" by (simp_all add: sample_core_env_def)
  then have "read_custom_event strict_reader (sample_raw_event ''elsewhere'' ''somebody'' m) =
      Inr \<lparr>cu_contextId = cxe_id (sample_raw_event ''elsewhere'' ''somebody'' m),
        cu_userId = ui_id (cxe_author (sample_raw_event ''elsewhere'' ''somebody'' m)), cu_payload = [1, 2], cu_statusCode = 0, cu_schemaVersion = 5\<rparr>"
    by (intro read [rule_format, of 0]) (simp add: strict_reader_def sample_event_for)
  then show ?thesis unfolding run sample_requesting by (auto simp: sample_raw_event_def)
qed

theorem event_shown_authentic_witness:
  "\<exists>raw d. event_authentic sample_reader raw [1, 2] d"
proof -
  obtain m dio where read: "\<forall>i c2 raw. event_for (sample_connection 5) m [sample_user] i c2 raw \<and> cn_verifier c2 [event_request dio] = Some [True] \<longrightarrow>
      read_custom_event c2 raw = Inr \<lparr>cu_contextId = cxe_id raw, cu_userId = ui_id (cxe_author raw), cu_payload = [1, 2],
        cu_statusCode = 0, cu_schemaVersion = 5\<rparr>"
    by (rule emitted_event_read [OF sample_connection_ok sample_event_hyps(1-4), of sample_event_bridge "''news''" "[1, 2]" None sample_event_state])
  let ?raw = "sample_raw_event ''c'' ''u'' m"
  have "read_custom_event sample_reader ?raw = Inr \<lparr>cu_contextId = cxe_id ?raw, cu_userId = ui_id (cxe_author ?raw), cu_payload = [1, 2],
        cu_statusCode = 0, cu_schemaVersion = 5\<rparr>"
    by (rule read [rule_format, of 0]) (simp add: sample_reader_def sample_event_for)
  from event_shown_authentic [OF this] show ?thesis by auto
qed

end
