(* ===== verification/Store_Interfaces.thy ===== *)
theory Store_Interfaces
  imports Crypto_Api
begin

text \<open>
  The vocabulary of the file data path of the store module and the C++ interfaces its classes
  are programmed against, each as a locale: \<open>IChunkEncryptor\<close> is \<open>chunk_cipher\<close>,
  \<open>IHashList\<close> is \<open>hash_list\<close> and \<open>IChunkReader\<close> is \<open>chunk_source\<close>. The clients'
  lemmas are proved in the locales; the theories of the implementing classes interpret them.

  The reference view of an encrypted file is \<open>sealed_file\<close>: a list of encrypted chunks, the
  \<open>i\<close>-th of which decrypts to the \<open>i\<close>-th chunk of the plain content. The server keeps the
  concatenation of the chunks' data and the concatenation of their digests.
\<close>

subsection \<open>Constants and data of \<open>StoreTypes.hpp\<close> and \<open>IChunkEncryptor.hpp\<close>\<close>

definition IV_SIZE :: nat where
  "IV_SIZE = 16"

definition HMAC_SIZE :: nat where
  "HMAC_SIZE = 32"

definition CHUNK_PADDING :: nat where
  "CHUNK_PADDING = 16"

lemmas store_sizes = IV_SIZE_def HMAC_SIZE_def CHUNK_PADDING_def

record Chunk =
  chunk_data :: bytes
  chunk_hmac :: bytes

record FileDecryptionParams =
  fdp_fileId :: string
  fdp_resourceId :: string
  fdp_sizeOnServer :: nat
  fdp_originalSize :: nat
  fdp_cipherType :: int
  fdp_chunkSize :: nat
  fdp_key :: bytes
  fdp_hmac :: bytes
  fdp_version :: int

subsection \<open>Sizes\<close>

text \<open>The size of an encrypted chunk of \<open>n\<close> plain bytes: digest, vector and padded cipher.\<close>

definition encrypted_len :: "nat \<Rightarrow> nat" where
  "encrypted_len n = n + (16 - n mod 16) + 48"

lemma encrypted_len_pos [simp]: "0 < encrypted_len n"
  by (simp add: encrypted_len_def)

lemma encrypted_len_bound: "encrypted_len n \<le> n + 64"
  by (simp add: encrypted_len_def)

lemma encrypted_len_mono: "m \<le> n \<Longrightarrow> encrypted_len m \<le> encrypted_len n"
proof -
  assume "m \<le> n"
  have e: "encrypted_len k = 16 * (k div 16) + 64" for k
  proof -
    have "k = 16 * (k div 16) + k mod 16" and "k mod 16 < 16" by simp_all
    then show ?thesis unfolding encrypted_len_def by linarith
  qed
  have "m div 16 \<le> n div 16" using \<open>m \<le> n\<close> by (rule div_le_mono)
  then show ?thesis unfolding e by simp
qed

text \<open>The encrypted size of a whole file cut into chunks of \<open>n\<close> bytes.\<close>

lemma sum_encrypted_len_chunks:
  assumes "0 < n" and "xs \<noteq> []"
  shows "sum_list (map (encrypted_len \<circ> length) (chunks n xs))
    = (length xs - 1) div n * encrypted_len n + encrypted_len ((length xs - 1) mod n + 1)"
  using assms
proof (induction n xs rule: chunks.induct)
  case (1 n xs)
  show ?case
  proof (cases "length xs \<le> n")
    case True
    have "length xs - 1 < n" and "0 < length xs" using True "1.prems" by (auto simp: Suc_le_eq)
    then show ?thesis using True "1.prems" by (simp add: chunks_short)
  next
    case False
    then have ne: "drop n xs \<noteq> []" by simp
    have "length xs - 1 = (length (drop n xs) - 1) + n" using False by simp
    then have "(length xs - 1) div n = Suc ((length (drop n xs) - 1) div n)"
      and "(length xs - 1) mod n = (length (drop n xs) - 1) mod n"
      using "1.prems"(1) by (simp_all only: div_add_self2' mod_add_self2)
    then show ?thesis
      using "1.IH" ne "1.prems" False by (simp add: chunks_rec)
  qed
qed

lemma last_chunk_length:
  "0 < m \<Longrightarrow> (if m mod n = 0 then n else m mod n) = (m - 1) mod n + 1" if "0 < n" for m n :: nat
  using that by (cases m) (auto simp: mod_Suc)

lemma parts_minus_one:
  "0 < m \<Longrightarrow> (m + n - 1) div n - 1 = (m - 1) div n" if "0 < n" for m n :: nat
proof -
  assume "0 < m"
  then have "m + n - 1 = (m - 1) + n" by simp
  then show ?thesis using that by (simp only: div_add_self2' diff_Suc_1)
qed

subsection \<open>Encrypted files\<close>

definition sealed_file ::
    "(nat \<Rightarrow> Chunk \<Rightarrow> (exn, bytes) result) \<Rightarrow> nat \<Rightarrow> bytes \<Rightarrow> Chunk list \<Rightarrow> bool" where
  "sealed_file dec n plain chs \<longleftrightarrow>
     length chs = length (chunks n plain) \<and>
     (\<forall>i < length chs.
        dec i (chs ! i) = Inr (chunks n plain ! i) \<and>
        length (chunk_data (chs ! i)) = encrypted_len (length (chunks n plain ! i)) \<and>
        length (chunk_hmac (chs ! i)) = 32)"

definition file_data :: "Chunk list \<Rightarrow> bytes" where
  "file_data chs = concat (map chunk_data chs)"

definition file_checksums :: "Chunk list \<Rightarrow> bytes" where
  "file_checksums chs = concat (map chunk_hmac chs)"

lemma chunk_full:
  assumes "0 < n" and "Suc i < length (chunks n xs)"
  shows "length (chunks n xs ! i) = n"
proof -
  have "Suc i * n < length xs" using chunks_index_bound [OF assms] .
  then show ?thesis using assms by (simp add: nth_chunks)
qed

text \<open>Equal-sized pieces of a concatenation are found at the multiples of their size.\<close>

lemma slice_concat:
  assumes "i < length xss" and "\<forall>j. Suc j < length xss \<longrightarrow> length (xss ! j) = n"
    and "length (last xss) \<le> n"
  shows "take n (drop (i * n) (concat xss)) = xss ! i"
  using assms
proof (induction xss arbitrary: i)
  case Nil
  then show ?case by simp
next
  case (Cons xs xss)
  show ?case
  proof (cases "xss = []")
    case True
    with Cons.prems show ?thesis by simp
  next
    case False
    then have n: "length xs = n" using Cons.prems(2) by (metis Suc_less_eq length_Cons
        length_greater_0_conv nth_Cons_0)
    have rest: "\<forall>j. Suc j < length xss \<longrightarrow> length (xss ! j) = n"
      using Cons.prems(2) by (metis Suc_less_eq length_Cons nth_Cons_Suc)
    show ?thesis
    proof (cases i)
      case 0
      with n show ?thesis by simp
    next
      case (Suc k)
      then show ?thesis
        using Cons.IH [of k] Cons.prems rest False n by simp
    qed
  qed
qed

lemma slice_concat_beyond:
  assumes "length xss \<le> i" and "\<forall>xs \<in> set xss. length xs \<le> n"
  shows "drop (i * n) (concat xss) = []"
proof -
  have "length (concat xss) \<le> length xss * n"
    using assms(2) by (induction xss) auto
  also have "\<dots> \<le> i * n" using assms(1) by simp
  finally show ?thesis by simp
qed

lemma sealed_file_lengths:
  assumes "sealed_file dec n plain chs" and "0 < n"
  shows "\<forall>j. Suc j < length chs \<longrightarrow> length (chunk_data (chs ! j)) = encrypted_len n"
    and "\<forall>ch \<in> set chs. length (chunk_data ch) \<le> encrypted_len n"
proof -
  show "\<forall>j. Suc j < length chs \<longrightarrow> length (chunk_data (chs ! j)) = encrypted_len n"
    using assms by (auto simp: sealed_file_def chunk_full)
  have "length (chunk_data (chs ! j)) \<le> encrypted_len n" if "j < length chs" for j
    using assms that chunks_nonempty_elem [of n "chunks n plain ! j" plain]
    by (simp add: sealed_file_def encrypted_len_mono)
  then show "\<forall>ch \<in> set chs. length (chunk_data ch) \<le> encrypted_len n"
    by (metis in_set_conv_nth)
qed

lemma sealed_file_slice:
  assumes "sealed_file dec n plain chs" and "0 < n" and "i < length chs"
  shows "take (encrypted_len n) (drop (i * encrypted_len n) (file_data chs)) = chunk_data (chs ! i)"
proof -
  have "chs \<noteq> []" using assms(3) by auto
  then have "length (last (map chunk_data chs)) \<le> encrypted_len n"
    using sealed_file_lengths(2) [OF assms(1,2)] by (simp add: last_map)
  then show ?thesis
    using slice_concat [of i "map chunk_data chs" "encrypted_len n"] sealed_file_lengths(1) [OF assms(1,2)]
      assms(3)
    by (simp add: file_data_def)
qed

lemma sealed_file_checksum_slice:
  assumes "sealed_file dec n plain chs" and "i < length chs"
  shows "take 32 (drop (i * 32) (file_checksums chs)) = chunk_hmac (chs ! i)"
proof -
  have l: "length (chunk_hmac ch) = 32" if "ch \<in> set chs" for ch
    using assms(1) that by (metis in_set_conv_nth sealed_file_def)
  have "chs \<noteq> []" using assms(2) by auto
  then have "length (last (map chunk_hmac chs)) \<le> 32" by (simp add: last_map l)
  then show ?thesis
    using slice_concat [of i "map chunk_hmac chs" 32] l assms(2)
    by (simp add: file_checksums_def)
qed

lemma sealed_file_size:
  assumes "sealed_file dec n plain chs"
  shows "length (file_data chs) = sum_list (map (encrypted_len \<circ> length) (chunks n plain))"
proof -
  have "map (length \<circ> chunk_data) chs = map (encrypted_len \<circ> length) (chunks n plain)"
    using assms by (intro nth_equalityI) (auto simp: sealed_file_def)
  then show ?thesis by (simp add: file_data_def length_concat)
qed

subsection \<open>\<open>IChunkEncryptor\<close>\<close>

locale chunk_cipher =
  fixes encrypt :: "'e \<Rightarrow> nat \<Rightarrow> bytes \<Rightarrow> nat \<Rightarrow> Chunk \<times> nat"
    and decrypt :: "'e \<Rightarrow> nat \<Rightarrow> Chunk \<Rightarrow> (exn, bytes) result"
    and plain_chunk_size :: "'e \<Rightarrow> nat"
    and encrypted_chunk_size :: "'e \<Rightarrow> nat"
    and encrypted_file_size :: "'e \<Rightarrow> nat \<Rightarrow> nat"
    and ready :: "'e \<Rightarrow> bool"
  assumes decrypts: "ready e \<Longrightarrow> decrypt e i (fst (encrypt e i d r)) = Inr d"
    and data_length: "ready e \<Longrightarrow> length (chunk_data (fst (encrypt e i d r))) = encrypted_len (length d)"
    and hmac_length: "ready e \<Longrightarrow> length (chunk_hmac (fst (encrypt e i d r))) = 32"
    and chunk_size_pos: "ready e \<Longrightarrow> 0 < plain_chunk_size e"
    and chunk_size_encrypted: "ready e \<Longrightarrow> encrypted_chunk_size e = encrypted_len (plain_chunk_size e)"
    and file_size_encrypted:
      "ready e \<Longrightarrow> length (plain :: bytes) + plain_chunk_size e < 2 ^ 64 \<Longrightarrow>
       sum_list (map (encrypted_len \<circ> length) (chunks (plain_chunk_size e) plain)) < 2 ^ 64 \<Longrightarrow>
       encrypted_file_size e (length plain)
         = sum_list (map (encrypted_len \<circ> length) (chunks (plain_chunk_size e) plain))"

text \<open>Encryption of consecutive chunks, numbered from \<open>i\<close>.\<close>

primrec seal_from ::
    "(nat \<Rightarrow> bytes \<Rightarrow> nat \<Rightarrow> Chunk \<times> nat) \<Rightarrow> nat \<Rightarrow> bytes list \<Rightarrow> nat \<Rightarrow> Chunk list \<times> nat" where
  "seal_from enc i [] r = ([], r)"
| "seal_from enc i (d # ds) r =
     (let (ch, r1) = enc i d r; (chs, r2) = seal_from enc (Suc i) ds r1 in (ch # chs, r2))"

context chunk_cipher
begin

lemma seal_from_nth:
  assumes "ready e"
  shows "length (fst (seal_from (encrypt e) i ds r)) = length ds"
    and "k < length ds \<Longrightarrow> \<exists>r'. fst (seal_from (encrypt e) i ds r) ! k = fst (encrypt e (i + k) (ds ! k) r')"
proof (induction ds arbitrary: i r k)
  case Nil
  case 1 show ?case by simp
  case 2 then show ?case by simp
next
  case (Cons d ds)
  case 1 show ?case using Cons(1) [of "Suc i"] by (simp add: Let_def split: prod.splits) (metis fst_conv)
  case 2
  then show ?case
  proof (cases k)
    case 0
    then show ?thesis by (auto simp: Let_def split: prod.splits intro: exI [of _ r])
  next
    case (Suc m)
    then show ?thesis
      using Cons(2) [of m "Suc i" "snd (encrypt e i d r)"] 2
      by (auto simp: Let_def split: prod.splits)
  qed
qed

text \<open>Encrypting a file chunk by chunk yields an encrypted file of the announced size.\<close>

lemma sealed_seal:
  assumes "ready e"
  shows "sealed_file (decrypt e) (plain_chunk_size e) plain
    (fst (seal_from (encrypt e) 0 (chunks (plain_chunk_size e) plain) r))"
proof -
  let ?cs = "chunks (plain_chunk_size e) plain"
  have "\<exists>r'. fst (seal_from (encrypt e) 0 ?cs r) ! k = fst (encrypt e k (?cs ! k) r')"
    if "k < length ?cs" for k
    using seal_from_nth(2) [OF assms that, of 0] by simp
  then show ?thesis
    unfolding sealed_file_def
    by (metis assms decrypts data_length hmac_length seal_from_nth(1))
qed

lemma sealed_file_encrypted_size:
  assumes "ready e" and "sealed_file (decrypt e) (plain_chunk_size e) plain chs"
    and "length plain + plain_chunk_size e < 2 ^ 64" and "length (file_data chs) < 2 ^ 64"
  shows "encrypted_file_size e (length plain) = length (file_data chs)"
  unfolding sealed_file_size [OF assms(2)]
  by (rule file_size_encrypted) (use assms sealed_file_size [OF assms(2)] in simp_all)

end

subsection \<open>\<open>IHashList\<close>\<close>

text \<open>
  The contract of the list of chunk digests: it is a list of 32-byte strings that can be
  replaced at an existing index, optionally cutting off what follows, extended at its end, and
  replaced as a whole; it is stored as one string.
\<close>

locale hash_list =
  fixes set_hash :: "nat \<Rightarrow> bytes \<Rightarrow> bool \<Rightarrow> (exn, 'h, unit) op"
    and set_all :: "bytes \<Rightarrow> (exn, 'h, unit) op"
    and get_hash :: "'h \<Rightarrow> nat \<Rightarrow> (exn, bytes) result"
    and get_all :: "'h \<Rightarrow> bytes"
    and hashes :: "'h \<Rightarrow> bytes list"
    and well_formed :: "'h \<Rightarrow> bool"
  assumes set_inside: "well_formed h \<Longrightarrow> length x = 32 \<Longrightarrow> i < length (hashes h) \<Longrightarrow>
      \<exists>h'. set_hash i x t h = (Inr (), h') \<and> well_formed h' \<and>
        hashes h' = (if t then take i (hashes h) @ [x] else (hashes h)[i := x])"
    and set_end: "well_formed h \<Longrightarrow> length x = 32 \<Longrightarrow>
      \<exists>h'. set_hash (length (hashes h)) x t h = (Inr (), h') \<and> well_formed h' \<and>
        hashes h' = hashes h @ [x]"
    and set_all_hashes: "well_formed h \<Longrightarrow> \<forall>x \<in> set xs. length x = 32 \<Longrightarrow>
      \<exists>h'. set_all (concat xs) h = (Inr (), h') \<and> well_formed h' \<and> hashes h' = xs"
    and get_inside: "well_formed h \<Longrightarrow> i < length (hashes h) \<Longrightarrow> get_hash h i = Inr (hashes h ! i)"
    and get_all_hashes: "well_formed h \<Longrightarrow> get_all h = concat (hashes h)"
    and hash_sizes: "well_formed h \<Longrightarrow> x \<in> set (hashes h) \<Longrightarrow> length x = 32"
begin

text \<open>
  One call writes at any position up to the end; the loop of \<open>FileHandler::write\<close> over
  consecutive chunk indices overwrites a segment of the list.
\<close>

lemma set_hash_overwrite:
  assumes "well_formed h" and "length x = 32" and "i \<le> length (hashes h)"
  shows "\<exists>h'. set_hash i x t h = (Inr (), h') \<and> well_formed h' \<and>
    hashes h' = take i (hashes h) @ x # (if t then [] else drop (Suc i) (hashes h))"
proof (cases "i < length (hashes h)")
  case True
  with set_inside [OF assms(1,2), of i t] show ?thesis by (cases t) (simp_all add: list_update_overwrite)
next
  case False
  with assms(3) have "i = length (hashes h)" by simp
  with set_end [OF assms(1,2), of t] show ?thesis by (cases t) simp_all
qed

lemma set_hashes_overwrite:
  assumes "well_formed h" and "i \<le> length (hashes h)" and "\<forall>x \<in> set xs. length x = 32" and "xs \<noteq> []"
    and "k + length xs = Suc m"
  shows "\<exists>h'. for_each (\<lambda>(k, j, x). set_hash j x (if k = m then t else False))
      (zip [k..<k + length xs] (zip [i..<i + length xs] xs)) h = (Inr (), h') \<and>
    well_formed h' \<and> hashes h' = overwrite i xs t (hashes h)"
  using assms
proof (induction xs arbitrary: i k h)
  case Nil
  then show ?case by simp
next
  case (Cons x xs)
  let ?t = "if k = m then t else False"
  obtain h1 where h1: "set_hash i x ?t h = (Inr (), h1)" "well_formed h1"
    "hashes h1 = take i (hashes h) @ x # (if ?t then [] else drop (Suc i) (hashes h))"
    using set_hash_overwrite [OF Cons.prems(1) _ Cons.prems(2), of x ?t] Cons.prems(3) by auto
  then have o1: "hashes h1 = overwrite i [x] ?t (hashes h)" by (simp add: overwrite_def)
  have upt: "[a..<a + length (x # xs)] = a # [Suc a..<Suc a + length xs]" for a
    by (simp add: upt_rec)
  show ?case
  proof (cases "xs = []")
    case True
    then have "k = m" using Cons.prems(5) by simp
    then show ?thesis using True h1 o1 by (simp add: bindS_Inr)
  next
    case False
    then have "k \<noteq> m" using Cons.prems(5) by auto
    then have o1: "hashes h1 = overwrite i [x] False (hashes h)" using o1 by simp
    have i: "Suc i \<le> length (hashes h1)" using Cons.prems(2) o1 by (simp add: length_overwrite)
    have xs: "\<forall>x \<in> set xs. length x = 32" "Suc k + length xs = Suc m" using Cons.prems(3,5) by simp_all
    obtain h2 where h2: "for_each (\<lambda>(k, j, x). set_hash j x (if k = m then t else False))
        (zip [Suc k..<Suc k + length xs] (zip [Suc i..<Suc i + length xs] xs)) h1 = (Inr (), h2)"
      "well_formed h2" "hashes h2 = overwrite (Suc i) xs t (hashes h1)"
      using Cons.IH [OF h1(2) i xs(1) False xs(2)] by blast
    have "hashes h2 = overwrite i (x # xs) t (hashes h)"
      using h2(3) o1 overwrite_overwrite [OF Cons.prems(2), of "[x]" xs t] by simp
    moreover have "for_each (\<lambda>(k, j, x). set_hash j x (if k = m then t else False))
        (zip [k..<k + length (x # xs)] (zip [i..<i + length (x # xs)] (x # xs))) h = (Inr (), h2)"
      unfolding upt using h1(1) h2(1) by (simp add: bindS_Inr)
    ultimately show ?thesis using h2(2) by blast
  qed
qed

end

subsection \<open>\<open>IChunkReader\<close>\<close>

text \<open>
  The loop of \<open>FileReader::read\<close> and \<open>FileHandler::read\<close> over the chunk indices of the
  requested range, appending every decrypted chunk.
\<close>

primrec append_chunks :: "(nat \<Rightarrow> ('e, 's, 'a list) op) \<Rightarrow> nat list \<Rightarrow> 'a list \<Rightarrow> ('e, 's, 'a list) op" where
  "append_chunks get_chunk [] acc = ret acc"
| "append_chunks get_chunk (i # is) acc = bindS (get_chunk i) (\<lambda>d. append_chunks get_chunk is (acc @ d))"

lemma nths_upt: "b \<le> length xs \<Longrightarrow> map ((!) xs) [a..<b] = take (b - a) (drop a xs)"
  by (intro nth_equalityI) auto

lemma range_in_chunks:
  fixes n pos len :: nat
  assumes "0 < n" and "0 < len"
  shows "pos mod n + len \<le> (Suc ((pos + len - 1) div n) - pos div n) * n"
    and "pos div n \<le> (pos + len - 1) div n"
proof -
  let ?b = "(pos + len - 1) div n"
  show le: "pos div n \<le> ?b" using assms(2) by (intro div_le_mono) simp
  have "pos + len - 1 < Suc ?b * n" using dividend_less_times_div [OF assms(1)] by (simp add: mult.commute)
  then have "pos + len \<le> Suc ?b * n" using assms(2) by simp
  moreover have "pos = pos div n * n + pos mod n" by simp
  ultimately have "pos div n * n + pos mod n + len \<le> Suc ?b * n" by presburger
  then show "pos mod n + len \<le> (Suc ?b - pos div n) * n"
    unfolding diff_mult_distrib using le by linarith
qed

lemma take_drop_window:
  fixes n pos len :: nat
  assumes "0 < n" and "0 < len"
  shows "take len (drop (pos mod n)
      (take ((Suc ((pos + len - 1) div n) - pos div n) * n) (drop (pos div n * n) xs)))
    = take len (drop pos xs)"
proof -
  have "len \<le> (Suc ((pos + len - 1) div n) - pos div n) * n - pos mod n"
    using range_in_chunks(1) [OF assms, of pos] by linarith
  then show ?thesis by (simp add: drop_take min_absorb1)
qed

locale chunk_source =
  fixes chunk_index :: "'s \<Rightarrow> nat \<Rightarrow> nat"
    and pos_in_chunk :: "'s \<Rightarrow> nat \<Rightarrow> nat"
    and get_chunk :: "nat \<Rightarrow> (exn, 's, bytes) op"
    and chunk_size :: "'s \<Rightarrow> nat"
    and serves :: "'s \<Rightarrow> bytes \<Rightarrow> bool"
  assumes index: "chunk_index s pos = pos div chunk_size s"
    and in_chunk: "pos_in_chunk s pos = pos mod chunk_size s"
    and size_pos: "serves s plain \<Longrightarrow> 0 < chunk_size s"
    and get: "serves s plain \<Longrightarrow> i < length (chunks (chunk_size s) plain) \<Longrightarrow>
      \<exists>s'. get_chunk i s = (Inr (chunks (chunk_size s) plain ! i), s') \<and> serves s' plain \<and>
        chunk_size s' = chunk_size s"
begin

lemma append_chunks_nths:
  assumes "serves s plain" and "\<forall>i \<in> set is. i < length (chunks (chunk_size s) plain)"
  shows "\<exists>s'. append_chunks get_chunk is acc s
      = (Inr (acc @ concat (map ((!) (chunks (chunk_size s) plain)) is)), s') \<and>
    serves s' plain \<and> chunk_size s' = chunk_size s"
  using assms
proof (induction "is" arbitrary: acc s)
  case Nil
  then show ?case by simp
next
  case (Cons i "is")
  let ?cs = "chunks (chunk_size s) plain"
  obtain s1 where s1: "get_chunk i s = (Inr (?cs ! i), s1)" "serves s1 plain" "chunk_size s1 = chunk_size s"
    using get [OF Cons.prems(1), of i] Cons.prems(2) by auto
  with Cons.IH [of s1 "acc @ ?cs ! i"] Cons.prems(2) show ?case by (auto simp: bindS_Inr)
qed

text \<open>A range inside the plain content is read as such.\<close>

lemma read_range:
  assumes "serves s plain" and "0 < len" and "pos + len \<le> length plain"
  shows "\<exists>s'. bindS (append_chunks get_chunk [chunk_index s pos..<Suc (chunk_index s (pos + len - 1))] [])
      (\<lambda>d s'. (substr e d (pos_in_chunk s' pos) len, s')) s = (Inr (take len (drop pos plain)), s') \<and>
    serves s' plain \<and> chunk_size s' = chunk_size s"
proof -
  let ?n = "chunk_size s" let ?a = "pos div ?n" and ?b = "Suc ((pos + len - 1) div ?n)"
  let ?cs = "chunks ?n plain"
  have n: "0 < ?n" by (rule size_pos [OF assms(1)])
  have "(pos + len - 1) div ?n * ?n \<le> pos + len - 1" by (rule div_times_less_eq_dividend)
  then have "(pos + len - 1) div ?n * ?n < length plain" using assms(2,3) by linarith
  then have b: "?b \<le> length ?cs" by (intro Suc_leI chunks_index_less [OF n])
  define d where "d = take ((?b - ?a) * ?n) (drop (?a * ?n) plain)"
  have "concat (map ((!) ?cs) [?a..<?b]) = concat (take (?b - ?a) (drop ?a ?cs))"
    using b by (simp only: nths_upt)
  also have "\<dots> = d" by (simp add: d_def drop_chunks n concat_take_chunks)
  finally have d: "concat (map ((!) ?cs) [?a..<?b]) = d" .
  have "\<forall>i \<in> set [?a..<?b]. i < length ?cs" using b by (auto simp del: upt_Suc)
  from append_chunks_nths [OF assms(1) this, of "[]"]
  obtain s' where s': "append_chunks get_chunk [?a..<?b] [] s = (Inr d, s')" "serves s' plain"
    "chunk_size s' = ?n" unfolding d by auto
  have "take len (drop (pos mod ?n) d) = take len (drop pos plain)"
    unfolding d_def by (rule take_drop_window [OF n assms(2)])
  moreover have "pos mod ?n \<le> length d"
  proof -
    have "length (take len (drop pos plain)) = len" using assms(3) by simp
    then have "drop (pos mod ?n) d \<noteq> []" using assms(2) calculation by force
    then show ?thesis by simp
  qed
  ultimately show ?thesis using s' by (intro exI [of _ s']) (simp add: index in_chunk bindS_Inr del: upt_Suc)
qed

end

end
