(* ===== verification/Store_ChunkEncryptor.thy ===== *)
theory Store_ChunkEncryptor
  imports Store_Interfaces
begin

text \<open>
  \<open>store/src/encryptors/fileData/ChunkEncryptor.cpp\<close>: encryption of one file chunk under a
  key derived from the file key and the chunk index, its verification and decryption, and the
  sizes of encrypted chunks and files. The interface \<open>IChunkEncryptor\<close> is the locale
  \<open>chunk_cipher\<close>; \<open>ChunkEncryptor\<close> is its interpretation.
\<close>

subsection \<open>Data and operations\<close>

record ChunkEncryptor =
  ce_key :: bytes
  ce_chunkSize :: nat

text \<open>The four bytes of the index as a big-endian \<open>uint32_t\<close>.\<close>

definition chunkIndexToBE :: "nat \<Rightarrow> bytes" where
  "chunkIndexToBE index = map (\<lambda>k. of_nat (u32 index div 256 ^ k)) [3, 2, 1, 0]"

definition ChunkEncryptor_encrypt ::
    "crypto_api \<Rightarrow> ChunkEncryptor \<Rightarrow> nat \<Rightarrow> bytes \<Rightarrow> nat \<Rightarrow> Chunk \<times> nat" where
  "ChunkEncryptor_encrypt c self index data draws =
     (let chunkKey = sha256 c (ce_key self @ chunkIndexToBE index);
          iv = randomBytes c draws IV_SIZE;
          cipher = aes256CbcPkcs7Encrypt c data chunkKey iv;
          ivWithCipher = iv @ cipher;
          hmac = hmacSha256 c chunkKey ivWithCipher
      in (\<lparr>chunk_data = hmac @ ivWithCipher, chunk_hmac = hmac\<rparr>, Suc draws))"

definition ChunkEncryptor_decrypt ::
    "crypto_api \<Rightarrow> ChunkEncryptor \<Rightarrow> nat \<Rightarrow> Chunk \<Rightarrow> (exn, bytes) result" where
  "ChunkEncryptor_decrypt c self index chunk =
     (let chunkKey = sha256 c (ce_key self @ chunkIndexToBE index) in
      bindR (substr StdOutOfRange (chunk_data chunk) 0 HMAC_SIZE) (\<lambda>hmac.
      if chunk_hmac chunk \<noteq> hmac then Inl (StoreExn FileChunkInvalidChecksumException) else
      bindR (substr1 StdOutOfRange (chunk_data chunk) HMAC_SIZE) (\<lambda>body.
      let hmac2 = hmacSha256 c chunkKey body in
      if hmac \<noteq> hmac2 then Inl (StoreExn FileChunkInvalidCipherChecksumException) else
      bindR (substr StdOutOfRange (chunk_data chunk) HMAC_SIZE IV_SIZE) (\<lambda>iv.
      bindR (substr1 StdOutOfRange (chunk_data chunk) (HMAC_SIZE + IV_SIZE)) (\<lambda>cipher.
      aes256CbcPkcs7Decrypt c cipher chunkKey iv)))))"

definition ChunkEncryptor_getPlainChunkSize :: "ChunkEncryptor \<Rightarrow> nat" where
  "ChunkEncryptor_getPlainChunkSize self = ce_chunkSize self"

definition ChunkEncryptor_getEncryptedChunkSize :: "ChunkEncryptor \<Rightarrow> nat" where
  "ChunkEncryptor_getEncryptedChunkSize self =
     (let paddingSize = CHUNK_PADDING - ce_chunkSize self mod CHUNK_PADDING
      in u64 (ce_chunkSize self + paddingSize + HMAC_SIZE + IV_SIZE))"

definition ChunkEncryptor_getEncryptedFileSize :: "ChunkEncryptor \<Rightarrow> nat \<Rightarrow> nat" where
  "ChunkEncryptor_getEncryptedFileSize self fileSize =
     (if fileSize = 0 then 0
      else
        let chunkSize = ce_chunkSize self;
            parts = usub64 (u64 (fileSize + chunkSize)) 1 div chunkSize;
            rest = fileSize mod chunkSize;
            lastChunkSize = (if rest = 0 then chunkSize else rest);
            fullChunkPaddingSize = CHUNK_PADDING - chunkSize mod CHUNK_PADDING;
            lastChunkPaddingSize = CHUNK_PADDING - lastChunkSize mod CHUNK_PADDING
        in u64 (usub64 parts 1 * u64 (chunkSize + HMAC_SIZE + IV_SIZE + fullChunkPaddingSize)
                + lastChunkSize + HMAC_SIZE + IV_SIZE + lastChunkPaddingSize))"

definition ChunkEncryptor_sync :: "ChunkEncryptor \<Rightarrow> bytes \<Rightarrow> nat \<Rightarrow> ChunkEncryptor" where
  "ChunkEncryptor_sync self key chunkSize = self\<lparr>ce_key := key, ce_chunkSize := chunkSize\<rparr>"

subsection \<open>Sizes\<close>

lemma getEncryptedChunkSize_eq:
  "ce_chunkSize e + 64 < 2 ^ 64 \<Longrightarrow>
     ChunkEncryptor_getEncryptedChunkSize e = encrypted_len (ce_chunkSize e)"
  unfolding ChunkEncryptor_getEncryptedChunkSize_def Let_def store_sizes encrypted_len_def
  by (subst u64_id) simp_all

subsection \<open>Round trip and integrity\<close>

lemma encrypt_data_length:
  assumes "crypto_ok c"
  shows "length (chunk_data (fst (ChunkEncryptor_encrypt c e i d r))) = encrypted_len (length d)"
    and "length (chunk_hmac (fst (ChunkEncryptor_encrypt c e i d r))) = 32"
  using assms
  by (simp_all add: ChunkEncryptor_encrypt_def Let_def crypto_okD store_sizes encrypted_len_def)

lemma encrypt_hmac_prefix:
  assumes "crypto_ok c"
  shows "take 32 (chunk_data (fst (ChunkEncryptor_encrypt c e i d r)))
    = chunk_hmac (fst (ChunkEncryptor_encrypt c e i d r))"
  using assms by (simp add: ChunkEncryptor_encrypt_def Let_def crypto_okD)

lemma decrypt_encrypt:
  assumes "crypto_ok c"
  shows "ChunkEncryptor_decrypt c e i (fst (ChunkEncryptor_encrypt c e i d r)) = Inr d"
  using assms
  by (simp add: ChunkEncryptor_encrypt_def ChunkEncryptor_decrypt_def Let_def crypto_okD store_sizes)

lemma decrypt_accepts:
  assumes "ChunkEncryptor_decrypt c e i ch = Inr plain"
  shows "chunk_hmac ch = take 32 (chunk_data ch)"
    and "hmacSha256 c (sha256 c (ce_key e @ chunkIndexToBE i)) (drop 32 (chunk_data ch))
           = chunk_hmac ch"
    and "48 \<le> length (chunk_data ch)"
  using assms
  by (auto simp: ChunkEncryptor_decrypt_def Let_def store_sizes bindR_eq_Inr substr_def substr1_def
      split: if_splits)

lemma encrypted_len_sum:
  "a + k + HMAC_SIZE + IV_SIZE + (CHUNK_PADDING - k mod CHUNK_PADDING) = a + encrypted_len k"
  by (simp add: store_sizes encrypted_len_def)

lemma getEncryptedFileSize_eq:
  fixes plain :: bytes and e :: ChunkEncryptor
  defines "tot \<equiv> sum_list (map (encrypted_len \<circ> length) (chunks (ce_chunkSize e) plain))"
  assumes n: "0 < ce_chunkSize e" and n64: "ce_chunkSize e + 64 < 2 ^ 64"
    and len: "length plain + ce_chunkSize e < 2 ^ 64" and tot: "tot < 2 ^ 64"
  shows "ChunkEncryptor_getEncryptedFileSize e (length plain) = tot"
proof (cases "plain = []")
  case True
  then show ?thesis by (simp add: tot_def ChunkEncryptor_getEncryptedFileSize_def)
next
  case False
  let ?n = "ce_chunkSize e" and ?m = "length plain"
  have pos: "0 < ?m" using False by simp
  have parts: "usub64 (u64 (?m + ?n)) 1 div ?n = (?m + ?n - 1) div ?n"
    using len n pos by (simp add: u64_id usub64_id)
  have full: "u64 (?n + HMAC_SIZE + IV_SIZE + (CHUNK_PADDING - ?n mod CHUNK_PADDING)) = encrypted_len ?n"
    using n64 by (subst u64_id) (simp_all add: store_sizes encrypted_len_def)
  have "1 * ?n \<le> ?m + ?n - 1" using pos by linarith
  then have "1 \<le> (?m + ?n - 1) div ?n" using n by (simp only: less_eq_div_iff_mult_less_eq)
  moreover have "(?m + ?n - 1) div ?n < 2 ^ 64"
    using len by (meson div_le_dividend le_less_trans less_imp_diff_less)
  ultimately have minus1: "usub64 ((?m + ?n - 1) div ?n) 1 = (?m - 1) div ?n"
    by (simp add: usub64_id parts_minus_one [OF n pos] del: One_nat_def)
  have sum: "tot = (?m - 1) div ?n * encrypted_len ?n + encrypted_len ((?m - 1) mod ?n + 1)"
    unfolding tot_def by (rule sum_encrypted_len_chunks [OF n False])
  have "ChunkEncryptor_getEncryptedFileSize e ?m = u64 tot"
    unfolding ChunkEncryptor_getEncryptedFileSize_def Let_def parts minus1 full sum
      last_chunk_length [OF n pos] encrypted_len_sum
    using pos by simp
  with tot show ?thesis by (simp add: u64_id)
qed

subsection \<open>The interface\<close>

definition ChunkEncryptor_ready :: "crypto_api \<Rightarrow> ChunkEncryptor \<Rightarrow> bool" where
  "ChunkEncryptor_ready c e \<longleftrightarrow> crypto_ok c \<and> 0 < ce_chunkSize e \<and> ce_chunkSize e + 64 < 2 ^ 64"

interpretation ce: chunk_cipher "ChunkEncryptor_encrypt c" "ChunkEncryptor_decrypt c"
    ChunkEncryptor_getPlainChunkSize ChunkEncryptor_getEncryptedChunkSize
    ChunkEncryptor_getEncryptedFileSize "ChunkEncryptor_ready c" for c
  by unfold_locales
    (auto simp: ChunkEncryptor_ready_def ChunkEncryptor_getPlainChunkSize_def decrypt_encrypt
      encrypt_data_length getEncryptedChunkSize_eq getEncryptedFileSize_eq)

subsection \<open>Properties\<close>

text \<open>
  Decryption inverts encryption, and only for the index it was encrypted for is the digest
  recomputed: whatever data and randomness, \<open>decrypt\<close> of an encrypted chunk with the digest
  \<open>encrypt\<close> returned gives back the data; a chunk that comes with another digest is refused
  before anything is decrypted, and a chunk whose body was changed is refused unless the
  changed body has the same keyed digest.
\<close>

theorem ChunkEncryptor_roundtrip:
  assumes c: "crypto_ok c" and enc: "ChunkEncryptor_encrypt c e i d r = (ch, r')"
  shows "ChunkEncryptor_decrypt c e i ch = Inr d \<and>
    (h \<noteq> chunk_hmac ch \<longrightarrow>
       ChunkEncryptor_decrypt c e i (ch\<lparr>chunk_hmac := h\<rparr>) = Inl (StoreExn FileChunkInvalidChecksumException)) \<and>
    (hmacSha256 c (sha256 c (ce_key e @ chunkIndexToBE i)) b \<noteq> chunk_hmac ch \<longrightarrow>
       ChunkEncryptor_decrypt c e i (ch\<lparr>chunk_data := chunk_hmac ch @ b\<rparr>)
         = Inl (StoreExn FileChunkInvalidCipherChecksumException))"
proof -
  have ch: "ch = fst (ChunkEncryptor_encrypt c e i d r)" using enc by simp
  have pre: "take 32 (chunk_data ch) = chunk_hmac ch" and len: "length (chunk_hmac ch) = 32"
    unfolding ch by (rule encrypt_hmac_prefix [OF c], rule encrypt_data_length(2) [OF c])
  have "ChunkEncryptor_decrypt c e i ch = Inr d" unfolding ch by (rule decrypt_encrypt [OF c])
  then show ?thesis
    using pre len by (auto simp: ChunkEncryptor_decrypt_def Let_def store_sizes)
qed

theorem ChunkEncryptor_roundtrip_witness:
  "ChunkEncryptor_decrypt sample_crypto \<lparr>ce_key = [9], ce_chunkSize = 4\<rparr> 3
     (fst (ChunkEncryptor_encrypt sample_crypto \<lparr>ce_key = [9], ce_chunkSize = 4\<rparr> 3 [1, 2] 0)) = Inr [1, 2]"
  using ChunkEncryptor_roundtrip [OF sample_crypto_ok prod.collapse [symmetric]] by blast

text \<open>
  The closed formula of \<open>getEncryptedFileSize\<close>, computed in 64-bit arithmetic from the size
  alone, is the number of bytes that encrypting the file chunk by chunk produces: the sum over
  the chunks of digest, vector and padded cipher, for every file for which the sums fit.
\<close>

theorem ChunkEncryptor_getEncryptedFileSize_correct:
  assumes "ChunkEncryptor_ready c e"
    and "length plain + ce_chunkSize e < 2 ^ 64"
    and "length (file_data (fst (seal_from (ChunkEncryptor_encrypt c e) 0 (chunks (ce_chunkSize e) plain) r))) < 2 ^ 64"
  shows "ChunkEncryptor_getEncryptedFileSize e (length plain)
    = length (file_data (fst (seal_from (ChunkEncryptor_encrypt c e) 0 (chunks (ce_chunkSize e) plain) r)))"
  using ce.sealed_file_encrypted_size [OF assms(1) ce.sealed_seal [OF assms(1)], of plain r] assms(2,3)
  by (simp add: ChunkEncryptor_getPlainChunkSize_def)

theorem ChunkEncryptor_getEncryptedFileSize_correct_witness:
  "ChunkEncryptor_getEncryptedFileSize \<lparr>ce_key = [9], ce_chunkSize = 4\<rparr> 5 = 128 \<and>
   length (file_data (fst (seal_from (ChunkEncryptor_encrypt sample_crypto \<lparr>ce_key = [9], ce_chunkSize = 4\<rparr>) 0
     (chunks 4 [1, 2, 3, 4, 5]) 0))) = 128"
proof -
  let ?e = "\<lparr>ce_key = [9], ce_chunkSize = 4\<rparr> :: ChunkEncryptor"
  let ?f = "length (file_data (fst (seal_from (ChunkEncryptor_encrypt sample_crypto ?e) 0 (chunks 4 [1, 2, 3, 4, 5]) 0)))"
  have r: "ChunkEncryptor_ready sample_crypto ?e" by (simp add: ChunkEncryptor_ready_def sample_crypto_ok)
  have f: "?f = 128"
    using sealed_file_size [OF ce.sealed_seal [OF r, of "[1, 2, 3, 4, 5]" 0]]
    by (simp add: ChunkEncryptor_getPlainChunkSize_def chunks_rec encrypted_len_def)
  then have "ChunkEncryptor_getEncryptedFileSize ?e (length ([1, 2, 3, 4, 5] :: bytes)) = ?f"
    using ChunkEncryptor_getEncryptedFileSize_correct [OF r, of "[1, 2, 3, 4, 5]" 0] by simp
  moreover have "length ([1, 2, 3, 4, 5] :: bytes) = 5" by simp
  ultimately show ?thesis using f by metis
qed

end
