(* ===== verification/Store_HmacList.thy ===== *)
theory Store_HmacList
  imports Store_Interfaces
begin

text \<open>
  \<open>store/src/encryptors/fileData/HmacList.cpp\<close>: the digests of the chunks of one file, kept
  as one string together with their number and a cached digest of the whole string under the
  file key. The abstraction of a list is \<open>HmacList_hashes\<close>, the string cut into digests.
\<close>

subsection \<open>Data and operations\<close>

record HmacList =
  hl_topHashKey :: bytes
  hl_topHash :: "bytes option"
  hl_size :: nat
  hl_hashes :: bytes

definition HmacList_new :: "crypto_api \<Rightarrow> bytes \<Rightarrow> bytes \<Rightarrow> bytes \<Rightarrow> (exn, HmacList) result" where
  "HmacList_new c topHashKey topHash hashes =
     (let computed = hmacSha256 c topHashKey hashes in
      if computed \<noteq> topHash then Inl (StoreExn InvalidFileTopHashException)
      else if length hashes mod HMAC_SIZE \<noteq> 0 then Inl (StoreExn InvalidHashSizeException)
      else Inr \<lparr>hl_topHashKey = topHashKey, hl_topHash = Some computed,
                hl_size = length hashes div HMAC_SIZE, hl_hashes = hashes\<rparr>)"

definition HmacList_sync ::
    "crypto_api \<Rightarrow> bytes \<Rightarrow> bytes \<Rightarrow> bytes \<Rightarrow> (exn, HmacList, unit) op" where
  "HmacList_sync c topHashKey topHash hashes self =
     (let tmp = hmacSha256 c topHashKey hashes in
      if tmp \<noteq> topHash then (Inl (StoreExn InvalidFileTopHashException), self)
      else if length hashes mod HMAC_SIZE \<noteq> 0 then (Inl (StoreExn InvalidHashSizeException), self)
      else (Inr (), self\<lparr>hl_topHashKey := topHashKey, hl_hashes := hashes, hl_topHash := Some tmp,
                         hl_size := length hashes div HMAC_SIZE\<rparr>))"

definition HmacList_setAll :: "bytes \<Rightarrow> (exn, HmacList, unit) op" where
  "HmacList_setAll hashes self =
     (if length hashes mod HMAC_SIZE \<noteq> 0 then (Inl (StoreExn InvalidHashSizeException), self)
      else (Inr (), self\<lparr>hl_hashes := hashes, hl_topHash := None,
                         hl_size := length hashes div HMAC_SIZE\<rparr>))"

text \<open>
  \<open>memcpy\<close> overwrites 32 bytes in place; \<open>erase\<close> drops everything from its argument on.
\<close>

definition HmacList_set :: "nat \<Rightarrow> bytes \<Rightarrow> bool \<Rightarrow> (exn, HmacList, unit) op" where
  "HmacList_set chunkIndex hash trunc self =
     (if length hash \<noteq> HMAC_SIZE then (Inl (StoreExn InvalidHashSizeException), self)
      else if chunkIndex < hl_size self then
        (let offset = chunkIndex * HMAC_SIZE;
             copied = take offset (hl_hashes self) @ hash @ drop (offset + HMAC_SIZE) (hl_hashes self)
         in if trunc
            then (Inr (), self\<lparr>hl_size := chunkIndex + 1, hl_hashes := take (offset + HMAC_SIZE) copied,
                               hl_topHash := None\<rparr>)
            else (Inr (), self\<lparr>hl_hashes := copied, hl_topHash := None\<rparr>))
      else if chunkIndex = hl_size self then
        (Inr (), self\<lparr>hl_size := hl_size self + 1, hl_hashes := hl_hashes self @ hash,
                      hl_topHash := None\<rparr>)
      else (Inl (StoreExn HashIndexOutOfBoundsException), self))"

definition HmacList_getHash :: "HmacList \<Rightarrow> nat \<Rightarrow> (exn, bytes) result" where
  "HmacList_getHash self chunkIndex =
     (if hl_size self < chunkIndex then Inl (StoreExn HashIndexOutOfBoundsException)
      else substr StdOutOfRange (hl_hashes self) (chunkIndex * HMAC_SIZE) HMAC_SIZE)"

definition HmacList_getAll :: "HmacList \<Rightarrow> bytes" where
  "HmacList_getAll self = hl_hashes self"

definition HmacList_getTopHash :: "crypto_api \<Rightarrow> HmacList \<Rightarrow> bytes \<times> HmacList" where
  "HmacList_getTopHash c self =
     (case hl_topHash self of
        Some h \<Rightarrow> (h, self)
      | None \<Rightarrow> (let h = hmacSha256 c (hl_topHashKey self) (hl_hashes self)
                 in (h, self\<lparr>hl_topHash := Some h\<rparr>)))"

definition HmacList_verifyHash :: "HmacList \<Rightarrow> nat \<Rightarrow> bytes \<Rightarrow> (exn, bool) result" where
  "HmacList_verifyHash self chunkIndex hash =
     bindR (HmacList_getHash self chunkIndex) (\<lambda>h. Inr (h = hash))"

definition HmacList_verifyTopHash :: "crypto_api \<Rightarrow> HmacList \<Rightarrow> bytes \<Rightarrow> bool \<times> HmacList" where
  "HmacList_verifyTopHash c self topHash =
     (case HmacList_getTopHash c self of (h, self') \<Rightarrow> (h = topHash, self'))"

subsection \<open>Abstraction and invariant\<close>

definition HmacList_hashes :: "HmacList \<Rightarrow> bytes list" where
  "HmacList_hashes self = chunks 32 (hl_hashes self)"

definition HmacList_shape :: "HmacList \<Rightarrow> bool" where
  "HmacList_shape self \<longleftrightarrow> length (hl_hashes self) = hl_size self * 32"

definition HmacList_inv :: "crypto_api \<Rightarrow> HmacList \<Rightarrow> bool" where
  "HmacList_inv c self \<longleftrightarrow> HmacList_shape self \<and>
     (case hl_topHash self of
        None \<Rightarrow> True
      | Some h \<Rightarrow> h = hmacSha256 c (hl_topHashKey self) (hl_hashes self))"

lemma shape_facts:
  assumes "HmacList_shape h"
  shows length_HmacList_hashes: "length (HmacList_hashes h) = hl_size h"
    and HmacList_hashes_32: "\<forall>x \<in> set (HmacList_hashes h). length x = 32"
    and concat_HmacList_hashes: "concat (HmacList_hashes h) = hl_hashes h"
proof -
  have len: "length (hl_hashes h) = hl_size h * 32" using assms by (simp add: HmacList_shape_def)
  show "length (HmacList_hashes h) = hl_size h"
    unfolding HmacList_hashes_def by (rule chunks_all_full(1) [OF _ len]) simp
  show "\<forall>x \<in> set (HmacList_hashes h). length x = 32"
    unfolding HmacList_hashes_def by (rule chunks_all_full(2) [OF _ len]) simp
  show "concat (HmacList_hashes h) = hl_hashes h" by (simp add: HmacList_hashes_def)
qed

lemma shape_concat:
  assumes "\<forall>x \<in> set xs. length x = 32" and "hl_hashes h = concat xs" and "hl_size h = length xs"
  shows "HmacList_shape h" and "HmacList_hashes h = xs"
  using assms by (simp_all add: HmacList_shape_def HmacList_hashes_def length_concat_equal chunks_concat)

subsection \<open>The operations on the abstract list\<close>

lemma HmacList_set_inside:
  assumes "HmacList_shape h" and "length x = 32" and "i < length (HmacList_hashes h)"
  shows "\<exists>h'. HmacList_set i x t h = (Inr (), h') \<and> HmacList_shape h' \<and>
    HmacList_hashes h' = (if t then take i (HmacList_hashes h) @ [x] else (HmacList_hashes h)[i := x])"
proof -
  let ?xs = "HmacList_hashes h"
  note s = shape_facts [OF assms(1)]
  have i: "i < hl_size h" using assms(3) s(1) by simp
  define copied where
    "copied = take (i * 32) (hl_hashes h) @ x @ drop (i * 32 + 32) (hl_hashes h)"
  have upd: "\<forall>y \<in> set (?xs[i := x]). length y = 32"
    using s(2) assms(2) by (metis in_set_conv_nth length_list_update nth_list_update_eq
        nth_list_update_neq nth_mem)
  have copied: "copied = concat (?xs[i := x])"
  proof -
    have "i * 32 + 32 = Suc i * 32" by simp
    then have "drop (i * 32 + 32) (concat ?xs) = concat (drop (Suc i) ?xs)"
      using drop_concat_equal [OF s(2), of "Suc i"] by metis
    moreover have "take (i * 32) (concat ?xs) = concat (take i ?xs)"
      by (rule take_concat_equal [OF s(2)])
    ultimately show ?thesis
      using assms(3) by (simp add: copied_def s(3) list_update_overwrite)
  qed
  have cut: "take (i * 32 + 32) copied = concat (take i ?xs @ [x])"
  proof -
    have "take (Suc i * 32) copied = concat (take (Suc i) (?xs[i := x]))"
      unfolding copied by (rule take_concat_equal [OF upd])
    also have "take (Suc i) (?xs[i := x]) = take i ?xs @ [x]"
      using assms(3) by (simp add: list_update_overwrite)
    finally show ?thesis by (simp add: add.commute)
  qed
  have cut32: "\<forall>y \<in> set (take i ?xs @ [x]). length y = 32"
    using s(2) assms(2) by (auto dest: in_set_takeD)
  show ?thesis
  proof (cases t)
    case True
    let ?h = "h\<lparr>hl_size := i + 1, hl_hashes := take (i * 32 + 32) copied, hl_topHash := None\<rparr>"
    have "HmacList_set i x t h = (Inr (), ?h)"
      using True assms(2) i by (simp add: HmacList_set_def store_sizes Let_def copied_def)
    moreover have "HmacList_shape ?h" "HmacList_hashes ?h = take i ?xs @ [x]"
      by (rule shape_concat [OF cut32]; use cut assms(3) in simp)+
    ultimately show ?thesis using True by simp
  next
    case False
    let ?h = "h\<lparr>hl_hashes := copied, hl_topHash := None\<rparr>"
    have "HmacList_set i x t h = (Inr (), ?h)"
      using False assms(2) i by (simp add: HmacList_set_def store_sizes Let_def copied_def)
    moreover have "HmacList_shape ?h" "HmacList_hashes ?h = ?xs[i := x]"
      by (rule shape_concat [OF upd]; use copied s(1) in simp)+
    ultimately show ?thesis using False by simp
  qed
qed

lemma HmacList_set_end:
  assumes "HmacList_shape h" and "length x = 32"
  shows "\<exists>h'. HmacList_set (length (HmacList_hashes h)) x t h = (Inr (), h') \<and> HmacList_shape h' \<and>
    HmacList_hashes h' = HmacList_hashes h @ [x]"
proof -
  note s = shape_facts [OF assms(1)]
  let ?h = "h\<lparr>hl_size := hl_size h + 1, hl_hashes := hl_hashes h @ x, hl_topHash := None\<rparr>"
  have "HmacList_set (length (HmacList_hashes h)) x t h = (Inr (), ?h)"
    using assms(2) s(1) by (simp add: HmacList_set_def store_sizes)
  moreover have "\<forall>y \<in> set (HmacList_hashes h @ [x]). length y = 32" using s(2) assms(2) by auto
  then have "HmacList_shape ?h" "HmacList_hashes ?h = HmacList_hashes h @ [x]"
    by (rule shape_concat; use s in simp)+
  ultimately show ?thesis by simp
qed

interpretation hl: hash_list HmacList_set HmacList_setAll HmacList_getHash HmacList_getAll
    HmacList_hashes HmacList_shape
proof unfold_locales
  fix h i t and x :: bytes
  assume "HmacList_shape h" and "length x = 32" and "i < length (HmacList_hashes h)"
  then show "\<exists>h'. HmacList_set i x t h = (Inr (), h') \<and> HmacList_shape h' \<and>
    HmacList_hashes h' = (if t then take i (HmacList_hashes h) @ [x] else (HmacList_hashes h)[i := x])"
    by (rule HmacList_set_inside)
next
  fix h t and x :: bytes
  assume "HmacList_shape h" and "length x = 32"
  then show "\<exists>h'. HmacList_set (length (HmacList_hashes h)) x t h = (Inr (), h') \<and>
    HmacList_shape h' \<and> HmacList_hashes h' = HmacList_hashes h @ [x]"
    by (rule HmacList_set_end)
next
  fix h :: HmacList and xs :: "bytes list"
  assume "HmacList_shape h" and xs: "\<forall>x \<in> set xs. length x = 32"
  let ?h = "h\<lparr>hl_hashes := concat xs, hl_topHash := None, hl_size := length xs\<rparr>"
  have "HmacList_setAll (concat xs) h = (Inr (), ?h)"
    by (simp add: HmacList_setAll_def store_sizes length_concat_equal [OF xs])
  moreover have "HmacList_shape ?h" "HmacList_hashes ?h = xs"
    by (rule shape_concat [OF xs]; simp)+
  ultimately show "\<exists>h'. HmacList_setAll (concat xs) h = (Inr (), h') \<and> HmacList_shape h' \<and>
    HmacList_hashes h' = xs" by blast
next
  fix h i
  assume h: "HmacList_shape h" and i: "i < length (HmacList_hashes h)"
  then have "i < hl_size h" by (simp add: length_HmacList_hashes)
  then have "i * 32 \<le> length (hl_hashes h)" using h by (simp add: HmacList_shape_def)
  with \<open>i < hl_size h\<close> i show "HmacList_getHash h i = Inr (HmacList_hashes h ! i)"
    by (simp add: HmacList_getHash_def store_sizes HmacList_hashes_def nth_chunks)
qed (simp_all add: HmacList_getAll_def concat_HmacList_hashes HmacList_hashes_32)

subsection \<open>Properties\<close>

lemma HmacList_set_topHash:
  "HmacList_set i x t h = (Inr (), h') \<Longrightarrow> hl_topHash h' = None"
  by (auto simp: HmacList_set_def Let_def split: if_splits)

lemma HmacList_set_outside:
  assumes "HmacList_shape h" and "length (HmacList_hashes h) < i \<or> length x \<noteq> 32"
  shows "\<exists>e. HmacList_set i x t h = (Inl (StoreExn e), h)"
  using assms by (auto simp: HmacList_set_def store_sizes length_HmacList_hashes)

lemma HmacList_set_inv:
  assumes "HmacList_inv c h"
  shows "HmacList_inv c (snd (HmacList_set i x t h))"
proof -
  have shape: "HmacList_shape h" using assms by (simp add: HmacList_inv_def)
  show ?thesis
  proof (cases "length (HmacList_hashes h) < i \<or> length x \<noteq> 32")
    case True
    from HmacList_set_outside [OF shape this, of t] assms show ?thesis by auto
  next
    case False
    then obtain h' where h': "HmacList_set i x t h = (Inr (), h')" "HmacList_shape h'"
      using hl.set_hash_overwrite [OF shape, of x i t] by auto
    then show ?thesis by (simp add: HmacList_inv_def HmacList_set_topHash)
  qed
qed

lemma mod_32_shape: "length xs mod 32 = 0 \<Longrightarrow> length xs div 32 * 32 = length xs"
  by (simp add: mod_0_imp_dvd)

lemmas HmacList_defs =
  HmacList_new_def HmacList_sync_def HmacList_setAll_def HmacList_getTopHash_def store_sizes Let_def

lemma HmacList_other_inv:
  assumes "HmacList_inv c h"
  shows "HmacList_inv c (snd (HmacList_sync c key topHash hs h))"
    and "HmacList_inv c (snd (HmacList_setAll hs h))"
    and "HmacList_inv c (snd (HmacList_getTopHash c h))"
  using assms
  by (auto simp: HmacList_defs HmacList_inv_def HmacList_shape_def mod_32_shape split: option.splits)

lemma HmacList_new_inv: "HmacList_new c key topHash hs = Inr h \<Longrightarrow> HmacList_inv c h"
  by (auto simp: HmacList_defs HmacList_inv_def HmacList_shape_def mod_32_shape split: if_splits)

text \<open>
  C32. The digest list never loses its shape or the freshness of its cached top digest: the
  constructor establishes \<open>HmacList_inv\<close> (the string is exactly \<open>_size\<close> digests of 32 bytes,
  and a cached top digest is the digest of the current string under the current key), and
  \<open>sync\<close>, \<open>setAll\<close>, \<open>set\<close> and \<open>getTopHash\<close> keep it, whether they return or throw.
\<close>

theorem HmacList_invariant:
  "(HmacList_new c key topHash hs = Inr h0 \<longrightarrow> HmacList_inv c h0) \<and>
   (HmacList_inv c h \<longrightarrow>
      HmacList_inv c (snd (HmacList_sync c key topHash hs h)) \<and>
      HmacList_inv c (snd (HmacList_setAll hs h)) \<and>
      HmacList_inv c (snd (HmacList_set i x t h)) \<and>
      HmacList_inv c (snd (HmacList_getTopHash c h)))"
  by (simp add: HmacList_new_inv HmacList_other_inv HmacList_set_inv)

theorem HmacList_invariant_witness:
  "HmacList_inv sample_crypto (snd (HmacList_set 0 (replicate 32 5) True
     \<lparr>hl_topHashKey = [1], hl_topHash = None, hl_size = 1, hl_hashes = replicate 32 9\<rparr>))"
  using HmacList_invariant [of sample_crypto _ _ _ _
      "\<lparr>hl_topHashKey = [1], hl_topHash = None, hl_size = 1, hl_hashes = replicate 32 9\<rparr>"
      0 "replicate 32 5" True]
  by (simp add: HmacList_inv_def HmacList_shape_def)

text \<open>
  \<open>HmacList::set\<close> refines the update of a list of digests. On a list of \<open>n\<close> digests and a
  digest of 32 bytes, index \<open>i \<le> n\<close> writes the digest at position \<open>i\<close> (appending when
  \<open>i = n\<close>), keeps the positions before it, and keeps or drops the positions after it as the
  truncate flag says; an index beyond \<open>n\<close> or a digest of another size throws and changes
  nothing.
\<close>

theorem HmacList_set_refines:
  assumes "HmacList_shape h"
  shows "if i \<le> length (HmacList_hashes h) \<and> length x = 32
    then \<exists>h'. HmacList_set i x t h = (Inr (), h') \<and>
      HmacList_hashes h' = take i (HmacList_hashes h) @ x #
        (if t then [] else drop (Suc i) (HmacList_hashes h))
    else \<exists>e. HmacList_set i x t h = (Inl (StoreExn e), h)"
  using hl.set_hash_overwrite [OF assms, of x i t] HmacList_set_outside [OF assms, of i x t]
  by (auto simp: not_le)

theorem HmacList_set_refines_witness:
  "\<exists>h'. HmacList_set 1 (replicate 32 5) False
     \<lparr>hl_topHashKey = [1], hl_topHash = None, hl_size = 1, hl_hashes = replicate 32 9\<rparr> = (Inr (), h')
   \<and> HmacList_hashes h' = [replicate 32 9, replicate 32 5]"
proof -
  let ?h = "\<lparr>hl_topHashKey = [1], hl_topHash = None, hl_size = 1, hl_hashes = replicate 32 9\<rparr> :: HmacList"
  have "HmacList_shape ?h" by (simp add: HmacList_shape_def)
  moreover have "HmacList_hashes ?h = [replicate 32 9]"
    unfolding HmacList_hashes_def by (subst chunks_short) simp_all
  ultimately show ?thesis
    using HmacList_set_refines [of ?h 1 "replicate 32 5" False] by simp
qed

text \<open>
  \<open>getTopHash\<close> always returns the digest of the current digest string under the current
  key, although it usually answers from its cache.
\<close>

theorem HmacList_getTopHash_fresh:
  assumes "HmacList_inv c h"
  shows "fst (HmacList_getTopHash c h) = hmacSha256 c (hl_topHashKey h) (concat (HmacList_hashes h))"
  using assms
  by (auto simp: HmacList_getTopHash_def HmacList_inv_def Let_def concat_HmacList_hashes
      split: option.splits)

theorem HmacList_getTopHash_fresh_witness:
  "fst (HmacList_getTopHash sample_crypto
     \<lparr>hl_topHashKey = [1], hl_topHash = Some (sum_hash [1]), hl_size = 0, hl_hashes = []\<rparr>)
   = sum_hash [1]"
  using HmacList_getTopHash_fresh [of sample_crypto
      "\<lparr>hl_topHashKey = [1], hl_topHash = Some (sum_hash [1]), hl_size = 0, hl_hashes = []\<rparr>"]
  by (simp add: HmacList_inv_def HmacList_shape_def HmacList_hashes_def sample_crypto_def)

text \<open>
  \<open>getHash\<close> compares the index with \<open>>\<close> where \<open>>=\<close> is meant: asked for the digest one
  past the end it does not throw \<open>HashIndexOutOfBoundsException\<close> but returns the empty string;
  from two past the end on it throws.
\<close>

theorem HmacList_getHash_past_end:
  assumes "HmacList_shape h"
  shows "HmacList_getHash h (length (HmacList_hashes h)) = Inr [] \<and>
    (length (HmacList_hashes h) < i \<longrightarrow>
       HmacList_getHash h i = Inl (StoreExn HashIndexOutOfBoundsException))"
  using assms
  by (simp add: HmacList_getHash_def store_sizes length_HmacList_hashes) (simp add: HmacList_shape_def)

theorem HmacList_getHash_past_end_witness:
  "HmacList_getHash \<lparr>hl_topHashKey = [1], hl_topHash = None, hl_size = 0, hl_hashes = []\<rparr> 0 = Inr []"
  using HmacList_getHash_past_end
    [of "\<lparr>hl_topHashKey = [1], hl_topHash = None, hl_size = 0, hl_hashes = []\<rparr>" 1]
  by (simp add: HmacList_shape_def HmacList_hashes_def)

end
