(* ===== verification/Store_ChunkDataProvider.thy ===== *)
theory Store_ChunkDataProvider
  imports Store_Interfaces
begin

text \<open>
  The Bridge as the store module sees it, and \<open>store/src/ChunkDataProvider.cpp\<close>: fetching one
  encrypted chunk of a file out of larger slices of the file, the last of which is cached.
  The Bridge is a service outside the repository, so it is a parameter: a record of functions
  on an opaque server state \<open>'s\<close>. What the read path relies on is \<open>serves_file\<close>.
\<close>

subsection \<open>Requests and the Bridge\<close>

datatype BufferReadRange = RangeChecksum | RangeSlice (range_from: int) (range_to: int)

record StoreFileReadModel =
  rm_fileId :: string
  rm_range :: BufferReadRange
  rm_version :: "int option"
  rm_thumb :: bool

record StoreFileRandomWriteOperation =
  wo_type :: string
  wo_pos :: int
  wo_data :: bytes
  wo_truncate :: bool

record 'm StoreFileWriteModelByOperations =
  wm_fileId :: string
  wm_operations :: "StoreFileRandomWriteOperation list"
  wm_meta :: 'm
  wm_keyId :: string
  wm_version :: int
  wm_force :: bool

record ('s, 'm) store_server =
  storeFileRead :: "StoreFileReadModel \<Rightarrow> 's \<Rightarrow> (exn, bytes) result"
  storeFileWrite :: "'m StoreFileWriteModelByOperations \<Rightarrow> (exn, 's, unit) op"

text \<open>
  The Bridge holds the encrypted content \<open>enc\<close> and the digests \<open>sums\<close> of version \<open>v\<close> of a
  file: a slice request for that version returns the bytes from \<open>from\<close> up to \<open>to\<close> that exist,
  a checksum request returns the digests.
\<close>

definition serves_file ::
    "('s, 'm) store_server \<Rightarrow> 's \<Rightarrow> string \<Rightarrow> int \<Rightarrow> bytes \<Rightarrow> bytes \<Rightarrow> bool" where
  "serves_file api s fid v enc sums \<longleftrightarrow>
     (\<forall>f t. 0 \<le> f \<longrightarrow> f \<le> t \<longrightarrow>
        storeFileRead api \<lparr>rm_fileId = fid, rm_range = RangeSlice f t, rm_version = Some v,
                           rm_thumb = False\<rparr> s
          = Inr (take (nat t - nat f) (drop (nat f) enc))) \<and>
     storeFileRead api \<lparr>rm_fileId = fid, rm_range = RangeChecksum, rm_version = None,
                        rm_thumb = False\<rparr> s = Inr sums"

subsection \<open>State and operations\<close>

record ChunkDataProvider =
  cdp_encryptedChunkSize :: nat
  cdp_serverChunkSize :: nat
  cdp_fileId :: string
  cdp_serverFileSize :: nat
  cdp_fileVersion :: int
  cdp_lastServerChunk :: bytes
  cdp_lastServerChunkNumber :: "nat option"

text \<open>
  The requested slice size, rounded up to whole encrypted chunks, in \<open>int64_t\<close> arithmetic
  (all values are positive, so C++ division is \<open>div\<close>).
\<close>

definition getServerReadDataSize :: "int \<Rightarrow> int \<Rightarrow> int" where
  "getServerReadDataSize encryptedChunkSize severChunkSize =
     s64 (s64 (severChunkSize + encryptedChunkSize - 1) div encryptedChunkSize * encryptedChunkSize)"

text \<open>The member \<open>std::optional<uint32_t> _lastServerChunkNumber = -1\<close> starts as the largest number.\<close>

definition ChunkDataProvider_new :: "nat \<Rightarrow> nat \<Rightarrow> string \<Rightarrow> nat \<Rightarrow> int \<Rightarrow> ChunkDataProvider" where
  "ChunkDataProvider_new chunkSize severChunkSize fileId serverFileSize fileVersion =
     \<lparr>cdp_encryptedChunkSize = chunkSize,
      cdp_serverChunkSize = u64_of_int (getServerReadDataSize (s64 (int chunkSize)) (s64 (int severChunkSize))),
      cdp_fileId = fileId,
      cdp_serverFileSize = serverFileSize,
      cdp_fileVersion = fileVersion,
      cdp_lastServerChunk = [],
      cdp_lastServerChunkNumber = Some (2 ^ 32 - 1)\<rparr>"

definition ChunkDataProvider_sync ::
    "int \<Rightarrow> int \<Rightarrow> nat option \<Rightarrow> nat option \<Rightarrow> ChunkDataProvider \<Rightarrow> ChunkDataProvider" where
  "ChunkDataProvider_sync newfileVersion encryptedFileSize encryptedChunkSize serverChunkSize self =
     (let s1 = (if cdp_fileVersion self < newfileVersion
                then self\<lparr>cdp_lastServerChunkNumber := None, cdp_lastServerChunk := []\<rparr> else self);
          s2 = s1\<lparr>cdp_serverFileSize := u64_of_int encryptedFileSize, cdp_fileVersion := newfileVersion\<rparr>;
          s3 = (case encryptedChunkSize of None \<Rightarrow> s2 | Some n \<Rightarrow> s2\<lparr>cdp_encryptedChunkSize := n\<rparr>)
      in (case serverChunkSize of None \<Rightarrow> s3 | Some n \<Rightarrow> s3\<lparr>cdp_serverChunkSize := n\<rparr>))"

text \<open>
  \<open>requestServerChunk\<close> takes a \<open>uint32_t\<close>, so the chunk number is cut to 32 bits and its
  successor wraps there; the products are 64 bits wide. A server exception is turned into
  \<open>FileVersionMismatchException\<close> when its converted code is the one of
  \<open>server::StoreFileVersionMismatchException\<close>; only \<open>utils::PrivmxException\<close> is caught.
\<close>

definition requestServerChunk ::
    "('s, 'm) store_server \<Rightarrow> 's \<Rightarrow> ChunkDataProvider \<Rightarrow> nat \<Rightarrow> (exn, bytes) result" where
  "requestServerChunk api s self serverChunkNumber =
     (let n = u32 serverChunkNumber;
          model = \<lparr>rm_fileId = cdp_fileId self,
                   rm_range = RangeSlice (s64 (int (u64 (cdp_serverChunkSize self * n))))
                                         (s64 (int (u64 (cdp_serverChunkSize self * u32 (n + 1))))),
                   rm_version = Some (cdp_fileVersion self),
                   rm_thumb = False\<rparr>
      in case storeFileRead api model s of
           Inr fileData \<Rightarrow> Inr fileData
         | Inl (PrivmxExn e) \<Rightarrow>
             if ExceptionConverter_convert e = StoreFileVersionMismatch_code
             then Inl (StoreExn FileVersionMismatchException) else Inl (PrivmxExn e)
         | Inl e \<Rightarrow> Inl e)"

definition ChunkDataProvider_getChunk ::
    "('s, 'm) store_server \<Rightarrow> 's \<Rightarrow> nat \<Rightarrow> int \<Rightarrow> (exn, ChunkDataProvider, bytes) op" where
  "ChunkDataProvider_getChunk api s chunkNumber fileVersion self =
     (let self = (if fileVersion \<noteq> cdp_fileVersion self
                  then self\<lparr>cdp_lastServerChunkNumber := None, cdp_fileVersion := fileVersion\<rparr>
                  else self);
          from = u64 (cdp_encryptedChunkSize self * u32 chunkNumber);
          serverChunkNumber = from div cdp_serverChunkSize self;
          serverChunkPos = from mod cdp_serverChunkSize self;
          answer = (\<lambda>self.
            if length (cdp_lastServerChunk self) < serverChunkPos then (Inr [], self)
            else (substr StdOutOfRange (cdp_lastServerChunk self) serverChunkPos
                    (cdp_encryptedChunkSize self), self))
      in if cdp_lastServerChunkNumber self \<noteq> Some serverChunkNumber then
           (case requestServerChunk api s self serverChunkNumber of
              Inl e \<Rightarrow> (Inl e, self)
            | Inr d \<Rightarrow> answer (self\<lparr>cdp_lastServerChunk := d,
                                    cdp_lastServerChunkNumber := Some (u32 serverChunkNumber)\<rparr>))
         else answer self)"

definition ChunkDataProvider_getCurrentChecksumsFromBridge ::
    "('s, 'm) store_server \<Rightarrow> 's \<Rightarrow> ChunkDataProvider \<Rightarrow> (exn, bytes) result" where
  "ChunkDataProvider_getCurrentChecksumsFromBridge api s self =
     storeFileRead api \<lparr>rm_fileId = cdp_fileId self, rm_range = RangeChecksum, rm_version = None,
                        rm_thumb = False\<rparr> s"

definition ChunkDataProvider_update ::
    "int \<Rightarrow> nat \<Rightarrow> bytes \<Rightarrow> int \<Rightarrow> bool \<Rightarrow> ChunkDataProvider \<Rightarrow> ChunkDataProvider" where
  "ChunkDataProvider_update newfileVersion chunkNumber newData encryptedFileSize trunc self =
     (let from = u64 (cdp_encryptedChunkSize self * u32 chunkNumber);
          serverChunkNumber = from div cdp_serverChunkSize self;
          serverChunkPos = from mod cdp_serverChunkSize self;
          old = cdp_lastServerChunk self;
          self1 = (if cdp_lastServerChunkNumber self = Some serverChunkNumber then
                     self\<lparr>cdp_lastServerChunk :=
                       take serverChunkPos old @ newData @
                       (if \<not> trunc \<and> u64 (serverChunkPos + length newData) < length old
                        then drop (u64 (serverChunkPos + length newData)) old else [])\<rparr>
                   else self)
      in self1\<lparr>cdp_serverFileSize := u64_of_int encryptedFileSize, cdp_fileVersion := newfileVersion\<rparr>)"

subsection \<open>Coherence of the cache\<close>

text \<open>
  \<open>nth_block n k xs\<close> is the \<open>k\<close>-th slice of \<open>n\<close> bytes. A provider is coherent with content
  \<open>enc\<close> of version \<open>v\<close> when its slice size is a multiple of its chunk size and, if its version
  is \<open>v\<close>, its cached slice is the slice of \<open>enc\<close> with the cached number. The bounds say that
  the content is small enough for 32-bit chunk numbers and 63-bit positions.
\<close>

definition nth_block :: "nat \<Rightarrow> nat \<Rightarrow> 'a list \<Rightarrow> 'a list" where
  "nth_block n k xs = take n (drop (k * n) xs)"

definition provider_geometry :: "ChunkDataProvider \<Rightarrow> bool" where
  "provider_geometry p \<longleftrightarrow> 0 < cdp_encryptedChunkSize p \<and> 0 < cdp_serverChunkSize p \<and>
     cdp_encryptedChunkSize p dvd cdp_serverChunkSize p"

definition provider_bounds :: "ChunkDataProvider \<Rightarrow> nat \<Rightarrow> bool" where
  "provider_bounds p len \<longleftrightarrow>
     len + cdp_encryptedChunkSize p + cdp_serverChunkSize p < 2 ^ 63 \<and>
     len + cdp_encryptedChunkSize p < (2 ^ 32 - 1) * cdp_encryptedChunkSize p"

definition cache_of :: "ChunkDataProvider \<Rightarrow> bytes \<Rightarrow> bool" where
  "cache_of p enc \<longleftrightarrow>
     (\<forall>k. cdp_lastServerChunkNumber p = Some k \<longrightarrow>
        cdp_lastServerChunk p = nth_block (cdp_serverChunkSize p) k enc)"

definition provider_coherent :: "ChunkDataProvider \<Rightarrow> int \<Rightarrow> bytes \<Rightarrow> bool" where
  "provider_coherent p v enc \<longleftrightarrow> (cdp_fileVersion p = v \<longrightarrow> cache_of p enc)"

lemma provider_bounds_mono: "provider_bounds p m \<Longrightarrow> l \<le> m \<Longrightarrow> provider_bounds p l"
  by (simp add: provider_bounds_def)

lemma nth_block_within:
  assumes "0 < m" and "0 < n" and "m dvd n"
  shows "nth_block m i xs = take m (drop (i * m mod n) (nth_block n (i * m div n) xs))"
proof -
  obtain q where q: "n = m * q" using assms(3) by blast
  have "i * m mod n + m \<le> n"
  proof -
    have "q \<noteq> 0" using assms(2) q by auto
    have "i * m mod n = m * (i mod q)" unfolding q by (simp add: mult.commute)
    moreover have "Suc (i mod q) \<le> q" using \<open>q \<noteq> 0\<close> by (simp add: Suc_leI)
    then have "m * Suc (i mod q) \<le> m * q" by (rule mult_le_mono2)
    ultimately show ?thesis unfolding q by simp
  qed
  then have "min m (n - i * m mod n) = m" by simp
  then have "take m (drop (i * m mod n) (nth_block n (i * m div n) xs))
      = take m (drop (i * m mod n + i * m div n * n) xs)"
    by (simp add: nth_block_def drop_take)
  also have "i * m mod n + i * m div n * n = i * m" by simp
  finally show ?thesis by (simp add: nth_block_def)
qed

lemma access_bounds:
  fixes p len i
  defines "n \<equiv> cdp_encryptedChunkSize p" and "N \<equiv> cdp_serverChunkSize p"
  defines "k \<equiv> i * n div N"
  assumes "provider_geometry p" and "provider_bounds p len" and i: "i * n \<le> len + n"
  shows "u32 i = i" and "u64 (n * i) = i * n" and "u32 k = k" and "u32 (k + 1) = k + 1"
    and "s64 (int (u64 (N * k))) = int (k * N)" and "s64 (int (u64 (N * (k + 1)))) = int (k * N + N)"
proof -
  have n: "0 < n" and N: "0 < N" and "n \<le> N"
    using assms by (auto simp: provider_geometry_def dvd_imp_le)
  have b1: "len + n + N < 2 ^ 63" and b2: "len + n < (2 ^ 32 - 1) * n"
    using assms by (simp_all add: provider_bounds_def)
  have "i * n < (2 ^ 32 - 1) * n" using i b2 by linarith
  then have i32: "i < 2 ^ 32 - 1" by simp
  then show u: "u32 i = i" by (simp add: u32_id)
  show "u64 (n * i) = i * n" using i b1 by (subst u64_id) (simp_all add: mult.commute)
  have "k \<le> i * n div n" unfolding k_def using n \<open>n \<le> N\<close> by (intro div_le_mono2) simp_all
  then have k: "k < 2 ^ 32 - 1" using i32 n by simp
  then show "u32 k = k" and "u32 (k + 1) = k + 1" by (simp_all add: u32_id)
  have "k * N \<le> i * n" unfolding k_def by (simp add: div_times_less_eq_dividend)
  then have kN: "k * N + N < 2 ^ 63" using i b1 by linarith
  have "u64 (N * k) = k * N" and "u64 (N * (k + 1)) = k * N + N"
    using kN by (auto simp: u64_id algebra_simps)
  moreover have "s64 (int (k * N)) = int (k * N)" and "s64 (int (k * N + N)) = int (k * N + N)"
    using kN s64_of_nat [of "k * N"] s64_of_nat [of "k * N + N"] by simp_all
  ultimately show "s64 (int (u64 (N * k))) = int (k * N)" and "s64 (int (u64 (N * (k + 1)))) = int (k * N + N)"
    by simp_all
qed

lemma requestServerChunk_ok:
  assumes "provider_geometry p" and "provider_bounds p l"
    and "i * cdp_encryptedChunkSize p \<le> l + cdp_encryptedChunkSize p"
    and "serves_file api s (cdp_fileId p) (cdp_fileVersion p) enc sums"
  shows "requestServerChunk api s p (i * cdp_encryptedChunkSize p div cdp_serverChunkSize p)
    = Inr (nth_block (cdp_serverChunkSize p) (i * cdp_encryptedChunkSize p div cdp_serverChunkSize p) enc)"
proof -
  note b = access_bounds [OF assms(1-3)]
  have read: "storeFileRead api \<lparr>rm_fileId = cdp_fileId p, rm_range = RangeSlice (int a) (int b),
      rm_version = Some (cdp_fileVersion p), rm_thumb = False\<rparr> s = Inr (take (b - a) (drop a enc))"
    if "a \<le> b" for a b
    using assms(4) that by (simp add: serves_file_def)
  show ?thesis
    unfolding requestServerChunk_def Let_def b(3) b(4) b(5) b(6)
    by (subst read) (simp_all add: nth_block_def)
qed

lemma cached_block:
  assumes "provider_geometry p"
    and "cdp_lastServerChunk p
      = nth_block (cdp_serverChunkSize p) (i * cdp_encryptedChunkSize p div cdp_serverChunkSize p) enc"
  defines "pos \<equiv> i * cdp_encryptedChunkSize p mod cdp_serverChunkSize p"
  shows "take (cdp_encryptedChunkSize p) (drop pos (cdp_lastServerChunk p))
      = nth_block (cdp_encryptedChunkSize p) i enc"
    and "length (cdp_lastServerChunk p) < pos \<Longrightarrow> nth_block (cdp_encryptedChunkSize p) i enc = []"
proof -
  show 1: "take (cdp_encryptedChunkSize p) (drop pos (cdp_lastServerChunk p))
      = nth_block (cdp_encryptedChunkSize p) i enc"
    using nth_block_within [of "cdp_encryptedChunkSize p" "cdp_serverChunkSize p" i enc] assms
    by (simp add: provider_geometry_def)
  show "nth_block (cdp_encryptedChunkSize p) i enc = []" if "length (cdp_lastServerChunk p) < pos"
    unfolding 1 [symmetric] using that by simp
qed

lemma ChunkDataProvider_getChunk_ok:
  assumes geo: "provider_geometry p" and bounds: "provider_bounds p l"
    and i: "i * cdp_encryptedChunkSize p \<le> l + cdp_encryptedChunkSize p"
    and srv: "serves_file api s (cdp_fileId p) v enc sums" and coh: "provider_coherent p v enc"
  shows "\<exists>p'. ChunkDataProvider_getChunk api s i v p = (Inr (nth_block (cdp_encryptedChunkSize p) i enc), p') \<and>
    p' = p\<lparr>cdp_fileVersion := v, cdp_lastServerChunk := cdp_lastServerChunk p',
           cdp_lastServerChunkNumber := Some (i * cdp_encryptedChunkSize p div cdp_serverChunkSize p)\<rparr> \<and>
    cache_of p' enc"
proof -
  let ?n = "cdp_encryptedChunkSize p" and ?N = "cdp_serverChunkSize p"
  let ?k = "i * ?n div ?N"
  define q where "q = (if v \<noteq> cdp_fileVersion p
    then p\<lparr>cdp_lastServerChunkNumber := None, cdp_fileVersion := v\<rparr> else p)"
  have q: "cdp_encryptedChunkSize q = ?n" "cdp_serverChunkSize q = ?N" "cdp_fileId q = cdp_fileId p"
    "cdp_fileVersion q = v" by (simp_all add: q_def)
  have cache: "cache_of q enc" using coh by (auto simp: q_def provider_coherent_def cache_of_def)
  have geo_q: "provider_geometry q" and bounds_q: "provider_bounds q l"
    using geo bounds q by (simp_all add: provider_geometry_def provider_bounds_def)
  note b = access_bounds [OF geo bounds i]
  show ?thesis
  proof (cases "cdp_lastServerChunkNumber q = Some ?k")
    case True
    have hit: "cdp_lastServerChunk q = nth_block (cdp_serverChunkSize q) ?k enc"
      using True cache by (simp add: cache_of_def)
    have "ChunkDataProvider_getChunk api s i v p = (Inr (nth_block ?n i enc), q)"
      using cached_block [OF geo_q, of i enc] hit True
      by (auto simp: ChunkDataProvider_getChunk_def Let_def q_def [symmetric] b q)
    moreover have "v = cdp_fileVersion p" using True by (simp add: q_def split: if_splits)
    ultimately show ?thesis using True cache q by (intro exI [of _ q]) (simp add: q_def)
  next
    case False
    define r where "r = q\<lparr>cdp_lastServerChunk := nth_block ?N ?k enc, cdp_lastServerChunkNumber := Some ?k\<rparr>"
    have geo_r: "provider_geometry r" using geo_q by (simp add: r_def provider_geometry_def)
    have req: "requestServerChunk api s q ?k = Inr (nth_block ?N ?k enc)"
      using requestServerChunk_ok [OF geo_q bounds_q, of i api s enc sums] i srv by (simp add: q)
    have "ChunkDataProvider_getChunk api s i v p = (Inr (nth_block ?n i enc), r)"
      using cached_block [OF geo_r, of i enc] False
      by (auto simp: ChunkDataProvider_getChunk_def Let_def q_def [symmetric] b q req r_def)
    then show ?thesis
      by (intro exI [of _ r]) (simp add: r_def q_def cache_of_def)
  qed
qed

subsection \<open>Writing through the cache\<close>

lemma nth_block_overwrite_same:
  assumes "i * n \<le> length xs" and "i * n mod N + length d \<le> N"
  shows "nth_block N (i * n div N) (overwrite (i * n) d t xs)
    = overwrite (i * n mod N) d t (nth_block N (i * n div N) xs)"
proof -
  have "i * n div N * N \<le> i * n" by simp
  moreover have "i * n - i * n div N * N = i * n mod N" by (simp add: minus_div_mult_eq_mod)
  moreover have "i * n mod N \<le> length (drop (i * n div N * N) xs)"
    using assms(1) calculation by simp
  ultimately show ?thesis
    unfolding nth_block_def using assms by (simp add: drop_overwrite_before take_overwrite)
qed

lemma nth_block_overwrite_before:
  assumes "pos \<le> length xs" and "pos + length d \<le> k * N"
  shows "nth_block N k (overwrite pos d False xs) = nth_block N k xs"
  using assms by (simp add: nth_block_def drop_overwrite_after)

lemma multiple_in_block:
  fixes n N :: nat
  assumes "0 < n" and "0 < N" and "n dvd N"
  shows "i * n mod N + n \<le> N" and "i * n div N < k \<Longrightarrow> Suc i * n \<le> k * N"
proof -
  obtain q where q: "N = n * q" and "0 < q" using assms by (metis dvd_def gr0I mult_is_0)
  have "i * n mod N = n * (i mod q)" unfolding q by (simp add: mult.commute)
  moreover have "n * Suc (i mod q) \<le> n * q" using \<open>0 < q\<close> by (intro mult_le_mono2) (simp add: Suc_leI)
  ultimately show 1: "i * n mod N + n \<le> N" unfolding q by simp
  assume "i * n div N < k"
  then have "Suc (i * n div N) * N \<le> k * N" by (intro mult_le_mono1) simp
  moreover have "Suc i * n = i * n div N * N + i * n mod N + n" by simp
  moreover have "Suc (i * n div N) * N = i * n div N * N + N" by simp
  ultimately show "Suc i * n \<le> k * N" using 1 by linarith
qed

lemma ChunkDataProvider_update_eq:
  assumes "provider_geometry p" and "provider_bounds p len"
    and "i * cdp_encryptedChunkSize p \<le> len" and "length d \<le> cdp_encryptedChunkSize p"
  shows "ChunkDataProvider_update v i d sz t p =
    p\<lparr>cdp_lastServerChunk :=
        (if cdp_lastServerChunkNumber p = Some (i * cdp_encryptedChunkSize p div cdp_serverChunkSize p)
         then overwrite (i * cdp_encryptedChunkSize p mod cdp_serverChunkSize p) d t (cdp_lastServerChunk p)
         else cdp_lastServerChunk p),
      cdp_serverFileSize := u64_of_int sz, cdp_fileVersion := v\<rparr>"
proof -
  let ?n = "cdp_encryptedChunkSize p" and ?N = "cdp_serverChunkSize p"
  have i: "i * ?n \<le> len + ?n" using assms(3) by simp
  note b = access_bounds [OF assms(1,2) i]
  have "i * ?n mod ?N + ?n \<le> ?N"
    using assms(1) by (intro multiple_in_block) (simp_all add: provider_geometry_def)
  then have "i * ?n mod ?N + length d < 2 ^ 64"
    using assms(2,4) by (simp add: provider_bounds_def)
  then have "u64 (i * ?n mod ?N + length d) = i * ?n mod ?N + length d" by (rule u64_id)
  then show ?thesis
    by (simp add: ChunkDataProvider_update_def Let_def b overwrite_def)
qed

text \<open>
  The updates \<open>FileHandler::write\<close> makes after a successful write: one per written chunk, in
  increasing order of the chunk indices, each with the same truncate flag.
\<close>

definition provider_updates ::
    "int \<Rightarrow> int \<Rightarrow> bool \<Rightarrow> nat \<Rightarrow> bytes list \<Rightarrow> ChunkDataProvider \<Rightarrow> ChunkDataProvider" where
  "provider_updates v sz t i ds p =
     fold (\<lambda>(j, d). ChunkDataProvider_update v j d sz t) (zip [i..<i + length ds] ds) p"

lemma provider_updates_Cons:
  "provider_updates v sz t i (d # ds) p
     = provider_updates v sz t (Suc i) ds (ChunkDataProvider_update v i d sz t p)"
proof -
  have "[i..<i + length (d # ds)] = i # [Suc i..<Suc i + length ds]" by (simp add: upt_rec)
  then show ?thesis by (simp add: provider_updates_def)
qed

text \<open>
  Without truncation every update keeps the cache coherent with the overwritten content; with
  truncation the cached slice is cut at every update, so it agrees with the content only up
  to the chunk being written, and again completely after the last one.
\<close>

definition cached_upto :: "ChunkDataProvider \<Rightarrow> nat \<Rightarrow> bytes \<Rightarrow> bool" where
  "cached_upto p i enc \<longleftrightarrow>
     (\<forall>k. cdp_lastServerChunkNumber p = Some k \<longrightarrow>
        nth_block (cdp_serverChunkSize p) k enc
          = take (i * cdp_encryptedChunkSize p - k * cdp_serverChunkSize p) (cdp_lastServerChunk p))"

definition same_geometry :: "ChunkDataProvider \<Rightarrow> ChunkDataProvider \<Rightarrow> bool" where
  "same_geometry p q \<longleftrightarrow> cdp_encryptedChunkSize q = cdp_encryptedChunkSize p \<and>
     cdp_serverChunkSize q = cdp_serverChunkSize p \<and> cdp_fileId q = cdp_fileId p \<and>
     cdp_lastServerChunkNumber q = cdp_lastServerChunkNumber p"

lemma update_same_geometry: "same_geometry p (ChunkDataProvider_update v i d sz t p)"
  by (simp add: same_geometry_def ChunkDataProvider_update_def Let_def)

lemma same_geometry_facts:
  assumes "same_geometry p q"
  shows "provider_geometry q = provider_geometry p" and "provider_bounds q = provider_bounds p"
  using assms by (simp_all add: same_geometry_def provider_geometry_def provider_bounds_def fun_eq_iff)

lemma same_geometry_trans: "same_geometry p q \<Longrightarrow> same_geometry q r \<Longrightarrow> same_geometry p r"
  by (simp add: same_geometry_def)

lemma update_keeps_cache:
  assumes geo: "provider_geometry p" and bounds: "provider_bounds p (length enc)"
    and i: "i * cdp_encryptedChunkSize p \<le> length enc" and d: "length d \<le> cdp_encryptedChunkSize p"
    and k: "\<forall>k. cdp_lastServerChunkNumber p = Some k \<longrightarrow>
      i * cdp_encryptedChunkSize p div cdp_serverChunkSize p \<le> k"
    and cache: "cache_of p enc"
  shows "cache_of (ChunkDataProvider_update v i d sz False p) (overwrite (i * cdp_encryptedChunkSize p) d False enc)"
proof -
  let ?n = "cdp_encryptedChunkSize p" and ?N = "cdp_serverChunkSize p"
  have g: "0 < ?n" "0 < ?N" "?n dvd ?N" using geo by (simp_all add: provider_geometry_def)
  note blk = multiple_in_block [OF g, of i]
  have "cdp_lastServerChunk (ChunkDataProvider_update v i d sz False p)
      = nth_block ?N k (overwrite (i * ?n) d False enc)" if K: "cdp_lastServerChunkNumber p = Some k" for k
  proof (cases "i * ?n div ?N = k")
    case True
    have "cdp_lastServerChunk p = nth_block ?N k enc" using cache K by (simp add: cache_of_def)
    moreover have "i * ?n mod ?N + length d \<le> ?N" using blk(1) d by linarith
    ultimately show ?thesis
      using nth_block_overwrite_same [OF i, of ?N d False] True K
      by (simp add: ChunkDataProvider_update_eq [OF geo bounds i d])
  next
    case False
    then have "i * ?n div ?N < k" using k K by fastforce
    then have "i * ?n + length d \<le> k * ?N" using blk(2) [of k] d by simp
    then show ?thesis
      using nth_block_overwrite_before [OF i, of d k ?N] False K cache
      by (simp add: ChunkDataProvider_update_eq [OF geo bounds i d] cache_of_def)
  qed
  then show ?thesis
    using update_same_geometry [of p v i d sz False] by (simp add: cache_of_def same_geometry_def)
qed

lemma update_truncates_cache:
  assumes geo: "provider_geometry p" and bounds: "provider_bounds p (length enc)"
    and i: "length enc = i * cdp_encryptedChunkSize p" and d: "length d \<le> cdp_encryptedChunkSize p"
    and K: "cdp_lastServerChunkNumber p = Some (i * cdp_encryptedChunkSize p div cdp_serverChunkSize p)"
    and cache: "cached_upto p i enc"
  shows "cache_of (ChunkDataProvider_update v i d sz True p) (enc @ d)"
proof -
  let ?n = "cdp_encryptedChunkSize p" and ?N = "cdp_serverChunkSize p"
  let ?k = "i * ?n div ?N"
  have g: "0 < ?n" "0 < ?N" "?n dvd ?N" using geo by (simp_all add: provider_geometry_def)
  have fits: "i * ?n mod ?N + length d \<le> ?N" using multiple_in_block(1) [OF g, of i] d by linarith
  have pos: "i * ?n - ?k * ?N = i * ?n mod ?N" by (simp add: minus_div_mult_eq_mod)
  have old: "take (i * ?n mod ?N) (cdp_lastServerChunk p) = drop (?k * ?N) enc"
    using cache K fits unfolding cached_upto_def pos [symmetric] by (simp add: nth_block_def i pos)
  have "nth_block ?N ?k (enc @ d) = drop (?k * ?N) enc @ d"
    using fits by (simp add: nth_block_def i pos)
  then show ?thesis
    using K old i d update_same_geometry [of p v i d sz True]
    by (simp add: ChunkDataProvider_update_eq [OF geo bounds, of i] cache_of_def overwrite_def)
qed

lemma cache_of_upto:
  assumes "cache_of p enc" and "length enc \<le> i * cdp_encryptedChunkSize p"
  shows "cached_upto p i enc"
proof -
  have "take N (drop m enc) = take (i * cdp_encryptedChunkSize p - m) (take N (drop m enc))" for m N
    using assms(2) by (intro take_all [symmetric]) (simp add: min.coboundedI2 min.coboundedI1 diff_le_mono)
  then show ?thesis using assms(1) by (simp add: cache_of_def cached_upto_def nth_block_def)
qed

lemma cached_upto_take:
  assumes "cache_of p enc"
  shows "cached_upto p i (take (i * cdp_encryptedChunkSize p) enc)"
  using assms by (auto simp: cache_of_def cached_upto_def nth_block_def drop_take take_take min.commute)

lemma update_other_block:
  assumes geo: "provider_geometry p" and bounds: "provider_bounds p (length enc)"
    and i: "length enc = i * cdp_encryptedChunkSize p" and d: "length d = cdp_encryptedChunkSize p"
    and K: "cdp_lastServerChunkNumber p = Some k"
    and less: "i * cdp_encryptedChunkSize p div cdp_serverChunkSize p < k"
  shows "cached_upto (ChunkDataProvider_update v i d sz True p) (Suc i) (enc @ d)"
proof -
  let ?n = "cdp_encryptedChunkSize p" and ?N = "cdp_serverChunkSize p"
  have "0 < ?n" "0 < ?N" "?n dvd ?N" using geo by (simp_all add: provider_geometry_def)
  then have "Suc i * ?n \<le> k * ?N" using less by (rule multiple_in_block(2))
  then show ?thesis
    using K i d update_same_geometry [of p v i d sz True]
    by (simp add: cached_upto_def same_geometry_def nth_block_def)
qed

text \<open>
  The pieces of a write: all but the last are full chunks. The cached slice is the one of the
  last chunk written, which \<open>createUpdateChunk\<close> fetched last.
\<close>

definition full_but_last :: "nat \<Rightarrow> 'a list list \<Rightarrow> bool" where
  "full_but_last n ds \<longleftrightarrow> ds \<noteq> [] \<and> (\<forall>d \<in> set (butlast ds). length d = n) \<and> length (last ds) \<le> n"

lemma full_but_last_Cons:
  "full_but_last n (d # ds) \<longleftrightarrow> (if ds = [] then length d \<le> n else length d = n \<and> full_but_last n ds)"
  by (simp add: full_but_last_def)

lemma updates_same_geometry: "same_geometry p (provider_updates v sz t i ds p)"
proof (induction ds arbitrary: p i)
  case Nil
  then show ?case by (simp add: provider_updates_def same_geometry_def)
next
  case (Cons d ds)
  then show ?case
    using update_same_geometry same_geometry_trans by (metis provider_updates_Cons)
qed

lemma index_block_le:
  fixes n N :: nat
  shows "i \<le> j \<Longrightarrow> i * n div N \<le> j * n div N"
  by (intro div_le_mono mult_le_mono1)

lemma updates_keep_cache:
  assumes "full_but_last (cdp_encryptedChunkSize p) ds" and "provider_geometry p"
    and "provider_bounds p (length enc + length (concat ds))"
    and "i * cdp_encryptedChunkSize p \<le> length enc"
    and "cdp_lastServerChunkNumber p
      = Some ((i + length ds - 1) * cdp_encryptedChunkSize p div cdp_serverChunkSize p)"
    and "cache_of p enc"
  shows "cache_of (provider_updates v sz False i ds p)
    (overwrite (i * cdp_encryptedChunkSize p) (concat ds) False enc)"
  using assms
proof (induction ds arbitrary: p i enc)
  case Nil
  then show ?case by (simp add: full_but_last_def)
next
  case (Cons d ds)
  let ?n = "cdp_encryptedChunkSize p" and ?N = "cdp_serverChunkSize p"
  let ?q = "ChunkDataProvider_update v i d sz False p"
  let ?enc = "overwrite (i * ?n) d False enc"
  note sg = update_same_geometry [of p v i d sz False]
  have d: "length d \<le> ?n" using Cons.prems(1) by (simp add: full_but_last_Cons split: if_splits)
  have bounds: "provider_bounds p (length enc)"
    using Cons.prems(3) by (simp add: provider_bounds_def)
  have "i * ?n div ?N \<le> (i + length (d # ds) - 1) * ?n div ?N" by (rule index_block_le) simp
  then have cache: "cache_of ?q ?enc"
    using Cons.prems(5) by (intro update_keeps_cache [OF Cons.prems(2) bounds Cons.prems(4) d _ Cons.prems(6)])
      simp
  show ?case
  proof (cases "ds = []")
    case True
    with cache show ?thesis by (simp add: provider_updates_Cons) (simp add: provider_updates_def)
  next
    case False
    then have dn: "length d = ?n" and ds: "full_but_last ?n ds"
      using Cons.prems(1) by (simp_all add: full_but_last_Cons)
    have q: "cdp_encryptedChunkSize ?q = ?n" "cdp_serverChunkSize ?q = ?N"
      "cdp_lastServerChunkNumber ?q = cdp_lastServerChunkNumber p"
      using sg by (simp_all add: same_geometry_def)
    have len: "length ?enc \<le> length enc + length d"
      using Cons.prems(4) by (auto simp: length_overwrite)
    have "cache_of (provider_updates v sz False (Suc i) ds ?q)
        (overwrite (Suc i * cdp_encryptedChunkSize ?q) (concat ds) False ?enc)"
    proof (rule Cons.IH)
      show "provider_bounds ?q (length ?enc + length (concat ds))"
        using Cons.prems(3) len unfolding same_geometry_facts(2) [OF sg] by (simp add: provider_bounds_def)
      show "Suc i * cdp_encryptedChunkSize ?q \<le> length ?enc"
        using Cons.prems(4) dn by (simp add: q length_overwrite add.commute)
    qed (use Cons.prems ds cache q same_geometry_facts(1) [OF sg] in simp_all)
    moreover have "overwrite (Suc i * ?n) (concat ds) False ?enc = overwrite (i * ?n) (concat (d # ds)) False enc"
      using overwrite_overwrite [OF Cons.prems(4), of d "concat ds" False] dn by (simp add: add.commute)
    ultimately show ?thesis by (simp add: provider_updates_Cons q del: mult_Suc)
  qed
qed

lemma updates_truncate_cache:
  assumes "full_but_last (cdp_encryptedChunkSize p) ds" and "provider_geometry p"
    and "provider_bounds p (length enc + length (concat ds))"
    and "length enc = i * cdp_encryptedChunkSize p"
    and "cdp_lastServerChunkNumber p
      = Some ((i + length ds - 1) * cdp_encryptedChunkSize p div cdp_serverChunkSize p)"
    and "cached_upto p i enc"
  shows "cache_of (provider_updates v sz True i ds p) (enc @ concat ds)"
  using assms
proof (induction ds arbitrary: p i enc)
  case Nil
  then show ?case by (simp add: full_but_last_def)
next
  case (Cons d ds)
  let ?n = "cdp_encryptedChunkSize p" and ?N = "cdp_serverChunkSize p"
  let ?q = "ChunkDataProvider_update v i d sz True p" and ?k = "(i + length ds) * ?n div ?N"
  note sg = update_same_geometry [of p v i d sz True]
  have q: "cdp_encryptedChunkSize ?q = ?n" "cdp_serverChunkSize ?q = ?N"
    "cdp_lastServerChunkNumber ?q = cdp_lastServerChunkNumber p"
    using sg by (simp_all add: same_geometry_def)
  have d: "length d \<le> ?n" using Cons.prems(1) by (simp add: full_but_last_Cons split: if_splits)
  have bounds: "provider_bounds p (length enc)"
    using Cons.prems(3) by (simp add: provider_bounds_def)
  have K: "cdp_lastServerChunkNumber p = Some ?k" using Cons.prems(5) by simp
  have hit: "cache_of ?q (enc @ d)" if "i * ?n div ?N = ?k"
    using update_truncates_cache [OF Cons.prems(2) bounds Cons.prems(4) d _ Cons.prems(6)] K that by simp
  show ?case
  proof (cases "ds = []")
    case True
    with hit show ?thesis by (simp add: provider_updates_Cons) (simp add: provider_updates_def)
  next
    case False
    then have dn: "length d = ?n" and ds: "full_but_last ?n ds"
      using Cons.prems(1) by (simp_all add: full_but_last_Cons)
    have "cached_upto ?q (Suc i) (enc @ d)"
    proof (cases "i * ?n div ?N = ?k")
      case True
      then show ?thesis using hit dn Cons.prems(4) by (intro cache_of_upto) (simp_all add: q)
    next
      case False
      moreover have "i * ?n div ?N \<le> ?k" by (rule index_block_le) simp
      ultimately show ?thesis
        by (intro update_other_block [OF Cons.prems(2) bounds Cons.prems(4) dn K]) simp
    qed
    moreover have "provider_bounds p (length (enc @ d) + length (concat ds))"
      using Cons.prems(3) by (simp add: add.assoc)
    ultimately have "cache_of (provider_updates v sz True (Suc i) ds ?q) ((enc @ d) @ concat ds)"
      using Cons.prems ds dn q same_geometry_facts [OF sg] by (intro Cons.IH) simp_all
    then show ?thesis by (simp add: provider_updates_Cons)
  qed
qed

lemma updates_cache:
  assumes "full_but_last (cdp_encryptedChunkSize p) ds" and "provider_geometry p"
    and "provider_bounds p (length enc + length (concat ds))"
    and "i * cdp_encryptedChunkSize p \<le> length enc"
    and "cdp_lastServerChunkNumber p
      = Some ((i + length ds - 1) * cdp_encryptedChunkSize p div cdp_serverChunkSize p)"
    and "cache_of p enc"
  shows "cache_of (provider_updates v sz t i ds p)
    (overwrite (i * cdp_encryptedChunkSize p) (concat ds) t enc)"
proof (cases t)
  case False
  with updates_keep_cache [OF assms] show ?thesis by simp
next
  case True
  let ?enc = "take (i * cdp_encryptedChunkSize p) enc"
  have "provider_bounds p (length ?enc + length (concat ds))"
    using assms(3) by (rule provider_bounds_mono) simp
  moreover have "length ?enc = i * cdp_encryptedChunkSize p" using assms(4) by simp
  ultimately have "cache_of (provider_updates v sz True i ds p) (?enc @ concat ds)"
    using assms cached_upto_take [OF assms(6)] by (intro updates_truncate_cache) simp_all
  with True show ?thesis by (simp add: overwrite_def)
qed

subsection \<open>The slice size and a new provider\<close>

lemma round_up_multiple:
  fixes e s :: int
  assumes "0 < e" and "0 \<le> s"
  shows "e dvd (s + e - 1) div e * e" and "s \<le> (s + e - 1) div e * e" and "(s + e - 1) div e * e < s + e"
proof -
  have "(s + e - 1) div e * e = s + e - 1 - (s + e - 1) mod e" by (simp add: minus_mod_eq_div_mult)
  moreover have "0 \<le> (s + e - 1) mod e" and "(s + e - 1) mod e < e" using assms(1) by simp_all
  ultimately show "s \<le> (s + e - 1) div e * e" and "(s + e - 1) div e * e < s + e" by linarith+
qed simp

lemma getServerReadDataSize_eq:
  assumes "0 < e" and "0 \<le> s" and "s + e < 2 ^ 63"
  shows "getServerReadDataSize e s = (s + e - 1) div e * e"
proof -
  have "s64 (s + e - 1) = s + e - 1" using assms by (intro s64_id) simp_all
  then show ?thesis
    unfolding getServerReadDataSize_def using round_up_multiple(2,3) [OF assms(1,2)] assms
    by (simp add: s64_id)
qed

lemma new_provider:
  fixes n req fid sz v
  assumes "0 < n" and "0 < req" and "n + req < 2 ^ 63"
  defines "p \<equiv> ChunkDataProvider_new n req fid sz v"
  shows "provider_geometry p" and "req \<le> cdp_serverChunkSize p" and "cdp_serverChunkSize p < req + n"
    and "provider_bounds p (length enc) \<Longrightarrow> provider_coherent p v enc"
proof -
  have "int (n + req) < int (2 ^ 63)" using assms(3) by (simp only: of_nat_less_iff)
  then have lt: "int req + int n < 2 ^ 63" by simp
  let ?r = "(int req + int n - 1) div int n * int n"
  note r = round_up_multiple [of "int n" "int req"]
  have "s64 (int n) = int n" and "s64 (int req) = int req" using assms(3) by (simp_all add: s64_of_nat)
  then have "getServerReadDataSize (s64 (int n)) (s64 (int req)) = ?r"
    using getServerReadDataSize_eq [of "int n" "int req"] assms(1) lt by simp
  moreover have "0 \<le> ?r" and "?r < 2 ^ 64" using r assms(1) lt by simp_all
  ultimately have size: "int (cdp_serverChunkSize p) = ?r"
    by (simp add: p_def ChunkDataProvider_new_def u64_of_int_id)
  have "int n dvd int (cdp_serverChunkSize p)" unfolding size by simp
  moreover have bnd: "int req \<le> int (cdp_serverChunkSize p)" "int (cdp_serverChunkSize p) < int req + int n"
    using size r(2,3) assms(1) by simp_all
  ultimately show geo: "provider_geometry p" and 1: "req \<le> cdp_serverChunkSize p"
    and "cdp_serverChunkSize p < req + n"
    using assms(1,2) by (simp_all add: provider_geometry_def p_def ChunkDataProvider_new_def)
  assume "provider_bounds p (length enc)"
  then have "length enc \<le> (2 ^ 32 - 1) * cdp_encryptedChunkSize p" by (simp add: provider_bounds_def)
  also have "\<dots> \<le> (2 ^ 32 - 1) * cdp_serverChunkSize p"
    using geo by (intro mult_le_mono2) (simp add: provider_geometry_def dvd_imp_le)
  finally have "length enc \<le> (2 ^ 32 - 1) * cdp_serverChunkSize p" .
  then show "provider_coherent p v enc"
    by (simp add: provider_coherent_def cache_of_def p_def ChunkDataProvider_new_def nth_block_def)
qed

subsection \<open>A Bridge that meets the requirements\<close>

text \<open>
  For concrete evaluations only: a Bridge holding one file as version, content and digests. It
  refuses a read or a write of another version with \<open>STORE_FILE_VERSION_MISMATCH\<close>. No property is about it: the
  theorems name what they need of a Bridge as a hypothesis, and this one shows that the hypothesis can hold.
\<close>

definition sample_write_op :: "string \<Rightarrow> StoreFileRandomWriteOperation \<Rightarrow> bytes \<Rightarrow> bytes" where
  "sample_write_op ty w x =
     (if wo_type w = ty then overwrite (nat (wo_pos w)) (wo_data w) (wo_truncate w) x else x)"

definition version_mismatch :: exn where
  "version_mismatch = PrivmxExn \<lparr>pe_msg = ''STORE_FILE_VERSION_MISMATCH'', pe_type = RPC, pe_code = 0x6128\<rparr>"

definition sample_bridge :: "(int \<times> bytes \<times> bytes, 'm) store_server" where
  "sample_bridge =
     \<lparr>storeFileRead = (\<lambda>m (v, d, c).
        case rm_range m of
          RangeChecksum \<Rightarrow> Inr c
        | RangeSlice f t \<Rightarrow>
            if rm_version m = Some v then Inr (take (nat t - nat f) (drop (nat f) d))
            else Inl version_mismatch),
      storeFileWrite = (\<lambda>m (v, d, c).
        if wm_version m = v then
          (Inr (), (v + 1, fold (sample_write_op ''file'') (wm_operations m) d,
                    fold (sample_write_op ''checksum'') (wm_operations m) c))
        else (Inl version_mismatch, (v, d, c)))\<rparr>"

lemma sample_bridge_serves: "serves_file sample_bridge (v, d, c) fid v d c"
  by (simp add: serves_file_def sample_bridge_def)

subsection \<open>Properties\<close>

text \<open>
  \<open>ChunkDataProvider::getChunk\<close> returns exactly the requested encrypted chunk. Asked for
  chunk \<open>i\<close> of a version whose content is \<open>enc\<close>, with a cache that is coherent for that
  version (or belongs to another version), it returns the bytes of \<open>enc\<close> from \<open>i\<close> times the
  chunk size on, at most one chunk size of them and none past the end, and leaves a cache
  coherent with \<open>enc\<close>; whether it answered from the cache or from the Bridge is not visible.
\<close>

theorem ChunkDataProvider_getChunk_correct:
  assumes "provider_geometry p" and "provider_bounds p (length enc)"
    and "i * cdp_encryptedChunkSize p \<le> length enc + cdp_encryptedChunkSize p"
    and "serves_file api s (cdp_fileId p) v enc sums" and "provider_coherent p v enc"
  shows "fst (ChunkDataProvider_getChunk api s i v p)
      = Inr (take (cdp_encryptedChunkSize p) (drop (i * cdp_encryptedChunkSize p) enc)) \<and>
    provider_coherent (snd (ChunkDataProvider_getChunk api s i v p)) v enc"
  using ChunkDataProvider_getChunk_ok [OF assms] by (auto simp: nth_block_def provider_coherent_def)

theorem ChunkDataProvider_getChunk_correct_witness:
  "fst (ChunkDataProvider_getChunk (sample_bridge :: (int \<times> bytes \<times> bytes, unit) store_server)
     (7, [1, 2, 3, 4, 5], []) 1 7 (ChunkDataProvider_new 2 3 ''f'' 5 7)) = Inr [3, 4]"
proof -
  let ?p = "ChunkDataProvider_new 2 3 ''f'' 5 7" and ?enc = "[1, 2, 3, 4, 5] :: bytes"
  let ?api = "sample_bridge :: (int \<times> bytes \<times> bytes, unit) store_server"
  have b: "provider_bounds ?p (length ?enc)"
    by (simp add: provider_bounds_def ChunkDataProvider_new_def getServerReadDataSize_def s64_def
        u64_of_int_def)
  have "serves_file ?api (7, ?enc, []) (cdp_fileId ?p) 7 ?enc []"
    by (rule sample_bridge_serves)
  then have "fst (ChunkDataProvider_getChunk ?api (7, ?enc, []) 1 7 ?p)
      = Inr (take (cdp_encryptedChunkSize ?p) (drop (1 * cdp_encryptedChunkSize ?p) ?enc))"
    using ChunkDataProvider_getChunk_correct [of ?p ?enc 1 ?api "(7, ?enc, [])" 7 "[]"]
      new_provider(1) [of 2 3 "''f''" 5 7] new_provider(4) [of 2 3 "''f''" 5 7 ?enc, OF _ _ _ b] b
    by simp
  also have "\<dots> = Inr [3, 4]" by (simp add: ChunkDataProvider_new_def)
  finally show ?thesis .
qed

text \<open>
  \<open>getServerReadDataSize\<close> rounds the requested slice size up to the least multiple of the
  encrypted chunk size, so an encrypted chunk never straddles two slices: a new provider's
  slice size is a multiple of the chunk size, at least the requested size and less than one
  chunk above it.
\<close>

theorem ChunkDataProvider_slice_size:
  assumes "0 < n" and "0 < req" and "n + req < 2 ^ 63"
  shows "n dvd cdp_serverChunkSize (ChunkDataProvider_new n req fid sz v) \<and>
    req \<le> cdp_serverChunkSize (ChunkDataProvider_new n req fid sz v) \<and>
    cdp_serverChunkSize (ChunkDataProvider_new n req fid sz v) < req + n"
  using new_provider(1-3) [OF assms, of fid sz v]
  by (simp add: provider_geometry_def ChunkDataProvider_new_def)

theorem ChunkDataProvider_slice_size_witness:
  "1000 \<le> cdp_serverChunkSize (ChunkDataProvider_new 144 1000 ''f'' 0 1) \<and>
   cdp_serverChunkSize (ChunkDataProvider_new 144 1000 ''f'' 0 1) = 1008"
  using ChunkDataProvider_slice_size [of 144 1000 "''f''" 0 1]
  by (simp add: ChunkDataProvider_new_def getServerReadDataSize_def s64_def u64_of_int_def)

text \<open>
  When the Bridge refuses a slice with an exception whose code is a server code, the client
  sees \<open>FileVersionMismatchException\<close> exactly if the code is \<open>STORE_FILE_VERSION_MISMATCH\<close>
  (\<open>0x6128\<close>); every other exception reaches the caller unchanged, and in both cases the cached
  slice is left as it was.
\<close>

theorem ChunkDataProvider_version_mismatch:
  assumes "\<And>f t. storeFileRead api \<lparr>rm_fileId = cdp_fileId p, rm_range = RangeSlice f t,
      rm_version = Some v, rm_thumb = False\<rparr> s = Inl (PrivmxExn e)"
    and "- 0x10000 \<le> pe_code e" and "pe_code e < 0x10000000"
    and "cdp_fileVersion p \<noteq> v"
  shows "fst (ChunkDataProvider_getChunk api s i v p)
      = Inl (if pe_code e = 0x6128 then StoreExn FileVersionMismatchException else PrivmxExn e) \<and>
    cdp_lastServerChunk (snd (ChunkDataProvider_getChunk api s i v p)) = cdp_lastServerChunk p \<and>
    cdp_lastServerChunkNumber (snd (ChunkDataProvider_getChunk api s i v p)) = None"
  using assms
  by (simp add: ChunkDataProvider_getChunk_def requestServerChunk_def Let_def convert_eq_mismatch)

theorem ChunkDataProvider_version_mismatch_witness:
  "fst (ChunkDataProvider_getChunk (sample_bridge :: (int \<times> bytes \<times> bytes, unit) store_server)
     (3, [1, 2, 3, 4, 5], []) 0 2 (ChunkDataProvider_new 2 3 ''f'' 5 1))
   = Inl (StoreExn FileVersionMismatchException)"
  using ChunkDataProvider_version_mismatch
    [of "sample_bridge :: (int \<times> bytes \<times> bytes, unit) store_server"
      "ChunkDataProvider_new 2 3 ''f'' 5 1" 2 "(3, [1, 2, 3, 4, 5], [])"
      "\<lparr>pe_msg = ''STORE_FILE_VERSION_MISMATCH'', pe_type = RPC, pe_code = 0x6128\<rparr>" 0]
  by (simp add: version_mismatch_def ChunkDataProvider_new_def sample_bridge_def)

end
