(* ===== verification/Store_ChunkReader.thy ===== *)
theory Store_ChunkReader
  imports Store_ChunkEncryptor Store_HmacList Store_ChunkDataProvider
begin

text \<open>
  \<open>store/src/ChunkReader.cpp\<close> and \<open>store/src/FileReader.cpp\<close>: decrypted chunks of a file,
  with a cache of the last one, and reading of byte ranges. The provider, the encryptor and the
  digest list are shared by reference between the reader and its clients, so they are parts of
  one state, \<open>file_io\<close>, together with the Bridge and the number of random strings drawn.
\<close>

subsection \<open>State\<close>

record DecryptedChunk =
  dc_decryptedData :: bytes
  dc_index :: nat

record ChunkReader =
  cr_chunkSize :: nat
  cr_version :: int
  cr_lastChunk :: "DecryptedChunk option"

record 's file_io =
  io_server :: 's
  io_draws :: nat
  io_provider :: ChunkDataProvider
  io_encryptor :: ChunkEncryptor
  io_hashes :: HmacList
  io_reader :: ChunkReader

record FileReader =
  fr_plainfileSize :: nat
  fr_version :: int

subsection \<open>Operations\<close>

definition ChunkReader_new :: "ChunkEncryptor \<Rightarrow> FileDecryptionParams \<Rightarrow> (exn, ChunkReader) result" where
  "ChunkReader_new chunkEncryptor params =
     (if fdp_sizeOnServer params \<noteq> ChunkEncryptor_getEncryptedFileSize chunkEncryptor (fdp_originalSize params)
         \<and> fdp_originalSize params \<noteq> 0
      then Inl (StoreExn FileCorruptedException)
      else Inr \<lparr>cr_chunkSize = ChunkEncryptor_getPlainChunkSize chunkEncryptor,
                cr_version = fdp_version params, cr_lastChunk = None\<rparr>)"

definition filePosToFileChunkIndex :: "'s file_io \<Rightarrow> nat \<Rightarrow> nat" where
  "filePosToFileChunkIndex st position = position div ChunkEncryptor_getPlainChunkSize (io_encryptor st)"

definition filePosToPosInFileChunk :: "'s file_io \<Rightarrow> nat \<Rightarrow> nat" where
  "filePosToPosInFileChunk st position = position mod ChunkEncryptor_getPlainChunkSize (io_encryptor st)"

text \<open>\<open>getChunk\<close> and \<open>decrypt\<close> through the shared objects.\<close>

definition io_getChunk :: "('s, 'm) store_server \<Rightarrow> nat \<Rightarrow> int \<Rightarrow> (exn, 's file_io, bytes) op" where
  "io_getChunk api index version st =
     (case ChunkDataProvider_getChunk api (io_server st) index version (io_provider st) of
        (r, p) \<Rightarrow> (r, st\<lparr>io_provider := p\<rparr>))"

definition io_decrypt :: "crypto_api \<Rightarrow> nat \<Rightarrow> bytes \<Rightarrow> (exn, 's file_io, bytes) op" where
  "io_decrypt c index chunk st =
     (bindR (HmacList_getHash (io_hashes st) index) (\<lambda>h.
        ChunkEncryptor_decrypt c (io_encryptor st) index \<lparr>chunk_data = chunk, chunk_hmac = h\<rparr>), st)"

definition ChunkReader_getDecryptedChunk ::
    "crypto_api \<Rightarrow> ('s, 'm) store_server \<Rightarrow> nat \<Rightarrow> (exn, 's file_io, bytes) op" where
  "ChunkReader_getDecryptedChunk c api index st =
     (case cr_lastChunk (io_reader st) of
        Some d \<Rightarrow>
          if dc_index d = index then (Inr (dc_decryptedData d), st)
          else bindS (io_getChunk api index (cr_version (io_reader st))) (\<lambda>chunk.
               bindS (io_decrypt c index chunk) (\<lambda>plain st.
                 (Inr plain, st\<lparr>io_reader := (io_reader st)\<lparr>cr_lastChunk :=
                    Some \<lparr>dc_decryptedData = plain, dc_index = index\<rparr>\<rparr>\<rparr>))) st
      | None \<Rightarrow>
          bindS (io_getChunk api index (cr_version (io_reader st))) (\<lambda>chunk.
          bindS (io_decrypt c index chunk) (\<lambda>plain st.
            (Inr plain, st\<lparr>io_reader := (io_reader st)\<lparr>cr_lastChunk :=
               Some \<lparr>dc_decryptedData = plain, dc_index = index\<rparr>\<rparr>\<rparr>))) st)"

definition ChunkReader_sync :: "FileDecryptionParams \<Rightarrow> ChunkReader \<Rightarrow> ChunkReader" where
  "ChunkReader_sync newParms self = self\<lparr>cr_version := fdp_version newParms, cr_lastChunk := None\<rparr>"

definition ChunkReader_update :: "int \<Rightarrow> nat \<Rightarrow> ChunkReader \<Rightarrow> ChunkReader" where
  "ChunkReader_update newfileVersion index self =
     (case cr_lastChunk self of
        Some d \<Rightarrow>
          if dc_index d = index then self\<lparr>cr_version := newfileVersion, cr_lastChunk := None\<rparr>
          else self\<lparr>cr_version := newfileVersion\<rparr>
      | None \<Rightarrow> self\<lparr>cr_version := newfileVersion\<rparr>)"

definition FileReader_new :: "FileDecryptionParams \<Rightarrow> FileReader" where
  "FileReader_new params = \<lparr>fr_plainfileSize = fdp_originalSize params, fr_version = fdp_version params\<rparr>"

definition FileReader_sync :: "FileDecryptionParams \<Rightarrow> FileReader \<Rightarrow> FileReader" where
  "FileReader_sync newParms self =
     self\<lparr>fr_plainfileSize := fdp_originalSize newParms, fr_version := fdp_version newParms\<rparr>"

text \<open>
  \<open>pos+length\<close> is a 64-bit sum and may wrap; \<open>stopIndex\<close> is below the largest 64-bit
  value, so the counter of the loop does not wrap and it runs over \<open>[start..<Suc stop]\<close>.
\<close>

definition FileReader_read ::
    "crypto_api \<Rightarrow> ('s, 'm) store_server \<Rightarrow> FileReader \<Rightarrow> nat \<Rightarrow> nat \<Rightarrow> (exn, 's file_io, bytes) op" where
  "FileReader_read c api self pos len st =
     (if fr_plainfileSize self \<le> pos then (Inr [], st)
      else
        let len = (if fr_plainfileSize self < u64 (pos + len) then usub64 (fr_plainfileSize self) pos
                   else len)
        in if len = 0 then (Inr [], st)
           else
             let startIndex = filePosToFileChunkIndex st pos;
                 stopIndex = filePosToFileChunkIndex st (usub64 (u64 (pos + len)) 1)
             in bindS (append_chunks (ChunkReader_getDecryptedChunk c api) [startIndex..<Suc stopIndex] [])
                  (\<lambda>d st. (substr StdOutOfRange d (filePosToPosInFileChunk st pos) len, st)) st)"

subsection \<open>A file behind the shared state\<close>

text \<open>
  \<open>file_view\<close> is the coupling of the shared state with a plain content: the Bridge serves
  version \<open>v\<close> of an encryption of it, the digest list holds the digests of the encryption,
  the provider's cache is coherent and the reader's cached chunk, if it is a chunk of the
  file, is the right one.
\<close>

definition reader_cache :: "ChunkReader \<Rightarrow> nat \<Rightarrow> bytes \<Rightarrow> bool" where
  "reader_cache r n plain \<longleftrightarrow>
     (\<forall>d. cr_lastChunk r = Some d \<longrightarrow> dc_index d < length (chunks n plain) \<longrightarrow>
        dc_decryptedData d = chunks n plain ! dc_index d)"

definition file_view ::
    "crypto_api \<Rightarrow> ('s, 'm) store_server \<Rightarrow> int \<Rightarrow> Chunk list \<Rightarrow> 's file_io \<Rightarrow> bytes \<Rightarrow> bool" where
  "file_view c api v chs st plain \<longleftrightarrow>
     (let n = ce_chunkSize (io_encryptor st); p = io_provider st in
      ChunkEncryptor_ready c (io_encryptor st) \<and>
      sealed_file (ChunkEncryptor_decrypt c (io_encryptor st)) n plain chs \<and>
      HmacList_shape (io_hashes st) \<and> HmacList_hashes (io_hashes st) = map chunk_hmac chs \<and>
      serves_file api (io_server st) (cdp_fileId p) v (file_data chs) (file_checksums chs) \<and>
      provider_geometry p \<and> provider_bounds p (length (file_data chs)) \<and>
      cdp_encryptedChunkSize p = encrypted_len n \<and>
      provider_coherent p v (file_data chs) \<and>
      cr_version (io_reader st) = v \<and> reader_cache (io_reader st) n plain)"

lemma file_viewD:
  assumes "file_view c api v chs st plain"
  shows "ChunkEncryptor_ready c (io_encryptor st)"
    and "sealed_file (ChunkEncryptor_decrypt c (io_encryptor st)) (ce_chunkSize (io_encryptor st)) plain chs"
    and "HmacList_shape (io_hashes st)" and "HmacList_hashes (io_hashes st) = map chunk_hmac chs"
    and "serves_file api (io_server st) (cdp_fileId (io_provider st)) v (file_data chs) (file_checksums chs)"
    and "provider_geometry (io_provider st)" and "provider_bounds (io_provider st) (length (file_data chs))"
    and "cdp_encryptedChunkSize (io_provider st) = encrypted_len (ce_chunkSize (io_encryptor st))"
    and "provider_coherent (io_provider st) v (file_data chs)"
    and "cr_version (io_reader st) = v" and "reader_cache (io_reader st) (ce_chunkSize (io_encryptor st)) plain"
    and "0 < ce_chunkSize (io_encryptor st)"
    and "length chs = length (chunks (ce_chunkSize (io_encryptor st)) plain)"
  using assms by (simp_all add: file_view_def Let_def ChunkEncryptor_ready_def sealed_file_def)

text \<open>What reading leaves alone: everything but the two caches.\<close>

definition same_file :: "'s file_io \<Rightarrow> 's file_io \<Rightarrow> bool" where
  "same_file st st' \<longleftrightarrow> io_server st' = io_server st \<and> io_draws st' = io_draws st \<and>
     io_encryptor st' = io_encryptor st \<and> io_hashes st' = io_hashes st \<and>
     cdp_fileId (io_provider st') = cdp_fileId (io_provider st) \<and>
     cdp_serverChunkSize (io_provider st') = cdp_serverChunkSize (io_provider st)"

lemma same_file_refl [simp]: "same_file st st"
  by (simp add: same_file_def)

lemma same_file_trans: "same_file a b \<Longrightarrow> same_file b c \<Longrightarrow> same_file a c"
  by (simp add: same_file_def)

text \<open>Fetching the encrypted chunk \<open>i\<close>: its data, or nothing when the file has no chunk \<open>i\<close>.\<close>

lemma sealed_block:
  assumes "sealed_file dec n plain chs" and "0 < n"
  shows "nth_block (encrypted_len n) i (file_data chs) = (if i < length chs then chunk_data (chs ! i) else [])"
proof (cases "i < length chs")
  case True
  then show ?thesis using sealed_file_slice [OF assms] by (simp add: nth_block_def)
next
  case False
  then have "drop (i * encrypted_len n) (file_data chs) = []"
    unfolding file_data_def using sealed_file_lengths(2) [OF assms] by (intro slice_concat_beyond) auto
  with False show ?thesis by (simp add: nth_block_def)
qed

lemma sealed_index:
  assumes "sealed_file dec n plain chs" and "0 < n" and "i \<le> length chs"
  shows "i * encrypted_len n \<le> length (file_data chs) + encrypted_len n"
proof (cases i)
  case 0
  then show ?thesis by simp
next
  case (Suc k)
  have "k * encrypted_len n \<le> length (file_data chs)"
  proof (rule ccontr)
    assume "\<not> ?thesis"
    then have "nth_block (encrypted_len n) k (file_data chs) = []" by (simp add: nth_block_def)
    moreover have "k < length chs" using Suc assms(3) by simp
    moreover have "length (chunk_data (chs ! k)) \<noteq> 0"
      using assms(1) \<open>k < length chs\<close> unfolding sealed_file_def by (metis encrypted_len_pos less_numeral_extra(3))
    ultimately show False using sealed_block [OF assms(1,2), of k] by simp
  qed
  with Suc show ?thesis by simp
qed

lemma io_getChunk_view:
  assumes v: "file_view c api v chs st plain" and bounds: "provider_bounds (io_provider st) l"
    and i: "i * cdp_encryptedChunkSize (io_provider st) \<le> l + cdp_encryptedChunkSize (io_provider st)"
  shows "\<exists>p. io_getChunk api i v st
      = (Inr (if i < length chs then chunk_data (chs ! i) else []), st\<lparr>io_provider := p\<rparr>) \<and>
    file_view c api v chs (st\<lparr>io_provider := p\<rparr>) plain \<and>
    cdp_fileVersion p = v \<and> cache_of p (file_data chs) \<and>
    cdp_lastServerChunkNumber p = Some (i * cdp_encryptedChunkSize p div cdp_serverChunkSize p) \<and>
    cdp_fileId p = cdp_fileId (io_provider st) \<and> cdp_serverChunkSize p = cdp_serverChunkSize (io_provider st) \<and>
    cdp_encryptedChunkSize p = cdp_encryptedChunkSize (io_provider st)"
proof -
  note d = file_viewD [OF v]
  from ChunkDataProvider_getChunk_ok [OF d(6) bounds i d(5,9)]
  obtain p where p: "ChunkDataProvider_getChunk api (io_server st) i v (io_provider st)
      = (Inr (nth_block (cdp_encryptedChunkSize (io_provider st)) i (file_data chs)), p)"
    "p = (io_provider st)\<lparr>cdp_fileVersion := v, cdp_lastServerChunk := cdp_lastServerChunk p,
           cdp_lastServerChunkNumber := Some (i * cdp_encryptedChunkSize (io_provider st) div
             cdp_serverChunkSize (io_provider st))\<rparr>"
    "cache_of p (file_data chs)" by blast
  have fields: "cdp_fileId p = cdp_fileId (io_provider st)" "cdp_fileVersion p = v"
    "cdp_encryptedChunkSize p = cdp_encryptedChunkSize (io_provider st)"
    "cdp_serverChunkSize p = cdp_serverChunkSize (io_provider st)"
    "cdp_lastServerChunkNumber p = Some (i * cdp_encryptedChunkSize p div cdp_serverChunkSize p)"
    by (subst p(2); simp)+
  have "provider_geometry p" and "provider_bounds p (length (file_data chs))"
    and "cdp_encryptedChunkSize p = encrypted_len (ce_chunkSize (io_encryptor st))"
    using d(6-8) fields(3,4) by (simp_all only: provider_geometry_def provider_bounds_def)
  then have "file_view c api v chs (st\<lparr>io_provider := p\<rparr>) plain"
    using v p(3) fields(1) by (simp add: file_view_def Let_def provider_coherent_def)
  then show ?thesis
    using p(1,3) fields by (intro exI [of _ p]) (simp add: io_getChunk_def d(8) sealed_block [OF d(2,12)])
qed

lemma io_decrypt_view:
  assumes v: "file_view c api v chs st plain" and i: "i < length chs"
  shows "io_decrypt c i (chunk_data (chs ! i)) st = (Inr (chunks (ce_chunkSize (io_encryptor st)) plain ! i), st)"
proof -
  note d = file_viewD [OF v]
  have "HmacList_getHash (io_hashes st) i = Inr (chunk_hmac (chs ! i))"
    using hl.get_inside [OF d(3), of i] i by (simp add: d(4))
  moreover have "\<lparr>chunk_data = chunk_data (chs ! i), chunk_hmac = chunk_hmac (chs ! i)\<rparr> = chs ! i" by simp
  ultimately show ?thesis using d(2) i by (simp only: io_decrypt_def sealed_file_def bindR_Inr)
qed

lemma getDecryptedChunk_view:
  assumes v: "file_view c api v chs st plain" and i: "i < length chs"
  shows "\<exists>st'. ChunkReader_getDecryptedChunk c api i st
      = (Inr (chunks (ce_chunkSize (io_encryptor st)) plain ! i), st') \<and>
    file_view c api v chs st' plain \<and> same_file st st'"
proof -
  let ?n = "ce_chunkSize (io_encryptor st)"
  note d = file_viewD [OF v]
  obtain p where p: "io_getChunk api i v st = (Inr (chunk_data (chs ! i)), st\<lparr>io_provider := p\<rparr>)"
    "file_view c api v chs (st\<lparr>io_provider := p\<rparr>) plain" "same_file st (st\<lparr>io_provider := p\<rparr>)"
    using io_getChunk_view [OF v d(7), of i] i sealed_index [OF d(2,12), of i]
    by (auto simp: same_file_def d(8))
  let ?st = "st\<lparr>io_provider := p\<rparr>"
  let ?st' = "?st\<lparr>io_reader := (io_reader ?st)\<lparr>cr_lastChunk :=
    Some \<lparr>dc_decryptedData = chunks ?n plain ! i, dc_index = i\<rparr>\<rparr>\<rparr>"
  have miss: "bindS (io_getChunk api i (cr_version (io_reader st))) (\<lambda>chunk.
      bindS (io_decrypt c i chunk) (\<lambda>plain st. (Inr plain, st\<lparr>io_reader := (io_reader st)\<lparr>cr_lastChunk :=
        Some \<lparr>dc_decryptedData = plain, dc_index = i\<rparr>\<rparr>\<rparr>))) st = (Inr (chunks ?n plain ! i), ?st')"
    using p(1) io_decrypt_view [OF p(2) i] by (simp add: d(10) bindS_Inr)
  have view: "file_view c api v chs ?st' plain"
    using p(2) by (simp add: file_view_def Let_def reader_cache_def)
  show ?thesis
  proof (cases "\<exists>dc. cr_lastChunk (io_reader st) = Some dc \<and> dc_index dc = i")
    case True
    then show ?thesis
      using v d(11,13) i by (auto simp: ChunkReader_getDecryptedChunk_def reader_cache_def)
  next
    case False
    then have "ChunkReader_getDecryptedChunk c api i st = (Inr (chunks ?n plain ! i), ?st')"
      using miss by (simp add: ChunkReader_getDecryptedChunk_def split: option.split)
    with view p(3) show ?thesis by (simp add: same_file_def)
  qed
qed

definition same_view ::
    "crypto_api \<Rightarrow> ('s, 'm) store_server \<Rightarrow> int \<Rightarrow> Chunk list \<Rightarrow> 's file_io \<Rightarrow> 's file_io \<Rightarrow> bytes \<Rightarrow> bool" where
  "same_view c api v chs st0 st plain \<longleftrightarrow> file_view c api v chs st plain \<and> same_file st0 st"

interpretation cr: chunk_source filePosToFileChunkIndex filePosToPosInFileChunk
    "ChunkReader_getDecryptedChunk c api" "ChunkEncryptor_getPlainChunkSize \<circ> io_encryptor"
    "same_view c api v chs st0" for c api v chs st0
proof unfold_locales
  fix st plain i
  assume v: "same_view c api v chs st0 st plain"
    and i: "i < length (chunks ((ChunkEncryptor_getPlainChunkSize \<circ> io_encryptor) st) plain)"
  then have "i < length chs"
    by (auto simp: same_view_def ChunkEncryptor_getPlainChunkSize_def dest: file_viewD(13))
  with v getDecryptedChunk_view [of c api v chs st plain i]
  show "\<exists>st'. ChunkReader_getDecryptedChunk c api i st
      = (Inr (chunks ((ChunkEncryptor_getPlainChunkSize \<circ> io_encryptor) st) plain ! i), st') \<and>
    same_view c api v chs st0 st' plain \<and>
    (ChunkEncryptor_getPlainChunkSize \<circ> io_encryptor) st' = (ChunkEncryptor_getPlainChunkSize \<circ> io_encryptor) st"
    by (auto simp: same_view_def ChunkEncryptor_getPlainChunkSize_def same_file_def)
qed (auto simp: filePosToFileChunkIndex_def filePosToPosInFileChunk_def same_view_def
    ChunkEncryptor_getPlainChunkSize_def dest: file_viewD(12))

subsection \<open>Opening a file\<close>

text \<open>
  The constructors of the shared objects, in the order of \<open>FileReadHandle\<close> and
  \<open>FileReadWriteHandle\<close>: encryptor, provider, digest list (which asks the Bridge for the
  digests and checks them against the digest in the file's meta data), reader.
\<close>

definition open_file_io ::
    "crypto_api \<Rightarrow> ('s, 'm) store_server \<Rightarrow> FileDecryptionParams \<Rightarrow> nat \<Rightarrow> nat \<Rightarrow> 's \<Rightarrow> (exn, 's file_io) result" where
  "open_file_io c api params serverChunkSize draws s =
     (let enc = \<lparr>ce_key = fdp_key params, ce_chunkSize = fdp_chunkSize params\<rparr>;
          provider = ChunkDataProvider_new (ChunkEncryptor_getEncryptedChunkSize enc) serverChunkSize
            (fdp_fileId params) (fdp_sizeOnServer params) (fdp_version params)
      in bindR (ChunkDataProvider_getCurrentChecksumsFromBridge api s provider) (\<lambda>sums.
         bindR (HmacList_new c (fdp_key params) (fdp_hmac params) sums) (\<lambda>hashes.
         bindR (ChunkReader_new enc params) (\<lambda>reader.
           Inr \<lparr>io_server = s, io_draws = draws, io_provider = provider, io_encryptor = enc,
                io_hashes = hashes, io_reader = reader\<rparr>))))"

text \<open>
  What the Bridge and the file's meta data have to say about a file for it to open: an
  encryption of \<open>plain\<close> under the key and chunk size of the meta data, its digests, the digest
  of the digests, and the sizes. \<open>file_fits\<close> is the size range of the provider.
\<close>

definition stored_file ::
    "crypto_api \<Rightarrow> ('s, 'm) store_server \<Rightarrow> 's \<Rightarrow> FileDecryptionParams \<Rightarrow> Chunk list \<Rightarrow> bytes \<Rightarrow> bool" where
  "stored_file c api s params chs plain \<longleftrightarrow>
     (let enc = \<lparr>ce_key = fdp_key params, ce_chunkSize = fdp_chunkSize params\<rparr> in
      ChunkEncryptor_ready c enc \<and>
      sealed_file (ChunkEncryptor_decrypt c enc) (fdp_chunkSize params) plain chs \<and>
      serves_file api s (fdp_fileId params) (fdp_version params) (file_data chs) (file_checksums chs) \<and>
      fdp_hmac params = hmacSha256 c (fdp_key params) (file_checksums chs) \<and>
      fdp_originalSize params = length plain \<and>
      fdp_sizeOnServer params = length (file_data chs))"

definition file_fits :: "nat \<Rightarrow> nat \<Rightarrow> nat \<Rightarrow> bool" where
  "file_fits chunkSize serverChunkSize len \<longleftrightarrow> 0 < serverChunkSize \<and>
     len + 3 * encrypted_len chunkSize + serverChunkSize < 2 ^ 63 \<and>
     len + encrypted_len chunkSize < (2 ^ 32 - 1) * encrypted_len chunkSize"

lemma sealed_plain_length:
  assumes "sealed_file dec n plain chs" and "0 < n"
  shows "length plain \<le> length (file_data chs)"
proof -
  have "length plain = sum_list (map length (chunks n plain))"
    using concat_chunks [OF assms(2), of plain] by (metis length_concat)
  also have "\<dots> \<le> sum_list (map (encrypted_len \<circ> length) (chunks n plain))"
    by (intro sum_list_mono) (simp add: encrypted_len_def)
  also have "\<dots> = length (file_data chs)" by (rule sealed_file_size [OF assms(1), symmetric])
  finally show ?thesis .
qed

lemma sealed_checksums:
  assumes "sealed_file dec n plain chs"
  shows "\<forall>x \<in> set (map chunk_hmac chs). length x = 32"
  using assms by (auto simp: sealed_file_def in_set_conv_nth)

lemma HmacList_new_digests:
  assumes "\<forall>x \<in> set xs. length x = 32"
  shows "\<exists>h. HmacList_new c key (hmacSha256 c key (concat xs)) (concat xs) = Inr h \<and>
    HmacList_shape h \<and> HmacList_hashes h = xs \<and> hl_topHashKey h = key \<and> HmacList_inv c h"
proof -
  let ?h = "\<lparr>hl_topHashKey = key, hl_topHash = Some (hmacSha256 c key (concat xs)),
    hl_size = length xs, hl_hashes = concat xs\<rparr>"
  have "HmacList_new c key (hmacSha256 c key (concat xs)) (concat xs) = Inr ?h"
    by (simp add: HmacList_new_def Let_def store_sizes length_concat_equal [OF assms])
  moreover have "HmacList_shape ?h" and "HmacList_hashes ?h = xs"
    using shape_concat [OF assms, of ?h] by simp_all
  ultimately show ?thesis using HmacList_new_inv by (intro exI [of _ ?h]) (simp add: HmacList_inv_def)
qed

lemma open_file_io_reader:
  "open_file_io c api params serverChunkSize draws s = Inr st \<Longrightarrow> cr_lastChunk (io_reader st) = None"
  by (force simp: open_file_io_def Let_def ChunkReader_new_def bindR_eq_Inr split: if_splits)

lemma open_file_io_provider:
  "open_file_io c api params serverChunkSize draws s = Inr st \<Longrightarrow>
     io_provider st = ChunkDataProvider_new (ChunkEncryptor_getEncryptedChunkSize
         \<lparr>ce_key = fdp_key params, ce_chunkSize = fdp_chunkSize params\<rparr>) serverChunkSize
       (fdp_fileId params) (fdp_sizeOnServer params) (fdp_version params)"
  by (force simp: open_file_io_def Let_def bindR_eq_Inr)

lemma open_file_io_view:
  assumes "stored_file c api s params chs plain"
    and fits: "file_fits (fdp_chunkSize params) serverChunkSize (length (file_data chs))"
  shows "\<exists>st. open_file_io c api params serverChunkSize draws s = Inr st \<and>
    file_view c api (fdp_version params) chs st plain \<and> io_server st = s \<and> io_draws st = draws \<and>
    io_encryptor st = \<lparr>ce_key = fdp_key params, ce_chunkSize = fdp_chunkSize params\<rparr> \<and>
    cdp_fileId (io_provider st) = fdp_fileId params \<and> cr_version (io_reader st) = fdp_version params \<and>
    HmacList_inv c (io_hashes st) \<and> hl_topHashKey (io_hashes st) = fdp_key params"
proof -
  let ?n = "fdp_chunkSize params" and ?v = "fdp_version params"
  let ?e = "\<lparr>ce_key = fdp_key params, ce_chunkSize = ?n\<rparr>"
  let ?p = "ChunkDataProvider_new (ChunkEncryptor_getEncryptedChunkSize ?e) serverChunkSize
    (fdp_fileId params) (fdp_sizeOnServer params) ?v"
  have ready: "ChunkEncryptor_ready c ?e" and sealed: "sealed_file (ChunkEncryptor_decrypt c ?e) ?n plain chs"
    and srv: "serves_file api s (fdp_fileId params) ?v (file_data chs) (file_checksums chs)"
    and hmac: "fdp_hmac params = hmacSha256 c (fdp_key params) (concat (map chunk_hmac chs))"
    and sizes: "fdp_originalSize params = length plain" "fdp_sizeOnServer params = length (file_data chs)"
    using assms(1) by (simp_all add: stored_file_def Let_def file_checksums_def)
  have n: "0 < ?n" "?n + 64 < 2 ^ 64" using ready by (simp_all add: ChunkEncryptor_ready_def)
  have ecs: "ChunkEncryptor_getEncryptedChunkSize ?e = encrypted_len ?n"
    using n getEncryptedChunkSize_eq [of ?e] by simp
  have f: "0 < serverChunkSize" "encrypted_len ?n + serverChunkSize < 2 ^ 63"
    "length (file_data chs) + 3 * encrypted_len ?n + serverChunkSize < 2 ^ 63"
    "length (file_data chs) + encrypted_len ?n < (2 ^ 32 - 1) * encrypted_len ?n"
    using fits by (simp_all add: file_fits_def)
  note new = new_provider [OF encrypted_len_pos f(1,2), of "fdp_fileId params" "fdp_sizeOnServer params" ?v,
      folded ecs]
  have p: "cdp_encryptedChunkSize ?p = encrypted_len ?n" "cdp_fileId ?p = fdp_fileId params"
    by (simp_all add: ChunkDataProvider_new_def ecs)
  have "cdp_serverChunkSize ?p < serverChunkSize + encrypted_len ?n" using new(3) ecs by linarith
  then have bounds: "provider_bounds ?p (length (file_data chs))"
    using f by (simp add: provider_bounds_def p)
  have sums: "ChunkDataProvider_getCurrentChecksumsFromBridge api s ?p = Inr (concat (map chunk_hmac chs))"
    using srv by (simp add: ChunkDataProvider_getCurrentChecksumsFromBridge_def p serves_file_def file_checksums_def)
  obtain h where h: "HmacList_new c (fdp_key params) (fdp_hmac params) (concat (map chunk_hmac chs)) = Inr h"
    "HmacList_shape h" "HmacList_hashes h = map chunk_hmac chs" "hl_topHashKey h = fdp_key params"
    "HmacList_inv c h"
    using HmacList_new_digests [OF sealed_checksums [OF sealed]] unfolding hmac by blast
  have "length plain \<le> length (file_data chs)" by (rule sealed_plain_length [OF sealed n(1)])
  then have plain: "length plain + ?n < 2 ^ 64" "length (file_data chs) < 2 ^ 64"
    using f(3) by (simp_all add: encrypted_len_def)
  have "ChunkEncryptor_getEncryptedFileSize ?e (length plain) = length (file_data chs)"
    using ce.sealed_file_encrypted_size [OF ready _ _ plain(2), of plain] sealed plain(1)
    by (simp add: ChunkEncryptor_getPlainChunkSize_def)
  then have r: "ChunkReader_new ?e params = Inr \<lparr>cr_chunkSize = ?n, cr_version = ?v, cr_lastChunk = None\<rparr>"
    by (simp add: ChunkReader_new_def sizes ChunkEncryptor_getPlainChunkSize_def)
  let ?st = "\<lparr>io_server = s, io_draws = draws, io_provider = ?p, io_encryptor = ?e, io_hashes = h,
    io_reader = \<lparr>cr_chunkSize = ?n, cr_version = ?v, cr_lastChunk = None\<rparr>\<rparr>"
  have "open_file_io c api params serverChunkSize draws s = Inr ?st"
    unfolding open_file_io_def Let_def sums by (simp add: h(1) r)
  moreover have "file_view c api ?v chs ?st plain"
    using ready sealed srv h(2,3) new(1) bounds new(4) [OF bounds] p
    by (simp add: file_view_def Let_def reader_cache_def)
  ultimately show ?thesis using h(4,5) p by simp
qed

subsection \<open>Reading ranges\<close>

lemma FileReader_read_view:
  assumes v: "file_view c api v chs st plain" and size: "fr_plainfileSize fr = length plain"
    and "length plain < 2 ^ 64" and "pos + len < 2 ^ 64"
  shows "\<exists>st'. FileReader_read c api fr pos len st = (Inr (take len (drop pos plain)), st') \<and>
    file_view c api v chs st' plain \<and> same_file st st'"
proof (cases "length plain \<le> pos \<or> len = 0")
  case True
  then show ?thesis using v size assms(3) by (auto simp: FileReader_read_def Let_def usub64_id u64_id)
next
  case False
  define len' where "len' = (if length plain < pos + len then length plain - pos else len)"
  have len': "0 < len'" "pos + len' \<le> length plain" and take: "take len' (drop pos plain) = take len (drop pos plain)"
    using False by (auto simp: len'_def)
  have clamp: "(if length plain < u64 (pos + len) then usub64 (length plain) pos else len) = len'"
    using assms(3,4) False by (simp add: len'_def u64_id usub64_id)
  have stop: "usub64 (u64 (pos + len')) 1 = pos + len' - 1"
    using len' assms(3) by (simp add: u64_id usub64_id)
  have "FileReader_read c api fr pos len st
    = bindS (append_chunks (ChunkReader_getDecryptedChunk c api)
        [filePosToFileChunkIndex st pos..<Suc (filePosToFileChunkIndex st (pos + len' - 1))] [])
        (\<lambda>d st. (substr StdOutOfRange d (filePosToPosInFileChunk st pos) len', st)) st"
    unfolding FileReader_read_def size Let_def clamp stop using False len'(1) by simp
  then show ?thesis
    using cr.read_range [of c api v chs st st plain, OF _ len', of StdOutOfRange] take v
    by (auto simp: same_view_def simp del: upt_Suc)
qed

subsection \<open>A concrete file\<close>

text \<open>
  Five bytes in chunks of four, encrypted with \<open>sample_crypto\<close> and held by \<open>sample_bridge\<close>
  as version 1: the instance on which the properties of this and the following theories are
  evaluated.
\<close>

definition sample_plain :: bytes where
  "sample_plain = [1, 2, 3, 4, 5]"

definition sample_chunks :: "Chunk list" where
  "sample_chunks = fst (seal_from (ChunkEncryptor_encrypt sample_crypto \<lparr>ce_key = [9], ce_chunkSize = 4\<rparr>) 0
     (chunks 4 sample_plain) 0)"

definition sample_params :: FileDecryptionParams where
  "sample_params = \<lparr>fdp_fileId = ''f'', fdp_resourceId = ''r'', fdp_sizeOnServer = 128,
     fdp_originalSize = 5, fdp_cipherType = 1, fdp_chunkSize = 4, fdp_key = [9],
     fdp_hmac = hmacSha256 sample_crypto [9] (file_checksums sample_chunks), fdp_version = 1\<rparr>"

type_synonym sample_state = "int \<times> bytes \<times> bytes"

definition sample_store :: sample_state where
  "sample_store = (1, file_data sample_chunks, file_checksums sample_chunks)"

abbreviation sample_api :: "(sample_state, unit) store_server" where
  "sample_api \<equiv> sample_bridge"

definition sample_io :: "sample_state file_io" where
  "sample_io = projr (open_file_io sample_crypto sample_api sample_params 100 2 sample_store)"

lemma sample_ready: "ChunkEncryptor_ready sample_crypto \<lparr>ce_key = k, ce_chunkSize = 4\<rparr>"
  by (simp add: ChunkEncryptor_ready_def sample_crypto_ok)

lemma sample_sealed:
  "sealed_file (ChunkEncryptor_decrypt sample_crypto \<lparr>ce_key = [9], ce_chunkSize = 4\<rparr>) 4 sample_plain sample_chunks"
  using ce.sealed_seal [OF sample_ready, of "[9]" sample_plain 0]
  by (simp add: sample_chunks_def ChunkEncryptor_getPlainChunkSize_def)

lemma sample_cut: "chunks 4 sample_plain = [[1, 2, 3, 4], [5]]"
  by (simp add: sample_plain_def chunks_rec)

lemma sample_size: "length (file_data sample_chunks) = 128"
  using sealed_file_size [OF sample_sealed] by (simp add: sample_cut encrypted_len_def)

lemma sample_stored: "stored_file sample_crypto sample_api sample_store sample_params sample_chunks sample_plain"
  using sample_sealed sample_ready sample_size
  by (simp add: stored_file_def Let_def sample_params_def sample_store_def sample_bridge_serves sample_plain_def)

lemma sample_fits: "file_fits 4 100 128"
  by (simp add: file_fits_def encrypted_len_def)

lemma sample_opens:
  "open_file_io sample_crypto sample_api sample_params 100 2 sample_store = Inr sample_io"
  "file_view sample_crypto sample_api 1 sample_chunks sample_io sample_plain"
  "io_encryptor sample_io = \<lparr>ce_key = [9], ce_chunkSize = 4\<rparr>" "io_server sample_io = sample_store"
  "cdp_fileId (io_provider sample_io) = ''f''" "HmacList_inv sample_crypto (io_hashes sample_io)"
  "hl_topHashKey (io_hashes sample_io) = [9]" "io_draws sample_io = 2"
proof -
  have "fdp_chunkSize sample_params = 4" "fdp_version sample_params = 1" "fdp_key sample_params = [9]"
    "fdp_fileId sample_params = ''f''" by (simp_all add: sample_params_def)
  then obtain st where "open_file_io sample_crypto sample_api sample_params 100 2 sample_store = Inr st"
    "file_view sample_crypto sample_api 1 sample_chunks st sample_plain"
    "io_server st = sample_store" "io_draws st = 2" "io_encryptor st = \<lparr>ce_key = [9], ce_chunkSize = 4\<rparr>"
    "cdp_fileId (io_provider st) = ''f''" "HmacList_inv sample_crypto (io_hashes st)"
    "hl_topHashKey (io_hashes st) = [9]"
    using open_file_io_view [OF sample_stored, of 100 2] sample_fits sample_size by auto
  then show "open_file_io sample_crypto sample_api sample_params 100 2 sample_store = Inr sample_io"
    "file_view sample_crypto sample_api 1 sample_chunks sample_io sample_plain"
    "io_encryptor sample_io = \<lparr>ce_key = [9], ce_chunkSize = 4\<rparr>" "io_server sample_io = sample_store"
    "cdp_fileId (io_provider sample_io) = ''f''" "HmacList_inv sample_crypto (io_hashes sample_io)"
    "hl_topHashKey (io_hashes sample_io) = [9]" "io_draws sample_io = 2"
    by (simp_all add: sample_io_def)
qed

lemma sample_provider:
  "cdp_encryptedChunkSize (io_provider sample_io) = 64" "cdp_serverChunkSize (io_provider sample_io) = 128"
proof -
  have "ChunkEncryptor_getEncryptedChunkSize \<lparr>ce_key = [9], ce_chunkSize = 4\<rparr> = 64"
    by (simp add: ChunkEncryptor_getEncryptedChunkSize_def store_sizes Let_def u64_def)
  then show "cdp_encryptedChunkSize (io_provider sample_io) = 64" "cdp_serverChunkSize (io_provider sample_io) = 128"
    by (simp_all add: open_file_io_provider [OF sample_opens(1)] sample_params_def ChunkDataProvider_new_def
        getServerReadDataSize_def s64_def u64_of_int_def)
qed

subsection \<open>Properties\<close>

text \<open>
  C3. Opening and reading a stored file returns its bytes. When the Bridge holds an encryption
  of \<open>plain\<close> that matches the file's meta data, the objects behind a read handle are
  constructed without an exception, and a read of \<open>len\<close> bytes at \<open>pos\<close> returns exactly the
  bytes of \<open>plain\<close> in that range that exist, for every range whose end fits 64 bits.
\<close>

theorem open_then_read:
  assumes "stored_file c api s params chs plain"
    and "file_fits (fdp_chunkSize params) serverChunkSize (length (file_data chs))"
    and "pos + len < 2 ^ 64"
  shows "\<exists>st. open_file_io c api params serverChunkSize draws s = Inr st \<and>
    fst (FileReader_read c api (FileReader_new params) pos len st) = Inr (take len (drop pos plain))"
proof -
  obtain st where st: "open_file_io c api params serverChunkSize draws s = Inr st"
    "file_view c api (fdp_version params) chs st plain"
    using open_file_io_view [OF assms(1,2), of draws] by blast
  have "fr_plainfileSize (FileReader_new params) = length plain"
    using assms(1) by (simp add: FileReader_new_def stored_file_def Let_def)
  moreover have "length plain < 2 ^ 64"
    using sealed_plain_length [OF file_viewD(2,12) [OF st(2)]] assms(2) by (simp add: file_fits_def)
  ultimately show ?thesis using FileReader_read_view [OF st(2) _ _ assms(3)] st(1) by fastforce
qed

theorem open_then_read_witness:
  "\<exists>st. open_file_io sample_crypto sample_api sample_params 100 0 sample_store = Inr st \<and>
    fst (FileReader_read sample_crypto sample_api (FileReader_new sample_params) 2 10 st) = Inr [3, 4, 5]"
  using open_then_read [OF sample_stored, of 100 2 10 0] sample_fits sample_size
  by (simp add: sample_params_def sample_plain_def)

text \<open>
  Reads do not disturb each other: after any read of an opened file every later read, of
  whatever range, still returns the bytes of the plain content, so the caches of the provider
  and of the reader are never observable.
\<close>

theorem FileReader_read_repeatable:
  assumes "file_view c api v chs st plain" and "fr_plainfileSize fr = length plain"
    and "length plain < 2 ^ 64" and "pos + len < 2 ^ 64" and "pos' + len' < 2 ^ 64"
  shows "fst (FileReader_read c api fr pos' len' (snd (FileReader_read c api fr pos len st)))
    = Inr (take len' (drop pos' plain))"
  using FileReader_read_view [OF assms(1-4)] FileReader_read_view [OF _ assms(2,3,5), of c api v chs]
  by fastforce

theorem FileReader_read_repeatable_witness:
  "fst (FileReader_read sample_crypto sample_api \<lparr>fr_plainfileSize = 5, fr_version = 1\<rparr> 0 2
     (snd (FileReader_read sample_crypto sample_api \<lparr>fr_plainfileSize = 5, fr_version = 1\<rparr> 4 1 sample_io)))
   = Inr [1, 2]"
  using FileReader_read_repeatable [OF sample_opens(2), of "\<lparr>fr_plainfileSize = 5, fr_version = 1\<rparr>" 4 1 0 2]
  by (simp add: sample_plain_def)

text \<open>
  A file whose digests do not match the digest in its meta data is refused when it is
  opened, before any of its data is fetched; so is one whose size on the server is not the
  encrypted size of its declared content.
\<close>

theorem open_refuses_corrupted:
  assumes "storeFileRead api \<lparr>rm_fileId = fdp_fileId params, rm_range = RangeChecksum, rm_version = None,
      rm_thumb = False\<rparr> s = Inr sums"
  shows "(hmacSha256 c (fdp_key params) sums \<noteq> fdp_hmac params \<longrightarrow>
      open_file_io c api params k draws s = Inl (StoreExn InvalidFileTopHashException)) \<and>
    (hmacSha256 c (fdp_key params) sums = fdp_hmac params \<longrightarrow> length sums mod 32 = 0 \<longrightarrow>
      fdp_originalSize params \<noteq> 0 \<longrightarrow>
      fdp_sizeOnServer params \<noteq> ChunkEncryptor_getEncryptedFileSize
        \<lparr>ce_key = fdp_key params, ce_chunkSize = fdp_chunkSize params\<rparr> (fdp_originalSize params) \<longrightarrow>
      open_file_io c api params k draws s = Inl (StoreExn FileCorruptedException))"
  using assms
  by (simp add: open_file_io_def Let_def ChunkDataProvider_getCurrentChecksumsFromBridge_def
      ChunkDataProvider_new_def HmacList_new_def ChunkReader_new_def store_sizes)

theorem open_refuses_corrupted_witness:
  "open_file_io sample_crypto sample_api (sample_params\<lparr>fdp_hmac := []\<rparr>) 100 0 (1, [7], [8])
     = Inl (StoreExn InvalidFileTopHashException)"
  using open_refuses_corrupted [of sample_api "sample_params\<lparr>fdp_hmac := []\<rparr>" "(1, [7], [8])" "[8]" sample_crypto 100 0]
  by (simp add: sample_bridge_def sample_crypto_def sum_hash_def)

text \<open>
  What makes a chunk authentic: its plain bytes are the decryption, under the key of its index, of bytes
  that begin with the digest the list records for that index and carry that digest as their MAC.
\<close>

definition chunk_authentic :: "crypto_api \<Rightarrow> ChunkEncryptor \<Rightarrow> HmacList \<Rightarrow> nat \<Rightarrow> bytes \<Rightarrow> bool" where
  "chunk_authentic c e hashes i plain \<longleftrightarrow>
     (\<exists>chunk. HmacList_getHash hashes i = Inr (take 32 chunk) \<and>
        hmacSha256 c (sha256 c (ce_key e @ chunkIndexToBE i)) (drop 32 chunk) = take 32 chunk \<and>
        ChunkEncryptor_decrypt c e i \<lparr>chunk_data = chunk, chunk_hmac = take 32 chunk\<rparr> = Inr plain)"

definition reader_authentic :: "crypto_api \<Rightarrow> 's file_io \<Rightarrow> bool" where
  "reader_authentic c st \<longleftrightarrow>
     (\<forall>d. cr_lastChunk (io_reader st) = Some d \<longrightarrow>
        chunk_authentic c (io_encryptor st) (io_hashes st) (dc_index d) (dc_decryptedData d))"

lemma io_decrypt_authentic:
  assumes "fst (io_decrypt c i chunk st) = Inr plain"
  shows "chunk_authentic c (io_encryptor st) (io_hashes st) i plain"
proof -
  obtain h where h: "HmacList_getHash (io_hashes st) i = Inr h"
    "ChunkEncryptor_decrypt c (io_encryptor st) i \<lparr>chunk_data = chunk, chunk_hmac = h\<rparr> = Inr plain"
    using assms by (auto simp: io_decrypt_def bindR_eq_Inr)
  with decrypt_accepts(1,2) [OF h(2)] show ?thesis by (auto simp: chunk_authentic_def)
qed

text \<open>A call keeps the invariant of the cache, whatever the Bridge answers, and returns what is authentic.\<close>

lemma getDecryptedChunk_authentic:
  assumes inv: "reader_authentic c st" and call: "ChunkReader_getDecryptedChunk c api i st = (r, st')"
  shows "reader_authentic c st'" and "io_encryptor st' = io_encryptor st" and "io_hashes st' = io_hashes st"
    and "r = Inr plain \<Longrightarrow> chunk_authentic c (io_encryptor st) (io_hashes st) i plain"
proof -
  have "reader_authentic c st' \<and> io_encryptor st' = io_encryptor st \<and> io_hashes st' = io_hashes st \<and>
    (\<forall>plain. r = Inr plain \<longrightarrow> chunk_authentic c (io_encryptor st) (io_hashes st) i plain)"
  proof (cases "\<exists>d. cr_lastChunk (io_reader st) = Some d \<and> dc_index d = i")
    case True
    then show ?thesis using inv call by (auto simp: ChunkReader_getDecryptedChunk_def reader_authentic_def)
  next
    case False
    obtain g st1 where g: "io_getChunk api i (cr_version (io_reader st)) st = (g, st1)" by fastforce
    then have st1: "io_hashes st1 = io_hashes st" "io_encryptor st1 = io_encryptor st" "io_reader st1 = io_reader st"
      by (auto simp: io_getChunk_def split: prod.splits)
    obtain d st2 where d: "\<And>chunk. g = Inr chunk \<Longrightarrow> io_decrypt c i chunk st1 = (d, st2)" by (cases g) fastforce+
    have run: "(r, st') = (case g of Inl e \<Rightarrow> (Inl e, st1) | Inr chunk \<Rightarrow>
        (case io_decrypt c i chunk st1 of (Inl e, st2) \<Rightarrow> (Inl e, st2)
         | (Inr plain, st2) \<Rightarrow> (Inr plain, st2\<lparr>io_reader := (io_reader st2)\<lparr>cr_lastChunk :=
             Some \<lparr>dc_decryptedData = plain, dc_index = i\<rparr>\<rparr>\<rparr>)))"
      using False call
      by (auto simp: ChunkReader_getDecryptedChunk_def g bindS_def split: option.splits sum.splits prod.splits)
    show ?thesis
    proof (cases g)
      case (Inl e)
      then show ?thesis using run inv st1 by (simp add: reader_authentic_def)
    next
      case (Inr chunk)
      have st2: "st2 = st1" using d [OF Inr] by (simp add: io_decrypt_def)
      show ?thesis
      proof (cases d)
        case Inl
        then show ?thesis using run Inr d [OF Inr] st2 inv st1 by (simp add: reader_authentic_def)
      next
        case ok: (Inr p)
        have "chunk_authentic c (io_encryptor st) (io_hashes st) i p"
          using io_decrypt_authentic [of c i chunk st1 p] d [OF Inr] ok st1 by simp
        then show ?thesis using run Inr d [OF Inr] ok st2 st1 by (simp add: reader_authentic_def)
      qed
    qed
  qed
  then show "reader_authentic c st'" "io_encryptor st' = io_encryptor st" "io_hashes st' = io_hashes st"
    "r = Inr plain \<Longrightarrow> chunk_authentic c (io_encryptor st) (io_hashes st) i plain" by blast+
qed

text \<open>
  Calls one after the other. Before each of them the Bridge may have changed in any way: a call is an
  index together with the state of the Bridge it meets.
\<close>

definition chunk_calls ::
    "crypto_api \<Rightarrow> ('s, 'm) store_server \<Rightarrow> ('s \<times> nat) list \<Rightarrow> 's file_io \<Rightarrow> 's file_io" where
  "chunk_calls c api = fold (\<lambda>(s, i) st. snd (ChunkReader_getDecryptedChunk c api i (st\<lparr>io_server := s\<rparr>)))"

lemma chunk_calls_authentic:
  "reader_authentic c st \<Longrightarrow> reader_authentic c (chunk_calls c api calls st) \<and>
     io_encryptor (chunk_calls c api calls st) = io_encryptor st \<and> io_hashes (chunk_calls c api calls st) = io_hashes st"
proof (induction calls arbitrary: st)
  case (Cons call calls)
  obtain s i where call: "call = (s, i)" by fastforce
  obtain r st1 where st1: "ChunkReader_getDecryptedChunk c api i (st\<lparr>io_server := s\<rparr>) = (r, st1)" by fastforce
  have "reader_authentic c (st\<lparr>io_server := s\<rparr>)" using Cons.prems by (simp add: reader_authentic_def)
  from getDecryptedChunk_authentic(1-3) [OF this st1] Cons.IH [of st1] show ?case
    by (simp add: call chunk_calls_def st1)
qed (simp add: chunk_calls_def)

text \<open>
  C5. Only authentic chunks are returned. Let a file be opened with the parameters from its meta data, and let
  any calls of \<open>getDecryptedChunk\<close> follow, failed ones and answers from the cache included, between which the
  Bridge may change at will. Whenever a call returns, the plain bytes are the decryption of bytes
  that begin with the digest recorded for that index and carry it as the MAC under the key of that very
  index, and the recorded digests are those whose digest under the file's key is the one in the meta data.
\<close>

theorem ChunkReader_authentic:
  assumes "open_file_io c api params serverChunkSize draws s0 = Inr st0"
    and "fst (ChunkReader_getDecryptedChunk c api i ((chunk_calls c api calls st0)\<lparr>io_server := s\<rparr>)) = Inr plain"
  shows "\<exists>digests chunk. hmacSha256 c (fdp_key params) digests = fdp_hmac params \<and>
    length digests mod 32 = 0 \<and> i * 32 \<le> length digests \<and> take 32 (drop (i * 32) digests) = take 32 chunk \<and>
    hmacSha256 c (sha256 c (fdp_key params @ chunkIndexToBE i)) (drop 32 chunk) = take 32 chunk \<and>
    ChunkEncryptor_decrypt c \<lparr>ce_key = fdp_key params, ce_chunkSize = fdp_chunkSize params\<rparr> i
      \<lparr>chunk_data = chunk, chunk_hmac = take 32 chunk\<rparr> = Inr plain"
proof -
  let ?e = "\<lparr>ce_key = fdp_key params, ce_chunkSize = fdp_chunkSize params\<rparr>"
  have top: "hmacSha256 c (fdp_key params) (hl_hashes (io_hashes st0)) = fdp_hmac params"
      "length (hl_hashes (io_hashes st0)) mod 32 = 0" "io_encryptor st0 = ?e"
    using assms(1) by (auto simp: open_file_io_def Let_def bindR_eq_Inr HmacList_new_def store_sizes split: if_splits)
  have "reader_authentic c st0" using open_file_io_reader [OF assms(1)] by (simp add: reader_authentic_def)
  from chunk_calls_authentic [OF this, of api calls]
  have st: "reader_authentic c ((chunk_calls c api calls st0)\<lparr>io_server := s\<rparr>)"
      "io_encryptor (chunk_calls c api calls st0) = ?e" "io_hashes (chunk_calls c api calls st0) = io_hashes st0"
    by (auto simp: reader_authentic_def top(3))
  from getDecryptedChunk_authentic(4) [OF st(1) prod.collapse [symmetric] assms(2)]
  obtain chunk where chunk: "HmacList_getHash (io_hashes st0) i = Inr (take 32 chunk)"
      "hmacSha256 c (sha256 c (fdp_key params @ chunkIndexToBE i)) (drop 32 chunk) = take 32 chunk"
      "ChunkEncryptor_decrypt c ?e i \<lparr>chunk_data = chunk, chunk_hmac = take 32 chunk\<rparr> = Inr plain"
    by (auto simp: chunk_authentic_def st(2,3))
  have "i * 32 \<le> length (hl_hashes (io_hashes st0))" "take 32 (drop (i * 32) (hl_hashes (io_hashes st0))) = take 32 chunk"
    using chunk(1) by (auto simp: HmacList_getHash_def substr_def store_sizes split: if_splits)
  with top chunk show ?thesis
    by (intro exI [of _ "hl_hashes (io_hashes st0)"] exI [of _ chunk]) simp
qed

text \<open>The second read of a chunk, answered from the cache although the Bridge has lost the file.\<close>

theorem ChunkReader_authentic_witness:
  "fst (ChunkReader_getDecryptedChunk sample_crypto sample_api 1
      ((chunk_calls sample_crypto sample_api [(sample_store, 1)] sample_io)\<lparr>io_server := (7, [], [])\<rparr>)) = Inr [5] \<and>
   (\<exists>digests chunk. hmacSha256 sample_crypto [9] digests = fdp_hmac sample_params \<and> take 32 (drop 32 digests) = take 32 chunk \<and>
     hmacSha256 sample_crypto (sha256 sample_crypto ([9] @ chunkIndexToBE 1)) (drop 32 chunk) = take 32 chunk \<and>
     ChunkEncryptor_decrypt sample_crypto \<lparr>ce_key = [9], ce_chunkSize = 4\<rparr> 1 \<lparr>chunk_data = chunk, chunk_hmac = take 32 chunk\<rparr> = Inr [5])"
proof -
  have len: "length sample_chunks = 2"
    using file_viewD(13) [OF sample_opens(2)] by (simp add: sample_opens(3) sample_cut)
  obtain st' where st': "ChunkReader_getDecryptedChunk sample_crypto sample_api 1 sample_io = (Inr [5], st')"
    using getDecryptedChunk_view [OF sample_opens(2), of 1] len by (auto simp: sample_opens(3) sample_cut)
  have same: "sample_io\<lparr>io_server := sample_store\<rparr> = sample_io" by (simp flip: sample_opens(4))
  have calls: "chunk_calls sample_crypto sample_api [(sample_store, 1)] sample_io = st'"
    using st' by (simp add: chunk_calls_def same)
  have "cr_lastChunk (io_reader sample_io) = None" using open_file_io_reader [OF sample_opens(1)] .
  then have "cr_lastChunk (io_reader st') = Some \<lparr>dc_decryptedData = [5], dc_index = 1\<rparr>"
    using st' by (auto simp: ChunkReader_getDecryptedChunk_def bindS_def split: sum.splits prod.splits)
  then have read: "fst (ChunkReader_getDecryptedChunk sample_crypto sample_api 1
      ((chunk_calls sample_crypto sample_api [(sample_store, 1)] sample_io)\<lparr>io_server := (7, [], [])\<rparr>)) = Inr [5]"
    unfolding calls by (simp add: ChunkReader_getDecryptedChunk_def)
  from ChunkReader_authentic [OF sample_opens(1) this] read show ?thesis
    by (auto simp: sample_params_def)
qed

end
