(* ===== verification/Store_Overwrite.thy ===== *)
theory Store_Overwrite
  imports Store_Interfaces
begin

text \<open>
  Writing into a file that is kept in chunks: the chunks of the new content are the old chunks
  with a segment replaced by the rewritten chunks, and the sizes change by the differences
  between rewritten and old chunks. Pure list facts, used for the plain chunks and for the
  encrypted chunks alike.
\<close>

lemma chunks_append_multiple:
  assumes "0 < n" and "length xs = k * n"
  shows "chunks n (xs @ ys) = chunks n xs @ chunks n ys"
  using assms(2)
proof (induction k arbitrary: xs)
  case 0
  then show ?case by simp
next
  case (Suc k)
  then have "xs \<noteq> []" and "length (drop n xs) = k * n" and "n \<le> length xs" using assms(1) by auto
  then show ?case using Suc.IH [of "drop n xs"] assms(1) by (simp add: chunks_rec)
qed

lemma take_chunks: "0 < n \<Longrightarrow> take k (chunks n xs) = chunks n (take (k * n) xs)"
proof (induction k arbitrary: xs)
  case 0
  then show ?case by simp
next
  case (Suc k)
  show ?case
  proof (cases "xs = []")
    case False
    let ?ys = "take (Suc k * n) xs"
    have "?ys \<noteq> []" using False Suc.prems by simp
    then have "chunks n ?ys = take n ?ys # chunks n (drop n ?ys)" by (rule chunks_rec [OF Suc.prems])
    moreover have "take n ?ys = take n xs" and "drop n ?ys = take (k * n) (drop n xs)"
      by (simp_all add: drop_take)
    ultimately show ?thesis using Suc.IH [OF Suc.prems, of "drop n xs"] chunks_rec [OF Suc.prems False] by simp
  qed simp
qed

text \<open>The number of the chunk after the one that holds the byte before position \<open>e\<close>.\<close>

definition last_chunk_end :: "nat \<Rightarrow> nat \<Rightarrow> nat" where
  "last_chunk_end n e = Suc ((e - 1) div n)"

lemma last_chunk_end_bounds:
  assumes "0 < n" and "0 < e"
  shows "e \<le> last_chunk_end n e * n" and "last_chunk_end n e * n < e + n"
proof -
  have "e - 1 < Suc ((e - 1) div n) * n" using dividend_less_times_div [OF assms(1)] by (simp add: mult.commute)
  then show "e \<le> last_chunk_end n e * n" using assms(2) by (simp add: last_chunk_end_def)
  have "(e - 1) div n * n \<le> e - 1" by (rule div_times_less_eq_dividend)
  then have "(e - 1) div n * n < e" using assms(2) by linarith
  then show "last_chunk_end n e * n < e + n" by (simp add: last_chunk_end_def)
qed

text \<open>
  Cutting an overwritten content: \<open>xs\<close> is overwritten from \<open>a * n\<close> (a chunk boundary) with \<open>d\<close>,
  and the rest of the chunk in which \<open>d\<close> ends is \<open>r\<close>.
\<close>

lemma chunks_overwrite:
  fixes xs :: "'a list" and t :: bool
  assumes n: "0 < n" and a: "a * n \<le> length xs" and d: "d \<noteq> []"
  defines "e \<equiv> a * n + length d"
  defines "b \<equiv> last_chunk_end n e"
  defines "r \<equiv> (if t then [] else take (b * n - e) (drop e xs))"
  shows "chunks n (overwrite (a * n) d t xs) = overwrite a (chunks n (d @ r)) t (chunks n xs)"
    and "length (chunks n (d @ r)) = b - a" and "a < b"
proof -
  have be: "e \<le> b * n" "b * n < e + n"
    using last_chunk_end_bounds [OF n, of e] d by (simp_all add: e_def b_def)
  have "a * n < b * n" using be(1) d unfolding e_def by (metis add_lessD1 length_greater_0_conv less_add_same_cancel1 less_le_trans)
  then show ab: "a < b" by simp
  have len: "length (d @ r) \<le> (b - a) * n" "(b - a) * n < length (d @ r) + n"
    using be by (auto simp: r_def e_def diff_mult_distrib)
  have "(length (d @ r) + n - 1) div n = b - a"
  proof (rule div_nat_eqI)
    show "n * (b - a) \<le> length (d @ r) + n - 1" using len by (simp add: mult.commute)
    show "length (d @ r) + n - 1 < n * Suc (b - a)" using len n by (simp add: mult.commute)
  qed
  then show k: "length (chunks n (d @ r)) = b - a" using n by (simp add: length_chunks)
  have split: "overwrite (a * n) d t xs = take (a * n) xs @ (d @ r) @ (if t then [] else drop (b * n) xs)"
  proof (cases t)
    case False
    have "drop e xs = take (b * n - e) (drop e xs) @ drop (b * n) xs"
      using be(1) append_take_drop_id [of "b * n - e" "drop e xs"] by simp
    then show ?thesis using False by (simp add: overwrite_def r_def e_def)
  qed (simp add: overwrite_def r_def)
  have pre: "length (take (a * n) xs) = a * n" using a by simp
  have rest: "chunks n ((d @ r) @ drop (b * n) xs) = chunks n (d @ r) @ chunks n (drop (b * n) xs)" if "\<not> t"
  proof (cases "drop (b * n) xs = []")
    case False
    then have "length (d @ r) = (b - a) * n"
      using that be(1) by (simp add: r_def e_def diff_mult_distrib)
    then show ?thesis by (rule chunks_append_multiple [OF n])
  qed simp
  have "a + (b - a) = b" using ab by simp
  then show "chunks n (overwrite (a * n) d t xs) = overwrite a (chunks n (d @ r)) t (chunks n xs)"
    unfolding split chunks_append_multiple [OF n pre] overwrite_def [of a] k
    using rest by (simp add: take_chunks n drop_chunks del: append_assoc)
qed

text \<open>
  The same for a list of pieces that are all of size \<open>n\<close> but the last, overwritten piecewise:
  the concatenation of the pieces is the overwritten concatenation.
\<close>

lemma concat_take_full:
  assumes "\<forall>j. Suc j < length xss \<longrightarrow> length (xss ! j) = n" and "m < length xss"
  shows "length (concat (take m xss)) = m * n"
    and "take (m * n) (concat xss) = concat (take m xss)" and "drop (m * n) (concat xss) = concat (drop m xss)"
proof -
  have "\<forall>x \<in> set (take m xss). length x = n" using assms by (auto simp: in_set_conv_nth)
  from length_concat_equal [OF this] show len: "length (concat (take m xss)) = m * n"
    using assms(2) by simp
  have "concat xss = concat (take m xss) @ concat (drop m xss)"
    by (metis append_take_drop_id concat_append)
  with len show "take (m * n) (concat xss) = concat (take m xss)" and "drop (m * n) (concat xss) = concat (drop m xss)"
    by simp_all
qed

lemma length_concat_full_but_last:
  assumes "\<forall>j. Suc j < length xss \<longrightarrow> length (xss ! j) = n" and "xss \<noteq> []"
  shows "length (concat xss) = (length xss - 1) * n + length (last xss)"
proof -
  have "length xss - 1 < length xss" using assms(2) by simp
  then have "length (concat (take (length xss - 1) xss)) = (length xss - 1) * n"
    using concat_take_full(1) [OF assms(1)] by blast
  moreover have "concat xss = concat (take (length xss - 1) xss) @ last xss"
    using assms(2) by (metis append_butlast_last_id butlast_conv_take concat_append concat.simps append_Nil2)
  ultimately show ?thesis by (metis length_append)
qed

lemma length_concat_bound: "\<forall>x \<in> set xss. length x \<le> n \<Longrightarrow> length (concat xss) \<le> length xss * n"
  by (induction xss) auto

lemma concat_overwrite:
  assumes len: "\<forall>j. Suc j < length xss \<longrightarrow> length (xss ! j) = n" "\<forall>x \<in> set xss. length x \<le> n"
    and a: "a \<le> length xss" "a * n \<le> length (concat xss)"
    and full: "\<forall>j. Suc j < length yss \<longrightarrow> length (yss ! j) = n" and ne: "yss \<noteq> []"
    and lst: "\<not> t \<Longrightarrow> a + length yss \<le> length xss \<Longrightarrow> length (xss ! (a + length yss - 1)) \<le> length (last yss)"
      "length (last yss) \<le> n"
  shows "concat (overwrite a yss t xss) = overwrite (a * n) (concat yss) t (concat xss)"
proof -
  let ?k = "length yss"
  have yl: "length (concat yss) = (?k - 1) * n + length (last yss)"
    by (rule length_concat_full_but_last [OF full ne])
  have k: "0 < ?k" using ne by simp
  have pre: "concat (take a xss) = take (a * n) (concat xss)"
    using concat_take_full(2) [OF len(1), of a] a length_concat_bound [OF len(2)]
    by (cases "a < length xss") auto
  have post: "concat (drop (a + ?k) xss) = drop (a * n + length (concat yss)) (concat xss)" if "\<not> t"
  proof (cases "a + ?k < length xss")
    case True
    then have "length (xss ! (a + ?k - 1)) = n" using len(1) k by simp
    then have "length (last yss) = n" using lst True that by fastforce
    then have "length (concat yss) = ?k * n" using yl k by (cases ?k) simp_all
    then show ?thesis using concat_take_full(3) [OF len(1) True] by (simp add: add_mult_distrib)
  next
    case False
    have "length (concat xss) \<le> a * n + length (concat yss)"
    proof (cases "a + ?k = length xss")
      case True
      then have ne': "xss \<noteq> []" using k by auto
      have "length (concat xss) = (a + ?k - 1) * n + length (last xss)"
        using length_concat_full_but_last [OF len(1) ne'] True by simp
      moreover have "length (last xss) \<le> length (last yss)"
        using lst(1) [OF that] True ne' by (simp add: last_conv_nth)
      moreover have "(a + ?k - 1) * n = a * n + (?k - 1) * n" using k by (cases ?k) (simp_all add: add_mult_distrib)
      ultimately show ?thesis using yl by linarith
    next
      case below: False
      have "length (concat xss) \<le> length xss * n" by (rule length_concat_bound [OF len(2)])
      also have "\<dots> \<le> (a + (?k - 1)) * n" using below False by (intro mult_le_mono1) simp
      finally show ?thesis using yl by (simp add: add_mult_distrib)
    qed
    then show ?thesis using False by simp
  qed
  show ?thesis using pre post by (simp add: overwrite_def)
qed

subsection \<open>Sizes\<close>

text \<open>
  The size of a content of \<open>l\<close> bytes after rewriting chunks \<open>a\<close> to \<open>b\<close>: every rewritten
  chunk before \<open>b\<close> is full, chunk \<open>b\<close> gets \<open>m\<close> bytes. The changes are the ones
  \<open>createUpdateChunk\<close> computes.
\<close>

definition old_len :: "nat \<Rightarrow> nat \<Rightarrow> nat \<Rightarrow> nat" where
  "old_len n l j = min n (l - j * n)"

lemma sum_full_changes:
  assumes "a * n \<le> l" and "a \<le> b"
  shows "int l + sum_list (map (\<lambda>j. int n - int (old_len n l j)) [a..<b]) = int (max l (b * n))"
  using assms(2)
proof (induction b rule: dec_induct)
  case base
  then show ?case using assms(1) by simp
next
  case (step b)
  have "max l (b * n) + n = max l (Suc b * n) + old_len n l b" by (auto simp: old_len_def max_def min_def)
  then have "int (max l (b * n)) + int n - int (old_len n l b) = int (max l (Suc b * n))" by linarith
  with step show ?case by simp
qed

lemma size_after_rewrite:
  assumes "a * n \<le> l" and "a \<le> b" and "m \<le> n" and "\<not> t \<Longrightarrow> old_len n l b \<le> m"
  shows "int l + (sum_list (map (\<lambda>j. int n - int (old_len n l j)) [a..<b]) +
      (if t then int (b * n + m) - max (int l) (int (b * n)) else int m - int (old_len n l b)))
    = int (if t then b * n + m else max l (b * n + m))"
proof -
  have "max l (b * n) + m = max l (b * n + m) + old_len n l b" if "\<not> t"
    using assms(3,4) that by (auto simp: old_len_def max_def min_def)
  then have "\<not> t \<Longrightarrow> int (max l (b * n)) + (int m - int (old_len n l b)) = int (max l (b * n + m))" by linarith
  moreover have "int (max l (b * n)) = max (int l) (int (b * n))" by (rule of_nat_max)
  ultimately show ?thesis using sum_full_changes [OF assms(1,2)] by (cases t) (simp_all del: of_nat_mult of_nat_max)
qed

subsection \<open>Rewritten chunks\<close>

lemma map_overwrite: "map f (overwrite a ys t xs) = overwrite a (map f ys) t (map f xs)"
  by (simp add: overwrite_def take_map drop_map)

lemma nth_overwrite:
  assumes "a \<le> length xs" and "i < length (overwrite a ys t xs)"
  shows "overwrite a ys t xs ! i
    = (if a \<le> i \<and> i < a + length ys then ys ! (i - a) else xs ! i)"
proof -
  consider "i < a" | "a \<le> i" "i < a + length ys" | "a + length ys \<le> i" by linarith
  then show ?thesis
  proof cases
    case 3
    then have "\<not> t" using assms by (auto simp: length_overwrite)
    moreover have "\<not> i - a < length ys" using 3 by linarith
    ultimately show ?thesis using 3 assms by (simp add: overwrite_def nth_append)
  next
    case 2
    moreover from this have "i - a < length ys" by linarith
    ultimately show ?thesis using assms by (simp add: overwrite_def nth_append)
  qed (use assms in \<open>simp add: overwrite_def nth_append\<close>)
qed

text \<open>
  Cutting the written data and completing its last piece with what is kept of the old chunk
  there gives the rewritten chunks. \<open>old j\<close> is the old chunk \<open>j\<close>, empty past the end.
\<close>

lemma new_pieces:
  fixes xs :: "'a list" and t :: bool
  assumes n: "0 < n" and d: "d \<noteq> []" and cnt: "a + length (chunks n d) = Suc b"
    and k: "k < length (chunks n d)"
  defines "e \<equiv> a * n + length d"
  defines "r \<equiv> (if t then [] else take (Suc b * n - e) (drop e xs))"
  shows "chunks n (d @ r) ! k
    = overwrite 0 (chunks n d ! k) (t \<and> a + k = b) (take n (drop ((a + k) * n) xs))"
proof -
  have kn: "k * n < length d" by (rule chunks_index_bound [OF n k])
  have "k * n < length (d @ r)" using kn by simp
  then have k': "k < length (chunks n (d @ r))" by (rule chunks_index_less [OF n])
  have new: "chunks n (d @ r) ! k = take n (drop (k * n) d @ r)"
    using kn by (simp add: nth_chunks [OF n k'] less_imp_le)
  have old: "chunks n d ! k = take n (drop (k * n) d)" by (rule nth_chunks [OF n k])
  show ?thesis
  proof (cases "a + k = b")
    case False
    then have "Suc k < length (chunks n d)" using k cnt by linarith
    from chunks_index_bound [OF n this] have "n \<le> length (drop (k * n) d)" by simp
    then show ?thesis using False unfolding new old by (simp add: overwrite_def)
  next
    case True
    have "\<not> Suc k < length (chunks n d)" using True cnt by linarith
    then have "\<not> Suc k * n < length d" using chunks_index_less [OF n, of "Suc k" d] by blast
    then have short: "length (drop (k * n) d) \<le> n" by simp
    have "b * n = a * n + k * n" using True by (simp add: add_mult_distrib [symmetric])
    then have e: "e = b * n + length (drop (k * n) d)" "Suc b * n - e = n - length (drop (k * n) d)"
      using kn by (simp_all add: e_def)
    have "r = (if t then [] else drop (length (drop (k * n) d)) (take n (drop (b * n) xs)))"
      unfolding r_def e(2) by (simp add: e(1) drop_take add.commute)
    moreover have "length (drop (k * n) d @ r) \<le> n" using short unfolding r_def e(2) by (auto simp: min_def)
    ultimately show ?thesis using True short unfolding new old by (simp add: overwrite_def)
  qed
qed

lemma sealed_start:
  assumes s: "sealed_file dec n plain chs" and n: "0 < n" and a: "a * n \<le> length plain"
  shows "a \<le> length chs" and "a * encrypted_len n \<le> length (file_data chs)"
proof -
  have full: "j < length (chunks n plain) \<and> length (chunks n plain ! j) = n" if "j < a" for j
  proof -
    have le: "Suc j * n \<le> length plain" using that a by (meson Suc_leI le_trans mult_le_mono1)
    then have "j < length (chunks n plain)" using n by (intro chunks_index_less) simp_all
    then show ?thesis using le n by (simp add: nth_chunks)
  qed
  show len: "a \<le> length chs"
  proof (cases a)
    case (Suc j)
    then show ?thesis using full [of j] s by (simp add: sealed_file_def)
  qed simp
  have "\<forall>x \<in> set (map chunk_data (take a chs)). length x = encrypted_len n"
    using full len s by (auto simp: in_set_conv_nth sealed_file_def)
  from length_concat_equal [OF this] have "length (concat (map chunk_data (take a chs))) = a * encrypted_len n"
    using len by simp
  moreover have "file_data chs = concat (map chunk_data (take a chs)) @ concat (map chunk_data (drop a chs))"
    unfolding file_data_def by (metis append_take_drop_id concat_append map_append)
  ultimately show "a * encrypted_len n \<le> length (file_data chs)" by simp
qed

text \<open>An encrypted file with some of its chunks rewritten is an encryption of the new content.\<close>

lemma sealed_overwrite:
  assumes s: "sealed_file dec n plain chs" and a: "a \<le> length chs"
    and cs: "chunks n plain' = overwrite a news t (chunks n plain)" and len: "length ys = length news"
    and ys: "\<And>k. k < length ys \<Longrightarrow> dec (a + k) (ys ! k) = Inr (news ! k) \<and>
      length (chunk_data (ys ! k)) = encrypted_len (length (news ! k)) \<and> length (chunk_hmac (ys ! k)) = 32"
  shows "sealed_file dec n plain' (overwrite a ys t chs)"
proof -
  have l: "length chs = length (chunks n plain)" using s by (simp add: sealed_file_def)
  have l': "length (overwrite a ys t chs) = length (chunks n plain')"
    using a len by (simp add: cs length_overwrite l)
  have "dec i (overwrite a ys t chs ! i) = Inr (chunks n plain' ! i) \<and>
      length (chunk_data (overwrite a ys t chs ! i)) = encrypted_len (length (chunks n plain' ! i)) \<and>
      length (chunk_hmac (overwrite a ys t chs ! i)) = 32"
    if i: "i < length (overwrite a ys t chs)" for i
  proof (cases "a \<le> i \<and> i < a + length ys")
    case True
    then have "i - a < length ys" by linarith
    with True show ?thesis using ys [of "i - a"] i l' a len by (simp add: cs nth_overwrite l)
  next
    case False
    moreover from this have "i < length chs" using i a by (auto simp: length_overwrite split: if_splits)
    moreover have "overwrite a ys t chs ! i = chs ! i" and "chunks n plain' ! i = chunks n plain ! i"
      using False i l' a len by (auto simp: cs nth_overwrite l)
    ultimately show ?thesis using s by (simp add: sealed_file_def)
  qed
  with l' show ?thesis by (simp add: sealed_file_def)
qed

end
