(* ===== verification/Store_FileHandler.thy ===== *)
theory Store_FileHandler
  imports Store_ChunkReader Store_Overwrite
begin

text \<open>
  \<open>store/src/FileHandler.cpp\<close>: random access to a stored file. A write re-encrypts the chunks
  it touches, replaces their digests, and sends the new chunks, the new digests and the new
  meta data to the Bridge; a read decrypts the chunks of a range. \<open>FileHandlerImpl\<close> adds a read
  and a write position.

  Base64 is computed by an external library and is a parameter, as is the encryption of the
  file's meta data, whose result only the Bridge looks at.
\<close>

subsection \<open>Data\<close>

record FileInfo =
  fi_contextId :: string
  fi_storeId :: string
  fi_storeResourceId :: string
  fi_fileId :: string
  fi_resourceId :: string

record InternalStoreFileMeta =
  im_version :: int
  im_size :: int
  im_cipherType :: int
  im_chunkSize :: int
  im_key :: string
  im_hmac :: string
  im_randomWrite :: "bool option"

record FileMeta =
  fm_publicMeta :: bytes
  fm_privateMeta :: bytes
  fm_internalFileMeta :: InternalStoreFileMeta

record DecryptedEncKey =
  dk_id :: string
  dk_key :: bytes
  dk_dataStructureVersion :: int
  dk_statusCode :: int

record ('s, 'm) file_env =
  fe_crypto :: crypto_api
  fe_api :: "('s, 'm) store_server"
  fe_base64 :: "bytes \<Rightarrow> string"
  fe_encryptMeta :: "FileInfo \<Rightarrow> FileMeta \<Rightarrow> DecryptedEncKey \<Rightarrow> int \<Rightarrow> nat \<Rightarrow> (exn, 'm) result \<times> nat"

record FileHandler =
  fh_plainfileSize :: nat
  fh_encryptedFileSize :: nat
  fh_version :: int
  fh_fileInfo :: FileInfo
  fh_fileMeta :: FileMeta
  fh_fileEncKey :: DecryptedEncKey
  fh_plainChunkSize :: nat
  fh_encryptedChunkSize :: nat

record 's rw_file =
  rw_handler :: FileHandler
  rw_io :: "'s file_io"

record UpdateChunkData =
  uc_chunk :: Chunk
  uc_chunkIndex :: nat
  uc_plainfileSizeChange :: int
  uc_encryptedFileSizeChange :: int

record UpdateChanges =
  us_data :: bytes
  us_dataPos :: nat
  us_checksum :: bytes
  us_checksumPos :: nat

definition SERVER_OPERATIONS_LIMIT :: nat where
  "SERVER_OPERATIONS_LIMIT = 4"

definition SERVER_OPERATION_SIZE_LIMIT :: nat where
  "SERVER_OPERATION_SIZE_LIMIT = 512 * 1024"

subsection \<open>Operations\<close>

definition FileHandler_new ::
    "ChunkEncryptor \<Rightarrow> nat \<Rightarrow> nat \<Rightarrow> int \<Rightarrow> FileInfo \<Rightarrow> FileMeta \<Rightarrow> DecryptedEncKey \<Rightarrow> FileHandler" where
  "FileHandler_new chunkEncryptor plainfileSize encryptedFileSize version fileInfo fileMeta fileEncKey =
     \<lparr>fh_plainfileSize = plainfileSize, fh_encryptedFileSize = encryptedFileSize, fh_version = version,
      fh_fileInfo = fileInfo, fh_fileMeta = fileMeta, fh_fileEncKey = fileEncKey,
      fh_plainChunkSize = ChunkEncryptor_getPlainChunkSize chunkEncryptor,
      fh_encryptedChunkSize = ChunkEncryptor_getEncryptedChunkSize chunkEncryptor\<rparr>"

text \<open>An operation of the shared objects, run inside the file's state.\<close>

definition on_io :: "(exn, 's file_io, 'a) op \<Rightarrow> (exn, 's rw_file, 'a) op" where
  "on_io m f = (case m (rw_io f) of (r, io) \<Rightarrow> (r, f\<lparr>rw_io := io\<rparr>))"

text \<open>
  The plain content of a rewritten chunk: what precedes \<open>chunkOffset\<close>, filled with zeros if the
  old chunk ends before it, the new data, and what follows unless the chunk is truncated.
\<close>

definition new_chunk :: "bytes \<Rightarrow> nat \<Rightarrow> bytes \<Rightarrow> bool \<Rightarrow> bytes" where
  "new_chunk prevChunk chunkOffset data trunc =
     (if 0 < chunkOffset
      then take chunkOffset prevChunk @ replicate (chunkOffset - length prevChunk) 0 else [])
     @ data
     @ (if chunkOffset + length data < length prevChunk \<and> \<not> trunc
        then drop (chunkOffset + length data) prevChunk else [])"

definition FileHandler_createUpdateChunk ::
    "('s, 'm) file_env \<Rightarrow> nat \<Rightarrow> nat \<Rightarrow> bytes \<Rightarrow> bool \<Rightarrow> (exn, 's rw_file, UpdateChunkData) op" where
  "FileHandler_createUpdateChunk env index chunkOffset data trunc f =
     (if fh_plainChunkSize (rw_handler f) < u64 (chunkOffset + length data)
      then (Inl (StoreExn FileRandomWriteInternalException), f)
      else
        bindS (on_io (io_getChunk (fe_api env) index (fh_version (rw_handler f)))) (\<lambda>prevEncryptedChunk.
        bindS (if prevEncryptedChunk \<noteq> [] then on_io (io_decrypt (fe_crypto env) index prevEncryptedChunk)
               else ret []) (\<lambda>prevChunk f.
          let h = rw_handler f;
              newChunk = new_chunk prevChunk chunkOffset data trunc;
              (chunk, draws) = ChunkEncryptor_encrypt (fe_crypto env) (io_encryptor (rw_io f)) index newChunk
                                 (io_draws (rw_io f))
          in (Inr \<lparr>uc_chunk = chunk, uc_chunkIndex = index,
                   uc_plainfileSizeChange =
                     (if trunc
                      then s64 (s64 (int (u64 (index * fh_plainChunkSize h + length newChunk)))
                             - max (s64 (int (fh_plainfileSize h))) (s64 (int (u64 (index * fh_plainChunkSize h)))))
                      else s64 (s64 (int (length newChunk)) - s64 (int (length prevChunk)))),
                   uc_encryptedFileSizeChange =
                     (if trunc
                      then s64 (s64 (int (u64 (index * fh_encryptedChunkSize h + length (chunk_data chunk))))
                             - max (s64 (int (fh_encryptedFileSize h)))
                                   (s64 (int (u64 (index * fh_encryptedChunkSize h)))))
                      else s64 (s64 (int (length (chunk_data chunk))) - s64 (int (length prevEncryptedChunk))))\<rparr>,
              f\<lparr>rw_io := (rw_io f)\<lparr>io_draws := draws\<rparr>\<rparr>))) f)"

text \<open>
  The loop of \<open>write\<close> over the chunk indices from \<open>startIndex\<close> to \<open>stopIndex\<close>, with the
  number of bytes already placed in chunks.
\<close>

primrec write_chunks ::
    "('s, 'm) file_env \<Rightarrow> nat \<Rightarrow> nat \<Rightarrow> nat \<Rightarrow> bytes \<Rightarrow> bool \<Rightarrow> nat list \<Rightarrow> nat \<Rightarrow> UpdateChunkData list \<Rightarrow>
     (exn, 's rw_file, UpdateChunkData list) op" where
  "write_chunks env startIndex stopIndex offset toSend trunc [] dataSend chunksToUpdate = ret chunksToUpdate"
| "write_chunks env startIndex stopIndex offset toSend trunc (i # is) dataSend chunksToUpdate =
     (\<lambda>f. let n = fh_plainChunkSize (rw_handler f);
              chunkOffset = (if i = startIndex
                             then offset mod ChunkEncryptor_getPlainChunkSize (io_encryptor (rw_io f)) else 0);
              size = (if i = startIndex then usub64 n (offset mod n) else n)
          in bindS (liftR (substr StdOutOfRange toSend dataSend size)) (\<lambda>chunkData.
             bindS (FileHandler_createUpdateChunk env i chunkOffset chunkData
                      (if i = stopIndex then trunc else False)) (\<lambda>u.
             write_chunks env startIndex stopIndex offset toSend trunc is
               (u64 (dataSend + length chunkData)) (chunksToUpdate @ [u]))) f)"

definition set_digests :: "UpdateChunkData list \<Rightarrow> bool \<Rightarrow> (exn, HmacList, unit) op" where
  "set_digests us trunc =
     for_each (\<lambda>(i, u). HmacList_set (uc_chunkIndex u) (chunk_hmac (uc_chunk u))
                          (if i = length us - 1 then trunc else False))
       (zip [0..<length us] us)"

definition squash_step :: "nat \<Rightarrow> UpdateChanges list \<Rightarrow> UpdateChunkData \<Rightarrow> UpdateChanges list" where
  "squash_step encryptedChunkSize result u =
     (let squashed = last result;
          fresh = \<lparr>us_data = chunk_data (uc_chunk u), us_dataPos = u64 (uc_chunkIndex u * encryptedChunkSize),
                   us_checksum = chunk_hmac (uc_chunk u), us_checksumPos = u64 (uc_chunkIndex u * HMAC_SIZE)\<rparr>
      in if u64 (us_dataPos squashed + length (us_data squashed)) = us_dataPos fresh \<and>
            length (us_data squashed) + length (chunk_data (uc_chunk u)) < SERVER_OPERATION_SIZE_LIMIT
         then butlast result @
           [squashed\<lparr>us_data := us_data squashed @ chunk_data (uc_chunk u),
                     us_checksum := us_checksum squashed @ chunk_hmac (uc_chunk u)\<rparr>]
         else result @ [fresh])"

definition createListOfUpdateChanges :: "nat \<Rightarrow> UpdateChunkData list \<Rightarrow> UpdateChanges list" where
  "createListOfUpdateChanges encryptedChunkSize updatedChunks =
     (case updatedChunks of
        [] \<Rightarrow> []
      | u # us \<Rightarrow>
          foldl (squash_step encryptedChunkSize)
            [\<lparr>us_data = chunk_data (uc_chunk u), us_dataPos = u64 (uc_chunkIndex u * encryptedChunkSize),
              us_checksum = chunk_hmac (uc_chunk u), us_checksumPos = u64 (uc_chunkIndex u * HMAC_SIZE)\<rparr>] us)"

definition write_operations :: "nat \<Rightarrow> bool \<Rightarrow> nat \<times> UpdateChanges \<Rightarrow> StoreFileRandomWriteOperation list" where
  "write_operations count trunc iu =
     (case iu of (i, u) \<Rightarrow>
        [\<lparr>wo_type = ''file'', wo_pos = s64 (int (us_dataPos u)), wo_data = us_data u,
          wo_truncate = (if i = count - 1 then trunc else True)\<rparr>,
         \<lparr>wo_type = ''checksum'', wo_pos = s64 (int (us_checksumPos u)), wo_data = us_checksum u,
          wo_truncate = (if i = count - 1 then trunc else True)\<rparr>])"

text \<open>One request carries at most \<open>SERVER_OPERATIONS_LIMIT >> 1\<close> changes.\<close>

definition FileHandler_updateOnServer ::
    "('s, 'm) file_env \<Rightarrow> UpdateChanges list \<Rightarrow> 'm \<Rightarrow> string \<Rightarrow> bool \<Rightarrow> FileHandler \<Rightarrow> (exn, 's, unit) op" where
  "FileHandler_updateOnServer env updatedChunks updatedMeta encKeyId trunc h =
     for_each (\<lambda>batch. storeFileWrite (fe_api env)
         \<lparr>wm_fileId = fi_fileId (fh_fileInfo h),
          wm_operations = concat (map (write_operations (length updatedChunks) trunc) batch),
          wm_meta = updatedMeta, wm_keyId = encKeyId, wm_version = fh_version h, wm_force = False\<rparr>)
       (chunks (SERVER_OPERATIONS_LIMIT div 2) (zip [0..<length updatedChunks] updatedChunks))"

text \<open>The sizes after a write: unsigned 64-bit additions of signed changes.\<close>

definition add_changes :: "int list \<Rightarrow> nat \<Rightarrow> nat" where
  "add_changes changes start = fold (\<lambda>d n. u64_of_int (int n + d)) changes start"

text \<open>The exceptions the rollback of \<open>write\<close> catches.\<close>

definition caught :: "exn \<Rightarrow> bool" where
  "caught e \<longleftrightarrow> e \<noteq> StdOutOfRange"

definition FileHandler_commit ::
    "('s, 'm) file_env \<Rightarrow> UpdateChunkData list \<Rightarrow> bool \<Rightarrow> (exn, 's rw_file, unit) op" where
  "FileHandler_commit env us trunc f =
     (let h = rw_handler f; io = rw_io f;
          oldHashList = HmacList_getAll (io_hashes io);
          newPlainfileSize = add_changes (map uc_plainfileSizeChange us) (fh_plainfileSize h);
          newEncryptedFileSize = add_changes (map uc_encryptedFileSizeChange us) (fh_encryptedFileSize h)
      in case set_digests us trunc (io_hashes io) of
           (Inl e, hl) \<Rightarrow> (Inl e, f\<lparr>rw_io := io\<lparr>io_hashes := hl\<rparr>\<rparr>)
         | (Inr _, hl) \<Rightarrow>
           (let squashed = createListOfUpdateChanges (fh_encryptedChunkSize h) us;
                (topHash, hl1) = HmacList_getTopHash (fe_crypto env) hl;
                newFileMeta = (fh_fileMeta h)\<lparr>fm_internalFileMeta :=
                  (fm_internalFileMeta (fh_fileMeta h))\<lparr>im_hmac := fe_base64 env topHash,
                                                         im_size := s64 (int newPlainfileSize)\<rparr>\<rparr>;
                (newMeta, draws) = fe_encryptMeta env (fh_fileInfo h) newFileMeta (fh_fileEncKey h)
                  (dk_dataStructureVersion (fh_fileEncKey h)) (io_draws io);
                io1 = io\<lparr>io_hashes := hl1, io_draws := draws\<rparr>
            in case newMeta of
                 Inl e \<Rightarrow> (Inl e, f\<lparr>rw_io := io1\<rparr>)
               | Inr meta \<Rightarrow>
                 (case FileHandler_updateOnServer env squashed meta (dk_id (fh_fileEncKey h)) trunc h (io_server io1) of
                    (Inl e, s) \<Rightarrow>
                      (if caught e
                       then case HmacList_setAll oldHashList hl1 of
                              (Inl e', hl2) \<Rightarrow> (Inl e', f\<lparr>rw_io := io1\<lparr>io_server := s, io_hashes := hl2\<rparr>\<rparr>)
                            | (Inr _, hl2) \<Rightarrow> (Inl e, f\<lparr>rw_io := io1\<lparr>io_server := s, io_hashes := hl2\<rparr>\<rparr>)
                       else (Inl e, f\<lparr>rw_io := io1\<lparr>io_server := s\<rparr>\<rparr>))
                  | (Inr _, s) \<Rightarrow>
                      (let version = s64 (fh_version h + 1);
                           h1 = h\<lparr>fh_version := version, fh_fileMeta := newFileMeta,
                                  fh_plainfileSize := newPlainfileSize,
                                  fh_encryptedFileSize := newEncryptedFileSize\<rparr>;
                           io2 = fold (\<lambda>u io.
                             io\<lparr>io_provider := ChunkDataProvider_update version (uc_chunkIndex u)
                                  (chunk_data (uc_chunk u)) (s64 (int newEncryptedFileSize)) trunc (io_provider io),
                                io_reader := ChunkReader_update version (uc_chunkIndex u) (io_reader io)\<rparr>)
                             us (io1\<lparr>io_server := s\<rparr>)
                       in (Inr (), \<lparr>rw_handler = h1, rw_io = io2\<rparr>)))))"

definition FileHandler_write ::
    "('s, 'm) file_env \<Rightarrow> nat \<Rightarrow> bytes \<Rightarrow> bool \<Rightarrow> (exn, 's rw_file, unit) op" where
  "FileHandler_write env offset data trunc f =
     (let size = fh_plainfileSize (rw_handler f);
          toSend = (if size < offset then replicate (offset - size) 0 @ data else data);
          offset = (if size < offset then size else offset);
          startIndex = filePosToFileChunkIndex (rw_io f) offset;
          stopIndex = filePosToFileChunkIndex (rw_io f)
            (usub64 (u64 (offset + length toSend)) (if data = [] then 0 else 1))
      in bindS (write_chunks env startIndex stopIndex offset toSend trunc [startIndex..<Suc stopIndex] 0 [])
           (\<lambda>us. FileHandler_commit env us trunc) f)"

definition FileHandler_read ::
    "('s, 'm) file_env \<Rightarrow> nat \<Rightarrow> nat \<Rightarrow> (exn, 's rw_file, bytes) op" where
  "FileHandler_read env offset len f =
     (let total = fh_plainfileSize (rw_handler f) in
      if total \<le> offset then (Inr [], f)
      else
        let len = (if total < u64 (offset + len) then usub64 total offset else len)
        in if len = 0 then (Inr [], f)
           else
             let startIndex = filePosToFileChunkIndex (rw_io f) offset;
                 stopIndex = filePosToFileChunkIndex (rw_io f) (usub64 (u64 (offset + len)) 1)
             in on_io (bindS (append_chunks (ChunkReader_getDecryptedChunk (fe_crypto env) (fe_api env))
                                [startIndex..<Suc stopIndex] [])
                  (\<lambda>d io. (substr StdOutOfRange d (filePosToPosInFileChunk io offset) len, io))) f)"

definition FileHandler_getFileSize :: "'s rw_file \<Rightarrow> nat" where
  "FileHandler_getFileSize f = fh_plainfileSize (rw_handler f)"

definition FileHandler_sync ::
    "('s, 'm) file_env \<Rightarrow> FileMeta \<Rightarrow> FileDecryptionParams \<Rightarrow> DecryptedEncKey \<Rightarrow> (exn, 's rw_file, unit) op" where
  "FileHandler_sync env fileMeta newParms fileEncKey f =
     (let h = rw_handler f; io = rw_io f in
      case ChunkDataProvider_getCurrentChecksumsFromBridge (fe_api env) (io_server io) (io_provider io) of
        Inl e \<Rightarrow> (Inl e, f)
      | Inr sums \<Rightarrow>
          (case HmacList_sync (fe_crypto env) (fdp_key newParms) (fdp_hmac newParms) sums (io_hashes io) of
             (Inl e, hl) \<Rightarrow> (Inl e, f\<lparr>rw_io := io\<lparr>io_hashes := hl\<rparr>\<rparr>)
           | (Inr _, hl) \<Rightarrow>
               (Inr (),
                \<lparr>rw_handler = h\<lparr>fh_fileMeta := fileMeta, fh_version := fdp_version newParms,
                                fh_plainfileSize := fdp_originalSize newParms,
                                fh_encryptedFileSize := fdp_sizeOnServer newParms,
                                fh_fileEncKey := fileEncKey\<rparr>,
                 rw_io = io\<lparr>io_hashes := hl,
                           io_provider := ChunkDataProvider_sync (fh_version h)
                             (s64 (int (fh_encryptedFileSize h))) None None (io_provider io),
                           io_reader := ChunkReader_sync newParms (io_reader io)\<rparr>\<rparr>)))"

subsection \<open>\<open>FileHandlerImpl\<close>: positions\<close>

record 's FileHandlerImpl =
  fhi_file :: "'s rw_file"
  fhi_readPos :: nat
  fhi_writePos :: nat

definition FileHandlerImpl_size :: "'s FileHandlerImpl \<Rightarrow> nat" where
  "FileHandlerImpl_size self = FileHandler_getFileSize (fhi_file self)"

definition FileHandlerImpl_seekg :: "nat \<Rightarrow> (exn, 's FileHandlerImpl, unit) op" where
  "FileHandlerImpl_seekg pos self =
     (if FileHandler_getFileSize (fhi_file self) < pos then (Inl (StoreExn PosOutOfBoundsException), self)
      else (Inr (), self\<lparr>fhi_readPos := pos\<rparr>))"

definition FileHandlerImpl_seekp :: "nat \<Rightarrow> (exn, 's FileHandlerImpl, unit) op" where
  "FileHandlerImpl_seekp pos self =
     (if FileHandler_getFileSize (fhi_file self) < pos then (Inl (StoreExn PosOutOfBoundsException), self)
      else (Inr (), self\<lparr>fhi_writePos := pos\<rparr>))"

definition FileHandlerImpl_read :: "('s, 'm) file_env \<Rightarrow> nat \<Rightarrow> (exn, 's FileHandlerImpl, bytes) op" where
  "FileHandlerImpl_read env len self =
     (case FileHandler_read env (fhi_readPos self) len (fhi_file self) of
        (Inl e, f) \<Rightarrow> (Inl e, self\<lparr>fhi_file := f\<rparr>)
      | (Inr buf, f) \<Rightarrow>
          (Inr buf, self\<lparr>fhi_file := f, fhi_readPos := u64 (fhi_readPos self + length buf)\<rparr>))"

definition FileHandlerImpl_write :: "('s, 'm) file_env \<Rightarrow> bytes \<Rightarrow> bool \<Rightarrow> (exn, 's FileHandlerImpl, unit) op" where
  "FileHandlerImpl_write env chunk trunc self =
     (case FileHandler_write env (fhi_writePos self) chunk trunc (fhi_file self) of
        (Inl e, f) \<Rightarrow> (Inl e, self\<lparr>fhi_file := f\<rparr>)
      | (Inr _, f) \<Rightarrow>
          (Inr (), self\<lparr>fhi_file := f, fhi_writePos := u64 (fhi_writePos self + length chunk)\<rparr>))"

definition FileHandlerImpl_sync ::
    "('s, 'm) file_env \<Rightarrow> FileMeta \<Rightarrow> FileDecryptionParams \<Rightarrow> DecryptedEncKey \<Rightarrow> (exn, 's FileHandlerImpl, unit) op" where
  "FileHandlerImpl_sync env fileMeta newParms fileEncKey self =
     (case FileHandler_sync env fileMeta newParms fileEncKey (fhi_file self) of
        (r, f) \<Rightarrow> (r, self\<lparr>fhi_file := f\<rparr>))"

subsection \<open>The file behind a handler\<close>

definition rw_view :: "('s, 'm) file_env \<Rightarrow> Chunk list \<Rightarrow> 's rw_file \<Rightarrow> bytes \<Rightarrow> bool" where
  "rw_view env chs f plain \<longleftrightarrow>
     (let h = rw_handler f; io = rw_io f; n = ce_chunkSize (io_encryptor io) in
      file_view (fe_crypto env) (fe_api env) (fh_version h) chs io plain \<and>
      fh_plainfileSize h = length plain \<and> fh_encryptedFileSize h = length (file_data chs) \<and>
      fh_plainChunkSize h = n \<and> fh_encryptedChunkSize h = encrypted_len n \<and>
      fi_fileId (fh_fileInfo h) = cdp_fileId (io_provider io) \<and>
      HmacList_inv (fe_crypto env) (io_hashes io))"

lemma rw_viewD:
  assumes "rw_view env chs f plain"
  shows "file_view (fe_crypto env) (fe_api env) (fh_version (rw_handler f)) chs (rw_io f) plain"
    and "fh_plainfileSize (rw_handler f) = length plain"
    and "fh_encryptedFileSize (rw_handler f) = length (file_data chs)"
    and "fh_plainChunkSize (rw_handler f) = ce_chunkSize (io_encryptor (rw_io f))"
    and "fh_encryptedChunkSize (rw_handler f) = encrypted_len (ce_chunkSize (io_encryptor (rw_io f)))"
    and "fi_fileId (fh_fileInfo (rw_handler f)) = cdp_fileId (io_provider (rw_io f))"
    and "HmacList_inv (fe_crypto env) (io_hashes (rw_io f))"
  using assms by (simp_all add: rw_view_def Let_def)

lemma plain_block:
  assumes "0 < n"
  shows "nth_block n i plain = (if i < length (chunks n plain) then chunks n plain ! i else [])"
proof (cases "i < length (chunks n plain)")
  case True
  then show ?thesis using assms by (simp add: nth_chunks nth_block_def)
next
  case False
  then have "\<not> i * n < length plain" using chunks_index_less [OF assms] by blast
  with False show ?thesis by (simp add: nth_block_def)
qed

lemma length_nth_block: "length (nth_block n i xs) = old_len n (length xs) i"
  by (simp add: nth_block_def old_len_def min.commute)

subsection \<open>Rewriting one chunk\<close>

lemma new_chunk_overwrite: "off \<le> length old \<Longrightarrow> new_chunk old off d t = overwrite off d t old"
  by (auto simp: new_chunk_def overwrite_def)

lemma overwrite_from_start: "off \<le> length old \<Longrightarrow> overwrite off d t old = overwrite 0 (take off old @ d) t old"
  by (simp add: overwrite_def)

definition size_change :: "nat \<Rightarrow> nat \<Rightarrow> nat \<Rightarrow> nat \<Rightarrow> bool \<Rightarrow> int" where
  "size_change n l j m t =
     (if t then int (j * n + m) - max (int l) (int (j * n)) else int m - int (old_len n l j))"

text \<open>
  The result of rewriting chunk \<open>j\<close> with \<open>d\<close> from its start: the new chunk decrypts to \<open>d\<close>
  followed by what is kept of the old chunk.
\<close>

definition rewritten ::
    "crypto_api \<Rightarrow> ChunkEncryptor \<Rightarrow> bytes \<Rightarrow> nat \<Rightarrow> bool \<Rightarrow> nat \<Rightarrow> bytes \<Rightarrow> UpdateChunkData \<Rightarrow> bool" where
  "rewritten c e plain encLen t j d u \<longleftrightarrow>
     (let n = ce_chunkSize e; new = overwrite 0 d t (nth_block n j plain) in
      uc_chunkIndex u = j \<and>
      ChunkEncryptor_decrypt c e j (uc_chunk u) = Inr new \<and>
      length (chunk_data (uc_chunk u)) = encrypted_len (length new) \<and>
      length (chunk_hmac (uc_chunk u)) = 32 \<and>
      uc_plainfileSizeChange u = size_change n (length plain) j (length new) t \<and>
      uc_encryptedFileSizeChange u = size_change (encrypted_len n) encLen j (encrypted_len (length new)) t)"

text \<open>What the loop of \<open>write\<close> leaves alone, and the cache after fetching chunk \<open>j\<close>.\<close>

definition loop_frame :: "'s rw_file \<Rightarrow> 's rw_file \<Rightarrow> bool" where
  "loop_frame f f' \<longleftrightarrow> rw_handler f' = rw_handler f \<and> io_server (rw_io f') = io_server (rw_io f) \<and>
     io_encryptor (rw_io f') = io_encryptor (rw_io f) \<and> io_hashes (rw_io f') = io_hashes (rw_io f) \<and>
     io_reader (rw_io f') = io_reader (rw_io f) \<and>
     cdp_fileId (io_provider (rw_io f')) = cdp_fileId (io_provider (rw_io f)) \<and>
     cdp_encryptedChunkSize (io_provider (rw_io f')) = cdp_encryptedChunkSize (io_provider (rw_io f)) \<and>
     cdp_serverChunkSize (io_provider (rw_io f')) = cdp_serverChunkSize (io_provider (rw_io f))"

definition fetched :: "'s rw_file \<Rightarrow> bytes \<Rightarrow> nat \<Rightarrow> bool" where
  "fetched f enc j \<longleftrightarrow> (let p = io_provider (rw_io f) in
     cache_of p enc \<and>
     cdp_lastServerChunkNumber p = Some (j * cdp_encryptedChunkSize p div cdp_serverChunkSize p))"

lemma loop_frame_trans: "loop_frame f g \<Longrightarrow> loop_frame g h \<Longrightarrow> loop_frame f h"
  by (simp add: loop_frame_def)

lemma loop_frame_bounds:
  "loop_frame f g \<Longrightarrow> provider_bounds (io_provider (rw_io g)) = provider_bounds (io_provider (rw_io f))"
  by (simp add: loop_frame_def provider_bounds_def fun_eq_iff)

lemma size_change_s64:
  assumes "j * n + m < 2 ^ 63" and "l < 2 ^ 63"
  shows "(if t then s64 (s64 (int (u64 (j * n + m))) - max (s64 (int l)) (s64 (int (u64 (j * n)))))
          else s64 (s64 (int m) - s64 (int (old_len n l j)))) = size_change n l j m t"
proof -
  define a where "a = j * n"
  have ol: "old_len n l j \<le> l" by (simp add: old_len_def)
  have b: "a + m < 2 ^ 63" using assms(1) by (simp add: a_def)
  have 1: "s64 (int (u64 (a + m))) = int (a + m)" "s64 (int (u64 a)) = int a"
    "s64 (int l) = int l" "s64 (int m) = int m" "s64 (int (old_len n l j)) = int (old_len n l j)"
    using b assms(2) s64_of_nat [of "a + m"] s64_of_nat [of a] s64_of_nat [of l] s64_of_nat [of m]
      s64_of_nat [of "old_len n l j", OF le_less_trans [OF ol assms(2)]]
    by (simp_all add: u64_id)
  have 2: "s64 (int x - int y) = int x - int y" if "x < 2 ^ 63" "y < 2 ^ 63" for x y
    using that by (intro s64_id) simp_all
  have "max (int l) (int a) = int (max l a)" by simp
  then have 3: "s64 (int (a + m) - max (int l) (int a)) = int (a + m) - max (int l) (int a)"
    using 2 [of "a + m" "max l a"] b assms(2) by simp
  have "old_len n l j < 2 ^ 63" using ol assms(2) by linarith
  then show ?thesis
    unfolding a_def [symmetric] 1 size_change_def 3 using 2 [of m "old_len n l j"] b by simp
qed

lemma rewrite_bounds:
  assumes v: "rw_view env chs f plain" and bounds: "provider_bounds (io_provider (rw_io f)) l"
    and j: "j * encrypted_len n \<le> l" and m: "m \<le> n" and n: "n = ce_chunkSize (io_encryptor (rw_io f))"
  shows "j * n + m < 2 ^ 63" and "length plain < 2 ^ 63"
    and "j * encrypted_len n + encrypted_len m < 2 ^ 63" and "length (file_data chs) < 2 ^ 63"
    and "j * cdp_encryptedChunkSize (io_provider (rw_io f)) \<le> l + cdp_encryptedChunkSize (io_provider (rw_io f))"
    and "n < 2 ^ 63"
proof -
  note d = file_viewD [OF rw_viewD(1) [OF v]]
  have ecs: "cdp_encryptedChunkSize (io_provider (rw_io f)) = encrypted_len n" using d(8) n by simp
  have b: "l + encrypted_len n < 2 ^ 63" and fd: "length (file_data chs) < 2 ^ 63"
    using bounds d(7) by (simp_all add: provider_bounds_def ecs)
  have "length plain \<le> length (file_data chs)" by (rule sealed_plain_length [OF d(2,12)])
  with fd show "length plain < 2 ^ 63" and "length (file_data chs) < 2 ^ 63" by simp_all
  have em: "encrypted_len m \<le> encrypted_len n" by (rule encrypted_len_mono [OF m])
  then show "j * encrypted_len n + encrypted_len m < 2 ^ 63" using b j by linarith
  have "j * n \<le> j * encrypted_len n" by (intro mult_le_mono2) (simp add: encrypted_len_def)
  moreover have "m \<le> encrypted_len m" and "n \<le> encrypted_len n" by (simp_all add: encrypted_len_def)
  ultimately show "j * n + m < 2 ^ 63" and "n < 2 ^ 63" using b j em by linarith+
  show "j * cdp_encryptedChunkSize (io_provider (rw_io f)) \<le> l + cdp_encryptedChunkSize (io_provider (rw_io f))"
    using j by (simp add: ecs)
qed

lemma rw_view_loop:
  assumes "rw_view env chs f plain"
    and "file_view (fe_crypto env) (fe_api env) (fh_version (rw_handler f)) chs ((rw_io f)\<lparr>io_provider := p\<rparr>) plain"
    and "cdp_fileId p = cdp_fileId (io_provider (rw_io f))"
  shows "rw_view env chs (f\<lparr>rw_io := (rw_io f)\<lparr>io_provider := p, io_draws := r\<rparr>\<rparr>) plain"
  using assms by (simp add: rw_view_def Let_def file_view_def)

lemma createUpdateChunk_ok:
  fixes f :: "'s rw_file" and j off :: nat and plain :: bytes
  defines "n \<equiv> ce_chunkSize (io_encryptor (rw_io f))"
  defines "old \<equiv> nth_block n j plain"
  assumes v: "rw_view env chs f plain" and bounds: "provider_bounds (io_provider (rw_io f)) l"
    and j: "j * encrypted_len n \<le> l" and off: "off \<le> length old" "off + length d \<le> n"
  shows "\<exists>u f'. FileHandler_createUpdateChunk env j off d t f = (Inr u, f') \<and>
    rewritten (fe_crypto env) (io_encryptor (rw_io f)) plain (length (file_data chs)) t j (take off old @ d) u \<and>
    rw_view env chs f' plain \<and> loop_frame f f' \<and> fetched f' (file_data chs) j"
proof -
  let ?c = "fe_crypto env" and ?io = "rw_io f" and ?h = "rw_handler f"
  let ?e = "io_encryptor ?io" and ?fd = "file_data chs"
  note r = rw_viewD [OF v]
  note d = file_viewD [OF r(1)]
  have n: "0 < n" "fh_plainChunkSize ?h = n" "fh_encryptedChunkSize ?h = encrypted_len n"
    using d(12) r by (simp_all add: n_def)
  have len: "length chs = length (chunks n plain)" using d(13) by (simp add: n_def)
  define new where "new = overwrite off d t old"
  have new: "new = overwrite 0 (take off old @ d) t old" unfolding new_def by (rule overwrite_from_start [OF off(1)])
  have newc: "new_chunk old off d t = new" unfolding new_def by (rule new_chunk_overwrite [OF off(1)])
  have "length old \<le> n" by (simp add: old_def nth_block_def)
  then have m: "length new \<le> n" using off by (auto simp: new_def length_overwrite)
  note B = rewrite_bounds [OF v bounds j [unfolded n_def] m [unfolded n_def] refl, folded n_def]
  obtain p where p: "io_getChunk (fe_api env) j (fh_version ?h) ?io
      = (Inr (if j < length chs then chunk_data (chs ! j) else []), ?io\<lparr>io_provider := p\<rparr>)"
    "file_view ?c (fe_api env) (fh_version ?h) chs (?io\<lparr>io_provider := p\<rparr>) plain"
    "cache_of p ?fd" "cdp_lastServerChunkNumber p = Some (j * cdp_encryptedChunkSize p div cdp_serverChunkSize p)"
    "cdp_fileId p = cdp_fileId (io_provider ?io)" "cdp_serverChunkSize p = cdp_serverChunkSize (io_provider ?io)"
    "cdp_encryptedChunkSize p = cdp_encryptedChunkSize (io_provider ?io)"
    using io_getChunk_view [OF r(1) bounds B(5)] by blast
  let ?g = "f\<lparr>rw_io := ?io\<lparr>io_provider := p\<rparr>\<rparr>"
  define pe where "pe = (if j < length chs then chunk_data (chs ! j) else [])"
  have pe: "length pe = old_len (encrypted_len n) (length ?fd) j"
    using sealed_block [OF d(2,12), of j] unfolding n_def [symmetric] pe_def
    by (simp only: length_nth_block [symmetric])
  have "chunk_data (chs ! j) \<noteq> []" if "j < length chs"
    using d(2) that unfolding sealed_file_def by (metis encrypted_len_pos length_greater_0_conv)
  then have prev: "(if pe \<noteq> [] then on_io (io_decrypt ?c j pe) else ret []) ?g = (Inr old, ?g)"
    using io_decrypt_view [OF p(2), of j] len
    by (simp add: pe_def old_def plain_block [OF n(1)] on_io_def n_def [symmetric])
  have get: "on_io (io_getChunk (fe_api env) j (fh_version ?h)) f = (Inr pe, ?g)"
    using p(1) by (simp add: on_io_def pe_def)
  obtain ch draws where ch: "ChunkEncryptor_encrypt ?c ?e j new (io_draws ?io) = (ch, draws)" by fastforce
  let ?f' = "f\<lparr>rw_io := ?io\<lparr>io_provider := p, io_draws := draws\<rparr>\<rparr>"
  have ready: "crypto_ok ?c" using d(1) by (simp add: ChunkEncryptor_ready_def)
  have chl: "length (chunk_data ch) = encrypted_len (length new)" "length (chunk_hmac ch) = 32"
    "ChunkEncryptor_decrypt ?c ?e j ch = Inr new"
    using encrypt_data_length [OF ready, of ?e j new "io_draws ?io"]
      decrypt_encrypt [OF ready, of ?e j new "io_draws ?io"] by (simp_all add: ch)
  have fit: "\<not> fh_plainChunkSize ?h < u64 (off + length d)"
    using off(2) u64_le [of "off + length d"] by (simp add: n(2))
  let ?u = "\<lparr>uc_chunk = ch, uc_chunkIndex = j,
    uc_plainfileSizeChange = size_change n (length plain) j (length new) t,
    uc_encryptedFileSizeChange = size_change (encrypted_len n) (length ?fd) j (encrypted_len (length new)) t\<rparr>"
  have "FileHandler_createUpdateChunk env j off d t f = (Inr ?u, ?f')"
    unfolding FileHandler_createUpdateChunk_def if_not_P [OF fit] bindS_def get prev prod.case sum.case newc
    using size_change_s64 [OF B(1,2), of t] size_change_s64 [OF B(3,4), of t, folded pe]
    by (cases t) (simp_all add: n r(2,3) ch chl(1) Let_def
        length_nth_block [of n j plain, folded old_def])
  moreover have "rewritten ?c ?e plain (length ?fd) t j (take off old @ d) ?u"
    using chl by (simp add: rewritten_def Let_def n_def [symmetric] old_def [symmetric] new [symmetric])
  moreover have "rw_view env chs ?f' plain" by (rule rw_view_loop [OF v p(2,5)])
  moreover have "loop_frame f ?f'" and "fetched ?f' ?fd j"
    using p(3-7) by (simp_all add: loop_frame_def fetched_def Let_def)
  ultimately show ?thesis by blast
qed

subsection \<open>Rewriting the chunks of a write\<close>

definition updates_for ::
    "crypto_api \<Rightarrow> ChunkEncryptor \<Rightarrow> bytes \<Rightarrow> nat \<Rightarrow> bool \<Rightarrow> nat \<Rightarrow> nat \<Rightarrow> bytes list \<Rightarrow> UpdateChunkData list \<Rightarrow> bool" where
  "updates_for c e plain encLen t stop i ds us \<longleftrightarrow> length us = length ds \<and>
     (\<forall>k < length ds. rewritten c e plain encLen (t \<and> i + k = stop) (i + k) (ds ! k) (us ! k))"

lemma updates_for_Cons:
  "updates_for c e plain encLen t stop i (d # ds) (u # us) \<longleftrightarrow>
     rewritten c e plain encLen (t \<and> i = stop) i d u \<and> updates_for c e plain encLen t stop (Suc i) ds us"
  by (auto simp: updates_for_def less_Suc_eq_0_disj)

lemma upt_Suc_conv: "i \<le> j \<Longrightarrow> [i..<Suc j] = i # [Suc i..<Suc j]"
  by (simp add: upt_conv_Cons)

lemma write_chunks_step:
  fixes f :: "'s rw_file" and i :: nat and plain :: bytes
  defines "n \<equiv> ce_chunkSize (io_encryptor (rw_io f))"
  assumes v: "rw_view env chs f plain" and bounds: "provider_bounds (io_provider (rw_io f)) l"
    and i: "i * encrypted_len n \<le> l"
    and off: "off = (if i = start then offset mod n else 0)" "off \<le> length (nth_block n i plain)"
    and ds: "dataSend \<le> length toSend" "length toSend < 2 ^ 63"
  defines "piece \<equiv> take (n - off) (drop dataSend toSend)"
  shows "\<exists>u f'. write_chunks env start stop offset toSend t (i # is) dataSend acc f
      = write_chunks env start stop offset toSend t is (dataSend + length piece) (acc @ [u]) f' \<and>
    rewritten (fe_crypto env) (io_encryptor (rw_io f)) plain (length (file_data chs)) (t \<and> i = stop) i
      (take off (nth_block n i plain) @ piece) u \<and>
    rw_view env chs f' plain \<and> loop_frame f f' \<and> fetched f' (file_data chs) i"
proof -
  note r = rw_viewD [OF v]
  have n: "0 < n" "fh_plainChunkSize (rw_handler f) = n" "n < 2 ^ 63"
    using file_viewD(12) [OF r(1)] r(4) rewrite_bounds(6) [OF v bounds, of i _ 0] i by (simp_all add: n_def)
  have "off < n" using off(1) n(1) by simp
  then have fit: "off + length piece \<le> n" by (simp add: piece_def)
  have "offset mod n \<le> n" using n(1) by simp
  then have "usub64 n (offset mod n) = n - offset mod n" using n(3) by (simp add: usub64_id)
  then have piece: "substr StdOutOfRange toSend dataSend
      (if i = start then usub64 n (offset mod n) else n) = Inr piece"
    using ds(1) off(1) by (simp add: piece_def)
  obtain u f' where u: "FileHandler_createUpdateChunk env i off piece (t \<and> i = stop) f = (Inr u, f')"
    "rewritten (fe_crypto env) (io_encryptor (rw_io f)) plain (length (file_data chs)) (t \<and> i = stop) i
      (take off (nth_block n i plain) @ piece) u"
    "rw_view env chs f' plain" "loop_frame f f'" "fetched f' (file_data chs) i"
    using createUpdateChunk_ok [OF v bounds i [unfolded n_def] off(2) [unfolded n_def] fit [unfolded n_def]]
    unfolding n_def by blast
  have "dataSend + length piece \<le> length toSend" using ds(1) by (simp add: piece_def)
  then have "u64 (dataSend + length piece) = dataSend + length piece" using ds(2) by (intro u64_id) simp
  moreover have "(if i = stop then t else False) = (t \<and> i = stop)" by simp
  ultimately have "write_chunks env start stop offset toSend t (i # is) dataSend acc f
      = write_chunks env start stop offset toSend t is (dataSend + length piece) (acc @ [u]) f'"
    using piece u(1) off(1)
    by (cases "i = start") (simp_all add: bindS_def n(2) n_def [symmetric] ChunkEncryptor_getPlainChunkSize_def)
  with u(2-) show ?thesis by blast
qed

text \<open>The chunks after the first one.\<close>

lemma write_chunks_tail:
  fixes f :: "'s rw_file" and plain :: bytes
  assumes "rw_view env chs f plain" and "provider_bounds (io_provider (rw_io f)) l"
    and "n = ce_chunkSize (io_encryptor (rw_io f))" and "stop * encrypted_len n \<le> l"
    and "start < i" and "dataSend < length toSend" and "length toSend < 2 ^ 63"
    and "i + length (chunks n (drop dataSend toSend)) = Suc stop"
  shows "\<exists>us f'. write_chunks env start stop offset toSend t [i..<Suc stop] dataSend acc f = (Inr (acc @ us), f') \<and>
    updates_for (fe_crypto env) (io_encryptor (rw_io f)) plain (length (file_data chs)) t stop i
      (chunks n (drop dataSend toSend)) us \<and>
    rw_view env chs f' plain \<and> loop_frame f f' \<and> fetched f' (file_data chs) stop"
  using assms
proof (induction "Suc stop - i" arbitrary: i dataSend acc f)
  case 0
  have "0 < n" using file_viewD(12) [OF rw_viewD(1) [OF "0.prems"(1)]] "0.prems"(3) by simp
  then have "chunks n (drop dataSend toSend) \<noteq> []" using "0.prems"(6) by (simp add: chunks_rec)
  then show ?case using 0 by (cases "chunks n (drop dataSend toSend)") auto
next
  case (Suc k)
  let ?R = "drop dataSend toSend" and ?e = "io_encryptor (rw_io f)"
  have n: "0 < n" using file_viewD(12) [OF rw_viewD(1) [OF Suc.prems(1)]] Suc.prems(3) by simp
  have cs: "chunks n ?R = take n ?R # chunks n (drop n ?R)" using Suc.prems(6) n by (simp add: chunks_rec)
  then have "i \<le> stop" using Suc.prems(8) by simp
  then have "i * encrypted_len n \<le> stop * encrypted_len n" by (rule mult_le_mono1)
  then have i: "i * encrypted_len n \<le> l" using Suc.prems(4) by linarith
  obtain u f1 where u: "write_chunks env start stop offset toSend t (i # [Suc i..<Suc stop]) dataSend acc f
      = write_chunks env start stop offset toSend t [Suc i..<Suc stop] (dataSend + length (take n ?R)) (acc @ [u]) f1"
    "rewritten (fe_crypto env) ?e plain (length (file_data chs)) (t \<and> i = stop) i (take n ?R) u"
    "rw_view env chs f1 plain" "loop_frame f f1" "fetched f1 (file_data chs) i"
    using write_chunks_step [OF Suc.prems(1,2), of i 0 start offset dataSend toSend stop t "[Suc i..<Suc stop]" acc]
      Suc.prems(3-7) i by auto
  have upt: "[i..<Suc stop] = i # [Suc i..<Suc stop]" by (rule upt_Suc_conv [OF \<open>i \<le> stop\<close>])
  show ?case
  proof (cases "i = stop")
    case True
    then have "chunks n (drop n ?R) = []" using Suc.prems(8) cs by simp
    then have "updates_for (fe_crypto env) ?e plain (length (file_data chs)) t stop i (chunks n ?R) [u]"
      using u(2) True cs by (simp add: updates_for_def)
    then show ?thesis using u True unfolding upt by (intro exI [of _ "[u]"] exI [of _ f1]) simp
  next
    case False
    then have ne: "chunks n (drop n ?R) \<noteq> []" using Suc.prems(8) cs by auto
    then have long: "n < length ?R" by (cases "n < length ?R") auto
    then have ds: "dataSend + length (take n ?R) = dataSend + n" "dataSend + n < length toSend" by simp_all
    have R: "drop (dataSend + n) toSend = drop n ?R" by (simp add: add.commute)
    have "\<exists>us f'. write_chunks env start stop offset toSend t [Suc i..<Suc stop] (dataSend + n) (acc @ [u]) f1
        = (Inr ((acc @ [u]) @ us), f') \<and>
      updates_for (fe_crypto env) (io_encryptor (rw_io f1)) plain (length (file_data chs)) t stop (Suc i)
        (chunks n (drop (dataSend + n) toSend)) us \<and>
      rw_view env chs f' plain \<and> loop_frame f1 f' \<and> fetched f' (file_data chs) stop"
    proof (rule Suc.hyps(1))
      show "provider_bounds (io_provider (rw_io f1)) l"
        using Suc.prems(2) loop_frame_bounds [OF u(4)] by simp
      show "n = ce_chunkSize (io_encryptor (rw_io f1))" using Suc.prems(3) u(4) by (simp add: loop_frame_def)
      show "Suc i + length (chunks n (drop (dataSend + n) toSend)) = Suc stop"
        using Suc.prems(8) cs unfolding R by simp
    qed (use Suc.hyps(2) Suc.prems u ds in auto)
    then obtain us f' where us: "write_chunks env start stop offset toSend t [Suc i..<Suc stop] (dataSend + n) (acc @ [u]) f1
        = (Inr ((acc @ [u]) @ us), f')"
      "updates_for (fe_crypto env) (io_encryptor (rw_io f1)) plain (length (file_data chs)) t stop (Suc i)
        (chunks n (drop n ?R)) us"
      "rw_view env chs f' plain" "loop_frame f1 f'" "fetched f' (file_data chs) stop"
      unfolding R by blast
    have "io_encryptor (rw_io f1) = ?e" using u(4) by (simp add: loop_frame_def)
    then have "updates_for (fe_crypto env) ?e plain (length (file_data chs)) t stop i (chunks n ?R) (u # us)"
      using us(2) u(2) unfolding cs updates_for_Cons by simp
    then show ?thesis
      using us u(1) ds(1) loop_frame_trans [OF u(4) us(4)] unfolding upt
      by (intro exI [of _ "u # us"] exI [of _ f']) simp
  qed
qed

text \<open>
  All chunks: the data from the beginning of the first touched chunk, which starts with the
  kept prefix of that chunk, is cut into chunks.
\<close>

lemma write_chunks_ok:
  fixes f :: "'s rw_file" and plain toSend :: bytes and offset :: nat
  defines "n \<equiv> ce_chunkSize (io_encryptor (rw_io f))"
  defines "start \<equiv> offset div n" and "stop \<equiv> (offset + length toSend - 1) div n"
  defines "d \<equiv> take (offset mod n) (drop (start * n) plain) @ toSend"
  assumes v: "rw_view env chs f plain" and bounds: "provider_bounds (io_provider (rw_io f)) l"
    and stop: "stop * encrypted_len n \<le> l" and offset: "offset \<le> length plain"
    and data: "toSend \<noteq> []" "length toSend < 2 ^ 63"
  shows "\<exists>us f'. write_chunks env start stop offset toSend t [start..<Suc stop] 0 [] f = (Inr us, f') \<and>
    updates_for (fe_crypto env) (io_encryptor (rw_io f)) plain (length (file_data chs)) t stop start (chunks n d) us \<and>
    rw_view env chs f' plain \<and> loop_frame f f' \<and> fetched f' (file_data chs) stop"
    and "start + length (chunks n d) = Suc stop"
proof -
  let ?off = "offset mod n" and ?e = "io_encryptor (rw_io f)"
  have n: "0 < n" using file_viewD(12) [OF rw_viewD(1) [OF v]] by (simp add: n_def)
  have so: "start * n + ?off = offset" by (simp add: start_def)
  then have pre: "length (take ?off (drop (start * n) plain)) = ?off" using offset by simp
  have old: "take ?off (drop (start * n) plain) = take ?off (nth_block n start plain)"
    using n by (simp add: nth_block_def min_absorb1 less_imp_le)
  have offo: "?off \<le> length (nth_block n start plain)"
    using so offset n by (simp add: nth_block_def less_imp_le)
  have ld: "length d = ?off + length toSend" using pre by (simp add: d_def)
  have dne: "d \<noteq> []" using data by (simp add: d_def)
  have se: "start * n + length d = offset + length toSend" using so ld by simp
  have "0 < length toSend" using data by simp
  then have le: "start \<le> stop" unfolding start_def stop_def by (intro div_le_mono) linarith
  show cnt: "start + length (chunks n d) = Suc stop"
  proof -
    have "length (chunks n d) = last_chunk_end n (start * n + length d) - start"
      using chunks_overwrite(2) [OF n, of start plain d True] dne so offset by simp
    then show ?thesis using le by (simp add: se last_chunk_end_def stop_def)
  qed
  have "start * encrypted_len n \<le> stop * encrypted_len n" by (rule mult_le_mono1 [OF le])
  then have start: "start * encrypted_len n \<le> l" using stop by linarith
  have piece: "take ?off (nth_block n start plain) @ take (n - ?off) (drop 0 toSend) = take n d"
    using pre n unfolding d_def old [symmetric] by (simp add: less_imp_le)
  obtain u f1 where u: "write_chunks env start stop offset toSend t (start # [Suc start..<Suc stop]) 0 [] f
      = write_chunks env start stop offset toSend t [Suc start..<Suc stop] (length (take (n - ?off) toSend)) [u] f1"
    "rewritten (fe_crypto env) ?e plain (length (file_data chs)) (t \<and> start = stop) start (take n d) u"
    "rw_view env chs f1 plain" "loop_frame f f1" "fetched f1 (file_data chs) start"
    using write_chunks_step [OF v bounds start [unfolded n_def], of ?off start offset 0 toSend stop t
        "[Suc start..<Suc stop]" "[]"] offo data piece
    unfolding n_def by auto
  have upt: "[start..<Suc stop] = start # [Suc start..<Suc stop]" by (rule upt_Suc_conv [OF le])
  have cs: "chunks n d = take n d # chunks n (drop n d)" by (rule chunks_rec [OF n dne])
  show "\<exists>us f'. write_chunks env start stop offset toSend t [start..<Suc stop] 0 [] f = (Inr us, f') \<and>
    updates_for (fe_crypto env) ?e plain (length (file_data chs)) t stop start (chunks n d) us \<and>
    rw_view env chs f' plain \<and> loop_frame f f' \<and> fetched f' (file_data chs) stop"
  proof (cases "start = stop")
    case True
    then have "chunks n (drop n d) = []" using cnt cs by simp
    then have "updates_for (fe_crypto env) ?e plain (length (file_data chs)) t stop start (chunks n d) [u]"
      using u(2) True cs by (simp add: updates_for_def)
    then show ?thesis using u True unfolding upt by (intro exI [of _ "[u]"] exI [of _ f1]) simp
  next
    case False
    then have "chunks n (drop n d) \<noteq> []" using cnt cs le by auto
    then have long: "n < length d" by (cases "n < length d") auto
    then have more: "n - ?off < length toSend" using ld mod_less_divisor [OF n, of offset] by linarith
    then have sent: "length (take (n - ?off) toSend) = n - ?off" by simp
    have R: "drop (n - ?off) toSend = drop n d" using pre n by (simp add: d_def less_imp_le)
    have e1: "io_encryptor (rw_io f1) = ?e" using u(4) by (simp add: loop_frame_def)
    have "\<exists>us f'. write_chunks env start stop offset toSend t [Suc start..<Suc stop] (n - ?off) [u] f1
        = (Inr ([u] @ us), f') \<and>
      updates_for (fe_crypto env) (io_encryptor (rw_io f1)) plain (length (file_data chs)) t stop (Suc start)
        (chunks n (drop (n - ?off) toSend)) us \<and>
      rw_view env chs f' plain \<and> loop_frame f1 f' \<and> fetched f' (file_data chs) stop"
      by (rule write_chunks_tail [OF u(3) _ _ stop])
        (use bounds loop_frame_bounds [OF u(4)] e1 n_def more data cnt cs R in simp_all)
    then obtain us f' where us: "write_chunks env start stop offset toSend t [Suc start..<Suc stop] (n - ?off) [u] f1
        = (Inr (u # us), f')"
      "updates_for (fe_crypto env) ?e plain (length (file_data chs)) t stop (Suc start) (chunks n (drop n d)) us"
      "rw_view env chs f' plain" "loop_frame f1 f'" "fetched f' (file_data chs) stop"
      unfolding R e1 by auto
    then have "updates_for (fe_crypto env) ?e plain (length (file_data chs)) t stop start (chunks n d) (u # us)"
      using u(2) unfolding cs updates_for_Cons by simp
    then show ?thesis
      using us u(1) sent loop_frame_trans [OF u(4) us(4)] unfolding upt
      by (intro exI [of _ "u # us"] exI [of _ f']) simp
  qed
qed

subsection \<open>The file after a write\<close>

lemma add_changes_eq: "s < 2 ^ 64 \<Longrightarrow> add_changes cs s = u64_of_int (int s + sum_list cs)"
proof (induction cs arbitrary: s)
  case Nil
  then show ?case by (simp add: add_changes_def u64_of_int_of_nat)
next
  case (Cons d cs)
  have "u64_of_int (int s + d) < 2 ^ 64" by (simp add: u64_of_int_def nat_less_iff)
  from Cons.IH [OF this] have "add_changes (d # cs) s = u64_of_int (int (u64_of_int (int s + d)) + sum_list cs)"
    by (simp add: add_changes_def)
  also have "int (u64_of_int (int s + d)) = (int s + d) mod 2 ^ 64" by (simp add: u64_of_int_def)
  also have "u64_of_int ((int s + d) mod 2 ^ 64 + sum_list cs) = u64_of_int (int s + sum_list (d # cs))"
    unfolding u64_of_int_def by (simp add: mod_add_left_eq add.assoc)
  finally show ?case .
qed

lemma sum_changes:
  assumes len: "length us = length ms" and ne: "us \<noteq> []" and idx: "a + length us = Suc b"
    and full: "\<And>k. k < length us \<Longrightarrow> a + k \<noteq> b \<Longrightarrow> ms ! k = n"
    and ch: "\<And>k. k < length us \<Longrightarrow> us ! k = size_change n l (a + k) (ms ! k) (t \<and> a + k = b)"
  shows "sum_list us = sum_list (map (\<lambda>j. int n - int (old_len n l j)) [a..<b]) + size_change n l b (last ms) t"
proof -
  have "0 < length us" using ne by simp
  then have len_us: "length us - 1 = b - a" "a \<le> b" using idx by linarith+
  have "us = butlast us @ [last us]" using ne by simp
  moreover have "butlast us = map (\<lambda>j. int n - int (old_len n l j)) [a..<b]"
  proof (rule nth_equalityI)
    fix k assume k: "k < length (butlast us)"
    then have "butlast us ! k = us ! k" and "k < length us" and "a + k \<noteq> b" and "k < b - a"
      using len_us idx by (auto simp: nth_butlast)
    then show "butlast us ! k = map (\<lambda>j. int n - int (old_len n l j)) [a..<b] ! k"
      using ch [of k] full [of k] by (simp add: size_change_def)
  qed (use len_us(1) in simp)
  moreover have "last us = size_change n l b (last ms) t"
  proof -
    have "ms \<noteq> []" using ne len by auto
    then have "last us = us ! (b - a)" and "last ms = ms ! (b - a)"
      using ne len len_us(1) by (auto simp: last_conv_nth)
    then show ?thesis using ch [of "b - a"] idx len_us by simp
  qed
  ultimately show ?thesis by (metis sum_list_append sum_list.Cons sum_list.Nil add.right_neutral)
qed

lemma written_size:
  assumes len: "length us = length ms" and ne: "us \<noteq> []" and idx: "a + length us = Suc b"
    and full: "\<And>k. k < length us \<Longrightarrow> a + k \<noteq> b \<Longrightarrow> ms ! k = n"
    and ch: "\<And>k. k < length us \<Longrightarrow> us ! k = size_change n l (a + k) (ms ! k) (t \<and> a + k = b)"
    and a: "a * n \<le> l" and m: "last ms \<le> n" and old: "\<not> t \<Longrightarrow> old_len n l b \<le> last ms"
    and l: "l < 2 ^ 63" "b * n + last ms < 2 ^ 63"
  shows "add_changes us l = (if t then b * n + last ms else max l (b * n + last ms))"
proof -
  have "a \<le> b" using idx ne by (cases us) simp_all
  have sum: "sum_list us = sum_list (map (\<lambda>j. int n - int (old_len n l j)) [a..<b]) + size_change n l b (last ms) t"
    by (rule sum_changes [OF len ne idx full ch])
  have "int l + sum_list us = int (if t then b * n + last ms else max l (b * n + last ms))"
    unfolding sum using size_after_rewrite [OF a \<open>a \<le> b\<close> m old] by (simp only: size_change_def)
  moreover have "l < 2 ^ 64" and "(if t then b * n + last ms else max l (b * n + last ms)) < 2 ^ 64"
    using l by auto
  ultimately show ?thesis by (simp only: add_changes_eq u64_of_int_of_nat)
qed

text \<open>
  The rewritten chunks replace a segment of the file's chunks: the result is an encryption of
  the overwritten content, its data and digests are the overwritten data and digests, and the
  size changes add up to the new sizes.
\<close>

lemma rewritten_file:
  fixes f :: "'s rw_file" and plain toSend :: bytes and offset :: nat and us t env chs
  defines "e \<equiv> io_encryptor (rw_io f)" and "c \<equiv> fe_crypto env"
  defines "n \<equiv> ce_chunkSize e"
  defines "start \<equiv> offset div n" and "stop \<equiv> (offset + length toSend - 1) div n"
  defines "d \<equiv> take (offset mod n) (drop (start * n) plain) @ toSend"
  defines "ys \<equiv> map uc_chunk us"
  defines "chs' \<equiv> overwrite start ys t chs" and "plain' \<equiv> overwrite offset toSend t plain"
  assumes v: "rw_view env chs f plain" and offset: "offset \<le> length plain" and data: "toSend \<noteq> []"
    and us: "updates_for c e plain (length (file_data chs)) t stop start (chunks n d) us"
    and cnt: "start + length (chunks n d) = Suc stop"
    and bounds: "provider_bounds (io_provider (rw_io f)) l" "stop * encrypted_len n \<le> l"
  shows "sealed_file (ChunkEncryptor_decrypt c e) n plain' chs'"
    and "file_data chs' = overwrite (start * encrypted_len n) (concat (map chunk_data ys)) t (file_data chs)"
    and "file_checksums chs' = overwrite (start * 32) (concat (map chunk_hmac ys)) t (file_checksums chs)"
    and "full_but_last (encrypted_len n) (map chunk_data ys)"
    and "add_changes (map uc_plainfileSizeChange us) (length plain) = length plain'"
    and "add_changes (map uc_encryptedFileSizeChange us) (length (file_data chs)) = length (file_data chs')"
    and "map uc_chunkIndex us = [start..<Suc stop]" and "start \<le> length chs"
    and "start * encrypted_len n \<le> length (file_data chs)"
proof -
  let ?ecs = "encrypted_len n" and ?fd = "file_data chs"
  note fv = file_viewD [OF rw_viewD(1) [OF v], folded e_def n_def c_def, folded n_def]
  have n: "0 < n" and sealed: "sealed_file (ChunkEncryptor_decrypt c e) n plain chs"
    using fv(2,12) by (simp_all add: n_def)
  have so: "start * n + offset mod n = offset" by (simp add: start_def)
  then have sn: "start * n \<le> length plain" using offset by linarith
  note st = sealed_start [OF sealed n sn]
  show "start \<le> length chs" and "start * ?ecs \<le> length ?fd" by (fact st)+
  have dne: "d \<noteq> []" using data by (simp add: d_def)
  have ld: "start * n + length d = offset + length toSend" using so offset by (simp add: d_def)
  have plain': "plain' = overwrite (start * n) d t plain"
  proof -
    have "take offset plain = take (start * n) plain @ take (offset mod n) (drop (start * n) plain)"
      using so by (metis take_add)
    then show ?thesis by (simp only: plain'_def overwrite_def ld) (simp add: d_def)
  qed
  define r where "r = (if t then [] else take (Suc stop * n - (start * n + length d)) (drop (start * n + length d) plain))"
  have lce: "last_chunk_end n (start * n + length d) = Suc stop"
    by (simp add: last_chunk_end_def ld stop_def)
  note co = chunks_overwrite(1,2) [OF n sn dne, of t, unfolded lce, folded r_def]
  define news where "news = chunks n (d @ r)"
  have cs': "chunks n plain' = overwrite start news t (chunks n plain)"
    unfolding plain' news_def by (rule co(1))
  have ln: "length news = Suc stop - start" "length news = length us" "length us = length ys"
    using co(2) us cnt by (simp_all add: news_def ys_def updates_for_def)
  have new: "rewritten c e plain (length ?fd) (t \<and> start + k = stop) (start + k) (chunks n d ! k) (us ! k) \<and>
      news ! k = overwrite 0 (chunks n d ! k) (t \<and> start + k = stop) (nth_block n (start + k) plain)"
    if "k < length us" for k
    using us that new_pieces [OF n dne cnt, of k t plain, folded r_def news_def]
    by (simp add: updates_for_def nth_block_def)
  have usne: "us \<noteq> []" and usl: "start + length us = Suc stop" using ln(1,2) cnt us dne n
    by (auto simp: updates_for_def chunks_rec)
  then have newsne: "news \<noteq> []" and ysne: "ys \<noteq> []" using ln(2) by (auto simp: ys_def)
  have "0 < length us" using usne by simp
  then have "start \<le> stop" using usl by linarith
  then have lastk: "last news = news ! (stop - start)" "last ys = ys ! (stop - start)" "stop - start < length us"
    "start + (stop - start) = stop"
    using newsne ysne ln usl by (auto simp: last_conv_nth)
  have nl: "length (news ! k) \<le> n" if "k < length us" for k
    using chunks_nonempty_elem [OF n, of "news ! k" "d @ r"] that ln(2) by (simp add: news_def)
  have nf: "length (news ! k) = n" if "k < length us" "start + k \<noteq> stop" for k
    using chunk_full [OF n, of k "d @ r"] that usl ln(2) by (simp add: news_def)
  have yk: "ChunkEncryptor_decrypt c e (start + k) (ys ! k) = Inr (news ! k) \<and>
      length (chunk_data (ys ! k)) = encrypted_len (length (news ! k)) \<and> length (chunk_hmac (ys ! k)) = 32"
    if "k < length us" for k
    using new [OF that] that by (simp add: rewritten_def Let_def n_def [symmetric] ys_def)
  show sealed': "sealed_file (ChunkEncryptor_decrypt c e) n plain' chs'"
    unfolding chs'_def by (rule sealed_overwrite [OF sealed st(1) cs']) (use ln yk in simp_all)
  show idx: "map uc_chunkIndex us = [start..<Suc stop]"
  proof (rule nth_equalityI)
    show "length (map uc_chunkIndex us) = length [start..<Suc stop]" unfolding length_map length_upt using usl by linarith
    fix k assume "k < length (map uc_chunkIndex us)"
    then show "map uc_chunkIndex us ! k = [start..<Suc stop] ! k"
      using new [of k] usl by (simp add: rewritten_def Let_def del: upt_Suc)
  qed
  have old: "old_len n (length plain) stop \<le> length (last news)" if "\<not> t"
    using new [OF lastk(3)] that lastk(1,4) by (simp add: length_overwrite length_nth_block)
  have oldE: "old_len ?ecs (length ?fd) stop \<le> encrypted_len (length (last news))" if "\<not> t"
  proof (cases "stop < length chs")
    case True
    then have "old_len ?ecs (length ?fd) stop = encrypted_len (length (chunks n plain ! stop))"
      using sealed_block [OF sealed n, of stop] sealed
      by (simp add: length_nth_block [symmetric]) (simp add: sealed_file_def)
    also have "\<dots> \<le> encrypted_len (length (last news))"
      using old [OF that] True sealed plain_block [OF n, of stop plain]
      by (intro encrypted_len_mono) (simp add: length_nth_block [symmetric] sealed_file_def)
    finally show ?thesis .
  next
    case False
    then show ?thesis using sealed_block [OF sealed n, of stop] by (simp add: length_nth_block [symmetric])
  qed
  have ml: "last (map length news) = length (last news)" "last (map (encrypted_len \<circ> length) news) = encrypted_len (length (last news))"
    using newsne by (simp_all add: last_map)
  have lm: "length (last news) \<le> n" using nl [OF lastk(3)] lastk(1) by simp
  have v': "rw_view env chs f plain" and ce: "n = ce_chunkSize (io_encryptor (rw_io f))"
    using v by (simp_all add: n_def e_def)
  note B = rewrite_bounds [OF v' bounds lm ce]
  have "start * n + length (concat news) = stop * n + length (last news)"
  proof -
    have "length (concat news) = (length news - 1) * n + length (last news)"
      by (rule length_concat_full_but_last [OF _ newsne]) (use nf ln usl in simp)
    moreover have "(length news - 1) = stop - start" using ln usl by simp
    ultimately show ?thesis using lastk(4) by (metis add.assoc add_mult_distrib)
  qed
  then have lr: "stop * n + length (last news) = start * n + length d + length r" using n by (simp add: news_def)
  have r: "t \<Longrightarrow> length r = 0" "length r \<noteq> 0 \<Longrightarrow> start * n + length d + length r \<le> length plain"
    by (auto simp: r_def)
  have "length plain' = (if t then start * n + length d else max (length plain) (start * n + length d))"
    unfolding plain' by (rule length_overwrite [OF sn])
  also have "\<dots> = (if t then stop * n + length (last news) else max (length plain) (stop * n + length (last news)))"
    unfolding lr using r by (cases t; cases "length r = 0") (simp_all add: max_absorb1)
  finally have "length plain' = (if t then stop * n + length (last news) else max (length plain) (stop * n + length (last news)))" .
  moreover have "add_changes (map uc_plainfileSizeChange us) (length plain)
      = (if t then stop * n + last (map length news) else max (length plain) (stop * n + last (map length news)))"
  proof (rule written_size)
    fix k assume "k < length (map uc_plainfileSizeChange us)"
    then show "map uc_plainfileSizeChange us ! k = size_change n (length plain) (start + k) (map length news ! k) (t \<and> start + k = stop)"
      using new [of k] ln(2) by (simp add: rewritten_def Let_def n_def [symmetric])
  qed (use ln usne usl nf sn lm old B ml in simp_all)
  ultimately show "add_changes (map uc_plainfileSizeChange us) (length plain) = length plain'" by (simp only: ml)
  have dl: "\<forall>j. Suc j < length (map chunk_data ys) \<longrightarrow> length (map chunk_data ys ! j) = ?ecs"
    using yk nf ln usl by simp
  have ll: "length (last (map chunk_data ys)) = encrypted_len (length (last news))"
    using yk [OF lastk(3)] lastk ysne by (simp add: last_map)
  have le: "encrypted_len (length (last news)) \<le> ?ecs" by (rule encrypted_len_mono [OF lm])
  show fb: "full_but_last ?ecs (map chunk_data ys)"
  proof -
    have "\<forall>x \<in> set (butlast (map chunk_data ys)). length x = ?ecs"
      using dl by (auto simp: in_set_conv_nth nth_butlast)
    then show ?thesis using ysne ll le by (simp add: full_but_last_def)
  qed
  show fd': "file_data chs' = overwrite (start * ?ecs) (concat (map chunk_data ys)) t ?fd"
    unfolding file_data_def chs'_def map_overwrite
  proof (rule concat_overwrite [OF _ _ _ _ dl])
    show "length (map chunk_data chs ! (start + length (map chunk_data ys) - 1)) \<le> length (last (map chunk_data ys))"
      if "\<not> t" "start + length (map chunk_data ys) \<le> length (map chunk_data chs)"
    proof -
      have "start + length ys - 1 = stop" and "stop < length chs" using that(2) usl ln by simp_all
      moreover have "old_len ?ecs (length ?fd) stop = length (chunk_data (chs ! stop))"
        using sealed_block [OF sealed n, of stop] \<open>stop < length chs\<close> by (simp add: length_nth_block [symmetric])
      ultimately show ?thesis using oldE [OF that(1)] ll by simp
    qed
  qed (use sealed_file_lengths [OF sealed n] st ysne ll le in \<open>simp_all add: file_data_def\<close>)
  show "file_checksums chs' = overwrite (start * 32) (concat (map chunk_hmac ys)) t (file_checksums chs)"
    unfolding file_checksums_def chs'_def map_overwrite
  proof (rule concat_overwrite)
    have h: "length (chunk_hmac (chs ! j)) = 32" if "j < length chs" for j
      using sealed that by (simp add: sealed_file_def)
    then have all: "\<forall>x \<in> set (map chunk_hmac chs). length x = 32" by (auto simp: in_set_conv_nth)
    then show "\<forall>x \<in> set (map chunk_hmac chs). length x \<le> 32" by simp
    show "start * 32 \<le> length (concat (map chunk_hmac chs))" using length_concat_equal [OF all] st(1) by simp
    have hy: "length (chunk_hmac (ys ! j)) = 32" if "j < length ys" for j using yk that ln by simp
    show "length (last (map chunk_hmac ys)) \<le> 32"
      using hy [of "stop - start"] lastk ysne ln by (simp add: last_map)
    show "length (map chunk_hmac chs ! (start + length (map chunk_hmac ys) - 1)) \<le> length (last (map chunk_hmac ys))"
      if "start + length (map chunk_hmac ys) \<le> length (map chunk_hmac chs)"
      using hy [of "stop - start"] lastk ysne ln h usl that by (simp add: last_map)
  qed (use st ysne sealed yk ln usl in \<open>simp_all add: sealed_file_def\<close>)
  have "start * ?ecs + length (concat (map chunk_data ys)) = stop * ?ecs + encrypted_len (length (last news))"
  proof -
    have "length (concat (map chunk_data ys)) = (length (map chunk_data ys) - 1) * ?ecs + encrypted_len (length (last news))"
      using length_concat_full_but_last [OF dl] ysne ll by simp
    moreover have "length (map chunk_data ys) - 1 = stop - start" using ln usl by simp
    ultimately show ?thesis using lastk(4) by (metis add.assoc add_mult_distrib)
  qed
  then have "length (file_data chs') = (if t then stop * ?ecs + encrypted_len (length (last news))
      else max (length ?fd) (stop * ?ecs + encrypted_len (length (last news))))"
    unfolding fd' by (simp add: length_overwrite st(2))
  moreover have "add_changes (map uc_encryptedFileSizeChange us) (length ?fd)
      = (if t then stop * ?ecs + last (map (encrypted_len \<circ> length) news)
         else max (length ?fd) (stop * ?ecs + last (map (encrypted_len \<circ> length) news)))"
  proof (rule written_size)
    fix k assume "k < length (map uc_encryptedFileSizeChange us)"
    then show "map uc_encryptedFileSizeChange us ! k
        = size_change ?ecs (length ?fd) (start + k) (map (encrypted_len \<circ> length) news ! k) (t \<and> start + k = stop)"
      using new [of k] ln(2) by (simp add: rewritten_def Let_def n_def [symmetric])
  qed (use ln usne usl nf st le oldE B ml in simp_all)
  ultimately show "add_changes (map uc_encryptedFileSizeChange us) (length ?fd) = length (file_data chs')"
    by (simp only: ml)
qed

end
