(* ===== verification/Store_FileWrite.thy ===== *)
theory Store_FileWrite
  imports Store_FileHandler
begin

text \<open>
  Correctness of \<open>FileHandler\<close>: a write that the Bridge accepts turns the content of the file
  into the overwritten content and keeps every object of the handle consistent with it; a
  write that the Bridge refuses leaves the file as it was; reads return the content.
\<close>

subsection \<open>What the Bridge does with a write\<close>

text \<open>
  A request for the current version with one data and one digest operation inside the file is
  accepted, and yields the next version with both overwritten.
\<close>

definition applies_writes :: "('s, 'm) store_server \<Rightarrow> string \<Rightarrow> bool" where
  "applies_writes api fid \<longleftrightarrow>
     (\<forall>s v enc sums m p d p' d' t.
        serves_file api s fid v enc sums \<and> wm_fileId m = fid \<and> wm_version m = v \<and> p \<le> length enc \<and>
        p' \<le> length sums \<and>
        wm_operations m =
          [\<lparr>wo_type = ''file'', wo_pos = int p, wo_data = d, wo_truncate = t\<rparr>,
           \<lparr>wo_type = ''checksum'', wo_pos = int p', wo_data = d', wo_truncate = t\<rparr>] \<longrightarrow>
        (\<exists>s'. storeFileWrite api m s = (Inr (), s') \<and>
           serves_file api s' fid (v + 1) (overwrite p d t enc) (overwrite p' d' t sums)))"

lemma applies_writesD:
  assumes "applies_writes api fid" and "serves_file api s fid v enc sums"
    and "p \<le> length enc" and "p' \<le> length sums"
  shows "\<exists>s'. storeFileWrite api
      \<lparr>wm_fileId = fid, wm_operations =
         [\<lparr>wo_type = ''file'', wo_pos = int p, wo_data = d, wo_truncate = t\<rparr>,
          \<lparr>wo_type = ''checksum'', wo_pos = int p', wo_data = d', wo_truncate = t\<rparr>],
       wm_meta = m, wm_keyId = k, wm_version = v, wm_force = b\<rparr> s = (Inr (), s') \<and>
    serves_file api s' fid (v + 1) (overwrite p d t enc) (overwrite p' d' t sums)"
  using assms unfolding applies_writes_def by (metis StoreFileWriteModelByOperations.select_convs(1,2,5))

lemma serves_version:
  assumes "serves_file (sample_bridge :: (sample_state, 'm) store_server) (v', enc', sums') fid v enc sums"
  shows "enc' = enc \<and> sums' = sums \<and> v' = v"
proof -
  let ?api = "sample_bridge :: (sample_state, 'm) store_server"
  let ?m = "max (length enc) (length enc')"
  have "storeFileRead ?api \<lparr>rm_fileId = fid, rm_range = RangeSlice 0 (int ?m), rm_version = Some v,
      rm_thumb = False\<rparr> (v', enc', sums') = Inr (take (nat (int ?m) - nat 0) (drop (nat 0) enc))"
    and "storeFileRead ?api \<lparr>rm_fileId = fid, rm_range = RangeChecksum, rm_version = None,
      rm_thumb = False\<rparr> (v', enc', sums') = Inr sums"
    using assms unfolding serves_file_def by auto
  then show ?thesis by (auto simp: sample_bridge_def split: if_splits)
qed

lemma sample_bridge_applies: "applies_writes sample_bridge fid"
proof -
  have "\<exists>s'. storeFileWrite sample_bridge m s = (Inr (), s') \<and>
      serves_file sample_bridge s' fid (v + 1) (overwrite p d t enc) (overwrite p' d' t sums)"
    if "serves_file sample_bridge s fid v enc sums" "wm_version m = v"
      "wm_operations m = [\<lparr>wo_type = ''file'', wo_pos = int p, wo_data = d, wo_truncate = t\<rparr>,
           \<lparr>wo_type = ''checksum'', wo_pos = int p', wo_data = d', wo_truncate = t\<rparr>]"
    for s v enc sums p d p' d' t and m :: "'a StoreFileWriteModelByOperations"
  proof -
    obtain v' enc' sums' where s: "s = (v', enc', sums')" by (cases s)
    with serves_version that(1) have "s = (v, enc, sums)" by blast
    then have "storeFileWrite sample_bridge m s
        = (Inr (), (v + 1, overwrite p d t enc, overwrite p' d' t sums))"
      using that(2,3) by (simp add: sample_bridge_def sample_write_op_def)
    then show ?thesis using sample_bridge_serves by blast
  qed
  then show ?thesis unfolding applies_writes_def by blast
qed

subsection \<open>The pieces of a commit\<close>

lemma fold_updates:
  "fold (\<lambda>u io. io\<lparr>io_provider := ChunkDataProvider_update v (uc_chunkIndex u) (chunk_data (uc_chunk u)) sz t
         (io_provider io), io_reader := ChunkReader_update v (uc_chunkIndex u) (io_reader io)\<rparr>) us io
   = io\<lparr>io_provider := fold (\<lambda>u. ChunkDataProvider_update v (uc_chunkIndex u) (chunk_data (uc_chunk u)) sz t)
          us (io_provider io),
        io_reader := fold (\<lambda>u. ChunkReader_update v (uc_chunkIndex u)) us (io_reader io)\<rparr>"
  by (induction us arbitrary: io) simp_all

lemma fold_provider_updates:
  assumes "map uc_chunkIndex us = [a..<b]"
  shows "fold (\<lambda>u. ChunkDataProvider_update v (uc_chunkIndex u) (chunk_data (uc_chunk u)) sz t) us p
    = provider_updates v sz t a (map chunk_data (map uc_chunk us)) p"
proof -
  have "length us = b - a" using assms by (metis length_map length_upt)
  moreover have "us = [] \<or> a \<le> b" using assms by (cases "a \<le> b") auto
  ultimately have "[a..<a + length (map chunk_data (map uc_chunk us))] = map uc_chunkIndex us"
    using assms by auto
  then show ?thesis
    unfolding provider_updates_def
    by (simp add: zip_map_map zip_same_conv_map fold_map comp_def map_map)
qed

lemma reader_updates:
  "cr_lastChunk (fold (ChunkReader_update v) is r)
     = (case cr_lastChunk r of None \<Rightarrow> None | Some d \<Rightarrow> if dc_index d \<in> set is then None else Some d)"
  "is \<noteq> [] \<Longrightarrow> cr_version (fold (ChunkReader_update v) is r) = v"
proof (induction "is" arbitrary: r)
  case (Cons i "is")
  case 1
  then show ?case
    using Cons(1) [of "ChunkReader_update v i r"] by (auto simp: ChunkReader_update_def split: option.splits)
  case 2
  have "cr_version (ChunkReader_update v i r) = v"
    by (simp add: ChunkReader_update_def split: option.splits)
  then show ?case using Cons(2) by (cases "is = []") simp_all
qed (simp_all split: option.splits)

lemma fold_reader_updates:
  "fold (\<lambda>u. ChunkReader_update v (uc_chunkIndex u)) us r = fold (ChunkReader_update v) (map uc_chunkIndex us) r"
  by (simp add: fold_map comp_def)

text \<open>
  After a write the cached chunk of the reader, unless it was dropped, is still the right one:
  it was not rewritten, and if it lay behind a truncation the file has no such chunk any more.
\<close>

lemma reader_cache_updates:
  assumes cache: "reader_cache r n plain" and s': "sealed_file dec n plain' (overwrite a ys t chs)"
    and s: "sealed_file dec n plain chs" and a: "a \<le> length chs" and b: "length ys = b - a"
  shows "reader_cache (fold (ChunkReader_update v) [a..<b] r) n plain'"
proof -
  have "dc_decryptedData d = chunks n plain' ! dc_index d"
    if d: "cr_lastChunk r = Some d" "dc_index d \<notin> set [a..<b]" "dc_index d < length (chunks n plain')" for d
  proof -
    let ?i = "dc_index d"
    have i': "?i < length (overwrite a ys t chs)" using s' d(3) by (simp add: sealed_file_def)
    have out: "\<not> (a \<le> ?i \<and> ?i < a + length ys)" using d(2) b by auto
    then have i: "?i < length chs" using i' a by (auto simp: length_overwrite split: if_splits)
    have "overwrite a ys t chs ! ?i = chs ! ?i" using nth_overwrite [OF a i'] out by simp
    then have "chunks n plain' ! ?i = chunks n plain ! ?i"
      using s s' i i' unfolding sealed_file_def by (metis Inr_inject)
    moreover have "dc_decryptedData d = chunks n plain ! ?i"
      using cache d(1) i s by (simp add: reader_cache_def sealed_file_def)
    ultimately show ?thesis by simp
  qed
  then show ?thesis by (auto simp: reader_cache_def reader_updates(1) split: option.splits if_splits)
qed

text \<open>The digests of the rewritten chunks replace a segment of the digest list.\<close>

lemma set_digests_ok:
  assumes "HmacList_shape h" and "a \<le> length (HmacList_hashes h)" and us: "us \<noteq> []"
    and idx: "map uc_chunkIndex us = [a..<b]" and len: "\<forall>u \<in> set us. length (chunk_hmac (uc_chunk u)) = 32"
  shows "\<exists>h'. set_digests us t h = (Inr (), h') \<and> HmacList_shape h' \<and>
    HmacList_hashes h' = overwrite a (map chunk_hmac (map uc_chunk us)) t (HmacList_hashes h)"
proof -
  let ?xs = "map chunk_hmac (map uc_chunk us)" let ?f = "\<lambda>(k, j, x). HmacList_set j x (if k = length us - 1 then t else False)"
  have "length us = b - a" using idx by (metis length_map length_upt)
  moreover have "a \<le> b" using idx us by (cases "a \<le> b") auto
  ultimately have ix: "[a..<a + length ?xs] = map uc_chunkIndex us" using idx by simp
  have "zip [0..<0 + length ?xs] (zip [a..<a + length ?xs] ?xs)
      = map (\<lambda>(i, u). (i, uc_chunkIndex u, chunk_hmac (uc_chunk u))) (zip [0..<length us] us)"
    unfolding ix by (rule nth_equalityI) simp_all
  then have "set_digests us t = for_each ?f (zip [0..<0 + length ?xs] (zip [a..<a + length ?xs] ?xs))"
    by (simp add: set_digests_def for_each_map case_prod_unfold)
  moreover have "0 + length ?xs = Suc (length us - 1)" using us by simp
  ultimately show ?thesis
    using hl.set_hashes_overwrite [OF assms(1,2), of ?xs 0 "length us - 1" t] len us by auto
qed

lemma set_digests_inv: "HmacList_inv c h \<Longrightarrow> HmacList_inv c (snd (set_digests us t h))"
  unfolding set_digests_def by (rule for_each_invariant) (auto simp: HmacList_set_inv)

text \<open>Consecutive full chunks below the size limit are squashed into one change.\<close>

lemma squash_fold:
  assumes "map uc_chunkIndex us = [i..<i + length us]"
    and "full_but_last n (map (\<lambda>u. chunk_data (uc_chunk u)) us) \<or> us = []"
    and "length d = (i - a) * n" and "a \<le> i"
    and "length d + length (concat (map (\<lambda>u. chunk_data (uc_chunk u)) us)) < SERVER_OPERATION_SIZE_LIMIT"
    and "(i + length us) * n < 2 ^ 64"
  shows "foldl (squash_step n) [\<lparr>us_data = d, us_dataPos = a * n, us_checksum = s, us_checksumPos = q\<rparr>] us
    = [\<lparr>us_data = d @ concat (map (\<lambda>u. chunk_data (uc_chunk u)) us), us_dataPos = a * n,
        us_checksum = s @ concat (map (\<lambda>u. chunk_hmac (uc_chunk u)) us), us_checksumPos = q\<rparr>]"
  using assms
proof (induction us arbitrary: i d s)
  case Nil
  then show ?case by simp
next
  case (Cons u us)
  have "[i..<i + length (u # us)] = i # [Suc i..<Suc i + length us]" by (simp add: upt_rec)
  then have i: "uc_chunkIndex u = i" "map uc_chunkIndex us = [Suc i..<Suc i + length us]"
    using Cons.prems(1) by simp_all
  have "a * n + (i - a) * n = i * n" using Cons.prems(4) by (metis add_mult_distrib le_add_diff_inverse)
  moreover have "i * n < 2 ^ 64" using Cons.prems(6) by (simp add: add_mult_distrib)
  ultimately have pos: "u64 (a * n + length d) = i * n" "u64 (i * n) = i * n"
    using Cons.prems(3) by (simp_all add: u64_id)
  have step: "squash_step n [\<lparr>us_data = d, us_dataPos = a * n, us_checksum = s, us_checksumPos = q\<rparr>] u
      = [\<lparr>us_data = d @ chunk_data (uc_chunk u), us_dataPos = a * n,
          us_checksum = s @ chunk_hmac (uc_chunk u), us_checksumPos = q\<rparr>]"
    using Cons.prems(5) by (simp add: squash_step_def Let_def pos i(1))
  show ?case
  proof (cases "us = []")
    case True
    with step show ?thesis by simp
  next
    case False
    then have "length (chunk_data (uc_chunk u)) = n" "full_but_last n (map (\<lambda>u. chunk_data (uc_chunk u)) us)"
      using Cons.prems(2) by (simp_all add: full_but_last_Cons)
    moreover have "Suc i - a = Suc (i - a)" using Cons.prems(4) by simp
    ultimately show ?thesis
      using step Cons.IH [of "Suc i" "d @ chunk_data (uc_chunk u)"] i(2) Cons.prems
      by (simp add: add.commute)
  qed
qed

lemma squash_single:
  assumes idx: "map uc_chunkIndex us = [a..<b]" and us: "us \<noteq> []"
    and full: "full_but_last n (map chunk_data (map uc_chunk us))"
    and small: "length (concat (map chunk_data (map uc_chunk us))) < SERVER_OPERATION_SIZE_LIMIT"
    and b: "b * n < 2 ^ 64" "b * 32 < 2 ^ 64"
  shows "createListOfUpdateChanges n us
    = [\<lparr>us_data = concat (map chunk_data (map uc_chunk us)), us_dataPos = a * n,
        us_checksum = concat (map chunk_hmac (map uc_chunk us)), us_checksumPos = a * 32\<rparr>]"
proof -
  obtain u us' where u: "us = u # us'" using us by (cases us) auto
  have ab: "a < b" using idx u by (cases "a < b") auto
  then have "[a..<b] = a # [Suc a..<b]" by (rule upt_conv_Cons)
  then have i: "uc_chunkIndex u = a" "map uc_chunkIndex us' = [Suc a..<b]" using idx u by simp_all
  then have "length us' = b - Suc a" by (metis length_map length_upt)
  then have b': "b = Suc a + length us'" using ab by simp
  have "a * n \<le> b * n" using ab by simp
  then have "a * n < 2 ^ 64" using b(1) by (rule le_less_trans)
  then have "u64 (a * n) = a * n" "u64 (a * 32) = a * 32" using b ab by (simp_all add: u64_id del: mult_less_cancel2)
  moreover have "foldl (squash_step n) [\<lparr>us_data = chunk_data (uc_chunk u), us_dataPos = a * n,
        us_checksum = chunk_hmac (uc_chunk u), us_checksumPos = a * 32\<rparr>] us'
      = [\<lparr>us_data = chunk_data (uc_chunk u) @ concat (map (\<lambda>u. chunk_data (uc_chunk u)) us'), us_dataPos = a * n,
          us_checksum = chunk_hmac (uc_chunk u) @ concat (map (\<lambda>u. chunk_hmac (uc_chunk u)) us'),
          us_checksumPos = a * 32\<rparr>]"
  proof (cases "us' = []")
    case False
    have "length (chunk_data (uc_chunk u)) = n" "full_but_last n (map (\<lambda>u. chunk_data (uc_chunk u)) us')"
      using full u False by (simp_all add: full_but_last_Cons comp_def)
    then show ?thesis
      using i(2) b(1) b' small u by (intro squash_fold [where i = "Suc a"]) (simp_all add: comp_def del: upt_Suc)
  qed simp
  ultimately show ?thesis by (simp add: createListOfUpdateChanges_def u i(1) store_sizes comp_def)
qed

lemma full_but_last_le: "full_but_last n ds \<Longrightarrow> \<forall>x \<in> set ds. length x \<le> n"
  by (induction ds) (auto simp: full_but_last_Cons split: if_splits)

lemma full_but_last_nth: "full_but_last n ds \<Longrightarrow> Suc j < length ds \<Longrightarrow> length (ds ! j) = n"
  by (metis Suc_less_eq full_but_last_def length_butlast less_diff_conv nth_butlast nth_mem plus_1_eq_Suc add.commute)

lemma full_but_last_length: "full_but_last n ds \<Longrightarrow> length (concat ds) \<le> length ds * n"
  by (rule length_concat_bound [OF full_but_last_le])

lemma updateOnServer_single:
  "FileHandler_updateOnServer env [u] m k t h s
     = storeFileWrite (fe_api env)
         \<lparr>wm_fileId = fi_fileId (fh_fileInfo h),
          wm_operations =
            [\<lparr>wo_type = ''file'', wo_pos = s64 (int (us_dataPos u)), wo_data = us_data u, wo_truncate = t\<rparr>,
             \<lparr>wo_type = ''checksum'', wo_pos = s64 (int (us_checksumPos u)), wo_data = us_checksum u,
              wo_truncate = t\<rparr>],
          wm_meta = m, wm_keyId = k, wm_version = fh_version h, wm_force = False\<rparr> s"
proof -
  have "chunks (SERVER_OPERATIONS_LIMIT div 2) (zip [0..<length [u]] [u]) = [[(0, u)]]"
    by (simp add: SERVER_OPERATIONS_LIMIT_def chunks_short)
  then show ?thesis
    by (simp add: FileHandler_updateOnServer_def write_operations_def bindS_def split: prod.splits sum.splits)
qed

subsection \<open>A write that is accepted\<close>

lemma getTopHash_keeps:
  "HmacList_shape h \<Longrightarrow> HmacList_shape (snd (HmacList_getTopHash c h)) \<and>
     HmacList_hashes (snd (HmacList_getTopHash c h)) = HmacList_hashes h"
  by (simp add: HmacList_getTopHash_def Let_def HmacList_shape_def HmacList_hashes_def split: option.split)

text \<open>The size conditions of a write of the bytes from \<open>offset\<close> up to \<open>e\<close>.\<close>

definition write_fits :: "'s rw_file \<Rightarrow> nat \<Rightarrow> nat \<Rightarrow> bool" where
  "write_fits f offset e \<longleftrightarrow>
     (let n = ce_chunkSize (io_encryptor (rw_io f)); start = offset div n; stop = (e - 1) div n in
      provider_bounds (io_provider (rw_io f))
        (fh_encryptedFileSize (rw_handler f) + Suc stop * encrypted_len n) \<and>
      (Suc stop - start) * encrypted_len n < SERVER_OPERATION_SIZE_LIMIT \<and>
      fh_version (rw_handler f) + 1 < 2 ^ 63 \<and> - (2 ^ 63) \<le> fh_version (rw_handler f))"

text \<open>
  The encryption of the file's meta data does not throw: whatever the meta data are, for this
  file and under the key of this handle in that key's own format. \<open>FileMetaEncryptor_encrypt\<close> does
  so for the key formats 1 and 2 (\<open>Store_Writing.FileMetaEncryptor_encrypts\<close>).
\<close>

definition meta_encrypts :: "('s, 'm) file_env \<Rightarrow> FileHandler \<Rightarrow> bool" where
  "meta_encrypts env h \<longleftrightarrow>
     (\<forall>m r. \<exists>x r'. fe_encryptMeta env (fh_fileInfo h) m (fh_fileEncKey h)
        (dk_dataStructureVersion (fh_fileEncKey h)) r = (Inr x, r'))"

lemma commit_ok:
  fixes f :: "'s rw_file" and plain toSend :: bytes and offset :: nat and us t env chs
  defines "e \<equiv> io_encryptor (rw_io f)" and "c \<equiv> fe_crypto env"
  defines "n \<equiv> ce_chunkSize e"
  defines "start \<equiv> offset div n" and "stop \<equiv> (offset + length toSend - 1) div n"
  defines "d \<equiv> take (offset mod n) (drop (start * n) plain) @ toSend"
  assumes v: "rw_view env chs f plain" and offset: "offset \<le> length plain" and data: "toSend \<noteq> []"
    and us: "updates_for c e plain (length (file_data chs)) t stop start (chunks n d) us"
    and cnt: "start + length (chunks n d) = Suc stop"
    and fetched: "fetched f (file_data chs) stop"
    and fits: "write_fits f offset (offset + length toSend)"
    and srv: "applies_writes (fe_api env) (fi_fileId (fh_fileInfo (rw_handler f)))" and meta: "meta_encrypts env (rw_handler f)"
  shows "\<exists>f' chs'. FileHandler_commit env us t f = (Inr (), f') \<and>
    rw_view env chs' f' (overwrite offset toSend t plain) \<and> io_encryptor (rw_io f') = e \<and>
    cdp_serverChunkSize (io_provider (rw_io f')) = cdp_serverChunkSize (io_provider (rw_io f)) \<and>
    fh_version (rw_handler f') = fh_version (rw_handler f) + 1 \<and>
    fh_fileInfo (rw_handler f') = fh_fileInfo (rw_handler f)"
proof -
  let ?h = "rw_handler f" and ?io = "rw_io f" and ?ecs = "encrypted_len n"
  let ?p = "io_provider ?io" and ?ys = "map uc_chunk us" and ?fd = "file_data chs"
  let ?plain' = "overwrite offset toSend t plain" and ?chs' = "overwrite start (map uc_chunk us) t chs"
  let ?v = "fh_version ?h"
  note r = rw_viewD [OF v]
  note fv = file_viewD [OF r(1)]
  have nn: "n = ce_chunkSize (io_encryptor ?io)" by (simp add: n_def e_def)
  have fit: "provider_bounds ?p (length ?fd + Suc stop * ?ecs)"
    "(Suc stop - start) * ?ecs < SERVER_OPERATION_SIZE_LIMIT" "?v + 1 < 2 ^ 63" "- (2 ^ 63) \<le> ?v"
    using fits r(3) by (simp_all add: write_fits_def Let_def n_def e_def start_def stop_def)
  have stop: "stop * ?ecs \<le> length ?fd + Suc stop * ?ecs" by simp
  note R = rewritten_file [OF v offset data us [unfolded c_def d_def start_def stop_def n_def e_def]
      cnt [unfolded d_def start_def stop_def n_def e_def] fit(1) [unfolded stop_def n_def e_def] stop [unfolded stop_def n_def e_def],
      folded c_def e_def, folded n_def, folded start_def stop_def]
  have usl: "length us = Suc stop - start" and usne: "us \<noteq> []" and "start \<le> stop"
  proof -
    have "length (map uc_chunkIndex us) = length [start..<Suc stop]" using R(7) by simp
    then show l: "length us = Suc stop - start" by (simp del: upt_Suc)
    have "length us = length (chunks n d)" using us by (simp add: updates_for_def)
    moreover have "chunks n d \<noteq> []" using data fv(12) by (simp add: d_def chunks_rec nn)
    ultimately show "us \<noteq> []" by auto
    with l show "start \<le> stop" by (cases "start \<le> stop") auto
  qed
  have hm: "\<forall>u \<in> set us. length (chunk_hmac (uc_chunk u)) = 32"
    using us by (auto simp: updates_for_def rewritten_def Let_def in_set_conv_nth)
  obtain hl1 where hl1: "set_digests us t (io_hashes ?io) = (Inr (), hl1)" "HmacList_shape hl1"
    "HmacList_hashes hl1 = map chunk_hmac ?chs'"
    using set_digests_ok [OF fv(3) _ usne R(7) hm, of t] R(8) by (auto simp: fv(4) map_overwrite)
  have inv1: "HmacList_inv c hl1" using set_digests_inv [of c "io_hashes ?io" us t] r(7) hl1(1) by (simp add: c_def)
  obtain topH hl2 where hl2: "HmacList_getTopHash c hl1 = (topH, hl2)" by fastforce
  have shape2: "HmacList_shape hl2" "HmacList_hashes hl2 = map chunk_hmac ?chs'" "HmacList_inv c hl2"
    using getTopHash_keeps [OF hl1(2), of c] hl1(3) HmacList_other_inv(3) [OF inv1] by (simp_all add: hl2)
  have b63: "Suc stop * ?ecs < 2 ^ 63" using fit(1) by (simp add: provider_bounds_def)
  have "32 \<le> ?ecs" by (simp add: encrypted_len_def)
  then have "Suc stop * 32 \<le> Suc stop * ?ecs" by (rule mult_le_mono2)
  then have b32: "Suc stop * 32 < 2 ^ 63" using b63 by linarith
  have datas: "length (concat (map chunk_data ?ys)) \<le> (Suc stop - start) * ?ecs"
    using full_but_last_length [OF R(4)] usl by simp
  let ?u = "\<lparr>us_data = concat (map chunk_data ?ys), us_dataPos = start * ?ecs,
    us_checksum = concat (map chunk_hmac ?ys), us_checksumPos = start * 32\<rparr>"
  have squash: "createListOfUpdateChanges (fh_encryptedChunkSize ?h) us = [?u]"
    unfolding r(5) nn [symmetric]
    by (rule squash_single [OF R(7) usne R(4)]) (use datas fit(2) b63 b32 in simp_all)
  let ?m' = "(fh_fileMeta ?h)\<lparr>fm_internalFileMeta := (fm_internalFileMeta (fh_fileMeta ?h))
        \<lparr>im_hmac := fe_base64 env topH, im_size := s64 (int (length ?plain'))\<rparr>\<rparr>"
  obtain m draws where m: "fe_encryptMeta env (fh_fileInfo ?h) ?m'
      (fh_fileEncKey ?h) (dk_dataStructureVersion (fh_fileEncKey ?h)) (io_draws ?io) = (Inr m, draws)"
    using meta unfolding meta_encrypts_def by blast
  obtain s where s: "FileHandler_updateOnServer env [?u] m (dk_id (fh_fileEncKey ?h)) t ?h (io_server ?io) = (Inr (), s)"
    "serves_file (fe_api env) s (fi_fileId (fh_fileInfo ?h)) (?v + 1) (file_data ?chs') (file_checksums ?chs')"
  proof -
    have "start * ?ecs < 2 ^ 63" "start * 32 < 2 ^ 63"
      using b63 b32 \<open>start \<le> stop\<close> by (meson le_SucI le_less_trans mult_le_mono1)+
    then have pos: "s64 (int (start * ?ecs)) = int (start * ?ecs)" "s64 (int (start * 32)) = int (start * 32)"
      by (simp_all only: s64_of_nat)
    have "start * 32 \<le> length (file_checksums chs)"
      using length_concat_equal [OF sealed_checksums [OF fv(2)]] R(8) by (simp add: file_checksums_def)
    from applies_writesD [OF srv [unfolded r(6)] fv(5) R(9) this] that
    show ?thesis unfolding updateOnServer_single R(2,3) r(6) UpdateChanges.select_convs pos by blast
  qed
  define p' where "p' = provider_updates (?v + 1) (s64 (int (length (file_data ?chs')))) t start (map chunk_data ?ys) ?p"
  define r' where "r' = fold (ChunkReader_update (?v + 1)) [start..<Suc stop] (io_reader ?io)"
  have "s64 (?v + 1) = ?v + 1" using fit(3,4) by (intro s64_id) simp_all
  then have commit: "FileHandler_commit env us t f = (Inr (),
    \<lparr>rw_handler = ?h\<lparr>fh_version := ?v + 1, fh_fileMeta := ?m', fh_plainfileSize := length ?plain',
        fh_encryptedFileSize := length (file_data ?chs')\<rparr>,
     rw_io = ?io\<lparr>io_hashes := hl2, io_draws := draws, io_server := s, io_provider := p', io_reader := r'\<rparr>\<rparr>)"
    unfolding FileHandler_commit_def Let_def r(2,3) R(5,6) squash hl1(1) prod.case sum.case c_def [symmetric] hl2 m s(1)
      fold_updates fold_provider_updates [OF R(7)] fold_reader_updates R(7)
    using s(1) by (simp add: p'_def r'_def del: upt_Suc)
  have sg: "same_geometry ?p p'" unfolding p'_def by (rule updates_same_geometry)
  then have p': "provider_geometry p'" "cdp_encryptedChunkSize p' = ?ecs" "cdp_fileId p' = cdp_fileId ?p"
    "cdp_serverChunkSize p' = cdp_serverChunkSize ?p" "provider_bounds p' = provider_bounds ?p"
    using same_geometry_facts [OF sg] fv(6,8) by (simp_all add: same_geometry_def nn)
  have "(Suc stop - start) * ?ecs \<le> Suc stop * ?ecs" by (intro mult_le_mono1) simp
  then have grow: "length ?fd + length (concat (map chunk_data ?ys)) \<le> length ?fd + Suc stop * ?ecs"
    using datas by linarith
  have cache: "cache_of p' (file_data ?chs')"
    unfolding p'_def R(2) fv(8) [folded nn, symmetric]
  proof (rule updates_cache)
    show "provider_bounds ?p (length ?fd + length (concat (map chunk_data ?ys)))"
      by (rule provider_bounds_mono [OF fit(1) grow])
    show "cdp_lastServerChunkNumber ?p
        = Some ((start + length (map chunk_data ?ys) - 1) * cdp_encryptedChunkSize ?p div cdp_serverChunkSize ?p)"
      using fetched usl \<open>start \<le> stop\<close> by (simp add: fetched_def Let_def)
  qed (use R(4,9) fv(6,8) fetched in \<open>simp_all add: nn fetched_def Let_def\<close>)
  have "length (file_data ?chs') \<le> length ?fd + Suc stop * ?ecs"
    using grow R(9) unfolding R(2) by (simp add: length_overwrite)
  then have bounds': "provider_bounds p' (length (file_data ?chs'))"
    unfolding p'(5) by (rule provider_bounds_mono [OF fit(1)])
  have "[start..<Suc stop] \<noteq> []" using \<open>start \<le> stop\<close> by simp
  then have "cr_version r' = ?v + 1" unfolding r'_def by (rule reader_updates(2))
  moreover have "reader_cache r' n ?plain'"
    unfolding r'_def by (rule reader_cache_updates [OF fv(11) [folded nn] R(1) fv(2) [folded nn c_def e_def] R(8)])
      (use usl in simp)
  ultimately have reader: "cr_version r' = ?v + 1" "reader_cache r' n ?plain'" by simp_all
  let ?f' = "\<lparr>rw_handler = ?h\<lparr>fh_version := ?v + 1, fh_fileMeta := ?m', fh_plainfileSize := length ?plain',
        fh_encryptedFileSize := length (file_data ?chs')\<rparr>,
     rw_io = ?io\<lparr>io_hashes := hl2, io_draws := draws, io_server := s, io_provider := p', io_reader := r'\<rparr>\<rparr>"
  have "file_view c (fe_api env) (?v + 1) ?chs' (rw_io ?f') ?plain'"
    using fv(1) R(1) shape2 s(2) p' bounds' cache reader r(6)
    by (simp add: file_view_def Let_def provider_coherent_def e_def c_def nn)
  then have "rw_view env ?chs' ?f' ?plain'"
    using r(4-6) p'(3) shape2(3) by (simp add: rw_view_def Let_def c_def)
  then show ?thesis using commit p'(4) by (intro exI [of _ ?f'] exI [of _ ?chs']) (simp add: e_def)
qed

text \<open>
  The reference: write \<open>d\<close> at \<open>pos\<close>, filling a gap behind the end with zeros.
\<close>

definition write_at :: "nat \<Rightarrow> bytes \<Rightarrow> bool \<Rightarrow> bytes \<Rightarrow> bytes" where
  "write_at pos d t xs = overwrite pos d t (xs @ replicate (pos - length xs) 0)"

lemma write_at_gap:
  assumes "length xs < pos"
  shows "write_at pos d t xs = overwrite (length xs) (replicate (pos - length xs) 0 @ d) t xs"
  using assms by (simp add: write_at_def overwrite_def)

lemma write_at_inside: "pos \<le> length xs \<Longrightarrow> write_at pos d t xs = overwrite pos d t xs"
  by (simp add: write_at_def)

lemma loop_frame_fits: "loop_frame f g \<Longrightarrow> write_fits g offset e = write_fits f offset e"
  by (simp add: loop_frame_def write_fits_def Let_def provider_bounds_def)

lemma write_fits_bounds:
  assumes "rw_view env chs f plain" and "write_fits f offset e"
  defines "n \<equiv> ce_chunkSize (io_encryptor (rw_io f))"
  shows "provider_bounds (io_provider (rw_io f)) (length (file_data chs) + Suc ((e - 1) div n) * encrypted_len n)"
    and "(e - 1) div n * encrypted_len n \<le> length (file_data chs) + Suc ((e - 1) div n) * encrypted_len n"
  using assms by (simp_all add: write_fits_def Let_def rw_view_def)

text \<open>The steps of \<open>write\<close>, with the padded data and the clamped offset.\<close>

lemma write_unfold:
  fixes f :: "'s rw_file" and offset :: nat and data plain :: bytes
  assumes v: "rw_view env chs f plain" and data: "data \<noteq> []" and len: "offset + length data < 2 ^ 63"
  defines "n \<equiv> ce_chunkSize (io_encryptor (rw_io f))"
  defines "offset' \<equiv> min offset (length plain)"
  defines "toSend \<equiv> replicate (offset - length plain) 0 @ data"
  shows "FileHandler_write env offset data t f
    = bindS (write_chunks env (offset' div n) ((offset' + length toSend - 1) div n) offset' toSend t
        [offset' div n..<Suc ((offset' + length toSend - 1) div n)] 0 [])
        (\<lambda>us. FileHandler_commit env us t) f"
    and "offset' + length toSend = offset + length data" and "toSend \<noteq> []" and "length toSend < 2 ^ 63"
    and "offset' \<le> length plain"
    and "overwrite offset' toSend t plain = write_at offset data t plain"
proof -
  show sum: "offset' + length toSend = offset + length data" by (simp add: offset'_def toSend_def)
  show "toSend \<noteq> []" using data by (simp add: toSend_def)
  show "length toSend < 2 ^ 63" using sum len by linarith
  show "offset' \<le> length plain" by (simp add: offset'_def)
  show "overwrite offset' toSend t plain = write_at offset data t plain"
    by (cases "length plain < offset") (simp_all add: write_at_gap write_at_inside offset'_def toSend_def)
  have 1: "(if length plain < offset then replicate (offset - length plain) 0 @ data else data) = toSend"
    "(if length plain < offset then length plain else offset) = offset'"
    by (auto simp: toSend_def offset'_def)
  have "1 \<le> offset' + length toSend" using sum data by (simp add: Suc_le_eq)
  then have "usub64 (u64 (offset' + length toSend)) 1 = offset' + length toSend - 1"
    using sum len by (simp add: u64_id usub64_id)
  then show "FileHandler_write env offset data t f
    = bindS (write_chunks env (offset' div n) ((offset' + length toSend - 1) div n) offset' toSend t
        [offset' div n..<Suc ((offset' + length toSend - 1) div n)] 0 [])
        (\<lambda>us. FileHandler_commit env us t) f"
    unfolding FileHandler_write_def Let_def rw_viewD(2) [OF v] 1 using data
    by (simp add: filePosToFileChunkIndex_def ChunkEncryptor_getPlainChunkSize_def n_def del: upt_Suc)
qed

lemma write_prepared:
  fixes f :: "'s rw_file" and offset :: nat and data plain :: bytes
  assumes v: "rw_view env chs f plain" and data: "data \<noteq> []" and len: "offset + length data < 2 ^ 63"
    and fits: "provider_bounds (io_provider (rw_io f)) (length (file_data chs)
      + Suc ((offset + length data - 1) div ce_chunkSize (io_encryptor (rw_io f)))
        * encrypted_len (ce_chunkSize (io_encryptor (rw_io f))))"
  defines "n \<equiv> ce_chunkSize (io_encryptor (rw_io f))" and "off \<equiv> min offset (length plain)"
  defines "send \<equiv> replicate (offset - length plain) 0 @ data"
  defines "start \<equiv> off div n" and "stop \<equiv> (off + length send - 1) div n"
  defines "d \<equiv> take (off mod n) (drop (start * n) plain) @ send"
  shows "\<exists>us f1. FileHandler_write env offset data t f = FileHandler_commit env us t f1 \<and>
    updates_for (fe_crypto env) (io_encryptor (rw_io f)) plain (length (file_data chs)) t stop start (chunks n d) us \<and>
    rw_view env chs f1 plain \<and> loop_frame f f1 \<and> fetched f1 (file_data chs) stop"
    and "start + length (chunks n d) = Suc stop"
proof -
  note W = write_unfold(2-5) [OF v data len]
  have B: "provider_bounds (io_provider (rw_io f)) (length (file_data chs) + Suc stop * encrypted_len n)"
    "stop * encrypted_len n \<le> length (file_data chs) + Suc stop * encrypted_len n"
    using fits by (simp_all only: stop_def off_def send_def W(1) n_def) simp
  show "start + length (chunks n d) = Suc stop"
    using write_chunks_ok(2) [OF v B [unfolded stop_def off_def send_def n_def] W(4,2,3)] by (simp add: d_def start_def stop_def n_def off_def send_def)
  obtain us f1 where u: "write_chunks env start stop off send t [start..<Suc stop] 0 [] f = (Inr us, f1)"
    "updates_for (fe_crypto env) (io_encryptor (rw_io f)) plain (length (file_data chs)) t stop start (chunks n d) us"
    "rw_view env chs f1 plain" "loop_frame f f1" "fetched f1 (file_data chs) stop"
    using write_chunks_ok(1) [OF v B [unfolded stop_def off_def send_def n_def] W(4,2,3), of t]
    unfolding d_def start_def stop_def n_def off_def send_def by blast
  have "FileHandler_write env offset data t f = FileHandler_commit env us t f1"
    using u(1) write_unfold(1) [OF v data len, of t]
    by (simp add: bindS_def start_def stop_def n_def off_def send_def)
  with u(2-) show "\<exists>us f1. FileHandler_write env offset data t f = FileHandler_commit env us t f1 \<and>
    updates_for (fe_crypto env) (io_encryptor (rw_io f)) plain (length (file_data chs)) t stop start (chunks n d) us \<and>
    rw_view env chs f1 plain \<and> loop_frame f f1 \<and> fetched f1 (file_data chs) stop" by blast
qed

lemma FileHandler_write_ok:
  assumes v: "rw_view env chs f plain" and data: "data \<noteq> []" and len: "offset + length data < 2 ^ 63"
    and fits: "write_fits f (min offset (length plain)) (offset + length data)"
    and srv: "applies_writes (fe_api env) (fi_fileId (fh_fileInfo (rw_handler f)))" and meta: "meta_encrypts env (rw_handler f)"
  shows "\<exists>f' chs'. FileHandler_write env offset data t f = (Inr (), f') \<and>
    rw_view env chs' f' (write_at offset data t plain) \<and> io_encryptor (rw_io f') = io_encryptor (rw_io f) \<and>
    cdp_serverChunkSize (io_provider (rw_io f')) = cdp_serverChunkSize (io_provider (rw_io f)) \<and>
    fh_version (rw_handler f') = fh_version (rw_handler f) + 1 \<and>
    fh_fileInfo (rw_handler f') = fh_fileInfo (rw_handler f)"
proof -
  note W = write_unfold(2-5) [OF v data len]
  obtain us f1 where u: "FileHandler_write env offset data t f = FileHandler_commit env us t f1"
    "updates_for (fe_crypto env) (io_encryptor (rw_io f)) plain (length (file_data chs)) t
      ((min offset (length plain) + length (replicate (offset - length plain) 0 @ data) - 1)
         div ce_chunkSize (io_encryptor (rw_io f)))
      (min offset (length plain) div ce_chunkSize (io_encryptor (rw_io f)))
      (chunks (ce_chunkSize (io_encryptor (rw_io f)))
        (take (min offset (length plain) mod ce_chunkSize (io_encryptor (rw_io f)))
          (drop (min offset (length plain) div ce_chunkSize (io_encryptor (rw_io f))
             * ce_chunkSize (io_encryptor (rw_io f))) plain) @ replicate (offset - length plain) 0 @ data)) us"
    "rw_view env chs f1 plain" "loop_frame f f1"
    "fetched f1 (file_data chs)
      ((min offset (length plain) + length (replicate (offset - length plain) 0 @ data) - 1)
         div ce_chunkSize (io_encryptor (rw_io f)))"
    using write_prepared(1) [OF v data len write_fits_bounds(1) [OF v fits], of t] by blast
  note cnt = write_prepared(2) [OF v data len write_fits_bounds(1) [OF v fits]]
  have f1: "io_encryptor (rw_io f1) = io_encryptor (rw_io f)" "rw_handler f1 = rw_handler f"
    "cdp_serverChunkSize (io_provider (rw_io f1)) = cdp_serverChunkSize (io_provider (rw_io f))"
    using u(4) by (simp_all add: loop_frame_def)
  have fits1: "write_fits f1 (min offset (length plain))
      (min offset (length plain) + length (replicate (offset - length plain) 0 @ data))"
    using fits unfolding loop_frame_fits [OF u(4)] W(1) .
  show ?thesis
    using commit_ok [OF u(3) W(4,2) u(2) [folded f1(1)] cnt [folded f1(1)] u(5) [folded f1(1)] fits1] srv meta
    unfolding u(1) write_unfold(6) [OF v data len] f1 by simp
qed

subsection \<open>A write that fails\<close>

text \<open>
  The digests of the prepared chunks are written to the list before anything is sent. What
  follows depends on where the failure happens.
\<close>

lemma prepared_digests:
  assumes v: "rw_view env chs f plain" and us: "updates_for c e plain l t stop start ds us"
    and ne: "ds \<noteq> []" and cnt: "start + length ds = Suc stop" and start: "start \<le> length chs"
  shows "\<exists>h'. set_digests us t (io_hashes (rw_io f)) = (Inr (), h') \<and> HmacList_shape h' \<and>
    HmacList_inv (fe_crypto env) h' \<and>
    HmacList_hashes h' = overwrite start (map (chunk_hmac \<circ> uc_chunk) us) t (map chunk_hmac chs)"
proof -
  note fv = file_viewD [OF rw_viewD(1) [OF v]]
  have us': "us \<noteq> []" "length us = length ds" using us ne by (auto simp: updates_for_def)
  have idx: "map uc_chunkIndex us = [start..<Suc stop]"
  proof (rule nth_equalityI)
    show "length (map uc_chunkIndex us) = length [start..<Suc stop]"
      unfolding length_map length_upt using cnt us'(2) by linarith
    fix k assume "k < length (map uc_chunkIndex us)"
    then show "map uc_chunkIndex us ! k = [start..<Suc stop] ! k"
      using us cnt us'(2) by (simp add: updates_for_def rewritten_def Let_def del: upt_Suc)
  qed
  have "\<forall>u \<in> set us. length (chunk_hmac (uc_chunk u)) = 32"
    using us by (auto simp: updates_for_def rewritten_def Let_def in_set_conv_nth)
  from set_digests_ok [OF fv(3) _ us'(1) idx this, of t] start
  obtain h' where "set_digests us t (io_hashes (rw_io f)) = (Inr (), h')" "HmacList_shape h'"
    "HmacList_hashes h' = overwrite start (map (chunk_hmac \<circ> uc_chunk) us) t (map chunk_hmac chs)"
    by (auto simp: fv(4))
  moreover have "HmacList_inv (fe_crypto env) (snd (set_digests us t (io_hashes (rw_io f))))"
    by (rule set_digests_inv [OF rw_viewD(7) [OF v]])
  ultimately show ?thesis by simp
qed

text \<open>A Bridge that refuses every write with one exception and stays as it is.\<close>

definition refuses_writes :: "('s, 'm) store_server \<Rightarrow> exn \<Rightarrow> bool" where
  "refuses_writes api e \<longleftrightarrow> (\<forall>m s. storeFileWrite api m s = (Inl e, s))"

lemma updateOnServer_refused:
  assumes "refuses_writes (fe_api env) e" and "changes \<noteq> []"
  shows "FileHandler_updateOnServer env changes m k t h s = (Inl e, s)"
proof -
  have "chunks (SERVER_OPERATIONS_LIMIT div 2) (zip [0..<length changes] changes) \<noteq> []"
    using assms(2) by (simp add: SERVER_OPERATIONS_LIMIT_def chunks_rec)
  then obtain b bs where "chunks (SERVER_OPERATIONS_LIMIT div 2) (zip [0..<length changes] changes) = b # bs"
    by (cases "chunks (SERVER_OPERATIONS_LIMIT div 2) (zip [0..<length changes] changes)") auto
  then show ?thesis
    using assms(1) by (simp add: FileHandler_updateOnServer_def refuses_writes_def bindS_def)
qed

lemma squash_nonempty: "us \<noteq> [] \<Longrightarrow> createListOfUpdateChanges n us \<noteq> []"
proof -
  have "r \<noteq> [] \<Longrightarrow> foldl (squash_step n) r xs \<noteq> []" for r xs
    by (induction xs arbitrary: r) (simp_all add: squash_step_def Let_def)
  then show "us \<noteq> [] \<Longrightarrow> createListOfUpdateChanges n us \<noteq> []"
    by (simp add: createListOfUpdateChanges_def split: list.split)
qed

lemma commit_refused:
  assumes v: "rw_view env chs f plain" and us: "updates_for c e plain l t stop start ds us"
    and ne: "ds \<noteq> []" and cnt: "start + length ds = Suc stop" and start: "start \<le> length chs"
    and srv: "refuses_writes (fe_api env) ex" "caught ex" and meta: "meta_encrypts env (rw_handler f)"
  shows "\<exists>f'. FileHandler_commit env us t f = (Inl ex, f') \<and> rw_view env chs f' plain \<and>
    rw_handler f' = rw_handler f"
proof -
  let ?io = "rw_io f" and ?h = "rw_handler f"
  note r = rw_viewD [OF v]
  note fv = file_viewD [OF r(1)]
  obtain h1 where h1: "set_digests us t (io_hashes ?io) = (Inr (), h1)" "HmacList_shape h1"
    "HmacList_inv (fe_crypto env) h1"
    using prepared_digests [OF v us ne cnt start] by blast
  obtain topH h2 where h2: "HmacList_getTopHash (fe_crypto env) h1 = (topH, h2)" by fastforce
  have shape2: "HmacList_shape h2" "HmacList_inv (fe_crypto env) h2"
    using getTopHash_keeps [OF h1(2), of "fe_crypto env"] HmacList_other_inv(3) [OF h1(3)] by (simp_all add: h2)
  have all: "HmacList_getAll (io_hashes ?io) = concat (map chunk_hmac chs)"
    using hl.get_all_hashes [OF fv(3)] by (simp add: fv(4))
  obtain h3 where h3: "HmacList_setAll (concat (map chunk_hmac chs)) h2 = (Inr (), h3)" "HmacList_shape h3"
    "HmacList_hashes h3 = map chunk_hmac chs"
    using hl.set_all_hashes [OF shape2(1) sealed_checksums [OF fv(2)]] by blast
  have inv3: "HmacList_inv (fe_crypto env) h3"
    using HmacList_other_inv(2) [OF shape2(2), of "concat (map chunk_hmac chs)"] h3(1) by simp
  have usne: "us \<noteq> []" using us ne by (auto simp: updates_for_def)
  note refused = updateOnServer_refused [OF srv(1) squash_nonempty [OF usne]]
  let ?m' = "(fh_fileMeta ?h)\<lparr>fm_internalFileMeta := (fm_internalFileMeta (fh_fileMeta ?h))
    \<lparr>im_hmac := fe_base64 env topH,
      im_size := s64 (int (add_changes (map uc_plainfileSizeChange us) (fh_plainfileSize ?h)))\<rparr>\<rparr>"
  obtain m draws where m: "fe_encryptMeta env (fh_fileInfo ?h) ?m' (fh_fileEncKey ?h)
      (dk_dataStructureVersion (fh_fileEncKey ?h)) (io_draws ?io) = (Inr m, draws)"
    using meta unfolding meta_encrypts_def by blast
  have commit: "FileHandler_commit env us t f = (Inl ex, f\<lparr>rw_io := ?io\<lparr>io_hashes := h3, io_draws := draws\<rparr>\<rparr>)"
    unfolding FileHandler_commit_def Let_def h1(1) prod.case sum.case h2 all m
    using srv(2) h3(1) by (simp add: refused)
  have "rw_view env chs (f\<lparr>rw_io := ?io\<lparr>io_hashes := h3, io_draws := draws\<rparr>\<rparr>) plain"
    using v h3(2,3) inv3 by (simp add: rw_view_def Let_def file_view_def)
  with commit show ?thesis by simp
qed

subsection \<open>Reading\<close>

lemma FileHandler_read_ok:
  assumes v: "rw_view env chs f plain" and "pos + len < 2 ^ 64"
  shows "\<exists>f'. FileHandler_read env pos len f = (Inr (take len (drop pos plain)), f') \<and>
    rw_view env chs f' plain \<and> rw_handler f' = rw_handler f"
proof -
  note r = rw_viewD [OF v]
  note fv = file_viewD [OF r(1)]
  have "length plain < 2 ^ 63"
    using sealed_plain_length [OF fv(2,12)] fv(7) by (simp add: provider_bounds_def)
  then have "length plain < 2 ^ 64" by simp
  let ?fr = "\<lparr>fr_plainfileSize = length plain, fr_version = 0\<rparr>"
  obtain io where io: "FileReader_read (fe_crypto env) (fe_api env) ?fr pos len (rw_io f)
      = (Inr (take len (drop pos plain)), io)"
    "file_view (fe_crypto env) (fe_api env) (fh_version (rw_handler f)) chs io plain" "same_file (rw_io f) io"
    using FileReader_read_view [OF r(1), of ?fr pos len] \<open>length plain < 2 ^ 64\<close> assms(2) by auto
  have "FileHandler_read env pos len f
      = (case FileReader_read (fe_crypto env) (fe_api env) ?fr pos len (rw_io f) of (x, io) \<Rightarrow> (x, f\<lparr>rw_io := io\<rparr>))"
    unfolding FileHandler_read_def FileReader_read_def r(2) on_io_def Let_def FileReader.select_convs
    by (simp only: if_distrib [where f = "\<lambda>y. case y of (x, io) \<Rightarrow> (x, f\<lparr>rw_io := io\<rparr>)"] prod.case rw_file.surjective)
      (simp del: upt_Suc)
  then have "FileHandler_read env pos len f = (Inr (take len (drop pos plain)), f\<lparr>rw_io := io\<rparr>)"
    by (simp add: io(1))
  moreover have "rw_view env chs (f\<lparr>rw_io := io\<rparr>) plain"
    using v io(2,3) by (simp add: rw_view_def Let_def same_file_def)
  ultimately show ?thesis by simp
qed

subsection \<open>A concrete file\<close>

definition sample_meta :: FileMeta where
  "sample_meta = \<lparr>fm_publicMeta = [], fm_privateMeta = [],
     fm_internalFileMeta = \<lparr>im_version = 4, im_size = 5, im_cipherType = 1, im_chunkSize = 4, im_key = [],
       im_hmac = [], im_randomWrite = Some True\<rparr>\<rparr>"

definition sample_rw :: "sample_state rw_file" where
  "sample_rw = \<lparr>rw_handler = FileHandler_new \<lparr>ce_key = [9], ce_chunkSize = 4\<rparr> 5 128 1
     \<lparr>fi_contextId = ''c'', fi_storeId = ''s'', fi_storeResourceId = ''sr'', fi_fileId = ''f'', fi_resourceId = ''r''\<rparr>
     sample_meta \<lparr>dk_id = ''k'', dk_key = [], dk_dataStructureVersion = 2, dk_statusCode = 0\<rparr>,
     rw_io = sample_io\<rparr>"

definition sample_env :: "(sample_state, unit) store_server \<Rightarrow> (sample_state, unit) file_env" where
  "sample_env api = \<lparr>fe_crypto = sample_crypto, fe_api = api, fe_base64 = (\<lambda>b. []),
     fe_encryptMeta = (\<lambda>i m k v r. (Inr (), r))\<rparr>"

lemma sample_env_simps [simp]:
  "fe_crypto (sample_env api) = sample_crypto" "fe_api (sample_env api) = api" "meta_encrypts (sample_env api) h"
  by (simp_all add: sample_env_def meta_encrypts_def)

lemma sample_rw_simps [simp]:
  "rw_io sample_rw = sample_io" "io_encryptor sample_io = \<lparr>ce_key = [9], ce_chunkSize = 4\<rparr>"
  "fh_version (rw_handler sample_rw) = 1" "fh_encryptedFileSize (rw_handler sample_rw) = 128"
  "fi_fileId (fh_fileInfo (rw_handler sample_rw)) = ''f''"
  by (simp_all add: sample_rw_def FileHandler_new_def sample_opens(3))

lemma sample_rw_view: "rw_view (sample_env sample_api) sample_chunks sample_rw sample_plain"
proof -
  have "ChunkEncryptor_getEncryptedChunkSize \<lparr>ce_key = [9], ce_chunkSize = 4\<rparr> = encrypted_len 4"
    by (simp add: getEncryptedChunkSize_eq)
  then show ?thesis
    using sample_opens(2,5,6) sample_size
    by (simp add: rw_view_def Let_def) (simp add: sample_rw_def FileHandler_new_def sample_plain_def
        ChunkEncryptor_getPlainChunkSize_def)
qed

lemma sample_fits_write: "e \<le> 100 \<Longrightarrow> write_fits sample_rw off e"
proof -
  assume "e \<le> 100"
  then have "(e - 1) div 4 \<le> 24" by simp
  then show ?thesis
    by (simp add: write_fits_def Let_def provider_bounds_def sample_provider encrypted_len_def
        SERVER_OPERATION_SIZE_LIMIT_def)
qed

lemma sample_api_applies: "applies_writes sample_api fid"
  by (rule sample_bridge_applies)

subsection \<open>Properties\<close>

text \<open>
  C1. A write that the Bridge accepts implements writing into a byte string. From a handle whose
  objects represent content \<open>plain\<close>, \<open>FileHandler::write\<close> of nonempty data returns, and the
  objects then represent \<open>plain\<close> with the data written at the offset, a gap behind the end
  filled with zeros, and cut after the data when the truncate flag is set. \<open>rw_view\<close> says that
  the content on the Bridge, its digests, the digest list, both caches, both sizes and the
  version agree with the content. The write must fit one operation of the Bridge
  (\<open>SERVER_OPERATION_SIZE_LIMIT\<close>) and the 32-bit chunk numbers.
\<close>

theorem FileHandler_write_refines:
  assumes "rw_view env chs f plain" and "data \<noteq> []" and "offset + length data < 2 ^ 63"
    and "write_fits f (min offset (length plain)) (offset + length data)"
    and "applies_writes (fe_api env) (fi_fileId (fh_fileInfo (rw_handler f)))" and "meta_encrypts env (rw_handler f)"
  shows "\<exists>f' chs'. FileHandler_write env offset data t f = (Inr (), f') \<and>
    rw_view env chs' f' (write_at offset data t plain) \<and>
    fh_version (rw_handler f') = fh_version (rw_handler f) + 1"
  using FileHandler_write_ok [OF assms, of t] by blast

text \<open>
  What was written is what is read: after an accepted write a read of any range returns the
  bytes of the written content, on the same handle, through its caches.
\<close>

theorem FileHandler_write_read:
  assumes "rw_view env chs f plain" and "data \<noteq> []" and "offset + length data < 2 ^ 63"
    and "write_fits f (min offset (length plain)) (offset + length data)"
    and "applies_writes (fe_api env) (fi_fileId (fh_fileInfo (rw_handler f)))" and "meta_encrypts env (rw_handler f)"
    and "pos + len < 2 ^ 64"
  shows "fst (bindS (FileHandler_write env offset data t) (\<lambda>_. FileHandler_read env pos len) f)
    = Inr (take len (drop pos (write_at offset data t plain)))"
  using FileHandler_write_ok [OF assms(1-6), of t] FileHandler_read_ok [OF _ assms(7), of env]
  by (fastforce simp: bindS_def)

theorem FileHandler_write_read_witness:
  "fst (bindS (FileHandler_write (sample_env sample_api) 1 [7] True)
     (\<lambda>_. FileHandler_read (sample_env sample_api) 0 100) sample_rw) = Inr [1, 7]"
proof -
  have "write_at 1 [7] True sample_plain = [1, 7]" by (simp add: write_at_def overwrite_def sample_plain_def)
  then show ?thesis
    using FileHandler_write_read [OF sample_rw_view, of "[7]" 1 0 100 True]
      sample_fits_write [of "Suc (Suc 0)"] sample_api_applies [of "''f''"] by (simp add: sample_plain_def)
qed

text \<open>
  C29. A write that the Bridge refuses is rolled back: the exception reaches the caller and the
  handle still represents the old content, so that later reads and writes work as if the write
  had not been tried.
\<close>

theorem FileHandler_write_refused:
  assumes v: "rw_view env chs f plain" and data: "data \<noteq> []" and len: "offset + length data < 2 ^ 63"
    and fits: "write_fits f (min offset (length plain)) (offset + length data)"
    and srv: "refuses_writes (fe_api env) e" "caught e" and meta: "meta_encrypts env (rw_handler f)"
  shows "\<exists>f'. FileHandler_write env offset data t f = (Inl e, f') \<and> rw_view env chs f' plain \<and>
    rw_handler f' = rw_handler f"
proof -
  let ?n = "ce_chunkSize (io_encryptor (rw_io f))"
  have n: "0 < ?n" using file_viewD(12) [OF rw_viewD(1) [OF v]] .
  have "min offset (length plain) div ?n * ?n \<le> length plain"
    by (meson div_times_less_eq_dividend le_trans min.cobounded2)
  then have start: "min offset (length plain) div ?n \<le> length chs"
    by (rule sealed_start(1) [OF file_viewD(2) [OF rw_viewD(1) [OF v]] n])
  let ?off = "min offset (length plain)" and ?send = "replicate (offset - length plain) 0 @ data"
  let ?d = "take (?off mod ?n) (drop (?off div ?n * ?n) plain) @ ?send"
  have ne: "chunks ?n ?d \<noteq> []" using data n by (simp add: chunks_rec)
  obtain us f1 where u: "FileHandler_write env offset data t f = FileHandler_commit env us t f1"
    "updates_for (fe_crypto env) (io_encryptor (rw_io f)) plain (length (file_data chs)) t
      ((?off + length ?send - 1) div ?n) (?off div ?n) (chunks ?n ?d) us"
    "rw_view env chs f1 plain" "loop_frame f f1"
    using write_prepared(1) [OF v data len write_fits_bounds(1) [OF v fits], of t] by blast
  show ?thesis
    using commit_refused [OF u(3,2) ne write_prepared(2) [OF v data len write_fits_bounds(1) [OF v fits]] start srv] meta u(1,4)
    by (auto simp: loop_frame_def)
qed

text \<open>
  The rollback does not cover the encryption of the meta data: when it throws, the exception
  reaches the caller and nothing was sent, but the digest list keeps the digests of the chunks
  that were never stored, so the handle no longer represents the file.
\<close>

theorem FileHandler_meta_failure_not_rolled_back:
  assumes v: "rw_view env chs f plain" and data: "data \<noteq> []" and len: "offset + length data < 2 ^ 63"
    and fits: "write_fits f (min offset (length plain)) (offset + length data)"
    and meta: "\<And>m r. fst (fe_encryptMeta env (fh_fileInfo (rw_handler f)) m (fh_fileEncKey (rw_handler f))
      (dk_dataStructureVersion (fh_fileEncKey (rw_handler f))) r) = Inl e"
  shows "\<exists>f' digests. FileHandler_write env offset data t f = (Inl e, f') \<and> digests \<noteq> [] \<and>
    io_server (rw_io f') = io_server (rw_io f) \<and>
    HmacList_hashes (io_hashes (rw_io f'))
      = overwrite (min offset (length plain) div ce_chunkSize (io_encryptor (rw_io f))) digests t (map chunk_hmac chs)"
proof -
  let ?n = "ce_chunkSize (io_encryptor (rw_io f))"
  have n: "0 < ?n" using file_viewD(12) [OF rw_viewD(1) [OF v]] .
  have "min offset (length plain) div ?n * ?n \<le> length plain"
    by (meson div_times_less_eq_dividend le_trans min.cobounded2)
  then have start: "min offset (length plain) div ?n \<le> length chs"
    by (rule sealed_start(1) [OF file_viewD(2) [OF rw_viewD(1) [OF v]] n])
  let ?off = "min offset (length plain)" and ?send = "replicate (offset - length plain) 0 @ data"
  let ?d = "take (?off mod ?n) (drop (?off div ?n * ?n) plain) @ ?send"
  have ne: "chunks ?n ?d \<noteq> []" using data n by (simp add: chunks_rec)
  obtain us f1 where u: "FileHandler_write env offset data t f = FileHandler_commit env us t f1"
    "updates_for (fe_crypto env) (io_encryptor (rw_io f)) plain (length (file_data chs)) t
      ((?off + length ?send - 1) div ?n) (?off div ?n) (chunks ?n ?d) us"
    "rw_view env chs f1 plain" "loop_frame f f1"
    using write_prepared(1) [OF v data len write_fits_bounds(1) [OF v fits], of t] by blast
  have us: "us \<noteq> []" using u(2) ne by (auto simp: updates_for_def)
  obtain h1 where h1: "set_digests us t (io_hashes (rw_io f1)) = (Inr (), h1)" "HmacList_shape h1"
    "HmacList_hashes h1 = overwrite (?off div ?n) (map (chunk_hmac \<circ> uc_chunk) us) t (map chunk_hmac chs)"
    using prepared_digests [OF u(3,2) ne write_prepared(2) [OF v data len write_fits_bounds(1) [OF v fits]] start] by blast
  obtain topH h2 where h2: "HmacList_getTopHash (fe_crypto env) h1 = (topH, h2)" by fastforce
  have hashes: "HmacList_hashes h2 = HmacList_hashes h1"
    using getTopHash_keeps [OF h1(2), of "fe_crypto env"] by (simp add: h2)
  let ?h = "rw_handler f1"
  let ?m' = "(fh_fileMeta ?h)\<lparr>fm_internalFileMeta := (fm_internalFileMeta (fh_fileMeta ?h))
    \<lparr>im_hmac := fe_base64 env topH,
      im_size := s64 (int (add_changes (map uc_plainfileSizeChange us) (fh_plainfileSize ?h)))\<rparr>\<rparr>"
  obtain draws where m: "fe_encryptMeta env (fh_fileInfo ?h) ?m' (fh_fileEncKey ?h)
      (dk_dataStructureVersion (fh_fileEncKey ?h)) (io_draws (rw_io f1)) = (Inl e, draws)"
    using meta u(4) unfolding loop_frame_def by (metis prod.collapse)
  have "FileHandler_commit env us t f1 = (Inl e, f1\<lparr>rw_io := (rw_io f1)\<lparr>io_hashes := h2, io_draws := draws\<rparr>\<rparr>)"
    unfolding FileHandler_commit_def Let_def h1(1) prod.case sum.case h2 m by simp
  then show ?thesis
    using u(1,4) us hashes h1(3)
    by (intro exI [of _ "f1\<lparr>rw_io := (rw_io f1)\<lparr>io_hashes := h2, io_draws := draws\<rparr>\<rparr>"]
        exI [of _ "map (chunk_hmac \<circ> uc_chunk) us"]) (simp add: loop_frame_def)
qed

theorem FileHandler_meta_failure_not_rolled_back_witness:
  "\<exists>f' digests. FileHandler_write ((sample_env sample_api)\<lparr>fe_encryptMeta :=
        (\<lambda>i m k v r. (Inl (CoreExn UnknownEncryptionKeyVersionException), r))\<rparr>) 0 [7] False sample_rw
      = (Inl (CoreExn UnknownEncryptionKeyVersionException), f') \<and> digests \<noteq> [] \<and>
    HmacList_hashes (io_hashes (rw_io f')) = overwrite 0 digests False (map chunk_hmac sample_chunks)"
proof -
  let ?e = "CoreExn UnknownEncryptionKeyVersionException"
  let ?env = "(sample_env sample_api)\<lparr>fe_encryptMeta := (\<lambda>i m k v r. (Inl ?e, r))\<rparr>"
  have v: "rw_view ?env sample_chunks sample_rw sample_plain"
    using sample_rw_view by (simp add: rw_view_def)
  have "\<And>i m k v r. fst (fe_encryptMeta ?env i m k v r) = Inl ?e" by simp
  then show ?thesis
    using FileHandler_meta_failure_not_rolled_back [OF v, of "[7]" 0 ?e False] sample_fits_write [of "Suc 0"]
    by fastforce
qed

text \<open>
  Squashing keeps the first change at the head. It takes in the chunks after its own as long as it stays
  below \<open>SERVER_OPERATION_SIZE_LIMIT\<close>.
\<close>

lemma squash_keeps_head:
  "r \<noteq> [] \<Longrightarrow> \<exists>r'. foldl (squash_step n) (u # r) us = u # r' \<and> r' \<noteq> []"
proof (induction us arbitrary: r)
  case (Cons v us)
  then have "\<exists>r2. squash_step n (u # r) v = u # r2 \<and> r2 \<noteq> []" by (simp add: squash_step_def Let_def)
  then show ?case using Cons.IH by fastforce
qed simp

lemma squash_head:
  assumes "map uc_chunkIndex us = [i..<i + length us]"
    and "full_but_last n (map (\<lambda>u. chunk_data (uc_chunk u)) us) \<or> us = []"
    and "length d = (i - a) * n" and "a \<le> i" and "(i + length us) * n < 2 ^ 64"
    and "length d + length (concat (map (\<lambda>u. chunk_data (uc_chunk u)) us)) \<ge> SERVER_OPERATION_SIZE_LIMIT" and "us \<noteq> []"
  shows "\<exists>j s' r. foldl (squash_step n) [\<lparr>us_data = d, us_dataPos = a * n, us_checksum = s, us_checksumPos = q\<rparr>] us
    = \<lparr>us_data = d @ concat (map (\<lambda>u. chunk_data (uc_chunk u)) (take j us)), us_dataPos = a * n,
        us_checksum = s', us_checksumPos = q\<rparr> # r \<and> r \<noteq> [] \<and> j < length us"
  using assms
proof (induction us arbitrary: i d s)
  case (Cons u us)
  have "[i..<i + length (u # us)] = i # [Suc i..<Suc i + length us]" by (simp add: upt_rec)
  then have i: "uc_chunkIndex u = i" "map uc_chunkIndex us = [Suc i..<Suc i + length us]"
    using Cons.prems(1) by simp_all
  have "a * n + (i - a) * n = i * n" using Cons.prems(4) by (metis add_mult_distrib le_add_diff_inverse)
  moreover have "i * n < 2 ^ 64" using Cons.prems(5) by (simp add: add_mult_distrib)
  ultimately have pos: "u64 (a * n + length d) = i * n" "u64 (i * n) = i * n"
    using Cons.prems(3) by (simp_all add: u64_id)
  let ?small = "length d + length (chunk_data (uc_chunk u)) < SERVER_OPERATION_SIZE_LIMIT"
  let ?h = "\<lparr>us_data = d, us_dataPos = a * n, us_checksum = s, us_checksumPos = q\<rparr>"
  show ?case
  proof (cases ?small)
    case False
    then have "\<exists>v. squash_step n [?h] u = [?h, v]" by (simp add: squash_step_def Let_def)
    then obtain v where "squash_step n [?h] u = [?h, v]" by blast
    then show ?thesis using squash_keeps_head [of "[v]" n ?h us] by (fastforce intro: exI [of _ 0])
  next
    case True
    then have step: "squash_step n [?h] u = [\<lparr>us_data = d @ chunk_data (uc_chunk u), us_dataPos = a * n,
        us_checksum = s @ chunk_hmac (uc_chunk u), us_checksumPos = q\<rparr>]"
      by (simp add: squash_step_def Let_def pos i(1))
    have ne: "us \<noteq> []" using True Cons.prems(6) by auto
    then have "length (chunk_data (uc_chunk u)) = n" "full_but_last n (map (\<lambda>u. chunk_data (uc_chunk u)) us)"
      using Cons.prems(2) by (simp_all add: full_but_last_Cons)
    moreover have "Suc i - a = Suc (i - a)" using Cons.prems(4) by simp
    ultimately obtain j s' r where "foldl (squash_step n) [\<lparr>us_data = d @ chunk_data (uc_chunk u), us_dataPos = a * n,
        us_checksum = s @ chunk_hmac (uc_chunk u), us_checksumPos = q\<rparr>] us
      = \<lparr>us_data = (d @ chunk_data (uc_chunk u)) @ concat (map (\<lambda>u. chunk_data (uc_chunk u)) (take j us)), us_dataPos = a * n,
          us_checksum = s', us_checksumPos = q\<rparr> # r" "r \<noteq> []" "j < length us"
      using Cons.IH [of "Suc i" "d @ chunk_data (uc_chunk u)" "s @ chunk_hmac (uc_chunk u)"] i(2) ne Cons.prems
      by (fastforce simp: add.commute)
    then show ?thesis unfolding foldl.simps step by (intro exI [of _ "Suc j"] exI [of _ s'] exI [of _ r]) simp
  qed
qed simp

lemma squash_several:
  assumes idx: "map uc_chunkIndex us = [a..<b]" and full: "full_but_last n (map chunk_data (map uc_chunk us))"
    and big: "SERVER_OPERATION_SIZE_LIMIT \<le> length (concat (map chunk_data (map uc_chunk us)))"
    and small: "n < SERVER_OPERATION_SIZE_LIMIT" and b: "b * n < 2 ^ 64"
  obtains v w r where "createListOfUpdateChanges n us = v # w # r" and "us_dataPos v = a * n"
    and "a * n + length (us_data v) \<le> (b - 1) * n"
proof -
  obtain u us' where u: "us = u # us'" using full by (cases us) (auto simp: full_but_last_def)
  have ab: "a < b" using idx u by (cases "a < b") auto
  then have "[a..<b] = a # [Suc a..<b]" by (rule upt_conv_Cons)
  then have i: "uc_chunkIndex u = a" "map uc_chunkIndex us' = [Suc a..<b]" using idx u by simp_all
  then have "length us' = b - Suc a" by (metis length_map length_upt)
  then have b': "b = Suc a + length us'" using ab by simp
  have "a * n \<le> b * n" using ab by simp
  then have "a * n < 2 ^ 64" using b by (rule le_less_trans)
  then have pos: "u64 (a * n) = a * n" by (rule u64_id)
  have ne: "us' \<noteq> []" using big full small u by (auto simp: full_but_last_Cons)
  then have fu: "length (chunk_data (uc_chunk u)) = n" "full_but_last n (map (\<lambda>u. chunk_data (uc_chunk u)) us')"
    using full u by (simp_all add: full_but_last_Cons comp_def)
  obtain j s' r where r: "foldl (squash_step n) [\<lparr>us_data = chunk_data (uc_chunk u), us_dataPos = a * n,
        us_checksum = chunk_hmac (uc_chunk u), us_checksumPos = u64 (a * HMAC_SIZE)\<rparr>] us'
      = \<lparr>us_data = chunk_data (uc_chunk u) @ concat (map (\<lambda>u. chunk_data (uc_chunk u)) (take j us')), us_dataPos = a * n,
          us_checksum = s', us_checksumPos = u64 (a * HMAC_SIZE)\<rparr> # r" "r \<noteq> []" "j < length us'"
    using squash_head [of us' "Suc a" n "chunk_data (uc_chunk u)" a "chunk_hmac (uc_chunk u)" "u64 (a * HMAC_SIZE)"]
      i(2) fu ne b b' big u by (force simp: comp_def simp del: upt_Suc)
  have "length (concat (map (\<lambda>u. chunk_data (uc_chunk u)) (take j us'))) \<le> length (map (\<lambda>u. chunk_data (uc_chunk u)) (take j us')) * n"
  proof (rule length_concat_bound)
    have "\<forall>x \<in> set (map (\<lambda>u. chunk_data (uc_chunk u)) us'). length x \<le> n" by (rule full_but_last_le [OF fu(2)])
    then show "\<forall>x \<in> set (map (\<lambda>u. chunk_data (uc_chunk u)) (take j us')). length x \<le> n"
      by (metis in_set_takeD take_map)
  qed
  then have "length (concat (map (\<lambda>u. chunk_data (uc_chunk u)) (take j us'))) \<le> j * n" using r(3) by simp
  moreover have "a * n + n + j * n \<le> (b - 1) * n"
  proof -
    have "a + 1 + j \<le> b - 1" using r(3) b' by simp
    then have "(a + 1 + j) * n \<le> (b - 1) * n" by (rule mult_le_mono1)
    then show ?thesis by (simp add: algebra_simps)
  qed
  moreover obtain w r' where "r = w # r'" using r(2) by (cases r) auto
  ultimately show thesis
    using r(1) fu(1) by (intro that [of "\<lparr>us_data = chunk_data (uc_chunk u) @ concat (map (\<lambda>u. chunk_data (uc_chunk u)) (take j us')),
        us_dataPos = a * n, us_checksum = s', us_checksumPos = u64 (a * HMAC_SIZE)\<rparr>" w r'])
      (simp_all add: createListOfUpdateChanges_def u i(1) pos)
qed

text \<open>The first request of a write that is split: its first operation truncates, whatever was asked for.\<close>

lemma updateOnServer_first:
  assumes "FileHandler_updateOnServer env (u # v # r) m k t h s = (Inr (), s')"
  shows "\<exists>s1 ops. storeFileWrite (fe_api env)
      \<lparr>wm_fileId = fi_fileId (fh_fileInfo h), wm_operations =
         \<lparr>wo_type = ''file'', wo_pos = s64 (int (us_dataPos u)), wo_data = us_data u, wo_truncate = True\<rparr> # ops,
       wm_meta = m, wm_keyId = k, wm_version = fh_version h, wm_force = False\<rparr> s = (Inr (), s1)"
proof -
  have two: "SERVER_OPERATIONS_LIMIT div 2 = 2" by (simp add: SERVER_OPERATIONS_LIMIT_def)
  have "zip [0..<length (u # v # r)] (u # v # r) = [(0, u), (1, v)] @ zip [2..<length (u # v # r)] r"
    by (simp add: upt_conv_Cons numeral_2_eq_2 del: upt_Suc)
  then have "chunks 2 (zip [0..<length (u # v # r)] (u # v # r))
      = [(0, u), (1, v)] # chunks 2 (zip [2..<length (u # v # r)] r)"
    by (simp only:) (rule chunks_append; simp)
  then show ?thesis
    using assms unfolding FileHandler_updateOnServer_def two
    by (auto simp: bindS_def write_operations_def split: prod.splits sum.splits)
qed

lemma commit_updates:
  assumes "FileHandler_commit env us t f = (Inr (), f')"
  obtains m s where "FileHandler_updateOnServer env (createListOfUpdateChanges (fh_encryptedChunkSize (rw_handler f)) us) m
    (dk_id (fh_fileEncKey (rw_handler f))) t (rw_handler f) (io_server (rw_io f)) = (Inr (), s)"
  using assms by (auto simp: FileHandler_commit_def Let_def split: prod.splits sum.splits if_splits)

text \<open>
  The bytes of the encrypted file that a write of the bytes from \<open>a\<close> up to \<open>e\<close> replaces, and the
  size conditions of a write that may be split.
\<close>

definition replaced_len :: "'s rw_file \<Rightarrow> nat \<Rightarrow> nat \<Rightarrow> nat" where
  "replaced_len f a e =
     (let n = ce_chunkSize (io_encryptor (rw_io f)); m = encrypted_len n in
      min (fh_encryptedFileSize (rw_handler f)) (Suc ((e - 1) div n) * m) - a div n * m)"

definition split_fits :: "'s rw_file \<Rightarrow> nat \<Rightarrow> bool" where
  "split_fits f e \<longleftrightarrow>
     (let n = ce_chunkSize (io_encryptor (rw_io f)) in
      provider_bounds (io_provider (rw_io f)) (fh_encryptedFileSize (rw_handler f) + Suc ((e - 1) div n) * encrypted_len n) \<and>
      encrypted_len n < SERVER_OPERATION_SIZE_LIMIT)"

text \<open>The last of the rewritten chunks is at least as long as the chunk it replaces.\<close>

lemma rewritten_total:
  assumes v: "rw_view env chs f plain"
    and us: "updates_for (fe_crypto env) (io_encryptor (rw_io f)) plain l t stop start ds us"
    and cnt: "start + length us = Suc stop" and start: "start \<le> stop" and stop: "stop < length chs"
    and full: "full_but_last (encrypted_len (ce_chunkSize (io_encryptor (rw_io f)))) (map chunk_data (map uc_chunk us))"
    and t: "\<not> t"
  defines "m \<equiv> encrypted_len (ce_chunkSize (io_encryptor (rw_io f)))"
  shows "min (length (file_data chs)) (Suc stop * m) - start * m \<le> length (concat (map chunk_data (map uc_chunk us)))"
proof -
  let ?e = "io_encryptor (rw_io f)" let ?n = "ce_chunkSize ?e" and ?fd = "file_data chs"
  note fv = file_viewD [OF rw_viewD(1) [OF v]]
  have ne: "us \<noteq> []" and k: "stop - start < length us" "start + (stop - start) = stop" using cnt start by auto
  have "length us - 1 = stop - start" using cnt start by linarith
  then have "last us = us ! (stop - start)" using ne by (simp add: last_conv_nth)
  moreover have "rewritten (fe_crypto env) ?e plain l (t \<and> start + (stop - start) = stop) (start + (stop - start))
      (ds ! (stop - start)) (us ! (stop - start))"
    using us k(1) by (simp add: updates_for_def)
  ultimately have r: "rewritten (fe_crypto env) ?e plain l False stop (ds ! (stop - start)) (last us)"
    using t k(2) by simp
  have "length (chunk_data (chs ! stop)) = encrypted_len (length (nth_block ?n stop plain))"
    using fv(2,12) stop by (simp add: sealed_file_def plain_block)
  also have "\<dots> \<le> length (chunk_data (uc_chunk (last us)))"
    using r by (auto simp: rewritten_def Let_def length_overwrite intro!: encrypted_len_mono)
  finally have "length (nth_block m stop ?fd) \<le> length (last (map chunk_data (map uc_chunk us)))"
    using sealed_block [OF fv(2,12), of stop] stop ne by (simp add: m_def last_map)
  then have last: "min m (length ?fd - stop * m) \<le> length (last (map chunk_data (map uc_chunk us)))"
    by (simp add: length_nth_block old_len_def)
  have "\<forall>j. Suc j < length (map chunk_data (map uc_chunk us)) \<longrightarrow> length (map chunk_data (map uc_chunk us) ! j) = m"
    using full_but_last_nth [OF full] by (simp add: m_def)
  from length_concat_full_but_last [OF this]
  have "length (concat (map chunk_data (map uc_chunk us)))
      = (length us - 1) * m + length (last (map chunk_data (map uc_chunk us)))" using ne by simp
  also have "length us - 1 = stop - start" using cnt start by simp
  also have "(stop - start) * m = stop * m - start * m" by (rule diff_mult_distrib)
  finally have total: "length (concat (map chunk_data (map uc_chunk us)))
      = stop * m - start * m + length (last (map chunk_data (map uc_chunk us)))" .
  have "start * m \<le> stop * m" using start by simp
  then show ?thesis unfolding total mult_Suc using last by linarith
qed

text \<open>
  C40. A write that does not fit one operation of the Bridge asks it to cut the file even when the caller
  asked for no truncation: for every change but the last \<open>updateOnServer\<close> sends \<open>truncate = true\<close>.
  When \<open>FileHandler::write\<close> without truncation replaces bytes inside the file, at least
  \<open>SERVER_OPERATION_SIZE_LIMIT\<close> of them in encrypted form, and returns, then the Bridge has accepted a request
  whose first operation is a truncating write of the file's data that ends before the end of the file.
\<close>

theorem FileHandler_split_write_truncates:
  assumes v: "rw_view env chs f plain" and data: "data \<noteq> []" and inside: "offset + length data \<le> length plain"
    and fits: "split_fits f (offset + length data)"
    and big: "SERVER_OPERATION_SIZE_LIMIT \<le> replaced_len f offset (offset + length data)"
    and returns: "FileHandler_write env offset data False f = (Inr (), f')"
  shows "\<exists>request s1 op ops. storeFileWrite (fe_api env) request (io_server (rw_io f)) = (Inr (), s1) \<and>
    wm_fileId request = fi_fileId (fh_fileInfo (rw_handler f)) \<and> wm_operations request = op # ops \<and>
    wo_type op = ''file'' \<and> wo_truncate op \<and>
    wo_pos op = int (offset div ce_chunkSize (io_encryptor (rw_io f)) * encrypted_len (ce_chunkSize (io_encryptor (rw_io f)))) \<and>
    wo_pos op + int (length (wo_data op)) < int (fh_encryptedFileSize (rw_handler f))"
proof -
  let ?n = "ce_chunkSize (io_encryptor (rw_io f))" and ?fd = "file_data chs"
  let ?ecs = "encrypted_len ?n" and ?start = "offset div ?n" and ?stop = "(offset + length data - 1) div ?n"
  let ?d = "take (offset mod ?n) (drop (?start * ?n) plain) @ data"
  note r = rw_viewD [OF v]
  note fv = file_viewD [OF r(1)]
  have pb: "provider_bounds (io_provider (rw_io f)) (length ?fd + Suc ?stop * ?ecs)" and small: "?ecs < SERVER_OPERATION_SIZE_LIMIT"
    using fits r(3) by (simp_all add: split_fits_def Let_def)
  have "length plain < 2 ^ 63" using sealed_plain_length [OF fv(2,12)] fv(7) by (simp add: provider_bounds_def)
  then have len: "offset + length data < 2 ^ 63" using inside by simp
  have clamp: "min offset (length plain) = offset" "replicate (offset - length plain) 0 @ data = data" using inside by simp_all
  obtain us f1 where u: "FileHandler_write env offset data False f = FileHandler_commit env us False f1"
    "updates_for (fe_crypto env) (io_encryptor (rw_io f)) plain (length ?fd) False ?stop ?start (chunks ?n ?d) us" "loop_frame f f1"
    using write_prepared(1) [OF v data len pb, of False] unfolding clamp by blast
  have cnt: "?start + length (chunks ?n ?d) = Suc ?stop" using write_prepared(2) [OF v data len pb] unfolding clamp .
  have le: "?stop * ?ecs \<le> length ?fd + Suc ?stop * ?ecs" by simp
  note R = rewritten_file(4,7) [OF v _ data u(2) cnt pb le]
  have off: "offset \<le> length plain" using inside by simp
  have lus: "length us = length (chunks ?n ?d)" using u(2) by (simp add: updates_for_def)
  have stop: "?start \<le> ?stop" "?stop < length chs"
  proof -
    have "0 < length data" using data by simp
    then show "?start \<le> ?stop" by (intro div_le_mono) linarith
    have "?stop * ?n \<le> offset + length data - 1" by simp
    then have "?stop * ?n < length plain" using inside \<open>0 < length data\<close> by linarith
    then show "?stop < length chs" using chunks_index_less [OF fv(12)] fv(13) by simp
  qed
  have big': "SERVER_OPERATION_SIZE_LIMIT \<le> length (concat (map chunk_data (map uc_chunk us)))"
    using rewritten_total [OF v u(2) _ stop R(1) [OF off]] cnt lus big r(3) by (simp add: replaced_len_def Let_def)
  have "Suc ?stop * ?ecs < 2 ^ 64" using pb by (simp add: provider_bounds_def)
  from squash_several [OF R(2) [OF off] R(1) [OF off] big' small this]
  obtain x w rest where sq: "createListOfUpdateChanges ?ecs us = x # w # rest" "us_dataPos x = ?start * ?ecs"
    "?start * ?ecs + length (us_data x) \<le> (Suc ?stop - 1) * ?ecs" by blast
  have f1: "rw_handler f1 = rw_handler f" "io_server (rw_io f1) = io_server (rw_io f)" using u(3) by (simp_all add: loop_frame_def)
  obtain m s where "FileHandler_updateOnServer env (x # w # rest) m (dk_id (fh_fileEncKey (rw_handler f))) False
      (rw_handler f) (io_server (rw_io f)) = (Inr (), s)"
    using commit_updates [of env us False f1 f'] returns u(1) r(5) sq(1) f1 by auto
  from updateOnServer_first [OF this] obtain s1 ops where req: "storeFileWrite (fe_api env)
      \<lparr>wm_fileId = fi_fileId (fh_fileInfo (rw_handler f)), wm_operations =
         \<lparr>wo_type = ''file'', wo_pos = s64 (int (?start * ?ecs)), wo_data = us_data x, wo_truncate = True\<rparr> # ops,
       wm_meta = m, wm_keyId = dk_id (fh_fileEncKey (rw_handler f)), wm_version = fh_version (rw_handler f), wm_force = False\<rparr>
      (io_server (rw_io f)) = (Inr (), s1)" (is "storeFileWrite _ ?request _ = _") unfolding sq(2) by blast
  let ?op = "hd (wm_operations ?request)"
  have "nth_block ?ecs ?stop ?fd \<noteq> []"
    using sealed_block [OF fv(2,12), of ?stop] stop(2) fv(2) unfolding sealed_file_def by (metis encrypted_len_pos length_greater_0_conv)
  then have "?stop * ?ecs < length ?fd" by (simp add: nth_block_def)
  then have last: "?start * ?ecs + length (us_data x) < length ?fd" using sq(3) by simp
  moreover have "length ?fd < 2 ^ 63" using pb by (simp add: provider_bounds_def)
  ultimately have pos: "s64 (int (?start * ?ecs)) = int (?start * ?ecs)" by (intro s64_of_nat) linarith
  have "int (?start * ?ecs) + int (length (us_data x)) < int (length ?fd)" using last by linarith
  then show ?thesis
    unfolding r(3)
    by (intro exI [of _ ?request] exI [of _ s1] exI [of _ ?op] exI [of _ ops] conjI req) (simp_all add: pos del: of_nat_mult)
qed

lemma full_file_size:
  assumes s: "sealed_file dec n plain chs" and n: "0 < n" and j: "length plain = j * n"
  shows "length (file_data chs) = j * encrypted_len n" and "length chs = j"
proof -
  show len: "length chs = j" using s chunks_all_full(1) [OF n j] by (simp add: sealed_file_def)
  have "length (file_data chs) \<le> j * encrypted_len n"
    using length_concat_bound [of "map chunk_data chs" "encrypted_len n"] sealed_file_lengths(2) [OF s n] len
    by (simp add: file_data_def)
  then show "length (file_data chs) = j * encrypted_len n" using sealed_start(2) [OF s n, of j] j by simp
qed

text \<open>
  The chunk size of the library and a file of five full chunks, of which a write of 512 KiB replaces four, on a
  Bridge that accepts every write.
\<close>

definition accepts_writes :: "('s, 'm) store_server \<Rightarrow> bool" where
  "accepts_writes api \<longleftrightarrow> (\<forall>m s. fst (storeFileWrite api m s) = Inr ())"

lemma updateOnServer_accepted:
  assumes "accepts_writes (fe_api env)"
  shows "fst (FileHandler_updateOnServer env us m k t h s) = Inr ()"
proof -
  have "fst (for_each (\<lambda>b. storeFileWrite (fe_api env) (g b)) bs s) = Inr ()" for g and bs :: "(nat \<times> UpdateChanges) list list"
  proof (induction bs arbitrary: s)
    case (Cons b bs)
    obtain s1 where "storeFileWrite (fe_api env) (g b) s = (Inr (), s1)"
      using assms by (metis accepts_writes_def prod.collapse)
    then show ?case using Cons by (simp add: bindS_def)
  qed (simp add: ret_def)
  then show ?thesis by (simp add: FileHandler_updateOnServer_def)
qed

lemma commit_accepted:
  assumes "accepts_writes (fe_api env)" and "meta_encrypts env (rw_handler f)"
    and "set_digests us t (io_hashes (rw_io f)) = (Inr (), h1)"
  shows "\<exists>f'. FileHandler_commit env us t f = (Inr (), f')"
proof -
  let ?h = "rw_handler f"
  obtain topH h2 where h2: "HmacList_getTopHash (fe_crypto env) h1 = (topH, h2)" by fastforce
  let ?m' = "(fh_fileMeta ?h)\<lparr>fm_internalFileMeta := (fm_internalFileMeta (fh_fileMeta ?h))
    \<lparr>im_hmac := fe_base64 env topH,
      im_size := s64 (int (add_changes (map uc_plainfileSizeChange us) (fh_plainfileSize ?h)))\<rparr>\<rparr>"
  obtain m draws where m: "fe_encryptMeta env (fh_fileInfo ?h) ?m' (fh_fileEncKey ?h)
      (dk_dataStructureVersion (fh_fileEncKey ?h)) (io_draws (rw_io f)) = (Inr m, draws)"
    using assms(2) unfolding meta_encrypts_def by blast
  obtain s where "FileHandler_updateOnServer env (createListOfUpdateChanges (fh_encryptedChunkSize ?h) us) m
      (dk_id (fh_fileEncKey ?h)) t ?h (io_server (rw_io f)) = (Inr (), s)"
    using updateOnServer_accepted [OF assms(1)] by (metis prod.collapse)
  then show ?thesis unfolding FileHandler_commit_def Let_def assms(3) prod.case sum.case h2 m by simp
qed

definition accepting_bridge :: "(sample_state, unit) store_server" where
  "accepting_bridge = sample_bridge\<lparr>storeFileWrite := (\<lambda>m s. (Inr (), s))\<rparr>"

definition large_chunks :: "bytes \<Rightarrow> Chunk list" where
  "large_chunks plain = fst (seal_from (ChunkEncryptor_encrypt sample_crypto \<lparr>ce_key = [9], ce_chunkSize = 131072\<rparr>) 0
     (chunks 131072 plain) 0)"

definition large_params :: "bytes \<Rightarrow> FileDecryptionParams" where
  "large_params plain = \<lparr>fdp_fileId = ''f'', fdp_resourceId = ''r'', fdp_sizeOnServer = length (file_data (large_chunks plain)),
     fdp_originalSize = length plain, fdp_cipherType = 1, fdp_chunkSize = 131072, fdp_key = [9],
     fdp_hmac = hmacSha256 sample_crypto [9] (file_checksums (large_chunks plain)), fdp_version = 1\<rparr>"

lemma large_sealed:
  "sealed_file (ChunkEncryptor_decrypt sample_crypto \<lparr>ce_key = [9], ce_chunkSize = 131072\<rparr>) 131072 plain (large_chunks plain)"
  using ce.sealed_seal [of sample_crypto "\<lparr>ce_key = [9], ce_chunkSize = 131072\<rparr>" plain 0]
  by (simp add: large_chunks_def ChunkEncryptor_getPlainChunkSize_def ChunkEncryptor_ready_def sample_crypto_ok)

lemma large_size: "length plain = 5 * 131072 \<Longrightarrow> length (file_data (large_chunks plain)) = 5 * 131136"
  using full_file_size(1) [OF large_sealed] by (simp add: encrypted_len_def)

lemma large_stored:
  "stored_file sample_crypto accepting_bridge (1, file_data (large_chunks plain), file_checksums (large_chunks plain))
     (large_params plain) (large_chunks plain) plain"
proof -
  have "serves_file accepting_bridge s fid v enc sums = serves_file sample_api s fid v enc sums" for s fid v enc sums
    by (simp add: serves_file_def accepting_bridge_def)
  then show ?thesis
    using large_sealed by (simp add: stored_file_def Let_def large_params_def ChunkEncryptor_ready_def sample_crypto_ok
        sample_bridge_serves)
qed

lemma large_file:
  assumes "length plain = 5 * 131072"
  obtains f where "rw_view (sample_env accepting_bridge) (large_chunks plain) f plain"
    and "ce_chunkSize (io_encryptor (rw_io f)) = 131072" and "split_fits f 524288"
    and "SERVER_OPERATION_SIZE_LIMIT \<le> replaced_len f 0 524288"
proof -
  have par: "fdp_chunkSize (large_params plain) = 131072" "fdp_key (large_params plain) = [9]" "fdp_version (large_params plain) = 1"
    "fdp_fileId (large_params plain) = ''f''" by (simp_all add: large_params_def)
  have fits: "file_fits (fdp_chunkSize (large_params plain)) 131136 (length (file_data (large_chunks plain)))"
    by (simp add: file_fits_def large_size [OF assms] par encrypted_len_def)
  obtain st where st: "open_file_io sample_crypto accepting_bridge (large_params plain) 131136 0
      (1, file_data (large_chunks plain), file_checksums (large_chunks plain)) = Inr st"
    "file_view sample_crypto accepting_bridge 1 (large_chunks plain) st plain"
    "io_encryptor st = \<lparr>ce_key = [9], ce_chunkSize = 131072\<rparr>" "cdp_fileId (io_provider st) = ''f''"
    "HmacList_inv sample_crypto (io_hashes st)"
    using open_file_io_view [OF large_stored fits, of 0] unfolding par by blast
  have ecs: "ChunkEncryptor_getEncryptedChunkSize \<lparr>ce_key = [9], ce_chunkSize = 131072\<rparr> = 131136"
    by (simp add: getEncryptedChunkSize_eq encrypted_len_def)
  have p: "cdp_encryptedChunkSize (io_provider st) = 131136" "cdp_serverChunkSize (io_provider st) = 131136"
    by (simp_all add: open_file_io_provider [OF st(1)] par ecs ChunkDataProvider_new_def getServerReadDataSize_def
        s64_def u64_of_int_def)
  define f where "f = \<lparr>rw_handler = FileHandler_new \<lparr>ce_key = [9], ce_chunkSize = 131072\<rparr> (length plain)
      (length (file_data (large_chunks plain))) 1 (fh_fileInfo (rw_handler sample_rw)) sample_meta
      (fh_fileEncKey (rw_handler sample_rw)), rw_io = st\<rparr>"
  have "rw_view (sample_env accepting_bridge) (large_chunks plain) f plain"
    using st ecs by (simp add: rw_view_def Let_def f_def FileHandler_new_def ChunkEncryptor_getPlainChunkSize_def encrypted_len_def)
  moreover have "split_fits f 524288" "SERVER_OPERATION_SIZE_LIMIT \<le> replaced_len f 0 524288"
    using st(3) p large_size [OF assms]
    by (simp_all add: split_fits_def replaced_len_def Let_def f_def FileHandler_new_def provider_bounds_def
        encrypted_len_def SERVER_OPERATION_SIZE_LIMIT_def)
  ultimately show thesis using st(3) by (intro that [of f]) (simp_all add: f_def)
qed

lemma large_write_returns:
  assumes v: "rw_view (sample_env accepting_bridge) chs f plain" and "length plain = 5 * 131072"
    and "length data = 524288" and "split_fits f 524288"
  shows "\<exists>f'. FileHandler_write (sample_env accepting_bridge) 0 data False f = (Inr (), f')"
proof -
  let ?n = "ce_chunkSize (io_encryptor (rw_io f))"
  note fv = file_viewD [OF rw_viewD(1) [OF v]]
  have data: "data \<noteq> []" and len: "0 + length data < 2 ^ 63" using assms(3) by auto
  have clamp: "min 0 (length plain) = 0" "replicate (0 - length plain) 0 @ data = data" by simp_all
  have pb: "provider_bounds (io_provider (rw_io f)) (length (file_data chs) + Suc ((0 + length data - 1) div ?n) * encrypted_len ?n)"
    using assms(3,4) rw_viewD(3) [OF v] by (simp add: split_fits_def Let_def)
  let ?d = "take (0 mod ?n) (drop (0 div ?n * ?n) plain) @ data"
  obtain us f1 where u: "FileHandler_write (sample_env accepting_bridge) 0 data False f
      = FileHandler_commit (sample_env accepting_bridge) us False f1"
    "updates_for (fe_crypto (sample_env accepting_bridge)) (io_encryptor (rw_io f)) plain (length (file_data chs)) False
      ((0 + length data - 1) div ?n) (0 div ?n) (chunks ?n ?d) us"
    "rw_view (sample_env accepting_bridge) chs f1 plain"
    using write_prepared(1) [OF v data len pb, of False] unfolding clamp by blast
  have "0 div ?n + length (chunks ?n ?d) = Suc ((0 + length data - 1) div ?n)"
    using write_prepared(2) [OF v data len pb] unfolding clamp .
  moreover have "chunks ?n ?d \<noteq> []" using data fv(12) by (simp add: chunks_rec)
  ultimately obtain h1 where "set_digests us False (io_hashes (rw_io f1)) = (Inr (), h1)"
    using prepared_digests [OF u(3,2)] by auto
  then show ?thesis
    unfolding u(1) by (intro commit_accepted) (simp_all add: accepts_writes_def accepting_bridge_def)
qed

theorem FileHandler_split_write_truncates_witness:
  "\<exists>f f' request s1 op ops. fh_plainfileSize (rw_handler f) = 655360 \<and>
     FileHandler_write (sample_env accepting_bridge) 0 (replicate 524288 7) False f = (Inr (), f') \<and>
     storeFileWrite accepting_bridge request (io_server (rw_io f)) = (Inr (), s1) \<and> wm_operations request = op # ops \<and>
     wo_type op = ''file'' \<and> wo_truncate op \<and> wo_pos op = 0 \<and>
     int (length (wo_data op)) < int (fh_encryptedFileSize (rw_handler f))"
proof -
  obtain plain :: bytes where len: "length plain = 5 * 131072" by (metis length_replicate)
  obtain d :: bytes where d: "d = replicate 524288 7" by blast
  then have ld: "length d = 524288" by (simp only: length_replicate)
  obtain f where f: "rw_view (sample_env accepting_bridge) (large_chunks plain) f plain"
    "ce_chunkSize (io_encryptor (rw_io f)) = 131072" "split_fits f 524288"
    "SERVER_OPERATION_SIZE_LIMIT \<le> replaced_len f 0 524288" by (rule large_file [OF len])
  obtain f' where w: "FileHandler_write (sample_env accepting_bridge) 0 d False f = (Inr (), f')"
    using large_write_returns [OF f(1) len ld f(3)] by blast
  have "d \<noteq> []" using ld by auto
  from FileHandler_split_write_truncates [OF f(1) this _ _ _ w] f(2,3,4) ld len
  obtain request s1 op ops where "storeFileWrite accepting_bridge request (io_server (rw_io f)) = (Inr (), s1)"
    "wm_operations request = op # ops" "wo_type op = ''file''" "wo_truncate op" "wo_pos op = 0"
    "int (length (wo_data op)) < int (fh_encryptedFileSize (rw_handler f))"
    by auto
  moreover have "fh_plainfileSize (rw_handler f) = 655360" using rw_viewD(2) [OF f(1)] len by simp
  ultimately show ?thesis using w unfolding d by blast
qed

lemma commit_sizes:
  assumes "FileHandler_commit env us t f = (Inr (), f')"
  shows "fh_plainfileSize (rw_handler f') = add_changes (map uc_plainfileSizeChange us) (fh_plainfileSize (rw_handler f))"
    and "fh_encryptedFileSize (rw_handler f')
      = add_changes (map uc_encryptedFileSizeChange us) (fh_encryptedFileSize (rw_handler f))"
  using assms by (auto simp: FileHandler_commit_def Let_def split: prod.splits sum.splits if_splits)

lemma commit_one_returns:
  assumes v: "rw_view env chs f plain" and u: "rewritten c e plain l t j d u" and j: "j \<le> length chs"
    and pos: "j * encrypted_len (ce_chunkSize (io_encryptor (rw_io f))) \<le> length (file_data chs)"
    and srv: "applies_writes (fe_api env) (fi_fileId (fh_fileInfo (rw_handler f)))" and meta: "meta_encrypts env (rw_handler f)"
  shows "\<exists>f'. FileHandler_commit env [u] t f = (Inr (), f')"
proof -
  let ?h = "rw_handler f" and ?io = "rw_io f" let ?ecs = "encrypted_len (ce_chunkSize (io_encryptor ?io))"
  note r = rw_viewD [OF v]
  note fv = file_viewD [OF r(1)]
  have "updates_for c e plain l t j j [d] [u]" using u by (simp add: updates_for_def)
  then obtain h1 where h1: "set_digests [u] t (io_hashes ?io) = (Inr (), h1)"
    using prepared_digests [OF v, of c e l t j j "[d]" "[u]"] j by auto
  obtain topH h2 where h2: "HmacList_getTopHash (fe_crypto env) h1 = (topH, h2)" by fastforce
  let ?m' = "(fh_fileMeta ?h)\<lparr>fm_internalFileMeta := (fm_internalFileMeta (fh_fileMeta ?h))
    \<lparr>im_hmac := fe_base64 env topH,
      im_size := s64 (int (add_changes (map uc_plainfileSizeChange [u]) (fh_plainfileSize ?h)))\<rparr>\<rparr>"
  obtain m draws where m: "fe_encryptMeta env (fh_fileInfo ?h) ?m' (fh_fileEncKey ?h)
      (dk_dataStructureVersion (fh_fileEncKey ?h)) (io_draws ?io) = (Inr m, draws)"
    using meta unfolding meta_encrypts_def by blast
  have "length (file_data chs) < 2 ^ 63" using fv(7) by (simp add: provider_bounds_def)
  then have b: "j * ?ecs < 2 ^ 63" using pos by linarith
  have "32 \<le> ?ecs" by (simp add: encrypted_len_def)
  then have "j * 32 \<le> j * ?ecs" by (rule mult_le_mono2)
  then have b': "j * 32 < 2 ^ 63" using b by linarith
  have p: "s64 (int (u64 (j * ?ecs))) = int (j * ?ecs)" "s64 (int (u64 (j * 32))) = int (j * 32)"
    using s64_of_nat [OF b] s64_of_nat [OF b'] b b' by (simp_all add: u64_id del: of_nat_mult)
  have "j * 32 \<le> length (file_checksums chs)"
    using length_concat_equal [OF sealed_checksums [OF fv(2)]] j by (simp add: file_checksums_def)
  note accepted = applies_writesD [OF srv [unfolded r(6)] fv(5) pos this]
  have uj: "uc_chunkIndex u = j" using u by (simp add: rewritten_def Let_def)
  have "FileHandler_updateOnServer env (createListOfUpdateChanges (fh_encryptedChunkSize ?h) [u]) m
      (dk_id (fh_fileEncKey ?h)) t ?h (io_server ?io)
    = storeFileWrite (fe_api env)
      \<lparr>wm_fileId = cdp_fileId (io_provider ?io), wm_operations =
         [\<lparr>wo_type = ''file'', wo_pos = int (j * ?ecs), wo_data = chunk_data (uc_chunk u), wo_truncate = t\<rparr>,
          \<lparr>wo_type = ''checksum'', wo_pos = int (j * 32), wo_data = chunk_hmac (uc_chunk u), wo_truncate = t\<rparr>],
       wm_meta = m, wm_keyId = dk_id (fh_fileEncKey ?h), wm_version = fh_version ?h, wm_force = False\<rparr> (io_server ?io)"
    by (simp add: createListOfUpdateChanges_def updateOnServer_single p r(5,6) store_sizes uj del: of_nat_mult)
  then obtain s where s: "FileHandler_updateOnServer env (createListOfUpdateChanges (fh_encryptedChunkSize ?h) [u]) m
      (dk_id (fh_fileEncKey ?h)) t ?h (io_server ?io) = (Inr (), s)"
    using accepted by metis
  show ?thesis
    unfolding FileHandler_commit_def Let_def h1 prod.case sum.case h2 m using s by simp
qed

text \<open>
  Writing no bytes is not a no-op: at the end of a file whose size is a multiple of the
  chunk size, a write of empty data appends an encrypted empty chunk. The plain size stays, the
  encrypted size grows by 64 and is no longer the encrypted size of the content, so that
  opening the file again throws \<open>FileCorruptedException\<close> unless the file is empty.
\<close>

theorem FileHandler_empty_write_appends:
  assumes v: "rw_view env chs f plain" and full: "length plain mod ce_chunkSize (io_encryptor (rw_io f)) = 0"
    and srv: "applies_writes (fe_api env) (fi_fileId (fh_fileInfo (rw_handler f)))" and meta: "meta_encrypts env (rw_handler f)"
  shows "\<exists>f'. FileHandler_write env (length plain) [] t f = (Inr (), f') \<and>
    fh_plainfileSize (rw_handler f') = length plain \<and>
    fh_encryptedFileSize (rw_handler f') = length (file_data chs) + 64"
proof -
  let ?e = "io_encryptor (rw_io f)" let ?n = "ce_chunkSize ?e" let ?j = "length plain div ?n"
  note r = rw_viewD [OF v]
  note fv = file_viewD [OF r(1)]
  have j: "length plain = ?j * ?n" using full by (metis add.right_neutral div_mult_mod_eq)
  note fd = full_file_size [OF fv(2,12) j]
  have p63: "length plain < 2 ^ 63" "?j * encrypted_len ?n + 64 < 2 ^ 63"
    using rewrite_bounds(2,3) [OF v fv(7), of ?j ?n 0] fd(1) by (simp_all add: encrypted_len_def)
  have old: "nth_block ?n ?j plain = []" using j by (simp add: nth_block_def)
  have stop: "usub64 (u64 (length plain)) 0 = length plain" using p63(1) by (simp add: u64_id usub64_id)
  obtain u f1 where u: "write_chunks env ?j ?j (length plain) [] t [?j] 0 [] f
      = write_chunks env ?j ?j (length plain) [] t [] (0 + length (take (?n - 0) (drop 0 ([] :: bytes)))) ([] @ [u]) f1"
    "rewritten (fe_crypto env) ?e plain (length (file_data chs)) (t \<and> ?j = ?j) ?j
      (take 0 (nth_block ?n ?j plain) @ take (?n - 0) (drop 0 [])) u"
    "loop_frame f f1" "rw_view env chs f1 plain"
    using write_chunks_step [OF v fv(7), of ?j 0 ?j "length plain" 0 "[]" ?j t "[]" "[]"] full fd(1) by auto
  have eq: "FileHandler_write env (length plain) [] t f = FileHandler_commit env [u] t f1"
    using u(1) stop by (simp add: FileHandler_write_def Let_def r(2) filePosToFileChunkIndex_def
        ChunkEncryptor_getPlainChunkSize_def bindS_def)
  have f1: "rw_handler f1 = rw_handler f" "io_encryptor (rw_io f1) = ?e" using u(3) by (simp_all add: loop_frame_def)
  obtain f' where f': "FileHandler_commit env [u] t f1 = (Inr (), f')"
    using commit_one_returns [OF u(4), of "fe_crypto env" ?e "length (file_data chs)" t ?j "[]" u] u(2) fd srv meta f1
    by auto
  from commit_sizes [OF f'] f1(1)
  have sizes: "fh_plainfileSize (rw_handler f') = add_changes [uc_plainfileSizeChange u] (length plain)"
    "fh_encryptedFileSize (rw_handler f') = add_changes [uc_encryptedFileSizeChange u] (length (file_data chs))"
    by (simp_all add: r(2,3))
  have "uc_plainfileSizeChange u = 0" "uc_encryptedFileSizeChange u = 64"
    using u(2) j fd(1)
    by (simp_all add: rewritten_def Let_def old overwrite_def size_change_def encrypted_len_def old_len_def)
  moreover have "u64_of_int (int (length (file_data chs)) + 64) = length (file_data chs) + 64"
    using u64_of_int_of_nat [of "length (file_data chs) + 64"] p63(2) fd(1) by simp
  moreover have "u64_of_int (int (length plain)) = length plain" using p63(1) by (simp add: u64_of_int_of_nat)
  ultimately show ?thesis using sizes eq f' by (simp add: add_changes_def)
qed

definition empty_rw :: "sample_state rw_file" where
  "empty_rw = \<lparr>rw_handler = (rw_handler sample_rw)\<lparr>fh_plainfileSize := 0, fh_encryptedFileSize := 0\<rparr>,
     rw_io = \<lparr>io_server = (1, [], []), io_draws = 0, io_provider = ChunkDataProvider_new 64 100 ''f'' 0 1,
       io_encryptor = \<lparr>ce_key = [9], ce_chunkSize = 4\<rparr>,
       io_hashes = \<lparr>hl_topHashKey = [9], hl_topHash = None, hl_size = 0, hl_hashes = []\<rparr>,
       io_reader = \<lparr>cr_chunkSize = 4, cr_version = 1, cr_lastChunk = None\<rparr>\<rparr>\<rparr>"

lemma empty_rw_view: "rw_view (sample_env sample_api) [] empty_rw []"
proof -
  have p: "provider_geometry (ChunkDataProvider_new 64 100 ''f'' 0 1)"
    "provider_coherent (ChunkDataProvider_new 64 100 ''f'' 0 1) 1 []"
    "provider_bounds (ChunkDataProvider_new 64 100 ''f'' 0 1) 0"
    "cdp_fileId (ChunkDataProvider_new 64 100 ''f'' 0 1) = ''f''"
    "cdp_encryptedChunkSize (ChunkDataProvider_new 64 100 ''f'' 0 1) = 64"
    by (simp_all add: provider_geometry_def provider_bounds_def provider_coherent_def cache_of_def nth_block_def
        ChunkDataProvider_new_def getServerReadDataSize_def s64_def u64_of_int_def)
  have "fh_plainChunkSize (rw_handler sample_rw) = 4" "fh_encryptedChunkSize (rw_handler sample_rw) = 64"
    using rw_viewD(4,5) [OF sample_rw_view] by (simp_all add: encrypted_len_def)
  then show ?thesis
    using p sample_ready
    by (simp add: empty_rw_def rw_view_def file_view_def Let_def sealed_file_def HmacList_shape_def HmacList_inv_def
        HmacList_hashes_def file_data_def file_checksums_def sample_bridge_serves reader_cache_def encrypted_len_def)
qed

theorem FileHandler_empty_write_appends_witness:
  "\<exists>f'. FileHandler_write (sample_env sample_api) 0 [] False empty_rw = (Inr (), f') \<and>
    fh_plainfileSize (rw_handler f') = 0 \<and> fh_encryptedFileSize (rw_handler f') = 64"
  using FileHandler_empty_write_appends [OF empty_rw_view, of False] sample_api_applies
  by (simp add: empty_rw_def file_data_def)

text \<open>
  Synchronising a handle with a version that was stored under another file key leaves the
  chunk encryptor with the old key and chunk size, while the digest list takes the new key:
  \<open>FileHandler::sync\<close> never calls \<open>_chunkEncryptor->sync\<close>, unlike \<open>FileReadHandle::sync\<close>.
\<close>

theorem FileHandler_sync_keeps_encryptor:
  assumes "FileHandler_sync env fileMeta params key f = (Inr (), f')"
  shows "io_encryptor (rw_io f') = io_encryptor (rw_io f) \<and>
    hl_topHashKey (io_hashes (rw_io f')) = fdp_key params \<and>
    fh_plainfileSize (rw_handler f') = fdp_originalSize params"
  using assms
  by (auto simp: FileHandler_sync_def HmacList_sync_def Let_def split: sum.splits prod.splits if_splits)

definition sample_params2 :: "bytes \<Rightarrow> FileDecryptionParams" where
  "sample_params2 k = \<lparr>fdp_fileId = ''f'', fdp_resourceId = ''r'', fdp_sizeOnServer = 0,
     fdp_originalSize = 0, fdp_cipherType = 1, fdp_chunkSize = 4, fdp_key = k,
     fdp_hmac = hmacSha256 sample_crypto k [], fdp_version = 2\<rparr>"

lemma sample_stored2: "stored_file sample_crypto sample_api (2, [], []) (sample_params2 k) [] []"
  using sample_ready
  by (simp add: stored_file_def sample_params2_def Let_def sealed_file_def file_data_def file_checksums_def
      sample_bridge_serves)

theorem FileHandler_sync_keeps_encryptor_witness:
  "\<exists>f'. FileHandler_sync (sample_env sample_api) sample_meta (sample_params2 [5])
     \<lparr>dk_id = ''k'', dk_key = [], dk_dataStructureVersion = 2, dk_statusCode = 0\<rparr>
     (sample_rw\<lparr>rw_io := sample_io\<lparr>io_server := (2, [], [])\<rparr>\<rparr>) = (Inr (), f') \<and>
    ce_key (io_encryptor (rw_io f')) = [9] \<and> hl_topHashKey (io_hashes (rw_io f')) = [5]"
proof -
  let ?k = "\<lparr>dk_id = ''k'', dk_key = [], dk_dataStructureVersion = 2, dk_statusCode = 0\<rparr>"
  let ?f = "sample_rw\<lparr>rw_io := sample_io\<lparr>io_server := (2, [], [])\<rparr>\<rparr>"
  have "\<exists>f'. FileHandler_sync (sample_env sample_api) sample_meta (sample_params2 [5]) ?k ?f = (Inr (), f')"
    by (simp add: FileHandler_sync_def Let_def ChunkDataProvider_getCurrentChecksumsFromBridge_def sample_bridge_def
        HmacList_sync_def sample_params2_def store_sizes)
  then show ?thesis
    using FileHandler_sync_keeps_encryptor [of "sample_env sample_api" sample_meta "sample_params2 [5]" ?k ?f]
    by (fastforce simp: sample_params2_def)
qed

text \<open>
  C30. Synchronising with a version stored under the same key and chunk size works: after another
  client stored content \<open>plain'\<close> as a new version, \<open>FileHandler::sync\<close> with that version's
  parameters makes every object of the handle represent \<open>plain'\<close>, whatever was cached before.
\<close>

theorem FileHandler_sync_refines:
  assumes v: "rw_view env chs f plain"
    and st: "stored_file (fe_crypto env) (fe_api env) s params chs' plain'"
    and same: "fdp_key params = ce_key (io_encryptor (rw_io f))"
      "fdp_chunkSize params = ce_chunkSize (io_encryptor (rw_io f))"
      "fdp_fileId params = fi_fileId (fh_fileInfo (rw_handler f))"
    and new: "fdp_version params \<noteq> fh_version (rw_handler f)"
    and bounds: "provider_bounds (io_provider (rw_io f)) (length (file_data chs'))"
  shows "\<exists>f'. FileHandler_sync env fileMeta params key (f\<lparr>rw_io := (rw_io f)\<lparr>io_server := s\<rparr>\<rparr>) = (Inr (), f') \<and>
    rw_view env chs' f' plain'"
proof -
  let ?c = "fe_crypto env" and ?io = "rw_io f" and ?h = "rw_handler f"
  note r = rw_viewD [OF v]
  note fv = file_viewD [OF r(1)]
  have e: "\<lparr>ce_key = fdp_key params, ce_chunkSize = fdp_chunkSize params\<rparr> = io_encryptor ?io"
    using same by simp
  note s = st [unfolded stored_file_def Let_def e]
  have sums: "concat (map chunk_hmac chs') = file_checksums chs'" by (simp add: file_checksums_def)
  have digests: "\<forall>x \<in> set (map chunk_hmac chs'). length x = 32" using s sealed_checksums by blast
  let ?hl = "(io_hashes ?io)\<lparr>hl_topHashKey := fdp_key params, hl_hashes := file_checksums chs',
    hl_topHash := Some (hmacSha256 ?c (fdp_key params) (file_checksums chs')), hl_size := length chs'\<rparr>"
  have hl: "HmacList_sync ?c (fdp_key params) (fdp_hmac params) (file_checksums chs') (io_hashes ?io) = (Inr (), ?hl)"
    using s length_concat_equal [OF digests] by (simp add: HmacList_sync_def Let_def store_sizes sums)
  have shape: "HmacList_shape ?hl" "HmacList_hashes ?hl = map chunk_hmac chs'"
    using shape_concat [OF digests, of ?hl] by (simp_all add: sums)
  then have inv: "HmacList_inv ?c ?hl" by (simp add: HmacList_inv_def)
  have fid: "fdp_fileId params = cdp_fileId (io_provider ?io)" using same(3) r(6) by simp
  have cs: "ChunkDataProvider_getCurrentChecksumsFromBridge (fe_api env) s (io_provider ?io) = Inr (file_checksums chs')"
    using s fid by (simp add: ChunkDataProvider_getCurrentChecksumsFromBridge_def serves_file_def)
  let ?p = "ChunkDataProvider_sync (fh_version ?h) (s64 (int (fh_encryptedFileSize ?h))) None None (io_provider ?io)"
  have p: "provider_geometry ?p" "provider_bounds ?p (length (file_data chs'))"
    "cdp_encryptedChunkSize ?p = encrypted_len (ce_chunkSize (io_encryptor ?io))"
    "provider_coherent ?p (fdp_version params) (file_data chs')" "cdp_fileId ?p = cdp_fileId (io_provider ?io)"
    using fv(6,8) bounds new
    by (simp_all add: ChunkDataProvider_sync_def Let_def provider_geometry_def provider_bounds_def provider_coherent_def)
  let ?f' = "\<lparr>rw_handler = ?h\<lparr>fh_fileMeta := fileMeta, fh_version := fdp_version params,
      fh_plainfileSize := fdp_originalSize params, fh_encryptedFileSize := fdp_sizeOnServer params, fh_fileEncKey := key\<rparr>,
    rw_io = ?io\<lparr>io_server := s, io_hashes := ?hl, io_provider := ?p, io_reader := ChunkReader_sync params (io_reader ?io)\<rparr>\<rparr>"
  have "FileHandler_sync env fileMeta params key (f\<lparr>rw_io := ?io\<lparr>io_server := s\<rparr>\<rparr>) = (Inr (), ?f')"
    by (simp add: FileHandler_sync_def Let_def cs hl)
  moreover have "rw_view env chs' ?f' plain'"
    using s p shape inv r(4-6) fid same(2)
    by (simp add: rw_view_def file_view_def Let_def ChunkReader_sync_def reader_cache_def)
  ultimately show ?thesis by blast
qed

theorem FileHandler_sync_refines_witness:
  "\<exists>f'. FileHandler_sync (sample_env sample_api) sample_meta (sample_params2 [9])
     \<lparr>dk_id = ''k'', dk_key = [], dk_dataStructureVersion = 2, dk_statusCode = 0\<rparr>
     (sample_rw\<lparr>rw_io := sample_io\<lparr>io_server := (2, [], [])\<rparr>\<rparr>) = (Inr (), f') \<and>
    rw_view (sample_env sample_api) [] f' []"
proof -
  have "provider_bounds (io_provider sample_io) 0"
    by (simp add: provider_bounds_def sample_provider)
  then show ?thesis
    using FileHandler_sync_refines [OF sample_rw_view, of "(2, [], [])" "sample_params2 [9]" "[]" "[]" sample_meta
        "\<lparr>dk_id = ''k'', dk_key = [], dk_dataStructureVersion = 2, dk_statusCode = 0\<rparr>"] sample_stored2 [of "[9]"]
    by (simp add: sample_params2_def file_data_def)
qed

end
