(* ===== verification/Store_ChunkStreamer.thy ===== *)
theory Store_ChunkStreamer
  imports Store_ChunkEncryptor
begin

text \<open>
  Uploading a file: \<open>store/src/ChunkBufferedStream.cpp\<close> collects written bytes into pieces of a
  fixed size, \<open>store/src/ChunkStreamer.cpp\<close> encrypts the plain chunks one after another, collects
  the encrypted bytes into pieces of the size of a server request and sends those to the Bridge
  under consecutive numbers. The Bridge's request interface (\<open>RequestApi\<close>) is a parameter.
\<close>

subsection \<open>\<open>ChunkBufferedStream\<close>\<close>

record ChunkBufferedStream =
  bs_chunkSize :: nat
  bs_buf :: bytes
  bs_sizeControl :: bool
  bs_maxTotalDataSize :: nat
  bs_totalDataSize :: nat
  bs_bufSize :: nat

definition ChunkBufferedStream_new :: "nat \<Rightarrow> nat option \<Rightarrow> ChunkBufferedStream" where
  "ChunkBufferedStream_new chunkSize maxStreamLength =
     \<lparr>bs_chunkSize = chunkSize, bs_buf = [], bs_sizeControl = (maxStreamLength \<noteq> None),
      bs_maxTotalDataSize = (case maxStreamLength of Some m \<Rightarrow> m | None \<Rightarrow> 0),
      bs_totalDataSize = 0, bs_bufSize = 0\<rparr>"

definition ChunkBufferedStream_isEmpty :: "ChunkBufferedStream \<Rightarrow> bool" where
  "ChunkBufferedStream_isEmpty b \<longleftrightarrow> bs_bufSize b = 0"

definition ChunkBufferedStream_hasFullChunk :: "ChunkBufferedStream \<Rightarrow> bool" where
  "ChunkBufferedStream_hasFullChunk b \<longleftrightarrow> bs_bufSize b > bs_chunkSize b"

definition ChunkBufferedStream_getNumberOfFullChunks :: "ChunkBufferedStream \<Rightarrow> nat" where
  "ChunkBufferedStream_getNumberOfFullChunks b = bs_bufSize b div bs_chunkSize b"

definition ChunkBufferedStream_isFullyFilled :: "ChunkBufferedStream \<Rightarrow> bool" where
  "ChunkBufferedStream_isFullyFilled b \<longleftrightarrow>
     (if bs_sizeControl b then bs_totalDataSize b = bs_maxTotalDataSize b else False)"

definition ChunkBufferedStream_readChunk :: "(exn, ChunkBufferedStream, bytes) op" where
  "ChunkBufferedStream_readChunk b =
     (let chunkSize = min (bs_bufSize b) (bs_chunkSize b)
      in bindS (liftR (substr StdOutOfRange (bs_buf b) 0 (bs_chunkSize b))) (\<lambda>res.
         bindS (liftR (substr1 StdOutOfRange (bs_buf b) chunkSize)) (\<lambda>rest b.
           (Inr res, b\<lparr>bs_buf := rest, bs_bufSize := usub64 (bs_bufSize b) chunkSize\<rparr>))) b)"

definition ChunkBufferedStream_write :: "bytes \<Rightarrow> (exn, ChunkBufferedStream, unit) op" where
  "ChunkBufferedStream_write data b =
     (if bs_sizeControl b \<and> u64 (bs_totalDataSize b + length data) > bs_maxTotalDataSize b
      then (Inl (ConnectionExn DataBiggerThanDeclaredException), b)
      else (Inr (), b\<lparr>bs_buf := bs_buf b @ data, bs_bufSize := u64 (bs_bufSize b + length data),
                      bs_totalDataSize := u64 (bs_totalDataSize b + length data)\<rparr>))"

definition ChunkBufferedStream_getFullChunk :: "ChunkBufferedStream \<Rightarrow> nat \<Rightarrow> (exn, bytes) result" where
  "ChunkBufferedStream_getFullChunk b pos =
     substr StdOutOfRange (bs_buf b) (u64 (bs_chunkSize b * pos)) (bs_chunkSize b)"

definition ChunkBufferedStream_freeFullChunks :: "(exn, ChunkBufferedStream, unit) op" where
  "ChunkBufferedStream_freeFullChunks b =
     (let used = u64 (bs_chunkSize b * ChunkBufferedStream_getNumberOfFullChunks b)
      in bindS (liftR (substr1 StdOutOfRange (bs_buf b) used)) (\<lambda>rest b.
           (Inr (), b\<lparr>bs_buf := rest, bs_bufSize := usub64 (bs_bufSize b) used\<rparr>)) b)"

subsection \<open>The Bridge's request interface\<close>

record FileDefinition =
  fd_size :: int
  fd_checksumSize :: int
  fd_randomWrite :: bool

record ChunkModel =
  ch_requestId :: string
  ch_fileIndex :: int
  ch_seq :: int
  ch_data :: bytes

record CommitFileModel =
  cf_requestId :: string
  cf_fileIndex :: int
  cf_seq :: int
  cf_checksum :: bytes

record 's request_api =
  rq_createRequest :: "FileDefinition list \<Rightarrow> (exn, 's, string) op"
  rq_sendChunk :: "ChunkModel \<Rightarrow> (exn, 's, unit) op"
  rq_commitFile :: "CommitFileModel \<Rightarrow> (exn, 's, unit) op"

subsection \<open>\<open>ChunkStreamer\<close>\<close>

record FileSizeResult =
  fs_size :: nat
  fs_checksumSize :: nat

record ChunksSentInfo =
  si_cipherType :: int
  si_key :: bytes
  si_hmac :: bytes
  si_chunkSize :: nat
  si_requestId :: string

record ChunkStreamer =
  cs_chunkSize :: nat
  cs_fileSize :: nat
  cs_chunkBufferedStream :: ChunkBufferedStream
  cs_key :: bytes
  cs_requestId :: string
  cs_uploadedFileSize :: nat
  cs_seq :: nat
  cs_dataProcessed :: nat
  cs_checksums :: bytes
  cs_fileIndex :: nat
  cs_serverSeq :: nat

text \<open>The streamer with the Bridge's state and the number of random draws made so far.\<close>

record 's upload =
  up_server :: 's
  up_draws :: nat
  up_streamer :: ChunkStreamer

definition ChunkStreamer_new :: "nat \<Rightarrow> nat \<Rightarrow> nat \<Rightarrow> ChunkStreamer" where
  "ChunkStreamer_new chunkSize fileSize serverRequestChunkSize =
     \<lparr>cs_chunkSize = chunkSize, cs_fileSize = fileSize,
      cs_chunkBufferedStream = ChunkBufferedStream_new serverRequestChunkSize None,
      cs_key = [], cs_requestId = [], cs_uploadedFileSize = 0, cs_seq = 0, cs_dataProcessed = 0,
      cs_checksums = [], cs_fileIndex = 0, cs_serverSeq = 0\<rparr>"

definition ChunkStreamer_getFileSize :: "ChunkStreamer \<Rightarrow> FileSizeResult" where
  "ChunkStreamer_getFileSize self =
     (if cs_fileSize self = 0 then \<lparr>fs_size = 0, fs_checksumSize = 0\<rparr>
      else
        let chunkSize = cs_chunkSize self;
            parts = usub64 (u64 (cs_fileSize self + chunkSize)) 1 div chunkSize;
            rest = cs_fileSize self mod chunkSize;
            lastChunkSize = (if rest = 0 then chunkSize else rest);
            fullChunkPaddingSize = CHUNK_PADDING - chunkSize mod CHUNK_PADDING;
            lastChunkPaddingSize = CHUNK_PADDING - lastChunkSize mod CHUNK_PADDING;
            serverFileSize = u64 (usub64 parts 1 * u64 (chunkSize + HMAC_SIZE + IV_SIZE + fullChunkPaddingSize)
                                  + lastChunkSize + HMAC_SIZE + IV_SIZE + lastChunkPaddingSize)
        in \<lparr>fs_size = serverFileSize, fs_checksumSize = u64 (parts * HMAC_SIZE)\<rparr>)"

definition ChunkStreamer_createRequest :: "crypto_api \<Rightarrow> 's request_api \<Rightarrow> bool \<Rightarrow> (exn, 's upload, unit) op" where
  "ChunkStreamer_createRequest c api randomWriteSupport u =
     (let u1 = u\<lparr>up_draws := Suc (up_draws u),
                 up_streamer := (up_streamer u)\<lparr>cs_key := randomBytes c (up_draws u) 32, cs_fileIndex := 0\<rparr>\<rparr>;
          sz = ChunkStreamer_getFileSize (up_streamer u1)
      in case rq_createRequest api
                [\<lparr>fd_size = s64 (int (fs_size sz)), fd_checksumSize = s64 (int (fs_checksumSize sz)),
                  fd_randomWrite = randomWriteSupport\<rparr>] (up_server u1) of
           (Inl e, s) \<Rightarrow> (Inl e, u1\<lparr>up_server := s\<rparr>)
         | (Inr rid, s) \<Rightarrow> (Inr (), u1\<lparr>up_server := s, up_streamer := (up_streamer u1)\<lparr>cs_requestId := rid\<rparr>\<rparr>))"

definition ChunkStreamer_setRequestData :: "string \<Rightarrow> bytes \<Rightarrow> nat \<Rightarrow> ChunkStreamer \<Rightarrow> ChunkStreamer" where
  "ChunkStreamer_setRequestData requestId key fileIndex self =
     self\<lparr>cs_requestId := requestId, cs_key := key, cs_fileIndex := fileIndex\<rparr>"

definition ChunkStreamer_getSeqBE :: "ChunkStreamer \<Rightarrow> bytes" where
  "ChunkStreamer_getSeqBE self = chunkIndexToBE (cs_seq self)"

definition ChunkStreamer_prepareChunk :: "crypto_api \<Rightarrow> bytes \<Rightarrow> ChunkStreamer \<Rightarrow> nat \<Rightarrow> Chunk \<times> nat" where
  "ChunkStreamer_prepareChunk c data self draws =
     (let chunkKey = sha256 c (cs_key self @ ChunkStreamer_getSeqBE self);
          iv = randomBytes c draws IV_SIZE;
          cipher = aes256CbcPkcs7Encrypt c data chunkKey iv;
          ivWithCipher = iv @ cipher;
          hmac = hmacSha256 c chunkKey ivWithCipher
      in (\<lparr>chunk_data = hmac @ ivWithCipher, chunk_hmac = hmac\<rparr>, Suc draws))"

definition ChunkStreamer_sendChunkToServer :: "'s request_api \<Rightarrow> bytes \<Rightarrow> (exn, 's upload, unit) op" where
  "ChunkStreamer_sendChunkToServer api data u =
     (let cs = up_streamer u
      in case rq_sendChunk api
                \<lparr>ch_requestId = cs_requestId cs, ch_fileIndex = s64 (int (cs_fileIndex cs)),
                 ch_seq = s64 (int (cs_serverSeq cs)), ch_data = data\<rparr> (up_server u) of
           (Inl e, s) \<Rightarrow> (Inl e, u\<lparr>up_server := s\<rparr>)
         | (Inr _, s) \<Rightarrow> (Inr (), u\<lparr>up_server := s, up_streamer := cs\<lparr>cs_serverSeq := u64 (cs_serverSeq cs + 1)\<rparr>\<rparr>))"

text \<open>An operation of the buffer inside the streamer.\<close>

definition on_buffer :: "(exn, ChunkBufferedStream, 'a) op \<Rightarrow> (exn, 's upload, 'a) op" where
  "on_buffer m u =
     (case m (cs_chunkBufferedStream (up_streamer u)) of
        (r, b) \<Rightarrow> (r, u\<lparr>up_streamer := (up_streamer u)\<lparr>cs_chunkBufferedStream := b\<rparr>\<rparr>))"

text \<open>The body of the loop over the full chunks of the buffer.\<close>

definition send_full_chunk :: "'s request_api \<Rightarrow> nat \<Rightarrow> (exn, 's upload, unit) op" where
  "send_full_chunk api i u =
     bindS (liftR (ChunkBufferedStream_getFullChunk (cs_chunkBufferedStream (up_streamer u)) i))
       (ChunkStreamer_sendChunkToServer api) u"

definition ChunkStreamer_sendFullChunksWhileCollected :: "'s request_api \<Rightarrow> (exn, 's upload, unit) op" where
  "ChunkStreamer_sendFullChunksWhileCollected api u =
     (let n = ChunkBufferedStream_getNumberOfFullChunks (cs_chunkBufferedStream (up_streamer u))
      in bindS (for_each (send_full_chunk api) [0..<n])
           (\<lambda>_. if n > 0 then on_buffer ChunkBufferedStream_freeFullChunks else ret ()) u)"

definition ChunkStreamer_sendLastChunkIfNonEmpty :: "'s request_api \<Rightarrow> (exn, 's upload, unit) op" where
  "ChunkStreamer_sendLastChunkIfNonEmpty api u =
     (if \<not> ChunkBufferedStream_isEmpty (cs_chunkBufferedStream (up_streamer u))
      then bindS (on_buffer ChunkBufferedStream_readChunk) (ChunkStreamer_sendChunkToServer api) u
      else (Inr (), u))"

definition ChunkStreamer_prepareAndSendChunk :: "crypto_api \<Rightarrow> 's request_api \<Rightarrow> bytes \<Rightarrow> (exn, 's upload, unit) op" where
  "ChunkStreamer_prepareAndSendChunk c api data u =
     (if u64 (cs_dataProcessed (up_streamer u) + length data) > cs_fileSize (up_streamer u)
      then (Inl (StoreExn InvalidFileChunkSizeException), u)
      else
        let (encrypted, draws) = ChunkStreamer_prepareChunk c data (up_streamer u) (up_draws u);
            u1 = u\<lparr>up_draws := draws,
                   up_streamer := (up_streamer u)\<lparr>cs_checksums := cs_checksums (up_streamer u) @ chunk_hmac encrypted\<rparr>\<rparr>
        in bindS (on_buffer (ChunkBufferedStream_write (chunk_data encrypted))) (\<lambda>_.
           bindS (ChunkStreamer_sendFullChunksWhileCollected api) (\<lambda>_ u.
             (Inr (), u\<lparr>up_streamer := (up_streamer u)
                 \<lparr>cs_dataProcessed := u64 (cs_dataProcessed (up_streamer u) + length data),
                  cs_seq := u32 (cs_seq (up_streamer u) + 1)\<rparr>\<rparr>))) u1)"

definition add_uploaded :: "bytes \<Rightarrow> (exn, 's upload, unit) op" where
  "add_uploaded data u =
     (Inr (), u\<lparr>up_streamer := (up_streamer u)
        \<lparr>cs_uploadedFileSize := u64 (cs_uploadedFileSize (up_streamer u) + length data)\<rparr>\<rparr>)"

definition ChunkStreamer_sendChunk :: "crypto_api \<Rightarrow> 's request_api \<Rightarrow> bytes \<Rightarrow> (exn, 's upload, unit) op" where
  "ChunkStreamer_sendChunk c api data u =
     (if length data \<noteq> cs_chunkSize (up_streamer u)
      then (Inl (StoreExn InvalidFileChunkSizeException), u)
      else bindS (add_uploaded data) (\<lambda>_. ChunkStreamer_prepareAndSendChunk c api data) u)"

definition ChunkStreamer_commitFile :: "'s request_api \<Rightarrow> (exn, 's upload, unit) op" where
  "ChunkStreamer_commitFile api =
     bindS (ChunkStreamer_sendFullChunksWhileCollected api) (\<lambda>_.
     bindS (ChunkStreamer_sendLastChunkIfNonEmpty api) (\<lambda>_ u.
       let cs = up_streamer u
       in case rq_commitFile api
                 \<lparr>cf_requestId = cs_requestId cs, cf_fileIndex = s64 (int (cs_fileIndex cs)),
                  cf_seq = s64 (int (cs_serverSeq cs)), cf_checksum = cs_checksums cs\<rparr> (up_server u) of
            (r, s) \<Rightarrow> (r, u\<lparr>up_server := s\<rparr>)))"

definition ChunkStreamer_finalize :: "crypto_api \<Rightarrow> 's request_api \<Rightarrow> bytes \<Rightarrow> (exn, 's upload, ChunksSentInfo) op" where
  "ChunkStreamer_finalize c api data =
     bindS (add_uploaded data) (\<lambda>_.
     bindS (if data \<noteq> [] then ChunkStreamer_prepareAndSendChunk c api data else ret ()) (\<lambda>_ u.
     bindS (throw_if (u64 (cs_uploadedFileSize (up_streamer u) + length data) < cs_fileSize (up_streamer u))
              (ConnectionExn DataSmallerThanDeclaredException)) (\<lambda>_.
     bindS (ChunkStreamer_commitFile api) (\<lambda>_ u.
       let cs = up_streamer u
       in (Inr \<lparr>si_cipherType = 1, si_key = cs_key cs, si_hmac = hmacSha256 c (cs_key cs) (cs_checksums cs),
                si_chunkSize = cs_chunkSize cs, si_requestId = cs_requestId cs\<rparr>, u))) u))"

definition ChunkStreamer_getUploadedFileSize :: "ChunkStreamer \<Rightarrow> nat" where
  "ChunkStreamer_getUploadedFileSize self = cs_uploadedFileSize self"

subsection \<open>The buffer\<close>

definition ChunkBufferedStream_inv :: "ChunkBufferedStream \<Rightarrow> bool" where
  "ChunkBufferedStream_inv b \<longleftrightarrow>
     0 < bs_chunkSize b \<and> bs_bufSize b = length (bs_buf b) \<and> length (bs_buf b) \<le> bs_totalDataSize b \<and>
     bs_totalDataSize b < 2 ^ 64 \<and> (bs_sizeControl b \<longrightarrow> bs_totalDataSize b \<le> bs_maxTotalDataSize b)"

text \<open>The pieces of \<open>n\<close> bytes a buffer holds in full, and what is left behind them.\<close>

definition full_pieces :: "nat \<Rightarrow> 'a list \<Rightarrow> 'a list list" where
  "full_pieces n xs = map (\<lambda>i. take n (drop (n * i) xs)) [0..<length xs div n]"

definition rest_piece :: "nat \<Rightarrow> 'a list \<Rightarrow> 'a list" where
  "rest_piece n xs = drop (n * (length xs div n)) xs"

lemma full_pieces_Cons:
  assumes "0 < n" and "n \<le> length xs"
  shows "full_pieces n xs = take n xs # full_pieces n (drop n xs)"
proof -
  have "length xs div n = Suc (length (drop n xs) div n)"
    using assms by (simp add: le_div_geq)
  then show ?thesis
    by (simp add: full_pieces_def map_upt_Suc add.commute del: upt_Suc)
qed

lemma full_pieces_short: "length xs < n \<Longrightarrow> full_pieces n xs = []"
  by (simp add: full_pieces_def)

lemma rest_piece_short: "length xs < n \<Longrightarrow> rest_piece n xs = xs"
  by (simp add: rest_piece_def)

lemma rest_piece_drop:
  assumes "0 < n" and "n \<le> length xs"
  shows "rest_piece n xs = rest_piece n (drop n xs)"
proof -
  have "length xs div n = Suc (length (drop n xs) div n)" using assms by (simp add: le_div_geq)
  then show ?thesis by (simp add: rest_piece_def add.commute)
qed

lemma chunks_full_pieces:
  assumes "0 < n"
  shows "chunks n xs = full_pieces n xs @ (if rest_piece n xs = [] then [] else [rest_piece n xs])"
  using assms
proof (induction n xs rule: chunks.induct)
  case (1 n xs)
  show ?case
  proof (cases "length xs < n")
    case True
    then show ?thesis using 1 by (auto simp: full_pieces_short rest_piece_short chunks_short)
  next
    case False
    then have "n \<le> length xs" "xs \<noteq> []" using 1 by auto
    then show ?thesis
      using 1 by (simp add: chunks_rec full_pieces_Cons rest_piece_drop)
  qed
qed

lemma concat_full_pieces: "0 < n \<Longrightarrow> concat (full_pieces n xs) @ rest_piece n xs = xs"
  using concat_chunks [of n xs] by (simp add: chunks_full_pieces split: if_splits)

lemma length_full_piece: "0 < n \<Longrightarrow> p \<in> set (full_pieces n xs) \<Longrightarrow> length p = n"
proof -
  assume n: "0 < n" and p: "p \<in> set (full_pieces n xs)"
  then obtain i where i: "i < length xs div n" and pe: "p = take n (drop (n * i) xs)"
    by (auto simp: full_pieces_def)
  then have "Suc i * n \<le> length xs" using n by (simp add: Suc_le_eq less_eq_div_iff_mult_less_eq [symmetric] del: mult_Suc)
  with pe show "length p = n" by (simp add: mult.commute)
qed

lemma length_rest_piece: "0 < n \<Longrightarrow> length (rest_piece n xs) = length xs mod n"
  by (simp add: rest_piece_def minus_mult_div_eq_mod)

lemma length_rest_piece_less: "0 < n \<Longrightarrow> length (rest_piece n xs) < n"
  by (simp add: length_rest_piece)

lemma full_pieces_append:
  assumes "0 < n"
  shows "full_pieces n (xs @ ys) = full_pieces n xs @ full_pieces n (rest_piece n xs @ ys)"
    and "rest_piece n (xs @ ys) = rest_piece n (rest_piece n xs @ ys)"
proof (induction "length xs" arbitrary: xs rule: less_induct)
  case less
  case 1 show ?case
    using less(1) [of "drop n xs"] assms
    by (cases "length xs < n") (simp_all add: full_pieces_short rest_piece_short full_pieces_Cons rest_piece_drop)
  case 2 show ?case
    using less(2) [of "drop n xs"] assms rest_piece_drop [of n "xs @ ys"]
    by (cases "length xs < n") (simp_all add: rest_piece_short rest_piece_drop)
qed

lemma chunks_concat_full:
  "0 < n \<Longrightarrow> \<forall>p \<in> set ps. length p = n \<Longrightarrow> chunks n (concat ps @ b) = ps @ chunks n b"
  by (induction ps) (simp_all add: chunks_append)

lemma getFullChunk_piece:
  assumes "ChunkBufferedStream_inv b" and "i < ChunkBufferedStream_getNumberOfFullChunks b"
  shows "ChunkBufferedStream_getFullChunk b i = Inr (full_pieces (bs_chunkSize b) (bs_buf b) ! i)"
proof -
  have "Suc i \<le> length (bs_buf b) div bs_chunkSize b"
    using assms by (simp add: ChunkBufferedStream_getNumberOfFullChunks_def ChunkBufferedStream_inv_def)
  then have "bs_chunkSize b * i \<le> length (bs_buf b)"
    using assms(1) by (simp add: ChunkBufferedStream_inv_def less_eq_div_iff_mult_less_eq mult.commute)
  then show ?thesis
    using assms
    by (simp add: ChunkBufferedStream_getFullChunk_def ChunkBufferedStream_inv_def full_pieces_def u64_id
        ChunkBufferedStream_getNumberOfFullChunks_def)
qed

lemma freeFullChunks_rest:
  assumes "ChunkBufferedStream_inv b"
  shows "ChunkBufferedStream_freeFullChunks b =
    (Inr (), b\<lparr>bs_buf := rest_piece (bs_chunkSize b) (bs_buf b),
               bs_bufSize := length (rest_piece (bs_chunkSize b) (bs_buf b))\<rparr>)"
proof -
  let ?used = "bs_chunkSize b * (length (bs_buf b) div bs_chunkSize b)"
  have used: "?used \<le> length (bs_buf b)" by simp
  moreover have "length (bs_buf b) < 2 ^ 64"
    using assms le_less_trans by (auto simp: ChunkBufferedStream_inv_def)
  ultimately have "u64 ?used = ?used" "usub64 (length (bs_buf b)) ?used = length (bs_buf b) - ?used"
    using u64_id [OF le_less_trans] usub64_id by blast+
  with assms used show ?thesis
    by (simp add: ChunkBufferedStream_freeFullChunks_def ChunkBufferedStream_getNumberOfFullChunks_def
        ChunkBufferedStream_inv_def rest_piece_def bindS_def Let_def)
qed

lemma readChunk_rest:
  assumes "ChunkBufferedStream_inv b" and "length (bs_buf b) < bs_chunkSize b"
  shows "ChunkBufferedStream_readChunk b = (Inr (bs_buf b), b\<lparr>bs_buf := [], bs_bufSize := 0\<rparr>)"
  using assms
  by (simp add: ChunkBufferedStream_readChunk_def ChunkBufferedStream_inv_def bindS_def usub64_id)

lemma buffer_write_ok:
  assumes "\<not> bs_sizeControl b \<or> bs_totalDataSize b + length data \<le> bs_maxTotalDataSize b"
    and "bs_totalDataSize b + length data < 2 ^ 64" and "ChunkBufferedStream_inv b"
  shows "ChunkBufferedStream_write data b =
    (Inr (), b\<lparr>bs_buf := bs_buf b @ data, bs_bufSize := length (bs_buf b @ data),
               bs_totalDataSize := bs_totalDataSize b + length data\<rparr>)"
  using assms
  by (auto simp: ChunkBufferedStream_write_def ChunkBufferedStream_inv_def u64_id)

subsection \<open>What the Bridge collects\<close>

text \<open>
  The Bridge accepts the chunks of an open request in the order of their numbers and a commit
  that states how many there were: \<open>got\<close> are the pieces it holds for the request, \<open>fin\<close> the
  digests it was given when the file was committed.
\<close>

definition collects ::
    "'s request_api \<Rightarrow> string \<Rightarrow> int \<Rightarrow> ('s \<Rightarrow> bytes list) \<Rightarrow> ('s \<Rightarrow> bytes option) \<Rightarrow> bool" where
  "collects api rid idx got fin \<longleftrightarrow>
     (\<forall>s d. fin s = None \<longrightarrow>
        (\<exists>s'. rq_sendChunk api \<lparr>ch_requestId = rid, ch_fileIndex = idx, ch_seq = int (length (got s)), ch_data = d\<rparr> s
                 = (Inr (), s') \<and> got s' = got s @ [d] \<and> fin s' = None)) \<and>
     (\<forall>s cks. fin s = None \<longrightarrow>
        (\<exists>s'. rq_commitFile api \<lparr>cf_requestId = rid, cf_fileIndex = idx, cf_seq = int (length (got s)), cf_checksum = cks\<rparr> s
                 = (Inr (), s') \<and> got s' = got s \<and> fin s' = Some cks))"

text \<open>
  The streamer after encrypting the chunks \<open>chs\<close>: the Bridge holds full pieces of their bytes,
  the buffer holds the rest, and the counters and the digests agree.
\<close>

definition upload_view ::
    "('s \<Rightarrow> bytes list) \<Rightarrow> ('s \<Rightarrow> bytes option) \<Rightarrow> Chunk list \<Rightarrow> 's upload \<Rightarrow> bool" where
  "upload_view got fin chs u \<longleftrightarrow>
     (let cs = up_streamer u; b = cs_chunkBufferedStream cs
      in fin (up_server u) = None \<and> ChunkBufferedStream_inv b \<and> \<not> bs_sizeControl b \<and>
         (\<forall>p \<in> set (got (up_server u)). length p = bs_chunkSize b) \<and>
         concat (got (up_server u)) @ bs_buf b = file_data chs \<and>
         bs_totalDataSize b = length (file_data chs) \<and>
         cs_serverSeq cs = length (got (up_server u)) \<and>
         cs_checksums cs = file_checksums chs)"

text \<open>What no step of an upload changes.\<close>

definition same_request :: "'s upload \<Rightarrow> 's upload \<Rightarrow> bool" where
  "same_request u u' \<longleftrightarrow>
     (let cs = up_streamer u; cs' = up_streamer u'
      in cs_chunkSize cs' = cs_chunkSize cs \<and> cs_fileSize cs' = cs_fileSize cs \<and> cs_key cs' = cs_key cs \<and>
         cs_requestId cs' = cs_requestId cs \<and> cs_fileIndex cs' = cs_fileIndex cs \<and>
         bs_chunkSize (cs_chunkBufferedStream cs') = bs_chunkSize (cs_chunkBufferedStream cs))"

lemma same_request_refl [simp]: "same_request u u"
  by (simp add: same_request_def Let_def)

lemma same_request_trans: "same_request u u' \<Longrightarrow> same_request u' u'' \<Longrightarrow> same_request u u''"
  by (simp add: same_request_def Let_def)

lemma full_pieces_count: "0 < n \<Longrightarrow> \<forall>p \<in> set ps. length p = n \<Longrightarrow> length ps \<le> length (concat ps)"
proof (induction ps)
  case (Cons p ps)
  then have "0 < length p" "length ps \<le> length (concat ps)" by auto
  then show ?case unfolding list.size concat.simps length_append by linarith
qed simp

lemma upload_viewD:
  assumes "upload_view got fin chs u"
  defines "b \<equiv> cs_chunkBufferedStream (up_streamer u)"
  shows "fin (up_server u) = None" and "ChunkBufferedStream_inv b" and "\<not> bs_sizeControl b"
    and "\<And>p. p \<in> set (got (up_server u)) \<Longrightarrow> length p = bs_chunkSize b"
    and "concat (got (up_server u)) @ bs_buf b = file_data chs"
    and "bs_totalDataSize b = length (file_data chs)"
    and "cs_serverSeq (up_streamer u) = length (got (up_server u))"
    and "cs_checksums (up_streamer u) = file_checksums chs"
    and "0 < bs_chunkSize b" and "bs_bufSize b = length (bs_buf b)"
  using assms by (auto simp: upload_view_def Let_def ChunkBufferedStream_inv_def)

lemma upload_view_pieces:
  assumes "upload_view got fin chs u"
  defines "b \<equiv> cs_chunkBufferedStream (up_streamer u)"
  shows "length (got (up_server u)) + length (full_pieces (bs_chunkSize b) (bs_buf b)) \<le> length (file_data chs)"
proof -
  note v = upload_viewD [OF assms(1), folded b_def]
  let ?ps = "got (up_server u) @ full_pieces (bs_chunkSize b) (bs_buf b)"
  have "length ?ps \<le> length (concat ?ps)"
    using v(4,9) length_full_piece [OF v(9)] by (intro full_pieces_count [of "bs_chunkSize b"]) auto
  moreover have "concat ?ps @ rest_piece (bs_chunkSize b) (bs_buf b) = file_data chs"
    using v(5) concat_full_pieces [OF v(9), of "bs_buf b"] by (metis append.assoc concat_append)
  ultimately show ?thesis by (metis length_append le_add1 le_trans)
qed

lemma sendChunkToServer_ok:
  assumes col: "collects api (cs_requestId (up_streamer u)) (s64 (int (cs_fileIndex (up_streamer u)))) got fin"
    and fin: "fin (up_server u) = None" and seq: "cs_serverSeq (up_streamer u) = length (got (up_server u))"
    and small: "length (got (up_server u)) + 1 < 2 ^ 63"
  shows "\<exists>s'. ChunkStreamer_sendChunkToServer api d u =
    (Inr (), u\<lparr>up_server := s', up_streamer := (up_streamer u)\<lparr>cs_serverSeq := length (got s')\<rparr>\<rparr>)
    \<and> got s' = got (up_server u) @ [d] \<and> fin s' = None"
proof -
  let ?rid = "cs_requestId (up_streamer u)" and ?idx = "s64 (int (cs_fileIndex (up_streamer u)))"
  obtain s' where "rq_sendChunk api \<lparr>ch_requestId = ?rid, ch_fileIndex = ?idx,
      ch_seq = int (length (got (up_server u))), ch_data = d\<rparr> (up_server u) = (Inr (), s')"
    "got s' = got (up_server u) @ [d]" "fin s' = None"
    using col fin unfolding collects_def by blast
  then show ?thesis
    using small by (auto simp: ChunkStreamer_sendChunkToServer_def Let_def seq s64_of_nat u64_id intro!: exI [of _ s'])
qed

lemma send_full_chunks_ok:
  fixes u :: "'s upload" and got :: "'s \<Rightarrow> bytes list" and b :: ChunkBufferedStream
  defines "b \<equiv> cs_chunkBufferedStream (up_streamer u)"
  defines "upd \<equiv> \<lambda>s. u\<lparr>up_server := s, up_streamer := (up_streamer u)\<lparr>cs_serverSeq := length (got s)\<rparr>\<rparr>"
  assumes col: "collects api (cs_requestId (up_streamer u)) (s64 (int (cs_fileIndex (up_streamer u)))) got fin"
    and view: "upload_view got fin chs u" and small: "length (file_data chs) < 2 ^ 62"
    and k: "k \<le> ChunkBufferedStream_getNumberOfFullChunks b"
  shows "\<exists>s'. for_each (send_full_chunk api) [0..<k] u = (Inr (), upd s')
    \<and> got s' = got (up_server u) @ take k (full_pieces (bs_chunkSize b) (bs_buf b)) \<and> fin s' = None"
  using k
proof (induction k)
  case 0
  note v = upload_viewD [OF view]
  have "upd (up_server u) = u" using v(7) by (simp add: upd_def)
  then show ?case using v(1) by (auto intro!: exI [of _ "up_server u"])
next
  case (Suc k)
  note v = upload_viewD [OF view, folded b_def]
  let ?ps = "full_pieces (bs_chunkSize b) (bs_buf b)"
  have cnt: "length ?ps = ChunkBufferedStream_getNumberOfFullChunks b"
    by (simp add: full_pieces_def ChunkBufferedStream_getNumberOfFullChunks_def v(10))
  obtain s where s: "for_each (send_full_chunk api) [0..<k] u = (Inr (), upd s)"
      "got s = got (up_server u) @ take k ?ps" "fin s = None"
    using Suc Suc_leD by blast
  have "length (got s) + 1 < 2 ^ 63"
    using upload_view_pieces [OF view] small s(2) cnt Suc.prems by (simp add: b_def)
  then obtain s' where s': "ChunkStreamer_sendChunkToServer api (?ps ! k) (upd s) = (Inr (), upd s')"
    "got s' = got s @ [?ps ! k]" "fin s' = None"
    using sendChunkToServer_ok [of api "upd s" got fin "?ps ! k"] col s(3) by (auto simp: upd_def)
  have "send_full_chunk api k (upd s) = (Inr (), upd s')"
    using getFullChunk_piece [OF v(2), of k] Suc.prems s'(1)
    by (simp add: send_full_chunk_def bindS_def upd_def b_def)
  with s s' show ?case
    using cnt Suc.prems by (auto simp: for_each_append bindS_def take_Suc_conv_app_nth)
qed

lemma sendFullChunksWhileCollected_ok:
  fixes u :: "'s upload" and b b' :: ChunkBufferedStream
  defines "b \<equiv> cs_chunkBufferedStream (up_streamer u)"
  defines "b' \<equiv> b\<lparr>bs_buf := rest_piece (bs_chunkSize b) (bs_buf b), bs_bufSize := length (rest_piece (bs_chunkSize b) (bs_buf b))\<rparr>"
  assumes col: "collects api (cs_requestId (up_streamer u)) (s64 (int (cs_fileIndex (up_streamer u)))) got fin"
    and view: "upload_view got fin chs u" and small: "length (file_data chs) < 2 ^ 62"
  shows "\<exists>s'. ChunkStreamer_sendFullChunksWhileCollected api u =
      (Inr (), u\<lparr>up_server := s', up_streamer := (up_streamer u)
                    \<lparr>cs_serverSeq := length (got s'), cs_chunkBufferedStream := b'\<rparr>\<rparr>)
    \<and> got s' = got (up_server u) @ full_pieces (bs_chunkSize b) (bs_buf b) \<and> fin s' = None"
proof -
  note v = upload_viewD [OF view, folded b_def]
  let ?n = "ChunkBufferedStream_getNumberOfFullChunks b"
  let ?upd = "\<lambda>s. u\<lparr>up_server := s, up_streamer := (up_streamer u)\<lparr>cs_serverSeq := length (got s)\<rparr>\<rparr>"
  have cnt: "length (full_pieces (bs_chunkSize b) (bs_buf b)) = ?n"
    by (simp add: full_pieces_def ChunkBufferedStream_getNumberOfFullChunks_def v(10))
  obtain s' where s': "for_each (send_full_chunk api) [0..<?n] u = (Inr (), ?upd s')"
    "got s' = got (up_server u) @ full_pieces (bs_chunkSize b) (bs_buf b)" "fin s' = None"
    using send_full_chunks_ok [OF col view small, of ?n] cnt by (auto simp: b_def)
  have "(if ?n > 0 then on_buffer ChunkBufferedStream_freeFullChunks else ret ()) (?upd s')
    = (Inr (), u\<lparr>up_server := s', up_streamer := (up_streamer u)\<lparr>cs_serverSeq := length (got s'), cs_chunkBufferedStream := b'\<rparr>\<rparr>)"
  proof (cases "?n = 0")
    case True
    then have "length (bs_buf b) < bs_chunkSize b"
      using v(9,10) by (simp add: ChunkBufferedStream_getNumberOfFullChunks_def div_eq_0_iff)
    then have "b' = cs_chunkBufferedStream (up_streamer u)"
      using v(10) by (simp add: rest_piece_short b'_def b_def)
    with True show ?thesis by simp
  next
    case False
    then show ?thesis
      using freeFullChunks_rest [OF v(2)] by (simp add: on_buffer_def b'_def b_def)
  qed
  then have "ChunkStreamer_sendFullChunksWhileCollected api u
    = (Inr (), u\<lparr>up_server := s', up_streamer := (up_streamer u)\<lparr>cs_serverSeq := length (got s'), cs_chunkBufferedStream := b'\<rparr>\<rparr>)"
    unfolding ChunkStreamer_sendFullChunksWhileCollected_def Let_def b_def [symmetric] bindS_Inr [of "for_each _ _", OF s'(1)] .
  with s' show ?thesis by blast
qed

lemma prepareChunk_encrypt:
  "ChunkStreamer_prepareChunk c d cs r = ChunkEncryptor_encrypt c \<lparr>ce_key = cs_key cs, ce_chunkSize = n\<rparr> (cs_seq cs) d r"
  by (simp add: ChunkStreamer_prepareChunk_def ChunkEncryptor_encrypt_def ChunkStreamer_getSeqBE_def)

lemma file_data_snoc [simp]: "file_data (chs @ [ch]) = file_data chs @ chunk_data ch"
  and file_checksums_snoc [simp]: "file_checksums (chs @ [ch]) = file_checksums chs @ chunk_hmac ch"
  by (simp_all add: file_data_def file_checksums_def)

text \<open>Sending the full pieces of the buffer keeps the view; less than one piece stays behind.\<close>

lemma sendFull_view:
  assumes col: "collects api (cs_requestId (up_streamer u)) (s64 (int (cs_fileIndex (up_streamer u)))) got fin"
    and view: "upload_view got fin chs u" and small: "length (file_data chs) < 2 ^ 62"
  shows "\<exists>u'. ChunkStreamer_sendFullChunksWhileCollected api u = (Inr (), u') \<and> upload_view got fin chs u' \<and>
    length (bs_buf (cs_chunkBufferedStream (up_streamer u'))) < bs_chunkSize (cs_chunkBufferedStream (up_streamer u')) \<and>
    same_request u u' \<and> up_draws u' = up_draws u \<and> cs_seq (up_streamer u') = cs_seq (up_streamer u) \<and>
    cs_dataProcessed (up_streamer u') = cs_dataProcessed (up_streamer u) \<and>
    cs_uploadedFileSize (up_streamer u') = cs_uploadedFileSize (up_streamer u)"
proof -
  let ?b = "cs_chunkBufferedStream (up_streamer u)"
  note v = upload_viewD [OF view]
  obtain s' where s': "ChunkStreamer_sendFullChunksWhileCollected api u =
      (Inr (), u\<lparr>up_server := s', up_streamer := (up_streamer u)\<lparr>cs_serverSeq := length (got s'),
        cs_chunkBufferedStream := ?b\<lparr>bs_buf := rest_piece (bs_chunkSize ?b) (bs_buf ?b),
          bs_bufSize := length (rest_piece (bs_chunkSize ?b) (bs_buf ?b))\<rparr>\<rparr>\<rparr>)"
    "got s' = got (up_server u) @ full_pieces (bs_chunkSize ?b) (bs_buf ?b)" "fin s' = None"
    using sendFullChunksWhileCollected_ok [OF col view small] by blast
  have cat: "concat (got s') @ rest_piece (bs_chunkSize ?b) (bs_buf ?b) = file_data chs"
    using v(5) concat_full_pieces [OF v(9), of "bs_buf ?b"] unfolding s'(2) by (metis append.assoc concat_append)
  have "length (rest_piece (bs_chunkSize ?b) (bs_buf ?b)) \<le> length (file_data chs)"
    using cat by (metis le_add2 length_append)
  then show ?thesis
    using s' cat v length_rest_piece_less [OF v(9)] length_full_piece [OF v(9)]
    by (auto simp: upload_view_def same_request_def Let_def ChunkBufferedStream_inv_def)
qed

lemma prepareAndSendChunk_ok:
  fixes u :: "'s upload" and ch :: Chunk and chs d n c
  defines "ch \<equiv> fst (ChunkEncryptor_encrypt c \<lparr>ce_key = cs_key (up_streamer u), ce_chunkSize = n\<rparr> (length chs) d (up_draws u))"
  assumes col: "collects api (cs_requestId (up_streamer u)) (s64 (int (cs_fileIndex (up_streamer u)))) got fin"
    and view: "upload_view got fin chs u" and seq: "cs_seq (up_streamer u) = length chs"
    and small: "length (file_data (chs @ [ch])) < 2 ^ 62" and seq32: "Suc (length chs) < 2 ^ 32"
    and fits: "cs_dataProcessed (up_streamer u) + length d \<le> cs_fileSize (up_streamer u)"
    and size: "cs_fileSize (up_streamer u) < 2 ^ 64"
  shows "\<exists>u'. ChunkStreamer_prepareAndSendChunk c api d u = (Inr (), u') \<and> upload_view got fin (chs @ [ch]) u' \<and>
    length (bs_buf (cs_chunkBufferedStream (up_streamer u'))) < bs_chunkSize (cs_chunkBufferedStream (up_streamer u')) \<and>
    same_request u u' \<and> up_draws u' = Suc (up_draws u) \<and> cs_seq (up_streamer u') = length (chs @ [ch]) \<and>
    cs_dataProcessed (up_streamer u') = cs_dataProcessed (up_streamer u) + length d \<and>
    cs_uploadedFileSize (up_streamer u') = cs_uploadedFileSize (up_streamer u)"
proof -
  let ?b = "cs_chunkBufferedStream (up_streamer u)"
  note v = upload_viewD [OF view]
  let ?u1 = "u\<lparr>up_draws := Suc (up_draws u), up_streamer := (up_streamer u)\<lparr>cs_checksums := file_checksums (chs @ [ch])\<rparr>\<rparr>"
  let ?b2 = "?b\<lparr>bs_buf := bs_buf ?b @ chunk_data ch, bs_bufSize := length (bs_buf ?b @ chunk_data ch),
               bs_totalDataSize := length (file_data (chs @ [ch]))\<rparr>"
  let ?u2 = "?u1\<lparr>up_streamer := (up_streamer ?u1)\<lparr>cs_chunkBufferedStream := ?b2\<rparr>\<rparr>"
  have prep: "ChunkStreamer_prepareChunk c d (up_streamer u) (up_draws u) = (ch, Suc (up_draws u))"
    unfolding prepareChunk_encrypt [where n = n] seq ch_def by (simp add: ChunkEncryptor_encrypt_def Let_def)
  have "ChunkBufferedStream_write (chunk_data ch) ?b = (Inr (), ?b2)"
    using buffer_write_ok [of ?b "chunk_data ch"] v(2,3,6) small by simp
  then have w: "on_buffer (ChunkBufferedStream_write (chunk_data ch)) ?u1 = (Inr (), ?u2)"
    by (simp add: on_buffer_def)
  have len: "length (bs_buf ?b) + length (chunk_data ch) \<le> length (file_data chs) + length (chunk_data ch)"
    using v(5) by (metis add_right_mono le_add2 length_append)
  have "upload_view got fin (chs @ [ch]) ?u2"
    using v len small by (auto simp: upload_view_def Let_def ChunkBufferedStream_inv_def)
  from sendFull_view [OF _ this small] obtain u3 where u3:
    "ChunkStreamer_sendFullChunksWhileCollected api ?u2 = (Inr (), u3)" "upload_view got fin (chs @ [ch]) u3"
    "length (bs_buf (cs_chunkBufferedStream (up_streamer u3))) < bs_chunkSize (cs_chunkBufferedStream (up_streamer u3))"
    "same_request ?u2 u3" "up_draws u3 = Suc (up_draws u)" "cs_seq (up_streamer u3) = length chs"
    "cs_dataProcessed (up_streamer u3) = cs_dataProcessed (up_streamer u)"
    "cs_uploadedFileSize (up_streamer u3) = cs_uploadedFileSize (up_streamer u)"
    using col seq by auto
  let ?u4 = "u3\<lparr>up_streamer := (up_streamer u3)\<lparr>cs_dataProcessed := cs_dataProcessed (up_streamer u) + length d,
      cs_seq := Suc (length chs)\<rparr>\<rparr>"
  have guard: "\<not> u64 (cs_dataProcessed (up_streamer u) + length d) > cs_fileSize (up_streamer u)"
    and dp: "u64 (cs_dataProcessed (up_streamer u) + length d) = cs_dataProcessed (up_streamer u) + length d"
    using fits size by (simp_all add: u64_id)
  have "ChunkStreamer_prepareAndSendChunk c api d u = (Inr (), ?u4)"
    using guard dp prep w u3(1,6,7) seq32 v(8)
    by (simp add: ChunkStreamer_prepareAndSendChunk_def Let_def bindS_def u32_id)
  moreover have "upload_view got fin (chs @ [ch]) ?u4" "same_request u ?u4"
    using u3(2,4) by (simp_all add: upload_view_def same_request_def Let_def)
  ultimately show ?thesis using u3 by simp
qed

lemma commitFile_ok:
  assumes col: "collects api (cs_requestId (up_streamer u)) (s64 (int (cs_fileIndex (up_streamer u)))) got fin"
    and view: "upload_view got fin chs u" and small: "length (file_data chs) < 2 ^ 62"
  shows "\<exists>u'. ChunkStreamer_commitFile api u = (Inr (), u') \<and> same_request u u' \<and>
    got (up_server u') = chunks (bs_chunkSize (cs_chunkBufferedStream (up_streamer u))) (file_data chs) \<and>
    fin (up_server u') = Some (file_checksums chs) \<and> cs_checksums (up_streamer u') = file_checksums chs \<and>
    cs_uploadedFileSize (up_streamer u') = cs_uploadedFileSize (up_streamer u)"
proof -
  from sendFull_view [OF assms] obtain u1 where u1:
    "ChunkStreamer_sendFullChunksWhileCollected api u = (Inr (), u1)" "upload_view got fin chs u1"
    "length (bs_buf (cs_chunkBufferedStream (up_streamer u1))) < bs_chunkSize (cs_chunkBufferedStream (up_streamer u1))"
    "same_request u u1" "cs_uploadedFileSize (up_streamer u1) = cs_uploadedFileSize (up_streamer u)" by blast
  let ?b = "cs_chunkBufferedStream (up_streamer u1)"
  note v = upload_viewD [OF u1(2)]
  have pieces: "chunks (bs_chunkSize ?b) (file_data chs) = got (up_server u1) @ (if bs_buf ?b = [] then [] else [bs_buf ?b])"
    using v(5) [symmetric] chunks_concat_full [OF v(9), of "got (up_server u1)" "bs_buf ?b"] v(4) u1(3)
    by (simp add: chunks_short)
  have cnt: "length (got (up_server u1)) + 1 < 2 ^ 63" using upload_view_pieces [OF u1(2)] small by simp
  have req: "collects api (cs_requestId (up_streamer u1)) (s64 (int (cs_fileIndex (up_streamer u1)))) got fin"
    using col u1(4) by (simp add: same_request_def Let_def)
  obtain u2 where u2: "ChunkStreamer_sendLastChunkIfNonEmpty api u1 = (Inr (), u2)"
    "got (up_server u2) = chunks (bs_chunkSize ?b) (file_data chs)" "fin (up_server u2) = None"
    "cs_serverSeq (up_streamer u2) = length (got (up_server u2))" "same_request u1 u2"
    "cs_checksums (up_streamer u2) = file_checksums chs" "cs_uploadedFileSize (up_streamer u2) = cs_uploadedFileSize (up_streamer u1)"
  proof (cases "bs_buf ?b = []")
    case True
    then show ?thesis
      using that [of u1] v pieces by (simp add: ChunkStreamer_sendLastChunkIfNonEmpty_def ChunkBufferedStream_isEmpty_def)
  next
    case False
    let ?u = "u1\<lparr>up_streamer := (up_streamer u1)\<lparr>cs_chunkBufferedStream := ?b\<lparr>bs_buf := [], bs_bufSize := 0\<rparr>\<rparr>\<rparr>"
    have "on_buffer ChunkBufferedStream_readChunk u1 = (Inr (bs_buf ?b), ?u)"
      using readChunk_rest [OF v(2) u1(3)] by (simp add: on_buffer_def)
    moreover obtain s' where "ChunkStreamer_sendChunkToServer api (bs_buf ?b) ?u =
        (Inr (), ?u\<lparr>up_server := s', up_streamer := (up_streamer ?u)\<lparr>cs_serverSeq := length (got s')\<rparr>\<rparr>)"
      "got s' = got (up_server u1) @ [bs_buf ?b]" "fin s' = None"
      using sendChunkToServer_ok [of api ?u got fin "bs_buf ?b"] req v(1,7) cnt by auto
    ultimately show ?thesis
      using that [of "?u\<lparr>up_server := s', up_streamer := (up_streamer ?u)\<lparr>cs_serverSeq := length (got s')\<rparr>\<rparr>"]
        False v(8,10) pieces
      by (simp add: ChunkStreamer_sendLastChunkIfNonEmpty_def ChunkBufferedStream_isEmpty_def bindS_def
          same_request_def Let_def)
  qed
  have seq: "length (got (up_server u2)) < 2 ^ 63"
    using u2(2) pieces cnt by simp
  have req2: "collects api (cs_requestId (up_streamer u2)) (s64 (int (cs_fileIndex (up_streamer u2)))) got fin"
    using req u2(5) by (simp add: same_request_def Let_def)
  then obtain s' where s': "rq_commitFile api \<lparr>cf_requestId = cs_requestId (up_streamer u2),
      cf_fileIndex = s64 (int (cs_fileIndex (up_streamer u2))), cf_seq = int (length (got (up_server u2))),
      cf_checksum = file_checksums chs\<rparr> (up_server u2) = (Inr (), s')"
    "got s' = got (up_server u2)" "fin s' = Some (file_checksums chs)"
    using u2(3) unfolding collects_def by blast
  have "ChunkStreamer_commitFile api u = (Inr (), u2\<lparr>up_server := s'\<rparr>)"
    using u1(1) u2(1,4,6) s'(1) seq
    by (simp add: ChunkStreamer_commitFile_def bindS_def Let_def s64_of_nat)
  then show ?thesis
    using s'(2,3) u1(4,5) u2(2,5-7)
    by (auto simp: same_request_def Let_def)
qed

end
