(* ===== verification/Store_FileWriteHandle.thy ===== *)
theory Store_FileWriteHandle
  imports Store_ChunkStreamer
begin

text \<open>
  \<open>FileWriteHandle\<close> of \<open>store/src/FileHandle.cpp\<close>: a file that is being uploaded. Written bytes
  are collected in a \<open>ChunkBufferedStream\<close> of the plain chunk size; every full chunk goes to the
  \<open>ChunkStreamer\<close>, the rest is sent when the file is finalised.
\<close>

subsection \<open>State and operations\<close>

record FileHandle =
  hd_id :: int
  hd_storeId :: string
  hd_fileId :: string
  hd_resourceId :: string
  hd_size :: nat
  hd_randomWriteSupport :: bool

record 's FileWriteHandle =
  fw_handle :: FileHandle
  fw_publicMeta :: bytes
  fw_privateMeta :: bytes
  fw_stream :: ChunkBufferedStream
  fw_upload :: "'s upload"

definition FileWriteHandle_new ::
    "int \<Rightarrow> string \<Rightarrow> string \<Rightarrow> string \<Rightarrow> nat \<Rightarrow> bytes \<Rightarrow> bytes \<Rightarrow> nat \<Rightarrow> nat \<Rightarrow> bool \<Rightarrow> 's \<Rightarrow> nat \<Rightarrow> 's FileWriteHandle" where
  "FileWriteHandle_new handleId storeId fileId resourceId fileSize publicMeta privateMeta chunkSize
      serverRequestChunkSize randomWriteSupport s draws =
     \<lparr>fw_handle = \<lparr>hd_id = handleId, hd_storeId = storeId, hd_fileId = fileId, hd_resourceId = resourceId,
                    hd_size = fileSize, hd_randomWriteSupport = randomWriteSupport\<rparr>,
      fw_publicMeta = publicMeta, fw_privateMeta = privateMeta,
      fw_stream = ChunkBufferedStream_new chunkSize (Some fileSize),
      fw_upload = \<lparr>up_server = s, up_draws = draws,
                    up_streamer = ChunkStreamer_new chunkSize fileSize serverRequestChunkSize\<rparr>\<rparr>"

definition on_upload :: "(exn, 's upload, 'a) op \<Rightarrow> (exn, 's FileWriteHandle, 'a) op" where
  "on_upload m h = (case m (fw_upload h) of (r, u) \<Rightarrow> (r, h\<lparr>fw_upload := u\<rparr>))"

definition on_stream :: "(exn, ChunkBufferedStream, 'a) op \<Rightarrow> (exn, 's FileWriteHandle, 'a) op" where
  "on_stream m h = (case m (fw_stream h) of (r, b) \<Rightarrow> (r, h\<lparr>fw_stream := b\<rparr>))"

text \<open>The body of the loop of \<open>write\<close>.\<close>

definition stream_full_chunk :: "crypto_api \<Rightarrow> 's request_api \<Rightarrow> nat \<Rightarrow> (exn, 's FileWriteHandle, unit) op" where
  "stream_full_chunk c api i h =
     bindS (liftR (ChunkBufferedStream_getFullChunk (fw_stream h) i)) (\<lambda>d. on_upload (ChunkStreamer_sendChunk c api d)) h"

definition FileWriteHandle_write :: "crypto_api \<Rightarrow> 's request_api \<Rightarrow> bytes \<Rightarrow> (exn, 's FileWriteHandle, unit) op" where
  "FileWriteHandle_write c api data =
     bindS (on_stream (ChunkBufferedStream_write data)) (\<lambda>_.
     bindS (\<lambda>h. for_each (stream_full_chunk c api) [0..<ChunkBufferedStream_getNumberOfFullChunks (fw_stream h)] h) (\<lambda>_.
     on_stream ChunkBufferedStream_freeFullChunks))"

definition FileWriteHandle_finalize :: "crypto_api \<Rightarrow> 's request_api \<Rightarrow> (exn, 's FileWriteHandle, ChunksSentInfo) op" where
  "FileWriteHandle_finalize c api h =
     (if \<not> ChunkBufferedStream_isFullyFilled (fw_stream h)
      then (Inl (ConnectionExn DataDifferentThanDeclaredException), h)
      else bindS (on_stream ChunkBufferedStream_readChunk) (\<lambda>d.
           bindS (on_upload (ChunkStreamer_finalize c api d)) (\<lambda>result h.
             (Inr result, h\<lparr>fw_handle := (fw_handle h)
                \<lparr>hd_size := ChunkStreamer_getUploadedFileSize (up_streamer (fw_upload h))\<rparr>\<rparr>))) h)"

definition FileWriteHandle_isReadyToFinalize :: "'s FileWriteHandle \<Rightarrow> bool" where
  "FileWriteHandle_isReadyToFinalize h = ChunkBufferedStream_isFullyFilled (fw_stream h)"

definition FileWriteHandle_getEncryptedFileSize :: "'s FileWriteHandle \<Rightarrow> FileSizeResult" where
  "FileWriteHandle_getEncryptedFileSize h = ChunkStreamer_getFileSize (up_streamer (fw_upload h))"

definition FileWriteHandle_createRequestData :: "crypto_api \<Rightarrow> 's request_api \<Rightarrow> (exn, 's FileWriteHandle, unit) op" where
  "FileWriteHandle_createRequestData c api h =
     on_upload (ChunkStreamer_createRequest c api (hd_randomWriteSupport (fw_handle h))) h"

definition FileWriteHandle_setRequestData :: "string \<Rightarrow> bytes \<Rightarrow> int \<Rightarrow> 's FileWriteHandle \<Rightarrow> 's FileWriteHandle" where
  "FileWriteHandle_setRequestData requestId key fileIndex h =
     h\<lparr>fw_upload := (fw_upload h)\<lparr>up_streamer :=
         ChunkStreamer_setRequestData requestId key (u64_of_int fileIndex) (up_streamer (fw_upload h))\<rparr>\<rparr>"

subsection \<open>Streaming plain chunks\<close>

text \<open>\<open>seals c e ds chs\<close>: the chunks \<open>chs\<close> are encryptions of the pieces \<open>ds\<close> at their indices.\<close>

definition seals :: "crypto_api \<Rightarrow> ChunkEncryptor \<Rightarrow> bytes list \<Rightarrow> Chunk list \<Rightarrow> bool" where
  "seals c e ds chs \<longleftrightarrow>
     length chs = length ds \<and> (\<forall>i < length ds. \<exists>r. chs ! i = fst (ChunkEncryptor_encrypt c e i (ds ! i) r))"

lemma seals_Nil [simp]: "seals c e [] []"
  by (simp add: seals_def)

lemma seals_snoc:
  "seals c e ds chs \<Longrightarrow> seals c e (ds @ [d]) (chs @ [fst (ChunkEncryptor_encrypt c e (length chs) d r)])"
  by (auto simp: seals_def nth_append less_Suc_eq)

lemma seals_lengths:
  assumes "crypto_ok c" and "seals c e ds chs"
  shows "length (file_data chs) = sum_list (map (encrypted_len \<circ> length) ds)"
    and "length (file_checksums chs) = 32 * length ds"
proof -
  have "map (length \<circ> chunk_data) chs = map (encrypted_len \<circ> length) ds"
    "map (length \<circ> chunk_hmac) chs = map (\<lambda>_. 32) ds"
    using assms encrypt_data_length [OF assms(1)] by (auto simp: seals_def list_eq_iff_nth_eq)
  then show "length (file_data chs) = sum_list (map (encrypted_len \<circ> length) ds)"
    "length (file_checksums chs) = 32 * length ds"
    using map_map by (simp_all add: file_data_def file_checksums_def length_concat sum_list_triv)
qed

lemma seals_sealed:
  assumes "crypto_ok c" and "seals c e (chunks n plain) chs"
  shows "sealed_file (ChunkEncryptor_decrypt c e) n plain chs"
  unfolding sealed_file_def
proof (intro conjI allI impI)
  show "length chs = length (chunks n plain)" using assms(2) by (simp add: seals_def)
  fix i assume "i < length chs"
  then obtain r where "chs ! i = fst (ChunkEncryptor_encrypt c e i (chunks n plain ! i) r)"
    using assms(2) by (auto simp: seals_def)
  then show "ChunkEncryptor_decrypt c e i (chs ! i) = Inr (chunks n plain ! i)"
    "length (chunk_data (chs ! i)) = encrypted_len (length (chunks n plain ! i))"
    "length (chunk_hmac (chs ! i)) = 32"
    using decrypt_encrypt [OF assms(1)] encrypt_data_length [OF assms(1)] by simp_all
qed

definition uploader :: "'s upload \<Rightarrow> ChunkEncryptor" where
  "uploader u = \<lparr>ce_key = cs_key (up_streamer u), ce_chunkSize = cs_chunkSize (up_streamer u)\<rparr>"

lemma uploader_same [simp]: "same_request u u' \<Longrightarrow> uploader u' = uploader u"
  by (simp add: uploader_def same_request_def Let_def)

text \<open>The streamer after the full plain chunks \<open>ds\<close>.\<close>

definition streamed ::
    "crypto_api \<Rightarrow> ('s \<Rightarrow> bytes list) \<Rightarrow> ('s \<Rightarrow> bytes option) \<Rightarrow> bytes list \<Rightarrow> Chunk list \<Rightarrow> 's upload \<Rightarrow> bool" where
  "streamed c got fin ds chs u \<longleftrightarrow>
     upload_view got fin chs u \<and> seals c (uploader u) ds chs \<and>
     (\<forall>d \<in> set ds. length d = cs_chunkSize (up_streamer u)) \<and>
     length (bs_buf (cs_chunkBufferedStream (up_streamer u))) < bs_chunkSize (cs_chunkBufferedStream (up_streamer u)) \<and>
     cs_seq (up_streamer u) = length ds \<and>
     cs_dataProcessed (up_streamer u) = length ds * cs_chunkSize (up_streamer u)"

text \<open>The sizes an upload may have: 32-bit chunk numbers and 62-bit positions.\<close>

definition upload_fits :: "nat \<Rightarrow> nat \<Rightarrow> bool" where
  "upload_fits n sz \<longleftrightarrow> 0 < n \<and> Suc (sz div n) < 2 ^ 32 \<and> Suc (sz div n) * encrypted_len n < 2 ^ 62"

lemma upload_fits_size:
  assumes "upload_fits n sz"
  shows "sz < 2 ^ 62" and "n < 2 ^ 62"
proof -
  have "sz < Suc (sz div n) * n"
    using assms by (metis upload_fits_def dividend_less_div_times add.commute mult_Suc)
  also have "\<dots> \<le> Suc (sz div n) * encrypted_len n"
    by (intro mult_le_mono2) (simp add: encrypted_len_def)
  finally show "sz < 2 ^ 62" using assms by (simp add: upload_fits_def)
  have "n \<le> 1 * encrypted_len n" by (simp add: encrypted_len_def)
  also have "\<dots> \<le> Suc (sz div n) * encrypted_len n" by (intro mult_le_mono1) simp
  finally show "n < 2 ^ 62" using assms by (simp add: upload_fits_def)
qed

lemma sum_encrypted_full: "\<forall>d \<in> set ds. length d = n \<Longrightarrow> sum_list (map (encrypted_len \<circ> length) ds) = length ds * encrypted_len n"
  by (induction ds) simp_all

lemma streamed_bound:
  assumes "crypto_ok c" and "streamed c got fin ds chs u" and "upload_fits n sz"
    and "n = cs_chunkSize (up_streamer u)" and "length ds * n + length d \<le> sz" and "length d \<le> n"
    and "ch = fst (ChunkEncryptor_encrypt c (uploader u) (length chs) d r)"
  shows "length (file_data (chs @ [ch])) < 2 ^ 62" and "Suc (length chs) < 2 ^ 32" and "length chs = length ds"
proof -
  have st: "seals c (uploader u) ds chs" "\<forall>d \<in> set ds. length d = n"
    using assms(2,4) by (simp_all add: streamed_def)
  show len: "length chs = length ds" using st(1) by (simp add: seals_def)
  have "length ds * n \<le> sz" using assms(5) by simp
  then have k: "length ds \<le> sz div n" using assms(3) by (simp add: upload_fits_def less_eq_div_iff_mult_less_eq)
  then show "Suc (length chs) < 2 ^ 32" using assms(3) len by (simp add: upload_fits_def)
  have "length (file_data (chs @ [ch])) = length ds * encrypted_len n + encrypted_len (length d)"
    using seals_lengths(1) [OF assms(1) st(1)] sum_encrypted_full [OF st(2)] encrypt_data_length(1) [OF assms(1)]
    by (simp add: assms(7))
  also have "\<dots> \<le> sz div n * encrypted_len n + encrypted_len n"
    using k encrypted_len_mono [OF assms(6)] by (intro add_mono mult_le_mono1)
  also have "\<dots> = Suc (sz div n) * encrypted_len n" by simp
  finally show "length (file_data (chs @ [ch])) < 2 ^ 62" using assms(3) by (simp add: upload_fits_def)
qed

text \<open>One plain chunk, full or the last one, through \<open>prepareAndSendChunk\<close>.\<close>

lemma stream_piece:
  assumes ok: "crypto_ok c" and st: "streamed c got fin ds chs u"
    and col: "collects api (cs_requestId (up_streamer u)) (s64 (int (cs_fileIndex (up_streamer u)))) got fin"
    and fits: "upload_fits n (cs_fileSize (up_streamer u))" and n: "n = cs_chunkSize (up_streamer u)"
    and len: "length ds * n + length d \<le> cs_fileSize (up_streamer u)" "length d \<le> n"
  shows "\<exists>u' chs'. ChunkStreamer_prepareAndSendChunk c api d u = (Inr (), u') \<and> upload_view got fin chs' u' \<and>
    seals c (uploader u) (ds @ [d]) chs' \<and>
    length (bs_buf (cs_chunkBufferedStream (up_streamer u'))) < bs_chunkSize (cs_chunkBufferedStream (up_streamer u')) \<and>
    same_request u u' \<and> cs_seq (up_streamer u') = length (ds @ [d]) \<and>
    cs_dataProcessed (up_streamer u') = cs_dataProcessed (up_streamer u) + length d \<and>
    cs_uploadedFileSize (up_streamer u') = cs_uploadedFileSize (up_streamer u)"
proof -
  let ?ch = "fst (ChunkEncryptor_encrypt c (uploader u) (length chs) d (up_draws u))"
  have view: "upload_view got fin chs u" and seq: "cs_seq (up_streamer u) = length chs"
    and fit: "cs_dataProcessed (up_streamer u) + length d \<le> cs_fileSize (up_streamer u)"
    using st len n by (auto simp: streamed_def seals_def)
  note b = streamed_bound [OF ok st fits n len refl]
  have "cs_fileSize (up_streamer u) < 2 ^ 64" using upload_fits_size(1) [OF fits] by simp
  from prepareAndSendChunk_ok [OF col view seq, of c n d] b fit this
  obtain u' where "ChunkStreamer_prepareAndSendChunk c api d u = (Inr (), u')" "upload_view got fin (chs @ [?ch]) u'"
    "length (bs_buf (cs_chunkBufferedStream (up_streamer u'))) < bs_chunkSize (cs_chunkBufferedStream (up_streamer u'))"
    "same_request u u'" "cs_seq (up_streamer u') = length (chs @ [?ch])"
    "cs_dataProcessed (up_streamer u') = cs_dataProcessed (up_streamer u) + length d"
    "cs_uploadedFileSize (up_streamer u') = cs_uploadedFileSize (up_streamer u)"
    by (auto simp: uploader_def n)
  moreover have "seals c (uploader u) (ds @ [d]) (chs @ [?ch])"
    using st by (auto simp: streamed_def intro: seals_snoc)
  ultimately show ?thesis using b(3) by (intro exI [of _ u'] exI [of _ "chs @ [?ch]"]) simp
qed

lemma streamed_uploaded [simp]:
  "streamed c got fin ds chs (u\<lparr>up_streamer := (up_streamer u)\<lparr>cs_uploadedFileSize := k\<rparr>\<rparr>) \<longleftrightarrow> streamed c got fin ds chs u"
  by (simp add: streamed_def upload_view_def uploader_def Let_def)

lemma sendChunk_streamed:
  assumes ok: "crypto_ok c" and st: "streamed c got fin ds chs u"
    and up: "cs_uploadedFileSize (up_streamer u) = length ds * n"
    and col: "collects api (cs_requestId (up_streamer u)) (s64 (int (cs_fileIndex (up_streamer u)))) got fin"
    and fits: "upload_fits n (cs_fileSize (up_streamer u))" and n: "n = cs_chunkSize (up_streamer u)"
    and len: "Suc (length ds) * n \<le> cs_fileSize (up_streamer u)" "length d = n"
  shows "\<exists>u' chs'. ChunkStreamer_sendChunk c api d u = (Inr (), u') \<and> streamed c got fin (ds @ [d]) chs' u' \<and>
    same_request u u' \<and> cs_uploadedFileSize (up_streamer u') = length (ds @ [d]) * n"
proof -
  let ?u1 = "u\<lparr>up_streamer := (up_streamer u)\<lparr>cs_uploadedFileSize := Suc (length ds) * n\<rparr>\<rparr>"
  have "Suc (length ds) * n < 2 ^ 64" using len upload_fits_size(1) [OF fits] by simp
  then have u1: "add_uploaded d u = (Inr (), ?u1)"
    using up len(2) by (simp add: add_uploaded_def u64_id add.commute)
  have st1: "streamed c got fin ds chs ?u1" using st by simp
  obtain u' chs' where u': "ChunkStreamer_prepareAndSendChunk c api d ?u1 = (Inr (), u')" "upload_view got fin chs' u'"
    "seals c (uploader ?u1) (ds @ [d]) chs'"
    "length (bs_buf (cs_chunkBufferedStream (up_streamer u'))) < bs_chunkSize (cs_chunkBufferedStream (up_streamer u'))"
    "same_request ?u1 u'" "cs_seq (up_streamer u') = length (ds @ [d])"
    "cs_dataProcessed (up_streamer u') = cs_dataProcessed (up_streamer u) + length d"
    "cs_uploadedFileSize (up_streamer u') = Suc (length ds) * n"
    using stream_piece [OF ok st1, of api n d] col fits n len by auto
  have same: "same_request u u'" using u'(5) by (simp add: same_request_def Let_def)
  have "ChunkStreamer_sendChunk c api d u = (Inr (), u')"
    using u'(1) u1 n len(2) by (simp add: ChunkStreamer_sendChunk_def bindS_def)
  moreover have "streamed c got fin (ds @ [d]) chs' u'"
  proof -
    have cz: "cs_chunkSize (up_streamer u') = n" using same n by (simp add: same_request_def Let_def)
    have old: "\<forall>d \<in> set ds. length d = n" "cs_dataProcessed (up_streamer u) = length ds * n"
      using st n by (simp_all add: streamed_def)
    have "cs_dataProcessed (up_streamer u') = length (ds @ [d]) * n"
      using u'(7) old(2) len(2) by simp
    then show ?thesis
      unfolding streamed_def cz uploader_same [OF u'(5)]
      using u'(2-4,6) old(1) len(2) by auto
  qed
  ultimately show ?thesis using same u'(8) by auto
qed

subsection \<open>The handle while it is written\<close>

text \<open>The handle after the bytes \<open>w\<close>: the full chunks of \<open>w\<close> are streamed, the rest is buffered.\<close>

definition write_view ::
    "crypto_api \<Rightarrow> 's request_api \<Rightarrow> ('s \<Rightarrow> bytes list) \<Rightarrow> ('s \<Rightarrow> bytes option) \<Rightarrow> bytes \<Rightarrow> Chunk list \<Rightarrow> 's FileWriteHandle \<Rightarrow> bool" where
  "write_view c api got fin w chs h \<longleftrightarrow>
     (let b = fw_stream h; u = fw_upload h; n = bs_chunkSize b
      in streamed c got fin (full_pieces n w) chs u \<and> cs_chunkSize (up_streamer u) = n \<and>
         cs_uploadedFileSize (up_streamer u) = length (full_pieces n w) * n \<and>
         ChunkBufferedStream_inv b \<and> bs_buf b = rest_piece n w \<and> bs_totalDataSize b = length w \<and>
         bs_sizeControl b \<and> bs_maxTotalDataSize b = cs_fileSize (up_streamer u) \<and>
         upload_fits n (cs_fileSize (up_streamer u)) \<and>
         collects api (cs_requestId (up_streamer u)) (s64 (int (cs_fileIndex (up_streamer u)))) got fin)"

lemma full_pieces_bound: "0 < n \<Longrightarrow> length (full_pieces n xs) * n \<le> length xs"
  by (simp add: full_pieces_def)

lemma stream_full_chunks_ok:
  assumes ok: "crypto_ok c" and st: "streamed c got fin ds chs (fw_upload h)"
    and up: "cs_uploadedFileSize (up_streamer (fw_upload h)) = length ds * n"
    and col: "collects api (cs_requestId (up_streamer (fw_upload h))) (s64 (int (cs_fileIndex (up_streamer (fw_upload h))))) got fin"
    and fits: "upload_fits n (cs_fileSize (up_streamer (fw_upload h)))"
    and n: "n = cs_chunkSize (up_streamer (fw_upload h))" "n = bs_chunkSize (fw_stream h)"
    and inv: "ChunkBufferedStream_inv (fw_stream h)"
    and len: "(length ds + length (full_pieces n (bs_buf (fw_stream h)))) * n \<le> cs_fileSize (up_streamer (fw_upload h))"
    and k: "k \<le> length (full_pieces n (bs_buf (fw_stream h)))"
  shows "\<exists>u' chs'. for_each (stream_full_chunk c api) [0..<k] h = (Inr (), h\<lparr>fw_upload := u'\<rparr>) \<and>
    streamed c got fin (ds @ take k (full_pieces n (bs_buf (fw_stream h)))) chs' u' \<and> same_request (fw_upload h) u' \<and>
    cs_uploadedFileSize (up_streamer u') = (length ds + k) * n"
  using k
proof (induction k)
  case 0
  then show ?case using st up by (auto intro!: exI [of _ "fw_upload h"] exI [of _ chs])
next
  case (Suc k)
  let ?ps = "full_pieces n (bs_buf (fw_stream h))"
  obtain u chs1 where u: "for_each (stream_full_chunk c api) [0..<k] h = (Inr (), h\<lparr>fw_upload := u\<rparr>)"
    "streamed c got fin (ds @ take k ?ps) chs1 u" "same_request (fw_upload h) u"
    "cs_uploadedFileSize (up_streamer u) = (length ds + k) * n"
    using Suc Suc_leD by blast
  have kl: "k < length ?ps" using Suc.prems by simp
  have n0: "0 < n" using fits by (simp add: upload_fits_def)
  have sr: "cs_requestId (up_streamer u) = cs_requestId (up_streamer (fw_upload h))"
    "cs_fileIndex (up_streamer u) = cs_fileIndex (up_streamer (fw_upload h))"
    "cs_fileSize (up_streamer u) = cs_fileSize (up_streamer (fw_upload h))"
    "cs_chunkSize (up_streamer u) = n"
    using u(3) n(1) by (simp_all add: same_request_def Let_def)
  have "Suc (length (ds @ take k ?ps)) * n \<le> (length ds + length ?ps) * n"
    using kl by (intro mult_le_mono1) simp
  also note len
  finally have bound: "Suc (length (ds @ take k ?ps)) * n \<le> cs_fileSize (up_streamer u)" unfolding sr .
  have upl: "cs_uploadedFileSize (up_streamer u) = length (ds @ take k ?ps) * n" using u(4) kl by simp
  have piece: "length (?ps ! k) = n" using length_full_piece [OF n0 nth_mem [OF kl]] .
  note col' = col [folded sr(1,2)] and fits' = fits [folded sr(3)]
  obtain u' chs' where u': "ChunkStreamer_sendChunk c api (?ps ! k) u = (Inr (), u')"
    "streamed c got fin ((ds @ take k ?ps) @ [?ps ! k]) chs' u'" "same_request u u'"
    "cs_uploadedFileSize (up_streamer u') = length ((ds @ take k ?ps) @ [?ps ! k]) * n"
    using sendChunk_streamed [OF ok u(2) upl col' fits' sr(4) [symmetric] bound piece] by blast
  have "k < ChunkBufferedStream_getNumberOfFullChunks (fw_stream h)"
    using kl n(2) inv by (simp add: full_pieces_def ChunkBufferedStream_getNumberOfFullChunks_def ChunkBufferedStream_inv_def)
  then have "stream_full_chunk c api k (h\<lparr>fw_upload := u\<rparr>) = (Inr (), h\<lparr>fw_upload := u'\<rparr>)"
    using getFullChunk_piece [OF inv] u'(1) n(2) by (simp add: stream_full_chunk_def bindS_def on_upload_def)
  then have "for_each (stream_full_chunk c api) [0..<Suc k] h = (Inr (), h\<lparr>fw_upload := u'\<rparr>)"
    using u(1) by (simp add: for_each_append bindS_def)
  moreover have "streamed c got fin (ds @ take (Suc k) ?ps) chs' u'"
    using u'(2) kl by (simp add: take_Suc_conv_app_nth)
  moreover have "cs_uploadedFileSize (up_streamer u') = (length ds + Suc k) * n"
    using u'(4) kl by simp
  ultimately show ?case using same_request_trans [OF u(3) u'(3)] by blast
qed

lemma FileWriteHandle_write_view:
  assumes ok: "crypto_ok c" and view: "write_view c api got fin w chs h"
    and len: "length w + length data \<le> cs_fileSize (up_streamer (fw_upload h))"
  shows "\<exists>h' chs'. FileWriteHandle_write c api data h = (Inr (), h') \<and> write_view c api got fin (w @ data) chs' h' \<and>
    fw_handle h' = fw_handle h \<and> same_request (fw_upload h) (fw_upload h') \<and> bs_chunkSize (fw_stream h') = bs_chunkSize (fw_stream h)"
proof -
  let ?b = "fw_stream h" and ?u = "fw_upload h" and ?n = "bs_chunkSize (fw_stream h)"
  have v: "streamed c got fin (full_pieces ?n w) chs ?u" "cs_chunkSize (up_streamer ?u) = ?n"
    "cs_uploadedFileSize (up_streamer ?u) = length (full_pieces ?n w) * ?n"
    "ChunkBufferedStream_inv ?b" "bs_buf ?b = rest_piece ?n w" "bs_totalDataSize ?b = length w"
    "bs_sizeControl ?b" "bs_maxTotalDataSize ?b = cs_fileSize (up_streamer ?u)"
    "upload_fits ?n (cs_fileSize (up_streamer ?u))"
    "collects api (cs_requestId (up_streamer ?u)) (s64 (int (cs_fileIndex (up_streamer ?u)))) got fin"
    using view by (simp_all add: write_view_def Let_def)
  have n0: "0 < ?n" using v(4) by (simp add: ChunkBufferedStream_inv_def)
  have size: "cs_fileSize (up_streamer ?u) < 2 ^ 62" by (rule upload_fits_size(1) [OF v(9)])
  let ?b1 = "?b\<lparr>bs_buf := rest_piece ?n w @ data, bs_bufSize := length (rest_piece ?n w @ data),
               bs_totalDataSize := length (w @ data)\<rparr>"
  let ?h1 = "h\<lparr>fw_stream := ?b1\<rparr>" and ?ps = "full_pieces ?n (rest_piece ?n w @ data)"
  have w1: "on_stream (ChunkBufferedStream_write data) h = (Inr (), ?h1)"
    using buffer_write_ok [of ?b data] v(4-8) len size by (simp add: on_stream_def)
  have inv1: "ChunkBufferedStream_inv ?b1"
    using v(4,8) len size length_rest_piece [OF n0, of w]
    by (auto simp: ChunkBufferedStream_inv_def intro: order_trans [OF mod_less_eq_dividend])
  have pieces: "full_pieces ?n (w @ data) = full_pieces ?n w @ ?ps" by (rule full_pieces_append(1) [OF n0])
  then have bound: "(length (full_pieces ?n w) + length ?ps) * ?n \<le> cs_fileSize (up_streamer ?u)"
    using full_pieces_bound [OF n0, of "w @ data"] len by simp
  have num: "ChunkBufferedStream_getNumberOfFullChunks ?b1 = length ?ps"
    by (simp add: full_pieces_def ChunkBufferedStream_getNumberOfFullChunks_def)
  obtain u' chs' where u': "for_each (stream_full_chunk c api) [0..<length ?ps] ?h1 = (Inr (), ?h1\<lparr>fw_upload := u'\<rparr>)"
    "streamed c got fin (full_pieces ?n (w @ data)) chs' u'" "same_request ?u u'"
    "cs_uploadedFileSize (up_streamer u') = length (full_pieces ?n (w @ data)) * ?n"
    using stream_full_chunks_ok [OF ok, of got fin "full_pieces ?n w" chs ?h1 ?n api "length ?ps"] v inv1 bound pieces
    by auto
  let ?b2 = "?b1\<lparr>bs_buf := rest_piece ?n (w @ data), bs_bufSize := length (rest_piece ?n (w @ data))\<rparr>"
  let ?h2 = "?h1\<lparr>fw_upload := u', fw_stream := ?b2\<rparr>"
  have "on_stream ChunkBufferedStream_freeFullChunks (?h1\<lparr>fw_upload := u'\<rparr>) = (Inr (), ?h2)"
    using freeFullChunks_rest [OF inv1] full_pieces_append(2) [OF n0, of w data] by (simp add: on_stream_def)
  then have "FileWriteHandle_write c api data h = (Inr (), ?h2)"
    using w1 u'(1) num by (simp add: FileWriteHandle_write_def bindS_def)
  moreover have "write_view c api got fin (w @ data) chs' ?h2"
    using v u'(2-4) inv1 length_rest_piece [OF n0, of "w @ data"]
    by (auto simp: write_view_def same_request_def Let_def ChunkBufferedStream_inv_def intro: order_trans [OF mod_less_eq_dividend])
  ultimately show ?thesis using u'(3) by fastforce
qed

subsection \<open>Finalising\<close>

lemma finalize_streamed:
  assumes ok: "crypto_ok c" and st: "streamed c got fin ds chs u"
    and up: "cs_uploadedFileSize (up_streamer u) = length ds * n"
    and col: "collects api (cs_requestId (up_streamer u)) (s64 (int (cs_fileIndex (up_streamer u)))) got fin"
    and fits: "upload_fits n (cs_fileSize (up_streamer u))" and n: "n = cs_chunkSize (up_streamer u)"
    and len: "length ds * n + length d = cs_fileSize (up_streamer u)" "length d \<le> n"
  shows "\<exists>u' chs'. ChunkStreamer_finalize c api d u =
      (Inr \<lparr>si_cipherType = 1, si_key = cs_key (up_streamer u),
            si_hmac = hmacSha256 c (cs_key (up_streamer u)) (file_checksums chs'),
            si_chunkSize = n, si_requestId = cs_requestId (up_streamer u)\<rparr>, u') \<and>
    seals c (uploader u) (ds @ (if d = [] then [] else [d])) chs' \<and>
    got (up_server u') = chunks (bs_chunkSize (cs_chunkBufferedStream (up_streamer u))) (file_data chs') \<and>
    fin (up_server u') = Some (file_checksums chs') \<and>
    cs_uploadedFileSize (up_streamer u') = cs_fileSize (up_streamer u)"
proof -
  let ?u1 = "u\<lparr>up_streamer := (up_streamer u)\<lparr>cs_uploadedFileSize := cs_fileSize (up_streamer u)\<rparr>\<rparr>"
  have size: "cs_fileSize (up_streamer u) < 2 ^ 62" by (rule upload_fits_size(1) [OF fits])
  then have u1: "add_uploaded d u = (Inr (), ?u1)"
    using up len(1) by (simp add: add_uploaded_def u64_id)
  have st1: "streamed c got fin ds chs ?u1" using st by simp
  have len': "length ds * n + length d \<le> cs_fileSize (up_streamer u)" using len(1) by simp
  obtain u2 chs' where u2: "(if d \<noteq> [] then ChunkStreamer_prepareAndSendChunk c api d else ret ()) ?u1 = (Inr (), u2)"
    "upload_view got fin chs' u2" "seals c (uploader u) (ds @ (if d = [] then [] else [d])) chs'" "same_request u u2"
    "cs_uploadedFileSize (up_streamer u2) = cs_fileSize (up_streamer u)" "length (file_data chs') < 2 ^ 62"
  proof (cases "d = []")
    case True
    have "same_request u ?u1" by (simp add: same_request_def Let_def)
    moreover have "length (file_data chs) < 2 ^ 62"
      using streamed_bound(1) [OF ok st fits n len' len(2) refl, of 0] by simp
    ultimately show ?thesis
      using that [of ?u1 chs] True st1 st by (simp add: streamed_def)
  next
    case False
    obtain u' chs' where u': "ChunkStreamer_prepareAndSendChunk c api d ?u1 = (Inr (), u')" "upload_view got fin chs' u'"
      "seals c (uploader ?u1) (ds @ [d]) chs'" "same_request ?u1 u'"
      "cs_uploadedFileSize (up_streamer u') = cs_fileSize (up_streamer u)"
      using stream_piece [OF ok st1, of api n d] col fits n len' len(2) by auto
    have up1: "uploader ?u1 = uploader u" by (simp add: uploader_def)
    have sr: "same_request u u'" using u'(4) by (simp add: same_request_def Let_def)
    have "length (file_data chs') = length ds * encrypted_len n + encrypted_len (length d)"
      using seals_lengths(1) [OF ok u'(3)] sum_encrypted_full [of ds n] st n by (simp add: streamed_def)
    moreover have "\<dots> < 2 ^ 62"
      using streamed_bound(1) [OF ok st fits n len' len(2) refl, of 0] seals_lengths(1) [OF ok, of "uploader u" ds chs]
        sum_encrypted_full [of ds n] st n encrypt_data_length(1) [OF ok] by (simp add: streamed_def)
    ultimately show ?thesis using that [of u' chs'] u'(1-3,5) sr False up1 by simp
  qed
  have req2: "collects api (cs_requestId (up_streamer u2)) (s64 (int (cs_fileIndex (up_streamer u2)))) got fin"
    using col u2(4) by (simp add: same_request_def Let_def)
  obtain u3 where u3: "ChunkStreamer_commitFile api u2 = (Inr (), u3)" "same_request u2 u3"
    "got (up_server u3) = chunks (bs_chunkSize (cs_chunkBufferedStream (up_streamer u2))) (file_data chs')"
    "fin (up_server u3) = Some (file_checksums chs')" "cs_checksums (up_streamer u3) = file_checksums chs'"
    "cs_uploadedFileSize (up_streamer u3) = cs_uploadedFileSize (up_streamer u2)"
    using commitFile_ok [OF req2 u2(2,6)] by blast
  have sr: "cs_key (up_streamer u3) = cs_key (up_streamer u)" "cs_chunkSize (up_streamer u3) = n"
    "cs_requestId (up_streamer u3) = cs_requestId (up_streamer u)" "cs_fileSize (up_streamer u2) = cs_fileSize (up_streamer u)"
    "bs_chunkSize (cs_chunkBufferedStream (up_streamer u2)) = bs_chunkSize (cs_chunkBufferedStream (up_streamer u))"
    using u2(4) u3(2) n by (simp_all add: same_request_def Let_def)
  have "\<not> u64 (cs_uploadedFileSize (up_streamer u2) + length d) < cs_fileSize (up_streamer u2)"
    using u2(5) sr(4) len(1) size by (simp add: u64_id)
  then have "ChunkStreamer_finalize c api d u =
      (Inr \<lparr>si_cipherType = 1, si_key = cs_key (up_streamer u),
            si_hmac = hmacSha256 c (cs_key (up_streamer u)) (file_checksums chs'),
            si_chunkSize = n, si_requestId = cs_requestId (up_streamer u)\<rparr>, u3)"
    unfolding ChunkStreamer_finalize_def bindS_Inr [of "add_uploaded d", OF u1]
      bindS_Inr [where m = "if d \<noteq> [] then ChunkStreamer_prepareAndSendChunk c api d else ret ()", OF u2(1)]
    using u3(1,5) sr(1-3) by (simp add: bindS_def Let_def)
  then show ?thesis using u2(3,5) u3(3,4,6) sr(5) by auto
qed

lemma FileWriteHandle_finalize_view:
  assumes ok: "crypto_ok c" and view: "write_view c api got fin w chs h"
    and len: "length w = cs_fileSize (up_streamer (fw_upload h))"
  shows "\<exists>h' chs'. FileWriteHandle_finalize c api h =
      (Inr \<lparr>si_cipherType = 1, si_key = cs_key (up_streamer (fw_upload h)),
            si_hmac = hmacSha256 c (cs_key (up_streamer (fw_upload h))) (file_checksums chs'),
            si_chunkSize = bs_chunkSize (fw_stream h), si_requestId = cs_requestId (up_streamer (fw_upload h))\<rparr>, h') \<and>
    seals c (uploader (fw_upload h)) (chunks (bs_chunkSize (fw_stream h)) w) chs' \<and>
    got (up_server (fw_upload h')) =
      chunks (bs_chunkSize (cs_chunkBufferedStream (up_streamer (fw_upload h)))) (file_data chs') \<and>
    fin (up_server (fw_upload h')) = Some (file_checksums chs') \<and> hd_size (fw_handle h') = length w"
proof -
  let ?b = "fw_stream h" and ?u = "fw_upload h" and ?n = "bs_chunkSize (fw_stream h)"
  have v: "streamed c got fin (full_pieces ?n w) chs ?u" "cs_chunkSize (up_streamer ?u) = ?n"
    "cs_uploadedFileSize (up_streamer ?u) = length (full_pieces ?n w) * ?n"
    "ChunkBufferedStream_inv ?b" "bs_buf ?b = rest_piece ?n w" "bs_totalDataSize ?b = length w"
    "bs_sizeControl ?b" "bs_maxTotalDataSize ?b = cs_fileSize (up_streamer ?u)"
    "upload_fits ?n (cs_fileSize (up_streamer ?u))"
    "collects api (cs_requestId (up_streamer ?u)) (s64 (int (cs_fileIndex (up_streamer ?u)))) got fin"
    using view by (simp_all add: write_view_def Let_def)
  have n0: "0 < ?n" using v(4) by (simp add: ChunkBufferedStream_inv_def)
  note rl = length_rest_piece_less [OF n0, of w]
  have read: "on_stream ChunkBufferedStream_readChunk h
      = (Inr (rest_piece ?n w), h\<lparr>fw_stream := ?b\<lparr>bs_buf := [], bs_bufSize := 0\<rparr>\<rparr>)"
    using readChunk_rest [OF v(4)] v(5) rl by (simp add: on_stream_def)
  have "length (full_pieces ?n w) * ?n + length (rest_piece ?n w) = cs_fileSize (up_streamer ?u)"
    using length_rest_piece [OF n0, of w] by (simp add: full_pieces_def len)
  from finalize_streamed [OF ok v(1) v(3) v(10,9) v(2) [symmetric] this less_imp_le [OF rl]]
  obtain u' chs' where u': "ChunkStreamer_finalize c api (rest_piece ?n w) ?u =
      (Inr \<lparr>si_cipherType = 1, si_key = cs_key (up_streamer ?u),
            si_hmac = hmacSha256 c (cs_key (up_streamer ?u)) (file_checksums chs'),
            si_chunkSize = ?n, si_requestId = cs_requestId (up_streamer ?u)\<rparr>, u')"
    "seals c (uploader ?u) (chunks ?n w) chs'"
    "got (up_server u') = chunks (bs_chunkSize (cs_chunkBufferedStream (up_streamer ?u))) (file_data chs')"
    "fin (up_server u') = Some (file_checksums chs')" "cs_uploadedFileSize (up_streamer u') = length w"
    unfolding len chunks_full_pieces [OF n0] by blast
  have "ChunkBufferedStream_isFullyFilled ?b"
    using v(6-8) len by (simp add: ChunkBufferedStream_isFullyFilled_def)
  then show ?thesis
    using read u'
    by (auto simp: FileWriteHandle_finalize_def bindS_def on_upload_def ChunkStreamer_getUploadedFileSize_def)
qed

lemma FileWriteHandle_writes_view:
  assumes ok: "crypto_ok c" and view: "write_view c api got fin w chs h"
    and len: "length w + length (concat ds) \<le> cs_fileSize (up_streamer (fw_upload h))"
  shows "\<exists>h' chs'. for_each (FileWriteHandle_write c api) ds h = (Inr (), h') \<and>
    write_view c api got fin (w @ concat ds) chs' h' \<and>
    fw_handle h' = fw_handle h \<and> same_request (fw_upload h) (fw_upload h') \<and> bs_chunkSize (fw_stream h') = bs_chunkSize (fw_stream h)"
  using view len
proof (induction ds arbitrary: w chs h)
  case Nil
  then show ?case by auto
next
  case (Cons d ds)
  obtain h1 chs1 where h1: "FileWriteHandle_write c api d h = (Inr (), h1)" "write_view c api got fin (w @ d) chs1 h1"
    "fw_handle h1 = fw_handle h" "same_request (fw_upload h) (fw_upload h1)" "bs_chunkSize (fw_stream h1) = bs_chunkSize (fw_stream h)"
    using FileWriteHandle_write_view [OF ok Cons.prems(1), of d] Cons.prems(2) by auto
  have "length (w @ d) + length (concat ds) \<le> cs_fileSize (up_streamer (fw_upload h1))"
    using Cons.prems(2) h1(4) by (simp add: same_request_def Let_def)
  from Cons.IH [OF h1(2) this] obtain h2 chs2 where h2: "for_each (FileWriteHandle_write c api) ds h1 = (Inr (), h2)"
    "write_view c api got fin ((w @ d) @ concat ds) chs2 h2" "fw_handle h2 = fw_handle h1"
    "same_request (fw_upload h1) (fw_upload h2)" "bs_chunkSize (fw_stream h2) = bs_chunkSize (fw_stream h1)" by blast
  have "for_each (FileWriteHandle_write c api) (d # ds) h = (Inr (), h2)"
    using h1(1) h2(1) by (simp add: bindS_def)
  then show ?case
    using h1(3,5) h2(2,3,5) same_request_trans [OF h1(4) h2(4)] by auto
qed

subsection \<open>A whole upload\<close>

text \<open>Create the request, write the pieces \<open>ds\<close>, finalise.\<close>

definition upload_file ::
    "crypto_api \<Rightarrow> 's request_api \<Rightarrow> bytes list \<Rightarrow> (exn, 's FileWriteHandle, ChunksSentInfo) op" where
  "upload_file c api ds =
     bindS (FileWriteHandle_createRequestData c api) (\<lambda>_.
     bindS (for_each (FileWriteHandle_write c api) ds) (\<lambda>_.
     FileWriteHandle_finalize c api))"

definition opens_request ::
    "'s request_api \<Rightarrow> string \<Rightarrow> ('s \<Rightarrow> bytes list) \<Rightarrow> ('s \<Rightarrow> bytes option) \<Rightarrow> 's \<Rightarrow> bool" where
  "opens_request api rid got fin s \<longleftrightarrow>
     (\<forall>fds. \<exists>s'. rq_createRequest api fds s = (Inr rid, s') \<and> got s' = [] \<and> fin s' = None)"

lemma createRequestData_view:
  assumes "opens_request api rid got fin s" and "collects api rid 0 got fin" and "upload_fits n sz" and "0 < R"
  shows "\<exists>h'. FileWriteHandle_createRequestData c api (FileWriteHandle_new hid sid fid resid sz pub priv n R rw s r) = (Inr (), h') \<and>
    write_view c api got fin [] [] h' \<and> cs_key (up_streamer (fw_upload h')) = randomBytes c r 32 \<and>
    cs_requestId (up_streamer (fw_upload h')) = rid \<and> cs_fileSize (up_streamer (fw_upload h')) = sz \<and>
    bs_chunkSize (fw_stream h') = n \<and> bs_chunkSize (cs_chunkBufferedStream (up_streamer (fw_upload h'))) = R"
proof -
  let ?h = "FileWriteHandle_new hid sid fid resid sz pub priv n R rw s r"
  let ?cs = "(ChunkStreamer_new n sz R)\<lparr>cs_key := randomBytes c r 32, cs_fileIndex := 0\<rparr>"
  let ?fd = "\<lparr>fd_size = s64 (int (fs_size (ChunkStreamer_getFileSize ?cs))),
    fd_checksumSize = s64 (int (fs_checksumSize (ChunkStreamer_getFileSize ?cs))), fd_randomWrite = rw\<rparr>"
  obtain s' where s': "rq_createRequest api [?fd] s = (Inr rid, s')" "got s' = []" "fin s' = None"
    using assms(1) unfolding opens_request_def by blast
  let ?h' = "?h\<lparr>fw_upload := \<lparr>up_server = s', up_draws = Suc r, up_streamer = ?cs\<lparr>cs_requestId := rid\<rparr>\<rparr>\<rparr>"
  have eq: "FileWriteHandle_createRequestData c api ?h = (Inr (), ?h')"
    using s'(1) by (simp add: FileWriteHandle_createRequestData_def on_upload_def ChunkStreamer_createRequest_def
        FileWriteHandle_new_def Let_def)
  have n0: "0 < n" using assms(3) by (simp add: upload_fits_def)
  have "write_view c api got fin [] [] ?h'"
    using s'(2,3) assms(2-4) n0
    by (simp add: write_view_def streamed_def upload_view_def Let_def FileWriteHandle_new_def ChunkStreamer_new_def
        ChunkBufferedStream_new_def ChunkBufferedStream_inv_def full_pieces_def rest_piece_def
        file_data_def file_checksums_def s64_def)
  with eq show ?thesis
    by (simp add: FileWriteHandle_new_def ChunkStreamer_new_def ChunkBufferedStream_new_def)
qed

lemma getFileSize_encryptor:
  "fs_size (ChunkStreamer_getFileSize cs) =
     ChunkEncryptor_getEncryptedFileSize \<lparr>ce_key = k, ce_chunkSize = cs_chunkSize cs\<rparr> (cs_fileSize cs)"
  by (simp add: ChunkStreamer_getFileSize_def ChunkEncryptor_getEncryptedFileSize_def Let_def)

lemma chunks_encrypted_bound:
  assumes "upload_fits n (length plain)"
  shows "sum_list (map (encrypted_len \<circ> length) (chunks n plain)) < 2 ^ 62"
proof (cases "plain = []")
  case False
  have n: "0 < n" using assms by (simp add: upload_fits_def)
  have "(length plain - 1) mod n + 1 \<le> n" using mod_less_divisor [OF n, of "length plain - 1"] by linarith
  then have "(length plain - 1) div n * encrypted_len n + encrypted_len ((length plain - 1) mod n + 1)
    \<le> length plain div n * encrypted_len n + encrypted_len n"
    by (intro add_mono mult_le_mono1 div_le_mono encrypted_len_mono) simp_all
  also have "\<dots> < 2 ^ 62" using assms by (simp add: upload_fits_def)
  finally show ?thesis unfolding sum_encrypted_len_chunks [OF n False] .
qed simp

subsection \<open>A concrete Bridge\<close>

text \<open>It holds one request: the pieces received and, once committed, the digests.\<close>

definition sample_requests :: "(bytes list \<times> bytes option) request_api" where
  "sample_requests =
     \<lparr>rq_createRequest = (\<lambda>fds s. (Inr ''rq'', ([], None))),
      rq_sendChunk = (\<lambda>m (g, f).
        if f = None \<and> ch_requestId m = ''rq'' \<and> ch_seq m = int (length g) then (Inr (), (g @ [ch_data m], f))
        else (Inl StdOutOfRange, (g, f))),
      rq_commitFile = (\<lambda>m (g, f).
        if f = None \<and> cf_requestId m = ''rq'' \<and> cf_seq m = int (length g) then (Inr (), (g, Some (cf_checksum m)))
        else (Inl StdOutOfRange, (g, f)))\<rparr>"

lemma sample_requests_collects: "collects sample_requests ''rq'' idx fst snd"
  by (simp add: collects_def sample_requests_def)

lemma sample_requests_opens: "opens_request sample_requests ''rq'' fst snd s"
  by (simp add: opens_request_def sample_requests_def)

definition sample_write_handle :: "(bytes list \<times> bytes option) FileWriteHandle" where
  "sample_write_handle = snd (FileWriteHandle_createRequestData sample_crypto sample_requests
     (FileWriteHandle_new 1 ''s'' [] ''r'' 5 [] [] 4 50 False ([], None) 0))"

lemma sample_write_view:
  "write_view sample_crypto sample_requests fst snd [] [] sample_write_handle"
  "cs_fileSize (up_streamer (fw_upload sample_write_handle)) = 5"
proof -
  have "upload_fits 4 5" by (simp add: upload_fits_def encrypted_len_def)
  from createRequestData_view [OF sample_requests_opens sample_requests_collects this, of 50 sample_crypto
      1 "''s''" "[]" "''r''" "[]" "[]" False "([], None)" 0]
  show "write_view sample_crypto sample_requests fst snd [] [] sample_write_handle"
    "cs_fileSize (up_streamer (fw_upload sample_write_handle)) = 5"
    by (auto simp: sample_write_handle_def)
qed

lemma upload_stored:
  assumes "crypto_ok c" and "opens_request api rid got fin s" and "collects api rid 0 got fin"
    and "upload_fits n (length plain)" and "0 < R" and "concat ds = plain"
  shows "\<exists>h' chs info.
    upload_file c api ds (FileWriteHandle_new hid sid fid resid (length plain) pub priv n R rw s r) = (Inr info, h') \<and>
    sealed_file (ChunkEncryptor_decrypt c \<lparr>ce_key = si_key info, ce_chunkSize = n\<rparr>) n plain chs \<and>
    got (up_server (fw_upload h')) = chunks R (file_data chs) \<and>
    fin (up_server (fw_upload h')) = Some (file_checksums chs) \<and>
    si_hmac info = hmacSha256 c (si_key info) (file_checksums chs) \<and>
    si_chunkSize info = n \<and> si_cipherType info = 1 \<and> si_requestId info = rid \<and> hd_size (fw_handle h') = length plain"
proof -
  let ?h = "FileWriteHandle_new hid sid fid resid (length plain) pub priv n R rw s r"
  obtain h1 where h1: "FileWriteHandle_createRequestData c api ?h = (Inr (), h1)" "write_view c api got fin [] [] h1"
    "cs_requestId (up_streamer (fw_upload h1)) = rid" "cs_fileSize (up_streamer (fw_upload h1)) = length plain"
    "bs_chunkSize (fw_stream h1) = n" "bs_chunkSize (cs_chunkBufferedStream (up_streamer (fw_upload h1))) = R"
    using createRequestData_view [OF assms(2-5)] by blast
  obtain h2 chs2 where h2: "for_each (FileWriteHandle_write c api) ds h1 = (Inr (), h2)"
    "write_view c api got fin plain chs2 h2" "same_request (fw_upload h1) (fw_upload h2)" "bs_chunkSize (fw_stream h2) = n"
    using FileWriteHandle_writes_view [OF assms(1) h1(2), of ds] assms(6) h1(4,5) by auto
  have sr: "cs_requestId (up_streamer (fw_upload h2)) = rid" "cs_fileSize (up_streamer (fw_upload h2)) = length plain"
    "bs_chunkSize (cs_chunkBufferedStream (up_streamer (fw_upload h2))) = R"
    using h1(3,4,6) h2(3) by (simp_all add: same_request_def Let_def)
  have n: "cs_chunkSize (up_streamer (fw_upload h2)) = n" using h2(2,4) by (simp add: write_view_def Let_def)
  obtain h3 chs where h3: "FileWriteHandle_finalize c api h2 = (Inr \<lparr>si_cipherType = 1, si_key = cs_key (up_streamer (fw_upload h2)),
      si_hmac = hmacSha256 c (cs_key (up_streamer (fw_upload h2))) (file_checksums chs), si_chunkSize = n, si_requestId = rid\<rparr>, h3)"
    "seals c (uploader (fw_upload h2)) (chunks n plain) chs"
    "got (up_server (fw_upload h3)) = chunks R (file_data chs)" "fin (up_server (fw_upload h3)) = Some (file_checksums chs)"
    "hd_size (fw_handle h3) = length plain"
    using FileWriteHandle_finalize_view [OF assms(1) h2(2)] unfolding sr h2(4) by blast
  let ?info = "\<lparr>si_cipherType = 1, si_key = cs_key (up_streamer (fw_upload h2)),
      si_hmac = hmacSha256 c (cs_key (up_streamer (fw_upload h2))) (file_checksums chs), si_chunkSize = n, si_requestId = rid\<rparr>"
  have "upload_file c api ds ?h = (Inr ?info, h3)"
    using h1(1) h2(1) h3(1) by (simp add: upload_file_def bindS_def)
  moreover have "sealed_file (ChunkEncryptor_decrypt c \<lparr>ce_key = si_key ?info, ce_chunkSize = n\<rparr>) n plain chs"
    using seals_sealed [OF assms(1) h3(2)] n by (simp add: uploader_def)
  ultimately show ?thesis using h3(3-5) by (intro exI [of _ h3] exI [of _ chs] exI [of _ ?info]) simp
qed

subsection \<open>Properties\<close>

text \<open>
  An upload stores the file. On a Bridge that accepts the chunks of a request in order, writing
  the declared number of bytes in pieces of any sizes and finalising returns: the chunks
  \<open>chs\<close> are an encryption of the written bytes under the returned key, the Bridge has received
  exactly their bytes, cut into pieces of the request size, and was given their digests when the
  file was committed; the returned digest is the one of the digests, and the size of the handle
  is the number of written bytes.
\<close>

theorem upload_stores_file:
  assumes "crypto_ok c" and "opens_request api rid got fin s" and "collects api rid 0 got fin"
    and "upload_fits n (length plain)" and "0 < R" and "concat ds = plain"
  shows "\<exists>h' chs info.
    upload_file c api ds (FileWriteHandle_new hid sid fid resid (length plain) pub priv n R rw s r) = (Inr info, h') \<and>
    sealed_file (ChunkEncryptor_decrypt c \<lparr>ce_key = si_key info, ce_chunkSize = n\<rparr>) n plain chs \<and>
    got (up_server (fw_upload h')) = chunks R (file_data chs) \<and>
    fin (up_server (fw_upload h')) = Some (file_checksums chs) \<and>
    si_hmac info = hmacSha256 c (si_key info) (file_checksums chs) \<and>
    si_chunkSize info = n \<and> si_requestId info = rid \<and> hd_size (fw_handle h') = length plain"
proof -
  from upload_stored [OF assms, of hid sid fid resid pub priv rw r]
  show ?thesis by (elim exE conjE) (intro exI conjI)
qed

theorem upload_stores_file_witness:
  "\<exists>h' chs info.
    upload_file sample_crypto sample_requests [[1, 2], [3, 4, 5], []]
      (FileWriteHandle_new 1 ''s'' '''' ''r'' 5 [] [] 4 50 False ([], None) 0) = (Inr info, h') \<and>
    sealed_file (ChunkEncryptor_decrypt sample_crypto \<lparr>ce_key = si_key info, ce_chunkSize = 4\<rparr>) 4 [1, 2, 3, 4, 5] chs \<and>
    fst (up_server (fw_upload h')) = chunks 50 (file_data chs) \<and>
    snd (up_server (fw_upload h')) = Some (file_checksums chs) \<and>
    si_hmac info = hmacSha256 sample_crypto (si_key info) (file_checksums chs) \<and>
    si_chunkSize info = 4 \<and> si_requestId info = ''rq'' \<and> hd_size (fw_handle h') = 5"
proof -
  have "upload_fits 4 5" by (simp add: upload_fits_def encrypted_len_def)
  moreover have len: "length [1, 2, 3, 4, 5 :: byte] = 5" by simp
  ultimately show ?thesis
    using upload_stores_file [OF sample_crypto_ok sample_requests_opens sample_requests_collects,
      of 4 "[1, 2, 3, 4, 5]"
        50 "[[1, 2], [3, 4, 5], []]" 1 "''s''" "''''" "''r''" "[]" "[]" False "([], None)" 0, unfolded len]
    by simp
qed

text \<open>
  C39. The size announced to the Bridge when the request is created is the size of what is
  uploaded: \<open>ChunkStreamer::getFileSize\<close> gives the number of encrypted bytes and the number of
  digest bytes of every encryption of a file of the declared size.
\<close>

theorem ChunkStreamer_getFileSize_correct:
  assumes "crypto_ok c" and "seals c e (chunks n plain) chs" and "upload_fits n (length plain)"
    and "cs_chunkSize cs = n" and "cs_fileSize cs = length plain"
  shows "ChunkStreamer_getFileSize cs = \<lparr>fs_size = length (file_data chs), fs_checksumSize = length (file_checksums chs)\<rparr>"
proof -
  have n: "0 < n" "n < 2 ^ 62" "length plain < 2 ^ 62"
    using assms(3) upload_fits_size [OF assms(3)] by (simp_all add: upload_fits_def)
  have cnt: "length (chunks n plain) = (length plain + n - 1) div n" by (rule length_chunks [OF n(1)])
  have len: "length (file_data chs) = sum_list (map (encrypted_len \<circ> length) (chunks n plain))"
    and sums: "length (file_checksums chs) = 32 * length (chunks n plain)"
    by (rule seals_lengths [OF assms(1,2)])+
  have small: "length (file_data chs) < 2 ^ 64"
    using chunks_encrypted_bound [OF assms(3)] len by simp
  have "ChunkEncryptor_getEncryptedFileSize \<lparr>ce_key = [], ce_chunkSize = n\<rparr> (length plain) = length (file_data chs)"
    using getEncryptedFileSize_eq [of "\<lparr>ce_key = [], ce_chunkSize = n\<rparr>" plain] n small len by simp
  then have sz: "fs_size (ChunkStreamer_getFileSize cs) = length (file_data chs)"
    unfolding getFileSize_encryptor [where k = "[]"] assms(4,5) .
  have "usub64 (u64 (length plain + n)) 1 = length plain + n - 1"
    using n by (simp add: u64_id usub64_id)
  moreover have "(length plain + n - 1) div n * 32 < 2 ^ 64"
  proof -
    have "(length plain + n - 1) div n \<le> Suc (length plain div n)"
      using n(1) by (metis add.commute diff_le_self div_add_self2' div_le_mono)
    then show ?thesis using assms(3) by (simp add: upload_fits_def)
  qed
  ultimately have "fs_checksumSize (ChunkStreamer_getFileSize cs) = length (file_checksums chs)"
    using n(1) by (simp add: ChunkStreamer_getFileSize_def Let_def assms(4,5) sums cnt store_sizes u64_id)
  with sz show ?thesis by simp
qed

theorem ChunkStreamer_getFileSize_correct_witness:
  "ChunkStreamer_getFileSize (ChunkStreamer_new 4 5 50) = \<lparr>fs_size = 128, fs_checksumSize = 64\<rparr>"
proof -
  let ?e = "\<lparr>ce_key = [9], ce_chunkSize = 4\<rparr>" and ?p = "[1, 2, 3, 4, 5 :: byte]"
  have cut: "chunks 4 ?p = [[1, 2, 3, 4], [5]]" by (simp add: chunks_rec)
  let ?chs = "[fst (ChunkEncryptor_encrypt sample_crypto ?e 0 [1, 2, 3, 4] 0), fst (ChunkEncryptor_encrypt sample_crypto ?e 1 [5] 0)]"
  have seals: "seals sample_crypto ?e (chunks 4 ?p) ?chs"
    unfolding cut by (auto simp: seals_def nth_Cons split: nat.splits)
  have "upload_fits 4 (length ?p)" by (simp add: upload_fits_def encrypted_len_def)
  from ChunkStreamer_getFileSize_correct [OF sample_crypto_ok seals this, of "ChunkStreamer_new 4 5 50"]
    seals_lengths [OF sample_crypto_ok seals]
  show ?thesis by (simp add: ChunkStreamer_new_def cut encrypted_len_def)
qed

text \<open>
  Writing more than the declared size is refused and changes nothing: \<open>write\<close> throws
  \<open>DataBiggerThanDeclaredException\<close> exactly when the bytes written so far and the new ones
  exceed the declared size, nothing of the new data reaches the Bridge, and the handle is as it
  was, so that the caller can go on with fewer bytes.
\<close>

theorem FileWriteHandle_write_overflow:
  assumes "crypto_ok c" and "write_view c api got fin w chs h" and "length w + length data < 2 ^ 64"
  shows "FileWriteHandle_write c api data h = (Inl (ConnectionExn DataBiggerThanDeclaredException), h)
    \<longleftrightarrow> cs_fileSize (up_streamer (fw_upload h)) < length w + length data"
proof (cases "cs_fileSize (up_streamer (fw_upload h)) < length w + length data")
  case True
  have "bs_sizeControl (fw_stream h)" "bs_totalDataSize (fw_stream h) = length w"
    "bs_maxTotalDataSize (fw_stream h) = cs_fileSize (up_streamer (fw_upload h))"
    using assms(2) by (simp_all add: write_view_def Let_def)
  with True assms(3) show ?thesis
    by (simp add: FileWriteHandle_write_def bindS_def on_stream_def ChunkBufferedStream_write_def u64_id)
next
  case False
  then show ?thesis
    using FileWriteHandle_write_view [OF assms(1,2), of data] by fastforce
qed

theorem FileWriteHandle_write_overflow_witness:
  "FileWriteHandle_write sample_crypto sample_requests [1, 2, 3, 4, 5, 6] sample_write_handle
     = (Inl (ConnectionExn DataBiggerThanDeclaredException), sample_write_handle)"
  using FileWriteHandle_write_overflow [OF sample_crypto_ok sample_write_view(1), of "[1, 2, 3, 4, 5, 6]"]
  by (simp add: sample_write_view(2))

text \<open>
  A file cannot be finalised before all declared bytes were written: \<open>finalize\<close> then throws
  \<open>DataDifferentThanDeclaredException\<close> and neither the Bridge nor the handle changes.
\<close>

theorem FileWriteHandle_finalize_early:
  assumes "write_view c api got fin w chs h" and "length w < cs_fileSize (up_streamer (fw_upload h))"
  shows "FileWriteHandle_finalize c api h = (Inl (ConnectionExn DataDifferentThanDeclaredException), h)"
  using assms by (auto simp: FileWriteHandle_finalize_def ChunkBufferedStream_isFullyFilled_def write_view_def Let_def)

theorem FileWriteHandle_finalize_early_witness:
  "FileWriteHandle_finalize sample_crypto sample_requests sample_write_handle
     = (Inl (ConnectionExn DataDifferentThanDeclaredException), sample_write_handle)"
  using FileWriteHandle_finalize_early [OF sample_write_view(1)] by (simp add: sample_write_view(2))

end
