(* ===== verification/Core_HandleManager.thy ===== *)
theory Core_HandleManager
  imports Errors
begin

text \<open>
  \<open>core/src/HandleManager.cpp\<close>: the numbers that name open files, inbox entries and other handles.
  \<open>utils::ThreadSaveMap\<close> is a map under a lock; each call is atomic, so the model is a map.
\<close>

record HandleManager =
  hm_id :: int
  hm_map :: "int \<rightharpoonup> string"

definition HandleManager_new :: HandleManager where
  "HandleManager_new = \<lparr>hm_id = 0, hm_map = Map.empty\<rparr>"

text \<open>
  \<open>createHandle\<close> calls itself until it meets a number that is not in use; \<open>_id\<close> is an atomic
  64-bit counter. A call that never returns is the value \<open>None\<close>.
\<close>

partial_function (option) HandleManager_createHandle :: "string \<Rightarrow> HandleManager \<Rightarrow> (int \<times> HandleManager) option" where
  [code]: "HandleManager_createHandle label self =
     (let i = s64 (hm_id self + 1); self1 = self\<lparr>hm_id := i\<rparr>
      in if hm_map self i \<noteq> None then HandleManager_createHandle label self1
         else Some (i, self1\<lparr>hm_map := (hm_map self)(i \<mapsto> label)\<rparr>))"

definition HandleManager_getHandleLabel :: "HandleManager \<Rightarrow> int \<Rightarrow> (exn, string) result" where
  "HandleManager_getHandleLabel self i =
     (case hm_map self i of None \<Rightarrow> Inl (CoreExn NoHandleFoundException) | Some label \<Rightarrow> Inr label)"

definition HandleManager_removeHandle :: "int \<Rightarrow> HandleManager \<Rightarrow> HandleManager" where
  "HandleManager_removeHandle i self = self\<lparr>hm_map := (hm_map self)(i := None)\<rparr>"

subsection \<open>Termination\<close>

text \<open>
  Starting \<open>k\<close> numbers before the first free one, the recursion returns that number: \<open>createHandle\<close>
  returns whenever some number ahead of the counter is free.
\<close>

lemma createHandle_skips:
  assumes "\<And>j. 1 \<le> j \<Longrightarrow> j \<le> k \<Longrightarrow> hm_map self (hm_id self + int j) \<noteq> None"
    and "hm_map self (hm_id self + int k + 1) = None"
    and "- (2 ^ 63) \<le> hm_id self" and "hm_id self + int k + 1 < 2 ^ 63"
  shows "HandleManager_createHandle label self =
    Some (hm_id self + int k + 1, \<lparr>hm_id = hm_id self + int k + 1,
      hm_map = (hm_map self)(hm_id self + int k + 1 \<mapsto> label)\<rparr>)"
  using assms
proof (induction k arbitrary: self)
  case 0
  then have "s64 (hm_id self + 1) = hm_id self + 1" by (intro s64_id) auto
  with 0 show ?case by (subst HandleManager_createHandle.simps) (simp add: Let_def)
next
  case (Suc k)
  have next_id: "s64 (hm_id self + 1) = hm_id self + 1" using Suc.prems by (intro s64_id) auto
  have used: "hm_map self (hm_id self + 1) \<noteq> None" using Suc.prems(1) [of 1] by simp
  let ?s = "self\<lparr>hm_id := hm_id self + 1\<rparr>"
  have "HandleManager_createHandle label ?s = Some (hm_id ?s + int k + 1,
      \<lparr>hm_id = hm_id ?s + int k + 1, hm_map = (hm_map ?s)(hm_id ?s + int k + 1 \<mapsto> label)\<rparr>)"
  proof (rule Suc.IH)
    show "hm_map ?s (hm_id ?s + int j) \<noteq> None" if "1 \<le> j" "j \<le> k" for j
      using Suc.prems(1) [of "Suc j"] that by (simp add: add.assoc)
  qed (use Suc.prems in \<open>simp_all add: add.assoc\<close>)
  then show ?case
    using used next_id by (subst HandleManager_createHandle.simps) (simp add: Let_def add.assoc)
qed

text \<open>The first free number ahead of the counter.\<close>

lemma free_ahead:
  assumes "finite (dom m)"
  shows "\<exists>k. (\<forall>j. 1 \<le> j \<and> j \<le> k \<longrightarrow> m (i + int j) \<noteq> None) \<and> m (i + int k + 1) = None \<and> k \<le> card (dom m)"
proof -
  have "\<exists>k. m (i + int k + 1) = None \<and> k \<le> card (dom m)"
  proof (rule ccontr)
    assume "\<not> ?thesis"
    then have "(\<lambda>k. i + int k + 1) ` {..card (dom m)} \<subseteq> dom m" by fastforce
    then have "card ((\<lambda>k. i + int k + 1) ` {..card (dom m)}) \<le> card (dom m)" by (intro card_mono assms)
    moreover have "card ((\<lambda>k. i + int k + 1) ` {..card (dom m)}) = Suc (card (dom m))"
      by (subst card_image) (auto simp: inj_on_def)
    ultimately show False by simp
  qed
  then obtain k where k: "m (i + int k + 1) = None" "k \<le> card (dom m)" by blast
  define l where "l = (LEAST k. m (i + int k + 1) = None)"
  have l: "m (i + int l + 1) = None" unfolding l_def by (rule LeastI [of _ k]) (rule k)
  have "l \<le> k" unfolding l_def by (rule Least_le) (rule k)
  moreover have "m (i + int j) \<noteq> None" if "1 \<le> j" "j \<le> l" for j
  proof -
    have "j - 1 < l" using that by simp
    then have "m (i + int (j - 1) + 1) \<noteq> None" using not_less_Least [of "j - 1" "\<lambda>k. m (i + int k + 1) = None"] unfolding l_def by blast
    moreover have "i + int (j - 1) + 1 = i + int j" using that by simp
    ultimately show ?thesis by simp
  qed
  moreover have "l \<le> card (dom m)" using \<open>l \<le> k\<close> k(2) by (rule order_trans)
  ultimately show ?thesis using l by blast
qed

subsection \<open>Reachable managers\<close>

inductive handle_step :: "HandleManager \<Rightarrow> HandleManager \<Rightarrow> bool" where
  create: "hm_id hm < 2 ^ 63 - 1 \<Longrightarrow> HandleManager_createHandle label hm = Some (i, hm') \<Longrightarrow> handle_step hm hm'"
| remove: "handle_step hm (HandleManager_removeHandle i hm)"

inductive_cases handle_stepE: "handle_step hm hm'"

text \<open>No number in use is ahead of the counter, as long as the counter has not run through its range.\<close>

definition HandleManager_inv :: "HandleManager \<Rightarrow> bool" where
  "HandleManager_inv hm \<longleftrightarrow> 0 \<le> hm_id hm \<and> (\<forall>i \<in> dom (hm_map hm). 1 \<le> i \<and> i \<le> hm_id hm)"

lemma createHandle_inv:
  assumes "HandleManager_inv hm" and "hm_id hm < 2 ^ 63 - 1"
  shows "HandleManager_createHandle label hm =
      Some (hm_id hm + 1, \<lparr>hm_id = hm_id hm + 1, hm_map = (hm_map hm)(hm_id hm + 1 \<mapsto> label)\<rparr>)"
    and "hm_map hm (hm_id hm + 1) = None"
proof -
  show free: "hm_map hm (hm_id hm + 1) = None"
    using assms(1) by (force simp: HandleManager_inv_def dom_def)
  show "HandleManager_createHandle label hm =
      Some (hm_id hm + 1, \<lparr>hm_id = hm_id hm + 1, hm_map = (hm_map hm)(hm_id hm + 1 \<mapsto> label)\<rparr>)"
    using createHandle_skips [of 0 hm label] free assms by (simp add: HandleManager_inv_def)
qed

lemma HandleManager_inv_new [simp]: "HandleManager_inv HandleManager_new"
  by (simp add: HandleManager_inv_def HandleManager_new_def)

lemma HandleManager_inv_remove [simp]: "HandleManager_inv hm \<Longrightarrow> HandleManager_inv (HandleManager_removeHandle i hm)"
  by (auto simp: HandleManager_inv_def HandleManager_removeHandle_def)

lemma HandleManager_inv_create:
  assumes "HandleManager_inv hm" and "hm_id hm < 2 ^ 63 - 1" and "HandleManager_createHandle label hm = Some (i, hm')"
  shows "HandleManager_inv hm'" and "i = hm_id hm + 1" and "hm_map hm i = None" and "hm_map hm' = (hm_map hm)(i \<mapsto> label)"
proof -
  have eq: "i = hm_id hm + 1" "hm' = \<lparr>hm_id = hm_id hm + 1, hm_map = (hm_map hm)(hm_id hm + 1 \<mapsto> label)\<rparr>"
    using createHandle_inv(1) [OF assms(1,2), of label] assms(3) by simp_all
  then show "i = hm_id hm + 1" "hm_map hm i = None" "hm_map hm' = (hm_map hm)(i \<mapsto> label)"
    using createHandle_inv(2) [OF assms(1,2)] by simp_all
  show "HandleManager_inv hm'" using assms(1) eq(2) by (force simp: HandleManager_inv_def)
qed

lemma handle_reachable_inv: "handle_step\<^sup>*\<^sup>* HandleManager_new hm \<Longrightarrow> HandleManager_inv hm"
  by (induction rule: rtranclp_induct) (auto elim!: handle_stepE intro: HandleManager_inv_create(1))

subsection \<open>Properties\<close>

text \<open>
  C38. \<open>createHandle\<close> returns: whenever fewer numbers are in use than are left before the end of
  the 64-bit range, the recursion ends with a number that was not in use, and from then on
  exactly that number is named by the label and every other number as before.
\<close>

theorem HandleManager_createHandle_fresh:
  assumes "finite (dom (hm_map hm))" and "- (2 ^ 63) \<le> hm_id hm"
    and "hm_id hm + int (card (dom (hm_map hm))) + 1 < 2 ^ 63"
  shows "\<exists>i hm'. HandleManager_createHandle label hm = Some (i, hm') \<and> hm_map hm i = None \<and>
    (\<forall>j. HandleManager_getHandleLabel hm' j = (if j = i then Inr label else HandleManager_getHandleLabel hm j))"
proof -
  obtain k where k: "\<forall>j. 1 \<le> j \<and> j \<le> k \<longrightarrow> hm_map hm (hm_id hm + int j) \<noteq> None"
    "hm_map hm (hm_id hm + int k + 1) = None" "k \<le> card (dom (hm_map hm))"
    using free_ahead [OF assms(1), of "hm_id hm"] by blast
  have "hm_id hm + int k + 1 < 2 ^ 63" using k(3) assms(3) by linarith
  then show ?thesis
    using createHandle_skips [of k hm label] k(1,2) assms(2)
    by (auto simp: HandleManager_getHandleLabel_def)
qed

theorem HandleManager_createHandle_fresh_witness:
  "\<exists>i hm'. HandleManager_createHandle ''b'' \<lparr>hm_id = 0, hm_map = [1 \<mapsto> ''a'']\<rparr> = Some (i, hm') \<and>
    hm_map \<lparr>hm_id = 0, hm_map = [1 \<mapsto> ''a'']\<rparr> i = None \<and>
    (\<forall>j. HandleManager_getHandleLabel hm' j =
       (if j = i then Inr ''b'' else HandleManager_getHandleLabel \<lparr>hm_id = 0, hm_map = [1 \<mapsto> ''a'']\<rparr> j))"
  using HandleManager_createHandle_fresh [of "\<lparr>hm_id = 0, hm_map = [1 \<mapsto> ''a'']\<rparr>" "''b''"] by simp

end
