(* ===== verification/Store_FileHandles.thy ===== *)
theory Store_FileHandles
  imports Store_FileWrite Store_FileWriteHandle Core_HandleManager
begin

text \<open>
  Open files. \<open>store/src/FileHandle.cpp\<close> has the three kinds of handles and the manager that
  numbers them; \<open>store/src/StoreApiImpl.cpp\<close> (lines 380 to 553) has the operations of the public
  interface on a handle number, which find the kind of the handle and call it.

  The handles share one Bridge and one source of random bytes. A handle carries the state of
  both in its own objects (\<open>file_io\<close>, \<open>upload\<close>); an operation on a handle first loads the
  current shared state into it and stores it back afterwards. What the operations learn from the
  decrypted meta data of a file, and the final registration of an uploaded file, are parameters.
\<close>

subsection \<open>Handles\<close>

record 's FileReadHandle =
  frh_handle :: FileHandle
  frh_io :: "'s file_io"
  frh_reader :: FileReader
  frh_pos :: nat

record 's FileReadWriteHandle =
  rwh_handle :: FileHandle
  rwh_file :: "'s FileHandlerImpl"

record FileEncryptionParams =
  fep_fileMeta :: FileMeta
  fep_fileDecryptionParams :: FileDecryptionParams
  fep_encKey :: DecryptedEncKey

definition SIZE_MAX :: nat where
  "SIZE_MAX = 2 ^ 64 - 1"

definition FileReadHandle_new ::
    "crypto_api \<Rightarrow> ('s, 'm) store_server \<Rightarrow> int \<Rightarrow> FileDecryptionParams \<Rightarrow> nat \<Rightarrow> nat \<Rightarrow> 's \<Rightarrow> (exn, 's FileReadHandle) result" where
  "FileReadHandle_new c api handleId params serverChunkSize draws s =
     bindR (open_file_io c api params serverChunkSize draws s) (\<lambda>io.
       Inr \<lparr>frh_handle = \<lparr>hd_id = handleId, hd_storeId = [], hd_fileId = fdp_fileId params,
                           hd_resourceId = fdp_resourceId params, hd_size = fdp_originalSize params,
                           hd_randomWriteSupport = False\<rparr>,
            frh_io = io, frh_reader = FileReader_new params, frh_pos = 0\<rparr>)"

definition FileReadHandle_sync ::
    "crypto_api \<Rightarrow> ('s, 'm) store_server \<Rightarrow> FileDecryptionParams \<Rightarrow> (exn, 's FileReadHandle, unit) op" where
  "FileReadHandle_sync c api params h =
     (let io = frh_io h in
      if fdp_sizeOnServer params \<noteq> ChunkEncryptor_getEncryptedFileSize (io_encryptor io) (fdp_originalSize params)
      then (Inl (StoreExn FileCorruptedException), h)
      else
        let enc = ChunkEncryptor_sync (io_encryptor io) (fdp_key params) (fdp_chunkSize params);
            io1 = io\<lparr>io_encryptor := enc\<rparr>
        in case ChunkDataProvider_getCurrentChecksumsFromBridge api (io_server io) (io_provider io) of
             Inl e \<Rightarrow> (Inl e, h\<lparr>frh_io := io1\<rparr>)
           | Inr sums \<Rightarrow>
               (case HmacList_sync c (fdp_key params) (fdp_hmac params) sums (io_hashes io) of
                  (Inl e, hl) \<Rightarrow> (Inl e, h\<lparr>frh_io := io1\<lparr>io_hashes := hl\<rparr>\<rparr>)
                | (Inr _, hl) \<Rightarrow>
                    (Inr (),
                     h\<lparr>frh_io := io1\<lparr>io_hashes := hl,
                          io_provider := ChunkDataProvider_sync (fdp_version params)
                            (s64 (int (fdp_sizeOnServer params))) None None (io_provider io),
                          io_reader := ChunkReader_sync params (io_reader io)\<rparr>,
                       frh_reader := FileReader_sync params (frh_reader h),
                       frh_handle := (frh_handle h)\<lparr>hd_size := fdp_originalSize params\<rparr>\<rparr>)))"

definition FileReadHandle_read ::
    "crypto_api \<Rightarrow> ('s, 'm) store_server \<Rightarrow> nat \<Rightarrow> (exn, 's FileReadHandle, bytes) op" where
  "FileReadHandle_read c api len h =
     (if len > SIZE_MAX then (Inl (StoreExn NumberToBigForCPUArchitectureException), h)
      else case FileReader_read c api (frh_reader h) (frh_pos h) len (frh_io h) of
             (Inl e, io) \<Rightarrow> (Inl e, h\<lparr>frh_io := io\<rparr>)
           | (Inr result, io) \<Rightarrow> (Inr result, h\<lparr>frh_io := io, frh_pos := u64 (frh_pos h + len)\<rparr>))"

definition FileReadHandle_seek :: "nat \<Rightarrow> (exn, 's FileReadHandle, unit) op" where
  "FileReadHandle_seek pos h =
     (if hd_size (frh_handle h) \<le> pos then (Inl (StoreExn PosOutOfBoundsException), h)
      else (Inr (), h\<lparr>frh_pos := pos\<rparr>))"

definition FileReadWriteHandle_new ::
    "crypto_api \<Rightarrow> ('s, 'm) store_server \<Rightarrow> int \<Rightarrow> FileInfo \<Rightarrow> FileEncryptionParams \<Rightarrow> nat \<Rightarrow> nat \<Rightarrow> 's \<Rightarrow> (exn, 's FileReadWriteHandle) result" where
  "FileReadWriteHandle_new c api handleId fileInfo params serverChunkSize draws s =
     (let dp = fep_fileDecryptionParams params in
      bindR (open_file_io c api dp serverChunkSize draws s) (\<lambda>io.
        Inr \<lparr>rwh_handle = \<lparr>hd_id = handleId, hd_storeId = fi_storeId fileInfo, hd_fileId = fdp_fileId dp,
                            hd_resourceId = fdp_resourceId dp, hd_size = 0, hd_randomWriteSupport = True\<rparr>,
             rwh_file = \<lparr>fhi_file = \<lparr>rw_handler = FileHandler_new (io_encryptor io) (fdp_originalSize dp)
                                        (fdp_sizeOnServer dp) (fdp_version dp) fileInfo (fep_fileMeta params) (fep_encKey params),
                                      rw_io = io\<rparr>,
                         fhi_readPos = 0, fhi_writePos = 0\<rparr>\<rparr>))"

datatype 's file_handle =
    ReadHandle "'s FileReadHandle"
  | WriteHandle "'s FileWriteHandle"
  | ReadWriteHandle "'s FileReadWriteHandle"

fun base_handle :: "'s file_handle \<Rightarrow> FileHandle" where
  "base_handle (ReadHandle h) = frh_handle h"
| "base_handle (WriteHandle h) = fw_handle h"
| "base_handle (ReadWriteHandle h) = rwh_handle h"

subsection \<open>The manager\<close>

record 's store_state =
  ss_server :: 's
  ss_draws :: nat
  ss_handleManager :: HandleManager
  ss_files :: "int \<rightharpoonup> 's file_handle"

text \<open>Loading the shared state into a handle and storing it back.\<close>

fun load_world :: "'s \<Rightarrow> nat \<Rightarrow> 's file_handle \<Rightarrow> 's file_handle" where
  "load_world s r (ReadHandle h) = ReadHandle (h\<lparr>frh_io := (frh_io h)\<lparr>io_server := s, io_draws := r\<rparr>\<rparr>)"
| "load_world s r (WriteHandle h) = WriteHandle (h\<lparr>fw_upload := (fw_upload h)\<lparr>up_server := s, up_draws := r\<rparr>\<rparr>)"
| "load_world s r (ReadWriteHandle h) =
     ReadWriteHandle (h\<lparr>rwh_file := (rwh_file h)\<lparr>fhi_file := (fhi_file (rwh_file h))
       \<lparr>rw_io := (rw_io (fhi_file (rwh_file h)))\<lparr>io_server := s, io_draws := r\<rparr>\<rparr>\<rparr>\<rparr>)"

fun world_of :: "'s file_handle \<Rightarrow> 's \<times> nat" where
  "world_of (ReadHandle h) = (io_server (frh_io h), io_draws (frh_io h))"
| "world_of (WriteHandle h) = (up_server (fw_upload h), up_draws (fw_upload h))"
| "world_of (ReadWriteHandle h) =
     (io_server (rw_io (fhi_file (rwh_file h))), io_draws (rw_io (fhi_file (rwh_file h))))"

definition store_handle :: "int \<Rightarrow> 's file_handle \<Rightarrow> 's store_state \<Rightarrow> 's store_state" where
  "store_handle i h st =
     st\<lparr>ss_server := fst (world_of h), ss_draws := snd (world_of h), ss_files := (ss_files st)(i \<mapsto> h)\<rparr>"

definition FileHandleManager_getFileHandle :: "'s store_state \<Rightarrow> int \<Rightarrow> (exn, 's file_handle) result" where
  "FileHandleManager_getFileHandle st i =
     (case ss_files st i of
        None \<Rightarrow> Inl (StoreExn InvalidFileHandleException)
      | Some h \<Rightarrow> Inr (load_world (ss_server st) (ss_draws st) h))"

definition FileHandleManager_getFileReadHandle :: "'s store_state \<Rightarrow> int \<Rightarrow> (exn, 's FileReadHandle) result" where
  "FileHandleManager_getFileReadHandle st i =
     bindR (FileHandleManager_getFileHandle st i) (\<lambda>h.
       case h of ReadHandle r \<Rightarrow> Inr r | _ \<Rightarrow> Inl (StoreExn InvalidFileReadHandleException))"

definition FileHandleManager_getFileWriteHandle :: "'s store_state \<Rightarrow> int \<Rightarrow> (exn, 's FileWriteHandle) result" where
  "FileHandleManager_getFileWriteHandle st i =
     bindR (FileHandleManager_getFileHandle st i) (\<lambda>h.
       case h of WriteHandle w \<Rightarrow> Inr w | _ \<Rightarrow> Inl (StoreExn InvalidFileWriteHandleException))"

definition FileHandleManager_tryGetFileReadWriteHandle ::
    "'s store_state \<Rightarrow> int \<Rightarrow> (exn, 's FileReadWriteHandle option) result" where
  "FileHandleManager_tryGetFileReadWriteHandle st i =
     bindR (FileHandleManager_getFileHandle st i) (\<lambda>h.
       case h of ReadWriteHandle rw \<Rightarrow> Inr (Some rw) | _ \<Rightarrow> Inr None)"

definition FileHandleManager_removeHandle :: "int \<Rightarrow> (exn, 's store_state, unit) op" where
  "FileHandleManager_removeHandle i st =
     (case ss_files st i of
        None \<Rightarrow> (Inl (StoreExn InvalidFileHandleException), st)
      | Some _ \<Rightarrow> (Inr (), st\<lparr>ss_files := (ss_files st)(i := None),
                             ss_handleManager := HandleManager_removeHandle i (ss_handleManager st)\<rparr>))"

text \<open>
  Creating a handle: a number is taken first, then the handle is constructed, which may throw,
  then it is entered. \<open>None\<close> stands for a \<open>createHandle\<close> that does not return.
\<close>

definition FileHandleManager_create ::
    "string \<Rightarrow> (int \<Rightarrow> 's \<Rightarrow> nat \<Rightarrow> (exn, 's file_handle) result) \<Rightarrow> 's store_state \<Rightarrow> ((exn, int) result \<times> 's store_state) option" where
  "FileHandleManager_create label construct st =
     (case HandleManager_createHandle label (ss_handleManager st) of
        None \<Rightarrow> None
      | Some (i, hm) \<Rightarrow>
          let st1 = st\<lparr>ss_handleManager := hm\<rparr>
          in Some (case construct i (ss_server st1) (ss_draws st1) of
                     Inl e \<Rightarrow> (Inl e, st1)
                   | Inr h \<Rightarrow> (Inr i, st1\<lparr>ss_files := (ss_files st1)(i \<mapsto> h)\<rparr>)))"

definition FileHandleManager_createFileReadHandle ::
    "crypto_api \<Rightarrow> ('s, 'm) store_server \<Rightarrow> FileDecryptionParams \<Rightarrow> nat \<Rightarrow> 's store_state \<Rightarrow> ((exn, int) result \<times> 's store_state) option" where
  "FileHandleManager_createFileReadHandle c api params serverChunkSize =
     FileHandleManager_create ''Store:FileRead''
       (\<lambda>i s r. bindR (FileReadHandle_new c api i params serverChunkSize r s) (\<lambda>h. Inr (ReadHandle h)))"

definition FileHandleManager_createFileWriteHandle ::
    "string \<Rightarrow> string \<Rightarrow> string \<Rightarrow> nat \<Rightarrow> bytes \<Rightarrow> bytes \<Rightarrow> nat \<Rightarrow> nat \<Rightarrow> bool \<Rightarrow> 's store_state \<Rightarrow> ((exn, int) result \<times> 's store_state) option" where
  "FileHandleManager_createFileWriteHandle storeId fileId resourceId fileSize publicMeta privateMeta chunkSize
      serverRequestChunkSize randomWriteSupport =
     FileHandleManager_create ''Store:FileWrite''
       (\<lambda>i s r. Inr (WriteHandle (FileWriteHandle_new i storeId fileId resourceId fileSize publicMeta privateMeta
          chunkSize serverRequestChunkSize randomWriteSupport s r)))"

definition FileHandleManager_createFileReadWriteHandle ::
    "crypto_api \<Rightarrow> ('s, 'm) store_server \<Rightarrow> FileInfo \<Rightarrow> FileEncryptionParams \<Rightarrow> nat \<Rightarrow> 's store_state \<Rightarrow> ((exn, int) result \<times> 's store_state) option" where
  "FileHandleManager_createFileReadWriteHandle c api fileInfo params serverChunkSize =
     FileHandleManager_create ''FileReadWrite''
       (\<lambda>i s r. bindR (FileReadWriteHandle_new c api i fileInfo params serverChunkSize r s) (\<lambda>h. Inr (ReadWriteHandle h)))"

subsection \<open>The operations of the public interface\<close>

record ('s, 'm) store_env =
  se_file :: "('s, 'm) file_env"
  se_requests :: "'s request_api"
  se_serverRequestChunkSize :: nat
  se_fileParams :: "string \<Rightarrow> 's \<Rightarrow> (exn, FileInfo \<times> FileEncryptionParams) result"
  se_assertStoreExist :: "string \<Rightarrow> 's \<Rightarrow> (exn, unit) result"
  se_generateId :: "nat \<Rightarrow> string \<times> nat"
  se_finalizeWrite :: "FileHandle \<Rightarrow> bytes \<Rightarrow> bytes \<Rightarrow> ChunksSentInfo \<Rightarrow> (exn, 's \<times> nat, string) op"

abbreviation se_crypto :: "('s, 'm) store_env \<Rightarrow> crypto_api" where
  "se_crypto env \<equiv> fe_crypto (se_file env)"

abbreviation se_api :: "('s, 'm) store_env \<Rightarrow> ('s, 'm) store_server" where
  "se_api env \<equiv> fe_api (se_file env)"

definition StoreApiImpl_CHUNK_SIZE :: nat where
  "StoreApiImpl_CHUNK_SIZE = 128 * 1024"

text \<open>Running an operation of one handle and entering the changed handle under its number.\<close>

definition on_read_handle :: "int \<Rightarrow> 's FileReadHandle \<Rightarrow> (exn, 's FileReadHandle, 'a) op \<Rightarrow> (exn, 's store_state, 'a) op" where
  "on_read_handle i h m st = (case m h of (r, h') \<Rightarrow> (r, store_handle i (ReadHandle h') st))"

definition on_write_handle :: "int \<Rightarrow> 's FileWriteHandle \<Rightarrow> (exn, 's FileWriteHandle, 'a) op \<Rightarrow> (exn, 's store_state, 'a) op" where
  "on_write_handle i h m st = (case m h of (r, h') \<Rightarrow> (r, store_handle i (WriteHandle h') st))"

definition on_rw_handle :: "int \<Rightarrow> 's FileReadWriteHandle \<Rightarrow> (exn, 's FileHandlerImpl, 'a) op \<Rightarrow> (exn, 's store_state, 'a) op" where
  "on_rw_handle i h m st =
     (case m (rwh_file h) of (r, f) \<Rightarrow> (r, store_handle i (ReadWriteHandle (h\<lparr>rwh_file := f\<rparr>)) st))"

definition StoreApiImpl_createFile ::
    "('s, 'm) store_env \<Rightarrow> string \<Rightarrow> bytes \<Rightarrow> bytes \<Rightarrow> int \<Rightarrow> bool \<Rightarrow> 's store_state \<Rightarrow> ((exn, int) result \<times> 's store_state) option" where
  "StoreApiImpl_createFile env storeId publicMeta privateMeta sz randomWriteSupport st =
     (case se_assertStoreExist env storeId (ss_server st) of
        Inl e \<Rightarrow> Some (Inl e, st)
      | Inr _ \<Rightarrow>
          let (resourceId, draws) = se_generateId env (ss_draws st); st = st\<lparr>ss_draws := draws\<rparr>
          in case FileHandleManager_createFileWriteHandle storeId [] resourceId (u64_of_int sz) publicMeta privateMeta
                    StoreApiImpl_CHUNK_SIZE (se_serverRequestChunkSize env) randomWriteSupport st of
               None \<Rightarrow> None
             | Some (Inl e, st) \<Rightarrow> Some (Inl e, st)
             | Some (Inr i, st) \<Rightarrow>
                 Some (bindS (\<lambda>st. case FileHandleManager_getFileWriteHandle st i of
                                Inl e \<Rightarrow> (Inl e, st)
                              | Inr h \<Rightarrow> on_write_handle i h (FileWriteHandle_createRequestData (se_crypto env) (se_requests env)) st)
                        (\<lambda>_. ret i) st))"

text \<open>
  Replacing the content of a file. Where the new content goes, read from the file's meta data, is a parameter.
\<close>

record UploadTarget =
  ut_storeId :: string
  ut_resourceId :: string
  ut_randomWrite :: bool

definition StoreApiImpl_updateFile ::
    "('s, 'm) store_env \<Rightarrow> (string \<Rightarrow> 's \<Rightarrow> (exn, UploadTarget) result) \<Rightarrow> string \<Rightarrow> bytes \<Rightarrow> bytes \<Rightarrow> int \<Rightarrow>
     's store_state \<Rightarrow> ((exn, int) result \<times> 's store_state) option" where
  "StoreApiImpl_updateFile env target fileId publicMeta privateMeta sz st =
     (case target fileId (ss_server st) of
        Inl e \<Rightarrow> Some (Inl e, st)
      | Inr t \<Rightarrow>
          case FileHandleManager_createFileWriteHandle (ut_storeId t) fileId (ut_resourceId t) (u64_of_int sz) publicMeta privateMeta
                 StoreApiImpl_CHUNK_SIZE (se_serverRequestChunkSize env) (ut_randomWrite t) st of
            None \<Rightarrow> None
          | Some (Inl e, st) \<Rightarrow> Some (Inl e, st)
          | Some (Inr i, st) \<Rightarrow>
              Some (bindS (\<lambda>st. case FileHandleManager_getFileWriteHandle st i of
                             Inl e \<Rightarrow> (Inl e, st)
                           | Inr h \<Rightarrow> on_write_handle i h (FileWriteHandle_createRequestData (se_crypto env) (se_requests env)) st)
                     (\<lambda>_. ret i) st))"

definition StoreApiImpl_createFileReadHandle ::
    "('s, 'm) store_env \<Rightarrow> FileDecryptionParams \<Rightarrow> 's store_state \<Rightarrow> ((exn, int) result \<times> 's store_state) option" where
  "StoreApiImpl_createFileReadHandle env params st =
     (if fdp_cipherType params \<noteq> 1 then Some (Inl (StoreExn UnsupportedCipherTypeException), st)
      else FileHandleManager_createFileReadHandle (se_crypto env) (se_api env) params (se_serverRequestChunkSize env) st)"

definition StoreApiImpl_openFile ::
    "('s, 'm) store_env \<Rightarrow> string \<Rightarrow> 's store_state \<Rightarrow> ((exn, int) result \<times> 's store_state) option" where
  "StoreApiImpl_openFile env fileId st =
     (case se_fileParams env fileId (ss_server st) of
        Inl e \<Rightarrow> Some (Inl e, st)
      | Inr (fileInfo, params) \<Rightarrow>
          if im_randomWrite (fm_internalFileMeta (fep_fileMeta params)) = Some True
          then FileHandleManager_createFileReadWriteHandle (se_crypto env) (se_api env) fileInfo params
                 (se_serverRequestChunkSize env) st
          else StoreApiImpl_createFileReadHandle env (fep_fileDecryptionParams params) st)"

definition StoreApiImpl_writeToFile ::
    "('s, 'm) store_env \<Rightarrow> int \<Rightarrow> bytes \<Rightarrow> bool \<Rightarrow> (exn, 's store_state, unit) op" where
  "StoreApiImpl_writeToFile env i dataChunk trunc st =
     (case FileHandleManager_tryGetFileReadWriteHandle st i of
        Inl e \<Rightarrow> (Inl e, st)
      | Inr (Some h) \<Rightarrow>
          if length dataChunk > 512 * 1024 then (Inl (CoreExn InvalidParamsException), st)
          else on_rw_handle i h (FileHandlerImpl_write (se_file env) dataChunk trunc) st
      | Inr None \<Rightarrow>
          (case FileHandleManager_getFileWriteHandle st i of
             Inl e \<Rightarrow> (Inl e, st)
           | Inr h \<Rightarrow> on_write_handle i h (FileWriteHandle_write (se_crypto env) (se_requests env) dataChunk) st))"

definition StoreApiImpl_readFromFile :: "('s, 'm) store_env \<Rightarrow> int \<Rightarrow> int \<Rightarrow> (exn, 's store_state, bytes) op" where
  "StoreApiImpl_readFromFile env i len st =
     (case FileHandleManager_tryGetFileReadWriteHandle st i of
        Inl e \<Rightarrow> (Inl e, st)
      | Inr (Some h) \<Rightarrow> on_rw_handle i h (FileHandlerImpl_read (se_file env) (u64_of_int len)) st
      | Inr None \<Rightarrow>
          (case FileHandleManager_getFileReadHandle st i of
             Inl e \<Rightarrow> (Inl e, st)
           | Inr h \<Rightarrow> on_read_handle i h (FileReadHandle_read (se_crypto env) (se_api env) (u64_of_int len)) st))"

definition StoreApiImpl_seekInFile :: "int \<Rightarrow> int \<Rightarrow> (exn, 's store_state, unit) op" where
  "StoreApiImpl_seekInFile i pos st =
     (case FileHandleManager_tryGetFileReadWriteHandle st i of
        Inl e \<Rightarrow> (Inl e, st)
      | Inr (Some h) \<Rightarrow>
          on_rw_handle i h (bindS (FileHandlerImpl_seekg (u64_of_int pos)) (\<lambda>_. FileHandlerImpl_seekp (u64_of_int pos))) st
      | Inr None \<Rightarrow>
          (case FileHandleManager_getFileReadHandle st i of
             Inl e \<Rightarrow> (Inl e, st)
           | Inr h \<Rightarrow> on_read_handle i h (FileReadHandle_seek (u64_of_int pos)) st))"

definition StoreApiImpl_syncFile :: "('s, 'm) store_env \<Rightarrow> int \<Rightarrow> (exn, 's store_state, unit) op" where
  "StoreApiImpl_syncFile env i st =
     (case FileHandleManager_getFileHandle st i of
        Inl e \<Rightarrow> (Inl e, st)
      | Inr fh \<Rightarrow>
          (case se_fileParams env (hd_fileId (base_handle fh)) (ss_server st) of
             Inl e \<Rightarrow> (Inl e, st)
           | Inr (fileInfo, params) \<Rightarrow>
               (case FileHandleManager_tryGetFileReadWriteHandle st i of
                  Inl e \<Rightarrow> (Inl e, st)
                | Inr (Some h) \<Rightarrow>
                    on_rw_handle i h (FileHandlerImpl_sync (se_file env) (fep_fileMeta params)
                      (fep_fileDecryptionParams params) (fep_encKey params)) st
                | Inr None \<Rightarrow>
                    (case FileHandleManager_getFileReadHandle st i of
                       Inl e \<Rightarrow> (Inl e, st)
                     | Inr h \<Rightarrow>
                         (case on_read_handle i h (FileReadHandle_sync (se_crypto env) (se_api env)
                                 (fep_fileDecryptionParams params)) st of
                            (Inl e, st1) \<Rightarrow>
                              if e = StoreExn FileCorruptedException
                              then bindS (FileHandleManager_removeHandle i)
                                     (\<lambda>_. throw (StoreExn FileSyncFailedHandleCloseException)) st1
                              else (Inl e, st1)
                          | (Inr _, st1) \<Rightarrow> (Inr (), st1))))))"

text \<open>\<open>storeFileFinalizeWrite\<close>: finish the upload, then register the file.\<close>

definition StoreApiImpl_storeFileFinalizeWrite ::
    "('s, 'm) store_env \<Rightarrow> 's FileWriteHandle \<Rightarrow> (exn, 's store_state, string) op" where
  "StoreApiImpl_storeFileFinalizeWrite env h st =
     (case FileWriteHandle_finalize (se_crypto env) (se_requests env) h of
        (Inl e, h') \<Rightarrow> (Inl e, st\<lparr>ss_server := up_server (fw_upload h'), ss_draws := up_draws (fw_upload h')\<rparr>)
      | (Inr info, h') \<Rightarrow>
          (case se_finalizeWrite env (fw_handle h') (fw_publicMeta h') (fw_privateMeta h') info
                  (up_server (fw_upload h'), up_draws (fw_upload h')) of
             (r, (s, draws)) \<Rightarrow> (r, st\<lparr>ss_server := s, ss_draws := draws\<rparr>)))"

definition StoreApiImpl_closeFile :: "('s, 'm) store_env \<Rightarrow> int \<Rightarrow> (exn, 's store_state, string) op" where
  "StoreApiImpl_closeFile env i st =
     (case FileHandleManager_tryGetFileReadWriteHandle st i of
        Inl e \<Rightarrow> (Inl e, st)
      | Inr (Some h) \<Rightarrow> bindS (FileHandleManager_removeHandle i) (\<lambda>_. ret (hd_fileId (rwh_handle h))) st
      | Inr None \<Rightarrow>
          (case FileHandleManager_getFileHandle st i of
             Inl e \<Rightarrow> (Inl e, st)
           | Inr fh \<Rightarrow>
               bindS (FileHandleManager_removeHandle i) (\<lambda>_ st.
                 case fh of
                   WriteHandle h \<Rightarrow>
                     (case StoreApiImpl_storeFileFinalizeWrite env h st of
                        (Inl e, st) \<Rightarrow>
                          (Inl (if e = ConnectionExn DataDifferentThanDeclaredException
                                then StoreExn WritingToFileInteruptedWrittenDataSmallerThenDeclaredException else e), st)
                      | (Inr r, st) \<Rightarrow> (Inr r, st))
                 | _ \<Rightarrow> (Inr (hd_fileId (base_handle fh)), st)) st))"

subsection \<open>Handles under the operations\<close>

datatype handle_kind = Reading | Writing | ReadingWriting

fun kind_of :: "'s file_handle \<Rightarrow> handle_kind" where
  "kind_of (ReadHandle h) = Reading"
| "kind_of (WriteHandle h) = Writing"
| "kind_of (ReadWriteHandle h) = ReadingWriting"

lemma kind_of_load [simp]: "kind_of (load_world s r h) = kind_of h"
  by (cases h) simp_all

text \<open>
  What an operation on handle \<open>i\<close> may change: nothing of other handles, and the handle itself only
  within its kind or by removing it.
\<close>

definition touches :: "int \<Rightarrow> 's store_state \<Rightarrow> 's store_state \<Rightarrow> bool" where
  "touches i st st' \<longleftrightarrow>
     hm_id (ss_handleManager st') = hm_id (ss_handleManager st) \<and>
     (\<forall>j. j \<noteq> i \<longrightarrow> ss_files st' j = ss_files st j \<and>
        hm_map (ss_handleManager st') j = hm_map (ss_handleManager st) j) \<and>
     (case ss_files st' i of
        Some h' \<Rightarrow> (\<exists>h. ss_files st i = Some h \<and> kind_of h' = kind_of h) \<and>
          hm_map (ss_handleManager st') i = hm_map (ss_handleManager st) i
      | None \<Rightarrow> hm_map (ss_handleManager st') i =
          (if ss_files st i = None then hm_map (ss_handleManager st) i else None))"

lemma touches_refl [simp, intro]: "touches i st st"
  by (simp add: touches_def split: option.split)

lemma touches_world [simp]:
  "touches i st (st'\<lparr>ss_server := s, ss_draws := r\<rparr>) = touches i st st'"
  by (simp add: touches_def split: option.split)

lemma touches_trans: "touches i a b \<Longrightarrow> touches i b c \<Longrightarrow> touches i a c"
  by (force simp: touches_def split: option.splits)

lemma touches_store:
  "ss_files st i = Some h \<Longrightarrow> kind_of h' = kind_of h \<Longrightarrow> touches i st (store_handle i h' st)"
  by (simp add: touches_def store_handle_def)

lemma touches_remove: "FileHandleManager_removeHandle i st = (r, st') \<Longrightarrow> touches i st st'"
  by (auto simp: FileHandleManager_removeHandle_def HandleManager_removeHandle_def touches_def split: option.splits)

lemma getFileHandle_Inr:
  "FileHandleManager_getFileHandle st i = Inr h \<Longrightarrow> \<exists>h0. ss_files st i = Some h0 \<and> kind_of h = kind_of h0"
  by (auto simp: FileHandleManager_getFileHandle_def split: option.splits)

lemma get_kinds:
  "FileHandleManager_getFileReadHandle st i = Inr hr \<Longrightarrow> \<exists>h. ss_files st i = Some h \<and> kind_of h = Reading"
  "FileHandleManager_getFileWriteHandle st i = Inr hw \<Longrightarrow> \<exists>h. ss_files st i = Some h \<and> kind_of h = Writing"
  "FileHandleManager_tryGetFileReadWriteHandle st i = Inr (Some hrw) \<Longrightarrow> \<exists>h. ss_files st i = Some h \<and> kind_of h = ReadingWriting"
  by (cases "FileHandleManager_getFileHandle st i";
      auto simp: FileHandleManager_getFileReadHandle_def FileHandleManager_getFileWriteHandle_def
        FileHandleManager_tryGetFileReadWriteHandle_def split: file_handle.split_asm dest!: getFileHandle_Inr)+

lemma on_handle_touches:
  "FileHandleManager_getFileReadHandle st i = Inr hr \<Longrightarrow> on_read_handle i hr m st = (r, st') \<Longrightarrow> touches i st st'"
  "FileHandleManager_getFileWriteHandle st i = Inr hw \<Longrightarrow> on_write_handle i hw m' st = (r', st') \<Longrightarrow> touches i st st'"
  "FileHandleManager_tryGetFileReadWriteHandle st i = Inr (Some hrw) \<Longrightarrow> on_rw_handle i hrw m'' st = (r'', st') \<Longrightarrow> touches i st st'"
  by (auto simp: on_read_handle_def on_write_handle_def on_rw_handle_def split: prod.splits dest!: get_kinds
      intro!: touches_store)

text \<open>The operations on an open handle, and the calls that make one.\<close>

inductive handle_call :: "('s, 'm) store_env \<Rightarrow> int \<Rightarrow> 's store_state \<Rightarrow> 's store_state \<Rightarrow> bool" for env i st where
  wr_call: "StoreApiImpl_writeToFile env i d t st = (r, st') \<Longrightarrow> handle_call env i st st'"
| rd_call: "StoreApiImpl_readFromFile env i n st = (r, st') \<Longrightarrow> handle_call env i st st'"
| seek_call: "StoreApiImpl_seekInFile i p st = (r, st') \<Longrightarrow> handle_call env i st st'"
| sync_call: "StoreApiImpl_syncFile env i st = (r, st') \<Longrightarrow> handle_call env i st st'"
| close_call: "StoreApiImpl_closeFile env i st = (r, st') \<Longrightarrow> handle_call env i st st'"

inductive opening_call :: "('s, 'm) store_env \<Rightarrow> 's store_state \<Rightarrow> 's store_state \<Rightarrow> bool" for env st where
  create_call: "StoreApiImpl_createFile env storeId pm sm sz rw st = Some (r, st') \<Longrightarrow> opening_call env st st'"
| update_call: "StoreApiImpl_updateFile env target fileId pm sm sz st = Some (r, st') \<Longrightarrow> opening_call env st st'"
| open_call: "StoreApiImpl_openFile env fileId st = Some (r, st') \<Longrightarrow> opening_call env st st'"

inductive_cases handle_callE: "handle_call env i st st'"
inductive_cases opening_callE: "opening_call env st st'"

lemma write_touches: "StoreApiImpl_writeToFile env i d t st = (r, st') \<Longrightarrow> touches i st st'"
  by (auto simp: StoreApiImpl_writeToFile_def split: sum.splits option.splits if_splits dest: on_handle_touches)

lemma read_touches: "StoreApiImpl_readFromFile env i n st = (r, st') \<Longrightarrow> touches i st st'"
  by (auto simp: StoreApiImpl_readFromFile_def split: sum.splits option.splits dest: on_handle_touches)

lemma seek_touches: "StoreApiImpl_seekInFile i p st = (r, st') \<Longrightarrow> touches i st st'"
  by (auto simp: StoreApiImpl_seekInFile_def split: sum.splits option.splits dest: on_handle_touches)

lemma remove_then_touches:
  assumes "bindS (FileHandleManager_removeHandle i) f st = (r, st')" and "\<And>st1 r' st2. f () st1 = (r', st2) \<Longrightarrow> touches i st1 st2"
  shows "touches i st st'"
proof -
  obtain x st1 where x: "FileHandleManager_removeHandle i st = (x, st1)" by fastforce
  note rem = touches_remove [OF x]
  show ?thesis
  proof (cases x)
    case (Inr u)
    then have "f () st1 = (r, st')" using assms(1) by (simp add: bindS_def x)
    with assms(2) rem show ?thesis by (blast intro: touches_trans)
  qed (use assms(1) rem in \<open>simp add: bindS_def x\<close>)
qed

lemma sync_touches: "StoreApiImpl_syncFile env i st = (r, st') \<Longrightarrow> touches i st st'"
  by (auto simp: StoreApiImpl_syncFile_def split: sum.splits option.splits prod.splits if_splits
      dest: on_handle_touches intro: touches_trans [OF on_handle_touches(1) remove_then_touches])

lemma finalize_touches: "StoreApiImpl_storeFileFinalizeWrite env h st = (r, st') \<Longrightarrow> touches i st st'"
  by (auto simp: StoreApiImpl_storeFileFinalizeWrite_def split: sum.splits prod.splits)

lemma close_touches: "StoreApiImpl_closeFile env i st = (r, st') \<Longrightarrow> touches i st st'"
  by (auto simp: StoreApiImpl_closeFile_def split: sum.splits option.splits file_handle.splits prod.splits if_splits
      intro: finalize_touches elim!: remove_then_touches)

lemma handle_call_touches: "handle_call env i st st' \<Longrightarrow> touches i st st'"
  by (erule handle_callE) (auto intro: write_touches read_touches seek_touches sync_touches close_touches)


lemma subset_domIff: "dom f \<subseteq> dom g \<longleftrightarrow> (\<forall>j y. f j = Some y \<longrightarrow> (\<exists>z. g j = Some z))"
  by (auto simp: dom_def)

text \<open>
  The numbers in use are those the manager has given out, and every open file has one of them.
\<close>

definition store_inv :: "'s store_state \<Rightarrow> bool" where
  "store_inv st \<longleftrightarrow> HandleManager_inv (ss_handleManager st) \<and> dom (ss_files st) \<subseteq> dom (hm_map (ss_handleManager st))"

lemma store_inv_files: "store_inv st \<Longrightarrow> ss_files st j = Some h \<Longrightarrow> 1 \<le> j \<and> j \<le> hm_id (ss_handleManager st)"
  unfolding store_inv_def HandleManager_inv_def by blast

lemma touches_inv:
  assumes "touches i st st'" and "store_inv st"
  shows "store_inv st'"
proof -
  have "hm_map (ss_handleManager st) j \<noteq> None" if "hm_map (ss_handleManager st') j \<noteq> None" for j
    using assms(1) that by (cases "j = i") (auto simp: touches_def split: option.splits if_splits)
  then have "dom (hm_map (ss_handleManager st')) \<subseteq> dom (hm_map (ss_handleManager st))" unfolding dom_def by blast
  then have "HandleManager_inv (ss_handleManager st')"
    using assms by (auto simp: store_inv_def HandleManager_inv_def touches_def subset_iff)
  moreover have "j \<in> dom (hm_map (ss_handleManager st'))" if "j \<in> dom (ss_files st')" for j
    using assms that by (cases "j = i") (auto simp: store_inv_def touches_def subset_domIff split: option.splits)
  ultimately show ?thesis unfolding store_inv_def by blast
qed

text \<open>
  Opening takes the next number, whether or not the handle can then be constructed; the other
  handles stay. \<open>opened st st'\<close> says what a successful or failed opening may change.
\<close>

definition opened :: "'s store_state \<Rightarrow> 's store_state \<Rightarrow> bool" where
  "opened st st' \<longleftrightarrow> store_inv st' \<and> hm_id (ss_handleManager st) \<le> hm_id (ss_handleManager st') \<and>
     (\<forall>j. j \<le> hm_id (ss_handleManager st) \<longrightarrow> ss_files st' j = ss_files st j)"

lemma FileHandleManager_create_opened:
  assumes "store_inv st" and "hm_id (ss_handleManager st) < 2 ^ 63 - 1"
    and "FileHandleManager_create label construct st = Some (r, st')"
  shows "opened st st' \<and> (\<forall>i. r = Inr i \<longrightarrow> i = hm_id (ss_handleManager st) + 1 \<and> ss_files st' i \<noteq> None)"
proof -
  have inv: "HandleManager_inv (ss_handleManager st)" "dom (ss_files st) \<subseteq> dom (hm_map (ss_handleManager st))"
    using assms(1) by (auto simp: store_inv_def)
  obtain i hm where hm: "HandleManager_createHandle label (ss_handleManager st) = Some (i, hm)"
    using createHandle_inv(1) [OF inv(1) assms(2)] by blast
  note new = HandleManager_inv_create [OF inv(1) assms(2) hm]
  have id: "hm_id hm = i" using createHandle_inv(1) [OF inv(1) assms(2), of label] hm by auto
  show ?thesis
    using assms(3) inv(2) [unfolded subset_domIff] new id
    by (auto simp: FileHandleManager_create_def Let_def hm opened_def store_inv_def subset_domIff split: sum.splits)
qed

lemmas handle_constructors =
  FileHandleManager_createFileReadHandle_def FileHandleManager_createFileWriteHandle_def
  FileHandleManager_createFileReadWriteHandle_def

lemma openFile_opened:
  assumes "store_inv st" and "hm_id (ss_handleManager st) < 2 ^ 63 - 1"
    and "StoreApiImpl_openFile env fileId st = Some (r, st')"
  shows "opened st st' \<and> (\<forall>i. r = Inr i \<longrightarrow> i = hm_id (ss_handleManager st) + 1 \<and> ss_files st' i \<noteq> None)"
  using assms(3) FileHandleManager_create_opened [OF assms(1,2)] assms(1)
  by (auto simp: StoreApiImpl_openFile_def StoreApiImpl_createFileReadHandle_def handle_constructors opened_def
      split: sum.splits if_splits prod.splits)

lemma touches_opened: "opened st st1 \<Longrightarrow> touches (hm_id (ss_handleManager st) + 1) st1 st2 \<Longrightarrow> opened st st2"
  using touches_inv [of "hm_id (ss_handleManager st) + 1" st1 st2] by (auto simp: opened_def touches_def)


lemma getFileWriteHandle_touches:
  assumes "(case FileHandleManager_getFileWriteHandle st i of Inl e \<Rightarrow> (Inl e, st)
            | Inr h \<Rightarrow> on_write_handle i h (m h) st) = (r, st')"
  shows "touches i st st'"
  using assms by (auto split: sum.splits dest: on_handle_touches(2))

lemma createFile_opened:
  assumes "store_inv st" and "hm_id (ss_handleManager st) < 2 ^ 63 - 1"
    and "StoreApiImpl_createFile env storeId pm sm sz rw st = Some (r, st')"
  shows "opened st st' \<and> (\<forall>i. r = Inr i \<longrightarrow> i = hm_id (ss_handleManager st) + 1)"
proof (cases "se_assertStoreExist env storeId (ss_server st)")
  case (Inl e)
  then show ?thesis using assms by (auto simp: StoreApiImpl_createFile_def opened_def)
next
  case (Inr u)
  obtain rid d where rid: "se_generateId env (ss_draws st) = (rid, d)" by fastforce
  let ?st = "st\<lparr>ss_draws := d\<rparr>"
  let ?create = "FileHandleManager_createFileWriteHandle storeId [] rid (u64_of_int sz) pm sm
    StoreApiImpl_CHUNK_SIZE (se_serverRequestChunkSize env) rw ?st"
  have inv: "store_inv ?st" using assms(1) by (simp add: store_inv_def)
  obtain r1 st1 where create: "?create = Some (r1, st1)"
    using assms(3) by (auto simp: StoreApiImpl_createFile_def Inr rid split: option.splits)
  have new: "opened ?st st1 \<and> (\<forall>i. r1 = Inr i \<longrightarrow> i = hm_id (ss_handleManager st) + 1)"
    using FileHandleManager_create_opened [OF inv _ create [unfolded handle_constructors]] assms(2) by simp
  have old: "opened ?st st2 \<Longrightarrow> opened st st2" for st2 by (simp add: opened_def)
  show ?thesis
  proof (cases r1)
    case (Inl e)
    then show ?thesis using assms(3) new old by (auto simp: StoreApiImpl_createFile_def Inr rid create)
  next
    case (Inr i)
    let ?body = "case FileHandleManager_getFileWriteHandle st1 i of Inl e \<Rightarrow> (Inl e, st1)
      | Inr h \<Rightarrow> on_write_handle i h (FileWriteHandle_createRequestData (se_crypto env) (se_requests env)) st1"
    obtain r2 st2 where body: "?body = (r2, st2)" by fastforce
    have "opened st st2"
      using old touches_opened getFileWriteHandle_touches [OF body] new Inr by auto
    moreover have "st' = st2" "r = Inr j \<Longrightarrow> j = i" for j
      using assms(3) body create rid Inr \<open>se_assertStoreExist env storeId (ss_server st) = Inr u\<close>
      by (auto simp: StoreApiImpl_createFile_def bindS_def split: sum.splits)
    ultimately show ?thesis using new Inr by auto
  qed
qed

lemma updateFile_opened:
  assumes "store_inv st" and "hm_id (ss_handleManager st) < 2 ^ 63 - 1"
    and "StoreApiImpl_updateFile env target fileId pm sm sz st = Some (r, st')"
  shows "opened st st' \<and> (\<forall>i. r = Inr i \<longrightarrow> i = hm_id (ss_handleManager st) + 1)"
proof (cases "target fileId (ss_server st)")
  case (Inl e)
  then show ?thesis using assms by (auto simp: StoreApiImpl_updateFile_def opened_def)
next
  case (Inr t)
  let ?create = "FileHandleManager_createFileWriteHandle (ut_storeId t) fileId (ut_resourceId t) (u64_of_int sz) pm sm
    StoreApiImpl_CHUNK_SIZE (se_serverRequestChunkSize env) (ut_randomWrite t) st"
  obtain r1 st1 where create: "?create = Some (r1, st1)"
    using assms(3) by (auto simp: StoreApiImpl_updateFile_def Inr split: option.splits)
  have new: "opened st st1 \<and> (\<forall>i. r1 = Inr i \<longrightarrow> i = hm_id (ss_handleManager st) + 1)"
    using FileHandleManager_create_opened [OF assms(1) _ create [unfolded handle_constructors]] assms(2) by simp
  show ?thesis
  proof (cases r1)
    case (Inl e)
    then show ?thesis using assms(3) new by (auto simp: StoreApiImpl_updateFile_def Inr create)
  next
    case (Inr i)
    let ?body = "case FileHandleManager_getFileWriteHandle st1 i of Inl e \<Rightarrow> (Inl e, st1)
      | Inr h \<Rightarrow> on_write_handle i h (FileWriteHandle_createRequestData (se_crypto env) (se_requests env)) st1"
    obtain r2 st2 where body: "?body = (r2, st2)" by fastforce
    have "opened st st2" using touches_opened getFileWriteHandle_touches [OF body] new Inr by auto
    moreover have "st' = st2" "r = Inr j \<Longrightarrow> j = i" for j
      using assms(3) body create Inr \<open>target fileId (ss_server st) = Inr t\<close>
      by (auto simp: StoreApiImpl_updateFile_def bindS_def split: sum.splits)
    ultimately show ?thesis using new Inr by auto
  qed
qed

text \<open>
  The runs of the interface, while the counter of handle numbers has not reached its end. The connection's
  \<open>HandleManager\<close> is shared with the inbox module, which takes and frees numbers of its own between the calls,
  and other clients change the state of the Bridge.
\<close>

inductive store_step :: "('s, 'm) store_env \<Rightarrow> 's store_state \<Rightarrow> 's store_state \<Rightarrow> bool" for env st st' where
  on_handle: "handle_call env i st st' \<Longrightarrow> store_step env st st'"
| on_opening: "hm_id (ss_handleManager st) < 2 ^ 63 - 1 \<Longrightarrow> opening_call env st st' \<Longrightarrow> store_step env st st'"
| other_takes: "hm_id (ss_handleManager st) < 2 ^ 63 - 1 \<Longrightarrow>
    HandleManager_createHandle label (ss_handleManager st) = Some (j, hm) \<Longrightarrow>
    st' = st\<lparr>ss_handleManager := hm\<rparr> \<Longrightarrow> store_step env st st'"
| other_frees: "ss_files st j = None \<Longrightarrow>
    st' = st\<lparr>ss_handleManager := HandleManager_removeHandle j (ss_handleManager st)\<rparr> \<Longrightarrow> store_step env st st'"
| other_client: "st' = st\<lparr>ss_server := s, ss_draws := d\<rparr> \<Longrightarrow> store_step env st st'"

inductive_cases store_stepE: "store_step env st st'"

definition store_state_new :: "'s \<Rightarrow> nat \<Rightarrow> 's store_state" where
  "store_state_new s draws =
     \<lparr>ss_server = s, ss_draws = draws, ss_handleManager = HandleManager_new, ss_files = Map.empty\<rparr>"

lemma store_inv_new [simp]: "store_inv (store_state_new s draws)"
  by (simp add: store_inv_def store_state_new_def)

lemma opening_call_opened:
  assumes "opening_call env st st'" and "store_inv st" and "hm_id (ss_handleManager st) < 2 ^ 63 - 1"
  shows "opened st st'"
  using assms(1)
  by (rule opening_callE)
    (drule createFile_opened [OF assms(2,3)] updateFile_opened [OF assms(2,3)] openFile_opened [OF assms(2,3)], blast)+

text \<open>A number that was given out and whose handle is closed.\<close>

definition closed_handle :: "int \<Rightarrow> 's store_state \<Rightarrow> bool" where
  "closed_handle i st \<longleftrightarrow> i \<le> hm_id (ss_handleManager st) \<and> ss_files st i = None"

text \<open>What the other modules and clients do.\<close>

lemma other_takes_opened:
  assumes "store_inv st" and "hm_id (ss_handleManager st) < 2 ^ 63 - 1"
    and "HandleManager_createHandle label (ss_handleManager st) = Some (j, hm)"
  shows "opened st (st\<lparr>ss_handleManager := hm\<rparr>)"
proof -
  have "FileHandleManager_create label (\<lambda>i s r. Inl (StoreExn InvalidFileHandleException)) st =
      Some (Inl (StoreExn InvalidFileHandleException), st\<lparr>ss_handleManager := hm\<rparr>)"
    by (simp add: FileHandleManager_create_def Let_def assms(3))
  from FileHandleManager_create_opened [OF assms(1,2) this] show ?thesis by blast
qed

lemma other_frees_inv:
  assumes "store_inv st" and "ss_files st j = None"
  shows "store_inv (st\<lparr>ss_handleManager := HandleManager_removeHandle j (ss_handleManager st)\<rparr>)"
  using assms by (auto simp: store_inv_def HandleManager_inv_def HandleManager_removeHandle_def subset_iff split: if_splits)

lemma other_client_inv [simp]: "store_inv (st\<lparr>ss_server := s, ss_draws := d\<rparr>) = store_inv st"
  by (simp add: store_inv_def)

lemma store_step_inv: "store_step env st st' \<Longrightarrow> store_inv st \<Longrightarrow> store_inv st'"
  by (erule store_stepE)
    (auto intro: touches_inv handle_call_touches other_frees_inv dest: opening_call_opened other_takes_opened simp: opened_def)

lemma touches_closed: "touches k st st' \<Longrightarrow> closed_handle i st \<Longrightarrow> closed_handle i st'"
  by (cases "i = k") (auto simp: touches_def closed_handle_def split: option.splits)

lemma store_step_closed: "store_step env st st' \<Longrightarrow> store_inv st \<Longrightarrow> closed_handle i st \<Longrightarrow> closed_handle i st'"
proof (erule store_step.cases)
  show "closed_handle i st'" if "store_inv st" "closed_handle i st" "handle_call env j st st'" for j
    using touches_closed [OF handle_call_touches] that by blast
  show "closed_handle i st'"
    if "store_inv st" "closed_handle i st" "hm_id (ss_handleManager st) < 2 ^ 63 - 1" "opening_call env st st'"
    using opening_call_opened [of env st st'] that by (auto simp: opened_def closed_handle_def)
  show "closed_handle i st'"
    if "store_inv st" "closed_handle i st" "hm_id (ss_handleManager st) < 2 ^ 63 - 1"
      "HandleManager_createHandle label (ss_handleManager st) = Some (j, hm)" "st' = st\<lparr>ss_handleManager := hm\<rparr>" for label j hm
    using other_takes_opened [of st label j hm] that by (auto simp: opened_def closed_handle_def)
qed (simp_all add: closed_handle_def HandleManager_removeHandle_def)

lemma store_run_closed:
  assumes "(store_step env)\<^sup>*\<^sup>* st st'" and "store_inv st" and "closed_handle i st"
  shows "store_inv st' \<and> closed_handle i st'"
  using assms by (induction rule: rtranclp_induct) (auto intro: store_step_inv store_step_closed)

lemma closed_handle_throws:
  assumes "closed_handle i st"
  shows "StoreApiImpl_writeToFile env i dat trunc st = (Inl (StoreExn InvalidFileHandleException), st)"
    and "StoreApiImpl_readFromFile env i len st = (Inl (StoreExn InvalidFileHandleException), st)"
    and "StoreApiImpl_seekInFile i pos st = (Inl (StoreExn InvalidFileHandleException), st)"
    and "StoreApiImpl_syncFile env i st = (Inl (StoreExn InvalidFileHandleException), st)"
    and "StoreApiImpl_closeFile env i st = (Inl (StoreExn InvalidFileHandleException), st)"
  using assms
  by (simp_all add: closed_handle_def FileHandleManager_getFileHandle_def FileHandleManager_tryGetFileReadWriteHandle_def
      StoreApiImpl_writeToFile_def StoreApiImpl_readFromFile_def StoreApiImpl_seekInFile_def
      StoreApiImpl_syncFile_def StoreApiImpl_closeFile_def)

lemma closeFile_closes:
  assumes "store_inv st" and "ss_files st i \<noteq> None" and "StoreApiImpl_closeFile env i st = (r, st')"
  shows "closed_handle i st'"
proof -
  obtain h where h: "ss_files st i = Some h" using assms(2) by blast
  let ?st = "st\<lparr>ss_files := (ss_files st)(i := None), ss_handleManager := HandleManager_removeHandle i (ss_handleManager st)\<rparr>"
  have rm: "FileHandleManager_removeHandle i st = (Inr (), ?st)" by (simp add: FileHandleManager_removeHandle_def h)
  have closed: "closed_handle i ?st"
    using store_inv_files [OF assms(1) h] by (simp add: closed_handle_def HandleManager_removeHandle_def)
  have fin: "StoreApiImpl_storeFileFinalizeWrite env w ?st = (r2, st2) \<Longrightarrow> closed_handle i st2" for w r2 st2
    using finalize_touches touches_closed [OF _ closed] by blast
  show ?thesis
    using assms(3) closed fin
    by (auto simp: StoreApiImpl_closeFile_def FileHandleManager_tryGetFileReadWriteHandle_def
        FileHandleManager_getFileHandle_def h bindS_def rm ret_def
        split: file_handle.splits prod.splits sum.splits if_splits)
qed


text \<open>Opening and creating files return, as long as the counter has not run out.\<close>

lemma FileHandleManager_create_returns:
  assumes "store_inv st" and "hm_id (ss_handleManager st) < 2 ^ 63 - 1"
  shows "\<exists>r st'. FileHandleManager_create label construct st = Some (r, st')"
  using createHandle_inv(1) [OF _ assms(2), of label] assms(1)
  by (auto simp: FileHandleManager_create_def store_inv_def Let_def split: sum.splits)

lemma createFile_returns:
  assumes "store_inv st" and "hm_id (ss_handleManager st) < 2 ^ 63 - 1"
  shows "\<exists>r st'. StoreApiImpl_createFile env storeId pm sm sz rw st = Some (r, st')"
proof -
  obtain rid d where rid: "se_generateId env (ss_draws st) = (rid, d)" by fastforce
  have "store_inv (st\<lparr>ss_draws := d\<rparr>)" using assms(1) by (simp add: store_inv_def)
  then obtain r st' where "FileHandleManager_createFileWriteHandle storeId [] rid (u64_of_int sz) pm sm
      StoreApiImpl_CHUNK_SIZE (se_serverRequestChunkSize env) rw (st\<lparr>ss_draws := d\<rparr>) = Some (r, st')"
    using FileHandleManager_create_returns assms(2) unfolding handle_constructors by fastforce
  then show ?thesis
    by (cases "se_assertStoreExist env storeId (ss_server st)"; cases r)
      (auto simp: StoreApiImpl_createFile_def rid split: prod.splits)
qed

subsection \<open>A concrete client\<close>

definition sample_store_env :: "(sample_state, unit) store_env" where
  "sample_store_env =
     \<lparr>se_file = sample_env sample_api,
      se_requests = \<lparr>rq_createRequest = (\<lambda>fs s. (Inr ''rq'', s)), rq_sendChunk = (\<lambda>m s. (Inr (), s)),
                     rq_commitFile = (\<lambda>m s. (Inr (), s))\<rparr>,
      se_serverRequestChunkSize = 64, se_fileParams = (\<lambda>fileId s. Inl (StoreExn InvalidFileHandleException)),
      se_assertStoreExist = (\<lambda>storeId s. Inr ()), se_generateId = (\<lambda>r. (''id'', r + 1)),
      se_finalizeWrite = (\<lambda>h pm sm info w. (Inr ''f2'', w))\<rparr>"

definition sample_rw_handle :: "sample_state FileReadWriteHandle" where
  "sample_rw_handle =
     \<lparr>rwh_handle = \<lparr>hd_id = 1, hd_storeId = ''s'', hd_fileId = ''f'', hd_resourceId = ''r'', hd_size = 0, hd_randomWriteSupport = True\<rparr>,
      rwh_file = \<lparr>fhi_file = sample_rw, fhi_readPos = 0, fhi_writePos = 0\<rparr>\<rparr>"

definition sample_store :: "sample_state store_state" where
  "sample_store =
     \<lparr>ss_server = io_server sample_io, ss_draws = 0,
      ss_handleManager = \<lparr>hm_id = 1, hm_map = [1 \<mapsto> ''FileReadWrite'']\<rparr>,
      ss_files = [1 \<mapsto> ReadWriteHandle sample_rw_handle]\<rparr>"

lemma sample_store_inv [simp]: "store_inv sample_store"
  by (simp add: store_inv_def sample_store_def HandleManager_inv_def)

subsection \<open>Properties\<close>

text \<open>A handle that was just stored is found as it is: the shared state is its own.\<close>

lemma getFileHandle_stored [simp]: "FileHandleManager_getFileHandle (store_handle i h st) i = Inr h"
  by (cases h) (simp_all add: FileHandleManager_getFileHandle_def store_handle_def)

lemma rw_handle_operations:
  assumes "FileHandleManager_getFileHandle st i = Inr (ReadWriteHandle h)"
  shows "length d \<le> 512 * 1024 \<Longrightarrow>
      StoreApiImpl_writeToFile env i d t st = on_rw_handle i h (FileHandlerImpl_write (se_file env) d t) st"
    and "StoreApiImpl_readFromFile env i len st = on_rw_handle i h (FileHandlerImpl_read (se_file env) (u64_of_int len)) st"
    and "StoreApiImpl_seekInFile i pos st =
      on_rw_handle i h (bindS (FileHandlerImpl_seekg (u64_of_int pos)) (\<lambda>_. FileHandlerImpl_seekp (u64_of_int pos))) st"
  using assms by (simp_all add: StoreApiImpl_writeToFile_def StoreApiImpl_readFromFile_def StoreApiImpl_seekInFile_def
      FileHandleManager_tryGetFileReadWriteHandle_def)

lemma stored_others: "j \<noteq> i \<Longrightarrow> ss_files (store_handle i h st) j = ss_files st j"
  by (simp add: store_handle_def)

text \<open>
  C34. Writing, seeking and reading through a handle number work like a file. When the handle under the number
  represents the content \<open>plain\<close>, then \<open>writeToFile\<close> of nonempty data of at most 512 KiB, which the Bridge accepts in
  one operation, followed by \<open>seekInFile\<close> to a position inside the written file and \<open>readFromFile\<close> returns the bytes at
  that position of \<open>plain\<close> with the data written at the handle's write position. Afterwards the handle
  represents that content, its read position is behind the bytes that were read, the write position is where
  the seek left it, and the other open files have the handles they had.
\<close>

theorem handle_write_then_read:
  assumes h: "FileHandleManager_getFileHandle st i = Inr (ReadWriteHandle h)"
    and v: "rw_view (se_file env) chs (fhi_file (rwh_file h)) plain"
    and dat: "dat \<noteq> []" "length dat \<le> 512 * 1024" "fhi_writePos (rwh_file h) + length dat < 2 ^ 63"
    and fits: "write_fits (fhi_file (rwh_file h)) (min (fhi_writePos (rwh_file h)) (length plain)) (fhi_writePos (rwh_file h) + length dat)"
    and srv: "applies_writes (se_api env) (fi_fileId (fh_fileInfo (rw_handler (fhi_file (rwh_file h)))))"
    and meta: "meta_encrypts (se_file env) (rw_handler (fhi_file (rwh_file h)))"
    and p: "p \<le> length (write_at (fhi_writePos (rwh_file h)) dat t plain)" "p + n < 2 ^ 64"
  shows "\<exists>st' h' chs'. bindS (StoreApiImpl_writeToFile env i dat t) (\<lambda>_.
        bindS (StoreApiImpl_seekInFile i (int p)) (\<lambda>_. StoreApiImpl_readFromFile env i (int n))) st
      = (Inr (take n (drop p (write_at (fhi_writePos (rwh_file h)) dat t plain))), st') \<and>
    FileHandleManager_getFileHandle st' i = Inr (ReadWriteHandle h') \<and>
    rw_view (se_file env) chs' (fhi_file (rwh_file h')) (write_at (fhi_writePos (rwh_file h)) dat t plain) \<and>
    fhi_readPos (rwh_file h') = p + length (take n (drop p (write_at (fhi_writePos (rwh_file h)) dat t plain))) \<and>
    fhi_writePos (rwh_file h') = p \<and> (\<forall>j. j \<noteq> i \<longrightarrow> ss_files st' j = ss_files st j)"
proof -
  let ?f = "rwh_file h" and ?new = "write_at (fhi_writePos (rwh_file h)) dat t plain"
  obtain f1 chs1 where w: "FileHandler_write (se_file env) (fhi_writePos ?f) dat t (fhi_file ?f) = (Inr (), f1)"
    "rw_view (se_file env) chs1 f1 ?new"
    using FileHandler_write_ok [OF v dat(1,3) fits srv meta, of t] by blast
  define h1 where "h1 = h\<lparr>rwh_file := ?f\<lparr>fhi_file := f1, fhi_writePos := u64 (fhi_writePos ?f + length dat)\<rparr>\<rparr>"
  define st1 where "st1 = store_handle i (ReadWriteHandle h1) st"
  have st1: "StoreApiImpl_writeToFile env i dat t st = (Inr (), st1)"
    by (simp add: rw_handle_operations(1) [OF h dat(2)] on_rw_handle_def FileHandlerImpl_write_def w(1) st1_def h1_def)
  define h2 where "h2 = h1\<lparr>rwh_file := (rwh_file h1)\<lparr>fhi_readPos := p, fhi_writePos := p\<rparr>\<rparr>"
  define st2 where "st2 = store_handle i (ReadWriteHandle h2) st1"
  have g1: "FileHandleManager_getFileHandle st1 i = Inr (ReadWriteHandle h1)" by (simp add: st1_def)
  have num: "u64_of_int (int p) = p" "u64_of_int (int n) = n" using p(2) by (simp_all add: u64_of_int_of_nat)
  have st2: "StoreApiImpl_seekInFile i (int p) st1 = (Inr (), st2)"
    using p(1) rw_viewD(2) [OF w(2)]
    by (simp add: rw_handle_operations(3) [OF g1] num on_rw_handle_def bindS_def FileHandlerImpl_seekg_def FileHandlerImpl_seekp_def
        FileHandler_getFileSize_def h1_def h2_def st2_def)
  have f1: "fhi_file (rwh_file h2) = f1" "fhi_readPos (rwh_file h2) = p" "fhi_writePos (rwh_file h2) = p" by (simp_all add: h1_def h2_def)
  obtain f3 where rd: "FileHandler_read (se_file env) p n f1 = (Inr (take n (drop p ?new)), f3)" "rw_view (se_file env) chs1 f3 ?new"
    using FileHandler_read_ok [OF w(2) p(2)] by blast
  define h3 where "h3 = h2\<lparr>rwh_file := (rwh_file h2)\<lparr>fhi_file := f3, fhi_readPos := u64 (p + length (take n (drop p ?new)))\<rparr>\<rparr>"
  have g2: "FileHandleManager_getFileHandle st2 i = Inr (ReadWriteHandle h2)" by (simp add: st2_def)
  have "StoreApiImpl_readFromFile env i (int n) st2 = (Inr (take n (drop p ?new)), store_handle i (ReadWriteHandle h3) st2)"
    by (simp add: rw_handle_operations(2) [OF g2] num on_rw_handle_def FileHandlerImpl_read_def f1 rd(1) h3_def)
  then have run: "bindS (StoreApiImpl_writeToFile env i dat t) (\<lambda>_.
        bindS (StoreApiImpl_seekInFile i (int p)) (\<lambda>_. StoreApiImpl_readFromFile env i (int n))) st
      = (Inr (take n (drop p ?new)), store_handle i (ReadWriteHandle h3) st2)"
    by (simp add: bindS_def st1 st2)
  have "p + length (take n (drop p ?new)) < 2 ^ 64" using p(2) by simp
  then have "fhi_readPos (rwh_file h3) = p + length (take n (drop p ?new))" by (simp only: h3_def u64_id) simp
  moreover have "fhi_writePos (rwh_file h3) = p" "fhi_file (rwh_file h3) = f3" using f1 by (simp_all add: h3_def)
  ultimately show ?thesis
    using rd(2) by (intro exI [of _ "store_handle i (ReadWriteHandle h3) st2"] exI [of _ h3] exI [of _ chs1] conjI run)
      (simp_all add: st2_def st1_def stored_others)
qed

text \<open>
  C35. A handle number is never used again: after \<open>closeFile\<close>, with whatever result, and after any
  further operations, the number names no file, and every operation on it throws
  \<open>InvalidFileHandleException\<close> and changes nothing, as long as the 64-bit counter has not
  run through its range. The operations in between are those on handles (\<open>writeToFile\<close>, \<open>readFromFile\<close>,
  \<open>seekInFile\<close>, \<open>syncFile\<close>, \<open>closeFile\<close>), those that make one (\<open>createFile\<close>, \<open>updateFile\<close>, \<open>openFile\<close>), and what the
  inbox module and other clients do to the shared manager and to the Bridge.
\<close>

theorem closed_handle_stays_invalid:
  assumes "store_inv st" and "ss_files st i \<noteq> None" and "StoreApiImpl_closeFile env i st = (r, st1)"
    and "(store_step env)\<^sup>*\<^sup>* st1 st2"
  shows "StoreApiImpl_writeToFile env i dat trunc st2 = (Inl (StoreExn InvalidFileHandleException), st2) \<and>
    StoreApiImpl_readFromFile env i len st2 = (Inl (StoreExn InvalidFileHandleException), st2) \<and>
    StoreApiImpl_seekInFile i pos st2 = (Inl (StoreExn InvalidFileHandleException), st2) \<and>
    StoreApiImpl_syncFile env i st2 = (Inl (StoreExn InvalidFileHandleException), st2) \<and>
    StoreApiImpl_closeFile env i st2 = (Inl (StoreExn InvalidFileHandleException), st2)"
proof -
  have "store_inv st1"
    using touches_inv [OF close_touches [OF assms(3)] assms(1)] .
  then have "closed_handle i st2"
    using store_run_closed [OF assms(4)] closeFile_closes [OF assms(1,2,3)] by blast
  then show ?thesis by (intro conjI closed_handle_throws)
qed

theorem closed_handle_stays_invalid_witness:
  "\<exists>r1 st1 r2 st2. ss_files sample_store 1 \<noteq> None \<and>
    StoreApiImpl_closeFile sample_store_env 1 sample_store = (r1, st1) \<and>
    StoreApiImpl_createFile sample_store_env ''s'' [] [] 5 False st1 = Some (r2, st2) \<and>
    StoreApiImpl_readFromFile sample_store_env 1 5 st2 = (Inl (StoreExn InvalidFileHandleException), st2)"
proof -
  obtain r1 st1 where close: "StoreApiImpl_closeFile sample_store_env 1 sample_store = (r1, st1)" by fastforce
  have f: "ss_files sample_store 1 \<noteq> None" by (simp add: sample_store_def)
  have t: "touches 1 sample_store st1" by (rule close_touches [OF close])
  have inv: "store_inv st1" by (rule touches_inv [OF t sample_store_inv])
  have counter: "hm_id (ss_handleManager st1) < 2 ^ 63 - 1" using t by (simp add: touches_def sample_store_def)
  obtain r2 st2 where create: "StoreApiImpl_createFile sample_store_env ''s'' [] [] 5 False st1 = Some (r2, st2)"
    using createFile_returns [OF inv counter] by blast
  have "(store_step sample_store_env)\<^sup>*\<^sup>* st1 st2"
    using on_opening [OF counter create_call [OF create]] by (rule r_into_rtranclp)
  from closed_handle_stays_invalid [OF sample_store_inv f close this] create close f show ?thesis by blast
qed

text \<open>
  When the construction of a handle fails, the number that was taken for it stays in use: no
  file has it, so \<open>closeFile\<close> refuses it and nothing ever removes it.
\<close>

theorem failed_open_leaks_number:
  assumes "store_inv st" and "hm_id (ss_handleManager st) < 2 ^ 63 - 1"
    and "FileHandleManager_create label construct st = Some (Inl e, st')"
  shows "hm_map (ss_handleManager st') (hm_id (ss_handleManager st) + 1) = Some label \<and>
    fst (StoreApiImpl_closeFile env (hm_id (ss_handleManager st) + 1) st') = Inl (StoreExn InvalidFileHandleException)"
proof -
  have new: "HandleManager_createHandle label (ss_handleManager st) = Some (hm_id (ss_handleManager st) + 1,
      \<lparr>hm_id = hm_id (ss_handleManager st) + 1,
       hm_map = (hm_map (ss_handleManager st))(hm_id (ss_handleManager st) + 1 \<mapsto> label)\<rparr>)"
    using createHandle_inv(1) [OF _ assms(2)] assms(1) by (simp add: store_inv_def)
  have none: "ss_files st (hm_id (ss_handleManager st) + 1) = None"
    using store_inv_files [OF assms(1)] by (cases "ss_files st (hm_id (ss_handleManager st) + 1)") fastforce+
  have "closed_handle (hm_id (ss_handleManager st) + 1) st'"
    using assms(3) none by (auto simp: FileHandleManager_create_def new Let_def closed_handle_def split: sum.splits)
  moreover have "hm_map (ss_handleManager st') (hm_id (ss_handleManager st) + 1) = Some label"
    using assms(3) by (auto simp: FileHandleManager_create_def new Let_def split: sum.splits)
  ultimately show ?thesis by (simp add: closed_handle_throws)
qed

theorem failed_open_leaks_number_witness:
  "\<exists>st'. FileHandleManager_create ''Store:FileRead'' (\<lambda>i s r. Inl (StoreExn FileCorruptedException)) sample_store =
      Some (Inl (StoreExn FileCorruptedException), st') \<and>
    hm_map (ss_handleManager st') 2 = Some ''Store:FileRead'' \<and>
    fst (StoreApiImpl_closeFile sample_store_env 2 st') = Inl (StoreExn InvalidFileHandleException)"
proof -
  have c: "hm_id (ss_handleManager sample_store) < 2 ^ 63 - 1" by (simp add: sample_store_def)
  have m: "HandleManager_inv (ss_handleManager sample_store)" using sample_store_inv unfolding store_inv_def by blast
  obtain st' where st': "FileHandleManager_create ''Store:FileRead'' (\<lambda>i s r. Inl (StoreExn FileCorruptedException)) sample_store =
      Some (Inl (StoreExn FileCorruptedException), st')"
    using createHandle_inv(1) [OF m c, of "''Store:FileRead''"] by (auto simp: FileHandleManager_create_def Let_def)
  from failed_open_leaks_number [OF sample_store_inv c st', of sample_store_env] st' show ?thesis
    by (simp add: sample_store_def)
qed


end
