(* ===== verification/Store_Types.thy ===== *)
theory Store_Types
  imports Core_Types Core_OldEncryptor Store_FileHandles
begin

text \<open>
  Data of the stores: the structures of the Bridge's protocol
  (\<open>endpoint/store/include/privmx/endpoint/store/ServerTypes.hpp\<close>) with the conversions from JSON that
  notifications need, the structures inside encrypted meta data (\<open>DynamicTypes.hpp\<close>, \<open>StoreTypes.hpp\<close>) and
  those handed to the application (\<open>Types.hpp\<close>).
\<close>

definition STORE_TYPE_FILTER_FLAG :: string where
  "STORE_TYPE_FILTER_FLAG = ''store''"

subsection \<open>The Bridge's structures\<close>

record StoreDataEntry =
  sde_keyId :: string
  sde_data :: json

record ServerStore =
  sr_id :: string
  sr_resourceId :: "string option"
  sr_contextId :: string
  sr_createDate :: int
  sr_creator :: string
  sr_lastModificationDate :: int
  sr_lastModifier :: string
  sr_data :: "StoreDataEntry list"
  sr_keyId :: string
  sr_users :: "string list"
  sr_managers :: "string list"
  sr_keys :: "KeyEntry list"
  sr_version :: int
  sr_lastFileDate :: int
  sr_files :: int
  sr_type :: "string option"
  sr_policy :: json

text \<open>\<open>type\<close> of a new store is a plain text that stays empty when none is given.\<close>

record StoreCreateModel =
  stc_resourceId :: string
  stc_contextId :: string
  stc_users :: "string list"
  stc_managers :: "string list"
  stc_data :: json
  stc_keyId :: string
  stc_keys :: "KeyEntrySet list"
  stc_type :: string
  stc_policy :: "json option"

record StoreUpdateModel =
  stu_id :: string
  stu_resourceId :: string
  stu_users :: "string list"
  stu_managers :: "string list"
  stu_data :: json
  stu_keyId :: string
  stu_keys :: "KeyEntrySet list"
  stu_version :: int
  stu_force :: bool
  stu_policy :: "json option"

record StoreGetModel =
  stg_storeId :: string
  stg_type :: "string option"

record StoreListModel = ListModel +
  stl_contextId :: string
  stl_type :: "string option"

record FileThumb =
  ft_size :: int

record ServerFile =
  fl_id :: string
  fl_resourceId :: string
  fl_version :: int
  fl_contextId :: string
  fl_storeId :: string
  fl_created :: int
  fl_creator :: string
  fl_lastModificationDate :: int
  fl_lastModifier :: string
  fl_meta :: json
  fl_size :: int
  fl_keyId :: string
  fl_thumb :: "FileThumb option"

record StoreFileListModel = ListModel +
  sfl_storeId :: string

record StoreFileCreateModel =
  sfc_resourceId :: string
  sfc_storeId :: string
  sfc_requestId :: string
  sfc_fileIndex :: int
  sfc_meta :: json
  sfc_keyId :: string
  sfc_thumbIndex :: "int option"

record StoreFileWriteModel =
  sfw_fileId :: string
  sfw_requestId :: string
  sfw_fileIndex :: int
  sfw_meta :: json
  sfw_keyId :: string
  sfw_thumbIndex :: "int option"

record StoreFileUpdateModel =
  sfu_fileId :: string
  sfu_meta :: json
  sfu_keyId :: string

record StoreDeletedEventData =
  sdd_storeId :: string
  sdd_type :: "string option"

record StoreStatsChangedEventData =
  sse_id :: string
  sse_contextId :: string
  sse_lastFileDate :: int
  sse_files :: int
  sse_type :: "string option"

record StoreFileDeletedEventData =
  sfd_id :: string
  sfd_contextId :: string
  sfd_storeId :: string
  sfd_containerType :: "string option"

record StoreFileChange =
  sfch_type :: string
  sfch_pos :: int
  sfch_length :: int
  sfch_truncate :: bool

subsection \<open>Inside encrypted meta data\<close>

record StoreDataV1 =
  sd1_name :: string
  sd1_statusCode :: int

record StoreFileMetaAuthor =
  sfa_pubKey :: string

record StoreFileMetaDestination =
  sfdst_server :: string
  sfdst_contextId :: string
  sfdst_storeId :: string
  sfdst_store :: string

record StoreMetaV1 =
  sm1_mimetype :: string
  sm1_size :: int
  sm1_cipherType :: int
  sm1_chunkSize :: int
  sm1_key :: string
  sm1_hmac :: string
  sm1_statusCode :: int

text \<open>\<open>StoreFileMeta\<close> of version 1 extends \<open>StoreMeta\<close>, as does the thumbnail's, which adds nothing.\<close>

record StoreFileMeta =
  sfm_mimetype :: string
  sfm_size :: int
  sfm_cipherType :: int
  sfm_chunkSize :: int
  sfm_key :: string
  sfm_hmac :: string
  sfm_statusCode :: int
  sfm_ver :: int
  sfm_name :: string
  sfm_author :: StoreFileMetaAuthor
  sfm_destination :: StoreFileMetaDestination
  sfm_thumb :: "StoreMetaV1 option"

record EncryptedFileMetaV4 =
  fe4_version :: int
  fe4_publicMeta :: string
  fe4_publicMetaObject :: json
  fe4_privateMeta :: string
  fe4_fileSize :: string
  fe4_internalMeta :: "string option"
  fe4_authorPubKey :: string

record EncryptedFileMetaV5 =
  fe5_version :: int
  fe5_publicMeta :: string
  fe5_publicMetaObject :: json
  fe5_privateMeta :: string
  fe5_internalMeta :: "string option"
  fe5_authorPubKey :: string
  fe5_dio :: string

record FileMetaToEncryptV4 =
  ft4_publicMeta :: bytes
  ft4_privateMeta :: bytes
  ft4_fileSize :: int
  ft4_internalMeta :: bytes

record FileMetaToEncryptV5 =
  ft5_publicMeta :: bytes
  ft5_privateMeta :: bytes
  ft5_internalMeta :: bytes
  ft5_dio :: DataIntegrityObject

record DecryptedFileMetaV4 =
  fd4_dataStructureVersion :: int
  fd4_statusCode :: int
  fd4_publicMeta :: bytes
  fd4_privateMeta :: bytes
  fd4_fileSize :: int
  fd4_internalMeta :: bytes
  fd4_authorPubKey :: string

record DecryptedFileMetaV5 =
  fd5_dataStructureVersion :: int
  fd5_statusCode :: int
  fd5_publicMeta :: bytes
  fd5_privateMeta :: bytes
  fd5_internalMeta :: bytes
  fd5_authorPubKey :: string
  fd5_dio :: DataIntegrityObject

record FileMetaSigned =
  fms_meta :: StoreFileMeta
  fms_metaBuf :: bytes
  fms_signature :: bytes

record StoreFile =
  sf_raw :: ServerFile
  sf_meta :: StoreFileMeta
  sf_verified :: string

subsection \<open>The application's structures\<close>

record Store =
  lst_storeId :: string
  lst_contextId :: string
  lst_createDate :: int
  lst_creator :: string
  lst_lastModificationDate :: int
  lst_lastFileDate :: int
  lst_lastModifier :: string
  lst_users :: "string list"
  lst_managers :: "string list"
  lst_version :: int
  lst_publicMeta :: bytes
  lst_privateMeta :: bytes
  lst_policy :: ContainerPolicy
  lst_filesCount :: int
  lst_statusCode :: int
  lst_schemaVersion :: int

record ServerFileInfo =
  sfi_storeId :: string
  sfi_fileId :: string
  sfi_createDate :: int
  sfi_author :: string

record File =
  lf_info :: ServerFileInfo
  lf_publicMeta :: bytes
  lf_privateMeta :: bytes
  lf_size :: int
  lf_authorPubKey :: string
  lf_statusCode :: int
  lf_schemaVersion :: int
  lf_randomWrite :: bool

record FileChange =
  fch_pos :: int
  fch_length :: int
  fch_truncate :: bool

definition Store_new :: Store where
  "Store_new =
     \<lparr>lst_storeId = [], lst_contextId = [], lst_createDate = 0, lst_creator = [], lst_lastModificationDate = 0,
      lst_lastFileDate = 0, lst_lastModifier = [], lst_users = [], lst_managers = [], lst_version = 0, lst_publicMeta = [],
      lst_privateMeta = [], lst_policy = empty_policy, lst_filesCount = 0, lst_statusCode = 0, lst_schemaVersion = 0\<rparr>"

subsection \<open>Conversions from and to JSON\<close>

definition StoreDataEntry_fromJSON :: "(string \<times> json) list \<Rightarrow> (exn, StoreDataEntry) result" where
  "StoreDataEntry_fromJSON ob =
     bindR (deserialize_string (json_get ob ''keyId'')) (\<lambda>keyId.
     Inr \<lparr>sde_keyId = keyId, sde_data = json_get ob ''data''\<rparr>)"

definition ServerStore_fromJSON :: "poco_api \<Rightarrow> (string \<times> json) list \<Rightarrow> (exn, ServerStore) result" where
  "ServerStore_fromJSON p ob =
     bindR (deserialize_string (json_get ob ''id'')) (\<lambda>id'.
     bindR (deserialize_optional deserialize_string (json_get ob ''resourceId'')) (\<lambda>resourceId.
     bindR (deserialize_string (json_get ob ''contextId'')) (\<lambda>contextId.
     bindR (deserialize_int64 p (json_get ob ''createDate'')) (\<lambda>createDate.
     bindR (deserialize_string (json_get ob ''creator'')) (\<lambda>creator.
     bindR (deserialize_int64 p (json_get ob ''lastModificationDate'')) (\<lambda>lastModificationDate.
     bindR (deserialize_string (json_get ob ''lastModifier'')) (\<lambda>lastModifier.
     bindR (deserializeArray (deserialize_struct StoreDataEntry_fromJSON) (json_get ob ''data'')) (\<lambda>data.
     bindR (deserialize_string (json_get ob ''keyId'')) (\<lambda>keyId.
     bindR (deserializeArray deserialize_string (json_get ob ''users'')) (\<lambda>users.
     bindR (deserializeArray deserialize_string (json_get ob ''managers'')) (\<lambda>managers.
     bindR (deserializeArray (deserialize_struct KeyEntry_fromJSON) (json_get ob ''keys'')) (\<lambda>keys.
     bindR (deserialize_int64 p (json_get ob ''version'')) (\<lambda>version.
     bindR (deserialize_int64 p (json_get ob ''lastFileDate'')) (\<lambda>lastFileDate.
     bindR (deserialize_int64 p (json_get ob ''files'')) (\<lambda>files.
     bindR (deserialize_optional deserialize_string (json_get ob ''type'')) (\<lambda>type.
     Inr \<lparr>sr_id = id', sr_resourceId = resourceId, sr_contextId = contextId, sr_createDate = createDate,
       sr_creator = creator, sr_lastModificationDate = lastModificationDate, sr_lastModifier = lastModifier,
       sr_data = data, sr_keyId = keyId, sr_users = users, sr_managers = managers, sr_keys = keys,
       sr_version = version, sr_lastFileDate = lastFileDate, sr_files = files, sr_type = type,
       sr_policy = json_get ob ''policy''\<rparr>))))))))))))))))"

definition FileThumb_fromJSON :: "poco_api \<Rightarrow> (string \<times> json) list \<Rightarrow> (exn, FileThumb) result" where
  "FileThumb_fromJSON p ob =
     bindR (deserialize_int64 p (json_get ob ''size'')) (\<lambda>size.
     Inr \<lparr>ft_size = size\<rparr>)"

definition ServerFile_fromJSON :: "poco_api \<Rightarrow> (string \<times> json) list \<Rightarrow> (exn, ServerFile) result" where
  "ServerFile_fromJSON p ob =
     bindR (deserialize_string (json_get ob ''id'')) (\<lambda>id'.
     bindR (deserialize_string (json_get ob ''resourceId'')) (\<lambda>resourceId.
     bindR (deserialize_int64 p (json_get ob ''version'')) (\<lambda>version.
     bindR (deserialize_string (json_get ob ''contextId'')) (\<lambda>contextId.
     bindR (deserialize_string (json_get ob ''storeId'')) (\<lambda>storeId.
     bindR (deserialize_int64 p (json_get ob ''created'')) (\<lambda>created.
     bindR (deserialize_string (json_get ob ''creator'')) (\<lambda>creator.
     bindR (deserialize_int64 p (json_get ob ''lastModificationDate'')) (\<lambda>lastModificationDate.
     bindR (deserialize_string (json_get ob ''lastModifier'')) (\<lambda>lastModifier.
     bindR (deserialize_int64 p (json_get ob ''size'')) (\<lambda>size.
     bindR (deserialize_string (json_get ob ''keyId'')) (\<lambda>keyId.
     bindR (deserialize_optional (deserialize_struct (FileThumb_fromJSON p)) (json_get ob ''thumb'')) (\<lambda>thumb.
     Inr \<lparr>fl_id = id', fl_resourceId = resourceId, fl_version = version, fl_contextId = contextId,
       fl_storeId = storeId, fl_created = created, fl_creator = creator,
       fl_lastModificationDate = lastModificationDate, fl_lastModifier = lastModifier,
       fl_meta = json_get ob ''meta'', fl_size = size, fl_keyId = keyId, fl_thumb = thumb\<rparr>))))))))))))"

definition StoreDeletedEventData_fromJSON :: "(string \<times> json) list \<Rightarrow> (exn, StoreDeletedEventData) result" where
  "StoreDeletedEventData_fromJSON ob =
     bindR (deserialize_string (json_get ob ''storeId'')) (\<lambda>storeId.
     bindR (deserialize_optional deserialize_string (json_get ob ''type'')) (\<lambda>type.
     Inr \<lparr>sdd_storeId = storeId, sdd_type = type\<rparr>))"

definition StoreStatsChangedEventData_fromJSON :: "poco_api \<Rightarrow> (string \<times> json) list \<Rightarrow> (exn, StoreStatsChangedEventData) result" where
  "StoreStatsChangedEventData_fromJSON p ob =
     bindR (deserialize_string (json_get ob ''id'')) (\<lambda>id'.
     bindR (deserialize_string (json_get ob ''contextId'')) (\<lambda>contextId.
     bindR (deserialize_int64 p (json_get ob ''lastFileDate'')) (\<lambda>lastFileDate.
     bindR (deserialize_int64 p (json_get ob ''files'')) (\<lambda>files.
     bindR (deserialize_optional deserialize_string (json_get ob ''type'')) (\<lambda>type.
     Inr \<lparr>sse_id = id', sse_contextId = contextId, sse_lastFileDate = lastFileDate, sse_files = files, sse_type = type\<rparr>)))))"

definition StoreFileDeletedEventData_fromJSON :: "(string \<times> json) list \<Rightarrow> (exn, StoreFileDeletedEventData) result" where
  "StoreFileDeletedEventData_fromJSON ob =
     bindR (deserialize_string (json_get ob ''id'')) (\<lambda>id'.
     bindR (deserialize_string (json_get ob ''contextId'')) (\<lambda>contextId.
     bindR (deserialize_string (json_get ob ''storeId'')) (\<lambda>storeId.
     bindR (deserialize_optional deserialize_string (json_get ob ''containerType'')) (\<lambda>containerType.
     Inr \<lparr>sfd_id = id', sfd_contextId = contextId, sfd_storeId = storeId, sfd_containerType = containerType\<rparr>))))"

definition StoreFileChange_fromJSON :: "poco_api \<Rightarrow> (string \<times> json) list \<Rightarrow> (exn, StoreFileChange) result" where
  "StoreFileChange_fromJSON p ob =
     bindR (deserialize_string (json_get ob ''type'')) (\<lambda>type.
     bindR (deserialize_int64 p (json_get ob ''pos'')) (\<lambda>pos.
     bindR (deserialize_int64 p (json_get ob ''length'')) (\<lambda>length.
     bindR (deserialize_bool (json_get ob ''truncate'')) (\<lambda>truncate.
     Inr \<lparr>sfch_type = type, sfch_pos = pos, sfch_length = length, sfch_truncate = truncate\<rparr>))))"

definition StoreDataV1_fromJSON :: "poco_api \<Rightarrow> (string \<times> json) list \<Rightarrow> (exn, StoreDataV1) result" where
  "StoreDataV1_fromJSON p ob =
     bindR (deserialize_string (json_get ob ''name'')) (\<lambda>name.
     bindR (deserialize_int64 p (json_get ob ''statusCode'')) (\<lambda>statusCode.
     Inr \<lparr>sd1_name = name, sd1_statusCode = statusCode\<rparr>))"

definition StoreFileMetaAuthor_fromJSON :: "(string \<times> json) list \<Rightarrow> (exn, StoreFileMetaAuthor) result" where
  "StoreFileMetaAuthor_fromJSON ob =
     bindR (deserialize_string (json_get ob ''pubKey'')) (\<lambda>pubKey.
     Inr \<lparr>sfa_pubKey = pubKey\<rparr>)"

definition StoreFileMetaDestination_fromJSON :: "(string \<times> json) list \<Rightarrow> (exn, StoreFileMetaDestination) result" where
  "StoreFileMetaDestination_fromJSON ob =
     bindR (deserialize_string (json_get ob ''server'')) (\<lambda>server.
     bindR (deserialize_string (json_get ob ''contextId'')) (\<lambda>contextId.
     bindR (deserialize_string (json_get ob ''storeId'')) (\<lambda>storeId.
     bindR (deserialize_string (json_get ob ''store'')) (\<lambda>store.
     Inr \<lparr>sfdst_server = server, sfdst_contextId = contextId, sfdst_storeId = storeId, sfdst_store = store\<rparr>))))"

definition StoreMetaV1_fromJSON :: "poco_api \<Rightarrow> (string \<times> json) list \<Rightarrow> (exn, StoreMetaV1) result" where
  "StoreMetaV1_fromJSON p ob =
     bindR (deserialize_string (json_get ob ''mimetype'')) (\<lambda>mimetype.
     bindR (deserialize_int64 p (json_get ob ''size'')) (\<lambda>size.
     bindR (deserialize_int64 p (json_get ob ''cipherType'')) (\<lambda>cipherType.
     bindR (deserialize_int64 p (json_get ob ''chunkSize'')) (\<lambda>chunkSize.
     bindR (deserialize_string (json_get ob ''key'')) (\<lambda>key.
     bindR (deserialize_string (json_get ob ''hmac'')) (\<lambda>hmac.
     bindR (deserialize_int64 p (json_get ob ''statusCode'')) (\<lambda>statusCode.
     Inr \<lparr>sm1_mimetype = mimetype, sm1_size = size, sm1_cipherType = cipherType, sm1_chunkSize = chunkSize,
       sm1_key = key, sm1_hmac = hmac, sm1_statusCode = statusCode\<rparr>)))))))"

definition StoreFileMeta_fromJSON :: "poco_api \<Rightarrow> (string \<times> json) list \<Rightarrow> (exn, StoreFileMeta) result" where
  "StoreFileMeta_fromJSON p ob =
     bindR (deserialize_string (json_get ob ''mimetype'')) (\<lambda>mimetype.
     bindR (deserialize_int64 p (json_get ob ''size'')) (\<lambda>size.
     bindR (deserialize_int64 p (json_get ob ''cipherType'')) (\<lambda>cipherType.
     bindR (deserialize_int64 p (json_get ob ''chunkSize'')) (\<lambda>chunkSize.
     bindR (deserialize_string (json_get ob ''key'')) (\<lambda>key.
     bindR (deserialize_string (json_get ob ''hmac'')) (\<lambda>hmac.
     bindR (deserialize_int64 p (json_get ob ''statusCode'')) (\<lambda>statusCode.
     bindR (deserialize_int64 p (json_get ob ''ver'')) (\<lambda>ver.
     bindR (deserialize_string (json_get ob ''name'')) (\<lambda>name.
     bindR (deserialize_struct StoreFileMetaAuthor_fromJSON (json_get ob ''author'')) (\<lambda>author.
     bindR (deserialize_struct StoreFileMetaDestination_fromJSON (json_get ob ''destination'')) (\<lambda>destination.
     bindR (deserialize_optional (deserialize_struct (StoreMetaV1_fromJSON p)) (json_get ob ''thumb'')) (\<lambda>thumb.
     Inr \<lparr>sfm_mimetype = mimetype, sfm_size = size, sfm_cipherType = cipherType, sfm_chunkSize = chunkSize,
       sfm_key = key, sfm_hmac = hmac, sfm_statusCode = statusCode, sfm_ver = ver, sfm_name = name,
       sfm_author = author, sfm_destination = destination, sfm_thumb = thumb\<rparr>))))))))))))"

definition StoreFileMetaAuthor_toJSON :: "StoreFileMetaAuthor \<Rightarrow> json" where
  "StoreFileMetaAuthor_toJSON x = JObject
     (json_put ''pubKey'' (JString (sfa_pubKey x)) [])"

definition StoreFileMetaDestination_toJSON :: "StoreFileMetaDestination \<Rightarrow> json" where
  "StoreFileMetaDestination_toJSON x = JObject
     (json_put ''store'' (JString (sfdst_store x))
     (json_put ''storeId'' (JString (sfdst_storeId x))
     (json_put ''contextId'' (JString (sfdst_contextId x))
     (json_put ''server'' (JString (sfdst_server x)) []))))"

definition StoreMetaV1_toJSON :: "StoreMetaV1 \<Rightarrow> json" where
  "StoreMetaV1_toJSON x = JObject
     (json_put ''statusCode'' (JInt (sm1_statusCode x))
     (json_put ''hmac'' (JString (sm1_hmac x))
     (json_put ''key'' (JString (sm1_key x))
     (json_put ''chunkSize'' (JInt (sm1_chunkSize x))
     (json_put ''cipherType'' (JInt (sm1_cipherType x))
     (json_put ''size'' (JInt (sm1_size x))
     (json_put ''mimetype'' (JString (sm1_mimetype x)) [])))))))"

definition StoreFileMeta_toJSON :: "StoreFileMeta \<Rightarrow> json" where
  "StoreFileMeta_toJSON x = JObject
     (json_put_optional ''thumb'' (serialize_optional StoreMetaV1_toJSON (sfm_thumb x))
     (json_put ''destination'' (StoreFileMetaDestination_toJSON (sfm_destination x))
     (json_put ''author'' (StoreFileMetaAuthor_toJSON (sfm_author x))
     (json_put ''name'' (JString (sfm_name x))
     (json_put ''ver'' (JInt (sfm_ver x))
     (json_put ''statusCode'' (JInt (sfm_statusCode x))
     (json_put ''hmac'' (JString (sfm_hmac x))
     (json_put ''key'' (JString (sfm_key x))
     (json_put ''chunkSize'' (JInt (sfm_chunkSize x))
     (json_put ''cipherType'' (JInt (sfm_cipherType x))
     (json_put ''size'' (JInt (sfm_size x))
     (json_put ''mimetype'' (JString (sfm_mimetype x)) []))))))))))))"

definition EncryptedFileMetaV4_toJSON :: "EncryptedFileMetaV4 \<Rightarrow> json" where
  "EncryptedFileMetaV4_toJSON e = JObject
     (json_put ''authorPubKey'' (JString (fe4_authorPubKey e))
     (json_put_optional ''internalMeta'' (serialize_optional JString (fe4_internalMeta e))
     (json_put ''fileSize'' (JString (fe4_fileSize e))
     (json_put ''privateMeta'' (JString (fe4_privateMeta e))
     (json_put ''publicMetaObject'' (fe4_publicMetaObject e)
     (json_put ''publicMeta'' (JString (fe4_publicMeta e))
     (json_put ''version'' (JInt (fe4_version e)) [])))))))"

definition EncryptedFileMetaV4_fromJSON :: "poco_api \<Rightarrow> (string \<times> json) list \<Rightarrow> (exn, EncryptedFileMetaV4) result" where
  "EncryptedFileMetaV4_fromJSON p ob =
     bindR (VersionedData_fromJSON p ob) (\<lambda>version.
     bindR (deserialize_string (json_get ob ''publicMeta'')) (\<lambda>publicMeta.
     bindR (deserialize_string (json_get ob ''privateMeta'')) (\<lambda>privateMeta.
     bindR (deserialize_string (json_get ob ''fileSize'')) (\<lambda>fileSize.
     bindR (deserialize_optional deserialize_string (json_get ob ''internalMeta'')) (\<lambda>internalMeta.
     bindR (deserialize_string (json_get ob ''authorPubKey'')) (\<lambda>authorPubKey.
     Inr \<lparr>fe4_version = version, fe4_publicMeta = publicMeta, fe4_publicMetaObject = json_get ob ''publicMetaObject'',
       fe4_privateMeta = privateMeta, fe4_fileSize = fileSize, fe4_internalMeta = internalMeta,
       fe4_authorPubKey = authorPubKey\<rparr>))))))"

definition EncryptedFileMetaV5_toJSON :: "EncryptedFileMetaV5 \<Rightarrow> json" where
  "EncryptedFileMetaV5_toJSON e = JObject
     (json_put ''dio'' (JString (fe5_dio e))
     (json_put ''authorPubKey'' (JString (fe5_authorPubKey e))
     (json_put_optional ''internalMeta'' (serialize_optional JString (fe5_internalMeta e))
     (json_put ''privateMeta'' (JString (fe5_privateMeta e))
     (json_put ''publicMetaObject'' (fe5_publicMetaObject e)
     (json_put ''publicMeta'' (JString (fe5_publicMeta e))
     (json_put ''version'' (JInt (fe5_version e)) [])))))))"

definition EncryptedFileMetaV5_fromJSON :: "poco_api \<Rightarrow> (string \<times> json) list \<Rightarrow> (exn, EncryptedFileMetaV5) result" where
  "EncryptedFileMetaV5_fromJSON p ob =
     bindR (VersionedData_fromJSON p ob) (\<lambda>version.
     bindR (deserialize_string (json_get ob ''publicMeta'')) (\<lambda>publicMeta.
     bindR (deserialize_string (json_get ob ''privateMeta'')) (\<lambda>privateMeta.
     bindR (deserialize_optional deserialize_string (json_get ob ''internalMeta'')) (\<lambda>internalMeta.
     bindR (deserialize_string (json_get ob ''authorPubKey'')) (\<lambda>authorPubKey.
     bindR (deserialize_string (json_get ob ''dio'')) (\<lambda>dio.
     Inr \<lparr>fe5_version = version, fe5_publicMeta = publicMeta, fe5_publicMetaObject = json_get ob ''publicMetaObject'',
       fe5_privateMeta = privateMeta, fe5_internalMeta = internalMeta, fe5_authorPubKey = authorPubKey,
       fe5_dio = dio\<rparr>))))))"

definition InternalStoreFileMeta_toJSON :: "InternalStoreFileMeta \<Rightarrow> json" where
  "InternalStoreFileMeta_toJSON m = JObject
     (json_put_optional ''randomWrite'' (serialize_optional JBool (im_randomWrite m))
     (json_put ''hmac'' (JString (im_hmac m))
     (json_put ''key'' (JString (im_key m))
     (json_put ''chunkSize'' (JInt (im_chunkSize m))
     (json_put ''cipherType'' (JInt (im_cipherType m))
     (json_put ''size'' (JInt (im_size m))
     (json_put ''version'' (JInt (im_version m)) [])))))))"

definition InternalStoreFileMeta_fromJSON :: "poco_api \<Rightarrow> (string \<times> json) list \<Rightarrow> (exn, InternalStoreFileMeta) result" where
  "InternalStoreFileMeta_fromJSON p ob =
     bindR (deserialize_int64 p (json_get ob ''version'')) (\<lambda>version.
     bindR (deserialize_int64 p (json_get ob ''size'')) (\<lambda>size.
     bindR (deserialize_int64 p (json_get ob ''cipherType'')) (\<lambda>cipherType.
     bindR (deserialize_int64 p (json_get ob ''chunkSize'')) (\<lambda>chunkSize.
     bindR (deserialize_string (json_get ob ''key'')) (\<lambda>key.
     bindR (deserialize_string (json_get ob ''hmac'')) (\<lambda>hmac.
     bindR (deserialize_optional deserialize_bool (json_get ob ''randomWrite'')) (\<lambda>randomWrite.
     Inr \<lparr>im_version = version, im_size = size, im_cipherType = cipherType, im_chunkSize = chunkSize, im_key = key,
       im_hmac = hmac, im_randomWrite = randomWrite\<rparr>)))))))"

text \<open>A file in a notification comes with the type of its container, a changed one with the changes.\<close>

definition StoreFileEventData_fromJSON :: "poco_api \<Rightarrow> (string \<times> json) list \<Rightarrow> (exn, ServerFile \<times> string option) result" where
  "StoreFileEventData_fromJSON p ob =
     bindR (ServerFile_fromJSON p ob) (\<lambda>raw.
     bindR (deserialize_optional deserialize_string (json_get ob ''containerType'')) (\<lambda>containerType. Inr (raw, containerType)))"

definition StoreFileUpdatedEventData_fromJSON ::
    "poco_api \<Rightarrow> (string \<times> json) list \<Rightarrow> (exn, ServerFile \<times> string option \<times> StoreFileChange list option) result" where
  "StoreFileUpdatedEventData_fromJSON p ob =
     bindR (ServerFile_fromJSON p ob) (\<lambda>raw.
     bindR (deserialize_optional deserialize_string (json_get ob ''containerType'')) (\<lambda>containerType.
     bindR (deserialize_optional (deserializeArray (deserialize_struct (StoreFileChange_fromJSON p))) (json_get ob ''changes'')) (\<lambda>changes.
     Inr (raw, containerType, changes))))"

subsection \<open>Round trips\<close>

lemma EncryptedFileMetaV5_roundtrip:
  "EncryptedFileMetaV5_toJSON e = JObject ob \<Longrightarrow> EncryptedFileMetaV5_fromJSON p ob = Inr e"
  by (cases "fe5_internalMeta e"; cases e)
    (auto simp: EncryptedFileMetaV5_toJSON_def EncryptedFileMetaV5_fromJSON_def VersionedData_fromJSON_def deserialize_optional_def)

lemma EncryptedFileMetaV5_version:
  "EncryptedFileMetaV5_toJSON e = JObject ob \<Longrightarrow> VersionedData_fromJSON p ob = Inr (fe5_version e)"
  by (auto simp: EncryptedFileMetaV5_toJSON_def VersionedData_fromJSON_def)

lemma EncryptedFileMetaV4_roundtrip:
  "EncryptedFileMetaV4_toJSON e = JObject ob \<Longrightarrow> EncryptedFileMetaV4_fromJSON p ob = Inr e"
  by (cases "fe4_internalMeta e"; cases e)
    (auto simp: EncryptedFileMetaV4_toJSON_def EncryptedFileMetaV4_fromJSON_def VersionedData_fromJSON_def deserialize_optional_def)

lemma EncryptedFileMetaV4_version:
  "EncryptedFileMetaV4_toJSON e = JObject ob \<Longrightarrow> VersionedData_fromJSON p ob = Inr (fe4_version e)"
  by (auto simp: EncryptedFileMetaV4_toJSON_def VersionedData_fromJSON_def)

lemma InternalStoreFileMeta_roundtrip:
  "InternalStoreFileMeta_toJSON m = JObject ob \<Longrightarrow> InternalStoreFileMeta_fromJSON p ob = Inr m"
  by (cases "im_randomWrite m"; cases m)
    (auto simp: InternalStoreFileMeta_toJSON_def InternalStoreFileMeta_fromJSON_def deserialize_optional_def)

definition internal_meta_fits :: "InternalStoreFileMeta \<Rightarrow> bool" where
  "internal_meta_fits m \<longleftrightarrow> (\<forall>i \<in> {im_version m, im_size m, im_cipherType m, im_chunkSize m}. - (2 ^ 63) \<le> i \<and> i < 2 ^ 63)"

lemma wf_InternalStoreFileMeta: "internal_meta_fits m \<Longrightarrow> wf_json (InternalStoreFileMeta_toJSON m)"
  by (cases "im_randomWrite m") (auto simp: InternalStoreFileMeta_toJSON_def internal_meta_fits_def)

end
