(* ===== verification/Store_FileMeta.thy ===== *)
theory Store_FileMeta
  imports Store_Types
begin

text \<open>
  Encryptors of the meta data of files (\<open>endpoint/store/src/encryptors/file\<close>): versions 1, 4 and 5 and
  the class \<open>FileMetaEncryptor\<close> that chooses between them. What C++ leaves uninitialised is a parameter
  \<open>uninit\<close>. \<open>StdOutOfRange\<close> stands for every exception of the standard library; no handler tells them apart.
\<close>

subsection \<open>Version 1\<close>

text \<open>Layout and encryption are those of \<open>DataEncryptor\<close>.\<close>

definition FileMetaEncryptorV1_signAndEncrypt :: "'k core_env \<Rightarrow> StoreFileMeta \<Rightarrow> 'k \<Rightarrow> bytes \<Rightarrow> (exn, nat, string) op" where
  "FileMetaEncryptorV1_signAndEncrypt env data priv key =
     (let buffer = JSON_serialize (en_poco env) StoreFileMeta_toJSON data;
          signature = PrivateKey_signToCompactSignatureWithHash (en_crypto env) (en_ecc env) priv buffer;
          plain = [1] @ [of_nat (length signature)] @ signature @ buffer in
      bindS (privmxEncrypt (en_crypto env) privmxOptAesWithSignature plain key []) (\<lambda>cipher. ret (base64_from (en_poco env) cipher)))"

text \<open>A structure whose numbers were not initialised; texts and optionals are empty.\<close>

definition StoreFileMeta_uninit :: "int \<Rightarrow> StoreFileMeta" where
  "StoreFileMeta_uninit u =
     \<lparr>sfm_mimetype = [], sfm_size = u, sfm_cipherType = u, sfm_chunkSize = u, sfm_key = [], sfm_hmac = [], sfm_statusCode = u,
      sfm_ver = u, sfm_name = [], sfm_author = \<lparr>sfa_pubKey = []\<rparr>,
      sfm_destination = \<lparr>sfdst_server = [], sfdst_contextId = [], sfdst_storeId = [], sfdst_store = []\<rparr>, sfm_thumb = None\<rparr>"

definition parse_file_meta :: "'k core_env \<Rightarrow> bytes \<Rightarrow> (exn, StoreFileMeta) result" where
  "parse_file_meta env buf =
     bindR (poco_parse (en_poco env) buf) (deserialize_struct (StoreFileMeta_fromJSON (en_poco env)))"

definition FileMetaEncryptorV1_decrypt :: "'k core_env \<Rightarrow> int \<Rightarrow> string \<Rightarrow> bytes \<Rightarrow> (exn, FileMetaSigned) result" where
  "FileMetaEncryptorV1_decrypt env uninit data key =
     bindR (bindR (base64_to (en_poco env) data) (\<lambda>d. privmxDecrypt (en_crypto env) True d key [] 16)) (\<lambda>plain.
     if front plain = 1 then
       let sigLen = unat (front (drop 1 plain)) in
       bindR (substr StdOutOfRange plain 2 sigLen) (\<lambda>signature.
       bindR (substr1 StdOutOfRange plain (2 + sigLen)) (\<lambda>metaBuf.
       bindR (parse_file_meta env metaBuf) (\<lambda>meta.
       Inr \<lparr>fms_meta = meta, fms_metaBuf = metaBuf, fms_signature = signature\<rparr>)))
     else if front plain = 123 then
       bindR (parse_file_meta env plain) (\<lambda>meta. Inr \<lparr>fms_meta = meta, fms_metaBuf = [], fms_signature = []\<rparr>)
     else Inr \<lparr>fms_meta = StoreFileMeta_uninit uninit, fms_metaBuf = [], fms_signature = []\<rparr>)"

subsection \<open>Version 4\<close>

definition serializeNumber :: "int \<Rightarrow> bytes" where
  "serializeNumber number = bytes_of (to_string number)"

text \<open>\<open>std::stoll\<close>: blanks, a sign and digits; what follows is ignored.\<close>

definition is_space :: "char \<Rightarrow> bool" where
  "is_space c \<longleftrightarrow> (of_char c :: nat) \<in> {9, 10, 11, 12, 13, 32}"

definition stoll :: "string \<Rightarrow> (exn, int) result" where
  "stoll s =
     (let t = dropWhile is_space s;
          ds = takeWhile is_digit (case t of c # r \<Rightarrow> if c = CHR ''-'' \<or> c = CHR ''+'' then r else t | [] \<Rightarrow> []);
          n = (if t \<noteq> [] \<and> hd t = CHR ''-'' then - int (number_of ds) else int (number_of ds))
      in if ds = [] \<or> n < - (2 ^ 63) \<or> n \<ge> 2 ^ 63 then Inl StdOutOfRange else Inr n)"

definition deserializeNumber :: "bytes \<Rightarrow> (exn, int) result" where
  "deserializeNumber buffer = stoll (text_of buffer)"

definition FileMetaEncryptorV4_encrypt ::
    "'k core_env \<Rightarrow> FileMetaToEncryptV4 \<Rightarrow> 'k \<Rightarrow> bytes \<Rightarrow> (exn, nat, EncryptedFileMetaV4) op" where
  "FileMetaEncryptorV4_encrypt env x authorPrivateKey encryptionKey =
     bindS (DataEncryptorV4_signAndEncryptAndEncode env (ft4_privateMeta x) authorPrivateKey encryptionKey) (\<lambda>privateMeta.
     bindS (DataEncryptorV4_signAndEncryptAndEncode env (serializeNumber (ft4_fileSize x)) authorPrivateKey encryptionKey) (\<lambda>fileSize.
     bindS (DataEncryptorV4_signAndEncryptAndEncode env (ft4_internalMeta x) authorPrivateKey encryptionKey) (\<lambda>internalMeta.
     ret \<lparr>fe4_version = 4, fe4_publicMeta = DataEncryptorV4_signAndEncode env (ft4_publicMeta x) authorPrivateKey,
       fe4_publicMetaObject = public_object env (ft4_publicMeta x), fe4_privateMeta = privateMeta, fe4_fileSize = fileSize,
       fe4_internalMeta = Some internalMeta,
       fe4_authorPubKey = PublicKey_toBase58DER (en_crypto env) (en_ecc env) authorPrivateKey\<rparr>)))"

definition FileMetaEncryptorV4_validateVersion :: "EncryptedFileMetaV4 \<Rightarrow> (exn, unit) result" where
  "FileMetaEncryptorV4_validateVersion e =
     (if fe4_version e \<noteq> 4 then Inl (StoreExn InvalidEncryptedStoreFileMetaVersionException) else Inr ())"

definition DecryptedFileMetaV4_new :: "int \<Rightarrow> DecryptedFileMetaV4" where
  "DecryptedFileMetaV4_new uninit =
     \<lparr>fd4_dataStructureVersion = 4, fd4_statusCode = 0, fd4_publicMeta = [], fd4_privateMeta = [], fd4_fileSize = uninit,
      fd4_internalMeta = [], fd4_authorPubKey = []\<rparr>"

definition optional_value :: "'a option \<Rightarrow> (exn, 'a) result" where
  "optional_value v = (case v of Some x \<Rightarrow> Inr x | None \<Rightarrow> Inl StdOutOfRange)"

definition decrypt_file_meta_v4 :: "'k core_env \<Rightarrow> EncryptedFileMetaV4 \<Rightarrow> bytes \<Rightarrow> (exn, DecryptedFileMetaV4, unit) op" where
  "decrypt_file_meta_v4 env e encryptionKey =
     bindS (liftR (FileMetaEncryptorV4_validateVersion e)) (\<lambda>_.
     bindS (liftR (PublicKey_fromBase58DER (en_crypto env) (en_ecc env) (fe4_authorPubKey e))) (\<lambda>author.
     bindS (liftR (DataEncryptorV4_decodeAndVerify env (fe4_publicMeta e) author)) (\<lambda>publicMeta.
     bindS (modify (\<lambda>r. r\<lparr>fd4_publicMeta := publicMeta\<rparr>)) (\<lambda>_.
     bindS (if fe4_publicMetaObject e \<noteq> JEmpty then
              bindS (liftR (compare_public env publicMeta (fe4_publicMetaObject e))) (\<lambda>same.
                if same then ret () else modify (\<lambda>r. r\<lparr>fd4_statusCode := status_of (StoreExn FilePublicDataMismatchException)\<rparr>))
            else ret ()) (\<lambda>_.
     bindS (liftR (DataEncryptorV4_decodeAndDecryptAndVerify env (fe4_privateMeta e) author encryptionKey)) (\<lambda>privateMeta.
     bindS (modify (\<lambda>r. r\<lparr>fd4_privateMeta := privateMeta\<rparr>)) (\<lambda>_.
     bindS (liftR (bindR (DataEncryptorV4_decodeAndDecryptAndVerify env (fe4_fileSize e) author encryptionKey) deserializeNumber)) (\<lambda>fileSize.
     bindS (modify (\<lambda>r. r\<lparr>fd4_fileSize := fileSize\<rparr>)) (\<lambda>_.
     bindS (liftR (bindR (optional_value (fe4_internalMeta e)) (\<lambda>t.
       DataEncryptorV4_decodeAndDecryptAndVerify env t author encryptionKey))) (\<lambda>internalMeta.
     modify (\<lambda>r. r\<lparr>fd4_internalMeta := internalMeta, fd4_authorPubKey := fe4_authorPubKey e\<rparr>)))))))))))"

definition FileMetaEncryptorV4_decrypt :: "'k core_env \<Rightarrow> int \<Rightarrow> EncryptedFileMetaV4 \<Rightarrow> bytes \<Rightarrow> DecryptedFileMetaV4" where
  "FileMetaEncryptorV4_decrypt env uninit e encryptionKey =
     (case decrypt_file_meta_v4 env e encryptionKey (DecryptedFileMetaV4_new uninit) of
        (Inr _, r) \<Rightarrow> r | (Inl x, r) \<Rightarrow> r\<lparr>fd4_statusCode := status_of x\<rparr>)"

subsection \<open>Version 5\<close>

definition file_meta_checksums :: "'k core_env \<Rightarrow> string \<Rightarrow> string \<Rightarrow> string \<Rightarrow> (string \<times> bytes) list" where
  "file_meta_checksums env publicMeta privateMeta internalMeta =
     (let sha = (\<lambda>t. sha256 (en_crypto env) (bytes_of t)) in
      alist_set ''internalMeta'' (sha internalMeta) (alist_set ''privateMeta'' (sha privateMeta)
        (alist_set ''publicMeta'' (sha publicMeta) [])))"

definition FileMetaEncryptorV5_encrypt ::
    "'k core_env \<Rightarrow> FileMetaToEncryptV5 \<Rightarrow> 'k \<Rightarrow> bytes \<Rightarrow> (exn, nat, EncryptedFileMetaV5) op" where
  "FileMetaEncryptorV5_encrypt env x authorPrivateKey encryptionKey =
     (let publicMeta = DataEncryptorV4_signAndEncode env (ft5_publicMeta x) authorPrivateKey in
      bindS (DataEncryptorV4_signAndEncryptAndEncode env (ft5_privateMeta x) authorPrivateKey encryptionKey) (\<lambda>privateMeta.
      bindS (DataEncryptorV4_signAndEncryptAndEncode env (ft5_internalMeta x) authorPrivateKey encryptionKey) (\<lambda>internalMeta.
      bindS (liftR (DIOEncryptorV1_signAndEncode env
        (expanded_dio (ft5_dio x) 5 (file_meta_checksums env publicMeta privateMeta internalMeta)) authorPrivateKey)) (\<lambda>dio.
      ret \<lparr>fe5_version = 5, fe5_publicMeta = publicMeta, fe5_publicMetaObject = public_object env (ft5_publicMeta x),
        fe5_privateMeta = privateMeta, fe5_internalMeta = Some internalMeta,
        fe5_authorPubKey = PublicKey_toBase58DER (en_crypto env) (en_ecc env) authorPrivateKey, fe5_dio = dio\<rparr>))))"

definition FileMetaEncryptorV5_assertDataFormat :: "EncryptedFileMetaV5 \<Rightarrow> (exn, unit) result" where
  "FileMetaEncryptorV5_assertDataFormat e =
     (if fe5_version e \<noteq> 5 \<or> fe5_publicMeta e = [] \<or> fe5_privateMeta e = [] \<or> fe5_authorPubKey e = [] \<or>
         fe5_internalMeta e = None
      then Inl (StoreExn InvalidEncryptedStoreFileMetaVersionException) else Inr ())"

definition FileMetaEncryptorV5_getDIOAndAssertIntegrity ::
    "'k core_env \<Rightarrow> EncryptedFileMetaV5 \<Rightarrow> (exn, DataIntegrityObject) result" where
  "FileMetaEncryptorV5_getDIOAndAssertIntegrity env e =
     (let sha = (\<lambda>t. sha256 (en_crypto env) (bytes_of t)); bad = Inl (CoreExn InvalidDataIntegrityObjectChecksumException) in
      bindR (FileMetaEncryptorV5_assertDataFormat e) (\<lambda>_.
      bindR (DIOEncryptorV1_decodeAndVerify env (fe5_dio e)) (\<lambda>dio.
      if dio_structureVersion dio \<noteq> 5 \<or> dio_creatorPubKey dio \<noteq> fe5_authorPubKey e then bad else
      bindR (unordered_map_at (dio_fieldChecksums dio) ''publicMeta'') (\<lambda>s. if s \<noteq> sha (fe5_publicMeta e) then bad else
      bindR (unordered_map_at (dio_fieldChecksums dio) ''privateMeta'') (\<lambda>s. if s \<noteq> sha (fe5_privateMeta e) then bad else
      bindR (unordered_map_at (dio_fieldChecksums dio) ''internalMeta'') (\<lambda>s.
      bindR (optional_value (fe5_internalMeta e)) (\<lambda>t. if s \<noteq> sha t then bad else
      Inr (DataIntegrityObject.truncate dio))))))))"

definition DecryptedFileMetaV5_new :: DecryptedFileMetaV5 where
  "DecryptedFileMetaV5_new =
     \<lparr>fd5_dataStructureVersion = 5, fd5_statusCode = 0, fd5_publicMeta = [], fd5_privateMeta = [], fd5_internalMeta = [],
      fd5_authorPubKey = [], fd5_dio = DataIntegrityObject.truncate empty_dio\<rparr>"

text \<open>
  The common first part of \<open>decrypt\<close> and \<open>extractPublic\<close>; they differ in when the public object is
  compared: \<open>decrypt\<close> when there is one, \<open>extractPublic\<close> when there is none.
\<close>

definition read_file_public :: "'k core_env \<Rightarrow> (json \<Rightarrow> bool) \<Rightarrow> EncryptedFileMetaV5 \<Rightarrow> (exn, DecryptedFileMetaV5, 'k) op" where
  "read_file_public env compared e =
     bindS (liftR (FileMetaEncryptorV5_getDIOAndAssertIntegrity env e)) (\<lambda>dio.
     bindS (modify (\<lambda>r. r\<lparr>fd5_dio := dio\<rparr>)) (\<lambda>_.
     bindS (liftR (PublicKey_fromBase58DER (en_crypto env) (en_ecc env) (fe5_authorPubKey e))) (\<lambda>author.
     bindS (liftR (DataEncryptorV4_decodeAndVerify env (fe5_publicMeta e) author)) (\<lambda>publicMeta.
     bindS (modify (\<lambda>r. r\<lparr>fd5_publicMeta := publicMeta\<rparr>)) (\<lambda>_.
     bindS (if compared (fe5_publicMetaObject e) then
              bindS (liftR (compare_public env publicMeta (fe5_publicMetaObject e))) (\<lambda>same.
                if same then ret () else modify (\<lambda>r. r\<lparr>fd5_statusCode := status_of (StoreExn FilePublicDataMismatchException)\<rparr>))
            else ret ()) (\<lambda>_. ret author))))))"

definition catch_file_status :: "(exn, DecryptedFileMetaV5, unit) op \<Rightarrow> DecryptedFileMetaV5" where
  "catch_file_status m =
     (case m DecryptedFileMetaV5_new of (Inr _, r) \<Rightarrow> r | (Inl e, r) \<Rightarrow> r\<lparr>fd5_statusCode := status_of e\<rparr>)"

definition FileMetaEncryptorV5_decrypt :: "'k core_env \<Rightarrow> EncryptedFileMetaV5 \<Rightarrow> bytes \<Rightarrow> DecryptedFileMetaV5" where
  "FileMetaEncryptorV5_decrypt env e encryptionKey = catch_file_status
     (bindS (read_file_public env (\<lambda>ob. ob \<noteq> JEmpty) e) (\<lambda>author.
      bindS (liftR (DataEncryptorV4_decodeAndDecryptAndVerify env (fe5_privateMeta e) author encryptionKey)) (\<lambda>privateMeta.
      bindS (modify (\<lambda>r. r\<lparr>fd5_privateMeta := privateMeta\<rparr>)) (\<lambda>_.
      bindS (liftR (bindR (optional_value (fe5_internalMeta e)) (\<lambda>t.
        DataEncryptorV4_decodeAndDecryptAndVerify env t author encryptionKey))) (\<lambda>internalMeta.
      modify (\<lambda>r. r\<lparr>fd5_internalMeta := internalMeta, fd5_authorPubKey := fe5_authorPubKey e\<rparr>))))))"

definition FileMetaEncryptorV5_extractPublic :: "'k core_env \<Rightarrow> EncryptedFileMetaV5 \<Rightarrow> DecryptedFileMetaV5" where
  "FileMetaEncryptorV5_extractPublic env e = catch_file_status
     (bindS (read_file_public env (\<lambda>ob. ob = JEmpty) e) (\<lambda>author. modify (\<lambda>r. r\<lparr>fd5_authorPubKey := fe5_authorPubKey e\<rparr>)))"

subsection \<open>All versions\<close>

datatype DecryptedFileMeta =
    MetaUnknown
  | MetaV1 FileMetaSigned
  | MetaV4 DecryptedFileMetaV4
  | MetaV5 DecryptedFileMetaV5

definition FileMetaEncryptor_getFileDataStructureVersion :: "'k core_env \<Rightarrow> json \<Rightarrow> (exn, int) result" where
  "FileMetaEncryptor_getFileDataStructureVersion env encryptedFileMeta =
     (case encryptedFileMeta of
        JObject ob \<Rightarrow> bindR (VersionedData_fromJSON (en_poco env) ob) (\<lambda>version.
          Inr (if version = 4 then 4 else if version = 5 then 5 else 0))
      | JString s \<Rightarrow> Inr 1
      | _ \<Rightarrow> Inr 0)"

definition internal_meta_text :: "'k core_env \<Rightarrow> InternalStoreFileMeta \<Rightarrow> bytes" where
  "internal_meta_text env m = Utils_stringify (en_poco env) (InternalStoreFileMeta_toJSON m)"

definition FileMetaEncryptor_createDIO :: "'k connection \<Rightarrow> FileInfo \<Rightarrow> (exn, nat, DataIntegrityObject) op" where
  "FileMetaEncryptor_createDIO c fileInfo =
     ConnectionImpl_createDIO c (fi_contextId fileInfo) (fi_resourceId fileInfo) (Some (fi_storeId fileInfo))
       (Some (fi_storeResourceId fileInfo))"

definition FileMetaEncryptor_encrypt ::
    "'k connection \<Rightarrow> FileInfo \<Rightarrow> FileMeta \<Rightarrow> DecryptedEncKey \<Rightarrow> int \<Rightarrow> (exn, nat, json) op" where
  "FileMetaEncryptor_encrypt c fileInfo fileMeta encKey keyVersion =
     (let env = cn_env c; internalMeta = internal_meta_text env (fm_internalFileMeta fileMeta) in
      if keyVersion = 1 then
        bindS (FileMetaEncryptorV4_encrypt env
          \<lparr>ft4_publicMeta = fm_publicMeta fileMeta, ft4_privateMeta = fm_privateMeta fileMeta,
           ft4_fileSize = im_size (fm_internalFileMeta fileMeta), ft4_internalMeta = internalMeta\<rparr>
          (cn_userPrivKey c) (dk_key encKey)) (\<lambda>e. ret (EncryptedFileMetaV4_toJSON e))
      else if keyVersion = 2 then
        bindS (FileMetaEncryptor_createDIO c fileInfo) (\<lambda>dio.
        bindS (FileMetaEncryptorV5_encrypt env
          \<lparr>ft5_publicMeta = fm_publicMeta fileMeta, ft5_privateMeta = fm_privateMeta fileMeta, ft5_internalMeta = internalMeta,
           ft5_dio = dio\<rparr> (cn_userPrivKey c) (dk_key encKey)) (\<lambda>e. ret (EncryptedFileMetaV5_toJSON e)))
      else throw (CoreExn UnknownEncryptionKeyVersionException))"

text \<open>A dynamic value where a text is expected is converted by POCO.\<close>

definition json_to_string :: "'k connection \<Rightarrow> json \<Rightarrow> (exn, string) result" where
  "json_to_string c j = (case j of JString s \<Rightarrow> Inr s | _ \<Rightarrow> cn_str c j)"

definition FileMetaEncryptor_decrypt :: "'k connection \<Rightarrow> int \<Rightarrow> json \<Rightarrow> bytes \<Rightarrow> (exn, DecryptedFileMeta) result" where
  "FileMetaEncryptor_decrypt c uninit encryptedFileMeta key =
     (let env = cn_env c; p = en_poco env in
      bindR (FileMetaEncryptor_getFileDataStructureVersion env encryptedFileMeta) (\<lambda>version.
      if version = 1 then
        bindR (json_to_string c encryptedFileMeta) (\<lambda>t.
        bindR (FileMetaEncryptorV1_decrypt env uninit t key) (\<lambda>m. Inr (MetaV1 m)))
      else if version = 4 then
        bindR (deserialize_struct (EncryptedFileMetaV4_fromJSON p) encryptedFileMeta) (\<lambda>e.
        Inr (MetaV4 (FileMetaEncryptorV4_decrypt env uninit e key)))
      else if version = 5 then
        bindR (deserialize_struct (EncryptedFileMetaV5_fromJSON p) encryptedFileMeta) (\<lambda>e.
        Inr (MetaV5 (FileMetaEncryptorV5_decrypt env e key)))
      else Inr MetaUnknown))"

text \<open>Versions 1 and 4 have no public part: they are decrypted with an empty key.\<close>

definition FileMetaEncryptor_extractPublic :: "'k connection \<Rightarrow> int \<Rightarrow> json \<Rightarrow> (exn, DecryptedFileMeta) result" where
  "FileMetaEncryptor_extractPublic c uninit encryptedFileMeta =
     bindR (FileMetaEncryptor_getFileDataStructureVersion (cn_env c) encryptedFileMeta) (\<lambda>version.
     if version = 5 then
       bindR (deserialize_struct (EncryptedFileMetaV5_fromJSON (en_poco (cn_env c))) encryptedFileMeta) (\<lambda>e.
       Inr (MetaV5 (FileMetaEncryptorV5_extractPublic (cn_env c) e)))
     else FileMetaEncryptor_decrypt c uninit encryptedFileMeta [])"

subsection \<open>Round trip of version 5\<close>

lemma file_meta_checksums_sel [simp]:
  "map_of (file_meta_checksums env pm sm im) ''publicMeta'' = Some (sha256 (en_crypto env) (bytes_of pm))"
  "map_of (file_meta_checksums env pm sm im) ''privateMeta'' = Some (sha256 (en_crypto env) (bytes_of sm))"
  "map_of (file_meta_checksums env pm sm im) ''internalMeta'' = Some (sha256 (en_crypto env) (bytes_of im))"
  "ordered (file_meta_checksums env pm sm im)"
  by (simp_all add: file_meta_checksums_def Let_def ordered_Cons)

lemma file_meta_integrity:
  assumes "core_env_ok env" and "dio_valid env k d" and "pm \<noteq> []" and "sm \<noteq> []"
  obtains t where "DIOEncryptorV1_signAndEncode env (expanded_dio d 5 (file_meta_checksums env pm sm im)) k = Inr t"
    and "\<And>ob. FileMetaEncryptorV5_getDIOAndAssertIntegrity env
      \<lparr>fe5_version = 5, fe5_publicMeta = pm, fe5_publicMetaObject = ob, fe5_privateMeta = sm, fe5_internalMeta = Some im,
       fe5_authorPubKey = PublicKey_toBase58DER (en_crypto env) (en_ecc env) k, fe5_dio = t\<rparr> =
      Inr (d\<lparr>dio_bridgeIdentity := Some (case dio_bridgeIdentity d of Some b \<Rightarrow> b | None \<Rightarrow> en_uninit env)\<rparr>)"
proof -
  let ?sums = "file_meta_checksums env pm sm im"
  have wf: "dio_wf (expanded_dio d 5 ?sums)" by (rule dio_wf_expanded [OF assms(2)]) simp_all
  have pk: "dio_creatorPubKey (expanded_dio d 5 ?sums) = PublicKey_toBase58DER (en_crypto env) (en_ecc env) k"
    using assms(2) by (simp add: dio_valid_def)
  obtain t where t: "DIOEncryptorV1_signAndEncode env (expanded_dio d 5 ?sums) k = Inr t" "t \<noteq> []"
      "DIOEncryptorV1_decodeAndVerify env t = Inr (read_back env (expanded_dio d 5 ?sums))"
    using DIO_roundtrip [OF assms(1) wf pk] unfolding read_back_def by blast
  show thesis
    using assms(3-4) t(2) pk
    by (intro that [OF t(1)])
      (simp_all add: FileMetaEncryptorV5_getDIOAndAssertIntegrity_def FileMetaEncryptorV5_assertDataFormat_def optional_value_def
          PublicKey_toBase58DER_def encodeWithChecksum_nonempty t(3) unordered_map_at_def truncate_read_back)
qed

lemma FileMetaEncryptorV5_inverse:
  assumes "core_env_ok env" and "dio_valid env k (ft5_dio data)" and "length key = 32"
  obtains e draws' where "FileMetaEncryptorV5_encrypt env data k key draws = (Inr e, draws')" and "fe5_version e = 5"
    and "FileMetaEncryptorV5_getDIOAndAssertIntegrity env e = Inr ((ft5_dio data)\<lparr>dio_bridgeIdentity :=
       Some (case dio_bridgeIdentity (ft5_dio data) of Some b \<Rightarrow> b | None \<Rightarrow> en_uninit env)\<rparr>)"
    and "FileMetaEncryptorV5_decrypt env e key =
      \<lparr>fd5_dataStructureVersion = 5, fd5_statusCode = 0, fd5_publicMeta = ft5_publicMeta data,
       fd5_privateMeta = ft5_privateMeta data, fd5_internalMeta = ft5_internalMeta data,
       fd5_authorPubKey = PublicKey_toBase58DER (en_crypto env) (en_ecc env) k,
       fd5_dio = (ft5_dio data)\<lparr>dio_bridgeIdentity :=
         Some (case dio_bridgeIdentity (ft5_dio data) of Some b \<Rightarrow> b | None \<Rightarrow> en_uninit env)\<rparr>\<rparr>"
proof -
  obtain p where p: "PublicKey_fromBase58DER (en_crypto env) (en_ecc env)
      (PublicKey_toBase58DER (en_crypto env) (en_ecc env) k) = Inr p" "same_key env p k"
    using PublicKey_base58_roundtrip [OF assms(1)] by blast
  let ?pm = "DataEncryptorV4_signAndEncode env (ft5_publicMeta data) k"
  obtain sm where sm: "DataEncryptorV4_signAndEncryptAndEncode env (ft5_privateMeta data) k key draws = (Inr sm, draws + 1)"
      "DataEncryptorV4_decodeAndDecryptAndVerify env sm p key = Inr (ft5_privateMeta data)" "sm \<noteq> []"
    by (rule encrypted_roundtrip [OF assms(1) p(2) assms(3)])
  obtain im where im: "DataEncryptorV4_signAndEncryptAndEncode env (ft5_internalMeta data) k key (draws + 1) = (Inr im, draws + 1 + 1)"
      "DataEncryptorV4_decodeAndDecryptAndVerify env im p key = Inr (ft5_internalMeta data)" "im \<noteq> []"
    by (rule encrypted_roundtrip [OF assms(1) p(2) assms(3)])
  let ?dio = "(ft5_dio data)\<lparr>dio_bridgeIdentity := Some (case dio_bridgeIdentity (ft5_dio data) of Some b \<Rightarrow> b | None \<Rightarrow> en_uninit env)\<rparr>"
  obtain t where t: "DIOEncryptorV1_signAndEncode env (expanded_dio (ft5_dio data) 5 (file_meta_checksums env ?pm sm im)) k = Inr t"
    and int: "\<And>ob. FileMetaEncryptorV5_getDIOAndAssertIntegrity env
      \<lparr>fe5_version = 5, fe5_publicMeta = ?pm, fe5_publicMetaObject = ob, fe5_privateMeta = sm, fe5_internalMeta = Some im,
       fe5_authorPubKey = PublicKey_toBase58DER (en_crypto env) (en_ecc env) k, fe5_dio = t\<rparr> = Inr ?dio"
    by (rule file_meta_integrity [OF assms(1,2) signAndEncode_nonempty [OF assms(1), of "ft5_publicMeta data" k] sm(3)]) blast
  let ?e = "\<lparr>fe5_version = 5, fe5_publicMeta = ?pm, fe5_publicMetaObject = public_object env (ft5_publicMeta data),
     fe5_privateMeta = sm, fe5_internalMeta = Some im,
     fe5_authorPubKey = PublicKey_toBase58DER (en_crypto env) (en_ecc env) k, fe5_dio = t\<rparr>"
  have enc: "FileMetaEncryptorV5_encrypt env data k key draws = (Inr ?e, draws + 1 + 1)"
    unfolding FileMetaEncryptorV5_encrypt_def Let_def
    by (rule bindS_step, rule sm(1), rule bindS_step, rule im(1), unfold t) (simp add: bindS_liftR)
  have pub: "DataEncryptorV4_decodeAndVerify env ?pm p = Inr (ft5_publicMeta data)"
    by (rule decodeAndVerify_signed [OF assms(1) p(2)])
  have read: "read_file_public env (\<lambda>ob. ob \<noteq> JEmpty) ?e r = (Inr p, r\<lparr>fd5_dio := ?dio, fd5_publicMeta := ft5_publicMeta data\<rparr>)" for r
    unfolding read_file_public_def using p(1) pub compare_public_object [of env "ft5_publicMeta data"]
    by (simp add: bindS_def int)
  show thesis
    by (rule that [OF enc _ int], simp, unfold FileMetaEncryptorV5_decrypt_def catch_file_status_def)
      (simp add: bindS_def read sm(2) im(2) optional_value_def DecryptedFileMetaV5_new_def)
qed

subsection \<open>Authenticity of version 5\<close>

text \<open>What the checksums and the signature of the integrity object say of the meta data of a file.\<close>

definition file_integrity_ok :: "'k core_env \<Rightarrow> EncryptedFileMetaV5 \<Rightarrow> DataIntegrityObject \<Rightarrow> bool" where
  "file_integrity_ok env e d \<longleftrightarrow> (\<exists>dio t. DIOEncryptorV1_decodeAndVerify env (fe5_dio e) = Inr dio \<and>
     d = DataIntegrityObject.truncate dio \<and> dio_creatorPubKey dio = fe5_authorPubKey e \<and> fe5_internalMeta e = Some t \<and>
     map_of (dio_fieldChecksums dio) ''publicMeta'' = Some (sha256 (en_crypto env) (bytes_of (fe5_publicMeta e))) \<and>
     map_of (dio_fieldChecksums dio) ''privateMeta'' = Some (sha256 (en_crypto env) (bytes_of (fe5_privateMeta e))) \<and>
     map_of (dio_fieldChecksums dio) ''internalMeta'' = Some (sha256 (en_crypto env) (bytes_of t)))"

lemma file_getDIO_integrity:
  "FileMetaEncryptorV5_getDIOAndAssertIntegrity env e = Inr d \<Longrightarrow> file_integrity_ok env e d"
  by (auto simp: FileMetaEncryptorV5_getDIOAndAssertIntegrity_def file_integrity_ok_def bindR_eq_Inr Let_def
      unordered_map_at_def optional_value_def split: if_splits option.splits)

text \<open>Where the values of a result without error come from.\<close>

definition file_meta_authentic :: "'k core_env \<Rightarrow> EncryptedFileMetaV5 \<Rightarrow> bytes \<Rightarrow> DecryptedFileMetaV5 \<Rightarrow> bool" where
  "file_meta_authentic env e key r \<longleftrightarrow>
     file_integrity_ok env e (fd5_dio r) \<and> fd5_authorPubKey r = fe5_authorPubKey e \<and>
     (\<exists>a t. PublicKey_fromBase58DER (en_crypto env) (en_ecc env) (fe5_authorPubKey e) = Inr a \<and> fe5_internalMeta e = Some t \<and>
        DataEncryptorV4_decodeAndVerify env (fe5_publicMeta e) a = Inr (fd5_publicMeta r) \<and>
        DataEncryptorV4_decodeAndDecryptAndVerify env (fe5_privateMeta e) a key = Inr (fd5_privateMeta r) \<and>
        DataEncryptorV4_decodeAndDecryptAndVerify env t a key = Inr (fd5_internalMeta r)) \<and>
     (fe5_publicMetaObject e \<noteq> JEmpty \<longrightarrow> compare_public env (fd5_publicMeta r) (fe5_publicMetaObject e) = Inr True)"

lemma file_meta_decrypt_authentic:
  assumes "fd5_statusCode (FileMetaEncryptorV5_decrypt env e key) = 0"
  shows "file_meta_authentic env e key (FileMetaEncryptorV5_decrypt env e key) \<and>
    FileMetaEncryptorV5_getDIOAndAssertIntegrity env e = Inr (fd5_dio (FileMetaEncryptorV5_decrypt env e key))"
proof -
  let ?m = "bindS (read_file_public env (\<lambda>ob. ob \<noteq> JEmpty) e) (\<lambda>author.
      bindS (liftR (DataEncryptorV4_decodeAndDecryptAndVerify env (fe5_privateMeta e) author key)) (\<lambda>privateMeta.
      bindS (modify (\<lambda>r. r\<lparr>fd5_privateMeta := privateMeta\<rparr>)) (\<lambda>_.
      bindS (liftR (bindR (optional_value (fe5_internalMeta e)) (\<lambda>t.
        DataEncryptorV4_decodeAndDecryptAndVerify env t author key))) (\<lambda>internalMeta.
      modify (\<lambda>r. r\<lparr>fd5_internalMeta := internalMeta, fd5_authorPubKey := fe5_authorPubKey e\<rparr>)))))"
  obtain y r where m: "?m DecryptedFileMetaV5_new = (y, r)" by fastforce
  have y: "y = Inr ()"
    using assms m by (cases y) (auto simp: FileMetaEncryptorV5_decrypt_def catch_file_status_def)
  have res: "FileMetaEncryptorV5_decrypt env e key = r"
    by (simp add: FileMetaEncryptorV5_decrypt_def catch_file_status_def m y)
  then have "fd5_statusCode r = 0" using assms by simp
  with m y show ?thesis
    unfolding res file_meta_authentic_def
    by (auto simp: bindS_eq_Inr bindR_eq_Inr read_file_public_def DecryptedFileMetaV5_new_def optional_value_def
        dest: file_getDIO_integrity split: if_splits option.splits)
qed

subsection \<open>Round trip of version 4\<close>

lemma number_of_snoc: "number_of (s @ [c]) = 10 * number_of s + (of_char c - 48)"
  by (simp add: number_of_def)

lemma decimal_digits: "number_of (decimal n) = n \<and> list_all is_digit (decimal n) \<and> decimal n \<noteq> []"
proof (induction n rule: decimal.induct)
  case (1 n)
  have d: "is_digit (char_of (48 + k))" "of_char (char_of (48 + k)) - 48 = k" if "k < 10" for k :: nat
    using that by (simp_all add: is_digit_def)
  show ?case
  proof (cases "n < 10")
    case True
    then show ?thesis by (subst (1 2 3) decimal.simps) (simp add: d number_of_def)
  next
    case False
    then show ?thesis using 1 d [of "n mod 10"] by (subst (1 2 3) decimal.simps) (simp add: number_of_snoc)
  qed
qed

lemma digit_first: "is_digit c \<Longrightarrow> \<not> is_space c \<and> c \<noteq> CHR ''-'' \<and> c \<noteq> CHR ''+''"
  by (auto simp: is_digit_def is_space_def)

lemma stoll_to_string: "- (2 ^ 63) \<le> i \<Longrightarrow> i < 2 ^ 63 \<Longrightarrow> stoll (to_string i) = Inr i"
proof -
  assume i: "- (2 ^ 63) \<le> i" "i < 2 ^ 63"
  let ?d = "decimal (nat \<bar>i\<bar>)"
  note d = decimal_digits [of "nat \<bar>i\<bar>"]
  obtain c r where cr: "?d = c # r" using d by (cases ?d) auto
  then have c: "is_digit c" "\<not> is_space c" "c \<noteq> CHR ''-''" "c \<noteq> CHR ''+''" using d digit_first [of c] by auto
  have tw: "takeWhile is_digit ?d = ?d" using d by (simp add: list_all_iff)
  show ?thesis
  proof (cases "i < 0")
    case True
    have "\<not> is_space CHR ''-''" by (simp add: is_space_def)
    then show ?thesis using True i d tw by (simp add: stoll_def to_string_def Let_def del: takeWhile_eq_all_conv)
  next
    case False
    then have t: "to_string i = c # r" using cr by (simp add: to_string_def)
    have "takeWhile is_digit (c # r) = c # r" "number_of (c # r) = nat i" using tw d False unfolding cr by simp_all
    then show ?thesis using False i c by (simp add: stoll_def t Let_def del: takeWhile_eq_all_conv takeWhile.simps)
  qed
qed

lemma FileMetaEncryptorV4_inverse:
  assumes "core_env_ok env" and "length key = 32" and "- (2 ^ 63) \<le> ft4_fileSize data" and "ft4_fileSize data < 2 ^ 63"
  obtains e draws' where "FileMetaEncryptorV4_encrypt env data k key draws = (Inr e, draws')" and "fe4_version e = 4"
    and "FileMetaEncryptorV4_decrypt env u e key =
      \<lparr>fd4_dataStructureVersion = 4, fd4_statusCode = 0, fd4_publicMeta = ft4_publicMeta data,
       fd4_privateMeta = ft4_privateMeta data, fd4_fileSize = ft4_fileSize data, fd4_internalMeta = ft4_internalMeta data,
       fd4_authorPubKey = PublicKey_toBase58DER (en_crypto env) (en_ecc env) k\<rparr>"
proof -
  obtain p where p: "PublicKey_fromBase58DER (en_crypto env) (en_ecc env)
      (PublicKey_toBase58DER (en_crypto env) (en_ecc env) k) = Inr p" "same_key env p k"
    using PublicKey_base58_roundtrip [OF assms(1)] by blast
  let ?pm = "DataEncryptorV4_signAndEncode env (ft4_publicMeta data) k"
  obtain sm where sm: "DataEncryptorV4_signAndEncryptAndEncode env (ft4_privateMeta data) k key draws = (Inr sm, draws + 1)"
      "DataEncryptorV4_decodeAndDecryptAndVerify env sm p key = Inr (ft4_privateMeta data)"
    by (rule encrypted_roundtrip [OF assms(1) p(2) assms(2)])
  obtain fs where fs: "DataEncryptorV4_signAndEncryptAndEncode env (serializeNumber (ft4_fileSize data)) k key (draws + 1) = (Inr fs, draws + 1 + 1)"
      "DataEncryptorV4_decodeAndDecryptAndVerify env fs p key = Inr (serializeNumber (ft4_fileSize data))"
    by (rule encrypted_roundtrip [OF assms(1) p(2) assms(2)])
  obtain im where im: "DataEncryptorV4_signAndEncryptAndEncode env (ft4_internalMeta data) k key (draws + 1 + 1) = (Inr im, draws + 1 + 1 + 1)"
      "DataEncryptorV4_decodeAndDecryptAndVerify env im p key = Inr (ft4_internalMeta data)"
    by (rule encrypted_roundtrip [OF assms(1) p(2) assms(2)])
  let ?e = "\<lparr>fe4_version = 4, fe4_publicMeta = ?pm, fe4_publicMetaObject = public_object env (ft4_publicMeta data),
     fe4_privateMeta = sm, fe4_fileSize = fs, fe4_internalMeta = Some im,
     fe4_authorPubKey = PublicKey_toBase58DER (en_crypto env) (en_ecc env) k\<rparr>"
  have enc: "FileMetaEncryptorV4_encrypt env data k key draws = (Inr ?e, draws + 1 + 1 + 1)"
    unfolding FileMetaEncryptorV4_encrypt_def
    by (rule bindS_step, rule sm(1), rule bindS_step, rule fs(1), rule bindS_step, rule im(1)) simp
  have pub: "DataEncryptorV4_decodeAndVerify env ?pm p = Inr (ft4_publicMeta data)"
    by (rule decodeAndVerify_signed [OF assms(1) p(2)])
  have num: "deserializeNumber (serializeNumber (ft4_fileSize data)) = Inr (ft4_fileSize data)"
    using stoll_to_string [OF assms(3,4)] by (simp add: deserializeNumber_def serializeNumber_def)
  have "decrypt_file_meta_v4 env ?e key (DecryptedFileMetaV4_new u) = (Inr (),
      \<lparr>fd4_dataStructureVersion = 4, fd4_statusCode = 0, fd4_publicMeta = ft4_publicMeta data,
       fd4_privateMeta = ft4_privateMeta data, fd4_fileSize = ft4_fileSize data, fd4_internalMeta = ft4_internalMeta data,
       fd4_authorPubKey = PublicKey_toBase58DER (en_crypto env) (en_ecc env) k\<rparr>)"
    unfolding decrypt_file_meta_v4_def using p(1) pub compare_public_object [of env "ft4_publicMeta data"]
    by (simp add: bindS_def FileMetaEncryptorV4_validateVersion_def sm(2) fs(2) im(2) num optional_value_def DecryptedFileMetaV4_new_def)
  then show thesis by (intro that [OF enc]) (simp_all add: FileMetaEncryptorV4_decrypt_def)
qed

subsection \<open>When encrypting does not throw\<close>

lemma FileMetaEncryptorV4_encrypts:
  assumes "core_env_ok env" and "length key = 32"
  shows "\<exists>e draws'. FileMetaEncryptorV4_encrypt env data k key draws = (Inr e, draws')"
proof -
  obtain p where p: "same_key env p k" using PublicKey_base58_roundtrip [OF assms(1)] by blast
  have enc: "\<exists>x. DataEncryptorV4_signAndEncryptAndEncode env d k key r = (Inr x, r + 1)" for d r
    using encrypted_roundtrip [OF assms(1) p assms(2)] by metis
  obtain sm fs im where "DataEncryptorV4_signAndEncryptAndEncode env (ft4_privateMeta data) k key draws = (Inr sm, draws + 1)"
      "DataEncryptorV4_signAndEncryptAndEncode env (serializeNumber (ft4_fileSize data)) k key (draws + 1) = (Inr fs, draws + 1 + 1)"
      "DataEncryptorV4_signAndEncryptAndEncode env (ft4_internalMeta data) k key (draws + 1 + 1) = (Inr im, draws + 1 + 1 + 1)"
    using enc by meson
  then show ?thesis by (simp add: FileMetaEncryptorV4_encrypt_def bindS_def)
qed

end
