(* ===== verification/Store_StoreApi.thy ===== *)
theory Store_StoreApi
  imports Store_FileMeta
begin

text \<open>
  The stores (\<open>endpoint/store/src/StoreApiImpl.cpp\<close>): stores and the meta data of files are encrypted in
  the present format, or for old stores in version 4, and read in all formats there have been: versions
  1, 4 and 5 of both. The Bridge's requests (\<open>ServerApi.cpp\<close>) are a parameter; requests that only read do
  not change the Bridge's state. \<open>back()\<close> of an empty vector is undefined in C++; here it is \<open>last\<close>, of
  which nothing is known there.
\<close>

subsection \<open>The Bridge\<close>

record 's store_bridge =
  sb_storeCreate :: "StoreCreateModel \<Rightarrow> (exn, 's, string) op"
  sb_storeUpdate :: "StoreUpdateModel \<Rightarrow> (exn, 's, unit) op"
  sb_storeDelete :: "string \<Rightarrow> (exn, 's, unit) op"
  sb_storeGet :: "StoreGetModel \<Rightarrow> 's \<Rightarrow> (exn, ServerStore) result"
  sb_storeList :: "StoreListModel \<Rightarrow> 's \<Rightarrow> (exn, ServerStore list \<times> int) result"
  sb_storeFileGet :: "string \<Rightarrow> 's \<Rightarrow> (exn, ServerStore \<times> ServerFile) result"
  sb_storeFileList :: "StoreFileListModel \<Rightarrow> 's \<Rightarrow> (exn, ServerStore \<times> ServerFile list \<times> int) result"
  sb_storeFileCreate :: "StoreFileCreateModel \<Rightarrow> (exn, 's, string) op"
  sb_storeFileWrite :: "StoreFileWriteModel \<Rightarrow> (exn, 's, unit) op"
  sb_storeFileUpdate :: "StoreFileUpdateModel \<Rightarrow> (exn, 's, unit) op"
  sb_storeFileDelete :: "string \<Rightarrow> (exn, 's, unit) op"

definition asking :: "('s \<Rightarrow> (exn, 'a) result) \<Rightarrow> (exn, ('s, 'ev) api_state, 'a) op" where
  "asking q st = (q (as_server st), st)"

text \<open>
  The interface object: the connection, the host it is connected to, and the value of numbers that C++
  leaves uninitialised.
\<close>

record 'k store_api =
  sa_conn :: "'k connection"
  sa_host :: string
  sa_uninit :: int

subsection \<open>Stores\<close>

definition getStoreEntryDataStructureVersion :: "'k connection \<Rightarrow> StoreDataEntry \<Rightarrow> (exn, int) result" where
  "getStoreEntryDataStructureVersion c storeEntry =
     (case sde_data storeEntry of
        JObject ob \<Rightarrow> bindR (VersionedData_fromJSON (en_poco (cn_env c)) ob) (\<lambda>version.
          Inr (if version = 4 then 4 else if version = 5 then 5 else 0))
      | JString s \<Rightarrow> Inr 1
      | _ \<Rightarrow> Inr 0)"

definition decryptStoreV1 :: "'k connection \<Rightarrow> StoreDataEntry \<Rightarrow> DecryptedEncKeyV2 \<Rightarrow> StoreDataV1" where
  "decryptStoreV1 c storeEntry encKey =
     (case bindR (json_to_string c (sde_data storeEntry)) (\<lambda>data.
        DataEncryptor_decrypt (cn_env c) (StoreDataV1_fromJSON (en_poco (cn_env c))) data (ek_key encKey)) of
        Inr r \<Rightarrow> r | Inl e \<Rightarrow> \<lparr>sd1_name = [], sd1_statusCode = status_of e\<rparr>)"

definition convertServerStoreToLibStore ::
    "'k connection \<Rightarrow> ServerStore \<Rightarrow> bytes \<Rightarrow> bytes \<Rightarrow> int \<Rightarrow> int \<Rightarrow> (exn, Store) result" where
  "convertServerStoreToLibStore c store publicMeta privateMeta statusCode schemaVersion =
     bindR (Factory_parsePolicyServerObject (en_poco (cn_env c)) (cn_str c) (sr_policy store)) (\<lambda>policy.
     Inr \<lparr>lst_storeId = sr_id store, lst_contextId = sr_contextId store, lst_createDate = sr_createDate store,
       lst_creator = sr_creator store, lst_lastModificationDate = sr_lastModificationDate store,
       lst_lastFileDate = sr_lastFileDate store, lst_lastModifier = sr_lastModifier store, lst_users = sr_users store, lst_managers = sr_managers store,
       lst_version = sr_version store, lst_publicMeta = publicMeta,
       lst_privateMeta = privateMeta, lst_policy = policy, lst_filesCount = sr_files store,
       lst_statusCode = statusCode, lst_schemaVersion = schemaVersion\<rparr>)"

definition convertStoreDataV1ToStore :: "'k connection \<Rightarrow> ServerStore \<Rightarrow> StoreDataV1 \<Rightarrow> (exn, Store) result" where
  "convertStoreDataV1ToStore c store storeData =
     convertServerStoreToLibStore c store []
       (Utils_stringify (en_poco (cn_env c)) (JObject [(''title'', JString (sd1_name storeData))])) (sd1_statusCode storeData) 1"

definition convertDecryptedStoreDataV4ToStore :: "'k connection \<Rightarrow> ServerStore \<Rightarrow> DecryptedModuleDataV4 \<Rightarrow> (exn, Store) result" where
  "convertDecryptedStoreDataV4ToStore c store storeData =
     convertServerStoreToLibStore c store (md4_publicMeta storeData) (md4_privateMeta storeData) (md4_statusCode storeData) 4"

definition convertDecryptedStoreDataV5ToStore :: "'k connection \<Rightarrow> ServerStore \<Rightarrow> DecryptedModuleDataV5 \<Rightarrow> (exn, Store) result" where
  "convertDecryptedStoreDataV5ToStore c store storeData =
     convertServerStoreToLibStore c store (md_publicMeta storeData) (md_privateMeta storeData) (md_statusCode storeData) 5"

definition failed_store :: "'k connection \<Rightarrow> ServerStore \<Rightarrow> int \<Rightarrow> (exn, Store) result" where
  "failed_store c store statusCode = convertServerStoreToLibStore c store [] [] statusCode 0"

abbreviation store_resource_id :: "ServerStore \<Rightarrow> string" where
  "store_resource_id store \<equiv> (case sr_resourceId store of Some r \<Rightarrow> r | None \<Rightarrow> [])"

text \<open>Old formats carry no integrity object; the code makes one up from what the Bridge says.\<close>

definition old_store_dio :: "ServerStore \<Rightarrow> string \<Rightarrow> DataIntegrityObject" where
  "old_store_dio store creatorPubKey =
     \<lparr>dio_creatorUserId = sr_lastModifier store, dio_creatorPubKey = creatorPubKey, dio_contextId = sr_contextId store,
      dio_resourceId = store_resource_id store, dio_timestamp = sr_lastModificationDate store, dio_randomId = [],
      dio_containerId = None, dio_containerResourceId = None, dio_bridgeIdentity = None\<rparr>"

definition decryptAndConvertStoreDataToStore ::
    "'k connection \<Rightarrow> ServerStore \<Rightarrow> StoreDataEntry \<Rightarrow> DecryptedEncKeyV2 \<Rightarrow> (exn, Store \<times> DataIntegrityObject) result" where
  "decryptAndConvertStoreDataToStore c store storeEntry encKey =
     bindR (getStoreEntryDataStructureVersion c storeEntry) (\<lambda>version.
     if version = 1 then
       bindR (convertStoreDataV1ToStore c store (decryptStoreV1 c storeEntry encKey)) (\<lambda>t. Inr (t, old_store_dio store []))
     else if version = 4 then
       let decrypted = decryptModuleDataV4 (cn_env c) (sde_data storeEntry) encKey
       in bindR (convertDecryptedStoreDataV4ToStore c store decrypted) (\<lambda>t.
            Inr (t, old_store_dio store (md4_authorPubKey decrypted)))
     else if version = 5 then
       let decrypted = decryptModuleDataV5 (cn_env c) (sde_data storeEntry) encKey
       in bindR (convertDecryptedStoreDataV5ToStore c store decrypted) (\<lambda>t. Inr (t, md_dio decrypted))
     else
       bindR (failed_store c store (status_of (StoreExn UnknowStoreFormatException))) (\<lambda>t. Inr (t, no_dio)))"

definition assertStoreDataIntegrity :: "'k connection \<Rightarrow> ServerStore \<Rightarrow> (exn, unit) result" where
  "assertStoreDataIntegrity c store =
     (let store_data_entry = last (sr_data store) in
      bindR (getStoreEntryDataStructureVersion c store_data_entry) (\<lambda>version.
      if version = 1 \<or> version = 4 then Inr ()
      else if version = 5 then
        bindR (deserialize_struct (EncryptedModuleDataV5_fromJSON (en_poco (cn_env c))) (sde_data store_data_entry)) (\<lambda>store_data.
        bindR (ModuleDataEncryptorV5_getDIOAndAssertIntegrity (cn_env c) store_data) (\<lambda>dio.
        if dio_contextId dio \<noteq> sr_contextId store \<or> Some (dio_resourceId dio) \<noteq> sr_resourceId store \<or>
           dio_creatorUserId dio \<noteq> sr_lastModifier store \<or>
           \<not> TimestampValidator_validate (dio_timestamp dio) (sr_lastModificationDate store)
        then Inl (StoreExn StoreDataIntegrityException) else Inr ()))
      else Inl (StoreExn UnknowStoreFormatException)))"

definition validateStoreDataIntegrity :: "'k connection \<Rightarrow> ServerStore \<Rightarrow> int" where
  "validateStoreDataIntegrity c store = (case assertStoreDataIntegrity c store of Inr _ \<Rightarrow> 0 | Inl e \<Rightarrow> status_of e)"

definition store_location :: "ServerStore \<Rightarrow> EncKeyLocation" where
  "store_location store = \<lparr>el_contextId = sr_contextId store, el_resourceId = store_resource_id store\<rparr>"

definition store_request :: "Store \<Rightarrow> DataIntegrityObject \<Rightarrow> VerificationRequest" where
  "store_request t dio =
     \<lparr>vr_contextId = lst_contextId t, vr_senderId = lst_lastModifier t, vr_senderPubKey = dio_creatorPubKey dio,
      vr_date = lst_lastModificationDate t, vr_bridgeIdentity = dio_bridgeIdentity dio\<rparr>"

abbreviation put_store_status :: "int \<Rightarrow> Store \<Rightarrow> Store" where
  "put_store_status s t \<equiv> t\<lparr>lst_statusCode := s\<rparr>"

text \<open>Every exception becomes a status of the store; only the conversion of that store can still throw.\<close>

definition read_single_store :: "'k connection \<Rightarrow> ServerStore \<Rightarrow> (exn, Store) result" where
  "read_single_store c store =
     (let statusCode = validateStoreDataIntegrity c store in
      if statusCode \<noteq> 0 then failed_store c store statusCode
      else
        let store_data_entry = last (sr_data store); location = store_location store in
        bindR (bindR (keys_at c (KeyRequest_addOne (sr_keys store) (sde_keyId store_data_entry) location) location)
          (\<lambda>keys. unordered_map_at keys (sde_keyId store_data_entry))) (\<lambda>key.
        bindR (decryptAndConvertStoreDataToStore c store store_data_entry key)
          (verify_one (cn_verifier c) lst_statusCode put_store_status store_request)))"

definition validateDecryptAndConvertStoreDataToStore :: "'k connection \<Rightarrow> ServerStore \<Rightarrow> (exn, Store) result" where
  "validateDecryptAndConvertStoreDataToStore c store =
     (case read_single_store c store of Inr r \<Rightarrow> Inr r | Inl e \<Rightarrow> failed_store c store (status_of e))"

subsection \<open>Lists of stores\<close>

definition request_store_keys :: "ServerStore list \<Rightarrow> (exn, KeyRequest, unit list) op" where
  "request_store_keys =
     mapS (\<lambda>store. KeyRequest_addOne (sr_keys store) (sde_keyId (last (sr_data store))) (store_location store))"

definition get_store_keys :: "'k connection \<Rightarrow> ServerStore list \<Rightarrow> (exn, (EncKeyLocation \<times> key_map) list) result" where
  "get_store_keys c stores =
     bindR (case request_store_keys stores KeyRequest_new of (Inl e, _) \<Rightarrow> Inl e | (Inr _, r) \<Rightarrow> Inr r)
       (KeyProvider_getKeysAndVerify (cn_env c) (cn_userPrivKey c) (cn_verifier c))"

definition decrypt_store ::
    "'k connection \<Rightarrow> (EncKeyLocation \<times> key_map) list \<Rightarrow> ServerStore \<Rightarrow> (exn, Store \<times> DataIntegrityObject) result" where
  "decrypt_store c storesKeys store =
     bindR (at_location storesKeys (store_location store)) (\<lambda>keys.
     bindR (unordered_map_at keys (sde_keyId (last (sr_data store)))) (\<lambda>key.
     decryptAndConvertStoreDataToStore c store (last (sr_data store)) key))"

definition validateDecryptAndConvertStoresDataToStores :: "'k connection \<Rightarrow> ServerStore list \<Rightarrow> (exn, Store list) result" where
  "validateDecryptAndConvertStoresDataToStores c =
     read_containers (cn_verifier c) (validateStoreDataIntegrity c) (failed_store c) Store_new (get_store_keys c)
       (decrypt_store c) lst_statusCode put_store_status store_request"

subsection \<open>Files\<close>

definition getFileDataStructureVersion :: "'k connection \<Rightarrow> ServerFile \<Rightarrow> (exn, int) result" where
  "getFileDataStructureVersion c file =
     (case fl_meta file of
        JObject ob \<Rightarrow> bindR (VersionedData_fromJSON (en_poco (cn_env c)) ob) (\<lambda>version.
          Inr (if version = 4 then 4 else if version = 5 then 5 else 0))
      | JString s \<Rightarrow> Inr 1
      | _ \<Rightarrow> Inr 0)"

text \<open>
  The signature of version 1: the store named in the signed data is compared with the id of the
  file. The result is returned, and no caller looks at it.
\<close>

definition verifyFileV1Signature :: "'k connection \<Rightarrow> FileMetaSigned \<Rightarrow> ServerFile \<Rightarrow> string \<Rightarrow> string" where
  "verifyFileV1Signature c meta raw serverId =
     (let destination = sfm_destination (fms_meta meta); pubKey = sfa_pubKey (sfm_author (fms_meta meta)) in
      if fms_signature meta = [] \<or> pubKey = [] \<or> sfdst_server destination = [] then ''no-signature''
      else if sfdst_server destination \<noteq> serverId then ''invalid''
      else if (if sfdst_storeId destination = [] then sfdst_store destination else sfdst_storeId destination) \<noteq> fl_id raw then ''invalid''
      else case PublicKey_fromBase58DER (en_crypto (cn_env c)) (en_ecc (cn_env c)) pubKey of
        Inl _ \<Rightarrow> ''invalid''
      | Inr k \<Rightarrow> if PublicKey_verifyCompactSignatureWithHash (en_crypto (cn_env c)) (en_ecc (cn_env c)) k (fms_metaBuf meta) (fms_signature meta)
          then ''verified'' else ''invalid'')"

definition decryptAndVerifyFileV1 :: "'k store_api \<Rightarrow> bytes \<Rightarrow> ServerFile \<Rightarrow> (exn, StoreFile) result" where
  "decryptAndVerifyFileV1 x filesKey file =
     bindR (json_to_string (sa_conn x) (fl_meta file)) (\<lambda>t.
     bindR (FileMetaEncryptorV1_decrypt (cn_env (sa_conn x)) (sa_uninit x) t filesKey) (\<lambda>fileMetaSigned.
     Inr \<lparr>sf_raw = file, sf_meta = fms_meta fileMetaSigned,
       sf_verified = verifyFileV1Signature (sa_conn x) fileMetaSigned file (sa_host x)\<rparr>))"

definition decryptStoreFileV1 :: "'k store_api \<Rightarrow> ServerFile \<Rightarrow> DecryptedEncKeyV2 \<Rightarrow> StoreFile" where
  "decryptStoreFileV1 x file encKey =
     (case decryptAndVerifyFileV1 x (ek_key encKey) file of
        Inr r \<Rightarrow> r
      | Inl e \<Rightarrow> \<lparr>sf_raw = file, sf_meta = (StoreFileMeta_uninit 0)\<lparr>sfm_statusCode := status_of e\<rparr>, sf_verified = ''invalid''\<rparr>)"

definition decryptFileMetaV4 :: "'k store_api \<Rightarrow> ServerFile \<Rightarrow> DecryptedEncKeyV2 \<Rightarrow> DecryptedFileMetaV4" where
  "decryptFileMetaV4 x file encKey =
     (let env = cn_env (sa_conn x) in
      case deserialize_struct (EncryptedFileMetaV4_fromJSON (en_poco env)) (fl_meta file) of
        Inl e \<Rightarrow> (DecryptedFileMetaV4_new 0)\<lparr>fd4_statusCode := status_of e\<rparr>
      | Inr e \<Rightarrow> FileMetaEncryptorV4_decrypt env (sa_uninit x) e (ek_key encKey))"

definition decryptFileMetaV5 :: "'k connection \<Rightarrow> ServerFile \<Rightarrow> DecryptedEncKeyV2 \<Rightarrow> DecryptedFileMetaV5" where
  "decryptFileMetaV5 c file encKey =
     (case deserialize_struct (EncryptedFileMetaV5_fromJSON (en_poco (cn_env c))) (fl_meta file) of
        Inl e \<Rightarrow> DecryptedFileMetaV5_new\<lparr>fd5_statusCode := status_of e\<rparr>
      | Inr e \<Rightarrow>
          if k2_statusCode encKey \<noteq> 0
          then (FileMetaEncryptorV5_extractPublic (cn_env c) e)\<lparr>fd5_statusCode := k2_statusCode encKey\<rparr>
          else FileMetaEncryptorV5_decrypt (cn_env c) e (ek_key encKey))"

definition convertServerFileToLibFile ::
    "ServerFile \<Rightarrow> bytes \<Rightarrow> bytes \<Rightarrow> int \<Rightarrow> string \<Rightarrow> int \<Rightarrow> int \<Rightarrow> bool \<Rightarrow> File" where
  "convertServerFileToLibFile file publicMeta privateMeta size' authorPubKey statusCode schemaVersion randomWrite =
     \<lparr>lf_info = \<lparr>sfi_storeId = fl_storeId file, sfi_fileId = fl_id file, sfi_createDate = fl_created file,
        sfi_author = fl_creator file\<rparr>,
      lf_publicMeta = publicMeta, lf_privateMeta = privateMeta, lf_size = size', lf_authorPubKey = authorPubKey,
      lf_statusCode = statusCode, lf_schemaVersion = schemaVersion, lf_randomWrite = randomWrite\<rparr>"

definition failed_file :: "ServerFile \<Rightarrow> int \<Rightarrow> File" where
  "failed_file file statusCode = convertServerFileToLibFile file [] [] 0 [] statusCode 0 False"

definition convertStoreFileMetaV1ToFile :: "'k connection \<Rightarrow> ServerFile \<Rightarrow> StoreFileMeta \<Rightarrow> File" where
  "convertStoreFileMetaV1ToFile c file m =
     convertServerFileToLibFile file [] (JSON_serialize (en_poco (cn_env c)) StoreFileMeta_toJSON m) (sfm_size m)
       (sfa_pubKey (sfm_author m)) (sfm_statusCode m) 1 False"

definition parse_internal_meta :: "'k core_env \<Rightarrow> bytes \<Rightarrow> (exn, InternalStoreFileMeta) result" where
  "parse_internal_meta env text =
     bindR (poco_parse (en_poco env) text) (deserialize_struct (InternalStoreFileMeta_fromJSON (en_poco env)))"

definition random_write :: "InternalStoreFileMeta \<Rightarrow> bool" where
  "random_write m = (case im_randomWrite m of Some b \<Rightarrow> b | None \<Rightarrow> False)"

text \<open>In version 4 the status of unreadable internal data is computed and then not used.\<close>

definition convertDecryptedFileMetaV4ToFile :: "'k connection \<Rightarrow> ServerFile \<Rightarrow> DecryptedFileMetaV4 \<Rightarrow> File" where
  "convertDecryptedFileMetaV4ToFile c file fileData =
     (let randomWrite = (if fd4_statusCode fileData = 0
        then (case parse_internal_meta (cn_env c) (fd4_internalMeta fileData) of Inr m \<Rightarrow> random_write m | Inl _ \<Rightarrow> False) else False) in
      convertServerFileToLibFile file (fd4_publicMeta fileData) (fd4_privateMeta fileData) (fd4_fileSize fileData)
        (fd4_authorPubKey fileData) (fd4_statusCode fileData) 4 randomWrite)"

definition convertDecryptedFileMetaV5ToFile :: "'k connection \<Rightarrow> ServerFile \<Rightarrow> DecryptedFileMetaV5 \<Rightarrow> File" where
  "convertDecryptedFileMetaV5ToFile c file fileData =
     (let (statusCode, size', randomWrite) = (if fd5_statusCode fileData = 0
        then (case parse_internal_meta (cn_env c) (fd5_internalMeta fileData) of
            Inr m \<Rightarrow> (0, im_size m, random_write m) | Inl e \<Rightarrow> (status_of e, 0, False))
        else (fd5_statusCode fileData, 0, False)) in
      convertServerFileToLibFile file (fd5_publicMeta fileData) (fd5_privateMeta fileData) size'
        (fd5_authorPubKey fileData) statusCode 5 randomWrite)"

definition old_file_dio :: "ServerFile \<Rightarrow> string \<Rightarrow> DataIntegrityObject" where
  "old_file_dio file creatorPubKey =
     \<lparr>dio_creatorUserId = fl_lastModifier file, dio_creatorPubKey = creatorPubKey, dio_contextId = fl_contextId file,
      dio_resourceId = fl_resourceId file, dio_timestamp = fl_lastModificationDate file, dio_randomId = [],
      dio_containerId = Some (fl_storeId file), dio_containerResourceId = Some [], dio_bridgeIdentity = None\<rparr>"

definition decryptAndConvertFileDataToFileInfo ::
    "'k store_api \<Rightarrow> ServerFile \<Rightarrow> DecryptedEncKeyV2 \<Rightarrow> (exn, File \<times> DataIntegrityObject) result" where
  "decryptAndConvertFileDataToFileInfo x file encKey =
     bindR (getFileDataStructureVersion (sa_conn x) file) (\<lambda>version.
     if version = 1 then
       let decryptedFile = sf_meta (decryptStoreFileV1 x file encKey)
       in Inr (convertStoreFileMetaV1ToFile (sa_conn x) file decryptedFile, old_file_dio file (sfa_pubKey (sfm_author decryptedFile)))
     else if version = 4 then
       let decryptedFile = decryptFileMetaV4 x file encKey
       in Inr (convertDecryptedFileMetaV4ToFile (sa_conn x) file decryptedFile, old_file_dio file (fd4_authorPubKey decryptedFile))
     else if version = 5 then
       let decryptedFile = decryptFileMetaV5 (sa_conn x) file encKey
       in Inr (convertDecryptedFileMetaV5ToFile (sa_conn x) file decryptedFile, fd5_dio decryptedFile)
     else Inr (failed_file file (status_of (StoreExn UnknowFileFormatException)), no_dio))"

definition assert_file_integrity :: "'k connection \<Rightarrow> ServerFile \<Rightarrow> string \<Rightarrow> (exn, unit) result" where
  "assert_file_integrity c file storeResourceId =
     bindR (getFileDataStructureVersion c file) (\<lambda>version.
     if version = 1 \<or> version = 4 then Inr ()
     else if version = 5 then
       bindR (deserialize_struct (EncryptedFileMetaV5_fromJSON (en_poco (cn_env c))) (fl_meta file)) (\<lambda>fileMeta.
       bindR (FileMetaEncryptorV5_getDIOAndAssertIntegrity (cn_env c) fileMeta) (\<lambda>dio.
       if dio_contextId dio \<noteq> fl_contextId file \<or> dio_resourceId dio \<noteq> fl_resourceId file \<or>
          dio_containerId dio \<noteq> Some (fl_storeId file) \<or> dio_containerResourceId dio \<noteq> Some storeResourceId \<or>
          dio_creatorUserId dio \<noteq> fl_lastModifier file \<or>
          \<not> TimestampValidator_validate (dio_timestamp dio) (fl_lastModificationDate file)
       then Inl (StoreExn FileDataIntegrityException) else Inr ()))
     else Inl (StoreExn UnknowFileFormatException))"

text \<open>The statuses the code returns are those of the exceptions of the same name.\<close>

definition validateFileDataIntegrity :: "'k connection \<Rightarrow> ServerFile \<Rightarrow> string \<Rightarrow> int" where
  "validateFileDataIntegrity c file storeResourceId =
     (case assert_file_integrity c file storeResourceId of Inr _ \<Rightarrow> 0 | Inl e \<Rightarrow> status_of e)"

text \<open>The verifier is asked about the author of the file and its creation, also when it was changed by another user.\<close>

definition file_request :: "string \<Rightarrow> File \<Rightarrow> BridgeIdentity option \<Rightarrow> VerificationRequest" where
  "file_request contextId f bridgeIdentity =
     \<lparr>vr_contextId = contextId, vr_senderId = sfi_author (lf_info f), vr_senderPubKey = lf_authorPubKey f,
      vr_date = sfi_createDate (lf_info f), vr_bridgeIdentity = bridgeIdentity\<rparr>"

abbreviation put_file_status :: "int \<Rightarrow> File \<Rightarrow> File" where
  "put_file_status s f \<equiv> f\<lparr>lf_statusCode := s\<rparr>"

definition FileKeyIdFormatValidator_assertKeyIdFormat :: "string \<Rightarrow> (exn, unit) result" where
  "FileKeyIdFormatValidator_assertKeyIdFormat keyId =
     (if \<not> KeyIdFormatValidator_hasDefaultKeyIdFormat keyId then Inl (StoreExn IncorrectKeyIdFormatException) else Inr ())"

definition file_key :: "'k connection \<Rightarrow> ServerFile \<Rightarrow> ModuleKeys \<Rightarrow> (exn, DecryptedEncKeyV2) result" where
  "file_key c file storeKeys =
     (let location = \<lparr>el_contextId = fl_contextId file, el_resourceId = mk_moduleResourceId storeKeys\<rparr> in
      bindR (keys_at c (KeyRequest_addOne (mk_keys storeKeys) (fl_keyId file) location) location)
        (\<lambda>keys. unordered_map_at keys (fl_keyId file)))"

text \<open>A single file is not checked against its integrity object here: that is left to the callers.\<close>

definition validateDecryptAndConvertFileDataToFileInfo :: "'k store_api \<Rightarrow> ServerFile \<Rightarrow> ModuleKeys \<Rightarrow> File" where
  "validateDecryptAndConvertFileDataToFileInfo x file storeKeys =
     (case bindR (FileKeyIdFormatValidator_assertKeyIdFormat (fl_keyId file)) (\<lambda>_.
        bindR (file_key (sa_conn x) file storeKeys) (\<lambda>encKey.
        bindR (decryptAndConvertFileDataToFileInfo x file encKey)
          (verify_one (cn_verifier (sa_conn x)) lf_statusCode put_file_status
            (\<lambda>r fileDIO. file_request (fl_contextId file) r (dio_bridgeIdentity fileDIO))))) of
        Inr r \<Rightarrow> r | Inl e \<Rightarrow> failed_file file (status_of e))"

subsection \<open>Lists of files\<close>

definition decrypt_with_listed_key :: "'k store_api \<Rightarrow> key_map \<Rightarrow> ServerFile \<Rightarrow> (exn, File \<times> DataIntegrityObject) result" where
  "decrypt_with_listed_key x keyMap file =
     bindR (unordered_map_at keyMap (fl_keyId file)) (decryptAndConvertFileDataToFileInfo x file)"

definition decrypt_listed_file ::
    "'k store_api \<Rightarrow> key_map \<Rightarrow> string \<Rightarrow> ServerFile \<Rightarrow> (exn, File \<times> DataIntegrityObject) result" where
  "decrypt_listed_file x keyMap storeResourceId file =
     bindR (assert_file_integrity (sa_conn x) file storeResourceId) (\<lambda>_. decrypt_with_listed_key x keyMap file)"

text \<open>In a list only exceptions of the library become a status; another one ends the loop and is passed on.\<close>

fun first_uncaught :: "'k store_api \<Rightarrow> key_map \<Rightarrow> string \<Rightarrow> ServerFile list \<Rightarrow> exn option" where
  "first_uncaught x keyMap storeResourceId [] = None"
| "first_uncaught x keyMap storeResourceId (file # files) =
     (if validateFileDataIntegrity (sa_conn x) file storeResourceId \<noteq> 0 then first_uncaught x keyMap storeResourceId files
      else case decrypt_with_listed_key x keyMap file of
        Inl e \<Rightarrow> if is_core_exception e then first_uncaught x keyMap storeResourceId files else Some e
      | Inr _ \<Rightarrow> first_uncaught x keyMap storeResourceId files)"

definition validateDecryptAndConvertFilesDataToFilesInfo ::
    "'k store_api \<Rightarrow> ServerFile list \<Rightarrow> ModuleKeys \<Rightarrow> (exn, File list) result" where
  "validateDecryptAndConvertFilesDataToFilesInfo x files storeKeys =
     (let keyIds = sorted_list_of_set (set (map fl_keyId files)); resourceId = mk_moduleResourceId storeKeys;
          location = \<lparr>el_contextId = mk_contextId storeKeys, el_resourceId = resourceId\<rparr> in
      bindR (keys_at (sa_conn x) (KeyRequest_addMany (mk_keys storeKeys) keyIds location) location) (\<lambda>keyMap.
      case first_uncaught x keyMap resourceId files of
        Some e \<Rightarrow> Inl e
      | None \<Rightarrow>
          verify_items (cn_verifier (sa_conn x)) lf_statusCode put_file_status (file_request (mk_contextId storeKeys))
            (decrypt_items (decrypt_listed_file x keyMap resourceId) failed_file put_file_status [] files)))"

subsection \<open>What is needed to read a file's content\<close>

definition decryptFileInternalMeta :: "'k store_api \<Rightarrow> ServerFile \<Rightarrow> DecryptedEncKeyV2 \<Rightarrow> (exn, InternalStoreFileMeta) result" where
  "decryptFileInternalMeta x file encKey =
     (let c = sa_conn x; env = cn_env c in
      if k2_statusCode encKey \<noteq> 0 then Inl (StoreExn UnknowFileFormatException)
      else bindR (getFileDataStructureVersion c file) (\<lambda>version.
        if version = 1 then
          let m = sf_meta (decryptStoreFileV1 x file encKey) in
          Inr \<lparr>im_version = 1, im_size = sfm_size m, im_cipherType = sfm_cipherType m, im_chunkSize = sfm_chunkSize m,
            im_key = base64_from (en_poco env) (bytes_of (sfm_key m)), im_hmac = base64_from (en_poco env) (bytes_of (sfm_hmac m)),
            im_randomWrite = None\<rparr>
        else if version = 4 then parse_internal_meta env (fd4_internalMeta (decryptFileMetaV4 x file encKey))
        else if version = 5 then parse_internal_meta env (fd5_internalMeta (decryptFileMetaV5 c file encKey))
        else Inl (StoreExn UnknowFileFormatException)))"

definition validateDecryptFileInternalMeta :: "'k store_api \<Rightarrow> ServerFile \<Rightarrow> ModuleKeys \<Rightarrow> (exn, InternalStoreFileMeta) result" where
  "validateDecryptFileInternalMeta x file storeKeys =
     bindR (file_key (sa_conn x) file storeKeys) (\<lambda>encKey.
     bindR (FileKeyIdFormatValidator_assertKeyIdFormat (fl_keyId file)) (\<lambda>_. decryptFileInternalMeta x file encKey))"

definition getFileDecryptionParams :: "'k core_env \<Rightarrow> ServerFile \<Rightarrow> InternalStoreFileMeta \<Rightarrow> (exn, FileDecryptionParams) result" where
  "getFileDecryptionParams env file internalMeta =
     (if u64_of_int (im_chunkSize internalMeta) > SIZE_MAX then Inl (StoreExn NumberToBigForCPUArchitectureException)
      else
        bindR (base64_to (en_poco env) (im_key internalMeta)) (\<lambda>key.
        bindR (base64_to (en_poco env) (im_hmac internalMeta)) (\<lambda>hmac.
        Inr \<lparr>fdp_fileId = fl_id file, fdp_resourceId = fl_resourceId file, fdp_sizeOnServer = u64_of_int (fl_size file),
          fdp_originalSize = u64_of_int (im_size internalMeta), fdp_cipherType = im_cipherType internalMeta,
          fdp_chunkSize = u64_of_int (im_chunkSize internalMeta), fdp_key = key, fdp_hmac = hmac,
          fdp_version = fl_version file\<rparr>)))"

definition DecryptedEncKey_of :: "DecryptedEncKeyV2 \<Rightarrow> DecryptedEncKey" where
  "DecryptedEncKey_of k =
     \<lparr>dk_id = ek_id k, dk_key = ek_key k, dk_dataStructureVersion = k2_dataStructureVersion k, dk_statusCode = k2_statusCode k\<rparr>"

definition getFileEncryptionParams_with_key ::
    "'k store_api \<Rightarrow> ServerFile \<Rightarrow> DecryptedEncKeyV2 \<Rightarrow> (exn, FileEncryptionParams) result" where
  "getFileEncryptionParams_with_key x file encKey =
     bindR (decryptAndConvertFileDataToFileInfo x file encKey) (\<lambda>(decryptedFile, fileDIO).
     bindR (decryptFileInternalMeta x file encKey) (\<lambda>internalMeta.
     bindR (getFileDecryptionParams (cn_env (sa_conn x)) file internalMeta) (\<lambda>params.
     Inr \<lparr>fep_fileMeta = \<lparr>fm_publicMeta = lf_publicMeta decryptedFile, fm_privateMeta = lf_privateMeta decryptedFile,
         fm_internalFileMeta = internalMeta\<rparr>,
       fep_fileDecryptionParams = params, fep_encKey = DecryptedEncKey_of encKey\<rparr>)))"

definition getFileEncryptionParams :: "'k store_api \<Rightarrow> ServerFile \<Rightarrow> ServerStore \<Rightarrow> (exn, FileEncryptionParams) result" where
  "getFileEncryptionParams x file store =
     (let location = store_location store in
      bindR (bindR (keys_at (sa_conn x) (KeyRequest_addOne (sr_keys store) (fl_keyId file) location) location)
        (\<lambda>keys. unordered_map_at keys (fl_keyId file))) (getFileEncryptionParams_with_key x file))"

subsection \<open>Events\<close>

datatype store_event_data =
    StoreCreatedEvent Store
  | StoreUpdatedEvent Store
  | StoreDeletedEvent string
  | StoreStatsChangedEvent string string int int
  | StoreFileCreatedEvent File
  | StoreFileUpdatedEvent File "FileChange list"
  | StoreFileDeletedEvent string string string
  | StoreCollectionChangedEvent CollectionChanged

type_synonym ('s, 'a) store_op = "(exn, ('s, store_event_data api_event) api_state, 'a) op"

text \<open>
  \<open>Mapper::mapToStoreFileUpdatedEventData\<close>: positions and lengths of changes in the encrypted file are turned
  into those of the whole chunks they touch, in unsigned arithmetic.
\<close>

definition map_file_change :: "FileDecryptionParams \<Rightarrow> int \<Rightarrow> StoreFileChange \<Rightarrow> FileChange" where
  "map_file_change params fileSize change =
     (let chunkEncryptor = \<lparr>ce_key = fdp_key params, ce_chunkSize = fdp_chunkSize params\<rparr>;
          encryptedChunkSize = ChunkEncryptor_getEncryptedChunkSize chunkEncryptor;
          plainChunkSize = ChunkEncryptor_getPlainChunkSize chunkEncryptor;
          pos = s64 (int (u64 ((u64_of_int (sfch_pos change) div encryptedChunkSize) * plainChunkSize)));
          len = s64 (int (u64 ((usub64 (u64 (u64_of_int (sfch_length change) + encryptedChunkSize)) 1 div encryptedChunkSize) * plainChunkSize)))
      in \<lparr>fch_pos = pos, fch_length = (if s64 (pos + len) > fileSize then s64 (fileSize - pos) else len),
          fch_truncate = sfch_truncate change\<rparr>)"

definition mapToStoreFileUpdatedEventData ::
    "StoreFileChange list option \<Rightarrow> File \<Rightarrow> FileDecryptionParams \<Rightarrow> store_event_data" where
  "mapToStoreFileUpdatedEventData changes file params =
     StoreFileUpdatedEvent file
       (case changes of None \<Rightarrow> []
        | Some cs \<Rightarrow> map (map_file_change params (lf_size file)) (filter (\<lambda>c. sfch_type c = ''file'') cs))"

subsection \<open>Keys\<close>

definition storeToModuleKeys :: "'k connection \<Rightarrow> ServerStore \<Rightarrow> (exn, ModuleKeys) result" where
  "storeToModuleKeys c store =
     bindR (getStoreEntryDataStructureVersion c (last (sr_data store))) (\<lambda>version.
     Inr \<lparr>mk_keys = sr_keys store, mk_currentKeyId = sr_keyId store, mk_moduleSchemaVersion = version,
       mk_moduleResourceId = store_resource_id store, mk_contextId = sr_contextId store\<rparr>)"

definition store_getModuleKeysAndVersionFromServer ::
    "'k connection \<Rightarrow> 's store_bridge \<Rightarrow> string \<Rightarrow> ('s, ModuleKeys \<times> int) store_op" where
  "store_getModuleKeysAndVersionFromServer c sv moduleId =
     bindS (asking (sb_storeGet sv \<lparr>stg_storeId = moduleId, stg_type = None\<rparr>)) (\<lambda>store.
     bindS (liftR (assertStoreDataIntegrity c store)) (\<lambda>_.
     bindS (liftR (storeToModuleKeys c store)) (\<lambda>keys. ret (keys, sr_version store))))"

definition getFileDecryptionKeys :: "'k connection \<Rightarrow> 's store_bridge \<Rightarrow> ServerFile \<Rightarrow> ('s, ModuleKeys) store_op" where
  "getFileDecryptionKeys c sv file =
     bindS (liftR (getFileDataStructureVersion c file)) (\<lambda>version.
     getModuleKeys (store_getModuleKeysAndVersionFromServer c sv) (fl_storeId file) (Some [fl_keyId file])
       (Some (if version = 5 then 5 else if version = 0 then 0 else 1)))"

definition store_cache_keys :: "'k connection \<Rightarrow> ServerStore \<Rightarrow> ('s, unit) store_op" where
  "store_cache_keys c store =
     bindS (liftR (storeToModuleKeys c store)) (\<lambda>keys. setNewModuleKeysInCache (sr_id store) keys (sr_version store))"

subsection \<open>Operations on stores\<close>

definition createStoreEx ::
    "'k connection \<Rightarrow> 's store_bridge \<Rightarrow> string \<Rightarrow> UserWithPubKey list \<Rightarrow> UserWithPubKey list \<Rightarrow> bytes \<Rightarrow> bytes \<Rightarrow> string \<Rightarrow>
     ContainerPolicy option \<Rightarrow> ('s, string) store_op" where
  "createStoreEx c sv contextId users managers publicMeta privateMeta type policies =
     bindS (drawn (KeyProvider_generateKey (cn_env c) (cn_hex c))) (\<lambda>storeKey.
     bindS (drawn (EndpointUtils_generateId c)) (\<lambda>resourceId.
     bindS (drawing (ConnectionImpl_createDIO c contextId resourceId None None)) (\<lambda>storeDIO.
     bindS (drawn (KeyProvider_generateSecret (cn_env c) (cn_hex c))) (\<lambda>storeSecret.
     bindS (drawing (ModuleDataEncryptorV5_encrypt (cn_env c)
       \<lparr>mt_publicMeta = publicMeta, mt_privateMeta = privateMeta,
        mt_internalMeta = \<lparr>mi_secret = text_of storeSecret, mi_resourceId = resourceId, mi_randomId = dio_randomId storeDIO\<rparr>,
        mt_dio = storeDIO\<rparr> (cn_userPrivKey c) (ek_key storeKey))) (\<lambda>data.
     bindS (drawing (KeyProvider_prepareKeysList (cn_env c) (cn_hex c) (cn_userPrivKey c)
       (EndpointUtils_uniqueListUserWithPubKey users managers) storeKey storeDIO
       \<lparr>el_contextId = contextId, el_resourceId = resourceId\<rparr> storeSecret)) (\<lambda>keys.
     requesting (sb_storeCreate sv
       \<lparr>stc_resourceId = resourceId, stc_contextId = contextId, stc_users = map up_userId users,
        stc_managers = map up_userId managers, stc_data = EncryptedModuleDataV5_toJSON data, stc_keyId = ek_id storeKey,
        stc_keys = keys, stc_type = type, stc_policy = map_option Factory_createPolicyServerObject policies\<rparr>)))))))"

definition createStore ::
    "'k connection \<Rightarrow> 's store_bridge \<Rightarrow> string \<Rightarrow> UserWithPubKey list \<Rightarrow> UserWithPubKey list \<Rightarrow> bytes \<Rightarrow> bytes \<Rightarrow>
     ContainerPolicy option \<Rightarrow> ('s, string) store_op" where
  "createStore c sv contextId users managers publicMeta privateMeta policies =
     createStoreEx c sv contextId users managers publicMeta privateMeta STORE_TYPE_FILTER_FLAG policies"

text \<open>A store without resource id is given one.\<close>

definition updateStore ::
    "'k connection \<Rightarrow> 's store_bridge \<Rightarrow> string \<Rightarrow> UserWithPubKey list \<Rightarrow> UserWithPubKey list \<Rightarrow> bytes \<Rightarrow> bytes \<Rightarrow> int \<Rightarrow> bool \<Rightarrow> bool \<Rightarrow>
     ContainerPolicy option \<Rightarrow> ('s, unit) store_op" where
  "updateStore c sv storeId users managers publicMeta privateMeta version force forceGenerateNewKey policies =
     bindS (asking (sb_storeGet sv \<lparr>stg_storeId = storeId, stg_type = None\<rparr>)) (\<lambda>currentStore.
     let currentStoreEntry = last (sr_data currentStore) in
     bindS (case sr_resourceId currentStore of Some r \<Rightarrow> ret r | None \<Rightarrow> drawn (EndpointUtils_generateId c)) (\<lambda>resourceId.
     let location = \<lparr>el_contextId = sr_contextId currentStore, el_resourceId = resourceId\<rparr> in
     bindS (liftR (keys_at c (KeyRequest_addAll (sr_keys currentStore) location) location)) (\<lambda>storeKeys.
     bindS (liftR (findEncKeyByKeyId storeKeys (sde_keyId currentStoreEntry))) (\<lambda>currentStoreKey.
     bindS (liftR (extractAndDecryptModuleInternalMeta (cn_env c) (sde_data currentStoreEntry) currentStoreKey)) (\<lambda>storeInternalMeta.
     let resolver = UsersKeysResolver_create (sr_users currentStore) (sr_managers currentStore) users managers
           forceGenerateNewKey currentStoreKey;
         secret = bytes_of (mi_secret storeInternalMeta) in
     if \<not> KeyProvider_verifyKeysSecret (cn_env c) storeKeys location secret
     then throw (StoreExn StoreEncryptionKeyValidationException)
     else
       bindS (drawing (ConnectionImpl_createDIO c (sr_contextId currentStore) resourceId None None)) (\<lambda>updateStoreDio.
       bindS (drawing (update_keys c resolver storeKeys currentStoreKey updateStoreDio location secret)) (\<lambda>(storeKey, keys).
       bindS (drawing (ModuleDataEncryptorV5_encrypt (cn_env c)
         \<lparr>mt_publicMeta = publicMeta, mt_privateMeta = privateMeta,
          mt_internalMeta = \<lparr>mi_secret = mi_secret storeInternalMeta, mi_resourceId = resourceId,
            mi_randomId = dio_randomId updateStoreDio\<rparr>,
          mt_dio = updateStoreDio\<rparr> (cn_userPrivKey c) (ek_key storeKey))) (\<lambda>data.
       bindS (requesting (sb_storeUpdate sv
         \<lparr>stu_id = storeId, stu_resourceId = resourceId, stu_users = map up_userId users,
          stu_managers = map up_userId managers, stu_data = EncryptedModuleDataV5_toJSON data, stu_keyId = ek_id storeKey,
          stu_keys = keys, stu_version = version, stu_force = force,
          stu_policy = map_option Factory_createPolicyServerObject policies\<rparr>)) (\<lambda>_.
       invalidateModuleKeysInCache (Some storeId))))))))))"

definition deleteStore :: "'s store_bridge \<Rightarrow> string \<Rightarrow> ('s, unit) store_op" where
  "deleteStore sv storeId =
     bindS (requesting (sb_storeDelete sv storeId)) (\<lambda>_. invalidateModuleKeysInCache (Some storeId))"

definition getStoreEx :: "'k connection \<Rightarrow> 's store_bridge \<Rightarrow> string \<Rightarrow> string \<Rightarrow> ('s, Store) store_op" where
  "getStoreEx c sv storeId type =
     bindS (asking (sb_storeGet sv \<lparr>stg_storeId = storeId, stg_type = (if type \<noteq> [] then Some type else None)\<rparr>)) (\<lambda>store.
     bindS (store_cache_keys c store) (\<lambda>_.
     liftR (validateDecryptAndConvertStoreDataToStore c store)))"

definition getStore :: "'k connection \<Rightarrow> 's store_bridge \<Rightarrow> string \<Rightarrow> ('s, Store) store_op" where
  "getStore c sv storeId = getStoreEx c sv storeId STORE_TYPE_FILTER_FLAG"

definition listStoresEx :: "'k connection \<Rightarrow> 's store_bridge \<Rightarrow> string \<Rightarrow> PagingQuery \<Rightarrow> string \<Rightarrow> ('s, Store PagingList) store_op" where
  "listStoresEx c sv contextId pagingQuery type =
     bindS (liftR (ListQueryMapper_map (en_poco (cn_env c)) pagingQuery)) (\<lambda>model.
     bindS (asking (sb_storeList sv
       (ListModel.extend model (StoreListModel.fields contextId (if type \<noteq> [] then Some type else None))))) (\<lambda>(stores, count).
     bindS (mapS (store_cache_keys c) stores) (\<lambda>_.
     bindS (liftR (validateDecryptAndConvertStoresDataToStores c stores)) (\<lambda>items.
     ret \<lparr>pl_totalAvailable = count, pl_readItems = items\<rparr>))))"

definition listStores :: "'k connection \<Rightarrow> 's store_bridge \<Rightarrow> string \<Rightarrow> PagingQuery \<Rightarrow> ('s, Store PagingList) store_op" where
  "listStores c sv contextId pagingQuery = listStoresEx c sv contextId pagingQuery STORE_TYPE_FILTER_FLAG"

subsection \<open>Operations on files\<close>

text \<open>
  A file whose integrity object does not fit is returned as a structure with that status and without
  any other value: texts are empty, numbers are not initialised.
\<close>

definition File_failed :: "int \<Rightarrow> int \<Rightarrow> File" where
  "File_failed uninit statusCode =
     \<lparr>lf_info = \<lparr>sfi_storeId = [], sfi_fileId = [], sfi_createDate = uninit, sfi_author = []\<rparr>, lf_publicMeta = [],
      lf_privateMeta = [], lf_size = uninit, lf_authorPubKey = [], lf_statusCode = statusCode, lf_schemaVersion = uninit,
      lf_randomWrite = (uninit \<noteq> 0)\<rparr>"

definition getFile :: "'k store_api \<Rightarrow> 's store_bridge \<Rightarrow> string \<Rightarrow> ('s, File) store_op" where
  "getFile x sv fileId =
     bindS (asking (sb_storeFileGet sv fileId)) (\<lambda>(store, file).
     bindS (liftR (assertStoreDataIntegrity (sa_conn x) store)) (\<lambda>_.
     bindS (store_cache_keys (sa_conn x) store) (\<lambda>_.
     let statusCode = validateFileDataIntegrity (sa_conn x) file (store_resource_id store) in
     if statusCode \<noteq> 0 then ret (File_failed (sa_uninit x) statusCode)
     else bindS (liftR (storeToModuleKeys (sa_conn x) store)) (\<lambda>keys. ret (validateDecryptAndConvertFileDataToFileInfo x file keys)))))"

definition listFiles :: "'k store_api \<Rightarrow> 's store_bridge \<Rightarrow> string \<Rightarrow> PagingQuery \<Rightarrow> ('s, File PagingList) store_op" where
  "listFiles x sv storeId query =
     (let c = sa_conn x in
      bindS (liftR (ListQueryMapper_map (en_poco (cn_env c)) query)) (\<lambda>model.
      bindS (asking (sb_storeFileList sv (ListModel.extend model (StoreFileListModel.fields storeId)))) (\<lambda>(store, files, count).
      bindS (liftR (assertStoreDataIntegrity c store)) (\<lambda>_.
      bindS (store_cache_keys c store) (\<lambda>_.
      bindS (liftR (bindR (storeToModuleKeys c store) (validateDecryptAndConvertFilesDataToFilesInfo x files))) (\<lambda>items.
      ret \<lparr>pl_totalAvailable = count, pl_readItems = items\<rparr>))))))"

definition deleteFile :: "'s store_bridge \<Rightarrow> string \<Rightarrow> ('s, unit) store_op" where
  "deleteFile sv fileId = requesting (sb_storeFileDelete sv fileId)"

text \<open>The meta data of a file in the format its store has.\<close>

definition encryptFileMeta ::
    "'k connection \<Rightarrow> int \<Rightarrow> (exn, nat, DataIntegrityObject) op \<Rightarrow> bytes \<Rightarrow> bytes \<Rightarrow> InternalStoreFileMeta \<Rightarrow> bytes \<Rightarrow> (exn, nat, json) op" where
  "encryptFileMeta c schemaVersion createDIO publicMeta privateMeta internalFileMeta key =
     (let env = cn_env c; internalMeta = internal_meta_text env internalFileMeta in
      if schemaVersion = 1 \<or> schemaVersion = 4 then
        bindS (FileMetaEncryptorV4_encrypt env
          \<lparr>ft4_publicMeta = publicMeta, ft4_privateMeta = privateMeta, ft4_fileSize = im_size internalFileMeta,
           ft4_internalMeta = internalMeta\<rparr> (cn_userPrivKey c) key) (\<lambda>e. ret (EncryptedFileMetaV4_toJSON e))
      else if schemaVersion = 5 then
        bindS createDIO (\<lambda>fileDIO.
        bindS (FileMetaEncryptorV5_encrypt env
          \<lparr>ft5_publicMeta = publicMeta, ft5_privateMeta = privateMeta, ft5_internalMeta = internalMeta, ft5_dio = fileDIO\<rparr>
          (cn_userPrivKey c) key) (\<lambda>e. ret (EncryptedFileMetaV5_toJSON e)))
      else throw (StoreExn UnknowStoreFormatException))"

text \<open>The internal data of an uploaded file. The sizes are converted to signed numbers.\<close>

definition uploaded_meta :: "'k connection \<Rightarrow> FileHandle \<Rightarrow> ChunksSentInfo \<Rightarrow> InternalStoreFileMeta" where
  "uploaded_meta c handle data =
     \<lparr>im_version = 4, im_size = s64 (int (hd_size handle)), im_cipherType = si_cipherType data,
      im_chunkSize = s64 (int (si_chunkSize data)), im_key = base64_from (en_poco (cn_env c)) (si_key data),
      im_hmac = base64_from (en_poco (cn_env c)) (si_hmac data), im_randomWrite = Some (hd_randomWriteSupport handle)\<rparr>"

text \<open>The generated \<open>fileId\<close> is not used.\<close>

definition storeFileFinalizeWriteRequest ::
    "'k connection \<Rightarrow> 's store_bridge \<Rightarrow> FileHandle \<Rightarrow> bytes \<Rightarrow> bytes \<Rightarrow> ChunksSentInfo \<Rightarrow> ModuleKeys \<Rightarrow> ('s, string) store_op" where
  "storeFileFinalizeWriteRequest c sv handle publicMeta privateMeta data storeKey =
     bindS (liftR (getAndValidateModuleCurrentEncKey c storeKey)) (\<lambda>key.
     if k2_statusCode key \<noteq> 0 then throw (StoreExn StoreEncryptionKeyValidationException)
     else
       bindS (drawn (EndpointUtils_generateId c)) (\<lambda>fileId.
       bindS (drawing (encryptFileMeta c (mk_moduleSchemaVersion storeKey)
         (ConnectionImpl_createDIO c (mk_contextId storeKey) (hd_resourceId handle) (Some (hd_storeId handle)) (Some (mk_moduleResourceId storeKey)))
         publicMeta privateMeta (uploaded_meta c handle data) (ek_key key))) (\<lambda>encryptedMeta.
       if hd_fileId handle = [] then
         requesting (sb_storeFileCreate sv
           \<lparr>sfc_resourceId = hd_resourceId handle, sfc_storeId = hd_storeId handle, sfc_requestId = si_requestId data,
            sfc_fileIndex = 0, sfc_meta = encryptedMeta, sfc_keyId = ek_id key, sfc_thumbIndex = None\<rparr>)
       else
         bindS (requesting (sb_storeFileWrite sv
           \<lparr>sfw_fileId = hd_fileId handle, sfw_requestId = si_requestId data, sfw_fileIndex = 0, sfw_meta = encryptedMeta,
            sfw_keyId = ek_id key, sfw_thumbIndex = None\<rparr>)) (\<lambda>_. ret (hd_fileId handle)))))"

definition InvalidKey_code :: nat where
  "InvalidKey_code = endpoint_code 0xF000 0x0070"

text \<open>The part of \<open>storeFileFinalizeWrite\<close> after the upload was finalised.\<close>

definition registerUploadedFile ::
    "'k connection \<Rightarrow> 's store_bridge \<Rightarrow> FileHandle \<Rightarrow> bytes \<Rightarrow> bytes \<Rightarrow> ChunksSentInfo \<Rightarrow> ('s, string) store_op" where
  "registerUploadedFile c sv handle publicMeta privateMeta data =
     catch_privmx
       (bindS
         (if hd_fileId handle = [] then getModuleKeys (store_getModuleKeysAndVersionFromServer c sv) (hd_storeId handle) None None
          else
            bindS (asking (sb_storeFileGet sv (hd_fileId handle))) (\<lambda>(store, file).
            bindS (liftR (storeToModuleKeys c store)) (\<lambda>storeKey.
            bindS (setNewModuleKeysInCache (sr_id store) storeKey (sr_version store)) (\<lambda>_. ret storeKey))))
         (storeFileFinalizeWriteRequest c sv handle publicMeta privateMeta data))
       privmx_exception
       (\<lambda>e. if ExceptionConverter_convert e = InvalidKey_code \<and> hd_fileId handle = []
         then bindS (getNewModuleKeysAndUpdateCache (store_getModuleKeysAndVersionFromServer c sv) (hd_storeId handle))
           (storeFileFinalizeWriteRequest c sv handle publicMeta privateMeta data)
         else throw (PrivmxExn e))"

text \<open>The template \<open>getAndValidateModuleCurrentEncKey\<close> for a container: the key of its last data entry.\<close>

definition store_current_key :: "'k connection \<Rightarrow> ServerStore \<Rightarrow> (exn, DecryptedEncKeyV2) result" where
  "store_current_key c store =
     (let keyId = sde_keyId (last (sr_data store)); location = store_location store in
      bindR (keys_at c (KeyRequest_addOne (sr_keys store) keyId location) location) (\<lambda>keys. unordered_map_at keys keyId))"

definition updateFileMeta :: "'k store_api \<Rightarrow> 's store_bridge \<Rightarrow> string \<Rightarrow> bytes \<Rightarrow> bytes \<Rightarrow> ('s, unit) store_op" where
  "updateFileMeta x sv fileId publicMeta privateMeta =
     (let c = sa_conn x in
      bindS (asking (sb_storeFileGet sv fileId)) (\<lambda>(store, file).
      bindS (store_cache_keys c store) (\<lambda>_.
      if validateFileDataIntegrity c file (store_resource_id store) \<noteq> 0 then throw (StoreExn FileDataIntegrityException)
      else
        bindS (liftR (store_current_key c store)) (\<lambda>key.
        if k2_statusCode key \<noteq> 0 then throw (StoreExn StoreEncryptionKeyValidationException)
        else
          bindS (liftR (bindR (storeToModuleKeys c store) (validateDecryptFileInternalMeta x file))) (\<lambda>fileInternalMeta.
          bindS (liftR (getStoreEntryDataStructureVersion c (last (sr_data store)))) (\<lambda>schemaVersion.
          bindS (drawing (encryptFileMeta c schemaVersion
            (bindS (if fl_resourceId file = [] then (\<lambda>d. case EndpointUtils_generateId c d of (i, d') \<Rightarrow> (Inr i, d'))
                    else ret (fl_resourceId file))
              (\<lambda>resourceId. ConnectionImpl_createDIO c (fl_contextId file) resourceId (Some (fl_storeId file)) (sr_resourceId store)))
            publicMeta privateMeta fileInternalMeta (ek_key key))) (\<lambda>encryptedMeta.
          requesting (sb_storeFileUpdate sv \<lparr>sfu_fileId = fileId, sfu_meta = encryptedMeta, sfu_keyId = ek_id key\<rparr>))))))))"

subsection \<open>Notifications\<close>

definition of_store :: "string option \<Rightarrow> bool" where
  "of_store type \<longleftrightarrow> (case type of None \<Rightarrow> True | Some t \<Rightarrow> t = STORE_TYPE_FILTER_FLAG)"

definition on_store_info :: "'k connection \<Rightarrow> (Store \<Rightarrow> store_event_data) \<Rightarrow> NotificationEvent \<Rightarrow> ('s, unit) store_op" where
  "on_store_info c mk notification =
     bindS (liftR (deserialize_struct (ServerStore_fromJSON (en_poco (cn_env c))) (ne_data notification))) (\<lambda>raw.
     if of_store (sr_type raw) then
       bindS (store_cache_keys c raw) (\<lambda>_.
       bindS (liftR (validateDecryptAndConvertStoreDataToStore c raw)) (\<lambda>data.
       emitApiEvent (EventBuilder_buildEvent ''store'' (mk data) notification)))
     else ret ())"

definition file_channel :: "string \<Rightarrow> string" where
  "file_channel storeId = ''store/'' @ storeId @ ''/files''"

definition store_notification_task :: "'k store_api \<Rightarrow> 's store_bridge \<Rightarrow> string \<Rightarrow> NotificationEvent \<Rightarrow> ('s, unit) store_op" where
  "store_notification_task x sv type notification =
     (let c = sa_conn x; p = en_poco (cn_env c); data = ne_data notification in
      if type = ''storeCreated'' then on_store_info c StoreCreatedEvent notification
      else if type = ''storeUpdated'' then on_store_info c StoreUpdatedEvent notification
      else if type = ''storeDeleted'' then
        bindS (liftR (deserialize_struct StoreDeletedEventData_fromJSON data)) (\<lambda>raw.
        if of_store (sdd_type raw) then
          bindS (invalidateModuleKeysInCache (Some (sdd_storeId raw))) (\<lambda>_.
          emitApiEvent (EventBuilder_buildEvent ''store'' (StoreDeletedEvent (sdd_storeId raw)) notification))
        else ret ())
      else if type = ''storeStatsChanged'' then
        bindS (liftR (deserialize_struct (StoreStatsChangedEventData_fromJSON p) data)) (\<lambda>raw.
        if of_store (sse_type raw) then
          emitApiEvent (EventBuilder_buildEvent ''store''
            (StoreStatsChangedEvent (sse_contextId raw) (sse_id raw) (sse_lastFileDate raw) (sse_files raw)) notification)
        else ret ())
      else if type = ''storeFileCreated'' then
        bindS (liftR (deserialize_struct (StoreFileEventData_fromJSON p) data)) (\<lambda>(raw, containerType).
        if of_store containerType then
          bindS (getFileDecryptionKeys c sv raw) (\<lambda>keys.
          emitApiEvent (EventBuilder_buildEvent (file_channel (fl_storeId raw))
            (StoreFileCreatedEvent (validateDecryptAndConvertFileDataToFileInfo x raw keys)) notification))
        else ret ())
      else if type = ''storeFileUpdated'' then
        bindS (liftR (deserialize_struct (StoreFileUpdatedEventData_fromJSON p) data)) (\<lambda>(raw, containerType, changes).
        if of_store containerType then
          bindS (getFileDecryptionKeys c sv raw) (\<lambda>keys.
          let file = validateDecryptAndConvertFileDataToFileInfo x raw keys in
          bindS (liftR (validateDecryptFileInternalMeta x raw keys)) (\<lambda>internalMeta.
          bindS (liftR (getFileDecryptionParams (cn_env c) raw internalMeta)) (\<lambda>params.
          emitApiEvent (EventBuilder_buildEvent (file_channel (fl_storeId raw))
            (mapToStoreFileUpdatedEventData changes file params) notification))))
        else ret ())
      else if type = ''storeFileDeleted'' then
        bindS (liftR (deserialize_struct StoreFileDeletedEventData_fromJSON data)) (\<lambda>raw.
        if of_store (sfd_containerType raw) then
          emitApiEvent (EventBuilder_buildEvent (file_channel (sfd_storeId raw))
            (StoreFileDeletedEvent (sfd_contextId raw) (sfd_storeId raw) (sfd_id raw)) notification)
        else ret ())
      else if type = ''storeCollectionChanged'' then
        bindS (liftR (deserialize_struct (CollectionChangedEventData_fromJSON p) data)) (\<lambda>raw.
        if of_store (cce_containerType raw) then
          emitApiEvent (EventBuilder_buildEvent ''store/collectionChanged''
            (StoreCollectionChangedEvent (mapToCollectionChangedEventData STORE_TYPE_FILTER_FLAG raw)) notification)
        else ret ())
      else ret ())"

text \<open>The task runs on an executor that swallows its exceptions.\<close>

definition store_processNotificationEvent ::
    "'k store_api \<Rightarrow> 's store_bridge \<Rightarrow> string \<Rightarrow> NotificationEvent \<Rightarrow> ('s, unit) store_op" where
  "store_processNotificationEvent x sv type notification st =
     (if Subscriber_getSubscriptionQuery (as_subscriptions st) (ne_subscriptions notification) = None then (Inr (), st)
      else (Inr (), snd (store_notification_task x sv type notification st)))"

definition store_processConnectedEvent :: "('s, unit) store_op" where
  "store_processConnectedEvent = invalidateModuleKeysInCache None"

definition store_processDisconnectedEvent :: "('s, unit) store_op" where
  "store_processDisconnectedEvent = invalidateModuleKeysInCache None"

end
