(* ===== verification/Store_OpenFiles.thy ===== *)
theory Store_OpenFiles
  imports Store_FileHandles Store_StoreApi
begin

text \<open>
  Stores and open files together (\<open>endpoint/store/src/StoreApiImpl.cpp\<close>). What the operations on handle
  numbers take as parameters, \<open>store_env\<close>, is here made from the operations on stores and on the meta data of
  files: opening a file decrypts its meta data, replacing one reads its meta data to find where the new content
  goes, closing a written file registers it.
\<close>

subsection \<open>The parameters of the handles\<close>

text \<open>The state behind the handles is the state of the module.\<close>

type_synonym 's store_world = "('s, store_event_data api_event) api_state"

definition world_draws :: "('s, 'a) store_op \<Rightarrow> (exn, 's store_world \<times> nat, 'a) op" where
  "world_draws m = (\<lambda>(w, draws). case m (w\<lparr>as_draws := draws\<rparr>) of (r, w') \<Rightarrow> (r, (w', as_draws w')))"

definition assertStoreExist :: "'s store_bridge \<Rightarrow> string \<Rightarrow> 's store_world \<Rightarrow> (exn, unit) result" where
  "assertStoreExist sv storeId w = bindR (sb_storeGet sv \<lparr>stg_storeId = storeId, stg_type = None\<rparr> (as_server w)) (\<lambda>_. Inr ())"

definition opened_file_params :: "'k store_api \<Rightarrow> 's store_bridge \<Rightarrow> string \<Rightarrow> 's store_world \<Rightarrow> (exn, FileInfo \<times> FileEncryptionParams) result" where
  "opened_file_params x sv fileId w =
     bindR (sb_storeFileGet sv fileId (as_server w)) (\<lambda>(store, file).
     bindR (getFileEncryptionParams x file store) (\<lambda>params.
     Inr (\<lparr>fi_contextId = fl_contextId file, fi_storeId = fl_storeId file, fi_storeResourceId = store_resource_id store,
           fi_fileId = fl_id file, fi_resourceId = fl_resourceId file\<rparr>, params)))"

definition updated_file_target :: "'k store_api \<Rightarrow> 's store_bridge \<Rightarrow> string \<Rightarrow> 's store_world \<Rightarrow> (exn, UploadTarget) result" where
  "updated_file_target x sv fileId w =
     bindR (sb_storeFileGet sv fileId (as_server w)) (\<lambda>(store, file).
     bindR (bindR (storeToModuleKeys (sa_conn x) store) (validateDecryptFileInternalMeta x file)) (\<lambda>internalMeta.
     Inr \<lparr>ut_storeId = sr_id store, ut_resourceId = fl_resourceId file, ut_randomWrite = im_randomWrite internalMeta = Some True\<rparr>))"

definition store_env_of ::
    "'k store_api \<Rightarrow> 's store_bridge \<Rightarrow> ('s store_world, json) store_server \<Rightarrow> 's store_world request_api \<Rightarrow> nat \<Rightarrow>
     ('s store_world, json) store_env" where
  "store_env_of x sv api requests serverRequestChunkSize =
     (let c = sa_conn x; env = cn_env c in
      \<lparr>se_file = \<lparr>fe_crypto = en_crypto env, fe_api = api, fe_base64 = base64_from (en_poco env),
         fe_encryptMeta = FileMetaEncryptor_encrypt c\<rparr>,
       se_requests = requests, se_serverRequestChunkSize = serverRequestChunkSize,
       se_fileParams = opened_file_params x sv, se_assertStoreExist = assertStoreExist sv,
       se_generateId = EndpointUtils_generateId c,
       se_finalizeWrite = (\<lambda>handle publicMeta privateMeta info. world_draws (registerUploadedFile c sv handle publicMeta privateMeta info))\<rparr>)"

end
