(* ===== verification/Store_Properties.thy ===== *)
theory Store_Properties
  imports Store_StoreApi Core_ModuleKeys
begin

text \<open>
  What the stores promise: which files and stores are shown without error, that the meta data of an
  uploaded file can be read by everyone who has the store's key, with what is needed to read the file's
  content, and where the code accepts what it should not.
\<close>

subsection \<open>Files that are read\<close>

text \<open>
  A file of the present format is genuine when its meta data carries a signed integrity object that
  covers all its parts and names this context, store and file, who wrote its last version and a time
  close to the Bridge's, its parts were decrypted with the given key and verified with the author's,
  and its size is the one of the encrypted internal data.
\<close>

definition file_genuine ::
    "'k connection \<Rightarrow> ServerFile \<Rightarrow> string \<Rightarrow> DecryptedEncKeyV2 \<Rightarrow> File \<Rightarrow> DataIntegrityObject \<Rightarrow> bool" where
  "file_genuine c file storeResourceId k r dio \<longleftrightarrow>
     (\<exists>e d m. deserialize_struct (EncryptedFileMetaV5_fromJSON (en_poco (cn_env c))) (fl_meta file) = Inr e \<and>
        file_meta_authentic (cn_env c) e (ek_key k) d \<and> dio = fd5_dio d \<and>
        item_bound (fl_contextId file) (fl_resourceId file) (fl_storeId file) storeResourceId
          (fl_lastModifier file) (fl_lastModificationDate file) dio \<and>
        parse_internal_meta (cn_env c) (fd5_internalMeta d) = Inr m \<and>
        r = convertServerFileToLibFile file (fd5_publicMeta d) (fd5_privateMeta d) (im_size m) (fd5_authorPubKey d) 0 5 (random_write m))"

text \<open>A file of version 4 carries signatures of its parts, but nothing says of which file.\<close>

definition file_signed :: "'k connection \<Rightarrow> ServerFile \<Rightarrow> DecryptedEncKeyV2 \<Rightarrow> File \<Rightarrow> bool" where
  "file_signed c file k r \<longleftrightarrow>
     (\<exists>e a. deserialize_struct (EncryptedFileMetaV4_fromJSON (en_poco (cn_env c))) (fl_meta file) = Inr e \<and>
        PublicKey_fromBase58DER (en_crypto (cn_env c)) (en_ecc (cn_env c)) (fe4_authorPubKey e) = Inr a \<and>
        lf_authorPubKey r = fe4_authorPubKey e \<and>
        DataEncryptorV4_decodeAndVerify (cn_env c) (fe4_publicMeta e) a = Inr (lf_publicMeta r) \<and>
        DataEncryptorV4_decodeAndDecryptAndVerify (cn_env c) (fe4_privateMeta e) a (ek_key k) = Inr (lf_privateMeta r) \<and>
        bindR (DataEncryptorV4_decodeAndDecryptAndVerify (cn_env c) (fe4_fileSize e) a (ek_key k)) deserializeNumber = Inr (lf_size r))"

definition file_shown ::
    "'k connection \<Rightarrow> ServerFile \<Rightarrow> string \<Rightarrow> DecryptedEncKeyV2 \<Rightarrow> File \<Rightarrow> DataIntegrityObject \<Rightarrow> bool" where
  "file_shown c file storeResourceId k r dio \<longleftrightarrow>
     (if lf_schemaVersion r = 5 then k2_statusCode k = 0 \<and> file_genuine c file storeResourceId k r dio
      else dio = old_file_dio file (lf_authorPubKey r) \<and>
        (lf_schemaVersion r = 4 \<and> file_signed c file k r \<or> lf_schemaVersion r = 1))"

lemma decrypt_file_v4_ok:
  assumes "fd4_statusCode (FileMetaEncryptorV4_decrypt env u e key) = 0"
  obtains a where "PublicKey_fromBase58DER (en_crypto env) (en_ecc env) (fe4_authorPubKey e) = Inr a"
    and "fd4_authorPubKey (FileMetaEncryptorV4_decrypt env u e key) = fe4_authorPubKey e"
    and "DataEncryptorV4_decodeAndVerify env (fe4_publicMeta e) a = Inr (fd4_publicMeta (FileMetaEncryptorV4_decrypt env u e key))"
    and "DataEncryptorV4_decodeAndDecryptAndVerify env (fe4_privateMeta e) a key =
      Inr (fd4_privateMeta (FileMetaEncryptorV4_decrypt env u e key))"
    and "bindR (DataEncryptorV4_decodeAndDecryptAndVerify env (fe4_fileSize e) a key) deserializeNumber =
      Inr (fd4_fileSize (FileMetaEncryptorV4_decrypt env u e key))"
proof -
  obtain y r where m: "decrypt_file_meta_v4 env e key (DecryptedFileMetaV4_new u) = (y, r)" by fastforce
  have y: "y = Inr ()" using assms m by (cases y) (auto simp: FileMetaEncryptorV4_decrypt_def)
  have res: "FileMetaEncryptorV4_decrypt env u e key = r" by (simp add: FileMetaEncryptorV4_decrypt_def m y)
  then have "fd4_statusCode r = 0" using assms by simp
  with m y show thesis
    using that unfolding res
    by (auto simp: decrypt_file_meta_v4_def bindS_eq_Inr DecryptedFileMetaV4_new_def split: if_splits)
qed

lemma assert_file_integrity_ok:
  assumes "assert_file_integrity c file resourceId = Inr ()"
  obtains version where "getFileDataStructureVersion c file = Inr version" and "version \<in> {1, 4, 5}"
    and "version = 5 \<longrightarrow> (\<exists>e dio. deserialize_struct (EncryptedFileMetaV5_fromJSON (en_poco (cn_env c))) (fl_meta file) = Inr e \<and>
      FileMetaEncryptorV5_getDIOAndAssertIntegrity (cn_env c) e = Inr dio \<and>
      item_bound (fl_contextId file) (fl_resourceId file) (fl_storeId file) resourceId
        (fl_lastModifier file) (fl_lastModificationDate file) dio)"
  using assms that unfolding assert_file_integrity_def item_bound_def
  by (auto simp: bindR_eq_Inr split: if_splits)

lemmas file_conversions =
  convertServerFileToLibFile_def convertStoreFileMetaV1ToFile_def convertDecryptedFileMetaV4ToFile_def
  convertDecryptedFileMetaV5ToFile_def failed_file_def

lemma decrypted_v5_file:
  assumes "deserialize_struct (EncryptedFileMetaV5_fromJSON (en_poco (cn_env c))) (fl_meta file) = Inr e"
    and "FileMetaEncryptorV5_getDIOAndAssertIntegrity (cn_env c) e = Inr dio"
    and "item_bound (fl_contextId file) (fl_resourceId file) (fl_storeId file) resourceId
      (fl_lastModifier file) (fl_lastModificationDate file) dio"
    and "lf_statusCode (convertDecryptedFileMetaV5ToFile c file (decryptFileMetaV5 c file k)) = 0"
  shows "k2_statusCode k = 0 \<and> file_genuine c file resourceId k
    (convertDecryptedFileMetaV5ToFile c file (decryptFileMetaV5 c file k)) (fd5_dio (decryptFileMetaV5 c file k))"
proof -
  let ?d = "decryptFileMetaV5 c file k"
  obtain m where s: "fd5_statusCode ?d = 0" and m: "parse_internal_meta (cn_env c) (fd5_internalMeta ?d) = Inr m"
    using assms(4) by (auto simp: file_conversions split: if_splits sum.splits)
  have k: "k2_statusCode k = 0" "?d = FileMetaEncryptorV5_decrypt (cn_env c) e (ek_key k)"
    using s by (auto simp: decryptFileMetaV5_def assms(1) split: if_splits)
  have a: "file_meta_authentic (cn_env c) e (ek_key k) ?d" "fd5_dio ?d = dio"
    using file_meta_decrypt_authentic [of "cn_env c" e "ek_key k"] s assms(2) k(2) by simp_all
  then show ?thesis
    unfolding file_genuine_def using k(1) assms(1,3) m s
    by (intro conjI exI [of _ e] exI [of _ ?d] exI [of _ m]) (simp_all add: convertDecryptedFileMetaV5ToFile_def)
qed

lemma decrypted_v4_file:
  assumes "fd4_statusCode (decryptFileMetaV4 x file k) = 0"
  shows "file_signed (sa_conn x) file k (convertDecryptedFileMetaV4ToFile (sa_conn x) file (decryptFileMetaV4 x file k))"
proof -
  obtain e where e: "deserialize_struct (EncryptedFileMetaV4_fromJSON (en_poco (cn_env (sa_conn x)))) (fl_meta file) = Inr e"
      "decryptFileMetaV4 x file k = FileMetaEncryptorV4_decrypt (cn_env (sa_conn x)) (sa_uninit x) e (ek_key k)"
    using assms by (auto simp: decryptFileMetaV4_def Let_def split: sum.splits)
  from assms show ?thesis
    unfolding e(2) by (rule decrypt_file_v4_ok) (auto simp: file_signed_def e(1) file_conversions Let_def)
qed

lemma decrypted_file_shown:
  assumes "assert_file_integrity (sa_conn x) file resourceId = Inr ()"
    and "decryptAndConvertFileDataToFileInfo x file k = Inr (r, dio)" and "lf_statusCode r = 0"
  shows "file_shown (sa_conn x) file resourceId k r dio"
  using assms(1)
proof (rule assert_file_integrity_ok)
  let ?c = "sa_conn x"
  fix version assume v: "getFileDataStructureVersion ?c file = Inr version" "version \<in> {1, 4, 5}"
    and five: "version = 5 \<longrightarrow> (\<exists>e dio. deserialize_struct (EncryptedFileMetaV5_fromJSON (en_poco (cn_env ?c))) (fl_meta file) = Inr e \<and>
      FileMetaEncryptorV5_getDIOAndAssertIntegrity (cn_env ?c) e = Inr dio \<and>
      item_bound (fl_contextId file) (fl_resourceId file) (fl_storeId file) resourceId
        (fl_lastModifier file) (fl_lastModificationDate file) dio)"
  consider "version = 1" | "version = 4" | "version = 5" using v(2) by blast
  then show ?thesis
  proof cases
    case 1
    then show ?thesis
      using assms(2) v(1) by (auto simp: decryptAndConvertFileDataToFileInfo_def file_shown_def file_conversions Let_def)
  next
    case 2
    then have r: "r = convertDecryptedFileMetaV4ToFile ?c file (decryptFileMetaV4 x file k)"
        "dio = old_file_dio file (fd4_authorPubKey (decryptFileMetaV4 x file k))"
      using assms(2) v(1) by (auto simp: decryptAndConvertFileDataToFileInfo_def Let_def)
    then show ?thesis
      using decrypted_v4_file [of x "file" k] assms(3) by (simp add: file_shown_def file_conversions Let_def)
  next
    case 3
    then have r: "r = convertDecryptedFileMetaV5ToFile ?c file (decryptFileMetaV5 ?c file k)"
        "dio = fd5_dio (decryptFileMetaV5 ?c file k)"
      using assms(2) v(1) by (auto simp: decryptAndConvertFileDataToFileInfo_def Let_def)
    have "lf_schemaVersion r = 5" by (simp add: r(1) file_conversions split: prod.split)
    then show ?thesis
      using five 3 decrypted_v5_file [of ?c "file" _ _ resourceId k] assms(3) unfolding file_shown_def r by auto
  qed
qed

lemma status_failed_file [simp]: "lf_statusCode (failed_file file s) = s"
  by (simp add: file_conversions)

subsection \<open>Lists of files\<close>

interpretation store_files: listed_items "decrypt_listed_file x keyMap rid" failed_file lf_statusCode put_file_status
  for x :: "'k store_api" and keyMap rid
  by unfold_locales simp_all

text \<open>What duplicates are recognised by.\<close>

definition file_nonce :: "'k connection \<Rightarrow> ServerFile \<Rightarrow> string \<times> int" where
  "file_nonce c file =
     (case bindR (deserialize_struct (EncryptedFileMetaV5_fromJSON (en_poco (cn_env c))) (fl_meta file))
        (FileMetaEncryptorV5_getDIOAndAssertIntegrity (cn_env c)) of
        Inr dio \<Rightarrow> if getFileDataStructureVersion c file = Inr 5 then (dio_randomId dio, dio_timestamp dio) else ([], fl_lastModificationDate file)
      | Inl e \<Rightarrow> ([], fl_lastModificationDate file))"

lemma authentic_dio:
  "file_meta_authentic env e key d \<Longrightarrow> FileMetaEncryptorV5_getDIOAndAssertIntegrity env e = Inr dio \<Longrightarrow> fd5_dio d = dio"
  by (auto simp: file_meta_authentic_def file_integrity_ok_def dest!: file_getDIO_integrity)

lemma listed_file_shown:
  assumes "decrypt_listed_file x keyMap rid file = Inr (r, dio)" and "lf_statusCode r = 0"
  shows "\<exists>k. map_of keyMap (fl_keyId file) = Some k \<and> file_shown (sa_conn x) file rid k r dio"
    and "(dio_randomId dio, dio_timestamp dio) = file_nonce (sa_conn x) file"
proof -
  let ?c = "sa_conn x"
  obtain k where k: "assert_file_integrity ?c file rid = Inr ()" "map_of keyMap (fl_keyId file) = Some k"
      "decryptAndConvertFileDataToFileInfo x file k = Inr (r, dio)"
    using assms(1) by (auto simp: decrypt_listed_file_def decrypt_with_listed_key_def bindR_eq_Inr unordered_map_at_def split: option.splits)
  note shown = decrypted_file_shown [OF k(1,3) assms(2)]
  then show "\<exists>k. map_of keyMap (fl_keyId file) = Some k \<and> file_shown ?c file rid k r dio" using k(2) by blast
  have schema: "getFileDataStructureVersion ?c file = Inr (lf_schemaVersion r)"
    using k(1) by (rule assert_file_integrity_ok)
      (use k(3) in \<open>auto simp: decryptAndConvertFileDataToFileInfo_def Let_def file_conversions split: prod.splits\<close>)
  show "(dio_randomId dio, dio_timestamp dio) = file_nonce ?c file"
  proof (cases "lf_schemaVersion r = 5")
    case True
    then obtain e d where e: "deserialize_struct (EncryptedFileMetaV5_fromJSON (en_poco (cn_env ?c))) (fl_meta file) = Inr e"
        "file_meta_authentic (cn_env ?c) e (ek_key k) d" "dio = fd5_dio d"
      using shown by (auto simp: file_shown_def file_genuine_def)
    moreover obtain dio' where "FileMetaEncryptorV5_getDIOAndAssertIntegrity (cn_env ?c) e = Inr dio'"
      using k(1) by (rule assert_file_integrity_ok) (use e(1) schema True in auto)
    ultimately show ?thesis
      using authentic_dio [OF e(2)] schema True by (simp add: file_nonce_def)
  next
    case False
    then show ?thesis
      using shown schema by (auto simp: file_shown_def file_nonce_def old_file_dio_def split: sum.split if_splits)
  qed
qed

text \<open>
  C14. A list of files. There is one result for every file, in order. A result without error of the
  present format is genuine: its meta data carries a signed integrity object over all parts, made for
  exactly this context, store and file by its last modifier at a time within the tolerance, decrypted
  with the key that the key provider returned, without error, for its key id and this store, a key of the
  present format having been accepted from the entries of the request; its size is the encrypted one. One of version 4 was signed in its parts by the key shown as its author's; one
  of version 1 carries no checked authentication. The verifier approved the author of each, and no two
  of them have the same random id and time.
\<close>

theorem store_files_authentic:
  assumes "validateDecryptAndConvertFilesDataToFilesInfo x files keys = Inr rs"
  shows "length rs = length files \<and>
    (\<forall>i < length files. lf_statusCode (rs ! i) = 0 \<longrightarrow>
       (\<exists>k dio b. file_shown (sa_conn x) (files ! i) (mk_moduleResourceId keys) k (rs ! i) dio \<and>
         provided_key (sa_conn x) (listed_keys_request keys (map fl_keyId files)) (keys_location keys) (fl_keyId (files ! i)) k \<and>
         (\<exists>reqs answers. cn_verifier (sa_conn x) reqs = Some answers \<and>
           (file_request (mk_contextId keys) (rs ! i) b, True) \<in> set (zip reqs answers)))) \<and>
    (\<forall>i j. i < j \<and> j < length files \<and> lf_statusCode (rs ! i) = 0 \<and> lf_statusCode (rs ! j) = 0 \<longrightarrow>
       file_nonce (sa_conn x) (files ! i) \<noteq> file_nonce (sa_conn x) (files ! j))"
proof -
  let ?c = "sa_conn x" and ?rid = "mk_moduleResourceId keys"
  let ?ids = "map fl_keyId files"
  obtain keyMap where km: "keys_at ?c (KeyRequest_addMany (mk_keys keys) (sorted_list_of_set (set ?ids)) (keys_location keys)) (keys_location keys) = Inr keyMap"
      and ver: "verify_items (cn_verifier ?c) lf_statusCode put_file_status (file_request (mk_contextId keys))
        (decrypt_items (decrypt_listed_file x keyMap ?rid) failed_file put_file_status [] files) = Inr rs"
    using assms by (auto simp: validateDecryptAndConvertFilesDataToFilesInfo_def keys_location_def Let_def bindR_eq_Inr split: option.splits)
  note items = store_files.verified_items [OF ver]
  have dec: "\<exists>dio reqs answers b. decrypt_listed_file x keyMap ?rid (files ! i) = Inr (rs ! i, dio) \<and>
      cn_verifier ?c reqs = Some answers \<and> (file_request (mk_contextId keys) (rs ! i) b, True) \<in> set (zip reqs answers)"
    if "i < length files" "lf_statusCode (rs ! i) = 0" for i
    using items(2) [OF that] by blast
  show ?thesis
  proof (intro conjI allI impI)
    show "length rs = length files" by (rule items(1))
    show "\<exists>k dio b. file_shown ?c (files ! i) ?rid k (rs ! i) dio \<and>
        provided_key ?c (listed_keys_request keys ?ids) (keys_location keys) (fl_keyId (files ! i)) k \<and>
        (\<exists>reqs answers. cn_verifier ?c reqs = Some answers \<and>
          (file_request (mk_contextId keys) (rs ! i) b, True) \<in> set (zip reqs answers))"
      if i: "i < length files" "lf_statusCode (rs ! i) = 0" for i
    proof -
      obtain dio reqs answers b where d: "decrypt_listed_file x keyMap ?rid (files ! i) = Inr (rs ! i, dio)"
          "cn_verifier ?c reqs = Some answers" "(file_request (mk_contextId keys) (rs ! i) b, True) \<in> set (zip reqs answers)"
        using dec [OF i] by blast
      obtain k where k: "map_of keyMap (fl_keyId (files ! i)) = Some k" "file_shown ?c (files ! i) ?rid k (rs ! i) dio"
        using listed_file_shown(1) [OF d(1) i(2)] by blast
      show ?thesis using listed_key_provided [OF km k(1)] k(2) d(2,3) by blast
    qed
    show "file_nonce ?c (files ! i) \<noteq> file_nonce ?c (files ! j)"
      if ij: "i < j \<and> j < length files \<and> lf_statusCode (rs ! i) = 0 \<and> lf_statusCode (rs ! j) = 0" for i j
    proof -
      obtain d d' where "decrypt_listed_file x keyMap ?rid (files ! i) = Inr (rs ! i, d)"
          "decrypt_listed_file x keyMap ?rid (files ! j) = Inr (rs ! j, d')"
        using dec ij by (meson order.strict_trans)
      then show ?thesis
        using store_files.verified_distinct [OF ver, of i j d d'] listed_file_shown(2) ij by metis
    qed
  qed
qed

subsection \<open>Stores that are read\<close>

text \<open>
  A store of the present format is genuine like any container; one of version 4 was signed in its
  parts by the key that is shown to the verifier; one of version 1 carries nothing of its author.
\<close>

definition store_signed :: "'k connection \<Rightarrow> ServerStore \<Rightarrow> DecryptedEncKeyV2 \<Rightarrow> Store \<Rightarrow> string \<Rightarrow> bool" where
  "store_signed c store k r author \<longleftrightarrow>
     (\<exists>e a. deserialize_struct (EncryptedModuleDataV4_fromJSON (en_poco (cn_env c))) (sde_data (last (sr_data store))) = Inr e \<and>
        author = me4_authorPubKey e \<and> PublicKey_fromBase58DER (en_crypto (cn_env c)) (en_ecc (cn_env c)) author = Inr a \<and>
        DataEncryptorV4_decodeAndVerify (cn_env c) (me4_publicMeta e) a = Inr (lst_publicMeta r) \<and>
        DataEncryptorV4_decodeAndDecryptAndVerify (cn_env c) (me4_privateMeta e) a (ek_key k) = Inr (lst_privateMeta r))"

definition store_shown :: "'k connection \<Rightarrow> ServerStore \<Rightarrow> DecryptedEncKeyV2 \<Rightarrow> Store \<Rightarrow> DataIntegrityObject \<Rightarrow> bool" where
  "store_shown c store k r dio \<longleftrightarrow>
     (if lst_schemaVersion r = 5 then k2_statusCode k = 0 \<and>
        (\<exists>d. container_genuine c (sde_data (last (sr_data store))) (store_location store) (sr_lastModifier store)
           (sr_lastModificationDate store) k d \<and> dio = md_dio d \<and> convertDecryptedStoreDataV5ToStore c store d = Inr r)
      else if lst_schemaVersion r = 4 then (\<exists>author. store_signed c store k r author \<and> dio = old_store_dio store author)
      else lst_schemaVersion r = 1 \<and> dio = old_store_dio store [])"

lemma convertServerStore_fields:
  "convertServerStoreToLibStore c store pm sm s v = Inr r \<Longrightarrow>
   lst_statusCode r = s \<and> lst_schemaVersion r = v \<and> lst_publicMeta r = pm \<and> lst_privateMeta r = sm"
  by (auto simp: convertServerStoreToLibStore_def bindR_eq_Inr)

interpretation stores: listed_containers "validateStoreDataIntegrity c" "failed_store c" Store_new lst_statusCode put_store_status
  for c :: "'k connection"
  by unfold_locales (simp_all add: failed_store_def convertServerStore_fields)

lemma decrypted_v4_store:
  assumes "convertDecryptedStoreDataV4ToStore c store (decryptModuleDataV4 (cn_env c) (sde_data (last (sr_data store))) k) = Inr r"
    and "lst_statusCode r = 0"
  shows "store_signed c store k r (md4_authorPubKey (decryptModuleDataV4 (cn_env c) (sde_data (last (sr_data store))) k))"
proof -
  let ?data = "sde_data (last (sr_data store))"
  let ?d = "decryptModuleDataV4 (cn_env c) ?data k"
  have r: "md4_statusCode ?d = 0" "lst_publicMeta r = md4_publicMeta ?d" "lst_privateMeta r = md4_privateMeta ?d"
    using convertServerStore_fields [OF assms(1) [unfolded convertDecryptedStoreDataV4ToStore_def]] assms(2) by simp_all
  then obtain e where e: "deserialize_struct (EncryptedModuleDataV4_fromJSON (en_poco (cn_env c))) ?data = Inr e"
      "?d = ModuleDataEncryptorV4_decrypt (cn_env c) e (ek_key k)"
    by (auto simp: decryptModuleDataV4_def split: sum.splits)
  from r(1) [unfolded e(2)] show ?thesis
    by (rule decrypt_module_v4_ok) (auto simp: store_signed_def e r(2,3))
qed

lemma decrypted_store_shown:
  assumes "validateStoreDataIntegrity c store = 0"
    and "decryptAndConvertStoreDataToStore c store (last (sr_data store)) k = Inr (r, dio)" and "lst_statusCode r = 0"
  shows "store_shown c store k r dio"
proof -
  let ?data = "sde_data (last (sr_data store))"
  let ?d = "decryptModuleDataV5 (cn_env c) ?data k"
  obtain version where v: "getStoreEntryDataStructureVersion c (last (sr_data store)) = Inr version"
      and five: "version = 5 \<Longrightarrow> \<exists>e dio'. deserialize_struct (EncryptedModuleDataV5_fromJSON (en_poco (cn_env c))) ?data = Inr e \<and>
        ModuleDataEncryptorV5_getDIOAndAssertIntegrity (cn_env c) e = Inr dio' \<and>
        dio_contextId dio' = sr_contextId store \<and> Some (dio_resourceId dio') = sr_resourceId store \<and>
        dio_creatorUserId dio' = sr_lastModifier store \<and> TimestampValidator_validate (dio_timestamp dio') (sr_lastModificationDate store)"
      and known: "version = 1 \<or> version = 4 \<or> version = 5"
    using assms(1) by (auto simp: validateStoreDataIntegrity_def assertStoreDataIntegrity_def Let_def bindR_eq_Inr
        split: sum.splits if_splits)
  consider "version = 1" | "version = 4" | "version = 5" using known by blast
  then show ?thesis
  proof cases
    case 1
    then show ?thesis
      using assms(2) v by (auto simp: decryptAndConvertStoreDataToStore_def store_shown_def bindR_eq_Inr
          convertStoreDataV1ToStore_def dest: convertServerStore_fields)
  next
    case 2
    then have r: "convertDecryptedStoreDataV4ToStore c store (decryptModuleDataV4 (cn_env c) ?data k) = Inr r"
        "dio = old_store_dio store (md4_authorPubKey (decryptModuleDataV4 (cn_env c) ?data k))"
      using assms(2) v by (auto simp: decryptAndConvertStoreDataToStore_def Let_def bindR_eq_Inr)
    have "lst_schemaVersion r = 4"
      using r(1) by (auto simp: convertDecryptedStoreDataV4ToStore_def dest: convertServerStore_fields)
    with decrypted_v4_store [OF r(1) assms(3)] r(2) show ?thesis by (auto simp: store_shown_def)
  next
    case 3
    obtain e dio' where e: "deserialize_struct (EncryptedModuleDataV5_fromJSON (en_poco (cn_env c))) ?data = Inr e"
        "ModuleDataEncryptorV5_getDIOAndAssertIntegrity (cn_env c) e = Inr dio'"
        "dio_contextId dio' = sr_contextId store" "Some (dio_resourceId dio') = sr_resourceId store"
        "dio_creatorUserId dio' = sr_lastModifier store" "TimestampValidator_validate (dio_timestamp dio') (sr_lastModificationDate store)"
      using five [OF 3] by blast
    have r: "convertDecryptedStoreDataV5ToStore c store ?d = Inr r" "dio = md_dio ?d"
      using assms(2) v 3 by (auto simp: decryptAndConvertStoreDataToStore_def Let_def bindR_eq_Inr)
    note f = convertServerStore_fields [OF r(1) [unfolded convertDecryptedStoreDataV5ToStore_def]]
    have "md_statusCode ?d = 0" using f assms(3) by simp
    then have g: "container_genuine c ?data (store_location store) (sr_lastModifier store) (sr_lastModificationDate store) k ?d"
      by (rule decrypted_container_genuine [OF e(1,2)]) (use e(3-) in \<open>simp_all add: store_location_def flip: e(4)\<close>)
    moreover have "k2_statusCode k = 0" using g by (simp add: container_genuine_def)
    ultimately show ?thesis using r f unfolding store_shown_def by auto
  qed
qed

text \<open>
  A list of stores. There is one result for every store, in order. A result without error of
  the present format is genuine: it carries a signed integrity object of its last modifier over all
  parts, made for this context and store at a time within the tolerance, and was decrypted with the key
  that the provider returned, without error, for its key id and location; one of
  version 4 was signed in its parts by the key that is shown to the verifier; and the verifier approved
  the modifier, for the old formats with no or this unauthenticated key.
\<close>

theorem store_stores_authentic:
  assumes "validateDecryptAndConvertStoresDataToStores c servers = Inr rs"
  shows "length rs = length servers \<and>
    (\<forall>i < length servers. lst_statusCode (rs ! i) = 0 \<longrightarrow>
       (\<exists>k dio. store_shown c (servers ! i) k (rs ! i) dio \<and>
         provided_key c (containers_key_request sr_keys (\<lambda>store. sde_keyId (last (sr_data store))) store_location servers)
           (store_location (servers ! i)) (sde_keyId (last (sr_data (servers ! i)))) k \<and>
         (\<exists>reqs answers. cn_verifier c reqs = Some answers \<and>
           (store_request (rs ! i) dio, True) \<in> set (zip reqs answers))))"
proof -
  have get: "get_store_keys c = (\<lambda>servers. bindR
      (case mapS (\<lambda>store. KeyRequest_addOne (sr_keys store) (sde_keyId (last (sr_data store))) (store_location store)) servers KeyRequest_new of
        (Inl e, _) \<Rightarrow> Inl e | (Inr _, r) \<Rightarrow> Inr r)
      (KeyProvider_getKeysAndVerify (cn_env c) (cn_userPrivKey c) (cn_verifier c)))"
    by (simp add: fun_eq_iff get_store_keys_def request_store_keys_def)
  have dec: "decrypt_store c = (\<lambda>m store. bindR (at_location m (store_location store)) (\<lambda>ks. bindR
      (unordered_map_at ks (sde_keyId (last (sr_data store)))) (decryptAndConvertStoreDataToStore c store (last (sr_data store)))))"
    by (simp add: fun_eq_iff decrypt_store_def)
  from stores.read_with_keys [OF assms [unfolded validateDecryptAndConvertStoresDataToStores_def get dec]]
  show ?thesis using decrypted_store_shown by meson
qed

end
