(* ===== verification/Store_Writing.thy ===== *)
theory Store_Writing
  imports Store_Properties Core_Created
begin

text \<open>
  What is written to stores: the meta data of an uploaded file is read back with the data given, and
  with the key, digests and sizes the upload used; and the meta data of one file that is served for
  another file is refused by \<open>getFile\<close> but accepted where a file is opened.
\<close>

subsection \<open>Meta data of the present format\<close>

lemma parse_internal_meta_text:
  assumes "core_env_ok env" and "internal_meta_fits m"
  shows "parse_internal_meta env (internal_meta_text env m) = Inr m"
proof -
  obtain ob where ob: "InternalStoreFileMeta_toJSON m = JObject ob" by (simp add: InternalStoreFileMeta_toJSON_def)
  have "wf_json (JObject ob)" using wf_InternalStoreFileMeta [OF assms(2)] by (simp add: ob)
  then have "poco_parse (en_poco env) (Utils_stringify (en_poco env) (JObject ob)) = Inr (JObject ob)"
    using core_env_okD(6) [OF assms(1)] by (simp add: json_text_ok_def)
  then show ?thesis
    by (simp add: parse_internal_meta_def internal_meta_text_def ob InternalStoreFileMeta_roundtrip [OF ob])
qed

text \<open>What can be read of the meta data with the key, whatever file it comes with.\<close>

definition readable_meta ::
    "'k connection \<Rightarrow> bytes \<Rightarrow> bytes \<Rightarrow> bytes \<Rightarrow> InternalStoreFileMeta \<Rightarrow> json \<Rightarrow> DataIntegrityObject \<Rightarrow> bool" where
  "readable_meta c key pm sm m v dio \<longleftrightarrow>
     (\<forall>x file k. sa_conn x = c \<and> fl_meta file = v \<and> checkable k \<and> ek_key k = key \<longrightarrow>
        decryptAndConvertFileDataToFileInfo x file k = Inr (convertServerFileToLibFile file pm sm (im_size m)
          (PublicKey_toBase58DER (en_crypto (cn_env c)) (en_ecc (cn_env c)) (cn_userPrivKey c)) 0 5 (random_write m), dio) \<and>
        decryptFileInternalMeta x file k = Inr m) \<and>
     (\<forall>file rid. fl_meta file = v \<longrightarrow> assert_file_integrity c file rid =
        (if item_bound (fl_contextId file) (fl_resourceId file) (fl_storeId file) rid (fl_lastModifier file) (fl_lastModificationDate file) dio
         then Inr () else Inl (StoreExn FileDataIntegrityException)))"

lemma encrypted_file_meta:
  assumes "connection_ok c" and "cn_myUserId c contextId = Inr u" and "u \<noteq> []" and "contextId \<noteq> []" and "length key = 32"
    and "internal_meta_fits m"
  obtains v draws' dio where
    "encryptFileMeta c 5 (ConnectionImpl_createDIO c contextId resourceId (Some storeId) (Some rid)) pm sm m key draws = (Inr v, draws')"
    and "readable_meta c key pm sm m v dio" and "dio_resourceId dio = resourceId"
    and "\<forall>date. TimestampValidator_validate (cn_now c draws) date \<longrightarrow> item_bound contextId resourceId storeId rid u date dio"
proof -
  let ?env = "cn_env c" and ?pub = "PublicKey_toBase58DER (en_crypto (cn_env c)) (en_ecc (cn_env c)) (cn_userPrivKey c)"
  have env: "core_env_ok ?env" using assms(1) by (simp add: connection_ok_def)
  obtain dio where dio: "ConnectionImpl_createDIO c contextId resourceId (Some storeId) (Some rid) draws = (Inr dio, draws + 1)"
      "dio_valid ?env (cn_userPrivKey c) dio" "dio_creatorUserId dio = u" "dio_contextId dio = contextId" "dio_resourceId dio = resourceId"
      "dio_timestamp dio = cn_now c draws" "dio_containerId dio = Some storeId" "dio_containerResourceId dio = Some rid"
    by (rule createDIO_valid [OF assms(1-4)])
  let ?data = "\<lparr>ft5_publicMeta = pm, ft5_privateMeta = sm, ft5_internalMeta = internal_meta_text ?env m, ft5_dio = dio\<rparr>"
  define dio' where "dio' = dio\<lparr>dio_bridgeIdentity := Some (case dio_bridgeIdentity dio of Some b \<Rightarrow> b | None \<Rightarrow> en_uninit ?env)\<rparr>"
  have "dio_valid ?env (cn_userPrivKey c) (ft5_dio ?data)" using dio(2) by simp
  then obtain e draws' where e: "FileMetaEncryptorV5_encrypt ?env ?data (cn_userPrivKey c) key (draws + 1) = (Inr e, draws')"
      "fe5_version e = 5" "FileMetaEncryptorV5_getDIOAndAssertIntegrity ?env e = Inr dio'"
      "FileMetaEncryptorV5_decrypt ?env e key = \<lparr>fd5_dataStructureVersion = 5, fd5_statusCode = 0, fd5_publicMeta = pm,
        fd5_privateMeta = sm, fd5_internalMeta = internal_meta_text ?env m, fd5_authorPubKey = ?pub, fd5_dio = dio'\<rparr>"
    by (rule FileMetaEncryptorV5_inverse [OF env _ assms(5)]) (simp add: dio'_def)
  obtain ob where ob: "EncryptedFileMetaV5_toJSON e = JObject ob" by (simp add: EncryptedFileMetaV5_toJSON_def)
  note read = EncryptedFileMetaV5_version [OF ob, unfolded e(2)] EncryptedFileMetaV5_roundtrip [OF ob]
  have meta: "parse_internal_meta ?env (internal_meta_text ?env m) = Inr m" by (rule parse_internal_meta_text [OF env assms(6)])
  have "readable_meta c key pm sm m (JObject ob) dio'"
    unfolding readable_meta_def
  proof (intro conjI allI impI)
    fix x :: "'a store_api" and "file" :: ServerFile and k
    assume f: "sa_conn x = c \<and> fl_meta file = JObject ob \<and> checkable k \<and> ek_key k = key"
    then have v: "getFileDataStructureVersion c file = Inr 5" by (simp add: getFileDataStructureVersion_def read)
    have d: "decryptFileMetaV5 c file k = FileMetaEncryptorV5_decrypt ?env e key" "k2_statusCode k = 0"
      using f by (simp_all add: decryptFileMetaV5_def read checkable_def)
    show "decryptAndConvertFileDataToFileInfo x file k = Inr (convertServerFileToLibFile file pm sm (im_size m) ?pub 0 5 (random_write m), dio')"
      using f by (simp add: decryptAndConvertFileDataToFileInfo_def v d(1) e(4) convertDecryptedFileMetaV5ToFile_def meta)
    show "decryptFileInternalMeta x file k = Inr m"
      using f by (simp add: decryptFileInternalMeta_def v d e(4) meta)
  next
    fix "file" :: ServerFile and rid assume f: "fl_meta file = JObject ob"
    then have v: "getFileDataStructureVersion c file = Inr 5" by (simp add: getFileDataStructureVersion_def read)
    show "assert_file_integrity c file rid =
        (if item_bound (fl_contextId file) (fl_resourceId file) (fl_storeId file) rid (fl_lastModifier file) (fl_lastModificationDate file) dio'
         then Inr () else Inl (StoreExn FileDataIntegrityException))"
      by (auto simp: assert_file_integrity_def v f read e(3) item_bound_def)
  qed
  moreover have "encryptFileMeta c 5 (ConnectionImpl_createDIO c contextId resourceId (Some storeId) (Some rid)) pm sm m key draws
      = (Inr (JObject ob), draws')"
    using e(1) by (simp add: encryptFileMeta_def Let_def bindS_def dio(1) ob)
  ultimately show thesis
    by (intro that [of "JObject ob" draws' dio']) (use dio in \<open>simp_all add: dio'_def item_bound_def\<close>)
qed

subsection \<open>When encrypting the meta data does not throw\<close>

text \<open>
  Under a key of 32 bytes the formats 1 and 2 of keys never fail, given for format 2 a user and a context
  for the integrity object; every other format throws.
\<close>

lemma FileMetaEncryptor_encrypts:
  assumes "connection_ok c" and "length (dk_key key) = 32"
    and "version = 1 \<or> version = 2 \<and> cn_myUserId c (fi_contextId info) = Inr u \<and> u \<noteq> [] \<and> fi_contextId info \<noteq> []"
  shows "\<exists>x draws'. FileMetaEncryptor_encrypt c info m key version draws = (Inr x, draws')"
proof -
  have env: "core_env_ok (cn_env c)" using assms(1) by (simp add: connection_ok_def)
  consider "version = 1" | "version = 2" "cn_myUserId c (fi_contextId info) = Inr u" "u \<noteq> []" "fi_contextId info \<noteq> []"
    using assms(3) by blast
  then show ?thesis
  proof cases
    case 1
    obtain e d where "FileMetaEncryptorV4_encrypt (cn_env c)
        \<lparr>ft4_publicMeta = fm_publicMeta m, ft4_privateMeta = fm_privateMeta m, ft4_fileSize = im_size (fm_internalFileMeta m),
         ft4_internalMeta = internal_meta_text (cn_env c) (fm_internalFileMeta m)\<rparr> (cn_userPrivKey c) (dk_key key) draws = (Inr e, d)"
      using FileMetaEncryptorV4_encrypts [OF env assms(2)] by blast
    then show ?thesis by (simp add: FileMetaEncryptor_encrypt_def Let_def 1 bindS_def)
  next
    case 2
    obtain dio where dio: "FileMetaEncryptor_createDIO c info draws = (Inr dio, draws + 1)" "dio_valid (cn_env c) (cn_userPrivKey c) dio"
      unfolding FileMetaEncryptor_createDIO_def by (rule createDIO_valid [OF assms(1) 2(2,3,4)])
    let ?data = "\<lparr>ft5_publicMeta = fm_publicMeta m, ft5_privateMeta = fm_privateMeta m,
      ft5_internalMeta = internal_meta_text (cn_env c) (fm_internalFileMeta m), ft5_dio = dio\<rparr>"
    have "dio_valid (cn_env c) (cn_userPrivKey c) (ft5_dio ?data)" using dio(2) by simp
    then obtain e d where "FileMetaEncryptorV5_encrypt (cn_env c) ?data (cn_userPrivKey c) (dk_key key) (draws + 1) = (Inr e, d)"
      by (rule FileMetaEncryptorV5_inverse [OF env _ assms(2)])
    then show ?thesis by (simp add: FileMetaEncryptor_encrypt_def Let_def 2(1) bindS_def dio(1))
  qed
qed


subsection \<open>Registered files\<close>

definition uploaded_sizes_fit :: "FileHandle \<Rightarrow> ChunksSentInfo \<Rightarrow> bool" where
  "uploaded_sizes_fit handle data \<longleftrightarrow>
     hd_size handle < 2 ^ 63 \<and> si_chunkSize data < 2 ^ 63 \<and> - (2 ^ 63) \<le> si_cipherType data \<and> si_cipherType data < 2 ^ 63"

lemma uploaded_meta_fits: "uploaded_sizes_fit handle data \<Longrightarrow> internal_meta_fits (uploaded_meta c handle data)"
  by (simp add: uploaded_sizes_fit_def internal_meta_fits_def uploaded_meta_def s64_of_nat)

lemma uploaded_params:
  assumes "core_env_ok (cn_env c)" and "uploaded_sizes_fit handle data"
  shows "getFileDecryptionParams (cn_env c) file (uploaded_meta c handle data) = Inr
    \<lparr>fdp_fileId = fl_id file, fdp_resourceId = fl_resourceId file, fdp_sizeOnServer = u64_of_int (fl_size file),
     fdp_originalSize = hd_size handle, fdp_cipherType = si_cipherType data, fdp_chunkSize = si_chunkSize data,
     fdp_key = si_key data, fdp_hmac = si_hmac data, fdp_version = fl_version file\<rparr>"
  using assms base64_inverse [OF core_env_okD(7) [OF assms(1)]]
  by (simp add: getFileDecryptionParams_def uploaded_meta_def uploaded_sizes_fit_def s64_of_nat u64_of_int_of_nat SIZE_MAX_def)

text \<open>The key under which a file of a store is found is the store's current one.\<close>

lemma current_file_key:
  assumes "getAndValidateModuleCurrentEncKey c keys = Inr key" and "fl_contextId file = mk_contextId keys" and "fl_keyId file = mk_currentKeyId keys"
  shows "file_key c file keys = Inr key"
  using assms by (simp add: getAndValidateModuleCurrentEncKey_def file_key_def Let_def)

lemma single_file_read:
  assumes "readable_meta c (ek_key key) pm sm m v dio" and "getAndValidateModuleCurrentEncKey c keys = Inr key" and "checkable key"
    and "KeyIdFormatValidator_hasDefaultKeyIdFormat (mk_currentKeyId keys)" and "\<And>r. cn_verifier c [r] = Some [True]"
    and "sa_conn x = c" and "fl_meta file = v" and "fl_contextId file = mk_contextId keys" and "fl_keyId file = mk_currentKeyId keys"
  shows "validateDecryptAndConvertFileDataToFileInfo x file keys = convertServerFileToLibFile file pm sm (im_size m)
      (PublicKey_toBase58DER (en_crypto (cn_env c)) (en_ecc (cn_env c)) (cn_userPrivKey c)) 0 5 (random_write m)"
    and "validateDecryptFileInternalMeta x file keys = Inr m"
    and "getFileEncryptionParams_with_key x file key = bindR (getFileDecryptionParams (cn_env c) file m) (\<lambda>params.
      Inr \<lparr>fep_fileMeta = \<lparr>fm_publicMeta = pm, fm_privateMeta = sm, fm_internalFileMeta = m\<rparr>,
        fep_fileDecryptionParams = params, fep_encKey = DecryptedEncKey_of key\<rparr>)"
proof -
  have r: "decryptAndConvertFileDataToFileInfo x file key = Inr (convertServerFileToLibFile file pm sm (im_size m)
      (PublicKey_toBase58DER (en_crypto (cn_env c)) (en_ecc (cn_env c)) (cn_userPrivKey c)) 0 5 (random_write m), dio)"
      "decryptFileInternalMeta x file key = Inr m"
    using assms(1,3,6,7) unfolding readable_meta_def by blast+
  have k: "file_key c file keys = Inr key" by (rule current_file_key [OF assms(2,8,9)])
  have f: "FileKeyIdFormatValidator_assertKeyIdFormat (fl_keyId file) = Inr ()"
    using assms(4,9) by (simp add: FileKeyIdFormatValidator_assertKeyIdFormat_def)
  show "validateDecryptAndConvertFileDataToFileInfo x file keys = convertServerFileToLibFile file pm sm (im_size m)
      (PublicKey_toBase58DER (en_crypto (cn_env c)) (en_ecc (cn_env c)) (cn_userPrivKey c)) 0 5 (random_write m)"
    by (simp add: validateDecryptAndConvertFileDataToFileInfo_def f assms(6) k r verify_one_def UserVerifier_verify_def assms(5)
        verified_status_def convertServerFileToLibFile_def)
  show "validateDecryptFileInternalMeta x file keys = Inr m"
    by (simp add: validateDecryptFileInternalMeta_def assms(6) k f r)
  show "getFileEncryptionParams_with_key x file key = bindR (getFileDecryptionParams (cn_env c) file m) (\<lambda>params.
      Inr \<lparr>fep_fileMeta = \<lparr>fm_publicMeta = pm, fm_privateMeta = sm, fm_internalFileMeta = m\<rparr>,
        fep_fileDecryptionParams = params, fep_encKey = DecryptedEncKey_of key\<rparr>)"
    by (simp add: getFileEncryptionParams_with_key_def r assms(6) convertServerFileToLibFile_def)
qed

lemma registered_file:
  assumes "connection_ok c" and "getAndValidateModuleCurrentEncKey c keys = Inr key" and "checkable key"
    and "length (ek_key key) = 32" and "cn_myUserId c (mk_contextId keys) = Inr u" and "u \<noteq> []"
    and "mk_contextId keys \<noteq> []" and "mk_moduleSchemaVersion keys = 5" and "hd_fileId handle = []" and "uploaded_sizes_fit handle data"
  obtains v d dio where "storeFileFinalizeWriteRequest c sv handle pm sm data keys st =
      requesting (sb_storeFileCreate sv \<lparr>sfc_resourceId = hd_resourceId handle, sfc_storeId = hd_storeId handle,
        sfc_requestId = si_requestId data, sfc_fileIndex = 0, sfc_meta = v, sfc_keyId = ek_id key, sfc_thumbIndex = None\<rparr>) (st\<lparr>as_draws := d\<rparr>)"
    and "readable_meta c (ek_key key) pm sm (uploaded_meta c handle data) v dio" and "dio_resourceId dio = hd_resourceId handle"
    and "\<forall>date. TimestampValidator_validate (cn_now c (as_draws st + 1)) date \<longrightarrow>
      item_bound (mk_contextId keys) (hd_resourceId handle) (hd_storeId handle) (mk_moduleResourceId keys) u date dio"
proof -
  obtain v d dio where enc: "encryptFileMeta c 5 (ConnectionImpl_createDIO c (mk_contextId keys) (hd_resourceId handle) (Some (hd_storeId handle))
      (Some (mk_moduleResourceId keys))) pm sm (uploaded_meta c handle data) (ek_key key) (as_draws st + 1) = (Inr v, d)"
    and rest: "readable_meta c (ek_key key) pm sm (uploaded_meta c handle data) v dio" "dio_resourceId dio = hd_resourceId handle"
      "\<forall>date. TimestampValidator_validate (cn_now c (as_draws st + 1)) date \<longrightarrow>
        item_bound (mk_contextId keys) (hd_resourceId handle) (hd_storeId handle) (mk_moduleResourceId keys) u date dio"
    by (rule encrypted_file_meta [OF assms(1,5-7,4) uploaded_meta_fits [OF assms(10), of c]])
  have "storeFileFinalizeWriteRequest c sv handle pm sm data keys st =
      requesting (sb_storeFileCreate sv \<lparr>sfc_resourceId = hd_resourceId handle, sfc_storeId = hd_storeId handle,
        sfc_requestId = si_requestId data, sfc_fileIndex = 0, sfc_meta = v, sfc_keyId = ek_id key, sfc_thumbIndex = None\<rparr>) (st\<lparr>as_draws := d\<rparr>)"
    using assms(3) enc by (simp add: storeFileFinalizeWriteRequest_def bindS_liftR assms(2,8,9) checkable_def)
      (simp add: bindS_def drawn_def drawing_def EndpointUtils_generateId_def)
  then show thesis using rest by (rule that)
qed

text \<open>
  C15. An uploaded file can be read. With an accepted current key of a store of the present format,
  \<open>storeFileFinalizeWriteRequest\<close> sends one request under that key's id, with the resource id of the handle and
  the number of the upload. A file with the meta data of that request that the Bridge returns for the
  same store, resource id and key id, attributed to this user at about that time, passes the check of
  its integrity object and is read without error with the public and private data given and the size
  and kind of the handle; and what is needed to read the content is what the upload used: its key,
  digests, chunk size and cipher.
\<close>

theorem store_file_meta_roundtrip:
  assumes "connection_ok c" and "getAndValidateModuleCurrentEncKey c keys = Inr key" and "checkable key"
    and "length (ek_key key) = 32" and "cn_myUserId c (mk_contextId keys) = Inr u" and "u \<noteq> []"
    and "mk_contextId keys \<noteq> []" and "mk_moduleSchemaVersion keys = 5" and "hd_fileId handle = []" and "uploaded_sizes_fit handle data"
    and "KeyIdFormatValidator_hasDefaultKeyIdFormat (mk_currentKeyId keys)" and "\<And>r. cn_verifier c [r] = Some [True]"
    and "sa_conn x = c"
  shows "\<exists>v d. storeFileFinalizeWriteRequest c sv handle pm sm data keys st =
      requesting (sb_storeFileCreate sv \<lparr>sfc_resourceId = hd_resourceId handle, sfc_storeId = hd_storeId handle,
        sfc_requestId = si_requestId data, sfc_fileIndex = 0, sfc_meta = v, sfc_keyId = ek_id key, sfc_thumbIndex = None\<rparr>) (st\<lparr>as_draws := d\<rparr>) \<and>
    (\<forall>file. fl_meta file = v \<and> fl_resourceId file = hd_resourceId handle \<and> fl_storeId file = hd_storeId handle \<and>
       fl_contextId file = mk_contextId keys \<and> fl_keyId file = mk_currentKeyId keys \<and> fl_lastModifier file = u \<and>
       TimestampValidator_validate (cn_now c (as_draws st + 1)) (fl_lastModificationDate file) \<longrightarrow>
       validateFileDataIntegrity c file (mk_moduleResourceId keys) = 0 \<and>
       validateDecryptAndConvertFileDataToFileInfo x file keys = convertServerFileToLibFile file pm sm (int (hd_size handle))
         (PublicKey_toBase58DER (en_crypto (cn_env c)) (en_ecc (cn_env c)) (cn_userPrivKey c)) 0 5 (hd_randomWriteSupport handle) \<and>
       bindR (validateDecryptFileInternalMeta x file keys) (getFileDecryptionParams (cn_env c) file) = Inr
         \<lparr>fdp_fileId = fl_id file, fdp_resourceId = fl_resourceId file, fdp_sizeOnServer = u64_of_int (fl_size file),
          fdp_originalSize = hd_size handle, fdp_cipherType = si_cipherType data, fdp_chunkSize = si_chunkSize data,
          fdp_key = si_key data, fdp_hmac = si_hmac data, fdp_version = fl_version file\<rparr>)"
proof -
  obtain v d dio where run: "storeFileFinalizeWriteRequest c sv handle pm sm data keys st =
      requesting (sb_storeFileCreate sv \<lparr>sfc_resourceId = hd_resourceId handle, sfc_storeId = hd_storeId handle,
        sfc_requestId = si_requestId data, sfc_fileIndex = 0, sfc_meta = v, sfc_keyId = ek_id key, sfc_thumbIndex = None\<rparr>) (st\<lparr>as_draws := d\<rparr>)"
    and r: "readable_meta c (ek_key key) pm sm (uploaded_meta c handle data) v dio" "dio_resourceId dio = hd_resourceId handle"
    and bound: "\<forall>date. TimestampValidator_validate (cn_now c (as_draws st + 1)) date \<longrightarrow>
      item_bound (mk_contextId keys) (hd_resourceId handle) (hd_storeId handle) (mk_moduleResourceId keys) u date dio"
    by (rule registered_file [OF assms(1-10)])
  have sizes: "im_size (uploaded_meta c handle data) = int (hd_size handle)" "random_write (uploaded_meta c handle data) = hd_randomWriteSupport handle"
    using assms(10) by (simp_all add: uploaded_meta_def random_write_def uploaded_sizes_fit_def s64_of_nat)
  have env: "core_env_ok (cn_env c)" using assms(1) by (simp add: connection_ok_def)
  show ?thesis
  proof (rule exI [of _ v], rule exI [of _ d], rule conjI, rule run, rule allI, rule impI, elim conjE)
    fix "file" :: ServerFile assume f: "fl_meta file = v" "fl_resourceId file = hd_resourceId handle" "fl_storeId file = hd_storeId handle"
      "fl_contextId file = mk_contextId keys" "fl_keyId file = mk_currentKeyId keys" "fl_lastModifier file = u"
      "TimestampValidator_validate (cn_now c (as_draws st + 1)) (fl_lastModificationDate file)"
    have "assert_file_integrity c file (mk_moduleResourceId keys) = Inr ()"
      using r(1) f bound unfolding readable_meta_def by simp
    moreover note single_file_read [OF r(1) assms(2,3,11-13) f(1,4,5), unfolded sizes]
    ultimately show "validateFileDataIntegrity c file (mk_moduleResourceId keys) = 0 \<and>
       validateDecryptAndConvertFileDataToFileInfo x file keys = convertServerFileToLibFile file pm sm (int (hd_size handle))
         (PublicKey_toBase58DER (en_crypto (cn_env c)) (en_ecc (cn_env c)) (cn_userPrivKey c)) 0 5 (hd_randomWriteSupport handle) \<and>
       bindR (validateDecryptFileInternalMeta x file keys) (getFileDecryptionParams (cn_env c) file) = Inr
         \<lparr>fdp_fileId = fl_id file, fdp_resourceId = fl_resourceId file, fdp_sizeOnServer = u64_of_int (fl_size file),
          fdp_originalSize = hd_size handle, fdp_cipherType = si_cipherType data, fdp_chunkSize = si_chunkSize data,
          fdp_key = si_key data, fdp_hmac = si_hmac data, fdp_version = fl_version file\<rparr>"
      by (simp add: validateFileDataIntegrity_def uploaded_params [OF env assms(10)])
  qed
qed

text \<open>
  C16. The meta data of one file served for another one. A file of the store that comes with the meta data
  registered for an upload under another resource id is refused with \<open>FileDataIntegrityException\<close> by the check
  of \<open>getFile\<close>, \<open>listFiles\<close> and \<open>updateFileMeta\<close>. The parameters with which a file is opened, and the file shown in
  events, are made without that check: they come out without error with the other file's data, key and
  digests, whatever the id, resource id, store and author of the file are.
\<close>

theorem store_swapped_meta_opened:
  assumes "connection_ok c" and "getAndValidateModuleCurrentEncKey c keys = Inr key" and "checkable key"
    and "length (ek_key key) = 32" and "cn_myUserId c (mk_contextId keys) = Inr u" and "u \<noteq> []"
    and "mk_contextId keys \<noteq> []" and "mk_moduleSchemaVersion keys = 5" and "hd_fileId handle = []" and "uploaded_sizes_fit handle data"
    and "KeyIdFormatValidator_hasDefaultKeyIdFormat (mk_currentKeyId keys)" and "\<And>r. cn_verifier c [r] = Some [True]"
    and "sa_conn x = c"
  shows "\<exists>v d. storeFileFinalizeWriteRequest c sv handle pm sm data keys st =
      requesting (sb_storeFileCreate sv \<lparr>sfc_resourceId = hd_resourceId handle, sfc_storeId = hd_storeId handle,
        sfc_requestId = si_requestId data, sfc_fileIndex = 0, sfc_meta = v, sfc_keyId = ek_id key, sfc_thumbIndex = None\<rparr>) (st\<lparr>as_draws := d\<rparr>) \<and>
    (\<forall>file. fl_meta file = v \<and> fl_contextId file = mk_contextId keys \<and> fl_keyId file = mk_currentKeyId keys \<and>
       fl_resourceId file \<noteq> hd_resourceId handle \<longrightarrow>
       validateFileDataIntegrity c file (mk_moduleResourceId keys) = status_of (StoreExn FileDataIntegrityException) \<and>
       lf_statusCode (validateDecryptAndConvertFileDataToFileInfo x file keys) = 0 \<and>
       lf_privateMeta (validateDecryptAndConvertFileDataToFileInfo x file keys) = sm \<and>
       (\<exists>params. getFileEncryptionParams_with_key x file key = Inr params \<and> fdp_fileId (fep_fileDecryptionParams params) = fl_id file \<and>
         fdp_key (fep_fileDecryptionParams params) = si_key data \<and> fdp_hmac (fep_fileDecryptionParams params) = si_hmac data))"
proof -
  obtain v d dio where run: "storeFileFinalizeWriteRequest c sv handle pm sm data keys st =
      requesting (sb_storeFileCreate sv \<lparr>sfc_resourceId = hd_resourceId handle, sfc_storeId = hd_storeId handle,
        sfc_requestId = si_requestId data, sfc_fileIndex = 0, sfc_meta = v, sfc_keyId = ek_id key, sfc_thumbIndex = None\<rparr>) (st\<lparr>as_draws := d\<rparr>)"
    and r: "readable_meta c (ek_key key) pm sm (uploaded_meta c handle data) v dio" "dio_resourceId dio = hd_resourceId handle"
    by (rule registered_file [OF assms(1-10)])
  have env: "core_env_ok (cn_env c)" using assms(1) by (simp add: connection_ok_def)
  show ?thesis
  proof (rule exI [of _ v], rule exI [of _ d], rule conjI, rule run, rule allI, rule impI, elim conjE)
    fix "file" :: ServerFile assume f: "fl_meta file = v" "fl_contextId file = mk_contextId keys" "fl_keyId file = mk_currentKeyId keys"
      "fl_resourceId file \<noteq> hd_resourceId handle"
    have "assert_file_integrity c file (mk_moduleResourceId keys) = Inl (StoreExn FileDataIntegrityException)"
      using r f unfolding readable_meta_def by (auto simp: item_bound_def)
    moreover note single_file_read [OF r(1) assms(2,3,11-13) f(1-3)]
    ultimately show "validateFileDataIntegrity c file (mk_moduleResourceId keys) = status_of (StoreExn FileDataIntegrityException) \<and>
       lf_statusCode (validateDecryptAndConvertFileDataToFileInfo x file keys) = 0 \<and>
       lf_privateMeta (validateDecryptAndConvertFileDataToFileInfo x file keys) = sm \<and>
       (\<exists>params. getFileEncryptionParams_with_key x file key = Inr params \<and> fdp_fileId (fep_fileDecryptionParams params) = fl_id file \<and>
         fdp_key (fep_fileDecryptionParams params) = si_key data \<and> fdp_hmac (fep_fileDecryptionParams params) = si_hmac data)"
      by (simp add: validateFileDataIntegrity_def uploaded_params [OF env assms(10)] convertServerFileToLibFile_def)
  qed
qed

text \<open>A store that is created can be read by every user it is shared with.\<close>

text \<open>The Bridge returns a created store to a user with the key entry made for that user.\<close>

definition store_returned_to :: "StoreCreateModel \<Rightarrow> KeyEntrySet \<Rightarrow> string \<Rightarrow> int \<Rightarrow> ServerStore \<Rightarrow> bool" where
  "store_returned_to m es modifier time info \<longleftrightarrow>
     sr_contextId info = stc_contextId m \<and> sr_resourceId info = Some (stc_resourceId m) \<and>
     sr_data info = [\<lparr>sde_keyId = stc_keyId m, sde_data = stc_data m\<rparr>] \<and>
     sr_keys info = [\<lparr>ent_keyId = es_keyId es, ent_data = es_data es\<rparr>] \<and> sr_lastModifier info = modifier \<and>
     sr_policy info = (case stc_policy m of None \<Rightarrow> JEmpty | Some p \<Rightarrow> p) \<and>
     TimestampValidator_validate time (sr_lastModificationDate info)"

lemma created_store_data_read:
  assumes "created_data c contextId u publicMeta privateMeta key rid now e" and "receives c key \<lparr>el_contextId = contextId, el_resourceId = rid\<rparr> user es"
    and m: "stc_contextId m = contextId" "stc_resourceId m = rid" "stc_keyId m = ek_id key" "stc_data m = EncryptedModuleDataV5_toJSON e"
      "stc_policy m = map_option Factory_createPolicyServerObject policies"
    and c2: "cn_env c2 = cn_env c" "\<forall>r. cn_verifier c2 [r] = Some [True]" "\<forall>s. cn_str c2 (JString s) = Inr s"
      "up_pubKey user = PublicKey_toBase58DER (en_crypto (cn_env c)) (en_ecc (cn_env c)) (cn_userPrivKey c2)"
    and info: "store_returned_to m es u now info"
  shows "\<exists>k. validateDecryptAndConvertStoreDataToStore c2 info = Inr k \<and> lst_statusCode k = 0 \<and>
      lst_publicMeta k = publicMeta \<and> lst_privateMeta k = privateMeta \<and>
      lst_policy k = (case policies of None \<Rightarrow> empty_policy | Some q \<Rightarrow> q)"
proof -
  note info = info [unfolded store_returned_to_def m]
  have loc: "store_location info = \<lparr>el_contextId = contextId, el_resourceId = rid\<rparr>" using info by (simp add: store_location_def)
  obtain k where k: "keys_at c2 (KeyRequest_addOne (sr_keys info) (ek_id key) (store_location info)) (store_location info) = Inr [(ek_id key, k)]"
      "checkable k" "ek_key k = ek_key key"
    by (rule received_key [OF assms(2) c2(1,4,2), of "sr_keys info"]) (use info in \<open>auto simp: loc\<close>)
  obtain ob d where ob: "EncryptedModuleDataV5_toJSON e = JObject ob" "\<forall>p. VersionedData_fromJSON p ob = Inr 5"
      "\<forall>p. EncryptedModuleDataV5_fromJSON p ob = Inr e"
    and d: "ModuleDataEncryptorV5_decrypt (cn_env c2) e (ek_key k) = d"
      "ModuleDataEncryptorV5_getDIOAndAssertIntegrity (cn_env c2) e = Inr (md_dio d)" "md_statusCode d = 0"
      "md_publicMeta d = publicMeta" "md_privateMeta d = privateMeta" "dio_contextId (md_dio d) = contextId"
      "dio_resourceId (md_dio d) = rid" "dio_creatorUserId (md_dio d) = u" "dio_timestamp (md_dio d) = now"
    using assms(1) unfolding created_data_def k(3) c2(1) by blast
  have data: "sr_data info = [\<lparr>sde_keyId = ek_id key, sde_data = JObject ob\<rparr>]" using info ob(1) by simp
  have ver: "getStoreEntryDataStructureVersion c2 \<lparr>sde_keyId = i, sde_data = JObject ob\<rparr> = Inr 5" for i
    by (simp add: getStoreEntryDataStructureVersion_def ob)
  have int: "validateStoreDataIntegrity c2 info = 0"
    using info d by (simp add: validateStoreDataIntegrity_def assertStoreDataIntegrity_def data ver ob)
  have dec: "decryptModuleDataV5 (cn_env c2) (JObject ob) k = d"
    using k(2) d(1) by (simp add: decryptModuleDataV5_def ob checkable_def)
  have policy: "Factory_parsePolicyServerObject (en_poco (cn_env c2)) (cn_str c2) (sr_policy info) =
      Inr (case policies of None \<Rightarrow> empty_policy | Some q \<Rightarrow> q)"
    using created_policy [of "cn_str c2" _ policies] c2(3) info by simp
  show ?thesis
    using d(3-5) c2(2) by (simp add: validateDecryptAndConvertStoreDataToStore_def read_single_store_def int data k(1) unordered_map_at_def
        decryptAndConvertStoreDataToStore_def ver dec convertDecryptedStoreDataV5ToStore_def convertServerStoreToLibStore_def policy
        verify_one_def UserVerifier_verify_def verified_status_def)
qed

lemma store_created_read:
  assumes "connection_ok c" and "keys_fit c" and "known_users c (set users \<union> set managers)"
    and "inj_on user_key (set users \<union> set managers)"
    and "cn_myUserId c contextId = Inr u" and "u \<noteq> []" and "contextId \<noteq> []"
  shows "\<exists>m d. createStoreEx c sv contextId users managers publicMeta privateMeta type policies st =
      requesting (sb_storeCreate sv m) (st\<lparr>as_draws := d\<rparr>) \<and>
    stc_users m = map up_userId users \<and> stc_managers m = map up_userId managers \<and>
    (\<forall>user \<in> set users \<union> set managers. \<exists>es \<in> set (stc_keys m). es_user es = up_userId user \<and>
      (\<forall>c2 info. cn_env c2 = cn_env c \<and> (\<forall>r. cn_verifier c2 [r] = Some [True]) \<and> (\<forall>s. cn_str c2 (JString s) = Inr s) \<and>
         up_pubKey user = PublicKey_toBase58DER (en_crypto (cn_env c)) (en_ecc (cn_env c)) (cn_userPrivKey c2) \<and>
         store_returned_to m es u (cn_now c (as_draws st + 3)) info \<longrightarrow>
         (\<exists>k. validateDecryptAndConvertStoreDataToStore c2 info = Inr k \<and> lst_statusCode k = 0 \<and>
           lst_publicMeta k = publicMeta \<and> lst_privateMeta k = privateMeta \<and>
           lst_policy k = (case policies of None \<Rightarrow> empty_policy | Some q \<Rightarrow> q))))"
proof -
  define d0 where "d0 = as_draws st"
  obtain key rid dio secret e keys d1 where steps: "KeyProvider_generateKey (cn_env c) (cn_hex c) d0 = (key, d0 + 2)"
      "EndpointUtils_generateId c (d0 + 2) = (rid, d0 + 3)"
      "ConnectionImpl_createDIO c contextId rid None None (d0 + 3) = (Inr dio, d0 + 4)"
      "KeyProvider_generateSecret (cn_env c) (cn_hex c) (d0 + 4) = (secret, d0 + 5)"
      "ModuleDataEncryptorV5_encrypt (cn_env c) \<lparr>mt_publicMeta = publicMeta, mt_privateMeta = privateMeta,
        mt_internalMeta = \<lparr>mi_secret = text_of secret, mi_resourceId = rid, mi_randomId = dio_randomId dio\<rparr>, mt_dio = dio\<rparr>
          (cn_userPrivKey c) (ek_key key) (d0 + 5) = (Inr e, d0 + 7)"
      "KeyProvider_prepareKeysList (cn_env c) (cn_hex c) (cn_userPrivKey c) (EndpointUtils_uniqueListUserWithPubKey users managers)
        key dio \<lparr>el_contextId = contextId, el_resourceId = rid\<rparr> secret (d0 + 7) = (Inr keys, d1)"
    and data: "created_data c contextId u publicMeta privateMeta key rid (cn_now c (d0 + 3)) e"
    and each: "\<forall>user \<in> set users \<union> set managers. \<exists>es \<in> set keys. receives c key \<lparr>el_contextId = contextId, el_resourceId = rid\<rparr> user es"
    by (rule created_container [OF assms])
  define m where "m = \<lparr>stc_resourceId = rid, stc_contextId = contextId, stc_users = map up_userId users,
        stc_managers = map up_userId managers, stc_data = EncryptedModuleDataV5_toJSON e, stc_keyId = ek_id key,
        stc_keys = keys, stc_type = type, stc_policy = map_option Factory_createPolicyServerObject policies\<rparr>"
  have run: "createStoreEx c sv contextId users managers publicMeta privateMeta type policies st =
      requesting (sb_storeCreate sv m) (st\<lparr>as_draws := d1\<rparr>)"
    unfolding createStoreEx_def
    by (rule bindS_drawn_step, rule steps(1), simp add: d0_def, rule bindS_drawn_step, rule steps(2), simp,
        rule bindS_drawing_step, rule steps(3), simp, rule bindS_drawn_step, rule steps(4), simp,
        rule bindS_drawing_step, rule steps(5), simp, rule bindS_drawing_step, rule steps(6), simp, simp add: m_def)
  have sel: "stc_users m = map up_userId users" "stc_managers m = map up_userId managers" "stc_keys m = keys" "stc_contextId m = contextId"
      "stc_resourceId m = rid" "stc_keyId m = ek_id key" "stc_data m = EncryptedModuleDataV5_toJSON e"
      "stc_policy m = map_option Factory_createPolicyServerObject policies"
    by (simp_all add: m_def)
  have "\<exists>es \<in> set (stc_keys m). es_user es = up_userId user \<and>
      (\<forall>c2 info. cn_env c2 = cn_env c \<and> (\<forall>r. cn_verifier c2 [r] = Some [True]) \<and> (\<forall>s. cn_str c2 (JString s) = Inr s) \<and>
         up_pubKey user = PublicKey_toBase58DER (en_crypto (cn_env c)) (en_ecc (cn_env c)) (cn_userPrivKey c2) \<and>
         store_returned_to m es u (cn_now c (d0 + 3)) info \<longrightarrow>
         (\<exists>k. validateDecryptAndConvertStoreDataToStore c2 info = Inr k \<and> lst_statusCode k = 0 \<and>
           lst_publicMeta k = publicMeta \<and> lst_privateMeta k = privateMeta \<and>
           lst_policy k = (case policies of None \<Rightarrow> empty_policy | Some q \<Rightarrow> q)))"
    if u: "user \<in> set users \<union> set managers" for user
  proof -
    obtain es where es: "es \<in> set keys" "receives c key \<lparr>el_contextId = contextId, el_resourceId = rid\<rparr> user es" using each u by blast
    have "es_user es = up_userId user" using es(2) by (simp add: receives_def)
    then show ?thesis using es created_store_data_read [OF data es(2) sel(4-8)] sel(3) by blast
  qed
  then show ?thesis unfolding run d0_def [symmetric] using sel(1,2) by blast
qed

text \<open>
  A store that was created can be read by everybody it is shared with. \<open>createStoreEx\<close> sends one request;
  for each of the given users and managers it holds a key entry, and when the Bridge returns the
  store data with that entry to the user, and attributes it to the creator at about the time of the
  creation, that user reads it without error with the public and private data and the policies that
  were given.
\<close>

theorem store_created_readable:
  assumes "connection_ok c" and "keys_fit c" and "known_users c (set users \<union> set managers)"
    and "inj_on user_key (set users \<union> set managers)"
    and "cn_myUserId c contextId = Inr u" and "u \<noteq> []" and "contextId \<noteq> []"
  shows "\<exists>m d. createStoreEx c sv contextId users managers publicMeta privateMeta type policies st =
      requesting (sb_storeCreate sv m) (st\<lparr>as_draws := d\<rparr>) \<and>
    stc_users m = map up_userId users \<and> stc_managers m = map up_userId managers \<and>
    (\<forall>user \<in> set users \<union> set managers. \<exists>es \<in> set (stc_keys m). es_user es = up_userId user \<and>
      (\<forall>c2 info. cn_env c2 = cn_env c \<and> (\<forall>r. cn_verifier c2 [r] = Some [True]) \<and> (\<forall>s. cn_str c2 (JString s) = Inr s) \<and>
         up_pubKey user = PublicKey_toBase58DER (en_crypto (cn_env c)) (en_ecc (cn_env c)) (cn_userPrivKey c2) \<and>
         store_returned_to m es u (cn_now c (as_draws st + 3)) info \<longrightarrow>
         (\<exists>k. validateDecryptAndConvertStoreDataToStore c2 info = Inr k \<and> lst_statusCode k = 0 \<and>
           lst_publicMeta k = publicMeta \<and> lst_privateMeta k = privateMeta \<and>
           lst_policy k = (case policies of None \<Rightarrow> empty_policy | Some q \<Rightarrow> q))))"
  using assms by (rule store_created_read)

end
