(* ===== verification/Store_Sample.thy ===== *)
theory Store_Sample
  imports Store_Writing Core_Sample
begin

text \<open>
  The properties of the stores on the sample connection: an uploaded file is registered and read, alone
  and in a list, and opened with the meta data of another one; a store is created and read.
\<close>

subsection \<open>Files\<close>

definition sample_store_api :: "byte store_api" where
  "sample_store_api = \<lparr>sa_conn = sample_connection 5, sa_host = ''h'', sa_uninit = 0\<rparr>"

lemma sample_store_api_conn [simp]: "sa_conn sample_store_api = sample_connection 5"
  by (simp add: sample_store_api_def)

definition sample_file :: "json \<Rightarrow> string \<Rightarrow> string \<Rightarrow> ServerFile" where
  "sample_file meta keyId resourceId =
     \<lparr>fl_id = ''f'', fl_resourceId = resourceId, fl_version = 1, fl_contextId = ''c'', fl_storeId = ''s'', fl_created = 0, fl_creator = ''u'',
      fl_lastModificationDate = 0, fl_lastModifier = ''u'', fl_meta = meta, fl_size = 160, fl_keyId = keyId, fl_thumb = None\<rparr>"

lemma sample_file_sel [simp]:
  "fl_id (sample_file meta keyId r) = ''f''" "fl_resourceId (sample_file meta keyId r) = r" "fl_contextId (sample_file meta keyId r) = ''c''"
  "fl_storeId (sample_file meta keyId r) = ''s''" "fl_meta (sample_file meta keyId r) = meta" "fl_keyId (sample_file meta keyId r) = keyId"
  "fl_lastModifier (sample_file meta keyId r) = ''u''" "fl_lastModificationDate (sample_file meta keyId r) = 0"
  by (simp_all add: sample_file_def)

text \<open>A handle of an upload of 100 bytes and what the upload used.\<close>

definition sample_upload :: FileHandle where
  "sample_upload = \<lparr>hd_id = 1, hd_storeId = ''s'', hd_fileId = [], hd_resourceId = ''r'', hd_size = 100, hd_randomWriteSupport = False\<rparr>"

definition sample_sent :: ChunksSentInfo where
  "sample_sent = \<lparr>si_cipherType = 1, si_key = replicate 32 4, si_hmac = replicate 32 6, si_chunkSize = 131072, si_requestId = ''q''\<rparr>"

lemma sample_upload_fits: "uploaded_sizes_fit sample_upload sample_sent" "hd_fileId sample_upload = []"
  by (simp_all add: uploaded_sizes_fit_def sample_upload_def sample_sent_def)

text \<open>A Bridge that records the stores and files it is sent.\<close>

definition sample_store_bridge :: "(StoreCreateModel list \<times> StoreFileCreateModel list) store_bridge" where
  "sample_store_bridge =
     \<lparr>sb_storeCreate = (\<lambda>m (ss, fs). (Inr ''s'', (ss @ [m], fs))), sb_storeUpdate = (\<lambda>m s. (Inr (), s)),
      sb_storeDelete = (\<lambda>i s. (Inr (), s)), sb_storeGet = (\<lambda>m s. Inl StdOutOfRange), sb_storeList = (\<lambda>m s. Inr ([], 0)),
      sb_storeFileGet = (\<lambda>i s. Inl StdOutOfRange), sb_storeFileList = (\<lambda>m s. Inl StdOutOfRange),
      sb_storeFileCreate = (\<lambda>m (ss, fs). (Inr ''f'', (ss, fs @ [m]))), sb_storeFileWrite = (\<lambda>m s. (Inr (), s)),
      sb_storeFileUpdate = (\<lambda>m s. (Inr (), s)), sb_storeFileDelete = (\<lambda>i s. (Inr (), s))\<rparr>"

definition sample_store_state :: "(StoreCreateModel list \<times> StoreFileCreateModel list, store_event_data api_event) api_state" where
  "sample_store_state =
     \<lparr>as_cache = ContainerKeyCache_new, as_draws = 0, as_server = ([], []), as_events = [], as_subscriptions = []\<rparr>"

text \<open>What the properties of registered files assume holds on the sample connection.\<close>

lemma sample_file_key:
  obtains es k where "getAndValidateModuleCurrentEncKey (sample_connection 5) (sample_module_keys es) = Inr k" and "checkable k"
    and "length (ek_key k) = 32" and "cn_myUserId (sample_connection 5) (mk_contextId (sample_module_keys es)) = Inr ''u''"
    and "''u'' \<noteq> []" and "mk_contextId (sample_module_keys es) \<noteq> []" and "mk_moduleSchemaVersion (sample_module_keys es) = 5"
    and "KeyIdFormatValidator_hasDefaultKeyIdFormat (mk_currentKeyId (sample_module_keys es))"
    and "keys_at (sample_connection 5) (KeyRequest_addMany (mk_keys (sample_module_keys es)) [es_keyId es] sample_location) sample_location
      = Inr [(es_keyId es, k)]"
  by (rule sample_current_key) (simp add: sample_module_keys_def)

lemma sample_approves: "cn_verifier (sample_connection 5) [r] = Some [True]"
  by simp

theorem store_file_meta_roundtrip_witness:
  "\<exists>es m st'. storeFileFinalizeWriteRequest (sample_connection 5) sample_store_bridge sample_upload [1] [2] sample_sent (sample_module_keys es)
       sample_store_state = (Inr ''f'', st') \<and> as_server st' = ([], [m]) \<and>
     lf_statusCode (validateDecryptAndConvertFileDataToFileInfo sample_store_api (sample_file (sfc_meta m) (es_keyId es) ''r'') (sample_module_keys es)) = 0 \<and>
     lf_size (validateDecryptAndConvertFileDataToFileInfo sample_store_api (sample_file (sfc_meta m) (es_keyId es) ''r'') (sample_module_keys es)) = 100"
proof -
  let ?c = "sample_connection 5"
  obtain es k where k: "getAndValidateModuleCurrentEncKey ?c (sample_module_keys es) = Inr k" "checkable k" "length (ek_key k) = 32"
      "cn_myUserId ?c (mk_contextId (sample_module_keys es)) = Inr ''u''" "''u'' \<noteq> []" "mk_contextId (sample_module_keys es) \<noteq> []"
      "mk_moduleSchemaVersion (sample_module_keys es) = 5" "KeyIdFormatValidator_hasDefaultKeyIdFormat (mk_currentKeyId (sample_module_keys es))"
    by (rule sample_file_key)
  from store_file_meta_roundtrip [OF sample_connection_ok k(1-7) sample_upload_fits(2,1) k(8) sample_approves sample_store_api_conn,
      of sample_store_bridge "[1]" "[2]" sample_store_state]
  obtain v d where run: "storeFileFinalizeWriteRequest ?c sample_store_bridge sample_upload [1] [2] sample_sent (sample_module_keys es) sample_store_state =
      requesting (sb_storeFileCreate sample_store_bridge \<lparr>sfc_resourceId = hd_resourceId sample_upload, sfc_storeId = hd_storeId sample_upload,
        sfc_requestId = si_requestId sample_sent, sfc_fileIndex = 0, sfc_meta = v, sfc_keyId = ek_id k, sfc_thumbIndex = None\<rparr>)
        (sample_store_state\<lparr>as_draws := d\<rparr>)"
    and read: "fl_meta file = v \<and> fl_resourceId file = hd_resourceId sample_upload \<and> fl_storeId file = hd_storeId sample_upload \<and>
       fl_contextId file = mk_contextId (sample_module_keys es) \<and> fl_keyId file = mk_currentKeyId (sample_module_keys es) \<and> fl_lastModifier file = ''u'' \<and>
       TimestampValidator_validate (cn_now ?c (as_draws sample_store_state + 1)) (fl_lastModificationDate file) \<Longrightarrow>
       validateDecryptAndConvertFileDataToFileInfo sample_store_api file (sample_module_keys es) = convertServerFileToLibFile file [1] [2] (int (hd_size sample_upload))
         (PublicKey_toBase58DER (en_crypto (cn_env ?c)) (en_ecc (cn_env ?c)) (cn_userPrivKey ?c)) 0 5 (hd_randomWriteSupport sample_upload)" for "file"
    by blast
  have "validateDecryptAndConvertFileDataToFileInfo sample_store_api (sample_file v (es_keyId es) ''r'') (sample_module_keys es) =
      convertServerFileToLibFile (sample_file v (es_keyId es) ''r'') [1] [2] (int (hd_size sample_upload))
         (PublicKey_toBase58DER (en_crypto (cn_env ?c)) (en_ecc (cn_env ?c)) (cn_userPrivKey ?c)) 0 5 (hd_randomWriteSupport sample_upload)"
    by (rule read) (simp add: sample_upload_def)
  then show ?thesis
    by (intro exI [of _ es] exI [of _ "\<lparr>sfc_resourceId = ''r'', sfc_storeId = ''s'', sfc_requestId = ''q'', sfc_fileIndex = 0, sfc_meta = v,
          sfc_keyId = ek_id k, sfc_thumbIndex = None\<rparr>"]
        exI [of _ "sample_store_state\<lparr>as_draws := d, as_server := ([], [\<lparr>sfc_resourceId = ''r'', sfc_storeId = ''s'', sfc_requestId = ''q'',
          sfc_fileIndex = 0, sfc_meta = v, sfc_keyId = ek_id k, sfc_thumbIndex = None\<rparr>])\<rparr>"], unfold run)
      (simp add: requesting_def sample_store_bridge_def sample_store_state_def sample_upload_def sample_sent_def convertServerFileToLibFile_def)
qed

theorem store_swapped_meta_opened_witness:
  "\<exists>es k v st' d params. storeFileFinalizeWriteRequest (sample_connection 5) sample_store_bridge sample_upload [1] [2] sample_sent (sample_module_keys es)
       sample_store_state = requesting (sb_storeFileCreate sample_store_bridge \<lparr>sfc_resourceId = ''r'', sfc_storeId = ''s'',
        sfc_requestId = ''q'', sfc_fileIndex = 0, sfc_meta = v, sfc_keyId = ek_id k, sfc_thumbIndex = None\<rparr>) (sample_store_state\<lparr>as_draws := d\<rparr>) \<and>
     validateFileDataIntegrity (sample_connection 5) (sample_file v (es_keyId es) ''other'') ''r'' = status_of (StoreExn FileDataIntegrityException) \<and>
     getFileEncryptionParams_with_key sample_store_api (sample_file v (es_keyId es) ''other'') k = Inr params \<and>
     fdp_key (fep_fileDecryptionParams params) = replicate 32 4"
proof -
  let ?c = "sample_connection 5"
  obtain es k where k: "getAndValidateModuleCurrentEncKey ?c (sample_module_keys es) = Inr k" "checkable k" "length (ek_key k) = 32"
      "cn_myUserId ?c (mk_contextId (sample_module_keys es)) = Inr ''u''" "''u'' \<noteq> []" "mk_contextId (sample_module_keys es) \<noteq> []"
      "mk_moduleSchemaVersion (sample_module_keys es) = 5" "KeyIdFormatValidator_hasDefaultKeyIdFormat (mk_currentKeyId (sample_module_keys es))"
    by (rule sample_file_key)
  from store_swapped_meta_opened [OF sample_connection_ok k(1-7) sample_upload_fits(2,1) k(8) sample_approves sample_store_api_conn,
      of sample_store_bridge "[1]" "[2]" sample_store_state]
  obtain v d where run: "storeFileFinalizeWriteRequest ?c sample_store_bridge sample_upload [1] [2] sample_sent (sample_module_keys es) sample_store_state =
      requesting (sb_storeFileCreate sample_store_bridge \<lparr>sfc_resourceId = hd_resourceId sample_upload, sfc_storeId = hd_storeId sample_upload,
        sfc_requestId = si_requestId sample_sent, sfc_fileIndex = 0, sfc_meta = v, sfc_keyId = ek_id k, sfc_thumbIndex = None\<rparr>)
        (sample_store_state\<lparr>as_draws := d\<rparr>)"
    and read: "\<forall>file. fl_meta file = v \<and> fl_contextId file = mk_contextId (sample_module_keys es) \<and>
       fl_keyId file = mk_currentKeyId (sample_module_keys es) \<and> fl_resourceId file \<noteq> hd_resourceId sample_upload \<longrightarrow>
       validateFileDataIntegrity ?c file (mk_moduleResourceId (sample_module_keys es)) = status_of (StoreExn FileDataIntegrityException) \<and>
       lf_statusCode (validateDecryptAndConvertFileDataToFileInfo sample_store_api file (sample_module_keys es)) = 0 \<and>
       lf_privateMeta (validateDecryptAndConvertFileDataToFileInfo sample_store_api file (sample_module_keys es)) = [2] \<and>
       (\<exists>params. getFileEncryptionParams_with_key sample_store_api file k = Inr params \<and> fdp_fileId (fep_fileDecryptionParams params) = fl_id file \<and>
         fdp_key (fep_fileDecryptionParams params) = si_key sample_sent \<and> fdp_hmac (fep_fileDecryptionParams params) = si_hmac sample_sent)"
    by blast
  have sent: "hd_resourceId sample_upload = ''r''" "hd_storeId sample_upload = ''s''" "si_requestId sample_sent = ''q''" "si_key sample_sent = replicate 32 4"
    by (simp_all add: sample_upload_def sample_sent_def)
  from read [rule_format, of "sample_file v (es_keyId es) ''other''"] run show ?thesis
    unfolding sent by auto
qed

theorem store_files_authentic_witness:
  "\<exists>es file r k dio. validateDecryptAndConvertFilesDataToFilesInfo sample_store_api [file] (sample_module_keys es) = Inr [r] \<and>
     lf_statusCode r = 0 \<and> file_genuine (sample_connection 5) file ''r'' k r dio \<and> k2_statusCode k = 0 \<and>
     provided_key (sample_connection 5) (listed_keys_request (sample_module_keys es) [fl_keyId file])
       (keys_location (sample_module_keys es)) (fl_keyId file) k"
proof -
  let ?c = "sample_connection 5"
  obtain es k where k: "getAndValidateModuleCurrentEncKey ?c (sample_module_keys es) = Inr k" "checkable k" "length (ek_key k) = 32"
      "cn_myUserId ?c (mk_contextId (sample_module_keys es)) = Inr ''u''" "''u'' \<noteq> []" "mk_contextId (sample_module_keys es) \<noteq> []"
      "mk_moduleSchemaVersion (sample_module_keys es) = 5"
      and keys: "keys_at ?c (KeyRequest_addMany (mk_keys (sample_module_keys es)) [es_keyId es] sample_location) sample_location = Inr [(es_keyId es, k)]"
    by (rule sample_file_key)
  obtain v dio where r: "readable_meta ?c (ek_key k) [1] [2] (uploaded_meta ?c sample_upload sample_sent) v dio"
    and bound: "\<forall>date. TimestampValidator_validate (cn_now ?c (as_draws sample_store_state + 1)) date \<longrightarrow>
      item_bound (mk_contextId (sample_module_keys es)) (hd_resourceId sample_upload) (hd_storeId sample_upload)
        (mk_moduleResourceId (sample_module_keys es)) ''u'' date dio"
    by (rule registered_file [OF sample_connection_ok k(1-7) sample_upload_fits(2,1), of sample_store_bridge "[1]" "[2]" sample_store_state])
  let ?f = "sample_file v (es_keyId es) ''r''"
  have int: "assert_file_integrity ?c ?f ''r'' = Inr ()"
    using r bound unfolding readable_meta_def by (simp add: sample_upload_def)
  obtain f where dec: "decryptAndConvertFileDataToFileInfo sample_store_api ?f k = Inr (f, dio)" and f: "lf_statusCode f = 0" "lf_schemaVersion f = 5"
    using r k(2) unfolding readable_meta_def by (auto simp: convertServerFileToLibFile_def)
  have run: "validateDecryptAndConvertFilesDataToFilesInfo sample_store_api [?f] (sample_module_keys es) = Inr [f]"
    using keys f by (simp add: validateDecryptAndConvertFilesDataToFilesInfo_def Let_def sample_location_def [symmetric] validateFileDataIntegrity_def int
        decrypt_listed_file_def decrypt_with_listed_key_def dec unordered_map_at_def UserVerifier_verify_def verify_items_def item_requests_def verified_status_def)
  from store_files_authentic [OF run] f have "\<exists>k dio. file_genuine ?c ?f ''r'' k f dio \<and> k2_statusCode k = 0 \<and>
      provided_key ?c (listed_keys_request (sample_module_keys es) [fl_keyId ?f]) (keys_location (sample_module_keys es)) (fl_keyId ?f) k"
    by (fastforce simp: file_shown_def)
  with run f show ?thesis by blast
qed

subsection \<open>Stores\<close>

lemma sample_store_users:
  "known_users (sample_connection 5) (set [sample_user] \<union> set [sample_self])" "inj_on user_key (set [sample_user] \<union> set [sample_self])"
  "cn_myUserId (sample_connection 5) ''c'' = Inr ''u''" "''u'' \<noteq> []" "''c'' \<noteq> []"
  using sample_known_users by (auto simp: known_users_def sample_user_def sample_self_def)

definition sample_store :: "StoreCreateModel \<Rightarrow> KeyEntrySet \<Rightarrow> ServerStore" where
  "sample_store m es =
     \<lparr>sr_id = ''s'', sr_resourceId = Some (stc_resourceId m), sr_contextId = stc_contextId m, sr_createDate = 0, sr_creator = ''u'',
      sr_lastModificationDate = 0, sr_lastModifier = ''u'', sr_data = [\<lparr>sde_keyId = stc_keyId m, sde_data = stc_data m\<rparr>],
      sr_keyId = stc_keyId m, sr_users = [], sr_managers = [], sr_keys = [\<lparr>ent_keyId = es_keyId es, ent_data = es_data es\<rparr>],
      sr_version = 1, sr_lastFileDate = 0, sr_files = 0, sr_type = None, sr_policy = (case stc_policy m of None \<Rightarrow> JEmpty | Some p \<Rightarrow> p)\<rparr>"

lemma sample_store_returned: "store_returned_to m es ''u'' 0 (sample_store m es)"
  by (simp add: store_returned_to_def sample_store_def)

text \<open>The user with the name w reads the created store.\<close>

lemma sample_store_for_user:
  assumes "\<forall>user \<in> set [sample_user] \<union> set [sample_self]. \<exists>es \<in> set (stc_keys m). es_user es = up_userId user \<and>
      (\<forall>c2 info. cn_env c2 = cn_env (sample_connection 5) \<and> (\<forall>r. cn_verifier c2 [r] = Some [True]) \<and> (\<forall>s. cn_str c2 (JString s) = Inr s) \<and>
         up_pubKey user = PublicKey_toBase58DER (en_crypto (cn_env (sample_connection 5))) (en_ecc (cn_env (sample_connection 5))) (cn_userPrivKey c2) \<and>
         store_returned_to m es ''u'' (cn_now (sample_connection 5) (as_draws sample_store_state + 3)) info \<longrightarrow>
         (\<exists>k. validateDecryptAndConvertStoreDataToStore c2 info = Inr k \<and> lst_statusCode k = 0 \<and>
           lst_publicMeta k = [1] \<and> lst_privateMeta k = [2] \<and> lst_policy k = (case None of None \<Rightarrow> empty_policy | Some q \<Rightarrow> q)))"
  shows "\<exists>es k. validateDecryptAndConvertStoreDataToStore (sample_connection 7) (sample_store m es) = Inr k \<and> lst_statusCode k = 0 \<and>
    lst_publicMeta k = [1] \<and> lst_privateMeta k = [2]"
proof -
  obtain es where other: "\<forall>c2 info. cn_env c2 = cn_env (sample_connection 5) \<and> (\<forall>r. cn_verifier c2 [r] = Some [True]) \<and>
         (\<forall>s. cn_str c2 (JString s) = Inr s) \<and>
         up_pubKey sample_user = PublicKey_toBase58DER (en_crypto (cn_env (sample_connection 5))) (en_ecc (cn_env (sample_connection 5))) (cn_userPrivKey c2) \<and>
         store_returned_to m es ''u'' (cn_now (sample_connection 5) (as_draws sample_store_state + 3)) info \<longrightarrow>
         (\<exists>k. validateDecryptAndConvertStoreDataToStore c2 info = Inr k \<and> lst_statusCode k = 0 \<and>
           lst_publicMeta k = [1] \<and> lst_privateMeta k = [2] \<and> lst_policy k = (case None of None \<Rightarrow> empty_policy | Some q \<Rightarrow> q))"
    using bspec [OF assms, of sample_user] by auto
  have "up_pubKey sample_user = PublicKey_toBase58DER (en_crypto sample_core_env) (en_ecc sample_core_env) 7"
    by (simp add: sample_user_def sample_core_env_def)
  then show ?thesis
    using other [rule_format, of "sample_connection 7" "sample_store m es"] sample_store_returned [of m es] by auto
qed

theorem store_created_readable_witness:
  "\<exists>m es st' k. createStoreEx (sample_connection 5) sample_store_bridge ''c'' [sample_user] [sample_self] [1] [2] ''store'' None sample_store_state
       = (Inr ''s'', st') \<and> as_server st' = ([m], []) \<and>
     validateDecryptAndConvertStoreDataToStore (sample_connection 7) (sample_store m es) = Inr k \<and>
     lst_statusCode k = 0 \<and> lst_publicMeta k = [1] \<and> lst_privateMeta k = [2]"
proof -
  note created = store_created_readable [OF sample_connection_ok sample_keys_fit sample_store_users,
      of sample_store_bridge "[1]" "[2]" "''store''" None sample_store_state]
  then obtain m d where run: "createStoreEx (sample_connection 5) sample_store_bridge ''c'' [sample_user] [sample_self] [1] [2] ''store'' None
      sample_store_state = requesting (sb_storeCreate sample_store_bridge m) (sample_store_state\<lparr>as_draws := d\<rparr>)"
    and "\<exists>es k. validateDecryptAndConvertStoreDataToStore (sample_connection 7) (sample_store m es) = Inr k \<and> lst_statusCode k = 0 \<and>
      lst_publicMeta k = [1] \<and> lst_privateMeta k = [2]"
    using sample_store_for_user by (elim exE conjE) blast
  then show ?thesis
    by (intro exI [of _ m], elim exE) (rule exI, rule exI [of _ "sample_store_state\<lparr>as_draws := d, as_server := ([m], [])\<rparr>"], rule exI,
      unfold run, auto simp: requesting_def sample_store_bridge_def sample_store_state_def)
qed

lemma single_store_read:
  assumes "validateDecryptAndConvertStoreDataToStore c info = Inr r" and "lst_statusCode r = 0"
  obtains k dio where "validateStoreDataIntegrity c info = 0"
    and "bindR (keys_at c (KeyRequest_addOne (sr_keys info) (sde_keyId (last (sr_data info))) (store_location info)) (store_location info))
        (\<lambda>ks. unordered_map_at ks (sde_keyId (last (sr_data info)))) = Inr k"
    and "decryptAndConvertStoreDataToStore c info (last (sr_data info)) k = Inr (r, dio)"
    and "cn_verifier c [store_request r dio] = Some [True]"
proof -
  have run: "read_single_store c info = Inr r"
    using assms by (auto simp: validateDecryptAndConvertStoreDataToStore_def failed_store_def status_of_neq
        dest!: convertServerStore_fields split: sum.splits)
  then have int: "validateStoreDataIntegrity c info = 0"
    using assms(2) by (auto simp: read_single_store_def Let_def failed_store_def dest: convertServerStore_fields split: if_splits)
  then show thesis
    using run assms(2) that by (simp add: read_single_store_def Let_def) (erule single_item_read; simp)
qed

theorem store_stores_authentic_witness:
  "\<exists>info r k dio. validateDecryptAndConvertStoresDataToStores (sample_connection 7) [info] = Inr [r] \<and>
     store_shown (sample_connection 7) info k r dio"
proof -
  let ?c = "sample_connection 7"
  obtain info r where one: "validateDecryptAndConvertStoreDataToStore ?c info = Inr r" "lst_statusCode r = 0"
    using store_created_read [OF sample_connection_ok sample_keys_fit sample_store_users,
        of sample_store_bridge "[1]" "[2]" "''store''" None sample_store_state] sample_store_for_user
    by (elim exE conjE) blast
  let ?i = "sde_keyId (last (sr_data info))"
  obtain k dio where d: "validateStoreDataIntegrity ?c info = 0"
      "bindR (keys_at ?c (KeyRequest_addOne (sr_keys info) ?i (store_location info)) (store_location info)) (\<lambda>ks. unordered_map_at ks ?i) = Inr k"
      "decryptAndConvertStoreDataToStore ?c info (last (sr_data info)) k = Inr (r, dio)"
    by (rule single_store_read [OF one])
  obtain req m ks where add: "KeyRequest_addOne (sr_keys info) ?i (store_location info) KeyRequest_new = (Inr (), req)"
      and m: "KeyProvider_getKeysAndVerify (cn_env ?c) (cn_userPrivKey ?c) (cn_verifier ?c) req = Inr m"
        "at_location m (store_location info) = Inr ks" "unordered_map_at ks ?i = Inr k"
    using d(2) by (auto simp: keys_at_def bindR_eq_Inr split: prod.splits sum.splits)
  have keys: "get_store_keys ?c [info] = Inr m"
    using m(1) by (simp add: get_store_keys_def request_store_keys_def bindS_def add ret_def)
  have dec: "decrypt_store ?c m info = Inr (r, dio)" by (simp add: decrypt_store_def m d(3))
  have run: "validateDecryptAndConvertStoresDataToStores ?c [info] = Inr [r]"
    using one(2) by (simp add: validateDecryptAndConvertStoresDataToStores_def read_containers_def check_containers_def d(1) keys dec
        Store_new_def verify_containers_def UserVerifier_verify_def verified_status_def)
  from store_stores_authentic [OF run] one(2) have "\<exists>k dio. store_shown ?c info k r dio" by auto
  with run show ?thesis by blast
qed

end
