(* ===== verification/Store_Transfer.thy ===== *)
theory Store_Transfer
  imports Store_OpenFiles Store_Writing Store_Sample
begin

text \<open>
  From upload to download: a file that is written in pieces, registered with its meta data and served by the
  Bridge is opened under a handle number and read, byte for byte. The theorem joins the models of the
  upload (\<open>FileWriteHandle\<close>), of the meta data (\<open>StoreApiImpl\<close>), of the handle table and of the reader.
\<close>

subsection \<open>What an upload does not change\<close>

text \<open>\<open>keeps f m\<close>: the operation leaves the view \<open>f\<close> of the state as it is, whether it throws or not.\<close>

definition keeps :: "('s \<Rightarrow> 'b) \<Rightarrow> ('e, 's, 'a) op \<Rightarrow> bool" where
  "keeps f m \<longleftrightarrow> (\<forall>s. f (snd (m s)) = f s)"

lemma keeps_bindS: "keeps f m \<Longrightarrow> (\<And>a. keeps f (g a)) \<Longrightarrow> keeps f (bindS m g)"
  by (auto simp: keeps_def bindS_def split: prod.splits sum.splits) (metis snd_conv)+

lemma keeps_for_each: "(\<And>a. keeps f (g a)) \<Longrightarrow> keeps f (for_each g as)"
proof (induction as)
  case Nil
  show ?case by (simp add: keeps_def ret_def)
next
  case (Cons a as)
  then show ?case by (simp add: keeps_bindS)
qed

lemma keeps_liftR: "keeps f (liftR r)"
  by (simp add: keeps_def liftR_def split: sum.splits)

text \<open>Everything of a write handle but its streams and its size.\<close>

definition upload_identity :: "'s FileWriteHandle \<Rightarrow> FileHandle \<times> bytes \<times> bytes" where
  "upload_identity h = ((fw_handle h)\<lparr>hd_size := 0\<rparr>, fw_publicMeta h, fw_privateMeta h)"

lemma keeps_parts: "keeps upload_identity (on_upload m)" "keeps upload_identity (on_stream m')"
  by (auto simp: keeps_def on_upload_def on_stream_def upload_identity_def split: prod.splits)

lemma keeps_write: "keeps upload_identity (FileWriteHandle_write c api d)"
proof -
  have "keeps upload_identity (stream_full_chunk c api i)" for i
    unfolding keeps_def stream_full_chunk_def using keeps_bindS [OF keeps_liftR keeps_parts(1)] unfolding keeps_def by blast
  then have "keeps upload_identity (for_each (stream_full_chunk c api) is)" for "is"
    by (rule keeps_for_each)
  then have "keeps upload_identity (\<lambda>h. for_each (stream_full_chunk c api) (l h) h)" for l
    unfolding keeps_def by blast
  then show ?thesis unfolding FileWriteHandle_write_def by (intro keeps_bindS keeps_parts)
qed

lemma keeps_finalize: "keeps upload_identity (FileWriteHandle_finalize c api)"
proof -
  have "keeps upload_identity (\<lambda>h. (Inr r, h\<lparr>fw_handle := (fw_handle h)\<lparr>hd_size := f h\<rparr>\<rparr>))" for r f
    by (simp add: keeps_def upload_identity_def)
  then have "keeps upload_identity (bindS (on_stream ChunkBufferedStream_readChunk) (\<lambda>d.
      bindS (on_upload (ChunkStreamer_finalize c api d)) (\<lambda>result h.
        (Inr result, h\<lparr>fw_handle := (fw_handle h)\<lparr>hd_size := ChunkStreamer_getUploadedFileSize (up_streamer (fw_upload h))\<rparr>\<rparr>))))"
    by (intro keeps_bindS keeps_parts)
  then show ?thesis by (simp add: keeps_def FileWriteHandle_finalize_def)
qed

lemma keeps_upload: "keeps upload_identity (upload_file c api ds)"
  unfolding upload_file_def
proof (intro keeps_bindS keeps_for_each keeps_write keeps_finalize)
  show "keeps upload_identity (FileWriteHandle_createRequestData c api)"
    unfolding keeps_def FileWriteHandle_createRequestData_def using keeps_parts(1) unfolding keeps_def by blast
qed

lemma uploaded_handle:
  assumes "upload_file c api ds (FileWriteHandle_new hid sid fid resid sz pm sm n R rw s r) = (res, h')"
  shows "hd_storeId (fw_handle h') = sid" "hd_fileId (fw_handle h') = fid" "hd_resourceId (fw_handle h') = resid"
    "hd_randomWriteSupport (fw_handle h') = rw" "fw_publicMeta h' = pm" "fw_privateMeta h' = sm"
proof -
  have "upload_identity h' = upload_identity (FileWriteHandle_new hid sid fid resid sz pm sm n R rw s r)"
    using keeps_upload [of c api ds] assms unfolding keeps_def by (metis snd_conv)
  then show "hd_storeId (fw_handle h') = sid" "hd_fileId (fw_handle h') = fid" "hd_resourceId (fw_handle h') = resid"
      "hd_randomWriteSupport (fw_handle h') = rw" "fw_publicMeta h' = pm" "fw_privateMeta h' = sm"
    by (cases "fw_handle h'"; simp add: upload_identity_def FileWriteHandle_new_def)+
qed

subsection \<open>Opening what was registered\<close>

text \<open>The key of a file, looked up among the keys of its store.\<close>

definition store_gives_key :: "'k connection \<Rightarrow> ServerStore \<Rightarrow> string \<Rightarrow> DecryptedEncKeyV2 \<Rightarrow> bool" where
  "store_gives_key c store keyId key \<longleftrightarrow>
     bindR (keys_at c (KeyRequest_addOne (sr_keys store) keyId (store_location store)) (store_location store))
       (\<lambda>keys. unordered_map_at keys keyId) = Inr key"

text \<open>
  The Bridge serves a file: its entry has the meta data \<open>v\<close>, its store gives the key, and its content and digests
  are \<open>enc\<close> and \<open>sums\<close>.
\<close>

definition serves_upload ::
    "'k connection \<Rightarrow> 's store_bridge \<Rightarrow> ('s store_world, json) store_server \<Rightarrow> string \<Rightarrow> DecryptedEncKeyV2 \<Rightarrow> json \<Rightarrow> bytes \<Rightarrow> bytes \<Rightarrow>
     's store_world \<Rightarrow> bool" where
  "serves_upload c sv api fid key v enc sums w \<longleftrightarrow>
     (\<exists>store file. sb_storeFileGet sv fid (as_server w) = Inr (store, file) \<and> store_gives_key c store (fl_keyId file) key \<and>
        fl_id file = fid \<and> fl_meta file = v \<and> u64_of_int (fl_size file) = length enc \<and>
        serves_file api w fid (fl_version file) enc sums)"

definition handles_left :: "'s store_state \<Rightarrow> bool" where
  "handles_left hst \<longleftrightarrow>
     (let hm = ss_handleManager hst in
      finite (dom (hm_map hm)) \<and> - (2 ^ 63) \<le> hm_id hm \<and> hm_id hm + int (card (dom (hm_map hm))) + 1 < 2 ^ 63)"

lemma create_returns:
  assumes "handles_left hst"
  obtains i hm where "HandleManager_createHandle label (ss_handleManager hst) = Some (i, hm)"
proof -
  let ?hm = "ss_handleManager hst"
  have a: "finite (dom (hm_map ?hm))" "- (2 ^ 63) \<le> hm_id ?hm" "hm_id ?hm + int (card (dom (hm_map ?hm))) + 1 < 2 ^ 63"
    using assms by (simp_all add: handles_left_def Let_def)
  obtain k where k: "\<forall>j. 1 \<le> j \<and> j \<le> k \<longrightarrow> hm_map ?hm (hm_id ?hm + int j) \<noteq> None"
      "hm_map ?hm (hm_id ?hm + int k + 1) = None" "k \<le> card (dom (hm_map ?hm))"
    using free_ahead [OF a(1), of "hm_id ?hm"] by blast
  have "hm_id ?hm + int k + 1 < 2 ^ 63" using k(3) a(3) by linarith
  from createHandle_skips [OF _ k(2) a(2) this] k(1) show thesis using that by blast
qed

lemma opened_params:
  assumes "readable_meta c (ek_key key) pm sm m v dio" and "checkable key" and "sa_conn x = c" and "fl_meta file = v"
    and "getFileDecryptionParams (cn_env c) file m = Inr params" and "store_gives_key c store (fl_keyId file) key"
  shows "getFileEncryptionParams x file store = Inr
      \<lparr>fep_fileMeta = \<lparr>fm_publicMeta = pm, fm_privateMeta = sm, fm_internalFileMeta = m\<rparr>,
       fep_fileDecryptionParams = params, fep_encKey = DecryptedEncKey_of key\<rparr>"
proof -
  have "decryptAndConvertFileDataToFileInfo x file key = Inr (convertServerFileToLibFile file pm sm (im_size m)
      (PublicKey_toBase58DER (en_crypto (cn_env c)) (en_ecc (cn_env c)) (cn_userPrivKey c)) 0 5 (random_write m), dio)"
      "decryptFileInternalMeta x file key = Inr m"
    using assms(1-4) unfolding readable_meta_def by blast+
  then show ?thesis
    using assms(3,5,6) by (simp add: getFileEncryptionParams_def getFileEncryptionParams_with_key_def store_gives_key_def
        convertServerFileToLibFile_def Let_def)
qed

text \<open>Seeking and reading through the number of a read handle whose state is that of the module.\<close>

lemma seek_read_handle:
  assumes h: "ss_files hst i = Some (ReadHandle h)"
    and io: "io_server (frh_io h) = ss_server hst" "io_draws (frh_io h) = ss_draws hst"
    and "pos < hd_size (frh_handle h)" and "pos < 2 ^ 64" and "len < 2 ^ 64"
    and rd: "FileReader_read (se_crypto env) (se_api env) (frh_reader h) pos len (frh_io h) = (Inr x, io')"
  shows "fst (bindS (StoreApiImpl_seekInFile i (int pos)) (\<lambda>_. StoreApiImpl_readFromFile env i (int len)) hst) = Inr x"
proof -
  let ?h = "h\<lparr>frh_pos := pos\<rparr>" and ?hst = "store_handle i (ReadHandle (h\<lparr>frh_pos := pos\<rparr>)) hst"
  have num: "u64_of_int (int pos) = pos" "u64_of_int (int len) = len" "\<not> SIZE_MAX < len"
    using assms(5,6) by (simp_all add: u64_of_int_of_nat SIZE_MAX_def)
  have load: "load_world (ss_server hst) (ss_draws hst) (ReadHandle h) = ReadHandle h"
      "load_world (ss_server ?hst) (ss_draws ?hst) (ReadHandle ?h) = ReadHandle ?h"
    using io by (simp_all add: store_handle_def flip: io)
  have seek: "StoreApiImpl_seekInFile i (int pos) hst = (Inr (), ?hst)"
    using h load(1) assms(4) num(1) by (simp add: StoreApiImpl_seekInFile_def FileHandleManager_tryGetFileReadWriteHandle_def
        FileHandleManager_getFileReadHandle_def FileHandleManager_getFileHandle_def on_read_handle_def FileReadHandle_seek_def)
  have "ss_files ?hst i = Some (ReadHandle ?h)" by (simp add: store_handle_def)
  then have "FileHandleManager_getFileHandle ?hst i = Inr (load_world (ss_server ?hst) (ss_draws ?hst) (ReadHandle ?h))"
    unfolding FileHandleManager_getFileHandle_def by (simp only: option.case)
  then have "FileHandleManager_getFileHandle ?hst i = Inr (ReadHandle ?h)" by (simp only: load(2))
  then have "fst (StoreApiImpl_readFromFile env i (int len) ?hst) = Inr x"
    using rd num(2,3) by (simp add: StoreApiImpl_readFromFile_def FileHandleManager_tryGetFileReadWriteHandle_def
        FileHandleManager_getFileReadHandle_def on_read_handle_def FileReadHandle_read_def)
  then show ?thesis by (simp add: bindS_def seek)
qed

text \<open>Opening and reading a file that the Bridge serves, at the level of handle numbers.\<close>

lemma opened_handle_reads:
  assumes "se_fileParams env fid (ss_server hst) = Inr (fileInfo, params)" and "im_randomWrite (fm_internalFileMeta (fep_fileMeta params)) \<noteq> Some True"
    and "fdp_cipherType (fep_fileDecryptionParams params) = 1"
    and st: "stored_file (se_crypto env) (se_api env) (ss_server hst) (fep_fileDecryptionParams params) chs plain"
    and fits: "file_fits (fdp_chunkSize (fep_fileDecryptionParams params)) (se_serverRequestChunkSize env) (length (file_data chs))"
    and "handles_left hst" and "pos < length plain" and "pos + len < 2 ^ 64" and "length plain < 2 ^ 64"
  shows "\<exists>i hst'. StoreApiImpl_openFile env fid hst = Some (Inr i, hst') \<and>
    fst (bindS (StoreApiImpl_seekInFile i (int pos)) (\<lambda>_. StoreApiImpl_readFromFile env i (int len)) hst') = Inr (take len (drop pos plain))"
proof -
  let ?dp = "fep_fileDecryptionParams params"
  obtain i hm where create: "HandleManager_createHandle ''Store:FileRead'' (ss_handleManager hst) = Some (i, hm)"
    by (rule create_returns [OF assms(6)])
  obtain io where io: "open_file_io (se_crypto env) (se_api env) ?dp (se_serverRequestChunkSize env) (ss_draws hst) (ss_server hst) = Inr io"
      "file_view (se_crypto env) (se_api env) (fdp_version ?dp) chs io plain" "io_server io = ss_server hst" "io_draws io = ss_draws hst"
    using open_file_io_view [OF st fits, of "ss_draws hst"] by blast
  let ?h = "\<lparr>frh_handle = \<lparr>hd_id = i, hd_storeId = [], hd_fileId = fdp_fileId ?dp, hd_resourceId = fdp_resourceId ?dp,
      hd_size = fdp_originalSize ?dp, hd_randomWriteSupport = False\<rparr>, frh_io = io, frh_reader = FileReader_new ?dp, frh_pos = 0\<rparr>"
  let ?hst = "hst\<lparr>ss_handleManager := hm, ss_files := (ss_files hst)(i \<mapsto> ReadHandle ?h)\<rparr>"
  have size: "fdp_originalSize ?dp = length plain" using st by (simp add: stored_file_def Let_def)
  have "StoreApiImpl_openFile env fid hst = Some (Inr i, ?hst)"
    using assms(1-3) create io(1) by (simp add: StoreApiImpl_openFile_def StoreApiImpl_createFileReadHandle_def
        FileHandleManager_createFileReadHandle_def FileHandleManager_create_def FileReadHandle_new_def Let_def)
  moreover obtain io' where "FileReader_read (se_crypto env) (se_api env) (FileReader_new ?dp) pos len io = (Inr (take len (drop pos plain)), io')"
    using FileReader_read_view [OF io(2) _ assms(9,8), of "FileReader_new ?dp"] size by (auto simp: FileReader_new_def)
  then have "fst (bindS (StoreApiImpl_seekInFile i (int pos)) (\<lambda>_. StoreApiImpl_readFromFile env i (int len)) ?hst)
      = Inr (take len (drop pos plain))"
    using assms(7-9) size io(3,4) by (intro seek_read_handle [of _ _ ?h]) simp_all
  ultimately show ?thesis by blast
qed

subsection \<open>From upload to download\<close>

lemma uploaded_content:
  assumes ok: "crypto_ok c" and fits: "upload_fits n (length plain)" and "0 < R" and "got = chunks R (file_data chs)"
    and "sealed_file (ChunkEncryptor_decrypt c \<lparr>ce_key = key, ce_chunkSize = n\<rparr>) n plain chs"
    and "hmac = hmacSha256 c key (file_checksums chs)" and "hd_size handle = length plain"
    and "serves_file api s fid v (concat got) (file_checksums chs)" and "sz = length (concat got)"
  shows "stored_file c api s \<lparr>fdp_fileId = fid, fdp_resourceId = resid, fdp_sizeOnServer = sz, fdp_originalSize = hd_size handle,
      fdp_cipherType = t, fdp_chunkSize = n, fdp_key = key, fdp_hmac = hmac, fdp_version = v\<rparr> chs plain"
proof -
  have "concat got = file_data chs" using assms(3,4) by (simp add: concat_chunks)
  moreover have "0 < n" "n + 64 < 2 ^ 64" using fits upload_fits_size(2) [OF fits] by (simp_all add: upload_fits_def)
  ultimately show ?thesis using assms by (simp add: stored_file_def ChunkEncryptor_ready_def Let_def)
qed

lemma file_fits_mono: "file_fits n scs k \<Longrightarrow> l \<le> k \<Longrightarrow> file_fits n scs l"
  unfolding file_fits_def by linarith

lemma sealed_length_bound:
  assumes "sealed_file dec n plain chs" and "0 < n"
  shows "length (file_data chs) \<le> Suc (length plain div n) * encrypted_len n"
proof -
  have "length (file_data chs) = sum_list (map (encrypted_len \<circ> length) (chunks n plain))"
    by (rule sealed_file_size [OF assms(1)])
  also have "\<dots> \<le> sum_list (map (\<lambda>_. encrypted_len n) (chunks n plain))"
    by (intro sum_list_mono) (auto intro!: encrypted_len_mono simp: in_set_conv_nth nth_chunks [OF assms(2)])
  also have "\<dots> = length (chunks n plain) * encrypted_len n" by (simp add: sum_list_triv)
  also have "length (chunks n plain) \<le> Suc (length plain div n)"
  proof -
    have "(length plain + n - 1) div n \<le> (length plain + n) div n" by (rule div_le_mono) simp
    also have "\<dots> = Suc (length plain div n)" by (rule div_add_self2' [OF assms(2)])
    finally show ?thesis using assms(2) by (simp add: length_chunks)
  qed
  finally show ?thesis by simp
qed

text \<open>What was registered with the meta data of an upload is opened and read wherever it is served.\<close>

lemma served_upload_read:
  fixes hst :: "'w store_world store_state"
  assumes env: "core_env_ok (cn_env c)" and meta: "readable_meta c (ek_key key) pm sm (uploaded_meta c handle info) v dio"
    and "checkable key" and sizes: "uploaded_sizes_fit handle info" and cipher: "si_cipherType info = 1" and rw: "\<not> hd_randomWriteSupport handle"
    and up: "upload_fits (si_chunkSize info) (length plain)" "0 < R" "got = chunks R (file_data chs)"
      "sealed_file (ChunkEncryptor_decrypt (en_crypto (cn_env c)) \<lparr>ce_key = si_key info, ce_chunkSize = si_chunkSize info\<rparr>) (si_chunkSize info) plain chs"
      "si_hmac info = hmacSha256 (en_crypto (cn_env c)) (si_key info) (file_checksums chs)" "hd_size handle = length plain"
    and serves: "sa_conn x = c" "serves_upload c sv api fid key v (concat got) (file_checksums chs) (ss_server hst)"
    and fits: "file_fits (si_chunkSize info) scs (Suc (length plain div si_chunkSize info) * encrypted_len (si_chunkSize info))" and left: "handles_left hst" and pos: "pos < length plain" "pos + len < 2 ^ 64"
  shows "\<exists>i hst'. StoreApiImpl_openFile (store_env_of x sv api rq scs) fid hst = Some (Inr i, hst') \<and>
    fst (bindS (StoreApiImpl_seekInFile i (int pos)) (\<lambda>_. StoreApiImpl_readFromFile (store_env_of x sv api rq scs) i (int len)) hst')
      = Inr (take len (drop pos plain))"
proof -
  let ?env = "store_env_of x sv api rq scs"
  obtain store "file" where f: "sb_storeFileGet sv fid (as_server (ss_server hst)) = Inr (store, file)" "store_gives_key c store (fl_keyId file) key"
      "fl_id file = fid" "fl_meta file = v" "u64_of_int (fl_size file) = length (concat got)"
      "serves_file api (ss_server hst) fid (fl_version file) (concat got) (file_checksums chs)"
    using serves(2) unfolding serves_upload_def by blast
  note params = opened_params [OF meta assms(3) serves(1) f(4) uploaded_params [OF env sizes] f(2)]
  let ?dp = "\<lparr>fdp_fileId = fid, fdp_resourceId = fl_resourceId file, fdp_sizeOnServer = length (concat got), fdp_originalSize = hd_size handle,
      fdp_cipherType = si_cipherType info, fdp_chunkSize = si_chunkSize info, fdp_key = si_key info, fdp_hmac = si_hmac info, fdp_version = fl_version file\<rparr>"
  let ?p = "\<lparr>fep_fileMeta = \<lparr>fm_publicMeta = pm, fm_privateMeta = sm, fm_internalFileMeta = uploaded_meta c handle info\<rparr>,
      fep_fileDecryptionParams = ?dp, fep_encKey = DecryptedEncKey_of key\<rparr>"
  obtain fi where opened: "se_fileParams ?env fid (ss_server hst) = Inr (fi, ?p)"
    using f(1) params by (auto simp: store_env_of_def Let_def opened_file_params_def f(3,5))
  have sel: "se_crypto ?env = en_crypto (cn_env c)" "se_api ?env = api" "se_serverRequestChunkSize ?env = scs"
    by (simp_all add: store_env_of_def Let_def serves(1))
  have st: "stored_file (se_crypto ?env) (se_api ?env) (ss_server hst) (fep_fileDecryptionParams ?p) chs plain"
    unfolding sel FileEncryptionParams.simps
    by (rule uploaded_content [OF core_env_okD(1) [OF env] up f(6) refl])
  have "0 < si_chunkSize info" using up(1) by (simp add: upload_fits_def)
  then have "file_fits (si_chunkSize info) scs (length (file_data chs))"
    by (rule file_fits_mono [OF fits sealed_length_bound [OF up(4)]])
  then have ff: "file_fits (fdp_chunkSize (fep_fileDecryptionParams ?p)) (se_serverRequestChunkSize ?env) (length (file_data chs))"
    by (simp add: sel(3))
  have "length plain < 2 ^ 64" using upload_fits_size(1) [OF up(1)] by simp
  from opened_handle_reads [OF opened _ _ st ff left pos this] cipher rw show ?thesis
    by (simp add: uploaded_meta_def)
qed

text \<open>
  C4. A file comes back as it was written. Bytes written in pieces of any sizes through a \<open>FileWriteHandle\<close>
  are registered by \<open>storeFileFinalizeWriteRequest\<close> with meta data \<open>v\<close>; whenever later a Bridge serves a file with
  that meta data, the bytes and the digests it received and a store that gives the same key, \<open>openFile\<close>
  returns a handle number, and \<open>seekInFile\<close> to any position of the file followed by \<open>readFromFile\<close> of any length
  returns exactly the written bytes of that range.
\<close>

theorem uploaded_file_read:
  fixes h0 :: "'u FileWriteHandle" and c :: "'k connection"
  assumes "connection_ok c" and "getAndValidateModuleCurrentEncKey c keys = Inr key" and "checkable key"
    and "length (ek_key key) = 32" and "cn_myUserId c (mk_contextId keys) = Inr u" and "u \<noteq> []"
    and "mk_contextId keys \<noteq> []" and "mk_moduleSchemaVersion keys = 5"
    and "opens_request requests rid got fin s" and "collects requests rid 0 got fin"
    and "upload_fits n (length plain)" and "0 < R" and "concat pieces = plain"
    and h0: "h0 = FileWriteHandle_new hid sid [] resid (length plain) pm sm n R False s r"
  shows "\<exists>h info v d. upload_file (en_crypto (cn_env c)) requests pieces h0 = (Inr info, h) \<and>
    storeFileFinalizeWriteRequest c sv (fw_handle h) (fw_publicMeta h) (fw_privateMeta h) info keys st =
      requesting (sb_storeFileCreate sv \<lparr>sfc_resourceId = resid, sfc_storeId = sid, sfc_requestId = rid, sfc_fileIndex = 0,
        sfc_meta = v, sfc_keyId = ek_id key, sfc_thumbIndex = None\<rparr>) (st\<lparr>as_draws := d\<rparr>) \<and>
    (\<forall>x (sv' :: 'w store_bridge) api rq scs fid hst pos len. sa_conn x = c \<and>
       serves_upload c sv' api fid key v (concat (got (up_server (fw_upload h)))) (the (fin (up_server (fw_upload h)))) (ss_server hst) \<and>
       file_fits n scs (Suc (length plain div n) * encrypted_len n) \<and> handles_left hst \<and> pos < length plain \<and> pos + len < 2 ^ 64 \<longrightarrow>
       (\<exists>i hst'. StoreApiImpl_openFile (store_env_of x sv' api rq scs) fid hst = Some (Inr i, hst') \<and>
          fst (bindS (StoreApiImpl_seekInFile i (int pos)) (\<lambda>_. StoreApiImpl_readFromFile (store_env_of x sv' api rq scs) i (int len)) hst')
            = Inr (take len (drop pos plain))))"
proof -
  let ?c = "en_crypto (cn_env c)"
  have env: "core_env_ok (cn_env c)" using assms(1) by (simp add: connection_ok_def)
  note ok = core_env_okD(1) [OF env] and size = upload_fits_size [OF assms(11)]
  obtain h chs info where up: "upload_file ?c requests pieces h0 = (Inr info, h)"
    and sealed: "sealed_file (ChunkEncryptor_decrypt ?c \<lparr>ce_key = si_key info, ce_chunkSize = n\<rparr>) n plain chs"
    and got: "got (up_server (fw_upload h)) = chunks R (file_data chs)" "fin (up_server (fw_upload h)) = Some (file_checksums chs)"
    and info: "si_hmac info = hmacSha256 ?c (si_key info) (file_checksums chs)" "si_chunkSize info = n" "si_cipherType info = 1"
      "si_requestId info = rid" "hd_size (fw_handle h) = length plain"
    using upload_stored [OF ok assms(9-13), of hid sid "[]" resid pm sm False r] unfolding h0 by blast
  note id = uploaded_handle [OF up [unfolded h0]]
  have fits: "uploaded_sizes_fit (fw_handle h) info" using size info by (simp add: uploaded_sizes_fit_def)
  obtain v d dio where reg: "storeFileFinalizeWriteRequest c sv (fw_handle h) pm sm info keys st =
      requesting (sb_storeFileCreate sv \<lparr>sfc_resourceId = hd_resourceId (fw_handle h), sfc_storeId = hd_storeId (fw_handle h),
        sfc_requestId = si_requestId info, sfc_fileIndex = 0, sfc_meta = v, sfc_keyId = ek_id key, sfc_thumbIndex = None\<rparr>) (st\<lparr>as_draws := d\<rparr>)"
    and meta: "readable_meta c (ek_key key) pm sm (uploaded_meta c (fw_handle h) info) v dio"
    by (rule registered_file [OF assms(1-8) id(2) fits])
  show ?thesis
  proof (rule exI [of _ h], rule exI [of _ info], rule exI [of _ v], rule exI [of _ d], intro conjI allI impI, rule up)
    show "storeFileFinalizeWriteRequest c sv (fw_handle h) (fw_publicMeta h) (fw_privateMeta h) info keys st =
      requesting (sb_storeFileCreate sv \<lparr>sfc_resourceId = resid, sfc_storeId = sid, sfc_requestId = rid, sfc_fileIndex = 0,
        sfc_meta = v, sfc_keyId = ek_id key, sfc_thumbIndex = None\<rparr>) (st\<lparr>as_draws := d\<rparr>)"
      using reg by (simp add: id info(4))
    fix x :: "'k store_api" and sv' :: "'w store_bridge" and api rq scs fid and hst :: "'w store_world store_state" and pos len
    assume a: "sa_conn x = c \<and>
       serves_upload c sv' api fid key v (concat (got (up_server (fw_upload h)))) (the (fin (up_server (fw_upload h)))) (ss_server hst) \<and>
       file_fits n scs (Suc (length plain div n) * encrypted_len n) \<and> handles_left hst \<and> pos < length plain \<and> pos + len < 2 ^ 64"
    show "\<exists>i hst'. StoreApiImpl_openFile (store_env_of x sv' api rq scs) fid hst = Some (Inr i, hst') \<and>
          fst (bindS (StoreApiImpl_seekInFile i (int pos)) (\<lambda>_. StoreApiImpl_readFromFile (store_env_of x sv' api rq scs) i (int len)) hst')
            = Inr (take len (drop pos plain))"
      using a info got id(4)
      by (intro served_upload_read [OF env meta assms(3) fits _ _ _ assms(12) got(1)]) (use sealed assms(11) in simp_all)
  qed
qed

text \<open>
  A file of five bytes on the sample connection: it is written in three pieces, registered, served by a
  Bridge that holds what was sent, opened and read from its third byte.
\<close>

definition sample_content_server :: "bytes \<Rightarrow> bytes \<Rightarrow> ('s, json) store_server" where
  "sample_content_server enc sums =
     \<lparr>storeFileRead = (\<lambda>m s. case rm_range m of
          RangeSlice f t \<Rightarrow> Inr (take (nat t - nat f) (drop (nat f) enc))
        | _ \<Rightarrow> Inr sums),
      storeFileWrite = (\<lambda>m s. (Inr (), s))\<rparr>"

lemma sample_content_serves: "serves_file (sample_content_server enc sums) s fid v enc sums"
  by (simp add: serves_file_def sample_content_server_def)

definition sample_key_store :: "KeyEntrySet \<Rightarrow> ServerStore" where
  "sample_key_store es =
     \<lparr>sr_id = ''s'', sr_resourceId = Some ''r'', sr_contextId = ''c'', sr_createDate = 0, sr_creator = ''u'', sr_lastModificationDate = 0,
      sr_lastModifier = ''u'', sr_data = [], sr_keyId = es_keyId es, sr_users = [], sr_managers = [],
      sr_keys = [\<lparr>ent_keyId = es_keyId es, ent_data = es_data es\<rparr>], sr_version = 1, sr_lastFileDate = 0, sr_files = 0, sr_type = None,
      sr_policy = JEmpty\<rparr>"

lemma sample_key_store_gives:
  assumes "getAndValidateModuleCurrentEncKey c (sample_module_keys es) = Inr k"
  shows "store_gives_key c (sample_key_store es) (es_keyId es) k"
  using assms by (simp add: getAndValidateModuleCurrentEncKey_def store_gives_key_def sample_module_keys_def sample_key_store_def
      store_location_def Let_def)

definition sample_serving_bridge :: "KeyEntrySet \<Rightarrow> json \<Rightarrow> nat \<Rightarrow> (StoreCreateModel list \<times> StoreFileCreateModel list) store_bridge" where
  "sample_serving_bridge es v n = sample_store_bridge\<lparr>sb_storeFileGet := (\<lambda>i s.
     Inr (sample_key_store es, (sample_file v (es_keyId es) ''r'')\<lparr>fl_id := i, fl_size := int n\<rparr>))\<rparr>"

lemma sample_serves_upload:
  assumes "getAndValidateModuleCurrentEncKey c (sample_module_keys es) = Inr k" and "length enc < 2 ^ 64"
  shows "serves_upload c (sample_serving_bridge es v (length enc)) (sample_content_server enc sums) fid k v enc sums w"
  using sample_key_store_gives [OF assms(1)] assms(2)
  by (simp add: serves_upload_def sample_serving_bridge_def sample_content_serves u64_of_int_of_nat)

definition sample_handles :: "(StoreCreateModel list \<times> StoreFileCreateModel list) store_world store_state" where
  "sample_handles = \<lparr>ss_server = sample_store_state, ss_draws = 0, ss_handleManager = HandleManager_new, ss_files = Map.empty\<rparr>"

lemma sample_handles_left: "handles_left sample_handles"
  by (simp add: handles_left_def sample_handles_def HandleManager_new_def)

lemma sample_content_size: "upload_fits 4 5" "file_fits 4 100 (Suc (5 div 4) * encrypted_len 4)"
  by (simp_all add: upload_fits_def file_fits_def encrypted_len_def)

lemma sample_pieces: "concat [[1, 2], [3, 4, 5], []] = [1, 2, 3, 4, 5 :: byte]" "length [1, 2, 3, 4, 5 :: byte] = 5"
  by simp_all

text \<open>What the Bridge was sent has a length of 64 bits.\<close>

lemma sample_content_length:
  assumes "upload_file sample_crypto sample_requests [[1, 2], [3, 4, 5], []]
      (FileWriteHandle_new 1 ''s'' [] ''r'' 5 [1] [2] 4 50 False ([], None) 0) = (Inr info, h)"
  shows "length (concat (fst (up_server (fw_upload h)))) < 2 ^ 64"
proof -
  obtain chs where "fst (up_server (fw_upload h)) = chunks 50 (file_data chs)"
      "sealed_file (ChunkEncryptor_decrypt sample_crypto \<lparr>ce_key = si_key info, ce_chunkSize = 4\<rparr>) 4 [1, 2, 3, 4, 5] chs"
    using upload_stored [OF sample_crypto_ok sample_requests_opens sample_requests_collects, of 4 "[1, 2, 3, 4, 5]" 50
        "[[1, 2], [3, 4, 5], []]" 1 "''s''" "[]" "''r''" "[1]" "[2]" False "([], None)" 0, unfolded sample_pieces, OF sample_content_size(1)] assms by fastforce
  then have "length (file_data chs) \<le> Suc (5 div 4) * encrypted_len 4" "fst (up_server (fw_upload h)) = chunks 50 (file_data chs)"
    using sealed_length_bound [of _ 4 "[1, 2, 3, 4, 5]" chs, unfolded sample_pieces] by auto
  then show ?thesis by (simp add: concat_chunks encrypted_len_def)
qed

text \<open>Reading sends nothing, so the interface for uploads may refuse everything.\<close>

definition no_requests :: "'s request_api" where
  "no_requests =
     \<lparr>rq_createRequest = (\<lambda>m s. (Inl StdOutOfRange, s)), rq_sendChunk = (\<lambda>m s. (Inl StdOutOfRange, s)),
      rq_commitFile = (\<lambda>m s. (Inl StdOutOfRange, s))\<rparr>"

theorem uploaded_file_read_witness:
  "\<exists>es v enc sums i hst'.
     StoreApiImpl_openFile (store_env_of sample_store_api (sample_serving_bridge es v (length enc)) (sample_content_server enc sums) no_requests 100)
       ''f'' sample_handles = Some (Inr i, hst') \<and>
     fst (bindS (StoreApiImpl_seekInFile i (int 2))
       (\<lambda>_. StoreApiImpl_readFromFile
          (store_env_of sample_store_api (sample_serving_bridge es v (length enc)) (sample_content_server enc sums) no_requests 100) i (int 10)) hst')
       = Inr [3, 4, 5]"
proof -
  let ?c = "sample_connection 5"
  obtain es k where k: "getAndValidateModuleCurrentEncKey ?c (sample_module_keys es) = Inr k" "checkable k" "length (ek_key k) = 32"
      "cn_myUserId ?c (mk_contextId (sample_module_keys es)) = Inr ''u''" "''u'' \<noteq> []" "mk_contextId (sample_module_keys es) \<noteq> []"
      "mk_moduleSchemaVersion (sample_module_keys es) = 5"
    by (rule sample_file_key)
  let ?h0 = "FileWriteHandle_new 1 ''s'' [] ''r'' 5 [1] [2] 4 50 False ([], None) 0"
  note written = uploaded_file_read [OF sample_connection_ok k sample_requests_opens sample_requests_collects, of 4 "[1, 2, 3, 4, 5]" 50
      "[[1, 2], [3, 4, 5], []]" ?h0 1 "''s''" "''r''" "[1]" "[2]" "([], None)" 0 sample_store_bridge sample_store_state, unfolded sample_pieces]
  obtain h info v where up: "upload_file (en_crypto (cn_env ?c)) sample_requests [[1, 2], [3, 4, 5], []] ?h0 = (Inr info, h)"
    and read: "\<forall>x (sv' :: (StoreCreateModel list \<times> StoreFileCreateModel list) store_bridge) api rq scs fid hst pos len. sa_conn x = ?c \<and>
       serves_upload ?c sv' api fid k v (concat (fst (up_server (fw_upload h)))) (the (snd (up_server (fw_upload h)))) (ss_server hst) \<and>
       file_fits 4 scs (Suc (5 div 4) * encrypted_len 4) \<and> handles_left hst \<and> pos < 5 \<and> pos + len < 2 ^ 64 \<longrightarrow>
       (\<exists>i hst'. StoreApiImpl_openFile (store_env_of x sv' api rq scs) fid hst = Some (Inr i, hst') \<and>
          fst (bindS (StoreApiImpl_seekInFile i (int pos)) (\<lambda>_. StoreApiImpl_readFromFile (store_env_of x sv' api rq scs) i (int len)) hst')
            = Inr (take len (drop pos [1, 2, 3, 4, 5])))"
    using written sample_content_size(1) by (auto simp del: sample_connection_sel)
  let ?enc = "concat (fst (up_server (fw_upload h)))" and ?sums = "the (snd (up_server (fw_upload h)))"
  have "en_crypto (cn_env ?c) = sample_crypto" by (simp add: sample_core_env_def)
  then have "length ?enc < 2 ^ 64" using sample_content_length up by simp
  from sample_serves_upload [OF k(1) this, of v ?sums "''f''" "ss_server sample_handles"]
    read [rule_format, of sample_store_api "sample_serving_bridge es v (length ?enc)" "sample_content_server ?enc ?sums" "''f''" sample_handles 100 2 10 no_requests]
  have "\<exists>i hst'. StoreApiImpl_openFile (store_env_of sample_store_api (sample_serving_bridge es v (length ?enc))
          (sample_content_server ?enc ?sums) no_requests 100) ''f'' sample_handles = Some (Inr i, hst') \<and>
        fst (bindS (StoreApiImpl_seekInFile i (int 2)) (\<lambda>_. StoreApiImpl_readFromFile (store_env_of sample_store_api
          (sample_serving_bridge es v (length ?enc)) (sample_content_server ?enc ?sums) no_requests 100) i (int 10)) hst')
          = Inr (take 10 (drop 2 [1, 2, 3, 4, 5]))"
    using sample_content_size(2) sample_handles_left sample_store_api_conn by simp
  then show ?thesis by (intro exI [of _ es] exI [of _ v] exI [of _ ?enc] exI [of _ ?sums]) simp
qed

subsection \<open>Writing with the encryptor of the module\<close>

text \<open>
  The sample file of five bytes, on the sample Bridge or on one that refuses writes, with the encryption of meta data of the
  sample connection and a file key of 32 bytes in format 2.
\<close>

definition module_file_env :: "(sample_state, json) store_server \<Rightarrow> (sample_state, json) file_env" where
  "module_file_env api = \<lparr>fe_crypto = sample_crypto, fe_api = api, fe_base64 = base64_from (en_poco (cn_env (sample_connection 5))),
     fe_encryptMeta = FileMetaEncryptor_encrypt (sample_connection 5)\<rparr>"

definition keyed_rw :: "sample_state rw_file" where
  "keyed_rw = sample_rw\<lparr>rw_handler := (rw_handler sample_rw)\<lparr>fh_fileEncKey :=
     \<lparr>dk_id = ''k'', dk_key = replicate 32 1, dk_dataStructureVersion = 2, dk_statusCode = 0\<rparr>\<rparr>\<rparr>"

lemma module_file_env_sel [simp]: "fe_crypto (module_file_env api) = sample_crypto" "fe_api (module_file_env api) = api"
  by (simp_all add: module_file_env_def)

lemma keyed_rw_sel [simp]:
  "rw_io keyed_rw = sample_io" "fh_version (rw_handler keyed_rw) = 1" "fi_fileId (fh_fileInfo (rw_handler keyed_rw)) = ''f''"
  by (simp_all add: keyed_rw_def)

lemma module_meta_encrypts: "meta_encrypts (module_file_env api) (rw_handler keyed_rw)"
  unfolding meta_encrypts_def module_file_env_def
  using FileMetaEncryptor_encrypts [OF sample_connection_ok, where version = 2 and u = "''u''"]
  by (simp add: keyed_rw_def sample_rw_def FileHandler_new_def)

lemma module_rw_view:
  assumes "\<And>m s. storeFileRead api m s = storeFileRead sample_api m s"
  shows "rw_view (module_file_env api) sample_chunks keyed_rw sample_plain"
proof -
  have "serves_file api s fid v enc sums = serves_file sample_api s fid v enc sums" for s fid v enc sums
    by (simp add: serves_file_def assms)
  then show ?thesis
    using sample_rw_view by (simp add: rw_view_def Let_def file_view_def sample_size) (simp add: keyed_rw_def)
qed

lemma keyed_fits_write: "e \<le> 100 \<Longrightarrow> write_fits keyed_rw off e"
  using sample_fits_write [of e off] by (simp add: write_fits_def keyed_rw_def)

lemma module_bridge_applies: "applies_writes (sample_bridge :: (sample_state, json) store_server) ''f''"
  by (rule sample_bridge_applies)

lemma module_bridge_view: "rw_view (module_file_env sample_bridge) sample_chunks keyed_rw sample_plain"
  by (rule module_rw_view) (simp add: sample_bridge_def)

theorem FileHandler_write_refines_witness:
  "\<exists>f' chs'. FileHandler_write (module_file_env sample_bridge) 7 [8, 9] False keyed_rw = (Inr (), f') \<and>
     rw_view (module_file_env sample_bridge) chs' f' [1, 2, 3, 4, 5, 0, 0, 8, 9] \<and> fh_version (rw_handler f') = 2"
proof -
  have "write_at 7 [8, 9] False sample_plain = [1, 2, 3, 4, 5, 0, 0, 8, 9]"
    by (simp add: write_at_def overwrite_def sample_plain_def numeral_2_eq_2)
  then show ?thesis
    using FileHandler_write_refines [OF module_bridge_view, of "[8, 9]" 7 False] keyed_fits_write [of 9]
      module_bridge_applies module_meta_encrypts
    by (simp add: sample_plain_def)
qed

definition refusing_bridge :: "(sample_state, json) store_server" where
  "refusing_bridge = sample_bridge\<lparr>storeFileWrite := (\<lambda>m s. (Inl version_mismatch, s))\<rparr>"

theorem FileHandler_write_refused_witness:
  "\<exists>f'. FileHandler_write (module_file_env refusing_bridge) 2 [7] False keyed_rw = (Inl version_mismatch, f') \<and>
     rw_view (module_file_env refusing_bridge) sample_chunks f' sample_plain \<and> rw_handler f' = rw_handler keyed_rw"
proof -
  have "rw_view (module_file_env refusing_bridge) sample_chunks keyed_rw sample_plain"
    by (rule module_rw_view) (simp add: refusing_bridge_def sample_bridge_def)
  moreover have "refuses_writes (fe_api (module_file_env refusing_bridge)) version_mismatch" "caught version_mismatch"
    by (simp_all add: refuses_writes_def refusing_bridge_def caught_def version_mismatch_def)
  ultimately show ?thesis
    using FileHandler_write_refused [of "module_file_env refusing_bridge" sample_chunks keyed_rw sample_plain "[7]" 2 version_mismatch False]
      keyed_fits_write [of "Suc 2"] module_meta_encrypts
    by (simp add: sample_plain_def)
qed

text \<open>The same file under the handle number 1, beside a second handle.\<close>

definition module_store_env :: "(sample_state, json) store_env" where
  "module_store_env =
     \<lparr>se_file = module_file_env sample_bridge, se_requests = no_requests, se_serverRequestChunkSize = 64,
      se_fileParams = (\<lambda>fileId s. Inl (StoreExn InvalidFileHandleException)), se_assertStoreExist = (\<lambda>storeId s. Inr ()),
      se_generateId = (\<lambda>r. (''id'', r + 1)), se_finalizeWrite = (\<lambda>h pm sm info w. (Inr ''f2'', w))\<rparr>"

definition keyed_handle :: "sample_state FileReadWriteHandle" where
  "keyed_handle = sample_rw_handle\<lparr>rwh_file := \<lparr>fhi_file = keyed_rw, fhi_readPos = 0, fhi_writePos = 4\<rparr>\<rparr>"

definition keyed_store :: "sample_state store_state" where
  "keyed_store =
     \<lparr>ss_server = io_server sample_io, ss_draws = io_draws sample_io,
      ss_handleManager = \<lparr>hm_id = 2, hm_map = [1 \<mapsto> ''FileReadWrite'', 2 \<mapsto> ''FileReadWrite'']\<rparr>,
      ss_files = [1 \<mapsto> ReadWriteHandle keyed_handle, 2 \<mapsto> ReadWriteHandle sample_rw_handle]\<rparr>"

lemma keyed_store_handle: "FileHandleManager_getFileHandle keyed_store 1 = Inr (ReadWriteHandle keyed_handle)"
proof -
  have "sample_io\<lparr>io_server := io_server sample_io, io_draws := io_draws sample_io\<rparr> = sample_io" by simp
  then show ?thesis by (simp add: FileHandleManager_getFileHandle_def keyed_store_def keyed_handle_def keyed_rw_def)
qed

theorem handle_write_then_read_witness:
  "\<exists>st' h'. bindS (StoreApiImpl_writeToFile module_store_env 1 [7, 8] False) (\<lambda>_.
        bindS (StoreApiImpl_seekInFile 1 (int 3)) (\<lambda>_. StoreApiImpl_readFromFile module_store_env 1 (int 10))) keyed_store
      = (Inr [4, 7, 8], st') \<and>
    FileHandleManager_getFileHandle st' 1 = Inr (ReadWriteHandle h') \<and>
    fhi_readPos (rwh_file h') = 6 \<and> fhi_writePos (rwh_file h') = 3 \<and> ss_files st' 2 = ss_files keyed_store 2"
proof -
  have at: "write_at 4 [7, 8] False sample_plain = [1, 2, 3, 4, 7, 8]"
    by (simp add: write_at_def overwrite_def sample_plain_def)
  have h: "fhi_file (rwh_file keyed_handle) = keyed_rw" "fhi_writePos (rwh_file keyed_handle) = 4" by (simp_all add: keyed_handle_def)
  have v: "rw_view (se_file module_store_env) sample_chunks (fhi_file (rwh_file keyed_handle)) sample_plain"
    using module_bridge_view by (simp add: module_store_env_def h)
  have env: "se_file module_store_env = module_file_env sample_bridge" by (simp add: module_store_env_def)
  have "write_fits keyed_rw (min 4 (length sample_plain)) (4 + length [7, 8 :: byte])" by (rule keyed_fits_write) simp
  then show ?thesis
    using handle_write_then_read [OF keyed_store_handle v, of "[7, 8]" 3 False 10, unfolded h at env]
      module_bridge_applies module_meta_encrypts [of sample_bridge] by auto
qed

end
