(* ===== verification/Core_Validator.thy ===== *)
theory Core_Validator
  imports Core_ModuleBase Core_Types
begin

text \<open>
  The outermost layer of every module (\<open>ThreadApi.cpp\<close>, \<open>StoreApi.cpp\<close>, \<open>KvdbApi.cpp\<close>, \<open>EventApi.cpp\<close>): the
  object behind the interface is looked up (\<open>ExtendedPointer.hpp\<close>), the arguments are tested
  (\<open>Validator.cpp\<close>), the operation runs, and a \<open>PrivmxException\<close> is turned into an exception of the endpoint.
  Buffers and texts are lists, so their size is a number that fits \<open>size_t\<close>.
\<close>

subsection \<open>Validators\<close>

abbreviation invalid_params :: exn where
  "invalid_params \<equiv> CoreExn InvalidParamsException"

definition validate_that :: "bool \<Rightarrow> (exn, unit) result" where
  "validate_that b = (if b then Inr () else Inl invalid_params)"

definition Validator_validateMaxLength :: "string \<Rightarrow> nat \<Rightarrow> (exn, unit) result" where
  "Validator_validateMaxLength v max_len = validate_that (\<not> max_len < length v)"

definition Validator_validateLength :: "string \<Rightarrow> nat \<Rightarrow> (exn, unit) result" where
  "Validator_validateLength v len = validate_that (length v = len)"

definition Validator_validateLengthSize :: "string \<Rightarrow> nat \<Rightarrow> nat \<Rightarrow> (exn, unit) result" where
  "Validator_validateLengthSize v min_len max_len = validate_that (\<not> (length v < min_len \<or> max_len < length v))"

definition Validator_validateId :: "string \<Rightarrow> (exn, unit) result" where
  "Validator_validateId v = Validator_validateLengthSize v 1 128"

definition Validator_validateNumberPositive :: "int \<Rightarrow> (exn, unit) result" where
  "Validator_validateNumberPositive v = validate_that (\<not> v \<le> 0)"

definition Validator_validateNumberNegative :: "int \<Rightarrow> (exn, unit) result" where
  "Validator_validateNumberNegative v = validate_that (\<not> 0 \<le> v)"

definition Validator_validateNumberNonNegative :: "int \<Rightarrow> (exn, unit) result" where
  "Validator_validateNumberNonNegative v = validate_that (\<not> v < 0)"

definition Validator_validateNumberNonPositive :: "int \<Rightarrow> (exn, unit) result" where
  "Validator_validateNumberNonPositive v = validate_that (\<not> 0 < v)"

definition Validator_validateBase58 :: "string \<Rightarrow> (exn, unit) result" where
  "Validator_validateBase58 v = validate_that (Base58_is v)"

text \<open>The regular expression \<open>^(?=(.{4})*$)[A-Za-z0-9+/]*={0,2}$\<close> of \<open>Base64::is\<close>.\<close>

definition base64_alphabet :: string where
  "base64_alphabet = ''ABCDEFGHIJKLMNOPQRSTUVWXYZabcdefghijklmnopqrstuvwxyz0123456789+/''"

definition Base64_is :: "string \<Rightarrow> bool" where
  "Base64_is s =
     (let body = dropWhile (\<lambda>c. c = CHR ''='') (rev s)
      in length s mod 4 = 0 \<and> list_all (\<lambda>c. c \<in> set base64_alphabet) body \<and> length s - length body \<le> 2)"

definition Validator_validateBase64 :: "string \<Rightarrow> (exn, unit) result" where
  "Validator_validateBase64 v = validate_that (Base64_is v)"

definition Validator_validateEnumParamString :: "string \<Rightarrow> string list \<Rightarrow> (exn, unit) result" where
  "Validator_validateEnumParamString v allowed_values = validate_that (v \<in> set allowed_values)"

definition Validator_validateSortOrder :: "string \<Rightarrow> (exn, unit) result" where
  "Validator_validateSortOrder v = Validator_validateEnumParamString v [''asc'', ''desc'']"

definition Validator_validateLastId :: "string \<Rightarrow> (exn, unit) result" where
  "Validator_validateLastId v = bindR (validate_that (v \<noteq> [])) (\<lambda>_. Validator_validateId v)"

text \<open>\<open>catch (...)\<close>: whatever the attempt throws becomes the one exception.\<close>

definition validate_attempt :: "(exn, 'a) result \<Rightarrow> (exn, unit) result" where
  "validate_attempt r = (case r of Inl _ \<Rightarrow> Inl invalid_params | Inr _ \<Rightarrow> Inr ())"

definition Validator_validatePrivKeyWIF :: "'k core_env \<Rightarrow> string \<Rightarrow> (exn, unit) result" where
  "Validator_validatePrivKeyWIF env v =
     bindR (Validator_validateBase58 v) (\<lambda>_. validate_attempt (PrivateKey_fromWIF (en_crypto env) (en_ecc env) v))"

definition Validator_validatePubKeyBase58DER :: "'k core_env \<Rightarrow> string \<Rightarrow> (exn, unit) result" where
  "Validator_validatePubKeyBase58DER env v =
     bindR (Validator_validateBase58 v) (\<lambda>_. validate_attempt (PublicKey_fromBase58DER (en_crypto env) (en_ecc env) v))"

text \<open>
  A signature is 65 bytes. Whether \<open>char\<close> is signed makes no difference: bytes from 128 on fail either way.
\<close>

definition Validator_validateSignature :: "bytes \<Rightarrow> (exn, unit) result" where
  "Validator_validateSignature v =
     validate_that (\<not> (length v \<noteq> 65 \<or> sint (hd v) < 27 \<or> 42 < sint (hd v)))"

definition Validator_validateEventType :: "string \<Rightarrow> string \<Rightarrow> (exn, unit) result" where
  "Validator_validateEventType value_type type = validate_that (value_type = type)"

definition Validator_validateBufferSize :: "bytes \<Rightarrow> nat \<Rightarrow> nat \<Rightarrow> (exn, unit) result" where
  "Validator_validateBufferSize v min_len max_len = validate_that (\<not> (length v < min_len \<or> max_len < length v))"

definition Validator_validateJSON :: "'k core_env \<Rightarrow> string \<Rightarrow> (exn, unit) result" where
  "Validator_validateJSON env v = validate_attempt (poco_parse (en_poco env) (bytes_of v))"

definition validate_optional :: "('a \<Rightarrow> (exn, unit) result) \<Rightarrow> 'a option \<Rightarrow> (exn, unit) result" where
  "validate_optional f v = (case v of None \<Rightarrow> Inr () | Some a \<Rightarrow> f a)"

definition Validator_validatePagingQuery :: "'k core_env \<Rightarrow> PagingQuery \<Rightarrow> string list \<Rightarrow> (exn, unit) result" where
  "Validator_validatePagingQuery env v sort_by_field =
     bindR (Validator_validateSortOrder (pq_sortOrder v)) (\<lambda>_.
     bindR (validate_optional Validator_validateLastId (pq_lastId v)) (\<lambda>_.
     bindR (validate_optional (\<lambda>s. Validator_validateEnumParamString s sort_by_field) (pq_sortBy v)) (\<lambda>_.
     validate_optional (Validator_validateJSON env) (pq_queryAsJson v))))"

definition StructValidator_UserWithPubKey_validate :: "'k core_env \<Rightarrow> UserWithPubKey \<Rightarrow> (exn, unit) result" where
  "StructValidator_UserWithPubKey_validate env v =
     bindR (Validator_validateId (up_userId v)) (\<lambda>_. Validator_validatePubKeyBase58DER env (up_pubKey v))"

fun StructValidator_vector_validate :: "('a \<Rightarrow> (exn, unit) result) \<Rightarrow> 'a list \<Rightarrow> (exn, unit) result" where
  "StructValidator_vector_validate validate [] = Inr ()"
| "StructValidator_vector_validate validate (v # vs) =
     bindR (validate v) (\<lambda>_. StructValidator_vector_validate validate vs)"

definition Validator_validateUsers :: "'k core_env \<Rightarrow> UserWithPubKey list \<Rightarrow> (exn, unit) result" where
  "Validator_validateUsers env = StructValidator_vector_validate (StructValidator_UserWithPubKey_validate env)"

record PKIVerificationOptions =
  pv_bridgePubKey :: "string option"
  pv_bridgeInstanceId :: "string option"

definition StructValidator_PKIVerificationOptions_validate :: "PKIVerificationOptions \<Rightarrow> (exn, unit) result" where
  "StructValidator_PKIVerificationOptions_validate v =
     validate_that (\<not> (pv_bridgeInstanceId v \<noteq> None \<and> pv_bridgePubKey v = None))"

subsection \<open>The interface\<close>

text \<open>
  What an application catches: an exception of the endpoint with its code, or one of the standard library.
  \<open>rethrowAsCoreException\<close> always throws, with the code \<open>convert\<close> gives, so the
  \<open>core::Exception("ExceptionConverter rethrow error")\<close> that follows every call of it is not reached.
\<close>

datatype api_error = EndpointError nat | StdError

definition api_error_of :: "exn \<Rightarrow> api_error" where
  "api_error_of e = (case getCode e of Some code \<Rightarrow> EndpointError code | None \<Rightarrow> StdError)"

text \<open>
  A call of the interface: the tests run in order, and \<open>alive\<close> says whether the object it points to still
  exists. A second form is for operations that may not return.
\<close>

fun validate_all :: "(exn, unit) result list \<Rightarrow> (exn, unit) result" where
  "validate_all [] = Inr ()"
| "validate_all (r # rs) = bindR r (\<lambda>_. validate_all rs)"

definition validated :: "bool \<Rightarrow> (exn, unit) result \<Rightarrow> (exn, unit) result" where
  "validated alive checks = (if alive then checks else Inl (ConnectionExn NotConnectedException))"

definition api_call :: "bool \<Rightarrow> (exn, unit) result \<Rightarrow> (exn, 's, 'a) op \<Rightarrow> (api_error, 's, 'a) op" where
  "api_call alive checks impl st =
     (case validated alive checks of
        Inl e \<Rightarrow> (Inl (api_error_of e), st)
      | Inr () \<Rightarrow> (case impl st of (Inl e, st') \<Rightarrow> (Inl (api_error_of e), st') | (Inr a, st') \<Rightarrow> (Inr a, st')))"

definition api_call_partial ::
    "bool \<Rightarrow> (exn, unit) result \<Rightarrow> ('s \<Rightarrow> ((exn, 'a) result \<times> 's) option) \<Rightarrow> 's \<Rightarrow> ((api_error, 'a) result \<times> 's) option" where
  "api_call_partial alive checks impl st =
     (case validated alive checks of
        Inl e \<Rightarrow> Some (Inl (api_error_of e), st)
      | Inr () \<Rightarrow> map_option (\<lambda>p. case p of (Inl e, st') \<Rightarrow> (Inl (api_error_of e), st') | (Inr a, st') \<Rightarrow> (Inr a, st')) (impl st))"

end
