(* ===== verification/Thread_Subscriber.thy ===== *)
theory Thread_Subscriber
  imports Core_Subscriber Thread_ThreadApi
begin

text \<open>Subscriptions of the threads (\<open>endpoint/thread/src/SubscriberImpl.cpp\<close>, \<open>ThreadApiImpl.cpp\<close>).\<close>

datatype thread_EventType =
    THREAD_CREATE | THREAD_UPDATE | THREAD_DELETE | THREAD_STATS
  | MESSAGE_CREATE | MESSAGE_UPDATE | MESSAGE_DELETE | THREAD_COLLECTION_CHANGE

datatype thread_EventSelectorType = thread_CONTEXT_ID | THREAD_ID | MESSAGE_ID

fun thread_selectorTypeNames :: "thread_EventSelectorType \<Rightarrow> string" where
  "thread_selectorTypeNames thread_CONTEXT_ID = ''contextId''"
| "thread_selectorTypeNames THREAD_ID = ''containerId''"
| "thread_selectorTypeNames MESSAGE_ID = ''itemId''"

fun thread_eventTypeNames :: "thread_EventType \<Rightarrow> string" where
  "thread_eventTypeNames THREAD_CREATE = ''create''"
| "thread_eventTypeNames THREAD_UPDATE = ''update''"
| "thread_eventTypeNames THREAD_DELETE = ''delete''"
| "thread_eventTypeNames THREAD_STATS = ''stats''"
| "thread_eventTypeNames MESSAGE_CREATE = ''create''"
| "thread_eventTypeNames MESSAGE_UPDATE = ''update''"
| "thread_eventTypeNames MESSAGE_DELETE = ''delete''"
| "thread_eventTypeNames THREAD_COLLECTION_CHANGE = ''collectionChanged''"

fun thread_eventTypeAllowedSelectorTypes :: "thread_EventType \<Rightarrow> thread_EventSelectorType list" where
  "thread_eventTypeAllowedSelectorTypes THREAD_CREATE = [thread_CONTEXT_ID]"
| "thread_eventTypeAllowedSelectorTypes THREAD_UPDATE = [thread_CONTEXT_ID, THREAD_ID]"
| "thread_eventTypeAllowedSelectorTypes THREAD_DELETE = [thread_CONTEXT_ID, THREAD_ID]"
| "thread_eventTypeAllowedSelectorTypes THREAD_STATS = [thread_CONTEXT_ID, THREAD_ID]"
| "thread_eventTypeAllowedSelectorTypes MESSAGE_CREATE = [thread_CONTEXT_ID, THREAD_ID]"
| "thread_eventTypeAllowedSelectorTypes MESSAGE_UPDATE = [thread_CONTEXT_ID, THREAD_ID, MESSAGE_ID]"
| "thread_eventTypeAllowedSelectorTypes MESSAGE_DELETE = [thread_CONTEXT_ID, THREAD_ID, MESSAGE_ID]"
| "thread_eventTypeAllowedSelectorTypes THREAD_COLLECTION_CHANGE = [thread_CONTEXT_ID, THREAD_ID]"

definition thread_getChannelPath :: "thread_EventType \<Rightarrow> string list" where
  "thread_getChannelPath eventType =
     (if eventType \<in> {MESSAGE_CREATE, MESSAGE_UPDATE, MESSAGE_DELETE}
      then [''thread'', ''messages'', thread_eventTypeNames eventType]
      else [''thread'', thread_eventTypeNames eventType])"

definition thread_buildQuery :: "thread_EventType \<Rightarrow> thread_EventSelectorType \<Rightarrow> string \<Rightarrow> (exn, string) result" where
  "thread_buildQuery = build_query thread_eventTypeAllowedSelectorTypes thread_getChannelPath thread_selectorTypeNames"

definition thread_transform :: "SubscriptionQueryObj list \<Rightarrow> string list" where
  "thread_transform = transform_with_type THREAD_TYPE_FILTER_FLAG"

definition thread_assertQuery :: "SubscriptionQueryObj list \<Rightarrow> (exn, unit) result" where
  "thread_assertQuery = assert_module_query ''thread'' (ThreadExn thread_InvalidSubscriptionQueryException)"

definition thread_subscriber :: "('s, 'ev) subscriber_impl" where
  "thread_subscriber = \<lparr>si_assertQuery = thread_assertQuery, si_transform = (\<lambda>qs. ret (thread_transform qs))\<rparr>"

definition thread_subscribeFor ::
    "'s channel_server \<Rightarrow> string list \<Rightarrow> (exn, ('s, 'ev, 'cb) module_state, string list) op" where
  "thread_subscribeFor = module_subscribeFor thread_subscriber"

definition thread_unsubscribeFrom ::
    "(string list \<Rightarrow> string \<Rightarrow> string list) \<Rightarrow> 's channel_server \<Rightarrow> string list \<Rightarrow> (exn, ('s, 'ev, 'cb) module_state, unit) op" where
  "thread_unsubscribeFrom = module_unsubscribeFrom"

interpretation thread_queries: query_module thread_getChannelPath thread_selectorTypeNames "''thread''" thread_subscriber
    "ThreadExn thread_InvalidSubscriptionQueryException"
    "\<lambda>q. SubscriptionQueryObj_toSubscriptionQueryString (selectorsPushBack (containerType THREAD_TYPE_FILTER_FLAG) q)" "'',containerType=thread''"
proof
  show "length (thread_getChannelPath x) = 2 \<or> length (thread_getChannelPath x) = 3" "thread_getChannelPath x ! 0 = ''thread''" for x
    by (simp_all add: thread_getChannelPath_def)
  show "p \<in> set (thread_getChannelPath x) \<Longrightarrow> p \<noteq> [] \<and> CHR ''/'' \<notin> set p \<and> CHR ''|'' \<notin> set p" for x p
    by (cases x) (auto simp: thread_getChannelPath_def)
  show "clean_id (thread_selectorTypeNames y)" for y by (cases y) (simp_all add: clean_id_def)
qed (simp_all add: thread_subscriber_def thread_assertQuery_def thread_transform_def transform_with_type_def print_with_type
    THREAD_TYPE_FILTER_FLAG_def)

text \<open>
  C19. Subscriptions of the threads work. For queries built by \<open>buildSubscriptionQuery\<close> with ids that contain
  no separator, the channels sent to the Bridge are the queries with the type of the threads; when
  the Bridge answers each of them with an id of its own, in any order, \<open>subscribeFor\<close> returns the ids in the
  order of the queries, and from then on a notification that carries one of them reaches the module
  and is not discarded. Unsubscribing from the ids afterwards restores exactly what was delivered before.
\<close>

theorem thread_subscriptions_delivered:
  assumes "list_all2 (\<lambda>(x, y, i) q. clean_id i \<and> thread_buildQuery x y i = Inr q) wanted queries"
    and "channels = map (\<lambda>q. q @ '',containerType=thread'') queries"
    and "cs_subscribeToChannels sv channels (as_server (md_api st)) = (Inr subs, s)"
    and "mset (map sub_channel subs) = mset channels" and "distinct (map sub_subscriptionId subs)"
    and "listening st"
    and "set (map sub_subscriptionId subs) \<inter> (set (followed st) \<union> fst ` set (as_subscriptions (md_api st))) = {}"
    and "\<And>ids s. cs_unsubscribeFromChannels sv ids s = (Inr (), unsubscribed ids s)"
  shows "\<exists>ids st'. thread_subscribeFor sv queries st = (Inr ids, st') \<and> length ids = length queries \<and>
    mset ids = mset (map sub_subscriptionId subs) \<and>
    (\<forall>k < length queries. Subscriber_getSubscriptionQuery (as_subscriptions (md_api st')) [ids ! k] = Some (channels ! k) \<and>
       (\<forall>n. ids ! k \<in> set (ne_subscriptions n) \<longrightarrow> delivers n st')) \<and>
    (\<exists>st''. thread_unsubscribeFrom residue sv ids st' = (Inr (), st'') \<and> (\<forall>n. delivers n st'' \<longleftrightarrow> delivers n st))"
  unfolding thread_subscribeFor_def thread_unsubscribeFrom_def
  by (rule thread_queries.subscription_cycle [OF assms(1) [unfolded thread_buildQuery_def] assms(2-)])

theorem thread_subscriptions_delivered_witness:
  "\<exists>st'. thread_subscribeFor sample_channel_server [''thread/create|contextId=c'', ''thread/messages/create|containerId=t''] sample_module_state
       = (Inr [''thread/create|contextId=c,containerType=thread'', ''thread/messages/create|containerId=t,containerType=thread''], st') \<and>
     delivers (sample_notification ''thread/create|contextId=c,containerType=thread'') st'"
proof -
  let ?q = "[''thread/create|contextId=c'', ''thread/messages/create|containerId=t'']"
  let ?c = "map (\<lambda>q. q @ '',containerType=thread'') ?q"
  let ?subs = "map (\<lambda>c. \<lparr>sub_channel = c, sub_subscriptionId = c\<rparr>) (rev ?c)"
  have built: "list_all2 (\<lambda>(x, y, i) q. clean_id i \<and> thread_buildQuery x y i = Inr q)
      [(THREAD_CREATE, thread_CONTEXT_ID, ''c''), (MESSAGE_CREATE, THREAD_ID, ''t'')] ?q"
    by (simp add: clean_id_def thread_buildQuery_def build_query_def thread_getChannelPath_def print_one_selector)
  have hyps: "cs_subscribeToChannels sample_channel_server ?c (as_server (md_api sample_module_state)) = (Inr ?subs, ())"
      "mset (map sub_channel ?subs) = mset ?c" "distinct (map sub_subscriptionId ?subs)" "listening sample_module_state"
      "set (map sub_subscriptionId ?subs) \<inter> (set (followed sample_module_state) \<union> fst ` set (as_subscriptions (md_api sample_module_state))) = {}"
      "\<And>ids s. cs_unsubscribeFromChannels sample_channel_server ids s = (Inr (), (\<lambda>ids s. s) ids s)"
    using sample_module_listening by (simp_all add: sample_channel_server_def) (simp add: sample_module_state_def)
  obtain ids st' where ids: "thread_subscribeFor sample_channel_server ?q sample_module_state = (Inr ids, st')" "length ids = length ?q"
      "\<forall>k < length ?q. Subscriber_getSubscriptionQuery (as_subscriptions (md_api st')) [ids ! k] = Some (?c ! k) \<and>
       (\<forall>n. ids ! k \<in> set (ne_subscriptions n) \<longrightarrow> delivers n st')"
    using thread_subscriptions_delivered [OF built refl hyps, of "\<lambda>_ _. []"] by (elim exE conjE) blast
  moreover have "fst (thread_subscribeFor sample_channel_server ?q sample_module_state) = Inr ?c" by code_simp
  ultimately have "ids = ?c" by simp
  moreover have "delivers (sample_notification (ids ! 0)) st'" using ids(3) [rule_format, of 0] by (simp add: sample_notification_def)
  ultimately show ?thesis using ids(1) by auto
qed

text \<open>
  A separator at the end of an id is lost. \<open>buildSubscriptionQuery\<close> accepts any id, but an id that
  ends with one of the separators of the query format gives a query that \<open>subscribeFor\<close> treats in every
  respect like the query for the id without it: the module subscribes to another container.
\<close>

theorem thread_query_separator_dropped:
  assumes "clean_id i" and "tail \<in> {''='', '','', ''|''}" and "thread_buildQuery x y i = Inr q"
  shows "thread_buildQuery x y (i @ tail) = Inr (q @ tail) \<and> thread_subscribeFor sv [q @ tail] st = thread_subscribeFor sv [q] st"
proof -
  obtain q' where q': "thread_buildQuery x y (i @ tail) = Inr q'"
    using assms(3) by (auto simp: thread_buildQuery_def build_query_def split: if_splits)
  note d = thread_queries.separator_dropped [OF assms(1,2) assms(3) [unfolded thread_buildQuery_def] q' [unfolded thread_buildQuery_def]]
  show ?thesis using q' d by (simp add: thread_subscribeFor_def)
qed

theorem thread_query_separator_dropped_witness:
  "thread_buildQuery THREAD_UPDATE THREAD_ID ''t,'' = Inr ''thread/update|containerId=t,'' \<and>
   thread_subscribeFor sample_channel_server [''thread/update|containerId=t,''] sample_module_state =
   thread_subscribeFor sample_channel_server [''thread/update|containerId=t''] sample_module_state"
  using thread_query_separator_dropped [of "''t''" "'',''" THREAD_UPDATE THREAD_ID "''thread/update|containerId=t''" sample_channel_server sample_module_state]
  by (simp add: clean_id_def thread_buildQuery_def build_query_def thread_getChannelPath_def print_one_selector)

end
