(* ===== verification/Kvdb_Subscriber.thy ===== *)
theory Kvdb_Subscriber
  imports Core_Subscriber Kvdb_KvdbApi
begin

text \<open>Subscriptions of the key-value stores (\<open>endpoint/kvdb/src/SubscriberImpl.cpp\<close>, \<open>KvdbApiImpl.cpp\<close>).\<close>

datatype kvdb_EventType =
    KVDB_CREATE | KVDB_UPDATE | KVDB_DELETE | KVDB_STATS
  | ENTRY_CREATE | ENTRY_UPDATE | ENTRY_DELETE | KVDB_COLLECTION_CHANGE

datatype kvdb_EventSelectorType = kvdb_CONTEXT_ID | KVDB_ID

text \<open>\<open>EventInternalSelectorType\<close> has one more selector, for a single entry.\<close>

datatype kvdb_EventInternalSelectorType = INTERNAL_CONTEXT_ID | INTERNAL_KVDB_ID | INTERNAL_ENTRY_ID

fun kvdb_selectorTypeNames :: "kvdb_EventInternalSelectorType \<Rightarrow> string" where
  "kvdb_selectorTypeNames INTERNAL_CONTEXT_ID = ''contextId''"
| "kvdb_selectorTypeNames INTERNAL_KVDB_ID = ''containerId''"
| "kvdb_selectorTypeNames INTERNAL_ENTRY_ID = ''itemId''"

fun kvdb_eventTypeNames :: "kvdb_EventType \<Rightarrow> string" where
  "kvdb_eventTypeNames KVDB_CREATE = ''create''"
| "kvdb_eventTypeNames KVDB_UPDATE = ''update''"
| "kvdb_eventTypeNames KVDB_DELETE = ''delete''"
| "kvdb_eventTypeNames KVDB_STATS = ''stats''"
| "kvdb_eventTypeNames ENTRY_CREATE = ''create''"
| "kvdb_eventTypeNames ENTRY_UPDATE = ''update''"
| "kvdb_eventTypeNames ENTRY_DELETE = ''delete''"
| "kvdb_eventTypeNames KVDB_COLLECTION_CHANGE = ''collectionChanged''"

fun kvdb_eventTypeAllowedSelectorTypes :: "kvdb_EventType \<Rightarrow> kvdb_EventInternalSelectorType list" where
  "kvdb_eventTypeAllowedSelectorTypes KVDB_CREATE = [INTERNAL_CONTEXT_ID]"
| "kvdb_eventTypeAllowedSelectorTypes KVDB_UPDATE = [INTERNAL_CONTEXT_ID, INTERNAL_KVDB_ID]"
| "kvdb_eventTypeAllowedSelectorTypes KVDB_DELETE = [INTERNAL_CONTEXT_ID, INTERNAL_KVDB_ID]"
| "kvdb_eventTypeAllowedSelectorTypes KVDB_STATS = [INTERNAL_CONTEXT_ID, INTERNAL_KVDB_ID]"
| "kvdb_eventTypeAllowedSelectorTypes ENTRY_CREATE = [INTERNAL_CONTEXT_ID, INTERNAL_KVDB_ID]"
| "kvdb_eventTypeAllowedSelectorTypes ENTRY_UPDATE = [INTERNAL_CONTEXT_ID, INTERNAL_KVDB_ID, INTERNAL_ENTRY_ID]"
| "kvdb_eventTypeAllowedSelectorTypes ENTRY_DELETE = [INTERNAL_CONTEXT_ID, INTERNAL_KVDB_ID, INTERNAL_ENTRY_ID]"
| "kvdb_eventTypeAllowedSelectorTypes KVDB_COLLECTION_CHANGE = [INTERNAL_CONTEXT_ID, INTERNAL_KVDB_ID]"

definition kvdb_getChannelPath :: "kvdb_EventType \<Rightarrow> string list" where
  "kvdb_getChannelPath eventType =
     (if eventType \<in> {ENTRY_CREATE, ENTRY_UPDATE, ENTRY_DELETE}
      then [''kvdb'', ''entries'', kvdb_eventTypeNames eventType]
      else [''kvdb'', kvdb_eventTypeNames eventType])"

fun kvdb_getSelectors :: "kvdb_EventInternalSelectorType \<Rightarrow> string \<Rightarrow> string option \<Rightarrow> (exn, QuerySelector list) result" where
  "kvdb_getSelectors INTERNAL_ENTRY_ID selectorId (Some extra) =
     Inr [\<lparr>qs_selectorKey = kvdb_selectorTypeNames INTERNAL_ENTRY_ID, qs_selectorValue = extra @ '':'' @ selectorId\<rparr>]"
| "kvdb_getSelectors INTERNAL_ENTRY_ID selectorId None = Inl (CoreExn InvalidParamsException)"
| "kvdb_getSelectors selectorType selectorId extra =
     Inr [\<lparr>qs_selectorKey = kvdb_selectorTypeNames selectorType, qs_selectorValue = selectorId\<rparr>]"

definition build_internal_query ::
    "kvdb_EventType \<Rightarrow> kvdb_EventInternalSelectorType \<Rightarrow> string \<Rightarrow> string option \<Rightarrow> (exn, string) result" where
  "build_internal_query eventType selectorType selectorId extra =
     (if selectorType \<in> set (kvdb_eventTypeAllowedSelectorTypes eventType)
      then bindR (kvdb_getSelectors selectorType selectorId extra) (\<lambda>selectors.
        Inr (SubscriptionQueryObj_toSubscriptionQueryString \<lparr>sq_channelPath = kvdb_getChannelPath eventType, sq_selectors = selectors\<rparr>))
      else Inl (CoreExn InvalidParamsException))"

fun internal_selector :: "kvdb_EventSelectorType \<Rightarrow> kvdb_EventInternalSelectorType" where
  "internal_selector kvdb_CONTEXT_ID = INTERNAL_CONTEXT_ID"
| "internal_selector KVDB_ID = INTERNAL_KVDB_ID"

definition kvdb_buildQuery :: "kvdb_EventType \<Rightarrow> kvdb_EventSelectorType \<Rightarrow> string \<Rightarrow> (exn, string) result" where
  "kvdb_buildQuery eventType selectorType selectorId = build_internal_query eventType (internal_selector selectorType) selectorId None"

definition kvdb_buildQueryForSelectedEntry :: "kvdb_EventType \<Rightarrow> string \<Rightarrow> string \<Rightarrow> (exn, string) result" where
  "kvdb_buildQueryForSelectedEntry eventType kvdbId kvdbEntryId =
     build_internal_query eventType INTERNAL_ENTRY_ID kvdbEntryId (Some kvdbId)"

definition kvdb_transform :: "SubscriptionQueryObj list \<Rightarrow> string list" where
  "kvdb_transform = transform_with_type KVDB_TYPE_FILTER_FLAG"

definition kvdb_assertQuery :: "SubscriptionQueryObj list \<Rightarrow> (exn, unit) result" where
  "kvdb_assertQuery = assert_module_query ''kvdb'' (KvdbExn kvdb_InvalidSubscriptionQueryException)"

definition kvdb_subscriber :: "('s, 'ev) subscriber_impl" where
  "kvdb_subscriber = \<lparr>si_assertQuery = kvdb_assertQuery, si_transform = (\<lambda>qs. ret (kvdb_transform qs))\<rparr>"

definition kvdb_subscribeFor ::
    "'s channel_server \<Rightarrow> string list \<Rightarrow> (exn, ('s, 'ev, 'cb) module_state, string list) op" where
  "kvdb_subscribeFor = module_subscribeFor kvdb_subscriber"

definition kvdb_unsubscribeFrom ::
    "(string list \<Rightarrow> string \<Rightarrow> string list) \<Rightarrow> 's channel_server \<Rightarrow> string list \<Rightarrow> (exn, ('s, 'ev, 'cb) module_state, unit) op" where
  "kvdb_unsubscribeFrom = module_unsubscribeFrom"

interpretation kvdb_queries: query_module kvdb_getChannelPath kvdb_selectorTypeNames "''kvdb''" kvdb_subscriber
    "KvdbExn kvdb_InvalidSubscriptionQueryException"
    "\<lambda>q. SubscriptionQueryObj_toSubscriptionQueryString (selectorsPushBack (containerType KVDB_TYPE_FILTER_FLAG) q)" "'',containerType=kvdb''"
proof
  show "length (kvdb_getChannelPath x) = 2 \<or> length (kvdb_getChannelPath x) = 3" "kvdb_getChannelPath x ! 0 = ''kvdb''" for x
    by (simp_all add: kvdb_getChannelPath_def)
  show "p \<in> set (kvdb_getChannelPath x) \<Longrightarrow> p \<noteq> [] \<and> CHR ''/'' \<notin> set p \<and> CHR ''|'' \<notin> set p" for x p
    by (cases x) (auto simp: kvdb_getChannelPath_def)
  show "clean_id (kvdb_selectorTypeNames y)" for y by (cases y) (simp_all add: clean_id_def)
qed (simp_all add: kvdb_subscriber_def kvdb_assertQuery_def kvdb_transform_def transform_with_type_def print_with_type
    KVDB_TYPE_FILTER_FLAG_def)

text \<open>
  The key of an entry is part of the query although it may be any text: with a comma inside the key the
  query for that entry is built, but \<open>subscribeFor\<close> always refuses it before the Bridge is asked.
\<close>

theorem kvdb_entry_query_refused:
  assumes "eventType \<in> {ENTRY_UPDATE, ENTRY_DELETE}" and "clean_id kvdbId" and "clean_id (a @ b)" and "b \<noteq> []"
  shows "\<exists>q. kvdb_buildQueryForSelectedEntry eventType kvdbId (a @ '','' @ b) = Inr q \<and>
    kvdb_subscribeFor sv [q] st = (Inl (CoreExn core_InvalidSubscriptionQueryException), st)"
proof -
  let ?path = "butlast (concat (map (\<lambda>p. p @ ''/'') (kvdb_getChannelPath eventType)))"
  let ?sel = "''itemId'' @ ''='' @ kvdbId @ '':'' @ a"
  let ?q = "SubscriptionQueryObj_toSubscriptionQueryString
    (one_selector (kvdb_getChannelPath eventType) ''itemId'' (kvdbId @ '':'' @ a @ '','' @ b))"
  have b: "CHR ''='' \<notin> set b" "CHR '','' \<notin> set b" "CHR ''|'' \<notin> set b" and s: "CHR '','' \<notin> set ?sel" "CHR ''|'' \<notin> set ?sel"
    and p: "CHR ''|'' \<notin> set ?path"
    using assms by (auto simp: clean_id_def kvdb_getChannelPath_def)
  have "Utils_split_char CHR ''|'' ?q = [?path, ?sel @ '','' @ b]"
    unfolding print_one_selector using split_at_sep [OF p, of "?sel @ '','' @ b"] split_clean [of "?sel @ '','' @ b" "CHR ''|''"] s b by simp
  moreover have "Utils_split_char CHR '','' (?sel @ '','' @ b) = [?sel, b]"
    using split_at_sep [OF s(1), of b] split_clean [OF assms(4) b(2)] by simp
  moreover have "parse_selectors [?sel, b] = Inl (CoreExn core_InvalidSubscriptionQueryException)"
    using split_clean [OF assms(4) b(1)] by (auto split: list.splits)
  ultimately have "SubscriptionQueryObj_parse ?q = Inl (CoreExn core_InvalidSubscriptionQueryException)"
    by (simp add: SubscriptionQueryObj_parse_def)
  then have "kvdb_subscribeFor sv [?q] st = (Inl (CoreExn core_InvalidSubscriptionQueryException), st)"
    by (simp add: kvdb_subscribeFor_def module_subscribeFor_def bindS_def on_api_def Subscriber_subscribeFor_def liftR_def)
  then show ?thesis
    using assms(1) by (auto simp: kvdb_buildQueryForSelectedEntry_def build_internal_query_def)
qed

theorem kvdb_entry_query_refused_witness:
  "\<exists>q. kvdb_buildQueryForSelectedEntry ENTRY_UPDATE ''s'' ''a,b'' = Inr q \<and>
     kvdb_subscribeFor sample_channel_server [q] sample_module_state = (Inl (CoreExn core_InvalidSubscriptionQueryException), sample_module_state)"
  using kvdb_entry_query_refused [of ENTRY_UPDATE "''s''" "''a''" "''b''" sample_channel_server sample_module_state] by (simp add: clean_id_def)

end
