(* ===== verification/Store_Subscriber.thy ===== *)
theory Store_Subscriber
  imports Core_Subscriber Store_Types
begin

text \<open>Subscriptions of the stores (\<open>endpoint/store/src/SubscriberImpl.cpp\<close>, \<open>StoreApiImpl.cpp\<close>).\<close>

datatype store_EventType =
    STORE_CREATE | STORE_UPDATE | STORE_DELETE | STORE_STATS
  | FILE_CREATE | FILE_UPDATE | FILE_DELETE | STORE_COLLECTION_CHANGE

datatype store_EventSelectorType = store_CONTEXT_ID | STORE_ID | FILE_ID

fun store_selectorTypeNames :: "store_EventSelectorType \<Rightarrow> string" where
  "store_selectorTypeNames store_CONTEXT_ID = ''contextId''"
| "store_selectorTypeNames STORE_ID = ''containerId''"
| "store_selectorTypeNames FILE_ID = ''itemId''"

fun store_eventTypeNames :: "store_EventType \<Rightarrow> string" where
  "store_eventTypeNames STORE_CREATE = ''create''"
| "store_eventTypeNames STORE_UPDATE = ''update''"
| "store_eventTypeNames STORE_DELETE = ''delete''"
| "store_eventTypeNames STORE_STATS = ''stats''"
| "store_eventTypeNames FILE_CREATE = ''create''"
| "store_eventTypeNames FILE_UPDATE = ''update''"
| "store_eventTypeNames FILE_DELETE = ''delete''"
| "store_eventTypeNames STORE_COLLECTION_CHANGE = ''collectionChanged''"

fun store_eventTypeAllowedSelectorTypes :: "store_EventType \<Rightarrow> store_EventSelectorType list" where
  "store_eventTypeAllowedSelectorTypes STORE_CREATE = [store_CONTEXT_ID]"
| "store_eventTypeAllowedSelectorTypes STORE_UPDATE = [store_CONTEXT_ID, STORE_ID]"
| "store_eventTypeAllowedSelectorTypes STORE_DELETE = [store_CONTEXT_ID, STORE_ID]"
| "store_eventTypeAllowedSelectorTypes STORE_STATS = [store_CONTEXT_ID, STORE_ID]"
| "store_eventTypeAllowedSelectorTypes FILE_CREATE = [store_CONTEXT_ID, STORE_ID]"
| "store_eventTypeAllowedSelectorTypes FILE_UPDATE = [store_CONTEXT_ID, STORE_ID, FILE_ID]"
| "store_eventTypeAllowedSelectorTypes FILE_DELETE = [store_CONTEXT_ID, STORE_ID, FILE_ID]"
| "store_eventTypeAllowedSelectorTypes STORE_COLLECTION_CHANGE = [store_CONTEXT_ID, STORE_ID]"

definition store_getChannelPath :: "store_EventType \<Rightarrow> string list" where
  "store_getChannelPath eventType =
     (if eventType \<in> {FILE_CREATE, FILE_UPDATE, FILE_DELETE}
      then [''store'', ''files'', store_eventTypeNames eventType]
      else [''store'', store_eventTypeNames eventType])"

definition store_buildQuery :: "store_EventType \<Rightarrow> store_EventSelectorType \<Rightarrow> string \<Rightarrow> (exn, string) result" where
  "store_buildQuery = build_query store_eventTypeAllowedSelectorTypes store_getChannelPath store_selectorTypeNames"

definition store_transform :: "SubscriptionQueryObj list \<Rightarrow> string list" where
  "store_transform = transform_with_type STORE_TYPE_FILTER_FLAG"

definition store_assertQuery :: "SubscriptionQueryObj list \<Rightarrow> (exn, unit) result" where
  "store_assertQuery = assert_module_query ''store'' (StoreExn store_InvalidSubscriptionQueryException)"

definition store_subscriber :: "('s, 'ev) subscriber_impl" where
  "store_subscriber = \<lparr>si_assertQuery = store_assertQuery, si_transform = (\<lambda>qs. ret (store_transform qs))\<rparr>"

definition store_subscribeFor ::
    "'s channel_server \<Rightarrow> string list \<Rightarrow> (exn, ('s, 'ev, 'cb) module_state, string list) op" where
  "store_subscribeFor = module_subscribeFor store_subscriber"

definition store_unsubscribeFrom ::
    "(string list \<Rightarrow> string \<Rightarrow> string list) \<Rightarrow> 's channel_server \<Rightarrow> string list \<Rightarrow> (exn, ('s, 'ev, 'cb) module_state, unit) op" where
  "store_unsubscribeFrom = module_unsubscribeFrom"

interpretation store_queries: query_module store_getChannelPath store_selectorTypeNames "''store''" store_subscriber
    "StoreExn store_InvalidSubscriptionQueryException"
    "\<lambda>q. SubscriptionQueryObj_toSubscriptionQueryString (selectorsPushBack (containerType STORE_TYPE_FILTER_FLAG) q)" "'',containerType=store''"
proof
  show "length (store_getChannelPath x) = 2 \<or> length (store_getChannelPath x) = 3" "store_getChannelPath x ! 0 = ''store''" for x
    by (simp_all add: store_getChannelPath_def)
  show "p \<in> set (store_getChannelPath x) \<Longrightarrow> p \<noteq> [] \<and> CHR ''/'' \<notin> set p \<and> CHR ''|'' \<notin> set p" for x p
    by (cases x) (auto simp: store_getChannelPath_def)
  show "clean_id (store_selectorTypeNames y)" for y by (cases y) (simp_all add: clean_id_def)
qed (simp_all add: store_subscriber_def store_assertQuery_def store_transform_def transform_with_type_def print_with_type
    STORE_TYPE_FILTER_FLAG_def)

end
