(* ===== verification/Inbox_Types.thy ===== *)
theory Inbox_Types
  imports Store_Types Thread_Types
begin

text \<open>
  Data of the inboxes: the structures of the Bridge's protocol
  (\<open>endpoint/inbox/include/privmx/endpoint/inbox/ServerTypes.hpp\<close>) with the conversions from and to JSON, the
  structures inside encrypted data (\<open>DynamicTypes.hpp\<close>, \<open>InboxTypes.hpp\<close>) and those handed to the
  application (\<open>Types.hpp\<close>, \<open>Events.hpp\<close>).
\<close>

definition INBOX_TYPE_FILTER_FLAG :: string where
  "INBOX_TYPE_FILTER_FLAG = ''inbox''"

subsection \<open>The Bridge's structures\<close>

record FileConfig =
  fcg_minCount :: int
  fcg_maxCount :: int
  fcg_maxFileSize :: int
  fcg_maxWholeUploadSize :: int

record InboxData =
  ibd_threadId :: string
  ibd_storeId :: string
  ibd_fileConfig :: FileConfig
  ibd_meta :: json
  ibd_publicData :: json

record InboxDataEntry =
  ibe_keyId :: string
  ibe_data :: InboxData

record InboxInfo =
  ii_id :: string
  ii_resourceId :: "string option"
  ii_contextId :: string
  ii_createDate :: int
  ii_creator :: string
  ii_lastModificationDate :: int
  ii_lastModifier :: string
  ii_data :: "InboxDataEntry list"
  ii_keyId :: string
  ii_users :: "string list"
  ii_managers :: "string list"
  ii_keys :: "KeyEntry list"
  ii_version :: int
  ii_type :: "string option"
  ii_policy :: json

record InboxPrivateServerDataV4 =
  pr4_version :: int
  pr4_privateMeta :: string
  pr4_internalMeta :: "string option"
  pr4_authorPubKey :: string

record InboxPublicServerDataV4 =
  pu4_version :: int
  pu4_publicMeta :: string
  pu4_publicMetaObject :: json
  pu4_authorPubKey :: string
  pu4_inboxPubKey :: string
  pu4_inboxKeyId :: string

record InboxPrivateServerDataV5 =
  pr5_version :: int
  pr5_privateMeta :: string
  pr5_internalMeta :: string
  pr5_authorPubKey :: string
  pr5_dio :: string

record InboxPublicServerDataV5 =
  pu5_version :: int
  pu5_publicMeta :: string
  pu5_publicMetaObject :: json
  pu5_authorPubKey :: string
  pu5_inboxPubKey :: string
  pu5_inboxKeyId :: string

record InboxCreateModel =
  ibc_resourceId :: string
  ibc_contextId :: string
  ibc_users :: "string list"
  ibc_managers :: "string list"
  ibc_data :: InboxData
  ibc_keyId :: string
  ibc_keys :: "KeyEntrySet list"
  ibc_policy :: "json option"

record InboxUpdateModel =
  ibu_id :: string
  ibu_resourceId :: string
  ibu_users :: "string list"
  ibu_managers :: "string list"
  ibu_data :: InboxData
  ibu_keyId :: string
  ibu_keys :: "KeyEntrySet list"
  ibu_version :: int
  ibu_force :: bool
  ibu_policy :: "json option"

record InboxGetModel =
  ibg_id :: string
  ibg_type :: "string option"

record InboxListModel = ListModel +
  ibl_contextId :: string
  ibl_type :: "string option"

record InboxFile =
  ibf_fileIndex :: int
  ibf_thumbIndex :: "int option"
  ibf_meta :: json
  ibf_resourceId :: string

record InboxSendModel =
  ibs_inboxId :: string
  ibs_resourceId :: string
  ibs_message :: string
  ibs_requestId :: "string option"
  ibs_files :: "InboxFile list"
  ibs_version :: int

record InboxMessageServer =
  ims_message :: string
  ims_store :: string
  ims_files :: "string list"
  ims_version :: int

record InboxGetPublicViewResult =
  ipv_inboxId :: string
  ipv_version :: int
  ipv_publicData :: json

record InboxDeletedEventData =
  idd_inboxId :: string
  idd_type :: "string option"

record StoreFileGetManyModel =
  fgm_storeId :: string
  fgm_fileIds :: "string list"
  fgm_failOnError :: bool

text \<open>An element of the answer to \<open>storeFileGetMany\<close>: a file, and an error where there is none.\<close>

record FileError =
  fer_code :: int
  fer_message :: string

record FileListElement = ServerFile +
  fle_error :: "FileError option"

subsection \<open>Inside encrypted data\<close>

record InboxInternalMetaV5 =
  iim_secret :: string
  iim_resourceId :: string
  iim_randomId :: string

record InboxPublicData =
  ibp_dataStructureVersion :: int
  ibp_statusCode :: int
  ibp_publicMeta :: bytes
  ibp_inboxEntriesPubKeyBase58DER :: string
  ibp_inboxEntriesKeyId :: string
  ibp_authorPubKey :: string

record InboxPrivateDataV4 =
  ip4_dataStructureVersion :: int
  ip4_statusCode :: int
  ip4_privateMeta :: bytes
  ip4_internalMeta :: "bytes option"
  ip4_authorPubKey :: string

record InboxPrivateDataV5 =
  ip5_dataStructureVersion :: int
  ip5_statusCode :: int
  ip5_privateMeta :: bytes
  ip5_internalMeta :: InboxInternalMetaV5
  ip5_dio :: DataIntegrityObject
  ip5_authorPubKey :: string

text \<open>The public part of what is to be packed: the public meta data, the key for entries and its id.\<close>

record InboxPublicDataToPack =
  ibk_publicMeta :: bytes
  ibk_inboxEntriesPubKeyBase58DER :: string
  ibk_inboxEntriesKeyId :: string

subsection \<open>The application's structures\<close>

record FilesConfig =
  fcf_minCount :: int
  fcf_maxCount :: int
  fcf_maxFileSize :: int
  fcf_maxWholeUploadSize :: int

record InboxDataProcessorModelV4 =
  ibm4_storeId :: string
  ibm4_threadId :: string
  ibm4_filesConfig :: FilesConfig
  ibm4_privateMeta :: bytes
  ibm4_internalMeta :: "bytes option"
  ibm4_publicData :: InboxPublicDataToPack

record InboxDataProcessorModelV5 =
  ibm_storeId :: string
  ibm_threadId :: string
  ibm_filesConfig :: FilesConfig
  ibm_privateMeta :: bytes
  ibm_internalMeta :: InboxInternalMetaV5
  ibm_dio :: DataIntegrityObject
  ibm_publicData :: InboxPublicDataToPack

record InboxDataResultV4 =
  idr4_statusCode :: int
  idr4_storeId :: string
  idr4_threadId :: string
  idr4_filesConfig :: FilesConfig
  idr4_publicData :: InboxPublicData
  idr4_privateData :: InboxPrivateDataV4

record InboxDataResultV5 =
  idr_statusCode :: int
  idr_storeId :: string
  idr_threadId :: string
  idr_filesConfig :: FilesConfig
  idr_publicData :: InboxPublicData
  idr_privateData :: InboxPrivateDataV5

record InboxPublicViewData =
  ivd_statusCode :: int
  ivd_dataStructureVersion :: int
  ivd_authorPubKey :: string
  ivd_publicMeta :: bytes
  ivd_inboxEntriesPubKeyBase58DER :: string
  ivd_inboxEntriesKeyId :: string
  ivd_inboxId :: string
  ivd_resourceId :: string
  ivd_version :: int

record InboxPublicView =
  ipw_inboxId :: string
  ipw_version :: int
  ipw_publicMeta :: bytes

record Inbox =
  lib_inboxId :: string
  lib_contextId :: string
  lib_createDate :: int
  lib_creator :: string
  lib_lastModificationDate :: int
  lib_lastModifier :: string
  lib_users :: "string list"
  lib_managers :: "string list"
  lib_version :: int
  lib_publicMeta :: bytes
  lib_privateMeta :: bytes
  lib_filesConfig :: "FilesConfig option"
  lib_policy :: ContainerPolicyWithoutItem
  lib_statusCode :: int
  lib_schemaVersion :: int

record InboxEntry =
  lie_entryId :: string
  lie_inboxId :: string
  lie_data :: bytes
  lie_files :: "File list"
  lie_authorPubKey :: string
  lie_createDate :: int
  lie_statusCode :: int
  lie_schemaVersion :: int

record InboxEntryDeletedEventData =
  ied_inboxId :: string
  ied_entryId :: string

subsection \<open>Conversions from and to JSON\<close>

definition FileConfig_fromJSON :: "poco_api \<Rightarrow> (string \<times> json) list \<Rightarrow> (exn, FileConfig) result" where
  "FileConfig_fromJSON p ob =
     bindR (deserialize_int64 p (json_get ob ''minCount'')) (\<lambda>minCount.
     bindR (deserialize_int64 p (json_get ob ''maxCount'')) (\<lambda>maxCount.
     bindR (deserialize_int64 p (json_get ob ''maxFileSize'')) (\<lambda>maxFileSize.
     bindR (deserialize_int64 p (json_get ob ''maxWholeUploadSize'')) (\<lambda>maxWholeUploadSize.
     Inr \<lparr>fcg_minCount = minCount, fcg_maxCount = maxCount, fcg_maxFileSize = maxFileSize,
       fcg_maxWholeUploadSize = maxWholeUploadSize\<rparr>))))"

definition InboxData_fromJSON :: "poco_api \<Rightarrow> (string \<times> json) list \<Rightarrow> (exn, InboxData) result" where
  "InboxData_fromJSON p ob =
     bindR (deserialize_string (json_get ob ''threadId'')) (\<lambda>threadId.
     bindR (deserialize_string (json_get ob ''storeId'')) (\<lambda>storeId.
     bindR (deserialize_struct (FileConfig_fromJSON p) (json_get ob ''fileConfig'')) (\<lambda>fileConfig.
     Inr \<lparr>ibd_threadId = threadId, ibd_storeId = storeId, ibd_fileConfig = fileConfig, ibd_meta = json_get ob ''meta'',
       ibd_publicData = json_get ob ''publicData''\<rparr>)))"

definition InboxDataEntry_fromJSON :: "poco_api \<Rightarrow> (string \<times> json) list \<Rightarrow> (exn, InboxDataEntry) result" where
  "InboxDataEntry_fromJSON p ob =
     bindR (deserialize_string (json_get ob ''keyId'')) (\<lambda>keyId.
     bindR (deserialize_struct (InboxData_fromJSON p) (json_get ob ''data'')) (\<lambda>data.
     Inr \<lparr>ibe_keyId = keyId, ibe_data = data\<rparr>))"

definition InboxInfo_fromJSON :: "poco_api \<Rightarrow> (string \<times> json) list \<Rightarrow> (exn, InboxInfo) result" where
  "InboxInfo_fromJSON p ob =
     bindR (deserialize_string (json_get ob ''id'')) (\<lambda>id'.
     bindR (deserialize_optional deserialize_string (json_get ob ''resourceId'')) (\<lambda>resourceId.
     bindR (deserialize_string (json_get ob ''contextId'')) (\<lambda>contextId.
     bindR (deserialize_int64 p (json_get ob ''createDate'')) (\<lambda>createDate.
     bindR (deserialize_string (json_get ob ''creator'')) (\<lambda>creator.
     bindR (deserialize_int64 p (json_get ob ''lastModificationDate'')) (\<lambda>lastModificationDate.
     bindR (deserialize_string (json_get ob ''lastModifier'')) (\<lambda>lastModifier.
     bindR (deserializeArray (deserialize_struct (InboxDataEntry_fromJSON p)) (json_get ob ''data'')) (\<lambda>data.
     bindR (deserialize_string (json_get ob ''keyId'')) (\<lambda>keyId.
     bindR (deserializeArray deserialize_string (json_get ob ''users'')) (\<lambda>users.
     bindR (deserializeArray deserialize_string (json_get ob ''managers'')) (\<lambda>managers.
     bindR (deserializeArray (deserialize_struct KeyEntry_fromJSON) (json_get ob ''keys'')) (\<lambda>keys.
     bindR (deserialize_int64 p (json_get ob ''version'')) (\<lambda>version.
     bindR (deserialize_optional deserialize_string (json_get ob ''type'')) (\<lambda>type.
     Inr \<lparr>ii_id = id', ii_resourceId = resourceId, ii_contextId = contextId, ii_createDate = createDate,
       ii_creator = creator, ii_lastModificationDate = lastModificationDate, ii_lastModifier = lastModifier,
       ii_data = data, ii_keyId = keyId, ii_users = users, ii_managers = managers, ii_keys = keys,
       ii_version = version, ii_type = type, ii_policy = json_get ob ''policy''\<rparr>))))))))))))))"

definition InboxMessageServer_fromJSON :: "poco_api \<Rightarrow> (string \<times> json) list \<Rightarrow> (exn, InboxMessageServer) result" where
  "InboxMessageServer_fromJSON p ob =
     bindR (deserialize_string (json_get ob ''message'')) (\<lambda>message.
     bindR (deserialize_string (json_get ob ''store'')) (\<lambda>store.
     bindR (deserializeArray deserialize_string (json_get ob ''files'')) (\<lambda>files.
     bindR (deserialize_int64 p (json_get ob ''version'')) (\<lambda>version.
     Inr \<lparr>ims_message = message, ims_store = store, ims_files = files, ims_version = version\<rparr>))))"

definition InboxDeletedEventData_fromJSON :: "(string \<times> json) list \<Rightarrow> (exn, InboxDeletedEventData) result" where
  "InboxDeletedEventData_fromJSON ob =
     bindR (deserialize_string (json_get ob ''inboxId'')) (\<lambda>inboxId.
     bindR (deserialize_optional deserialize_string (json_get ob ''type'')) (\<lambda>type.
     Inr \<lparr>idd_inboxId = inboxId, idd_type = type\<rparr>))"

definition InboxPrivateServerDataV4_toJSON :: "InboxPrivateServerDataV4 \<Rightarrow> json" where
  "InboxPrivateServerDataV4_toJSON e = JObject
     (json_put ''authorPubKey'' (JString (pr4_authorPubKey e))
     (json_put_optional ''internalMeta'' (serialize_optional JString (pr4_internalMeta e))
     (json_put ''privateMeta'' (JString (pr4_privateMeta e))
     (json_put ''version'' (JInt (pr4_version e)) []))))"

definition InboxPrivateServerDataV4_fromJSON :: "poco_api \<Rightarrow> (string \<times> json) list \<Rightarrow> (exn, InboxPrivateServerDataV4) result" where
  "InboxPrivateServerDataV4_fromJSON p ob =
     bindR (VersionedData_fromJSON p ob) (\<lambda>version.
     bindR (deserialize_string (json_get ob ''privateMeta'')) (\<lambda>privateMeta.
     bindR (deserialize_optional deserialize_string (json_get ob ''internalMeta'')) (\<lambda>internalMeta.
     bindR (deserialize_string (json_get ob ''authorPubKey'')) (\<lambda>authorPubKey.
     Inr \<lparr>pr4_version = version, pr4_privateMeta = privateMeta, pr4_internalMeta = internalMeta,
       pr4_authorPubKey = authorPubKey\<rparr>))))"

definition InboxPublicServerDataV4_toJSON :: "InboxPublicServerDataV4 \<Rightarrow> json" where
  "InboxPublicServerDataV4_toJSON e = JObject
     (json_put ''inboxKeyId'' (JString (pu4_inboxKeyId e))
     (json_put ''inboxPubKey'' (JString (pu4_inboxPubKey e))
     (json_put ''authorPubKey'' (JString (pu4_authorPubKey e))
     (json_put ''publicMetaObject'' (pu4_publicMetaObject e)
     (json_put ''publicMeta'' (JString (pu4_publicMeta e))
     (json_put ''version'' (JInt (pu4_version e)) []))))))"

definition InboxPublicServerDataV4_fromJSON :: "poco_api \<Rightarrow> (string \<times> json) list \<Rightarrow> (exn, InboxPublicServerDataV4) result" where
  "InboxPublicServerDataV4_fromJSON p ob =
     bindR (VersionedData_fromJSON p ob) (\<lambda>version.
     bindR (deserialize_string (json_get ob ''publicMeta'')) (\<lambda>publicMeta.
     bindR (deserialize_string (json_get ob ''authorPubKey'')) (\<lambda>authorPubKey.
     bindR (deserialize_string (json_get ob ''inboxPubKey'')) (\<lambda>inboxPubKey.
     bindR (deserialize_string (json_get ob ''inboxKeyId'')) (\<lambda>inboxKeyId.
     Inr \<lparr>pu4_version = version, pu4_publicMeta = publicMeta, pu4_publicMetaObject = json_get ob ''publicMetaObject'',
       pu4_authorPubKey = authorPubKey, pu4_inboxPubKey = inboxPubKey, pu4_inboxKeyId = inboxKeyId\<rparr>)))))"

definition InboxPrivateServerDataV5_toJSON :: "InboxPrivateServerDataV5 \<Rightarrow> json" where
  "InboxPrivateServerDataV5_toJSON e = JObject
     (json_put ''dio'' (JString (pr5_dio e))
     (json_put ''authorPubKey'' (JString (pr5_authorPubKey e))
     (json_put ''internalMeta'' (JString (pr5_internalMeta e))
     (json_put ''privateMeta'' (JString (pr5_privateMeta e))
     (json_put ''version'' (JInt (pr5_version e)) [])))))"

definition InboxPrivateServerDataV5_fromJSON :: "poco_api \<Rightarrow> (string \<times> json) list \<Rightarrow> (exn, InboxPrivateServerDataV5) result" where
  "InboxPrivateServerDataV5_fromJSON p ob =
     bindR (VersionedData_fromJSON p ob) (\<lambda>version.
     bindR (deserialize_string (json_get ob ''privateMeta'')) (\<lambda>privateMeta.
     bindR (deserialize_string (json_get ob ''internalMeta'')) (\<lambda>internalMeta.
     bindR (deserialize_string (json_get ob ''authorPubKey'')) (\<lambda>authorPubKey.
     bindR (deserialize_string (json_get ob ''dio'')) (\<lambda>dio.
     Inr \<lparr>pr5_version = version, pr5_privateMeta = privateMeta, pr5_internalMeta = internalMeta,
       pr5_authorPubKey = authorPubKey, pr5_dio = dio\<rparr>)))))"

definition InboxPublicServerDataV5_toJSON :: "InboxPublicServerDataV5 \<Rightarrow> json" where
  "InboxPublicServerDataV5_toJSON e = JObject
     (json_put ''inboxKeyId'' (JString (pu5_inboxKeyId e))
     (json_put ''inboxPubKey'' (JString (pu5_inboxPubKey e))
     (json_put ''authorPubKey'' (JString (pu5_authorPubKey e))
     (json_put ''publicMetaObject'' (pu5_publicMetaObject e)
     (json_put ''publicMeta'' (JString (pu5_publicMeta e))
     (json_put ''version'' (JInt (pu5_version e)) []))))))"

definition InboxPublicServerDataV5_fromJSON :: "poco_api \<Rightarrow> (string \<times> json) list \<Rightarrow> (exn, InboxPublicServerDataV5) result" where
  "InboxPublicServerDataV5_fromJSON p ob =
     bindR (VersionedData_fromJSON p ob) (\<lambda>version.
     bindR (deserialize_string (json_get ob ''publicMeta'')) (\<lambda>publicMeta.
     bindR (deserialize_string (json_get ob ''authorPubKey'')) (\<lambda>authorPubKey.
     bindR (deserialize_string (json_get ob ''inboxPubKey'')) (\<lambda>inboxPubKey.
     bindR (deserialize_string (json_get ob ''inboxKeyId'')) (\<lambda>inboxKeyId.
     Inr \<lparr>pu5_version = version, pu5_publicMeta = publicMeta, pu5_publicMetaObject = json_get ob ''publicMetaObject'',
       pu5_authorPubKey = authorPubKey, pu5_inboxPubKey = inboxPubKey, pu5_inboxKeyId = inboxKeyId\<rparr>)))))"

definition InboxInternalMetaV5_toJSON :: "InboxInternalMetaV5 \<Rightarrow> json" where
  "InboxInternalMetaV5_toJSON m = JObject
     (json_put ''randomId'' (JString (iim_randomId m))
     (json_put ''resourceId'' (JString (iim_resourceId m))
     (json_put ''secret'' (JString (iim_secret m)) [])))"

definition InboxInternalMetaV5_fromJSON :: "(string \<times> json) list \<Rightarrow> (exn, InboxInternalMetaV5) result" where
  "InboxInternalMetaV5_fromJSON ob =
     bindR (deserialize_string (json_get ob ''secret'')) (\<lambda>secret.
     bindR (deserialize_string (json_get ob ''resourceId'')) (\<lambda>resourceId.
     bindR (deserialize_string (json_get ob ''randomId'')) (\<lambda>randomId.
     Inr \<lparr>iim_secret = secret, iim_resourceId = resourceId, iim_randomId = randomId\<rparr>)))"

subsection \<open>Round trips\<close>

lemma InboxPublicServerDataV5_roundtrip: "InboxPublicServerDataV5_toJSON e = JObject ob \<Longrightarrow> InboxPublicServerDataV5_fromJSON p ob = Inr e"
  by (cases e) (auto simp: InboxPublicServerDataV5_toJSON_def InboxPublicServerDataV5_fromJSON_def VersionedData_fromJSON_def)

lemma InboxPublicServerDataV5_version: "InboxPublicServerDataV5_toJSON e = JObject ob \<Longrightarrow> VersionedData_fromJSON p ob = Inr (pu5_version e)"
  by (auto simp: InboxPublicServerDataV5_toJSON_def VersionedData_fromJSON_def)

lemma InboxPrivateServerDataV5_roundtrip: "InboxPrivateServerDataV5_toJSON e = JObject ob \<Longrightarrow> InboxPrivateServerDataV5_fromJSON p ob = Inr e"
  by (cases e) (auto simp: InboxPrivateServerDataV5_toJSON_def InboxPrivateServerDataV5_fromJSON_def VersionedData_fromJSON_def)

lemma InboxPrivateServerDataV5_version: "InboxPrivateServerDataV5_toJSON e = JObject ob \<Longrightarrow> VersionedData_fromJSON p ob = Inr (pr5_version e)"
  by (auto simp: InboxPrivateServerDataV5_toJSON_def VersionedData_fromJSON_def)

lemma InboxInternalMetaV5_roundtrip: "InboxInternalMetaV5_toJSON m = JObject ob \<Longrightarrow> InboxInternalMetaV5_fromJSON ob = Inr m"
  by (cases m) (auto simp: InboxInternalMetaV5_toJSON_def InboxInternalMetaV5_fromJSON_def)

lemma wf_InboxInternalMetaV5: "wf_json (InboxInternalMetaV5_toJSON m)"
  by (auto simp: InboxInternalMetaV5_toJSON_def)

end
