(* ===== verification/Inbox_Data.thy ===== *)
theory Inbox_Data
  imports Inbox_Types Core_ModuleBase
begin

text \<open>
  What an inbox encrypts (\<open>endpoint/inbox/src\<close>): the data of the inbox itself
  (\<open>encryptors/inbox/InboxDataProcessorV4.cpp\<close> and \<open>V5.cpp\<close>, \<open>InboxDataHelper.cpp\<close>) and the entries that anybody may
  send to it (\<open>InboxEntriesDataEncryptorSerializer.cpp\<close> with \<open>utils/BinaryBufferBE.hpp\<close>).
\<close>

subsection \<open>Buffers\<close>

text \<open>
  The length of a short buffer is written as one octet, whatever it is. A read stops at the end of the
  stream; where the octet of a length is missing nothing follows it.
\<close>

definition writeOneOctetLengthBuffer :: "bytes \<Rightarrow> bytes" where
  "writeOneOctetLengthBuffer v = of_nat (length v) # v"

definition readOneOctetLengthBuffer :: "bytes \<Rightarrow> bytes \<times> bytes" where
  "readOneOctetLengthBuffer b = (case b of [] \<Rightarrow> ([], []) | len # r \<Rightarrow> (take (unat len) r, drop (unat len) r))"

definition writeBool :: "bool \<Rightarrow> bytes" where
  "writeBool v = [if v then 1 else 0]"

text \<open>A missing octet leaves the value undetermined; the code reads this flag nowhere.\<close>

definition readBool :: "bytes \<Rightarrow> bool \<times> bytes" where
  "readBool b = (case b of [] \<Rightarrow> (False, []) | x # r \<Rightarrow> (x = 1, r))"

lemma read_write_octet [simp]:
  "length v < 256 \<Longrightarrow> readOneOctetLengthBuffer (writeOneOctetLengthBuffer v @ r) = (v, r)"
  by (simp add: readOneOctetLengthBuffer_def writeOneOctetLengthBuffer_def unat_of_nat)

lemma read_write_bool [simp]: "readBool (writeBool v @ r) = (v, r)"
  by (simp add: readBool_def writeBool_def)

subsection \<open>Entries\<close>

record InboxEntryPublicData =
  iep_userPubKey :: string
  iep_keyPreset :: bool
  iep_usedInboxKeyId :: string

record InboxEntryPrivateData =
  ier_filesMetaKey :: bytes
  ier_text :: bytes

record InboxEntrySendModel =
  iem_publicData :: InboxEntryPublicData
  iem_privateData :: InboxEntryPrivateData

record InboxEntryDataResult =
  ied_publicData :: InboxEntryPublicData
  ied_privateData :: InboxEntryPrivateData
  ied_statusCode :: int

record InboxEntryResult = InboxEntryDataResult +
  ier_storeId :: string
  ier_filesIds :: "string list"

definition entry_public_bytes :: "InboxEntryPublicData \<Rightarrow> bytes" where
  "entry_public_bytes d =
     writeOneOctetLengthBuffer (bytes_of (iep_userPubKey d)) @ writeBool (iep_keyPreset d) @
     writeOneOctetLengthBuffer (bytes_of (iep_usedInboxKeyId d))"

definition InboxEntriesDataEncryptorSerializer_packMessage :: "'k core_env \<Rightarrow> InboxEntrySendModel \<Rightarrow> 'k \<Rightarrow> 'k \<Rightarrow> string" where
  "InboxEntriesDataEncryptorSerializer_packMessage env data userPriv inboxPub =
     (let c = en_crypto env; e = en_ecc env; p = en_poco env;
          secured = writeOneOctetLengthBuffer (bytes_of (base64_from p (ier_filesMetaKey (iem_privateData data)))) @
            ier_text (iem_privateData data);
          cipher = ECIES_encrypt c (ECIES_new e userPriv inboxPub) secured;
          cipherWithKey = bytes_of ''e'' @ PublicKey_toDER e userPriv @ PublicKey_toDER e inboxPub @ cipher
      in base64_from p (writeOneOctetLengthBuffer (entry_public_bytes (iem_publicData data)) @ cipherWithKey))"

definition read_entry_head :: "bytes \<Rightarrow> InboxEntryPublicData" where
  "read_entry_head b =
     (case readOneOctetLengthBuffer b of (userPubKey, b1) \<Rightarrow>
      case readBool b1 of (keyPreset, b2) \<Rightarrow>
      case readOneOctetLengthBuffer b2 of (usedInboxKeyId, b3) \<Rightarrow>
        \<lparr>iep_userPubKey = text_of userPubKey, iep_keyPreset = keyPreset, iep_usedInboxKeyId = text_of usedInboxKeyId\<rparr>)"

definition empty_entry_public :: InboxEntryPublicData where
  "empty_entry_public = \<lparr>iep_userPubKey = [], iep_keyPreset = False, iep_usedInboxKeyId = []\<rparr>"

definition empty_entry_private :: InboxEntryPrivateData where
  "empty_entry_private = \<lparr>ier_filesMetaKey = [], ier_text = []\<rparr>"

definition unpack_entry :: "'k core_env \<Rightarrow> string \<Rightarrow> 'k \<Rightarrow> (exn, InboxEntryPublicData \<times> InboxEntryPrivateData) result" where
  "unpack_entry env serializedBase64 inboxPriv =
     bindR (base64_to (en_poco env) serializedBase64) (\<lambda>whole.
     case readOneOctetLengthBuffer whole of (publicDataStr, privateDataStr) \<Rightarrow>
     bindR (EciesEncryptor_decrypt (en_crypto env) (en_ecc env) inboxPriv privateDataStr None) (\<lambda>decrypted.
     case readOneOctetLengthBuffer decrypted of (filesMetaKeyBase64, text) \<Rightarrow>
     bindR (base64_to (en_poco env) (text_of filesMetaKeyBase64)) (\<lambda>filesMetaKey.
     Inr (read_entry_head publicDataStr, \<lparr>ier_filesMetaKey = filesMetaKey, ier_text = text\<rparr>))))"

definition InboxEntriesDataEncryptorSerializer_unpackMessage :: "'k core_env \<Rightarrow> string \<Rightarrow> 'k \<Rightarrow> InboxEntryDataResult" where
  "InboxEntriesDataEncryptorSerializer_unpackMessage env serializedBase64 inboxPriv =
     (case unpack_entry env serializedBase64 inboxPriv of
        Inr (publicData, privateData) \<Rightarrow> \<lparr>ied_publicData = publicData, ied_privateData = privateData, ied_statusCode = 0\<rparr>
      | Inl x \<Rightarrow> \<lparr>ied_publicData = empty_entry_public, ied_privateData = empty_entry_private, ied_statusCode = status_of x\<rparr>)"

definition InboxEntriesDataEncryptorSerializer_unpackMessagePublicOnly :: "'k core_env \<Rightarrow> string \<Rightarrow> InboxEntryPublicData \<times> int" where
  "InboxEntriesDataEncryptorSerializer_unpackMessagePublicOnly env serializedBase64 =
     (case base64_to (en_poco env) serializedBase64 of
        Inr whole \<Rightarrow> (read_entry_head (fst (readOneOctetLengthBuffer whole)), 0)
      | Inl x \<Rightarrow> (empty_entry_public, status_of x))"

subsection \<open>\<open>InboxDataHelper\<close>\<close>

definition InboxDataHelper_getRandomName :: "'k core_env \<Rightarrow> nat \<Rightarrow> string \<times> nat" where
  "InboxDataHelper_getRandomName env draws = (base64_from (en_poco env) (randomBytes (en_crypto env) draws 8), draws + 1)"

definition InboxDataHelper_fileConfigToTypedObject :: "FilesConfig \<Rightarrow> FileConfig" where
  "InboxDataHelper_fileConfigToTypedObject f =
     \<lparr>fcg_minCount = fcf_minCount f, fcg_maxCount = fcf_maxCount f, fcg_maxFileSize = fcf_maxFileSize f,
      fcg_maxWholeUploadSize = fcf_maxWholeUploadSize f\<rparr>"

definition InboxDataHelper_fileConfigFromTypedObject :: "FileConfig \<Rightarrow> FilesConfig" where
  "InboxDataHelper_fileConfigFromTypedObject f =
     \<lparr>fcf_minCount = fcg_minCount f, fcf_maxCount = fcg_maxCount f, fcf_maxFileSize = fcg_maxFileSize f,
      fcf_maxWholeUploadSize = fcg_maxWholeUploadSize f\<rparr>"

lemma fileConfig_roundtrip [simp]:
  "InboxDataHelper_fileConfigFromTypedObject (InboxDataHelper_fileConfigToTypedObject f) = f"
  by (simp add: InboxDataHelper_fileConfigFromTypedObject_def InboxDataHelper_fileConfigToTypedObject_def)

definition InboxDataHelper_mapUsers :: "UserWithPubKey list \<Rightarrow> string list" where
  "InboxDataHelper_mapUsers users = map up_userId users"

subsection \<open>The data of an inbox, version 5\<close>

definition InboxDataProcessorV5_packForServer ::
    "'k core_env \<Rightarrow> InboxDataProcessorModelV5 \<Rightarrow> 'k \<Rightarrow> bytes \<Rightarrow> (exn, nat, InboxData) op" where
  "InboxDataProcessorV5_packForServer env plainData authorPrivateKey inboxKey =
     (let c = en_crypto env; p = en_poco env; pub = ibm_publicData plainData;
          sha = (\<lambda>t. sha256 c (bytes_of t));
          authorPubKey = PublicKey_toBase58DER c (en_ecc env) authorPrivateKey;
          publicData = \<lparr>pu5_version = 5, pu5_publicMeta = DataEncryptorV4_signAndEncode env (ibk_publicMeta pub) authorPrivateKey,
            pu5_publicMetaObject = public_object env (ibk_publicMeta pub), pu5_authorPubKey = authorPubKey,
            pu5_inboxPubKey = ibk_inboxEntriesPubKeyBase58DER pub, pu5_inboxKeyId = ibk_inboxEntriesKeyId pub\<rparr> in
      bindS (DataEncryptorV4_signAndEncryptAndEncode env (ibm_privateMeta plainData) authorPrivateKey inboxKey) (\<lambda>privateMeta.
      bindS (DataEncryptorV4_signAndEncryptAndEncode env (Utils_stringify p (InboxInternalMetaV5_toJSON (ibm_internalMeta plainData)))
        authorPrivateKey inboxKey) (\<lambda>internalMeta.
      bindS (liftR (DIOEncryptorV1_signAndEncode env (expanded_dio (ibm_dio plainData) 5
        (alist_set ''internalMeta'' (sha internalMeta) (alist_set ''privateMeta'' (sha privateMeta) []))) authorPrivateKey)) (\<lambda>dio.
      ret \<lparr>ibd_threadId = ibm_threadId plainData, ibd_storeId = ibm_storeId plainData,
        ibd_fileConfig = InboxDataHelper_fileConfigToTypedObject (ibm_filesConfig plainData),
        ibd_meta = InboxPrivateServerDataV5_toJSON \<lparr>pr5_version = 5, pr5_privateMeta = privateMeta, pr5_internalMeta = internalMeta,
          pr5_authorPubKey = authorPubKey, pr5_dio = dio\<rparr>,
        ibd_publicData = InboxPublicServerDataV5_toJSON publicData\<rparr>))))"

definition assertDataFormat_private :: "InboxPrivateServerDataV5 \<Rightarrow> (exn, unit) result" where
  "assertDataFormat_private e =
     (if pr5_version e \<noteq> 5 \<or> pr5_privateMeta e = [] \<or> pr5_authorPubKey e = [] \<or> pr5_dio e = []
      then Inl (InboxExn InvalidEncryptedInboxDataVersionException) else Inr ())"

definition assertDataFormat_public :: "InboxPublicServerDataV5 \<Rightarrow> (exn, unit) result" where
  "assertDataFormat_public e =
     (if pu5_version e \<noteq> 5 \<or> pu5_publicMeta e = [] \<or> pu5_authorPubKey e = [] \<or> pu5_inboxPubKey e = [] \<or> pu5_inboxKeyId e = []
      then Inl (InboxExn InvalidEncryptedInboxDataVersionException) else Inr ())"

definition private_dio_and_integrity :: "'k core_env \<Rightarrow> InboxPrivateServerDataV5 \<Rightarrow> (exn, DataIntegrityObject) result" where
  "private_dio_and_integrity env e =
     (let sha = (\<lambda>t. sha256 (en_crypto env) (bytes_of t)); bad = Inl (CoreExn InvalidDataIntegrityObjectChecksumException) in
      bindR (assertDataFormat_private e) (\<lambda>_.
      bindR (DIOEncryptorV1_decodeAndVerify env (pr5_dio e)) (\<lambda>dio.
      if dio_structureVersion dio \<noteq> 5 \<or> dio_creatorPubKey dio \<noteq> pr5_authorPubKey e then bad else
      bindR (unordered_map_at (dio_fieldChecksums dio) ''privateMeta'') (\<lambda>s. if s \<noteq> sha (pr5_privateMeta e) then bad else
      bindR (unordered_map_at (dio_fieldChecksums dio) ''internalMeta'') (\<lambda>s. if s \<noteq> sha (pr5_internalMeta e) then bad else
      Inr (DataIntegrityObject.truncate dio))))))"

definition InboxDataProcessorV5_getDIOAndAssertIntegrity :: "'k core_env \<Rightarrow> InboxData \<Rightarrow> (exn, DataIntegrityObject) result" where
  "InboxDataProcessorV5_getDIOAndAssertIntegrity env data =
     bindR (deserialize_struct (InboxPrivateServerDataV5_fromJSON (en_poco env)) (ibd_meta data)) (private_dio_and_integrity env)"

text \<open>Results are filled in field by field; an exception leaves what was filled in and sets the status.\<close>

definition InboxPublicData_new :: "int \<Rightarrow> InboxPublicData" where
  "InboxPublicData_new version =
     \<lparr>ibp_dataStructureVersion = version, ibp_statusCode = 0, ibp_publicMeta = [], ibp_inboxEntriesPubKeyBase58DER = [],
      ibp_inboxEntriesKeyId = [], ibp_authorPubKey = []\<rparr>"

definition read_inbox_public :: "'k core_env \<Rightarrow> string \<Rightarrow> string \<Rightarrow> json \<Rightarrow> string \<Rightarrow> string \<Rightarrow> (exn, InboxPublicData, unit) op" where
  "read_inbox_public env authorPubKey publicMeta publicMetaObject inboxPubKey inboxKeyId =
     bindS (liftR (PublicKey_fromBase58DER (en_crypto env) (en_ecc env) authorPubKey)) (\<lambda>author.
     bindS (liftR (DataEncryptorV4_decodeAndVerify env publicMeta author)) (\<lambda>plain.
     bindS (modify (\<lambda>r. r\<lparr>ibp_publicMeta := plain\<rparr>)) (\<lambda>_.
     bindS (if publicMetaObject \<noteq> JEmpty then
              bindS (liftR (compare_public env plain publicMetaObject)) (\<lambda>same.
                if same then ret () else modify (\<lambda>r. r\<lparr>ibp_statusCode := status_of (InboxExn InboxPublicDataMismatchException)\<rparr>))
            else ret ()) (\<lambda>_.
     modify (\<lambda>r. r\<lparr>ibp_inboxEntriesPubKeyBase58DER := inboxPubKey, ibp_inboxEntriesKeyId := inboxKeyId,
       ibp_authorPubKey := authorPubKey\<rparr>)))))"

definition catch_public :: "(exn, InboxPublicData, unit) op \<Rightarrow> InboxPublicData \<Rightarrow> InboxPublicData" where
  "catch_public m r = (case m r of (Inr _, r') \<Rightarrow> r' | (Inl x, r') \<Rightarrow> r'\<lparr>ibp_statusCode := status_of x\<rparr>)"

definition InboxDataProcessorV5_unpackPublic :: "'k core_env \<Rightarrow> json \<Rightarrow> InboxPublicData" where
  "InboxDataProcessorV5_unpackPublic env publicData =
     catch_public
       (bindS (liftR (deserialize_struct (InboxPublicServerDataV5_fromJSON (en_poco env)) publicData)) (\<lambda>e.
        bindS (liftR (assertDataFormat_public e)) (\<lambda>_.
        read_inbox_public env (pu5_authorPubKey e) (pu5_publicMeta e) (pu5_publicMetaObject e) (pu5_inboxPubKey e) (pu5_inboxKeyId e))))
       (InboxPublicData_new 5)"

definition empty_inbox_meta :: InboxInternalMetaV5 where
  "empty_inbox_meta = \<lparr>iim_secret = [], iim_resourceId = [], iim_randomId = []\<rparr>"

definition InboxPrivateDataV5_new :: InboxPrivateDataV5 where
  "InboxPrivateDataV5_new =
     \<lparr>ip5_dataStructureVersion = 5, ip5_statusCode = 0, ip5_privateMeta = [], ip5_internalMeta = empty_inbox_meta,
      ip5_dio = DataIntegrityObject.truncate empty_dio, ip5_authorPubKey = []\<rparr>"

definition read_inbox_private :: "'k core_env \<Rightarrow> json \<Rightarrow> bytes \<Rightarrow> (exn, InboxPrivateDataV5, unit) op" where
  "read_inbox_private env meta inboxKey =
     bindS (liftR (deserialize_struct (InboxPrivateServerDataV5_fromJSON (en_poco env)) meta)) (\<lambda>e.
     bindS (liftR (private_dio_and_integrity env e)) (\<lambda>dio.
     bindS (modify (\<lambda>r. r\<lparr>ip5_dio := dio\<rparr>)) (\<lambda>_.
     bindS (liftR (PublicKey_fromBase58DER (en_crypto env) (en_ecc env) (pr5_authorPubKey e))) (\<lambda>author.
     bindS (liftR (DataEncryptorV4_decodeAndDecryptAndVerify env (pr5_privateMeta e) author inboxKey)) (\<lambda>privateMeta.
     bindS (modify (\<lambda>r. r\<lparr>ip5_privateMeta := privateMeta\<rparr>)) (\<lambda>_.
     bindS (liftR (DataEncryptorV4_decodeAndDecryptAndVerify env (pr5_internalMeta e) author inboxKey)) (\<lambda>internal.
     bindS (liftR (bindR (parseJsonObject (en_poco env) internal) InboxInternalMetaV5_fromJSON)) (\<lambda>internalMeta.
     modify (\<lambda>r. r\<lparr>ip5_internalMeta := internalMeta, ip5_authorPubKey := pr5_authorPubKey e\<rparr>)))))))))"

definition InboxDataProcessorV5_unpackPrivate :: "'k core_env \<Rightarrow> InboxData \<Rightarrow> bytes \<Rightarrow> InboxPrivateDataV5" where
  "InboxDataProcessorV5_unpackPrivate env data inboxKey =
     (case read_inbox_private env (ibd_meta data) inboxKey InboxPrivateDataV5_new of
        (Inr _, r) \<Rightarrow> r | (Inl x, r) \<Rightarrow> r\<lparr>ip5_statusCode := status_of x\<rparr>)"

definition InboxDataProcessorV5_unpackAll :: "'k core_env \<Rightarrow> InboxData \<Rightarrow> bytes \<Rightarrow> InboxDataResultV5" where
  "InboxDataProcessorV5_unpackAll env data inboxKey =
     (let pub = InboxDataProcessorV5_unpackPublic env (ibd_publicData data);
          result = \<lparr>idr_statusCode = ibp_statusCode pub, idr_storeId = ibd_storeId data, idr_threadId = ibd_threadId data,
            idr_filesConfig = InboxDataHelper_fileConfigFromTypedObject (ibd_fileConfig data), idr_publicData = pub,
            idr_privateData = InboxPrivateDataV5_new\<lparr>ip5_dataStructureVersion := 0\<rparr>\<rparr>
      in if ibp_statusCode pub \<noteq> 0 then result
         else let priv = InboxDataProcessorV5_unpackPrivate env data inboxKey
              in result\<lparr>idr_privateData := priv, idr_statusCode := ip5_statusCode priv\<rparr>)"

subsection \<open>The data of an inbox, version 4\<close>

definition InboxDataProcessorV4_packForServer ::
    "'k core_env \<Rightarrow> InboxDataProcessorModelV4 \<Rightarrow> 'k \<Rightarrow> bytes \<Rightarrow> (exn, nat, InboxData) op" where
  "InboxDataProcessorV4_packForServer env plainData authorPrivateKey inboxKey =
     (let pub = ibm4_publicData plainData;
          authorPubKey = PublicKey_toBase58DER (en_crypto env) (en_ecc env) authorPrivateKey;
          publicData = \<lparr>pu4_version = 4, pu4_publicMeta = DataEncryptorV4_signAndEncode env (ibk_publicMeta pub) authorPrivateKey,
            pu4_publicMetaObject = public_object env (ibk_publicMeta pub), pu4_authorPubKey = authorPubKey,
            pu4_inboxPubKey = ibk_inboxEntriesPubKeyBase58DER pub, pu4_inboxKeyId = ibk_inboxEntriesKeyId pub\<rparr> in
      bindS (DataEncryptorV4_signAndEncryptAndEncode env (ibm4_privateMeta plainData) authorPrivateKey inboxKey) (\<lambda>privateMeta.
      bindS (case ibm4_internalMeta plainData of
          None \<Rightarrow> ret None
        | Some m \<Rightarrow> bindS (DataEncryptorV4_signAndEncryptAndEncode env m authorPrivateKey inboxKey) (\<lambda>x. ret (Some x))) (\<lambda>internalMeta.
      ret \<lparr>ibd_threadId = ibm4_threadId plainData, ibd_storeId = ibm4_storeId plainData,
        ibd_fileConfig = InboxDataHelper_fileConfigToTypedObject (ibm4_filesConfig plainData),
        ibd_meta = InboxPrivateServerDataV4_toJSON \<lparr>pr4_version = 4, pr4_privateMeta = privateMeta, pr4_internalMeta = internalMeta,
          pr4_authorPubKey = authorPubKey\<rparr>,
        ibd_publicData = InboxPublicServerDataV4_toJSON publicData\<rparr>)))"

text \<open>\<open>convert\<close> turns a dynamic value into a number, by POCO's rules.\<close>

definition InboxDataProcessorV4_validateVersion :: "'k core_env \<Rightarrow> (json \<Rightarrow> (exn, int) result) \<Rightarrow> json \<Rightarrow> (exn, unit) result" where
  "InboxDataProcessorV4_validateVersion env convert data =
     (case data of
        JObject ob \<Rightarrow> bindR (convert (json_get ob ''version'')) (\<lambda>version.
          if version \<noteq> 4 then Inl (InboxExn InvalidEncryptedInboxDataVersionException) else Inr ())
      | _ \<Rightarrow> Inl (poco_badCast (en_poco env)))"

definition InboxDataProcessorV4_unpackPublic :: "'k core_env \<Rightarrow> (json \<Rightarrow> (exn, int) result) \<Rightarrow> json \<Rightarrow> InboxPublicData" where
  "InboxDataProcessorV4_unpackPublic env convert publicData =
     catch_public
       (bindS (liftR (InboxDataProcessorV4_validateVersion env convert publicData)) (\<lambda>_.
        bindS (liftR (deserialize_struct (InboxPublicServerDataV4_fromJSON (en_poco env)) publicData)) (\<lambda>e.
        read_inbox_public env (pu4_authorPubKey e) (pu4_publicMeta e) (pu4_publicMetaObject e) (pu4_inboxPubKey e) (pu4_inboxKeyId e))))
       (InboxPublicData_new 4)"

definition InboxPrivateDataV4_new :: InboxPrivateDataV4 where
  "InboxPrivateDataV4_new =
     \<lparr>ip4_dataStructureVersion = 4, ip4_statusCode = 0, ip4_privateMeta = [], ip4_internalMeta = None, ip4_authorPubKey = []\<rparr>"

definition read_inbox_private_v4 ::
    "'k core_env \<Rightarrow> (json \<Rightarrow> (exn, int) result) \<Rightarrow> json \<Rightarrow> bytes \<Rightarrow> (exn, InboxPrivateDataV4, unit) op" where
  "read_inbox_private_v4 env convert meta inboxKey =
     bindS (liftR (InboxDataProcessorV4_validateVersion env convert meta)) (\<lambda>_.
     bindS (liftR (deserialize_struct (InboxPrivateServerDataV4_fromJSON (en_poco env)) meta)) (\<lambda>e.
     bindS (liftR (PublicKey_fromBase58DER (en_crypto env) (en_ecc env) (pr4_authorPubKey e))) (\<lambda>author.
     bindS (liftR (DataEncryptorV4_decodeAndDecryptAndVerify env (pr4_privateMeta e) author inboxKey)) (\<lambda>privateMeta.
     bindS (modify (\<lambda>r. r\<lparr>ip4_privateMeta := privateMeta\<rparr>)) (\<lambda>_.
     bindS (liftR (case pr4_internalMeta e of None \<Rightarrow> Inr None
         | Some t \<Rightarrow> bindR (DataEncryptorV4_decodeAndDecryptAndVerify env t author inboxKey) (\<lambda>m. Inr (Some m)))) (\<lambda>internalMeta.
     modify (\<lambda>r. r\<lparr>ip4_internalMeta := internalMeta, ip4_authorPubKey := pr4_authorPubKey e\<rparr>)))))))"

definition InboxDataProcessorV4_unpackPrivate ::
    "'k core_env \<Rightarrow> (json \<Rightarrow> (exn, int) result) \<Rightarrow> InboxData \<Rightarrow> bytes \<Rightarrow> InboxPrivateDataV4" where
  "InboxDataProcessorV4_unpackPrivate env convert data inboxKey =
     (case read_inbox_private_v4 env convert (ibd_meta data) inboxKey InboxPrivateDataV4_new of
        (Inr _, r) \<Rightarrow> r | (Inl x, r) \<Rightarrow> r\<lparr>ip4_statusCode := status_of x\<rparr>)"

definition InboxDataProcessorV4_unpackAll ::
    "'k core_env \<Rightarrow> (json \<Rightarrow> (exn, int) result) \<Rightarrow> InboxData \<Rightarrow> bytes \<Rightarrow> InboxDataResultV4" where
  "InboxDataProcessorV4_unpackAll env convert data inboxKey =
     (let pub = InboxDataProcessorV4_unpackPublic env convert (ibd_publicData data);
          result = \<lparr>idr4_statusCode = ibp_statusCode pub, idr4_storeId = ibd_storeId data, idr4_threadId = ibd_threadId data,
            idr4_filesConfig = InboxDataHelper_fileConfigFromTypedObject (ibd_fileConfig data), idr4_publicData = pub,
            idr4_privateData = InboxPrivateDataV4_new\<lparr>ip4_dataStructureVersion := 0\<rparr>\<rparr>
      in if ibp_statusCode pub \<noteq> 0 then result
         else let priv = InboxDataProcessorV4_unpackPrivate env convert data inboxKey
              in result\<lparr>idr4_privateData := priv, idr4_statusCode := ip4_statusCode priv\<rparr>)"

end
