(* ===== verification/Inbox_Handles.thy ===== *)
theory Inbox_Handles
  imports Inbox_Data Store_OpenFiles Thread_ThreadApi
begin

text \<open>
  The state of the inboxes and their handles (\<open>endpoint/inbox/src/InboxHandleManager.cpp\<close>). An entry that is
  being sent is an inbox handle. It holds pointers to the write handles of its files, which stay
  alive after their numbers are removed from the table of files; a pointer is the number the object had, which is
  not given out again before the numbers of 64 bits are used up.
\<close>

subsection \<open>State\<close>

record InboxHandle =
  ih_id :: int
  ih_inboxId :: string
  ih_inboxResourceId :: string
  ih_data :: bytes
  ih_inboxFileHandles :: "int list"
  ih_userPrivKey :: "string option"

text \<open>
  The interface has interfaces of its own for stores and threads, with their key caches, and a table of
  files beside the one of the stores. \<open>iw_released\<close> holds the write handles whose number was removed.
\<close>

record 's inbox_world =
  iw_server :: 's
  iw_storeCache :: ContainerKeyCache
  iw_threadCache :: ContainerKeyCache
  iw_handleManager :: HandleManager
  iw_files :: "int \<rightharpoonup> 's file_handle"
  iw_released :: "int \<rightharpoonup> 's FileWriteHandle"
  iw_inboxHandles :: "int \<rightharpoonup> InboxHandle"
  iw_fileHandlesUsedByInboxHandles :: "int list"
  iw_threadIdToInboxId :: "(string \<times> string) list"

datatype inbox_event_data =
    InboxCreatedEvent Inbox
  | InboxUpdatedEvent Inbox
  | InboxDeletedEvent string
  | InboxEntryCreatedEvent InboxEntry
  | InboxEntryDeletedEvent InboxEntryDeletedEventData
  | InboxCollectionChangedEvent CollectionChanged

type_synonym 's inbox_state = "('s inbox_world, inbox_event_data api_event) api_state"
type_synonym ('s, 'a) inbox_op = "(exn, 's inbox_state, 'a) op"

definition on_world :: "('s inbox_world \<Rightarrow> 's inbox_world) \<Rightarrow> 's inbox_state \<Rightarrow> 's inbox_state" where
  "on_world f st = st\<lparr>as_server := f (as_server st)\<rparr>"

text \<open>Requests to the Bridge, and the operations of the stores and of the threads, on the parts they use.\<close>

definition on_bridge :: "(exn, 's, 'a) op \<Rightarrow> ('s, 'a) inbox_op" where
  "on_bridge m st = (case m (iw_server (as_server st)) of (r, s) \<Rightarrow> (r, on_world (iw_server_update (\<lambda>_. s)) st))"

definition ask_bridge :: "('s \<Rightarrow> (exn, 'a) result) \<Rightarrow> ('s, 'a) inbox_op" where
  "ask_bridge q st = (q (iw_server (as_server st)), st)"

definition in_store :: "('s, 'a) store_op \<Rightarrow> ('s, 'a) inbox_op" where
  "in_store m st =
     (let w = as_server st in
      case m \<lparr>as_cache = iw_storeCache w, as_draws = as_draws st, as_server = iw_server w, as_events = [], as_subscriptions = []\<rparr> of
        (r, a) \<Rightarrow> (r, st\<lparr>as_draws := as_draws a, as_server := w\<lparr>iw_server := as_server a, iw_storeCache := as_cache a\<rparr>\<rparr>))"

definition in_thread :: "('s, 'a) thread_op \<Rightarrow> ('s, 'a) inbox_op" where
  "in_thread m st =
     (let w = as_server st in
      case m \<lparr>as_cache = iw_threadCache w, as_draws = as_draws st, as_server = iw_server w, as_events = [], as_subscriptions = []\<rparr> of
        (r, a) \<Rightarrow> (r, st\<lparr>as_draws := as_draws a, as_server := w\<lparr>iw_server := as_server a, iw_threadCache := as_cache a\<rparr>\<rparr>))"

text \<open>The table of files, as the operations of \<open>FileHandleManager\<close> see it.\<close>

definition files_of :: "'s inbox_state \<Rightarrow> 's store_state" where
  "files_of st =
     (let w = as_server st in
      \<lparr>ss_server = iw_server w, ss_draws = as_draws st, ss_handleManager = iw_handleManager w, ss_files = iw_files w\<rparr>)"

definition put_files :: "'s store_state \<Rightarrow> 's inbox_state \<Rightarrow> 's inbox_state" where
  "put_files f st = st\<lparr>as_draws := ss_draws f, as_server := (as_server st)
     \<lparr>iw_server := ss_server f, iw_handleManager := ss_handleManager f, iw_files := ss_files f\<rparr>\<rparr>"

definition on_files :: "(exn, 's store_state, 'a) op \<Rightarrow> ('s, 'a) inbox_op" where
  "on_files m st = (case m (files_of st) of (r, f) \<Rightarrow> (r, put_files f st))"

definition on_files_partial ::
    "('s store_state \<Rightarrow> ((exn, 'a) result \<times> 's store_state) option) \<Rightarrow> 's inbox_state \<Rightarrow> ((exn, 'a) result \<times> 's inbox_state) option" where
  "on_files_partial m st = map_option (\<lambda>(r, f). (r, put_files f st)) (m (files_of st))"

subsection \<open>Write handles behind pointers\<close>

text \<open>An operation on the write handle with a number, wherever it is kept.\<close>

definition on_write_pointer :: "int \<Rightarrow> (exn, 's FileWriteHandle, 'a) op \<Rightarrow> ('s, 'a) inbox_op" where
  "on_write_pointer i m st =
     (case iw_released (as_server st) i of
        None \<Rightarrow>
          on_files (\<lambda>f. case FileHandleManager_getFileWriteHandle f i of
             Inl e \<Rightarrow> (Inl e, f)
           | Inr h \<Rightarrow> on_write_handle i h m f) st
      | Some h \<Rightarrow>
          (case m (h\<lparr>fw_upload := (fw_upload h)\<lparr>up_server := iw_server (as_server st), up_draws := as_draws st\<rparr>\<rparr>) of
             (r, h') \<Rightarrow> (r, st\<lparr>as_draws := up_draws (fw_upload h'), as_server := (as_server st)
               \<lparr>iw_server := up_server (fw_upload h'), iw_released := (iw_released (as_server st))(i \<mapsto> h')\<rparr>\<rparr>)))"

definition write_pointer :: "int \<Rightarrow> ('s, 's FileWriteHandle) inbox_op" where
  "write_pointer i = on_write_pointer i (\<lambda>h. (Inr h, h))"

subsection \<open>\<open>InboxHandleManager\<close>\<close>

definition InboxHandleManager_isFileReadHandle :: "int \<Rightarrow> ('s, bool) inbox_op" where
  "InboxHandleManager_isFileReadHandle fileHandleId =
     on_files (\<lambda>f. (bindR (FileHandleManager_getFileHandle f fileHandleId) (\<lambda>h. Inr (case h of ReadHandle _ \<Rightarrow> True | _ \<Rightarrow> False)), f))"

definition InboxHandleManager_isFileWriteHandle :: "int \<Rightarrow> ('s, bool) inbox_op" where
  "InboxHandleManager_isFileWriteHandle fileHandleId =
     on_files (\<lambda>f. (bindR (FileHandleManager_getFileHandle f fileHandleId) (\<lambda>h. Inr (case h of WriteHandle _ \<Rightarrow> True | _ \<Rightarrow> False)), f))"

definition InboxHandleManager_getFileWriteHandle :: "int \<Rightarrow> ('s, 's FileWriteHandle) inbox_op" where
  "InboxHandleManager_getFileWriteHandle fileHandleId =
     bindS (InboxHandleManager_isFileWriteHandle fileHandleId) (\<lambda>writes.
     if \<not> writes then throw (InboxExn inbox_InvalidFileWriteHandleException)
     else on_files (\<lambda>f. (FileHandleManager_getFileWriteHandle f fileHandleId, f)))"

definition InboxHandleManager_getFileReadHandle :: "int \<Rightarrow> ('s, 's FileReadHandle) inbox_op" where
  "InboxHandleManager_getFileReadHandle fileHandleId =
     bindS (InboxHandleManager_isFileReadHandle fileHandleId) (\<lambda>reads.
     if \<not> reads then throw (InboxExn inbox_InvalidFileReadHandleException)
     else on_files (\<lambda>f. (FileHandleManager_getFileReadHandle f fileHandleId, f)))"

text \<open>The numbers of the files are entered as used one by one, before a later one may turn out not to be a write handle.\<close>

definition use_file_handle :: "int \<Rightarrow> ('s, unit) inbox_op" where
  "use_file_handle i =
     bindS (on_files (\<lambda>f. (FileHandleManager_getFileWriteHandle f i, f))) (\<lambda>_ st.
     (Inr (), on_world (iw_fileHandlesUsedByInboxHandles_update (\<lambda>used. used @ [i])) st))"

text \<open>\<open>None\<close>: no number is found for the handle.\<close>

definition InboxHandleManager_createInboxHandle ::
    "string \<Rightarrow> string \<Rightarrow> bytes \<Rightarrow> int list \<Rightarrow> string option \<Rightarrow> 's inbox_state \<Rightarrow> ((exn, InboxHandle) result \<times> 's inbox_state) option" where
  "InboxHandleManager_createInboxHandle inboxId inboxResourceId data inboxFileHandles userPrivKey st =
     (case for_each use_file_handle inboxFileHandles st of
        (Inl e, st) \<Rightarrow> Some (Inl e, st)
      | (Inr _, st) \<Rightarrow>
          (case HandleManager_createHandle ''Inbox:FilesWrite'' (iw_handleManager (as_server st)) of
             None \<Rightarrow> None
           | Some (i, hm) \<Rightarrow>
               let result = \<lparr>ih_id = i, ih_inboxId = inboxId, ih_inboxResourceId = inboxResourceId, ih_data = data,
                     ih_inboxFileHandles = inboxFileHandles, ih_userPrivKey = userPrivKey\<rparr>
               in Some (Inr result, on_world (\<lambda>w. w\<lparr>iw_handleManager := hm, iw_inboxHandles := (iw_inboxHandles w)(i \<mapsto> result)\<rparr>) st)))"

definition InboxHandleManager_getInboxHandle :: "int \<Rightarrow> ('s, InboxHandle) inbox_op" where
  "InboxHandleManager_getInboxHandle i st =
     (case iw_inboxHandles (as_server st) i of
        None \<Rightarrow> (Inl (InboxExn UnknownInboxHandleException), st) | Some h \<Rightarrow> (Inr h, st))"

definition InboxHandleManager_hasInboxHandle :: "int \<Rightarrow> 's inbox_state \<Rightarrow> bool" where
  "InboxHandleManager_hasInboxHandle i st \<longleftrightarrow> iw_inboxHandles (as_server st) i \<noteq> None"

text \<open>
  Removing the number of a file. The object of a write handle lives on for the inbox handles that hold it. With
  \<open>force\<close> the first entry of the number among the used ones goes, which is there.
\<close>

definition InboxHandleManager_removeFileHandle :: "int \<Rightarrow> bool \<Rightarrow> ('s, unit) inbox_op" where
  "InboxHandleManager_removeFileHandle fileHandleId force st =
     (let w = as_server st; used = iw_fileHandlesUsedByInboxHandles w;
          st1 = on_world (\<lambda>w. w\<lparr>iw_released := (case iw_files w fileHandleId of
            Some (WriteHandle h) \<Rightarrow> (iw_released w)(fileHandleId \<mapsto> h) | _ \<Rightarrow> iw_released w)\<rparr>) in
      if force then on_files (FileHandleManager_removeHandle fileHandleId)
        (st1 (on_world (\<lambda>w. w\<lparr>iw_fileHandlesUsedByInboxHandles := remove1 fileHandleId used\<rparr>) st))
      else if fileHandleId \<in> set used then (Inl (InboxExn HandleIsUsedInInboxHandleException), st)
      else on_files (FileHandleManager_removeHandle fileHandleId) (st1 st))"

record CommitFileInfo =
  ci_fileSize :: FileSizeResult
  ci_fileSendResult :: ChunksSentInfo
  ci_size :: int
  ci_publicMeta :: bytes
  ci_privateMeta :: bytes

definition commit_file :: "crypto_api \<Rightarrow> 's request_api \<Rightarrow> int \<Rightarrow> ('s, CommitFileInfo) inbox_op" where
  "commit_file c requests i =
     bindS (on_write_pointer i (FileWriteHandle_finalize c requests)) (\<lambda>result.
     bindS (write_pointer i) (\<lambda>h.
     ret \<lparr>ci_fileSize = FileWriteHandle_getEncryptedFileSize h, ci_fileSendResult = result, ci_size = s64 (int (hd_size (fw_handle h))),
          ci_publicMeta = fw_publicMeta h, ci_privateMeta = fw_privateMeta h\<rparr>))"

definition assert_ready :: "int \<Rightarrow> ('s, unit) inbox_op" where
  "assert_ready i =
     bindS (write_pointer i) (\<lambda>h.
     if FileWriteHandle_isReadyToFinalize h then ret () else throw (ConnectionExn DataDifferentThanDeclaredException))"

definition erase_inbox_handle :: "int \<Rightarrow> ('s, unit) inbox_op" where
  "erase_inbox_handle i st =
     (Inr (), on_world (\<lambda>w. w\<lparr>iw_inboxHandles := (iw_inboxHandles w)(i := None),
        iw_handleManager := HandleManager_removeHandle i (iw_handleManager w)\<rparr>) st)"

definition release_files :: "InboxHandle \<Rightarrow> ('s, unit) inbox_op" where
  "release_files h = for_each (\<lambda>i. InboxHandleManager_removeFileHandle i True) (ih_inboxFileHandles h)"

definition InboxHandleManager_commitInboxHandle :: "crypto_api \<Rightarrow> 's request_api \<Rightarrow> int \<Rightarrow> ('s, CommitFileInfo list) inbox_op" where
  "InboxHandleManager_commitInboxHandle c requests i =
     bindS (InboxHandleManager_getInboxHandle i) (\<lambda>h.
     bindS (for_each assert_ready (ih_inboxFileHandles h)) (\<lambda>_.
     bindS (mapS (commit_file c requests) (ih_inboxFileHandles h)) (\<lambda>result.
     bindS (erase_inbox_handle i) (\<lambda>_.
     bindS (release_files h) (\<lambda>_. ret result)))))"

definition InboxHandleManager_abortInboxHandle :: "int \<Rightarrow> ('s, unit) inbox_op" where
  "InboxHandleManager_abortInboxHandle i =
     bindS (InboxHandleManager_getInboxHandle i) (\<lambda>h.
     bindS (erase_inbox_handle i) (\<lambda>_. release_files h))"

definition InboxHandleManager_createFileWriteHandle ::
    "string \<Rightarrow> string \<Rightarrow> nat \<Rightarrow> bytes \<Rightarrow> bytes \<Rightarrow> nat \<Rightarrow> nat \<Rightarrow> 's inbox_state \<Rightarrow> ((exn, int) result \<times> 's inbox_state) option" where
  "InboxHandleManager_createFileWriteHandle storeId fileId sz publicMeta privateMeta chunkSize serverRequestChunkSize =
     on_files_partial (FileHandleManager_create ''Inbox:FileWrite''
       (\<lambda>i s r. Inr (WriteHandle (FileWriteHandle_new i storeId fileId [] sz publicMeta privateMeta chunkSize serverRequestChunkSize False s r))))"

definition InboxHandleManager_createFileReadHandle ::
    "crypto_api \<Rightarrow> ('s, 'm) store_server \<Rightarrow> FileDecryptionParams \<Rightarrow> nat \<Rightarrow> 's inbox_state \<Rightarrow> ((exn, int) result \<times> 's inbox_state) option" where
  "InboxHandleManager_createFileReadHandle c api params serverChunkSize =
     on_files_partial (FileHandleManager_create ''Inbox:FileRead''
       (\<lambda>i s r. bindR (FileReadHandle_new c api i params serverChunkSize r s) (\<lambda>h. Inr (ReadHandle h))))"

end
