(* ===== verification/Inbox_InboxApi.thy ===== *)
theory Inbox_InboxApi
  imports Inbox_Handles Core_Validator
begin

text \<open>
  The inboxes (\<open>endpoint/inbox/src/InboxApiImpl.cpp\<close>). An inbox is a store and a thread of a type of their own and data
  that is encrypted like theirs; anybody may send entries to it: a message of the thread, encrypted for the key of
  the inbox, and files of the store. The Bridge's requests (\<open>ServerApi.cpp\<close>) are a parameter.
\<close>

subsection \<open>The Bridge and the interface object\<close>

record 's inbox_bridge =
  ib_inboxCreate :: "InboxCreateModel \<Rightarrow> (exn, 's, string) op"
  ib_inboxUpdate :: "InboxUpdateModel \<Rightarrow> (exn, 's, unit) op"
  ib_inboxGet :: "InboxGetModel \<Rightarrow> 's \<Rightarrow> (exn, InboxInfo) result"
  ib_inboxGetPublicView :: "InboxGetModel \<Rightarrow> 's \<Rightarrow> (exn, InboxGetPublicViewResult) result"
  ib_inboxList :: "InboxListModel \<Rightarrow> 's \<Rightarrow> (exn, InboxInfo list \<times> int) result"
  ib_inboxSend :: "InboxSendModel \<Rightarrow> (exn, 's, unit) op"
  ib_inboxDelete :: "string \<Rightarrow> (exn, 's, unit) op"
  ib_storeFileGetMany :: "StoreFileGetManyModel \<Rightarrow> 's \<Rightarrow> (exn, FileListElement list) result"

text \<open>
  \<open>ie_convert\<close> is POCO's conversion of a value to a number, for the version of old data. The interfaces of the stores and of
  the threads are taken to be connected.
\<close>

record ('k, 's, 'm) inbox_env =
  ie_stores :: "'k store_api"
  ie_bridge :: "'s inbox_bridge"
  ie_store_bridge :: "'s store_bridge"
  ie_thread_bridge :: "'s thread_server"
  ie_requests :: "'s request_api"
  ie_file_server :: "('s, 'm) store_server"
  ie_serverRequestChunkSize :: nat
  ie_convert :: "json \<Rightarrow> (exn, int) result"

abbreviation ie_conn :: "('k, 's, 'm) inbox_env \<Rightarrow> 'k connection" where
  "ie_conn x \<equiv> sa_conn (ie_stores x)"

abbreviation ie_core :: "('k, 's, 'm) inbox_env \<Rightarrow> 'k core_env" where
  "ie_core x \<equiv> cn_env (ie_conn x)"

definition InboxApiImpl_CHUNK_SIZE :: nat where
  "InboxApiImpl_CHUNK_SIZE = 128 * 1024"

subsection \<open>Data of inboxes\<close>

definition getInboxDataEntryStructureVersion :: "'k core_env \<Rightarrow> InboxDataEntry \<Rightarrow> (exn, int) result" where
  "getInboxDataEntryStructureVersion env inboxEntry =
     (case ibd_meta (ibe_data inboxEntry) of
        JObject ob \<Rightarrow> bindR (VersionedData_fromJSON (en_poco env) ob) (\<lambda>version.
          Inr (if version = 4 then 4 else if version = 5 then 5 else 0))
      | _ \<Rightarrow> Inr 0)"

text \<open>The status of the key is not looked at, here as in the next definition: only its bytes are used.\<close>

definition decryptInboxV4 :: "('k, 's, 'm) inbox_env \<Rightarrow> InboxDataEntry \<Rightarrow> DecryptedEncKeyV2 \<Rightarrow> InboxDataResultV4" where
  "decryptInboxV4 x inboxEntry encKey = InboxDataProcessorV4_unpackAll (ie_core x) (ie_convert x) (ibe_data inboxEntry) (ek_key encKey)"

definition decryptInboxV5 :: "('k, 's, 'm) inbox_env \<Rightarrow> InboxDataEntry \<Rightarrow> DecryptedEncKeyV2 \<Rightarrow> InboxDataResultV5" where
  "decryptInboxV5 x inboxEntry encKey = InboxDataProcessorV5_unpackAll (ie_core x) (ibe_data inboxEntry) (ek_key encKey)"

definition convertServerInboxToLibInbox ::
    "'k connection \<Rightarrow> InboxInfo \<Rightarrow> bytes \<Rightarrow> bytes \<Rightarrow> FilesConfig option \<Rightarrow> int \<Rightarrow> int \<Rightarrow> (exn, Inbox) result" where
  "convertServerInboxToLibInbox c inbox publicMeta privateMeta filesConfig statusCode schemaVersion =
     bindR (Factory_parsePolicyServerObject (en_poco (cn_env c)) (cn_str c) (ii_policy inbox)) (\<lambda>policy.
     Inr \<lparr>lib_inboxId = ii_id inbox, lib_contextId = ii_contextId inbox, lib_createDate = ii_createDate inbox, lib_creator = ii_creator inbox,
       lib_lastModificationDate = ii_lastModificationDate inbox, lib_lastModifier = ii_lastModifier inbox, lib_users = ii_users inbox,
       lib_managers = ii_managers inbox, lib_version = ii_version inbox, lib_publicMeta = publicMeta, lib_privateMeta = privateMeta,
       lib_filesConfig = filesConfig, lib_policy = ContainerPolicyWithoutItem.truncate policy, lib_statusCode = statusCode,
       lib_schemaVersion = schemaVersion\<rparr>)"

definition convertInboxV4 :: "'k connection \<Rightarrow> InboxInfo \<Rightarrow> InboxDataResultV4 \<Rightarrow> (exn, Inbox) result" where
  "convertInboxV4 c inboxRaw inboxData =
     convertServerInboxToLibInbox c inboxRaw (ibp_publicMeta (idr4_publicData inboxData)) (ip4_privateMeta (idr4_privateData inboxData))
       (Some (idr4_filesConfig inboxData)) (idr4_statusCode inboxData) 4"

definition convertInboxV5 :: "'k connection \<Rightarrow> InboxInfo \<Rightarrow> InboxDataResultV5 \<Rightarrow> (exn, Inbox) result" where
  "convertInboxV5 c inboxRaw inboxData =
     convertServerInboxToLibInbox c inboxRaw (ibp_publicMeta (idr_publicData inboxData)) (ip5_privateMeta (idr_privateData inboxData))
       (Some (idr_filesConfig inboxData)) (idr_statusCode inboxData) 5"

definition failed_inbox :: "'k connection \<Rightarrow> InboxInfo \<Rightarrow> int \<Rightarrow> (exn, Inbox) result" where
  "failed_inbox c inbox statusCode = convertServerInboxToLibInbox c inbox [] [] None statusCode 0"

abbreviation inbox_resource_id :: "InboxInfo \<Rightarrow> string" where
  "inbox_resource_id inbox \<equiv> (case ii_resourceId inbox of Some r \<Rightarrow> r | None \<Rightarrow> [])"

definition inbox_location :: "InboxInfo \<Rightarrow> EncKeyLocation" where
  "inbox_location inbox = \<lparr>el_contextId = ii_contextId inbox, el_resourceId = inbox_resource_id inbox\<rparr>"

text \<open>Version 4 carries no integrity object; the code makes one up from what the Bridge says.\<close>

definition old_inbox_dio :: "InboxInfo \<Rightarrow> string \<Rightarrow> DataIntegrityObject" where
  "old_inbox_dio inbox creatorPubKey =
     \<lparr>dio_creatorUserId = ii_lastModifier inbox, dio_creatorPubKey = creatorPubKey, dio_contextId = ii_contextId inbox,
      dio_resourceId = inbox_resource_id inbox, dio_timestamp = ii_lastModificationDate inbox, dio_randomId = [],
      dio_containerId = None, dio_containerResourceId = None, dio_bridgeIdentity = None\<rparr>"

definition decryptAndConvertInboxDataToInbox ::
    "('k, 's, 'm) inbox_env \<Rightarrow> InboxInfo \<Rightarrow> InboxDataEntry \<Rightarrow> DecryptedEncKeyV2 \<Rightarrow> (exn, Inbox \<times> DataIntegrityObject) result" where
  "decryptAndConvertInboxDataToInbox x inbox inboxEntry encKey =
     bindR (getInboxDataEntryStructureVersion (ie_core x) inboxEntry) (\<lambda>version.
     if version = 4 then
       let decryptedInboxData = decryptInboxV4 x inboxEntry encKey
       in bindR (convertInboxV4 (ie_conn x) inbox decryptedInboxData) (\<lambda>r.
            Inr (r, old_inbox_dio inbox (ip4_authorPubKey (idr4_privateData decryptedInboxData))))
     else if version = 5 then
       let decryptedInboxData = decryptInboxV5 x inboxEntry encKey
       in bindR (convertInboxV5 (ie_conn x) inbox decryptedInboxData) (\<lambda>r. Inr (r, ip5_dio (idr_privateData decryptedInboxData)))
     else bindR (failed_inbox (ie_conn x) inbox (status_of (InboxExn UnknownInboxFormatException))) (\<lambda>r. Inr (r, no_dio)))"

definition assertInboxDataIntegrity :: "'k core_env \<Rightarrow> InboxInfo \<Rightarrow> (exn, unit) result" where
  "assertInboxDataIntegrity env inbox =
     (let inbox_data_entry = last (ii_data inbox) in
      bindR (getInboxDataEntryStructureVersion env inbox_data_entry) (\<lambda>version.
      if version = 4 then Inr ()
      else if version = 5 then
        bindR (InboxDataProcessorV5_getDIOAndAssertIntegrity env (ibe_data inbox_data_entry)) (\<lambda>dio.
        if dio_contextId dio \<noteq> ii_contextId inbox \<or> Some (dio_resourceId dio) \<noteq> ii_resourceId inbox \<or>
           dio_creatorUserId dio \<noteq> ii_lastModifier inbox \<or>
           \<not> TimestampValidator_validate (dio_timestamp dio) (ii_lastModificationDate inbox)
        then Inl (InboxExn InboxDataIntegrityException) else Inr ())
      else Inl (InboxExn UnknownInboxFormatException)))"

definition validateInboxDataIntegrity :: "'k core_env \<Rightarrow> InboxInfo \<Rightarrow> int" where
  "validateInboxDataIntegrity env inbox = (case assertInboxDataIntegrity env inbox of Inr _ \<Rightarrow> 0 | Inl e \<Rightarrow> status_of e)"

definition inbox_request :: "Inbox \<Rightarrow> DataIntegrityObject \<Rightarrow> VerificationRequest" where
  "inbox_request r dio =
     \<lparr>vr_contextId = lib_contextId r, vr_senderId = lib_lastModifier r, vr_senderPubKey = dio_creatorPubKey dio,
      vr_date = lib_lastModificationDate r, vr_bridgeIdentity = dio_bridgeIdentity dio\<rparr>"

abbreviation put_inbox_status :: "int \<Rightarrow> Inbox \<Rightarrow> Inbox" where
  "put_inbox_status s r \<equiv> r\<lparr>lib_statusCode := s\<rparr>"

text \<open>Unlike for threads and stores, an exception is passed on here.\<close>

definition validateDecryptAndConvertInboxDataToInbox :: "('k, 's, 'm) inbox_env \<Rightarrow> InboxInfo \<Rightarrow> (exn, Inbox) result" where
  "validateDecryptAndConvertInboxDataToInbox x inbox =
     (let c = ie_conn x; statusCode = validateInboxDataIntegrity (ie_core x) inbox in
      if statusCode \<noteq> 0 then failed_inbox c inbox statusCode
      else
        let inbox_data_entry = last (ii_data inbox); location = inbox_location inbox in
        bindR (bindR (keys_at c (KeyRequest_addOne (ii_keys inbox) (ibe_keyId inbox_data_entry) location) location)
          (\<lambda>keys. unordered_map_at keys (ibe_keyId inbox_data_entry))) (\<lambda>key.
        bindR (decryptAndConvertInboxDataToInbox x inbox inbox_data_entry key)
          (verify_one (cn_verifier c) lib_statusCode put_inbox_status inbox_request)))"

definition request_inbox_keys :: "InboxInfo list \<Rightarrow> (exn, KeyRequest, unit list) op" where
  "request_inbox_keys =
     mapS (\<lambda>inbox. KeyRequest_addOne (ii_keys inbox) (ibe_keyId (last (ii_data inbox))) (inbox_location inbox))"

definition get_inbox_keys :: "'k connection \<Rightarrow> InboxInfo list \<Rightarrow> (exn, (EncKeyLocation \<times> key_map) list) result" where
  "get_inbox_keys c inboxes =
     bindR (case request_inbox_keys inboxes KeyRequest_new of (Inl e, _) \<Rightarrow> Inl e | (Inr _, r) \<Rightarrow> Inr r)
       (KeyProvider_getKeysAndVerify (cn_env c) (cn_userPrivKey c) (cn_verifier c))"

definition decrypt_inbox ::
    "('k, 's, 'm) inbox_env \<Rightarrow> (EncKeyLocation \<times> key_map) list \<Rightarrow> InboxInfo \<Rightarrow> (exn, Inbox \<times> DataIntegrityObject) result" where
  "decrypt_inbox x inboxesKeys inbox =
     bindR (at_location inboxesKeys (inbox_location inbox)) (\<lambda>keys.
     bindR (unordered_map_at keys (ibe_keyId (last (ii_data inbox)))) (\<lambda>key.
     decryptAndConvertInboxDataToInbox x inbox (last (ii_data inbox)) key))"

definition Inbox_new :: Inbox where
  "Inbox_new =
     \<lparr>lib_inboxId = [], lib_contextId = [], lib_createDate = 0, lib_creator = [], lib_lastModificationDate = 0, lib_lastModifier = [],
      lib_users = [], lib_managers = [], lib_version = 0, lib_publicMeta = [], lib_privateMeta = [], lib_filesConfig = None,
      lib_policy = ContainerPolicyWithoutItem.truncate empty_policy, lib_statusCode = 0, lib_schemaVersion = 0\<rparr>"

definition validateDecryptAndConvertInboxesDataToInboxes :: "('k, 's, 'm) inbox_env \<Rightarrow> InboxInfo list \<Rightarrow> (exn, Inbox list) result" where
  "validateDecryptAndConvertInboxesDataToInboxes x =
     read_containers (cn_verifier (ie_conn x)) (validateInboxDataIntegrity (ie_core x)) (failed_inbox (ie_conn x)) Inbox_new
       (get_inbox_keys (ie_conn x)) (decrypt_inbox x) lib_statusCode put_inbox_status inbox_request"

definition decryptInboxInternalMeta :: "('k, 's, 'm) inbox_env \<Rightarrow> InboxDataEntry \<Rightarrow> DecryptedEncKeyV2 \<Rightarrow> (exn, InboxInternalMetaV5) result" where
  "decryptInboxInternalMeta x inboxEntry encKey =
     bindR (getInboxDataEntryStructureVersion (ie_core x) inboxEntry) (\<lambda>version.
     if version = 4 then Inr empty_inbox_meta
     else if version = 5 then Inr (ip5_internalMeta (idr_privateData (decryptInboxV5 x inboxEntry encKey)))
     else Inl (InboxExn UnknownInboxFormatException))"

subsection \<open>Keys\<close>

definition getServerInbox :: "('k, 's, 'm) inbox_env \<Rightarrow> string \<Rightarrow> string option \<Rightarrow> ('s, InboxInfo) inbox_op" where
  "getServerInbox x inboxId type =
     ask_bridge (ib_inboxGet (ie_bridge x) \<lparr>ibg_id = inboxId,
       ibg_type = (case type of Some t \<Rightarrow> (if length t > 0 then Some t else None) | None \<Rightarrow> None)\<rparr>)"

definition inboxToModuleKeys :: "'k core_env \<Rightarrow> InboxInfo \<Rightarrow> (exn, ModuleKeys) result" where
  "inboxToModuleKeys env inbox =
     bindR (getInboxDataEntryStructureVersion env (last (ii_data inbox))) (\<lambda>version.
     Inr \<lparr>mk_keys = ii_keys inbox, mk_currentKeyId = ii_keyId inbox, mk_moduleSchemaVersion = version,
       mk_moduleResourceId = inbox_resource_id inbox, mk_contextId = ii_contextId inbox\<rparr>)"

definition inbox_getModuleKeysAndVersionFromServer :: "('k, 's, 'm) inbox_env \<Rightarrow> string \<Rightarrow> ('s, ModuleKeys \<times> int) inbox_op" where
  "inbox_getModuleKeysAndVersionFromServer x moduleId =
     bindS (getServerInbox x moduleId None) (\<lambda>inbox.
     bindS (liftR (assertInboxDataIntegrity (ie_core x) inbox)) (\<lambda>_.
     bindS (liftR (inboxToModuleKeys (ie_core x) inbox)) (\<lambda>keys. ret (keys, ii_version inbox))))"

definition inbox_cache_keys :: "('k, 's, 'm) inbox_env \<Rightarrow> InboxInfo \<Rightarrow> ('s, unit) inbox_op" where
  "inbox_cache_keys x inbox =
     bindS (liftR (inboxToModuleKeys (ie_core x) inbox)) (\<lambda>keys. setNewModuleKeysInCache (ii_id inbox) keys (ii_version inbox))"

subsection \<open>Key ids of entries and files\<close>

definition inbox_MessageKeyIdFormatValidator_assertKeyIdFormat :: "string \<Rightarrow> (exn, unit) result" where
  "inbox_MessageKeyIdFormatValidator_assertKeyIdFormat keyId =
     (if \<not> KeyIdFormatValidator_hasExtendedKeyIdFormat keyId ''inbox'' 1 then Inl (InboxExn inbox_IncorrectKeyIdFormatException) else Inr ())"

definition inbox_FileKeyIdFormatValidator_assertKeyIdFormat :: "string \<Rightarrow> (exn, unit) result" where
  "inbox_FileKeyIdFormatValidator_assertKeyIdFormat keyId =
     (if \<not> KeyIdFormatValidator_hasExtendedKeyIdFormat keyId ''inboxmsg'' 3 then Inl (InboxExn inbox_IncorrectKeyIdFormatException) else Inr ())"

definition readInboxIdFromMessageKeyId :: "string \<Rightarrow> (exn, string) result" where
  "readInboxIdFromMessageKeyId keyId =
     bindR (inbox_MessageKeyIdFormatValidator_assertKeyIdFormat keyId) (\<lambda>_.
     Inr (Utils_split (take (length keyId - 2) (drop 1 keyId)) ''-'' ! 1))"

definition readMessageIdFromFileKeyId :: "string \<Rightarrow> (exn, string) result" where
  "readMessageIdFromFileKeyId keyId =
     bindR (inbox_FileKeyIdFormatValidator_assertKeyIdFormat keyId) (\<lambda>_.
     Inr (Utils_split (take (length keyId - 2) (drop 1 keyId)) ''-'' ! 3))"

subsection \<open>Reading entries\<close>

definition unpackInboxOrigMessage :: "'k core_env \<Rightarrow> string \<Rightarrow> (exn, InboxMessageServer) result" where
  "unpackInboxOrigMessage env serialized =
     (case bindR (base64_to (en_poco env) serialized) (\<lambda>json.
        bindR (parseJsonObject (en_poco env) json) (InboxMessageServer_fromJSON (en_poco env))) of
        Inr m \<Rightarrow> Inr m
      | Inl _ \<Rightarrow> Inl (InboxExn FailedToExtractMessagePublicMetaException))"

definition orig_message :: "'k connection \<Rightarrow> ServerMessage \<Rightarrow> (exn, InboxMessageServer) result" where
  "orig_message c message = bindR (json_to_string c (sm_data message)) (unpackInboxOrigMessage (cn_env c))"

definition used_key_id :: "'k core_env \<Rightarrow> InboxMessageServer \<Rightarrow> string" where
  "used_key_id env m = iep_usedInboxKeyId (fst (InboxEntriesDataEncryptorSerializer_unpackMessagePublicOnly env (ims_message m)))"

definition inbox_getEntryDecryptionKeys :: "('k, 's, 'm) inbox_env \<Rightarrow> ServerMessage \<Rightarrow> ('s, ModuleKeys) inbox_op" where
  "inbox_getEntryDecryptionKeys x message =
     bindS (liftR (readInboxIdFromMessageKeyId (sm_keyId message))) (\<lambda>inboxId.
     bindS (liftR (orig_message (ie_conn x) message)) (\<lambda>inboxMessageServer.
     getModuleKeys (inbox_getModuleKeysAndVersionFromServer x) inboxId (Some [used_key_id (ie_core x) inboxMessageServer]) (Some 4)))"

text \<open>The status of what was unpacked is replaced by that of the key.\<close>

definition read_inbox_entry :: "'k connection \<Rightarrow> ServerMessage \<Rightarrow> ModuleKeys \<Rightarrow> (exn, InboxEntryResult) result" where
  "read_inbox_entry c message inboxKeys =
     (let env = cn_env c; location = \<lparr>el_contextId = mk_contextId inboxKeys, el_resourceId = mk_moduleResourceId inboxKeys\<rparr> in
      bindR (orig_message c message) (\<lambda>inboxMessageServer.
      let keyId = used_key_id env inboxMessageServer in
      bindR (bindR (keys_at c (KeyRequest_addOne (mk_keys inboxKeys) keyId location) location) (\<lambda>keys. unordered_map_at keys keyId)) (\<lambda>encKey.
      bindR (ecc_fromPrivateKey (en_ecc env) (ek_key encKey)) (\<lambda>privKeyECC.
      let decrypted = InboxEntriesDataEncryptorSerializer_unpackMessage env (ims_message inboxMessageServer) privKeyECC in
      Inr \<lparr>ied_publicData = ied_publicData decrypted, ied_privateData = ied_privateData decrypted, ied_statusCode = k2_statusCode encKey,
           ier_storeId = ims_store inboxMessageServer, ier_filesIds = ims_files inboxMessageServer\<rparr>))))"

definition getEmptyResultWithStatusCode :: "int \<Rightarrow> InboxEntryResult" where
  "getEmptyResultWithStatusCode statusCode =
     \<lparr>ied_publicData = empty_entry_public, ied_privateData = empty_entry_private, ied_statusCode = statusCode, ier_storeId = [], ier_filesIds = []\<rparr>"

definition decryptInboxEntry :: "'k connection \<Rightarrow> ServerMessage \<Rightarrow> ModuleKeys \<Rightarrow> InboxEntryResult" where
  "decryptInboxEntry c message inboxKeys =
     (case read_inbox_entry c message inboxKeys of Inr r \<Rightarrow> r | Inl e \<Rightarrow> getEmptyResultWithStatusCode (status_of e))"

text \<open>The key of the files of an entry, with a status that says nothing against it.\<close>

definition files_meta_key :: "InboxEntryResult \<Rightarrow> DecryptedEncKeyV2" where
  "files_meta_key r = DecryptedEncKeyV2_new\<lparr>ek_key := ier_filesMetaKey (ied_privateData r)\<rparr>"

text \<open>The files up to the first that throws.\<close>

fun convert_entry_files :: "'k store_api \<Rightarrow> DecryptedEncKeyV2 \<Rightarrow> FileListElement list \<Rightarrow> File list \<times> exn option" where
  "convert_entry_files a key [] = ([], None)"
| "convert_entry_files a key (f # fs) =
     (case fle_error f of
        Some _ \<Rightarrow> (case convert_entry_files a key fs of
          (files, e) \<Rightarrow> (File_failed (sa_uninit a) (status_of (InboxExn inbox_FileFetchFailedException)) # files, e))
      | None \<Rightarrow>
          (case decryptAndConvertFileDataToFileInfo a (ServerFile.truncate f) key of
             Inl e \<Rightarrow> ([], Some e)
           | Inr (r, _) \<Rightarrow> (case convert_entry_files a key fs of (files, e) \<Rightarrow> (r # files, e))))"

definition entry_files :: "('k, 's, 'm) inbox_env \<Rightarrow> InboxEntryResult \<Rightarrow> 's \<Rightarrow> File list \<times> int" where
  "entry_files x r s =
     (if ied_statusCode r \<noteq> 0 then ([], ied_statusCode r)
      else case ib_storeFileGetMany (ie_bridge x)
          \<lparr>fgm_storeId = ier_storeId r, fgm_fileIds = ier_filesIds r, fgm_failOnError = False\<rparr> s of
        Inl e \<Rightarrow> ([], status_of e)
      | Inr serverFiles \<Rightarrow>
          (case convert_entry_files (ie_stores x) (files_meta_key r) serverFiles of
             (files, None) \<Rightarrow> (files, 0) | (files, Some e) \<Rightarrow> (files, status_of e)))"

definition convertInboxEntry :: "('k, 's, 'm) inbox_env \<Rightarrow> ServerMessage \<Rightarrow> InboxEntryResult \<Rightarrow> ('s, InboxEntry) inbox_op" where
  "convertInboxEntry x message inboxEntry =
     bindS (liftR (readInboxIdFromMessageKeyId (sm_keyId message))) (\<lambda>inboxId.
     bindS (ask_bridge (\<lambda>s. Inr (entry_files x inboxEntry s))) (\<lambda>(files, statusCode).
     ret \<lparr>lie_entryId = sm_id message, lie_inboxId = inboxId, lie_data = ier_text (ied_privateData inboxEntry), lie_files = files,
       lie_authorPubKey = iep_userPubKey (ied_publicData inboxEntry), lie_createDate = sm_createDate message,
       lie_statusCode = statusCode, lie_schemaVersion = 1\<rparr>))"

definition decryptAndConvertInboxEntryDataToInboxEntry ::
    "('k, 's, 'm) inbox_env \<Rightarrow> ServerMessage \<Rightarrow> ModuleKeys \<Rightarrow> ('s, InboxEntry) inbox_op" where
  "decryptAndConvertInboxEntryDataToInboxEntry x message inboxKeys =
     convertInboxEntry x message (decryptInboxEntry (ie_conn x) message inboxKeys)"

definition read_message_as_entry :: "('k, 's, 'm) inbox_env \<Rightarrow> ServerMessage \<Rightarrow> ('s, InboxEntry) inbox_op" where
  "read_message_as_entry x message =
     bindS (inbox_getEntryDecryptionKeys x message) (decryptAndConvertInboxEntryDataToInboxEntry x message)"

definition getServerMessage :: "('k, 's, 'm) inbox_env \<Rightarrow> string \<Rightarrow> ('s, ServerMessage) inbox_op" where
  "getServerMessage x messageId = on_bridge (st_threadMessageGet (ie_thread_bridge x) messageId)"

definition readEntry :: "('k, 's, 'm) inbox_env \<Rightarrow> string \<Rightarrow> ('s, InboxEntry) inbox_op" where
  "readEntry x inboxEntryId = bindS (getServerMessage x inboxEntryId) (read_message_as_entry x)"

definition inbox_listEntries :: "('k, 's, 'm) inbox_env \<Rightarrow> string \<Rightarrow> PagingQuery \<Rightarrow> ('s, InboxEntry PagingList) inbox_op" where
  "inbox_listEntries x inboxId query =
     (if pq_queryAsJson query \<noteq> None then throw (InboxExn InboxModuleDoesNotSupportQueriesYetException)
      else
        bindS (getServerInbox x inboxId None) (\<lambda>inboxRaw.
        bindS (inbox_cache_keys x inboxRaw) (\<lambda>_.
        bindS (liftR (ListQueryMapper_map (en_poco (ie_core x)) query)) (\<lambda>model.
        bindS (on_bridge (st_threadMessagesGet (ie_thread_bridge x)
          (ListModel.extend model (ThreadMessagesGetModel.fields (ibd_threadId (ibe_data (last (ii_data inboxRaw)))))))) (\<lambda>(thread, messages, count).
        bindS (mapS (read_message_as_entry x) messages) (\<lambda>items.
        ret \<lparr>pl_totalAvailable = count, pl_readItems = items\<rparr>))))))"

text \<open>
  Files and messages are deleted through the public interfaces, which check the ids; the exceptions of these
  pass through \<open>rethrowAsCoreException\<close> with their codes.
\<close>

definition deleteMessageAndFiles :: "('k, 's, 'm) inbox_env \<Rightarrow> ServerMessage \<Rightarrow> ('s, unit) inbox_op" where
  "deleteMessageAndFiles x message =
     bindS (liftR (orig_message (ie_conn x) message)) (\<lambda>publicMeta.
     bindS (for_each (\<lambda>fileId. bindS (liftR (Validator_validateId fileId)) (\<lambda>_. in_store (deleteFile (ie_store_bridge x) fileId)))
       (ims_files publicMeta)) (\<lambda>_.
     bindS (liftR (Validator_validateId (sm_id message))) (\<lambda>_.
     in_thread (deleteMessage (ie_thread_bridge x) (sm_id message)))))"

definition inbox_deleteEntry :: "('k, 's, 'm) inbox_env \<Rightarrow> string \<Rightarrow> ('s, unit) inbox_op" where
  "inbox_deleteEntry x inboxEntryId =
     bindS (getServerMessage x inboxEntryId) (\<lambda>messageRaw.
     bindS (liftR (inbox_MessageKeyIdFormatValidator_assertKeyIdFormat (sm_keyId messageRaw))) (\<lambda>_.
     deleteMessageAndFiles x messageRaw))"

subsection \<open>What anybody sees of an inbox\<close>

definition public_view :: "InboxGetPublicViewResult \<Rightarrow> InboxPublicData \<Rightarrow> InboxPublicViewData" where
  "public_view publicView publicData =
     \<lparr>ivd_statusCode = ibp_statusCode publicData, ivd_dataStructureVersion = ibp_dataStructureVersion publicData,
      ivd_authorPubKey = ibp_authorPubKey publicData, ivd_publicMeta = ibp_publicMeta publicData,
      ivd_inboxEntriesPubKeyBase58DER = ibp_inboxEntriesPubKeyBase58DER publicData,
      ivd_inboxEntriesKeyId = ibp_inboxEntriesKeyId publicData, ivd_inboxId = ipv_inboxId publicView, ivd_resourceId = [],
      ivd_version = ipv_version publicView\<rparr>"

text \<open>Of a view of another format only the status is set; the numbers are not initialised.\<close>

definition unknown_view :: "int \<Rightarrow> InboxPublicViewData" where
  "unknown_view uninit =
     \<lparr>ivd_statusCode = status_of (InboxExn UnknownInboxFormatException), ivd_dataStructureVersion = uninit, ivd_authorPubKey = [],
      ivd_publicMeta = [], ivd_inboxEntriesPubKeyBase58DER = [], ivd_inboxEntriesKeyId = [], ivd_inboxId = [], ivd_resourceId = [],
      ivd_version = uninit\<rparr>"

definition getInboxPublicViewData :: "('k, 's, 'm) inbox_env \<Rightarrow> string \<Rightarrow> ('s, InboxPublicViewData) inbox_op" where
  "getInboxPublicViewData x inboxId =
     bindS (ask_bridge (ib_inboxGetPublicView (ie_bridge x) \<lparr>ibg_id = inboxId, ibg_type = None\<rparr>)) (\<lambda>publicView.
     case ipv_publicData publicView of
       JObject ob \<Rightarrow>
         bindS (liftR (VersionedData_fromJSON (en_poco (ie_core x)) ob)) (\<lambda>version.
         if version = 4 then
           ret (public_view publicView (InboxDataProcessorV4_unpackPublic (ie_core x) (ie_convert x) (ipv_publicData publicView)))
         else if version = 5 then ret (public_view publicView (InboxDataProcessorV5_unpackPublic (ie_core x) (ipv_publicData publicView)))
         else ret (unknown_view (sa_uninit (ie_stores x))))
     | _ \<Rightarrow> ret (unknown_view (sa_uninit (ie_stores x))))"

definition getInboxPublicView :: "('k, 's, 'm) inbox_env \<Rightarrow> string \<Rightarrow> ('s, InboxPublicView) inbox_op" where
  "getInboxPublicView x inboxId =
     bindS (getInboxPublicViewData x inboxId) (\<lambda>v.
     ret \<lparr>ipw_inboxId = ivd_inboxId v, ipw_version = ivd_version v, ipw_publicMeta = ivd_publicMeta v\<rparr>)"

subsection \<open>Operations on inboxes\<close>

definition getFilesConfigOptOrDefault :: "FilesConfig option \<Rightarrow> FilesConfig" where
  "getFilesConfigOptOrDefault fileConfig =
     (case fileConfig of Some f \<Rightarrow> f
      | None \<Rightarrow> \<lparr>fcf_minCount = 0, fcf_maxCount = 10, fcf_maxFileSize = 104857600, fcf_maxWholeUploadSize = 1048576000\<rparr>)"

definition policies_with_items :: "ContainerPolicyWithoutItem option \<Rightarrow> ContainerPolicy option" where
  "policies_with_items = map_option (\<lambda>p. ContainerPolicyWithoutItem.extend p (ContainerPolicy.fields None))"

text \<open>The overload of \<open>createPolicyServerObject\<close> for policies without a part for items.\<close>

definition Factory_createPolicyServerObject_without_item :: "ContainerPolicyWithoutItem \<Rightarrow> json" where
  "Factory_createPolicyServerObject_without_item p = JObject (policy_without_item p)"

definition inbox_data_in ::
    "string \<Rightarrow> string \<Rightarrow> FilesConfig option \<Rightarrow> bytes \<Rightarrow> InboxInternalMetaV5 \<Rightarrow> DataIntegrityObject \<Rightarrow> bytes \<Rightarrow> string \<Rightarrow> string \<Rightarrow>
     InboxDataProcessorModelV5" where
  "inbox_data_in storeId threadId fileConfig privateMeta internalMeta dio publicMeta pubKey keyId =
     \<lparr>ibm_storeId = storeId, ibm_threadId = threadId, ibm_filesConfig = getFilesConfigOptOrDefault fileConfig, ibm_privateMeta = privateMeta,
      ibm_internalMeta = internalMeta, ibm_dio = dio, ibm_publicData = \<lparr>ibk_publicMeta = publicMeta,
        ibk_inboxEntriesPubKeyBase58DER = pubKey, ibk_inboxEntriesKeyId = keyId\<rparr>\<rparr>"

definition createInbox ::
    "('k, 's, 'm) inbox_env \<Rightarrow> string \<Rightarrow> UserWithPubKey list \<Rightarrow> UserWithPubKey list \<Rightarrow> bytes \<Rightarrow> bytes \<Rightarrow> FilesConfig option \<Rightarrow>
     ContainerPolicyWithoutItem option \<Rightarrow> ('s, string) inbox_op" where
  "createInbox x contextId users managers publicMeta privateMeta fileConfig policies =
     (let c = ie_conn x; env = cn_env c; policiesWithItems = policies_with_items policies in
      bindS (drawn (KeyProvider_generateKey env (cn_hex c))) (\<lambda>inboxKey.
      bindS (liftR (ecc_fromPrivateKey (en_ecc env) (ek_key inboxKey))) (\<lambda>privateKey.
      bindS (drawn (InboxDataHelper_getRandomName env)) (\<lambda>randName.
      bindS (in_store (createStoreEx c (ie_store_bridge x) contextId users managers [] (bytes_of randName) INBOX_TYPE_FILTER_FLAG
        policiesWithItems)) (\<lambda>storeId.
      bindS (in_thread (createThreadEx c (ie_thread_bridge x) contextId users managers [] (bytes_of randName) INBOX_TYPE_FILTER_FLAG
        policiesWithItems)) (\<lambda>threadId.
      bindS (drawn (EndpointUtils_generateId c)) (\<lambda>resourceId.
      bindS (drawing (ConnectionImpl_createDIO c contextId resourceId None None)) (\<lambda>inboxDIO.
      bindS (drawn (KeyProvider_generateSecret env (cn_hex c))) (\<lambda>inboxSecret.
      bindS (drawing (InboxDataProcessorV5_packForServer env
        (inbox_data_in storeId threadId fileConfig privateMeta
          \<lparr>iim_secret = text_of inboxSecret, iim_resourceId = resourceId, iim_randomId = dio_randomId inboxDIO\<rparr> inboxDIO publicMeta
          (PublicKey_toBase58DER (en_crypto env) (en_ecc env) privateKey) (ek_id inboxKey))
        (cn_userPrivKey c) (ek_key inboxKey))) (\<lambda>data.
      bindS (drawing (KeyProvider_prepareKeysList env (cn_hex c) (cn_userPrivKey c) (EndpointUtils_uniqueListUserWithPubKey users managers)
        inboxKey inboxDIO \<lparr>el_contextId = contextId, el_resourceId = resourceId\<rparr> inboxSecret)) (\<lambda>keys.
      on_bridge (ib_inboxCreate (ie_bridge x)
        \<lparr>ibc_resourceId = resourceId, ibc_contextId = contextId, ibc_users = InboxDataHelper_mapUsers users,
         ibc_managers = InboxDataHelper_mapUsers managers, ibc_data = data, ibc_keyId = ek_id inboxKey, ibc_keys = keys,
         ibc_policy = map_option Factory_createPolicyServerObject policiesWithItems\<rparr>))))))))))))"

text \<open>The store and the thread of the inbox follow, with their own meta data.\<close>

definition update_inbox_containers ::
    "('k, 's, 'm) inbox_env \<Rightarrow> InboxData \<Rightarrow> UserWithPubKey list \<Rightarrow> UserWithPubKey list \<Rightarrow> bool \<Rightarrow> bool \<Rightarrow> ContainerPolicy option \<Rightarrow>
     ('s, unit) inbox_op" where
  "update_inbox_containers x currentInboxData users managers force forceGenerateNewKey policies =
     (let c = ie_conn x; sv = ie_store_bridge x; tv = ie_thread_bridge x;
          storeId = ibd_storeId currentInboxData; threadId = ibd_threadId currentInboxData in
      bindS (in_store (getStoreEx c sv storeId INBOX_TYPE_FILTER_FLAG)) (\<lambda>store.
      bindS (in_store (updateStore c sv storeId users managers (lst_publicMeta store) (lst_privateMeta store) (lst_version store) force
        forceGenerateNewKey policies)) (\<lambda>_.
      bindS (in_thread (getThreadEx c tv threadId INBOX_TYPE_FILTER_FLAG)) (\<lambda>thread.
      in_thread (updateThread c tv threadId users managers (th_publicMeta thread) (th_privateMeta thread) (th_version thread) force
        forceGenerateNewKey policies)))))"

definition updateInbox ::
    "('k, 's, 'm) inbox_env \<Rightarrow> string \<Rightarrow> UserWithPubKey list \<Rightarrow> UserWithPubKey list \<Rightarrow> bytes \<Rightarrow> bytes \<Rightarrow> FilesConfig option \<Rightarrow>
     int \<Rightarrow> bool \<Rightarrow> bool \<Rightarrow> ContainerPolicyWithoutItem option \<Rightarrow> ('s, unit) inbox_op" where
  "updateInbox x inboxId users managers publicMeta privateMeta fileConfig version force forceGenerateNewKey policies =
     (let c = ie_conn x; env = cn_env c in
      bindS (getServerInbox x inboxId None) (\<lambda>currentInbox.
      let currentInboxEntry = last (ii_data currentInbox); currentInboxData = ibe_data currentInboxEntry in
      bindS (case ii_resourceId currentInbox of Some r \<Rightarrow> ret r | None \<Rightarrow> drawn (EndpointUtils_generateId c)) (\<lambda>resourceId.
      let location = \<lparr>el_contextId = ii_contextId currentInbox, el_resourceId = resourceId\<rparr> in
      bindS (liftR (getAndValidateModuleKeys c (ii_contextId currentInbox) (ii_keys currentInbox) resourceId)) (\<lambda>inboxKeys.
      bindS (liftR (findEncKeyByKeyId inboxKeys (ibe_keyId currentInboxEntry))) (\<lambda>currentInboxKey.
      bindS (liftR (decryptInboxInternalMeta x currentInboxEntry currentInboxKey)) (\<lambda>inboxInternalMeta.
      let resolver = UsersKeysResolver_create (ii_users currentInbox) (ii_managers currentInbox) users managers
            forceGenerateNewKey currentInboxKey;
          secret = bytes_of (iim_secret inboxInternalMeta) in
      if \<not> KeyProvider_verifyKeysSecret env inboxKeys location secret then throw (InboxExn InboxEncryptionKeyValidationException)
      else
        bindS (drawing (ConnectionImpl_createDIO c (ii_contextId currentInbox) resourceId None None)) (\<lambda>updateInboxDio.
        bindS (drawing (update_keys c resolver inboxKeys currentInboxKey updateInboxDio location secret)) (\<lambda>(inboxKey, keys).
        bindS (liftR (ecc_fromPrivateKey (en_ecc env) (ek_key inboxKey))) (\<lambda>privateKey.
        bindS (drawing (InboxDataProcessorV5_packForServer env
          (inbox_data_in (ibd_storeId currentInboxData) (ibd_threadId currentInboxData) fileConfig privateMeta
            \<lparr>iim_secret = iim_secret inboxInternalMeta, iim_resourceId = resourceId, iim_randomId = dio_randomId updateInboxDio\<rparr>
            updateInboxDio publicMeta (PublicKey_toBase58DER (en_crypto env) (en_ecc env) privateKey) (ek_id inboxKey))
          (cn_userPrivKey c) (ek_key inboxKey))) (\<lambda>data.
        bindS (on_bridge (ib_inboxUpdate (ie_bridge x)
          \<lparr>ibu_id = inboxId, ibu_resourceId = resourceId, ibu_users = InboxDataHelper_mapUsers users,
           ibu_managers = InboxDataHelper_mapUsers managers, ibu_data = data, ibu_keyId = ek_id inboxKey, ibu_keys = keys,
           ibu_version = version, ibu_force = force, ibu_policy = map_option Factory_createPolicyServerObject_without_item policies\<rparr>)) (\<lambda>_.
        bindS (invalidateModuleKeysInCache (Some inboxId)) (\<lambda>_.
        update_inbox_containers x currentInboxData users managers force forceGenerateNewKey (policies_with_items policies)))))))))))))"

definition getInboxEx :: "('k, 's, 'm) inbox_env \<Rightarrow> string \<Rightarrow> string \<Rightarrow> ('s, Inbox) inbox_op" where
  "getInboxEx x inboxId type =
     bindS (getServerInbox x inboxId (Some type)) (\<lambda>inbox.
     bindS (inbox_cache_keys x inbox) (\<lambda>_.
     liftR (validateDecryptAndConvertInboxDataToInbox x inbox)))"

definition getInbox :: "('k, 's, 'm) inbox_env \<Rightarrow> string \<Rightarrow> ('s, Inbox) inbox_op" where
  "getInbox x inboxId = getInboxEx x inboxId []"

definition listInboxes :: "('k, 's, 'm) inbox_env \<Rightarrow> string \<Rightarrow> PagingQuery \<Rightarrow> ('s, Inbox PagingList) inbox_op" where
  "listInboxes x contextId query =
     (if pq_queryAsJson query \<noteq> None then throw (InboxExn InboxModuleDoesNotSupportQueriesYetException)
      else
        bindS (liftR (ListQueryMapper_map (en_poco (ie_core x)) query)) (\<lambda>model.
        bindS (ask_bridge (ib_inboxList (ie_bridge x) (ListModel.extend model (InboxListModel.fields contextId None)))) (\<lambda>(inboxes, count).
        bindS (mapS (inbox_cache_keys x) inboxes) (\<lambda>_.
        bindS (liftR (validateDecryptAndConvertInboxesDataToInboxes x inboxes)) (\<lambda>items.
        ret \<lparr>pl_totalAvailable = count, pl_readItems = items\<rparr>)))))"

definition deleteInbox :: "('k, 's, 'm) inbox_env \<Rightarrow> string \<Rightarrow> ('s, unit) inbox_op" where
  "deleteInbox x inboxId =
     bindS (getServerInbox x inboxId None) (\<lambda>inbox.
     let inboxDataRaw = ibe_data (last (ii_data inbox)) in
     bindS (on_bridge (ib_inboxDelete (ie_bridge x) inboxId)) (\<lambda>_.
     bindS (invalidateModuleKeysInCache (Some inboxId)) (\<lambda>_.
     bindS (in_store (deleteStore (ie_store_bridge x) (ibd_storeId inboxDataRaw))) (\<lambda>_.
     in_thread (deleteThread (ie_thread_bridge x) (ibd_threadId inboxDataRaw))))))"

end
