(* ===== verification/Inbox_Entries.thy ===== *)
theory Inbox_Entries
  imports Inbox_InboxApi
begin

text \<open>
  Sending entries with their files, reading the files of entries, and the notifications of the inboxes
  (\<open>endpoint/inbox/src/InboxApiImpl.cpp\<close>).
\<close>

subsection \<open>Preparing and sending an entry\<close>

text \<open>
  One request for all files of an entry; every file gets a key of its own and its place in the request. The
  definitions of the files are not initialised, and only their sizes are set.
\<close>

definition file_definition :: "('k, 's, 'm) inbox_env \<Rightarrow> int \<Rightarrow> ('s, FileDefinition) inbox_op" where
  "file_definition x i =
     bindS (InboxHandleManager_getFileWriteHandle i) (\<lambda>h.
     let info = FileWriteHandle_getEncryptedFileSize h
     in ret \<lparr>fd_size = s64 (int (fs_size info)), fd_checksumSize = s64 (int (fs_checksumSize info)), fd_randomWrite = (sa_uninit (ie_stores x) \<noteq> 0)\<rparr>)"

definition set_request_data :: "crypto_api \<Rightarrow> string \<Rightarrow> nat \<times> int \<Rightarrow> ('s, unit) inbox_op" where
  "set_request_data c requestId = (\<lambda>(k, i).
     bindS (drawn (\<lambda>d. (randomBytes c d 32, d + 1))) (\<lambda>key.
     on_write_pointer i (\<lambda>h. (Inr (), FileWriteHandle_setRequestData requestId key (int k) h))))"

definition request_files :: "('k, 's, 'm) inbox_env \<Rightarrow> int list \<Rightarrow> ('s, unit) inbox_op" where
  "request_files x inboxFileHandles =
     (if inboxFileHandles = [] then ret ()
      else
        bindS (mapS (file_definition x) inboxFileHandles) (\<lambda>filesList.
        bindS (on_bridge (rq_createRequest (ie_requests x) filesList)) (\<lambda>requestId.
        for_each (set_request_data (en_crypto (ie_core x)) requestId) (zip [0..<length inboxFileHandles] inboxFileHandles))))"

text \<open>\<open>None\<close>: no number is found for the handle.\<close>

definition prepareEntry ::
    "('k, 's, 'm) inbox_env \<Rightarrow> string \<Rightarrow> bytes \<Rightarrow> int list \<Rightarrow> string option \<Rightarrow> 's inbox_state \<Rightarrow> ((exn, int) result \<times> 's inbox_state) option" where
  "prepareEntry x inboxId data inboxFileHandles userPrivKey st =
     (case bindS (getInboxPublicViewData x inboxId) (\<lambda>v. bindS (request_files x inboxFileHandles) (\<lambda>_. ret v)) st of
        (Inl e, st) \<Rightarrow> Some (Inl e, st)
      | (Inr inboxPublicData, st) \<Rightarrow>
          map_option (\<lambda>(r, st). (bindR r (\<lambda>h. Inr (ih_id h)), st))
            (InboxHandleManager_createInboxHandle inboxId (ivd_resourceId inboxPublicData) data inboxFileHandles userPrivKey st))"

definition prepareMeta :: "'k core_env \<Rightarrow> CommitFileInfo \<Rightarrow> FileMetaToEncryptV4" where
  "prepareMeta env commitFileInfo =
     (let sent = ci_fileSendResult commitFileInfo in
      \<lparr>ft4_publicMeta = ci_publicMeta commitFileInfo, ft4_privateMeta = ci_privateMeta commitFileInfo, ft4_fileSize = ci_size commitFileInfo,
       ft4_internalMeta = internal_meta_text env \<lparr>im_version = 5, im_size = ci_size commitFileInfo, im_cipherType = si_cipherType sent,
         im_chunkSize = s64 (int (si_chunkSize sent)), im_key = base64_from (en_poco env) (si_key sent),
         im_hmac = base64_from (en_poco env) (si_hmac sent), im_randomWrite = None\<rparr>\<rparr>)"

text \<open>An integrity object of nobody, of which only the identifier is used.\<close>

definition entry_resource_id :: "'k connection \<Rightarrow> 'k \<Rightarrow> InboxHandle \<Rightarrow> ('s, string) inbox_op" where
  "entry_resource_id c userPrivKey h =
     bindS (drawn (EndpointUtils_generateId c)) (\<lambda>resourceId.
     bindS (drawing (ConnectionImpl_createPublicDIO c [] resourceId userPrivKey (Some (ih_inboxId h)) (Some (ih_inboxResourceId h)))) (\<lambda>dio.
     ret (dio_resourceId dio)))"

definition entry_file :: "'k connection \<Rightarrow> 'k \<Rightarrow> InboxHandle \<Rightarrow> bytes \<Rightarrow> nat \<times> CommitFileInfo \<Rightarrow> ('s, InboxFile) inbox_op" where
  "entry_file c userPrivKey h filesMetaKey = (\<lambda>(fileIndex, info).
     bindS (entry_resource_id c userPrivKey h) (\<lambda>resourceId.
     bindS (drawing (FileMetaEncryptorV4_encrypt (cn_env c) (prepareMeta (cn_env c) info) userPrivKey filesMetaKey)) (\<lambda>meta.
     ret \<lparr>ibf_fileIndex = int fileIndex, ibf_thumbIndex = None, ibf_meta = EncryptedFileMetaV4_toJSON meta, ibf_resourceId = resourceId\<rparr>)))"

definition commit_entry_files :: "('k, 's, 'm) inbox_env \<Rightarrow> int \<Rightarrow> ('s, CommitFileInfo list) inbox_op" where
  "commit_entry_files x inboxHandle st =
     (case InboxHandleManager_commitInboxHandle (en_crypto (ie_core x)) (ie_requests x) inboxHandle st of
        (Inl (ConnectionExn DataDifferentThanDeclaredException), st) \<Rightarrow>
          bindS (InboxHandleManager_abortInboxHandle inboxHandle)
            (\<lambda>_. throw (InboxExn WritingToEntryInteruptedWrittenDataSmallerThenDeclaredException)) st
      | r \<Rightarrow> r)"

definition sendEntry :: "('k, 's, 'm) inbox_env \<Rightarrow> int \<Rightarrow> ('s, unit) inbox_op" where
  "sendEntry x inboxHandle =
     (let c = ie_conn x; env = cn_env c; crypto = en_crypto env; ecc = en_ecc env in
      bindS (InboxHandleManager_getInboxHandle inboxHandle) (\<lambda>h.
      bindS (getInboxPublicViewData x (ih_inboxId h)) (\<lambda>publicData.
      bindS (liftR (PublicKey_fromBase58DER crypto ecc (ivd_inboxEntriesPubKeyBase58DER publicData))) (\<lambda>inboxPubKey.
      bindS (case ih_userPrivKey h of Some wif \<Rightarrow> liftR (PrivateKey_fromWIF crypto ecc wif) | None \<Rightarrow> ret (cn_userPrivKey c)) (\<lambda>userPrivKey.
      let hasFiles = ih_inboxFileHandles h \<noteq> [] in
      bindS (if hasFiles then drawn (\<lambda>d. (randomBytes crypto d 32, d + 1)) else ret []) (\<lambda>filesMetaKey.
      bindS (if hasFiles
          then bindS (commit_entry_files x inboxHandle) (\<lambda>infos.
            bindS (mapS (entry_file c userPrivKey h filesMetaKey) (zip [0..<length infos] infos)) (\<lambda>files.
            ret (files, Some (si_requestId (ci_fileSendResult (hd infos))))))
          else ret ([], None)) (\<lambda>(inboxFiles, requestId).
      bindS (entry_resource_id c userPrivKey h) (\<lambda>resourceId.
      let model = \<lparr>iem_publicData = \<lparr>iep_userPubKey = PublicKey_toBase58DER crypto ecc userPrivKey,
              iep_keyPreset = (ih_userPrivKey h \<noteq> None), iep_usedInboxKeyId = ivd_inboxEntriesKeyId publicData\<rparr>,
            iem_privateData = \<lparr>ier_filesMetaKey = filesMetaKey, ier_text = ih_data h\<rparr>\<rparr> in
      on_bridge (ib_inboxSend (ie_bridge x)
        \<lparr>ibs_inboxId = ih_inboxId h, ibs_resourceId = resourceId,
         ibs_message = InboxEntriesDataEncryptorSerializer_packMessage env model userPrivKey inboxPubKey,
         ibs_requestId = requestId, ibs_files = inboxFiles, ibs_version = 1\<rparr>)))))))))"

subsection \<open>Files of entries\<close>

definition inbox_createFileHandle :: "('k, 's, 'm) inbox_env \<Rightarrow> bytes \<Rightarrow> bytes \<Rightarrow> int \<Rightarrow> 's inbox_state \<Rightarrow> ((exn, int) result \<times> 's inbox_state) option" where
  "inbox_createFileHandle x publicMeta privateMeta fileSize =
     InboxHandleManager_createFileWriteHandle [] [] (u64_of_int fileSize) publicMeta privateMeta InboxApiImpl_CHUNK_SIZE
       (ie_serverRequestChunkSize x)"

text \<open>The internal data and the key come from the entry the file belongs to.\<close>

definition inbox_file_params :: "('k, 's, 'm) inbox_env \<Rightarrow> ServerFile \<Rightarrow> ('s, FileDecryptionParams) inbox_op" where
  "inbox_file_params x file =
     bindS (liftR (readMessageIdFromFileKeyId (fl_keyId file))) (\<lambda>messageId.
     bindS (getServerMessage x messageId) (\<lambda>messageRaw.
     bindS (inbox_getEntryDecryptionKeys x messageRaw) (\<lambda>inboxKeys.
     liftR (bindR (decryptFileInternalMeta (ie_stores x) file (files_meta_key (decryptInboxEntry (ie_conn x) messageRaw inboxKeys)))
       (getFileDecryptionParams (ie_core x) file)))))"

definition inbox_openFile :: "('k, 's, 'm) inbox_env \<Rightarrow> string \<Rightarrow> 's inbox_state \<Rightarrow> ((exn, int) result \<times> 's inbox_state) option" where
  "inbox_openFile x fileId st =
     (case bindS (ask_bridge (sb_storeFileGet (ie_store_bridge x) fileId)) (\<lambda>(store, file). inbox_file_params x file) st of
        (Inl e, st) \<Rightarrow> Some (Inl e, st)
      | (Inr params, st) \<Rightarrow>
          InboxHandleManager_createFileReadHandle (en_crypto (ie_core x)) (ie_file_server x) params (ie_serverRequestChunkSize x) st)"

text \<open>The file handle need not be one of the inbox handle's.\<close>

definition inbox_writeToFile :: "('k, 's, 'm) inbox_env \<Rightarrow> int \<Rightarrow> int \<Rightarrow> bytes \<Rightarrow> ('s, unit) inbox_op" where
  "inbox_writeToFile x inboxHandle inboxFileHandle dataChunk =
     bindS (InboxHandleManager_getInboxHandle inboxHandle) (\<lambda>h.
     if ih_inboxFileHandles h = [] then throw (InboxExn InboxHandleIsNotTiedToInboxFileHandleException)
     else
       bindS (InboxHandleManager_getFileWriteHandle inboxFileHandle) (\<lambda>_.
       on_write_pointer inboxFileHandle (FileWriteHandle_write (en_crypto (ie_core x)) (ie_requests x) dataChunk)))"

definition inbox_closeFile :: "int \<Rightarrow> ('s, string) inbox_op" where
  "inbox_closeFile i =
     bindS (InboxHandleManager_isFileReadHandle i) (\<lambda>reads.
     if \<not> reads then throw (InboxExn inbox_InvalidFileReadHandleException)
     else
       bindS (InboxHandleManager_getFileReadHandle i) (\<lambda>h.
       bindS (InboxHandleManager_removeFileHandle i False) (\<lambda>_. ret (hd_fileId (frh_handle h)))))"

definition inbox_readFromFile :: "('k, 's, 'm) inbox_env \<Rightarrow> int \<Rightarrow> int \<Rightarrow> ('s, bytes) inbox_op" where
  "inbox_readFromFile x i len =
     bindS (InboxHandleManager_getFileReadHandle i) (\<lambda>h st.
     case on_files (on_read_handle i h (FileReadHandle_read (en_crypto (ie_core x)) (ie_file_server x) (u64_of_int len))) st of
       (Inl (StoreExn FileVersionMismatchException), st) \<Rightarrow>
         bindS (inbox_closeFile i) (\<lambda>_. throw (InboxExn inbox_FileVersionMismatchHandleClosedException)) st
     | r \<Rightarrow> r)"

definition inbox_seekInFile :: "int \<Rightarrow> int \<Rightarrow> ('s, unit) inbox_op" where
  "inbox_seekInFile i pos =
     bindS (InboxHandleManager_getFileReadHandle i) (\<lambda>h. on_files (on_read_handle i h (FileReadHandle_seek (u64_of_int pos))))"

subsection \<open>Notifications\<close>

definition of_inbox :: "string option \<Rightarrow> bool" where
  "of_inbox type \<longleftrightarrow> (case type of None \<Rightarrow> True | Some t \<Rightarrow> t = INBOX_TYPE_FILTER_FLAG)"

definition inbox_entry_channel :: "string \<Rightarrow> string" where
  "inbox_entry_channel inboxId = ''inbox/'' @ inboxId @ ''/entries''"

definition known_inbox_id :: "string \<Rightarrow> 's inbox_state \<Rightarrow> string" where
  "known_inbox_id threadId st = (case map_of (iw_threadIdToInboxId (as_server st)) threadId of Some i \<Rightarrow> i | None \<Rightarrow> [])"

definition on_inbox_info :: "('k, 's, 'm) inbox_env \<Rightarrow> (Inbox \<Rightarrow> inbox_event_data) \<Rightarrow> NotificationEvent \<Rightarrow> ('s, unit) inbox_op" where
  "on_inbox_info x mk notification =
     bindS (liftR (deserialize_struct (InboxInfo_fromJSON (en_poco (ie_core x))) (ne_data notification))) (\<lambda>raw.
     if of_inbox (ii_type raw) then
       bindS (inbox_cache_keys x raw) (\<lambda>_.
       bindS (liftR (validateDecryptAndConvertInboxDataToInbox x raw)) (\<lambda>data.
       emitApiEvent (EventBuilder_buildEvent ''inbox'' (mk data) notification)))
     else ret ())"

definition inbox_notification_task :: "('k, 's, 'm) inbox_env \<Rightarrow> string \<Rightarrow> NotificationEvent \<Rightarrow> ('s, unit) inbox_op" where
  "inbox_notification_task x type notification =
     (let p = en_poco (ie_core x); data = ne_data notification in
      if type = ''inboxCreated'' then on_inbox_info x InboxCreatedEvent notification
      else if type = ''inboxUpdated'' then on_inbox_info x InboxUpdatedEvent notification
      else if type = ''inboxDeleted'' then
        bindS (liftR (deserialize_struct InboxDeletedEventData_fromJSON data)) (\<lambda>raw.
        if of_inbox (idd_type raw) then
          bindS (invalidateModuleKeysInCache (Some (idd_inboxId raw))) (\<lambda>_.
          emitApiEvent (EventBuilder_buildEvent ''inbox'' (InboxDeletedEvent (idd_inboxId raw)) notification))
        else ret ())
      else if type = ''threadNewMessage'' then
        bindS (liftR (deserialize_struct (ThreadMessageEventData_fromJSON p) data)) (\<lambda>(raw, containerType).
        if containerType = Some INBOX_TYPE_FILTER_FLAG then
          bindS (liftR (readInboxIdFromMessageKeyId (sm_keyId raw))) (\<lambda>inboxId.
          bindS (read_message_as_entry x raw) (\<lambda>message.
          emitApiEvent (EventBuilder_buildEvent (inbox_entry_channel inboxId) (InboxEntryCreatedEvent message) notification)))
        else ret ())
      else if type = ''threadDeletedMessage'' then
        bindS (liftR (deserialize_struct ThreadDeletedMessageEventData_fromJSON data)) (\<lambda>(messageId, threadId, containerType) st.
        if containerType = Some INBOX_TYPE_FILTER_FLAG then
          let inboxId = known_inbox_id threadId st
          in emitApiEvent (EventBuilder_buildEvent (inbox_entry_channel inboxId)
               (InboxEntryDeletedEvent (InboxEntryDeletedEventData.make inboxId messageId)) notification) st
        else ret () st)
      else if type = ''threadCollectionChanged'' then
        bindS (liftR (deserialize_struct (CollectionChangedEventData_fromJSON p) data)) (\<lambda>raw st.
        if cce_containerType raw = Some INBOX_TYPE_FILTER_FLAG then
          let changed = mapToCollectionChangedEventData INBOX_TYPE_FILTER_FLAG raw;
              changed = changed\<lparr>cc_moduleId := known_inbox_id (cc_moduleId changed) st\<rparr>
          in emitApiEvent (EventBuilder_buildEvent ''inbox/collectionChanged'' (InboxCollectionChangedEvent changed) notification) st
        else ret () st)
      else ret ())"

text \<open>The task runs on an executor that swallows its exceptions.\<close>

definition inbox_processNotificationEvent :: "('k, 's, 'm) inbox_env \<Rightarrow> string \<Rightarrow> NotificationEvent \<Rightarrow> ('s, unit) inbox_op" where
  "inbox_processNotificationEvent x type notification st =
     (if Subscriber_getSubscriptionQuery (as_subscriptions st) (ne_subscriptions notification) = None then (Inr (), st)
      else (Inr (), snd (inbox_notification_task x type notification st)))"

definition inbox_processConnectedEvent :: "('s, unit) inbox_op" where
  "inbox_processConnectedEvent = invalidateModuleKeysInCache None"

definition inbox_processDisconnectedEvent :: "('s, unit) inbox_op" where
  "inbox_processDisconnectedEvent = invalidateModuleKeysInCache None"

end
