(* ===== verification/Inbox_Subscriber.thy ===== *)
theory Inbox_Subscriber
  imports Inbox_Entries Core_Subscriber
begin

text \<open>
  Subscriptions of the inboxes (\<open>endpoint/inbox/src/SubscriberImpl.cpp\<close>, \<open>InboxApiImpl.cpp\<close>). What happens to entries is
  told by the Bridge of the messages of the inbox's thread; so a query for the entries of an inbox is turned
  into one for its thread, and the thread is remembered with the inbox.
\<close>

datatype inbox_EventType = INBOX_CREATE | INBOX_UPDATE | INBOX_DELETE | ENTRY_CREATE | ENTRY_DELETE | INBOX_COLLECTION_CHANGE

datatype inbox_EventSelectorType = inbox_CONTEXT_ID | INBOX_ID | ENTRY_ID

fun inbox_selectorTypeNames :: "inbox_EventSelectorType \<Rightarrow> string" where
  "inbox_selectorTypeNames inbox_CONTEXT_ID = ''contextId''"
| "inbox_selectorTypeNames INBOX_ID = ''containerId''"
| "inbox_selectorTypeNames ENTRY_ID = ''itemId''"

fun inbox_eventTypeNames :: "inbox_EventType \<Rightarrow> string" where
  "inbox_eventTypeNames INBOX_CREATE = ''create''"
| "inbox_eventTypeNames INBOX_UPDATE = ''update''"
| "inbox_eventTypeNames INBOX_DELETE = ''delete''"
| "inbox_eventTypeNames ENTRY_CREATE = ''create''"
| "inbox_eventTypeNames ENTRY_DELETE = ''delete''"
| "inbox_eventTypeNames INBOX_COLLECTION_CHANGE = ''collectionChanged''"

fun inbox_eventTypeAllowedSelectorTypes :: "inbox_EventType \<Rightarrow> inbox_EventSelectorType list" where
  "inbox_eventTypeAllowedSelectorTypes INBOX_CREATE = [inbox_CONTEXT_ID]"
| "inbox_eventTypeAllowedSelectorTypes INBOX_UPDATE = [inbox_CONTEXT_ID, INBOX_ID]"
| "inbox_eventTypeAllowedSelectorTypes INBOX_DELETE = [inbox_CONTEXT_ID, INBOX_ID]"
| "inbox_eventTypeAllowedSelectorTypes ENTRY_CREATE = [inbox_CONTEXT_ID, INBOX_ID]"
| "inbox_eventTypeAllowedSelectorTypes ENTRY_DELETE = [inbox_CONTEXT_ID, INBOX_ID, ENTRY_ID]"
| "inbox_eventTypeAllowedSelectorTypes INBOX_COLLECTION_CHANGE = [inbox_CONTEXT_ID, INBOX_ID]"

definition inbox_getChannelPath :: "inbox_EventType \<Rightarrow> string list" where
  "inbox_getChannelPath eventType =
     (if eventType \<in> {ENTRY_CREATE, ENTRY_DELETE} then [''inbox'', ''entries'', inbox_eventTypeNames eventType]
      else [''inbox'', inbox_eventTypeNames eventType])"

definition inbox_buildQuery :: "inbox_EventType \<Rightarrow> inbox_EventSelectorType \<Rightarrow> string \<Rightarrow> (exn, string) result" where
  "inbox_buildQuery = build_query inbox_eventTypeAllowedSelectorTypes inbox_getChannelPath inbox_selectorTypeNames"

definition inbox_assertQuery :: "SubscriptionQueryObj list \<Rightarrow> (exn, unit) result" where
  "inbox_assertQuery = assert_module_query ''inbox'' (InboxExn inbox_InvalidSubscriptionQueryException)"

text \<open>The first selector by container is replaced; the Bridge is asked for the thread each time.\<close>

fun split_at_container :: "QuerySelector list \<Rightarrow> (QuerySelector list \<times> QuerySelector \<times> QuerySelector list) option" where
  "split_at_container [] = None"
| "split_at_container (s # ss) =
     (if qs_selectorKey s = ''containerId'' then Some ([], s, ss)
      else map_option (\<lambda>(l, t, r). (s # l, t, r)) (split_at_container ss))"

definition updateSubscriptionQuerySelectors :: "('k, 's, 'm) inbox_env \<Rightarrow> SubscriptionQueryObj \<Rightarrow> ('s, SubscriptionQueryObj) inbox_op" where
  "updateSubscriptionQuerySelectors x query =
     (case split_at_container (sq_selectors query) of
        None \<Rightarrow> ret query
      | Some (l, s, r) \<Rightarrow>
          let inboxId = qs_selectorValue s in
          bindS (getServerInbox x inboxId None) (\<lambda>inboxRaw st.
          let threadId = ibd_threadId (ibe_data (last (ii_data inboxRaw)))
          in (Inr (query\<lparr>sq_selectors := l @ s\<lparr>qs_selectorValue := threadId\<rparr> # r\<rparr>),
              on_world (\<lambda>w. w\<lparr>iw_threadIdToInboxId := alist_set threadId inboxId (iw_threadIdToInboxId w)\<rparr>) st)))"

definition inbox_transform_query :: "('k, 's, 'm) inbox_env \<Rightarrow> SubscriptionQueryObj \<Rightarrow> ('s, string) inbox_op" where
  "inbox_transform_query x query =
     (let path = sq_channelPath query;
          thread_query = (\<lambda>path. bindS (updateSubscriptionQuerySelectors x (query\<lparr>sq_channelPath := path\<rparr>)) (\<lambda>q.
            ret (SubscriptionQueryObj_toSubscriptionQueryString (selectorsPushBack (containerType INBOX_TYPE_FILTER_FLAG) q)))) in
      if length path = 3 \<and> path ! 0 = ''inbox'' \<and> path ! 1 = ''entries'' then thread_query (path[0 := ''thread'', 1 := ''messages''])
      else if length path = 2 \<and> path ! 0 = ''inbox'' \<and> last path = ''collectionChanged'' then thread_query [''thread'', ''collectionChanged'']
      else ret (SubscriptionQueryObj_toSubscriptionQueryString query))"

definition inbox_transform :: "('k, 's, 'm) inbox_env \<Rightarrow> SubscriptionQueryObj list \<Rightarrow> ('s, string list) inbox_op" where
  "inbox_transform x = mapS (inbox_transform_query x)"

definition inbox_subscriber :: "('k, 's, 'm) inbox_env \<Rightarrow> ('s inbox_world, inbox_event_data api_event) subscriber_impl" where
  "inbox_subscriber x = \<lparr>si_assertQuery = inbox_assertQuery, si_transform = inbox_transform x\<rparr>"

text \<open>The Bridge's channels, seen from the state of the module.\<close>

definition channels_of :: "'s channel_server \<Rightarrow> 's inbox_world channel_server" where
  "channels_of sv =
     \<lparr>cs_subscribeToChannels = (\<lambda>cs w. case cs_subscribeToChannels sv cs (iw_server w) of (r, s) \<Rightarrow> (r, w\<lparr>iw_server := s\<rparr>)),
      cs_unsubscribeFromChannels = (\<lambda>ids w. case cs_unsubscribeFromChannels sv ids (iw_server w) of (r, s) \<Rightarrow> (r, w\<lparr>iw_server := s\<rparr>))\<rparr>"

type_synonym ('s, 'cb) inbox_module = "('s inbox_world, inbox_event_data api_event, 'cb) module_state"

definition inbox_subscribeFor ::
    "('k, 's, 'm) inbox_env \<Rightarrow> 's channel_server \<Rightarrow> string list \<Rightarrow> (exn, ('s, 'cb) inbox_module, string list) op" where
  "inbox_subscribeFor x sv = module_subscribeFor (inbox_subscriber x) (channels_of sv)"

definition inbox_unsubscribeFrom ::
    "(string list \<Rightarrow> string \<Rightarrow> string list) \<Rightarrow> 's channel_server \<Rightarrow> string list \<Rightarrow> (exn, ('s, 'cb) inbox_module, unit) op" where
  "inbox_unsubscribeFrom residue sv = module_unsubscribeFrom residue (channels_of sv)"

end
