(* ===== verification/Modules_Api.thy ===== *)
theory Modules_Api
  imports Core_Validator Thread_ThreadApi Thread_Subscriber Kvdb_KvdbApi Kvdb_Subscriber Event_EventApi Store_OpenFiles Store_Subscriber Inbox_Subscriber
begin

text \<open>
  The interface of threads (\<open>endpoint/thread/src/ThreadApi.cpp\<close>): for each operation the tests of its
  arguments and the call of the implementation. \<open>alive\<close> says whether the implementation still exists.
\<close>

type_synonym ('s, 'a) thread_api_op = "(api_error, ('s, thread_event_data api_event) api_state, 'a) op"

definition ThreadApi_createThread ::
    "bool \<Rightarrow> 'k connection \<Rightarrow> 's thread_server \<Rightarrow> string \<Rightarrow>
     UserWithPubKey list \<Rightarrow> UserWithPubKey list \<Rightarrow> bytes \<Rightarrow> bytes \<Rightarrow> ContainerPolicy option \<Rightarrow> ('s, string) thread_api_op" where
  "ThreadApi_createThread alive c sv contextId users managers publicMeta privateMeta policies =
     api_call alive
       (validate_all
         [Validator_validateId contextId,
          Validator_validateUsers (cn_env c) users,
          Validator_validateUsers (cn_env c) managers])
       (createThread c sv contextId users managers publicMeta privateMeta policies)"

definition ThreadApi_updateThread ::
    "bool \<Rightarrow> 'k connection \<Rightarrow> 's thread_server \<Rightarrow> string \<Rightarrow>
     UserWithPubKey list \<Rightarrow> UserWithPubKey list \<Rightarrow> bytes \<Rightarrow> bytes \<Rightarrow> int \<Rightarrow> bool \<Rightarrow> bool \<Rightarrow> ContainerPolicy option \<Rightarrow> ('s, unit) thread_api_op" where
  "ThreadApi_updateThread alive c sv threadId users managers publicMeta privateMeta version force forceGenerateNewKey policies =
     api_call alive
       (validate_all
         [Validator_validateId threadId,
          Validator_validateUsers (cn_env c) users,
          Validator_validateUsers (cn_env c) managers])
       (updateThread c sv threadId users managers publicMeta privateMeta version force forceGenerateNewKey policies)"

definition ThreadApi_deleteThread ::
    "bool \<Rightarrow> 's thread_server \<Rightarrow> string \<Rightarrow> ('s, unit) thread_api_op" where
  "ThreadApi_deleteThread alive sv threadId =
     api_call alive
       (Validator_validateId threadId)
       (deleteThread sv threadId)"

definition ThreadApi_getThread ::
    "bool \<Rightarrow> 'k connection \<Rightarrow> 's thread_server \<Rightarrow> string \<Rightarrow> ('s, Thread) thread_api_op" where
  "ThreadApi_getThread alive c sv threadId =
     api_call alive
       (Validator_validateId threadId)
       (getThread c sv threadId)"

definition ThreadApi_listThreads ::
    "bool \<Rightarrow> 'k connection \<Rightarrow> 's thread_server \<Rightarrow> string \<Rightarrow> PagingQuery \<Rightarrow>
     ('s, Thread PagingList) thread_api_op" where
  "ThreadApi_listThreads alive c sv contextId pagingQuery =
     api_call alive
       (validate_all
         [Validator_validateId contextId,
          Validator_validatePagingQuery (cn_env c) pagingQuery [''createDate'', ''lastModificationDate'', ''lastMsgDate'']])
       (listThreads c sv contextId pagingQuery)"

definition ThreadApi_getMessage ::
    "bool \<Rightarrow> 'k connection \<Rightarrow> 's thread_server \<Rightarrow> string \<Rightarrow> ('s, Message) thread_api_op" where
  "ThreadApi_getMessage alive c sv messageId =
     api_call alive
       (Validator_validateId messageId)
       (getMessage c sv messageId)"

definition ThreadApi_listMessages ::
    "bool \<Rightarrow> 'k connection \<Rightarrow> 's thread_server \<Rightarrow> string \<Rightarrow> PagingQuery \<Rightarrow>
     ('s, Message PagingList) thread_api_op" where
  "ThreadApi_listMessages alive c sv threadId pagingQuery =
     api_call alive
       (validate_all
         [Validator_validateId threadId,
          Validator_validatePagingQuery (cn_env c) pagingQuery [''createDate'', ''updates'']])
       (listMessages c sv threadId pagingQuery)"

definition ThreadApi_sendMessage ::
    "bool \<Rightarrow> 'k connection \<Rightarrow> 's thread_server \<Rightarrow> string \<Rightarrow> bytes \<Rightarrow>
     bytes \<Rightarrow> bytes \<Rightarrow> ('s, string) thread_api_op" where
  "ThreadApi_sendMessage alive c sv threadId publicMeta privateMeta data =
     api_call alive
       (Validator_validateId threadId)
       (sendMessage c sv threadId publicMeta privateMeta data)"

definition ThreadApi_deleteMessage ::
    "bool \<Rightarrow> 's thread_server \<Rightarrow> string \<Rightarrow> ('s, unit) thread_api_op" where
  "ThreadApi_deleteMessage alive sv messageId =
     api_call alive
       (Validator_validateId messageId)
       (deleteMessage sv messageId)"

definition ThreadApi_updateMessage ::
    "bool \<Rightarrow> 'k connection \<Rightarrow> 's thread_server \<Rightarrow> string \<Rightarrow> bytes \<Rightarrow>
     bytes \<Rightarrow> bytes \<Rightarrow> ('s, unit) thread_api_op" where
  "ThreadApi_updateMessage alive c sv messageId publicMeta privateMeta data =
     api_call alive
       (Validator_validateId messageId)
       (updateMessage c sv messageId publicMeta privateMeta data)"

definition ThreadApi_subscribeFor ::
    "bool \<Rightarrow> 's channel_server \<Rightarrow> string list \<Rightarrow> (api_error, ('s, 'ev, 'cb) module_state, string list) op" where
  "ThreadApi_subscribeFor alive sv subscriptionQueries = api_call alive (Inr ()) (thread_subscribeFor sv subscriptionQueries)"

definition ThreadApi_unsubscribeFrom ::
    "bool \<Rightarrow> (string list \<Rightarrow> string \<Rightarrow> string list) \<Rightarrow> 's channel_server \<Rightarrow> string list \<Rightarrow>
     (api_error, ('s, 'ev, 'cb) module_state, unit) op" where
  "ThreadApi_unsubscribeFrom alive residue sv subscriptionIds = api_call alive (Inr ()) (thread_unsubscribeFrom residue sv subscriptionIds)"

definition ThreadApi_buildSubscriptionQuery ::
    "bool \<Rightarrow> thread_EventType \<Rightarrow> thread_EventSelectorType \<Rightarrow> string \<Rightarrow> (api_error, 's, string) op" where
  "ThreadApi_buildSubscriptionQuery alive eventType selectorType selectorId =
     api_call alive (Inr ()) (liftR (thread_buildQuery eventType selectorType selectorId))"

text \<open>What the outermost layer of an interface adds to an operation, for the creation of threads.\<close>

definition valid_id :: "string \<Rightarrow> bool" where
  "valid_id s \<longleftrightarrow> 1 \<le> length s \<and> length s \<le> 128"

definition valid_user :: "'k core_env \<Rightarrow> UserWithPubKey \<Rightarrow> bool" where
  "valid_user env u \<longleftrightarrow> valid_id (up_userId u) \<and> Base58_is (up_pubKey u) \<and>
     (case PublicKey_fromBase58DER (en_crypto env) (en_ecc env) (up_pubKey u) of Inr _ \<Rightarrow> True | Inl _ \<Rightarrow> False)"

lemma validateId_iff: "Validator_validateId s = (if valid_id s then Inr () else Inl invalid_params)"
  by (auto simp: Validator_validateId_def Validator_validateLengthSize_def validate_that_def valid_id_def Suc_le_eq)

lemma validate_user_iff:
  "StructValidator_UserWithPubKey_validate env u = (if valid_user env u then Inr () else Inl invalid_params)"
  by (auto simp: StructValidator_UserWithPubKey_validate_def validateId_iff Validator_validatePubKeyBase58DER_def
      Validator_validateBase58_def validate_that_def validate_attempt_def valid_user_def split: sum.splits)

lemma validateUsers_iff:
  "Validator_validateUsers env us = (if list_all (valid_user env) us then Inr () else Inl invalid_params)"
  unfolding Validator_validateUsers_def by (induction us) (simp_all add: validate_user_iff)

lemma api_codes: "endpoint_code 0x0002 0x000E = 0x0002000E" "endpoint_code (Suc 0) 0x0002 = 0x00010002"
  by (simp_all add: endpoint_code_def push_bit_eq_mult)

text \<open>
  Calling \<open>createThread\<close> through the interface is the operation itself behind a check that is exact: without the object behind the
  interface the call reports \<open>NotConnectedException\<close>; when the context's id or a user's or manager's id has no
  or more than 128 characters, or a public key cannot be read, it reports \<open>InvalidParamsException\<close>; both
  without any effect. Otherwise the operation runs, and its exception is reported by its code.
\<close>

theorem thread_create_checked:
  "ThreadApi_createThread alive c sv contextId users managers publicMeta privateMeta policies st =
     (if \<not> alive then (Inl (EndpointError 0x0002000E), st)
      else if valid_id contextId \<and> list_all (valid_user (cn_env c)) (users @ managers)
      then case createThread c sv contextId users managers publicMeta privateMeta policies st of
          (Inl e, st') \<Rightarrow> (Inl (api_error_of e), st') | (Inr threadId, st') \<Rightarrow> (Inr threadId, st')
      else (Inl (EndpointError 0x00010002), st))"
  by (simp add: ThreadApi_createThread_def api_call_def validated_def validateId_iff validateUsers_iff api_error_of_def api_codes split: unit.split)

text \<open>
  The interface of key-value stores (\<open>endpoint/kvdb/src/KvdbApi.cpp\<close>): for each operation the tests of its
  arguments and the call of the implementation. \<open>alive\<close> says whether the implementation still exists.
\<close>

type_synonym ('s, 'a) kvdb_api_op = "(api_error, ('s, kvdb_event) api_state, 'a) op"

definition KvdbApi_createKvdb ::
    "bool \<Rightarrow> 'k connection \<Rightarrow> 's kvdb_server \<Rightarrow> string \<Rightarrow>
     UserWithPubKey list \<Rightarrow> UserWithPubKey list \<Rightarrow> bytes \<Rightarrow> bytes \<Rightarrow> ContainerPolicy option \<Rightarrow> ('s, string) kvdb_api_op" where
  "KvdbApi_createKvdb alive c sv contextId users managers publicMeta privateMeta policies =
     api_call alive
       (validate_all
         [Validator_validateId contextId,
          Validator_validateUsers (cn_env c) users,
          Validator_validateUsers (cn_env c) managers])
       (createKvdb c sv contextId users managers publicMeta privateMeta policies)"

definition KvdbApi_updateKvdb ::
    "bool \<Rightarrow> 'k connection \<Rightarrow> 's kvdb_server \<Rightarrow> string \<Rightarrow>
     UserWithPubKey list \<Rightarrow> UserWithPubKey list \<Rightarrow> bytes \<Rightarrow> bytes \<Rightarrow> int \<Rightarrow> bool \<Rightarrow> bool \<Rightarrow> ContainerPolicy option \<Rightarrow> ('s, unit) kvdb_api_op" where
  "KvdbApi_updateKvdb alive c sv kvdbId users managers publicMeta privateMeta version force forceGenerateNewKey policies =
     api_call alive
       (validate_all
         [Validator_validateId kvdbId,
          Validator_validateUsers (cn_env c) users,
          Validator_validateUsers (cn_env c) managers])
       (updateKvdb c sv kvdbId users managers publicMeta privateMeta version force forceGenerateNewKey policies)"

definition KvdbApi_deleteKvdb ::
    "bool \<Rightarrow> 's kvdb_server \<Rightarrow> string \<Rightarrow> ('s, unit) kvdb_api_op" where
  "KvdbApi_deleteKvdb alive sv kvdbId =
     api_call alive
       (Validator_validateId kvdbId)
       (deleteKvdb sv kvdbId)"

definition KvdbApi_getKvdb ::
    "bool \<Rightarrow> 'k connection \<Rightarrow> 's kvdb_server \<Rightarrow> string \<Rightarrow> ('s, Kvdb) kvdb_api_op" where
  "KvdbApi_getKvdb alive c sv kvdbId =
     api_call alive
       (Validator_validateId kvdbId)
       (getKvdb c sv kvdbId)"

definition KvdbApi_listKvdbs ::
    "bool \<Rightarrow> 'k connection \<Rightarrow> 's kvdb_server \<Rightarrow> string \<Rightarrow> PagingQuery \<Rightarrow>
     ('s, Kvdb PagingList) kvdb_api_op" where
  "KvdbApi_listKvdbs alive c sv contextId pagingQuery =
     api_call alive
       (validate_all
         [Validator_validateId contextId,
          Validator_validatePagingQuery (cn_env c) pagingQuery [''createDate'']])
       (listKvdbs c sv contextId pagingQuery)"

definition KvdbApi_getEntry ::
    "bool \<Rightarrow> 'k connection \<Rightarrow> 's kvdb_server \<Rightarrow> string \<Rightarrow> string \<Rightarrow>
     ('s, KvdbEntry) kvdb_api_op" where
  "KvdbApi_getEntry alive c sv kvdbId key =
     api_call alive
       (Validator_validateId kvdbId)
       (getEntry c sv kvdbId key)"

definition KvdbApi_hasEntry ::
    "bool \<Rightarrow> 's kvdb_server \<Rightarrow> string \<Rightarrow> string \<Rightarrow> ('s, bool) kvdb_api_op" where
  "KvdbApi_hasEntry alive sv kvdbId key =
     api_call alive
       (Validator_validateId kvdbId)
       (hasEntry sv kvdbId key)"

definition KvdbApi_listEntriesKeys ::
    "bool \<Rightarrow> 'k connection \<Rightarrow> 's kvdb_server \<Rightarrow> string \<Rightarrow> PagingQuery \<Rightarrow>
     ('s, string PagingList) kvdb_api_op" where
  "KvdbApi_listEntriesKeys alive c sv kvdbId pagingQuery =
     api_call alive
       (validate_all
         [Validator_validateId kvdbId,
          Validator_validatePagingQuery (cn_env c) pagingQuery [''createDate'', ''entryKey'', ''lastModificationDate'']])
       (listEntriesKeys c sv kvdbId pagingQuery)"

definition KvdbApi_listEntries ::
    "bool \<Rightarrow> 'k connection \<Rightarrow> 's kvdb_server \<Rightarrow> string \<Rightarrow> PagingQuery \<Rightarrow>
     ('s, KvdbEntry PagingList) kvdb_api_op" where
  "KvdbApi_listEntries alive c sv kvdbId pagingQuery =
     api_call alive
       (validate_all
         [Validator_validateId kvdbId,
          Validator_validatePagingQuery (cn_env c) pagingQuery [''createDate'', ''entryKey'', ''lastModificationDate'']])
       (listEntries c sv kvdbId pagingQuery)"

definition KvdbApi_setEntry ::
    "bool \<Rightarrow> 'k connection \<Rightarrow> 's kvdb_server \<Rightarrow> string \<Rightarrow> string \<Rightarrow>
     bytes \<Rightarrow> bytes \<Rightarrow> bytes \<Rightarrow> int \<Rightarrow> ('s, unit) kvdb_api_op" where
  "KvdbApi_setEntry alive c sv kvdbId key publicMeta privateMeta data version =
     api_call alive
       (Validator_validateId kvdbId)
       (setEntry c sv kvdbId key publicMeta privateMeta data version)"

definition KvdbApi_deleteEntry ::
    "bool \<Rightarrow> 's kvdb_server \<Rightarrow> string \<Rightarrow> string \<Rightarrow> ('s, unit) kvdb_api_op" where
  "KvdbApi_deleteEntry alive sv kvdbId key =
     api_call alive
       (Validator_validateId kvdbId)
       (deleteEntry sv kvdbId key)"

definition KvdbApi_deleteEntries ::
    "bool \<Rightarrow> 's kvdb_server \<Rightarrow> string \<Rightarrow> string list \<Rightarrow>
     ('s, (string \<times> bool) list) kvdb_api_op" where
  "KvdbApi_deleteEntries alive sv kvdbId keys =
     api_call alive
       (Validator_validateId kvdbId)
       (deleteEntries sv kvdbId keys)"

definition KvdbApi_subscribeFor ::
    "bool \<Rightarrow> 's channel_server \<Rightarrow> string list \<Rightarrow> (api_error, ('s, 'ev, 'cb) module_state, string list) op" where
  "KvdbApi_subscribeFor alive sv subscriptionQueries = api_call alive (Inr ()) (kvdb_subscribeFor sv subscriptionQueries)"

definition KvdbApi_unsubscribeFrom ::
    "bool \<Rightarrow> (string list \<Rightarrow> string \<Rightarrow> string list) \<Rightarrow> 's channel_server \<Rightarrow> string list \<Rightarrow>
     (api_error, ('s, 'ev, 'cb) module_state, unit) op" where
  "KvdbApi_unsubscribeFrom alive residue sv subscriptionIds = api_call alive (Inr ()) (kvdb_unsubscribeFrom residue sv subscriptionIds)"

definition KvdbApi_buildSubscriptionQuery ::
    "bool \<Rightarrow> kvdb_EventType \<Rightarrow> kvdb_EventSelectorType \<Rightarrow> string \<Rightarrow> (api_error, 's, string) op" where
  "KvdbApi_buildSubscriptionQuery alive eventType selectorType selectorId =
     api_call alive (Inr ()) (liftR (kvdb_buildQuery eventType selectorType selectorId))"

definition KvdbApi_buildSubscriptionQueryForSelectedEntry ::
    "bool \<Rightarrow> kvdb_EventType \<Rightarrow> string \<Rightarrow> string \<Rightarrow> (api_error, 's, string) op" where
  "KvdbApi_buildSubscriptionQueryForSelectedEntry alive eventType kvdbId kvdbEntryKey =
     api_call alive (Inr ()) (liftR (kvdb_buildQueryForSelectedEntry eventType kvdbId kvdbEntryKey))"

text \<open>
  The interface of custom events (\<open>endpoint/event/src/EventApi.cpp\<close>): for each operation the tests of its
  arguments and the call of the implementation. \<open>alive\<close> says whether the implementation still exists.
\<close>

type_synonym ('s, 'a) event_api_op = "(api_error, ('s, CustomEvent api_event) api_state, 'a) op"

definition EventApi_emitEvent ::
    "bool \<Rightarrow> 'k connection \<Rightarrow> 's event_bridge \<Rightarrow> string \<Rightarrow>
     UserWithPubKey list \<Rightarrow> string \<Rightarrow> bytes \<Rightarrow> ('s, unit) event_api_op" where
  "EventApi_emitEvent alive c sv contextId users channelName eventData =
     api_call alive
       (validate_all [Validator_validateId contextId, Validator_validateUsers (cn_env c) users])
       (emitEvent c sv contextId users channelName eventData)"

definition EventApi_subscribeFor ::
    "bool \<Rightarrow> 's channel_server \<Rightarrow> string list \<Rightarrow> (api_error, ('s, 'ev, 'cb) module_state, string list) op" where
  "EventApi_subscribeFor alive sv subscriptionQueries = api_call alive (Inr ()) (event_subscribeFor sv subscriptionQueries)"

definition EventApi_unsubscribeFrom ::
    "bool \<Rightarrow> (string list \<Rightarrow> string \<Rightarrow> string list) \<Rightarrow> 's channel_server \<Rightarrow> string list \<Rightarrow>
     (api_error, ('s, 'ev, 'cb) module_state, unit) op" where
  "EventApi_unsubscribeFrom alive residue sv subscriptionIds = api_call alive (Inr ()) (event_unsubscribeFrom residue sv subscriptionIds)"

definition EventApi_buildSubscriptionQuery ::
    "bool \<Rightarrow> string \<Rightarrow> event_EventSelectorType \<Rightarrow> string \<Rightarrow> (api_error, 's, string) op" where
  "EventApi_buildSubscriptionQuery alive channelName selectorType selectorId =
     api_call alive (Inr ()) (liftR (event_buildSubscriptionQuery channelName selectorType selectorId))"

text \<open>
  The interface of stores (\<open>endpoint/store/src/StoreApi.cpp\<close>): for each operation the tests of its
  arguments and the call of the implementation. \<open>alive\<close> says whether the implementation still exists.
\<close>

type_synonym ('s, 'a) store_api_op = "(api_error, ('s, store_event_data api_event) api_state, 'a) op"

definition StoreApi_createStore ::
    "bool \<Rightarrow> 'k connection \<Rightarrow> 's store_bridge \<Rightarrow> string \<Rightarrow>
     UserWithPubKey list \<Rightarrow> UserWithPubKey list \<Rightarrow> bytes \<Rightarrow> bytes \<Rightarrow> ContainerPolicy option \<Rightarrow> ('s, string) store_api_op" where
  "StoreApi_createStore alive c sv contextId users managers publicMeta privateMeta policies =
     api_call alive
       (validate_all
         [Validator_validateId contextId,
          Validator_validateUsers (cn_env c) users,
          Validator_validateUsers (cn_env c) managers])
       (createStore c sv contextId users managers publicMeta privateMeta policies)"

definition StoreApi_updateStore ::
    "bool \<Rightarrow> 'k connection \<Rightarrow> 's store_bridge \<Rightarrow> string \<Rightarrow>
     UserWithPubKey list \<Rightarrow> UserWithPubKey list \<Rightarrow> bytes \<Rightarrow> bytes \<Rightarrow> int \<Rightarrow> bool \<Rightarrow> bool \<Rightarrow> ContainerPolicy option \<Rightarrow> ('s, unit) store_api_op" where
  "StoreApi_updateStore alive c sv storeId users managers publicMeta privateMeta version force forceGenerateNewKey policies =
     api_call alive
       (validate_all
         [Validator_validateId storeId,
          Validator_validateUsers (cn_env c) users,
          Validator_validateUsers (cn_env c) managers])
       (updateStore c sv storeId users managers publicMeta privateMeta version force forceGenerateNewKey policies)"

definition StoreApi_deleteStore ::
    "bool \<Rightarrow> 's store_bridge \<Rightarrow> string \<Rightarrow> ('s, unit) store_api_op" where
  "StoreApi_deleteStore alive sv storeId =
     api_call alive
       (Validator_validateId storeId)
       (deleteStore sv storeId)"

definition StoreApi_getStore ::
    "bool \<Rightarrow> 'k connection \<Rightarrow> 's store_bridge \<Rightarrow> string \<Rightarrow> ('s, Store) store_api_op" where
  "StoreApi_getStore alive c sv storeId =
     api_call alive
       (Validator_validateId storeId)
       (getStore c sv storeId)"

definition StoreApi_listStores ::
    "bool \<Rightarrow> 'k connection \<Rightarrow> 's store_bridge \<Rightarrow> string \<Rightarrow> PagingQuery \<Rightarrow>
     ('s, Store PagingList) store_api_op" where
  "StoreApi_listStores alive c sv contextId pagingQuery =
     api_call alive
       (validate_all
         [Validator_validateId contextId,
          Validator_validatePagingQuery (cn_env c) pagingQuery [''createDate'', ''lastModificationDate'', ''lastFileDate'']])
       (listStores c sv contextId pagingQuery)"

definition StoreApi_deleteFile ::
    "bool \<Rightarrow> 's store_bridge \<Rightarrow> string \<Rightarrow> ('s, unit) store_api_op" where
  "StoreApi_deleteFile alive sv fileId =
     api_call alive
       (Validator_validateId fileId)
       (deleteFile sv fileId)"

definition StoreApi_getFile ::
    "bool \<Rightarrow> 'k store_api \<Rightarrow> 's store_bridge \<Rightarrow> string \<Rightarrow> ('s, File) store_api_op" where
  "StoreApi_getFile alive x sv fileId =
     api_call alive
       (Validator_validateId fileId)
       (getFile x sv fileId)"

definition StoreApi_listFiles ::
    "bool \<Rightarrow> 'k store_api \<Rightarrow> 's store_bridge \<Rightarrow> string \<Rightarrow> PagingQuery \<Rightarrow>
     ('s, File PagingList) store_api_op" where
  "StoreApi_listFiles alive x sv storeId query =
     api_call alive
       (validate_all
         [Validator_validateId storeId,
          Validator_validatePagingQuery (cn_env (sa_conn x)) query [''createDate'', ''updates'']])
       (listFiles x sv storeId query)"

definition StoreApi_updateFileMeta ::
    "bool \<Rightarrow> 'k store_api \<Rightarrow> 's store_bridge \<Rightarrow> string \<Rightarrow> bytes \<Rightarrow>
     bytes \<Rightarrow> ('s, unit) store_api_op" where
  "StoreApi_updateFileMeta alive x sv fileId publicMeta privateMeta =
     api_call alive
       (Validator_validateId fileId)
       (updateFileMeta x sv fileId publicMeta privateMeta)"

text \<open>Open files. A handle number is not tested here.\<close>

definition StoreApi_createFile ::
    "bool \<Rightarrow> ('s, 'm) store_env \<Rightarrow> string \<Rightarrow> bytes \<Rightarrow> bytes \<Rightarrow> int \<Rightarrow> bool \<Rightarrow> 's store_state \<Rightarrow>
     ((api_error, int) result \<times> 's store_state) option" where
  "StoreApi_createFile alive env storeId publicMeta privateMeta sz randomWriteSupport =
     api_call_partial alive
       (validate_all [Validator_validateId storeId, Validator_validateNumberNonNegative sz])
       (StoreApiImpl_createFile env storeId publicMeta privateMeta sz randomWriteSupport)"

definition StoreApi_updateFile ::
    "bool \<Rightarrow> ('s, 'm) store_env \<Rightarrow> (string \<Rightarrow> 's \<Rightarrow> (exn, UploadTarget) result) \<Rightarrow> string \<Rightarrow> bytes \<Rightarrow> bytes \<Rightarrow> int \<Rightarrow>
     's store_state \<Rightarrow> ((api_error, int) result \<times> 's store_state) option" where
  "StoreApi_updateFile alive env target fileId publicMeta privateMeta sz =
     api_call_partial alive
       (validate_all [Validator_validateId fileId, Validator_validateNumberNonNegative sz])
       (StoreApiImpl_updateFile env target fileId publicMeta privateMeta sz)"

definition StoreApi_openFile ::
    "bool \<Rightarrow> ('s, 'm) store_env \<Rightarrow> string \<Rightarrow> 's store_state \<Rightarrow> ((api_error, int) result \<times> 's store_state) option" where
  "StoreApi_openFile alive env fileId = api_call_partial alive (Validator_validateId fileId) (StoreApiImpl_openFile env fileId)"

definition StoreApi_writeToFile :: "bool \<Rightarrow> ('s, 'm) store_env \<Rightarrow> int \<Rightarrow> bytes \<Rightarrow> bool \<Rightarrow> (api_error, 's store_state, unit) op" where
  "StoreApi_writeToFile alive env i dataChunk trunc = api_call alive (Inr ()) (StoreApiImpl_writeToFile env i dataChunk trunc)"

definition StoreApi_readFromFile :: "bool \<Rightarrow> ('s, 'm) store_env \<Rightarrow> int \<Rightarrow> int \<Rightarrow> (api_error, 's store_state, bytes) op" where
  "StoreApi_readFromFile alive env i len =
     api_call alive (Validator_validateNumberNonNegative len) (StoreApiImpl_readFromFile env i len)"

definition StoreApi_seekInFile :: "bool \<Rightarrow> int \<Rightarrow> int \<Rightarrow> (api_error, 's store_state, unit) op" where
  "StoreApi_seekInFile alive i pos =
     api_call alive (Validator_validateNumberNonNegative pos) (StoreApiImpl_seekInFile i pos)"

definition StoreApi_closeFile :: "bool \<Rightarrow> ('s, 'm) store_env \<Rightarrow> int \<Rightarrow> (api_error, 's store_state, string) op" where
  "StoreApi_closeFile alive env i = api_call alive (Inr ()) (StoreApiImpl_closeFile env i)"

definition StoreApi_syncFile :: "bool \<Rightarrow> ('s, 'm) store_env \<Rightarrow> int \<Rightarrow> (api_error, 's store_state, unit) op" where
  "StoreApi_syncFile alive env i = api_call alive (Inr ()) (StoreApiImpl_syncFile env i)"

definition StoreApi_subscribeFor ::
    "bool \<Rightarrow> 's channel_server \<Rightarrow> string list \<Rightarrow> (api_error, ('s, 'ev, 'cb) module_state, string list) op" where
  "StoreApi_subscribeFor alive sv subscriptionQueries = api_call alive (Inr ()) (store_subscribeFor sv subscriptionQueries)"

definition StoreApi_unsubscribeFrom ::
    "bool \<Rightarrow> (string list \<Rightarrow> string \<Rightarrow> string list) \<Rightarrow> 's channel_server \<Rightarrow> string list \<Rightarrow>
     (api_error, ('s, 'ev, 'cb) module_state, unit) op" where
  "StoreApi_unsubscribeFrom alive residue sv subscriptionIds = api_call alive (Inr ()) (store_unsubscribeFrom residue sv subscriptionIds)"

definition StoreApi_buildSubscriptionQuery ::
    "bool \<Rightarrow> store_EventType \<Rightarrow> store_EventSelectorType \<Rightarrow> string \<Rightarrow> (api_error, 's, string) op" where
  "StoreApi_buildSubscriptionQuery alive eventType selectorType selectorId =
     api_call alive (Inr ()) (liftR (store_buildQuery eventType selectorType selectorId))"

text \<open>
  The interface of inboxes (\<open>endpoint/inbox/src/InboxApi.cpp\<close>): for each operation the tests of its
  arguments and the call of the implementation. \<open>alive\<close> says whether the implementation still exists.
\<close>

type_synonym ('s, 'a) inbox_api_op = "(api_error, 's inbox_state, 'a) op"

definition InboxApi_createInbox ::
    "bool \<Rightarrow> ('k, 's, 'm) inbox_env \<Rightarrow> string \<Rightarrow> UserWithPubKey list \<Rightarrow>
     UserWithPubKey list \<Rightarrow> bytes \<Rightarrow> bytes \<Rightarrow> FilesConfig option \<Rightarrow> ContainerPolicyWithoutItem option \<Rightarrow> ('s, string) inbox_api_op" where
  "InboxApi_createInbox alive x contextId users managers publicMeta privateMeta fileConfig policies =
     api_call alive
       (validate_all [Validator_validateId contextId,
          Validator_validateUsers (ie_core x) users,
          Validator_validateUsers (ie_core x) managers])
       (createInbox x contextId users managers publicMeta privateMeta fileConfig policies)"

definition InboxApi_updateInbox ::
    "bool \<Rightarrow> ('k, 's, 'm) inbox_env \<Rightarrow> string \<Rightarrow> UserWithPubKey list \<Rightarrow>
     UserWithPubKey list \<Rightarrow> bytes \<Rightarrow> bytes \<Rightarrow> FilesConfig option \<Rightarrow> int \<Rightarrow> bool \<Rightarrow> bool \<Rightarrow> ContainerPolicyWithoutItem option \<Rightarrow> ('s, unit) inbox_api_op" where
  "InboxApi_updateInbox alive x inboxId users managers publicMeta privateMeta fileConfig version force forceGenerateNewKey policies =
     api_call alive
       (validate_all [Validator_validateId inboxId,
          Validator_validateUsers (ie_core x) users,
          Validator_validateUsers (ie_core x) managers])
       (updateInbox x inboxId users managers publicMeta privateMeta fileConfig version force forceGenerateNewKey policies)"

definition InboxApi_getInbox ::
    "bool \<Rightarrow> ('k, 's, 'm) inbox_env \<Rightarrow> string \<Rightarrow> ('s, Inbox) inbox_api_op" where
  "InboxApi_getInbox alive x inboxId =
     api_call alive
       (Validator_validateId inboxId)
       (getInbox x inboxId)"

definition InboxApi_listInboxes ::
    "bool \<Rightarrow> ('k, 's, 'm) inbox_env \<Rightarrow> string \<Rightarrow> PagingQuery \<Rightarrow>
     ('s, Inbox PagingList) inbox_api_op" where
  "InboxApi_listInboxes alive x contextId query =
     api_call alive
       (validate_all [Validator_validateId contextId,
          Validator_validatePagingQuery (ie_core x) query [''createDate'', ''lastModificationDate'']])
       (listInboxes x contextId query)"

definition InboxApi_getInboxPublicView ::
    "bool \<Rightarrow> ('k, 's, 'm) inbox_env \<Rightarrow> string \<Rightarrow> ('s, InboxPublicView) inbox_api_op" where
  "InboxApi_getInboxPublicView alive x inboxId =
     api_call alive
       (Validator_validateId inboxId)
       (getInboxPublicView x inboxId)"

definition InboxApi_deleteInbox ::
    "bool \<Rightarrow> ('k, 's, 'm) inbox_env \<Rightarrow> string \<Rightarrow> ('s, unit) inbox_api_op" where
  "InboxApi_deleteInbox alive x inboxId =
     api_call alive
       (Validator_validateId inboxId)
       (deleteInbox x inboxId)"

definition InboxApi_prepareEntry ::
    "bool \<Rightarrow> ('k, 's, 'm) inbox_env \<Rightarrow> string \<Rightarrow> bytes \<Rightarrow> int list \<Rightarrow>
     string option \<Rightarrow> 's inbox_state \<Rightarrow> ((api_error, int) result \<times> 's inbox_state) option" where
  "InboxApi_prepareEntry alive x inboxId data inboxFileHandles userPrivKey =
     api_call_partial alive
       (validate_all [Validator_validateId inboxId,
          case userPrivKey of Some wif \<Rightarrow> Validator_validatePrivKeyWIF (ie_core x) wif | None \<Rightarrow> Inr ()])
       (prepareEntry x inboxId data inboxFileHandles userPrivKey)"

definition InboxApi_sendEntry ::
    "bool \<Rightarrow> ('k, 's, 'm) inbox_env \<Rightarrow> int \<Rightarrow> ('s, unit) inbox_api_op" where
  "InboxApi_sendEntry alive x inboxHandle =
     api_call alive
       (Inr ())
       (sendEntry x inboxHandle)"

definition InboxApi_readEntry ::
    "bool \<Rightarrow> ('k, 's, 'm) inbox_env \<Rightarrow> string \<Rightarrow> ('s, InboxEntry) inbox_api_op" where
  "InboxApi_readEntry alive x inboxEntryId =
     api_call alive
       (Validator_validateId inboxEntryId)
       (readEntry x inboxEntryId)"

definition InboxApi_deleteEntry ::
    "bool \<Rightarrow> ('k, 's, 'm) inbox_env \<Rightarrow> string \<Rightarrow> ('s, unit) inbox_api_op" where
  "InboxApi_deleteEntry alive x inboxEntryId =
     api_call alive
       (Validator_validateId inboxEntryId)
       (inbox_deleteEntry x inboxEntryId)"

definition InboxApi_listEntries ::
    "bool \<Rightarrow> ('k, 's, 'm) inbox_env \<Rightarrow> string \<Rightarrow> PagingQuery \<Rightarrow>
     ('s, InboxEntry PagingList) inbox_api_op" where
  "InboxApi_listEntries alive x inboxId query =
     api_call alive
       (validate_all [Validator_validateId inboxId,
          Validator_validatePagingQuery (ie_core x) query [''createDate'']])
       (inbox_listEntries x inboxId query)"

definition InboxApi_createFileHandle ::
    "bool \<Rightarrow> ('k, 's, 'm) inbox_env \<Rightarrow> bytes \<Rightarrow> bytes \<Rightarrow> int \<Rightarrow>
     's inbox_state \<Rightarrow> ((api_error, int) result \<times> 's inbox_state) option" where
  "InboxApi_createFileHandle alive x publicMeta privateMeta fileSize =
     api_call_partial alive
       (Validator_validateNumberNonNegative fileSize)
       (inbox_createFileHandle x publicMeta privateMeta fileSize)"

definition InboxApi_writeToFile ::
    "bool \<Rightarrow> ('k, 's, 'm) inbox_env \<Rightarrow> int \<Rightarrow> int \<Rightarrow> bytes \<Rightarrow>
     ('s, unit) inbox_api_op" where
  "InboxApi_writeToFile alive x inboxHandle inboxFileHandle dataChunk =
     api_call alive
       (Inr ())
       (inbox_writeToFile x inboxHandle inboxFileHandle dataChunk)"

definition InboxApi_openFile ::
    "bool \<Rightarrow> ('k, 's, 'm) inbox_env \<Rightarrow> string \<Rightarrow> 's inbox_state \<Rightarrow>
     ((api_error, int) result \<times> 's inbox_state) option" where
  "InboxApi_openFile alive x fileId =
     api_call_partial alive
       (Validator_validateId fileId)
       (inbox_openFile x fileId)"

definition InboxApi_readFromFile ::
    "bool \<Rightarrow> ('k, 's, 'm) inbox_env \<Rightarrow> int \<Rightarrow> int \<Rightarrow> ('s, bytes) inbox_api_op" where
  "InboxApi_readFromFile alive x i len =
     api_call alive
       (Validator_validateNumberNonNegative len)
       (inbox_readFromFile x i len)"

definition InboxApi_seekInFile ::
    "bool \<Rightarrow> int \<Rightarrow> int \<Rightarrow> ('s, unit) inbox_api_op" where
  "InboxApi_seekInFile alive i pos =
     api_call alive
       (Validator_validateNumberNonNegative pos)
       (inbox_seekInFile i pos)"

definition InboxApi_closeFile ::
    "bool \<Rightarrow> int \<Rightarrow> ('s, string) inbox_api_op" where
  "InboxApi_closeFile alive i =
     api_call alive
       (Inr ())
       (inbox_closeFile i)"

definition InboxApi_subscribeFor ::
    "bool \<Rightarrow> ('k, 's, 'm) inbox_env \<Rightarrow> 's channel_server \<Rightarrow> string list \<Rightarrow> (api_error, ('s, 'cb) inbox_module, string list) op" where
  "InboxApi_subscribeFor alive x sv subscriptionQueries = api_call alive (Inr ()) (inbox_subscribeFor x sv subscriptionQueries)"

definition InboxApi_unsubscribeFrom ::
    "bool \<Rightarrow> (string list \<Rightarrow> string \<Rightarrow> string list) \<Rightarrow> 's channel_server \<Rightarrow> string list \<Rightarrow>
     (api_error, ('s, 'cb) inbox_module, unit) op" where
  "InboxApi_unsubscribeFrom alive residue sv subscriptionIds =
     api_call alive (Inr ()) (inbox_unsubscribeFrom residue sv subscriptionIds)"

definition InboxApi_buildSubscriptionQuery ::
    "bool \<Rightarrow> inbox_EventType \<Rightarrow> inbox_EventSelectorType \<Rightarrow> string \<Rightarrow> (api_error, 's, string) op" where
  "InboxApi_buildSubscriptionQuery alive eventType selectorType selectorId =
     api_call alive (Inr ()) (liftR (inbox_buildQuery eventType selectorType selectorId))"

end
