(* ===== verification/Inbox_Properties.thy ===== *)
theory Inbox_Properties
  imports Inbox_Entries Inbox_Data
begin

text \<open>
  What holds of inboxes: entries that are sent are read, whoever sends them; what a Bridge or a sender can
  change without being noticed; and what is shown of the inboxes themselves.
\<close>

subsection \<open>Packed entries\<close>

text \<open>The lengths that are written as one octet, and a size that can be encrypted.\<close>

definition entry_fits :: "'k core_env \<Rightarrow> InboxEntrySendModel \<Rightarrow> bool" where
  "entry_fits env data \<longleftrightarrow>
     length (iep_userPubKey (iem_publicData data)) + length (iep_usedInboxKeyId (iem_publicData data)) < 253 \<and>
     length (base64_from (en_poco env) (ier_filesMetaKey (iem_privateData data))) < 256 \<and>
     length (ier_text (iem_privateData data)) < 2 ^ 59"

lemma read_entry_head_bytes:
  "length (iep_userPubKey d) < 256 \<Longrightarrow> length (iep_usedInboxKeyId d) < 256 \<Longrightarrow> read_entry_head (entry_public_bytes d) = d"
  using read_write_octet [of "bytes_of (iep_usedInboxKeyId d)" "[]"]
  by (simp add: read_entry_head_def entry_public_bytes_def)

lemma length_entry_public_bytes:
  "length (entry_public_bytes d) = length (iep_userPubKey d) + length (iep_usedInboxKeyId d) + 3"
  by (simp add: entry_public_bytes_def writeOneOctetLengthBuffer_def writeBool_def)

text \<open>A packed message starts with its public part, whatever key it was packed for.\<close>

lemma packed_public:
  assumes "core_env_ok env" and "entry_fits env data"
  shows "InboxEntriesDataEncryptorSerializer_unpackMessagePublicOnly env
    (InboxEntriesDataEncryptorSerializer_packMessage env data userPriv inboxPub) = (iem_publicData data, 0)"
proof -
  have "length (entry_public_bytes (iem_publicData data)) < 256"
    using assms(2) by (simp add: entry_fits_def length_entry_public_bytes)
  then show ?thesis
    using assms(2) base64_inverse [OF core_env_okD(7) [OF assms(1)]] read_entry_head_bytes [of "iem_publicData data"]
    by (simp add: InboxEntriesDataEncryptorSerializer_unpackMessagePublicOnly_def entry_fits_def Let_def
        InboxEntriesDataEncryptorSerializer_packMessage_def)
qed

lemma unpack_packed:
  assumes "core_env_ok env" and "entry_fits env data" and "ecc_getPublicKey (en_ecc env) inboxPub = ecc_getPublicKey (en_ecc env) inboxPriv"
  shows "unpack_entry env (InboxEntriesDataEncryptorSerializer_packMessage env data userPriv inboxPub) inboxPriv =
    Inr (iem_publicData data, iem_privateData data)"
proof -
  let ?p = "en_poco env" and ?priv = "iem_privateData data" and ?pub = "iem_publicData data"
  let ?key = "base64_from ?p (ier_filesMetaKey ?priv)"
  let ?plain = "writeOneOctetLengthBuffer (bytes_of ?key) @ ier_text ?priv"
  have short: "length (entry_public_bytes ?pub) < 256" "length ?key < 256" "length ?plain < 2 ^ 60"
    using assms(2) by (simp_all add: entry_fits_def length_entry_public_bytes writeOneOctetLengthBuffer_def)
  let ?cipher = "EciesEncryptor_encrypt (en_crypto env) (en_ecc env) inboxPub ?plain userPriv"
  have pack: "InboxEntriesDataEncryptorSerializer_packMessage env data userPriv inboxPub =
      base64_from ?p (writeOneOctetLengthBuffer (entry_public_bytes ?pub) @ ?cipher)"
    by (simp add: InboxEntriesDataEncryptorSerializer_packMessage_def EciesEncryptor_encrypt_def Let_def bytes_of_def)
  have dec: "EciesEncryptor_decrypt (en_crypto env) (en_ecc env) inboxPriv ?cipher None = Inr ?plain"
    using EciesEncryptor_inverse [OF core_env_okD(1) [OF assms(1)] core_env_okD(4) [OF assms(1)] assms(3) short(3), of userPriv None] by simp
  have pub: "read_entry_head (entry_public_bytes ?pub) = ?pub"
    by (rule read_entry_head_bytes) (use assms(2) in \<open>auto simp: entry_fits_def\<close>)
  show ?thesis
    using short base64_inverse [OF core_env_okD(7) [OF assms(1)]]
    by (simp add: unpack_entry_def pack dec pub)
qed

text \<open>What a reader gets of a message that the Bridge delivers with the packed text.\<close>

definition entry_key :: "'k connection \<Rightarrow> ModuleKeys \<Rightarrow> string \<Rightarrow> (exn, DecryptedEncKeyV2) result" where
  "entry_key c inboxKeys keyId =
     (let location = \<lparr>el_contextId = mk_contextId inboxKeys, el_resourceId = mk_moduleResourceId inboxKeys\<rparr> in
      bindR (keys_at c (KeyRequest_addOne (mk_keys inboxKeys) keyId location) location) (\<lambda>keys. unordered_map_at keys keyId))"

lemma read_inbox_entry_key:
  assumes "orig_message c message = Inr m" and "entry_key c inboxKeys (used_key_id (cn_env c) m) = Inr key"
    and "ecc_fromPrivateKey (en_ecc (cn_env c)) (ek_key key) = Inr priv"
  shows "decryptInboxEntry c message inboxKeys =
    (let d = InboxEntriesDataEncryptorSerializer_unpackMessage (cn_env c) (ims_message m) priv in
     \<lparr>ied_publicData = ied_publicData d, ied_privateData = ied_privateData d, ied_statusCode = k2_statusCode key,
      ier_storeId = ims_store m, ier_filesIds = ims_files m\<rparr>)"
  using assms by (simp add: decryptInboxEntry_def read_inbox_entry_def entry_key_def Let_def)

lemma packed_entry_read:
  assumes "core_env_ok (cn_env c)" and "entry_fits (cn_env c) data"
    and "ims_message m = InboxEntriesDataEncryptorSerializer_packMessage (cn_env c) data userPriv inboxPub"
    and "orig_message c message = Inr m" and "entry_key c inboxKeys (iep_usedInboxKeyId (iem_publicData data)) = Inr key"
    and "ecc_fromPrivateKey (en_ecc (cn_env c)) (ek_key key) = Inr priv"
    and "ecc_getPublicKey (en_ecc (cn_env c)) inboxPub = ecc_getPublicKey (en_ecc (cn_env c)) priv"
  shows "decryptInboxEntry c message inboxKeys =
    \<lparr>ied_publicData = iem_publicData data, ied_privateData = iem_privateData data, ied_statusCode = k2_statusCode key,
     ier_storeId = ims_store m, ier_filesIds = ims_files m\<rparr>"
proof -
  have "used_key_id (cn_env c) m = iep_usedInboxKeyId (iem_publicData data)"
    by (simp add: used_key_id_def assms(3) packed_public [OF assms(1,2)])
  then show ?thesis
    using read_inbox_entry_key [OF assms(4) _ assms(6)] assms(5) unpack_packed [OF assms(1,2,7), of userPriv]
    by (simp add: InboxEntriesDataEncryptorSerializer_unpackMessage_def assms(3) Let_def)
qed

subsection \<open>Sending\<close>

lemma entry_resource_id_returns:
  "entry_resource_id c userPrivKey h st = (Inr (cn_uuid c (as_draws st)), st\<lparr>as_draws := as_draws st + 2\<rparr>)"
  by (simp add: entry_resource_id_def bindS_def drawn_def drawing_def EndpointUtils_generateId_def ret_def
      ConnectionImpl_createPublicDIO_def ConnectionImpl_createDIOExt_def EndpointUtils_generateDIORandomId_def)

text \<open>The key an entry is signed for, and the entry that is packed.\<close>

definition sender_key :: "('k, 's, 'm) inbox_env \<Rightarrow> InboxHandle \<Rightarrow> (exn, 'k) result" where
  "sender_key x h = (case ih_userPrivKey h of
     Some wif \<Rightarrow> PrivateKey_fromWIF (en_crypto (ie_core x)) (en_ecc (ie_core x)) wif | None \<Rightarrow> Inr (cn_userPrivKey (ie_conn x)))"

definition entry_of :: "'k core_env \<Rightarrow> InboxHandle \<Rightarrow> 'k \<Rightarrow> string \<Rightarrow> InboxEntrySendModel" where
  "entry_of env h userPriv keyId =
     \<lparr>iem_publicData = \<lparr>iep_userPubKey = PublicKey_toBase58DER (en_crypto env) (en_ecc env) userPriv,
        iep_keyPreset = (ih_userPrivKey h \<noteq> None), iep_usedInboxKeyId = keyId\<rparr>,
      iem_privateData = \<lparr>ier_filesMetaKey = [], ier_text = ih_data h\<rparr>\<rparr>"

lemma sendEntry_without_files:
  assumes "iw_inboxHandles (as_server st) i = Some h" and "ih_inboxFileHandles h = []" and "sender_key x h = Inr userPriv"
    and "getInboxPublicViewData x (ih_inboxId h) st = (Inr v, st)"
    and "PublicKey_fromBase58DER (en_crypto (ie_core x)) (en_ecc (ie_core x)) (ivd_inboxEntriesPubKeyBase58DER v) = Inr pub"
  obtains r d where "sendEntry x i st = on_bridge (ib_inboxSend (ie_bridge x)
     \<lparr>ibs_inboxId = ih_inboxId h, ibs_resourceId = r, ibs_message = InboxEntriesDataEncryptorSerializer_packMessage (ie_core x)
        (entry_of (ie_core x) h userPriv (ivd_inboxEntriesKeyId v)) userPriv pub,
      ibs_requestId = None, ibs_files = [], ibs_version = 1\<rparr>) (st\<lparr>as_draws := d\<rparr>)"
proof -
  let ?r = "cn_uuid (ie_conn x) (as_draws st)" and ?d = "as_draws st + 2"
  note r = entry_resource_id_returns [of "ie_conn x" userPriv h st]
  have key: "(case ih_userPrivKey h of Some wif \<Rightarrow> liftR (PrivateKey_fromWIF (en_crypto (ie_core x)) (en_ecc (ie_core x)) wif)
      | None \<Rightarrow> ret (cn_userPrivKey (ie_conn x))) st = (Inr userPriv, st)"
    using assms(3) by (auto simp: sender_key_def liftR_def ret_def split: option.splits)
  have "sendEntry x i st = on_bridge (ib_inboxSend (ie_bridge x)
     \<lparr>ibs_inboxId = ih_inboxId h, ibs_resourceId = ?r, ibs_message = InboxEntriesDataEncryptorSerializer_packMessage (ie_core x)
        (entry_of (ie_core x) h userPriv (ivd_inboxEntriesKeyId v)) userPriv pub,
      ibs_requestId = None, ibs_files = [], ibs_version = 1\<rparr>) (st\<lparr>as_draws := ?d\<rparr>)"
    using assms(1,2,4,5) key r
    by (simp add: sendEntry_def Let_def bindS_def InboxHandleManager_getInboxHandle_def liftR_def ret_def entry_of_def)
  then show thesis by (rule that)
qed

text \<open>
  What an inbox's data keeps: packed in the present format it is unpacked with all its parts, and its
  public part also with another key for entries.
\<close>

definition public_of :: "'k core_env \<Rightarrow> InboxPublicDataToPack \<Rightarrow> 'k \<Rightarrow> InboxPublicServerDataV5" where
  "public_of env pub author =
     \<lparr>pu5_version = 5, pu5_publicMeta = DataEncryptorV4_signAndEncode env (ibk_publicMeta pub) author,
      pu5_publicMetaObject = public_object env (ibk_publicMeta pub),
      pu5_authorPubKey = PublicKey_toBase58DER (en_crypto env) (en_ecc env) author,
      pu5_inboxPubKey = ibk_inboxEntriesPubKeyBase58DER pub, pu5_inboxKeyId = ibk_inboxEntriesKeyId pub\<rparr>"

lemma public_json_object: "\<exists>ob. InboxPublicServerDataV5_toJSON e = JObject ob"
  by (simp add: InboxPublicServerDataV5_toJSON_def)

lemma private_json_object: "\<exists>ob. InboxPrivateServerDataV5_toJSON e = JObject ob"
  by (simp add: InboxPrivateServerDataV5_toJSON_def)

text \<open>Any key for entries, with any id, can stand beside genuine public data.\<close>

lemma unpackPublic_any_key:
  assumes "core_env_ok env" and "inboxKey \<noteq> []" and "keyId \<noteq> []"
  shows "InboxDataProcessorV5_unpackPublic env
      (InboxPublicServerDataV5_toJSON ((public_of env pub author)\<lparr>pu5_inboxPubKey := inboxKey, pu5_inboxKeyId := keyId\<rparr>)) =
    \<lparr>ibp_dataStructureVersion = 5, ibp_statusCode = 0, ibp_publicMeta = ibk_publicMeta pub,
     ibp_inboxEntriesPubKeyBase58DER = inboxKey, ibp_inboxEntriesKeyId = keyId,
     ibp_authorPubKey = PublicKey_toBase58DER (en_crypto env) (en_ecc env) author\<rparr>"
proof -
  let ?e = "(public_of env pub author)\<lparr>pu5_inboxPubKey := inboxKey, pu5_inboxKeyId := keyId\<rparr>"
  obtain p where p: "PublicKey_fromBase58DER (en_crypto env) (en_ecc env) (PublicKey_toBase58DER (en_crypto env) (en_ecc env) author) = Inr p"
      "same_key env p author"
    using PublicKey_base58_roundtrip [OF assms(1)] by blast
  obtain ob where ob: "InboxPublicServerDataV5_toJSON ?e = JObject ob" using public_json_object by blast
  have format: "assertDataFormat_public ?e = Inr ()"
    using assms signAndEncode_nonempty [OF assms(1), of "ibk_publicMeta pub" author]
    by (simp add: assertDataFormat_public_def public_of_def PublicKey_toBase58DER_def encodeWithChecksum_nonempty)
  have "InboxDataProcessorV5_unpackPublic env (InboxPublicServerDataV5_toJSON ?e) =
      catch_public (read_inbox_public env (pu5_authorPubKey ?e) (pu5_publicMeta ?e) (pu5_publicMetaObject ?e) inboxKey keyId) (InboxPublicData_new 5)"
    unfolding InboxDataProcessorV5_unpackPublic_def
    by (simp add: ob InboxPublicServerDataV5_roundtrip [OF ob] bindS_liftR format catch_public_def)
  also have "\<dots> = \<lparr>ibp_dataStructureVersion = 5, ibp_statusCode = 0, ibp_publicMeta = ibk_publicMeta pub,
     ibp_inboxEntriesPubKeyBase58DER = inboxKey, ibp_inboxEntriesKeyId = keyId,
     ibp_authorPubKey = PublicKey_toBase58DER (en_crypto env) (en_ecc env) author\<rparr>"
    using p(1) decodeAndVerify_signed [OF assms(1) p(2)] compare_public_object [of env "ibk_publicMeta pub"]
    by (simp add: public_of_def read_inbox_public_def bindS_def catch_public_def InboxPublicData_new_def)
  finally show ?thesis .
qed

lemma inbox_V5_integrity:
  assumes "core_env_ok env" and "dio_valid env k d" and "sm \<noteq> []"
  obtains t where "DIOEncryptorV1_signAndEncode env (expanded_dio d 5
      (alist_set ''internalMeta'' (sha256 (en_crypto env) (bytes_of im))
      (alist_set ''privateMeta'' (sha256 (en_crypto env) (bytes_of sm)) []))) k = Inr t"
    and "private_dio_and_integrity env
      \<lparr>pr5_version = 5, pr5_privateMeta = sm, pr5_internalMeta = im,
       pr5_authorPubKey = PublicKey_toBase58DER (en_crypto env) (en_ecc env) k, pr5_dio = t\<rparr> =
      Inr (d\<lparr>dio_bridgeIdentity := Some (case dio_bridgeIdentity d of Some b \<Rightarrow> b | None \<Rightarrow> en_uninit env)\<rparr>)"
proof -
  define sums where "sums = alist_set ''internalMeta'' (sha256 (en_crypto env) (bytes_of im))
      (alist_set ''privateMeta'' (sha256 (en_crypto env) (bytes_of sm)) [])"
  have sums: "ordered sums" "map_of sums ''privateMeta'' = Some (sha256 (en_crypto env) (bytes_of sm))"
    "map_of sums ''internalMeta'' = Some (sha256 (en_crypto env) (bytes_of im))"
    by (simp_all add: sums_def ordered_Cons)
  have wf: "dio_wf (expanded_dio d 5 sums)" by (rule dio_wf_expanded [OF assms(2) sums(1)]) simp_all
  have pk: "dio_creatorPubKey (expanded_dio d 5 sums) = PublicKey_toBase58DER (en_crypto env) (en_ecc env) k"
    using assms(2) by (simp add: dio_valid_def)
  obtain t where t: "DIOEncryptorV1_signAndEncode env (expanded_dio d 5 sums) k = Inr t" "t \<noteq> []"
      "DIOEncryptorV1_decodeAndVerify env t = Inr (read_back env (expanded_dio d 5 sums))"
    using DIO_roundtrip [OF assms(1) wf pk] unfolding read_back_def by blast
  show thesis
  proof (rule that)
    show "DIOEncryptorV1_signAndEncode env (expanded_dio d 5
      (alist_set ''internalMeta'' (sha256 (en_crypto env) (bytes_of im))
      (alist_set ''privateMeta'' (sha256 (en_crypto env) (bytes_of sm)) []))) k = Inr t"
      using t(1) by (simp only: sums_def)
    show "private_dio_and_integrity env
      \<lparr>pr5_version = 5, pr5_privateMeta = sm, pr5_internalMeta = im,
       pr5_authorPubKey = PublicKey_toBase58DER (en_crypto env) (en_ecc env) k, pr5_dio = t\<rparr> =
      Inr (d\<lparr>dio_bridgeIdentity := Some (case dio_bridgeIdentity d of Some b \<Rightarrow> b | None \<Rightarrow> en_uninit env)\<rparr>)"
      using assms(3) t(2) pk
      by (simp add: private_dio_and_integrity_def assertDataFormat_private_def
          PublicKey_toBase58DER_def encodeWithChecksum_nonempty t(3) unordered_map_at_def sums truncate_read_back)
  qed
qed

text \<open>Everything that can be read of the data of an inbox with its key.\<close>

lemma inbox_V5_roundtrip:
  assumes "core_env_ok env" and "dio_valid env k (ibm_dio m)" and "length key = 32"
    and "ibk_inboxEntriesPubKeyBase58DER (ibm_publicData m) \<noteq> []" and "ibk_inboxEntriesKeyId (ibm_publicData m) \<noteq> []"
    and d': "d' = (ibm_dio m)\<lparr>dio_bridgeIdentity := Some (case dio_bridgeIdentity (ibm_dio m) of Some b \<Rightarrow> b | None \<Rightarrow> en_uninit env)\<rparr>"
  obtains data ob where "InboxDataProcessorV5_packForServer env m k key draws = (Inr data, draws + 2)"
    and "ibd_meta data = JObject ob" and "\<And>p. VersionedData_fromJSON p ob = Inr 5"
    and "InboxDataProcessorV5_getDIOAndAssertIntegrity env data = Inr d'"
    and "InboxDataProcessorV5_unpackAll env data key =
      \<lparr>idr_statusCode = 0, idr_storeId = ibm_storeId m, idr_threadId = ibm_threadId m, idr_filesConfig = ibm_filesConfig m,
       idr_publicData = \<lparr>ibp_dataStructureVersion = 5, ibp_statusCode = 0, ibp_publicMeta = ibk_publicMeta (ibm_publicData m),
         ibp_inboxEntriesPubKeyBase58DER = ibk_inboxEntriesPubKeyBase58DER (ibm_publicData m),
         ibp_inboxEntriesKeyId = ibk_inboxEntriesKeyId (ibm_publicData m),
         ibp_authorPubKey = PublicKey_toBase58DER (en_crypto env) (en_ecc env) k\<rparr>,
       idr_privateData = \<lparr>ip5_dataStructureVersion = 5, ip5_statusCode = 0, ip5_privateMeta = ibm_privateMeta m,
         ip5_internalMeta = ibm_internalMeta m, ip5_dio = d',
         ip5_authorPubKey = PublicKey_toBase58DER (en_crypto env) (en_ecc env) k\<rparr>\<rparr>"
proof -
  let ?pub = "public_of env (ibm_publicData m) k" and ?key = "PublicKey_toBase58DER (en_crypto env) (en_ecc env) k"
  obtain p where p: "PublicKey_fromBase58DER (en_crypto env) (en_ecc env) ?key = Inr p" "same_key env p k"
    using PublicKey_base58_roundtrip [OF assms(1)] by blast
  let ?meta = "Utils_stringify (en_poco env) (InboxInternalMetaV5_toJSON (ibm_internalMeta m))"
  obtain sm where sm: "DataEncryptorV4_signAndEncryptAndEncode env (ibm_privateMeta m) k key draws = (Inr sm, draws + 1)"
      "DataEncryptorV4_decodeAndDecryptAndVerify env sm p key = Inr (ibm_privateMeta m)" "sm \<noteq> []"
    by (rule encrypted_roundtrip [OF assms(1) p(2) assms(3)])
  obtain im where im: "DataEncryptorV4_signAndEncryptAndEncode env ?meta k key (draws + 1) = (Inr im, draws + 1 + 1)"
      "DataEncryptorV4_decodeAndDecryptAndVerify env im p key = Inr ?meta"
    by (rule encrypted_roundtrip [OF assms(1) p(2) assms(3)])
  obtain t where t: "DIOEncryptorV1_signAndEncode env (expanded_dio (ibm_dio m) 5
      (alist_set ''internalMeta'' (sha256 (en_crypto env) (bytes_of im))
      (alist_set ''privateMeta'' (sha256 (en_crypto env) (bytes_of sm)) []))) k = Inr t"
    and int: "private_dio_and_integrity env \<lparr>pr5_version = 5, pr5_privateMeta = sm, pr5_internalMeta = im, pr5_authorPubKey = ?key, pr5_dio = t\<rparr> = Inr d'"
    unfolding d' by (rule inbox_V5_integrity [OF assms(1,2) sm(3)]) blast
  let ?priv = "\<lparr>pr5_version = 5, pr5_privateMeta = sm, pr5_internalMeta = im, pr5_authorPubKey = ?key, pr5_dio = t\<rparr>"
  let ?data = "\<lparr>ibd_threadId = ibm_threadId m, ibd_storeId = ibm_storeId m,
      ibd_fileConfig = InboxDataHelper_fileConfigToTypedObject (ibm_filesConfig m),
      ibd_meta = InboxPrivateServerDataV5_toJSON ?priv, ibd_publicData = InboxPublicServerDataV5_toJSON ?pub\<rparr>"
  obtain ob where ob: "InboxPrivateServerDataV5_toJSON ?priv = JObject ob" using private_json_object by blast
  have enc: "InboxDataProcessorV5_packForServer env m k key draws = (Inr ?data, draws + 2)"
    unfolding InboxDataProcessorV5_packForServer_def Let_def
    by (rule bindS_step, rule sm(1), rule bindS_step, rule im(1), unfold t) (simp add: bindS_liftR public_of_def)
  have pub: "InboxDataProcessorV5_unpackPublic env (InboxPublicServerDataV5_toJSON ?pub) =
      \<lparr>ibp_dataStructureVersion = 5, ibp_statusCode = 0, ibp_publicMeta = ibk_publicMeta (ibm_publicData m),
       ibp_inboxEntriesPubKeyBase58DER = ibk_inboxEntriesPubKeyBase58DER (ibm_publicData m),
       ibp_inboxEntriesKeyId = ibk_inboxEntriesKeyId (ibm_publicData m), ibp_authorPubKey = ?key\<rparr>"
    using unpackPublic_any_key [OF assms(1,4,5), of "ibm_publicData m" k] by (simp add: public_of_def)
  obtain mob where mob: "InboxInternalMetaV5_toJSON (ibm_internalMeta m) = JObject mob" by (simp add: InboxInternalMetaV5_toJSON_def)
  have "wf_json (JObject mob)" using wf_InboxInternalMetaV5 [of "ibm_internalMeta m"] by (simp add: mob)
  then have meta: "parseJsonObject (en_poco env) ?meta = Inr mob"
    using parse_stringify [OF core_env_okD(6) [OF assms(1)], of mob] by (simp add: mob)
  have deser: "deserialize_struct (InboxPrivateServerDataV5_fromJSON (en_poco env)) (InboxPrivateServerDataV5_toJSON ?priv) = Inr ?priv"
    using InboxPrivateServerDataV5_roundtrip [OF ob] by (simp add: ob)
  have priv: "InboxDataProcessorV5_unpackPrivate env ?data key =
      \<lparr>ip5_dataStructureVersion = 5, ip5_statusCode = 0, ip5_privateMeta = ibm_privateMeta m,
       ip5_internalMeta = ibm_internalMeta m, ip5_dio = d', ip5_authorPubKey = ?key\<rparr>"
    by (simp add: InboxDataProcessorV5_unpackPrivate_def read_inbox_private_def deser bindS_liftR int p(1) sm(2) im(2) meta
        InboxInternalMetaV5_roundtrip [OF mob] InboxPrivateDataV5_new_def) (simp add: bindS_def p(1) sm(2) im(2) meta liftR_def InboxInternalMetaV5_roundtrip [OF mob])
  show thesis
  proof (rule that [OF enc])
    show "ibd_meta ?data = JObject ob" by (simp add: ob)
    show "VersionedData_fromJSON p ob = Inr 5" for p using InboxPrivateServerDataV5_version [OF ob, of p] by simp
    show "InboxDataProcessorV5_getDIOAndAssertIntegrity env ?data = Inr d'"
      by (simp add: InboxDataProcessorV5_getDIOAndAssertIntegrity_def deser int)
  qed (simp add: InboxDataProcessorV5_unpackAll_def pub priv Let_def)
qed

text \<open>
  From the public data that the Bridge serves of an inbox to the entry that somebody reads: entries arrive;
  a Bridge that replaces the key for entries reads them itself; and what is shown of an entry can be made up by
  its sender.
\<close>

subsection \<open>The public data that is served\<close>

definition serves_public :: "('k, 's, 'm) inbox_env \<Rightarrow> string \<Rightarrow> InboxPublicServerDataV5 \<Rightarrow> 's \<Rightarrow> bool" where
  "serves_public x inboxId e s \<longleftrightarrow>
     (\<exists>version. ib_inboxGetPublicView (ie_bridge x) \<lparr>ibg_id = inboxId, ibg_type = None\<rparr> s =
        Inr \<lparr>ipv_inboxId = inboxId, ipv_version = version, ipv_publicData = InboxPublicServerDataV5_toJSON e\<rparr>)"

abbreviation with_entry_key :: "'k core_env \<Rightarrow> 'k \<Rightarrow> string \<Rightarrow> InboxPublicServerDataV5 \<Rightarrow> InboxPublicServerDataV5" where
  "with_entry_key env k keyId e \<equiv> e\<lparr>pu5_inboxPubKey := PublicKey_toBase58DER (en_crypto env) (en_ecc env) k, pu5_inboxKeyId := keyId\<rparr>"

lemma getInboxPublicViewData_any_key:
  assumes "core_env_ok (ie_core x)" and "keyId \<noteq> []"
    and "serves_public x inboxId (with_entry_key (ie_core x) k keyId (public_of (ie_core x) pub author)) (iw_server (as_server st))"
  obtains v where "getInboxPublicViewData x inboxId st = (Inr v, st)" and "ivd_statusCode v = 0"
    and "ivd_publicMeta v = ibk_publicMeta pub"
    and "ivd_authorPubKey v = PublicKey_toBase58DER (en_crypto (ie_core x)) (en_ecc (ie_core x)) author"
    and "ivd_inboxEntriesPubKeyBase58DER v = PublicKey_toBase58DER (en_crypto (ie_core x)) (en_ecc (ie_core x)) k"
    and "ivd_inboxEntriesKeyId v = keyId"
proof -
  let ?k = "PublicKey_toBase58DER (en_crypto (ie_core x)) (en_ecc (ie_core x)) k"
  let ?e = "with_entry_key (ie_core x) k keyId (public_of (ie_core x) pub author)"
  obtain version where served: "ib_inboxGetPublicView (ie_bridge x) \<lparr>ibg_id = inboxId, ibg_type = None\<rparr> (iw_server (as_server st)) =
        Inr \<lparr>ipv_inboxId = inboxId, ipv_version = version, ipv_publicData = InboxPublicServerDataV5_toJSON ?e\<rparr>"
    using assms(3) by (auto simp: serves_public_def)
  obtain ob where ob: "InboxPublicServerDataV5_toJSON ?e = JObject ob" using public_json_object by blast
  have five: "pu5_version ?e = 5" by (simp add: public_of_def)
  have "?k \<noteq> []" by (simp add: PublicKey_toBase58DER_def encodeWithChecksum_nonempty)
  note unpacked = unpackPublic_any_key [OF assms(1) this assms(2), of pub author, unfolded ob]
  have "getInboxPublicViewData x inboxId st =
      (Inr (public_view \<lparr>ipv_inboxId = inboxId, ipv_version = version, ipv_publicData = JObject ob\<rparr>
        (InboxDataProcessorV5_unpackPublic (ie_core x) (JObject ob))), st)"
    using InboxPublicServerDataV5_version [OF ob, of "en_poco (ie_core x)"] five
    by (simp add: getInboxPublicViewData_def ask_bridge_def served bindS_def ob liftR_def ret_def)
  then show thesis by (rule that) (simp_all add: unpacked public_view_def)
qed

subsection \<open>An entry that is sent for a key\<close>

lemma entry_sent_for_key:
  assumes "core_env_ok (ie_core x)" and "keyId \<noteq> []"
    and "serves_public x (ih_inboxId h) (with_entry_key (ie_core x) k keyId (public_of (ie_core x) pub author)) (iw_server (as_server st))"
    and "iw_inboxHandles (as_server st) i = Some h" and "ih_inboxFileHandles h = []" and "sender_key x h = Inr userPriv"
  obtains m d p where "sendEntry x i st = on_bridge (ib_inboxSend (ie_bridge x) m) (st\<lparr>as_draws := d\<rparr>)" and "ibs_inboxId m = ih_inboxId h"
    and "ibs_message m = InboxEntriesDataEncryptorSerializer_packMessage (ie_core x) (entry_of (ie_core x) h userPriv keyId) userPriv p"
    and "ecc_getPublicKey (en_ecc (ie_core x)) p = ecc_getPublicKey (en_ecc (ie_core x)) k"
proof -
  obtain v where v: "getInboxPublicViewData x (ih_inboxId h) st = (Inr v, st)"
      "ivd_inboxEntriesPubKeyBase58DER v = PublicKey_toBase58DER (en_crypto (ie_core x)) (en_ecc (ie_core x)) k" "ivd_inboxEntriesKeyId v = keyId"
    by (rule getInboxPublicViewData_any_key [OF assms(1-3)])
  obtain p where p: "PublicKey_fromBase58DER (en_crypto (ie_core x)) (en_ecc (ie_core x)) (ivd_inboxEntriesPubKeyBase58DER v) = Inr p"
      "same_key (ie_core x) p k"
    using PublicKey_base58_roundtrip [OF assms(1), of k] v(2) by auto
  show thesis
  proof (rule sendEntry_without_files [OF assms(4-6) v(1) p(1)])
    fix r d
    assume "sendEntry x i st = on_bridge (ib_inboxSend (ie_bridge x)
       \<lparr>ibs_inboxId = ih_inboxId h, ibs_resourceId = r, ibs_message = InboxEntriesDataEncryptorSerializer_packMessage (ie_core x)
          (entry_of (ie_core x) h userPriv (ivd_inboxEntriesKeyId v)) userPriv p,
        ibs_requestId = None, ibs_files = [], ibs_version = 1\<rparr>) (st\<lparr>as_draws := d\<rparr>)"
    then show thesis by (rule that [of _ _ p]) (use p(2) in \<open>simp_all add: v(3) same_key_def\<close>)
  qed
qed

text \<open>A message of the thread that carries an entry, and the key the reader finds for it.\<close>

definition entry_delivered :: "'k connection \<Rightarrow> ServerMessage \<Rightarrow> ModuleKeys \<Rightarrow> string \<Rightarrow> string \<Rightarrow> DecryptedEncKeyV2 \<Rightarrow> bool" where
  "entry_delivered c message inboxKeys packed keyId key \<longleftrightarrow>
     (\<exists>im. orig_message c message = Inr im \<and> ims_message im = packed) \<and> entry_key c inboxKeys keyId = Inr key"

lemma delivered_entry_read:
  assumes "core_env_ok (cn_env c)" and "entry_fits (cn_env c) data"
    and "entry_delivered c message inboxKeys (InboxEntriesDataEncryptorSerializer_packMessage (cn_env c) data userPriv inboxPub)
      (iep_usedInboxKeyId (iem_publicData data)) key"
    and "ecc_fromPrivateKey (en_ecc (cn_env c)) (ek_key key) = Inr priv"
    and "ecc_getPublicKey (en_ecc (cn_env c)) inboxPub = ecc_getPublicKey (en_ecc (cn_env c)) priv"
  shows "\<exists>s fs. decryptInboxEntry c message inboxKeys =
    \<lparr>ied_publicData = iem_publicData data, ied_privateData = iem_privateData data, ied_statusCode = k2_statusCode key,
     ier_storeId = s, ier_filesIds = fs\<rparr>"
  using assms(3) packed_entry_read [OF assms(1,2) _ _ _ assms(4,5)] unfolding entry_delivered_def by blast

text \<open>
  C23. Entries arrive. The Bridge serves the public data of an inbox as its author packed it, with the public key of a
  private key. Sending an entry without files makes one request, for that inbox, and everybody who
  reads a message that carries it with a key of status 0 that holds that private key gets the text and the
  public key of the sender with status 0.
\<close>

theorem inbox_entry_received:
  assumes "core_env_ok (ie_core x)" and "keyId \<noteq> []"
    and "serves_public x (ih_inboxId h) (with_entry_key (ie_core x) priv keyId (public_of (ie_core x) pub author)) (iw_server (as_server st))"
    and "iw_inboxHandles (as_server st) i = Some h" and "ih_inboxFileHandles h = []" and "sender_key x h = Inr userPriv"
    and "entry_fits (ie_core x) (entry_of (ie_core x) h userPriv keyId)"
  shows "\<exists>m d. sendEntry x i st = on_bridge (ib_inboxSend (ie_bridge x) m) (st\<lparr>as_draws := d\<rparr>) \<and> ibs_inboxId m = ih_inboxId h \<and>
    (\<forall>c message inboxKeys key. cn_env c = ie_core x \<and> entry_delivered c message inboxKeys (ibs_message m) keyId key \<and> k2_statusCode key = 0 \<and>
       ecc_fromPrivateKey (en_ecc (ie_core x)) (ek_key key) = Inr priv \<longrightarrow>
       (\<exists>r. decryptInboxEntry c message inboxKeys = r \<and> ied_statusCode r = 0 \<and> ier_text (ied_privateData r) = ih_data h \<and>
          iep_userPubKey (ied_publicData r) = PublicKey_toBase58DER (en_crypto (ie_core x)) (en_ecc (ie_core x)) userPriv))"
proof -
  obtain m d p where m: "sendEntry x i st = on_bridge (ib_inboxSend (ie_bridge x) m) (st\<lparr>as_draws := d\<rparr>)" "ibs_inboxId m = ih_inboxId h"
      "ibs_message m = InboxEntriesDataEncryptorSerializer_packMessage (ie_core x) (entry_of (ie_core x) h userPriv keyId) userPriv p"
      "ecc_getPublicKey (en_ecc (ie_core x)) p = ecc_getPublicKey (en_ecc (ie_core x)) priv"
    by (rule entry_sent_for_key [OF assms(1-6)])
  show ?thesis
  proof (rule exI [of _ m], rule exI [of _ d], intro conjI allI impI, rule m(1), rule m(2), elim conjE)
    fix c :: "'a connection" and message inboxKeys key
    assume c: "cn_env c = ie_core x" and del: "entry_delivered c message inboxKeys (ibs_message m) keyId key" "k2_statusCode key = 0"
      "ecc_fromPrivateKey (en_ecc (ie_core x)) (ek_key key) = Inr priv"
    have "\<exists>s fs. decryptInboxEntry c message inboxKeys =
      \<lparr>ied_publicData = iem_publicData (entry_of (ie_core x) h userPriv keyId), ied_privateData = iem_privateData (entry_of (ie_core x) h userPriv keyId),
       ied_statusCode = k2_statusCode key, ier_storeId = s, ier_filesIds = fs\<rparr>"
      by (rule delivered_entry_read [where priv = priv and userPriv = userPriv and inboxPub = p])
        (use assms(1,7) del m(3,4) in \<open>simp_all add: c\<close>, simp_all add: entry_of_def)
    then show "\<exists>r. decryptInboxEntry c message inboxKeys = r \<and> ied_statusCode r = 0 \<and> ier_text (ied_privateData r) = ih_data h \<and>
          iep_userPubKey (ied_publicData r) = PublicKey_toBase58DER (en_crypto (ie_core x)) (en_ecc (ie_core x)) userPriv"
      by (auto simp: del(2) entry_of_def)
  qed
qed

text \<open>
  C24. The key for entries is not covered by any signature. When the Bridge serves the genuine public data
  of an inbox with another key and key id, the view has status 0, the genuine public meta data and the
  genuine author, and an entry that is then sent can be read with the private key of whoever made the key up.
\<close>

theorem inbox_entry_key_replaced:
  assumes "core_env_ok (ie_core x)" and "keyId \<noteq> []"
    and "serves_public x (ih_inboxId h) (with_entry_key (ie_core x) attacker keyId (public_of (ie_core x) pub author)) (iw_server (as_server st))"
    and "iw_inboxHandles (as_server st) i = Some h" and "ih_inboxFileHandles h = []" and "sender_key x h = Inr userPriv"
    and "entry_fits (ie_core x) (entry_of (ie_core x) h userPriv keyId)"
  shows "\<exists>v m d e. getInboxPublicViewData x (ih_inboxId h) st = (Inr v, st) \<and> ivd_statusCode v = 0 \<and> ivd_publicMeta v = ibk_publicMeta pub \<and>
    ivd_authorPubKey v = PublicKey_toBase58DER (en_crypto (ie_core x)) (en_ecc (ie_core x)) author \<and>
    sendEntry x i st = on_bridge (ib_inboxSend (ie_bridge x) m) (st\<lparr>as_draws := d\<rparr>) \<and>
    unpack_entry (ie_core x) (ibs_message m) attacker = Inr e \<and> ier_text (snd e) = ih_data h"
proof -
  obtain v where v: "getInboxPublicViewData x (ih_inboxId h) st = (Inr v, st)" "ivd_statusCode v = 0" "ivd_publicMeta v = ibk_publicMeta pub"
      "ivd_authorPubKey v = PublicKey_toBase58DER (en_crypto (ie_core x)) (en_ecc (ie_core x)) author"
    by (rule getInboxPublicViewData_any_key [OF assms(1-3)])
  obtain m d p where m: "sendEntry x i st = on_bridge (ib_inboxSend (ie_bridge x) m) (st\<lparr>as_draws := d\<rparr>)"
      "ibs_message m = InboxEntriesDataEncryptorSerializer_packMessage (ie_core x) (entry_of (ie_core x) h userPriv keyId) userPriv p"
      "ecc_getPublicKey (en_ecc (ie_core x)) p = ecc_getPublicKey (en_ecc (ie_core x)) attacker"
    by (rule entry_sent_for_key [OF assms(1-6)])
  have "unpack_entry (ie_core x) (ibs_message m) attacker =
      Inr (iem_publicData (entry_of (ie_core x) h userPriv keyId), iem_privateData (entry_of (ie_core x) h userPriv keyId))"
    unfolding m(2) by (rule unpack_packed [OF assms(1,7) m(3)])
  with v m(1) show ?thesis
    by (intro exI [of _ v] exI [of _ m] exI [of _ d] exI [of _ "(iem_publicData (entry_of (ie_core x) h userPriv keyId), iem_privateData (entry_of (ie_core x) h userPriv keyId))"])
      (simp add: entry_of_def)
qed

subsection \<open>What is shown of an entry\<close>

lemma entry_without_files_shown:
  assumes "readInboxIdFromMessageKeyId (sm_keyId message) = Inr inboxId" and "ied_statusCode r = 0"
    and "ib_storeFileGetMany (ie_bridge x) \<lparr>fgm_storeId = ier_storeId r, fgm_fileIds = ier_filesIds r, fgm_failOnError = False\<rparr>
      (iw_server (as_server st)) = Inr []"
  shows "convertInboxEntry x message r st =
    (Inr \<lparr>lie_entryId = sm_id message, lie_inboxId = inboxId, lie_data = ier_text (ied_privateData r), lie_files = [],
       lie_authorPubKey = iep_userPubKey (ied_publicData r), lie_createDate = sm_createDate message,
       lie_statusCode = 0, lie_schemaVersion = 1\<rparr>, st)"
  using assms by (simp add: convertInboxEntry_def bindS_def ask_bridge_def entry_files_def liftR_def ret_def)

text \<open>
  C25. The author shown with an entry is a claim. Whoever packs an entry for the key of an inbox may put any text in the place
  of the sender's public key, whatever key the entry is encrypted with; a reader is shown that text as the
  author, with the entry's data and status 0.
\<close>

theorem inbox_entry_author_forged:
  assumes "core_env_ok (ie_core x)" and "entry_fits (ie_core x) data"
    and "entry_delivered (ie_conn x) message inboxKeys (InboxEntriesDataEncryptorSerializer_packMessage (ie_core x) data forger inboxPub)
      (iep_usedInboxKeyId (iem_publicData data)) key"
    and "k2_statusCode key = 0" and "ecc_fromPrivateKey (en_ecc (ie_core x)) (ek_key key) = Inr priv"
    and "ecc_getPublicKey (en_ecc (ie_core x)) inboxPub = ecc_getPublicKey (en_ecc (ie_core x)) priv"
    and "readInboxIdFromMessageKeyId (sm_keyId message) = Inr inboxId"
    and "\<And>model. ib_storeFileGetMany (ie_bridge x) model (iw_server (as_server st)) = Inr []"
  shows "\<exists>r. decryptAndConvertInboxEntryDataToInboxEntry x message inboxKeys st = (Inr r, st) \<and>
    lie_authorPubKey r = iep_userPubKey (iem_publicData data) \<and> lie_data r = ier_text (iem_privateData data) \<and> lie_statusCode r = 0"
proof -
  obtain s fs where "decryptInboxEntry (ie_conn x) message inboxKeys =
      \<lparr>ied_publicData = iem_publicData data, ied_privateData = iem_privateData data, ied_statusCode = k2_statusCode key, ier_storeId = s, ier_filesIds = fs\<rparr>"
    using delivered_entry_read [OF assms(1-3,5,6)] by blast
  then show ?thesis
    using assms(4) entry_without_files_shown [OF assms(7) _ assms(8)] by (simp add: decryptAndConvertInboxEntryDataToInboxEntry_def)
qed

text \<open>
  C26. A damaged entry is shown as an empty one without error. When the reader has the key that the entry names, with
  status 0, and the entry's content cannot be unpacked with it, \<open>unpackMessage\<close> reports the failure as a status other than 0,
  but \<open>decryptInboxEntry\<close> puts the status of the key in its place: the entry is shown with no author, no data and no
  files and with status 0, when the Bridge has no files for it.
\<close>

theorem inbox_unreadable_entry_shown:
  assumes "orig_message (ie_conn x) message = Inr im" and "entry_key (ie_conn x) inboxKeys (used_key_id (ie_core x) im) = Inr key"
    and "k2_statusCode key = 0" and "ecc_fromPrivateKey (en_ecc (ie_core x)) (ek_key key) = Inr priv"
    and "unpack_entry (ie_core x) (ims_message im) priv = Inl e"
    and "readInboxIdFromMessageKeyId (sm_keyId message) = Inr inboxId"
    and "ib_storeFileGetMany (ie_bridge x) \<lparr>fgm_storeId = ims_store im, fgm_fileIds = ims_files im, fgm_failOnError = False\<rparr>
      (iw_server (as_server st)) = Inr []"
  shows "ied_statusCode (InboxEntriesDataEncryptorSerializer_unpackMessage (ie_core x) (ims_message im) priv) \<noteq> 0 \<and>
    (\<exists>r. decryptAndConvertInboxEntryDataToInboxEntry x message inboxKeys st = (Inr r, st) \<and>
      lie_authorPubKey r = [] \<and> lie_data r = [] \<and> lie_files r = [] \<and> lie_statusCode r = 0)"
proof -
  let ?r = "(getEmptyResultWithStatusCode 0)\<lparr>ier_storeId := ims_store im, ier_filesIds := ims_files im\<rparr>"
  have unpacked: "InboxEntriesDataEncryptorSerializer_unpackMessage (ie_core x) (ims_message im) priv =
      \<lparr>ied_publicData = empty_entry_public, ied_privateData = empty_entry_private, ied_statusCode = status_of e\<rparr>"
    using assms(5) by (simp add: InboxEntriesDataEncryptorSerializer_unpackMessage_def)
  then have "decryptInboxEntry (ie_conn x) message inboxKeys = ?r"
    using read_inbox_entry_key [OF assms(1,2,4)] assms(3) by (simp add: getEmptyResultWithStatusCode_def)
  moreover have "ib_storeFileGetMany (ie_bridge x)
      \<lparr>fgm_storeId = ier_storeId ?r, fgm_fileIds = ier_filesIds ?r, fgm_failOnError = False\<rparr> (iw_server (as_server st)) = Inr []"
    "ied_statusCode ?r = 0"
    using assms(7) by (simp_all add: getEmptyResultWithStatusCode_def)
  ultimately show ?thesis
    using entry_without_files_shown [OF assms(6), of ?r x st] unpacked
    by (simp add: decryptAndConvertInboxEntryDataToInboxEntry_def getEmptyResultWithStatusCode_def empty_entry_private_def
        empty_entry_public_def)
qed

end
