(* ===== verification/Inbox_Sample.thy ===== *)
theory Inbox_Sample
  imports Inbox_Properties Store_Sample
begin

text \<open>
  The properties of inboxes on the sample connection: a Bridge serves the public data of one inbox and records the
  entries it is sent; the user with key 5 sends and reads, the key 7 is an intruder's.
\<close>

subsection \<open>Short keys\<close>

lemma length_digits_58: "n < 32 ^ k \<Longrightarrow> length (digits_of 58 n) \<le> k"
proof (induction k arbitrary: n)
  case (Suc k)
  show ?case
  proof (cases "n = 0")
    case False
    have "n div 58 < 32 ^ k" using Suc.prems by (simp add: less_mult_imp_div_less)
    from Suc.IH [OF this] False show ?thesis by (subst digits_of.simps) simp
  qed simp
qed simp

lemma mpz_import_less: "mpz_import s < 256 ^ length s"
proof (induction s rule: rev_induct)
  case (snoc b s)
  have "unat b < 256" using unsigned_less [where 'b = 8 and 'a = nat, of b] by simp
  with snoc show ?case by (simp add: mpz_import_def)
qed (simp add: mpz_import_def)

lemma length_Base58_encode: "length (Base58_encode s) \<le> Suc (3 * length s)"
proof -
  have "(256 :: nat) ^ length s \<le> 32 ^ (2 * length s)"
    by (simp add: power_mult power_mono)
  then have "mpz_import s < 32 ^ (2 * length s)" using mpz_import_less [of s] by (rule less_le_trans [rotated])
  then have "length (digits_of 58 (mpz_import s)) \<le> 2 * length s" by (rule length_digits_58)
  moreover have "count_first 0 s \<le> length s" by (simp add: count_first_def length_takeWhile_le)
  ultimately show ?thesis by (simp add: Base58_encode_def gmp2bitcoin_def get_str_def Let_def)
qed

lemma length_sample_pub: "length (PublicKey_toBase58DER sample_crypto sample_ecc k) \<le> 112"
  using length_Base58_encode [of "ecc_getPublicKey sample_ecc k @ take 4 (sha256 sample_crypto (sha256 sample_crypto (ecc_getPublicKey sample_ecc k)))"]
  by (simp add: PublicKey_toBase58DER_def Base58_encodeWithChecksum_def sample_ecc_def)

subsection \<open>A Bridge with one inbox\<close>

definition sample_public :: InboxPublicDataToPack where
  "sample_public = \<lparr>ibk_publicMeta = [1, 2], ibk_inboxEntriesPubKeyBase58DER = ''k'', ibk_inboxEntriesKeyId = ''k''\<rparr>"

definition sample_inbox_bridge :: "byte \<Rightarrow> string \<Rightarrow> InboxSendModel list inbox_bridge" where
  "sample_inbox_bridge k keyId =
     \<lparr>ib_inboxCreate = (\<lambda>m s. (Inr ''b'', s)), ib_inboxUpdate = (\<lambda>m s. (Inr (), s)), ib_inboxGet = (\<lambda>m s. Inl StdOutOfRange),
      ib_inboxGetPublicView = (\<lambda>m s. Inr \<lparr>ipv_inboxId = ''b'', ipv_version = 1,
        ipv_publicData = InboxPublicServerDataV5_toJSON (with_entry_key sample_core_env k keyId (public_of sample_core_env sample_public 5))\<rparr>),
      ib_inboxList = (\<lambda>m s. Inr ([], 0)), ib_inboxSend = (\<lambda>m s. (Inr (), s @ [m])), ib_inboxDelete = (\<lambda>i s. (Inr (), s)),
      ib_storeFileGetMany = (\<lambda>m s. Inr [])\<rparr>"

definition empty_store_bridge :: "'s store_bridge" where
  "empty_store_bridge =
     \<lparr>sb_storeCreate = (\<lambda>m s. (Inl StdOutOfRange, s)), sb_storeUpdate = (\<lambda>m s. (Inl StdOutOfRange, s)),
      sb_storeDelete = (\<lambda>m s. (Inl StdOutOfRange, s)), sb_storeGet = (\<lambda>m s. Inl StdOutOfRange), sb_storeList = (\<lambda>m s. Inr ([], 0)),
      sb_storeFileGet = (\<lambda>m s. Inl StdOutOfRange), sb_storeFileList = (\<lambda>m s. Inl StdOutOfRange),
      sb_storeFileCreate = (\<lambda>m s. (Inl StdOutOfRange, s)), sb_storeFileWrite = (\<lambda>m s. (Inl StdOutOfRange, s)),
      sb_storeFileUpdate = (\<lambda>m s. (Inl StdOutOfRange, s)), sb_storeFileDelete = (\<lambda>m s. (Inl StdOutOfRange, s))\<rparr>"

definition empty_thread_server :: "'s thread_server" where
  "empty_thread_server =
     \<lparr>st_threadCreate = (\<lambda>m s. (Inl StdOutOfRange, s)), st_threadUpdate = (\<lambda>m s. (Inl StdOutOfRange, s)),
      st_threadDelete = (\<lambda>i s. (Inl StdOutOfRange, s)), st_threadGet = (\<lambda>m s. (Inl StdOutOfRange, s)),
      st_threadList = (\<lambda>m s. (Inr ([], 0), s)), st_threadMessageSend = (\<lambda>m s. (Inl StdOutOfRange, s)),
      st_threadMessageDelete = (\<lambda>i s. (Inl StdOutOfRange, s)), st_threadMessageGet = (\<lambda>i s. (Inl StdOutOfRange, s)),
      st_threadMessagesGet = (\<lambda>m s. (Inl StdOutOfRange, s)), st_threadMessageUpdate = (\<lambda>m s. (Inl StdOutOfRange, s))\<rparr>"

definition sample_inbox_env :: "byte \<Rightarrow> string \<Rightarrow> (byte, InboxSendModel list, json) inbox_env" where
  "sample_inbox_env k keyId =
     \<lparr>ie_stores = sample_store_api, ie_bridge = sample_inbox_bridge k keyId, ie_store_bridge = empty_store_bridge,
      ie_thread_bridge = empty_thread_server, ie_requests = \<lparr>rq_createRequest = (\<lambda>m s. (Inl StdOutOfRange, s)),
        rq_sendChunk = (\<lambda>m s. (Inl StdOutOfRange, s)), rq_commitFile = (\<lambda>m s. (Inl StdOutOfRange, s))\<rparr>,
      ie_file_server = \<lparr>storeFileRead = (\<lambda>m s. Inl StdOutOfRange), storeFileWrite = (\<lambda>m s. (Inl StdOutOfRange, s))\<rparr>,
      ie_serverRequestChunkSize = 4, ie_convert = (\<lambda>j. Inl StdOutOfRange)\<rparr>"

definition sample_inbox_handle :: InboxHandle where
  "sample_inbox_handle =
     \<lparr>ih_id = 1, ih_inboxId = ''b'', ih_inboxResourceId = [], ih_data = [8, 9], ih_inboxFileHandles = [], ih_userPrivKey = None\<rparr>"

definition sample_inbox_state :: "InboxSendModel list inbox_state" where
  "sample_inbox_state =
     \<lparr>as_cache = ContainerKeyCache_new, as_draws = 0, as_server = \<lparr>iw_server = [], iw_storeCache = ContainerKeyCache_new,
        iw_threadCache = ContainerKeyCache_new, iw_handleManager = HandleManager_new, iw_files = Map.empty, iw_released = Map.empty,
        iw_inboxHandles = [1 \<mapsto> sample_inbox_handle], iw_fileHandlesUsedByInboxHandles = [], iw_threadIdToInboxId = []\<rparr>,
      as_events = [], as_subscriptions = []\<rparr>"

lemma sample_inbox_sel [simp]:
  "ie_stores (sample_inbox_env k keyId) = sample_store_api" "ie_bridge (sample_inbox_env k keyId) = sample_inbox_bridge k keyId"
  "ih_inboxId sample_inbox_handle = ''b''" "ih_data sample_inbox_handle = [8, 9]" "ih_inboxFileHandles sample_inbox_handle = []"
  "iw_inboxHandles (as_server sample_inbox_state) 1 = Some sample_inbox_handle"
  "sender_key (sample_inbox_env k keyId) sample_inbox_handle = Inr 5"
  "ib_storeFileGetMany (sample_inbox_bridge k keyId) model s = Inr []"
  by (simp_all add: sample_inbox_env_def sample_inbox_handle_def sample_inbox_state_def sender_key_def sample_inbox_bridge_def sample_connection_def)

lemma sample_serves:
  "serves_public (sample_inbox_env k keyId) ''b'' (with_entry_key sample_core_env k keyId (public_of sample_core_env sample_public 5)) s"
  by (simp add: serves_public_def sample_inbox_bridge_def)

lemma sample_entry_fits: "length keyId = 32 \<Longrightarrow> entry_fits sample_core_env (entry_of sample_core_env sample_inbox_handle 5 keyId)"
  using length_sample_pub [of 5]
  by (simp add: entry_fits_def entry_of_def sample_core_env_def sample_poco_def text_of_def)

subsection \<open>Messages with entries\<close>

definition entry_message_json :: "string \<Rightarrow> (string \<times> json) list" where
  "entry_message_json packed =
     json_put ''message'' (JString packed) (json_put ''store'' (JString ''s'') (json_put ''files'' (JArray []) (json_put ''version'' (JInt 1) [])))"

definition sample_entry_message :: "string \<Rightarrow> ServerMessage" where
  "sample_entry_message packed =
     \<lparr>sm_id = ''i'', sm_resourceId = ''r'', sm_version = 1, sm_contextId = ''c'', sm_threadId = ''t'', sm_createDate = 0,
      sm_author = ''u'', sm_data = JString (text_of (Utils_stringify sample_poco (JObject (entry_message_json packed)))),
      sm_keyId = ''<inbox-b>'', sm_updates = []\<rparr>"

lemma sample_orig_message:
  "orig_message (sample_connection 5) (sample_entry_message packed) =
    Inr \<lparr>ims_message = packed, ims_store = ''s'', ims_files = [], ims_version = 1\<rparr>"
proof -
  have p: "en_poco sample_core_env = sample_poco" "base64_to sample_poco s = Inr (bytes_of s)" for s
    by (simp_all add: sample_core_env_def sample_poco_def)
  have "wf_json (JObject (entry_message_json packed))" unfolding entry_message_json_def by (intro wf_json_put) simp_all
  from parse_stringify [OF sample_poco_ok(1) this] show ?thesis
    by (simp add: orig_message_def json_to_string_def sample_entry_message_def unpackInboxOrigMessage_def p InboxMessageServer_fromJSON_def)
      (simp add: entry_message_json_def)
qed

lemma sample_message_key_id: "readInboxIdFromMessageKeyId (sm_keyId (sample_entry_message packed)) = Inr ''b''"
  by (simp add: sample_entry_message_def) code_simp

lemma sample_entry_key:
  obtains es key priv where "entry_key (sample_connection 5) (sample_module_keys es) (es_keyId es) = Inr key" and "k2_statusCode key = 0"
    and "ecc_fromPrivateKey (en_ecc sample_core_env) (ek_key key) = Inr priv" and "length (es_keyId es) = 32"
proof -
  obtain es k where k: "getAndValidateModuleCurrentEncKey (sample_connection 5) (sample_module_keys es) = Inr k" "checkable k"
      "KeyIdFormatValidator_hasDefaultKeyIdFormat (es_keyId es)"
    by (rule sample_current_key)
  show thesis
  proof (rule that)
    show "entry_key (sample_connection 5) (sample_module_keys es) (es_keyId es) = Inr k"
      using k(1) by (simp add: entry_key_def getAndValidateModuleCurrentEncKey_def Let_def)
    show "k2_statusCode k = 0" using k(2) by (simp add: checkable_def)
    show "ecc_fromPrivateKey (en_ecc sample_core_env) (ek_key k) = Inr (last (ek_key k))" by (simp add: sample_core_env_def sample_ecc_def)
    show "length (es_keyId es) = 32" using k(3) by (simp add: KeyIdFormatValidator_hasDefaultKeyIdFormat_def)
  qed
qed

subsection \<open>Witnesses\<close>

text \<open>The entry a call sends reaches the sample Bridge.\<close>

lemma sample_sent:
  "on_bridge (ib_inboxSend (sample_inbox_bridge k keyId) m) (sample_inbox_state\<lparr>as_draws := d\<rparr>) =
    (Inr (), on_world (iw_server_update (\<lambda>_. [m])) (sample_inbox_state\<lparr>as_draws := d\<rparr>))"
  by (simp add: on_bridge_def sample_inbox_bridge_def sample_inbox_state_def on_world_def)

lemma sample_sent_server:
  "iw_server (as_server (on_world (iw_server_update (\<lambda>_. [m])) (sample_inbox_state\<lparr>as_draws := d\<rparr>))) = [m]"
  by (simp add: on_world_def)

theorem inbox_entry_received_witness:
  "\<exists>k keyId m st' inboxKeys r. sendEntry (sample_inbox_env k keyId) 1 sample_inbox_state = (Inr (), st') \<and> iw_server (as_server st') = [m] \<and>
     decryptInboxEntry (sample_connection 5) (sample_entry_message (ibs_message m)) inboxKeys = r \<and> ied_statusCode r = 0 \<and>
     ier_text (ied_privateData r) = [8, 9] \<and>
     iep_userPubKey (ied_publicData r) = PublicKey_toBase58DER sample_crypto sample_ecc 5"
proof -
  have env: "en_crypto sample_core_env = sample_crypto" "en_ecc sample_core_env = sample_ecc" by (simp_all add: sample_core_env_def)
  obtain es key priv where key: "entry_key (sample_connection 5) (sample_module_keys es) (es_keyId es) = Inr key" "k2_statusCode key = 0"
      "ecc_fromPrivateKey (en_ecc sample_core_env) (ek_key key) = Inr priv" "length (es_keyId es) = 32"
    by (rule sample_entry_key)
  let ?x = "sample_inbox_env priv (es_keyId es)"
  have hyps: "core_env_ok (ie_core ?x)" "es_keyId es \<noteq> []"
      "serves_public ?x (ih_inboxId sample_inbox_handle) (with_entry_key (ie_core ?x) priv (es_keyId es) (public_of (ie_core ?x) sample_public 5))
        (iw_server (as_server sample_inbox_state))"
      "iw_inboxHandles (as_server sample_inbox_state) 1 = Some sample_inbox_handle" "ih_inboxFileHandles sample_inbox_handle = []"
      "sender_key ?x sample_inbox_handle = Inr 5" "entry_fits (ie_core ?x) (entry_of (ie_core ?x) sample_inbox_handle 5 (es_keyId es))"
    using key(4) sample_serves sample_core_env_ok by (auto simp: sample_entry_fits)
  obtain m d where m: "sendEntry ?x 1 sample_inbox_state = on_bridge (ib_inboxSend (ie_bridge ?x) m) (sample_inbox_state\<lparr>as_draws := d\<rparr>)"
      and read: "\<forall>c message inboxKeys key. cn_env c = ie_core ?x \<and> entry_delivered c message inboxKeys (ibs_message m) (es_keyId es) key \<and>
       k2_statusCode key = 0 \<and> ecc_fromPrivateKey (en_ecc (ie_core ?x)) (ek_key key) = Inr priv \<longrightarrow>
       (\<exists>r. decryptInboxEntry c message inboxKeys = r \<and> ied_statusCode r = 0 \<and> ier_text (ied_privateData r) = ih_data sample_inbox_handle \<and>
          iep_userPubKey (ied_publicData r) = PublicKey_toBase58DER (en_crypto (ie_core ?x)) (en_ecc (ie_core ?x)) 5)"
    using inbox_entry_received [OF hyps] by blast
  have "entry_delivered (sample_connection 5) (sample_entry_message (ibs_message m)) (sample_module_keys es) (ibs_message m) (es_keyId es) key"
    by (simp add: entry_delivered_def sample_orig_message key(1))
  from read [rule_format, of "sample_connection 5" "sample_entry_message (ibs_message m)" "sample_module_keys es" key] this key(2,3)
  have "\<exists>r. decryptInboxEntry (sample_connection 5) (sample_entry_message (ibs_message m)) (sample_module_keys es) = r \<and>
      ied_statusCode r = 0 \<and> ier_text (ied_privateData r) = [8, 9] \<and>
      iep_userPubKey (ied_publicData r) = PublicKey_toBase58DER sample_crypto sample_ecc 5"
    by (simp add: env)
  then show ?thesis
    by (intro exI [of _ priv] exI [of _ "es_keyId es"] exI [of _ m] exI [of _ "sample_module_keys es"]
        exI [of _ "on_world (iw_server_update (\<lambda>_. [m])) (sample_inbox_state\<lparr>as_draws := d\<rparr>)"])
      (simp add: m sample_sent sample_sent_server)
qed

theorem inbox_entry_key_replaced_witness:
  "\<exists>v m st' e. getInboxPublicViewData (sample_inbox_env 7 (replicate 32 CHR ''a'')) ''b'' sample_inbox_state = (Inr v, sample_inbox_state) \<and>
     ivd_statusCode v = 0 \<and> ivd_publicMeta v = [1, 2] \<and> ivd_authorPubKey v = PublicKey_toBase58DER sample_crypto sample_ecc 5 \<and>
     sendEntry (sample_inbox_env 7 (replicate 32 CHR ''a'')) 1 sample_inbox_state = (Inr (), st') \<and> iw_server (as_server st') = [m] \<and>
     unpack_entry sample_core_env (ibs_message m) 7 = Inr e \<and> ier_text (snd e) = [8, 9]"
proof -
  let ?x = "sample_inbox_env 7 (replicate 32 CHR ''a'')"
  have hyps: "core_env_ok (ie_core ?x)" "replicate 32 CHR ''a'' \<noteq> []"
      "serves_public ?x (ih_inboxId sample_inbox_handle) (with_entry_key (ie_core ?x) 7 (replicate 32 CHR ''a'') (public_of (ie_core ?x) sample_public 5))
        (iw_server (as_server sample_inbox_state))"
      "iw_inboxHandles (as_server sample_inbox_state) 1 = Some sample_inbox_handle" "ih_inboxFileHandles sample_inbox_handle = []"
      "sender_key ?x sample_inbox_handle = Inr 5"
      "entry_fits (ie_core ?x) (entry_of (ie_core ?x) sample_inbox_handle 5 (replicate 32 CHR ''a''))"
    using sample_serves sample_core_env_ok by (simp_all add: sample_entry_fits)
  have env: "en_crypto sample_core_env = sample_crypto" "en_ecc sample_core_env = sample_ecc" by (simp_all add: sample_core_env_def)
  obtain v m d e where "getInboxPublicViewData ?x ''b'' sample_inbox_state = (Inr v, sample_inbox_state)" "ivd_statusCode v = 0"
      "ivd_publicMeta v = [1, 2]" "ivd_authorPubKey v = PublicKey_toBase58DER sample_crypto sample_ecc 5"
      "sendEntry ?x 1 sample_inbox_state = on_bridge (ib_inboxSend (sample_inbox_bridge 7 (replicate 32 CHR ''a'')) m) (sample_inbox_state\<lparr>as_draws := d\<rparr>)"
      "unpack_entry sample_core_env (ibs_message m) 7 = Inr e" "ier_text (snd e) = [8, 9]"
    using inbox_entry_key_replaced [OF hyps] by (auto simp: env sample_public_def)
  then show ?thesis
    by (intro exI [of _ v] exI [of _ m] exI [of _ e] exI [of _ "on_world (iw_server_update (\<lambda>_. [m])) (sample_inbox_state\<lparr>as_draws := d\<rparr>)"])
      (simp add: sample_sent sample_sent_server)
qed

text \<open>An entry under a name that is not even a key.\<close>

definition forged_entry :: "string \<Rightarrow> InboxEntrySendModel" where
  "forged_entry keyId =
     \<lparr>iem_publicData = \<lparr>iep_userPubKey = ''someone'', iep_keyPreset = True, iep_usedInboxKeyId = keyId\<rparr>,
      iem_privateData = \<lparr>ier_filesMetaKey = [], ier_text = [3]\<rparr>\<rparr>"

theorem inbox_entry_author_forged_witness:
  "\<exists>keyId k inboxKeys r. decryptAndConvertInboxEntryDataToInboxEntry (sample_inbox_env 5 keyId)
       (sample_entry_message (InboxEntriesDataEncryptorSerializer_packMessage sample_core_env (forged_entry keyId) 7 k)) inboxKeys sample_inbox_state
     = (Inr r, sample_inbox_state) \<and> lie_authorPubKey r = ''someone'' \<and> lie_data r = [3] \<and> lie_statusCode r = 0"
proof -
  obtain es key priv where key: "entry_key (sample_connection 5) (sample_module_keys es) (es_keyId es) = Inr key" "k2_statusCode key = 0"
      "ecc_fromPrivateKey (en_ecc sample_core_env) (ek_key key) = Inr priv" "length (es_keyId es) = 32"
    by (rule sample_entry_key)
  let ?x = "sample_inbox_env 5 (es_keyId es)" and ?data = "forged_entry (es_keyId es)"
  let ?message = "sample_entry_message (InboxEntriesDataEncryptorSerializer_packMessage sample_core_env ?data 7 priv)"
  have fits: "entry_fits (ie_core ?x) ?data"
    using key(4) by (simp add: entry_fits_def forged_entry_def sample_core_env_def sample_poco_def text_of_def)
  have delivered: "entry_delivered (ie_conn ?x) ?message (sample_module_keys es)
      (InboxEntriesDataEncryptorSerializer_packMessage (ie_core ?x) ?data 7 priv) (iep_usedInboxKeyId (iem_publicData ?data)) key"
    by (simp add: entry_delivered_def sample_orig_message key(1)) (simp add: forged_entry_def key(1))
  have files: "ib_storeFileGetMany (ie_bridge ?x) model (iw_server (as_server sample_inbox_state)) = Inr []" for model by simp
  have "\<exists>r. decryptAndConvertInboxEntryDataToInboxEntry ?x ?message (sample_module_keys es) sample_inbox_state = (Inr r, sample_inbox_state) \<and>
    lie_authorPubKey r = iep_userPubKey (iem_publicData ?data) \<and> lie_data r = ier_text (iem_privateData ?data) \<and> lie_statusCode r = 0"
    by (rule inbox_entry_author_forged [OF _ fits delivered key(2) _ refl sample_message_key_id files])
      (use key(3) sample_core_env_ok in simp_all)
  then show ?thesis
    by (intro exI [of _ "es_keyId es"] exI [of _ priv] exI [of _ "sample_module_keys es"]) (simp add: forged_entry_def)
qed

text \<open>A packed text whose private part is not a cipher text.\<close>

definition broken_entry :: "string \<Rightarrow> string" where
  "broken_entry keyId = text_of (writeOneOctetLengthBuffer (entry_public_bytes (iem_publicData (forged_entry keyId))) @ [0])"

theorem inbox_unreadable_entry_shown_witness:
  "\<exists>keyId inboxKeys priv r.
     ied_statusCode (InboxEntriesDataEncryptorSerializer_unpackMessage (ie_core (sample_inbox_env 5 keyId)) (broken_entry keyId) priv) \<noteq> 0 \<and>
     decryptAndConvertInboxEntryDataToInboxEntry (sample_inbox_env 5 keyId)
       (sample_entry_message (broken_entry keyId)) inboxKeys sample_inbox_state
     = (Inr r, sample_inbox_state) \<and> lie_authorPubKey r = [] \<and> lie_data r = [] \<and> lie_files r = [] \<and> lie_statusCode r = 0"
proof -
  obtain es key priv where key: "entry_key (sample_connection 5) (sample_module_keys es) (es_keyId es) = Inr key" "k2_statusCode key = 0"
      "ecc_fromPrivateKey (en_ecc sample_core_env) (ek_key key) = Inr priv" "length (es_keyId es) = 32"
    by (rule sample_entry_key)
  let ?x = "sample_inbox_env 5 (es_keyId es)" and ?message = "sample_entry_message (broken_entry (es_keyId es))"
  let ?im = "\<lparr>ims_message = broken_entry (es_keyId es), ims_store = ''s'', ims_files = [], ims_version = 1\<rparr>"
  have short: "length (entry_public_bytes (iem_publicData (forged_entry (es_keyId es)))) < 256"
    using key(4) by (simp add: length_entry_public_bytes forged_entry_def)
  have p: "base64_to (en_poco sample_core_env) s = Inr (bytes_of s)" for s by (simp add: sample_core_env_def sample_poco_def)
  have "used_key_id sample_core_env ?im = es_keyId es"
    using short key(4) read_entry_head_bytes [of "iem_publicData (forged_entry (es_keyId es))"]
    by (simp add: used_key_id_def InboxEntriesDataEncryptorSerializer_unpackMessagePublicOnly_def p broken_entry_def forged_entry_def)
  with key(1) have k: "entry_key (ie_conn ?x) (sample_module_keys es) (used_key_id (ie_core ?x) ?im) = Inr key" by simp
  have "\<exists>e. unpack_entry (ie_core ?x) (ims_message ?im) priv = Inl e"
    using short by (simp add: unpack_entry_def p broken_entry_def EciesEncryptor_decrypt_def)
  then obtain e where e: "unpack_entry (ie_core ?x) (ims_message ?im) priv = Inl e" by blast
  have orig: "orig_message (ie_conn ?x) ?message = Inr ?im" by (simp add: sample_orig_message)
  have files: "ib_storeFileGetMany (ie_bridge ?x) \<lparr>fgm_storeId = ims_store ?im, fgm_fileIds = ims_files ?im, fgm_failOnError = False\<rparr>
      (iw_server (as_server sample_inbox_state)) = Inr []" by simp
  have priv: "ecc_fromPrivateKey (en_ecc (ie_core ?x)) (ek_key key) = Inr priv" using key(3) by simp
  show ?thesis
    using inbox_unreadable_entry_shown [OF orig k key(2) priv e sample_message_key_id files]
    by (intro exI [of _ "es_keyId es"] exI [of _ "sample_module_keys es"] exI [of _ priv]) simp
qed

end
