(* ===== verification/Spec2Isabelle.thy ===== *)
theory Spec2Isabelle
  imports Kvdb_Sample Thread_Sample Event_Properties Store_Transfer Modules_Api Inbox_Sample
begin

text \<open>
  A verification development for PrivMX Endpoint (\<open>simplito/privmx-endpoint\<close>), the client library of
  an end-to-end encrypted platform. Applications keep threads of messages, stores of files, inboxes
  and key-value data on a server, the Bridge, that sees only encrypted data: the client encrypts,
  signs and verifies everything itself. Paths below are relative to \<open>src/\<close>.

  \<^bold>\<open>How the program is modelled.\<close> A class is a record, its method \<open>Class::method\<close> the definition
  \<open>Class_method\<close>. An operation that changes state has the type \<open>('e, 's, 'a) op\<close> of \<open>Prelude\<close>: from the
  state to a result and the new state, which is also there when the operation throws. A result is
  \<open>Inl\<close> of an exception of \<open>Errors\<close> (with the numeric codes the endpoint reports) or \<open>Inr\<close> of a value.
  Unsigned 64-bit and 32-bit arithmetic is on \<open>nat\<close> with the wrap-around written out (\<open>u64\<close>, \<open>u32\<close>,
  \<open>usub64\<close>), signed arithmetic on \<open>int\<close>; byte strings are lists of 8-bit words, texts are strings.
  Objects that are shared by reference (the digest list, the encryptor and the provider of an open
  file) are the fields of one record that every operation of the file receives.

  \<^bold>\<open>Parameters.\<close> Code outside the repository is an argument: the digests, the AES cipher and the
  random bytes of OpenSSL (\<open>crypto_api\<close> of \<open>Crypto_Api\<close>, with \<open>crypto_ok\<close>: fixed lengths and
  decryption inverts encryption), the curve library (\<open>ecc_api\<close> of \<open>Crypto_Keys\<close>, with \<open>ecc_ok\<close>),
  JSON parsing and printing of POCO (\<open>poco_api\<close> of \<open>Utils_Json\<close>), the Bridge (\<open>store_server\<close> of
  \<open>Store_Interfaces\<close>, \<open>request_api\<close> of \<open>Store_ChunkStreamer\<close>, \<open>kvdb_server\<close> of \<open>Kvdb_KvdbApi\<close>, \<open>thread_server\<close> of
  \<open>Thread_ThreadApi\<close>, \<open>store_bridge\<close> of \<open>Store_StoreApi\<close>, \<open>event_bridge\<close> of \<open>Event_EventApi\<close>, \<open>inbox_bridge\<close> of
  \<open>Inbox_InboxApi\<close>) and the
  application's user verifier. The clock, POCO's random identifiers and the lookup of the user's id are
  fields of \<open>connection\<close> in \<open>Core_ModuleBase\<close>.
  Theorems that need more than an arbitrary function name what they need as a hypothesis. Each such
  hypothesis is satisfied by a concrete instance (\<open>sample_crypto\<close>, \<open>sample_ecc\<close>, \<open>sample_poco\<close>,
  \<open>sample_core_env\<close>, \<open>sample_api\<close>, \<open>sample_requests\<close>), on which the witnesses run. Nothing about
  cryptographic strength is assumed or shown: authenticity theorems say which checks have passed.

  \<^bold>\<open>The components\<close>, in the order of the calls.

  \<^item> \<open>Prelude\<close>, \<open>Errors\<close>: results, operations, machine arithmetic, splitting of strings into chunks; the
    exception classes of \<open>endpoint/core\<close> and \<open>endpoint/store\<close> and \<open>ExceptionConverter.cpp\<close>.
  \<^item> \<open>Crypto_Base58\<close>, \<open>Crypto_Keys\<close>, \<open>Crypto_Service\<close>: \<open>crypto/base\<close> (Base58, WIF, DER, ECIES,
    \<open>CryptoPrivmx\<close>) and the composed operations of \<open>crypto/openssl/src/CryptoService.cpp\<close> (key
    derivation, tagged cipher formats). Round trips, the accepted texts, the lengths of derived keys.
  \<^item> \<open>Utils_Json\<close>, \<open>Utils_VersionNumber\<close>: the conversions of \<open>utils/JsonHelper.hpp\<close>, version numbers.
  \<^item> \<open>Core_DataEncryptor\<close>, \<open>Core_DIO\<close>, \<open>Core_EncKey\<close>: \<open>endpoint/core/src/encryptors\<close>: signed and encrypted
    fields, data integrity objects, container keys encrypted for one user.
  \<^item> \<open>Core_KeyProvider\<close>: \<open>KeyProvider.cpp\<close> and \<open>UserVerifier.cpp\<close>: which keys are requested, decrypted,
    verified and accepted, and how new ones are distributed.
  \<^item> \<open>Core_ModuleData\<close>: the encryptors of the meta data of threads, stores, inboxes and key-value
    databases, versions 4 and 5.
  \<^item> \<open>Core_ContainerKeyCache\<close>, \<open>Core_HandleManager\<close>, \<open>Core_EventMiddleware\<close>: the cache of container
    keys, the numbers of handles, listeners and the event queue.
  \<^item> \<open>Core_Utils\<close>: users and policies of containers (\<open>EndpointUtils.cpp\<close>, \<open>UsersKeysResolver.cpp\<close>, \<open>Factory.cpp\<close>),
    key id and time validators. Who receives keys, and policies survive the Bridge's format.
  \<^item> \<open>Core_OldEncryptor\<close>: \<open>encryptors/DataEncryptor.hpp\<close>, the encryption and signing of the oldest formats.
  \<^item> \<open>Core_ModuleBase\<close>, \<open>Core_EntryData\<close>, \<open>Core_Items\<close>, \<open>Core_Types\<close>, \<open>Core_ModuleKeys\<close>: what the modules share.
    \<open>ModuleBaseApi.cpp\<close> with the state of a module (\<open>api_state\<close>), the encryptor of entries and messages,
    the loops that decrypt and verify lists of items and of containers, pages and events, and the facts
    about keys and decrypted items. \<open>Core_Created\<close>: what a created container holds for each of its
    users. \<open>Core_Sample\<close>: a concrete connection on which the modules' theorems are evaluated.
  \<^item> \<open>Kvdb_Types\<close>, \<open>Kvdb_KvdbApi\<close>: \<open>endpoint/kvdb/src/KvdbApiImpl.cpp\<close>, every operation on key-value stores
    and entries. \<open>Kvdb_Properties\<close>, \<open>Kvdb_Stores\<close>: what is read is genuine, what is written can be read,
    who receives keys. \<open>Kvdb_Sample\<close>: the concrete evaluations.
  \<^item> \<open>Thread_Types\<close>, \<open>Thread_Encryptors\<close>, \<open>Thread_ThreadApi\<close>: \<open>endpoint/thread/src/ThreadApiImpl.cpp\<close> and the
    message encryptors of versions 2 to 5, every operation on threads and messages. \<open>Thread_Properties\<close>,
    \<open>Thread_Writing\<close>, \<open>Thread_Threads\<close>, \<open>Thread_Created\<close>: which messages and threads are
    shown, what was sent can be read in every format, which updates fail. \<open>Thread_Sample\<close>: the concrete
    evaluations.
  \<^item> \<open>Core_Subscriber\<close>: \<open>Subscriber.cpp\<close> with the parts that the modules' \<open>SubscriberImpl.cpp\<close> share: building,
    parsing and printing of subscription queries, the ids the Bridge gives to channels, and \<open>subscribeFor\<close> and
    \<open>unsubscribeFrom\<close> with the registered listener. \<open>Thread_Subscriber\<close>, \<open>Kvdb_Subscriber\<close>, \<open>Store_Subscriber\<close>
    and \<open>Core_ContextSubscriber\<close> (contexts and custom events): each module's tables and operations. A subscribed
    query is delivered to the listener, and which queries cannot be made or mean something else.
  \<^item> \<open>Event_EventApi\<close>: \<open>endpoint/event/src/EventApiImpl.cpp\<close> with its key provider and encryptors, every operation on
    custom and internal events. \<open>Event_Properties\<close>: what was emitted is received, what is shown was signed by
    the named author, and that the named context and user are not checked, with the evaluations.
  \<^item> \<open>Store_Interfaces\<close> to \<open>Store_FileWrite\<close>: random access to an encrypted file. \<open>ChunkEncryptor\<close>
    encrypts one chunk, \<open>HmacList\<close> holds the digests of all chunks under one keyed top digest,
    \<open>ChunkDataProvider\<close> fetches slices of the stored file, \<open>ChunkReader\<close> and \<open>FileReader\<close> decrypt and
    cut, \<open>FileHandler\<close> changes chunks in place.
  \<^item> \<open>Store_ChunkStreamer\<close>, \<open>Store_FileWriteHandle\<close>: sequential upload of a file of declared size.
  \<^item> \<open>Store_FileHandles\<close>: the three kinds of handles, their manager, and the operations of
    \<open>StoreApiImpl.cpp\<close> on a handle number, with those that make one (\<open>createFile\<close>, \<open>updateFile\<close>, \<open>openFile\<close>). Writing,
    seeking and reading through a number work on the content of the file; a closed number never names a file again,
    whatever is called and whatever the inbox module, which shares the manager, does.
  \<^item> \<open>Store_Types\<close>, \<open>Store_FileMeta\<close>, \<open>Store_StoreApi\<close>: the rest of \<open>StoreApiImpl.cpp\<close> and the encryptors of the meta
    data of files, versions 1, 4 and 5: every operation on stores and on the meta data of files, and the
    notifications. \<open>Store_Properties\<close>, \<open>Store_Writing\<close>: which files and stores are shown, that an uploaded
    file can be found and opened with what the upload used, and that opening does not check whose meta data
    it is given. \<open>Store_Sample\<close>: the concrete evaluations.

  \<^item> \<open>Store_OpenFiles\<close>: what the handles need of a file's meta data, made from the operations of \<open>Store_StoreApi\<close>.
    \<open>Store_Transfer\<close>: a file that is written in pieces, registered and opened again is read byte
    for byte, the composition of the upload, the meta data and the reader; and the evaluations of writing with the
    module's own encryption of meta data.
  \<^item> \<open>Inbox_Types\<close>, \<open>Inbox_Data\<close>, \<open>Inbox_Handles\<close>, \<open>Inbox_InboxApi\<close>, \<open>Inbox_Entries\<close>, \<open>Inbox_Subscriber\<close>:
    \<open>endpoint/inbox/src\<close>: the data of an inbox in versions 4 and 5, the packing of entries for the key of an inbox, the
    handles of entries with the files they hold, every operation of \<open>InboxApiImpl.cpp\<close> over the operations of stores
    and threads, and the translation of subscriptions. \<open>Inbox_Properties\<close>: entries and data arrive, and what a Bridge or a sender can replace without being noticed.
    \<open>Inbox_Sample\<close>: the evaluations.
  \<^item> \<open>Core_Validator\<close>, \<open>Modules_Api\<close>: the outermost layer of every module (\<open>ThreadApi.cpp\<close>, \<open>StoreApi.cpp\<close>,
    \<open>KvdbApi.cpp\<close>, \<open>EventApi.cpp\<close>, \<open>InboxApi.cpp\<close>): the tests of the arguments, the object behind the interface and the conversion of exceptions.
    For one operation it is shown that this layer is exact and refused calls have no effect.

  \<^bold>\<open>Interfaces.\<close> Locales state what one component promises to its clients. In the store:
  \<open>chunk_cipher\<close> (sealing and opening a chunk), \<open>hash_list\<close> (a list of digests under a top digest) and
  \<open>chunk_source\<close> (where encrypted chunks come from); they are interpreted on the models of
  \<open>ChunkEncryptor\<close>, \<open>HmacList\<close> and \<open>ChunkDataProvider\<close>. For the modules: \<open>listed_items\<close> and
  \<open>listed_containers\<close> (what a module does with one item or container of a list), and \<open>query_module\<close> (the
  tables of a module's subscriber).

  \<^bold>\<open>What is shown.\<close> An abstract file is a byte string. Opening and reading returns the bytes of the
  range; an accepted write refines overwriting (and a refused one changes nothing); an upload in any
  pieces stores an encryption of the file with the digests that opening checks; tampering with the
  digests is refused on opening, and every chunk that is returned afterwards, cached or not, carries the MAC of the verified list. A
  write that needs several operations of the Bridge cuts the file. What is written through a handle number is read through it, and
  numbers are never reused. Keys and meta data that are accepted are signed by
  their author for the right container, and what is encrypted for a user is recovered by that user. The
  caches never go back to older keys, events are delivered once. Key-value stores and entries that
  are shown without error are genuine and decrypted with the key that the key provider returned for them (\<open>provided_key\<close> of \<open>Core_ModuleKeys\<close>), and every user of a created store can read it; the same for stores
  and files and for threads and messages of the present format, while messages of older formats are shown to be readable and which
  of them carry authentication. Entries of inboxes are read by the holders of the inbox's key; neither that key
  nor the author shown is authentic. Several theorems state behaviour of
  the code that its authors may not intend; they are marked as findings of the manifest.

  \<^bold>\<open>Bounds and termination.\<close> Loops are structural recursions or folds over the lists the code iterates
  over. The loops of \<open>kdf\<close> and \<open>prf_tls12\<close> run with fuel equal to the requested length and
  \<open>key_derivation_correct\<close> shows that they deliver all bytes. \<open>createHandle\<close>, which calls itself until it
  meets a free number, is a \<open>partial_function\<close>; \<open>HandleManager_createHandle_fresh\<close> shows that it
  returns. Sizes are bounded where the code's 64-bit arithmetic would wrap (\<open>upload_fits\<close> and similar
  hypotheses).

  \<^bold>\<open>Not modelled.\<close> Networking (\<open>rpc\<close>, \<open>privfs\<close>), bindings and serializers for other languages, the other
  cryptographic back ends, streams (a third-party media stack), command line programs. Calls that take a lock are atomic steps; the order of such
  steps is arbitrary where a theorem quantifies over it.
\<close>

end
